(* ===== verification/Prelude.thy ===== *)
theory Prelude
  imports Main "HOL-Library.Word"
begin

text \<open>
  Shared vocabulary of the development: the machine types of the Rust code, the two
  effects its functions have (a panic, and an early return through the question-mark
  operator), checked arithmetic at the width of the source, the few slice operations of the
  standard library the crates use, and the collections of rewrite rules the component
  theories feed.

  The model is of a 64-bit target: \<open>usize\<close> and \<open>u64\<close> have the same range.
\<close>

section \<open>Machine types\<close>

type_synonym u8 = "8 word"
type_synonym u64 = "64 word"
type_synonym i32 = "32 word"
type_synonym bytes = "u8 list"

text \<open>
  A \<open>String\<close> or \<open>&str\<close> is its UTF-8 octets, as it is in memory; that the octets are valid
  UTF-8 is a hypothesis where it matters. A \<open>usize\<close> is a natural number below
  \<open>USIZE_MAX + 1\<close>; the length of a list is a \<open>usize\<close> exactly when it is in that range.
\<close>

type_synonym str = bytes
type_synonym usize = nat

definition USIZE_MAX :: nat where
  "USIZE_MAX = 2 ^ 64 - 1"

named_theorems result_simps "rewriting of the error monad and of checked arithmetic"
named_theorems model_defs "definitions of the model that are unfolded for evaluation"

section \<open>Panics and loops without a bound\<close>

text \<open>
  A function that can reach \<open>expect\<close>, \<open>unwrap\<close> or a checked conversion, or the one loop of the
  program that has no bound, returns a value of type \<open>exec\<close>; every other function of the source
  is modelled as a plain function.
\<close>

datatype 'a exec = Panicked | Diverged | Done 'a

fun exec_bind :: "'a exec \<Rightarrow> ('a \<Rightarrow> 'b exec) \<Rightarrow> 'b exec" where
  "exec_bind Panicked f = Panicked"
| "exec_bind Diverged f = Diverged"
| "exec_bind (Done x) f = f x"

fun exec_map :: "('a \<Rightarrow> 'b) \<Rightarrow> 'a exec \<Rightarrow> 'b exec" where
  "exec_map f Panicked = Panicked"
| "exec_map f Diverged = Diverged"
| "exec_map f (Done x) = Done (f x)"

text \<open>The value of a \<open>partial_function\<close>, which is \<open>None\<close> when it does not return.\<close>

fun exec_of_option :: "'a option \<Rightarrow> 'a exec" where
  "exec_of_option None = Diverged"
| "exec_of_option (Some x) = Done x"

fun expect_some :: "'a option \<Rightarrow> 'a exec" where
  "expect_some None = Panicked"
| "expect_some (Some x) = Done x"

fun expect_ok :: "'e + 'a \<Rightarrow> 'a exec" where
  "expect_ok (Inl e) = Panicked"
| "expect_ok (Inr x) = Done x"

lemma exec_bind_eq_Done:
  "exec_bind m f = Done y \<longleftrightarrow> (\<exists>x. m = Done x \<and> f x = Done y)"
  by (cases m) auto

lemma exec_map_eq_Done:
  "exec_map f m = Done y \<longleftrightarrow> (\<exists>x. m = Done x \<and> y = f x)"
  by (cases m) auto

lemma exec_map_eq_Panicked [simp]: "exec_map f m = Panicked \<longleftrightarrow> m = Panicked"
  by (cases m) auto

lemma exec_of_option_not_Panicked [simp]: "exec_of_option m \<noteq> Panicked"
  by (cases m) auto

lemma exec_map_map: "exec_map f (exec_map g m) = exec_map (\<lambda>x. f (g x)) m"
  by (cases m) auto

lemma exec_map_id: "exec_map (\<lambda>x. x) m = m"
  by (cases m) auto

section \<open>Results\<close>

text \<open>\<open>Result<A, E>\<close> is \<open>'e + 'a\<close>, with \<open>Inl\<close> for \<open>Err\<close>; \<open>try\<close> is the question mark.\<close>

fun result_try :: "'e + 'a \<Rightarrow> ('a \<Rightarrow> 'e + 'b) \<Rightarrow> 'e + 'b" where
  "result_try (Inl e) f = Inl e"
| "result_try (Inr x) f = f x"

fun result_map :: "('a \<Rightarrow> 'b) \<Rightarrow> 'e + 'a \<Rightarrow> 'e + 'b" where
  "result_map f (Inl e) = Inl e"
| "result_map f (Inr x) = Inr (f x)"

fun map_err :: "('e \<Rightarrow> 'f) \<Rightarrow> 'e + 'a \<Rightarrow> 'f + 'a" where
  "map_err f (Inl e) = Inl (f e)"
| "map_err f (Inr x) = Inr x"

fun ok_or :: "'a option \<Rightarrow> 'e \<Rightarrow> 'e + 'a" where
  "ok_or None e = Inl e"
| "ok_or (Some x) e = Inr x"

fun is_ok :: "'e + 'a \<Rightarrow> bool" where
  "is_ok (Inl e) = False"
| "is_ok (Inr x) = True"

lemma result_try_eq_Inr [result_simps]:
  "result_try m f = Inr y \<longleftrightarrow> (\<exists>x. m = Inr x \<and> f x = Inr y)"
  by (cases m) auto

lemma result_try_eq_Inl [result_simps]:
  "result_try m f = Inl e \<longleftrightarrow> m = Inl e \<or> (\<exists>x. m = Inr x \<and> f x = Inl e)"
  by (cases m) auto

lemma result_map_eq_Inr [result_simps]:
  "result_map f m = Inr y \<longleftrightarrow> (\<exists>x. m = Inr x \<and> y = f x)"
  by (cases m) auto

lemma Inr_eq_result_map [result_simps]:
  "Inr y = result_map f m \<longleftrightarrow> (\<exists>x. m = Inr x \<and> y = f x)"
  by (cases m) auto

lemma result_map_eq_Inl [result_simps]:
  "result_map f m = Inl e \<longleftrightarrow> m = Inl e"
  by (cases m) auto

lemma map_err_eq_Inr [result_simps]: "map_err f m = Inr y \<longleftrightarrow> m = Inr y"
  by (cases m) auto

lemma map_err_eq_Inl [result_simps]:
  "map_err f m = Inl y \<longleftrightarrow> (\<exists>e. m = Inl e \<and> y = f e)"
  by (cases m) auto

lemma ok_or_eq_Inr [result_simps]: "ok_or m e = Inr x \<longleftrightarrow> m = Some x"
  by (cases m) auto

lemma ok_or_eq_Inl [result_simps]: "ok_or m e = Inl e' \<longleftrightarrow> m = None \<and> e' = e"
  by (cases m) auto

lemma is_ok_iff: "is_ok m \<longleftrightarrow> (\<exists>x. m = Inr x)"
  by (cases m) auto

section \<open>Checked arithmetic\<close>

definition checked_add_usize :: "usize \<Rightarrow> usize \<Rightarrow> usize option" where
  "checked_add_usize a b = (if a + b \<le> USIZE_MAX then Some (a + b) else None)"

definition checked_add_u64 :: "u64 \<Rightarrow> u64 \<Rightarrow> u64 option" where
  "checked_add_u64 a b = (if unat a + unat b < 2 ^ 64 then Some (a + b) else None)"

definition u64_of_usize :: "usize \<Rightarrow> u64 option" where
  "u64_of_usize n = (if n < 2 ^ 64 then Some (of_nat n) else None)"

definition usize_of_u64 :: "u64 \<Rightarrow> usize option" where
  "usize_of_u64 v = (if unat v \<le> USIZE_MAX then Some (unat v) else None)"

lemma unat_u64_less: "unat (v :: u64) < 18446744073709551616"
  using unsigned_less [of v, where ?'a = nat] by simp

lemma unat_u8_less: "unat (b :: u8) < 256"
  using unsigned_less [of b, where ?'a = nat] by simp

lemma unat_of_nat_u64: "n < 2 ^ 64 \<Longrightarrow> unat (of_nat n :: u64) = n"
  by (simp add: unat_of_nat)

lemma unat_of_nat_u8: "n < 256 \<Longrightarrow> unat (of_nat n :: u8) = n"
  by (simp add: unat_of_nat)

definition octet :: "nat \<Rightarrow> u8" where
  "octet n = of_nat n"

lemma unat_octet [simp]: "n < 256 \<Longrightarrow> unat (octet n) = n"
  by (simp add: octet_def unat_of_nat_u8)

lemma octet_unat [simp]: "octet (unat b) = b"
  by (simp add: octet_def)

lemma usize_of_u64_Some [simp]: "usize_of_u64 v = Some (unat v)"
  using unat_u64_less [of v] by (simp add: usize_of_u64_def USIZE_MAX_def)

text \<open>Evaluation of the two checks, on binary integers.\<close>

lemma usize_of_u64_code [code]: "usize_of_u64 v = Some (unat v)"
  by simp

lemma checked_add_usize_code [code]:
  "checked_add_usize a b =
     (if int a + int b \<le> 18446744073709551615 then Some (a + b) else None)"
  by (simp add: checked_add_usize_def USIZE_MAX_def)

lemma u64_of_usize_code [code]:
  "u64_of_usize n = (if int n < 18446744073709551616 then Some (of_nat n) else None)"
  by (simp add: u64_of_usize_def)

lemma checked_add_u64_code [code]:
  "checked_add_u64 a b =
     (if uint a + uint b < 18446744073709551616 then Some (a + b) else None)"
proof -
  have u: "uint a = int (unat a)" "uint b = int (unat b)" by simp_all
  have "unat a + unat b < 2 ^ 64 \<longleftrightarrow> uint a + uint b < 18446744073709551616"
    unfolding u by (simp only: of_nat_add [symmetric] of_nat_less_numeral_iff) simp
  then show ?thesis by (simp only: checked_add_u64_def)
qed

lemma checked_add_usize_Some [result_simps]:
  "checked_add_usize a b = Some c \<longleftrightarrow> c = a + b \<and> a + b \<le> USIZE_MAX"
  by (auto simp: checked_add_usize_def)

lemma checked_add_usize_None [result_simps]:
  "checked_add_usize a b = None \<longleftrightarrow> USIZE_MAX < a + b"
  by (auto simp: checked_add_usize_def)

lemma checked_add_u64_Some:
  "checked_add_u64 a b = Some c \<longleftrightarrow> c = a + b \<and> unat a + unat b < 2 ^ 64"
  by (auto simp: checked_add_u64_def)

lemma checked_add_u64_None: "checked_add_u64 a b = None \<longleftrightarrow> 2 ^ 64 \<le> unat a + unat b"
  by (auto simp: checked_add_u64_def)

lemma checked_add_u64_unat:
  "checked_add_u64 a b = Some c \<Longrightarrow> unat c = unat a + unat b"
  by (auto simp: checked_add_u64_Some unat_word_ariths)

lemma checked_add_u64_of_nat:
  assumes "m < 2 ^ 64" and "n < 2 ^ 64"
  shows "checked_add_u64 (of_nat m) (of_nat n) =
    (if m + n < 2 ^ 64 then Some (of_nat (m + n)) else None)"
  using assms by (simp add: checked_add_u64_def unat_of_nat_u64)

lemma u64_of_usize_Some:
  "u64_of_usize n = Some v \<longleftrightarrow> n < 2 ^ 64 \<and> v = of_nat n"
  by (auto simp: u64_of_usize_def)

section \<open>Slices\<close>

definition starts_with :: "'a list \<Rightarrow> 'a list \<Rightarrow> bool" where
  "starts_with xs p = (take (length p) xs = p)"

definition ends_with :: "'a list \<Rightarrow> 'a list \<Rightarrow> bool" where
  "ends_with xs p = (length p \<le> length xs \<and> drop (length xs - length p) xs = p)"

definition windows :: "'a list \<Rightarrow> nat \<Rightarrow> 'a list list" where
  "windows xs n = map (\<lambda>i. take n (drop i xs)) [0 ..< Suc (length xs) - n]"

definition ascii :: "string \<Rightarrow> bytes" where
  "ascii s = map of_char s"

lemma starts_with_append [simp]: "starts_with (p @ xs) p"
  by (simp add: starts_with_def)

lemma starts_with_iff: "starts_with xs p \<longleftrightarrow> (\<exists>ys. xs = p @ ys)"
proof
  assume "starts_with xs p"
  then have "take (length p) xs = p" by (simp add: starts_with_def)
  then have "xs = p @ drop (length p) xs"
    by (metis append_take_drop_id)
  then show "\<exists>ys. xs = p @ ys" ..
next
  assume "\<exists>ys. xs = p @ ys"
  then show "starts_with xs p" by auto
qed

lemma ends_with_iff: "ends_with xs p \<longleftrightarrow> (\<exists>ys. xs = ys @ p)"
proof
  assume "ends_with xs p"
  then have "xs = take (length xs - length p) xs @ p"
    by (metis append_take_drop_id ends_with_def)
  then show "\<exists>ys. xs = ys @ p" ..
qed (auto simp: ends_with_def)

lemma ends_with_single: "ends_with xs [c] \<longleftrightarrow> xs \<noteq> [] \<and> last xs = c"
proof (cases xs rule: rev_cases)
  case Nil
  then show ?thesis by (simp add: ends_with_def)
next
  case (snoc ys y)
  then show ?thesis by (auto simp: ends_with_def)
qed

lemma in_set_windows:
  "w \<in> set (windows xs n) \<longleftrightarrow> (\<exists>i. i + n \<le> length xs \<and> w = take n (drop i xs))"
  by (auto simp: windows_def less_Suc_eq_le less_diff_conv image_iff)

lemma mem_windows_iff:
  "length w = n \<Longrightarrow> w \<in> set (windows xs n) \<longleftrightarrow> (\<exists>as bs. xs = as @ w @ bs)"
proof
  assume "w \<in> set (windows xs n)"
  then obtain i where "w = take n (drop i xs)" by (auto simp: in_set_windows)
  then have "xs = take i xs @ w @ drop n (drop i xs)"
    by (metis append_take_drop_id)
  then show "\<exists>as bs. xs = as @ w @ bs" by blast
next
  assume n: "length w = n" and "\<exists>as bs. xs = as @ w @ bs"
  then obtain as bs where xs: "xs = as @ w @ bs" by blast
  have "length as + n \<le> length xs \<and> w = take n (drop (length as) xs)"
    using n by (simp add: xs)
  then show "w \<in> set (windows xs n)" by (auto simp: in_set_windows)
qed

lemma length_ascii [simp]: "length (ascii s) = length s"
  by (simp add: ascii_def)

lemma ascii_Nil [simp]: "ascii [] = []"
  by (simp add: ascii_def)

lemma ascii_Cons [simp]: "ascii (c # s) = of_char c # ascii s"
  by (simp add: ascii_def)

lemma ascii_append: "ascii (s @ t) = ascii s @ ascii t"
  by (simp add: ascii_def)

end
