(* ===== verification/Utf8.thy ===== *)
theory Utf8
  imports Prelude
begin

text \<open>
  What the crates use of the standard library's \<open>str\<close>: validation (\<open>str::from_utf8\<close>),
  iteration over scalar values (\<open>chars\<close>) and re-encoding (\<open>String::push\<close>). The
  well-formed sequences are those of the Unicode standard, table 3-7, which the standard
  library implements: no overlong forms, no surrogates, nothing above U+10FFFF.
\<close>

section \<open>Decoding and encoding one scalar value\<close>

type_synonym rchar = nat

definition is_scalar :: "rchar \<Rightarrow> bool" where
  "is_scalar c \<longleftrightarrow> c < 0xD800 \<or> (0xE000 \<le> c \<and> c < 0x110000)"

definition is_cont :: "u8 \<Rightarrow> bool" where
  "is_cont b \<longleftrightarrow> 0x80 \<le> unat b \<and> unat b \<le> 0xBF"

definition cont_bits :: "u8 \<Rightarrow> nat" where
  "cont_bits b = unat b - 0x80"

definition second_of_three :: "u8 \<Rightarrow> u8 \<Rightarrow> bool" where
  "second_of_three b0 b1 \<longleftrightarrow> is_cont b1 \<and> (unat b0 = 0xE0 \<longrightarrow> 0xA0 \<le> unat b1)
     \<and> (unat b0 = 0xED \<longrightarrow> unat b1 \<le> 0x9F)"

definition second_of_four :: "u8 \<Rightarrow> u8 \<Rightarrow> bool" where
  "second_of_four b0 b1 \<longleftrightarrow> is_cont b1 \<and> (unat b0 = 0xF0 \<longrightarrow> 0x90 \<le> unat b1)
     \<and> (unat b0 = 0xF4 \<longrightarrow> unat b1 \<le> 0x8F)"

fun utf8_two :: "u8 \<Rightarrow> bytes \<Rightarrow> (rchar \<times> bytes) option" where
  "utf8_two b0 (b1 # r) =
     (if is_cont b1 then Some ((unat b0 - 0xC0) * 64 + cont_bits b1, r) else None)"
| "utf8_two b0 _ = None"

fun utf8_three :: "u8 \<Rightarrow> bytes \<Rightarrow> (rchar \<times> bytes) option" where
  "utf8_three b0 (b1 # b2 # r) =
     (if second_of_three b0 b1 \<and> is_cont b2
      then Some ((unat b0 - 0xE0) * 4096 + cont_bits b1 * 64 + cont_bits b2, r) else None)"
| "utf8_three b0 _ = None"

fun utf8_four :: "u8 \<Rightarrow> bytes \<Rightarrow> (rchar \<times> bytes) option" where
  "utf8_four b0 (b1 # b2 # b3 # r) =
     (if second_of_four b0 b1 \<and> is_cont b2 \<and> is_cont b3
      then Some ((unat b0 - 0xF0) * 262144 + cont_bits b1 * 4096 + cont_bits b2 * 64
                 + cont_bits b3, r)
      else None)"
| "utf8_four b0 _ = None"

fun utf8_next :: "bytes \<Rightarrow> (rchar \<times> bytes) option" where
  "utf8_next [] = None"
| "utf8_next (b0 # r) =
     (if unat b0 < 0x80 then Some (unat b0, r)
      else if 0xC2 \<le> unat b0 \<and> unat b0 \<le> 0xDF then utf8_two b0 r
      else if 0xE0 \<le> unat b0 \<and> unat b0 \<le> 0xEF then utf8_three b0 r
      else if 0xF0 \<le> unat b0 \<and> unat b0 \<le> 0xF4 then utf8_four b0 r
      else None)"

definition encode_utf8 :: "rchar \<Rightarrow> bytes" where
  "encode_utf8 c =
     (if c < 0x80 then [octet c]
      else if c < 0x800 then [octet (0xC0 + c div 64), octet (0x80 + c mod 64)]
      else if c < 0x10000 then
        [octet (0xE0 + c div 4096), octet (0x80 + c div 64 mod 64), octet (0x80 + c mod 64)]
      else
        [octet (0xF0 + c div 262144), octet (0x80 + c div 4096 mod 64),
         octet (0x80 + c div 64 mod 64), octet (0x80 + c mod 64)])"

lemma encode_utf8_ne [simp]: "encode_utf8 c \<noteq> []"
  by (simp add: encode_utf8_def)

text \<open>The base-64 digits of a code point, which the encoded octets carry.\<close>

lemma split64: "\<exists>q d. c = q * 64 + d \<and> d < (64 :: nat)"
  by (metis div_mult_mod_eq mod_less_divisor zero_less_numeral)

lemma digit64:
  fixes q d :: nat
  assumes "d < 64"
  shows "(q * 64 + d) div 64 = q" "(q * 64 + d) mod 64 = d"
  using assms by simp_all

lemma digits_three:
  fixes a b d :: nat
  assumes "b < 64" "d < 64"
  shows "(a * 4096 + b * 64 + d) div 4096 = a" "(a * 4096 + b * 64 + d) div 64 mod 64 = b"
    "(a * 4096 + b * 64 + d) mod 64 = d"
proof -
  have c: "a * 4096 + b * 64 + d = (a * 64 + b) * 64 + d" by simp
  have "x div 4096 = x div 64 div 64" for x :: nat
    by (simp add: div_mult2_eq [symmetric])
  then show "(a * 4096 + b * 64 + d) div 4096 = a"
    unfolding c by (simp only: digit64 assms)
  show "(a * 4096 + b * 64 + d) div 64 mod 64 = b" "(a * 4096 + b * 64 + d) mod 64 = d"
    unfolding c by (simp_all only: digit64 assms)
qed

lemma digits_four:
  fixes e a b d :: nat
  assumes "a < 64" "b < 64" "d < 64"
  shows "(e * 262144 + a * 4096 + b * 64 + d) div 262144 = e"
    "(e * 262144 + a * 4096 + b * 64 + d) div 4096 mod 64 = a"
    "(e * 262144 + a * 4096 + b * 64 + d) div 64 mod 64 = b"
    "(e * 262144 + a * 4096 + b * 64 + d) mod 64 = d"
proof -
  have c: "e * 262144 + a * 4096 + b * 64 + d = (e * 64 + a) * 4096 + b * 64 + d" by simp
  have "x div 262144 = x div 4096 div 64" for x :: nat
    by (simp add: div_mult2_eq [symmetric])
  then show "(e * 262144 + a * 4096 + b * 64 + d) div 262144 = e"
    unfolding c by (simp only: digits_three digit64 assms)
  show "(e * 262144 + a * 4096 + b * 64 + d) div 4096 mod 64 = a"
    "(e * 262144 + a * 4096 + b * 64 + d) div 64 mod 64 = b"
    "(e * 262144 + a * 4096 + b * 64 + d) mod 64 = d"
    unfolding c by (simp_all only: digits_three digit64 assms)
qed

lemma encode_two:
  assumes "d < 64" "2 \<le> q" "q < 32"
  shows "encode_utf8 (q * 64 + d) = [octet (0xC0 + q), octet (0x80 + d)]"
  using assms by (simp add: encode_utf8_def digit64)

lemma encode_three:
  assumes "b < 64" "d < 64" "0x800 \<le> a * 4096 + b * 64 + d" "a < 16"
  shows "encode_utf8 (a * 4096 + b * 64 + d) =
    [octet (0xE0 + a), octet (0x80 + b), octet (0x80 + d)]"
  using assms by (simp add: encode_utf8_def digits_three)

lemma encode_four:
  assumes "a < 64" "b < 64" "d < 64" "0x10000 \<le> e * 262144 + a * 4096 + b * 64 + d"
  shows "encode_utf8 (e * 262144 + a * 4096 + b * 64 + d) =
    [octet (0xF0 + e), octet (0x80 + a), octet (0x80 + b), octet (0x80 + d)]"
  using assms by (simp add: encode_utf8_def digits_four)

lemma utf8_next_encode:
  assumes "is_scalar c"
  shows "utf8_next (encode_utf8 c @ r) = Some (c, r)"
proof -
  obtain q d where q: "c = q * 64 + d" "d < 64" using split64 by blast
  obtain p b where p: "q = p * 64 + b" "b < 64" using split64 by blast
  obtain e a where e: "p = e * 64 + a" "a < 64" using split64 by blast
  have c3: "c = p * 4096 + b * 64 + d" using q p by simp
  have c4: "c = e * 262144 + a * 4096 + b * 64 + d" using c3 e by simp
  consider (one) "c < 0x80" | (two) "0x80 \<le> c" "c < 0x800"
    | (three) "0x800 \<le> c" "c < 0x10000" | (four) "0x10000 \<le> c"
    by linarith
  then show ?thesis
  proof cases
    case one
    then show ?thesis by (simp add: encode_utf8_def)
  next
    case two
    then have "q < 32" "2 \<le> q" using q by linarith+
    then show ?thesis using q
      by (simp add: encode_two is_cont_def cont_bits_def)
  next
    case three
    have "p < 16" "p = 0 \<longrightarrow> 32 \<le> b" using three c3 q(2) p(2) by linarith+
    moreover have "p = 13 \<longrightarrow> b \<le> 31"
    proof
      assume p13: "p = 13"
      then have "c < 0xE000" using c3 q(2) p(2) by linarith
      with assms have "c < 0xD800" by (simp add: is_scalar_def)
      then show "b \<le> 31" using p13 c3 by linarith
    qed
    ultimately show ?thesis using three c3 q(2) p(2)
      by (simp add: encode_three is_cont_def cont_bits_def second_of_three_def)
  next
    case four
    with assms have lt: "c < 0x110000" by (simp add: is_scalar_def)
    have "e < 5" "e = 0 \<longrightarrow> 16 \<le> a" "e = 4 \<longrightarrow> a \<le> 15"
      using lt four c4 q(2) p(2) e(2) by linarith+
    then show ?thesis using four c4 q(2) p(2) e(2)
      by (simp add: encode_four is_cont_def cont_bits_def second_of_four_def)
  qed
qed

lemma octet_eqI: "unat b = n \<Longrightarrow> octet n = b"
  by auto

lemma cont_octet: "is_cont b \<Longrightarrow> cont_bits b < 64 \<and> octet (0x80 + cont_bits b) = b"
  by (auto simp: is_cont_def cont_bits_def)

lemma utf8_two_Some:
  assumes "utf8_two b0 r0 = Some (c, r)" "0xC2 \<le> unat b0" "unat b0 \<le> 0xDF"
  shows "b0 # r0 = encode_utf8 c @ r \<and> is_scalar c"
proof -
  from assms(1) obtain b1 where r0: "r0 = b1 # r" and k: "is_cont b1"
    and c: "c = (unat b0 - 0xC0) * 64 + cont_bits b1"
    by (cases "(b0, r0)" rule: utf8_two.cases) (auto split: if_splits)
  from k have b: "cont_bits b1 < 64" "octet (0x80 + cont_bits b1) = b1"
    by (simp_all only: cont_octet)
  have "is_scalar c" using assms(2,3) b(1) c unfolding is_scalar_def by linarith
  then show ?thesis using assms(2,3) b
    by (simp add: encode_two r0 c)
qed

lemma utf8_three_Some:
  assumes "utf8_three b0 r0 = Some (c, r)" "0xE0 \<le> unat b0" "unat b0 \<le> 0xEF"
  shows "b0 # r0 = encode_utf8 c @ r \<and> is_scalar c"
proof -
  from assms(1) obtain b1 b2 where r0: "r0 = b1 # b2 # r"
    and k: "second_of_three b0 b1" "is_cont b2"
    and c: "c = (unat b0 - 0xE0) * 4096 + cont_bits b1 * 64 + cont_bits b2"
    by (cases "(b0, r0)" rule: utf8_three.cases) (auto split: if_splits)
  define a where "a = unat b0 - 0xE0"
  have a: "unat b0 = 0xE0 + a" "a < 16" using assms(2,3) by (simp_all add: a_def)
  have k1: "is_cont b1" using k(1) by (simp add: second_of_three_def)
  from k1 k(2) have b: "cont_bits b1 < 64" "octet (0x80 + cont_bits b1) = b1"
      "cont_bits b2 < 64" "octet (0x80 + cont_bits b2) = b2"
    by (simp_all only: cont_octet)
  have s: "a = 0 \<longrightarrow> 32 \<le> cont_bits b1" "a = 13 \<longrightarrow> cont_bits b1 < 32"
    using k(1) a(1) by (auto simp: second_of_three_def is_cont_def cont_bits_def)
  have cc: "c = a * 4096 + cont_bits b1 * 64 + cont_bits b2" by (simp add: c a_def)
  have ge: "0x800 \<le> c" using s(1) b(1,3) cc by linarith
  have "c < 0x110000" using b(1,3) cc a(2) by linarith
  moreover have "c < 0xD800" if "a \<le> 13"
    using that s(2) b(1,3) cc by (cases "a = 13") linarith+
  moreover have "0xE000 \<le> c" if "\<not> a \<le> 13" using that cc by linarith
  ultimately have sc: "is_scalar c" unfolding is_scalar_def by blast
  have "encode_utf8 c = [octet (0xE0 + a), b1, b2]"
    using encode_three [of "cont_bits b1" "cont_bits b2" a] b ge a(2) cc by simp
  then show ?thesis using a(1) sc by (simp add: r0 octet_eqI)
qed

lemma utf8_four_Some:
  assumes "utf8_four b0 r0 = Some (c, r)" "0xF0 \<le> unat b0" "unat b0 \<le> 0xF4"
  shows "b0 # r0 = encode_utf8 c @ r \<and> is_scalar c"
proof -
  from assms(1) obtain b1 b2 b3 where r0: "r0 = b1 # b2 # b3 # r"
    and k: "second_of_four b0 b1" "is_cont b2" "is_cont b3"
    and c: "c = (unat b0 - 0xF0) * 262144 + cont_bits b1 * 4096 + cont_bits b2 * 64 + cont_bits b3"
    by (cases "(b0, r0)" rule: utf8_four.cases) (auto split: if_splits)
  define e where "e = unat b0 - 0xF0"
  have e: "unat b0 = 0xF0 + e" "e < 5" using assms(2,3) by (simp_all add: e_def)
  have k1: "is_cont b1" using k(1) by (simp add: second_of_four_def)
  from k1 k(2,3) have b: "cont_bits b1 < 64" "octet (0x80 + cont_bits b1) = b1"
      "cont_bits b2 < 64" "octet (0x80 + cont_bits b2) = b2"
      "cont_bits b3 < 64" "octet (0x80 + cont_bits b3) = b3"
    by (simp_all only: cont_octet)
  have s: "e = 0 \<longrightarrow> 16 \<le> cont_bits b1" "e = 4 \<longrightarrow> cont_bits b1 < 16"
    using k(1) e(1) by (auto simp: second_of_four_def is_cont_def cont_bits_def)
  have cc: "c = e * 262144 + cont_bits b1 * 4096 + cont_bits b2 * 64 + cont_bits b3"
    by (simp add: c e_def)
  have ge: "0x10000 \<le> c"
    using s(1) b(1,3,5) cc by (cases "e = 0") linarith+
  have "c < 0x110000"
    using s(2) b(1,3,5) cc e(2) by (cases "e = 4") linarith+
  with ge have sc: "is_scalar c" by (simp add: is_scalar_def)
  have "encode_utf8 c = [octet (0xF0 + e), b1, b2, b3]"
    using encode_four [of "cont_bits b1" "cont_bits b2" "cont_bits b3" e] b ge cc by simp
  then show ?thesis using e(1) sc by (simp add: r0 octet_eqI)
qed

lemma utf8_next_Some:
  assumes "utf8_next bs = Some (c, r)"
  shows "bs = encode_utf8 c @ r \<and> is_scalar c"
proof (cases bs)
  case Nil
  with assms show ?thesis by simp
next
  case (Cons b0 r0)
  consider (one) "unat b0 < 0x80" "c = unat b0" "r = r0"
    | (two) "0xC2 \<le> unat b0" "unat b0 \<le> 0xDF" "utf8_two b0 r0 = Some (c, r)"
    | (three) "0xE0 \<le> unat b0" "unat b0 \<le> 0xEF" "utf8_three b0 r0 = Some (c, r)"
    | (four) "0xF0 \<le> unat b0" "unat b0 \<le> 0xF4" "utf8_four b0 r0 = Some (c, r)"
    using assms Cons by (simp split: if_splits)
  then show ?thesis
  proof cases
    case one
    then show ?thesis by (simp add: Cons encode_utf8_def is_scalar_def)
  next
    case two
    then show ?thesis unfolding Cons by (intro utf8_two_Some)
  next
    case three
    then show ?thesis unfolding Cons by (intro utf8_three_Some)
  next
    case four
    then show ?thesis unfolding Cons by (intro utf8_four_Some)
  qed
qed

section \<open>Strings\<close>

function utf8_chars :: "bytes \<Rightarrow> rchar list option" where
  "utf8_chars bs =
     (if bs = [] then Some []
      else case utf8_next bs of None \<Rightarrow> None
           | Some (c, r) \<Rightarrow> map_option (Cons c) (utf8_chars r))"
  by pat_completeness auto
termination
proof (relation "measure length")
  fix bs :: bytes and p c r
  assume "utf8_next bs = Some p" "(c, r) = p"
  then have "bs = encode_utf8 c @ r" using utf8_next_Some by blast
  then show "(r, bs) \<in> measure length"
    by (metis append_is_Nil_conv encode_utf8_ne in_measure length_append length_greater_0_conv
        less_add_same_cancel2)
qed simp

declare utf8_chars.simps [simp del]

definition utf8_valid :: "bytes \<Rightarrow> bool" where
  "utf8_valid bs = (utf8_chars bs \<noteq> None)"

definition from_utf8 :: "bytes \<Rightarrow> str option" where
  "from_utf8 bs = (if utf8_valid bs then Some bs else None)"

definition chars :: "str \<Rightarrow> rchar list" where
  "chars s = (case utf8_chars s of None \<Rightarrow> [] | Some cs \<Rightarrow> cs)"

definition push_chars :: "rchar list \<Rightarrow> str" where
  "push_chars cs = concat (map encode_utf8 cs)"

lemma push_chars_simps [simp]:
  "push_chars [] = []" "push_chars (c # cs) = encode_utf8 c @ push_chars cs"
  "push_chars (cs @ ds) = push_chars cs @ push_chars ds"
  by (simp_all add: push_chars_def)

lemma utf8_chars_push: "list_all is_scalar cs \<Longrightarrow> utf8_chars (push_chars cs) = Some cs"
proof (induction cs)
  case Nil
  show ?case by (simp add: utf8_chars.simps)
next
  case (Cons c cs)
  then show ?case
    by (subst utf8_chars.simps) (simp add: utf8_next_encode)
qed

lemma utf8_chars_Some: "utf8_chars bs = Some cs \<Longrightarrow> bs = push_chars cs \<and> list_all is_scalar cs"
proof (induction bs arbitrary: cs rule: utf8_chars.induct)
  case (1 bs)
  show ?case
  proof (cases "bs = []")
    case True
    with "1.prems" show ?thesis by (simp add: utf8_chars.simps)
  next
    case False
    with "1.prems" obtain c r cs' where n: "utf8_next bs = Some (c, r)"
      and r: "utf8_chars r = Some cs'" and cs: "cs = c # cs'"
      by (subst (asm) utf8_chars.simps) (auto split: option.splits)
    from "1.IH" [OF False n _ r] have "r = push_chars cs' \<and> list_all is_scalar cs'" by simp
    with utf8_next_Some [OF n] show ?thesis by (simp add: cs)
  qed
qed

lemma utf8_valid_iff: "utf8_valid bs \<longleftrightarrow> (\<exists>cs. list_all is_scalar cs \<and> bs = push_chars cs)"
  using utf8_chars_push utf8_chars_Some by (fastforce simp: utf8_valid_def)

lemma utf8_valid_Nil [simp]: "utf8_valid []"
  by (simp add: utf8_valid_def utf8_chars.simps)

lemma utf8_valid_append: "utf8_valid a \<Longrightarrow> utf8_valid b \<Longrightarrow> utf8_valid (a @ b)"
  by (metis utf8_valid_iff list_all_append push_chars_simps(3))

lemma chars_push: "list_all is_scalar cs \<Longrightarrow> chars (push_chars cs) = cs"
  by (simp add: chars_def utf8_chars_push)

lemma push_chars_chars: "utf8_valid s \<Longrightarrow> push_chars (chars s) = s"
  using utf8_chars_Some by (auto simp: utf8_valid_def chars_def)

lemma chars_scalar: "list_all is_scalar (chars s)"
  using utf8_chars_Some by (auto simp: chars_def split: option.split)

section \<open>ASCII octets are character boundaries\<close>

lemma encode_utf8_ascii: "c < 0x80 \<Longrightarrow> encode_utf8 c = [octet c]"
  by (simp add: encode_utf8_def)

lemma encode_utf8_multi:
  assumes "is_scalar c" "0x80 \<le> c" "b \<in> set (encode_utf8 c)"
  shows "0x80 \<le> unat b"
proof -
  have 1: "c div 64 < 32" if "c < 0x800" using that by auto
  have 2: "c div 4096 < 16" if "c < 0x10000" using that by auto
  have 3: "c div 262144 < 5" using assms(1) by (auto simp: is_scalar_def)
  have lt: "x mod 64 < 64" for x :: nat by simp
  have m: "0x80 \<le> unat (octet (0x80 + x mod 64))" for x
    using lt [of x] by simp
  show ?thesis using assms(2,3) 1 2 3 m
    by (auto simp: encode_utf8_def split: if_splits)
qed

lemma utf8_valid_split:
  assumes "utf8_valid (a @ x # b)" "unat x < 0x80"
  shows "utf8_valid a \<and> utf8_valid (x # b)"
proof -
  have main: "push_chars cs = a @ x # b \<Longrightarrow> list_all is_scalar cs \<Longrightarrow>
      \<exists>ds es. cs = ds @ es \<and> a = push_chars ds \<and> x # b = push_chars es" for cs
  proof (induction cs arbitrary: a)
    case Nil
    then show ?case by simp
  next
    case (Cons c cs)
    show ?case
    proof (cases "length (encode_utf8 c) \<le> length a")
      case True
      with Cons.prems obtain a' where a: "a = encode_utf8 c @ a'" "push_chars cs = a' @ x # b"
        by (auto simp: append_eq_append_conv2 Cons_eq_append_conv)
      from Cons.IH [OF a(2)] Cons.prems(2) obtain ds es
        where "cs = ds @ es" "a' = push_chars ds" "x # b = push_chars es" by auto
      then show ?thesis using a(1)
        by (intro exI [of _ "c # ds"] exI [of _ es]) simp
    next
      case False
      with Cons.prems(1) obtain us where us: "encode_utf8 c = a @ us" "us @ push_chars cs = x # b"
        by (auto simp: append_eq_append_conv2)
      then have "us \<noteq> []" using False by auto
      then obtain t where t: "encode_utf8 c = a @ x # t"
        using us by (cases us) auto
      then have "c < 0x80"
        using encode_utf8_multi [of c x] Cons.prems(2) assms(2) by (cases "c < 0x80") auto
      then have "a = []" using t by (simp add: encode_utf8_ascii Cons_eq_append_conv)
      then show ?thesis using Cons.prems by (intro exI [of _ "[]"] exI [of _ "c # cs"]) simp
    qed
  qed
  from assms(1) obtain cs where "list_all is_scalar cs" "push_chars cs = a @ x # b"
    by (auto simp: utf8_valid_iff)
  with main [of cs] show ?thesis by (auto simp: utf8_valid_iff)
qed

lemma utf8_valid_ascii_Cons: "unat x < 0x80 \<Longrightarrow> utf8_valid (x # b) \<longleftrightarrow> utf8_valid b"
  by (subst (1) utf8_valid_def, subst utf8_chars.simps) (simp add: utf8_valid_def)

lemma utf8_valid_ascii: "\<forall>x \<in> set a. unat x < 0x80 \<Longrightarrow> utf8_valid a"
  by (induction a) (simp_all add: utf8_valid_ascii_Cons)

end
