(* ===== verification/Traits.thy ===== *)
theory Traits
  imports Utf8
begin

text \<open>
  The enumerations and the mapping functions of \<open>yaml-sigil-traits\<close> that the crates of this
  workspace match on and call. The enumerations are the constructors the code under src/
  matches exhaustively. The functions of the crate are not under src/: they are fields of the
  record \<open>traits_ext\<close>, which the definitions take as an argument, and \<open>traits_ok\<close> states the
  behaviour that the tests of \<open>yaml-sigil-core/src/algorithm.rs\<close> document.
\<close>

section \<open>Enumerations\<close>

datatype algorithm_id = Ed25519 | EcdsaP256Sha256

datatype outer_conformance = Strict | SignatureStrict

datatype transcription_form = TF_Yaml | TF_Protobuf

datatype output_form = OF_Yaml | OF_Protobuf

datatype artifact_form = AF_Yaml | AF_Proto

text \<open>The advertisements a capability record carries; the constructors are those named under src/.\<close>

datatype wire_decode_advertisement = UnprofiledStockDecoder

datatype yaml_field_policy = RejectedAtParse

datatype conformance_profile = CP_Strict | CP_SignatureStrict | CP_Permissive

section \<open>The mapping functions of the trait crate\<close>

record traits_ext =
  from_i32 :: "i32 \<Rightarrow> algorithm_id option"
  from_yaml_str :: "str \<Rightarrow> algorithm_id option"
  as_yaml_str :: "algorithm_id \<Rightarrow> str"

definition ed25519_name :: str where
  "ed25519_name = ascii ''ED25519_PUREEDDSA_RAW_RS64_CANONICAL''"

definition p256_name :: str where
  "p256_name = ascii ''ECDSA_SECP256R1_SHA256_RAW_RS64''"

fun canonical_name :: "algorithm_id \<Rightarrow> str" where
  "canonical_name Ed25519 = ed25519_name"
| "canonical_name EcdsaP256Sha256 = p256_name"

definition traits_ok :: "'z traits_ext_scheme \<Rightarrow> bool" where
  "traits_ok x \<longleftrightarrow>
     (\<forall>a. as_yaml_str x a = canonical_name a) \<and>
     (\<forall>s a. from_yaml_str x s = Some a \<longleftrightarrow> s = canonical_name a) \<and>
     (\<forall>w. from_i32 x w = (if w = 1 then Some Ed25519
                          else if w = 2 then Some EcdsaP256Sha256 else None))"

lemma canonical_name_inj: "canonical_name a = canonical_name b \<Longrightarrow> a = b"
  by (cases a; cases b) (simp_all add: ed25519_name_def p256_name_def)

lemma traits_okD:
  assumes "traits_ok x"
  shows "as_yaml_str x a = canonical_name a"
    and "from_yaml_str x s = Some a \<longleftrightarrow> s = canonical_name a"
    and "from_i32 x w = (if w = 1 then Some Ed25519
           else if w = 2 then Some EcdsaP256Sha256 else None)"
  using assms by (simp_all add: traits_ok_def)

end
