(* ===== verification/Resource.thy ===== *)
theory Resource
  imports Traits
begin

text \<open>
  The opt-in complete-artifact resource policy, \<open>yaml-sigil-core/src/resource.rs\<close>: the
  policy record, its builders, the three admission checks and the error they return.
\<close>

section \<open>Policy and errors\<close>

definition DEFAULT_MAX_ARTIFACT_BYTES :: usize where
  "DEFAULT_MAX_ARTIFACT_BYTES = 4194304"

datatype artifact_resource_form = RF_Yaml | RF_Protobuf

fun resource_form_description :: "artifact_resource_form \<Rightarrow> str" where
  "resource_form_description RF_Yaml = ascii ''YAML''"
| "resource_form_description RF_Protobuf = ascii ''protobuf''"

datatype artifact_resource_error_kind =
    InputArtifactTooLarge
  | OutputArtifactTooLarge
  | SizeComputationOverflow

fun resource_kind_description :: "artifact_resource_error_kind \<Rightarrow> str" where
  "resource_kind_description InputArtifactTooLarge =
     ascii ''input artifact exceeds the configured byte ceiling''"
| "resource_kind_description OutputArtifactTooLarge =
     ascii ''output artifact exceeds the configured byte ceiling''"
| "resource_kind_description SizeComputationOverflow =
     ascii ''artifact size computation overflowed''"

record artifact_resource_error =
  are_kind :: artifact_resource_error_kind
  are_form :: "artifact_resource_form option"
  are_configured_max :: "usize option"
  are_observed :: "usize option"

definition artifact_resource_error_new ::
    "artifact_resource_error_kind \<Rightarrow> artifact_resource_form \<Rightarrow> usize option \<Rightarrow> usize option
      \<Rightarrow> artifact_resource_error" where
  "artifact_resource_error_new k f m obs =
     \<lparr>are_kind = k, are_form = Some f, are_configured_max = m, are_observed = obs\<rparr>"

text \<open>Decimal rendering, which \<open>write!\<close> uses for the two byte counts of the message.\<close>

function decimal :: "nat \<Rightarrow> str" where
  "decimal n = (if n < 10 then [octet (48 + n)] else decimal (n div 10) @ [octet (48 + n mod 10)])"
  by pat_completeness auto
termination by (relation "measure id") auto

declare decimal.simps [simp del]

definition resource_error_display :: "artifact_resource_error \<Rightarrow> str" where
  "resource_error_display e =
     (case are_form e of None \<Rightarrow> ascii ''artifact'' | Some f \<Rightarrow> resource_form_description f)
     @ ascii '' '' @ resource_kind_description (are_kind e) @ ascii '' resource check failed''
     @ (case are_configured_max e of
          None \<Rightarrow> []
        | Some m \<Rightarrow> ascii '' (configured maximum: '' @ decimal m @ ascii '' bytes''
            @ (case are_observed e of
                 None \<Rightarrow> []
               | Some k \<Rightarrow> ascii '', observed or projected: '' @ decimal k @ ascii '' bytes'')
            @ ascii '')'')"

text \<open>The ceiling is a \<open>NonZeroUsize\<close>: never \<open>Some 0\<close> (\<open>limits_wf\<close>).\<close>

record artifact_resource_limits =
  max_artifact_bytes :: "usize option"

definition non_zero :: "usize \<Rightarrow> usize option" where
  "non_zero n = (if n = 0 then None else Some n)"

definition limits_wf :: "artifact_resource_limits \<Rightarrow> bool" where
  "limits_wf l \<longleftrightarrow> max_artifact_bytes l \<noteq> Some 0"

definition unbounded :: artifact_resource_limits where
  "unbounded = \<lparr>max_artifact_bytes = None\<rparr>"

definition with_max_artifact_bytes ::
    "artifact_resource_limits \<Rightarrow> usize \<Rightarrow> artifact_resource_limits" where
  "with_max_artifact_bytes l m = l\<lparr>max_artifact_bytes := Some m\<rparr>"

definition without_max_artifact_byte_limit ::
    "artifact_resource_limits \<Rightarrow> artifact_resource_limits" where
  "without_max_artifact_byte_limit l = l\<lparr>max_artifact_bytes := None\<rparr>"

definition default_limits :: artifact_resource_limits where
  "default_limits = \<lparr>max_artifact_bytes = non_zero DEFAULT_MAX_ARTIFACT_BYTES\<rparr>"

type_synonym 'a resource_result = "artifact_resource_error + 'a"

section \<open>Admission checks\<close>

definition check_input_size ::
    "artifact_resource_limits \<Rightarrow> artifact_resource_form \<Rightarrow> bytes \<Rightarrow> bytes resource_result" where
  "check_input_size l form artifact =
     (case max_artifact_bytes l of
        Some m \<Rightarrow>
          if length artifact > m
          then Inl (artifact_resource_error_new InputArtifactTooLarge form (Some m)
                      (Some (length artifact)))
          else Inr artifact
      | None \<Rightarrow> Inr artifact)"

definition check_output_size ::
    "artifact_resource_limits \<Rightarrow> artifact_resource_form \<Rightarrow> usize \<Rightarrow> usize resource_result" where
  "check_output_size l form encoded_size =
     (case max_artifact_bytes l of
        Some m \<Rightarrow>
          if encoded_size > m
          then Inl (artifact_resource_error_new OutputArtifactTooLarge form (Some m)
                      (Some encoded_size))
          else Inr encoded_size
      | None \<Rightarrow> Inr encoded_size)"

definition check_output_size_lower_bound ::
    "artifact_resource_limits \<Rightarrow> artifact_resource_form \<Rightarrow> usize \<Rightarrow> usize resource_result" where
  "check_output_size_lower_bound l form minimum_encoded_size =
     (case max_artifact_bytes l of
        Some m \<Rightarrow>
          if minimum_encoded_size > m
          then Inl (artifact_resource_error_new OutputArtifactTooLarge form (Some m) None)
          else Inr minimum_encoded_size
      | None \<Rightarrow> Inr minimum_encoded_size)"

definition size_computation_overflow ::
    "artifact_resource_limits \<Rightarrow> artifact_resource_form \<Rightarrow> artifact_resource_error" where
  "size_computation_overflow l form =
     artifact_resource_error_new SizeComputationOverflow form (max_artifact_bytes l) None"

section \<open>The contract of an admission check\<close>

definition admits :: "artifact_resource_limits \<Rightarrow> nat \<Rightarrow> bool" where
  "admits l n \<longleftrightarrow> (case max_artifact_bytes l of None \<Rightarrow> True | Some m \<Rightarrow> n \<le> m)"

text \<open>
  What a caller relies on: a check measures its subject, lets it through unchanged exactly
  when the measure is within the ceiling, and otherwise returns an error of one kind that
  carries the ceiling.
\<close>

locale admission =
  fixes check :: "artifact_resource_limits \<Rightarrow> artifact_resource_form \<Rightarrow> 'a \<Rightarrow> 'a resource_result"
    and size_of :: "'a \<Rightarrow> nat"
    and kind :: artifact_resource_error_kind
  assumes admitted: "admits l (size_of a) \<Longrightarrow> check l f a = Inr a"
    and rejected: "\<not> admits l (size_of a) \<Longrightarrow>
      \<exists>e. check l f a = Inl e \<and> are_kind e = kind \<and> are_form e = Some f
          \<and> are_configured_max e = max_artifact_bytes l"
begin

lemma check_eq_Inr: "check l f a = Inr b \<longleftrightarrow> b = a \<and> admits l (size_of a)"
  using admitted rejected by (metis Inl_Inr_False sum.inject(2))

lemma check_eq_Inl:
  "check l f a = Inl e \<Longrightarrow> \<not> admits l (size_of a) \<and> are_kind e = kind \<and> are_form e = Some f
     \<and> are_configured_max e = max_artifact_bytes l"
  using admitted rejected by (metis Inl_Inr_False sum.inject(1))

lemma check_is_Inl_iff: "(\<exists>e. check l f a = Inl e) \<longleftrightarrow> \<not> admits l (size_of a)"
  using admitted rejected by (metis Inl_Inr_False)

lemma unbounded_admits: "check unbounded f a = Inr a"
  by (simp add: admitted admits_def unbounded_def)

lemma raise_ceiling:
  assumes "check (with_max_artifact_bytes l m) f a = Inr b" and "m \<le> m'"
  shows "check (with_max_artifact_bytes l m') f a = Inr b"
  using assms by (simp add: check_eq_Inr admits_def with_max_artifact_bytes_def)

lemma rejection_has_ceiling:
  "check l f a = Inl e \<Longrightarrow> \<exists>m. max_artifact_bytes l = Some m \<and> m < size_of a"
  using check_eq_Inl by (fastforce simp: admits_def split: option.splits)

end

lemmas check_defs = check_input_size_def check_output_size_def check_output_size_lower_bound_def
  artifact_resource_error_new_def admits_def

interpretation input_check: admission check_input_size length InputArtifactTooLarge
  by unfold_locales (auto simp: check_defs split: option.splits)

interpretation output_check: admission check_output_size id OutputArtifactTooLarge
  by unfold_locales (auto simp: check_defs split: option.splits)

interpretation lower_check: admission check_output_size_lower_bound id OutputArtifactTooLarge
  by unfold_locales (auto simp: check_defs split: option.splits)

lemma admits_mono: "admits l n \<Longrightarrow> m \<le> n \<Longrightarrow> admits l m"
  by (auto simp: admits_def split: option.splits)

lemma admits_unbounded [simp]: "admits unbounded n"
  by (simp add: admits_def unbounded_def)

text \<open>
  The three admission checks of a policy agree. A complete output is admitted exactly when
  its size is within the ceiling; a lower-bound check that rejects is conclusive, because then
  every output of at least that size is rejected too; and the exact checks report the size
  they observed while the lower-bound check reports none.
\<close>

theorem admission_checks_agree:
  "(\<forall>l f n. check_output_size l f n = Inr n \<longleftrightarrow> admits l n) \<and>
   (\<forall>l f bs. check_input_size l f bs = Inr bs \<longleftrightarrow> admits l (length bs)) \<and>
   (\<forall>l f m e. check_output_size_lower_bound l f m = Inl e \<longrightarrow>
      are_observed e = None \<and>
      (\<forall>n\<ge>m. \<exists>e'. check_output_size l f n = Inl e' \<and> are_kind e' = are_kind e
                  \<and> are_configured_max e' = are_configured_max e \<and> are_observed e' = Some n))"
proof (intro conjI allI impI)
  fix l f n show "check_output_size l f n = Inr n \<longleftrightarrow> admits l n"
    by (simp add: output_check.check_eq_Inr)
next
  fix l f bs show "check_input_size l f bs = Inr bs \<longleftrightarrow> admits l (length bs)"
    by (simp add: input_check.check_eq_Inr)
next
  fix l f m e assume "check_output_size_lower_bound l f m = Inl e"
  then show "are_observed e = None"
    by (auto simp: check_defs split: option.splits if_splits)
next
  fix l f m e and n :: nat
  assume "check_output_size_lower_bound l f m = Inl e" and "m \<le> n"
  then show "\<exists>e'. check_output_size l f n = Inl e' \<and> are_kind e' = are_kind e
      \<and> are_configured_max e' = are_configured_max e \<and> are_observed e' = Some n"
    by (auto simp: check_defs split: option.splits if_splits)
qed


theorem admission_checks_agree_witness:
  "\<exists>e e'. check_output_size_lower_bound default_limits RF_Yaml 4194305 = Inl e
     \<and> are_observed e = None
     \<and> check_output_size default_limits RF_Yaml 5000000 = Inl e' \<and> are_observed e' = Some 5000000"
proof -
  have "\<exists>e. check_output_size_lower_bound default_limits RF_Yaml 4194305 = Inl e"
    by (simp add: check_defs default_limits_def non_zero_def DEFAULT_MAX_ARTIFACT_BYTES_def)
  then obtain e where e: "check_output_size_lower_bound default_limits RF_Yaml 4194305 = Inl e" ..
  have "are_observed e = None \<and> (\<forall>n\<ge>4194305. \<exists>e'. check_output_size default_limits RF_Yaml n = Inl e'
      \<and> are_kind e' = are_kind e \<and> are_configured_max e' = are_configured_max e
      \<and> are_observed e' = Some n)"
    using admission_checks_agree e by blast
  moreover have "(4194305 :: nat) \<le> 5000000" by simp
  ultimately show ?thesis using e by blast
qed

end
