(* ===== verification/Decomposition.thy ===== *)
theory Decomposition
  imports Resource
begin

text \<open>
  Artifact decomposition of the signed YAML stream and the payload stream rules:
  \<open>yaml-sigil-core/src/decomposition.rs\<close> and \<open>payload.rs\<close>. The scanner is the loop of the
  source over byte indices; the declarative reading of a constrained marker is
  \<open>marker_at\<close>, a factorisation of the bytes around it.
\<close>

section \<open>Payload stream rules\<close>

datatype payload_invariant_error =
    PI_InvalidUtf8
  | PI_BomAtOffset0
  | PI_MissingTrailingLineTerminator

definition bom_at_zero :: "bytes \<Rightarrow> bool" where
  "bom_at_zero bs \<longleftrightarrow> length bs \<ge> 3 \<and> bs ! 0 = 0xEF \<and> bs ! 1 = 0xBB \<and> bs ! 2 = 0xBF"

definition validate_payload_stream :: "bytes \<Rightarrow> payload_invariant_error + unit" where
  "validate_payload_stream payload =
     (if from_utf8 payload = None then Inl PI_InvalidUtf8
      else if bom_at_zero payload then Inl PI_BomAtOffset0
      else if payload = [] then Inr ()
      else if last payload \<noteq> 0x0A then Inl PI_MissingTrailingLineTerminator
      else Inr ())"

lemma validate_payload_stream_ok:
  "validate_payload_stream p = Inr () \<longleftrightarrow>
     utf8_valid p \<and> \<not> bom_at_zero p \<and> (p = [] \<or> last p = 0x0A)"
  by (simp add: validate_payload_stream_def from_utf8_def)

section \<open>Constrained markers\<close>

definition is_line_start :: "bytes \<Rightarrow> nat \<Rightarrow> bool" where
  "is_line_start bs idx =
     (if idx = 0 then True
      else if idx > length bs then False
      else bs ! (idx - 1) = 0x0A)"

definition marker_len :: "bytes \<Rightarrow> nat \<Rightarrow> nat option" where
  "marker_len bs i =
     (if i + 3 > length bs then None
      else if bs ! i \<noteq> 0x2D \<or> bs ! (i + 1) \<noteq> 0x2D \<or> bs ! (i + 2) \<noteq> 0x2D then None
      else if \<not> is_line_start bs i then None
      else if i + 3 \<ge> length bs then None
      else if bs ! (i + 3) = 0x0A then Some 4
      else if bs ! (i + 3) = 0x0D \<and> i + 5 \<le> length bs \<and> bs ! (i + 4) = 0x0A then Some 5
      else None)"

lemma marker_len_bound: "marker_len bs i = Some n \<Longrightarrow> i + n \<le> length bs \<and> (n = 4 \<or> n = 5)"
  by (auto simp: marker_len_def split: if_splits)

text \<open>
  The scan of \<open>find_last_marker\<close>, entered with the last marker found so far. The source
  advances with a saturating addition; by \<open>marker_len_bound\<close> the sum never exceeds the length
  of the slice, so it never saturates.
\<close>

function find_last_marker_from :: "bytes \<Rightarrow> nat option \<Rightarrow> nat \<Rightarrow> nat option" where
  "find_last_marker_from bs last_marker i =
     (if i < length bs then
        (case marker_len bs i of
           Some n \<Rightarrow> find_last_marker_from bs (Some i) (i + n)
         | None \<Rightarrow> find_last_marker_from bs last_marker (i + 1))
      else last_marker)"
  by pat_completeness auto
termination
  by (relation "measure (\<lambda>(bs, l, i). length bs - i)") (auto dest: marker_len_bound)

declare find_last_marker_from.simps [simp del]

definition find_last_marker :: "bytes \<Rightarrow> nat option" where
  "find_last_marker bs = find_last_marker_from bs None 0"

section \<open>Decomposition\<close>

text \<open>Half-open index ranges, as in the source.\<close>

record signature_ranges =
  sr_payload :: "nat \<times> nat"
  sr_signature_document :: "nat \<times> nat"
  sr_signature_carrier :: "nat \<times> nat"

datatype decomposition_outcome = DO_Unsigned | DO_Malformed | DO_Signed signature_ranges

definition slice :: "bytes \<Rightarrow> nat \<times> nat \<Rightarrow> bytes" where
  "slice bs r = drop (fst r) (take (snd r) bs)"

definition utf8_ok :: "bytes \<Rightarrow> bool" where
  "utf8_ok bs = (from_utf8 bs \<noteq> None)"

definition decompose_artifact :: "bytes \<Rightarrow> decomposition_outcome" where
  "decompose_artifact artifact =
     (if \<not> utf8_ok artifact \<or> bom_at_zero artifact then DO_Malformed
      else if artifact = [] then DO_Unsigned
      else case find_last_marker artifact of
             None \<Rightarrow> DO_Unsigned
           | Some m \<Rightarrow>
               (case marker_len artifact m of
                  None \<Rightarrow> DO_Malformed
                | Some marker_tail \<Rightarrow>
                    let t = m + marker_tail in
                    if t > length artifact then DO_Malformed
                    else if t = length artifact then DO_Malformed
                    else DO_Signed \<lparr>sr_payload = (0, m),
                                    sr_signature_document = (m, length artifact),
                                    sr_signature_carrier = (t, length artifact)\<rparr>))"

definition decompose_artifact_with_resource_limits ::
    "bytes \<Rightarrow> artifact_resource_limits \<Rightarrow> decomposition_outcome resource_result" where
  "decompose_artifact_with_resource_limits artifact limits =
     result_try (check_input_size limits RF_Yaml artifact) (\<lambda>a. Inr (decompose_artifact a))"

section \<open>Markers as factorisations\<close>

definition marker_line :: "bytes \<Rightarrow> bool" where
  "marker_line mk \<longleftrightarrow> mk = [0x2D, 0x2D, 0x2D, 0x0A] \<or> mk = [0x2D, 0x2D, 0x2D, 0x0D, 0x0A]"

definition at_line_start :: "bytes \<Rightarrow> bool" where
  "at_line_start pre \<longleftrightarrow> pre = [] \<or> last pre = 0x0A"

definition marker_at :: "bytes \<Rightarrow> bytes \<Rightarrow> bytes \<Rightarrow> bytes \<Rightarrow> bool" where
  "marker_at bs pre mk post \<longleftrightarrow> bs = pre @ mk @ post \<and> marker_line mk \<and> at_line_start pre"

definition has_marker :: "bytes \<Rightarrow> bool" where
  "has_marker bs \<longleftrightarrow> (\<exists>pre mk post. marker_at bs pre mk post)"

lemma is_line_start_iff:
  "i \<le> length bs \<Longrightarrow> is_line_start bs i \<longleftrightarrow> at_line_start (take i bs)"
  by (cases i) (auto simp: is_line_start_def at_line_start_def take_Suc_conv_app_nth)

lemma marker_len_pointwise:
  "marker_len bs i = Some n \<longleftrightarrow> i + n \<le> length bs \<and> marker_line (take n (drop i bs))
     \<and> length (take n (drop i bs)) = n \<and> is_line_start bs i"
proof -
  have four: "take 4 (drop i bs) = [bs ! i, bs ! (i + 1), bs ! (i + 2), bs ! (i + 3)]"
    if "i + 4 \<le> length bs"
    using that by (auto simp: list_eq_iff_nth_eq nth_Cons' numeral_eq_Suc less_Suc_eq)
  have five: "take 5 (drop i bs) =
      [bs ! i, bs ! (i + 1), bs ! (i + 2), bs ! (i + 3), bs ! (i + 4)]"
    if "i + 5 \<le> length bs"
    using that by (auto simp: list_eq_iff_nth_eq nth_Cons' numeral_eq_Suc less_Suc_eq)
  have len: "n = 4 \<or> n = 5" if "marker_line (take n (drop i bs))" "length (take n (drop i bs)) = n"
    using that by (auto simp: marker_line_def dest: arg_cong [where f = length])
  show ?thesis
  proof
    assume m: "marker_len bs i = Some n"
    with marker_len_bound [OF m] four five show "i + n \<le> length bs
        \<and> marker_line (take n (drop i bs)) \<and> length (take n (drop i bs)) = n \<and> is_line_start bs i"
      by (auto simp: marker_len_def marker_line_def split: if_splits)
  next
    assume r: "i + n \<le> length bs \<and> marker_line (take n (drop i bs))
        \<and> length (take n (drop i bs)) = n \<and> is_line_start bs i"
    then have "n = 4 \<or> n = 5" using len by blast
    with r four five show "marker_len bs i = Some n"
      by (auto simp: marker_len_def marker_line_def)
  qed
qed

lemma marker_len_iff:
  "marker_len bs i = Some n \<longleftrightarrow>
     (\<exists>pre mk post. marker_at bs pre mk post \<and> length pre = i \<and> length mk = n)"
proof
  assume m: "marker_len bs i = Some n"
  then have i: "i \<le> length bs" using marker_len_bound by fastforce
  have "bs = take i bs @ take n (drop i bs) @ drop n (drop i bs)"
    by (metis append_take_drop_id)
  with m i have "marker_at bs (take i bs) (take n (drop i bs)) (drop n (drop i bs))
      \<and> length (take i bs) = i \<and> length (take n (drop i bs)) = n"
    unfolding marker_len_pointwise marker_at_def is_line_start_iff [OF i] by simp
  then show "\<exists>pre mk post. marker_at bs pre mk post \<and> length pre = i \<and> length mk = n"
    by blast
next
  assume "\<exists>pre mk post. marker_at bs pre mk post \<and> length pre = i \<and> length mk = n"
  then show "marker_len bs i = Some n"
    by (auto simp: marker_len_pointwise marker_at_def is_line_start_iff)
qed

lemma marker_len_marker_at: "marker_at bs pre mk post \<Longrightarrow> marker_len bs (length pre) = Some (length mk)"
  by (auto simp: marker_len_iff)


lemma has_marker_iff: "has_marker bs \<longleftrightarrow> (\<exists>i. marker_len bs i \<noteq> None)"
  by (auto simp: has_marker_def marker_len_iff not_None_eq)

section \<open>The scan finds the last marker\<close>

text \<open>Skipping over a marker loses nothing: no marker starts inside one.\<close>

lemma marker_len_inside:
  assumes "marker_len bs i = Some n" and "i < j" and "j < i + n"
  shows "marker_len bs j = None"
proof -
  have dashes: "bs ! i = 0x2D" "bs ! (i + 1) = 0x2D" "bs ! (i + 2) = 0x2D"
      "n \<noteq> 4 \<Longrightarrow> bs ! (i + 3) = 0x0D" "n = 4 \<or> n = 5"
    using assms(1) by (auto simp: marker_len_def split: if_splits)
  with assms(2,3) consider "j - 1 = i" | "j - 1 = i + 1" | "j - 1 = i + 2" | "j - 1 = i + 3" "n \<noteq> 4"
    by fastforce
  then have "bs ! (j - 1) \<noteq> 0x0A" by cases (simp_all only: dashes not_False_eq_True, simp_all)
  then have "\<not> is_line_start bs j" using assms(2) by (simp add: is_line_start_def)
  then show ?thesis by (simp add: marker_len_def)
qed

lemma find_last_marker_from_none:
  "(\<And>j. i \<le> j \<Longrightarrow> marker_len bs j = None) \<Longrightarrow> find_last_marker_from bs l i = l"
proof (induction bs l i rule: find_last_marker_from.induct)
  case (1 bs l i)
  then show ?case
    by (subst find_last_marker_from.simps) simp
qed

lemma find_last_marker_from_some:
  assumes "marker_len bs m \<noteq> None" and "i \<le> m" and "\<And>j. m < j \<Longrightarrow> marker_len bs j = None"
  shows "find_last_marker_from bs l i = Some m"
  using assms
proof (induction bs l i rule: find_last_marker_from.induct)
  case (1 bs l i)
  obtain k where k: "marker_len bs m = Some k" using "1.prems"(1) by blast
  then have i: "i < length bs" using marker_len_bound [OF k] "1.prems"(2) by auto
  show ?case
  proof (cases "marker_len bs i")
    case None
    with k have "i \<noteq> m" by auto
    then show ?thesis
      using None i "1.IH"(1) [OF i None] "1.prems"
      by (subst find_last_marker_from.simps) simp
  next
    case (Some n)
    show ?thesis
    proof (cases "i = m")
      case True
      have "find_last_marker_from bs (Some i) (i + n) = Some i"
        using Some "1.prems"(3) True marker_len_bound [OF Some]
        by (intro find_last_marker_from_none) auto
      then show ?thesis
        using Some i True by (subst find_last_marker_from.simps) simp
    next
      case False
      then have "i + n \<le> m"
        using marker_len_inside [OF Some, of m] "1.prems"(1,2) by (meson le_neq_implies_less not_le)
      then show ?thesis
        using Some i "1.IH"(2) [OF i Some] "1.prems" by (subst find_last_marker_from.simps) simp
    qed
  qed
qed

lemma last_marker_exists:
  assumes "marker_len bs i \<noteq> None"
  shows "\<exists>m. marker_len bs m \<noteq> None \<and> (\<forall>j>m. marker_len bs j = None)"
proof -
  let ?P = "\<lambda>j. marker_len bs j \<noteq> None"
  have bounded: "\<And>j. ?P j \<Longrightarrow> j \<le> length bs" using marker_len_bound by fastforce
  have "?P (Greatest ?P)" using assms bounded by (rule GreatestI_nat)
  moreover have "\<forall>j>Greatest ?P. marker_len bs j = None"
    using bounded Greatest_le_nat [of ?P] by (meson linorder_not_le)
  ultimately show ?thesis by blast
qed

lemma find_last_marker_None: "find_last_marker bs = None \<longleftrightarrow> (\<forall>j. marker_len bs j = None)"
proof
  assume n: "find_last_marker bs = None"
  show "\<forall>j. marker_len bs j = None"
  proof (rule ccontr)
    assume "\<not> (\<forall>j. marker_len bs j = None)"
    then obtain m where "marker_len bs m \<noteq> None" "\<forall>j>m. marker_len bs j = None"
      using last_marker_exists by blast
    then have "find_last_marker bs = Some m"
      unfolding find_last_marker_def by (intro find_last_marker_from_some) auto
    with n show False by simp
  qed
qed (simp add: find_last_marker_def find_last_marker_from_none)

lemma find_last_marker_Some:
  "find_last_marker bs = Some m \<longleftrightarrow>
     marker_len bs m \<noteq> None \<and> (\<forall>j>m. marker_len bs j = None)"
proof
  assume f: "find_last_marker bs = Some m"
  then obtain i where "marker_len bs i \<noteq> None"
    by (metis find_last_marker_None option.distinct(1))
  then obtain k where k: "marker_len bs k \<noteq> None" "\<forall>j>k. marker_len bs j = None"
    using last_marker_exists by blast
  then have "find_last_marker bs = Some k"
    unfolding find_last_marker_def by (intro find_last_marker_from_some) auto
  with f k show "marker_len bs m \<noteq> None \<and> (\<forall>j>m. marker_len bs j = None)" by simp
qed (simp add: find_last_marker_def find_last_marker_from_some)

lemma find_last_marker_iff_has_marker: "find_last_marker bs = None \<longleftrightarrow> \<not> has_marker bs"
  by (simp add: find_last_marker_None has_marker_iff)


section \<open>Markers of a concatenation\<close>

lemma marker_line_facts:
  "marker_line mk \<Longrightarrow> mk \<noteq> [] \<and> hd mk = 0x2D \<and> last mk = 0x0A \<and> (length mk = 4 \<or> length mk = 5)"
  by (auto simp: marker_line_def)

lemma utf8_valid_marker_line: "marker_line mk \<Longrightarrow> utf8_valid mk"
  by (auto simp: marker_line_def intro!: utf8_valid_ascii)

lemma marker_at_shift:
  assumes "pre \<noteq> []" and "last pre = 0x0A"
  shows "marker_at (pre @ bs) (pre @ q) mk post \<longleftrightarrow> marker_at bs q mk post"
  using assms by (auto simp: marker_at_def at_line_start_def last_append)

lemma marker_len_shift:
  assumes "pre \<noteq> []" and "last pre = 0x0A"
  shows "marker_len (pre @ bs) (length pre + j) = marker_len bs j"
proof -
  have "marker_len (pre @ bs) (length pre + j) = Some n \<longleftrightarrow> marker_len bs j = Some n" for n
  proof
    assume "marker_len (pre @ bs) (length pre + j) = Some n"
    then obtain q mk post where m: "marker_at (pre @ bs) q mk post"
      and q: "length q = length pre + j" and mk: "length mk = n" by (auto simp: marker_len_iff)
    have "take (length pre) q = pre"
      using m q by (metis append_eq_append_conv_if le_add1 marker_at_def)
    then have "q = pre @ drop (length pre) q" by (metis append_take_drop_id)
    with m assms have "marker_at bs (drop (length pre) q) mk post" by (metis marker_at_shift)
    moreover have "length (drop (length pre) q) = j" using q by simp
    ultimately show "marker_len bs j = Some n" using mk by (metis marker_len_iff)
  next
    assume "marker_len bs j = Some n"
    then obtain q mk post where "marker_at bs q mk post" "length q = j" "length mk = n"
      by (auto simp: marker_len_iff)
    with assms show "marker_len (pre @ bs) (length pre + j) = Some n"
      by (metis length_append marker_at_shift marker_len_iff)
  qed
  then show ?thesis by (metis not_Some_eq)
qed

lemma bom_at_zero_append:
  assumes "at_line_start p" and "marker_line mk"
  shows "bom_at_zero (p @ mk @ c) \<longleftrightarrow> bom_at_zero p"
proof (cases "length p \<ge> 3")
  case True
  then have "p \<noteq> []" by auto
  with True show ?thesis by (simp add: bom_at_zero_def nth_append)
next
  case False
  then consider "p = []" | a where "p = [a]" | a b where "p = [a, b]"
    by (cases p rule: remdups_adj.cases) (auto simp: not_le)
  then show ?thesis
    using assms by cases (auto simp: bom_at_zero_def at_line_start_def marker_line_def)
qed

lemma utf8_valid_payload_part:
  assumes "marker_line mk"
  shows "utf8_valid (p @ mk @ c) \<longleftrightarrow> utf8_valid p \<and> utf8_valid c"
proof
  assume u: "utf8_valid (p @ mk @ c)"
  obtain ms where mk: "mk = 0x2D # ms" using assms by (auto simp: marker_line_def)
  have "utf8_valid p \<and> utf8_valid (mk @ c)"
    using utf8_valid_split [of p "0x2D" "ms @ c"] u mk by simp
  moreover have "utf8_valid (mk @ c) \<longleftrightarrow> utf8_valid c"
    using assms by (auto simp: marker_line_def utf8_valid_ascii_Cons)
  ultimately show "utf8_valid p \<and> utf8_valid c" by simp
qed (simp add: assms utf8_valid_append utf8_valid_marker_line)

section \<open>What decomposition returns\<close>

definition ranges_of :: "bytes \<Rightarrow> bytes \<Rightarrow> bytes \<Rightarrow> signature_ranges" where
  "ranges_of p mk c = \<lparr>sr_payload = (0, length p),
     sr_signature_document = (length p, length p + length mk + length c),
     sr_signature_carrier = (length p + length mk, length p + length mk + length c)\<rparr>"

lemma slice_ranges_of [simp]:
  "slice (p @ mk @ c) (sr_payload (ranges_of p mk c)) = p"
  "slice (p @ mk @ c) (sr_signature_document (ranges_of p mk c)) = mk @ c"
  "slice (p @ mk @ c) (sr_signature_carrier (ranges_of p mk c)) = c"
  by (simp_all add: slice_def ranges_of_def)

lemma find_last_marker_split:
  assumes "marker_line mk" and "at_line_start p"
  shows "find_last_marker (p @ mk @ c) = Some (length p) \<longleftrightarrow> \<not> has_marker c"
proof -
  have m: "marker_len (p @ mk @ c) (length p) = Some (length mk)"
    using assms by (intro marker_len_marker_at) (simp add: marker_at_def)
  have shift: "marker_len (p @ mk @ c) (length p + length mk + j) = marker_len c j" for j
    using marker_len_shift [of "p @ mk" c j] marker_line_facts [OF assms(1)] by (simp add: add.assoc)
  have "(\<forall>j>length p. marker_len (p @ mk @ c) j = None) \<longleftrightarrow> (\<forall>j. marker_len c j = None)"
  proof
    assume all: "\<forall>j>length p. marker_len (p @ mk @ c) j = None"
    show "\<forall>j. marker_len c j = None"
      using all marker_line_facts [OF assms(1)] shift by (metis add_gr_0 less_add_same_cancel1
          length_greater_0_conv add.assoc)
  next
    assume c: "\<forall>j. marker_len c j = None"
    show "\<forall>j>length p. marker_len (p @ mk @ c) j = None"
    proof (intro allI impI)
      fix j assume j: "length p < j"
      show "marker_len (p @ mk @ c) j = None"
      proof (cases "j < length p + length mk")
        case False
        then show ?thesis using shift [of "j - (length p + length mk)"] c by simp
      qed (rule marker_len_inside [OF m j])
    qed
  qed
  with m show ?thesis by (auto simp: find_last_marker_Some has_marker_iff)
qed

lemma decompose_compose:
  assumes "validate_payload_stream p = Inr ()" and "marker_line mk"
    and "utf8_valid c" and "c \<noteq> []" and "\<not> has_marker c"
  shows "decompose_artifact (p @ mk @ c) = DO_Signed (ranges_of p mk c)"
proof -
  have p: "at_line_start p" "utf8_valid p" "\<not> bom_at_zero p"
    using assms(1) by (auto simp: validate_payload_stream_ok at_line_start_def)
  have "marker_len (p @ mk @ c) (length p) = Some (length mk)"
    using assms(2) p(1) by (intro marker_len_marker_at) (simp add: marker_at_def)
  moreover have "find_last_marker (p @ mk @ c) = Some (length p)"
    using find_last_marker_split [OF assms(2) p(1)] assms(5) by simp
  moreover have "utf8_ok (p @ mk @ c)" "\<not> bom_at_zero (p @ mk @ c)"
    using assms p by (simp_all add: utf8_ok_def from_utf8_def utf8_valid_payload_part
        bom_at_zero_append)
  ultimately show ?thesis
    using assms(2,4) by (auto simp: decompose_artifact_def ranges_of_def dest: marker_line_facts)
qed


lemma decompose_signedD:
  assumes "decompose_artifact a = DO_Signed r"
  shows "\<exists>p mk c. a = p @ mk @ c \<and> marker_line mk \<and> validate_payload_stream p = Inr ()
           \<and> utf8_valid c \<and> c \<noteq> [] \<and> \<not> has_marker c \<and> r = ranges_of p mk c"
proof -
  have u: "utf8_valid a" "\<not> bom_at_zero a"
    using assms by (auto simp: decompose_artifact_def utf8_ok_def from_utf8_def split: if_splits)
  obtain m n where m: "find_last_marker a = Some m" "marker_len a m = Some n"
    and r: "m + n < length a" "r = \<lparr>sr_payload = (0, m), sr_signature_document = (m, length a),
                                    sr_signature_carrier = (m + n, length a)\<rparr>"
    using assms marker_len_bound
    by (fastforce simp: decompose_artifact_def Let_def split: if_splits option.splits)
  obtain p mk c where f: "marker_at a p mk c" "length p = m" "length mk = n"
    using m(2) by (auto simp: marker_len_iff)
  then have a: "a = p @ mk @ c" "marker_line mk" "at_line_start p"
    by (simp_all add: marker_at_def)
  have uc: "utf8_valid p" "utf8_valid c" using u(1) a by (auto simp: utf8_valid_payload_part)
  have "\<not> has_marker c" using find_last_marker_split [OF a(2,3)] m(1) f(2) a(1) by simp
  moreover have "validate_payload_stream p = Inr ()"
    using uc u(2) a bom_at_zero_append [OF a(3,2)]
    by (auto simp: validate_payload_stream_ok at_line_start_def)
  moreover have "c \<noteq> []" "r = ranges_of p mk c"
    using r f a(1) by (auto simp: ranges_of_def)
  ultimately show ?thesis using a uc by blast
qed

lemma decompose_signed_iff:
  "decompose_artifact a = DO_Signed r \<longleftrightarrow>
     (\<exists>p mk c. a = p @ mk @ c \<and> marker_line mk \<and> validate_payload_stream p = Inr ()
        \<and> utf8_valid c \<and> c \<noteq> [] \<and> \<not> has_marker c \<and> r = ranges_of p mk c)"
  using decompose_signedD decompose_compose by blast

lemma decompose_unsigned_iff:
  "decompose_artifact a = DO_Unsigned \<longleftrightarrow> utf8_valid a \<and> \<not> bom_at_zero a \<and> \<not> has_marker a"
proof -
  have "\<not> has_marker []" by (auto simp: has_marker_def marker_at_def marker_line_def)
  then show ?thesis
    by (auto simp: decompose_artifact_def utf8_ok_def from_utf8_def Let_def
        find_last_marker_iff_has_marker [symmetric] split: option.splits)
qed

text \<open>
  The last-marker scan. It returns an index exactly when a constrained marker (a line
  holding three dashes, ended by a line feed or by a carriage return and line feed) starts
  there and none starts later, and it returns nothing exactly when no line of the stream is a
  constrained marker.
\<close>

theorem find_last_marker_correct:
  "(find_last_marker bs = Some m \<longleftrightarrow>
      (\<exists>pre mk post. marker_at bs pre mk post \<and> length pre = m) \<and>
      \<not> (\<exists>pre mk post. marker_at bs pre mk post \<and> length pre > m)) \<and>
   (find_last_marker bs = None \<longleftrightarrow> \<not> (\<exists>pre mk post. marker_at bs pre mk post))"
proof -
  have some: "marker_len bs i \<noteq> None \<longleftrightarrow> (\<exists>pre mk post. marker_at bs pre mk post \<and> length pre = i)"
    for i by (auto simp: marker_len_iff not_None_eq)
  show ?thesis
    unfolding find_last_marker_iff_has_marker has_marker_def find_last_marker_Some some
    by (metis some)
qed

text \<open>
  C5: decomposition of a YAML artifact, on every branch. The outcome is Signed exactly when
  the bytes split into a payload that satisfies the payload stream rules, a marker line and a
  nonempty UTF-8 carrier without a marker, and then the ranges returned cut out those parts;
  it is Unsigned exactly when the bytes are UTF-8 without a byte order mark and hold no
  marker; every other input is Malformed.
\<close>

theorem decompose_artifact_correct:
  "(decompose_artifact a = DO_Signed r \<longleftrightarrow>
      (\<exists>p mk c. a = p @ mk @ c \<and> marker_line mk \<and> validate_payload_stream p = Inr ()
         \<and> utf8_valid c \<and> c \<noteq> [] \<and> \<not> has_marker c \<and> r = ranges_of p mk c
         \<and> slice a (sr_payload r) = p \<and> slice a (sr_signature_document r) = mk @ c
         \<and> slice a (sr_signature_carrier r) = c)) \<and>
   (decompose_artifact a = DO_Unsigned \<longleftrightarrow>
      utf8_valid a \<and> \<not> bom_at_zero a \<and> \<not> has_marker a) \<and>
   (decompose_artifact a = DO_Malformed \<longleftrightarrow>
      \<not> utf8_valid a \<or> bom_at_zero a \<or>
      (has_marker a \<and> \<not> (\<exists>r. decompose_artifact a = DO_Signed r)))"
proof (intro conjI)
  show "decompose_artifact a = DO_Signed r \<longleftrightarrow>
      (\<exists>p mk c. a = p @ mk @ c \<and> marker_line mk \<and> validate_payload_stream p = Inr ()
         \<and> utf8_valid c \<and> c \<noteq> [] \<and> \<not> has_marker c \<and> r = ranges_of p mk c
         \<and> slice a (sr_payload r) = p \<and> slice a (sr_signature_document r) = mk @ c
         \<and> slice a (sr_signature_carrier r) = c)"
    unfolding decompose_signed_iff by (metis slice_ranges_of)
  show "decompose_artifact a = DO_Unsigned \<longleftrightarrow> utf8_valid a \<and> \<not> bom_at_zero a \<and> \<not> has_marker a"
    by (rule decompose_unsigned_iff)
  have "decompose_artifact a = DO_Malformed" if "\<not> utf8_valid a \<or> bom_at_zero a"
    using that by (auto simp: decompose_artifact_def utf8_ok_def from_utf8_def)
  then show "decompose_artifact a = DO_Malformed \<longleftrightarrow> \<not> utf8_valid a \<or> bom_at_zero a \<or>
      (has_marker a \<and> \<not> (\<exists>r. decompose_artifact a = DO_Signed r))"
    using decompose_unsigned_iff [of a] decomposition_outcome.exhaust [of "decompose_artifact a"]
    by (metis decomposition_outcome.distinct)
qed


definition sample_signed :: bytes where
  "sample_signed = ascii ''k: 1'' @ [0x0A] @ ascii ''---'' @ [0x0A] @ ascii ''s: 2'' @ [0x0A]"

theorem decompose_artifact_correct_witness:
  "\<exists>p mk c. sample_signed = p @ mk @ c \<and> marker_line mk \<and> validate_payload_stream p = Inr ()
     \<and> c \<noteq> [] \<and> \<not> has_marker c \<and> slice sample_signed (9, 14) = c"
proof -
  let ?r = "\<lparr>sr_payload = (0, 5), sr_signature_document = (5, 14),
    sr_signature_carrier = (9, 14)\<rparr>"
  have "decompose_artifact sample_signed = DO_Signed ?r" by code_simp
  then show ?thesis
    using decompose_artifact_correct [of sample_signed ?r] by auto
qed

end
