(* ===== verification/Wire.thy ===== *)
theory Wire
  imports Resource
begin

unbundle bit_operations_syntax

text \<open>
  The protobuf wire primitives of \<open>yaml-sigil-core/src/pb.rs\<close>: the sinks a message is
  written to, the checked size sink, and the varint, tag and length-delimited writers. A sink
  is the record of its four operations, so one writer runs on the size sink and on a byte
  vector; the locale \<open>encode_sink\<close> is what a writer may assume of a sink.
\<close>

section \<open>Sinks\<close>

type_synonym u32 = "32 word"

record 's sink =
  put_u8 :: "'s \<Rightarrow> u8 \<Rightarrow> 's"
  put_slice :: "'s \<Rightarrow> bytes \<Rightarrow> 's"
  put_u32_le :: "'s \<Rightarrow> u32 \<Rightarrow> 's"
  put_u64_le :: "'s \<Rightarrow> u64 \<Rightarrow> 's"

text \<open>
  The unknown fields a decoder retained write themselves to a sink; as a sink can only be
  written, what they do is a list of put operations.
\<close>

datatype put = PutU8 u8 | PutSlice bytes | PutU32Le u32 | PutU64Le u64

fun run_put :: "'s sink \<Rightarrow> 's \<Rightarrow> put \<Rightarrow> 's" where
  "run_put S d (PutU8 b) = put_u8 S d b"
| "run_put S d (PutSlice bs) = put_slice S d bs"
| "run_put S d (PutU32Le w) = put_u32_le S d w"
| "run_put S d (PutU64Le w) = put_u64_le S d w"

definition write_to :: "put list \<Rightarrow> 's sink \<Rightarrow> 's \<Rightarrow> 's" where
  "write_to ps S d = foldl (run_put S) d ps"

fun le_octets :: "nat \<Rightarrow> nat \<Rightarrow> bytes" where
  "le_octets 0 n = []"
| "le_octets (Suc k) n = octet (n mod 256) # le_octets k (n div 256)"

lemma length_le_octets [simp]: "length (le_octets k n) = k"
  by (induction k arbitrary: n) simp_all

fun put_bytes :: "put \<Rightarrow> bytes" where
  "put_bytes (PutU8 b) = [b]"
| "put_bytes (PutSlice bs) = bs"
| "put_bytes (PutU32Le w) = le_octets 4 (unat w)"
| "put_bytes (PutU64Le w) = le_octets 8 (unat w)"

definition puts_bytes :: "put list \<Rightarrow> bytes" where
  "puts_bytes ps = concat (map put_bytes ps)"

section \<open>The checked size sink\<close>

datatype size_overflow = SizeOverflow

record checked_size_sink =
  css_size :: u64
  css_overflowed :: bool

definition default_size_sink :: checked_size_sink where
  "default_size_sink = \<lparr>css_size = 0, css_overflowed = False\<rparr>"

definition add_u64 :: "checked_size_sink \<Rightarrow> u64 \<Rightarrow> checked_size_sink" where
  "add_u64 c amount =
     (case checked_add_u64 (css_size c) amount of
        Some n \<Rightarrow> c\<lparr>css_size := n\<rparr>
      | None \<Rightarrow> c\<lparr>css_overflowed := True\<rparr>)"

definition add_usize :: "checked_size_sink \<Rightarrow> usize \<Rightarrow> checked_size_sink" where
  "add_usize c amount =
     (case u64_of_usize amount of
        Some a \<Rightarrow> add_u64 c a
      | None \<Rightarrow> c\<lparr>css_overflowed := True\<rparr>)"

definition finish :: "checked_size_sink \<Rightarrow> size_overflow + u64" where
  "finish c = (if css_overflowed c then Inl SizeOverflow else Inr (css_size c))"

definition size_sink :: "checked_size_sink sink" where
  "size_sink = \<lparr>put_u8 = (\<lambda>c b. add_u64 c 1),
                put_slice = (\<lambda>c source. add_usize c (length source)),
                put_u32_le = (\<lambda>c w. add_u64 c 4),
                put_u64_le = (\<lambda>c w. add_u64 c 8)\<rparr>"

section \<open>Writers\<close>

text \<open>A writer may fail after it has written: the sink is returned with the result.\<close>

type_synonym 's writer = "'s \<Rightarrow> (size_overflow + unit) \<times> 's"

definition and_then :: "'s writer \<Rightarrow> 's writer \<Rightarrow> 's writer" where
  "and_then f g d = (case f d of (Inl e, d') \<Rightarrow> (Inl e, d') | (Inr u, d') \<Rightarrow> g d')"

definition write_ok :: "('s \<Rightarrow> 's) \<Rightarrow> 's writer" where
  "write_ok f d = (Inr (), f d)"

lemma unat_shift7: "unat (drop_bit 7 (v :: u64)) = unat v div 128"
  by (simp add: drop_bit_eq_div unat_div)

function push_varint :: "'s sink \<Rightarrow> 's \<Rightarrow> u64 \<Rightarrow> 's" where
  "push_varint S destination v =
     (if v \<ge> 0x80
      then push_varint S (put_u8 S destination (ucast v OR 0x80)) (drop_bit 7 v)
      else put_u8 S destination (ucast v))"
  by pat_completeness auto

termination
proof (relation "measure (\<lambda>(S, d, v). unat v)")
  fix S :: "'s sink" and d :: 's and v :: u64
  assume "0x80 \<le> v"
  then have "128 \<le> unat v" by (simp add: word_le_nat_alt)
  then show "((S, put_u8 S d (ucast v OR 0x80), drop_bit 7 v), S, d, v)
      \<in> measure (\<lambda>(S, d, v). unat v)"
    by (simp only: in_measure prod.case unat_shift7)
qed simp

declare push_varint.simps [simp del]

definition push_tag :: "'s sink \<Rightarrow> 's \<Rightarrow> u32 \<Rightarrow> u8 \<Rightarrow> 's" where
  "push_tag S destination field_number wire_type =
     push_varint S destination (push_bit 3 (ucast field_number) OR ucast wire_type)"

definition push_len_field :: "'s sink \<Rightarrow> u32 \<Rightarrow> bytes \<Rightarrow> 's writer" where
  "push_len_field S field_number v destination =
     (case u64_of_usize (length v) of
        None \<Rightarrow> (Inl SizeOverflow, destination)
      | Some value_len \<Rightarrow>
          (let d1 = push_tag S destination field_number 2;
               d2 = push_varint S d1 value_len
           in (Inr (), put_slice S d2 v)))"


section \<open>The bytes a writer stands for\<close>

function varint_bytes :: "nat \<Rightarrow> bytes" where
  "varint_bytes n =
     (if n < 128 then [octet n] else octet (128 + n mod 128) # varint_bytes (n div 128))"
  by pat_completeness auto
termination by (relation "measure id") auto

declare varint_bytes.simps [simp del]

definition tag_bytes :: "u32 \<Rightarrow> u8 \<Rightarrow> bytes" where
  "tag_bytes field wt = varint_bytes (unat (push_bit 3 (ucast field) OR ucast wt :: u64))"

definition len_field_bytes :: "u32 \<Rightarrow> bytes \<Rightarrow> bytes" where
  "len_field_bytes field v = tag_bytes field 2 @ varint_bytes (length v) @ v"

lemma nat_or_128: "(k :: nat) < 256 \<Longrightarrow> k OR 128 = 128 + k mod 128"
proof -
  assume k: "k < 256"
  have "k OR 128 = set_bit 7 k" by (simp add: set_bit_eq_or push_bit_eq_mult)
  also have "\<dots> = k + of_bool (\<not> bit k 7) * 128" by (simp add: set_bit_eq)
  also have "bit k 7 \<longleftrightarrow> k \<ge> 128"
  proof -
    have "k div 128 = (if k < 128 then 0 else 1)" using k by auto
    then show ?thesis by (simp add: bit_iff_odd)
  qed
  finally show ?thesis using k by (cases "k \<ge> 128") (auto simp: mod_if)
qed

lemma unat_ucast_u8: "unat (ucast (v :: u64) :: u8) = unat v mod 256"
  by (simp add: unsigned_ucast_eq take_bit_eq_mod)

lemma varint_octet: "(ucast (v :: u64) OR 0x80 :: u8) = octet (128 + unat v mod 128)"
proof -
  have "unat (ucast v OR 0x80 :: u8) = (unat v mod 256) OR 128"
    by (simp add: unsigned_or_eq unat_ucast_u8)
  also have "\<dots> = 128 + unat v mod 256 mod 128" by (rule nat_or_128) simp
  also have "unat v mod 256 mod 128 = unat v mod 128" by (simp add: mod_mod_cancel)
  finally show ?thesis by (metis octet_unat)
qed

lemma last_varint_octet: "v < 0x80 \<Longrightarrow> (ucast (v :: u64) :: u8) = octet (unat v)"
proof -
  assume "v < 0x80"
  then have "unat v < 128" by (simp add: word_less_nat_alt)
  then have "unat (ucast v :: u8) = unat v" by (simp add: unat_ucast_u8)
  then show ?thesis by (metis octet_unat)
qed

text \<open>
  What a writer may assume of its sink: a relation between a state and the bytes written so
  far, kept by each of the four operations.
\<close>

locale encode_sink =
  fixes S :: "'s sink"
    and holds :: "'s \<Rightarrow> bytes \<Rightarrow> bool"
  assumes holds_u8: "holds d bs \<Longrightarrow> holds (put_u8 S d b) (bs @ [b])"
    and holds_slice: "holds d bs \<Longrightarrow> holds (put_slice S d src) (bs @ src)"
    and holds_u32: "holds d bs \<Longrightarrow> holds (put_u32_le S d w) (bs @ le_octets 4 (unat w))"
    and holds_u64: "holds d bs \<Longrightarrow> holds (put_u64_le S d v) (bs @ le_octets 8 (unat v))"
begin

lemma holds_run_put: "holds d bs \<Longrightarrow> holds (run_put S d p) (bs @ put_bytes p)"
  by (cases p) (auto intro: holds_u8 holds_slice holds_u32 holds_u64)

lemma holds_write_to: "holds d bs \<Longrightarrow> holds (write_to ps S d) (bs @ puts_bytes ps)"
proof (induction ps arbitrary: d bs)
  case (Cons p ps)
  then show ?case
    using Cons.IH [OF holds_run_put [OF Cons.prems, of p]] by (simp add: write_to_def puts_bytes_def)
qed (simp add: write_to_def puts_bytes_def)

lemma holds_push_varint:
  "holds d bs \<Longrightarrow> holds (push_varint S d v) (bs @ varint_bytes (unat v))"
proof (induction "unat v" arbitrary: v d bs rule: less_induct)
  case less
  show ?case
  proof (cases "v < 0x80")
    case True
    then have "unat v < 128" "\<not> 0x80 \<le> v" by (simp_all add: word_less_nat_alt not_le)
    with True show ?thesis
      using holds_u8 [OF less.prems, of "ucast v"]
      by (simp add: push_varint.simps [of S] varint_bytes.simps [of "unat v"] last_varint_octet)
  next
    case False
    then have ge: "0x80 \<le> v" "128 \<le> unat v" by (simp_all add: word_le_nat_alt not_less)
    then have "unat (drop_bit 7 v) < unat v" by (simp only: unat_shift7)
    then have "holds (push_varint S (put_u8 S d (ucast v OR 0x80)) (drop_bit 7 v))
        ((bs @ [octet (128 + unat v mod 128)]) @ varint_bytes (unat (drop_bit 7 v)))"
      using holds_u8 [OF less.prems, of "ucast v OR 0x80"] less.hyps varint_octet [of v] by metis
    with ge show ?thesis
      by (simp add: push_varint.simps [of S d] varint_bytes.simps [of "unat v"] unat_shift7)
  qed
qed

lemma holds_push_tag: "holds d bs \<Longrightarrow> holds (push_tag S d f wt) (bs @ tag_bytes f wt)"
  by (simp add: push_tag_def tag_bytes_def holds_push_varint)

lemma holds_push_len_field:
  assumes "push_len_field S f v d = (Inr (), d')" and "holds d bs"
  shows "holds d' (bs @ len_field_bytes f v)"
proof -
  obtain n where n: "u64_of_usize (length v) = Some n"
    and d': "d' = put_slice S (push_varint S (push_tag S d f 2) n) v"
    using assms(1) by (auto simp: push_len_field_def Let_def split: option.splits)
  have "unat n = length v" using n by (auto simp: u64_of_usize_Some unat_of_nat_u64)
  then show ?thesis
    using holds_slice [OF holds_push_varint [OF holds_push_tag [OF assms(2)]]]
    unfolding d' len_field_bytes_def by (metis append.assoc)
qed

lemma push_len_field_ok:
  "length v < 2 ^ 64 \<Longrightarrow> \<exists>d'. push_len_field S f v d = (Inr (), d')"
  by (simp add: push_len_field_def u64_of_usize_def Let_def)

end


text \<open>The size sink stands for any bytes of the size it counted, or for 2^64 bytes and more.\<close>

definition sized :: "checked_size_sink \<Rightarrow> bytes \<Rightarrow> bool" where
  "sized c bs \<longleftrightarrow>
     (if css_overflowed c then 2 ^ 64 \<le> length bs else unat (css_size c) = length bs)"

lemma sized_add_u64:
  "sized c bs \<Longrightarrow> length tail = unat k \<Longrightarrow> sized (add_u64 c k) (bs @ tail)"
  by (auto simp: sized_def add_u64_def checked_add_u64_None checked_add_u64_unat
      split: option.splits if_splits)

lemma sized_add_usize: "sized c bs \<Longrightarrow> sized (add_usize c (length tail)) (bs @ tail)"
proof (cases "u64_of_usize (length tail)")
  case None
  then show "sized c bs \<Longrightarrow> ?thesis"
    by (auto simp: add_usize_def sized_def u64_of_usize_def split: if_splits)
next
  case (Some a)
  then have "length tail = unat a" by (auto simp: u64_of_usize_Some unat_of_nat_u64)
  with Some show "sized c bs \<Longrightarrow> ?thesis" by (simp add: add_usize_def sized_add_u64)
qed

interpretation size_sink:  encode_sink size_sink sized
  by unfold_locales (auto simp: size_sink_def intro: sized_add_u64 sized_add_usize)

lemma sized_default [simp]: "sized default_size_sink []"
  by (simp add: sized_def default_size_sink_def)

lemma of_nat_unat_length: "unat (w :: u64) = n \<Longrightarrow> of_nat n = w"
  by auto

lemma finish_sized:
  "sized c bs \<Longrightarrow>
     finish c = (if length bs < 2 ^ 64 then Inr (of_nat (length bs)) else Inl SizeOverflow)"
  using unat_u64_less [of "css_size c"]
  by (auto simp: sized_def finish_def dest: of_nat_unat_length split: if_splits)

text \<open>
  The byte vector is a sink of the protobuf crate: a parameter, of which the documented
  behaviour is that it appends, integers in little-endian order.
\<close>

definition vec_sink_ok :: "bytes sink \<Rightarrow> bool" where
  "vec_sink_ok S \<longleftrightarrow>
     (\<forall>d b. put_u8 S d b = d @ [b]) \<and> (\<forall>d bs. put_slice S d bs = d @ bs) \<and>
     (\<forall>d w. put_u32_le S d w = d @ le_octets 4 (unat w)) \<and>
     (\<forall>d w. put_u64_le S d w = d @ le_octets 8 (unat w))"

lemma vec_encode_sink: "vec_sink_ok S \<Longrightarrow> encode_sink S (\<lambda>d bs. d = bs)"
  by (simp add: encode_sink_def vec_sink_ok_def)

section \<open>Readers\<close>

text \<open>Each reader takes the wire and an index and returns the value with the next index.\<close>

function read_varint_from :: "bytes \<Rightarrow> u64 \<Rightarrow> nat \<Rightarrow> nat \<Rightarrow> (u64 \<times> nat) option" where
  "read_varint_from bs result shift index =
     (if index < length bs then
        (if shift = 63 then
           (if bs ! index > 1 then None
            else Some (result OR push_bit 63 (ucast (bs ! index)), index + 1))
         else if bs ! index AND 0x80 = 0
         then Some (result OR push_bit shift (ucast (bs ! index AND 0x7F)), index + 1)
         else read_varint_from bs (result OR push_bit shift (ucast (bs ! index AND 0x7F)))
                (shift + 7) (index + 1))
      else None)"
  by pat_completeness auto
termination by (relation "measure (\<lambda>(bs, r, s, i). length bs - i)") auto

declare read_varint_from.simps [simp del]

definition read_varint :: "bytes \<Rightarrow> nat \<Rightarrow> (u64 \<times> nat) option" where
  "read_varint bs index = read_varint_from bs 0 0 index"

definition MAX_PROTOBUF_FIELD_NUMBER :: u64 where
  "MAX_PROTOBUF_FIELD_NUMBER = push_bit 29 1 - 1"

definition read_tag :: "bytes \<Rightarrow> nat \<Rightarrow> (u32 \<times> u32 \<times> nat) option" where
  "read_tag bs index =
     (case read_varint bs index of
        None \<Rightarrow> None
      | Some (tag, next_index) \<Rightarrow>
          (let field = drop_bit 3 tag in
           if \<not> (1 \<le> field \<and> field \<le> MAX_PROTOBUF_FIELD_NUMBER) then None
           else Some (ucast field, ucast (tag AND 7), next_index)))"

definition read_length :: "bytes \<Rightarrow> nat \<Rightarrow> (usize \<times> nat) option" where
  "read_length bs index =
     (case read_varint bs index of
        None \<Rightarrow> None
      | Some (len, next_index) \<Rightarrow>
          (case usize_of_u64 len of None \<Rightarrow> None | Some n \<Rightarrow> Some (n, next_index)))"

definition skip_field :: "u32 \<Rightarrow> bytes \<Rightarrow> nat \<Rightarrow> nat option" where
  "skip_field wire_type bs index =
     (if wire_type = 0 then map_option snd (read_varint bs index)
      else if wire_type = 1 then (if index + 8 \<le> length bs then Some (index + 8) else None)
      else if wire_type = 2 then
        (case read_length bs index of
           None \<Rightarrow> None
         | Some (len, next_index) \<Rightarrow>
             (case checked_add_usize next_index len of
                None \<Rightarrow> None
              | Some e \<Rightarrow> if e \<le> length bs then Some e else None))
      else if wire_type = 5 then (if index + 4 \<le> length bs then Some (index + 4) else None)
      else None)"

lemma read_varint_from_bound:
  "read_varint_from bs r s i = Some (v, j) \<Longrightarrow> i < j \<and> j \<le> length bs"
proof (induction bs r s i rule: read_varint_from.induct)
  case (1 bs r s i)
  then show ?case
    by (subst (asm) (1) read_varint_from.simps) (fastforce split: if_splits)
qed

lemma read_varint_bound: "read_varint bs i = Some (v, j) \<Longrightarrow> i < j \<and> j \<le> length bs"
  by (auto simp: read_varint_def dest: read_varint_from_bound)

lemma read_tag_bound: "read_tag bs i = Some (f, wt, j) \<Longrightarrow> i < j \<and> j \<le> length bs"
  by (auto simp: read_tag_def Let_def split: option.splits if_splits dest: read_varint_bound)

lemma read_length_bound: "read_length bs i = Some (n, j) \<Longrightarrow> i < j \<and> j \<le> length bs"
  by (auto simp: read_length_def split: option.splits dest: read_varint_bound)

lemma skip_field_bound: "skip_field wt bs i = Some j \<Longrightarrow> i < j \<and> j \<le> length bs"
  by (auto simp: skip_field_def result_simps split: option.splits if_splits
      dest: read_varint_bound read_length_bound)


section \<open>Reading back what was written\<close>

lemma nat_or_push_bit: "(r :: nat) < 2 ^ s \<Longrightarrow> r OR push_bit s w = r + w * 2 ^ s"
proof -
  assume r: "r < 2 ^ s"
  then have "take_bit s r = r" by (simp add: take_bit_nat_eq_self)
  then have "bit r j \<Longrightarrow> j < s" for j by (metis bit_take_bit_iff)
  then have "r AND push_bit s w = 0"
    by (intro bit_eqI) (auto simp: bit_and_iff bit_push_bit_iff dest: leD)
  then have "r OR push_bit s w = r + push_bit s w" by (simp add: disjunctive_add_eq_or)
  then show ?thesis by (simp add: push_bit_eq_mult)
qed

lemma unat_or_push_bit:
  assumes "unat r < 2 ^ s" and "unat r + unat (b :: u8) * 2 ^ s < 2 ^ 64"
  shows "unat (r OR push_bit s (ucast b) :: u64) = unat r + unat b * 2 ^ s"
proof -
  have "unat (push_bit s (ucast b) :: u64) = take_bit 64 (push_bit s (unat b))"
    by (simp add: unsigned_push_bit_eq unsigned_ucast_eq take_bit_push_bit)
  also have "\<dots> = push_bit s (unat b)"
    using assms(2) by (intro take_bit_nat_eq_self) (simp add: push_bit_eq_mult)
  finally have "unat (push_bit s (ucast b) :: u64) = push_bit s (unat b)" .
  then show ?thesis by (simp add: unsigned_or_eq nat_or_push_bit assms(1))
qed


lemma unat_and_7F: "unat ((b :: u8) AND 0x7F) = unat b mod 128"
proof -
  have "b AND 0x7F = take_bit 7 b" by (simp add: take_bit_eq_mask mask_eq_exp_minus_1)
  then show ?thesis by (simp add: take_bit_eq_mod unat_mod)
qed

lemma and_80: "(b :: u8) AND 0x80 = 0 \<longleftrightarrow> unat b < 128"
proof -
  have "b AND 0x80 = 0 \<longleftrightarrow> (unat b AND 128) = 0"
    by (simp add: word_unat_eq_iff unsigned_and_eq)
  also have "\<dots> \<longleftrightarrow> \<not> bit (unat b) 7"
    using and_exp_eq_0_iff_not_bit [of "unat b" 7] by simp
  also have "\<dots> \<longleftrightarrow> unat b < 128"
  proof -
    have "unat b div 128 = (if unat b < 128 then 0 else 1)" using unat_u8_less [of b] by auto
    then show ?thesis by (simp add: bit_iff_odd)
  qed
  finally show ?thesis .
qed

lemma low7_split: "(n :: nat) * p = n mod 128 * p + n div 128 * (p * 128)"
proof -
  have "n * p = (n div 128 * 128 + n mod 128) * p" by (simp only: div_mult_mod_eq)
  also have "\<dots> = n mod 128 * p + n div 128 * (p * 128)"
    by (simp only: add_mult_distrib add.commute mult.assoc mult.commute [of 128])
  finally show ?thesis .
qed

lemma read_varint_from_written:
  assumes "unat r < 2 ^ s" and "unat r + n * 2 ^ s < 2 ^ 64" and "s \<le> 63" and "7 dvd s"
  shows "read_varint_from (pre @ varint_bytes n @ post) r s (length pre) =
           Some (of_nat (unat r + n * 2 ^ s), length pre + length (varint_bytes n))"
  using assms
proof (induction n arbitrary: r s pre rule: varint_bytes.induct)
  case (1 n)
  show ?case
  proof (cases "n < 128")
    case True
    let ?bs = "pre @ octet n # post"
    have b: "unat (octet n) = n" using True by simp
    have v: "r OR push_bit s (ucast (octet n)) = of_nat (unat r + n * 2 ^ s)"
      using unat_or_push_bit [of r s "octet n"] "1.prems" b by (metis of_nat_unat_length)
    have c: "octet n AND 0x7F = octet n" using b unat_and_7F [of "octet n"] True
      by (metis mod_less octet_unat)
    show ?thesis
    proof (cases "s = 63")
      case s: True
      then have "\<not> octet n > 1" using "1.prems"(2) b by (simp add: word_less_nat_alt)
      with True s v show ?thesis
        by (subst read_varint_from.simps) (simp add: varint_bytes.simps [of n])
    next
      case False
      moreover have "octet n AND 0x80 = 0" using b True by (simp add: and_80)
      ultimately show ?thesis using True v c
        by (subst read_varint_from.simps) (simp add: varint_bytes.simps [of n])
    qed
  next
    case False
    let ?m = "n mod 128"
    let ?b = "octet (128 + ?m)"
    have b: "unat ?b = 128 + ?m" by simp
    have "unat (?b AND 0x7F) = ?m" using b by (simp add: unat_and_7F)
    then have c: "?b AND 0x7F = octet ?m" by (metis octet_unat)
    have n: "n = ?m + 128 * (n div 128)" by simp
    have lt: "n * 2 ^ s < 2 ^ 64" using "1.prems"(2) by simp
    have "2 ^ (7 + s) \<le> n * (2 ^ s :: nat)" using False by (simp add: power_add)
    then have "(2 :: nat) ^ (7 + s) < 2 ^ 64" using lt by (rule le_less_trans)
    then have s: "s < 57" by (simp only: power_strict_increasing_iff)
    have p7: "(2 :: nat) ^ (s + 7) = 2 ^ s * 128" by (simp add: power_add)
    have split: "n * 2 ^ s = ?m * 2 ^ s + (n div 128) * 2 ^ (s + 7)"
      unfolding p7 by (rule low7_split)
    let ?r = "r OR push_bit s (ucast (octet ?m)) :: u64"
    have r: "unat ?r = unat r + ?m * 2 ^ s"
      using unat_or_push_bit [of r s "octet ?m"] "1.prems"(1,2) split by simp
    have m127: "?m * 2 ^ s \<le> 127 * (2 ^ s :: nat)" by (intro mult_le_mono1) simp
    have r_lt: "unat ?r < 2 ^ (s + 7)" unfolding p7 r using m127 "1.prems"(1) by linarith
    have total: "unat ?r + (n div 128) * 2 ^ (s + 7) = unat r + n * 2 ^ s"
      unfolding r split by (simp only: add.assoc)
    have "s + 7 \<le> 63" "7 dvd s + 7" using s "1.prems"(4) by simp_all
    then have "read_varint_from ((pre @ [?b]) @ varint_bytes (n div 128) @ post) ?r (s + 7)
        (length (pre @ [?b])) = Some (of_nat (unat r + n * 2 ^ s),
          length (pre @ [?b]) + length (varint_bytes (n div 128)))"
      using "1.IH" [OF False r_lt, of "pre @ [?b]"] "1.prems"(2) unfolding total by blast
    moreover have "?b AND 0x80 \<noteq> 0" using b by (simp add: and_80)
    ultimately show ?thesis using False s c
      by (subst read_varint_from.simps) (simp add: varint_bytes.simps [of n])
  qed
qed


lemma read_varint_written:
  "n < 2 ^ 64 \<Longrightarrow> read_varint (pre @ varint_bytes n @ post) (length pre) =
     Some (of_nat n, length pre + length (varint_bytes n))"
  using read_varint_from_written [of 0 0 n pre post] by (simp add: read_varint_def)

lemma read_length_written:
  "n < 2 ^ 64 \<Longrightarrow> read_length (pre @ varint_bytes n @ post) (length pre) =
     Some (n, length pre + length (varint_bytes n))"
  by (simp add: read_length_def read_varint_written unat_of_nat_u64)

lemma tag_bytes_simps [simp]:
  "tag_bytes 1 0 = [0x08]" "tag_bytes 1 2 = [0x0A]" "tag_bytes 2 2 = [0x12]" "tag_bytes 3 2 = [0x1A]"
  by (simp_all add: tag_bytes_def varint_bytes.simps octet_def)

lemma varint_bytes_single: "n < 128 \<Longrightarrow> varint_bytes n = [octet n]"
  by (simp add: varint_bytes.simps)

lemma read_tag_known:
  "read_tag (pre @ 0x0A # post) (length pre) = Some (1, 2, Suc (length pre))"
  "read_tag (pre @ 0x12 # post) (length pre) = Some (2, 2, Suc (length pre))"
  using read_varint_written [of 10 pre post] read_varint_written [of 18 pre post]
  by (simp_all add: varint_bytes_single octet_def read_tag_def MAX_PROTOBUF_FIELD_NUMBER_def)

lemma length_varint_bytes: "n < 2 ^ (7 * k) \<Longrightarrow> 0 < k \<Longrightarrow> length (varint_bytes n) \<le> k"
proof (induction k arbitrary: n)
  case (Suc k)
  show ?case
  proof (cases "n < 128")
    case False
    then have "0 < k" using Suc.prems(1) by (cases k) auto
    moreover have "n div 128 < 2 ^ (7 * k)"
      using Suc.prems(1) by (simp add: power_add less_mult_imp_div_less mult.commute)
    ultimately show ?thesis using False Suc.IH [of "n div 128"]
      by (simp add: varint_bytes.simps [of n])
  qed (simp add: varint_bytes.simps [of n])
qed simp

lemma varint_bytes_nonempty [simp]: "varint_bytes n \<noteq> []"
  by (simp add: varint_bytes.simps [of n])


section \<open>The varint codec\<close>

lemma push_varint_vec:
  "vec_sink_ok S \<Longrightarrow> push_varint S d v = d @ varint_bytes (unat v)"
  using encode_sink.holds_push_varint [OF vec_encode_sink, of S d d v] by simp

lemma push_len_field_vec:
  assumes "vec_sink_ok S" and "length v < 2 ^ 64"
  shows "push_len_field S f v d = (Inr (), d @ len_field_bytes f v)"
  using encode_sink.push_len_field_ok [OF vec_encode_sink [OF assms(1)] assms(2), of f d]
    encode_sink.holds_push_len_field [OF vec_encode_sink [OF assms(1)], of f v d _ d] by auto

text \<open>A byte vector sink, on which the hypotheses about the vector sink hold.\<close>

definition list_sink :: "bytes sink" where
  "list_sink = \<lparr>put_u8 = (\<lambda>d b. d @ [b]), put_slice = (\<lambda>d bs. d @ bs),
                 put_u32_le = (\<lambda>d w. d @ le_octets 4 (unat w)),
                 put_u64_le = (\<lambda>d w. d @ le_octets 8 (unat w))\<rparr>"

lemma vec_sink_ok_list_sink [simp]: "vec_sink_ok list_sink"
  by (simp add: vec_sink_ok_def list_sink_def)

text \<open>
  The varint writer and the varint reader are inverse, for every 64-bit value, at every
  position of a buffer and whatever follows; the writer emits between one and ten octets,
  and the reader stops right after them.
\<close>

theorem varint_roundtrip:
  assumes "vec_sink_ok S"
  shows "read_varint (push_varint S d v @ post) (length d)
           = Some (v, length (push_varint S d v)) \<and>
         length d < length (push_varint S d v) \<and> length (push_varint S d v) \<le> length d + 10"
proof (intro conjI)
  have v: "unat v < 2 ^ 64" using unat_u64_less [of v] by simp
  then show "read_varint (push_varint S d v @ post) (length d) =
      Some (v, length (push_varint S d v))"
    by (simp add: push_varint_vec [OF assms] read_varint_written)
  have "unat v < 2 ^ (7 * 10)" using unat_u64_less [of v] by simp
  then have "length (varint_bytes (unat v)) \<le> 10" by (rule length_varint_bytes) simp
  then show "length (push_varint S d v) \<le> length d + 10" by (simp add: push_varint_vec [OF assms])
  show "length d < length (push_varint S d v)" by (simp add: push_varint_vec [OF assms])
qed

theorem varint_roundtrip_witness:
  "read_varint (push_varint list_sink [7] 300 @ [1, 2]) 1
     = Some (300, length (push_varint list_sink [7] 300))"
  using varint_roundtrip [OF vec_sink_ok_list_sink, of "[7]" 300 "[1, 2]"] by simp

end
