(* ===== verification/Messages.thy ===== *)
theory Messages
  imports Wire
begin

text \<open>
  The stable protobuf message facade of \<open>yaml-sigil-core/src/pb.rs\<close>: the owned messages
  \<open>YamlSigilSignature\<close> and \<open>SignedYamlArtifact\<close>, the borrowed views, their error types, and
  the encoders every one of them shares through the \<open>FacadeEncode\<close> trait. The generated
  protobuf code and the buffa runtime are not under src/: they are the fields of
  \<open>buffa_ext\<close>.
\<close>

section \<open>Errors\<close>

text \<open>The constructors of \<open>buffa::DecodeError\<close> the facade matches, and any other.\<close>

datatype buffa_decode_error =
    BD_UnexpectedEof | BD_VarintTooLong | BD_InvalidWireType | BD_InvalidFieldNumber
  | BD_MessageTooLarge | BD_WireTypeMismatch | BD_InvalidUtf8 | BD_RecursionLimitExceeded
  | BD_InvalidEndGroup | BD_UnknownFieldLimitExceeded | BD_ElementMemoryLimitExceeded
  | BD_Unmatched

datatype decode_error_kind =
    DEK_UnexpectedEnd | DEK_InvalidVarint | DEK_InvalidFieldNumber | DEK_InvalidWireType
  | DEK_UnexpectedWireType | DEK_InvalidUtf8 | DEK_MessageTooLarge
  | DEK_RecursionLimitExceeded | DEK_UnknownFieldLimitExceeded
  | DEK_ElementMemoryLimitExceeded | DEK_InvalidGroup | DEK_Other

fun decode_kind_description :: "decode_error_kind \<Rightarrow> str" where
  "decode_kind_description DEK_UnexpectedEnd = ascii ''unexpected end of input''"
| "decode_kind_description DEK_InvalidVarint = ascii ''invalid varint''"
| "decode_kind_description DEK_InvalidFieldNumber = ascii ''invalid field number''"
| "decode_kind_description DEK_InvalidWireType = ascii ''invalid wire type''"
| "decode_kind_description DEK_UnexpectedWireType = ascii ''unexpected wire type for field''"
| "decode_kind_description DEK_InvalidUtf8 = ascii ''invalid UTF-8 string field''"
| "decode_kind_description DEK_MessageTooLarge =
     ascii ''message exceeds the protobuf size ceiling''"
| "decode_kind_description DEK_RecursionLimitExceeded =
     ascii ''decoder recursion safeguard exceeded''"
| "decode_kind_description DEK_UnknownFieldLimitExceeded =
     ascii ''decoder unknown-field safeguard exceeded''"
| "decode_kind_description DEK_ElementMemoryLimitExceeded =
     ascii ''decoder element-memory safeguard exceeded''"
| "decode_kind_description DEK_InvalidGroup = ascii ''invalid protobuf group''"
| "decode_kind_description DEK_Other = ascii ''other protobuf decode failure''"

record decode_error =
  de_kind :: decode_error_kind

fun decode_error_from_buffa :: "buffa_decode_error \<Rightarrow> decode_error" where
  "decode_error_from_buffa BD_UnexpectedEof = \<lparr>de_kind = DEK_UnexpectedEnd\<rparr>"
| "decode_error_from_buffa BD_VarintTooLong = \<lparr>de_kind = DEK_InvalidVarint\<rparr>"
| "decode_error_from_buffa BD_InvalidWireType = \<lparr>de_kind = DEK_InvalidWireType\<rparr>"
| "decode_error_from_buffa BD_InvalidFieldNumber = \<lparr>de_kind = DEK_InvalidFieldNumber\<rparr>"
| "decode_error_from_buffa BD_MessageTooLarge = \<lparr>de_kind = DEK_MessageTooLarge\<rparr>"
| "decode_error_from_buffa BD_WireTypeMismatch = \<lparr>de_kind = DEK_UnexpectedWireType\<rparr>"
| "decode_error_from_buffa BD_InvalidUtf8 = \<lparr>de_kind = DEK_InvalidUtf8\<rparr>"
| "decode_error_from_buffa BD_RecursionLimitExceeded =
     \<lparr>de_kind = DEK_RecursionLimitExceeded\<rparr>"
| "decode_error_from_buffa BD_InvalidEndGroup = \<lparr>de_kind = DEK_InvalidGroup\<rparr>"
| "decode_error_from_buffa BD_UnknownFieldLimitExceeded =
     \<lparr>de_kind = DEK_UnknownFieldLimitExceeded\<rparr>"
| "decode_error_from_buffa BD_ElementMemoryLimitExceeded =
     \<lparr>de_kind = DEK_ElementMemoryLimitExceeded\<rparr>"
| "decode_error_from_buffa BD_Unmatched = \<lparr>de_kind = DEK_Other\<rparr>"

definition decode_error_display :: "decode_error \<Rightarrow> str" where
  "decode_error_display e = ascii ''protobuf decode failed: '' @ decode_kind_description (de_kind e)"

datatype encode_error_kind = EEK_MessageTooLarge | EEK_Other

fun encode_kind_description :: "encode_error_kind \<Rightarrow> str" where
  "encode_kind_description EEK_MessageTooLarge =
     ascii ''message exceeds the protobuf size ceiling''"
| "encode_kind_description EEK_Other = ascii ''other protobuf encode failure''"

record encode_error =
  ee_kind :: encode_error_kind

definition message_too_large :: encode_error where
  "message_too_large = \<lparr>ee_kind = EEK_MessageTooLarge\<rparr>"

definition encode_error_other :: encode_error where
  "encode_error_other = \<lparr>ee_kind = EEK_Other\<rparr>"

definition encode_error_display :: "encode_error \<Rightarrow> str" where
  "encode_error_display e = ascii ''protobuf encode failed: '' @ encode_kind_description (ee_kind e)"

section \<open>The generated code and the protobuf runtime\<close>

text \<open>
  The public fields of the generated messages and views. \<open>'u\<close> stands for the unknown fields
  an owned message retains, \<open>'w\<close> for those of a view.
\<close>

record 'u gen_signature =
  gs_alg :: i32
  gs_keyid :: "str option"
  gs_signature :: bytes
  gs_unknown :: 'u

record 'u gen_artifact =
  ga_payload :: bytes
  ga_signature :: "'u gen_signature option"
  ga_unknown :: 'u

record ('u, 'w) buffa_ext = traits_ext +
  max_message_bytes :: u32
  vec_sink :: "bytes sink"
  uf_new :: 'u
  uf_is_empty :: "'u \<Rightarrow> bool"
  uf_clear :: "'u \<Rightarrow> 'u"
  uf_write :: "'u \<Rightarrow> put list"
  uv_is_empty :: "'w \<Rightarrow> bool"
  uv_write :: "'w \<Rightarrow> put list"
  buffa_decode_signature :: "bytes \<Rightarrow> buffa_decode_error + 'u gen_signature"
  buffa_decode_artifact :: "bytes \<Rightarrow> buffa_decode_error + 'u gen_artifact"
  buffa_view_signature :: "bytes \<Rightarrow> buffa_decode_error + 'w gen_signature"
  buffa_view_artifact :: "bytes \<Rightarrow> buffa_decode_error + 'w gen_artifact"
  view_signature_to_owned :: "'w gen_signature \<Rightarrow> buffa_decode_error + 'u gen_signature"
  view_artifact_to_owned :: "'w gen_artifact \<Rightarrow> buffa_decode_error + 'u gen_artifact"

text \<open>
  The documented behaviour of the runtime: the vector sink appends, and a fresh or cleared
  set of unknown fields is empty and writes nothing.
\<close>

definition buffa_ok :: "('u, 'w, 'z) buffa_ext_scheme \<Rightarrow> bool" where
  "buffa_ok x \<longleftrightarrow> vec_sink_ok (vec_sink x) \<and>
     (\<forall>u. uf_is_empty x u \<longrightarrow> puts_bytes (uf_write x u) = []) \<and>
     uf_is_empty x (uf_new x) \<and> (\<forall>u. uf_is_empty x (uf_clear x u))"

section \<open>Size checks\<close>

definition check_encoded_message_size ::
    "('u, 'w, 'z) buffa_ext_scheme \<Rightarrow> usize \<Rightarrow> encode_error + usize" where
  "check_encoded_message_size x encoded_size =
     result_try (ok_or (u64_of_usize encoded_size) message_too_large)
       (\<lambda>encoded_size_u64.
          if encoded_size_u64 > ucast (max_message_bytes x) then Inl message_too_large
          else Inr encoded_size)"

definition check_protobuf_size ::
    "('u, 'w, 'z) buffa_ext_scheme \<Rightarrow> u64 \<Rightarrow> encode_error + usize" where
  "check_protobuf_size x raw_size =
     result_try (ok_or (usize_of_u64 raw_size) message_too_large)
       (check_encoded_message_size x)"

definition resource_protobuf_size_preflight_for_platform ::
    "('u, 'w, 'z) buffa_ext_scheme \<Rightarrow> u64 \<Rightarrow> u64 \<Rightarrow> artifact_resource_limits
       \<Rightarrow> (encode_error + usize) resource_result" where
  "resource_protobuf_size_preflight_for_platform x raw_size platform_maximum limits =
     (if raw_size > platform_maximum then Inl (size_computation_overflow limits RF_Protobuf)
      else result_try (ok_or (usize_of_u64 raw_size) (size_computation_overflow limits RF_Protobuf))
        (\<lambda>encoded_len. result_try (check_output_size limits RF_Protobuf encoded_len)
           (\<lambda>_. Inr (check_protobuf_size x raw_size))))"

definition resource_protobuf_size_preflight ::
    "('u, 'w, 'z) buffa_ext_scheme \<Rightarrow> u64 \<Rightarrow> artifact_resource_limits
       \<Rightarrow> (encode_error + usize) resource_result" where
  "resource_protobuf_size_preflight x raw_size limits =
     (let platform_maximum = (case u64_of_usize USIZE_MAX of Some v \<Rightarrow> v | None \<Rightarrow> - 1)
      in resource_protobuf_size_preflight_for_platform x raw_size platform_maximum limits)"

definition resource_raw_outer_size_preflight ::
    "('u, 'w, 'z) buffa_ext_scheme \<Rightarrow> u64 \<Rightarrow> artifact_resource_limits
       \<Rightarrow> (encode_error + usize) resource_result" where
  "resource_raw_outer_size_preflight x raw_size limits =
     resource_protobuf_size_preflight x raw_size limits"

section \<open>The encoders shared by every message\<close>

text \<open>
  A type that implements \<open>FacadeEncode\<close> has one writer, generic in the sink; its two uses
  are the fields of \<open>facade\<close>.
\<close>

record 'v facade =
  write_size :: "'v \<Rightarrow> checked_size_sink writer"
  write_vec :: "'v \<Rightarrow> bytes writer"

definition raw_facade_encoded_len :: "('v \<Rightarrow> checked_size_sink writer) \<Rightarrow> 'v \<Rightarrow> size_overflow + u64" where
  "raw_facade_encoded_len write v =
     (case write v default_size_sink of
        (Inl e, counter) \<Rightarrow> Inl e
      | (Inr u, counter) \<Rightarrow> finish counter)"

definition facade_encoded_len ::
    "('u, 'w, 'z) buffa_ext_scheme \<Rightarrow> 'v facade \<Rightarrow> 'v \<Rightarrow> encode_error + usize" where
  "facade_encoded_len x F v =
     result_try (map_err (\<lambda>_. message_too_large) (raw_facade_encoded_len (write_size F) v))
       (check_protobuf_size x)"

definition resource_facade_encoded_len ::
    "('u, 'w, 'z) buffa_ext_scheme \<Rightarrow> 'v facade \<Rightarrow> 'v \<Rightarrow> artifact_resource_limits
       \<Rightarrow> (encode_error + usize) resource_result" where
  "resource_facade_encoded_len x F v limits =
     (case raw_facade_encoded_len (write_size F) v of
        Inl _ \<Rightarrow> Inl (size_computation_overflow limits RF_Protobuf)
      | Inr raw_size \<Rightarrow> resource_protobuf_size_preflight x raw_size limits)"

definition encode_facade_to_vec ::
    "('u, 'w, 'z) buffa_ext_scheme \<Rightarrow> 'v facade \<Rightarrow> 'v \<Rightarrow> encode_error + bytes" where
  "encode_facade_to_vec x F v =
     result_try (facade_encoded_len x F v)
       (\<lambda>encoded_len.
          (case write_vec F v [] of
             (Inl _, destination) \<Rightarrow> Inl message_too_large
           | (Inr _, destination) \<Rightarrow> Inr destination))"

text \<open>The appending encoders return the destination, which they may have changed.\<close>

definition encode_facade_into ::
    "('u, 'w, 'z) buffa_ext_scheme \<Rightarrow> 'v facade \<Rightarrow> 'v \<Rightarrow> bytes \<Rightarrow> (encode_error + unit) \<times> bytes" where
  "encode_facade_into x F v destination =
     (case facade_encoded_len x F v of
        Inl e \<Rightarrow> (Inl e, destination)
      | Inr encoded_len \<Rightarrow>
          (let original_len = length destination in
           (case write_vec F v destination of
              (Inr _, d) \<Rightarrow> (Inr (), d)
            | (Inl _, d) \<Rightarrow> (Inl message_too_large, take original_len d))))"

definition encode_facade_to_vec_with_resource_limits ::
    "('u, 'w, 'z) buffa_ext_scheme \<Rightarrow> 'v facade \<Rightarrow> 'v \<Rightarrow> artifact_resource_limits
       \<Rightarrow> (encode_error + bytes) resource_result" where
  "encode_facade_to_vec_with_resource_limits x F v limits =
     result_try (resource_facade_encoded_len x F v limits)
       (\<lambda>r. case r of
          Inl e \<Rightarrow> Inr (Inl e)
        | Inr encoded_len \<Rightarrow>
            (case write_vec F v [] of
               (Inl _, destination) \<Rightarrow> Inr (Inl encode_error_other)
             | (Inr _, destination) \<Rightarrow> Inr (Inr destination)))"

definition encode_facade_into_with_resource_limits ::
    "('u, 'w, 'z) buffa_ext_scheme \<Rightarrow> 'v facade \<Rightarrow> 'v \<Rightarrow> bytes \<Rightarrow> artifact_resource_limits
       \<Rightarrow> (encode_error + unit) resource_result \<times> bytes" where
  "encode_facade_into_with_resource_limits x F v destination limits =
     (case resource_facade_encoded_len x F v limits of
        Inl re \<Rightarrow> (Inl re, destination)
      | Inr (Inl e) \<Rightarrow> (Inr (Inl e), destination)
      | Inr (Inr encoded_len) \<Rightarrow>
          (let original_len = length destination in
           (case write_vec F v destination of
              (Inr _, d) \<Rightarrow> (Inr (Inr ()), d)
            | (Inl _, d) \<Rightarrow> (Inr (Inl encode_error_other), take original_len d))))"


section \<open>The contract of a message encoder\<close>

text \<open>
  What the shared encoders rely on: both uses of the writer produce the same wire bytes, the
  vector use only ever appends, and a writer fails only on a message of 2^64 bytes or more.
\<close>

locale facade_encode =
  fixes F :: "('u, 'w, 'z) buffa_ext_scheme \<Rightarrow> 'v facade"
    and wire :: "('u, 'w, 'z) buffa_ext_scheme \<Rightarrow> 'v \<Rightarrow> bytes"
  assumes write_vec_ok: "vec_sink_ok (vec_sink x) \<Longrightarrow> length (wire x v) < 2 ^ 64 \<Longrightarrow> write_vec (F x) v d = (Inr (), d @ wire x v)"
    and write_vec_appends: "vec_sink_ok (vec_sink x) \<Longrightarrow> \<exists>r d'. write_vec (F x) v d = (r, d @ d')"
    and write_size_ok: "length (wire x v) < 2 ^ 64 \<Longrightarrow> \<exists>c'. write_size (F x) v c = (Inr (), c')"
    and write_size_counts:
      "sized c bs \<Longrightarrow> write_size (F x) v c = (Inr (), c') \<Longrightarrow> sized c' (bs @ wire x v)"
begin

lemma raw_len:
  "raw_facade_encoded_len (write_size (F x)) v =
     (if length (wire x v) < 2 ^ 64 then Inr (of_nat (length (wire x v))) else Inl SizeOverflow)"
proof (cases "write_size (F x) v default_size_sink")
  case (Pair r c')
  show ?thesis
  proof (cases r)
    case (Inl e)
    then have "\<not> length (wire x v) < 2 ^ 64"
      using write_size_ok [of x v default_size_sink] Pair by auto
    with Inl Pair show ?thesis by (cases e) (simp add: raw_facade_encoded_len_def)
  next
    case (Inr u)
    then have "sized c' (wire x v)"
      using write_size_counts [OF sized_default, of x v c'] Pair by simp
    with Inr Pair show ?thesis by (simp add: raw_facade_encoded_len_def finish_sized)
  qed
qed

lemma encoded_len:
  "facade_encoded_len x (F x) v =
     (if length (wire x v) \<le> unat (max_message_bytes x) then Inr (length (wire x v))
      else Inl message_too_large)"
proof -
  have m: "unat (max_message_bytes x) < 2 ^ 32"
    using unsigned_less [of "max_message_bytes x", where ?'a = nat] by simp
  have "(of_nat (length (wire x v)) :: u64) > ucast (max_message_bytes x) \<longleftrightarrow>
      length (wire x v) > unat (max_message_bytes x)" if "length (wire x v) < 2 ^ 64"
    using that m by (simp add: word_less_nat_alt unat_of_nat_u64 unsigned_ucast_eq take_bit_nat_eq_self)
  then show ?thesis using m
    by (auto simp: facade_encoded_len_def raw_len check_protobuf_size_def
        check_encoded_message_size_def unat_of_nat_u64 u64_of_usize_def)
qed

lemma encode_to_vec:
  "vec_sink_ok (vec_sink x) \<Longrightarrow> encode_facade_to_vec x (F x) v =
     (if length (wire x v) \<le> unat (max_message_bytes x) then Inr (wire x v) else Inl message_too_large)"
proof -
  assume ok: "vec_sink_ok (vec_sink x)"
  have "unat (max_message_bytes x) < 2 ^ 64"
    using unsigned_less [of "max_message_bytes x", where ?'a = nat] by simp
  then show ?thesis using ok write_vec_ok [of x v "[]"]
    by (simp add: encode_facade_to_vec_def encoded_len)
qed

lemma encode_into:
  "vec_sink_ok (vec_sink x) \<Longrightarrow> encode_facade_into x (F x) v d =
     (if length (wire x v) \<le> unat (max_message_bytes x) then (Inr (), d @ wire x v)
      else (Inl message_too_large, d))"
proof -
  assume ok: "vec_sink_ok (vec_sink x)"
  have "unat (max_message_bytes x) < 2 ^ 64"
    using unsigned_less [of "max_message_bytes x", where ?'a = nat] by simp
  then show ?thesis using ok write_vec_ok [of x v d]
    by (simp add: encode_facade_into_def encoded_len)
qed

lemma resource_len:
  "resource_facade_encoded_len x (F x) v l =
     (if 2 ^ 64 \<le> length (wire x v) then Inl (size_computation_overflow l RF_Protobuf)
      else result_try (check_output_size l RF_Protobuf (length (wire x v)))
             (\<lambda>_. Inr (facade_encoded_len x (F x) v)))"
proof (cases "length (wire x v) < 2 ^ 64")
  case True
  have "\<not> (w :: u64) > of_nat USIZE_MAX" for w
    using unat_u64_less [of w] by (simp add: USIZE_MAX_def not_less word_le_nat_alt)
  then show ?thesis using True
    by (simp add: resource_facade_encoded_len_def raw_len resource_protobuf_size_preflight_def
        resource_protobuf_size_preflight_for_platform_def facade_encoded_len_def unat_of_nat_u64
        u64_of_usize_def USIZE_MAX_def)
qed (simp add: resource_facade_encoded_len_def raw_len)

lemma encode_to_vec_limits:
  assumes "vec_sink_ok (vec_sink x)" and "length (wire x v) < 2 ^ 64"
  shows "encode_facade_to_vec_with_resource_limits x (F x) v l =
     result_try (check_output_size l RF_Protobuf (length (wire x v)))
       (\<lambda>_. Inr (encode_facade_to_vec x (F x) v))"
  using assms write_vec_ok [of x v "[]"]
  by (cases "check_output_size l RF_Protobuf (length (wire x v))")
     (simp_all add: encode_facade_to_vec_with_resource_limits_def resource_len encode_facade_to_vec_def
        encoded_len)

lemma encode_into_limits:
  assumes "vec_sink_ok (vec_sink x)" and "length (wire x v) < 2 ^ 64"
  shows "encode_facade_into_with_resource_limits x (F x) v d l =
     (case check_output_size l RF_Protobuf (length (wire x v)) of
        Inl re \<Rightarrow> (Inl re, d)
      | Inr _ \<Rightarrow> (case encode_facade_into x (F x) v d of (r, d') \<Rightarrow> (Inr r, d')))"
  using assms write_vec_ok [of x v d]
  by (cases "check_output_size l RF_Protobuf (length (wire x v))")
     (simp_all add: encode_facade_into_with_resource_limits_def resource_len encode_facade_into_def
        encoded_len)

lemma encode_into_limits_overflow:
  assumes "2 ^ 64 \<le> length (wire x v)"
  shows "encode_facade_into_with_resource_limits x (F x) v d l =
           (Inl (size_computation_overflow l RF_Protobuf), d)"
    and "encode_facade_to_vec_with_resource_limits x (F x) v l =
           Inl (size_computation_overflow l RF_Protobuf)"
  using assms by (simp_all add: encode_facade_into_with_resource_limits_def
      encode_facade_to_vec_with_resource_limits_def resource_len)

end


section \<open>The owned signature message\<close>

record 'u yaml_sigil_signature =
  ys_algorithm_wire_value :: i32
  ys_keyid :: "str option"
  ys_signature :: bytes
  ys_unknown_fields :: 'u

fun algorithm_wire_value :: "algorithm_id \<Rightarrow> i32" where
  "algorithm_wire_value Ed25519 = 1"
| "algorithm_wire_value EcdsaP256Sha256 = 2"

definition signature_default :: "('u, 'w, 'z) buffa_ext_scheme \<Rightarrow> 'u yaml_sigil_signature" where
  "signature_default x = \<lparr>ys_algorithm_wire_value = 0, ys_keyid = None, ys_signature = [],
     ys_unknown_fields = uf_new x\<rparr>"

definition signature_new ::
    "('u, 'w, 'z) buffa_ext_scheme \<Rightarrow> algorithm_id \<Rightarrow> bytes \<Rightarrow> 'u yaml_sigil_signature" where
  "signature_new x a sig =
     (signature_default x)\<lparr>ys_algorithm_wire_value := algorithm_wire_value a, ys_signature := sig\<rparr>"

definition sig_algorithm ::
    "('u, 'w, 'z) buffa_ext_scheme \<Rightarrow> 'u yaml_sigil_signature \<Rightarrow> algorithm_id option" where
  "sig_algorithm x v = from_i32 x (ys_algorithm_wire_value v)"

definition sig_set_algorithm ::
    "algorithm_id \<Rightarrow> 'u yaml_sigil_signature \<Rightarrow> 'u yaml_sigil_signature" where
  "sig_set_algorithm a v = v\<lparr>ys_algorithm_wire_value := algorithm_wire_value a\<rparr>"

definition sig_set_algorithm_wire_value ::
    "i32 \<Rightarrow> 'u yaml_sigil_signature \<Rightarrow> 'u yaml_sigil_signature" where
  "sig_set_algorithm_wire_value w v = v\<lparr>ys_algorithm_wire_value := w\<rparr>"

definition sig_keyid_mut ::
    "(str \<Rightarrow> str) \<Rightarrow> 'u yaml_sigil_signature \<Rightarrow> 'u yaml_sigil_signature" where
  "sig_keyid_mut f v = v\<lparr>ys_keyid := map_option f (ys_keyid v)\<rparr>"

definition sig_set_keyid :: "str option \<Rightarrow> 'u yaml_sigil_signature \<Rightarrow> 'u yaml_sigil_signature" where
  "sig_set_keyid k v = v\<lparr>ys_keyid := k\<rparr>"

definition sig_signature_mut ::
    "(bytes \<Rightarrow> bytes) \<Rightarrow> 'u yaml_sigil_signature \<Rightarrow> 'u yaml_sigil_signature" where
  "sig_signature_mut f v = v\<lparr>ys_signature := f (ys_signature v)\<rparr>"

definition sig_set_signature :: "bytes \<Rightarrow> 'u yaml_sigil_signature \<Rightarrow> 'u yaml_sigil_signature" where
  "sig_set_signature bs v = v\<lparr>ys_signature := bs\<rparr>"

definition sig_has_unknown_fields ::
    "('u, 'w, 'z) buffa_ext_scheme \<Rightarrow> 'u yaml_sigil_signature \<Rightarrow> bool" where
  "sig_has_unknown_fields x v = (\<not> uf_is_empty x (ys_unknown_fields v))"

definition sig_discard_unknown_fields ::
    "('u, 'w, 'z) buffa_ext_scheme \<Rightarrow> 'u yaml_sigil_signature \<Rightarrow> 'u yaml_sigil_signature" where
  "sig_discard_unknown_fields x v = v\<lparr>ys_unknown_fields := uf_clear x (ys_unknown_fields v)\<rparr>"

definition signature_from_generated :: "'u gen_signature \<Rightarrow> 'u yaml_sigil_signature" where
  "signature_from_generated g = \<lparr>ys_algorithm_wire_value = gs_alg g, ys_keyid = gs_keyid g,
     ys_signature = gs_signature g, ys_unknown_fields = gs_unknown g\<rparr>"

definition decode_generated_signature ::
    "('u, 'w, 'z) buffa_ext_scheme \<Rightarrow> bytes \<Rightarrow> decode_error + 'u yaml_sigil_signature" where
  "decode_generated_signature x input =
     map_err decode_error_from_buffa
       (result_map signature_from_generated (buffa_decode_signature x input))"

definition signature_decode ::
    "('u, 'w, 'z) buffa_ext_scheme \<Rightarrow> bytes \<Rightarrow> decode_error + 'u yaml_sigil_signature" where
  "signature_decode x input = decode_generated_signature x input"

definition signature_decode_from_slice ::
    "('u, 'w, 'z) buffa_ext_scheme \<Rightarrow> bytes \<Rightarrow> decode_error + 'u yaml_sigil_signature" where
  "signature_decode_from_slice x input = signature_decode x input"

text \<open>
  The writers of the owned and the borrowed signature are the same statements on the same four
  fields; \<open>write_signature_fields\<close> is their common body.
\<close>

definition write_signature_fields ::
    "'s sink \<Rightarrow> i32 \<Rightarrow> str option \<Rightarrow> bytes \<Rightarrow> put list \<Rightarrow> 's writer" where
  "write_signature_fields S w k sig unknown =
     and_then (write_ok (\<lambda>d. if w \<noteq> 0 then push_varint S (push_tag S d 1 0) (scast w) else d))
    (and_then (case k of Some kid \<Rightarrow> push_len_field S 2 kid | None \<Rightarrow> write_ok (\<lambda>d. d))
    (and_then (if sig \<noteq> [] then push_len_field S 3 sig else write_ok (\<lambda>d. d))
       (write_ok (write_to unknown S))))"

definition write_signature ::
    "('u, 'w, 'z) buffa_ext_scheme \<Rightarrow> 's sink \<Rightarrow> 'u yaml_sigil_signature \<Rightarrow> 's writer" where
  "write_signature x S v =
     write_signature_fields S (ys_algorithm_wire_value v) (ys_keyid v) (ys_signature v)
       (uf_write x (ys_unknown_fields v))"

definition signature_facade ::
    "('u, 'w, 'z) buffa_ext_scheme \<Rightarrow> 'u yaml_sigil_signature facade" where
  "signature_facade x =
     \<lparr>write_size = write_signature x size_sink, write_vec = write_signature x (vec_sink x)\<rparr>"

definition signature_encoded_len ::
    "('u, 'w, 'z) buffa_ext_scheme \<Rightarrow> 'u yaml_sigil_signature \<Rightarrow> encode_error + usize" where
  "signature_encoded_len x v = facade_encoded_len x (signature_facade x) v"

definition signature_encode_to_vec ::
    "('u, 'w, 'z) buffa_ext_scheme \<Rightarrow> 'u yaml_sigil_signature \<Rightarrow> encode_error + bytes" where
  "signature_encode_to_vec x v = encode_facade_to_vec x (signature_facade x) v"

definition signature_encode_into ::
    "('u, 'w, 'z) buffa_ext_scheme \<Rightarrow> 'u yaml_sigil_signature \<Rightarrow> bytes
       \<Rightarrow> (encode_error + unit) \<times> bytes" where
  "signature_encode_into x v destination = encode_facade_into x (signature_facade x) v destination"

section \<open>The owned artifact message\<close>

record 'u signed_yaml_artifact =
  sa_payload :: bytes
  sa_signature :: "'u yaml_sigil_signature option"
  sa_unknown_fields :: 'u

definition artifact_default :: "('u, 'w, 'z) buffa_ext_scheme \<Rightarrow> 'u signed_yaml_artifact" where
  "artifact_default x = \<lparr>sa_payload = [], sa_signature = None, sa_unknown_fields = uf_new x\<rparr>"

definition artifact_new ::
    "('u, 'w, 'z) buffa_ext_scheme \<Rightarrow> bytes \<Rightarrow> 'u yaml_sigil_signature option
       \<Rightarrow> 'u signed_yaml_artifact" where
  "artifact_new x payload sig =
     \<lparr>sa_payload = payload, sa_signature = sig, sa_unknown_fields = uf_new x\<rparr>"

definition artifact_from_generated :: "'u gen_artifact \<Rightarrow> 'u signed_yaml_artifact" where
  "artifact_from_generated g =
     \<lparr>sa_payload = ga_payload g,
      sa_signature = map_option signature_from_generated (ga_signature g),
      sa_unknown_fields = ga_unknown g\<rparr>"

definition decode_generated_artifact ::
    "('u, 'w, 'z) buffa_ext_scheme \<Rightarrow> bytes \<Rightarrow> decode_error + 'u signed_yaml_artifact" where
  "decode_generated_artifact x input =
     map_err decode_error_from_buffa
       (result_map artifact_from_generated (buffa_decode_artifact x input))"

definition artifact_decode ::
    "('u, 'w, 'z) buffa_ext_scheme \<Rightarrow> bytes \<Rightarrow> decode_error + 'u signed_yaml_artifact" where
  "artifact_decode x input = decode_generated_artifact x input"

definition artifact_decode_with_resource_limits ::
    "('u, 'w, 'z) buffa_ext_scheme \<Rightarrow> bytes \<Rightarrow> artifact_resource_limits
       \<Rightarrow> (decode_error + 'u signed_yaml_artifact) resource_result" where
  "artifact_decode_with_resource_limits x input limits =
     result_try (check_input_size limits RF_Protobuf input) (\<lambda>i. Inr (artifact_decode x i))"

definition artifact_decode_from_slice ::
    "('u, 'w, 'z) buffa_ext_scheme \<Rightarrow> bytes \<Rightarrow> decode_error + 'u signed_yaml_artifact" where
  "artifact_decode_from_slice x input = artifact_decode x input"

definition art_payload_mut ::
    "(bytes \<Rightarrow> bytes) \<Rightarrow> 'u signed_yaml_artifact \<Rightarrow> 'u signed_yaml_artifact" where
  "art_payload_mut f v = v\<lparr>sa_payload := f (sa_payload v)\<rparr>"

definition art_set_payload :: "bytes \<Rightarrow> 'u signed_yaml_artifact \<Rightarrow> 'u signed_yaml_artifact" where
  "art_set_payload p v = v\<lparr>sa_payload := p\<rparr>"

definition art_signature_mut ::
    "('u yaml_sigil_signature \<Rightarrow> 'u yaml_sigil_signature) \<Rightarrow> 'u signed_yaml_artifact
       \<Rightarrow> 'u signed_yaml_artifact" where
  "art_signature_mut f v = v\<lparr>sa_signature := map_option f (sa_signature v)\<rparr>"

definition art_set_signature ::
    "'u yaml_sigil_signature option \<Rightarrow> 'u signed_yaml_artifact \<Rightarrow> 'u signed_yaml_artifact" where
  "art_set_signature sig v = v\<lparr>sa_signature := sig\<rparr>"

definition art_take_signature ::
    "'u signed_yaml_artifact \<Rightarrow> 'u yaml_sigil_signature option \<times> 'u signed_yaml_artifact" where
  "art_take_signature v = (sa_signature v, v\<lparr>sa_signature := None\<rparr>)"

definition art_has_unknown_fields ::
    "('u, 'w, 'z) buffa_ext_scheme \<Rightarrow> 'u signed_yaml_artifact \<Rightarrow> bool" where
  "art_has_unknown_fields x v =
     (\<not> uf_is_empty x (sa_unknown_fields v) \<or>
      (case sa_signature v of None \<Rightarrow> False | Some sig \<Rightarrow> sig_has_unknown_fields x sig))"

definition art_discard_unknown_fields ::
    "('u, 'w, 'z) buffa_ext_scheme \<Rightarrow> 'u signed_yaml_artifact \<Rightarrow> 'u signed_yaml_artifact" where
  "art_discard_unknown_fields x v =
     (let v1 = v\<lparr>sa_unknown_fields := uf_clear x (sa_unknown_fields v)\<rparr>
      in (case sa_signature v1 of
            None \<Rightarrow> v1
          | Some sig \<Rightarrow> v1\<lparr>sa_signature := Some (sig_discard_unknown_fields x sig)\<rparr>))"


definition write_nested ::
    "('v \<Rightarrow> checked_size_sink writer) \<Rightarrow> ('v \<Rightarrow> 's writer) \<Rightarrow> 's sink \<Rightarrow> 'v \<Rightarrow> 's writer" where
  "write_nested wsize wS S v d =
     (case raw_facade_encoded_len wsize v of
        Inl e \<Rightarrow> (Inl e, d)
      | Inr signature_len \<Rightarrow> wS v (push_varint S (push_tag S d 2 2) signature_len))"

definition write_artifact ::
    "('u, 'w, 'z) buffa_ext_scheme \<Rightarrow> 's sink \<Rightarrow> 'u signed_yaml_artifact \<Rightarrow> 's writer" where
  "write_artifact x S v =
     and_then (if sa_payload v \<noteq> [] then push_len_field S 1 (sa_payload v) else write_ok (\<lambda>d. d))
    (and_then (case sa_signature v of
                 Some sig \<Rightarrow> write_nested (write_signature x size_sink) (write_signature x S) S sig
               | None \<Rightarrow> write_ok (\<lambda>d. d))
       (write_ok (write_to (uf_write x (sa_unknown_fields v)) S)))"

definition artifact_facade ::
    "('u, 'w, 'z) buffa_ext_scheme \<Rightarrow> 'u signed_yaml_artifact facade" where
  "artifact_facade x =
     \<lparr>write_size = write_artifact x size_sink, write_vec = write_artifact x (vec_sink x)\<rparr>"

definition artifact_encoded_len ::
    "('u, 'w, 'z) buffa_ext_scheme \<Rightarrow> 'u signed_yaml_artifact \<Rightarrow> encode_error + usize" where
  "artifact_encoded_len x v = facade_encoded_len x (artifact_facade x) v"

definition artifact_encode_to_vec ::
    "('u, 'w, 'z) buffa_ext_scheme \<Rightarrow> 'u signed_yaml_artifact \<Rightarrow> encode_error + bytes" where
  "artifact_encode_to_vec x v = encode_facade_to_vec x (artifact_facade x) v"

definition artifact_encode_to_vec_with_resource_limits ::
    "('u, 'w, 'z) buffa_ext_scheme \<Rightarrow> 'u signed_yaml_artifact \<Rightarrow> artifact_resource_limits
       \<Rightarrow> (encode_error + bytes) resource_result" where
  "artifact_encode_to_vec_with_resource_limits x v limits =
     encode_facade_to_vec_with_resource_limits x (artifact_facade x) v limits"

definition artifact_encode_into ::
    "('u, 'w, 'z) buffa_ext_scheme \<Rightarrow> 'u signed_yaml_artifact \<Rightarrow> bytes
       \<Rightarrow> (encode_error + unit) \<times> bytes" where
  "artifact_encode_into x v destination = encode_facade_into x (artifact_facade x) v destination"

definition artifact_encode_into_with_resource_limits ::
    "('u, 'w, 'z) buffa_ext_scheme \<Rightarrow> 'u signed_yaml_artifact \<Rightarrow> bytes \<Rightarrow> artifact_resource_limits
       \<Rightarrow> (encode_error + unit) resource_result \<times> bytes" where
  "artifact_encode_into_with_resource_limits x v destination limits =
     encode_facade_into_with_resource_limits x (artifact_facade x) v destination limits"

section \<open>The borrowed views\<close>

text \<open>A view keeps the generated view; its byte fields are those of the input buffer.\<close>

datatype 'w signature_ref_inner = SR_Direct "'w gen_signature" | SR_Nested "'w gen_signature"

record 'w yaml_sigil_signature_ref =
  ysr_inner :: "'w signature_ref_inner"

record 'w signed_yaml_artifact_ref =
  sar_inner :: "'w gen_artifact"

fun generated :: "'w signature_ref_inner \<Rightarrow> 'w gen_signature" where
  "generated (SR_Direct inner) = inner"
| "generated (SR_Nested inner) = inner"

definition decode_generated_signature_ref ::
    "('u, 'w, 'z) buffa_ext_scheme \<Rightarrow> bytes \<Rightarrow> decode_error + 'w yaml_sigil_signature_ref" where
  "decode_generated_signature_ref x input =
     map_err decode_error_from_buffa
       (result_map (\<lambda>inner. \<lparr>ysr_inner = SR_Direct inner\<rparr>) (buffa_view_signature x input))"

definition decode_generated_artifact_ref ::
    "('u, 'w, 'z) buffa_ext_scheme \<Rightarrow> bytes \<Rightarrow> decode_error + 'w signed_yaml_artifact_ref" where
  "decode_generated_artifact_ref x input =
     map_err decode_error_from_buffa
       (result_map (\<lambda>inner. \<lparr>sar_inner = inner\<rparr>) (buffa_view_artifact x input))"

definition artifact_ref_decode ::
    "('u, 'w, 'z) buffa_ext_scheme \<Rightarrow> bytes \<Rightarrow> decode_error + 'w signed_yaml_artifact_ref" where
  "artifact_ref_decode x input = decode_generated_artifact_ref x input"

definition artifact_ref_decode_with_resource_limits ::
    "('u, 'w, 'z) buffa_ext_scheme \<Rightarrow> bytes \<Rightarrow> artifact_resource_limits
       \<Rightarrow> (decode_error + 'w signed_yaml_artifact_ref) resource_result" where
  "artifact_ref_decode_with_resource_limits x input limits =
     result_try (check_input_size limits RF_Protobuf input) (\<lambda>i. Inr (artifact_ref_decode x i))"

definition aref_payload :: "'w signed_yaml_artifact_ref \<Rightarrow> bytes" where
  "aref_payload r = ga_payload (sar_inner r)"

definition aref_signature :: "'w signed_yaml_artifact_ref \<Rightarrow> 'w yaml_sigil_signature_ref option" where
  "aref_signature r = map_option (\<lambda>inner. \<lparr>ysr_inner = SR_Nested inner\<rparr>) (ga_signature (sar_inner r))"

definition aref_has_unknown_fields ::
    "('u, 'w, 'z) buffa_ext_scheme \<Rightarrow> 'w signed_yaml_artifact_ref \<Rightarrow> bool" where
  "aref_has_unknown_fields x r =
     (\<not> uv_is_empty x (ga_unknown (sar_inner r)) \<or>
      (case ga_signature (sar_inner r) of
         None \<Rightarrow> False | Some sig \<Rightarrow> \<not> uv_is_empty x (gs_unknown sig)))"

definition aref_to_owned ::
    "('u, 'w, 'z) buffa_ext_scheme \<Rightarrow> 'w signed_yaml_artifact_ref
       \<Rightarrow> decode_error + 'u signed_yaml_artifact" where
  "aref_to_owned x r =
     map_err decode_error_from_buffa
       (result_map artifact_from_generated (view_artifact_to_owned x (sar_inner r)))"

definition sref_algorithm_wire_value :: "'w yaml_sigil_signature_ref \<Rightarrow> i32" where
  "sref_algorithm_wire_value r = gs_alg (generated (ysr_inner r))"

definition sref_algorithm ::
    "('u, 'w, 'z) buffa_ext_scheme \<Rightarrow> 'w yaml_sigil_signature_ref \<Rightarrow> algorithm_id option" where
  "sref_algorithm x r = from_i32 x (sref_algorithm_wire_value r)"

definition sref_keyid :: "'w yaml_sigil_signature_ref \<Rightarrow> str option" where
  "sref_keyid r = gs_keyid (generated (ysr_inner r))"

definition sref_signature :: "'w yaml_sigil_signature_ref \<Rightarrow> bytes" where
  "sref_signature r = gs_signature (generated (ysr_inner r))"

definition sref_has_unknown_fields ::
    "('u, 'w, 'z) buffa_ext_scheme \<Rightarrow> 'w yaml_sigil_signature_ref \<Rightarrow> bool" where
  "sref_has_unknown_fields x r = (\<not> uv_is_empty x (gs_unknown (generated (ysr_inner r))))"

definition sref_to_owned ::
    "('u, 'w, 'z) buffa_ext_scheme \<Rightarrow> 'w yaml_sigil_signature_ref
       \<Rightarrow> decode_error + 'u yaml_sigil_signature" where
  "sref_to_owned x r =
     map_err decode_error_from_buffa
       (result_map signature_from_generated (view_signature_to_owned x (generated (ysr_inner r))))"

definition write_signature_ref ::
    "('u, 'w, 'z) buffa_ext_scheme \<Rightarrow> 's sink \<Rightarrow> 'w yaml_sigil_signature_ref \<Rightarrow> 's writer" where
  "write_signature_ref x S r =
     (let g = generated (ysr_inner r) in
      write_signature_fields S (gs_alg g) (gs_keyid g) (gs_signature g) (uv_write x (gs_unknown g)))"

definition signature_ref_facade ::
    "('u, 'w, 'z) buffa_ext_scheme \<Rightarrow> 'w yaml_sigil_signature_ref facade" where
  "signature_ref_facade x =
     \<lparr>write_size = write_signature_ref x size_sink, write_vec = write_signature_ref x (vec_sink x)\<rparr>"

definition write_artifact_ref ::
    "('u, 'w, 'z) buffa_ext_scheme \<Rightarrow> 's sink \<Rightarrow> 'w signed_yaml_artifact_ref \<Rightarrow> 's writer" where
  "write_artifact_ref x S r =
     and_then (if ga_payload (sar_inner r) \<noteq> [] then push_len_field S 1 (ga_payload (sar_inner r))
               else write_ok (\<lambda>d. d))
    (and_then (case aref_signature r of
                 Some sig \<Rightarrow>
                   write_nested (write_signature_ref x size_sink) (write_signature_ref x S) S sig
               | None \<Rightarrow> write_ok (\<lambda>d. d))
       (write_ok (write_to (uv_write x (ga_unknown (sar_inner r))) S)))"

definition artifact_ref_facade ::
    "('u, 'w, 'z) buffa_ext_scheme \<Rightarrow> 'w signed_yaml_artifact_ref facade" where
  "artifact_ref_facade x =
     \<lparr>write_size = write_artifact_ref x size_sink, write_vec = write_artifact_ref x (vec_sink x)\<rparr>"


section \<open>The wire bytes of a message\<close>

definition signature_fields_wire :: "i32 \<Rightarrow> str option \<Rightarrow> bytes \<Rightarrow> put list \<Rightarrow> bytes" where
  "signature_fields_wire w k sig unknown =
     (if w \<noteq> 0 then tag_bytes 1 0 @ varint_bytes (unat (scast w :: u64)) else [])
     @ (case k of Some kid \<Rightarrow> len_field_bytes 2 kid | None \<Rightarrow> [])
     @ (if sig \<noteq> [] then len_field_bytes 3 sig else [])
     @ puts_bytes unknown"

definition signature_wire ::
    "('u, 'w, 'z) buffa_ext_scheme \<Rightarrow> 'u yaml_sigil_signature \<Rightarrow> bytes" where
  "signature_wire x v = signature_fields_wire (ys_algorithm_wire_value v) (ys_keyid v)
     (ys_signature v) (uf_write x (ys_unknown_fields v))"

definition signature_ref_wire ::
    "('u, 'w, 'z) buffa_ext_scheme \<Rightarrow> 'w yaml_sigil_signature_ref \<Rightarrow> bytes" where
  "signature_ref_wire x r = (let g = generated (ysr_inner r) in
     signature_fields_wire (gs_alg g) (gs_keyid g) (gs_signature g) (uv_write x (gs_unknown g)))"

definition artifact_fields_wire :: "bytes \<Rightarrow> bytes option \<Rightarrow> put list \<Rightarrow> bytes" where
  "artifact_fields_wire payload sig unknown =
     (if payload \<noteq> [] then len_field_bytes 1 payload else [])
     @ (case sig of Some s \<Rightarrow> len_field_bytes 2 s | None \<Rightarrow> [])
     @ puts_bytes unknown"

definition artifact_wire ::
    "('u, 'w, 'z) buffa_ext_scheme \<Rightarrow> 'u signed_yaml_artifact \<Rightarrow> bytes" where
  "artifact_wire x v = artifact_fields_wire (sa_payload v)
     (map_option (signature_wire x) (sa_signature v)) (uf_write x (sa_unknown_fields v))"

definition artifact_ref_wire ::
    "('u, 'w, 'z) buffa_ext_scheme \<Rightarrow> 'w signed_yaml_artifact_ref \<Rightarrow> bytes" where
  "artifact_ref_wire x r = artifact_fields_wire (ga_payload (sar_inner r))
     (map_option (signature_ref_wire x) (aref_signature r)) (uv_write x (ga_unknown (sar_inner r)))"

text \<open>
  Two uses of one writer produce \<open>bs\<close>: the relation is closed under the combinators the
  writers are built from, so each message is one appeal to these rules.
\<close>

definition writes :: "bytes sink \<Rightarrow> checked_size_sink writer \<Rightarrow> bytes writer \<Rightarrow> bytes \<Rightarrow> bool" where
  "writes S wS wV bs \<longleftrightarrow>
     (vec_sink_ok S \<longrightarrow> (length bs < 2 ^ 64 \<longrightarrow> (\<forall>d. wV d = (Inr (), d @ bs))) \<and>
                        (\<forall>d. \<exists>r d'. wV d = (r, d @ d'))) \<and>
     (length bs < 2 ^ 64 \<longrightarrow> (\<forall>c. \<exists>c'. wS c = (Inr (), c'))) \<and>
     (\<forall>c b c'. sized c b \<longrightarrow> wS c = (Inr (), c') \<longrightarrow> sized c' (b @ bs))"

lemma and_then_Inr:
  "and_then f g d = (Inr (), d'') \<longleftrightarrow> (\<exists>d'. f d = (Inr (), d') \<and> g d' = (Inr (), d''))"
  by (auto simp: and_then_def split: prod.splits sum.splits)

lemma writes_and_then:
  assumes f: "writes S fS fV a" and g: "writes S gS gV b"
  shows "writes S (and_then fS gS) (and_then fV gV) (a @ b)"
  unfolding writes_def
proof (intro conjI impI allI)
  fix d assume S: "vec_sink_ok S" and "length (a @ b) < 2 ^ 64"
  then show "and_then fV gV d = (Inr (), d @ a @ b)"
    using f g by (simp add: writes_def and_then_def)
next
  fix d assume S: "vec_sink_ok S"
  then obtain r d' where 1: "fV d = (r, d @ d')" using f by (meson writes_def)
  obtain r2 d2 where 2: "gV (d @ d') = (r2, (d @ d') @ d2)" using S g by (meson writes_def)
  show "\<exists>r d'. and_then fV gV d = (r, d @ d')"
    using 1 2 by (cases r) (auto simp: and_then_def)
next
  fix c assume "length (a @ b) < 2 ^ 64"
  then show "\<exists>c'. and_then fS gS c = (Inr (), c')"
    using f g unfolding writes_def and_then_Inr by (metis add_lessD1 add.commute length_append)
next
  fix c bs c' assume "sized c bs" and "and_then fS gS c = (Inr (), c')"
  then obtain d' where c: "sized c bs" and d: "fS c = (Inr (), d')" "gS d' = (Inr (), c')"
    by (auto simp: and_then_Inr)
  have "sized d' (bs @ a)" using f c d(1) by (meson writes_def)
  then have "sized c' ((bs @ a) @ b)" using g d(2) by (meson writes_def)
  then show "sized c' (bs @ a @ b)" by simp
qed

lemma writes_id: "writes S (write_ok (\<lambda>d. d)) (write_ok (\<lambda>d. d)) []"
  by (auto simp: writes_def write_ok_def)

lemma writes_write_ok:
  assumes "\<And>d. vec_sink_ok S \<Longrightarrow> fV d = d @ bs" and "\<And>c b. sized c b \<Longrightarrow> sized (fS c) (b @ bs)"
  shows "writes S (write_ok fS) (write_ok fV) bs"
  using assms by (auto simp: writes_def write_ok_def)

lemma vec_sink_holds:
  assumes "vec_sink_ok S"
  shows "push_varint S d v = d @ varint_bytes (unat v)"
    and "push_tag S d f wt = d @ tag_bytes f wt"
    and "write_to ps S d = d @ puts_bytes ps"
  using encode_sink.holds_push_varint [OF vec_encode_sink [OF assms], of d d]
    encode_sink.holds_push_tag [OF vec_encode_sink [OF assms], of d d]
    encode_sink.holds_write_to [OF vec_encode_sink [OF assms], of d d]
  by simp_all

lemma writes_len_field: "writes S (push_len_field size_sink f v) (push_len_field S f v) (len_field_bytes f v)"
  unfolding writes_def
proof (intro conjI impI allI)
  fix d assume S: "vec_sink_ok S" and "length (len_field_bytes f v) < 2 ^ 64"
  then show "push_len_field S f v d = (Inr (), d @ len_field_bytes f v)"
    by (intro push_len_field_vec) (simp_all add: len_field_bytes_def)
next
  fix d assume "vec_sink_ok S"
  then show "\<exists>r d'. push_len_field S f v d = (r, d @ d')"
    by (auto simp: push_len_field_def Let_def vec_sink_holds vec_sink_ok_def split: option.splits)
next
  fix c assume "length (len_field_bytes f v) < 2 ^ 64"
  then have "length v < 2 ^ 64" by (simp add: len_field_bytes_def)
  then show "\<exists>c'. push_len_field size_sink f v c = (Inr (), c')"
    by (rule size_sink.push_len_field_ok)
next
  fix c b c' assume "sized c b" and "push_len_field size_sink f v c = (Inr (), c')"
  then show "sized c' (b @ len_field_bytes f v)" by (simp add: size_sink.holds_push_len_field)
qed

lemma writes_write_to: "writes S (write_ok (write_to ps size_sink)) (write_ok (write_to ps S)) (puts_bytes ps)"
  by (rule writes_write_ok) (simp_all add: vec_sink_holds size_sink.holds_write_to)

lemma writes_signature_fields:
  "writes S (write_signature_fields size_sink w k sig u) (write_signature_fields S w k sig u)
     (signature_fields_wire w k sig u)"
proof -
  have "writes S
      (write_ok (\<lambda>d. if w \<noteq> 0 then push_varint size_sink (push_tag size_sink d 1 0) (scast w) else d))
      (write_ok (\<lambda>d. if w \<noteq> 0 then push_varint S (push_tag S d 1 0) (scast w) else d))
      (if w \<noteq> 0 then tag_bytes 1 0 @ varint_bytes (unat (scast w :: u64)) else [])"
    by (rule writes_write_ok)
       (auto simp: vec_sink_holds simp del: tag_bytes_simps append_assoc simp flip: append_assoc
         intro: size_sink.holds_push_varint size_sink.holds_push_tag)
  then show ?thesis
    unfolding write_signature_fields_def signature_fields_wire_def
    by (intro writes_and_then)
       (auto intro: writes_len_field writes_id writes_write_to split: option.splits)
qed


lemma facade_encodeI:
  assumes "\<And>x v. writes (vec_sink x) (write_size (F x) v) (write_vec (F x) v) (wire x v)"
  shows "facade_encode F wire"
proof
  fix x v
  note w = assms [of x v, unfolded writes_def]
  show "vec_sink_ok (vec_sink x) \<Longrightarrow> length (wire x v) < 2 ^ 64 \<Longrightarrow>
      write_vec (F x) v d = (Inr (), d @ wire x v)" for d using w by blast
  show "vec_sink_ok (vec_sink x) \<Longrightarrow> \<exists>r d'. write_vec (F x) v d = (r, d @ d')" for d
    using w by blast
  show "length (wire x v) < 2 ^ 64 \<Longrightarrow> \<exists>c'. write_size (F x) v c = (Inr (), c')" for c
    using w by blast
  show "sized c bs \<Longrightarrow> write_size (F x) v c = (Inr (), c') \<Longrightarrow> sized c' (bs @ wire x v)" for c bs c'
    using w by blast
qed

interpretation signature_enc: facade_encode signature_facade signature_wire
  by (rule facade_encodeI)
     (simp add: signature_facade_def write_signature_def signature_wire_def writes_signature_fields)

interpretation signature_ref_enc: facade_encode signature_ref_facade signature_ref_wire
  by (rule facade_encodeI)
     (simp add: signature_ref_facade_def write_signature_ref_def signature_ref_wire_def Let_def
        writes_signature_fields)

lemma writes_nested:
  assumes raw: "raw_facade_encoded_len wsize v =
      (if length inner < 2 ^ 64 then Inr (of_nat (length inner)) else Inl SizeOverflow)"
    and w: "writes S (wsize v) (wV v) inner"
  shows "writes S (write_nested wsize wsize size_sink v) (write_nested wsize wV S v)
           (len_field_bytes 2 inner)"
proof (cases "length inner < 2 ^ 64")
  case True
  let ?n = "of_nat (length inner) :: u64"
  have "writes S (write_ok (\<lambda>d. push_varint size_sink (push_tag size_sink d 2 2) ?n))
      (write_ok (\<lambda>d. push_varint S (push_tag S d 2 2) ?n))
      (tag_bytes 2 2 @ varint_bytes (length inner))"
  proof (rule writes_write_ok)
    show "push_varint S (push_tag S d 2 2) ?n = d @ tag_bytes 2 2 @ varint_bytes (length inner)"
      if "vec_sink_ok S" for d
      using True that by (simp add: vec_sink_holds unat_of_nat_u64)
    show "sized (push_varint size_sink (push_tag size_sink c 2 2) ?n)
        (b @ tag_bytes 2 2 @ varint_bytes (length inner))" if "sized c b" for c b
      using size_sink.holds_push_varint [OF size_sink.holds_push_tag [OF that, of 2 2], of ?n] True
      by (simp add: unat_of_nat_u64)
  qed
  from writes_and_then [OF this w]
  show ?thesis using True raw
    by (simp add: len_field_bytes_def write_nested_def and_then_def write_ok_def fun_eq_iff
        writes_def del: tag_bytes_simps)
next
  case False
  with raw show ?thesis
    by (auto simp: writes_def write_nested_def len_field_bytes_def)
qed

lemma writes_artifact_fields:
  assumes "\<And>s. sig = Some s \<Longrightarrow> writes S (nS s) (nV s) (len_field_bytes 2 (wire s))"
  shows "writes S
    (and_then (if p \<noteq> [] then push_len_field size_sink 1 p else write_ok (\<lambda>d. d))
      (and_then (case sig of Some s \<Rightarrow> nS s | None \<Rightarrow> write_ok (\<lambda>d. d)) (write_ok (write_to u size_sink))))
    (and_then (if p \<noteq> [] then push_len_field S 1 p else write_ok (\<lambda>d. d))
      (and_then (case sig of Some s \<Rightarrow> nV s | None \<Rightarrow> write_ok (\<lambda>d. d)) (write_ok (write_to u S))))
    (artifact_fields_wire p (map_option wire sig) u)"
  unfolding artifact_fields_wire_def using assms
  by (intro writes_and_then)
     (auto intro: writes_len_field writes_id writes_write_to split: option.splits)

lemma writes_signature:
  "writes (vec_sink x) (write_signature x size_sink v) (write_signature x (vec_sink x) v) (signature_wire x v)"
  by (simp add: write_signature_def signature_wire_def writes_signature_fields)

lemma writes_signature_ref:
  "writes (vec_sink x) (write_signature_ref x size_sink v) (write_signature_ref x (vec_sink x) v)
     (signature_ref_wire x v)"
  by (simp add: write_signature_ref_def signature_ref_wire_def Let_def writes_signature_fields)

interpretation artifact_enc: facade_encode artifact_facade artifact_wire
proof (rule facade_encodeI)
  fix x :: "('u, 'w, 'z) buffa_ext_scheme" and v :: "'u signed_yaml_artifact"
  have "raw_facade_encoded_len (write_signature x size_sink) s =
      (if length (signature_wire x s) < 2 ^ 64 then Inr (of_nat (length (signature_wire x s)))
       else Inl SizeOverflow)" for s
    using signature_enc.raw_len [of x s] by (simp add: signature_facade_def)
  then show "writes (vec_sink x) (write_size (artifact_facade x) v) (write_vec (artifact_facade x) v)
      (artifact_wire x v)"
    unfolding artifact_facade_def write_artifact_def artifact_wire_def facade.simps
    by (intro writes_artifact_fields writes_nested writes_signature)
qed

interpretation artifact_ref_enc: facade_encode artifact_ref_facade artifact_ref_wire
proof (rule facade_encodeI)
  fix x :: "('u, 'w, 'z) buffa_ext_scheme" and r :: "'w signed_yaml_artifact_ref"
  have "raw_facade_encoded_len (write_signature_ref x size_sink) s =
      (if length (signature_ref_wire x s) < 2 ^ 64 then Inr (of_nat (length (signature_ref_wire x s)))
       else Inl SizeOverflow)" for s
    using signature_ref_enc.raw_len [of x s] by (simp add: signature_ref_facade_def)
  then show "writes (vec_sink x) (write_size (artifact_ref_facade x) r)
      (write_vec (artifact_ref_facade x) r) (artifact_ref_wire x r)"
    unfolding artifact_ref_facade_def write_artifact_ref_def artifact_ref_wire_def facade.simps
    by (intro writes_artifact_fields writes_nested writes_signature_ref)
qed


section \<open>Properties of the encoders\<close>

lemma buffa_ok_vec: "buffa_ok x \<Longrightarrow> vec_sink_ok (vec_sink x)"
  by (simp add: buffa_ok_def)

text \<open>
  The encoders of an artifact message agree. The size pass, which runs the writer on the
  checked counter, computes exactly the number of octets the vector pass emits; encoding to a
  new vector and appending to a destination emit the same octets; all three fail together, with
  the message-size error, exactly when those octets exceed the protobuf ceiling; and a failed
  append leaves the destination as it was.
\<close>

theorem artifact_encoders_agree:
  assumes "buffa_ok x"
  shows "artifact_encode_to_vec x v =
           (if length (artifact_wire x v) \<le> unat (max_message_bytes x)
            then Inr (artifact_wire x v) else Inl message_too_large) \<and>
         artifact_encoded_len x v = result_map length (artifact_encode_to_vec x v) \<and>
         artifact_encode_into x v d =
           (case artifact_encode_to_vec x v of
              Inr w \<Rightarrow> (Inr (), d @ w) | Inl e \<Rightarrow> (Inl e, d))"
  using buffa_ok_vec [OF assms]
  by (simp add: artifact_encode_to_vec_def artifact_encoded_len_def artifact_encode_into_def
      artifact_enc.encode_to_vec artifact_enc.encoded_len artifact_enc.encode_into)

text \<open>
  The resource-aware encoders of an artifact message. A message whose size does not fit a
  64-bit count is a size-computation overflow; any other is first held against the ceiling of
  the policy, and only an admitted one reaches the protobuf size check, whose outcome is that
  of the plain encoder; and in every case but success the destination is unchanged.
\<close>

theorem artifact_encoders_with_limits:
  assumes "buffa_ok x"
  shows "artifact_encode_to_vec_with_resource_limits x v l =
           (if 2 ^ 64 \<le> length (artifact_wire x v)
            then Inl (size_computation_overflow l RF_Protobuf)
            else result_try (check_output_size l RF_Protobuf (length (artifact_wire x v)))
                   (\<lambda>_. Inr (artifact_encode_to_vec x v))) \<and>
         artifact_encode_into_with_resource_limits x v d l =
           (case artifact_encode_to_vec_with_resource_limits x v l of
              Inl re \<Rightarrow> (Inl re, d)
            | Inr (Inl e) \<Rightarrow> (Inr (Inl e), d)
            | Inr (Inr w) \<Rightarrow> (Inr (Inr ()), d @ w))"
proof (cases "length (artifact_wire x v) < 2 ^ 64")
  case True
  then show ?thesis
    using buffa_ok_vec [OF assms]
    by (auto simp: artifact_encode_to_vec_with_resource_limits_def
        artifact_encode_into_with_resource_limits_def artifact_enc.encode_to_vec_limits
        artifact_enc.encode_into_limits artifact_encode_to_vec_def artifact_enc.encode_to_vec
        artifact_enc.encode_into split: sum.splits)
next
  case False
  then show ?thesis
    by (simp add: artifact_encode_to_vec_with_resource_limits_def
        artifact_encode_into_with_resource_limits_def artifact_enc.encode_into_limits_overflow)
qed

end
