(* ===== verification/Raw_Outer.thy ===== *)
theory Raw_Outer
  imports Messages Decomposition
begin

text \<open>
  The bytes-only outer envelope: composing and decomposing a \<open>SignedYamlArtifact\<close> whose
  signature submessage stays opaque (\<open>compose_raw_outer\<close>, \<open>decompose_raw_outer\<close> and their
  wrappers in \<open>proto_outer.rs\<close>), and the copying views of \<open>wire.rs\<close>. The decomposition loop is
  refined against \<open>parse_fields\<close>, which only splits the wire into fields, and
  \<open>outer_spec\<close>, which says what the fields of an envelope must be.
\<close>

section \<open>Composition\<close>

record raw_outer =
  ro_payload :: bytes
  ro_signature_carrier :: bytes

definition write_raw_outer :: "'s sink \<Rightarrow> raw_outer \<Rightarrow> 's writer" where
  "write_raw_outer S v =
     and_then (push_len_field S 1 (ro_payload v))
    (and_then (push_len_field S 2 (ro_signature_carrier v)) (write_ok (\<lambda>d. d)))"

definition raw_outer_facade :: "('u, 'w, 'z) buffa_ext_scheme \<Rightarrow> raw_outer facade" where
  "raw_outer_facade x =
     \<lparr>write_size = write_raw_outer size_sink, write_vec = write_raw_outer (vec_sink x)\<rparr>"

definition compose_raw_outer ::
    "('u, 'w, 'z) buffa_ext_scheme \<Rightarrow> bytes \<Rightarrow> bytes \<Rightarrow> bytes exec" where
  "compose_raw_outer x payload signature_carrier =
     (let raw = \<lparr>ro_payload = payload, ro_signature_carrier = signature_carrier\<rparr> in
      exec_bind (expect_ok (raw_facade_encoded_len (write_size (raw_outer_facade x)) raw)) (\<lambda>raw_size.
      exec_bind (expect_some (usize_of_u64 raw_size)) (\<lambda>encoded_len.
      (case write_vec (raw_outer_facade x) raw [] of
         (Inl _, output) \<Rightarrow> Panicked
       | (Inr _, output) \<Rightarrow> Done output))))"

definition compose_raw_outer_with_resource_limits ::
    "('u, 'w, 'z) buffa_ext_scheme \<Rightarrow> bytes \<Rightarrow> bytes \<Rightarrow> artifact_resource_limits
       \<Rightarrow> (encode_error + bytes) resource_result" where
  "compose_raw_outer_with_resource_limits x payload signature_carrier limits =
     (let raw = \<lparr>ro_payload = payload, ro_signature_carrier = signature_carrier\<rparr> in
      result_try (map_err (\<lambda>_. size_computation_overflow limits RF_Protobuf)
          (raw_facade_encoded_len (write_size (raw_outer_facade x)) raw)) (\<lambda>raw_size.
      result_try (resource_raw_outer_size_preflight x raw_size limits) (\<lambda>r.
      case r of
        Inl e \<Rightarrow> Inr (Inl e)
      | Inr encoded_len \<Rightarrow>
          (case write_vec (raw_outer_facade x) raw [] of
             (Inl _, output) \<Rightarrow> Inr (Inl encode_error_other)
           | (Inr _, output) \<Rightarrow> Inr (Inr output)))))"

section \<open>Decomposition\<close>

datatype raw_outer_outcome = RO_Malformed | RO_Ok bytes bytes

text \<open>
  The loop of \<open>decompose_raw_outer\<close>, with its five mutable variables. The two counters are
  \<open>u32\<close>; they wrap, which the loop can reach for the payload counter only, where it is not read.
\<close>

function decompose_raw_outer_from ::
    "bytes \<Rightarrow> outer_conformance \<Rightarrow> bytes option \<Rightarrow> u32 \<Rightarrow> bytes option \<Rightarrow> u32 \<Rightarrow> nat
       \<Rightarrow> raw_outer_outcome" where
  "decompose_raw_outer_from wire mode payload payload_count signature_carrier signature_count index =
     (if index < length wire then
        (case read_tag wire index of
           None \<Rightarrow> RO_Malformed
         | Some (field, wire_type, index1) \<Rightarrow>
             if wire_type \<noteq> 2 then
               (if mode = Strict then RO_Malformed
                else
                  (case skip_field wire_type wire index1 of
                     None \<Rightarrow> RO_Malformed
                   | Some next_index \<Rightarrow>
                       decompose_raw_outer_from wire mode payload payload_count signature_carrier
                         signature_count next_index))
             else
               (case read_length wire index1 of
                  None \<Rightarrow> RO_Malformed
                | Some (len, index2) \<Rightarrow>
                    (case checked_add_usize index2 len of
                       None \<Rightarrow> RO_Malformed
                     | Some end_index \<Rightarrow>
                         if end_index > length wire then RO_Malformed
                         else if field = 1 then
                           (if mode = Strict \<and> payload_count + 1 > 1 then RO_Malformed
                            else decompose_raw_outer_from wire mode
                                   (Some (slice wire (index2, index2 + len))) (payload_count + 1)
                                   signature_carrier signature_count (index2 + len))
                         else if field = 2 then
                           (if signature_count + 1 > 1 then RO_Malformed
                            else decompose_raw_outer_from wire mode payload payload_count
                                   (Some (slice wire (index2, index2 + len))) (signature_count + 1)
                                   (index2 + len))
                         else if mode = Strict then RO_Malformed
                         else decompose_raw_outer_from wire mode payload payload_count
                                signature_carrier signature_count (index2 + len))))
      else
        (case signature_carrier of
           Some carrier \<Rightarrow> RO_Ok (case payload of Some p \<Rightarrow> p | None \<Rightarrow> []) carrier
         | None \<Rightarrow> RO_Malformed))"
  by pat_completeness auto
termination
  by (relation "measure (\<lambda>(wire, m, p, pc, s, sc, i). length wire - i)")
     (auto simp: result_simps dest!: read_tag_bound read_length_bound skip_field_bound)

declare decompose_raw_outer_from.simps [simp del]

definition decompose_raw_outer :: "bytes \<Rightarrow> outer_conformance \<Rightarrow> raw_outer_outcome" where
  "decompose_raw_outer wire mode = decompose_raw_outer_from wire mode None 0 None 0 0"


section \<open>The public wrappers\<close>

datatype proto_outer_outcome = PO_Malformed | PO_Ok bytes bytes

definition compose_proto_outer ::
    "('u, 'w, 'z) buffa_ext_scheme \<Rightarrow> bytes \<Rightarrow> bytes \<Rightarrow> bytes exec" where
  "compose_proto_outer x payload signature_carrier = compose_raw_outer x payload signature_carrier"

definition compose_proto_outer_with_resource_limits ::
    "('u, 'w, 'z) buffa_ext_scheme \<Rightarrow> bytes \<Rightarrow> bytes \<Rightarrow> artifact_resource_limits
       \<Rightarrow> (encode_error + bytes) resource_result" where
  "compose_proto_outer_with_resource_limits x payload signature_carrier limits =
     compose_raw_outer_with_resource_limits x payload signature_carrier limits"

definition decompose_proto_outer :: "bytes \<Rightarrow> outer_conformance \<Rightarrow> proto_outer_outcome" where
  "decompose_proto_outer wire mode =
     (case decompose_raw_outer wire mode of
        RO_Malformed \<Rightarrow> PO_Malformed
      | RO_Ok payload signature_carrier \<Rightarrow> PO_Ok payload signature_carrier)"

definition decompose_proto_outer_with_resource_limits ::
    "bytes \<Rightarrow> outer_conformance \<Rightarrow> artifact_resource_limits
       \<Rightarrow> proto_outer_outcome resource_result" where
  "decompose_proto_outer_with_resource_limits wire mode limits =
     result_try (check_input_size limits RF_Protobuf wire)
       (\<lambda>w. Inr (decompose_proto_outer w mode))"

section \<open>Errors of the core crate and the copying views\<close>

datatype core_error =
    CE_InvalidUtf8
  | CE_ProtobufDecode str
  | CE_SignatureYaml str
  | CE_InvalidBase64
  | CE_SchemaMismatch
  | CE_EmptySignature

fun core_error_display :: "core_error \<Rightarrow> str" where
  "core_error_display CE_InvalidUtf8 = ascii ''invalid UTF-8 in artifact''"
| "core_error_display (CE_ProtobufDecode m) = ascii ''protobuf decode error: '' @ m"
| "core_error_display (CE_SignatureYaml m) = ascii ''YAML signature document parse error: '' @ m"
| "core_error_display CE_InvalidBase64 = ascii ''invalid base64 in signature field''"
| "core_error_display CE_SchemaMismatch = ascii ''signature document schema mismatch''"
| "core_error_display CE_EmptySignature = ascii ''empty decoded signature octets''"

definition core_error_from_decode :: "decode_error \<Rightarrow> core_error" where
  "core_error_from_decode e = CE_ProtobufDecode (decode_error_display e)"

definition decode_signature_carrier ::
    "('u, 'w, 'z) buffa_ext_scheme \<Rightarrow> bytes \<Rightarrow> core_error + 'u yaml_sigil_signature" where
  "decode_signature_carrier x carrier = map_err core_error_from_decode (signature_decode x carrier)"

definition decode_signed_yaml_artifact ::
    "('u, 'w, 'z) buffa_ext_scheme \<Rightarrow> bytes \<Rightarrow> core_error + 'u signed_yaml_artifact" where
  "decode_signed_yaml_artifact x bs = map_err core_error_from_decode (artifact_decode x bs)"

definition decode_signed_yaml_artifact_with_resource_limits ::
    "('u, 'w, 'z) buffa_ext_scheme \<Rightarrow> bytes \<Rightarrow> artifact_resource_limits
       \<Rightarrow> (core_error + 'u signed_yaml_artifact) resource_result" where
  "decode_signed_yaml_artifact_with_resource_limits x bs limits =
     result_try (artifact_decode_with_resource_limits x bs limits)
       (\<lambda>r. Inr (map_err core_error_from_decode r))"

definition encode_signed_yaml_artifact ::
    "('u, 'w, 'z) buffa_ext_scheme \<Rightarrow> 'u signed_yaml_artifact \<Rightarrow> encode_error + bytes" where
  "encode_signed_yaml_artifact x msg = artifact_encode_to_vec x msg"

definition encode_signed_yaml_artifact_with_resource_limits ::
    "('u, 'w, 'z) buffa_ext_scheme \<Rightarrow> 'u signed_yaml_artifact \<Rightarrow> artifact_resource_limits
       \<Rightarrow> (encode_error + bytes) resource_result" where
  "encode_signed_yaml_artifact_with_resource_limits x msg limits =
     artifact_encode_to_vec_with_resource_limits x msg limits"

record proto_artifact_view =
  pav_payload :: bytes
  pav_alg_wire :: i32
  pav_signature :: bytes
  pav_keyid :: "str option"

definition view_signed_yaml_artifact ::
    "'u signed_yaml_artifact \<Rightarrow> core_error + proto_artifact_view" where
  "view_signed_yaml_artifact artifact =
     result_try
       (ok_or (sa_signature artifact) (CE_ProtobufDecode (ascii ''missing signature submessage'')))
       (\<lambda>sig. Inr \<lparr>pav_payload = sa_payload artifact, pav_alg_wire = ys_algorithm_wire_value sig,
                   pav_signature = ys_signature sig, pav_keyid = ys_keyid sig\<rparr>)"

definition view_signature_carrier ::
    "('u, 'w, 'z) buffa_ext_scheme \<Rightarrow> bytes \<Rightarrow> core_error + proto_artifact_view" where
  "view_signature_carrier x carrier =
     result_try (decode_signature_carrier x carrier)
       (\<lambda>sig. Inr \<lparr>pav_payload = [], pav_alg_wire = ys_algorithm_wire_value sig,
                   pav_signature = ys_signature sig, pav_keyid = ys_keyid sig\<rparr>)"

section \<open>The wire of an envelope\<close>

definition raw_outer_wire :: "('u, 'w, 'z) buffa_ext_scheme \<Rightarrow> raw_outer \<Rightarrow> bytes" where
  "raw_outer_wire x v =
     len_field_bytes 1 (ro_payload v) @ len_field_bytes 2 (ro_signature_carrier v)"

interpretation raw_outer_enc: facade_encode raw_outer_facade raw_outer_wire
proof (rule facade_encodeI)
  fix x :: "('u, 'w, 'z) buffa_ext_scheme" and v
  have "writes (vec_sink x) (write_raw_outer size_sink v) (write_raw_outer (vec_sink x) v)
      (len_field_bytes 1 (ro_payload v) @ len_field_bytes 2 (ro_signature_carrier v) @ [])"
    unfolding write_raw_outer_def
    by (intro writes_and_then writes_len_field writes_id)
  then show "writes (vec_sink x) (write_size (raw_outer_facade x) v) (write_vec (raw_outer_facade x) v)
      (raw_outer_wire x v)"
    by (simp add: raw_outer_facade_def raw_outer_wire_def)
qed

definition envelope_bytes :: "bytes \<Rightarrow> bytes \<Rightarrow> bytes" where
  "envelope_bytes p c = len_field_bytes 1 p @ len_field_bytes 2 c"

lemma compose_raw_outer_eq:
  assumes "vec_sink_ok (vec_sink x)"
  shows "compose_raw_outer x p c =
     (if length (envelope_bytes p c) < 2 ^ 64 then Done (envelope_bytes p c) else Panicked)"
  using raw_outer_enc.write_vec_ok [OF assms, of "\<lparr>ro_payload = p, ro_signature_carrier = c\<rparr>" "[]"]
  by (simp add: compose_raw_outer_def raw_outer_enc.raw_len raw_outer_wire_def envelope_bytes_def)

lemma length_envelope_bytes:
  "length (envelope_bytes p c) = 2 + length (varint_bytes (length p)) + length p
     + length (varint_bytes (length c)) + length c"
  by (simp add: envelope_bytes_def len_field_bytes_def)

lemma length_varint_bytes_10: "n < 2 ^ 64 \<Longrightarrow> length (varint_bytes n) \<le> 10"
  by (rule length_varint_bytes) simp_all

lemma length_envelope_bytes_bound:
  assumes "length p < 2 ^ 62" and "length c < 2 ^ 62"
  shows "length (envelope_bytes p c) < 2 ^ 64"
proof -
  have "length (varint_bytes (length p)) \<le> 10" "length (varint_bytes (length c)) \<le> 10"
    using assms by (simp_all add: length_varint_bytes_10)
  then show ?thesis using assms unfolding length_envelope_bytes by simp
qed

lemma compose_raw_outer_with_limits_eq:
  assumes "vec_sink_ok (vec_sink x)" and "length (envelope_bytes p c) < 2 ^ 64"
  shows "compose_raw_outer_with_resource_limits x p c l =
     result_try (check_output_size l RF_Protobuf (length (envelope_bytes p c)))
       (\<lambda>_. Inr (if length (envelope_bytes p c) \<le> unat (max_message_bytes x)
                 then Inr (envelope_bytes p c) else Inl message_too_large))"
proof -
  let ?v = "\<lparr>ro_payload = p, ro_signature_carrier = c\<rparr>"
  have w: "raw_outer_wire x ?v = envelope_bytes p c"
    by (simp add: raw_outer_wire_def envelope_bytes_def)
  have "compose_raw_outer_with_resource_limits x p c l =
      encode_facade_to_vec_with_resource_limits x (raw_outer_facade x) ?v l"
    by (cases "raw_facade_encoded_len (write_size (raw_outer_facade x)) ?v")
       (auto simp: compose_raw_outer_with_resource_limits_def
          encode_facade_to_vec_with_resource_limits_def resource_facade_encoded_len_def
          resource_raw_outer_size_preflight_def)
  then show ?thesis
    using raw_outer_enc.encode_to_vec_limits [OF assms(1), of ?v l] assms
      raw_outer_enc.encode_to_vec [OF assms(1), of ?v]
    by (simp add: w)
qed


section \<open>What an envelope is\<close>

text \<open>The fields of a wire, in order: a length-delimited field with its value, or any other.\<close>

datatype wire_field = LenField u32 bytes | OtherField u32

function parse_fields :: "bytes \<Rightarrow> nat \<Rightarrow> wire_field list option" where
  "parse_fields wire index =
     (if index < length wire then
        (case read_tag wire index of
           None \<Rightarrow> None
         | Some (field, wt, i1) \<Rightarrow>
             if wt \<noteq> 2 then
               (case skip_field wt wire i1 of
                  None \<Rightarrow> None
                | Some i2 \<Rightarrow> map_option ((#) (OtherField field)) (parse_fields wire i2))
             else
               (case read_length wire i1 of
                  None \<Rightarrow> None
                | Some (len, i2) \<Rightarrow>
                    if i2 + len > length wire then None
                    else map_option ((#) (LenField field (take len (drop i2 wire))))
                           (parse_fields wire (i2 + len))))
      else Some [])"
  by pat_completeness auto
termination
  by (relation "measure (\<lambda>(wire, i). length wire - i)")
     (auto dest!: read_tag_bound read_length_bound skip_field_bound)

declare parse_fields.simps [simp del]

fun values_of :: "u32 \<Rightarrow> wire_field list \<Rightarrow> bytes list" where
  "values_of n [] = []"
| "values_of n (LenField f v # fs) = (if f = n then v # values_of n fs else values_of n fs)"
| "values_of n (OtherField f # fs) = values_of n fs"

text \<open>The fields the strict mode allows: length-delimited, numbered one or two.\<close>

fun known_field :: "wire_field \<Rightarrow> bool" where
  "known_field (LenField f v) = (f = 1 \<or> f = 2)"
| "known_field (OtherField f) = False"

definition outer_of :: "outer_conformance \<Rightarrow> bytes list \<Rightarrow> bytes list \<Rightarrow> wire_field list \<Rightarrow> raw_outer_outcome" where
  "outer_of mode ps cs fs =
     (let payloads = ps @ values_of 1 fs; carriers = cs @ values_of 2 fs in
      if length carriers \<noteq> 1 then RO_Malformed
      else if mode = Strict \<and> (length payloads > 1 \<or> \<not> list_all known_field fs) then RO_Malformed
      else RO_Ok (if payloads = [] then [] else last payloads) (hd carriers))"

definition outer_spec :: "outer_conformance \<Rightarrow> wire_field list option \<Rightarrow> raw_outer_outcome" where
  "outer_spec mode r = (case r of None \<Rightarrow> RO_Malformed | Some fs \<Rightarrow> outer_of mode [] [] fs)"

definition opt_list :: "'a option \<Rightarrow> 'a list" where
  "opt_list m = (case m of None \<Rightarrow> [] | Some v \<Rightarrow> [v])"

lemma opt_list_simps [simp]: "opt_list None = []" "opt_list (Some v) = [v]"
  by (simp_all add: opt_list_def)

lemma outer_of_many_carriers: "length cs > 1 \<Longrightarrow> outer_of mode ps cs fs = RO_Malformed"
  by (simp add: outer_of_def Let_def)

lemma outer_of_many_payloads: "length ps > 1 \<Longrightarrow> outer_of Strict ps cs fs = RO_Malformed"
  by (simp add: outer_of_def Let_def)

lemma outer_of_replace:
  "outer_of SignatureStrict (ps @ [v]) cs fs = outer_of SignatureStrict [v] cs fs"
  by (cases "values_of 1 fs") (simp_all add: outer_of_def Let_def)

lemma outer_of_Cons:
  "outer_of mode ps cs (LenField 1 v # fs) = outer_of mode (ps @ [v]) cs fs"
  "outer_of mode ps cs (LenField 2 v # fs) = outer_of mode ps (cs @ [v]) fs"
  "f \<noteq> 1 \<Longrightarrow> f \<noteq> 2 \<Longrightarrow> outer_of SignatureStrict ps cs (LenField f v # fs) = outer_of SignatureStrict ps cs fs"
  "f \<noteq> 1 \<Longrightarrow> f \<noteq> 2 \<Longrightarrow> outer_of Strict ps cs (LenField f v # fs) = RO_Malformed"
  "outer_of SignatureStrict ps cs (OtherField f # fs) = outer_of SignatureStrict ps cs fs"
  "outer_of Strict ps cs (OtherField f # fs) = RO_Malformed"
  by (simp_all add: outer_of_def Let_def)

lemma outer_spec_bind:
  "(case map_option ((#) f) r of None \<Rightarrow> RO_Malformed | Some fs \<Rightarrow> outer_of mode ps cs fs) =
   (case r of None \<Rightarrow> RO_Malformed | Some fs \<Rightarrow> outer_of mode ps cs (f # fs))"
  by (cases r) simp_all

lemma slice_eq: "slice wire (i, i + n) = take n (drop i wire)"
  by (simp add: slice_def drop_take)

text \<open>
  The invariant of the loop: the counters count the options, in the modes that read them.
\<close>

definition outer_inv :: "outer_conformance \<Rightarrow> bytes option \<Rightarrow> u32 \<Rightarrow> bytes option \<Rightarrow> u32 \<Rightarrow> bool" where
  "outer_inv mode payload pc carrier sc \<longleftrightarrow>
     sc = of_nat (length (opt_list carrier)) \<and>
     (mode = Strict \<longrightarrow> pc = of_nat (length (opt_list payload)))"

lemma outer_inv_payload:
  "outer_inv Strict payload pc carrier sc \<Longrightarrow> pc + 1 > 1 \<longleftrightarrow> payload \<noteq> None"
  by (cases payload) (simp_all add: outer_inv_def)

lemma outer_inv_carrier: "outer_inv mode payload pc carrier sc \<Longrightarrow> sc + 1 > 1 \<longleftrightarrow> carrier \<noteq> None"
  by (cases carrier) (simp_all add: outer_inv_def)

lemma outer_inv_set_payload:
  "outer_inv mode payload pc carrier sc \<Longrightarrow> \<not> (mode = Strict \<and> payload \<noteq> None) \<Longrightarrow>
     outer_inv mode (Some v) (pc + 1) carrier sc"
  by (auto simp: outer_inv_def)

lemma outer_inv_set_carrier:
  "outer_inv mode payload pc None sc \<Longrightarrow> outer_inv mode payload pc (Some v) (sc + 1)"
  by (auto simp: outer_inv_def)

lemma decompose_raw_outer_from_refines:
  assumes "outer_inv mode payload pc carrier sc" and "length wire \<le> USIZE_MAX"
  shows "decompose_raw_outer_from wire mode payload pc carrier sc i =
    (case parse_fields wire i of None \<Rightarrow> RO_Malformed
     | Some fs \<Rightarrow> outer_of mode (opt_list payload) (opt_list carrier) fs)"
  using assms
proof (induction wire i arbitrary: payload pc carrier sc rule: parse_fields.induct)
  case (1 wire i)
  note inv = "1.prems"(1) and len = "1.prems"(2)
  note steps = decompose_raw_outer_from.simps [of wire _ _ _ _ _ i]
    parse_fields.simps [of wire i]
  show ?case
  proof (cases "i < length wire")
    case False
    then show ?thesis
      by (simp add: steps outer_of_def opt_list_def Let_def split: option.splits)
  next
    case i: True
    show ?thesis
    proof (cases "read_tag wire i")
      case None
      with i show ?thesis by (simp add: steps)
    next
      case (Some t)
      then obtain f wt i1 where t: "read_tag wire i = Some (f, wt, i1)" by (cases t) auto
      show ?thesis
      proof (cases "wt = 2")
        case False
        then show ?thesis
          using i t inv len "1.IH"(1) [OF i t refl refl False]
          by (cases mode)
             (auto simp: steps outer_spec_bind outer_of_Cons split: option.splits)
      next
        case wt: True
        show ?thesis
        proof (cases "read_length wire i1")
          case None
          with i t wt show ?thesis by (simp add: steps)
        next
          case (Some r)
          then obtain n i2 where r: "read_length wire i1 = Some (n, i2)" by (cases r) auto
          show ?thesis
          proof (cases "i2 + n \<le> length wire")
            case False
            then show ?thesis using i t wt r
              by (simp add: steps checked_add_usize_def)
          next
            case fits: True
            then have add: "checked_add_usize i2 n = Some (i2 + n)"
              using len by (simp add: checked_add_usize_def)
            have IH: "outer_inv mode p pc' c sc' \<Longrightarrow>
                decompose_raw_outer_from wire mode p pc' c sc' (i2 + n) =
                (case parse_fields wire (i2 + n) of None \<Rightarrow> RO_Malformed
                 | Some fs \<Rightarrow> outer_of mode (opt_list p) (opt_list c) fs)" for p pc' c sc'
              using "1.IH"(2) [OF i t refl refl _ r refl] wt fits len by simp
            let ?v = "take n (drop i2 wire)"
            consider (payload) "f = 1" | (carrier) "f = 2" | (other) "f \<noteq> 1" "f \<noteq> 2" by blast
            then show ?thesis
            proof cases
              case payload
              show ?thesis
              proof (cases "mode = Strict \<and> payload \<noteq> None")
                case True
                then show ?thesis
                  using i t wt r fits add inv outer_inv_payload payload
                  by (auto simp: steps outer_spec_bind outer_of_Cons outer_of_many_payloads
                      split: option.splits)
              next
                case False
                then have "\<not> (mode = Strict \<and> pc + 1 > 1)" using inv outer_inv_payload by blast
                with False show ?thesis
                  using i t wt r fits add payload IH [OF outer_inv_set_payload [OF inv False, of ?v]]
                    outer_of_replace [of "opt_list payload" ?v]
                  by (cases mode; cases "payload")
                     (auto simp: steps outer_spec_bind outer_of_Cons slice_eq split: option.splits)
              qed
            next
              case carrier
              show ?thesis
              proof (cases carrier)
                case None
                then have "\<not> sc + 1 > 1" using inv outer_inv_carrier by blast
                with None show ?thesis
                  using i t wt r fits add carrier inv IH [OF outer_inv_set_carrier, of payload pc sc ?v]
                  by (auto simp: steps outer_spec_bind outer_of_Cons slice_eq split: option.splits)
              next
                case (Some w)
                then have "sc + 1 > 1" using inv outer_inv_carrier by blast
                with Some show ?thesis
                  using i t wt r fits add carrier
                  by (auto simp: steps outer_spec_bind outer_of_Cons outer_of_many_carriers
                      split: option.splits)
              qed
            next
              case other
              then show ?thesis
                using i t wt r fits add IH [OF inv]
                by (cases mode)
                   (auto simp: steps outer_spec_bind outer_of_Cons split: option.splits)
            qed
          qed
        qed
      qed
    qed
  qed
qed


lemma decompose_raw_outer_refines:
  "length wire \<le> USIZE_MAX \<Longrightarrow> decompose_raw_outer wire mode = outer_spec mode (parse_fields wire 0)"
  using decompose_raw_outer_from_refines [of mode None 0 None 0 wire 0]
  by (simp add: decompose_raw_outer_def outer_inv_def outer_spec_def split: option.splits)

lemma parse_fields_end: "length wire \<le> i \<Longrightarrow> parse_fields wire i = Some []"
  by (simp add: parse_fields.simps)

lemma tag_1_2: "len_field_bytes 1 v = 0x0A # varint_bytes (length v) @ v"
  and tag_2_2: "len_field_bytes 2 v = 0x12 # varint_bytes (length v) @ v"
  by (simp_all add: len_field_bytes_def)

lemma parse_len_field:
  assumes "read_tag wire (length pre) = Some (f, 2, Suc (length pre))"
    and "wire = pre @ b # varint_bytes (length v) @ v @ post" and "length v < 2 ^ 64"
  shows "parse_fields wire (length pre) = map_option ((#) (LenField f v))
    (parse_fields wire (length pre + 1 + length (varint_bytes (length v)) + length v))"
proof -
  have "read_length wire (length (pre @ [b])) = Some (length v,
      length (pre @ [b]) + length (varint_bytes (length v)))"
    using read_length_written [of "length v" "pre @ [b]" "v @ post"] assms(2,3) by simp
  then have r: "read_length wire (Suc (length pre)) = Some (length v,
      Suc (length pre) + length (varint_bytes (length v)))"
    by (simp add: assms(2))
  have lengths: "length pre < length wire"
    "Suc (length pre) + length (varint_bytes (length v)) + length v \<le> length wire"
    and v: "take (length v) (drop (Suc (length pre) + length (varint_bytes (length v))) wire) = v"
    by (simp_all add: assms(2))
  from assms(1) r lengths v show ?thesis
    by (simp add: parse_fields.simps [of wire "length pre"])
qed

lemma parse_envelope:
  assumes "length p < 2 ^ 64" and "length c < 2 ^ 64"
  shows "parse_fields (envelope_bytes p c) 0 = Some [LenField 1 p, LenField 2 c]"
proof -
  let ?w = "envelope_bytes p c"
  let ?pre = "0x0A # varint_bytes (length p) @ p"
  have w: "?w = [] @ 0x0A # varint_bytes (length p) @ p @ len_field_bytes 2 c"
    "?w = ?pre @ 0x12 # varint_bytes (length c) @ c @ []"
    by (simp_all add: envelope_bytes_def tag_1_2 tag_2_2)
  have "parse_fields ?w (length ([] :: bytes)) = map_option ((#) (LenField 1 p))
      (parse_fields ?w (length ([] :: bytes) + 1 + length (varint_bytes (length p)) + length p))"
    using read_tag_known(1) [of "[]"] w(1) assms(1) by (intro parse_len_field) simp_all
  moreover have "parse_fields ?w (length ?pre) = map_option ((#) (LenField 2 c))
      (parse_fields ?w (length ?pre + 1 + length (varint_bytes (length c)) + length c))"
    using read_tag_known(2) [of ?pre] w(2) assms(2) by (intro parse_len_field) simp_all
  moreover have "length ?w \<le> length ?pre + 1 + length (varint_bytes (length c)) + length c"
    by (simp add: w(2))
  ultimately show ?thesis by (simp add: parse_fields_end)
qed

section \<open>Properties of the envelope\<close>

text \<open>
  C16: the outer decomposition is the field-level reading of the envelope. For every wire that
  fits in memory, the index loop returns what \<open>outer_spec\<close> says of the parsed fields: in the
  signature-strict mode the last payload and the only carrier, other fields ignored; in the
  strict mode the same, but only if every field is a length-delimited payload or carrier and
  there is at most one payload; and Malformed in every other case, an unparsable wire included.
\<close>

theorem decompose_proto_outer_refines:
  assumes "length wire \<le> USIZE_MAX"
  shows "decompose_proto_outer wire mode =
    (case outer_spec mode (parse_fields wire 0) of
       RO_Malformed \<Rightarrow> PO_Malformed | RO_Ok p c \<Rightarrow> PO_Ok p c)"
  using decompose_raw_outer_refines [OF assms] by (simp add: decompose_proto_outer_def)

theorem decompose_proto_outer_refines_witness:
  "decompose_proto_outer [0x18, 0x05, 0x0A, 0x01, 0x41, 0x12, 0x01, 0x42] SignatureStrict = PO_Ok [0x41] [0x42]
   \<and> decompose_proto_outer [0x18, 0x05, 0x0A, 0x01, 0x41, 0x12, 0x01, 0x42] Strict = PO_Malformed"
proof -
  let ?w = "[0x18, 0x05, 0x0A, 0x01, 0x41, 0x12, 0x01, 0x42] :: bytes"
  have "outer_spec SignatureStrict (parse_fields ?w 0) = RO_Ok [0x41] [0x42]"
    "outer_spec Strict (parse_fields ?w 0) = RO_Malformed"
    by code_simp+
  moreover have "length ?w \<le> USIZE_MAX" by (simp add: USIZE_MAX_def)
  ultimately show ?thesis by (simp only: decompose_proto_outer_refines raw_outer_outcome.case simp_thms)
qed

text \<open>
  Composing an outer envelope and decomposing it returns the payload and the carrier, in
  both conformance modes, and the composition does not panic.
\<close>

theorem proto_outer_roundtrip:
  assumes "buffa_ok x" and "length p < 2 ^ 62" and "length c < 2 ^ 62"
  shows "\<exists>w. compose_proto_outer x p c = Done w \<and> (\<forall>mode. decompose_proto_outer w mode = PO_Ok p c)"
proof -
  have len: "length (envelope_bytes p c) < 2 ^ 64"
    using assms(2,3) by (rule length_envelope_bytes_bound)
  have "decompose_proto_outer (envelope_bytes p c) mode = PO_Ok p c" for mode
    using len assms parse_envelope [of p c]
    by (simp add: decompose_proto_outer_def decompose_raw_outer_refines USIZE_MAX_def outer_spec_def
        outer_of_def)
  then show ?thesis
    using compose_raw_outer_eq [OF buffa_ok_vec [OF assms(1)], of p c] len
    by (simp add: compose_proto_outer_def)
qed

text \<open>
  The strict mode only restricts. A wire the strict mode accepts is accepted by the
  signature-strict mode with the same payload and the same carrier.
\<close>

theorem strict_restricts_signature_strict:
  assumes "length wire \<le> USIZE_MAX" and "decompose_proto_outer wire Strict = PO_Ok p c"
  shows "decompose_proto_outer wire SignatureStrict = PO_Ok p c"
  using assms
  by (auto simp: decompose_proto_outer_def decompose_raw_outer_refines outer_spec_def outer_of_def Let_def
      split: option.splits raw_outer_outcome.splits if_splits)

theorem strict_restricts_signature_strict_witness:
  "decompose_proto_outer [0x12, 0x01, 0x42] SignatureStrict = PO_Ok [] [0x42]"
proof (rule strict_restricts_signature_strict)
  show "decompose_proto_outer [0x12, 0x01, 0x42] Strict = PO_Ok [] [0x42]" by code_simp
qed (simp add: USIZE_MAX_def)

end
