(* ===== verification/Sample_Runtime.thy ===== *)
theory Sample_Runtime
  imports Raw_Outer
begin

text \<open>
  A concrete protobuf runtime, on which the hypotheses about the external one hold: it decodes
  and re-encodes the two messages, keeps unknown fields as the bytes they were read from, and
  is executable. The witnesses of the development instantiate the parameter with it.
\<close>

section \<open>Fields with their values\<close>

datatype sample_field = SVarint u32 u64 | SLen u32 bytes | SOther bytes

function sample_fields :: "bytes \<Rightarrow> nat \<Rightarrow> (buffa_decode_error + sample_field list)" where
  "sample_fields wire i =
     (if i < length wire then
        (case read_tag wire i of
           None \<Rightarrow> Inl BD_InvalidFieldNumber
         | Some (f, wt, i1) \<Rightarrow>
             if wt = 0 then
               (case read_varint wire i1 of
                  None \<Rightarrow> Inl BD_VarintTooLong
                | Some (v, i2) \<Rightarrow> result_map ((#) (SVarint f v)) (sample_fields wire i2))
             else if wt = 2 then
               (case read_length wire i1 of
                  None \<Rightarrow> Inl BD_VarintTooLong
                | Some (n, i2) \<Rightarrow>
                    if i2 + n > length wire then Inl BD_UnexpectedEof
                    else result_map ((#) (SLen f (take n (drop i2 wire)))) (sample_fields wire (i2 + n)))
             else
               (case skip_field wt wire i1 of
                  None \<Rightarrow> Inl BD_InvalidWireType
                | Some i2 \<Rightarrow> result_map ((#) (SOther (slice wire (i, i2)))) (sample_fields wire i2)))
      else Inr [])"
  by pat_completeness auto
termination
  by (relation "measure (\<lambda>(wire, i). length wire - i)")
     (auto dest!: read_tag_bound read_length_bound skip_field_bound read_varint_bound)

definition field_puts :: "sample_field \<Rightarrow> put list" where
  "field_puts f = (case f of
     SVarint n v \<Rightarrow> [PutSlice (tag_bytes n 0), PutSlice (varint_bytes (unat v))]
   | SLen n v \<Rightarrow> [PutSlice (len_field_bytes n v)]
   | SOther bs \<Rightarrow> [PutSlice bs])"

section \<open>The two messages\<close>

definition empty_signature :: "put list gen_signature" where
  "empty_signature = \<lparr>gs_alg = 0, gs_keyid = None, gs_signature = [], gs_unknown = []\<rparr>"

fun merge_signature ::
    "sample_field list \<Rightarrow> put list gen_signature \<Rightarrow> buffa_decode_error + put list gen_signature" where
  "merge_signature [] g = Inr g"
| "merge_signature (f # fs) g =
     (case f of
        SVarint n v \<Rightarrow>
          if n = 1 then merge_signature fs (g\<lparr>gs_alg := ucast v\<rparr>)
          else if n = 2 \<or> n = 3 then Inl BD_WireTypeMismatch
          else merge_signature fs (g\<lparr>gs_unknown := gs_unknown g @ field_puts f\<rparr>)
      | SLen n v \<Rightarrow>
          if n = 2 then
            (if utf8_valid v then merge_signature fs (g\<lparr>gs_keyid := Some v\<rparr>) else Inl BD_InvalidUtf8)
          else if n = 3 then merge_signature fs (g\<lparr>gs_signature := v\<rparr>)
          else if n = 1 then Inl BD_WireTypeMismatch
          else merge_signature fs (g\<lparr>gs_unknown := gs_unknown g @ field_puts f\<rparr>)
      | SOther bs \<Rightarrow> merge_signature fs (g\<lparr>gs_unknown := gs_unknown g @ field_puts f\<rparr>))"

definition sample_decode_signature :: "bytes \<Rightarrow> buffa_decode_error + put list gen_signature" where
  "sample_decode_signature wire =
     result_try (sample_fields wire 0) (\<lambda>fs. merge_signature fs empty_signature)"

definition merge_nested ::
    "put list gen_signature option \<Rightarrow> bytes \<Rightarrow> buffa_decode_error + put list gen_signature" where
  "merge_nested old v =
     result_try (sample_fields v 0)
       (\<lambda>fs. merge_signature fs (case old of Some g \<Rightarrow> g | None \<Rightarrow> empty_signature))"

fun merge_artifact ::
    "sample_field list \<Rightarrow> put list gen_artifact \<Rightarrow> buffa_decode_error + put list gen_artifact" where
  "merge_artifact [] g = Inr g"
| "merge_artifact (f # fs) g =
     (case f of
        SVarint n v \<Rightarrow>
          if n = 1 \<or> n = 2 then Inl BD_WireTypeMismatch
          else merge_artifact fs (g\<lparr>ga_unknown := ga_unknown g @ field_puts f\<rparr>)
      | SLen n v \<Rightarrow>
          if n = 1 then merge_artifact fs (g\<lparr>ga_payload := v\<rparr>)
          else if n = 2 then
            (case merge_nested (ga_signature g) v of
               Inl e \<Rightarrow> Inl e
             | Inr s \<Rightarrow> merge_artifact fs (g\<lparr>ga_signature := Some s\<rparr>))
          else merge_artifact fs (g\<lparr>ga_unknown := ga_unknown g @ field_puts f\<rparr>)
      | SOther bs \<Rightarrow> merge_artifact fs (g\<lparr>ga_unknown := ga_unknown g @ field_puts f\<rparr>))"

definition sample_decode_artifact :: "bytes \<Rightarrow> buffa_decode_error + put list gen_artifact" where
  "sample_decode_artifact wire =
     result_try (sample_fields wire 0)
       (\<lambda>fs. merge_artifact fs \<lparr>ga_payload = [], ga_signature = None, ga_unknown = []\<rparr>)"

section \<open>The runtime\<close>

definition sample_traits :: traits_ext where
  "sample_traits =
     \<lparr>from_i32 = (\<lambda>w. if w = 1 then Some Ed25519 else if w = 2 then Some EcdsaP256Sha256 else None),
      from_yaml_str = (\<lambda>s. if s = ed25519_name then Some Ed25519
                           else if s = p256_name then Some EcdsaP256Sha256 else None),
      as_yaml_str = canonical_name\<rparr>"

definition sample_buffa :: "(put list, put list) buffa_ext" where
  "sample_buffa =
     \<lparr>from_i32 = from_i32 sample_traits,
      from_yaml_str = from_yaml_str sample_traits,
      as_yaml_str = as_yaml_str sample_traits,
      max_message_bytes = 0x7FFFFFFF,
      vec_sink = list_sink,
      uf_new = [],
      uf_is_empty = (\<lambda>u. u = []),
      uf_clear = (\<lambda>u. []),
      uf_write = (\<lambda>u. u),
      uv_is_empty = (\<lambda>u. u = []),
      uv_write = (\<lambda>u. u),
      buffa_decode_signature = sample_decode_signature,
      buffa_decode_artifact = sample_decode_artifact,
      buffa_view_signature = sample_decode_signature,
      buffa_view_artifact = sample_decode_artifact,
      view_signature_to_owned = Inr,
      view_artifact_to_owned = Inr\<rparr>"

lemma sample_buffa_ok [simp]: "buffa_ok sample_buffa"
  by (simp add: buffa_ok_def sample_buffa_def puts_bytes_def)

lemma sample_traits_ok [simp]: "traits_ok sample_traits"
proof -
  have "ed25519_name \<noteq> p256_name" by (simp add: ed25519_name_def p256_name_def)
  then have "from_yaml_str sample_traits s = Some a \<longleftrightarrow> s = canonical_name a" for s a
    by (cases a) (auto simp: sample_traits_def)
  then show ?thesis by (simp add: traits_ok_def) (simp add: sample_traits_def)
qed

lemma sample_buffa_traits_ok [simp]: "traits_ok sample_buffa"
  using sample_traits_ok by (simp add: traits_ok_def sample_buffa_def)

section \<open>Witnesses of the message and envelope properties\<close>

definition sample_message :: "put list signed_yaml_artifact" where
  "sample_message = artifact_new sample_buffa [0x61, 0x0A]
     (Some (signature_new sample_buffa Ed25519 [1, 2, 3]))"

theorem artifact_encoders_agree_witness:
  "artifact_encode_to_vec sample_buffa sample_message
     = Inr [0x0A, 2, 0x61, 0x0A, 0x12, 7, 0x08, 1, 0x1A, 3, 1, 2, 3] \<and>
   artifact_encoded_len sample_buffa sample_message = Inr 13"
proof -
  have w: "artifact_wire sample_buffa sample_message =
      [0x0A, 2, 0x61, 0x0A, 0x12, 7, 0x08, 1, 0x1A, 3, 1, 2, 3]"
    by code_simp
  have "length (artifact_wire sample_buffa sample_message) \<le> unat (max_message_bytes sample_buffa)"
    unfolding w by (simp add: sample_buffa_def)
  then show ?thesis
    using artifact_encoders_agree [OF sample_buffa_ok, of sample_message] w by simp
qed

theorem artifact_encoders_with_limits_witness:
  "artifact_encode_into_with_resource_limits sample_buffa sample_message [7]
     (with_max_artifact_bytes unbounded 12)
   = (Inl \<lparr>are_kind = OutputArtifactTooLarge, are_form = Some RF_Protobuf,
           are_configured_max = Some 12, are_observed = Some 13\<rparr>, [7])"
proof -
  have w: "artifact_wire sample_buffa sample_message =
      [0x0A, 2, 0x61, 0x0A, 0x12, 7, 0x08, 1, 0x1A, 3, 1, 2, 3]"
    by code_simp
  show ?thesis
    using artifact_encoders_with_limits [OF sample_buffa_ok, of sample_message
        "with_max_artifact_bytes unbounded 12" "[7]"]
    by (simp add: w check_defs with_max_artifact_bytes_def unbounded_def)
qed

theorem proto_outer_roundtrip_witness:
  "\<exists>w. compose_proto_outer sample_buffa [1, 2] [] = Done w \<and>
       (\<forall>mode. decompose_proto_outer w mode = PO_Ok [1, 2] [])"
  using proto_outer_roundtrip [OF sample_buffa_ok, of "[1, 2]" "[]"] by simp

end
