(* ===== verification/Transcription.thy ===== *)
theory Transcription
  imports Sample_Runtime
begin

text \<open>
  The Transcription API, \<open>yaml-sigil-transcription/src/lib.rs\<close>: composing an envelope from a
  payload and an opaque signature carrier, and decomposing one, in the YAML and the protobuf
  form, with and without a resource policy. The request and outcome types are those of
  \<open>yaml_sigil_traits::transcription\<close>, with the fields and constructors this crate uses.
\<close>

section \<open>Requests and outcomes\<close>

datatype transcriber_invocation_error =
    InvalidOrUnsupportedForm
  | InvalidOrUnsupportedOuterConformance

datatype transcriber_error = InvalidPayloadBytes | InvalidSignatureCarrier

record compose_request =
  cr_payload :: bytes
  cr_signature_carrier :: bytes
  cr_form :: transcription_form

record compose_success =
  cs_artifact :: bytes
  cs_form :: transcription_form

datatype compose_outcome =
    CO_Success compose_success
  | CO_Invocation transcriber_invocation_error
  | CO_Error transcriber_error

record decompose_request =
  dr_artifact :: bytes
  dr_form :: transcription_form
  dr_outer_conformance :: "outer_conformance option"

datatype decompose_outcome = DC_Ok | DC_Unsigned | DC_MalformedAttemptedSigned

record decompose_structural_result =
  ds_outcome :: decompose_outcome
  ds_payload :: "bytes option"
  ds_signature_carrier :: "bytes option"
  ds_detail :: "str option"

datatype decompose_response =
    DR_Structural decompose_structural_result
  | DR_Invocation transcriber_invocation_error

record transcriber_capabilities_record =
  tc_supported_forms :: "transcription_form list"
  tc_supported_outer_conformances :: "outer_conformance list"
  tc_emits_canonical_yaml_envelope :: bool

section \<open>Invocation checks\<close>

definition transcriber_capabilities :: transcriber_capabilities_record where
  "transcriber_capabilities =
     \<lparr>tc_supported_forms = [TF_Yaml, TF_Protobuf],
      tc_supported_outer_conformances = [Strict, SignatureStrict],
      tc_emits_canonical_yaml_envelope = True\<rparr>"

definition validate_compose_invocation :: "compose_request \<Rightarrow> transcriber_invocation_error + unit" where
  "validate_compose_invocation req =
     (if cr_form req \<notin> set (tc_supported_forms transcriber_capabilities)
      then Inl InvalidOrUnsupportedForm else Inr ())"

definition validate_decompose_invocation ::
    "decompose_request \<Rightarrow> transcriber_invocation_error + outer_conformance" where
  "validate_decompose_invocation req =
     (if dr_form req \<notin> set (tc_supported_forms transcriber_capabilities)
      then Inl InvalidOrUnsupportedForm
      else (case dr_form req of
          TF_Yaml \<Rightarrow>
            if dr_outer_conformance req \<noteq> None then Inl InvalidOrUnsupportedOuterConformance
            else Inr Strict
        | TF_Protobuf \<Rightarrow>
            result_try (ok_or (dr_outer_conformance req) InvalidOrUnsupportedOuterConformance)
              (\<lambda>oc. if oc \<notin> set (tc_supported_outer_conformances transcriber_capabilities)
                    then Inl InvalidOrUnsupportedOuterConformance else Inr oc)))"

section \<open>Composition\<close>

definition contains_constrained_marker :: "bytes \<Rightarrow> bool" where
  "contains_constrained_marker carrier \<longleftrightarrow>
     starts_with carrier [0x2D, 0x2D, 0x2D, 0x0A] \<or>
     starts_with carrier [0x2D, 0x2D, 0x2D, 0x0D, 0x0A] \<or>
     list_ex (\<lambda>w. w = [0x0A, 0x2D, 0x2D, 0x2D, 0x0A]) (windows carrier 5) \<or>
     list_ex (\<lambda>w. w = [0x0A, 0x2D, 0x2D, 0x2D, 0x0D, 0x0A]) (windows carrier 6)"

definition yaml_marker :: bytes where
  "yaml_marker = [0x2D, 0x2D, 0x2D, 0x0A]"

definition compose_after_invocation_validation ::
    "('u, 'w, 'z) buffa_ext_scheme \<Rightarrow> compose_request \<Rightarrow> compose_outcome exec" where
  "compose_after_invocation_validation x req =
     (case cr_form req of
        TF_Yaml \<Rightarrow>
          if \<not> is_ok (validate_payload_stream (cr_payload req))
          then Done (CO_Error InvalidPayloadBytes)
          else if contains_constrained_marker (cr_signature_carrier req)
          then Done (CO_Error InvalidSignatureCarrier)
          else Done (CO_Success
                 \<lparr>cs_artifact = cr_payload req @ yaml_marker @ cr_signature_carrier req,
                  cs_form = cr_form req\<rparr>)
      | TF_Protobuf \<Rightarrow>
          exec_map (\<lambda>artifact. CO_Success \<lparr>cs_artifact = artifact, cs_form = cr_form req\<rparr>)
            (compose_proto_outer x (cr_payload req) (cr_signature_carrier req)))"

definition compose :: "('u, 'w, 'z) buffa_ext_scheme \<Rightarrow> compose_request \<Rightarrow> compose_outcome exec" where
  "compose x req =
     (case validate_compose_invocation req of
        Inl e \<Rightarrow> Done (CO_Invocation e)
      | Inr _ \<Rightarrow> compose_after_invocation_validation x req)"

fun resource_form :: "transcription_form \<Rightarrow> artifact_resource_form" where
  "resource_form TF_Yaml = RF_Yaml"
| "resource_form TF_Protobuf = RF_Protobuf"

function varint_len_from :: "u64 \<Rightarrow> u64 \<Rightarrow> u64" where
  "varint_len_from v len =
     (if v \<ge> 0x80 then varint_len_from (drop_bit 7 v) (len + 1) else len)"
  by pat_completeness auto
termination
proof (relation "measure (\<lambda>(v, len). unat v)")
  fix v len :: u64
  assume "0x80 \<le> v"
  then have "128 \<le> unat v" by (simp add: word_le_nat_alt)
  then show "((drop_bit 7 v, len + 1), v, len) \<in> measure (\<lambda>(v, len). unat v)"
    by (simp only: in_measure prod.case unat_shift7)
qed simp

declare varint_len_from.simps [simp del]

definition varint_len :: "u64 \<Rightarrow> u64" where
  "varint_len v = varint_len_from v 1"

definition checked_proto_outer_size_from_lengths ::
    "('u, 'w, 'z) buffa_ext_scheme \<Rightarrow> u64 \<Rightarrow> u64 \<Rightarrow> artifact_resource_limits
       \<Rightarrow> (encode_error + usize) resource_result" where
  "checked_proto_outer_size_from_lengths x payload_len carrier_len limits =
     (let overflow = size_computation_overflow limits RF_Protobuf in
      result_try (ok_or (Option.bind (checked_add_u64 1 (varint_len payload_len))
                          (\<lambda>n. checked_add_u64 n payload_len)) overflow) (\<lambda>payload_field.
      result_try (ok_or (Option.bind (checked_add_u64 1 (varint_len carrier_len))
                          (\<lambda>n. checked_add_u64 n carrier_len)) overflow) (\<lambda>carrier_field.
      result_try (ok_or (checked_add_u64 payload_field carrier_field) overflow) (\<lambda>raw_size.
      result_try (ok_or (usize_of_u64 raw_size) overflow) (\<lambda>encoded_size.
      result_try (check_output_size limits RF_Protobuf encoded_size) (\<lambda>_.
      Inr (check_encoded_message_size x encoded_size)))))))"

definition checked_proto_outer_size ::
    "('u, 'w, 'z) buffa_ext_scheme \<Rightarrow> usize \<Rightarrow> usize \<Rightarrow> artifact_resource_limits
       \<Rightarrow> (encode_error + usize) resource_result" where
  "checked_proto_outer_size x payload_len carrier_len limits =
     (let overflow = size_computation_overflow limits RF_Protobuf in
      result_try (ok_or (u64_of_usize payload_len) overflow) (\<lambda>pl.
      result_try (ok_or (u64_of_usize carrier_len) overflow) (\<lambda>cl.
      checked_proto_outer_size_from_lengths x pl cl limits)))"

definition check_compose_output_size ::
    "('u, 'w, 'z) buffa_ext_scheme \<Rightarrow> compose_request \<Rightarrow> artifact_resource_limits
       \<Rightarrow> (encode_error + usize) resource_result" where
  "check_compose_output_size x req limits =
     (case cr_form req of
        TF_Yaml \<Rightarrow>
          result_try (ok_or (Option.bind (checked_add_usize (length (cr_payload req)) 4)
                              (\<lambda>n. checked_add_usize n (length (cr_signature_carrier req))))
                       (size_computation_overflow limits RF_Yaml)) (\<lambda>encoded_size.
          result_try (check_output_size limits RF_Yaml encoded_size) (\<lambda>_.
          Inr (Inr encoded_size)))
      | TF_Protobuf \<Rightarrow>
          checked_proto_outer_size x (length (cr_payload req)) (length (cr_signature_carrier req)) limits)"

definition compose_with_resource_limits ::
    "('u, 'w, 'z) buffa_ext_scheme \<Rightarrow> compose_request \<Rightarrow> artifact_resource_limits
       \<Rightarrow> (encode_error + compose_outcome) resource_result exec" where
  "compose_with_resource_limits x req limits =
     (case validate_compose_invocation req of
        Inl e \<Rightarrow> Done (Inr (Inr (CO_Invocation e)))
      | Inr _ \<Rightarrow>
          (case check_compose_output_size x req limits of
             Inl re \<Rightarrow> Done (Inl re)
           | Inr (Inl e) \<Rightarrow> Done (Inr (Inl e))
           | Inr (Inr expected_size) \<Rightarrow>
               exec_map (\<lambda>outcome. Inr (Inr outcome)) (compose_after_invocation_validation x req)))"

section \<open>Decomposition\<close>

definition structural ::
    "decompose_outcome \<Rightarrow> bytes option \<Rightarrow> bytes option \<Rightarrow> decompose_response" where
  "structural out p c = DR_Structural \<lparr>ds_outcome = out, ds_payload = p,
     ds_signature_carrier = c, ds_detail = None\<rparr>"

definition decompose_yaml :: "bytes \<Rightarrow> decompose_response" where
  "decompose_yaml artifact =
     (case decompose_artifact artifact of
        DO_Unsigned \<Rightarrow> structural DC_Unsigned None None
      | DO_Malformed \<Rightarrow> structural DC_MalformedAttemptedSigned None None
      | DO_Signed r \<Rightarrow>
          structural DC_Ok (Some (slice artifact (sr_payload r)))
            (Some (slice artifact (sr_signature_carrier r))))"

definition decompose_proto :: "bytes \<Rightarrow> outer_conformance \<Rightarrow> decompose_response" where
  "decompose_proto wire mode =
     (case decompose_proto_outer wire mode of
        PO_Malformed \<Rightarrow> structural DC_MalformedAttemptedSigned None None
      | PO_Ok payload signature_carrier \<Rightarrow> structural DC_Ok (Some payload) (Some signature_carrier))"

definition decompose :: "decompose_request \<Rightarrow> decompose_response" where
  "decompose req =
     (case validate_decompose_invocation req of
        Inl e \<Rightarrow> DR_Invocation e
      | Inr outer \<Rightarrow>
          (case dr_form req of
             TF_Yaml \<Rightarrow> decompose_yaml (dr_artifact req)
           | TF_Protobuf \<Rightarrow> decompose_proto (dr_artifact req) outer))"

definition decompose_with_resource_limits ::
    "decompose_request \<Rightarrow> artifact_resource_limits \<Rightarrow> decompose_response resource_result" where
  "decompose_with_resource_limits req limits =
     result_try (check_input_size limits (resource_form (dr_form req)) (dr_artifact req))
       (\<lambda>_. Inr (decompose req))"


section \<open>Lemmas\<close>

lemma validate_compose_invocation_ok [simp]: "validate_compose_invocation req = Inr ()"
  by (cases "cr_form req")
     (simp_all add: validate_compose_invocation_def transcriber_capabilities_def)

lemma compose_eq: "compose x req = compose_after_invocation_validation x req"
  by (simp add: compose_def)

lemma validate_decompose_invocation_ok:
  "validate_decompose_invocation req =
     (case (dr_form req, dr_outer_conformance req) of
        (TF_Yaml, None) \<Rightarrow> Inr Strict
      | (TF_Protobuf, Some oc) \<Rightarrow> Inr oc
      | _ \<Rightarrow> Inl InvalidOrUnsupportedOuterConformance)"
proof (cases "dr_form req")
  case TF_Protobuf
  have "oc = Strict \<or> oc = SignatureStrict" for oc by (cases oc) auto
  with TF_Protobuf show ?thesis
    by (cases "dr_outer_conformance req")
       (auto simp: validate_decompose_invocation_def transcriber_capabilities_def)
qed (auto simp: validate_decompose_invocation_def transcriber_capabilities_def
      split: option.splits)

lemma marker_line_cases:
  "marker_line mk \<longleftrightarrow> mk = [0x2D, 0x2D, 0x2D, 0x0A] \<or> mk = [0x2D, 0x2D, 0x2D, 0x0D, 0x0A]"
  by (simp add: marker_line_def)

lemma yaml_marker_line [simp]: "marker_line yaml_marker"
  by (simp add: marker_line_def yaml_marker_def)

lemma has_marker_split:
  "has_marker bs \<longleftrightarrow> (\<exists>mk. marker_line mk \<and>
     ((\<exists>post. bs = mk @ post) \<or> (\<exists>pre post. bs = pre @ (0x0A # mk) @ post)))"
proof
  assume "has_marker bs"
  then obtain pre mk post where m: "bs = pre @ mk @ post" "marker_line mk" "at_line_start pre"
    by (auto simp: has_marker_def marker_at_def)
  show "\<exists>mk. marker_line mk \<and>
     ((\<exists>post. bs = mk @ post) \<or> (\<exists>pre post. bs = pre @ (0x0A # mk) @ post))"
  proof (cases pre rule: rev_cases)
    case (snoc ys y)
    with m have "bs = ys @ (0x0A # mk) @ post" by (simp add: at_line_start_def)
    with m(2) show ?thesis by blast
  qed (use m in auto)
next
  assume "\<exists>mk. marker_line mk \<and>
     ((\<exists>post. bs = mk @ post) \<or> (\<exists>pre post. bs = pre @ (0x0A # mk) @ post))"
  then obtain mk pre post where mk: "marker_line mk"
    and "bs = mk @ post \<or> bs = pre @ (0x0A # mk) @ post" by blast
  then have "marker_at bs [] mk post \<or> marker_at bs (pre @ [0x0A]) mk post"
    by (auto simp: marker_at_def at_line_start_def)
  then show "has_marker bs" by (auto simp: has_marker_def)
qed

lemma window_equal:
  "length k = n \<Longrightarrow> list_ex (\<lambda>w. w = k) (windows c n) \<longleftrightarrow> (\<exists>pre post. c = pre @ k @ post)"
  by (simp add: list_ex_iff mem_windows_iff)

lemma contains_constrained_marker_iff: "contains_constrained_marker c \<longleftrightarrow> has_marker c"
proof -
  have "list_ex (\<lambda>w. w = [0x0A, 0x2D, 0x2D, 0x2D, 0x0A]) (windows c 5) \<longleftrightarrow>
      (\<exists>pre post. c = pre @ (0x0A # [0x2D, 0x2D, 0x2D, 0x0A]) @ post)"
    "list_ex (\<lambda>w. w = [0x0A, 0x2D, 0x2D, 0x2D, 0x0D, 0x0A]) (windows c 6) \<longleftrightarrow>
      (\<exists>pre post. c = pre @ (0x0A # [0x2D, 0x2D, 0x2D, 0x0D, 0x0A]) @ post)"
    by (rule window_equal, simp)+
  then show ?thesis
    unfolding has_marker_split contains_constrained_marker_def starts_with_iff marker_line_cases
    by blast
qed

lemma varint_len_from_eq:
  "unat len + length (varint_bytes (unat v)) \<le> 2 ^ 32 \<Longrightarrow>
     unat (varint_len_from v len) + 1 = unat len + length (varint_bytes (unat v))"
proof (induction v len rule: varint_len_from.induct)
  case (1 v len)
  show ?case
  proof (cases "v \<ge> 0x80")
    case True
    then have ge: "128 \<le> unat v" by (simp add: word_le_nat_alt)
    then have l: "length (varint_bytes (unat v)) = Suc (length (varint_bytes (unat v div 128)))"
      by (simp add: varint_bytes.simps [of "unat v"])
    then have "unat len + 1 < 2 ^ 64" using "1.prems" by simp
    then have "unat (len + 1) = unat len + 1" by (simp add: unat_word_ariths)
    then show ?thesis
      using "1.IH" [OF True] "1.prems" l True by (simp add: varint_len_from.simps [of v] unat_shift7)
  next
    case False
    then have "unat v < 128" by (simp add: not_le word_less_nat_alt)
    with False show ?thesis
      by (simp add: varint_len_from.simps [of v] varint_bytes_single)
  qed
qed

lemma varint_len_eq: "varint_len v = of_nat (length (varint_bytes (unat v)))"
proof -
  have "length (varint_bytes (unat v)) \<le> 10"
    using unat_u64_less [of v] by (intro length_varint_bytes_10) simp
  then have "unat (varint_len v) = length (varint_bytes (unat v))"
    using varint_len_from_eq [of 1 v] by (simp add: varint_len_def)
  then show ?thesis by (metis of_nat_unat_length)
qed


lemma field_size:
  assumes "n < 2 ^ 64"
  shows "Option.bind (checked_add_u64 1 (varint_len (of_nat n))) (\<lambda>k. checked_add_u64 k (of_nat n)) =
    (if 1 + length (varint_bytes n) + n < 2 ^ 64
     then Some (of_nat (1 + length (varint_bytes n) + n)) else None)"
proof -
  let ?l = "length (varint_bytes n)"
  have l: "?l \<le> 10" using assms by (rule length_varint_bytes_10)
  then have vl: "varint_len (of_nat n) = of_nat ?l" "?l < 2 ^ 64"
    using assms by (simp_all add: varint_len_eq unat_of_nat_u64)
  have "checked_add_u64 (of_nat 1) (of_nat ?l) = Some (of_nat (1 + ?l))"
    using l by (subst checked_add_u64_of_nat) simp_all
  then have "checked_add_u64 1 (varint_len (of_nat n)) = Some (of_nat (1 + ?l))" by (simp add: vl)
  moreover have "checked_add_u64 (of_nat (1 + ?l)) (of_nat n) =
      (if 1 + ?l + n < 2 ^ 64 then Some (of_nat (1 + ?l + n)) else None)"
    using l assms by (intro checked_add_u64_of_nat) simp_all
  ultimately show ?thesis by (simp only: Option.bind.bind_lunit)
qed

lemma checked_proto_outer_size_eq:
  "checked_proto_outer_size x (length p) (length c) l =
     (if length (envelope_bytes p c) < 2 ^ 64
      then result_try (check_output_size l RF_Protobuf (length (envelope_bytes p c)))
             (\<lambda>_. Inr (check_encoded_message_size x (length (envelope_bytes p c))))
      else Inl (size_computation_overflow l RF_Protobuf))"
proof (cases "length p < 2 ^ 64 \<and> length c < 2 ^ 64")
  case False
  then show ?thesis
    by (auto simp: checked_proto_outer_size_def u64_of_usize_def length_envelope_bytes)
next
  case True
  define pf where "pf = 1 + length (varint_bytes (length p)) + length p"
  define cf where "cf = 1 + length (varint_bytes (length c)) + length c"
  have n: "length (envelope_bytes p c) = pf + cf"
    by (simp add: length_envelope_bytes pf_def cf_def)
  have u: "u64_of_usize (length p) = Some (of_nat (length p))"
    "u64_of_usize (length c) = Some (of_nat (length c))"
    using True by (simp_all add: u64_of_usize_def)
  note fields = field_size [OF conjunct1 [OF True], folded pf_def]
    field_size [OF conjunct2 [OF True], folded cf_def]
  have "checked_add_u64 (of_nat pf) (of_nat cf) =
      (if pf + cf < 2 ^ 64 then Some (of_nat (pf + cf)) else None)"
    if "pf < 2 ^ 64" "cf < 2 ^ 64"
    using that by (rule checked_add_u64_of_nat)
  then show ?thesis
    unfolding checked_proto_outer_size_def checked_proto_outer_size_from_lengths_def Let_def u
      ok_or.simps result_try.simps fields n
    by (cases "pf < 2 ^ 64"; cases "cf < 2 ^ 64"; cases "pf + cf < 2 ^ 64")
      (simp_all del: of_nat_add add: unat_of_nat_u64)
qed

lemma check_encoded_message_size_eq:
  assumes "n < 2 ^ 64"
  shows "check_encoded_message_size x n =
    (if n \<le> unat (max_message_bytes x) then Inr n else Inl message_too_large)"
proof -
  have "(of_nat n :: u64) > ucast (max_message_bytes x) \<longleftrightarrow> n > unat (max_message_bytes x)"
    using assms unsigned_less [of "max_message_bytes x", where ?'a = nat]
    by (simp add: word_less_nat_alt unat_of_nat_u64 unsigned_ucast_eq take_bit_nat_eq_self)
  then show ?thesis using assms by (auto simp: check_encoded_message_size_def u64_of_usize_def)
qed

lemma compose_yaml_eq:
  assumes "cr_form req = TF_Yaml"
  shows "compose x req = Done
    (if validate_payload_stream (cr_payload req) \<noteq> Inr () then CO_Error InvalidPayloadBytes
     else if has_marker (cr_signature_carrier req) then CO_Error InvalidSignatureCarrier
     else CO_Success \<lparr>cs_artifact = cr_payload req @ yaml_marker @ cr_signature_carrier req,
                      cs_form = TF_Yaml\<rparr>)"
  using assms
  by (auto simp: compose_eq compose_after_invocation_validation_def contains_constrained_marker_iff
      is_ok_iff)

lemma compose_proto_eq:
  assumes "cr_form req = TF_Protobuf" and "buffa_ok x"
  shows "compose x req =
    (if length (envelope_bytes (cr_payload req) (cr_signature_carrier req)) < 2 ^ 64
     then Done (CO_Success \<lparr>cs_artifact = envelope_bytes (cr_payload req) (cr_signature_carrier req),
                            cs_form = TF_Protobuf\<rparr>)
     else Panicked)"
  using assms compose_raw_outer_eq [OF buffa_ok_vec [OF assms(2)]]
  by (simp add: compose_eq compose_after_invocation_validation_def compose_proto_outer_def)

lemma decompose_yaml_eq:
  "decompose \<lparr>dr_artifact = a, dr_form = TF_Yaml, dr_outer_conformance = None\<rparr> = decompose_yaml a"
  by (simp add: decompose_def validate_decompose_invocation_ok)

lemma decompose_proto_eq:
  "decompose \<lparr>dr_artifact = a, dr_form = TF_Protobuf, dr_outer_conformance = Some oc\<rparr> = decompose_proto a oc"
  by (simp add: decompose_def validate_decompose_invocation_ok)

lemma decompose_yaml_Ok:
  "decompose_yaml a = structural DC_Ok (Some p) (Some c) \<longleftrightarrow>
     (\<exists>mk. a = p @ mk @ c \<and> marker_line mk \<and> validate_payload_stream p = Inr () \<and>
           utf8_valid c \<and> c \<noteq> [] \<and> \<not> has_marker c)"
proof
  assume d: "decompose_yaml a = structural DC_Ok (Some p) (Some c)"
  then obtain r where r: "decompose_artifact a = DO_Signed r" "p = slice a (sr_payload r)"
    "c = slice a (sr_signature_carrier r)"
    by (auto simp: decompose_yaml_def structural_def split: decomposition_outcome.splits)
  from decompose_signedD [OF r(1)] r(2,3)
  show "\<exists>mk. a = p @ mk @ c \<and> marker_line mk \<and> validate_payload_stream p = Inr () \<and>
           utf8_valid c \<and> c \<noteq> [] \<and> \<not> has_marker c" by auto
next
  assume "\<exists>mk. a = p @ mk @ c \<and> marker_line mk \<and> validate_payload_stream p = Inr () \<and>
           utf8_valid c \<and> c \<noteq> [] \<and> \<not> has_marker c"
  then show "decompose_yaml a = structural DC_Ok (Some p) (Some c)"
    by (auto simp: decompose_yaml_def decompose_compose)
qed


section \<open>The contract of an envelope form\<close>

text \<open>
  What a caller may assume of a form: an assembled envelope of components the form admits is
  decomposed into those components. It follows that the assembly is injective, so one envelope
  never stands for two payloads.
\<close>

locale envelope_codec =
  fixes enc :: "bytes \<Rightarrow> bytes \<Rightarrow> bytes"
    and dec :: "bytes \<Rightarrow> decompose_response"
    and admissible :: "bytes \<Rightarrow> bytes \<Rightarrow> bool"
  assumes dec_enc: "admissible p c \<Longrightarrow> dec (enc p c) = structural DC_Ok (Some p) (Some c)"
begin

lemma enc_inj:
  assumes "admissible p c" and "admissible p' c'" and "enc p c = enc p' c'"
  shows "p = p' \<and> c = c'"
proof -
  have "structural DC_Ok (Some p) (Some c) = structural DC_Ok (Some p') (Some c')"
    using dec_enc [OF assms(1)] dec_enc [OF assms(2)] assms(3) by simp
  then show ?thesis by (simp add: structural_def)
qed

lemma dec_enc_not_rejected:
  "admissible p c \<Longrightarrow> dec (enc p c) \<noteq> structural DC_MalformedAttemptedSigned None None
     \<and> dec (enc p c) \<noteq> structural DC_Unsigned None None"
  by (simp add: dec_enc structural_def)

end

definition yaml_envelope :: "bytes \<Rightarrow> bytes \<Rightarrow> bytes" where
  "yaml_envelope p c = p @ yaml_marker @ c"

definition yaml_admissible :: "bytes \<Rightarrow> bytes \<Rightarrow> bool" where
  "yaml_admissible p c \<longleftrightarrow> validate_payload_stream p = Inr () \<and> utf8_valid c \<and> c \<noteq> [] \<and> \<not> has_marker c"

definition proto_admissible :: "bytes \<Rightarrow> bytes \<Rightarrow> bool" where
  "proto_admissible p c \<longleftrightarrow> length (envelope_bytes p c) < 2 ^ 64"

lemma decompose_raw_envelope:
  "length (envelope_bytes p c) < 2 ^ 64 \<Longrightarrow> decompose_proto_outer (envelope_bytes p c) mode = PO_Ok p c"
  using parse_envelope [of p c]
  by (simp add: decompose_proto_outer_def decompose_raw_outer_refines USIZE_MAX_def outer_spec_def
      outer_of_def length_envelope_bytes)

interpretation yaml_codec: envelope_codec yaml_envelope decompose_yaml yaml_admissible
  by unfold_locales (auto simp: yaml_envelope_def yaml_admissible_def decompose_yaml_Ok)

interpretation proto_codec: envelope_codec envelope_bytes "\<lambda>w. decompose_proto w mode" proto_admissible
  for mode
  by unfold_locales (simp add: proto_admissible_def decompose_proto_def decompose_raw_envelope)

lemma decompose_artifact_empty_carrier:
  assumes "at_line_start p" and "marker_line mk"
  shows "decompose_artifact (p @ mk) = DO_Malformed"
proof -
  have "\<not> has_marker []" by (auto simp: has_marker_def marker_at_def marker_line_def)
  then have "find_last_marker (p @ mk) = Some (length p)"
    using find_last_marker_split [OF assms(2,1), of "[]"] by simp
  moreover have "marker_len (p @ mk) (length p) = Some (length mk)"
    using assms by (intro marker_len_marker_at) (simp add: marker_at_def)
  ultimately show ?thesis
    using marker_line_facts [OF assms(2)] by (simp add: decompose_artifact_def)
qed

lemma decompose_artifact_bad_carrier:
  "marker_line mk \<Longrightarrow> \<not> utf8_valid c \<Longrightarrow> decompose_artifact (p @ mk @ c) = DO_Malformed"
  by (simp add: decompose_artifact_def utf8_ok_def from_utf8_def utf8_valid_payload_part)

section \<open>Properties\<close>

text \<open>
  The two marker recognisers agree. The substring search that guards YAML composition
  finds a constrained marker in a carrier exactly when the line scanner of decomposition would,
  so the guard rejects exactly the carriers that would move the boundary.
\<close>

theorem marker_recognisers_agree:
  "contains_constrained_marker c \<longleftrightarrow> find_last_marker c \<noteq> None"
  by (simp add: contains_constrained_marker_iff find_last_marker_iff_has_marker)

text \<open>
  C17: what a composed YAML artifact decomposes to. Whenever YAML composition succeeds, the
  decomposition of the result returns the two components that went in, unless the carrier is
  empty or not UTF-8, which composition does not check: then the result is malformed.
\<close>

theorem yaml_compose_then_decompose:
  assumes "cr_form req = TF_Yaml" and "compose x req = Done (CO_Success s)"
  shows "decompose \<lparr>dr_artifact = cs_artifact s, dr_form = TF_Yaml, dr_outer_conformance = None\<rparr> =
    (if cr_signature_carrier req \<noteq> [] \<and> utf8_valid (cr_signature_carrier req)
     then structural DC_Ok (Some (cr_payload req)) (Some (cr_signature_carrier req))
     else structural DC_MalformedAttemptedSigned None None)"
proof -
  let ?p = "cr_payload req" and ?c = "cr_signature_carrier req"
  have c: "validate_payload_stream ?p = Inr ()" "\<not> has_marker ?c"
    "cs_artifact s = ?p @ yaml_marker @ ?c"
    using assms by (auto simp: compose_yaml_eq split: if_splits)
  then have "at_line_start ?p" by (auto simp: validate_payload_stream_ok at_line_start_def)
  then show ?thesis
    using c decompose_artifact_empty_carrier [of ?p yaml_marker]
      decompose_artifact_bad_carrier [of yaml_marker ?c ?p] yaml_codec.dec_enc [of ?p ?c]
    by (auto simp: decompose_yaml_eq decompose_yaml_def yaml_envelope_def yaml_admissible_def)
qed

text \<open>
  Recomposition. If a YAML artifact decomposes, then composing its parts succeeds, and the
  result is the artifact itself, with its marker line normalised to a line feed.
\<close>

theorem yaml_decompose_then_compose:
  assumes "decompose \<lparr>dr_artifact = a, dr_form = TF_Yaml, dr_outer_conformance = None\<rparr> =
             structural DC_Ok (Some p) (Some c)"
  shows "compose x \<lparr>cr_payload = p, cr_signature_carrier = c, cr_form = TF_Yaml\<rparr> =
           Done (CO_Success \<lparr>cs_artifact = p @ yaml_marker @ c, cs_form = TF_Yaml\<rparr>) \<and>
         (a = p @ yaml_marker @ c \<or> a = p @ [0x2D, 0x2D, 0x2D, 0x0D, 0x0A] @ c)"
  using assms
  by (auto simp: decompose_yaml_eq decompose_yaml_Ok compose_yaml_eq yaml_marker_def marker_line_def)

text \<open>
  An envelope determines its components. Two requests of one form that compose to the
  same artifact, with carriers the form can recover, have the same payload and carrier.
\<close>

theorem compose_injective:
  assumes "buffa_ok x"
    and "compose x r1 = Done (CO_Success s1)" and "compose x r2 = Done (CO_Success s2)"
    and "cs_artifact s1 = cs_artifact s2" and "cr_form r1 = cr_form r2"
    and "cr_signature_carrier r1 \<noteq> []" and "utf8_valid (cr_signature_carrier r1)"
    and "cr_signature_carrier r2 \<noteq> []" and "utf8_valid (cr_signature_carrier r2)"
  shows "cr_payload r1 = cr_payload r2 \<and> cr_signature_carrier r1 = cr_signature_carrier r2"
proof (cases "cr_form r1")
  case TF_Yaml
  then show ?thesis
    using assms
    by (intro yaml_codec.enc_inj)
       (auto simp: compose_yaml_eq yaml_admissible_def yaml_envelope_def split: if_splits)
next
  case TF_Protobuf
  then show ?thesis
    using assms
    by (intro proto_codec.enc_inj)
       (auto simp: compose_proto_eq proto_admissible_def split: if_splits)
qed


text \<open>The octets of the artifact a request composes, in either form.\<close>

fun composed_size :: "transcription_form \<Rightarrow> bytes \<Rightarrow> bytes \<Rightarrow> nat" where
  "composed_size TF_Yaml p c = length p + 4 + length c"
| "composed_size TF_Protobuf p c = length (envelope_bytes p c)"

lemma check_compose_output_size_eq:
  "check_compose_output_size x req l =
     (let n = composed_size (cr_form req) (cr_payload req) (cr_signature_carrier req) in
      if 2 ^ 64 \<le> n then Inl (size_computation_overflow l (resource_form (cr_form req)))
      else result_try (check_output_size l (resource_form (cr_form req)) n)
        (\<lambda>_. Inr (if cr_form req = TF_Protobuf \<and> unat (max_message_bytes x) < n
                  then Inl message_too_large else Inr n)))"
proof (cases "cr_form req")
  case TF_Yaml
  then show ?thesis
    by (auto simp: check_compose_output_size_def Let_def checked_add_usize_def USIZE_MAX_def
        size_computation_overflow_def split: if_splits)
next
  case TF_Protobuf
  then show ?thesis
    by (auto simp: check_compose_output_size_def checked_proto_outer_size_eq Let_def
        check_encoded_message_size_eq not_le split: if_splits intro!: arg_cong2 [where f = result_try])
qed

lemma compose_total:
  assumes "buffa_ok x" and "composed_size (cr_form req) (cr_payload req) (cr_signature_carrier req) < 2 ^ 64"
  shows "\<exists>out. compose x req = Done out"
  using assms by (cases "cr_form req") (auto simp: compose_yaml_eq compose_proto_eq)

lemma compose_with_resource_limits_eq:
  "compose_with_resource_limits x req l =
     (let n = composed_size (cr_form req) (cr_payload req) (cr_signature_carrier req) in
      if 2 ^ 64 \<le> n then Done (Inl (size_computation_overflow l (resource_form (cr_form req))))
      else case check_output_size l (resource_form (cr_form req)) n of
             Inl re \<Rightarrow> Done (Inl re)
           | Inr _ \<Rightarrow>
               if cr_form req = TF_Protobuf \<and> unat (max_message_bytes x) < n
               then Done (Inr (Inl message_too_large))
               else exec_map (\<lambda>out. Inr (Inr out)) (compose x req))"
  by (auto simp: compose_with_resource_limits_def check_compose_output_size_eq Let_def compose_eq
      split: sum.splits)

lemma compose_with_resource_limits_total:
  "buffa_ok x \<Longrightarrow> \<exists>r. compose_with_resource_limits x req l = Done r"
  using compose_total [of x req] by (auto simp: compose_with_resource_limits_eq Let_def not_le split: sum.splits)

text \<open>
  Composition under a policy. The size computed before any component is inspected is the
  exact size of the artifact. An artifact too large to count is an overflow error, one above
  the ceiling is a resource error, then one above the protobuf message size is an encoding
  error, and in every other case the outcome is that of plain composition, within the ceiling.
\<close>

theorem compose_with_resource_limits_correct:
  assumes "buffa_ok x"
    and "n = composed_size (cr_form req) (cr_payload req) (cr_signature_carrier req)"
  shows "compose_with_resource_limits x req l =
      (if 2 ^ 64 \<le> n then Done (Inl (size_computation_overflow l (resource_form (cr_form req))))
       else case check_output_size l (resource_form (cr_form req)) n of
              Inl re \<Rightarrow> Done (Inl re)
            | Inr _ \<Rightarrow>
                if cr_form req = TF_Protobuf \<and> unat (max_message_bytes x) < n
                then Done (Inr (Inl message_too_large))
                else exec_map (\<lambda>out. Inr (Inr out)) (compose x req)) \<and>
    (\<exists>r. compose_with_resource_limits x req l = Done r) \<and>
    (\<forall>s. compose x req = Done (CO_Success s) \<longrightarrow> length (cs_artifact s) = n)"
proof (intro conjI)
  show eq: "compose_with_resource_limits x req l =
      (if 2 ^ 64 \<le> n then Done (Inl (size_computation_overflow l (resource_form (cr_form req))))
       else case check_output_size l (resource_form (cr_form req)) n of
              Inl re \<Rightarrow> Done (Inl re)
            | Inr _ \<Rightarrow>
                if cr_form req = TF_Protobuf \<and> unat (max_message_bytes x) < n
                then Done (Inr (Inl message_too_large))
                else exec_map (\<lambda>out. Inr (Inr out)) (compose x req))"
    unfolding assms(2) compose_with_resource_limits_eq Let_def ..
  show "\<exists>r. compose_with_resource_limits x req l = Done r"
    by (rule compose_with_resource_limits_total [OF assms(1)])
  show "\<forall>s. compose x req = Done (CO_Success s) \<longrightarrow> length (cs_artifact s) = n"
    using assms
    by (cases "cr_form req")
       (auto simp: compose_yaml_eq compose_proto_eq yaml_marker_def split: if_splits)
qed


section \<open>Witnesses\<close>

definition sample_request :: compose_request where
  "sample_request = \<lparr>cr_payload = ascii ''a: b'' @ [0x0A], cr_signature_carrier = ascii ''s: 1'' @ [0x0A],
     cr_form = TF_Yaml\<rparr>"

definition sample_composed :: compose_success where
  "sample_composed = \<lparr>cs_artifact = ascii ''a: b'' @ [0x0A] @ ascii ''---'' @ [0x0A] @ ascii ''s: 1'' @ [0x0A],
     cs_form = TF_Yaml\<rparr>"

lemma sample_composes: "compose sample_buffa sample_request = Done (CO_Success sample_composed)"
proof -
  have "contains_constrained_marker (ascii ''s: 1'' @ [0x0A]) = False"
    "is_ok (validate_payload_stream (ascii ''a: b'' @ [0x0A])) = True"
    by code_simp+
  then show ?thesis
    by (simp add: compose_eq compose_after_invocation_validation_def sample_request_def
        sample_composed_def yaml_marker_def)
qed

theorem yaml_compose_then_decompose_witness:
  "decompose \<lparr>dr_artifact = cs_artifact sample_composed, dr_form = TF_Yaml, dr_outer_conformance = None\<rparr> =
     structural DC_Ok (Some (cr_payload sample_request)) (Some (cr_signature_carrier sample_request))"
proof -
  have "cr_signature_carrier sample_request \<noteq> []" "utf8_valid (cr_signature_carrier sample_request)"
    by code_simp+
  then show ?thesis
    using yaml_compose_then_decompose [OF _ sample_composes] by (simp add: sample_request_def)
qed

theorem yaml_decompose_then_compose_witness:
  "compose sample_buffa \<lparr>cr_payload = [0x61, 0x0A], cr_signature_carrier = [0x62], cr_form = TF_Yaml\<rparr> =
     Done (CO_Success \<lparr>cs_artifact = [0x61, 0x0A] @ yaml_marker @ [0x62], cs_form = TF_Yaml\<rparr>)"
proof -
  have "decompose \<lparr>dr_artifact = [0x61, 0x0A, 0x2D, 0x2D, 0x2D, 0x0D, 0x0A, 0x62], dr_form = TF_Yaml,
      dr_outer_conformance = None\<rparr> = structural DC_Ok (Some [0x61, 0x0A]) (Some [0x62])"
    by code_simp
  from yaml_decompose_then_compose [OF this] show ?thesis by blast
qed

theorem compose_injective_witness:
  "cr_payload sample_request = cr_payload sample_request \<and>
   cr_signature_carrier sample_request = cr_signature_carrier sample_request"
proof -
  have "cr_signature_carrier sample_request \<noteq> []" "utf8_valid (cr_signature_carrier sample_request)"
    by code_simp+
  then show ?thesis
    using compose_injective [OF sample_buffa_ok sample_composes sample_composes] by blast
qed

theorem compose_with_resource_limits_correct_witness:
  "compose_with_resource_limits sample_buffa sample_request (with_max_artifact_bytes unbounded 14) =
     Done (Inr (Inr (CO_Success sample_composed)))"
proof -
  have "14 = composed_size (cr_form sample_request) (cr_payload sample_request)
      (cr_signature_carrier sample_request)"
    by (simp add: sample_request_def)
  from compose_with_resource_limits_correct [OF sample_buffa_ok this,
      of "with_max_artifact_bytes unbounded 14"]
  moreover have "cr_form sample_request = TF_Yaml" by (simp add: sample_request_def)
  ultimately show ?thesis
    by (simp add: sample_composes check_defs with_max_artifact_bytes_def unbounded_def)
qed

end
