(* ===== verification/Signature_Doc.thy ===== *)
theory Signature_Doc
  imports Sample_Runtime
begin

text \<open>
  The YAML signature document, \<open>yaml-sigil-core/src/signature_doc.rs\<close> and
  \<open>tier_a_schema.rs\<close>: parser policies, the bounded parser, the flat key scan, and the
  canonical emitter with its quoting. The YAML parser (noyalib), the base64url engine and the
  JSON Schema validator are crates outside src/: they are the fields of \<open>yaml_ext\<close>.
\<close>

section \<open>Parser policies\<close>

datatype yaml_version = YV_1_2 | YV_other

datatype duplicate_key_policy = DK_Error | DK_other

datatype merge_key_policy = MK_AsOrdinary | MK_other

datatype parser_policy = DenyAnchors | DenyTags

text \<open>The settings of \<open>noyalib::ParserConfig\<close> the crate makes; the ratio is in hundredths.\<close>

record parser_config =
  pc_version :: yaml_version
  pc_no_schema :: bool
  pc_plain_scalar_strings :: bool
  pc_max_document_length :: usize
  pc_max_depth :: usize
  pc_max_alias_expansions :: usize
  pc_max_mapping_keys :: usize
  pc_max_sequence_length :: usize
  pc_max_events :: usize
  pc_max_nodes :: usize
  pc_max_total_scalar_bytes :: usize
  pc_max_documents :: usize
  pc_max_merge_keys :: usize
  pc_alias_anchor_ratio :: "nat option"
  pc_duplicate_key_policy :: duplicate_key_policy
  pc_merge_key_policy :: merge_key_policy
  pc_policies :: "parser_policy list"

definition with_policy :: "parser_policy \<Rightarrow> parser_config \<Rightarrow> parser_config" where
  "with_policy p c = c\<lparr>pc_policies := pc_policies c @ [p]\<rparr>"

section \<open>The document and the external crates\<close>

record signature_document =
  sd_schema :: str
  sd_alg :: str
  sd_keyid :: "str option"
  sd_signature :: str

text \<open>
  \<open>noyalib_load_all\<close> returns the number of documents read, or the text of the error;
  \<open>noyalib_document\<close> and \<open>noyalib_string\<close> are \<open>from_str_with_config\<close> at the two types the
  crate asks for. The schema is compiled by \<open>tier_a_compile\<close>; \<open>tier_a_validate\<close> applies it.
\<close>

record ('u, 'w) yaml_ext = "('u, 'w) buffa_ext" +
  parser_config_new :: parser_config
  noyalib_load_all :: "parser_config \<Rightarrow> str \<Rightarrow> str + usize"
  noyalib_document :: "parser_config \<Rightarrow> str \<Rightarrow> str + signature_document"
  noyalib_string :: "parser_config \<Rightarrow> str \<Rightarrow> str + str"
  b64_encode :: "bytes \<Rightarrow> str"
  b64_decode :: "bytes \<Rightarrow> bytes option"
  serde_to_value :: "signature_document \<Rightarrow> str + unit"
  tier_a_compile :: "str + unit"
  tier_a_validate :: "signature_document \<Rightarrow> str + unit"

section \<open>Budgets\<close>

definition SIGNATURE_DOCUMENT_MAX_BYTES :: usize where "SIGNATURE_DOCUMENT_MAX_BYTES = 16 * 1024"
definition SIGNATURE_DOCUMENT_MAX_DEPTH :: usize where "SIGNATURE_DOCUMENT_MAX_DEPTH = 16"
definition SIGNATURE_DOCUMENT_MAX_ALIAS_EXPANSIONS :: usize where
  "SIGNATURE_DOCUMENT_MAX_ALIAS_EXPANSIONS = 0"
definition SIGNATURE_DOCUMENT_MAX_MAPPING_KEYS :: usize where "SIGNATURE_DOCUMENT_MAX_MAPPING_KEYS = 8"
definition SIGNATURE_DOCUMENT_MAX_SEQUENCE_LENGTH :: usize where
  "SIGNATURE_DOCUMENT_MAX_SEQUENCE_LENGTH = 16"
definition SIGNATURE_DOCUMENT_MAX_EVENTS :: usize where "SIGNATURE_DOCUMENT_MAX_EVENTS = 128"
definition SIGNATURE_DOCUMENT_MAX_NODES :: usize where "SIGNATURE_DOCUMENT_MAX_NODES = 64"
definition SIGNATURE_DOCUMENT_MAX_TOTAL_SCALAR_BYTES :: usize where
  "SIGNATURE_DOCUMENT_MAX_TOTAL_SCALAR_BYTES = 8 * 1024"
definition SIGNATURE_DOCUMENT_MAX_DOCUMENTS :: usize where "SIGNATURE_DOCUMENT_MAX_DOCUMENTS = 1"
definition SIGNATURE_DOCUMENT_MAX_MERGE_KEYS :: usize where "SIGNATURE_DOCUMENT_MAX_MERGE_KEYS = 8"
definition SIGNATURE_EMISSION_PROBE_MAX_BYTES :: usize where
  "SIGNATURE_EMISSION_PROBE_MAX_BYTES = 64 * 1024 * 1024"
definition SIGNATURE_KEY_MAX_SCALAR_BYTES :: usize where "SIGNATURE_KEY_MAX_SCALAR_BYTES = 8 * 1024"

definition TIER_A_TOP_LEVEL_KEYS :: "str list" where
  "TIER_A_TOP_LEVEL_KEYS = [ascii ''schema'', ascii ''alg'', ascii ''keyid'', ascii ''signature'']"

definition SCHEMA_V1ALPHA1 :: str where
  "SCHEMA_V1ALPHA1 = ascii ''YamlSigilSignature.v1alpha1''"

definition signature_document_parser_config :: "('u, 'w, 'z) yaml_ext_scheme \<Rightarrow> parser_config" where
  "signature_document_parser_config x =
     with_policy DenyTags (with_policy DenyAnchors
       ((parser_config_new x)
         \<lparr>pc_max_document_length := SIGNATURE_DOCUMENT_MAX_BYTES,
          pc_max_depth := SIGNATURE_DOCUMENT_MAX_DEPTH,
          pc_max_alias_expansions := SIGNATURE_DOCUMENT_MAX_ALIAS_EXPANSIONS,
          pc_max_mapping_keys := SIGNATURE_DOCUMENT_MAX_MAPPING_KEYS,
          pc_max_sequence_length := SIGNATURE_DOCUMENT_MAX_SEQUENCE_LENGTH,
          pc_max_events := SIGNATURE_DOCUMENT_MAX_EVENTS,
          pc_max_nodes := SIGNATURE_DOCUMENT_MAX_NODES,
          pc_max_total_scalar_bytes := SIGNATURE_DOCUMENT_MAX_TOTAL_SCALAR_BYTES,
          pc_max_documents := SIGNATURE_DOCUMENT_MAX_DOCUMENTS,
          pc_max_merge_keys := SIGNATURE_DOCUMENT_MAX_MERGE_KEYS,
          pc_alias_anchor_ratio := Some 100,
          pc_duplicate_key_policy := DK_Error,
          pc_merge_key_policy := MK_AsOrdinary\<rparr>))"

definition signature_key_decoder_config :: "('u, 'w, 'z) yaml_ext_scheme \<Rightarrow> parser_config" where
  "signature_key_decoder_config x =
     with_policy DenyTags (with_policy DenyAnchors
       ((parser_config_new x)
         \<lparr>pc_max_document_length := SIGNATURE_DOCUMENT_MAX_BYTES,
          pc_max_depth := 1,
          pc_max_alias_expansions := SIGNATURE_DOCUMENT_MAX_ALIAS_EXPANSIONS,
          pc_max_mapping_keys := 0,
          pc_max_sequence_length := 0,
          pc_max_events := 8,
          pc_max_nodes := 1,
          pc_max_total_scalar_bytes := SIGNATURE_KEY_MAX_SCALAR_BYTES,
          pc_max_documents := 1,
          pc_max_merge_keys := 0\<rparr>))"

definition signature_emission_probe_config :: "('u, 'w, 'z) yaml_ext_scheme \<Rightarrow> parser_config" where
  "signature_emission_probe_config x =
     (parser_config_new x)
       \<lparr>pc_version := YV_1_2,
        pc_no_schema := False,
        pc_plain_scalar_strings := False,
        pc_max_document_length := SIGNATURE_EMISSION_PROBE_MAX_BYTES,
        pc_max_total_scalar_bytes := SIGNATURE_EMISSION_PROBE_MAX_BYTES,
        pc_max_depth := 1,
        pc_max_events := 8,
        pc_max_nodes := 1,
        pc_max_documents := 1,
        pc_max_alias_expansions := 0,
        pc_max_mapping_keys := 0,
        pc_max_sequence_length := 0,
        pc_max_merge_keys := 0\<rparr>"

section \<open>Parsing\<close>

definition validate_schema :: "signature_document \<Rightarrow> core_error + unit" where
  "validate_schema doc = (if sd_schema doc \<noteq> SCHEMA_V1ALPHA1 then Inl CE_SchemaMismatch else Inr ())"

definition ensure_signature_document_byte_budget :: "bytes \<Rightarrow> core_error + unit" where
  "ensure_signature_document_byte_budget bs =
     (if length bs > SIGNATURE_DOCUMENT_MAX_BYTES
      then Inl (CE_SignatureYaml (ascii ''signature carrier exceeds the maximum supported byte length''))
      else Inr ())"

definition parse_signature_document ::
    "('u, 'w, 'z) yaml_ext_scheme \<Rightarrow> bytes \<Rightarrow> core_error + signature_document" where
  "parse_signature_document x bs =
     result_try (ensure_signature_document_byte_budget bs) (\<lambda>_.
     result_try (ok_or (from_utf8 bs) CE_InvalidUtf8) (\<lambda>text.
     (let config = signature_document_parser_config x in
      result_try (map_err CE_SignatureYaml (noyalib_load_all x config text)) (\<lambda>documents.
      if documents \<noteq> 1
      then Inl (CE_SignatureYaml
             (ascii ''signature carrier must contain exactly one YAML document''))
      else map_err CE_SignatureYaml (noyalib_document x config text)))))"


section \<open>The flat scan of top-level keys\<close>

text \<open>\<open>str::lines\<close>: split after each line feed, which is dropped with a carriage return before it.\<close>

fun split_lines :: "bytes \<Rightarrow> bytes \<Rightarrow> bytes list" where
  "split_lines acc [] = (if acc = [] then [] else [acc])"
| "split_lines acc (b # bs) =
     (if b = 0x0A
      then (if ends_with acc [0x0D] then butlast acc else acc) # split_lines [] bs
      else split_lines (acc @ [b]) bs)"

definition str_lines :: "str \<Rightarrow> str list" where
  "str_lines s = split_lines [] s"

text \<open>The Unicode property \<open>White_Space\<close>, which \<open>trim\<close> and \<open>trim_start\<close> remove.\<close>

definition is_whitespace :: "rchar \<Rightarrow> bool" where
  "is_whitespace c \<longleftrightarrow> (9 \<le> c \<and> c \<le> 0x0D) \<or> c = 0x20 \<or> c = 0x85 \<or> c = 0xA0 \<or> c = 0x1680
     \<or> (0x2000 \<le> c \<and> c \<le> 0x200A) \<or> c = 0x2028 \<or> c = 0x2029 \<or> c = 0x202F \<or> c = 0x205F \<or> c = 0x3000"

definition trim_start :: "str \<Rightarrow> str" where
  "trim_start s = push_chars (dropWhile is_whitespace (chars s))"

definition trim :: "str \<Rightarrow> str" where
  "trim s = push_chars (rev (dropWhile is_whitespace (rev (dropWhile is_whitespace (chars s)))))"

fun split_once :: "u8 \<Rightarrow> bytes \<Rightarrow> (bytes \<times> bytes) option" where
  "split_once d [] = None"
| "split_once d (b # bs) =
     (if b = d then Some ([], bs)
      else map_option (\<lambda>(l, r). (b # l, r)) (split_once d bs))"

definition line_key :: "('u, 'w, 'z) yaml_ext_scheme \<Rightarrow> str \<Rightarrow> str option" where
  "line_key x line =
     (let trimmed = trim_start line in
      if trimmed = [] \<or> starts_with trimmed [0x23] then None
      else if starts_with line [0x20] \<or> starts_with line [0x09] then None
      else (case split_once 0x3A trimmed of
              None \<Rightarrow> None
            | Some (key, _) \<Rightarrow>
                (let key = trim key in
                 if key \<noteq> [] then
                   Some (case noyalib_string x (signature_key_decoder_config x) key of
                           Inr semantic_key \<Rightarrow> semantic_key
                         | Inl _ \<Rightarrow> key)
                 else None)))"

definition top_level_keys_flat_line_scan :: "('u, 'w, 'z) yaml_ext_scheme \<Rightarrow> str \<Rightarrow> str set" where
  "top_level_keys_flat_line_scan x text =
     foldl (\<lambda>keys line. case line_key x line of None \<Rightarrow> keys | Some k \<Rightarrow> insert k keys) {}
       (str_lines text)"

definition signature_document_top_level_keys ::
    "('u, 'w, 'z) yaml_ext_scheme \<Rightarrow> bytes \<Rightarrow> core_error + str set" where
  "signature_document_top_level_keys x bs =
     result_try (ensure_signature_document_byte_budget bs) (\<lambda>_.
     result_try (ok_or (from_utf8 bs) CE_InvalidUtf8) (\<lambda>text.
     Inr (top_level_keys_flat_line_scan x text)))"

definition has_unknown_signature_document_fields ::
    "('u, 'w, 'z) yaml_ext_scheme \<Rightarrow> bytes \<Rightarrow> core_error + bool" where
  "has_unknown_signature_document_fields x bs =
     result_try (signature_document_top_level_keys x bs) (\<lambda>keys.
     Inr (\<exists>k\<in>keys. k \<notin> set TIER_A_TOP_LEVEL_KEYS))"

section \<open>Emission\<close>

definition hex_digit :: "nat \<Rightarrow> u8" where
  "hex_digit d = (if d < 10 then octet (48 + d) else octet (55 + d))"

fun hex_upper :: "nat \<Rightarrow> nat \<Rightarrow> str" where
  "hex_upper 0 n = []"
| "hex_upper (Suc k) n = hex_upper k (n div 16) @ [hex_digit (n mod 16)]"

text \<open>
  The match of \<open>quote_yaml_string\<close> on one character; in the branch that formats four
  hexadecimal digits the character is at most U+2029, so four digits suffice.
\<close>

definition escape_char :: "rchar \<Rightarrow> str" where
  "escape_char c =
     (if c = 0x22 then [0x5C, 0x22]
      else if c = 0x5C then [0x5C, 0x5C]
      else if c = 0 then [0x5C, 0x30]
      else if c = 7 then [0x5C, 0x61]
      else if c = 8 then [0x5C, 0x62]
      else if c = 9 then [0x5C, 0x74]
      else if c = 0x0A then [0x5C, 0x6E]
      else if c = 0x0B then [0x5C, 0x76]
      else if c = 0x0C then [0x5C, 0x66]
      else if c = 0x0D then [0x5C, 0x72]
      else if c = 0x1B then [0x5C, 0x65]
      else if c \<le> 0x1F \<or> (0x7F \<le> c \<and> c \<le> 0x9F) \<or> c = 0x2028 \<or> c = 0x2029
      then [0x5C, 0x75] @ hex_upper 4 c
      else encode_utf8 c)"

definition quote_yaml_string :: "str \<Rightarrow> str" where
  "quote_yaml_string v = [0x22] @ concat (map escape_char (chars v)) @ [0x22]"

definition plain_yaml_scalar_round_trips_as_string :: "('u, 'w, 'z) yaml_ext_scheme \<Rightarrow> str \<Rightarrow> bool" where
  "plain_yaml_scalar_round_trips_as_string x v =
     (case noyalib_string x (signature_emission_probe_config x) v of
        Inr parsed \<Rightarrow> parsed = v
      | Inl _ \<Rightarrow> False)"

definition serialize_signature_document ::
    "('u, 'w, 'z) yaml_ext_scheme \<Rightarrow> signature_document \<Rightarrow> core_error + str" where
  "serialize_signature_document x doc =
     result_try (validate_schema doc) (\<lambda>_.
     if from_yaml_str x (sd_alg doc) = None
     then Inl (CE_SignatureYaml
            (ascii ''signature document alg is not a canonical v1alpha1 algorithm''))
     else result_try (ok_or (b64_decode x (sd_signature doc)) CE_InvalidBase64) (\<lambda>_.
       Inr (ascii ''schema: '' @ sd_schema doc @ [0x0A] @ ascii ''alg: '' @ sd_alg doc @ [0x0A]
            @ (case sd_keyid doc of
                 Some keyid \<Rightarrow> ascii ''keyid: '' @ quote_yaml_string keyid @ [0x0A]
               | None \<Rightarrow> [])
            @ ascii ''signature: ''
            @ (if plain_yaml_scalar_round_trips_as_string x (sd_signature doc)
               then sd_signature doc
               else quote_yaml_string (sd_signature doc))
            @ [0x0A])))"

section \<open>Schema validation\<close>

text \<open>
  The compiled schema is a \<open>OnceLock\<close>: the first use fills the cell, every use returns what
  the cell holds.
\<close>

fun get_or_init :: "'a option \<Rightarrow> 'a \<Rightarrow> 'a \<times> 'a option" where
  "get_or_init None v = (v, Some v)"
| "get_or_init (Some w) v = (w, Some w)"

definition compiled_schema ::
    "('u, 'w, 'z) yaml_ext_scheme \<Rightarrow> (str + unit) option \<Rightarrow> (core_error + unit) \<times> (str + unit) option" where
  "compiled_schema x cell =
     (case get_or_init cell (tier_a_compile x) of
        (Inr v, cell') \<Rightarrow> (Inr v, cell')
      | (Inl msg, cell') \<Rightarrow> (Inl (CE_SignatureYaml msg), cell'))"

definition signature_document_validates_tier_a_schema ::
    "('u, 'w, 'z) yaml_ext_scheme \<Rightarrow> signature_document \<Rightarrow> (str + unit) option
       \<Rightarrow> (core_error + unit) \<times> (str + unit) option" where
  "signature_document_validates_tier_a_schema x doc cell =
     (case map_err CE_SignatureYaml (serde_to_value x doc) of
        Inl e \<Rightarrow> (Inl e, cell)
      | Inr _ \<Rightarrow>
          (case compiled_schema x cell of
             (Inl e, cell') \<Rightarrow> (Inl e, cell')
           | (Inr _, cell') \<Rightarrow> (map_err CE_SignatureYaml (tier_a_validate x doc), cell')))"


section \<open>Reading a double-quoted scalar\<close>

text \<open>
  The YAML 1.2 reading of a double-quoted scalar on one line, as a specification of what
  \<open>quote_yaml_string\<close> writes: the single-character escapes and \<open>\u\<close> with four digits.
\<close>

definition simple_escape :: "rchar \<Rightarrow> rchar option" where
  "simple_escape e =
     (if e = 0x22 then Some 0x22 else if e = 0x5C then Some 0x5C else if e = 0x30 then Some 0
      else if e = 0x61 then Some 7 else if e = 0x62 then Some 8 else if e = 0x74 then Some 9
      else if e = 0x6E then Some 0x0A else if e = 0x76 then Some 0x0B
      else if e = 0x66 then Some 0x0C else if e = 0x72 then Some 0x0D
      else if e = 0x65 then Some 0x1B else None)"

definition hex_value :: "rchar \<Rightarrow> nat option" where
  "hex_value c = (if 48 \<le> c \<and> c \<le> 57 then Some (c - 48)
                  else if 65 \<le> c \<and> c \<le> 70 then Some (c - 55) else None)"

fun hex_value4 :: "rchar \<Rightarrow> rchar \<Rightarrow> rchar \<Rightarrow> rchar \<Rightarrow> rchar option" where
  "hex_value4 a b c d =
     (case (hex_value a, hex_value b, hex_value c, hex_value d) of
        (Some a', Some b', Some c', Some d') \<Rightarrow> Some (((a' * 16 + b') * 16 + c') * 16 + d')
      | _ \<Rightarrow> None)"

fun take4 :: "'a list \<Rightarrow> ('a \<times> 'a \<times> 'a \<times> 'a) option" where
  "take4 (a # b # c # d # r) = Some (a, b, c, d)"
| "take4 _ = None"

function unescape :: "rchar list \<Rightarrow> rchar list option" where
  "unescape cs =
     (case cs of
        [] \<Rightarrow> None
      | c # r \<Rightarrow>
          if c = 0x22 then (if r = [] then Some [] else None)
          else if c = 0x5C then
            (case r of
               [] \<Rightarrow> None
             | e # r' \<Rightarrow>
                 if e = 0x75 then
                   (case take4 r' of
                      None \<Rightarrow> None
                    | Some (d1, d2, d3, d4) \<Rightarrow>
                        (case hex_value4 d1 d2 d3 d4 of
                           None \<Rightarrow> None
                         | Some v \<Rightarrow> map_option ((#) v) (unescape (drop 4 r'))))
                 else (case simple_escape e of
                         None \<Rightarrow> None
                       | Some v \<Rightarrow> map_option ((#) v) (unescape r')))
          else if c < 0x20 then None
          else map_option ((#) c) (unescape r))"
  by pat_completeness auto
termination by (relation "measure length") auto

declare unescape.simps [simp del]

definition unquote_yaml_string :: "str \<Rightarrow> str option" where
  "unquote_yaml_string s =
     (case chars s of
        c # r \<Rightarrow> if c = 0x22 then map_option push_chars (unescape r) else None
      | [] \<Rightarrow> None)"

text \<open>The characters \<open>escape_char\<close> writes.\<close>

definition is_escaped :: "rchar \<Rightarrow> bool" where
  "is_escaped c \<longleftrightarrow> c = 0x22 \<or> c = 0x5C \<or> c \<le> 0x1F \<or> (0x7F \<le> c \<and> c \<le> 0x9F) \<or> c = 0x2028 \<or> c = 0x2029"

lemma escape_char_raw: "\<not> is_escaped c \<Longrightarrow> escape_char c = encode_utf8 c"
  by (auto simp: is_escaped_def escape_char_def)

lemma hex_upper_4:
  "hex_upper 4 n = [hex_digit (n div 16 div 16 div 16 mod 16), hex_digit (n div 16 div 16 mod 16),
     hex_digit (n div 16 mod 16), hex_digit (n mod 16)]"
proof -
  have four: "4 = Suc (Suc (Suc (Suc 0)))" by simp
  show ?thesis unfolding four by (simp only: hex_upper.simps append.simps)
qed

lemma unat_hex_digit: "d < 16 \<Longrightarrow> unat (hex_digit d) = (if d < 10 then 48 + d else 55 + d)"
  by (simp add: hex_digit_def)

lemma hex_value_digit: "d < 16 \<Longrightarrow> hex_value (unat (hex_digit d)) = Some d"
  by (simp add: unat_hex_digit hex_value_def)

lemma hex_recombine:
  "n < 65536 \<Longrightarrow> ((n div 16 div 16 div 16 mod 16 * 16 + n div 16 div 16 mod 16) * 16 + n div 16 mod 16) * 16
     + n mod 16 = (n :: nat)"
proof -
  assume "n < 65536"
  then have "n div 16 div 16 div 16 < 16" by (simp add: div_mult2_eq [symmetric] less_mult_imp_div_less)
  then have "n div 16 div 16 div 16 mod 16 = n div 16 div 16 div 16" by simp
  then show ?thesis by (simp only: div_mult_mod_eq)
qed

definition simple_escapes :: "rchar list" where
  "simple_escapes = [0x22, 0x5C, 0, 7, 8, 9, 0x0A, 0x0B, 0x0C, 0x0D, 0x1B]"

lemma escape_char_hex:
  "is_escaped c \<Longrightarrow> c \<notin> set simple_escapes \<Longrightarrow> escape_char c = [0x5C, 0x75] @ hex_upper 4 c"
  by (simp add: simple_escapes_def escape_char_def is_escaped_def)

lemma escape_char_simple:
  "c \<in> set simple_escapes \<Longrightarrow> \<exists>e. escape_char c = [0x5C, e] \<and> simple_escape (unat e) = Some c
     \<and> e \<noteq> 0x75 \<and> 0x20 \<le> unat e \<and> unat e < 0x7F"
  unfolding simple_escapes_def list.set insert_iff empty_iff
  by (elim disjE) (simp_all add: escape_char_def simple_escape_def)

lemma escape_char_ascii:
  assumes "is_escaped c"
  shows "\<forall>b \<in> set (escape_char c). 0x20 \<le> unat b \<and> unat b < 0x7F"
proof (cases "c \<in> set simple_escapes")
  case True
  with escape_char_simple [OF this] show ?thesis by auto
next
  case False
  have digit: "d < 16 \<Longrightarrow> 0x20 \<le> unat (hex_digit d) \<and> unat (hex_digit d) < 0x7F" for d
    by (simp add: unat_hex_digit)
  show ?thesis
    unfolding escape_char_hex [OF assms False] hex_upper_4 by (auto simp: digit)
qed

definition escape_chars :: "rchar \<Rightarrow> rchar list" where
  "escape_chars c = (if is_escaped c then map unat (escape_char c) else [c])"

lemma push_ascii: "\<forall>b \<in> set bs. unat b < 0x80 \<Longrightarrow> push_chars (map unat bs) = bs"
  by (induction bs) (simp_all add: encode_utf8_ascii)

lemma push_escape_chars: "push_chars (escape_chars c) = escape_char c"
proof (cases "is_escaped c")
  case True
  then have "\<forall>b \<in> set (escape_char c). unat b < 0x80" using escape_char_ascii by fastforce
  then show ?thesis using True by (simp add: escape_chars_def push_ascii)
qed (simp add: escape_chars_def escape_char_raw)

lemma escape_chars_scalar: "is_scalar c \<Longrightarrow> list_all is_scalar (escape_chars c)"
  using escape_char_ascii [of c]
  by (fastforce simp: escape_chars_def is_scalar_def list_all_iff)

lemma unescape_escape:
  assumes "is_scalar c"
  shows "unescape (escape_chars c @ r) = map_option ((#) c) (unescape r)"
proof (cases "is_escaped c")
  case False
  then show ?thesis
    by (subst unescape.simps) (auto simp: escape_chars_def is_escaped_def)
next
  case True
  show ?thesis
  proof (cases "c \<in> set simple_escapes")
    case s: True
    then obtain e where e: "escape_char c = [0x5C, e]" "simple_escape (unat e) = Some c" "e \<noteq> 0x75"
      using escape_char_simple by blast
    have "unat e \<noteq> 0x75" using e(3) by (simp add: word_unat_eq_iff)
    then show ?thesis using True e
      by (simp add: escape_chars_def unescape.simps [of "_ # _"])
  next
    case s: False
    note e = escape_char_hex [OF True s]
    have "c < 65536" using True by (auto simp: is_escaped_def)
    then show ?thesis using True
      by (simp add: escape_chars_def e hex_upper_4 unescape.simps [of "_ # _"] hex_value_digit
          hex_recombine)
  qed
qed


lemma unescape_quoted:
  "list_all is_scalar cs \<Longrightarrow> unescape (concat (map escape_chars cs) @ [0x22]) = Some cs"
proof (induction cs)
  case Nil
  show ?case by (simp add: unescape.simps)
qed (simp add: unescape_escape)

lemma quote_as_chars: "quote_yaml_string v = push_chars (0x22 # concat (map escape_chars (chars v)) @ [0x22])"
proof -
  have "push_chars (concat (map escape_chars cs)) = concat (map escape_char cs)" for cs
    by (induction cs) (simp_all add: push_escape_chars)
  then show ?thesis by (simp add: quote_yaml_string_def encode_utf8_ascii octet_def)
qed

lemma quote_chars_scalar:
  "list_all is_scalar (0x22 # concat (map escape_chars (chars v)) @ [0x22])"
proof -
  have "list_all is_scalar cs \<Longrightarrow> list_all is_scalar (concat (map escape_chars cs))" for cs
    by (induction cs) (simp_all add: escape_chars_scalar)
  then show ?thesis using chars_scalar [of v] by (simp add: is_scalar_def)
qed

lemma utf8_valid_quote: "utf8_valid (quote_yaml_string v)"
  unfolding quote_as_chars utf8_valid_iff using quote_chars_scalar by blast

lemma quote_octets: "b \<in> set (quote_yaml_string v) \<Longrightarrow> 0x20 \<le> unat b \<and> unat b \<noteq> 0x7F"
proof -
  assume "b \<in> set (quote_yaml_string v)"
  then consider "b = 0x22" | c where "c \<in> set (chars v)" "b \<in> set (escape_char c)"
    by (auto simp: quote_yaml_string_def)
  then show ?thesis
  proof cases
    case 2
    show ?thesis
    proof (cases "is_escaped c")
      case True
      then show ?thesis using escape_char_ascii 2 by fastforce
    next
      case False
      then have "b \<in> set (encode_utf8 c)" using 2 by (simp add: escape_char_raw)
      moreover have "is_scalar c" using 2(1) chars_scalar [of v] by (simp add: list_all_iff)
      ultimately show ?thesis
        using False encode_utf8_multi [of c b] encode_utf8_ascii [of c]
        by (cases "c < 0x80") (auto simp: is_escaped_def)
    qed
  qed simp
qed

text \<open>
  The quoting of the canonical emitter. For every string, the quoted form is one line of
  UTF-8 without control octets, and reading it as a YAML double-quoted scalar returns the
  string: no key identifier can end its line or be read back as another one.
\<close>

theorem quote_yaml_string_roundtrip:
  assumes "utf8_valid v"
  shows "unquote_yaml_string (quote_yaml_string v) = Some v \<and>
         utf8_valid (quote_yaml_string v) \<and>
         (\<forall>b \<in> set (quote_yaml_string v). 0x20 \<le> unat b \<and> unat b \<noteq> 0x7F)"
proof (intro conjI ballI)
  have "chars (quote_yaml_string v) = 0x22 # concat (map escape_chars (chars v)) @ [0x22]"
    unfolding quote_as_chars by (rule chars_push [OF quote_chars_scalar])
  then show "unquote_yaml_string (quote_yaml_string v) = Some v"
    by (simp add: unquote_yaml_string_def unescape_quoted [OF chars_scalar] push_chars_chars [OF assms])
qed (auto simp: utf8_valid_quote dest: quote_octets)

theorem quote_yaml_string_roundtrip_witness:
  "unquote_yaml_string (quote_yaml_string (ascii ''a'' @ [0x0A, 0x22, 0xC2, 0x85])) =
     Some (ascii ''a'' @ [0x0A, 0x22, 0xC2, 0x85])"
proof -
  have "utf8_valid (ascii ''a'' @ [0x0A, 0x22, 0xC2, 0x85])" by code_simp
  then show ?thesis using quote_yaml_string_roundtrip by blast
qed

section \<open>The emitted carrier\<close>

lemma has_marker_line:
  assumes "0x0A \<notin> set l" and "l \<noteq> []" and "hd l \<noteq> 0x2D" and "has_marker (l @ 0x0A # rest)"
  shows "has_marker rest"
proof -
  obtain pre mk post where m: "l @ 0x0A # rest = pre @ mk @ post" "marker_line mk" "at_line_start pre"
    using assms(4) by (auto simp: has_marker_def marker_at_def)
  have "pre \<noteq> []"
  proof
    assume "pre = []"
    then have "hd (l @ 0x0A # rest) = hd mk" using m(1,2) by (auto dest: marker_line_facts)
    then show False using assms(2,3) marker_line_facts [OF m(2)] by simp
  qed
  then have last: "last pre = 0x0A" using m(3) by (simp add: at_line_start_def)
  have "\<exists>q. pre = l @ 0x0A # q"
  proof (cases "length pre \<le> length l")
    case True
    then have "set pre \<subseteq> set l" using m(1) by (auto simp: append_eq_append_conv2)
    then show ?thesis using last \<open>pre \<noteq> []\<close> assms(1) last_in_set by fastforce
  next
    case False
    then obtain us where "pre = l @ us" "us \<noteq> []" "us @ mk @ post = 0x0A # rest"
      using m(1) by (auto simp: append_eq_append_conv2)
    then show ?thesis by (cases us) auto
  qed
  then obtain q where q: "pre = l @ 0x0A # q" by blast
  then have "marker_at rest q mk post" using m last by (auto simp: marker_at_def at_line_start_def split: if_splits)
  then show ?thesis by (auto simp: has_marker_def)
qed

lemma not_has_marker_line:
  "0x0A \<notin> set l \<Longrightarrow> l \<noteq> [] \<Longrightarrow> hd l \<noteq> 0x2D \<Longrightarrow> \<not> has_marker rest \<Longrightarrow> \<not> has_marker (l @ 0x0A # rest)"
  using has_marker_line by blast

lemma not_has_marker_Nil [simp]: "\<not> has_marker []"
  by (auto simp: has_marker_def marker_at_def marker_line_def)

lemma utf8_valid_line: "utf8_valid l \<Longrightarrow> utf8_valid rest \<Longrightarrow> utf8_valid (l @ 0x0A # rest)"
  using utf8_valid_append [of l "0x0A # rest"] by (simp add: utf8_valid_ascii_Cons)


text \<open>
  The documented behaviour of the base64url engine without padding: it decodes only strings
  over its alphabet, decodes what it encodes, and encodes three octets as four characters.
\<close>

definition b64url_char :: "u8 \<Rightarrow> bool" where
  "b64url_char b \<longleftrightarrow> (let n = unat b in (65 \<le> n \<and> n \<le> 90) \<or> (97 \<le> n \<and> n \<le> 122) \<or> (48 \<le> n \<and> n \<le> 57)
     \<or> n = 45 \<or> n = 95)"

definition b64_ok :: "('u, 'w, 'z) yaml_ext_scheme \<Rightarrow> bool" where
  "b64_ok x \<longleftrightarrow>
     (\<forall>s d. b64_decode x s = Some d \<longrightarrow> list_all b64url_char s) \<and>
     (\<forall>d. b64_decode x (b64_encode x d) = Some d) \<and>
     (\<forall>d. length (b64_encode x d) = (length d * 4 + 2) div 3)"

lemma b64_okD:
  assumes "b64_ok x"
  shows "b64_decode x s = Some d \<Longrightarrow> list_all b64url_char s"
    and "b64_decode x (b64_encode x d) = Some d"
    and "length (b64_encode x d) = (length d * 4 + 2) div 3"
  using assms by (auto simp: b64_ok_def)

lemma b64url_char_bounds: "b64url_char b \<Longrightarrow> 0x2D \<le> unat b \<and> unat b < 0x7B"
  by (auto simp: b64url_char_def Let_def)

definition document_wf :: "signature_document \<Rightarrow> bool" where
  "document_wf doc \<longleftrightarrow> (case sd_keyid doc of Some k \<Rightarrow> utf8_valid k | None \<Rightarrow> True)"

text \<open>The lines of a canonical carrier, without their line feeds.\<close>

definition carrier_lines :: "str \<Rightarrow> str option \<Rightarrow> str \<Rightarrow> str list" where
  "carrier_lines alg keyid sig =
     [ascii ''schema: '' @ SCHEMA_V1ALPHA1, ascii ''alg: '' @ alg]
     @ (case keyid of Some k \<Rightarrow> [ascii ''keyid: '' @ quote_yaml_string k] | None \<Rightarrow> [])
     @ [ascii ''signature: '' @ sig]"

definition join_lines :: "str list \<Rightarrow> str" where
  "join_lines ls = concat (map (\<lambda>l. l @ [0x0A]) ls)"

lemma join_lines_simps [simp]:
  "join_lines [] = []" "join_lines (l # ls) = l @ 0x0A # join_lines ls"
  by (simp_all add: join_lines_def)

definition emitted_signature :: "('u, 'w, 'z) yaml_ext_scheme \<Rightarrow> str \<Rightarrow> str" where
  "emitted_signature x sig =
     (if plain_yaml_scalar_round_trips_as_string x sig then sig else quote_yaml_string sig)"

lemma serialize_iff:
  "serialize_signature_document x doc = Inr out \<longleftrightarrow>
     sd_schema doc = SCHEMA_V1ALPHA1 \<and> from_yaml_str x (sd_alg doc) \<noteq> None \<and>
     b64_decode x (sd_signature doc) \<noteq> None \<and>
     out = join_lines (carrier_lines (sd_alg doc) (sd_keyid doc) (emitted_signature x (sd_signature doc)))"
  by (cases "sd_keyid doc")
     (auto simp: serialize_signature_document_def validate_schema_def result_simps carrier_lines_def
        emitted_signature_def split: option.splits)

definition safe_line :: "str \<Rightarrow> bool" where
  "safe_line l \<longleftrightarrow> l \<noteq> [] \<and> hd l \<noteq> 0x2D \<and> utf8_valid l \<and> (\<forall>b\<in>set l. 0x20 \<le> unat b)"

lemma safe_lineI:
  "p \<noteq> [] \<Longrightarrow> hd p \<noteq> 0x2D \<Longrightarrow> utf8_valid p \<Longrightarrow> utf8_valid v \<Longrightarrow>
     \<forall>b\<in>set p. 0x20 \<le> unat b \<Longrightarrow> \<forall>b\<in>set v. 0x20 \<le> unat b \<Longrightarrow> safe_line (p @ v)"
  by (auto simp: safe_line_def utf8_valid_append)

lemma join_safe_lines:
  "list_all safe_line ls \<Longrightarrow> \<not> has_marker (join_lines ls) \<and> utf8_valid (join_lines ls)
     \<and> (ls \<noteq> [] \<longrightarrow> join_lines ls \<noteq> [] \<and> last (join_lines ls) = 0x0A)"
proof (induction ls)
  case (Cons l ls)
  have "0x0A \<notin> set l" using Cons.prems by (auto simp: safe_line_def)
  then show ?case
    using Cons not_has_marker_line [of l "join_lines ls"]
    by (cases ls) (auto simp: safe_line_def utf8_valid_line)
qed simp

lemma b64_string_safe:
  assumes "list_all b64url_char s"
  shows "utf8_valid s" and "\<forall>b\<in>set s. 0x20 \<le> unat b"
  using assms b64url_char_bounds by (fastforce simp: list_all_iff intro!: utf8_valid_ascii)+

lemma carrier_lines_safe:
  assumes "alg = canonical_name a" and "utf8_valid sig" and "\<forall>b\<in>set sig. 0x20 \<le> unat b"
  shows "list_all safe_line (carrier_lines alg keyid sig)"
proof -
  have names: "utf8_valid (canonical_name a)" "\<forall>b\<in>set (canonical_name a). 0x20 \<le> unat b"
    by (cases a; simp add: ed25519_name_def p256_name_def utf8_valid_ascii)+
  have "safe_line (ascii ''schema: '' @ SCHEMA_V1ALPHA1)" "safe_line (ascii ''alg: '' @ canonical_name a)"
    "safe_line (ascii ''signature: '' @ sig)"
    using assms names
    by (intro safe_lineI; simp add: SCHEMA_V1ALPHA1_def utf8_valid_ascii_Cons)+
  moreover have "safe_line (ascii ''keyid: '' @ quote_yaml_string k)" for k
    using quote_octets [of _ k] by (intro safe_lineI) (auto simp: utf8_valid_quote utf8_valid_ascii)
  ultimately show ?thesis using assms(1) by (auto simp: carrier_lines_def split: option.splits)
qed

lemma emitted_signature_safe:
  assumes "list_all b64url_char sig"
  shows "utf8_valid (emitted_signature x sig)" and "\<forall>b\<in>set (emitted_signature x sig). 0x20 \<le> unat b"
  using b64_string_safe [OF assms] quote_octets [of _ sig]
  by (auto simp: emitted_signature_def utf8_valid_quote)

lemma serialized_carrier:
  assumes "traits_ok x" and "b64_ok x" and "serialize_signature_document x doc = Inr out"
  shows "\<not> has_marker out" and "utf8_valid out" and "out \<noteq> []" and "last out = 0x0A"
proof -
  from assms(3) obtain a d where "from_yaml_str x (sd_alg doc) = Some a"
    and d: "b64_decode x (sd_signature doc) = Some d" by (auto simp: serialize_iff)
  then have a: "sd_alg doc = canonical_name a" using traits_okD(2) [OF assms(1)] by simp
  have "list_all safe_line (carrier_lines (sd_alg doc) (sd_keyid doc) (emitted_signature x (sd_signature doc)))"
    using carrier_lines_safe [OF a] emitted_signature_safe b64_okD(1) [OF assms(2) d] by blast
  from join_safe_lines [OF this] assms(3)
  show "\<not> has_marker out" "utf8_valid out" "out \<noteq> []" "last out = 0x0A"
    by (auto simp: serialize_iff carrier_lines_def)
qed


text \<open>
  The canonical emitter, on every branch. It fails on a foreign schema, then on an unknown
  algorithm name, then on an invalid base64url signature, and on nothing else; when it succeeds
  the carrier is exactly the schema, algorithm, optional key identifier and signature lines, is
  non-empty UTF-8 ended by a line feed, and holds no constrained marker, so appending it to a
  payload cannot move the boundary between them.
\<close>

theorem serialize_signature_document_correct:
  assumes "traits_ok x" and "b64_ok x"
  shows "(serialize_signature_document x doc = Inr out \<longleftrightarrow>
            sd_schema doc = SCHEMA_V1ALPHA1 \<and> from_yaml_str x (sd_alg doc) \<noteq> None \<and>
            b64_decode x (sd_signature doc) \<noteq> None \<and>
            out = join_lines (carrier_lines (sd_alg doc) (sd_keyid doc)
                                (emitted_signature x (sd_signature doc)))) \<and>
         (serialize_signature_document x doc = Inr out \<longrightarrow>
            \<not> has_marker out \<and> utf8_valid out \<and> out \<noteq> [] \<and> last out = 0x0A) \<and>
         (serialize_signature_document x doc = Inl e \<longleftrightarrow>
            (if sd_schema doc \<noteq> SCHEMA_V1ALPHA1 then e = CE_SchemaMismatch
             else if from_yaml_str x (sd_alg doc) = None
             then e = CE_SignatureYaml
                    (ascii ''signature document alg is not a canonical v1alpha1 algorithm'')
             else b64_decode x (sd_signature doc) = None \<and> e = CE_InvalidBase64))"
proof (intro conjI impI)
  show "serialize_signature_document x doc = Inr out \<longleftrightarrow>
      sd_schema doc = SCHEMA_V1ALPHA1 \<and> from_yaml_str x (sd_alg doc) \<noteq> None \<and>
      b64_decode x (sd_signature doc) \<noteq> None \<and>
      out = join_lines (carrier_lines (sd_alg doc) (sd_keyid doc)
                          (emitted_signature x (sd_signature doc)))"
    by (rule serialize_iff)
  show "serialize_signature_document x doc = Inl e \<longleftrightarrow>
      (if sd_schema doc \<noteq> SCHEMA_V1ALPHA1 then e = CE_SchemaMismatch
       else if from_yaml_str x (sd_alg doc) = None
       then e = CE_SignatureYaml
              (ascii ''signature document alg is not a canonical v1alpha1 algorithm'')
       else b64_decode x (sd_signature doc) = None \<and> e = CE_InvalidBase64)"
    by (auto simp: serialize_signature_document_def validate_schema_def result_simps
        simp del: ascii_Cons)
qed (use serialized_carrier [OF assms] in auto)

section \<open>The key scan on a canonical carrier\<close>

lemma chars_ascii_Cons: "unat b < 0x80 \<Longrightarrow> utf8_valid r \<Longrightarrow> chars (b # r) = unat b # chars r"
proof -
  assume b: "unat b < 0x80" and r: "utf8_valid r"
  have "list_all is_scalar (unat b # chars r)" using chars_scalar [of r] b by (simp add: is_scalar_def)
  moreover have "b # r = push_chars (unat b # chars r)"
    using b r by (simp add: encode_utf8_ascii push_chars_chars)
  ultimately show ?thesis by (metis chars_push)
qed

lemma chars_Nil: "chars [] = []"
  by (simp add: chars_def utf8_chars.simps)

lemma trim_start_id:
  assumes "unat b < 0x80" and "utf8_valid r" and "\<not> is_whitespace (unat b)"
  shows "trim_start (b # r) = b # r"
  using assms by (simp add: trim_start_def chars_ascii_Cons encode_utf8_ascii push_chars_chars)

lemma split_lines_acc:
  "0x0A \<notin> set l \<Longrightarrow> split_lines acc (l @ 0x0A # rest) =
     (if ends_with (acc @ l) [0x0D] then butlast (acc @ l) else acc @ l) # split_lines [] rest"
  by (induction l arbitrary: acc) simp_all

lemma str_lines_join:
  "list_all safe_line ls \<Longrightarrow> str_lines (join_lines ls) = ls"
proof (induction ls)
  case (Cons l ls)
  then have l: "0x0A \<notin> set l" "l \<noteq> []" "\<forall>b\<in>set l. 0x20 \<le> unat b" by (auto simp: safe_line_def)
  have "last l \<noteq> 0x0D"
  proof
    assume "last l = 0x0D"
    with l(2) have "0x0D \<in> set l" by (metis last_in_set)
    with l(3) show False by fastforce
  qed
  then show ?case using Cons split_lines_acc [OF l(1), of "[]"]
    by (simp add: str_lines_def ends_with_single)
qed (simp add: str_lines_def)

lemma split_once_key:
  "d \<notin> set k \<Longrightarrow> split_once d (k @ d # v) = Some (k, v)"
  by (induction k) auto

lemma line_key_tier_a:
  assumes "k \<in> set TIER_A_TOP_LEVEL_KEYS" and "utf8_valid v"
    and "noyalib_string x (signature_key_decoder_config x) k = Inr k"
  shows "line_key x (k @ 0x3A # v) = Some k"
proof -
  obtain b r where k: "k = b # r" "\<forall>c\<in>set k. 0x61 \<le> unat c \<and> unat c \<le> 0x7A"
    using assms(1) by (auto simp: TIER_A_TOP_LEVEL_KEYS_def)
  have r: "utf8_valid (r @ 0x3A # v)"
  proof (rule utf8_valid_append)
    have "unat c < 0x80" if "c \<in> set r" for c
    proof -
      have "unat c \<le> 0x7A" using k that by simp
      then show ?thesis by simp
    qed
    then show "utf8_valid r" by (simp add: utf8_valid_ascii)
  qed (use assms(2) in \<open>simp add: utf8_valid_ascii_Cons\<close>)
  have t: "trim_start (k @ 0x3A # v) = k @ 0x3A # v"
    using trim_start_id [of b "r @ 0x3A # v"] k r by (auto simp: is_whitespace_def)
  have s: "split_once 0x3A (k @ 0x3A # v) = Some (k, v)"
    using k(2) by (intro split_once_key) auto
  have "list_all (\<lambda>k. trim k = k) TIER_A_TOP_LEVEL_KEYS"
    by (simp add: TIER_A_TOP_LEVEL_KEYS_def trim_def chars_ascii_Cons chars_Nil utf8_valid_ascii_Cons
        is_whitespace_def encode_utf8_ascii octet_def)
  then have "trim k = k" using assms(1) by (simp add: list_all_iff)
  moreover have "b \<noteq> 0x23" "b \<noteq> 0x20" "b \<noteq> 0x09" using k by auto
  ultimately show ?thesis
    using assms(3)
    by (simp add: line_key_def t [unfolded k(1) append_Cons] s [unfolded k(1) append_Cons] k(1)
        starts_with_def Let_def del: split_once.simps)
qed


text \<open>
  The documented reading of a plain key: a scalar that is one of the four key names is the
  string it spells, under the policy of the key decoder.
\<close>

definition plain_keys_ok :: "('u, 'w, 'z) yaml_ext_scheme \<Rightarrow> bool" where
  "plain_keys_ok x \<longleftrightarrow>
     (\<forall>k\<in>set TIER_A_TOP_LEVEL_KEYS. noyalib_string x (signature_key_decoder_config x) k = Inr k)"

lemma scan_keys_fold:
  assumes "\<And>l. l \<in> set ls \<Longrightarrow> line_key x l \<in> Some ` S"
  shows "foldl (\<lambda>keys line. case line_key x line of None \<Rightarrow> keys | Some k \<Rightarrow> insert k keys) K ls \<subseteq> K \<union> S"
  using assms
proof (induction ls arbitrary: K)
  case (Cons l ls)
  obtain k where k: "line_key x l = Some k" "k \<in> S" using Cons.prems [of l] by auto
  have "foldl (\<lambda>keys line. case line_key x line of None \<Rightarrow> keys | Some k \<Rightarrow> insert k keys)
      (insert k K) ls \<subseteq> insert k K \<union> S"
    using Cons by (intro Cons.IH) simp
  with k show ?case by auto
qed simp

lemma carrier_line_keys:
  assumes "alg = canonical_name a" and "utf8_valid sig" and "plain_keys_ok x"
    and "l \<in> set (carrier_lines alg keyid sig)"
  shows "line_key x l \<in> Some ` set TIER_A_TOP_LEVEL_KEYS"
proof -
  have names: "utf8_valid (canonical_name a)" "utf8_valid SCHEMA_V1ALPHA1"
    by (cases a; simp add: ed25519_name_def p256_name_def utf8_valid_ascii_Cons)
       (simp add: SCHEMA_V1ALPHA1_def utf8_valid_ascii_Cons)
  consider "l = ascii ''schema'' @ 0x3A # 0x20 # SCHEMA_V1ALPHA1"
    | "l = ascii ''alg'' @ 0x3A # 0x20 # canonical_name a"
    | k where "l = ascii ''keyid'' @ 0x3A # 0x20 # quote_yaml_string k"
    | "l = ascii ''signature'' @ 0x3A # 0x20 # sig"
    using assms(1,4) by (auto simp: carrier_lines_def split: option.splits)
  then have "\<exists>k v. l = k @ 0x3A # 0x20 # v \<and> k \<in> set TIER_A_TOP_LEVEL_KEYS \<and> utf8_valid v"
    by cases (use names assms(2) utf8_valid_quote in
        \<open>auto simp: TIER_A_TOP_LEVEL_KEYS_def simp del: ascii_Cons\<close>)
  then obtain k v where "l = k @ 0x3A # (0x20 # v)" "k \<in> set TIER_A_TOP_LEVEL_KEYS"
    "utf8_valid (0x20 # v)" by (auto simp: utf8_valid_ascii_Cons)
  then show ?thesis
    using line_key_tier_a [of k "0x20 # v" x] assms(3) by (auto simp: plain_keys_ok_def)
qed

text \<open>
  The flat key scan of a canonical carrier. A carrier the emitter produced, within the
  document byte budget, is scanned without error and reported to have no unknown field.
\<close>

theorem canonical_carrier_has_no_unknown_fields:
  assumes "traits_ok x" and "b64_ok x" and "plain_keys_ok x"
    and "serialize_signature_document x doc = Inr out" and "length out \<le> SIGNATURE_DOCUMENT_MAX_BYTES"
  shows "has_unknown_signature_document_fields x out = Inr False"
proof -
  let ?sig = "emitted_signature x (sd_signature doc)"
  let ?ls = "carrier_lines (sd_alg doc) (sd_keyid doc) ?sig"
  from assms(4) obtain a d where o: "out = join_lines ?ls"
    and "from_yaml_str x (sd_alg doc) = Some a" and d: "b64_decode x (sd_signature doc) = Some d"
    by (auto simp: serialize_iff)
  then have a: "sd_alg doc = canonical_name a" using traits_okD(2) [OF assms(1)] by simp
  have safe: "list_all safe_line ?ls"
    using carrier_lines_safe [OF a] emitted_signature_safe b64_okD(1) [OF assms(2) d] by blast
  have u: "utf8_valid ?sig" using emitted_signature_safe b64_okD(1) [OF assms(2) d] by blast
  have "top_level_keys_flat_line_scan x out \<subseteq> {} \<union> set TIER_A_TOP_LEVEL_KEYS"
    unfolding top_level_keys_flat_line_scan_def o str_lines_join [OF safe]
    using carrier_line_keys [OF a u assms(3)] by (intro scan_keys_fold)
  moreover have "from_utf8 out = Some out"
    using serialized_carrier(2) [OF assms(1,2,4)] by (simp add: from_utf8_def)
  ultimately show ?thesis
    using assms(5)
    by (auto simp: has_unknown_signature_document_fields_def signature_document_top_level_keys_def
        ensure_signature_document_byte_budget_def)
qed


section \<open>Parsing what was emitted\<close>

text \<open>
  The YAML reading of a flat block mapping, stated of the parser as a hypothesis: a value is a
  double-quoted scalar with the escapes the emitter writes, or a plain word that no YAML schema resolves to another type, or plain
  base64url text that the parser itself reads back as a string. A mapping of the four fields,
  one per line and within the cumulative scalar budget, is then one document with those values.
\<close>

definition plain_word :: "str \<Rightarrow> bool" where
  "plain_word v \<longleftrightarrow> length v > 5 \<and> (65 \<le> unat (hd v) \<and> unat (hd v) \<le> 90) \<and>
     list_all (\<lambda>b. b64url_char b \<or> b = 0x2E) v"

definition flat_value :: "('u, 'w, 'z) yaml_ext_scheme \<Rightarrow> str \<Rightarrow> str \<Rightarrow> bool" where
  "flat_value x v s \<longleftrightarrow> (utf8_valid s \<and> v = quote_yaml_string s) \<or> (s = v \<and> plain_word v) \<or>
     (s = v \<and> list_all b64url_char v \<and> noyalib_string x (signature_emission_probe_config x) v = Inr v)"

definition flat_lines :: "str \<Rightarrow> str \<Rightarrow> str option \<Rightarrow> str \<Rightarrow> str list" where
  "flat_lines schema_v alg_v keyid_v sig_v =
     [ascii ''schema: '' @ schema_v, ascii ''alg: '' @ alg_v]
     @ (case keyid_v of Some k \<Rightarrow> [ascii ''keyid: '' @ k] | None \<Rightarrow> [])
     @ [ascii ''signature: '' @ sig_v]"

definition yaml_flat_ok :: "('u, 'w, 'z) yaml_ext_scheme \<Rightarrow> bool" where
  "yaml_flat_ok x \<longleftrightarrow>
     (\<forall>schema_v alg_v keyid_v sig_v schema alg keyid sig.
        flat_value x schema_v schema \<longrightarrow> flat_value x alg_v alg \<longrightarrow> flat_value x sig_v sig \<longrightarrow>
        rel_option (flat_value x) keyid_v keyid \<longrightarrow>
        length (join_lines (flat_lines schema_v alg_v keyid_v sig_v)) \<le> SIGNATURE_DOCUMENT_MAX_TOTAL_SCALAR_BYTES \<longrightarrow>
        (let text = join_lines (flat_lines schema_v alg_v keyid_v sig_v);
             config = signature_document_parser_config x in
         noyalib_load_all x config text = Inr 1 \<and>
         noyalib_document x config text =
           Inr \<lparr>sd_schema = schema, sd_alg = alg, sd_keyid = keyid, sd_signature = sig\<rparr>))"

lemma b64_chars_utf8: "list_all b64url_char s \<Longrightarrow> utf8_valid s"
  by (rule b64_string_safe)

lemma unquote_quote: "utf8_valid v \<Longrightarrow> unquote_yaml_string (quote_yaml_string v) = Some v"
proof -
  assume v: "utf8_valid v"
  have "chars (quote_yaml_string v) = 0x22 # concat (map escape_chars (chars v)) @ [0x22]"
    unfolding quote_as_chars by (rule chars_push [OF quote_chars_scalar])
  then show ?thesis
    by (simp add: unquote_yaml_string_def unescape_quoted [OF chars_scalar] push_chars_chars [OF v])
qed

lemma canonical_words: "plain_word SCHEMA_V1ALPHA1" "plain_word (canonical_name a)"
  by (simp add: plain_word_def SCHEMA_V1ALPHA1_def b64url_char_def)
     (cases a; simp add: plain_word_def ed25519_name_def p256_name_def b64url_char_def)

lemma parse_serialized:
  assumes "traits_ok x" and "b64_ok x" and "yaml_flat_ok x" and "document_wf doc"
    and "serialize_signature_document x doc = Inr out"
    and "length out \<le> SIGNATURE_DOCUMENT_MAX_TOTAL_SCALAR_BYTES"
  shows "parse_signature_document x out = Inr doc"
proof -
  let ?sig = "emitted_signature x (sd_signature doc)"
  from assms(5) obtain a d where schema: "sd_schema doc = SCHEMA_V1ALPHA1"
    and alg: "from_yaml_str x (sd_alg doc) = Some a" and d: "b64_decode x (sd_signature doc) = Some d"
    and out: "out = join_lines (carrier_lines (sd_alg doc) (sd_keyid doc) ?sig)"
    by (auto simp: serialize_iff)
  let ?k = "map_option quote_yaml_string (sd_keyid doc)"
  have lines: "carrier_lines (sd_alg doc) (sd_keyid doc) ?sig = flat_lines SCHEMA_V1ALPHA1 (sd_alg doc) ?k ?sig"
    by (simp add: carrier_lines_def flat_lines_def split: option.splits)
  have "sd_alg doc = canonical_name a" using alg traits_okD(2) [OF assms(1)] by simp
  then have "flat_value x SCHEMA_V1ALPHA1 SCHEMA_V1ALPHA1" "flat_value x (sd_alg doc) (sd_alg doc)"
    using canonical_words by (simp_all add: flat_value_def)
  moreover have "flat_value x ?sig (sd_signature doc)"
    using b64_okD(1) [OF assms(2) d] b64_chars_utf8 [of "sd_signature doc"]
    by (auto simp: flat_value_def emitted_signature_def plain_yaml_scalar_round_trips_as_string_def
        split: sum.splits)
  moreover have "rel_option (flat_value x) ?k (sd_keyid doc)"
    using assms(4) by (cases "sd_keyid doc") (auto simp: document_wf_def flat_value_def)
  ultimately have "noyalib_load_all x (signature_document_parser_config x) out = Inr 1"
    "noyalib_document x (signature_document_parser_config x) out =
       Inr \<lparr>sd_schema = SCHEMA_V1ALPHA1, sd_alg = sd_alg doc, sd_keyid = sd_keyid doc,
            sd_signature = sd_signature doc\<rparr>"
    using assms(3,6) unfolding yaml_flat_ok_def out lines Let_def by blast+
  moreover have "from_utf8 out = Some out"
    using serialized_carrier(2) [OF assms(1,2,5)] by (simp add: from_utf8_def)
  ultimately show ?thesis
    using assms(6) schema
    by (simp add: parse_signature_document_def ensure_signature_document_byte_budget_def
        SIGNATURE_DOCUMENT_MAX_BYTES_def SIGNATURE_DOCUMENT_MAX_TOTAL_SCALAR_BYTES_def)
qed


end
