(* ===== verification/Sample_Yaml.thy ===== *)
theory Sample_Yaml
  imports Signature_Doc
begin

text \<open>
  A concrete base64url codec without padding and a reader of flat block mappings, on which the
  hypotheses about the base64 and YAML crates hold. The witnesses instantiate the parameters
  with them.
\<close>

section \<open>Base64url\<close>

definition b64_char :: "nat \<Rightarrow> u8" where
  "b64_char n = (if n < 26 then octet (65 + n) else if n < 52 then octet (71 + n)
     else if n < 62 then octet (n - 4) else if n = 62 then 0x2D else 0x5F)"

definition b64_value :: "u8 \<Rightarrow> nat option" where
  "b64_value b = (let n = unat b in
     if 65 \<le> n \<and> n \<le> 90 then Some (n - 65) else if 97 \<le> n \<and> n \<le> 122 then Some (n - 71)
     else if 48 \<le> n \<and> n \<le> 57 then Some (n + 4) else if n = 45 then Some 62
     else if n = 95 then Some 63 else None)"

fun b64_sextets :: "bytes \<Rightarrow> nat list" where
  "b64_sextets (a # b # c # r) =
     [unat a div 4, unat a mod 4 * 16 + unat b div 16, unat b mod 16 * 4 + unat c div 64, unat c mod 64]
     @ b64_sextets r"
| "b64_sextets [a, b] = [unat a div 4, unat a mod 4 * 16 + unat b div 16, unat b mod 16 * 4]"
| "b64_sextets [a] = [unat a div 4, unat a mod 4 * 16]"
| "b64_sextets [] = []"

fun b64_octets :: "nat list \<Rightarrow> bytes option" where
  "b64_octets (w # x # y # z # r) =
     map_option (\<lambda>t. [octet (w * 4 + x div 16), octet (x mod 16 * 16 + y div 4), octet (y mod 4 * 64 + z)] @ t)
       (b64_octets r)"
| "b64_octets [w, x, y] =
     (if y mod 4 = 0 then Some [octet (w * 4 + x div 16), octet (x mod 16 * 16 + y div 4)] else None)"
| "b64_octets [w, x] = (if x mod 16 = 0 then Some [octet (w * 4 + x div 16)] else None)"
| "b64_octets [w] = None"
| "b64_octets [] = Some []"

definition sample_b64_encode :: "bytes \<Rightarrow> str" where
  "sample_b64_encode d = map b64_char (b64_sextets d)"

definition sample_b64_decode :: "bytes \<Rightarrow> bytes option" where
  "sample_b64_decode s =
     (if list_all (\<lambda>b. b64_value b \<noteq> None) s then b64_octets (map (\<lambda>b. the (b64_value b)) s) else None)"

lemma b64_value_char: "n < 64 \<Longrightarrow> b64_value (b64_char n) = Some n"
  by (auto simp: b64_value_def b64_char_def Let_def)

lemma b64_value_alphabet: "b64_value b \<noteq> None \<Longrightarrow> b64url_char b"
  by (auto simp: b64_value_def b64url_char_def Let_def split: if_splits)

lemma sextet_bounds:
  "unat (a :: u8) div 4 < 64" "unat a mod 4 * 16 + unat b div 16 < 64"
  "unat b mod 16 * 4 + unat c div 64 < 64" for b c :: u8
proof -
  have "unat a < 4 * 64" "unat b < 16 * 16" "unat c < 64 * 4"
    using unat_u8_less [of a] unat_u8_less [of b] unat_u8_less [of c] by simp_all
  then have d: "unat a div 4 < 64" "unat b div 16 < 16" "unat c div 64 < 4"
    by (simp_all only: less_mult_imp_div_less mult.commute)
  show "unat a div 4 < 64" by (rule d)
  have "unat a mod 4 < 4" "unat b mod 16 < 16" by simp_all
  then show "unat a mod 4 * 16 + unat b div 16 < 64" "unat b mod 16 * 4 + unat c div 64 < 64"
    using d(2,3) by linarith+
qed

lemma b64_sextets_bound: "list_all (\<lambda>n. n < 64) (b64_sextets d)"
proof (induction d rule: b64_sextets.induct)
  case (1 a b c r)
  then show ?case using sextet_bounds(1) [of a] sextet_bounds(2) [of a b] sextet_bounds(3) [of b c] by simp
next
  case (2 a b)
  then show ?case using sextet_bounds(1) [of a] sextet_bounds(2) [of a b] sextet_bounds(3) [of b 0] by simp
next
  case (3 a)
  then show ?case using sextet_bounds(1) [of a] sextet_bounds(2) [of a 0] by simp
qed simp

lemma octet_recombine:
  "octet (unat (a :: u8) div 4 * 4 + (unat a mod 4 * 16 + q) div 16) = a" if "q < 16" for q
proof -
  have "(unat a mod 4 * 16 + q) div 16 = unat a mod 4" using that by simp
  then have "unat a div 4 * 4 + (unat a mod 4 * 16 + q) div 16 = unat a" by simp
  then show ?thesis by simp
qed

lemma octet_recombine2:
  "octet ((p * 16 + unat (b :: u8) div 16) mod 16 * 16 + (unat b mod 16 * 4 + q) div 4) = b" if "q < 4" for p q
proof -
  have "unat b div 16 < 16" using unat_u8_less [of b] by (simp add: less_mult_imp_div_less)
  then have "(p * 16 + unat b div 16) mod 16 = unat b div 16" by simp
  moreover have "(unat b mod 16 * 4 + q) div 4 = unat b mod 16" using that by simp
  ultimately have "(p * 16 + unat b div 16) mod 16 * 16 + (unat b mod 16 * 4 + q) div 4 = unat b" by simp
  then show ?thesis by simp
qed

lemma octet_recombine3:
  "octet ((p * 4 + unat (c :: u8) div 64) mod 4 * 64 + unat c mod 64) = c" for p
proof -
  have "unat c div 64 < 4" using unat_u8_less [of c] by (simp add: less_mult_imp_div_less)
  then have "(p * 4 + unat c div 64) mod 4 = unat c div 64" by simp
  then have "(p * 4 + unat c div 64) mod 4 * 64 + unat c mod 64 = unat c" by simp
  then show ?thesis by simp
qed

lemma b64_octets_sextets: "b64_octets (b64_sextets d) = Some d"
proof (induction d rule: b64_sextets.induct)
  case (1 a b c r)
  have "unat b div 16 < 16" "unat c div 64 < 4"
    using unat_u8_less [of b] unat_u8_less [of c] by (simp_all add: less_mult_imp_div_less)
  then show ?case
    using 1 octet_recombine [of "unat b div 16" a] octet_recombine2 [of "unat c div 64" "unat a mod 4" b]
      octet_recombine3 [of "unat b mod 16" c] by simp
next
  case (2 a b)
  have "unat b div 16 < 16" using unat_u8_less [of b] by (simp add: less_mult_imp_div_less)
  then show ?case
    using octet_recombine [of "unat b div 16" a] octet_recombine2 [of 0 "unat a mod 4" b] by simp
next
  case (3 a)
  then show ?case using octet_recombine [of 0 a] by simp
qed simp

lemma length_b64_sextets: "length (b64_sextets d) = (length d * 4 + 2) div 3"
  by (induction d rule: b64_sextets.induct) simp_all

lemma sample_b64_roundtrip: "sample_b64_decode (sample_b64_encode d) = Some d"
proof -
  have b: "\<forall>n\<in>set (b64_sextets d). n < 64" using b64_sextets_bound by (simp add: list_all_iff)
  then have "list_all (\<lambda>b. b64_value b \<noteq> None) (sample_b64_encode d)"
    by (simp add: sample_b64_encode_def list_all_iff b64_value_char)
  moreover have "map (\<lambda>b. the (b64_value b)) (sample_b64_encode d) = b64_sextets d"
    using b by (simp add: sample_b64_encode_def b64_value_char map_idI)
  ultimately show ?thesis by (simp add: sample_b64_decode_def b64_octets_sextets)
qed

lemma sample_b64_alphabet: "sample_b64_decode s = Some d \<Longrightarrow> list_all b64url_char s"
  using b64_value_alphabet by (auto simp: sample_b64_decode_def list_all_iff split: if_splits)


section \<open>A reader of flat mappings\<close>

definition is_digit :: "u8 \<Rightarrow> bool" where
  "is_digit b \<longleftrightarrow> 48 \<le> unat b \<and> unat b \<le> 57"

definition sample_string :: "str \<Rightarrow> str + str" where
  "sample_string v =
     (if v = [] then Inl (ascii ''empty'')
      else if hd v = 0x22 then
        (case unquote_yaml_string v of Some s \<Rightarrow> Inr s | None \<Rightarrow> Inl (ascii ''bad escape''))
      else if list_all is_digit v then Inl (ascii ''not a string'')
      else Inr v)"

definition sample_field :: "str \<Rightarrow> (str \<times> (str + str)) option" where
  "sample_field line =
     (case split_once 0x3A line of
        Some (k, b # v) \<Rightarrow> if b = 0x20 then Some (k, sample_string v) else None
      | _ \<Rightarrow> None)"

fun sample_mapping :: "(str \<times> (str + str)) option list \<Rightarrow> str + signature_document" where
  "sample_mapping [Some (a, Inr s), Some (b, Inr t), Some (d, Inr w)] =
     (if a = ascii ''schema'' \<and> b = ascii ''alg'' \<and> d = ascii ''signature''
      then Inr \<lparr>sd_schema = s, sd_alg = t, sd_keyid = None, sd_signature = w\<rparr>
      else Inl (ascii ''unknown field''))"
| "sample_mapping [Some (a, Inr s), Some (b, Inr t), Some (c, Inr u), Some (d, Inr w)] =
     (if a = ascii ''schema'' \<and> b = ascii ''alg'' \<and> c = ascii ''keyid'' \<and> d = ascii ''signature''
      then Inr \<lparr>sd_schema = s, sd_alg = t, sd_keyid = Some u, sd_signature = w\<rparr>
      else Inl (ascii ''unknown field''))"
| "sample_mapping _ = Inl (ascii ''not a signature document'')"

definition sample_document :: "str \<Rightarrow> str + signature_document" where
  "sample_document text = sample_mapping (map sample_field (str_lines text))"

definition sample_parser_config :: parser_config where
  "sample_parser_config =
     \<lparr>pc_version = YV_1_2, pc_no_schema = False, pc_plain_scalar_strings = False,
      pc_max_document_length = 1048576, pc_max_depth = 128, pc_max_alias_expansions = 100,
      pc_max_mapping_keys = 1024, pc_max_sequence_length = 1024, pc_max_events = 100000,
      pc_max_nodes = 100000, pc_max_total_scalar_bytes = 1048576, pc_max_documents = 100,
      pc_max_merge_keys = 100, pc_alias_anchor_ratio = None, pc_duplicate_key_policy = DK_Error,
      pc_merge_key_policy = MK_other, pc_policies = []\<rparr>"

text \<open>The sample runtime, open for the fields of the crates modelled later.\<close>

definition sample_yaml :: "'z \<Rightarrow> (put list, put list, 'z) yaml_ext_scheme" where
  "sample_yaml rest = buffa_ext.extend sample_buffa
     \<lparr>parser_config_new = sample_parser_config,
      noyalib_load_all = (\<lambda>c text. Inr 1),
      noyalib_document = (\<lambda>c. sample_document),
      noyalib_string = (\<lambda>c. sample_string),
      b64_encode = sample_b64_encode,
      b64_decode = sample_b64_decode,
      serde_to_value = (\<lambda>d. Inr ()),
      tier_a_compile = Inr (),
      tier_a_validate = (\<lambda>d. Inr ()),
      \<dots> = rest\<rparr>"

lemma sample_yaml_simps [simp]:
  "noyalib_load_all (sample_yaml rest) c text = Inr 1"
  "noyalib_document (sample_yaml rest) c = sample_document"
  "noyalib_string (sample_yaml rest) c = sample_string"
  "b64_encode (sample_yaml rest) = sample_b64_encode"
  "b64_decode (sample_yaml rest) = sample_b64_decode"
  "vec_sink (sample_yaml rest) = list_sink"
  "from_yaml_str (sample_yaml rest) = from_yaml_str sample_traits"
  "from_i32 (sample_yaml rest) = from_i32 sample_traits"
  "as_yaml_str (sample_yaml rest) = canonical_name"
  "max_message_bytes (sample_yaml rest) = 0x7FFFFFFF"
  by (simp_all add: sample_yaml_def sample_buffa_def buffa_ext.defs sample_traits_def)


lemma sample_yaml_traits_ok [simp]: "traits_ok (sample_yaml rest)"
  using sample_traits_ok by (simp add: traits_ok_def)

lemma sample_yaml_buffa_ok [simp]: "buffa_ok (sample_yaml rest)"
  using sample_buffa_ok by (simp add: buffa_ok_def) (simp add: sample_yaml_def sample_buffa_def buffa_ext.defs)

lemma sample_yaml_b64_ok [simp]: "b64_ok (sample_yaml rest)"
proof -
  have "length (sample_b64_encode d) = (length d * 4 + 2) div 3" for d
    by (simp add: sample_b64_encode_def length_b64_sextets)
  then show ?thesis using sample_b64_alphabet by (auto simp: b64_ok_def sample_b64_roundtrip)
qed

lemma sample_yaml_plain_keys_ok [simp]: "plain_keys_ok (sample_yaml rest)"
  by (simp add: plain_keys_ok_def TIER_A_TOP_LEVEL_KEYS_def sample_string_def is_digit_def)

lemma unescape_printable: "unescape cs = Some r \<Longrightarrow> \<forall>c\<in>set cs. 0x20 \<le> c"
proof (induction cs arbitrary: r rule: unescape.induct)
  case (1 cs)
  show ?case
  proof (cases cs)
    case Nil
    then show ?thesis by simp
  next
    case (Cons c t)
    note u = "1.prems" [unfolded Cons, simplified unescape.simps [of "c # t"], simplified]
    consider (quote) "c = 0x22" | (esc) "c = 0x5C" | (raw) "c \<noteq> 0x22" "c \<noteq> 0x5C" by blast
    then show ?thesis
    proof cases
      case quote
      then show ?thesis using u Cons by (simp split: if_splits)
    next
      case esc
      then obtain e r' where t: "t = e # r'" using u by (cases t) auto
      show ?thesis
      proof (cases "e = 0x75")
        case True
        then obtain d1 d2 d3 d4 q where r': "r' = d1 # d2 # d3 # d4 # q"
          using u esc t by (cases r' rule: take4.cases) auto
        then obtain v w where "hex_value4 d1 d2 d3 d4 = Some v" and q: "unescape q = Some w"
          using u esc t True by (auto split: option.splits)
        then have d: "0x20 \<le> d1 \<and> 0x20 \<le> d2 \<and> 0x20 \<le> d3 \<and> 0x20 \<le> d4"
          by (auto simp: hex_value_def split: option.splits if_splits)
        have "\<forall>c\<in>set q. 0x20 \<le> c"
          using "1.IH"(1) [OF Cons _ esc t True, of "(d1, d2, d3, d4)" d1 "(d2, d3, d4)" d2 "(d3, d4)" d3 d4 v w]
            q r' esc \<open>hex_value4 d1 d2 d3 d4 = Some v\<close> by simp
        then show ?thesis using Cons t True r' d esc by simp
      next
        case False
        then obtain v w where v: "simple_escape e = Some v" and q: "unescape r' = Some w"
          using u esc t by (auto split: option.splits)
        have "\<forall>c\<in>set r'. 0x20 \<le> c"
          using "1.IH"(2) [OF Cons _ esc t False v q] esc by simp
        moreover have "0x20 \<le> e" using v by (auto simp: simple_escape_def split: if_splits)
        ultimately show ?thesis using Cons t esc by simp
      qed
    next
      case raw
      then obtain w where w: "\<not> c < 0x20" "unescape t = Some w" using u by (auto split: if_splits)
      then have "\<forall>c\<in>set t. 0x20 \<le> c" using "1.IH"(3) [OF Cons raw w] by simp
      with w show ?thesis using Cons by simp
    qed
  qed
qed

lemma push_printable:
  assumes "list_all is_scalar cs" and "\<forall>c\<in>set cs. 0x20 \<le> c"
  shows "\<forall>b\<in>set (push_chars cs). 0x20 \<le> unat b"
proof
  fix b assume "b \<in> set (push_chars cs)"
  then obtain c where c: "c \<in> set cs" "b \<in> set (encode_utf8 c)" by (auto simp: push_chars_def)
  then show "0x20 \<le> unat b"
    using assms encode_utf8_multi [of c b] encode_utf8_ascii [of c]
    by (cases "c < 0x80") (auto simp: list_all_iff)
qed

lemma unquoted_line:
  assumes "unquote_yaml_string v = Some s"
  shows "v \<noteq> [] \<and> hd v = 0x22 \<and> utf8_valid v \<and> (\<forall>b\<in>set v. 0x20 \<le> unat b)"
proof -
  from assms obtain r w where ch: "chars v = 0x22 # r" and u: "unescape r = Some w"
    by (auto simp: unquote_yaml_string_def split: list.splits if_splits)
  then have "utf8_chars v = Some (0x22 # r)" by (simp add: chars_def split: option.splits)
  then have v: "v = push_chars (0x22 # r)" "list_all is_scalar (0x22 # r)" using utf8_chars_Some by blast+
  then have "utf8_valid v" unfolding utf8_valid_iff by blast
  moreover have "\<forall>b\<in>set v. 0x20 \<le> unat b"
    using push_printable [OF v(2)] unescape_printable [OF u] v(1) by simp
  ultimately show ?thesis using v(1) by (simp add: encode_utf8_ascii octet_def)
qed


lemma flat_value_reads:
  assumes "flat_value (sample_yaml rest) v s"
  shows "sample_string v = Inr s \<and> utf8_valid v \<and> (\<forall>b\<in>set v. 0x20 \<le> unat b)"
proof -
  consider (quoted) "unquote_yaml_string v = Some s" | (word) "s = v" "plain_word v"
    | (plain) "s = v" "list_all b64url_char v" "sample_string v = Inr v"
    using assms unquote_quote [of s] by (auto simp: flat_value_def)
  then show ?thesis
  proof cases
    case quoted
    with unquoted_line [OF quoted] show ?thesis by (simp add: sample_string_def)
  next
    case word
    have b: "0x2D \<le> unat b \<and> unat b < 0x7B" if "b \<in> set v" for b
      using word(2) that b64url_char_bounds [of b] by (auto simp: plain_word_def list_all_iff)
    have ne: "v \<noteq> []" and hd: "65 \<le> unat (hd v)" using word(2) by (auto simp: plain_word_def)
    have "hd v \<noteq> 0x22" using hd by auto
    moreover have "\<not> list_all is_digit v"
      using ne hd hd_in_set [OF ne] by (auto simp: list_all_iff is_digit_def intro!: bexI [of _ "hd v"])
    moreover have "utf8_valid v" using b by (fastforce intro: utf8_valid_ascii)
    ultimately show ?thesis using word(1) ne b by (fastforce simp: sample_string_def)
  next
    case plain
    then show ?thesis using b64_string_safe [of v] by simp
  qed
qed

lemma sample_field_line:
  "d \<notin> set k \<Longrightarrow> d = 0x3A \<Longrightarrow> sample_field (k @ d # 0x20 # v) = Some (k, sample_string v)"
  by (simp add: sample_field_def split_once_key)

lemma sample_yaml_flat_ok [simp]: "yaml_flat_ok (sample_yaml rest)"
  unfolding yaml_flat_ok_def Let_def
proof (intro allI impI conjI)
  let ?x = "sample_yaml rest"
  fix schema_v alg_v keyid_v sig_v schema alg keyid sig
  assume f: "flat_value ?x schema_v schema" "flat_value ?x alg_v alg" "flat_value ?x sig_v sig"
    "rel_option (flat_value ?x) keyid_v keyid"
  let ?ls = "flat_lines schema_v alg_v keyid_v sig_v"
  note r = f(1-3) [THEN flat_value_reads]
  have key: "utf8_valid v \<Longrightarrow> \<forall>b\<in>set v. 0x20 \<le> unat b \<Longrightarrow>
      safe_line (ascii ''schema: '' @ v) \<and> safe_line (ascii ''alg: '' @ v) \<and>
      safe_line (ascii ''keyid: '' @ v) \<and> safe_line (ascii ''signature: '' @ v)" for v
    by (intro conjI safe_lineI) (simp_all add: utf8_valid_ascii_Cons)
  have fields: "sample_field (ascii ''schema: '' @ v) = Some (ascii ''schema'', sample_string v)"
    "sample_field (ascii ''alg: '' @ v) = Some (ascii ''alg'', sample_string v)"
    "sample_field (ascii ''keyid: '' @ v) = Some (ascii ''keyid'', sample_string v)"
    "sample_field (ascii ''signature: '' @ v) = Some (ascii ''signature'', sample_string v)" for v
    by (simp_all add: sample_field_def)
  show "noyalib_document ?x (signature_document_parser_config ?x) (join_lines ?ls) =
      Inr \<lparr>sd_schema = schema, sd_alg = alg, sd_keyid = keyid, sd_signature = sig\<rparr>"
  proof (cases keyid_v)
    case None
    then have "list_all safe_line ?ls" using r key by (simp add: flat_lines_def)
    moreover have "keyid = None" using f(4) None by (cases keyid) simp_all
    ultimately show ?thesis
      using r None by (simp add: sample_document_def str_lines_join flat_lines_def fields
          del: ascii_Cons join_lines_simps)
  next
    case (Some kv)
    then obtain k where k: "keyid = Some k" "flat_value ?x kv k" using f(4) by (cases keyid) simp_all
    note rk = flat_value_reads [OF k(2)]
    then have "list_all safe_line ?ls" using r key Some by (simp add: flat_lines_def)
    then show ?thesis
      using r rk k(1) Some
      by (simp add: sample_document_def str_lines_join flat_lines_def fields
          del: ascii_Cons join_lines_simps)
  qed
qed simp


section \<open>Witnesses of the signature document properties\<close>

definition sample_doc :: signature_document where
  "sample_doc = \<lparr>sd_schema = SCHEMA_V1ALPHA1, sd_alg = ed25519_name,
     sd_keyid = Some (ascii ''k'' @ [0x0A]), sd_signature = ascii ''AQID''\<rparr>"

abbreviation sample_runtime :: "(put list, put list) yaml_ext" where
  "sample_runtime \<equiv> sample_yaml ()"

definition sample_carrier :: str where
  "sample_carrier = join_lines (carrier_lines ed25519_name (Some (ascii ''k'' @ [0x0A])) (ascii ''AQID''))"

lemma sample_doc_serializes: "serialize_signature_document sample_runtime sample_doc = Inr sample_carrier"
proof -
  have "sample_b64_decode (ascii ''AQID'') = Some [1, 2, 3]" by code_simp
  moreover have "sample_string (ascii ''AQID'') = Inr (ascii ''AQID'')"
    by (simp add: sample_string_def is_digit_def)
  ultimately show ?thesis
    by (simp add: serialize_iff sample_doc_def sample_carrier_def emitted_signature_def
        plain_yaml_scalar_round_trips_as_string_def sample_traits_def del: ascii_Cons)
qed

lemma quote_sample: "quote_yaml_string (ascii ''k'' @ [0x0A]) = [0x22, 0x6B, 0x5C, 0x6E, 0x22]"
  by (simp add: quote_yaml_string_def chars_ascii_Cons chars_Nil utf8_valid_ascii_Cons escape_char_def
      encode_utf8_ascii octet_def)

lemma length_sample_carrier: "length sample_carrier \<le> 200"
  using quote_sample by (simp add: sample_carrier_def carrier_lines_def SCHEMA_V1ALPHA1_def ed25519_name_def)

theorem serialize_signature_document_correct_witness:
  "\<not> has_marker sample_carrier \<and> utf8_valid sample_carrier"
  using serialize_signature_document_correct [of sample_runtime sample_doc sample_carrier]
    sample_doc_serializes by simp

theorem canonical_carrier_has_no_unknown_fields_witness:
  "has_unknown_signature_document_fields sample_runtime sample_carrier = Inr False"
  using length_sample_carrier
  by (intro canonical_carrier_has_no_unknown_fields [OF _ _ _ sample_doc_serializes])
     (simp_all add: SIGNATURE_DOCUMENT_MAX_BYTES_def)


end
