(* ===== verification/Crypto.thy ===== *)
theory Crypto
  imports Sample_Yaml
begin

text \<open>
  The cryptographic checks that the crates write themselves around the curve crates: key and
  signature admissibility and the cofactored Ed25519 equation, once for signing
  (\<open>yaml-sigil-signing/src/provider_crypto.rs\<close>) and once for verification
  (\<open>yaml-sigil-verification/src/crypto.rs\<close>), and the P-256 conversions of
  \<open>yaml-sigil-core/src/p256_encoding.rs\<close>. The arithmetic of the curves, the hashes and the
  P-256 primitives are not under src/: they are the fields of \<open>crypto_ext\<close>.
\<close>

section \<open>The curve and hash crates\<close>

text \<open>
  \<open>'k\<close> stands for every opaque value of those crates: points, scalars, keys and parsed
  signatures. A fixed-size array is a list of octets with its length.
\<close>

record ('u, 'w, 'k) crypto_ext = "('u, 'w) yaml_ext" +
  ed_decompress :: "bytes \<Rightarrow> 'k option"
  ed_compress :: "'k \<Rightarrow> bytes"
  ed_is_small_order :: "'k \<Rightarrow> bool"
  ed_mul_by_cofactor :: "'k \<Rightarrow> 'k"
  ed_is_identity :: "'k \<Rightarrow> bool"
  ed_basepoint :: 'k
  ed_scalar_mul :: "'k \<Rightarrow> 'k \<Rightarrow> 'k"
  ed_sub :: "'k \<Rightarrow> 'k \<Rightarrow> 'k"
  scalar_from_canonical_bytes :: "bytes \<Rightarrow> 'k option"
  scalar_from_bytes_mod_order_wide :: "bytes \<Rightarrow> 'k"
  ed_vk_from_bytes :: "bytes \<Rightarrow> 'k option"
  ed_vk_as_bytes :: "'k \<Rightarrow> bytes"
  ed_sign :: "'k \<Rightarrow> bytes \<Rightarrow> bytes"
  sha512 :: "bytes \<Rightarrow> bytes"
  sha256 :: "bytes \<Rightarrow> bytes"
  p256_vk_from_sec1 :: "bytes \<Rightarrow> 'k option"
  p256_vk_to_sec1 :: "'k \<Rightarrow> bool \<Rightarrow> bytes"
  p256_sig_from_slice :: "bytes \<Rightarrow> 'k option"
  p256_sig_from_der :: "bytes \<Rightarrow> 'k option"
  p256_sig_to_bytes :: "'k \<Rightarrow> bytes"
  p256_verify :: "'k \<Rightarrow> bytes \<Rightarrow> 'k \<Rightarrow> bool"
  p256_sign_prehashed :: "'k \<Rightarrow> 'k \<Rightarrow> bytes \<Rightarrow> 'k option"

text \<open>
  One type stands for the keys, nonces, points and signatures of the libraries. The values that are
  P-256 signatures are those a library function gives as signatures, and the values that are points
  those it reads as points; what the functions do with a value of another sort does not matter.
\<close>

definition p256_signature_value :: "('u, 'w, 'k, 'z) crypto_ext_scheme \<Rightarrow> 'k \<Rightarrow> bool" where
  "p256_signature_value x g \<longleftrightarrow>
     (\<exists>b. p256_sig_from_slice x b = Some g) \<or> (\<exists>b. p256_sig_from_der x b = Some g) \<or>
     (\<exists>k nonce digest. p256_sign_prehashed x k nonce digest = Some g)"

definition p256_point_value :: "('u, 'w, 'k, 'z) crypto_ext_scheme \<Rightarrow> 'k \<Rightarrow> bool" where
  "p256_point_value x k \<longleftrightarrow> (\<exists>b. p256_vk_from_sec1 x b = Some k)"

text \<open>
  The documented behaviour the development relies on: encoders have the array sizes of their
  types, a key made from octets has those octets, and an uncompressed point or a raw P-256
  signature that was written reads back.
\<close>

definition crypto_ok :: "('u, 'w, 'k, 'z) crypto_ext_scheme \<Rightarrow> bool" where
  "crypto_ok x \<longleftrightarrow>
     (\<forall>k m. length (ed_sign x k m) = 64) \<and>
     (\<forall>b k. ed_vk_from_bytes x b = Some k \<longrightarrow> ed_vk_as_bytes x k = b) \<and>
     (\<forall>k. length (ed_vk_as_bytes x k) = 32) \<and>
     (\<forall>g. length (p256_sig_to_bytes x g) = 64) \<and>
     (\<forall>g. p256_signature_value x g \<longrightarrow> p256_sig_from_slice x (p256_sig_to_bytes x g) = Some g) \<and>
     (\<forall>k. length (p256_vk_to_sec1 x k False) = 65 \<and> hd (p256_vk_to_sec1 x k False) = 4) \<and>
     (\<forall>k. p256_point_value x k \<longrightarrow> p256_vk_from_sec1 x (p256_vk_to_sec1 x k False) = Some k)"

lemma crypto_okD:
  assumes "crypto_ok x"
  shows "length (ed_sign x k m) = 64"
    and "ed_vk_from_bytes x b = Some k \<Longrightarrow> ed_vk_as_bytes x k = b"
    and "length (ed_vk_as_bytes x k) = 32"
    and "length (p256_sig_to_bytes x g) = 64"
    and "p256_signature_value x g \<Longrightarrow> p256_sig_from_slice x (p256_sig_to_bytes x g) = Some g"
    and "length (p256_vk_to_sec1 x k False) = 65"
    and "hd (p256_vk_to_sec1 x k False) = 4"
    and "p256_point_value x k \<Longrightarrow> p256_vk_from_sec1 x (p256_vk_to_sec1 x k False) = Some k"
  using assms by (simp_all add: crypto_ok_def)

lemma p256_valuesI:
  "p256_sig_from_der x b = Some g \<Longrightarrow> p256_signature_value x g"
  "p256_sign_prehashed x k nonce digest = Some g \<Longrightarrow> p256_signature_value x g"
  "p256_vk_from_sec1 x b = Some k \<Longrightarrow> p256_point_value x k"
  by (auto simp: p256_signature_value_def p256_point_value_def)

text \<open>\<open>try_into\<close> of a slice into an array of \<open>n\<close> octets.\<close>

definition try_array :: "nat \<Rightarrow> bytes \<Rightarrow> bytes option" where
  "try_array n bs = (if length bs = n then Some bs else None)"

lemma try_array_eq [simp]: "try_array n bs = Some b \<longleftrightarrow> b = bs \<and> length bs = n"
  by (auto simp: try_array_def)

section \<open>Checks of the signing crate\<close>

datatype 'k provider_public_key =
    PPK_Ed25519 bytes 'k
  | PPK_EcdsaP256Sha256 'k

fun ppk_algorithm :: "'k provider_public_key \<Rightarrow> algorithm_id" where
  "ppk_algorithm (PPK_Ed25519 bs point) = Ed25519"
| "ppk_algorithm (PPK_EcdsaP256Sha256 key) = EcdsaP256Sha256"

definition resolve_provider_public_key ::
    "('u, 'w, 'k, 'z) crypto_ext_scheme \<Rightarrow> algorithm_id \<Rightarrow> bytes \<Rightarrow> 'k provider_public_key option" where
  "resolve_provider_public_key x algorithm bs =
     (case algorithm of
        Ed25519 \<Rightarrow>
          (case try_array 32 bs of
             None \<Rightarrow> None
           | Some b \<Rightarrow>
               (case ed_decompress x b of
                  None \<Rightarrow> None
                | Some point \<Rightarrow>
                    if ed_compress x point \<noteq> b \<or> ed_is_small_order x point then None
                    else Some (PPK_Ed25519 b point)))
      | EcdsaP256Sha256 \<Rightarrow>
          if length bs \<noteq> 65 \<or> bs = [] \<or> hd bs \<noteq> 0x04 then None
          else map_option PPK_EcdsaP256Sha256 (p256_vk_from_sec1 x bs))"

definition parse_ed25519_signature ::
    "('u, 'w, 'k, 'z) crypto_ext_scheme \<Rightarrow> bytes \<Rightarrow> (bytes \<times> 'k \<times> 'k) option" where
  "parse_ed25519_signature x sig =
     (case try_array 32 (take 32 sig) of
        None \<Rightarrow> None
      | Some r_bytes \<Rightarrow>
          (case ed_decompress x r_bytes of
             None \<Rightarrow> None
           | Some r \<Rightarrow>
               if ed_compress x r \<noteq> r_bytes then None
               else (case try_array 32 (drop 32 sig) of
                       None \<Rightarrow> None
                     | Some s_bytes \<Rightarrow>
                         (case scalar_from_canonical_bytes x s_bytes of
                            None \<Rightarrow> None
                          | Some s \<Rightarrow> Some (r_bytes, r, s)))))"

definition provider_signature_is_structurally_valid ::
    "('u, 'w, 'k, 'z) crypto_ext_scheme \<Rightarrow> algorithm_id \<Rightarrow> bytes \<Rightarrow> bool" where
  "provider_signature_is_structurally_valid x algorithm sig =
     (case algorithm of
        Ed25519 \<Rightarrow> parse_ed25519_signature x sig \<noteq> None
      | EcdsaP256Sha256 \<Rightarrow> p256_sig_from_slice x sig \<noteq> None)"

fun verify_provider_signature ::
    "('u, 'w, 'k, 'z) crypto_ext_scheme \<Rightarrow> 'k provider_public_key \<Rightarrow> bytes \<Rightarrow> bytes \<Rightarrow> bool" where
  "verify_provider_signature x (PPK_Ed25519 bs point) message sig =
     (case parse_ed25519_signature x sig of
        None \<Rightarrow> False
      | Some (r_bytes, r, s) \<Rightarrow>
          (let wide = sha512 x (r_bytes @ bs @ message);
               challenge = scalar_from_bytes_mod_order_wide x wide in
           ed_is_identity x (ed_mul_by_cofactor x
             (ed_sub x (ed_sub x (ed_scalar_mul x s (ed_basepoint x)) r)
                       (ed_scalar_mul x challenge point)))))"
| "verify_provider_signature x (PPK_EcdsaP256Sha256 key) message sig =
     (case p256_sig_from_slice x sig of
        None \<Rightarrow> False
      | Some g \<Rightarrow> p256_verify x key message g)"

section \<open>Checks of the verification crate\<close>

datatype invocation_error =
    IE_InvalidOrUnsupportedForm
  | IE_InvalidAlgorithmParameters
  | IE_InvalidPreVerifyResult
  | IE_KeyResolutionFailure
  | IE_TrustPolicyConfigurationError

record 'k parsed_ed25519_signature =
  pes_r_bytes :: bytes
  pes_r :: 'k
  pes_s :: 'k

definition decode_canonical_edwards_point ::
    "('u, 'w, 'k, 'z) crypto_ext_scheme \<Rightarrow> bytes \<Rightarrow> 'k option" where
  "decode_canonical_edwards_point x bs =
     (case ed_decompress x bs of
        None \<Rightarrow> None
      | Some point \<Rightarrow> if ed_compress x point = bs then Some point else None)"

definition parse_ed25519_signature_checked ::
    "('u, 'w, 'k, 'z) crypto_ext_scheme \<Rightarrow> bytes \<Rightarrow> 'k parsed_ed25519_signature option" where
  "parse_ed25519_signature_checked x sig_bytes =
     (if length sig_bytes \<noteq> 64 then None
      else
        (let r_bytes = take 32 sig_bytes in
         case decode_canonical_edwards_point x r_bytes of
           None \<Rightarrow> None
         | Some r \<Rightarrow>
             (let s_bytes = drop 32 sig_bytes in
              case scalar_from_canonical_bytes x s_bytes of
                None \<Rightarrow> None
              | Some s \<Rightarrow> Some \<lparr>pes_r_bytes = r_bytes, pes_r = r, pes_s = s\<rparr>)))"

definition ed25519_challenge ::
    "('u, 'w, 'k, 'z) crypto_ext_scheme \<Rightarrow> bytes \<Rightarrow> bytes \<Rightarrow> bytes \<Rightarrow> 'k" where
  "ed25519_challenge x r_bytes a_bytes payload =
     scalar_from_bytes_mod_order_wide x (sha512 x (r_bytes @ a_bytes @ payload))"

definition verify_ed25519 ::
    "('u, 'w, 'k, 'z) crypto_ext_scheme \<Rightarrow> 'k \<Rightarrow> bytes \<Rightarrow> bytes \<Rightarrow> unit + unit" where
  "verify_ed25519 x vk payload sig_bytes =
     result_try (ok_or (parse_ed25519_signature_checked x sig_bytes) ()) (\<lambda>sig.
     result_try (ok_or (decode_canonical_edwards_point x (ed_vk_as_bytes x vk)) ()) (\<lambda>a.
     if ed_is_small_order x a then Inl ()
     else
       (let k = ed25519_challenge x (pes_r_bytes sig) (ed_vk_as_bytes x vk) payload;
            equation = ed_sub x (ed_sub x (ed_scalar_mul x (pes_s sig) (ed_basepoint x)) (pes_r sig))
                         (ed_scalar_mul x k a) in
        if ed_is_identity x (ed_mul_by_cofactor x equation) then Inr () else Inl ())))"

definition ed25519_verifying_key_is_admissible ::
    "('u, 'w, 'k, 'z) crypto_ext_scheme \<Rightarrow> 'k \<Rightarrow> bool" where
  "ed25519_verifying_key_is_admissible x vk =
     (case decode_canonical_edwards_point x (ed_vk_as_bytes x vk) of
        None \<Rightarrow> False
      | Some point \<Rightarrow> \<not> ed_is_small_order x point)"

definition resolve_ed25519_verifying_key ::
    "('u, 'w, 'k, 'z) crypto_ext_scheme \<Rightarrow> bytes \<Rightarrow> invocation_error + 'k" where
  "resolve_ed25519_verifying_key x bs =
     result_try (ok_or (try_array 32 bs) IE_KeyResolutionFailure) (\<lambda>b.
     result_try (ok_or (decode_canonical_edwards_point x b) IE_KeyResolutionFailure) (\<lambda>point.
     if ed_is_small_order x point then Inl IE_KeyResolutionFailure
     else ok_or (ed_vk_from_bytes x b) IE_KeyResolutionFailure))"

definition resolve_p256_verifying_key ::
    "('u, 'w, 'k, 'z) crypto_ext_scheme \<Rightarrow> bytes \<Rightarrow> invocation_error + 'k" where
  "resolve_p256_verifying_key x bs =
     (if length bs \<noteq> 65 \<or> bs = [] \<or> hd bs \<noteq> 0x04 then Inl IE_KeyResolutionFailure
      else ok_or (p256_vk_from_sec1 x bs) IE_KeyResolutionFailure)"

definition provider_public_key_is_admissible ::
    "('u, 'w, 'k, 'z) crypto_ext_scheme \<Rightarrow> algorithm_id \<Rightarrow> bytes \<Rightarrow> bool" where
  "provider_public_key_is_admissible x algorithm bs =
     (case algorithm of
        Ed25519 \<Rightarrow> is_ok (resolve_ed25519_verifying_key x bs)
      | EcdsaP256Sha256 \<Rightarrow> is_ok (resolve_p256_verifying_key x bs))"

definition ed25519_signature_is_canonical ::
    "('u, 'w, 'k, 'z) crypto_ext_scheme \<Rightarrow> bytes \<Rightarrow> bool" where
  "ed25519_signature_is_canonical x sig_bytes = (parse_ed25519_signature_checked x sig_bytes \<noteq> None)"

datatype ecdsa_verify_error = EV_MalformedSignature | EV_EquationFailure

definition ecdsa_p256_signature_is_well_formed ::
    "('u, 'w, 'k, 'z) crypto_ext_scheme \<Rightarrow> bytes \<Rightarrow> bool" where
  "ecdsa_p256_signature_is_well_formed x sig_bytes = (p256_sig_from_slice x sig_bytes \<noteq> None)"

definition verify_ecdsa_p256_sha256 ::
    "('u, 'w, 'k, 'z) crypto_ext_scheme \<Rightarrow> 'k \<Rightarrow> bytes \<Rightarrow> bytes \<Rightarrow> ecdsa_verify_error + unit" where
  "verify_ecdsa_p256_sha256 x vk payload sig_bytes =
     result_try (ok_or (p256_sig_from_slice x sig_bytes) EV_MalformedSignature) (\<lambda>sig.
     if p256_verify x vk payload sig then Inr () else Inl EV_EquationFailure)"

section \<open>P-256 conversions\<close>

datatype p256_encoding_error = PE_InvalidSignature | PE_InvalidPublicKey

definition p256_der_signature_to_raw ::
    "('u, 'w, 'k, 'z) crypto_ext_scheme \<Rightarrow> bytes \<Rightarrow> p256_encoding_error + bytes" where
  "p256_der_signature_to_raw x bs =
     (if \<not> (8 \<le> length bs \<and> length bs \<le> 72) then Inl PE_InvalidSignature
      else map_err (\<lambda>_. PE_InvalidSignature)
             (result_map (p256_sig_to_bytes x) (ok_or (p256_sig_from_der x bs) ())))"

text \<open>\<open>copy_from_slice\<close> into an array of 65 octets panics on a source of another length.\<close>

definition p256_public_key_to_uncompressed ::
    "('u, 'w, 'k, 'z) crypto_ext_scheme \<Rightarrow> bytes \<Rightarrow> (p256_encoding_error + bytes) exec" where
  "p256_public_key_to_uncompressed x bs =
     (if length bs = 33 \<and> (hd bs = 0x02 \<or> hd bs = 0x03) \<or> length bs = 65 \<and> hd bs = 0x04
      then (case p256_vk_from_sec1 x bs of
              None \<Rightarrow> Done (Inl PE_InvalidPublicKey)
            | Some key \<Rightarrow>
                (let point = p256_vk_to_sec1 x key False in
                 if length point \<noteq> 65 then Panicked else Done (Inr point)))
      else Done (Inl PE_InvalidPublicKey))"

section \<open>The two crates agree\<close>

lemma parse_checked_eq:
  "parse_ed25519_signature_checked x sig =
     map_option (\<lambda>(rb, r, s). \<lparr>pes_r_bytes = rb, pes_r = r, pes_s = s\<rparr>)
       (if length sig = 64 then parse_ed25519_signature x sig else None)"
  by (auto simp: parse_ed25519_signature_checked_def parse_ed25519_signature_def
      decode_canonical_edwards_point_def try_array_def Let_def split: option.splits)

lemma parse_ed25519_length: "parse_ed25519_signature x sig = Some p \<Longrightarrow> length sig = 64"
  by (auto simp: parse_ed25519_signature_def try_array_def split: option.splits if_splits)

lemma structurally_valid_eq:
  "provider_signature_is_structurally_valid x a sig =
     (case a of Ed25519 \<Rightarrow> ed25519_signature_is_canonical x sig
              | EcdsaP256Sha256 \<Rightarrow> ecdsa_p256_signature_is_well_formed x sig)"
proof (cases a)
  case Ed25519
  then show ?thesis
    using parse_ed25519_length [of x sig]
    by (cases "parse_ed25519_signature x sig")
       (simp_all add: provider_signature_is_structurally_valid_def ed25519_signature_is_canonical_def
        parse_checked_eq)
qed (simp add: provider_signature_is_structurally_valid_def ecdsa_p256_signature_is_well_formed_def)

lemma resolve_ed25519_iff:
  "resolve_provider_public_key x Ed25519 bs = Some pk \<longleftrightarrow>
     (\<exists>a. pk = PPK_Ed25519 bs a \<and> length bs = 32 \<and> decode_canonical_edwards_point x bs = Some a
          \<and> \<not> ed_is_small_order x a)"
  by (auto simp: resolve_provider_public_key_def decode_canonical_edwards_point_def try_array_def
      split: option.splits if_splits)

lemma resolve_p256_iff:
  "resolve_provider_public_key x EcdsaP256Sha256 bs = Some pk \<longleftrightarrow>
     (\<exists>vk. pk = PPK_EcdsaP256Sha256 vk \<and> resolve_p256_verifying_key x bs = Inr vk)"
  by (auto simp: resolve_provider_public_key_def resolve_p256_verifying_key_def result_simps)

lemma verify_ed25519_eq:
  assumes "resolve_provider_public_key x Ed25519 (ed_vk_as_bytes x vk) = Some pk"
  shows "verify_ed25519 x vk m sig = Inr () \<longleftrightarrow> verify_provider_signature x pk m sig"
proof -
  from assms obtain a where pk: "pk = PPK_Ed25519 (ed_vk_as_bytes x vk) a"
    and a: "decode_canonical_edwards_point x (ed_vk_as_bytes x vk) = Some a" "\<not> ed_is_small_order x a"
    unfolding resolve_ed25519_iff by blast
  show ?thesis
  proof (cases "parse_ed25519_signature x sig")
    case None
    then show ?thesis by (simp add: pk verify_ed25519_def parse_checked_eq)
  next
    case (Some p)
    then show ?thesis
      using a parse_ed25519_length [OF Some]
      by (cases p) (simp add: pk verify_ed25519_def parse_checked_eq ed25519_challenge_def Let_def)
  qed
qed

lemma verify_p256_eq:
  "verify_ecdsa_p256_sha256 x vk m sig = Inr () \<longleftrightarrow>
     verify_provider_signature x (PPK_EcdsaP256Sha256 vk) m sig"
  by (auto simp: verify_ecdsa_p256_sha256_def split: option.splits)

lemma verified_is_structural:
  "verify_provider_signature x pk m sig \<Longrightarrow>
     provider_signature_is_structurally_valid x (ppk_algorithm pk) sig"
  by (cases pk) (auto simp: provider_signature_is_structurally_valid_def split: option.splits)

text \<open>
  C39: the signing crate and the verification crate apply one policy. A signature is
  structurally valid for a provider exactly when the verifier finds it well formed; a public
  key the verifier resolves to a typed key is the key the signer resolves and is admissible
  for a provider; and on such a key the self-check of the signer accepts exactly the
  signatures the verifier accepts, for both algorithms.
\<close>

theorem signer_and_verifier_checks_agree:
  assumes "crypto_ok x"
  shows "provider_signature_is_structurally_valid x a sig =
           (case a of Ed25519 \<Rightarrow> ed25519_signature_is_canonical x sig
                    | EcdsaP256Sha256 \<Rightarrow> ecdsa_p256_signature_is_well_formed x sig) \<and>
         (resolve_ed25519_verifying_key x bs = Inr vk \<longrightarrow>
           provider_public_key_is_admissible x Ed25519 bs \<and>
           ed25519_verifying_key_is_admissible x vk \<and>
           (\<exists>pk. resolve_provider_public_key x Ed25519 bs = Some pk \<and>
              (verify_ed25519 x vk m sig = Inr () \<longleftrightarrow> verify_provider_signature x pk m sig))) \<and>
         (resolve_p256_verifying_key x bs = Inr vk \<longrightarrow>
           provider_public_key_is_admissible x EcdsaP256Sha256 bs \<and>
           resolve_provider_public_key x EcdsaP256Sha256 bs = Some (PPK_EcdsaP256Sha256 vk) \<and>
           (verify_ecdsa_p256_sha256 x vk m sig = Inr () \<longleftrightarrow>
            verify_provider_signature x (PPK_EcdsaP256Sha256 vk) m sig))"
proof (intro conjI [of "_ = _"] conjI [of "_ \<longrightarrow> _"] impI)
  show "provider_signature_is_structurally_valid x a sig =
           (case a of Ed25519 \<Rightarrow> ed25519_signature_is_canonical x sig
                    | EcdsaP256Sha256 \<Rightarrow> ecdsa_p256_signature_is_well_formed x sig)"
    by (rule structurally_valid_eq)
next
  assume r: "resolve_ed25519_verifying_key x bs = Inr vk"
  then obtain p where p: "length bs = 32" "decode_canonical_edwards_point x bs = Some p"
    "\<not> ed_is_small_order x p" "ed_vk_from_bytes x bs = Some vk"
    by (auto simp: resolve_ed25519_verifying_key_def result_simps split: if_splits)
  then have b: "ed_vk_as_bytes x vk = bs" using crypto_okD(2) [OF assms] by blast
  have "resolve_provider_public_key x Ed25519 bs = Some (PPK_Ed25519 bs p)"
    using p by (simp add: resolve_ed25519_iff)
  then show "provider_public_key_is_admissible x Ed25519 bs \<and>
      ed25519_verifying_key_is_admissible x vk \<and>
      (\<exists>pk. resolve_provider_public_key x Ed25519 bs = Some pk \<and>
        (verify_ed25519 x vk m sig = Inr () \<longleftrightarrow> verify_provider_signature x pk m sig))"
    using r p b verify_ed25519_eq [of x vk "PPK_Ed25519 bs p"]
    by (simp add: provider_public_key_is_admissible_def ed25519_verifying_key_is_admissible_def)
next
  assume r: "resolve_p256_verifying_key x bs = Inr vk"
  then show "provider_public_key_is_admissible x EcdsaP256Sha256 bs \<and>
      resolve_provider_public_key x EcdsaP256Sha256 bs = Some (PPK_EcdsaP256Sha256 vk) \<and>
      (verify_ecdsa_p256_sha256 x vk m sig = Inr () \<longleftrightarrow>
       verify_provider_signature x (PPK_EcdsaP256Sha256 vk) m sig)"
    by (simp only: resolve_p256_iff verify_p256_eq provider_public_key_is_admissible_def
        algorithm_id.case is_ok.simps simp_thms) blast
qed

text \<open>
  The P-256 conversions produce slot encodings and nothing else. A converted signature is
  64 octets the verifier finds well formed; a converted key is 65 octets that resolve to a
  verifying key; the conversion of a key is idempotent and never panics.
\<close>

theorem p256_conversions_fit_the_slots:
  assumes "crypto_ok x"
  shows "(p256_der_signature_to_raw x der = Inr raw \<longrightarrow>
           length raw = 64 \<and> ecdsa_p256_signature_is_well_formed x raw \<and> length der \<le> 72) \<and>
         (p256_public_key_to_uncompressed x bs = Done (Inr out) \<longrightarrow>
           (\<exists>vk. resolve_p256_verifying_key x out = Inr vk) \<and>
           p256_public_key_to_uncompressed x out = Done (Inr out)) \<and>
         (\<exists>r. p256_public_key_to_uncompressed x bs = Done r)"
proof (intro conjI [of "_ \<longrightarrow> _"] impI)
  assume "p256_der_signature_to_raw x der = Inr raw"
  then show "length raw = 64 \<and> ecdsa_p256_signature_is_well_formed x raw \<and> length der \<le> 72"
    using crypto_okD(4,5) [OF assms]
    by (auto simp: p256_der_signature_to_raw_def ecdsa_p256_signature_is_well_formed_def result_simps
        dest: p256_valuesI(1) split: if_splits)
next
  assume "p256_public_key_to_uncompressed x bs = Done (Inr out)"
  then obtain k where out: "out = p256_vk_to_sec1 x k False" and k: "p256_point_value x k"
    by (auto dest!: p256_valuesI(3) simp: p256_public_key_to_uncompressed_def Let_def split: if_splits option.splits)
  have "out \<noteq> []" using crypto_okD(6) [OF assms, of k] out by auto
  then show "(\<exists>vk. resolve_p256_verifying_key x out = Inr vk) \<and>
      p256_public_key_to_uncompressed x out = Done (Inr out)"
    using crypto_okD(6,7) [OF assms] crypto_okD(8) [OF assms k] out
    by (auto simp: resolve_p256_verifying_key_def p256_public_key_to_uncompressed_def)
next
  show "\<exists>r. p256_public_key_to_uncompressed x bs = Done r"
    using crypto_okD(6) [OF assms]
    by (auto simp: p256_public_key_to_uncompressed_def Let_def split: option.splits)
qed

end
