(* ===== verification/Signing.thy ===== *)
theory Signing
  imports Crypto Transcription
begin

text \<open>
  The signing pipeline of \<open>yaml-sigil-signing/src/lib.rs\<close> and \<open>proto_carrier.rs\<close>: checks of a
  request, payload normalisation, the size preflights, emission of the artifact in either form,
  and the entry points that sign with an in-process key. What signs the prepared payload is a
  function with a state: the state is that of the random generator, or whatever a callback
  changes.
\<close>

section \<open>Requests and outcomes\<close>

datatype ('e, 'p) signing_key = SK_Ed25519 'e | SK_EcdsaP256Sha256 'p

record ('e, 'p) sign_request =
  sreq_payload :: bytes
  sreq_algorithm :: algorithm_id
  sreq_key :: "('e, 'p) signing_key"
  sreq_keyid :: "str option"
  sreq_append_missing_final_newline :: bool
  sreq_output_form :: output_form
  sreq_algorithm_parameters :: bytes

datatype sign_error =
    SE_InvalidPayloadBytes
  | SE_PayloadLineTerminatorRefusal
  | SE_KeyOperationFailure
  | SE_YamlValidationFailure
  | SE_YamlSerialize str
  | SE_InvalidOrUnsupportedAlgorithm
  | SE_InvalidAlgorithmParameters
  | SE_InvalidOrUnsupportedOutputForm
  | SE_InvalidKeyid

datatype sign_invocation_error =
    SIE_InvalidOrUnsupportedAlgorithm
  | SIE_InvalidAlgorithmParameters
  | SIE_InvalidOrUnsupportedOutputForm
  | SIE_InvalidKeyid

record sign_success =
  ss_artifact :: bytes
  ss_modified_payload :: bytes

datatype sign_outcome =
    SO_Success sign_success
  | SO_Invocation sign_invocation_error
  | SO_Signer sign_error

text \<open>The implementation's name and version, which the build supplies, are left out.\<close>

record signer_capabilities_record =
  sgc_protobuf_wire_decode :: wire_decode_advertisement
  sgc_duplicate_key_policy :: yaml_field_policy
  sgc_unknown_field_policy :: yaml_field_policy
  sgc_supported_output_forms :: "output_form list"
  sgc_supported_algorithms :: "algorithm_id list"
  sgc_best_effort_yaml_validation :: bool

type_synonym ('s, 'a) stateful = "'s \<Rightarrow> ('a \<times> 's) exec"
type_synonym 's payload_signer = "bytes \<Rightarrow> ('s, sign_error + bytes) stateful"

section \<open>Checks of the request\<close>

definition signer_capabilities :: signer_capabilities_record where
  "signer_capabilities =
     \<lparr>sgc_protobuf_wire_decode = UnprofiledStockDecoder,
      sgc_duplicate_key_policy = RejectedAtParse,
      sgc_unknown_field_policy = RejectedAtParse,
      sgc_supported_output_forms = [OF_Yaml, OF_Protobuf],
      sgc_supported_algorithms = [Ed25519, EcdsaP256Sha256],
      sgc_best_effort_yaml_validation = False\<rparr>"

definition validate_invocation_parameters :: "('e, 'p) sign_request \<Rightarrow> sign_invocation_error + unit" where
  "validate_invocation_parameters req =
     (let caps = signer_capabilities in
      if sreq_output_form req \<notin> set (sgc_supported_output_forms caps)
      then Inl SIE_InvalidOrUnsupportedOutputForm
      else if sreq_algorithm req \<notin> set (sgc_supported_algorithms caps)
      then Inl SIE_InvalidOrUnsupportedAlgorithm
      else if sreq_algorithm_parameters req \<noteq> []
      then Inl SIE_InvalidAlgorithmParameters
      else (case sreq_keyid req of
              Some keyid \<Rightarrow>
                (let octets = length keyid in
                 if octets = 0 \<or> octets > 1024 then Inl SIE_InvalidKeyid else Inr ())
            | None \<Rightarrow> Inr ()))"

definition validate_key_algorithm :: "('e, 'p) sign_request \<Rightarrow> sign_invocation_error + unit" where
  "validate_key_algorithm req =
     (case (sreq_algorithm req, sreq_key req) of
        (Ed25519, SK_Ed25519 _) \<Rightarrow> Inr ()
      | (EcdsaP256Sha256, SK_EcdsaP256Sha256 _) \<Rightarrow> Inr ()
      | _ \<Rightarrow> Inl SIE_InvalidOrUnsupportedAlgorithm)"

definition validate_invocation_shape :: "('e, 'p) sign_request \<Rightarrow> sign_invocation_error + unit" where
  "validate_invocation_shape req =
     result_try (validate_invocation_parameters req) (\<lambda>_. validate_key_algorithm req)"

definition validate_keyid_content :: "('e, 'p) sign_request \<Rightarrow> sign_invocation_error + unit" where
  "validate_keyid_content req =
     (if (case sreq_keyid req of None \<Rightarrow> False | Some keyid \<Rightarrow> 0x0D \<in> set keyid \<or> 0x0A \<in> set keyid)
      then Inl SIE_InvalidKeyid else Inr ())"

definition validate_invocation :: "('e, 'p) sign_request \<Rightarrow> sign_invocation_error + unit" where
  "validate_invocation req =
     result_try (validate_invocation_parameters req) (\<lambda>_.
     result_try (validate_keyid_content req) (\<lambda>_.
     validate_key_algorithm req))"

definition normalize_yaml_payload :: "bytes \<Rightarrow> bool \<Rightarrow> sign_error + bytes" where
  "normalize_yaml_payload payload append_missing_final_newline =
     (if from_utf8 payload = None then Inl SE_InvalidPayloadBytes
      else if starts_with payload [0xEF, 0xBB, 0xBF] then Inl SE_InvalidPayloadBytes
      else if payload = [] then Inr []
      else if ends_with payload [0x0A] then Inr payload
      else if append_missing_final_newline then Inr (payload @ [0x0A])
      else Inl SE_PayloadLineTerminatorRefusal)"

section \<open>Size preflights\<close>

definition FIXED_SIGNATURE_BYTES :: u64 where "FIXED_SIGNATURE_BYTES = 64"

text \<open>The loop of \<open>varint_len\<close>, the same statements as in the transcription crate.\<close>

function signing_varint_len_from :: "u64 \<Rightarrow> u64 \<Rightarrow> u64" where
  "signing_varint_len_from v len =
     (if v \<ge> 0x80 then signing_varint_len_from (drop_bit 7 v) (len + 1) else len)"
  by pat_completeness auto
termination
proof (relation "measure (\<lambda>(v, len). unat v)")
  fix v len :: u64
  assume "0x80 \<le> v"
  then have "128 \<le> unat v" by (simp add: word_le_nat_alt)
  then show "((drop_bit 7 v, len + 1), v, len) \<in> measure (\<lambda>(v, len). unat v)"
    by (simp only: in_measure prod.case unat_shift7)
qed simp

declare signing_varint_len_from.simps [simp del]

definition signing_varint_len :: "u64 \<Rightarrow> u64" where
  "signing_varint_len v = signing_varint_len_from v 1"

definition checked_mul_usize :: "usize \<Rightarrow> usize \<Rightarrow> usize option" where
  "checked_mul_usize a b = (if a * b \<le> USIZE_MAX then Some (a * b) else None)"

definition add_usize :: "usize option \<Rightarrow> usize \<Rightarrow> usize option" where
  "add_usize a b = Option.bind a (\<lambda>n. checked_add_usize n b)"

definition checked_yaml_signing_lower_bound ::
    "('u, 'w, 'z) yaml_ext_scheme \<Rightarrow> ('e, 'p) sign_request \<Rightarrow> artifact_resource_limits
       \<Rightarrow> usize resource_result" where
  "checked_yaml_signing_lower_bound x req limits =
     (let overflow = size_computation_overflow limits RF_Yaml;
          projected_lf =
            (if sreq_payload req \<noteq> [] \<and> \<not> ends_with (sreq_payload req) [0x0A]
                \<and> sreq_append_missing_final_newline req then 1 else 0) in
      result_try (ok_or (map_option (\<lambda>rounded. rounded div 3)
          (add_usize (Option.bind (usize_of_u64 FIXED_SIGNATURE_BYTES) (\<lambda>b. checked_mul_usize b 4)) 2))
        overflow) (\<lambda>minimum_signature_text_len.
      result_try (ok_or (add_usize (add_usize (add_usize (add_usize
          (checked_add_usize (length (ascii ''schema: '')) (length SCHEMA_V1ALPHA1)) 1)
          (length (ascii ''alg: ''))) (length (as_yaml_str x (sreq_algorithm req)))) 1)
        overflow) (\<lambda>minimum_carrier_len.
      result_try
        (case sreq_keyid req of
           Some keyid \<Rightarrow>
             ok_or (add_usize (add_usize (add_usize
               (checked_add_usize minimum_carrier_len (length (ascii ''keyid: ''))) 2)
               (length keyid)) 1) overflow
         | None \<Rightarrow> Inr minimum_carrier_len) (\<lambda>minimum_carrier_len.
      result_try (ok_or (add_usize (add_usize
          (checked_add_usize minimum_carrier_len (length (ascii ''signature: '')))
          minimum_signature_text_len) 1) overflow) (\<lambda>minimum_carrier_len.
      result_try (ok_or (add_usize (add_usize
          (checked_add_usize (length (sreq_payload req)) projected_lf) 4) minimum_carrier_len)
        overflow) (\<lambda>minimum_artifact_len.
      check_output_size_lower_bound limits RF_Yaml minimum_artifact_len))))))"

definition checked_len_field_size :: "u64 \<Rightarrow> u64 option" where
  "checked_len_field_size value_len =
     Option.bind (checked_add_u64 1 (signing_varint_len value_len)) (\<lambda>size. checked_add_u64 size value_len)"

definition checked_proto_signing_size_from_lengths ::
    "('u, 'w, 'z) buffa_ext_scheme \<Rightarrow> u64 \<Rightarrow> u64 option \<Rightarrow> artifact_resource_limits
       \<Rightarrow> (encode_error + usize) resource_result" where
  "checked_proto_signing_size_from_lengths x payload_len keyid_len limits =
     (let overflow = size_computation_overflow limits RF_Protobuf in
      result_try
        (case keyid_len of
           Some keyid_len \<Rightarrow>
             result_try (ok_or (checked_len_field_size keyid_len) overflow) (\<lambda>field.
             ok_or (checked_add_u64 2 field) overflow)
         | None \<Rightarrow> Inr 2) (\<lambda>carrier_len.
      result_try (ok_or (checked_len_field_size FIXED_SIGNATURE_BYTES) overflow) (\<lambda>field.
      result_try (ok_or (checked_add_u64 carrier_len field) overflow) (\<lambda>carrier_len.
      result_try (ok_or (Option.bind (checked_len_field_size payload_len) (\<lambda>payload_size.
          Option.bind (checked_len_field_size carrier_len) (\<lambda>carrier_size.
          checked_add_u64 payload_size carrier_size))) overflow) (\<lambda>raw_size.
      result_try (ok_or (usize_of_u64 raw_size) overflow) (\<lambda>encoded_size.
      result_try (check_output_size limits RF_Protobuf encoded_size) (\<lambda>_.
      Inr (check_encoded_message_size x encoded_size))))))))"

definition checked_proto_signing_size ::
    "('u, 'w, 'z) buffa_ext_scheme \<Rightarrow> ('e, 'p) sign_request \<Rightarrow> artifact_resource_limits
       \<Rightarrow> (encode_error + usize) resource_result" where
  "checked_proto_signing_size x req limits =
     (let overflow = size_computation_overflow limits RF_Protobuf in
      result_try (ok_or (u64_of_usize (length (sreq_payload req))) overflow) (\<lambda>payload_len.
      result_try
        (case sreq_keyid req of
           None \<Rightarrow> Inr None
         | Some keyid \<Rightarrow> result_map Some (ok_or (u64_of_usize (length keyid)) overflow)) (\<lambda>keyid_len.
      checked_proto_signing_size_from_lengths x payload_len keyid_len limits)))"

definition preflight_signing_output ::
    "('u, 'w, 'z) yaml_ext_scheme \<Rightarrow> ('e, 'p) sign_request \<Rightarrow> artifact_resource_limits
       \<Rightarrow> (encode_error + usize) resource_result" where
  "preflight_signing_output x req limits =
     (case sreq_output_form req of
        OF_Yaml \<Rightarrow> result_map Inr (checked_yaml_signing_lower_bound x req limits)
      | OF_Protobuf \<Rightarrow> checked_proto_signing_size x req limits)"

section \<open>Preparing the payload and emitting the artifact\<close>

record prepared_signing_payload =
  psp_payload :: bytes
  psp_modified_payload :: bytes

definition prepare_signing_payload ::
    "('e, 'p) sign_request \<Rightarrow> sign_error + prepared_signing_payload" where
  "prepare_signing_payload req =
     result_try
       (case sreq_output_form req of
          OF_Yaml \<Rightarrow>
            result_try (normalize_yaml_payload (sreq_payload req) (sreq_append_missing_final_newline req))
              (\<lambda>payload. if \<not> is_ok (validate_payload_stream payload) then Inl SE_InvalidPayloadBytes
                          else Inr payload)
        | OF_Protobuf \<Rightarrow> Inr (sreq_payload req))
       (\<lambda>payload.
          Inr \<lparr>psp_payload = payload,
               psp_modified_payload = (if sreq_payload req = payload then [] else payload)\<rparr>)"

definition serialize_yaml_signature_carrier ::
    "('u, 'w, 'z) yaml_ext_scheme \<Rightarrow> ('e, 'p) sign_request \<Rightarrow> bytes \<Rightarrow> sign_error + str" where
  "serialize_yaml_signature_carrier x req sig_bytes =
     (let doc = \<lparr>sd_schema = SCHEMA_V1ALPHA1, sd_alg = as_yaml_str x (sreq_algorithm req),
                 sd_keyid = sreq_keyid req, sd_signature = b64_encode x sig_bytes\<rparr> in
      result_try (map_err (\<lambda>e. SE_YamlSerialize (core_error_display e))
          (serialize_signature_document x doc)) (\<lambda>body.
      Inr (if \<not> ends_with body [0x0A] then body @ [0x0A] else body)))"

fun emitted_outcome :: "compose_outcome \<Rightarrow> sign_error + bytes" where
  "emitted_outcome (CO_Success s) = Inr (cs_artifact s)"
| "emitted_outcome (CO_Invocation e) = Inl (SE_YamlSerialize (ascii ''compose failed''))"
| "emitted_outcome (CO_Error e) = Inl (SE_YamlSerialize (ascii ''compose failed''))"

definition emit_yaml_artifact ::
    "('u, 'w, 'z) yaml_ext_scheme \<Rightarrow> bytes \<Rightarrow> ('e, 'p) sign_request \<Rightarrow> bytes
       \<Rightarrow> (sign_error + bytes) exec" where
  "emit_yaml_artifact x payload req sig_bytes =
     (case serialize_yaml_signature_carrier x req sig_bytes of
        Inl e \<Rightarrow> Done (Inl e)
      | Inr body \<Rightarrow>
          exec_map emitted_outcome
            (compose x \<lparr>cr_payload = payload, cr_signature_carrier = body, cr_form = TF_Yaml\<rparr>))"

text \<open>The \<open>debug_assert_eq\<close> on the composed length, absent from release builds, is left out.\<close>

definition emit_yaml_artifact_with_resource_limits ::
    "('u, 'w, 'z) yaml_ext_scheme \<Rightarrow> bytes \<Rightarrow> ('e, 'p) sign_request \<Rightarrow> bytes
       \<Rightarrow> artifact_resource_limits \<Rightarrow> (sign_error + bytes) resource_result exec" where
  "emit_yaml_artifact_with_resource_limits x payload req sig_bytes limits =
     (case serialize_yaml_signature_carrier x req sig_bytes of
        Inl e \<Rightarrow> Done (Inr (Inl e))
      | Inr body \<Rightarrow>
          (case ok_or (add_usize (checked_add_usize (length payload) 4) (length body))
                  (size_computation_overflow limits RF_Yaml) of
             Inl re \<Rightarrow> Done (Inl re)
           | Inr encoded_size \<Rightarrow>
               (case check_output_size limits RF_Yaml encoded_size of
                  Inl re \<Rightarrow> Done (Inl re)
                | Inr _ \<Rightarrow>
                    exec_map (\<lambda>outcome. Inr (emitted_outcome outcome))
                      (compose x \<lparr>cr_payload = payload, cr_signature_carrier = body,
                                  cr_form = TF_Yaml\<rparr>))))"

definition encode_inner_signature_carrier ::
    "('u, 'w, 'z) buffa_ext_scheme \<Rightarrow> algorithm_id \<Rightarrow> bytes \<Rightarrow> str option \<Rightarrow> bytes exec" where
  "encode_inner_signature_carrier x algorithm sig keyid =
     expect_ok (signature_encode_to_vec x (sig_set_keyid keyid (signature_new x algorithm sig)))"

definition emit_proto_artifact ::
    "('u, 'w, 'z) buffa_ext_scheme \<Rightarrow> bytes \<Rightarrow> ('e, 'p) sign_request \<Rightarrow> bytes
       \<Rightarrow> (sign_error + bytes) exec" where
  "emit_proto_artifact x payload req sig_bytes =
     exec_bind (encode_inner_signature_carrier x (sreq_algorithm req) sig_bytes (sreq_keyid req))
       (\<lambda>carrier. exec_map Inr (compose_proto_outer x payload carrier))"

definition finish_signing ::
    "('u, 'w, 'z) yaml_ext_scheme \<Rightarrow> ('e, 'p) sign_request \<Rightarrow> prepared_signing_payload \<Rightarrow> bytes
       \<Rightarrow> artifact_resource_limits option \<Rightarrow> sign_outcome resource_result exec" where
  "finish_signing x req prepared sig_bytes limits =
     (let payload = psp_payload prepared;
          success = (\<lambda>artifact. SO_Success
            \<lparr>ss_artifact = artifact, ss_modified_payload = psp_modified_payload prepared\<rparr>) in
      case sreq_output_form req of
        OF_Yaml \<Rightarrow>
          exec_map (result_map (\<lambda>emitted. case emitted of
                Inr artifact \<Rightarrow> success artifact | Inl e \<Rightarrow> SO_Signer e))
            (case limits of
               Some l \<Rightarrow> emit_yaml_artifact_with_resource_limits x payload req sig_bytes l
             | None \<Rightarrow> exec_map Inr (emit_yaml_artifact x payload req sig_bytes))
      | OF_Protobuf \<Rightarrow>
          exec_map (\<lambda>emitted. Inr (case emitted of
                Inr artifact \<Rightarrow> success artifact | Inl e \<Rightarrow> SO_Signer e))
            (emit_proto_artifact x payload req sig_bytes))"

definition sign_after_invocation_validation ::
    "('u, 'w, 'z) yaml_ext_scheme \<Rightarrow> ('e, 'p) sign_request \<Rightarrow> artifact_resource_limits option
       \<Rightarrow> 's payload_signer \<Rightarrow> ('s, sign_outcome resource_result) stateful" where
  "sign_after_invocation_validation x req limits sign_payload s =
     (case prepare_signing_payload req of
        Inl e \<Rightarrow> Done (Inr (SO_Signer e), s)
      | Inr prepared \<Rightarrow>
          exec_bind (sign_payload (psp_payload prepared) s) (\<lambda>(r, s').
            case r of
              Inl e \<Rightarrow> Done (Inr (SO_Signer e), s')
            | Inr sig \<Rightarrow>
                exec_map (\<lambda>out. (out, s')) (finish_signing x req prepared sig limits)))"

section \<open>Signing with an in-process key\<close>

text \<open>
  The nonce loop returns when the generator fails or the primitive accepts the nonce; it has no
  bound, so its value is \<open>None\<close> when it does not return. \<open>rng\<close> is
  \<open>NonZeroScalar::try_generate_from_rng\<close> on the generator's state.
\<close>

partial_function (option) sign_p256_loop ::
    "('u, 'w, 'k, 'z) crypto_ext_scheme \<Rightarrow> ('s \<Rightarrow> 'k option \<times> 's) \<Rightarrow> 'k \<Rightarrow> bytes \<Rightarrow> 's
       \<Rightarrow> ((sign_error + bytes) \<times> 's) option" where
  "sign_p256_loop x rng key digest s =
     (case rng s of
        (None, s') \<Rightarrow> Some (Inl SE_KeyOperationFailure, s')
      | (Some nonce, s') \<Rightarrow>
          (case p256_sign_prehashed x key nonce digest of
             Some sig \<Rightarrow> Some (Inr (p256_sig_to_bytes x sig), s')
           | None \<Rightarrow> sign_p256_loop x rng key digest s'))"

definition sign_p256_with_rng ::
    "('u, 'w, 'k, 'z) crypto_ext_scheme \<Rightarrow> ('s \<Rightarrow> 'k option \<times> 's) \<Rightarrow> bytes \<Rightarrow> 'k
       \<Rightarrow> ('s, sign_error + bytes) stateful" where
  "sign_p256_with_rng x rng payload key s =
     exec_of_option (sign_p256_loop x rng key (sha256 x payload) s)"

definition sign_digest ::
    "('u, 'w, 'k, 'z) crypto_ext_scheme \<Rightarrow> ('s \<Rightarrow> 'k option \<times> 's) \<Rightarrow> bytes \<Rightarrow> algorithm_id
       \<Rightarrow> ('k, 'k) signing_key \<Rightarrow> ('s, sign_error + bytes) stateful" where
  "sign_digest x rng payload algorithm key s =
     (case (algorithm, key) of
        (Ed25519, SK_Ed25519 sk) \<Rightarrow> Done (Inr (ed_sign x sk payload), s)
      | (EcdsaP256Sha256, SK_EcdsaP256Sha256 sk) \<Rightarrow> sign_p256_with_rng x rng payload sk s
      | _ \<Rightarrow> Done (Inl SE_InvalidOrUnsupportedAlgorithm, s))"

definition sign_inner ::
    "('u, 'w, 'k, 'z) crypto_ext_scheme \<Rightarrow> ('s \<Rightarrow> 'k option \<times> 's) \<Rightarrow> ('k, 'k) sign_request
       \<Rightarrow> ('s, sign_outcome) stateful" where
  "sign_inner x rng req s =
     (case validate_invocation req of
        Inl e \<Rightarrow> Done (SO_Invocation e, s)
      | Inr _ \<Rightarrow>
          exec_bind (sign_after_invocation_validation x req None
              (\<lambda>payload. sign_digest x rng payload (sreq_algorithm req) (sreq_key req)) s)
            (\<lambda>(r, s'). exec_map (\<lambda>out. (out, s')) (expect_ok r)))"

definition sign ::
    "('u, 'w, 'k, 'z) crypto_ext_scheme \<Rightarrow> ('s \<Rightarrow> 'k option \<times> 's) \<Rightarrow> ('k, 'k) sign_request
       \<Rightarrow> ('s, sign_outcome) stateful" where
  "sign x rng req s = sign_inner x rng req s"

definition sign_with_resource_limits ::
    "('u, 'w, 'k, 'z) crypto_ext_scheme \<Rightarrow> ('s \<Rightarrow> 'k option \<times> 's) \<Rightarrow> ('k, 'k) sign_request
       \<Rightarrow> artifact_resource_limits \<Rightarrow> ('s, (encode_error + sign_outcome) resource_result) stateful" where
  "sign_with_resource_limits x rng req limits s =
     (case validate_invocation_shape req of
        Inl e \<Rightarrow> Done (Inr (Inr (SO_Invocation e)), s)
      | Inr _ \<Rightarrow>
          (case preflight_signing_output x req limits of
             Inl re \<Rightarrow> Done (Inl re, s)
           | Inr (Inl e) \<Rightarrow> Done (Inr (Inl e), s)
           | Inr (Inr _) \<Rightarrow>
               (case validate_keyid_content req of
                  Inl e \<Rightarrow> Done (Inr (Inr (SO_Invocation e)), s)
                | Inr _ \<Rightarrow>
                    exec_map (\<lambda>(r, s'). (result_map Inr r, s'))
                      (sign_after_invocation_validation x req (Some limits)
                        (\<lambda>payload. sign_digest x rng payload (sreq_algorithm req) (sreq_key req)) s))))"

section \<open>Convenience wrappers\<close>

record 'k sign_params =
  sp_payload :: bytes
  sp_algorithm :: algorithm_id
  sp_key :: "('k, 'k) signing_key"
  sp_keyid :: "str option"
  sp_append_missing_final_newline :: bool

definition params_request :: "'k sign_params \<Rightarrow> output_form \<Rightarrow> ('k, 'k) sign_request" where
  "params_request params form =
     \<lparr>sreq_payload = sp_payload params, sreq_algorithm = sp_algorithm params,
      sreq_key = sp_key params, sreq_keyid = sp_keyid params,
      sreq_append_missing_final_newline = sp_append_missing_final_newline params,
      sreq_output_form = form, sreq_algorithm_parameters = []\<rparr>"

fun map_invocation_to_sign_error :: "sign_invocation_error \<Rightarrow> sign_error" where
  "map_invocation_to_sign_error SIE_InvalidOrUnsupportedAlgorithm = SE_InvalidOrUnsupportedAlgorithm"
| "map_invocation_to_sign_error SIE_InvalidAlgorithmParameters = SE_InvalidAlgorithmParameters"
| "map_invocation_to_sign_error SIE_InvalidOrUnsupportedOutputForm = SE_InvalidOrUnsupportedOutputForm"
| "map_invocation_to_sign_error SIE_InvalidKeyid = SE_InvalidKeyid"

fun outcome_result :: "sign_outcome \<Rightarrow> sign_error + bytes" where
  "outcome_result (SO_Success s) = Inr (ss_artifact s)"
| "outcome_result (SO_Invocation e) = Inl (map_invocation_to_sign_error e)"
| "outcome_result (SO_Signer e) = Inl e"

definition sign_yaml ::
    "('u, 'w, 'k, 'z) crypto_ext_scheme \<Rightarrow> ('s \<Rightarrow> 'k option \<times> 's) \<Rightarrow> 'k sign_params
       \<Rightarrow> ('s, sign_error + bytes) stateful" where
  "sign_yaml x rng params s =
     exec_map (\<lambda>(out, s'). (outcome_result out, s')) (sign_inner x rng (params_request params OF_Yaml) s)"

definition sign_yaml_with_resource_limits ::
    "('u, 'w, 'k, 'z) crypto_ext_scheme \<Rightarrow> ('s \<Rightarrow> 'k option \<times> 's) \<Rightarrow> 'k sign_params
       \<Rightarrow> artifact_resource_limits \<Rightarrow> ('s, (sign_error + bytes) resource_result) stateful" where
  "sign_yaml_with_resource_limits x rng params limits s =
     (let req = params_request params OF_Yaml in
      case validate_invocation_shape req of
        Inl e \<Rightarrow> Done (Inr (Inl (map_invocation_to_sign_error e)), s)
      | Inr _ \<Rightarrow>
          (case checked_yaml_signing_lower_bound x req limits of
             Inl re \<Rightarrow> Done (Inl re, s)
           | Inr _ \<Rightarrow>
               (case validate_keyid_content req of
                  Inl e \<Rightarrow> Done (Inr (Inl (map_invocation_to_sign_error e)), s)
                | Inr _ \<Rightarrow>
                    exec_map (\<lambda>(r, s'). (result_map outcome_result r, s'))
                      (sign_after_invocation_validation x req (Some limits)
                        (\<lambda>payload. sign_digest x rng payload (sreq_algorithm req) (sreq_key req)) s))))"

definition sign_proto ::
    "('u, 'w, 'k, 'z) crypto_ext_scheme \<Rightarrow> ('s \<Rightarrow> 'k option \<times> 's) \<Rightarrow> 'k sign_params
       \<Rightarrow> ('s, sign_error + bytes) stateful" where
  "sign_proto x rng params s =
     exec_map (\<lambda>(out, s'). (outcome_result out, s')) (sign x rng (params_request params OF_Protobuf) s)"

definition sign_proto_with_resource_limits ::
    "('u, 'w, 'k, 'z) crypto_ext_scheme \<Rightarrow> ('s \<Rightarrow> 'k option \<times> 's) \<Rightarrow> 'k sign_params
       \<Rightarrow> artifact_resource_limits
       \<Rightarrow> ('s, (encode_error + (sign_error + bytes)) resource_result) stateful" where
  "sign_proto_with_resource_limits x rng params limits s =
     exec_map (\<lambda>(r, s'). (result_map (result_map outcome_result) r, s'))
       (sign_with_resource_limits x rng (params_request params OF_Protobuf) limits s)"

end
