(* ===== verification/Signing_Facts.thy ===== *)
theory Signing_Facts
  imports Signing
begin

text \<open>
  What the signing pipeline does: the payload it signs, the artifact it emits, the exactness of
  its size preflights, and the outcome of its entry points on every branch.
\<close>

section \<open>Checked sums\<close>

definition capped :: "nat \<Rightarrow> usize option" where
  "capped n = (if n < 2 ^ 64 then Some n else None)"

lemma capped_simps [simp]:
  "checked_add_usize a b = capped (a + b)"
  "checked_mul_usize a b = capped (a * b)"
  "add_usize (capped a) b = capped (a + b)"
  "add_usize (Some a) b = capped (a + b)"
  by (auto simp: checked_add_usize_def checked_mul_usize_def add_usize_def capped_def USIZE_MAX_def)

lemma ok_or_capped [simp]: "ok_or (capped n) e = (if n < 2 ^ 64 then Inr n else Inl e)"
  by (simp add: capped_def)

lemma result_try_if [simp]:
  "result_try (if P then Inr a else Inl e) f = (if P then f a else Inl e)"
  by simp

section \<open>The YAML carrier\<close>

definition yaml_carrier :: "('u, 'w, 'z) yaml_ext_scheme \<Rightarrow> algorithm_id \<Rightarrow> str option \<Rightarrow> bytes \<Rightarrow> str" where
  "yaml_carrier x a keyid sig =
     join_lines (carrier_lines (as_yaml_str x a) keyid (emitted_signature x (b64_encode x sig)))"

lemma serialize_yaml_carrier:
  assumes "traits_ok x" and "b64_ok x"
  shows "serialize_signature_document x
      \<lparr>sd_schema = SCHEMA_V1ALPHA1, sd_alg = as_yaml_str x a, sd_keyid = k, sd_signature = b64_encode x sig\<rparr>
    = Inr (yaml_carrier x a k sig)"
  using traits_okD(1,2) [OF assms(1)] b64_okD(2) [OF assms(2)]
  by (auto simp: serialize_iff yaml_carrier_def)

lemma yaml_carrier_facts:
  assumes "traits_ok x" and "b64_ok x"
  shows "\<not> has_marker (yaml_carrier x a k sig)" and "utf8_valid (yaml_carrier x a k sig)"
    and "yaml_carrier x a k sig \<noteq> []" and "last (yaml_carrier x a k sig) = 0x0A"
  using serialized_carrier [OF assms serialize_yaml_carrier [OF assms]] by blast+

lemma serialize_yaml_signature_carrier_eq:
  assumes "traits_ok x" and "b64_ok x"
  shows "serialize_yaml_signature_carrier x req sig =
           Inr (yaml_carrier x (sreq_algorithm req) (sreq_keyid req) sig)"
  using yaml_carrier_facts [OF assms]
  by (simp add: serialize_yaml_signature_carrier_def serialize_yaml_carrier [OF assms] ends_with_single
      Let_def)

text \<open>A quoted string is at least as long as the string and its two quotes.\<close>

lemma length_escape_char: "length (encode_utf8 c) \<le> length (escape_char c)"
proof (cases "is_escaped c")
  case True
  then show ?thesis
    by (auto simp: escape_char_def encode_utf8_def is_escaped_def hex_upper_4)
qed (simp add: escape_char_raw)

lemma length_quote: "utf8_valid v \<Longrightarrow> length v + 2 \<le> length (quote_yaml_string v)"
proof -
  assume v: "utf8_valid v"
  have "length (push_chars cs) \<le> length (concat (map escape_char cs))" for cs
    using length_escape_char by (induction cs) (simp_all add: add_mono)
  from this [of "chars v"] show ?thesis
    by (simp add: quote_yaml_string_def push_chars_chars [OF v])
qed

lemma length_emitted_signature:
  "list_all b64url_char s \<Longrightarrow> length s \<le> length (emitted_signature x s)"
  using length_quote [OF b64_chars_utf8, of s] by (simp add: emitted_signature_def)

section \<open>The protobuf carrier\<close>

definition proto_carrier :: "('u, 'w, 'z) buffa_ext_scheme \<Rightarrow> algorithm_id \<Rightarrow> str option \<Rightarrow> bytes \<Rightarrow> bytes" where
  "proto_carrier x a keyid sig = signature_wire x (sig_set_keyid keyid (signature_new x a sig))"

definition field_octets :: "nat \<Rightarrow> nat" where
  "field_octets n = 1 + length (varint_bytes n) + n"

lemma scast_algorithm: "unat (scast (algorithm_wire_value a) :: u64) = (case a of Ed25519 \<Rightarrow> 1 | EcdsaP256Sha256 \<Rightarrow> 2)"
  by (cases a; simp)

lemma length_proto_carrier:
  assumes "buffa_ok x"
  shows "length (proto_carrier x a keyid sig) =
    2 + (case keyid of Some k \<Rightarrow> field_octets (length k) | None \<Rightarrow> 0)
      + (if sig = [] then 0 else field_octets (length sig))"
proof -
  have "puts_bytes (uf_write x (uf_new x)) = []" using assms by (simp add: buffa_ok_def)
  moreover have "algorithm_wire_value a \<noteq> 0" by (cases a) simp_all
  ultimately show ?thesis
    by (cases a)
       (auto simp: proto_carrier_def signature_wire_def signature_fields_wire_def sig_set_keyid_def
        signature_new_def signature_default_def len_field_bytes_def field_octets_def
        scast_algorithm [of Ed25519, simplified] scast_algorithm [of EcdsaP256Sha256, simplified]
        varint_bytes_single split: option.splits)
qed

text \<open>A protobuf message ceiling that leaves room for a signature message (the documented one is 2 GiB).\<close>

definition message_ceiling_ok :: "('u, 'w, 'z) buffa_ext_scheme \<Rightarrow> bool" where
  "message_ceiling_ok x \<longleftrightarrow> 2 ^ 16 \<le> unat (max_message_bytes x)"

definition keyid_bounded :: "str option \<Rightarrow> bool" where
  "keyid_bounded keyid \<longleftrightarrow> (case keyid of Some k \<Rightarrow> k \<noteq> [] \<and> length k \<le> 1024 | None \<Rightarrow> True)"

lemma length_proto_carrier_small:
  assumes "buffa_ok x" and "keyid_bounded keyid" and "length sig = 64"
  shows "length (proto_carrier x a keyid sig) < 2 ^ 11"
proof -
  have "length (varint_bytes n) \<le> 2" if "n \<le> 1024" for n
    using that by (intro length_varint_bytes) simp_all
  then have "field_octets n \<le> n + 3" if "n \<le> 1024" for n
    using that by (fastforce simp: field_octets_def)
  from this [of 64] this [of "length (the keyid)"] show ?thesis
    using assms(2,3) by (auto simp: length_proto_carrier [OF assms(1)] keyid_bounded_def split: option.splits)
qed

lemma encode_inner_signature_carrier_eq:
  assumes "buffa_ok x"
  shows "encode_inner_signature_carrier x a sig keyid =
    (if length (proto_carrier x a keyid sig) \<le> unat (max_message_bytes x)
     then Done (proto_carrier x a keyid sig) else Panicked)"
  using signature_enc.encode_to_vec [OF buffa_ok_vec [OF assms]]
  by (simp add: encode_inner_signature_carrier_def signature_encode_to_vec_def proto_carrier_def)


section \<open>The payload that is signed\<close>

lemma starts_with_bom: "starts_with p [0xEF, 0xBB, 0xBF] \<longleftrightarrow> bom_at_zero p"
proof (cases "length p \<ge> 3")
  case True
  then obtain a b c r where "p = a # b # c # r" by (metis Suc_le_length_iff numeral_3_eq_3)
  then show ?thesis by (auto simp: starts_with_def bom_at_zero_def)
next
  case False
  then have "\<not> (\<exists>r. p = [0xEF, 0xBB, 0xBF] @ r)" by auto
  with False show ?thesis by (simp only: starts_with_iff bom_at_zero_def) simp
qed

lemma prepare_signing_payload_eq:
  "prepare_signing_payload req =
    (let p = sreq_payload req in
     case sreq_output_form req of
       OF_Protobuf \<Rightarrow> Inr \<lparr>psp_payload = p, psp_modified_payload = []\<rparr>
     | OF_Yaml \<Rightarrow>
         if \<not> utf8_valid p \<or> bom_at_zero p then Inl SE_InvalidPayloadBytes
         else if p = [] \<or> last p = 0x0A then Inr \<lparr>psp_payload = p, psp_modified_payload = []\<rparr>
         else if sreq_append_missing_final_newline req
         then Inr \<lparr>psp_payload = p @ [0x0A], psp_modified_payload = p @ [0x0A]\<rparr>
         else Inl SE_PayloadLineTerminatorRefusal)"
proof (cases "sreq_output_form req")
  case OF_Yaml
  have bom: "\<not> bom_at_zero (p @ [0x0A])" if "\<not> bom_at_zero p" for p
    using that by (auto simp: bom_at_zero_def nth_append split: if_splits)
  have utf8: "utf8_valid (p @ [0x0A])" if "utf8_valid p" for p
    using that by (intro utf8_valid_append) (simp_all add: utf8_valid_ascii_Cons)
  show ?thesis
    using OF_Yaml bom utf8
    by (auto simp: prepare_signing_payload_def normalize_yaml_payload_def from_utf8_def starts_with_bom
        ends_with_single validate_payload_stream_ok is_ok_iff Let_def)
qed (simp add: prepare_signing_payload_def Let_def)

lemma prepared_stream:
  assumes "prepare_signing_payload req = Inr prepared" and "sreq_output_form req = OF_Yaml"
  shows "validate_payload_stream (psp_payload prepared) = Inr ()"
proof -
  obtain payload where "is_ok (validate_payload_stream payload)" "psp_payload prepared = payload"
    using assms by (auto simp: prepare_signing_payload_def result_simps split: if_splits)
  then show ?thesis by (auto simp: is_ok_iff)
qed

section \<open>The emitted artifact\<close>

text \<open>The hypotheses on the crates the pipeline calls, in one.\<close>

definition signing_runtime :: "('u, 'w, 'z) yaml_ext_scheme \<Rightarrow> bool" where
  "signing_runtime x \<longleftrightarrow> traits_ok x \<and> b64_ok x \<and> buffa_ok x \<and> message_ceiling_ok x"

fun artifact_of ::
    "('u, 'w, 'z) yaml_ext_scheme \<Rightarrow> output_form \<Rightarrow> algorithm_id \<Rightarrow> str option \<Rightarrow> bytes \<Rightarrow> bytes \<Rightarrow> bytes" where
  "artifact_of x OF_Yaml a keyid payload sig = payload @ yaml_marker @ yaml_carrier x a keyid sig"
| "artifact_of x OF_Protobuf a keyid payload sig = envelope_bytes payload (proto_carrier x a keyid sig)"

abbreviation signed_artifact ::
    "('u, 'w, 'z) yaml_ext_scheme \<Rightarrow> ('e, 'p) sign_request \<Rightarrow> prepared_signing_payload \<Rightarrow> bytes \<Rightarrow> bytes" where
  "signed_artifact x req prepared sig \<equiv>
     artifact_of x (sreq_output_form req) (sreq_algorithm req) (sreq_keyid req) (psp_payload prepared) sig"

definition signed_success ::
    "('u, 'w, 'z) yaml_ext_scheme \<Rightarrow> ('e, 'p) sign_request \<Rightarrow> prepared_signing_payload \<Rightarrow> bytes \<Rightarrow> sign_outcome" where
  "signed_success x req prepared sig = SO_Success
     \<lparr>ss_artifact = signed_artifact x req prepared sig,
      ss_modified_payload = psp_modified_payload prepared\<rparr>"

text \<open>The last step of the pipeline, once the payload is prepared and a signature made.\<close>

definition delivered ::
    "('u, 'w, 'z) yaml_ext_scheme \<Rightarrow> ('e, 'p) sign_request \<Rightarrow> prepared_signing_payload \<Rightarrow> bytes
       \<Rightarrow> artifact_resource_limits option \<Rightarrow> sign_outcome resource_result exec" where
  "delivered x req prepared sig limits =
    (let n = length (signed_artifact x req prepared sig) in
     case sreq_output_form req of
       OF_Protobuf \<Rightarrow> if n < 2 ^ 64 then Done (Inr (signed_success x req prepared sig)) else Panicked
     | OF_Yaml \<Rightarrow>
         (case limits of
            None \<Rightarrow> Done (Inr (signed_success x req prepared sig))
          | Some l \<Rightarrow>
              Done (if 2 ^ 64 \<le> n then Inl (size_computation_overflow l RF_Yaml)
                    else result_map (\<lambda>_. signed_success x req prepared sig)
                           (check_output_size l RF_Yaml n))))"

lemma finish_signing_eq:
  assumes "signing_runtime x" and "keyid_bounded (sreq_keyid req)" and "length sig = 64"
    and "prepare_signing_payload req = Inr prepared"
  shows "finish_signing x req prepared sig limits = delivered x req prepared sig limits"
proof -
  have ok: "traits_ok x" "b64_ok x" "buffa_ok x" "message_ceiling_ok x"
    using assms(1) by (simp_all add: signing_runtime_def)
  show ?thesis
  proof (cases "sreq_output_form req")
    case OF_Yaml
    note p = prepared_stream [OF assms(4) OF_Yaml]
    let ?c = "yaml_carrier x (sreq_algorithm req) (sreq_keyid req) sig"
    have comp: "compose x \<lparr>cr_payload = psp_payload prepared, cr_signature_carrier = ?c, cr_form = TF_Yaml\<rparr> =
        Done (CO_Success \<lparr>cs_artifact = signed_artifact x req prepared sig, cs_form = TF_Yaml\<rparr>)"
      using p yaml_carrier_facts [OF ok(1,2)] OF_Yaml by (simp add: compose_yaml_eq)
    define n where "n = length (psp_payload prepared) + 4 + length ?c"
    have len: "length (signed_artifact x req prepared sig) = n"
      using OF_Yaml by (simp add: yaml_marker_def n_def)
    show ?thesis
      unfolding delivered_def len finish_signing_def emit_yaml_artifact_def emit_yaml_artifact_with_resource_limits_def
        serialize_yaml_signature_carrier_eq [OF ok(1,2)] comp capped_simps n_def [symmetric]
      using OF_Yaml
      by (auto simp: comp signed_success_def Let_def n_def [symmetric] simp del: artifact_of.simps
          split: option.splits sum.splits)
  next
    case OF_Protobuf
    have "length (proto_carrier x (sreq_algorithm req) (sreq_keyid req) sig) \<le> unat (max_message_bytes x)"
      using length_proto_carrier_small [OF ok(3) assms(2,3), of "sreq_algorithm req"] ok(4)
      by (simp add: message_ceiling_ok_def)
    then show ?thesis
      using OF_Protobuf compose_raw_outer_eq [OF buffa_ok_vec [OF ok(3)]]
      by (simp add: finish_signing_def emit_proto_artifact_def encode_inner_signature_carrier_eq [OF ok(3)]
          compose_proto_outer_def signed_success_def delivered_def Let_def)
  qed
qed


section \<open>The size preflights\<close>

lemma signing_varint_len_from_eq: "signing_varint_len_from v len = varint_len_from v len"
  by (induction v len rule: varint_len_from.induct)
     (simp add: varint_len_from.simps [of v for v] signing_varint_len_from.simps [of v for v])

lemma checked_len_field_size_eq:
  "n < 2 ^ 64 \<Longrightarrow> checked_len_field_size (of_nat n) =
     (if field_octets n < 2 ^ 64 then Some (of_nat (field_octets n)) else None)"
  using field_size [of n]
  by (simp add: checked_len_field_size_def signing_varint_len_def signing_varint_len_from_eq
      varint_len_def field_octets_def)

text \<open>The least size of a YAML artifact the request can produce.\<close>

definition yaml_minimum ::
    "('u, 'w, 'z) yaml_ext_scheme \<Rightarrow> ('e, 'p) sign_request \<Rightarrow> nat" where
  "yaml_minimum x req =
     length (sreq_payload req)
     + (if sreq_payload req \<noteq> [] \<and> last (sreq_payload req) \<noteq> 0x0A
           \<and> sreq_append_missing_final_newline req then 1 else 0)
     + 4 + (8 + length SCHEMA_V1ALPHA1 + 1) + (5 + length (as_yaml_str x (sreq_algorithm req)) + 1)
     + (case sreq_keyid req of Some k \<Rightarrow> 7 + (length k + 2) + 1 | None \<Rightarrow> 0)
     + (11 + 86 + 1)"

lemma checked_yaml_signing_lower_bound_eq:
  "checked_yaml_signing_lower_bound x req l =
     (if yaml_minimum x req < 2 ^ 64
      then check_output_size_lower_bound l RF_Yaml (yaml_minimum x req)
      else Inl (size_computation_overflow l RF_Yaml))"
proof -
  define k where "k = (case sreq_keyid req of Some k \<Rightarrow> 7 + (length k + 2) + 1 | None \<Rightarrow> 0)"
  define c where "c = 8 + length SCHEMA_V1ALPHA1 + 1 + 5 + length (as_yaml_str x (sreq_algorithm req)) + 1"
  define lf where "lf = (if sreq_payload req \<noteq> [] \<and> last (sreq_payload req) \<noteq> 0x0A
      \<and> sreq_append_missing_final_newline req then 1 else 0 :: nat)"
  have m: "yaml_minimum x req = length (sreq_payload req) + lf + 4 + (c + k + 98)"
    by (simp add: yaml_minimum_def k_def c_def lf_def split: option.splits)
  have lf': "(if sreq_payload req \<noteq> [] \<and> \<not> ends_with (sreq_payload req) [0x0A]
      \<and> sreq_append_missing_final_newline req then 1 else 0) = lf"
    by (auto simp: lf_def ends_with_single)
  have u: "usize_of_u64 FIXED_SIGNATURE_BYTES = Some 64"
    by (simp add: FIXED_SIGNATURE_BYTES_def)
  have sig86: "map_option (\<lambda>rounded. rounded div 3)
      (add_usize (Option.bind (Some 64) (\<lambda>b. checked_mul_usize b 4)) 2) = Some 86"
    by (simp add: capped_def)
  have len: "length (ascii ''schema: '') + length SCHEMA_V1ALPHA1 + 1 + length (ascii ''alg: '')
      + length (as_yaml_str x (sreq_algorithm req)) + 1 = c"
    "length (ascii ''keyid: '') = 7" "length (ascii ''signature: '') = 11"
    by (simp_all add: c_def)
  show ?thesis
    unfolding checked_yaml_signing_lower_bound_def Let_def lf' u m
    unfolding sig86
    unfolding ok_or.simps result_try.simps capped_simps len ok_or_capped
    by (cases "sreq_keyid req") (auto simp: k_def ac_simps)
qed

lemma yaml_minimum_bound:
  assumes "signing_runtime x" and "length sig = 64" and "prepare_signing_payload req = Inr prepared"
    and "sreq_output_form req = OF_Yaml" and "\<And>k. sreq_keyid req = Some k \<Longrightarrow> utf8_valid k"
  shows "yaml_minimum x req \<le> length (signed_artifact x req prepared sig)"
proof -
  have ok: "b64_ok x" using assms(1) by (simp add: signing_runtime_def)
  let ?b = "b64_encode x sig"
  have "list_all b64url_char ?b" using b64_okD(1,2) [OF ok] by blast
  then have "86 \<le> length (emitted_signature x ?b)"
    using length_emitted_signature [of ?b x] b64_okD(3) [OF ok, of sig] assms(2) by simp
  moreover have "length k + 2 \<le> length (quote_yaml_string k)" if "sreq_keyid req = Some k" for k
    using assms(5) [OF that] by (rule length_quote)
  moreover have "length (psp_payload prepared) = length (sreq_payload req)
      + (if sreq_payload req \<noteq> [] \<and> last (sreq_payload req) \<noteq> 0x0A
            \<and> sreq_append_missing_final_newline req then 1 else 0)"
    using assms(3,4) by (auto simp: prepare_signing_payload_eq Let_def split: if_splits)
  ultimately show ?thesis
    using assms(4)
    by (auto simp: yaml_minimum_def yaml_carrier_def carrier_lines_def yaml_marker_def SCHEMA_V1ALPHA1_def
        split: option.splits)
qed

definition proto_signing_octets :: "('e, 'p) sign_request \<Rightarrow> nat" where
  "proto_signing_octets req =
     field_octets (length (sreq_payload req))
     + field_octets (2 + (case sreq_keyid req of Some k \<Rightarrow> field_octets (length k) | None \<Rightarrow> 0)
                       + field_octets 64)"

lemma proto_signing_octets_eq:
  assumes "buffa_ok x" and "length sig = 64" and "prepare_signing_payload req = Inr prepared"
    and "sreq_output_form req = OF_Protobuf"
  shows "length (signed_artifact x req prepared sig) = proto_signing_octets req"
proof -
  have "psp_payload prepared = sreq_payload req" "sig \<noteq> []"
    using assms(2-4) by (auto simp: prepare_signing_payload_eq Let_def)
  then show ?thesis
    using assms(2,4)
    by (simp add: length_envelope_bytes length_proto_carrier [OF assms(1)] proto_signing_octets_def
        field_octets_def)
qed

lemma field_octets_small: "n \<le> 2048 \<Longrightarrow> field_octets n \<le> n + 3"
  using length_varint_bytes [of n 2] by (simp add: field_octets_def)

lemma checked_proto_signing_size_eq:
  assumes "keyid_bounded (sreq_keyid req)"
  shows "checked_proto_signing_size x req l =
    (let n = proto_signing_octets req in
     if n < 2 ^ 64
     then result_try (check_output_size l RF_Protobuf n) (\<lambda>_. Inr (check_encoded_message_size x n))
     else Inl (size_computation_overflow l RF_Protobuf))"
proof (cases "length (sreq_payload req) < 2 ^ 64")
  case False
  then show ?thesis
    by (simp add: checked_proto_signing_size_def u64_of_usize_def proto_signing_octets_def field_octets_def)
next
  case True
  define k where "k = (case sreq_keyid req of Some k \<Rightarrow> field_octets (length k) | None \<Rightarrow> 0)"
  define c where "c = 2 + k + field_octets 64"
  define p where "p = field_octets (length (sreq_payload req))"
  have n: "proto_signing_octets req = p + field_octets c"
    by (simp add: proto_signing_octets_def p_def c_def k_def)
  have small: "k \<le> 1027" "field_octets 64 \<le> 67" "c \<le> 1100" "field_octets c \<le> 1103"
  proof -
    show k: "k \<le> 1027" and f: "field_octets 64 \<le> 67"
      using assms field_octets_small [of "length (the (sreq_keyid req))"] field_octets_small [of 64]
      by (auto simp: k_def keyid_bounded_def split: option.splits)
    then show c: "c \<le> 1100" by (simp add: c_def)
    then show "field_octets c \<le> 1103" using field_octets_small [of c] by simp
  qed
  have key: "(case sreq_keyid req of
      None \<Rightarrow> Inr None
    | Some keyid \<Rightarrow> result_map Some (ok_or (u64_of_usize (length keyid)) e)) =
      Inr (map_option (\<lambda>k. of_nat (length k)) (sreq_keyid req))" for e :: artifact_resource_error
    using assms by (auto simp: u64_of_usize_def keyid_bounded_def split: option.splits)
  have two: "checked_add_u64 2 (of_nat m) = Some (of_nat (2 + m))" if "m \<le> 2000" for m
    using that checked_add_u64_of_nat [of 2 m] by simp
  have base: "(case map_option (\<lambda>k. of_nat (length k)) (sreq_keyid req) of
      Some keyid_len \<Rightarrow>
        result_try (ok_or (checked_len_field_size keyid_len) e) (\<lambda>field. ok_or (checked_add_u64 2 field) e)
    | None \<Rightarrow> Inr 2) = Inr (of_nat (2 + k))" for e :: artifact_resource_error
    using assms small(1)
    by (auto simp: k_def keyid_bounded_def checked_len_field_size_eq two simp del: of_nat_add
        split: option.splits)
  have s64: "checked_len_field_size FIXED_SIGNATURE_BYTES = Some (of_nat (field_octets 64))"
    using checked_len_field_size_eq [of 64] small(2) by (simp add: FIXED_SIGNATURE_BYTES_def)
  have add: "checked_add_u64 (of_nat (2 + k)) (of_nat (field_octets 64)) = Some (of_nat c)"
    using small by (subst checked_add_u64_of_nat) (simp_all add: c_def)
  have fp: "checked_len_field_size (of_nat (length (sreq_payload req))) =
      (if p < 2 ^ 64 then Some (of_nat p) else None)"
    using checked_len_field_size_eq [OF True] by (simp add: p_def)
  have fc: "checked_len_field_size (of_nat c) = Some (of_nat (field_octets c))"
    using checked_len_field_size_eq [of c] small by simp
  have sum: "checked_add_u64 (of_nat p) (of_nat (field_octets c)) =
      (if p + field_octets c < 2 ^ 64 then Some (of_nat (p + field_octets c)) else None)" if "p < 2 ^ 64"
    using that small by (intro checked_add_u64_of_nat) simp_all
  have u: "u64_of_usize (length (sreq_payload req)) = Some (of_nat (length (sreq_payload req)))"
    using True by (simp add: u64_of_usize_def)
  show ?thesis
    unfolding checked_proto_signing_size_def checked_proto_signing_size_from_lengths_def Let_def u key base
      s64 add fp fc ok_or.simps result_try.simps n
    by (cases "p < 2 ^ 64"; cases "p + field_octets c < 2 ^ 64")
       (simp_all add: sum unat_of_nat_u64 del: of_nat_add)
qed


section \<open>The pipeline around any source of signatures\<close>

text \<open>
  The pipeline relies on one law of what signs the payload: a signature is an array of 64
  octets. \<open>c\<close> is whatever configures the source, its keys and callback among it.
\<close>

text \<open>
  The outcome the pipeline is to have: the prepared payload is signed once, and a signature
  becomes the artifact of that payload.
\<close>

definition signed_with ::
    "('u, 'w, 'z) yaml_ext_scheme \<Rightarrow> ('e, 'p) sign_request \<Rightarrow> 's payload_signer \<Rightarrow> ('s, sign_outcome) stateful" where
  "signed_with x req src s =
    (case prepare_signing_payload req of
       Inl e \<Rightarrow> Done (SO_Signer e, s)
     | Inr prepared \<Rightarrow>
         exec_map (\<lambda>(r, s'). (case r of Inl e \<Rightarrow> SO_Signer e | Inr sig \<Rightarrow> signed_success x req prepared sig, s'))
           (src (psp_payload prepared) s))"

locale payload_signer =
  fixes valid :: "'c \<Rightarrow> bool"
    and source :: "'c \<Rightarrow> 's payload_signer"
  assumes signature_length: "valid c \<Longrightarrow> source c p s = Done (Inr sig, s') \<Longrightarrow> length sig = 64"
begin

lemma pipeline:
  assumes "signing_runtime x" and "keyid_bounded (sreq_keyid req)" and "valid c"
  shows "sign_after_invocation_validation x req limits (source c) s =
    (case prepare_signing_payload req of
       Inl e \<Rightarrow> Done (Inr (SO_Signer e), s)
     | Inr prepared \<Rightarrow>
         exec_bind (source c (psp_payload prepared) s) (\<lambda>(r, s').
           case r of
             Inl e \<Rightarrow> Done (Inr (SO_Signer e), s')
           | Inr sig \<Rightarrow> exec_map (\<lambda>out. (out, s')) (delivered x req prepared sig limits)))"
proof (cases "prepare_signing_payload req")
  case (Inr prepared)
  show ?thesis
  proof (cases "source c (psp_payload prepared) s")
    case (Done rs)
    then obtain r s' where rs: "source c (psp_payload prepared) s = Done (r, s')" by (cases rs) auto
    then show ?thesis
      using signature_length [OF assms(3)] finish_signing_eq [OF assms(1,2) _ Inr]
      by (cases r) (auto simp: sign_after_invocation_validation_def Inr)
  qed (simp_all add: sign_after_invocation_validation_def Inr)
qed (simp add: sign_after_invocation_validation_def)

text \<open>Without a policy only a protobuf artifact of 2^64 octets or more is not delivered.\<close>

lemma pipeline_unbounded:
  assumes "signing_runtime x" and "keyid_bounded (sreq_keyid req)" and "valid c"
    and "length (sreq_payload req) < 2 ^ 62"
  shows "exec_bind (sign_after_invocation_validation x req None (source c) s)
      (\<lambda>(r, s'). exec_map (\<lambda>out. (out, s')) (expect_ok r)) = signed_with x req (source c) s"
proof (cases "prepare_signing_payload req")
  case (Inr prepared)
  have buffa: "buffa_ok x" using assms(1) by (simp add: signing_runtime_def)
  have del: "delivered x req prepared sig None = Done (Inr (signed_success x req prepared sig))"
    if sig: "length sig = 64" for sig
  proof (cases "sreq_output_form req")
    case OF_Protobuf
    have "psp_payload prepared = sreq_payload req"
      using Inr OF_Protobuf by (auto simp: prepare_signing_payload_eq Let_def)
    then have "length (signed_artifact x req prepared sig) < 2 ^ 64"
      using length_envelope_bytes_bound [of "sreq_payload req" "proto_carrier x (sreq_algorithm req) (sreq_keyid req) sig"]
        length_proto_carrier_small [OF buffa assms(2) sig, of "sreq_algorithm req"] assms(4) OF_Protobuf
      by simp
    then show ?thesis using OF_Protobuf by (simp add: delivered_def Let_def)
  qed (simp add: delivered_def Let_def)
  show ?thesis
  proof (cases "source c (psp_payload prepared) s")
    case (Done rs)
    then obtain r s' where rs: "source c (psp_payload prepared) s = Done (r, s')" by (cases rs) auto
    then show ?thesis
      using signature_length [OF assms(3)] del
      by (cases r) (auto simp: pipeline [OF assms(1-3)] signed_with_def Inr)
  qed (simp_all add: pipeline [OF assms(1-3)] signed_with_def Inr)
qed (simp add: pipeline [OF assms(1-3)] signed_with_def)

end

section \<open>Signing under a policy\<close>

text \<open>A key identifier is a \<open>&str\<close>.\<close>

definition request_wf :: "('e, 'p) sign_request \<Rightarrow> bool" where
  "request_wf req \<longleftrightarrow> (case sreq_keyid req of Some k \<Rightarrow> utf8_valid k | None \<Rightarrow> True)"

lemma request_wfD: "request_wf req \<Longrightarrow> sreq_keyid req = Some k \<Longrightarrow> utf8_valid k"
  by (simp add: request_wf_def)

lemma preflight_proto:
  assumes "signing_runtime x" and "keyid_bounded (sreq_keyid req)" and "length sig = 64"
    and "prepare_signing_payload req = Inr prepared" and "sreq_output_form req = OF_Protobuf"
    and "n = length (signed_artifact x req prepared sig)"
  shows "preflight_signing_output x req l =
    (if n < 2 ^ 64
     then result_try (check_output_size l RF_Protobuf n)
            (\<lambda>_. Inr (if n \<le> unat (max_message_bytes x) then Inr n else Inl message_too_large))
     else Inl (size_computation_overflow l RF_Protobuf))"
  using assms proto_signing_octets_eq [OF _ assms(3-5), of x] check_encoded_message_size_eq [of n x]
  by (simp add: preflight_signing_output_def checked_proto_signing_size_eq signing_runtime_def Let_def)

lemma preflight_yaml:
  assumes "signing_runtime x" and "request_wf req" and "length sig = 64"
    and "prepare_signing_payload req = Inr prepared" and "sreq_output_form req = OF_Yaml"
  shows "\<exists>m \<le> length (signed_artifact x req prepared sig). preflight_signing_output x req l =
    (if m < 2 ^ 64 then result_map Inr (check_output_size_lower_bound l RF_Yaml m)
     else Inl (size_computation_overflow l RF_Yaml))"
  using yaml_minimum_bound [OF assms(1,3,4,5)] request_wfD [OF assms(2)] assms(5)
  by (intro exI [of _ "yaml_minimum x req"])
     (auto simp: preflight_signing_output_def checked_yaml_signing_lower_bound_eq)

text \<open>
  The size preflights, which run before any content check, hash or signature. For a
  protobuf output the preflight computes exactly the size the signed artifact will have, and
  reports overflow, the policy and the message size in that order. For a YAML output it checks
  a size no signed artifact of the request can fall below, so its rejection is conclusive.
\<close>

theorem preflight_signing_output_correct:
  assumes "signing_runtime x" and "request_wf req" and "keyid_bounded (sreq_keyid req)"
    and "prepare_signing_payload req = Inr prepared" and "length sig = 64"
    and "n = length (signed_artifact x req prepared sig)"
  shows "case sreq_output_form req of
      OF_Protobuf \<Rightarrow> preflight_signing_output x req l =
        (if n < 2 ^ 64
         then result_try (check_output_size l RF_Protobuf n)
                (\<lambda>_. Inr (if n \<le> unat (max_message_bytes x) then Inr n else Inl message_too_large))
         else Inl (size_computation_overflow l RF_Protobuf))
    | OF_Yaml \<Rightarrow>
        (\<exists>m\<le>n. preflight_signing_output x req l =
           (if m < 2 ^ 64 then result_map Inr (check_output_size_lower_bound l RF_Yaml m)
            else Inl (size_computation_overflow l RF_Yaml))) \<and>
        (admits l n \<and> n < 2 ^ 64 \<longrightarrow> (\<exists>m. preflight_signing_output x req l = Inr (Inr m)))"
proof (cases "sreq_output_form req")
  case OF_Yaml
  from preflight_yaml [OF assms(1,2,5,4) OF_Yaml, of l] obtain m where m: "m \<le> n"
    "preflight_signing_output x req l =
      (if m < 2 ^ 64 then result_map Inr (check_output_size_lower_bound l RF_Yaml m)
       else Inl (size_computation_overflow l RF_Yaml))" unfolding assms(6) by blast
  have "preflight_signing_output x req l = Inr (Inr m)" if "admits l n" "n < 2 ^ 64"
    using m that admits_mono [OF that(1) m(1)] lower_check.check_eq_Inr [of l RF_Yaml m m] by simp
  then show ?thesis using m OF_Yaml by auto
next
  case OF_Protobuf
  then show ?thesis using preflight_proto [OF assms(1,3,5,4) OF_Protobuf assms(6)] by simp
qed

text \<open>What a policy makes of an artifact of \<open>n\<close> octets once the preflight admitted the request.\<close>

definition policy_rejection :: "artifact_resource_limits \<Rightarrow> output_form \<Rightarrow> nat \<Rightarrow> artifact_resource_error option" where
  "policy_rejection l form n =
     (if 2 ^ 64 \<le> n then Some (size_computation_overflow l RF_Yaml)
      else (case check_output_size l RF_Yaml n of
              Inl re \<Rightarrow> if form = OF_Yaml then Some re else None
            | Inr _ \<Rightarrow> None))"

definition bounded_result ::
    "('u, 'w, 'z) yaml_ext_scheme \<Rightarrow> ('e, 'p) sign_request \<Rightarrow> artifact_resource_limits
       \<Rightarrow> prepared_signing_payload \<Rightarrow> bytes \<Rightarrow> sign_outcome resource_result" where
  "bounded_result x req l prepared sig =
     (case policy_rejection l (sreq_output_form req) (length (signed_artifact x req prepared sig)) of
        Some re \<Rightarrow> Inl re
      | None \<Rightarrow> Inr (signed_success x req prepared sig))"

lemma delivered_bounded:
  assumes "signing_runtime x" and "keyid_bounded (sreq_keyid req)" and "length sig = 64"
    and "prepare_signing_payload req = Inr prepared"
    and "preflight_signing_output x req l = Inr (Inr m)"
  shows "delivered x req prepared sig (Some l) = Done (bounded_result x req l prepared sig)"
proof (cases "sreq_output_form req")
  case OF_Yaml
  then show ?thesis
    by (simp add: delivered_def bounded_result_def policy_rejection_def Let_def split: sum.split)
next
  case OF_Protobuf
  have "length (signed_artifact x req prepared sig) < 2 ^ 64"
    using preflight_proto [OF assms(1-4) OF_Protobuf refl, of l] assms(5) by (auto split: if_splits)
  then show ?thesis
    using OF_Protobuf
    by (simp add: delivered_def bounded_result_def policy_rejection_def Let_def not_le split: sum.split)
qed

definition bounded_with ::
    "('u, 'w, 'z) yaml_ext_scheme \<Rightarrow> ('e, 'p) sign_request \<Rightarrow> artifact_resource_limits
       \<Rightarrow> 's payload_signer \<Rightarrow> ('s, sign_outcome resource_result) stateful" where
  "bounded_with x req l src s =
    (case prepare_signing_payload req of
       Inl e \<Rightarrow> Done (Inr (SO_Signer e), s)
     | Inr prepared \<Rightarrow>
         exec_map (\<lambda>(r, s'). (case r of Inl e \<Rightarrow> Inr (SO_Signer e)
                                | Inr sig \<Rightarrow> bounded_result x req l prepared sig, s'))
           (src (psp_payload prepared) s))"

context payload_signer
begin

lemma pipeline_bounded:
  assumes "signing_runtime x" and "keyid_bounded (sreq_keyid req)" and "valid c"
    and "preflight_signing_output x req l = Inr (Inr m)"
  shows "sign_after_invocation_validation x req (Some l) (source c) s = bounded_with x req l (source c) s"
proof (cases "prepare_signing_payload req")
  case (Inr prepared)
  show ?thesis
  proof (cases "source c (psp_payload prepared) s")
    case (Done rs)
    then obtain r s' where rs: "source c (psp_payload prepared) s = Done (r, s')" by (cases rs) auto
    then show ?thesis
      using signature_length [OF assms(3)] delivered_bounded [OF assms(1,2) _ Inr assms(4)]
      by (cases r) (auto simp: pipeline [OF assms(1-3)] bounded_with_def Inr)
  qed (simp_all add: pipeline [OF assms(1-3)] bounded_with_def Inr)
qed (simp add: pipeline [OF assms(1-3)] bounded_with_def)

text \<open>A bounded run that is not rejected is the unbounded run, with an admitted artifact.\<close>

lemma bounded_is_unbounded:
  assumes "signing_runtime x" and "keyid_bounded (sreq_keyid req)" and "valid c"
    and "preflight_signing_output x req l = Inr (Inr m)"
    and "bounded_with x req l (source c) s = Done (Inr out, s')"
  shows "signed_with x req (source c) s = Done (out, s') \<and>
         (\<forall>ss. out = SO_Success ss \<longrightarrow> admits l (length (ss_artifact ss)))"
proof (cases "prepare_signing_payload req")
  case (Inr prepared)
  from assms(5) obtain r where src: "source c (psp_payload prepared) s = Done (r, s')"
    and r: "(case r of Inl e \<Rightarrow> Inr (SO_Signer e) | Inr sig \<Rightarrow> bounded_result x req l prepared sig) = Inr out"
    by (auto simp: bounded_with_def Inr exec_map_eq_Done)
  show ?thesis
  proof (cases r)
    case (Inr sig)
    have sig: "length sig = 64" using signature_length [OF assms(3)] src Inr by simp
    let ?n = "length (signed_artifact x req prepared sig)"
    have none: "policy_rejection l (sreq_output_form req) ?n = None" and out: "out = signed_success x req prepared sig"
      using r Inr by (auto simp: bounded_result_def split: option.splits)
    have "admits l ?n"
    proof (cases "sreq_output_form req")
      case OF_Yaml
      with none show ?thesis
        using output_check.check_eq_Inr [of l RF_Yaml ?n]
        by (auto simp: policy_rejection_def split: if_splits sum.splits)
    next
      case OF_Protobuf
      then show ?thesis
        using preflight_proto [OF assms(1,2) sig \<open>prepare_signing_payload req = Inr prepared\<close> OF_Protobuf refl, of l]
          assms(4) output_check.check_eq_Inr [of l RF_Protobuf ?n]
        by (cases "check_output_size l RF_Protobuf ?n") (auto split: if_splits)
    qed
    with src Inr out \<open>prepare_signing_payload req = Inr prepared\<close> show ?thesis
      by (simp add: signed_with_def signed_success_def)
  qed (use src r in \<open>auto simp: signed_with_def Inr\<close>)
qed (use assms(5) in \<open>auto simp: signed_with_def bounded_with_def\<close>)

text \<open>An unbounded run that delivers is delivered under a policy that admits its artifact.\<close>

lemma admitted_is_delivered:
  assumes "signing_runtime x" and "request_wf req" and "keyid_bounded (sreq_keyid req)" and "valid c"
    and "signed_with x req (source c) s = Done (SO_Success ss, s')"
    and "n = length (ss_artifact ss)" and "n < 2 ^ 64"
  shows "admits l n \<Longrightarrow> (sreq_output_form req = OF_Protobuf \<Longrightarrow> n \<le> unat (max_message_bytes x)) \<Longrightarrow>
           (\<exists>m. preflight_signing_output x req l = Inr (Inr m)) \<and>
           bounded_with x req l (source c) s = Done (Inr (SO_Success ss), s')"
    and "\<not> admits l n \<Longrightarrow>
           (\<exists>re. preflight_signing_output x req l = Inl re \<and> are_kind re = OutputArtifactTooLarge) \<or>
           (\<exists>m re. sreq_output_form req = OF_Yaml \<and> preflight_signing_output x req l = Inr (Inr m) \<and>
              bounded_with x req l (source c) s = Done (Inl re, s') \<and> are_kind re = OutputArtifactTooLarge)"
proof -
  from assms(5) obtain prepared where p: "prepare_signing_payload req = Inr prepared"
    by (cases "prepare_signing_payload req") (auto simp: signed_with_def)
  with assms(5) obtain r where r: "source c (psp_payload prepared) s = Done (r, s')"
    "SO_Success ss = (case r of Inl e \<Rightarrow> SO_Signer e | Inr sig \<Rightarrow> signed_success x req prepared sig)"
    by (auto simp: signed_with_def exec_map_eq_Done)
  then obtain sig where src: "source c (psp_payload prepared) s = Done (Inr sig, s')"
    and ss: "SO_Success ss = signed_success x req prepared sig"
    by (cases r) auto
  have sig: "length sig = 64" using signature_length [OF assms(4) src] .
  have n: "n = length (signed_artifact x req prepared sig)"
    using ss assms(6) by (simp add: signed_success_def)
  have run: "bounded_with x req l (source c) s = Done (bounded_result x req l prepared sig, s')"
    by (simp add: bounded_with_def p src)
  note checks = output_check.check_eq_Inr [of l _ n n, simplified] lower_check.check_eq_Inr
  note rejects = output_check.rejected [of l n, simplified]
  {
    assume a: "admits l n" and big: "sreq_output_form req = OF_Protobuf \<Longrightarrow> n \<le> unat (max_message_bytes x)"
    have "\<exists>m. preflight_signing_output x req l = Inr (Inr m)"
    proof (cases "sreq_output_form req")
      case OF_Yaml
      then obtain m where "m \<le> n" "preflight_signing_output x req l =
          (if m < 2 ^ 64 then result_map Inr (check_output_size_lower_bound l RF_Yaml m)
           else Inl (size_computation_overflow l RF_Yaml))"
        using preflight_yaml [OF assms(1,2) sig p OF_Yaml, of l] n by metis
      then show ?thesis
        using a assms(7) admits_mono [OF a] lower_check.admitted [of l m RF_Yaml] by auto
    next
      case OF_Protobuf
      then show ?thesis
        using preflight_proto [OF assms(1,3) sig p OF_Protobuf n, of l] a big assms(7) checks(1) by simp
    qed
    moreover have "bounded_result x req l prepared sig = Inr (SO_Success ss)"
      using a assms(7) checks(1) by (simp add: bounded_result_def policy_rejection_def ss flip: n)
    ultimately show "(\<exists>m. preflight_signing_output x req l = Inr (Inr m)) \<and>
        bounded_with x req l (source c) s = Done (Inr (SO_Success ss), s')" using run by simp
  }
  {
    assume r: "\<not> admits l n"
    show "(\<exists>re. preflight_signing_output x req l = Inl re \<and> are_kind re = OutputArtifactTooLarge) \<or>
           (\<exists>m re. sreq_output_form req = OF_Yaml \<and> preflight_signing_output x req l = Inr (Inr m) \<and>
              bounded_with x req l (source c) s = Done (Inl re, s') \<and> are_kind re = OutputArtifactTooLarge)"
    proof (cases "sreq_output_form req")
      case OF_Yaml
      then obtain m where m: "m \<le> n" "preflight_signing_output x req l =
          (if m < 2 ^ 64 then result_map Inr (check_output_size_lower_bound l RF_Yaml m)
           else Inl (size_computation_overflow l RF_Yaml))"
        using preflight_yaml [OF assms(1,2) sig p OF_Yaml, of l] n by metis
      show ?thesis
      proof (cases "admits l m")
        case True
        obtain re where "check_output_size l RF_Yaml n = Inl re" "are_kind re = OutputArtifactTooLarge"
          using rejects [OF r] by blast
        then have "bounded_result x req l prepared sig = Inl re"
          using OF_Yaml assms(7) unfolding bounded_result_def policy_rejection_def n [symmetric] by simp
        then show ?thesis
          using True m assms(7) OF_Yaml run \<open>are_kind re = OutputArtifactTooLarge\<close>
            lower_check.admitted [of l m RF_Yaml] by auto
      next
        case False
        then show ?thesis using m assms(7) lower_check.rejected [of l m RF_Yaml] by auto
      qed
    next
      case OF_Protobuf
      then show ?thesis
        using preflight_proto [OF assms(1,3) sig p OF_Protobuf n, of l] assms(7) rejects [OF r, of RF_Protobuf]
        by auto
    qed
  }
qed

end

end
