(* ===== verification/Sign_Sync.thy ===== *)
theory Sign_Sync
  imports Signing_Facts
begin

text \<open>
  The entry points that sign with an in-process key: when the nonce loop returns and what it
  returns, the outcome of \<open>sign\<close> on every branch, and how signing under a policy relates to
  signing without one.
\<close>

section \<open>The nonce loop\<close>

text \<open>A draw is retried when the generator yields a nonce that the primitive rejects.\<close>

definition retried ::
    "('u, 'w, 'k, 'z) crypto_ext_scheme \<Rightarrow> ('s \<Rightarrow> 'k option \<times> 's) \<Rightarrow> 'k \<Rightarrow> bytes \<Rightarrow> 's \<Rightarrow> bool" where
  "retried x rng key digest s \<longleftrightarrow>
     (case fst (rng s) of None \<Rightarrow> False | Some nonce \<Rightarrow> p256_sign_prehashed x key nonce digest = None)"

definition rng_state :: "('s \<Rightarrow> 'k option \<times> 's) \<Rightarrow> 's \<Rightarrow> nat \<Rightarrow> 's" where
  "rng_state rng s n = ((\<lambda>t. snd (rng t)) ^^ n) s"

text \<open>What the loop returns on a draw that is not retried.\<close>

definition settled ::
    "('u, 'w, 'k, 'z) crypto_ext_scheme \<Rightarrow> ('s \<Rightarrow> 'k option \<times> 's) \<Rightarrow> 'k \<Rightarrow> bytes \<Rightarrow> 's
       \<Rightarrow> (sign_error + bytes) \<times> 's" where
  "settled x rng key digest s =
     (case fst (rng s) of
        None \<Rightarrow> Inl SE_KeyOperationFailure
      | Some nonce \<Rightarrow> Inr (p256_sig_to_bytes x (the (p256_sign_prehashed x key nonce digest))),
      snd (rng s))"

lemma rng_state_simps [simp]:
  "rng_state rng s 0 = s" "rng_state rng (snd (rng s)) n = rng_state rng s (Suc n)"
  by (simp_all add: rng_state_def funpow_swap1 del: funpow.simps(2)) (simp add: funpow_Suc_right del: funpow.simps)

lemma sign_p256_loop_step:
  "sign_p256_loop x rng key d s =
     (if retried x rng key d s then sign_p256_loop x rng key d (snd (rng s))
      else Some (settled x rng key d s))"
  by (subst sign_p256_loop.simps)
     (auto simp: retried_def settled_def split: prod.splits option.splits)

lemma sign_p256_loop_settles:
  "\<forall>m<n. retried x rng key d (rng_state rng s m) \<Longrightarrow> \<not> retried x rng key d (rng_state rng s n) \<Longrightarrow>
     sign_p256_loop x rng key d s = Some (settled x rng key d (rng_state rng s n))"
proof (induction n arbitrary: s)
  case 0
  then show ?case by (simp add: sign_p256_loop_step [of _ _ _ _ s])
next
  case (Suc n)
  have "retried x rng key d s" using Suc.prems(1) by (metis rng_state_simps(1) zero_less_Suc)
  moreover have "\<forall>m<n. retried x rng key d (rng_state rng (snd (rng s)) m)"
    using Suc.prems(1) by simp
  ultimately show ?case
    using Suc.IH [of "snd (rng s)"] Suc.prems(2) by (simp add: sign_p256_loop_step [of _ _ _ _ s])
qed

lemma sign_p256_loop_returned:
  fixes x :: "('u, 'w, 'k, 'z) crypto_ext_scheme" and s :: 's
  assumes "sign_p256_loop x rng key d s = Some r"
  shows "\<exists>n. \<not> retried x rng key d (rng_state rng s n)"
proof -
  let ?P = "\<lambda>(x :: ('u, 'w, 'k, 'z) crypto_ext_scheme) rng key d (s :: 's) (r :: (sign_error + bytes) \<times> 's).
      \<exists>n. \<not> retried x rng key d (rng_state rng s n)"
  have step: "?P x rng key d s r"
    if IH: "\<And>x rng key d s r. f x rng key d s = Some r \<Longrightarrow> ?P x rng key d s r"
      and eq: "(case rng s of (None, s') \<Rightarrow> Some (Inl SE_KeyOperationFailure, s')
         | (Some nonce, s') \<Rightarrow> (case p256_sign_prehashed x key nonce d of
              None \<Rightarrow> f x rng key d s' | Some sig \<Rightarrow> Some (Inr (p256_sig_to_bytes x sig), s'))) = Some r"
    for f x rng key d s r
  proof (cases "retried x rng key d s")
    case True
    with eq have "f x rng key d (snd (rng s)) = Some r"
      by (auto simp: retried_def split: prod.splits option.splits)
    then obtain n where "\<not> retried x rng key d (rng_state rng (snd (rng s)) n)" using IH by blast
    then have "\<not> retried x rng key d (rng_state rng s (Suc n))" by simp
    then show ?thesis ..
  next
    case False
    then have "\<not> retried x rng key d (rng_state rng s 0)" by simp
    then show ?thesis ..
  qed
  show ?thesis
    by (rule sign_p256_loop.raw_induct [of ?P "((((x, rng), key), d), s)" r, unfolded prod.case, OF step assms])
qed

lemma first_settled_draw:
  assumes "\<not> retried x rng key d (rng_state rng s n)"
  obtains k where "\<forall>m<k. retried x rng key d (rng_state rng s m)"
    and "\<not> retried x rng key d (rng_state rng s k)"
  using assms exists_least_iff [of "\<lambda>n. \<not> retried x rng key d (rng_state rng s n)"] by blast

text \<open>
  The P-256 nonce loop. It returns exactly when some draw is not retried, that is when the
  generator fails or the primitive accepts the nonce; it then returns the outcome of the first
  such draw, having drawn no more; and a failing generator ends it with an error, never with a
  deterministic or reused nonce.
\<close>

theorem sign_p256_loop_correct:
  "(sign_p256_loop x rng key d s = None \<longleftrightarrow> (\<forall>n. retried x rng key d (rng_state rng s n))) \<and>
   (sign_p256_loop x rng key d s = Some r \<longleftrightarrow>
      (\<exists>n. (\<forall>m<n. retried x rng key d (rng_state rng s m))
         \<and> \<not> retried x rng key d (rng_state rng s n)
         \<and> r = settled x rng key d (rng_state rng s n)))"
proof (cases "\<forall>n. retried x rng key d (rng_state rng s n)")
  case True
  then have "sign_p256_loop x rng key d s = None"
    using sign_p256_loop_returned [of x rng key d s] by (cases "sign_p256_loop x rng key d s") auto
  with True show ?thesis by simp
next
  case False
  then obtain n where n: "\<forall>m<n. retried x rng key d (rng_state rng s m)"
    "\<not> retried x rng key d (rng_state rng s n)" using first_settled_draw [of x rng key d s] by blast
  have "n' = n" if "\<forall>m<n'. retried x rng key d (rng_state rng s m)"
    "\<not> retried x rng key d (rng_state rng s n')" for n'
    using n that by (metis nat_neq_iff)
  then have "(\<exists>n. (\<forall>m<n. retried x rng key d (rng_state rng s m)) \<and> \<not> retried x rng key d (rng_state rng s n)
      \<and> r = settled x rng key d (rng_state rng s n)) \<longleftrightarrow> r = settled x rng key d (rng_state rng s n)"
    using n by blast
  with False sign_p256_loop_settles [OF n] show ?thesis by (metis option.distinct(1) option.inject)
qed

section \<open>The source of signatures of an in-process key\<close>

lemma sign_p256_returns:
  assumes "sign_p256_with_rng x rng m k s = Done (Inr sig, s')"
  obtains nonce g where "p256_sign_prehashed x k nonce (sha256 x m) = Some g" and "sig = p256_sig_to_bytes x g"
proof -
  from assms have loop: "sign_p256_loop x rng k (sha256 x m) s = Some (Inr sig, s')"
    by (cases "sign_p256_loop x rng k (sha256 x m) s") (auto simp: sign_p256_with_rng_def)
  from sign_p256_loop_returned [OF this] obtain n0
    where "\<not> retried x rng k (sha256 x m) (rng_state rng s n0)" ..
  then obtain n where n: "\<forall>j<n. retried x rng k (sha256 x m) (rng_state rng s j)"
    "\<not> retried x rng k (sha256 x m) (rng_state rng s n)" by (rule first_settled_draw)
  from sign_p256_loop_settles [OF n] loop
  have "settled x rng k (sha256 x m) (rng_state rng s n) = (Inr sig, s')" by simp
  with n(2) that show ?thesis by (auto simp: settled_def retried_def split: option.splits)
qed

lemma sign_digest_length:
  assumes "crypto_ok x" and "sign_digest x rng m a key s = Done (Inr sig, s')"
  shows "length sig = 64"
  using assms(2) crypto_okD(1,4) [OF assms(1)]
  by (auto simp: sign_digest_def split: algorithm_id.splits signing_key.splits elim!: sign_p256_returns)

interpretation in_process: payload_signer
  "\<lambda>(x, rng, a, key). crypto_ok x"
  "\<lambda>(x, rng, a, key) p. sign_digest x rng p a key"
  by unfold_locales (auto dest: sign_digest_length)


section \<open>Checks of a request\<close>

lemma supported [simp]:
  "f \<in> set (sgc_supported_output_forms signer_capabilities)"
  "a \<in> set (sgc_supported_algorithms signer_capabilities)"
  by (cases f; simp add: signer_capabilities_def) (cases a; simp add: signer_capabilities_def)

lemma validate_parameters_ok:
  "validate_invocation_parameters req = Inr () \<longleftrightarrow>
     sreq_algorithm_parameters req = [] \<and> keyid_bounded (sreq_keyid req)"
  by (auto simp: validate_invocation_parameters_def keyid_bounded_def Let_def split: option.splits)

lemma validate_shape_ok:
  "validate_invocation_shape req = Inr () \<longleftrightarrow>
     sreq_algorithm_parameters req = [] \<and> keyid_bounded (sreq_keyid req) \<and>
     validate_key_algorithm req = Inr ()"
  by (auto simp: validate_invocation_shape_def result_simps validate_parameters_ok)

lemma validate_invocation_ok:
  "validate_invocation req = Inr () \<longleftrightarrow>
     validate_invocation_shape req = Inr () \<and> validate_keyid_content req = Inr ()"
  by (auto simp: validate_invocation_def validate_shape_ok result_simps validate_parameters_ok)

lemma validate_invocation_bounded:
  "validate_invocation req = Inr u \<Longrightarrow> keyid_bounded (sreq_keyid req)"
  "validate_invocation_shape req = Inr u \<Longrightarrow> keyid_bounded (sreq_keyid req)"
  by (cases u; simp add: validate_invocation_ok validate_shape_ok)+

section \<open>The outcome of signing\<close>

lemma sign_digest_not_panicked: "sign_digest x rng m a key s \<noteq> Panicked"
  by (auto simp: sign_digest_def sign_p256_with_rng_def split: algorithm_id.splits signing_key.splits)

lemma sign_eq:
  assumes "signing_runtime x" and "crypto_ok x" and "length (sreq_payload req) < 2 ^ 62"
  shows "sign x rng req s =
    (case validate_invocation req of
       Inl e \<Rightarrow> Done (SO_Invocation e, s)
     | Inr _ \<Rightarrow>
         signed_with x req (\<lambda>p. sign_digest x rng p (sreq_algorithm req) (sreq_key req)) s)"
proof (cases "validate_invocation req")
  case (Inr u)
  show ?thesis
    using in_process.pipeline_unbounded [where c = "(x, rng, sreq_algorithm req, sreq_key req)",
        OF assms(1) validate_invocation_bounded(1) [OF Inr] _ assms(3), of s] assms(2)
    by (simp add: sign_def sign_inner_def Inr)
qed (simp add: sign_def sign_inner_def)

text \<open>
  C9: signing without a policy. A request that fails validation reports the invocation error
  and an inadmissible payload the signer error, without drawing randomness; otherwise the
  prepared payload is signed and the artifact is exactly that payload framed with the carrier
  of the signature, in either form. No input panics, and emission never fails: the only signer
  errors are those of the payload and of the key operation.
\<close>

theorem sign_correct:
  assumes "signing_runtime x" and "crypto_ok x" and "length (sreq_payload req) < 2 ^ 62"
  shows "sign x rng req s =
      (case validate_invocation req of
         Inl e \<Rightarrow> Done (SO_Invocation e, s)
       | Inr _ \<Rightarrow>
           signed_with x req (\<lambda>p. sign_digest x rng p (sreq_algorithm req) (sreq_key req)) s) \<and>
    sign x rng req s \<noteq> Panicked"
  by (simp add: sign_eq [OF assms] signed_with_def sign_digest_not_panicked split: sum.splits)

text \<open>
  The payload that is signed. Protobuf output signs the payload as it is. YAML output
  refuses a payload that is not UTF-8 or starts with a byte order mark, signs one that is empty
  or ends with a line feed as it is, appends the missing line feed exactly when the request
  allows it, and refuses otherwise; what it signs is a valid payload stream, and the modified
  payload is reported exactly when a line feed was appended.
\<close>

theorem prepare_signing_payload_correct:
  "prepare_signing_payload req =
    (let p = sreq_payload req in
     case sreq_output_form req of
       OF_Protobuf \<Rightarrow> Inr \<lparr>psp_payload = p, psp_modified_payload = []\<rparr>
     | OF_Yaml \<Rightarrow>
         if \<not> utf8_valid p \<or> bom_at_zero p then Inl SE_InvalidPayloadBytes
         else if p = [] \<or> last p = 0x0A then Inr \<lparr>psp_payload = p, psp_modified_payload = []\<rparr>
         else if sreq_append_missing_final_newline req
         then Inr \<lparr>psp_payload = p @ [0x0A], psp_modified_payload = p @ [0x0A]\<rparr>
         else Inl SE_PayloadLineTerminatorRefusal) \<and>
   (\<forall>prepared. prepare_signing_payload req = Inr prepared \<and> sreq_output_form req = OF_Yaml \<longrightarrow>
      validate_payload_stream (psp_payload prepared) = Inr ())"
  using prepare_signing_payload_eq [of req] prepared_stream [of req] by blast


section \<open>Signing under a policy\<close>

lemma sign_with_resource_limits_eq:
  assumes "signing_runtime x" and "crypto_ok x"
  shows "sign_with_resource_limits x rng req l s =
    (case validate_invocation_shape req of
       Inl e \<Rightarrow> Done (Inr (Inr (SO_Invocation e)), s)
     | Inr _ \<Rightarrow>
         (case preflight_signing_output x req l of
            Inl re \<Rightarrow> Done (Inl re, s)
          | Inr (Inl e) \<Rightarrow> Done (Inr (Inl e), s)
          | Inr (Inr _) \<Rightarrow>
              (case validate_keyid_content req of
                 Inl e \<Rightarrow> Done (Inr (Inr (SO_Invocation e)), s)
               | Inr _ \<Rightarrow>
                   exec_map (\<lambda>(r, s'). (result_map Inr r, s'))
                     (bounded_with x req l (\<lambda>p. sign_digest x rng p (sreq_algorithm req) (sreq_key req)) s))))"
proof (cases "validate_invocation_shape req")
  case (Inr u)
  then show ?thesis
    using in_process.pipeline_bounded [where c = "(x, rng, sreq_algorithm req, sreq_key req)",
        OF assms(1) validate_invocation_bounded(2) [OF Inr]] assms(2)
    by (auto simp: sign_with_resource_limits_def split: sum.splits)
qed (simp add: sign_with_resource_limits_def)

lemma sign_bounded_returns:
  assumes "signing_runtime x" and "crypto_ok x" and "length (sreq_payload req) < 2 ^ 62"
    and "validate_invocation req = Inr ()"
    and "sign_with_resource_limits x rng req l s = Done (Inr (Inr out), s')"
  shows "sign x rng req s = Done (out, s')"
    and "out = SO_Success ss \<Longrightarrow> admits l (length (ss_artifact ss))"
proof -
  let ?src = "\<lambda>p. sign_digest x rng p (sreq_algorithm req) (sreq_key req)"
  have shape: "validate_invocation_shape req = Inr ()" "validate_keyid_content req = Inr ()"
    "keyid_bounded (sreq_keyid req)"
    using assms(4) by (simp_all add: validate_invocation_ok validate_shape_ok)
  have sign: "sign x rng req s = signed_with x req ?src s" using sign_eq [OF assms(1-3)] assms(4) by simp
  obtain m where "preflight_signing_output x req l = Inr (Inr m)" "bounded_with x req l ?src s = Done (Inr out, s')"
    using assms(5) sign_with_resource_limits_eq [OF assms(1,2), of rng req l s, unfolded shape sum.case]
    by (auto simp: exec_map_eq_Done result_simps split: sum.splits)
  with in_process.bounded_is_unbounded [where c = "(x, rng, sreq_algorithm req, sreq_key req)",
      OF assms(1) shape(3), simplified] assms(2) sign
  show "sign x rng req s = Done (out, s')" and "out = SO_Success ss \<Longrightarrow> admits l (length (ss_artifact ss))"
    by simp_all
qed

lemma sign_bounded_validated:
  assumes "signing_runtime x" and "crypto_ok x"
    and "sign_with_resource_limits x rng req l s = Done (Inr (Inr (SO_Success ss)), s')"
  shows "validate_invocation req = Inr ()"
  using assms(3) unfolding sign_with_resource_limits_eq [OF assms(1,2)]
  by (auto simp: validate_invocation_ok validate_shape_ok split: sum.splits)

text \<open>
  C10: signing under a policy, for a valid request. Every outcome it returns is the outcome of
  signing without a policy, and a delivered artifact is within the ceiling. Conversely an
  artifact that would be delivered is delivered when the policy and the protobuf ceiling admit
  it, and is refused as too large when the policy does not; a protobuf refusal comes before any
  randomness is drawn.
\<close>

theorem sign_with_resource_limits_correct:
  assumes "signing_runtime x" and "crypto_ok x" and "request_wf req"
    and "length (sreq_payload req) < 2 ^ 62" and "validate_invocation req = Inr ()"
  shows "(sign_with_resource_limits x rng req l s = Done (Inr (Inr out), s') \<longrightarrow>
            sign x rng req s = Done (out, s') \<and>
            (\<forall>ss. out = SO_Success ss \<longrightarrow> admits l (length (ss_artifact ss)))) \<and>
         (sign x rng req s = Done (SO_Success ss, s') \<and> length (ss_artifact ss) < 2 ^ 64 \<longrightarrow>
            (admits l (length (ss_artifact ss)) \<and>
             (sreq_output_form req = OF_Protobuf \<longrightarrow> length (ss_artifact ss) \<le> unat (max_message_bytes x))
             \<longrightarrow> sign_with_resource_limits x rng req l s = Done (Inr (Inr (SO_Success ss)), s')) \<and>
            (\<not> admits l (length (ss_artifact ss)) \<longrightarrow>
             (\<exists>re s''. sign_with_resource_limits x rng req l s = Done (Inl re, s'') \<and>
                are_kind re = OutputArtifactTooLarge \<and> (s'' = s \<or> s'' = s' \<and> sreq_output_form req = OF_Yaml))))"
proof -
  let ?src = "\<lambda>p. sign_digest x rng p (sreq_algorithm req) (sreq_key req)"
  have shape: "validate_invocation_shape req = Inr ()" "validate_keyid_content req = Inr ()"
    "keyid_bounded (sreq_keyid req)"
    using assms(5) by (simp_all add: validate_invocation_ok validate_shape_ok)
  note bounded = sign_with_resource_limits_eq [OF assms(1,2), of rng req l s, unfolded shape sum.case]
  have sign: "sign x rng req s = signed_with x req ?src s"
    using sign_eq [OF assms(1,2,4)] assms(5) by simp
  note in_process' = in_process.admitted_is_delivered [where c = "(x, rng, sreq_algorithm req, sreq_key req)",
      OF assms(1,3) shape(3), simplified]
  have "sign x rng req s = Done (out, s') \<and> (\<forall>ss. out = SO_Success ss \<longrightarrow> admits l (length (ss_artifact ss)))"
    if "sign_with_resource_limits x rng req l s = Done (Inr (Inr out), s')"
    using sign_bounded_returns [OF assms(1,2,4,5) that] by blast
  moreover have "(admits l (length (ss_artifact ss)) \<and>
      (sreq_output_form req = OF_Protobuf \<longrightarrow> length (ss_artifact ss) \<le> unat (max_message_bytes x))
      \<longrightarrow> sign_with_resource_limits x rng req l s = Done (Inr (Inr (SO_Success ss)), s')) \<and>
    (\<not> admits l (length (ss_artifact ss)) \<longrightarrow>
      (\<exists>re s''. sign_with_resource_limits x rng req l s = Done (Inl re, s'') \<and>
         are_kind re = OutputArtifactTooLarge \<and> (s'' = s \<or> s'' = s' \<and> sreq_output_form req = OF_Yaml)))"
    if run: "sign x rng req s = Done (SO_Success ss, s')" "length (ss_artifact ss) < 2 ^ 64"
  proof (intro conjI impI)
    assume "admits l (length (ss_artifact ss)) \<and>
      (sreq_output_form req = OF_Protobuf \<longrightarrow> length (ss_artifact ss) \<le> unat (max_message_bytes x))"
    then show "sign_with_resource_limits x rng req l s = Done (Inr (Inr (SO_Success ss)), s')"
      using in_process'(1) [where l = l and s = s and s' = s' and ss = ss] run assms(2) sign bounded by auto
  next
    assume "\<not> admits l (length (ss_artifact ss))"
    then show "\<exists>re s''. sign_with_resource_limits x rng req l s = Done (Inl re, s'') \<and>
         are_kind re = OutputArtifactTooLarge \<and> (s'' = s \<or> s'' = s' \<and> sreq_output_form req = OF_Yaml)"
      using in_process'(2) [where l = l and s = s and s' = s' and ss = ss] run assms(2) sign bounded by fastforce
  qed
  ultimately show ?thesis by blast
qed

end
