(* ===== verification/Sample_Crypto.thy ===== *)
theory Sample_Crypto
  imports Crypto
begin

text \<open>
  A toy curve on which the hypotheses about the cryptographic crates hold and evaluate: points
  and scalars are the integers modulo 256, the base point is 1, and a signature is right when
  the Ed25519 or a linear ECDSA-like equation holds in that ring. It has no strength whatever;
  it shows that the hypotheses are consistent and lets the witnesses run the code.
\<close>

section \<open>The toy primitives\<close>

definition toy_encode :: "u8 \<Rightarrow> bytes" where
  "toy_encode k = k # replicate 31 0"

definition toy_decode :: "bytes \<Rightarrow> u8 option" where
  "toy_decode bs = (case bs of [] \<Rightarrow> None | b # r \<Rightarrow> if r = replicate 31 0 then Some b else None)"

definition toy_hash :: "bytes \<Rightarrow> u8" where
  "toy_hash m = foldl (\<lambda>h b. 7 * h + b + 1) 0 m"

definition toy_sha512 :: "bytes \<Rightarrow> bytes" where
  "toy_sha512 m = toy_hash m # replicate 63 0"

definition toy_sha256 :: "bytes \<Rightarrow> bytes" where
  "toy_sha256 m = toy_hash m # replicate 31 0"

definition toy_ed_sign :: "u8 \<Rightarrow> bytes \<Rightarrow> bytes" where
  "toy_ed_sign sk m =
     (let r = 7; challenge = toy_hash (toy_encode r @ toy_encode sk @ m) in
      toy_encode r @ toy_encode (r + challenge * sk))"

definition toy_sec1 :: "u8 \<Rightarrow> bool \<Rightarrow> bytes" where
  "toy_sec1 k compress = (if compress then 2 # toy_encode k else 4 # toy_encode k @ toy_encode 1)"

definition toy_from_sec1 :: "bytes \<Rightarrow> u8 option" where
  "toy_from_sec1 bs = (case bs of t # k # r \<Rightarrow>
      if (if t = 2 then r = replicate 31 0 else t = 4 \<and> r = replicate 31 0 @ toy_encode 1)
      then Some k else None
    | _ \<Rightarrow> None)"

definition toy_sig_bytes :: "u8 \<Rightarrow> bytes" where
  "toy_sig_bytes g = toy_encode g @ toy_encode 1"

definition toy_sig_slice :: "bytes \<Rightarrow> u8 option" where
  "toy_sig_slice bs = (case bs of g # r \<Rightarrow> if r = replicate 31 0 @ toy_encode 1 then Some g else None
    | [] \<Rightarrow> None)"

definition toy_sig_der :: "bytes \<Rightarrow> u8 option" where
  "toy_sig_der bs = (if length bs = 8 \<and> take 4 bs = [0x30, 6, 2, 1] \<and> drop 5 bs = [2, 1, 1]
     then Some (bs ! 4) else None)"

text \<open>The sample runtime with the toy primitives, open for the fields modelled later.\<close>

definition sample_crypto :: "'z \<Rightarrow> (put list, put list, u8, 'z) crypto_ext_scheme" where
  "sample_crypto rest = sample_yaml
     \<lparr>ed_decompress = toy_decode,
      ed_compress = toy_encode,
      ed_is_small_order = (\<lambda>p. p = 0),
      ed_mul_by_cofactor = (\<lambda>p. 8 * p),
      ed_is_identity = (\<lambda>p. p = 0),
      ed_basepoint = 1,
      ed_scalar_mul = (\<lambda>s p. s * p),
      ed_sub = (\<lambda>p q. p - q),
      scalar_from_canonical_bytes = toy_decode,
      scalar_from_bytes_mod_order_wide = hd,
      ed_vk_from_bytes = toy_decode,
      ed_vk_as_bytes = toy_encode,
      ed_sign = toy_ed_sign,
      sha512 = toy_sha512,
      sha256 = toy_sha256,
      p256_vk_from_sec1 = toy_from_sec1,
      p256_vk_to_sec1 = toy_sec1,
      p256_sig_from_slice = toy_sig_slice,
      p256_sig_from_der = toy_sig_der,
      p256_sig_to_bytes = toy_sig_bytes,
      p256_verify = (\<lambda>vk m g. g = vk * toy_hash m + 1),
      p256_sign_prehashed = (\<lambda>sk nonce digest. if nonce = 0 then None else Some (sk * hd digest + 1)),
      \<dots> = rest\<rparr>"

lemma sample_crypto_simps [simp]:
  "ed_decompress (sample_crypto rest) = toy_decode"
  "ed_compress (sample_crypto rest) = toy_encode"
  "ed_is_small_order (sample_crypto rest) p \<longleftrightarrow> p = 0"
  "ed_mul_by_cofactor (sample_crypto rest) p = 8 * p"
  "ed_is_identity (sample_crypto rest) p \<longleftrightarrow> p = 0"
  "ed_basepoint (sample_crypto rest) = 1"
  "ed_scalar_mul (sample_crypto rest) s p = s * p"
  "ed_sub (sample_crypto rest) p q = p - q"
  "scalar_from_canonical_bytes (sample_crypto rest) = toy_decode"
  "scalar_from_bytes_mod_order_wide (sample_crypto rest) = hd"
  "ed_vk_from_bytes (sample_crypto rest) = toy_decode"
  "ed_vk_as_bytes (sample_crypto rest) = toy_encode"
  "ed_sign (sample_crypto rest) = toy_ed_sign"
  "sha512 (sample_crypto rest) = toy_sha512"
  "sha256 (sample_crypto rest) = toy_sha256"
  "p256_vk_from_sec1 (sample_crypto rest) = toy_from_sec1"
  "p256_vk_to_sec1 (sample_crypto rest) = toy_sec1"
  "p256_sig_from_slice (sample_crypto rest) = toy_sig_slice"
  "p256_sig_from_der (sample_crypto rest) = toy_sig_der"
  "p256_sig_to_bytes (sample_crypto rest) = toy_sig_bytes"
  "p256_verify (sample_crypto rest) vk m g \<longleftrightarrow> g = vk * toy_hash m + 1"
  "p256_sign_prehashed (sample_crypto rest) sk nonce digest =
     (if nonce = 0 then None else Some (sk * hd digest + 1))"
  by (simp_all add: sample_crypto_def sample_yaml_def sample_buffa_def buffa_ext.defs)

lemma sample_crypto_base [simp]:
  "traits_ok (sample_crypto rest)" "buffa_ok (sample_crypto rest)" "b64_ok (sample_crypto rest)"
  "plain_keys_ok (sample_crypto rest)" "yaml_flat_ok (sample_crypto rest)"
  "max_message_bytes (sample_crypto rest) = 0x7FFFFFFF"
  by (simp_all add: sample_crypto_def)

lemma toy_decode_iff: "toy_decode b = Some k \<longleftrightarrow> b = toy_encode k"
  by (auto simp: toy_decode_def toy_encode_def split: list.splits)

lemma toy_decode_encode [simp]: "toy_decode (toy_encode k) = Some k"
  by (simp add: toy_decode_iff)

lemma length_toy [simp]: "length (toy_encode k) = 32" "length (toy_sig_bytes g) = 64"
  "length (toy_ed_sign sk m) = 64"
  by (simp_all add: toy_encode_def toy_sig_bytes_def toy_ed_sign_def Let_def)

lemma toy_sig_slice_bytes [simp]: "toy_sig_slice (toy_sig_bytes g) = Some g"
  by (simp add: toy_sig_slice_def toy_sig_bytes_def toy_encode_def)

lemma sample_crypto_ok [simp]: "crypto_ok (sample_crypto rest)"
  by (simp add: crypto_ok_def toy_decode_iff toy_sec1_def toy_from_sec1_def toy_encode_def
      toy_sig_bytes_def [unfolded toy_encode_def])
     (simp add: toy_sig_slice_def toy_encode_def)

text \<open>The key pairs of the toy curve: a signature made with the secret key verifies.\<close>

lemma toy_ed_verifies:
  assumes "sk \<noteq> 0"
  shows "verify_ed25519 (sample_crypto rest) sk m (toy_ed_sign sk m) = Inr ()"
  using assms
  by (simp add: verify_ed25519_def parse_ed25519_signature_checked_def decode_canonical_edwards_point_def
      ed25519_challenge_def toy_ed_sign_def toy_sha512_def Let_def)

section \<open>Witnesses\<close>

theorem signer_and_verifier_checks_agree_witness:
  "provider_public_key_is_admissible (sample_crypto ()) Ed25519 (toy_encode 5) \<and>
   resolve_provider_public_key (sample_crypto ()) EcdsaP256Sha256 (toy_sec1 9 False)
     = Some (PPK_EcdsaP256Sha256 9)"
proof -
  have e: "resolve_ed25519_verifying_key (sample_crypto ()) (toy_encode 5) = Inr 5"
    by (simp add: resolve_ed25519_verifying_key_def decode_canonical_edwards_point_def try_array_def)
  have p: "resolve_p256_verifying_key (sample_crypto ()) (toy_sec1 9 False) = Inr 9"
    by (simp add: resolve_p256_verifying_key_def toy_sec1_def toy_from_sec1_def toy_encode_def)
  have ok: "crypto_ok (sample_crypto ())" by simp
  note a = signer_and_verifier_checks_agree [OF ok, where a = Ed25519 and sig = "[]" and m = "[]"]
  show ?thesis
    using a [of "toy_encode 5" 5, THEN conjunct2, THEN conjunct1, THEN mp, OF e]
      a [of "toy_sec1 9 False" 9, THEN conjunct2, THEN conjunct2, THEN mp, OF p]
    by (elim conjE) (rule conjI)
qed

theorem p256_conversions_fit_the_slots_witness:
  "\<exists>out. p256_public_key_to_uncompressed (sample_crypto ()) (toy_sec1 9 True) = Done (Inr out) \<and>
     (\<exists>vk. resolve_p256_verifying_key (sample_crypto ()) out = Inr vk)"
proof -
  have "p256_public_key_to_uncompressed (sample_crypto ()) (toy_sec1 9 True) = Done (Inr (toy_sec1 9 False))"
    by (simp add: p256_public_key_to_uncompressed_def toy_sec1_def toy_from_sec1_def toy_encode_def)
  from this p256_conversions_fit_the_slots [of "sample_crypto ()" "[]" "[]" "toy_sec1 9 True" "toy_sec1 9 False",
      OF sample_crypto_ok, THEN conjunct2, THEN conjunct1, THEN mp, OF this]
  show ?thesis by (elim conjE) (rule exI, rule conjI)
qed

end
