(* ===== verification/Sample_Signing.thy ===== *)
theory Sample_Signing
  imports Sample_Crypto Sign_Sync
begin

text \<open>
  Concrete requests for the signing pipeline over the toy primitives, and the witnesses of the
  signing properties. The sample generator reads its nonces from a list and fails at the end.
\<close>

section \<open>A generator and requests\<close>

fun sample_rng :: "u8 list \<Rightarrow> u8 option \<times> u8 list" where
  "sample_rng [] = (None, [])"
| "sample_rng (n # ns) = (Some n, ns)"

definition sample_proto_request :: "(u8, u8) sign_request" where
  "sample_proto_request =
     \<lparr>sreq_payload = [0x61], sreq_algorithm = Ed25519, sreq_key = SK_Ed25519 5,
      sreq_keyid = Some [0x6B], sreq_append_missing_final_newline = False,
      sreq_output_form = OF_Protobuf, sreq_algorithm_parameters = []\<rparr>"

definition sample_yaml_request :: "(u8, u8) sign_request" where
  "sample_yaml_request = sample_proto_request
     \<lparr>sreq_output_form := OF_Yaml, sreq_append_missing_final_newline := True\<rparr>"

lemma sample_signing_runtime [simp]: "signing_runtime (sample_crypto rest)"
  by (simp add: signing_runtime_def message_ceiling_ok_def)

lemma sample_request_wf [simp]: "request_wf sample_proto_request" "request_wf sample_yaml_request"
  by (simp_all add: request_wf_def sample_yaml_request_def sample_proto_request_def utf8_valid_ascii_Cons)

lemma sample_request_valid [simp]:
  "validate_invocation sample_proto_request = Inr ()"
  by (simp add: validate_invocation_def validate_invocation_parameters_def signer_capabilities_def
      validate_keyid_content_def validate_key_algorithm_def sample_proto_request_def)

lemma sample_request_prepared [simp]:
  "prepare_signing_payload sample_proto_request = Inr \<lparr>psp_payload = [0x61], psp_modified_payload = []\<rparr>"
  by (simp add: prepare_signing_payload_def sample_proto_request_def)

section \<open>Witnesses\<close>

text \<open>A zero nonce is drawn again and the next one signs.\<close>

theorem sign_p256_loop_correct_witness:
  "sign_p256_loop (sample_crypto ()) sample_rng 3 [2] [0, 9, 4] =
     Some (Inr (toy_sig_bytes 7), [4])"
proof -
  let ?x = "sample_crypto ()"
  have st: "rng_state sample_rng [0, 9, 4] 1 = [9, 4]" "rng_state sample_rng [0, 9, 4] 0 = [0, 9, 4]"
    by (simp_all add: rng_state_def)
  have "(\<forall>m<1. retried ?x sample_rng 3 [2] (rng_state sample_rng [0, 9, 4] m))
      \<and> \<not> retried ?x sample_rng 3 [2] (rng_state sample_rng [0, 9, 4] 1)
      \<and> (Inr (toy_sig_bytes 7), [4]) = settled ?x sample_rng 3 [2] (rng_state sample_rng [0, 9, 4] 1)"
    using st by (simp add: retried_def settled_def)
  then show ?thesis
    using sign_p256_loop_correct [of ?x sample_rng 3 "[2]" "[0, 9, 4]", THEN conjunct2, THEN iffD2,
        OF exI [of _ 1]]
    by simp
qed

abbreviation sample_artifact :: bytes where
  "sample_artifact \<equiv> signed_artifact (sample_crypto ()) sample_proto_request
     \<lparr>psp_payload = [0x61], psp_modified_payload = []\<rparr> (toy_ed_sign 5 [0x61])"

lemma sample_artifact_length: "length sample_artifact = 76"
proof -
  have "toy_ed_sign 5 [0x61] \<noteq> []" using length_toy(3) [of 5 "[0x61]"] by force
  then show ?thesis
    by (simp add: sample_proto_request_def length_envelope_bytes length_proto_carrier field_octets_def varint_bytes.simps)
qed

theorem sign_correct_witness:
  "sign (sample_crypto ()) sample_rng sample_proto_request [] =
     Done (SO_Success \<lparr>ss_artifact = sample_artifact, ss_modified_payload = []\<rparr>, [])"
  using sign_correct [OF sample_signing_runtime sample_crypto_ok,
      of sample_proto_request "()" sample_rng "[]"]
  by (simp add: signed_with_def sign_digest_def signed_success_def)
     (simp add: sample_proto_request_def signed_success_def)

theorem prepare_signing_payload_correct_witness:
  "prepare_signing_payload sample_yaml_request =
     Inr \<lparr>psp_payload = [0x61, 0x0A], psp_modified_payload = [0x61, 0x0A]\<rparr> \<and>
   validate_payload_stream [0x61, 0x0A] = Inr ()"
proof -
  have "utf8_valid [0x61]" "\<not> bom_at_zero [0x61]"
    by (simp_all add: utf8_valid_ascii_Cons bom_at_zero_def starts_with_def)
  then have p: "prepare_signing_payload sample_yaml_request =
      Inr \<lparr>psp_payload = [0x61, 0x0A], psp_modified_payload = [0x61, 0x0A]\<rparr>"
    using prepare_signing_payload_correct [of sample_yaml_request, THEN conjunct1]
    by (simp add: sample_yaml_request_def sample_proto_request_def)
  then show ?thesis
    using prepare_signing_payload_correct [of sample_yaml_request, THEN conjunct2]
    by (simp add: sample_yaml_request_def)
qed

theorem preflight_signing_output_correct_witness:
  "preflight_signing_output (sample_crypto ()) sample_proto_request
     (with_max_artifact_bytes unbounded 7) =
   Inl \<lparr>are_kind = OutputArtifactTooLarge, are_form = Some RF_Protobuf,
        are_configured_max = Some 7, are_observed = Some 76\<rparr>"
proof -
  have n: "length sample_artifact = 76" by (rule sample_artifact_length)
  show ?thesis
    using preflight_signing_output_correct [OF sample_signing_runtime sample_request_wf(1) _
        sample_request_prepared, of "toy_ed_sign 5 [0x61]" 76 "()" "with_max_artifact_bytes unbounded 7"] n
    by (simp add: keyid_bounded_def sample_proto_request_def check_defs with_max_artifact_bytes_def unbounded_def)
qed


theorem sign_with_resource_limits_correct_witness:
  "\<exists>re s''. sign_with_resource_limits (sample_crypto ()) sample_rng sample_proto_request
       (with_max_artifact_bytes unbounded 7) [] = Done (Inl re, s'')
     \<and> are_kind re = OutputArtifactTooLarge \<and> s'' = []"
proof -
  let ?x = "sample_crypto ()" and ?l = "with_max_artifact_bytes unbounded 7"
  have "sign ?x sample_rng sample_proto_request [] =
      Done (SO_Success \<lparr>ss_artifact = sample_artifact, ss_modified_payload = []\<rparr>, [])"
    using sign_eq [OF sample_signing_runtime sample_crypto_ok,
        of sample_proto_request "()" sample_rng "[]"]
    by (simp add: signed_with_def sign_digest_def signed_success_def)
       (simp add: sample_proto_request_def signed_success_def)
  moreover have "\<not> admits ?l 76"
    by (simp add: admits_def with_max_artifact_bytes_def unbounded_def)
  ultimately show ?thesis
    using sign_with_resource_limits_correct [of ?x sample_proto_request,
        OF sample_signing_runtime sample_crypto_ok
        sample_request_wf(1) _ sample_request_valid, where rng = sample_rng and l = ?l and s = "[]"
        and s' = "[]" and ss = "\<lparr>ss_artifact = sample_artifact, ss_modified_payload = []\<rparr>", THEN conjunct2]
      sample_artifact_length
    by (auto simp: sample_proto_request_def)
qed

end
