(* ===== verification/Signing_Provider.thy ===== *)
theory Signing_Provider
  imports Sign_Sync
begin

text \<open>
  Signing through a provider: \<open>provider.rs\<close>, the provider entry points of \<open>lib.rs\<close> and
  \<open>async_provider.rs\<close> of \<open>yaml-sigil-signing\<close>. A binding holds a validated public key; the
  provider's operation is a callback with a state of its own, which may fail, block without
  returning or panic. The two bindings of a key, qualified and unqualified, are the instances of
  a trait of the source and here records of its items.
\<close>

section \<open>Bindings\<close>

datatype provider_signing_key_error_kind = PKE_InvalidPublicKey

record provider_signing_key_error =
  pke_kind :: provider_signing_key_error_kind
  pke_algorithm :: algorithm_id

definition invalid_public_key :: "algorithm_id \<Rightarrow> provider_signing_key_error" where
  "invalid_public_key algorithm = \<lparr>pke_kind = PKE_InvalidPublicKey, pke_algorithm = algorithm\<rparr>"

record provider_signing_key_builder =
  pkb_algorithm :: algorithm_id
  pkb_public_key_bytes :: bytes

record 'k provider_signing_key =
  psk_public_key :: "'k provider_public_key"

record 'k unqualified_provider_signing_key =
  upsk_public_key :: "'k provider_public_key"

definition bounded_public_key_copy :: "algorithm_id \<Rightarrow> bytes \<Rightarrow> bytes" where
  "bounded_public_key_copy algorithm public_key_bytes =
     (let expected_len = (case algorithm of Ed25519 \<Rightarrow> 32 | EcdsaP256Sha256 \<Rightarrow> 65) in
      if length public_key_bytes = expected_len then public_key_bytes else [])"

definition builder_ed25519 :: "bytes \<Rightarrow> provider_signing_key_builder" where
  "builder_ed25519 public_key_bytes =
     \<lparr>pkb_algorithm = Ed25519,
      pkb_public_key_bytes = bounded_public_key_copy Ed25519 public_key_bytes\<rparr>"

definition builder_ecdsa_p256_sha256 :: "bytes \<Rightarrow> provider_signing_key_builder" where
  "builder_ecdsa_p256_sha256 public_key_bytes =
     \<lparr>pkb_algorithm = EcdsaP256Sha256,
      pkb_public_key_bytes = bounded_public_key_copy EcdsaP256Sha256 public_key_bytes\<rparr>"

definition resolve_public_key ::
    "('u, 'w, 'k, 'z) crypto_ext_scheme \<Rightarrow> provider_signing_key_builder
       \<Rightarrow> provider_signing_key_error + 'k provider_public_key" where
  "resolve_public_key x b =
     ok_or (resolve_provider_public_key x (pkb_algorithm b) (pkb_public_key_bytes b))
       \<lparr>pke_kind = PKE_InvalidPublicKey, pke_algorithm = pkb_algorithm b\<rparr>"

definition builder_build ::
    "('u, 'w, 'k, 'z) crypto_ext_scheme \<Rightarrow> provider_signing_key_builder
       \<Rightarrow> provider_signing_key_error + 'k provider_signing_key" where
  "builder_build x b = result_try (resolve_public_key x b) (\<lambda>public_key. Inr \<lparr>psk_public_key = public_key\<rparr>)"

definition builder_build_unqualified ::
    "('u, 'w, 'k, 'z) crypto_ext_scheme \<Rightarrow> provider_signing_key_builder
       \<Rightarrow> provider_signing_key_error + 'k unqualified_provider_signing_key" where
  "builder_build_unqualified x b =
     result_try (resolve_public_key x b) (\<lambda>public_key. Inr \<lparr>upsk_public_key = public_key\<rparr>)"

section \<open>The bound key\<close>

text \<open>The items of \<open>trait BoundKey\<close> that an instance supplies.\<close>

record ('key, 'k) bound_key =
  bk_self_verify :: bool
  bk_public_key :: "'key \<Rightarrow> 'k provider_public_key"

definition qualified_key :: "('k provider_signing_key, 'k) bound_key" where
  "qualified_key = \<lparr>bk_self_verify = True, bk_public_key = psk_public_key\<rparr>"

definition unqualified_key :: "('k unqualified_provider_signing_key, 'k) bound_key" where
  "unqualified_key = \<lparr>bk_self_verify = False, bk_public_key = upsk_public_key\<rparr>"

definition bk_algorithm :: "('key, 'k) bound_key \<Rightarrow> 'key \<Rightarrow> algorithm_id" where
  "bk_algorithm tr key = ppk_algorithm (bk_public_key tr key)"

definition bk_try_sign ::
    "('u, 'w, 'k, 'z) crypto_ext_scheme \<Rightarrow> ('key, 'k) bound_key \<Rightarrow> 'key \<Rightarrow> 's payload_signer \<Rightarrow> 's payload_signer" where
  "bk_try_sign x tr key callback message s =
     exec_map (\<lambda>(r, s').
         (result_try r (\<lambda>sig.
            if \<not> provider_signature_is_structurally_valid x (bk_algorithm tr key) sig
               \<or> bk_self_verify tr \<and> \<not> verify_provider_signature x (bk_public_key tr key) message sig
            then Inl SE_KeyOperationFailure else Inr sig), s'))
       (callback message s)"

text \<open>An adapter of the \<open>signature\<close> crate: its operation may fail with any error of that crate.\<close>

type_synonym ('s, 'x) adapter = "bytes \<Rightarrow> ('s, 'x + bytes) stateful"

definition signature_signing_callback :: "('s, 'x) adapter \<Rightarrow> 's payload_signer" where
  "signature_signing_callback signer message s =
     exec_map (\<lambda>(r, s'). (map_err (\<lambda>_. SE_KeyOperationFailure) r, s')) (signer message s)"

section \<open>Synchronous operations\<close>

definition p256_digest_callback ::
    "('u, 'w, 'k, 'z) crypto_ext_scheme \<Rightarrow> 's payload_signer \<Rightarrow> 's payload_signer" where
  "p256_digest_callback x callback payload s = callback (sha256 x payload) s"

fun request_key :: "('key, 'key) signing_key \<Rightarrow> 'key" where
  "request_key (SK_Ed25519 key) = key"
| "request_key (SK_EcdsaP256Sha256 key) = key"

definition sign_with_provider_inner ::
    "('u, 'w, 'k, 'z) crypto_ext_scheme \<Rightarrow> ('key, 'k) bound_key \<Rightarrow> ('key, 'key) sign_request
       \<Rightarrow> artifact_resource_limits option \<Rightarrow> algorithm_id option \<Rightarrow> 's payload_signer
       \<Rightarrow> ('s, (encode_error + sign_outcome) resource_result) stateful" where
  "sign_with_provider_inner x tr req limits required_algorithm callback s =
     (let validation = (if limits \<noteq> None then validate_invocation_shape req else validate_invocation req) in
      case validation of
        Inl e \<Rightarrow> Done (Inr (Inr (SO_Invocation e)), s)
      | Inr _ \<Rightarrow>
          (let key = request_key (sreq_key req) in
           if bk_algorithm tr key \<noteq> sreq_algorithm req
              \<or> (case required_algorithm of Some a \<Rightarrow> a \<noteq> sreq_algorithm req | None \<Rightarrow> False)
           then Done (Inr (Inr (SO_Invocation SIE_InvalidOrUnsupportedAlgorithm)), s)
           else
             (case (case limits of
                      None \<Rightarrow> Inr ()
                    | Some l \<Rightarrow>
                        (case preflight_signing_output x req l of
                           Inl re \<Rightarrow> Inl (Inl re)
                         | Inr (Inl e) \<Rightarrow> Inl (Inr (Inl e))
                         | Inr (Inr _) \<Rightarrow>
                             (case validate_keyid_content req of
                                Inl e \<Rightarrow> Inl (Inr (Inr (SO_Invocation e)))
                              | Inr _ \<Rightarrow> Inr ()))) of
                Inl r \<Rightarrow> Done (r, s)
              | Inr _ \<Rightarrow>
                  exec_map (\<lambda>(r, s'). (result_map Inr r, s'))
                    (sign_after_invocation_validation x req limits
                      (\<lambda>payload. bk_try_sign x tr key callback payload) s))))"

text \<open>The two \<open>expect\<close> of the operations without a policy.\<close>

definition expect_unbounded ::
    "('s, (encode_error + sign_outcome) resource_result) stateful \<Rightarrow> ('s, sign_outcome) stateful" where
  "expect_unbounded run s =
     exec_bind (run s) (\<lambda>(r, s').
     exec_bind (expect_ok r) (\<lambda>r. exec_map (\<lambda>out. (out, s')) (expect_ok r)))"

definition sign_with_provider ::
    "('u, 'w, 'k, 'z) crypto_ext_scheme \<Rightarrow> ('k provider_signing_key, 'k provider_signing_key) sign_request
       \<Rightarrow> 's payload_signer \<Rightarrow> ('s, sign_outcome) stateful" where
  "sign_with_provider x req callback =
     expect_unbounded (sign_with_provider_inner x qualified_key req None None callback)"

definition sign_with_unqualified_provider ::
    "('u, 'w, 'k, 'z) crypto_ext_scheme
       \<Rightarrow> ('k unqualified_provider_signing_key, 'k unqualified_provider_signing_key) sign_request
       \<Rightarrow> 's payload_signer \<Rightarrow> ('s, sign_outcome) stateful" where
  "sign_with_unqualified_provider x req callback =
     expect_unbounded (sign_with_provider_inner x unqualified_key req None None callback)"

definition sign_with_provider_and_resource_limits ::
    "('u, 'w, 'k, 'z) crypto_ext_scheme \<Rightarrow> ('k provider_signing_key, 'k provider_signing_key) sign_request
       \<Rightarrow> artifact_resource_limits \<Rightarrow> 's payload_signer
       \<Rightarrow> ('s, (encode_error + sign_outcome) resource_result) stateful" where
  "sign_with_provider_and_resource_limits x req limits callback =
     sign_with_provider_inner x qualified_key req (Some limits) None callback"

definition sign_with_unqualified_provider_and_resource_limits ::
    "('u, 'w, 'k, 'z) crypto_ext_scheme
       \<Rightarrow> ('k unqualified_provider_signing_key, 'k unqualified_provider_signing_key) sign_request
       \<Rightarrow> artifact_resource_limits \<Rightarrow> 's payload_signer
       \<Rightarrow> ('s, (encode_error + sign_outcome) resource_result) stateful" where
  "sign_with_unqualified_provider_and_resource_limits x req limits callback =
     sign_with_provider_inner x unqualified_key req (Some limits) None callback"

definition sign_with_p256_digest_provider ::
    "('u, 'w, 'k, 'z) crypto_ext_scheme \<Rightarrow> ('k provider_signing_key, 'k provider_signing_key) sign_request
       \<Rightarrow> 's payload_signer \<Rightarrow> ('s, sign_outcome) stateful" where
  "sign_with_p256_digest_provider x req callback =
     expect_unbounded (sign_with_provider_inner x qualified_key req None (Some EcdsaP256Sha256)
       (p256_digest_callback x callback))"

definition sign_with_p256_digest_provider_and_resource_limits ::
    "('u, 'w, 'k, 'z) crypto_ext_scheme \<Rightarrow> ('k provider_signing_key, 'k provider_signing_key) sign_request
       \<Rightarrow> artifact_resource_limits \<Rightarrow> 's payload_signer
       \<Rightarrow> ('s, (encode_error + sign_outcome) resource_result) stateful" where
  "sign_with_p256_digest_provider_and_resource_limits x req limits callback =
     sign_with_provider_inner x qualified_key req (Some limits) (Some EcdsaP256Sha256)
       (p256_digest_callback x callback)"

section \<open>Awaited operations\<close>

text \<open>
  Awaiting a future is the state passing of the adapter's operation; a future that never
  completes is a run that does not return.
\<close>

record ('s, 'x, 'k) bound_signer =
  bs_signer :: "('s, 'x) adapter"
  bs_public_key :: "'k provider_public_key"

record ('s, 'x) async_provider_signing_key_builder =
  akb_signer :: "('s, 'x) adapter"
  akb_algorithm :: algorithm_id
  akb_public_key_bytes :: bytes

record ('s, 'x, 'k) async_provider_signing_key =
  apsk_inner :: "('s, 'x, 'k) bound_signer"

record ('s, 'x, 'k) unqualified_async_provider_signing_key =
  uapsk_inner :: "('s, 'x, 'k) bound_signer"

definition async_builder_new ::
    "('s, 'x) adapter \<Rightarrow> algorithm_id \<Rightarrow> bytes \<Rightarrow> ('s, 'x) async_provider_signing_key_builder" where
  "async_builder_new signer algorithm public_key =
     \<lparr>akb_signer = signer, akb_algorithm = algorithm,
      akb_public_key_bytes = bounded_public_key_copy algorithm public_key\<rparr>"

definition async_builder_ed25519 ::
    "('s, 'x) adapter \<Rightarrow> bytes \<Rightarrow> ('s, 'x) async_provider_signing_key_builder" where
  "async_builder_ed25519 signer public_key = async_builder_new signer Ed25519 public_key"

definition async_builder_ecdsa_p256_sha256 ::
    "('s, 'x) adapter \<Rightarrow> bytes \<Rightarrow> ('s, 'x) async_provider_signing_key_builder" where
  "async_builder_ecdsa_p256_sha256 signer public_key = async_builder_new signer EcdsaP256Sha256 public_key"

definition async_builder_resolve ::
    "('u, 'w, 'k, 'z) crypto_ext_scheme \<Rightarrow> ('s, 'x) async_provider_signing_key_builder
       \<Rightarrow> provider_signing_key_error + ('s, 'x, 'k) bound_signer" where
  "async_builder_resolve x b =
     result_try (ok_or (resolve_provider_public_key x (akb_algorithm b) (akb_public_key_bytes b))
         (invalid_public_key (akb_algorithm b)))
       (\<lambda>public_key. Inr \<lparr>bs_signer = akb_signer b, bs_public_key = public_key\<rparr>)"

definition async_builder_build ::
    "('u, 'w, 'k, 'z) crypto_ext_scheme \<Rightarrow> ('s, 'x) async_provider_signing_key_builder
       \<Rightarrow> provider_signing_key_error + ('s, 'x, 'k) async_provider_signing_key" where
  "async_builder_build x b = result_try (async_builder_resolve x b) (\<lambda>inner. Inr \<lparr>apsk_inner = inner\<rparr>)"

definition async_builder_build_unqualified ::
    "('u, 'w, 'k, 'z) crypto_ext_scheme \<Rightarrow> ('s, 'x) async_provider_signing_key_builder
       \<Rightarrow> provider_signing_key_error + ('s, 'x, 'k) unqualified_async_provider_signing_key" where
  "async_builder_build_unqualified x b =
     result_try (async_builder_resolve x b) (\<lambda>inner. Inr \<lparr>uapsk_inner = inner\<rparr>)"

record ('key, 's, 'x, 'k) async_bound_key =
  abk_self_verify :: bool
  abk_inner :: "'key \<Rightarrow> ('s, 'x, 'k) bound_signer"

definition async_qualified_key ::
    "(('s, 'x, 'k) async_provider_signing_key, 's, 'x, 'k) async_bound_key" where
  "async_qualified_key = \<lparr>abk_self_verify = True, abk_inner = apsk_inner\<rparr>"

definition async_unqualified_key ::
    "(('s, 'x, 'k) unqualified_async_provider_signing_key, 's, 'x, 'k) async_bound_key" where
  "async_unqualified_key = \<lparr>abk_self_verify = False, abk_inner = uapsk_inner\<rparr>"

definition async_sign_inner ::
    "('u, 'w, 'k, 'z) crypto_ext_scheme \<Rightarrow> ('key, 's, 'x, 'k) async_bound_key
       \<Rightarrow> ('key, 'key) sign_request \<Rightarrow> artifact_resource_limits option
       \<Rightarrow> ('s, (encode_error + sign_outcome) resource_result) stateful" where
  "async_sign_inner x tr req limits s =
     (let validation = (if limits \<noteq> None then validate_invocation_shape req else validate_invocation req) in
      case validation of
        Inl e \<Rightarrow> Done (Inr (Inr (SO_Invocation e)), s)
      | Inr _ \<Rightarrow>
          (let key = abk_inner tr (request_key (sreq_key req)) in
           if ppk_algorithm (bs_public_key key) \<noteq> sreq_algorithm req
           then Done (Inr (Inr (SO_Invocation SIE_InvalidOrUnsupportedAlgorithm)), s)
           else
             (case (case limits of
                      None \<Rightarrow> Inr ()
                    | Some l \<Rightarrow>
                        (case preflight_signing_output x req l of
                           Inl re \<Rightarrow> Inl (Inl re)
                         | Inr (Inl e) \<Rightarrow> Inl (Inr (Inl e))
                         | Inr (Inr _) \<Rightarrow>
                             (case validate_keyid_content req of
                                Inl e \<Rightarrow> Inl (Inr (Inr (SO_Invocation e)))
                              | Inr _ \<Rightarrow> Inr ()))) of
                Inl r \<Rightarrow> Done (r, s)
              | Inr _ \<Rightarrow>
                  (case prepare_signing_payload req of
                     Inl e \<Rightarrow> Done (Inr (Inr (SO_Signer e)), s)
                   | Inr prepared \<Rightarrow>
                       exec_bind (bs_signer key (psp_payload prepared) s) (\<lambda>(r, s').
                         case r of
                           Inl _ \<Rightarrow> Done (Inr (Inr (SO_Signer SE_KeyOperationFailure)), s')
                         | Inr sig \<Rightarrow>
                             if \<not> provider_signature_is_structurally_valid x (sreq_algorithm req) sig
                                \<or> abk_self_verify tr
                                  \<and> \<not> verify_provider_signature x (bs_public_key key) (psp_payload prepared) sig
                             then Done (Inr (Inr (SO_Signer SE_KeyOperationFailure)), s')
                             else exec_map (\<lambda>out. (result_map Inr out, s'))
                                    (finish_signing x req prepared sig limits))))))"
definition sign_with_async_provider ::
    "('u, 'w, 'k, 'z) crypto_ext_scheme
       \<Rightarrow> (('s, 'x, 'k) async_provider_signing_key, ('s, 'x, 'k) async_provider_signing_key) sign_request
       \<Rightarrow> ('s, sign_outcome) stateful" where
  "sign_with_async_provider x req = expect_unbounded (async_sign_inner x async_qualified_key req None)"

definition sign_with_unqualified_async_provider ::
    "('u, 'w, 'k, 'z) crypto_ext_scheme
       \<Rightarrow> (('s, 'x, 'k) unqualified_async_provider_signing_key,
          ('s, 'x, 'k) unqualified_async_provider_signing_key) sign_request
       \<Rightarrow> ('s, sign_outcome) stateful" where
  "sign_with_unqualified_async_provider x req =
     expect_unbounded (async_sign_inner x async_unqualified_key req None)"

definition sign_with_async_provider_and_resource_limits ::
    "('u, 'w, 'k, 'z) crypto_ext_scheme
       \<Rightarrow> (('s, 'x, 'k) async_provider_signing_key, ('s, 'x, 'k) async_provider_signing_key) sign_request
       \<Rightarrow> artifact_resource_limits \<Rightarrow> ('s, (encode_error + sign_outcome) resource_result) stateful" where
  "sign_with_async_provider_and_resource_limits x req limits =
     async_sign_inner x async_qualified_key req (Some limits)"

definition sign_with_unqualified_async_provider_and_resource_limits ::
    "('u, 'w, 'k, 'z) crypto_ext_scheme
       \<Rightarrow> (('s, 'x, 'k) unqualified_async_provider_signing_key,
          ('s, 'x, 'k) unqualified_async_provider_signing_key) sign_request
       \<Rightarrow> artifact_resource_limits \<Rightarrow> ('s, (encode_error + sign_outcome) resource_result) stateful" where
  "sign_with_unqualified_async_provider_and_resource_limits x req limits =
     async_sign_inner x async_unqualified_key req (Some limits)"

end
