(* ===== verification/Provider_Facts.thy ===== *)
theory Provider_Facts
  imports Signing_Provider
begin

text \<open>
  What signing through a provider guarantees: which callback calls an operation makes, what a
  returned artifact attests, and that the awaited operations are the synchronous ones.
\<close>

section \<open>Everything that happens before signing\<close>

text \<open>\<open>Inl\<close> is the outcome of an operation that stops before the payload is prepared.\<close>

definition provider_gate ::
    "('u, 'w, 'k, 'z) crypto_ext_scheme \<Rightarrow> algorithm_id \<Rightarrow> ('e, 'p) sign_request
       \<Rightarrow> artifact_resource_limits option \<Rightarrow> algorithm_id option
       \<Rightarrow> (encode_error + sign_outcome) resource_result + unit" where
  "provider_gate x bound req limits required =
     (case (if limits \<noteq> None then validate_invocation_shape req else validate_invocation req) of
        Inl e \<Rightarrow> Inl (Inr (Inr (SO_Invocation e)))
      | Inr _ \<Rightarrow>
          if bound \<noteq> sreq_algorithm req \<or> required \<notin> {None, Some (sreq_algorithm req)}
          then Inl (Inr (Inr (SO_Invocation SIE_InvalidOrUnsupportedAlgorithm)))
          else
            (case limits of
               None \<Rightarrow> Inr ()
             | Some l \<Rightarrow>
                 (case preflight_signing_output x req l of
                    Inl re \<Rightarrow> Inl (Inl re)
                  | Inr (Inl e) \<Rightarrow> Inl (Inr (Inl e))
                  | Inr (Inr _) \<Rightarrow> map_err (\<lambda>e. Inr (Inr (SO_Invocation e))) (validate_keyid_content req))))"

abbreviation key_of :: "('key, 'key) sign_request \<Rightarrow> 'key" where
  "key_of req \<equiv> request_key (sreq_key req)"

lemma provider_inner_eq:
  "sign_with_provider_inner x tr req limits required cb s =
     (case provider_gate x (bk_algorithm tr (key_of req)) req limits required of
        Inl r \<Rightarrow> Done (r, s)
      | Inr _ \<Rightarrow>
          exec_map (\<lambda>(r, s'). (result_map Inr r, s'))
            (sign_after_invocation_validation x req limits (bk_try_sign x tr (key_of req) cb) s))"
  by (auto simp: sign_with_provider_inner_def provider_gate_def Let_def split: sum.split option.split)

lemma gate_passes:
  assumes "provider_gate x bound req limits required = Inr u"
  shows "bound = sreq_algorithm req" and "required \<in> {None, Some (sreq_algorithm req)}"
    and "validate_invocation req = Inr ()" and "keyid_bounded (sreq_keyid req)"
    and "limits = Some l \<Longrightarrow> \<exists>m. preflight_signing_output x req l = Inr (Inr m)"
  using assms
  by (auto simp: provider_gate_def validate_invocation_ok validate_shape_ok result_simps
      split: if_splits sum.splits option.splits)

lemma gate_unbounded:
  "provider_gate x bound req None required = Inl r \<Longrightarrow> \<exists>e. r = Inr (Inr (SO_Invocation e))"
  by (auto simp: provider_gate_def split: if_splits sum.splits)

section \<open>The calls of an operation\<close>

text \<open>A callback that records the messages it is called with.\<close>

definition logged :: "'s payload_signer \<Rightarrow> ('s \<times> bytes list) payload_signer" where
  "logged cb m = (\<lambda>(s, log). exec_map (\<lambda>(r, s'). (r, (s', log @ [m]))) (cb m s))"

definition provider_calls ::
    "('u, 'w, 'k, 'z) crypto_ext_scheme \<Rightarrow> algorithm_id \<Rightarrow> ('e, 'p) sign_request
       \<Rightarrow> artifact_resource_limits option \<Rightarrow> algorithm_id option \<Rightarrow> bytes list" where
  "provider_calls x bound req limits required =
     (case (provider_gate x bound req limits required, prepare_signing_payload req) of
        (Inr _, Inr prepared) \<Rightarrow> [psp_payload prepared]
      | _ \<Rightarrow> [])"

lemma try_sign_logged:
  "bk_try_sign x tr key (logged cb) m (s, log) =
     exec_map (\<lambda>(r, s'). (r, (s', log @ [m]))) (bk_try_sign x tr key cb m s)"
  by (simp add: bk_try_sign_def logged_def exec_map_map case_prod_beta)

lemma provider_inner_logged:
  "sign_with_provider_inner x tr req limits required (logged cb) (s, log) =
     exec_map (\<lambda>(r, s'). (r, (s', log @ provider_calls x (bk_algorithm tr (key_of req)) req limits required)))
       (sign_with_provider_inner x tr req limits required cb s)"
proof (cases "provider_gate x (bk_algorithm tr (key_of req)) req limits required")
  case (Inr u)
  show ?thesis
  proof (cases "prepare_signing_payload req")
    case (Inr prepared)
    then show ?thesis
      using \<open>provider_gate x (bk_algorithm tr (key_of req)) req limits required = Inr u\<close>
      by (cases "bk_try_sign x tr (key_of req) cb (psp_payload prepared) s")
         (auto simp: provider_inner_eq provider_calls_def sign_after_invocation_validation_def
           try_sign_logged exec_map_map case_prod_beta split: sum.split)
  qed (simp add: provider_inner_eq provider_calls_def sign_after_invocation_validation_def Inr)
qed (simp add: provider_inner_eq provider_calls_def)
lemma digest_logged:
  "p256_digest_callback x (logged cb) m (s, log) =
     exec_map (\<lambda>(r, s'). (r, (s', log @ [sha256 x m]))) (p256_digest_callback x cb m s)"
  by (simp add: p256_digest_callback_def logged_def)

text \<open>
  The calls of an operation. Whatever the key, the policy and the callback, an operation
  returns what it returns without the log, and it has called the callback once, with the final
  payload, when the request passes validation, the key is bound to the algorithm, the preflight
  admits the size and the payload can be prepared; in every other case it has not called it.
  A delivered artifact implies the call.
\<close>

theorem provider_callback_calls:
  "sign_with_provider_inner x tr req limits required (logged cb) (s, log) =
     exec_map (\<lambda>(r, s'). (r, (s', log @ provider_calls x (bk_algorithm tr (key_of req)) req limits required)))
       (sign_with_provider_inner x tr req limits required cb s) \<and>
   (sign_with_provider_inner x tr req limits required cb s = Done (Inr (Inr (SO_Success ss)), s') \<longrightarrow>
     (\<exists>prepared. prepare_signing_payload req = Inr prepared \<and>
        provider_calls x (bk_algorithm tr (key_of req)) req limits required = [psp_payload prepared])) \<and>
   (provider_calls x (bk_algorithm tr (key_of req)) req limits required = [] \<longrightarrow>
     (\<exists>r. sign_with_provider_inner x tr req limits required cb s = Done (r, s)))"
proof -
  have "\<exists>prepared. prepare_signing_payload req = Inr prepared \<and>
      provider_calls x (bk_algorithm tr (key_of req)) req limits required = [psp_payload prepared]"
    if "sign_with_provider_inner x tr req limits required cb s = Done (Inr (Inr (SO_Success ss)), s')"
    using that
    by (auto simp: provider_inner_eq provider_calls_def sign_after_invocation_validation_def
        exec_map_eq_Done provider_gate_def result_simps split: sum.splits if_splits option.splits)
  moreover have "\<exists>r. sign_with_provider_inner x tr req limits required cb s = Done (r, s)"
    if "provider_calls x (bk_algorithm tr (key_of req)) req limits required = []"
    using that
    by (auto simp: provider_inner_eq provider_calls_def sign_after_invocation_validation_def
        split: sum.splits)
  ultimately show ?thesis by (intro conjI impI provider_inner_logged)
qed

section \<open>What a delivered artifact attests\<close>

text \<open>A callback returns an array of 64 octets.\<close>

definition callback_ok :: "'s payload_signer \<Rightarrow> bool" where
  "callback_ok cb \<longleftrightarrow> (\<forall>m s sig s'. cb m s = Done (Inr sig, s') \<longrightarrow> length sig = 64)"

lemma try_sign_returns:
  "bk_try_sign x tr key cb m s = Done (Inr sig, s') \<longleftrightarrow>
     cb m s = Done (Inr sig, s') \<and>
     provider_signature_is_structurally_valid x (bk_algorithm tr key) sig \<and>
     (bk_self_verify tr \<longrightarrow> verify_provider_signature x (bk_public_key tr key) m sig)"
proof (cases "cb m s")
  case (Done rs)
  then show ?thesis by (cases rs; cases "fst rs") (auto simp: bk_try_sign_def)
qed (simp_all add: bk_try_sign_def)

interpretation bound: payload_signer
  "\<lambda>(x, tr, key, cb). callback_ok cb"
  "\<lambda>(x, tr, key, cb). bk_try_sign x tr key cb"
proof (unfold_locales, clarify)
  fix x :: "('u, 'w, 'k, 'z) crypto_ext_scheme" and tr :: "('key, 'k) bound_key" and key p s sig s'
    and cb :: "'s payload_signer"
  assume "callback_ok cb" and "bk_try_sign x tr key cb p s = Done (Inr sig, s')"
  then show "length sig = 64" unfolding try_sign_returns callback_ok_def by blast
qed

lemma callback_ok_digest: "callback_ok cb \<Longrightarrow> callback_ok (p256_digest_callback x cb)"
  by (auto simp: callback_ok_def p256_digest_callback_def)

lemma provider_unbounded_eq:
  assumes "signing_runtime x" and "callback_ok cb" and "length (sreq_payload req) < 2 ^ 62"
  shows "expect_unbounded (sign_with_provider_inner x tr req None required cb) s =
    (case provider_gate x (bk_algorithm tr (key_of req)) req None required of
       Inl r \<Rightarrow> (case r of Inr (Inr out) \<Rightarrow> Done (out, s) | _ \<Rightarrow> Panicked)
     | Inr _ \<Rightarrow> signed_with x req (bk_try_sign x tr (key_of req) cb) s)"
proof (cases "provider_gate x (bk_algorithm tr (key_of req)) req None required")
  case (Inl r)
  then show ?thesis
    using gate_unbounded [OF Inl] by (auto simp: expect_unbounded_def provider_inner_eq)
next
  case (Inr u)
  have "expect_unbounded (sign_with_provider_inner x tr req None required cb) s =
      exec_bind (sign_after_invocation_validation x req None (bk_try_sign x tr (key_of req) cb) s)
        (\<lambda>(r, s'). exec_map (\<lambda>out. (out, s')) (expect_ok r))"
  proof (cases "sign_after_invocation_validation x req None (bk_try_sign x tr (key_of req) cb) s")
    case (Done rs)
    then show ?thesis
      by (cases rs; cases "fst rs") (auto simp: expect_unbounded_def provider_inner_eq Inr)
  qed (simp_all add: expect_unbounded_def provider_inner_eq Inr)
  also have "\<dots> = signed_with x req (bk_try_sign x tr (key_of req) cb) s"
    using bound.pipeline_unbounded [where c = "(x, tr, key_of req, cb)",
        OF assms(1) gate_passes(4) [OF Inr] _ assms(3), of s] assms(2) by simp
  finally show ?thesis using Inr by simp
qed

lemma provider_bounded_eq:
  assumes "signing_runtime x" and "callback_ok cb"
  shows "sign_with_provider_inner x tr req (Some l) required cb s =
    (case provider_gate x (bk_algorithm tr (key_of req)) req (Some l) required of
       Inl r \<Rightarrow> Done (r, s)
     | Inr _ \<Rightarrow>
         exec_map (\<lambda>(r, s'). (result_map Inr r, s'))
           (bounded_with x req l (bk_try_sign x tr (key_of req) cb) s))"
proof (cases "provider_gate x (bk_algorithm tr (key_of req)) req (Some l) required")
  case (Inr u)
  then show ?thesis
    using bound.pipeline_bounded [where c = "(x, tr, key_of req, cb)",
        OF assms(1) gate_passes(4) [OF Inr]] gate_passes(5) [OF Inr refl] assms(2)
    by (auto simp: provider_inner_eq)
qed (simp add: provider_inner_eq)

text \<open>The artifact a delivering operation returns, and the signature in it.\<close>

definition attested ::
    "('u, 'w, 'k, 'z) crypto_ext_scheme \<Rightarrow> ('key, 'k) bound_key \<Rightarrow> ('key, 'key) sign_request
       \<Rightarrow> 's payload_signer \<Rightarrow> sign_success \<Rightarrow> 's \<Rightarrow> 's \<Rightarrow> bool" where
  "attested x tr req cb ss s s' \<longleftrightarrow>
     (\<exists>prepared sig. prepare_signing_payload req = Inr prepared \<and>
        cb (psp_payload prepared) s = Done (Inr sig, s') \<and>
        SO_Success ss = signed_success x req prepared sig \<and>
        bk_algorithm tr (key_of req) = sreq_algorithm req \<and>
        provider_signature_is_structurally_valid x (sreq_algorithm req) sig \<and>
        (bk_self_verify tr \<longrightarrow>
           verify_provider_signature x (bk_public_key tr (key_of req)) (psp_payload prepared) sig))"

lemma signed_with_attested:
  assumes "signed_with x req (bk_try_sign x tr (key_of req) cb) s = Done (SO_Success ss, s')"
    and "bk_algorithm tr (key_of req) = sreq_algorithm req"
  shows "attested x tr req cb ss s s'"
proof -
  from assms(1) obtain prepared r where p: "prepare_signing_payload req = Inr prepared"
    and r: "bk_try_sign x tr (key_of req) cb (psp_payload prepared) s = Done (r, s')"
    "SO_Success ss = (case r of Inl e \<Rightarrow> SO_Signer e | Inr sig \<Rightarrow> signed_success x req prepared sig)"
    by (cases "prepare_signing_payload req") (auto simp: signed_with_def exec_map_eq_Done)
  then obtain sig where "bk_try_sign x tr (key_of req) cb (psp_payload prepared) s = Done (Inr sig, s')"
    "SO_Success ss = signed_success x req prepared sig"
    by (cases r) auto
  with p show ?thesis using assms(2) by (auto simp: attested_def try_sign_returns)
qed

lemma provider_unbounded_success:
  assumes "signing_runtime x" and "callback_ok cb" and "length (sreq_payload req) < 2 ^ 62"
    and "expect_unbounded (sign_with_provider_inner x tr req None required cb) s = Done (SO_Success ss, s')"
  shows "attested x tr req cb ss s s'"
proof (cases "provider_gate x (bk_algorithm tr (key_of req)) req None required")
  case (Inl r)
  then show ?thesis using assms(4) gate_unbounded [OF Inl] by (auto simp: provider_unbounded_eq [OF assms(1-3)])
next
  case (Inr u)
  then show ?thesis
    using assms(4) signed_with_attested gate_passes(1) [OF Inr] by (simp add: provider_unbounded_eq [OF assms(1-3)])
qed

lemma provider_bounded_success:
  assumes "signing_runtime x" and "callback_ok cb"
    and "sign_with_provider_inner x tr req (Some l) required cb s = Done (Inr (Inr (SO_Success ss)), s')"
  shows "attested x tr req cb ss s s' \<and> admits l (length (ss_artifact ss))"
proof (cases "provider_gate x (bk_algorithm tr (key_of req)) req (Some l) required")
  case (Inl r)
  then show ?thesis
    using assms(3)
    by (auto simp: provider_bounded_eq [OF assms(1,2)] provider_gate_def result_simps
        split: sum.splits if_splits)
next
  case (Inr u)
  from assms(3) Inr have "bounded_with x req l (bk_try_sign x tr (key_of req) cb) s = Done (Inr (SO_Success ss), s')"
    by (auto simp: provider_bounded_eq [OF assms(1,2)] exec_map_eq_Done result_simps)
  moreover obtain m where "preflight_signing_output x req l = Inr (Inr m)"
    using gate_passes(5) [OF Inr refl] by blast
  ultimately have "signed_with x req (bk_try_sign x tr (key_of req) cb) s = Done (SO_Success ss, s')
      \<and> admits l (length (ss_artifact ss))"
    using bound.bounded_is_unbounded [where c = "(x, tr, key_of req, cb)", OF assms(1) gate_passes(4) [OF Inr]]
      assms(2) by simp
  then show ?thesis by (auto intro: signed_with_attested gate_passes(1) [OF Inr])
qed

text \<open>
  C11: a qualified operation never returns an unverified artifact. When it delivers, with or
  without a policy, its callback has signed the final payload of the request, the signature is
  structurally valid for the algorithm of the request and verifies for the bound key over that
  payload, and the artifact is the payload framed with that signature; under a policy its size
  is admitted. An operation on digests gives the callback the digest of the final payload, and
  the signature still verifies over the payload itself. Only the unqualified operation drops
  the verification.
\<close>

theorem qualified_artifacts_verify:
  assumes "signing_runtime x" and "callback_ok cb" and "length (sreq_payload req) < 2 ^ 62"
  shows "(sign_with_provider x req cb s = Done (SO_Success ss, s') \<longrightarrow>
           attested x qualified_key req cb ss s s') \<and>
         (sign_with_p256_digest_provider x req cb s = Done (SO_Success ss, s') \<longrightarrow>
           attested x qualified_key req (\<lambda>m. cb (sha256 x m)) ss s s') \<and>
         (sign_with_provider_and_resource_limits x req l cb s = Done (Inr (Inr (SO_Success ss)), s') \<longrightarrow>
           attested x qualified_key req cb ss s s' \<and> admits l (length (ss_artifact ss))) \<and>
         (sign_with_p256_digest_provider_and_resource_limits x req l cb s = Done (Inr (Inr (SO_Success ss)), s') \<longrightarrow>
           attested x qualified_key req (\<lambda>m. cb (sha256 x m)) ss s s' \<and> admits l (length (ss_artifact ss))) \<and>
         (attested x qualified_key req cb ss s s' \<longrightarrow>
           (\<exists>prepared sig. prepare_signing_payload req = Inr prepared \<and>
              verify_provider_signature x (psk_public_key (key_of req)) (psp_payload prepared) sig \<and>
              ss_artifact ss = signed_artifact x req prepared sig))"
proof -
  have d: "p256_digest_callback x cb = (\<lambda>m. cb (sha256 x m))" by (intro ext) (simp add: p256_digest_callback_def)
  note ok = callback_ok_digest [OF assms(2), of x, unfolded d]
  show ?thesis
    using provider_unbounded_success [OF assms, of qualified_key None s ss s']
      provider_unbounded_success [OF assms(1) ok assms(3), of qualified_key "Some EcdsaP256Sha256" s ss s']
      provider_bounded_success [OF assms(1,2), of qualified_key req l None s ss s']
      provider_bounded_success [OF assms(1) ok, of qualified_key req l "Some EcdsaP256Sha256" s ss s']
    unfolding sign_with_provider_def sign_with_p256_digest_provider_def d
      sign_with_provider_and_resource_limits_def sign_with_p256_digest_provider_and_resource_limits_def
    by (intro conjI impI) (auto simp: attested_def qualified_key_def signed_success_def)
qed

section \<open>Awaited and synchronous operations\<close>

text \<open>A request with its keys replaced; nothing but the binding depends on them.\<close>

fun rebound :: "('e \<Rightarrow> 'f) \<Rightarrow> ('e, 'e) signing_key \<Rightarrow> ('f, 'f) signing_key" where
  "rebound f (SK_Ed25519 key) = SK_Ed25519 (f key)"
| "rebound f (SK_EcdsaP256Sha256 key) = SK_EcdsaP256Sha256 (f key)"

definition rebound_request :: "('e \<Rightarrow> 'f) \<Rightarrow> ('e, 'e) sign_request \<Rightarrow> ('f, 'f) sign_request" where
  "rebound_request f req =
     \<lparr>sreq_payload = sreq_payload req, sreq_algorithm = sreq_algorithm req,
      sreq_key = rebound f (sreq_key req), sreq_keyid = sreq_keyid req,
      sreq_append_missing_final_newline = sreq_append_missing_final_newline req,
      sreq_output_form = sreq_output_form req,
      sreq_algorithm_parameters = sreq_algorithm_parameters req\<rparr>"

lemma rebound_fields [simp]:
  "sreq_payload (rebound_request f req) = sreq_payload req"
  "sreq_algorithm (rebound_request f req) = sreq_algorithm req"
  "sreq_keyid (rebound_request f req) = sreq_keyid req"
  "sreq_append_missing_final_newline (rebound_request f req) = sreq_append_missing_final_newline req"
  "sreq_output_form (rebound_request f req) = sreq_output_form req"
  "sreq_algorithm_parameters (rebound_request f req) = sreq_algorithm_parameters req"
  "sreq_key (rebound_request f req) = rebound f (sreq_key req)"
  by (simp_all add: rebound_request_def)

lemma request_key_rebound [simp]: "request_key (rebound f key) = f (request_key key)"
  by (cases key) simp_all

lemma rebound_sizes [simp]:
  "checked_yaml_signing_lower_bound x (rebound_request f req) l = checked_yaml_signing_lower_bound x req l"
  "checked_proto_signing_size x (rebound_request f req) l = checked_proto_signing_size x req l"
  by (simp_all add: checked_yaml_signing_lower_bound_def checked_proto_signing_size_def)

lemma rebound_key_algorithm [simp]:
  "validate_key_algorithm (rebound_request f req) = validate_key_algorithm req"
  by (cases "sreq_key req"; cases "sreq_algorithm req") (simp_all add: validate_key_algorithm_def)

lemma rebound_checks [simp]:
  "validate_invocation_parameters (rebound_request f req) = validate_invocation_parameters req"
  "validate_keyid_content (rebound_request f req) = validate_keyid_content req"
  "prepare_signing_payload (rebound_request f req) = prepare_signing_payload req"
  "preflight_signing_output x (rebound_request f req) l = preflight_signing_output x req l"
  by (simp_all add: validate_invocation_parameters_def validate_keyid_content_def
      prepare_signing_payload_def preflight_signing_output_def split: output_form.split)

lemma rebound_validation [simp]:
  "validate_invocation_shape (rebound_request f req) = validate_invocation_shape req"
  "validate_invocation (rebound_request f req) = validate_invocation req"
  by (simp_all add: validate_invocation_shape_def validate_invocation_def)

lemma rebound_emission [simp]:
  "emit_yaml_artifact x p (rebound_request f req) sig = emit_yaml_artifact x p req sig"
  "emit_yaml_artifact_with_resource_limits x p (rebound_request f req) sig l
     = emit_yaml_artifact_with_resource_limits x p req sig l"
  "emit_proto_artifact x p (rebound_request f req) sig = emit_proto_artifact x p req sig"
  by (simp_all add: emit_yaml_artifact_def emit_yaml_artifact_with_resource_limits_def
      emit_proto_artifact_def serialize_yaml_signature_carrier_def)

lemma rebound_finish [simp]:
  "finish_signing x (rebound_request f req) prepared sig limits = finish_signing x req prepared sig limits"
  by (simp add: finish_signing_def Let_def split: output_form.split option.split)

lemma rebound_gate [simp]:
  "provider_gate x bound (rebound_request f req) limits required = provider_gate x bound req limits required"
  by (auto simp: provider_gate_def split: sum.split option.split)

abbreviation awaited_key :: "('key, 's, 'x, 'k) async_bound_key \<Rightarrow> ('key, 'key) sign_request \<Rightarrow> ('s, 'x, 'k) bound_signer" where
  "awaited_key tr req \<equiv> abk_inner tr (key_of req)"

lemma async_inner_eq:
  "async_sign_inner x tr req limits s =
     (case provider_gate x (ppk_algorithm (bs_public_key (awaited_key tr req))) req limits None of
        Inl r \<Rightarrow> Done (r, s)
      | Inr _ \<Rightarrow>
          exec_map (\<lambda>(r, s'). (result_map Inr r, s'))
            (sign_after_invocation_validation x req limits
              (\<lambda>m s. exec_map (\<lambda>(r, s').
                 (result_try (map_err (\<lambda>_. SE_KeyOperationFailure) r) (\<lambda>sig.
                    if \<not> provider_signature_is_structurally_valid x (sreq_algorithm req) sig
                       \<or> abk_self_verify tr
                         \<and> \<not> verify_provider_signature x (bs_public_key (awaited_key tr req)) m sig
                    then Inl SE_KeyOperationFailure else Inr sig), s'))
                 (bs_signer (awaited_key tr req) m s)) s))"
proof (cases "prepare_signing_payload req")
  case (Inl e)
  then show ?thesis
    by (auto simp: async_sign_inner_def provider_gate_def sign_after_invocation_validation_def Let_def
        split: sum.split option.split)
next
  case (Inr prepared)
  have run: "sign_after_invocation_validation x req limits
              (\<lambda>m s. exec_map (\<lambda>(r, s').
                 (result_try (map_err (\<lambda>_. SE_KeyOperationFailure) r) (\<lambda>sig.
                    if \<not> provider_signature_is_structurally_valid x (sreq_algorithm req) sig
                       \<or> abk_self_verify tr
                         \<and> \<not> verify_provider_signature x (bs_public_key (awaited_key tr req)) m sig
                    then Inl SE_KeyOperationFailure else Inr sig), s'))
                 (bs_signer (awaited_key tr req) m s)) s =
     exec_bind (bs_signer (awaited_key tr req) (psp_payload prepared) s) (\<lambda>(r, s').
        case r of
          Inl _ \<Rightarrow> Done (Inr (SO_Signer SE_KeyOperationFailure), s')
        | Inr sig \<Rightarrow>
            if \<not> provider_signature_is_structurally_valid x (sreq_algorithm req) sig
               \<or> abk_self_verify tr
                 \<and> \<not> verify_provider_signature x (bs_public_key (awaited_key tr req)) (psp_payload prepared) sig
            then Done (Inr (SO_Signer SE_KeyOperationFailure), s')
            else exec_map (\<lambda>out. (out, s')) (finish_signing x req prepared sig limits))"
    by (cases "bs_signer (awaited_key tr req) (psp_payload prepared) s")
       (auto simp: sign_after_invocation_validation_def Inr split: sum.split)
  show ?thesis
    unfolding run
    by (cases "bs_signer (awaited_key tr req) (psp_payload prepared) s")
       (auto simp: async_sign_inner_def provider_gate_def Inr Let_def exec_map_map split: sum.split option.split)
qed

text \<open>The synchronous view of an awaited binding.\<close>

definition sync_bound_key :: "('key, 's, 'x, 'k) async_bound_key \<Rightarrow> ('key, 'k) bound_key" where
  "sync_bound_key tr =
     \<lparr>bk_self_verify = abk_self_verify tr, bk_public_key = (\<lambda>key. bs_public_key (abk_inner tr key))\<rparr>"

lemma rebound_pipeline:
  "sign_after_invocation_validation x (rebound_request f req) limits src s =
     sign_after_invocation_validation x req limits src s"
proof -
  have "finish_signing x (rebound_request f req) = finish_signing x req" by (intro ext) simp
  show ?thesis
    unfolding sign_after_invocation_validation_def rebound_checks(3) \<open>finish_signing x (rebound_request f req) = _\<close> ..
qed

lemma async_inner_is_sync:
  assumes "\<And>key. bk_public_key tr' (f key) = bs_public_key (abk_inner tr key)"
    and "bk_self_verify tr' = abk_self_verify tr"
  shows "async_sign_inner x tr req limits s =
     sign_with_provider_inner x tr' (rebound_request f req) limits None
       (signature_signing_callback (bs_signer (awaited_key tr req))) s"
proof (cases "provider_gate x (ppk_algorithm (bs_public_key (awaited_key tr req))) req limits None")
  case (Inr u)
  have "ppk_algorithm (bs_public_key (awaited_key tr req)) = sreq_algorithm req"
    using gate_passes(1) [OF Inr] .
  then have same: "bk_try_sign x tr' (f (key_of req)) (signature_signing_callback (bs_signer (awaited_key tr req))) =
      (\<lambda>m s. exec_map (\<lambda>(r, s').
         (result_try (map_err (\<lambda>_. SE_KeyOperationFailure) r) (\<lambda>sig.
            if \<not> provider_signature_is_structurally_valid x (sreq_algorithm req) sig
               \<or> abk_self_verify tr
                 \<and> \<not> verify_provider_signature x (bs_public_key (awaited_key tr req)) m sig
            then Inl SE_KeyOperationFailure else Inr sig), s'))
         (bs_signer (awaited_key tr req) m s))"
  proof (intro ext)
    fix m s
    show "bk_try_sign x tr' (f (key_of req)) (signature_signing_callback (bs_signer (awaited_key tr req))) m s =
      exec_map (\<lambda>(r, s').
         (result_try (map_err (\<lambda>_. SE_KeyOperationFailure) r) (\<lambda>sig.
            if \<not> provider_signature_is_structurally_valid x (sreq_algorithm req) sig
               \<or> abk_self_verify tr
                 \<and> \<not> verify_provider_signature x (bs_public_key (awaited_key tr req)) m sig
            then Inl SE_KeyOperationFailure else Inr sig), s'))
         (bs_signer (awaited_key tr req) m s)"
      using \<open>ppk_algorithm _ = _\<close>
      by (cases "bs_signer (awaited_key tr req) m s")
         (auto simp: bk_try_sign_def signature_signing_callback_def bk_algorithm_def assms)
  qed
  then show ?thesis
    using Inr by (simp add: async_inner_eq provider_inner_eq bk_algorithm_def assms rebound_pipeline same)
qed (simp add: async_inner_eq provider_inner_eq bk_algorithm_def assms)

text \<open>
  Awaiting changes nothing. Each of the four awaited operations is, on every input and for
  every adapter, the synchronous operation on the same public key with the adapter as its
  callback: same outcome, same final state of the provider, same failure to return.
\<close>

theorem async_signing_is_sync_signing:
  fixes x :: "('u, 'w, 'k, 'z) crypto_ext_scheme"
    and req :: "(('s, 'x, 'k) async_provider_signing_key, ('s, 'x, 'k) async_provider_signing_key) sign_request"
    and ureq :: "(('s, 'x, 'k) unqualified_async_provider_signing_key,
                  ('s, 'x, 'k) unqualified_async_provider_signing_key) sign_request"
  defines "sync \<equiv> rebound_request (\<lambda>key. \<lparr>psk_public_key = bs_public_key (apsk_inner key)\<rparr>)"
    and "usync \<equiv> rebound_request (\<lambda>key. \<lparr>upsk_public_key = bs_public_key (uapsk_inner key)\<rparr>)"
    and "callback \<equiv> \<lambda>inner. signature_signing_callback (bs_signer inner)"
  shows "sign_with_async_provider x req s =
           sign_with_provider x (sync req) (callback (apsk_inner (key_of req))) s \<and>
         sign_with_unqualified_async_provider x ureq s =
           sign_with_unqualified_provider x (usync ureq) (callback (uapsk_inner (key_of ureq))) s \<and>
         sign_with_async_provider_and_resource_limits x req l s =
           sign_with_provider_and_resource_limits x (sync req) l (callback (apsk_inner (key_of req))) s \<and>
         sign_with_unqualified_async_provider_and_resource_limits x ureq l s =
           sign_with_unqualified_provider_and_resource_limits x (usync ureq) l
             (callback (uapsk_inner (key_of ureq))) s"
proof -
  have q: "async_sign_inner x async_qualified_key req limits s =
      sign_with_provider_inner x qualified_key (sync req) limits None (callback (apsk_inner (key_of req))) s"
    for limits
    unfolding sync_def callback_def
    by (subst async_inner_is_sync) (simp_all add: qualified_key_def async_qualified_key_def)
  have u: "async_sign_inner x async_unqualified_key ureq limits s =
      sign_with_provider_inner x unqualified_key (usync ureq) limits None (callback (uapsk_inner (key_of ureq))) s"
    for limits
    unfolding usync_def callback_def
    by (subst async_inner_is_sync) (simp_all add: unqualified_key_def async_unqualified_key_def)
  show ?thesis
    by (simp add: q u sign_with_async_provider_def sign_with_unqualified_async_provider_def
        sign_with_async_provider_and_resource_limits_def sign_with_unqualified_async_provider_and_resource_limits_def
        sign_with_provider_def sign_with_unqualified_provider_def expect_unbounded_def
        sign_with_provider_and_resource_limits_def sign_with_unqualified_provider_and_resource_limits_def)
qed

section \<open>Building a binding\<close>

lemma bounded_copy_resolves:
  "resolve_provider_public_key x a (bounded_public_key_copy a bs) = resolve_provider_public_key x a bs"
  by (cases a) (auto simp: bounded_public_key_copy_def resolve_provider_public_key_def try_array_def)

lemma resolved_algorithm:
  "resolve_provider_public_key x a bs = Some pk \<Longrightarrow> ppk_algorithm pk = a"
  by (cases a) (auto simp: resolve_ed25519_iff resolve_p256_iff)

text \<open>
  The builders. Copying the key bytes only at the exact length of the algorithm loses
  nothing: for both algorithms, building a qualified, an unqualified or an awaited binding
  succeeds on the same bytes, with the key the resolver finds and the algorithm asked for, and
  otherwise reports that algorithm; the resolved key is what the verifier resolves, for Ed25519
  whenever the verifier's key type admits the bytes.
\<close>

theorem builders_agree:
  "(let resolved = ok_or (resolve_provider_public_key x Ed25519 bs) (invalid_public_key Ed25519) in
      builder_build x (builder_ed25519 bs) = result_map (\<lambda>pk. \<lparr>psk_public_key = pk\<rparr>) resolved \<and>
      builder_build_unqualified x (builder_ed25519 bs) = result_map (\<lambda>pk. \<lparr>upsk_public_key = pk\<rparr>) resolved \<and>
      async_builder_build x (async_builder_ed25519 signer bs) =
        result_map (\<lambda>pk. \<lparr>apsk_inner = \<lparr>bs_signer = signer, bs_public_key = pk\<rparr>\<rparr>) resolved \<and>
      async_builder_build_unqualified x (async_builder_ed25519 signer bs) =
        result_map (\<lambda>pk. \<lparr>uapsk_inner = \<lparr>bs_signer = signer, bs_public_key = pk\<rparr>\<rparr>) resolved) \<and>
   (let resolved = ok_or (resolve_provider_public_key x EcdsaP256Sha256 bs) (invalid_public_key EcdsaP256Sha256) in
      builder_build x (builder_ecdsa_p256_sha256 bs) = result_map (\<lambda>pk. \<lparr>psk_public_key = pk\<rparr>) resolved \<and>
      builder_build_unqualified x (builder_ecdsa_p256_sha256 bs) = result_map (\<lambda>pk. \<lparr>upsk_public_key = pk\<rparr>) resolved \<and>
      async_builder_build x (async_builder_ecdsa_p256_sha256 signer bs) =
        result_map (\<lambda>pk. \<lparr>apsk_inner = \<lparr>bs_signer = signer, bs_public_key = pk\<rparr>\<rparr>) resolved \<and>
      async_builder_build_unqualified x (async_builder_ecdsa_p256_sha256 signer bs) =
        result_map (\<lambda>pk. \<lparr>uapsk_inner = \<lparr>bs_signer = signer, bs_public_key = pk\<rparr>\<rparr>) resolved \<and>
      (is_ok resolved \<longleftrightarrow> provider_public_key_is_admissible x EcdsaP256Sha256 bs)) \<and>
   (provider_public_key_is_admissible x Ed25519 bs \<longrightarrow>
      is_ok (builder_build x (builder_ed25519 bs)))"
proof -
  note defs = builder_build_def builder_build_unqualified_def resolve_public_key_def
    async_builder_build_def async_builder_build_unqualified_def async_builder_resolve_def
    async_builder_new_def builder_ed25519_def builder_ecdsa_p256_sha256_def
    async_builder_ed25519_def async_builder_ecdsa_p256_sha256_def invalid_public_key_def
  have ed: "resolve_provider_public_key x Ed25519 bs \<noteq> None"
    if "provider_public_key_is_admissible x Ed25519 bs"
    using that by (auto simp: provider_public_key_is_admissible_def resolve_ed25519_verifying_key_def
        resolve_provider_public_key_def decode_canonical_edwards_point_def try_array_def result_simps
        split: if_splits option.splits)
  have p256: "provider_public_key_is_admissible x EcdsaP256Sha256 bs \<longleftrightarrow>
      resolve_provider_public_key x EcdsaP256Sha256 bs \<noteq> None"
    by (cases "p256_vk_from_sec1 x bs")
       (auto simp: provider_public_key_is_admissible_def resolve_p256_verifying_key_def
        resolve_provider_public_key_def)
  show ?thesis
    using ed p256
    by (cases "resolve_provider_public_key x Ed25519 bs"; cases "resolve_provider_public_key x EcdsaP256Sha256 bs")
       (auto simp: defs bounded_copy_resolves)
qed

end
