(* ===== verification/Sample_Provider.thy ===== *)
theory Sample_Provider
  imports Sample_Signing Provider_Facts
begin

text \<open>
  A provider over the toy curve that counts its operations, and the witnesses of the provider
  properties.
\<close>

definition sample_binding :: "u8 provider_signing_key" where
  "sample_binding = \<lparr>psk_public_key = PPK_Ed25519 (toy_encode 5) 5\<rparr>"

definition sample_callback :: "nat payload_signer" where
  "sample_callback m n = Done (Inr (toy_ed_sign 5 m), n + 1)"

definition sample_provider_request ::
    "(u8 provider_signing_key, u8 provider_signing_key) sign_request" where
  "sample_provider_request =
     \<lparr>sreq_payload = [0x61], sreq_algorithm = Ed25519, sreq_key = SK_Ed25519 sample_binding,
      sreq_keyid = Some [0x6B], sreq_append_missing_final_newline = False,
      sreq_output_form = OF_Protobuf, sreq_algorithm_parameters = []\<rparr>"

lemma sample_binding_builds:
  "builder_build (sample_crypto ()) (builder_ed25519 (toy_encode 5)) = Inr sample_binding"
  by (simp add: builder_build_def builder_ed25519_def resolve_public_key_def bounded_public_key_copy_def
      resolve_provider_public_key_def try_array_def sample_binding_def)

lemma sample_callback_ok [simp]: "callback_ok sample_callback"
  by (auto simp: callback_ok_def sample_callback_def)

lemma sample_provider_checks [simp]:
  "validate_invocation sample_provider_request = Inr ()"
  "prepare_signing_payload sample_provider_request = Inr \<lparr>psp_payload = [0x61], psp_modified_payload = []\<rparr>"
  by (simp_all add: validate_invocation_def validate_invocation_parameters_def signer_capabilities_def
      validate_keyid_content_def validate_key_algorithm_def prepare_signing_payload_def sample_provider_request_def)

lemma sample_provider_key [simp]:
  "bk_algorithm qualified_key (key_of sample_provider_request) = Ed25519"
  "sreq_algorithm sample_provider_request = Ed25519"
  by (simp_all add: sample_provider_request_def bk_algorithm_def qualified_key_def sample_binding_def)

lemma toy_verifies:
  "verify_provider_signature (sample_crypto ()) (PPK_Ed25519 (toy_encode 5) 5) m (toy_ed_sign 5 m)"
  by (simp add: parse_ed25519_signature_def try_array_def toy_ed_sign_def toy_sha512_def Let_def)

lemma sample_try_sign:
  "bk_try_sign (sample_crypto ()) qualified_key (key_of sample_provider_request) sample_callback m n =
     Done (Inr (toy_ed_sign 5 m), n + 1)"
  using toy_verifies [of m] verified_is_structural [OF toy_verifies, of m]
  by (simp add: try_sign_returns sample_callback_def qualified_key_def bk_algorithm_def sample_provider_request_def
      sample_binding_def)

definition sample_delivered :: sign_success where
  "sample_delivered =
     \<lparr>ss_artifact = signed_artifact (sample_crypto ()) sample_provider_request
        \<lparr>psp_payload = [0x61], psp_modified_payload = []\<rparr> (toy_ed_sign 5 [0x61]),
      ss_modified_payload = []\<rparr>"

lemma sample_provider_run:
  "sign_with_provider (sample_crypto ()) sample_provider_request sample_callback 0 =
     Done (SO_Success sample_delivered, 1)"
proof -
  have g: "provider_gate (sample_crypto ()) Ed25519 sample_provider_request None None = Inr ()"
    by (simp add: provider_gate_def)
  have "length (sreq_payload sample_provider_request) < 2 ^ 62"
    by (simp add: sample_provider_request_def)
  from provider_unbounded_eq [OF sample_signing_runtime sample_callback_ok this, of "()" qualified_key None 0]
  show ?thesis
    by (simp add: sign_with_provider_def g signed_with_def sample_try_sign signed_success_def sample_delivered_def)
qed

theorem qualified_artifacts_verify_witness:
  "sign_with_provider (sample_crypto ()) sample_provider_request sample_callback 0 =
     Done (SO_Success sample_delivered, 1) \<and>
   attested (sample_crypto ()) qualified_key sample_provider_request sample_callback sample_delivered 0 1"
proof -
  have "length (sreq_payload sample_provider_request) < 2 ^ 62"
    by (simp add: sample_provider_request_def)
  from qualified_artifacts_verify [of "sample_crypto ()" sample_callback sample_provider_request 0 sample_delivered 1,
      OF sample_signing_runtime sample_callback_ok this, THEN conjunct1, THEN mp, OF sample_provider_run]
  show ?thesis using sample_provider_run by simp
qed

theorem provider_callback_calls_witness:
  "sign_with_provider_inner (sample_crypto ()) qualified_key sample_provider_request None None
       (logged sample_callback) (0, []) =
     Done (Inr (Inr (SO_Success sample_delivered)), (1, [[0x61]]))"
proof -
  let ?x = "sample_crypto ()"
  have g: "provider_gate ?x Ed25519 sample_provider_request None None = Inr ()"
    by (simp add: provider_gate_def)
  have "sign_with_provider_inner ?x qualified_key sample_provider_request None None sample_callback 0 =
      Done (Inr (Inr (SO_Success sample_delivered)), 1)"
    using sample_provider_run
    by (auto simp: sign_with_provider_def expect_unbounded_def exec_bind_eq_Done exec_map_eq_Done
        elim!: expect_ok.elims)
  then show ?thesis
    using provider_callback_calls [of ?x qualified_key sample_provider_request None None sample_callback 0 "[]",
        THEN conjunct1]
    by (simp add: provider_calls_def g)
qed


theorem builders_agree_witness:
  "provider_public_key_is_admissible (sample_crypto ()) Ed25519 (toy_encode 5) \<and>
   is_ok (builder_build (sample_crypto ()) (builder_ed25519 (toy_encode 5)))"
proof -
  have "provider_public_key_is_admissible (sample_crypto ()) Ed25519 (toy_encode 5)"
    by (simp add: provider_public_key_is_admissible_def resolve_ed25519_verifying_key_def
        decode_canonical_edwards_point_def try_array_def)
  then show ?thesis
    using builders_agree [of "sample_crypto ()" "toy_encode 5", THEN conjunct2, THEN conjunct2, THEN mp] by simp
qed

end
