(* ===== verification/Transcode.thy ===== *)
theory Transcode
  imports Signing_Facts
begin

text \<open>
  Transcoding a signed artifact between its two forms: \<open>transcription.rs\<close> of
  \<open>yaml-sigil-signing\<close>. An artifact is decomposed, its metadata read from one carrier and
  written to the other, and the parts composed again; the payload and the signature octets are
  never touched.
\<close>

section \<open>The operations\<close>

datatype transcode_error =
    TE_NotSignedYamlStream
  | TE_PayloadInvariant
  | TE_InvalidSignatureBase64
  | TE_UnknownYamlAlg
  | TE_UnsupportedWireAlg
  | TE_SchemaMismatch
  | TE_Core core_error
  | TE_YamlSerialize str

definition yaml_decompose :: "bytes \<Rightarrow> transcode_error + (bytes \<times> bytes)" where
  "yaml_decompose yaml_artifact =
     (case decompose \<lparr>dr_artifact = yaml_artifact, dr_form = TF_Yaml, dr_outer_conformance = None\<rparr> of
        DR_Invocation e \<Rightarrow> Inl TE_NotSignedYamlStream
      | DR_Structural s \<Rightarrow>
          if ds_outcome s \<noteq> DC_Ok then Inl TE_NotSignedYamlStream
          else
            result_try (ok_or (ds_payload s) TE_NotSignedYamlStream) (\<lambda>payload.
            result_try (ok_or (ds_signature_carrier s) TE_NotSignedYamlStream) (\<lambda>carrier.
            Inr (payload, carrier))))"

definition proto_decompose :: "bytes \<Rightarrow> transcode_error + (bytes \<times> bytes)" where
  "proto_decompose wire =
     (case decompose \<lparr>dr_artifact = wire, dr_form = TF_Protobuf, dr_outer_conformance = Some SignatureStrict\<rparr> of
        DR_Invocation e \<Rightarrow> Inl TE_NotSignedYamlStream
      | DR_Structural s \<Rightarrow>
          if ds_outcome s \<noteq> DC_Ok then Inl TE_NotSignedYamlStream
          else
            result_try (ok_or (ds_payload s) TE_NotSignedYamlStream) (\<lambda>payload.
            result_try (ok_or (ds_signature_carrier s) TE_NotSignedYamlStream) (\<lambda>carrier.
            Inr (payload, carrier))))"

definition yaml_to_proto_components ::
    "('u, 'w, 'z) yaml_ext_scheme \<Rightarrow> bytes \<Rightarrow> (transcode_error + (bytes \<times> bytes)) exec" where
  "yaml_to_proto_components x yaml_artifact =
     (case result_try (yaml_decompose yaml_artifact) (\<lambda>(payload, carrier).
           result_try (map_err (\<lambda>_. TE_PayloadInvariant) (validate_payload_stream payload)) (\<lambda>_.
           result_try (map_err TE_Core (parse_signature_document x carrier)) (\<lambda>doc.
           result_try (map_err (\<lambda>_. TE_SchemaMismatch) (validate_schema doc)) (\<lambda>_.
           result_try (ok_or (b64_decode x (sd_signature doc)) TE_InvalidSignatureBase64) (\<lambda>sig_octets.
           result_try (ok_or (from_yaml_str x (sd_alg doc)) TE_UnknownYamlAlg) (\<lambda>alg_id.
           Inr (payload, alg_id, sig_octets, sd_keyid doc))))))) of
        Inl e \<Rightarrow> Done (Inl e)
      | Inr (payload, alg_id, sig_octets, keyid) \<Rightarrow>
          exec_map (\<lambda>inner_carrier. Inr (payload, inner_carrier))
            (encode_inner_signature_carrier x alg_id sig_octets keyid))"

definition signed_yaml_stream_to_proto_wire ::
    "('u, 'w, 'z) yaml_ext_scheme \<Rightarrow> bytes \<Rightarrow> (transcode_error + bytes) exec" where
  "signed_yaml_stream_to_proto_wire x yaml_artifact =
     exec_bind (yaml_to_proto_components x yaml_artifact) (\<lambda>r.
       case r of
         Inl e \<Rightarrow> Done (Inl e)
       | Inr (payload, inner_carrier) \<Rightarrow> exec_map Inr (compose_proto_outer x payload inner_carrier))"

definition signed_yaml_stream_to_proto_wire_with_resource_limits ::
    "('u, 'w, 'z) yaml_ext_scheme \<Rightarrow> bytes \<Rightarrow> artifact_resource_limits
       \<Rightarrow> (encode_error + (transcode_error + bytes)) resource_result exec" where
  "signed_yaml_stream_to_proto_wire_with_resource_limits x yaml_artifact limits =
     (case check_input_size limits RF_Yaml yaml_artifact of
        Inl re \<Rightarrow> Done (Inl re)
      | Inr _ \<Rightarrow>
          exec_map (\<lambda>r.
            case r of
              Inl e \<Rightarrow> Inr (Inr (Inl e))
            | Inr (payload, inner_carrier) \<Rightarrow>
                result_map (result_map Inr)
                  (compose_proto_outer_with_resource_limits x payload inner_carrier limits))
            (yaml_to_proto_components x yaml_artifact))"

definition proto_to_yaml_components ::
    "('u, 'w, 'z) yaml_ext_scheme \<Rightarrow> bytes \<Rightarrow> transcode_error + (bytes \<times> str)" where
  "proto_to_yaml_components x wire =
     result_try (proto_decompose wire) (\<lambda>(payload, carrier).
     result_try (map_err (\<lambda>_. TE_PayloadInvariant) (validate_payload_stream payload)) (\<lambda>_.
     result_try (map_err TE_Core (view_signature_carrier x carrier)) (\<lambda>view.
     result_try (ok_or (from_i32 x (pav_alg_wire view)) TE_UnsupportedWireAlg) (\<lambda>alg.
     let doc = \<lparr>sd_schema = SCHEMA_V1ALPHA1, sd_alg = as_yaml_str x alg,
                sd_keyid = pav_keyid view, sd_signature = b64_encode x (pav_signature view)\<rparr> in
     result_try (map_err (\<lambda>e. TE_YamlSerialize (core_error_display e))
         (serialize_signature_document x doc)) (\<lambda>body.
     Inr (payload, if \<not> ends_with body [0x0A] then body @ [0x0A] else body))))))"

fun transcoded :: "compose_outcome \<Rightarrow> transcode_error + bytes" where
  "transcoded (CO_Success s) = Inr (cs_artifact s)"
| "transcoded (CO_Invocation e) = Inl TE_NotSignedYamlStream"
| "transcoded (CO_Error e) = Inl TE_NotSignedYamlStream"

definition proto_wire_to_signed_yaml_stream ::
    "('u, 'w, 'z) yaml_ext_scheme \<Rightarrow> bytes \<Rightarrow> (transcode_error + bytes) exec" where
  "proto_wire_to_signed_yaml_stream x wire =
     (case proto_to_yaml_components x wire of
        Inl e \<Rightarrow> Done (Inl e)
      | Inr (payload, body) \<Rightarrow>
          exec_map transcoded
            (compose x \<lparr>cr_payload = payload, cr_signature_carrier = body, cr_form = TF_Yaml\<rparr>))"

definition proto_wire_to_signed_yaml_stream_with_resource_limits ::
    "('u, 'w, 'z) yaml_ext_scheme \<Rightarrow> bytes \<Rightarrow> artifact_resource_limits
       \<Rightarrow> (transcode_error + bytes) resource_result exec" where
  "proto_wire_to_signed_yaml_stream_with_resource_limits x wire limits =
     (case check_input_size limits RF_Protobuf wire of
        Inl re \<Rightarrow> Done (Inl re)
      | Inr _ \<Rightarrow>
          (case proto_to_yaml_components x wire of
             Inl e \<Rightarrow> Done (Inr (Inl e))
           | Inr (payload, body) \<Rightarrow>
               (case ok_or (add_usize (checked_add_usize (length payload) 4) (length body))
                       (size_computation_overflow limits RF_Yaml) of
                  Inl re \<Rightarrow> Done (Inl re)
                | Inr encoded_size \<Rightarrow>
                    (case check_output_size limits RF_Yaml encoded_size of
                       Inl re \<Rightarrow> Done (Inl re)
                     | Inr _ \<Rightarrow>
                         exec_map (\<lambda>outcome. Inr (transcoded outcome))
                           (compose x \<lparr>cr_payload = payload, cr_signature_carrier = body,
                                       cr_form = TF_Yaml\<rparr>)))))"

section \<open>Reading an emitted carrier\<close>

text \<open>
  The protobuf runtime reads back the canonical encoding of a signature message: each field
  present once, in order, and nothing unknown.
\<close>

definition carrier_decode_ok :: "('u, 'w, 'z) buffa_ext_scheme \<Rightarrow> bool" where
  "carrier_decode_ok x \<longleftrightarrow>
     (\<forall>a keyid sig. (case keyid of Some k \<Rightarrow> utf8_valid k | None \<Rightarrow> True) \<longrightarrow>
        length (proto_carrier x a keyid sig) \<le> unat (max_message_bytes x) \<longrightarrow>
        (\<exists>g. buffa_decode_signature x (proto_carrier x a keyid sig) = Inr g \<and>
             gs_alg g = algorithm_wire_value a \<and> gs_keyid g = keyid \<and> gs_signature g = sig \<and>
             uf_is_empty x (gs_unknown g)))"

lemma view_proto_carrier:
  assumes "carrier_decode_ok x" and "case keyid of Some k \<Rightarrow> utf8_valid k | None \<Rightarrow> True"
    and "length (proto_carrier x a keyid sig) \<le> unat (max_message_bytes x)"
  shows "view_signature_carrier x (proto_carrier x a keyid sig) =
    Inr \<lparr>pav_payload = [], pav_alg_wire = algorithm_wire_value a, pav_signature = sig, pav_keyid = keyid\<rparr>"
  using assms unfolding carrier_decode_ok_def
  by (fastforce simp: view_signature_carrier_def decode_signature_carrier_def signature_decode_def
      decode_generated_signature_def signature_from_generated_def)

section \<open>Transcoding what signing emits\<close>

lemma yaml_decompose_envelope:
  assumes "traits_ok x" and "b64_ok x" and "validate_payload_stream p = Inr ()"
  shows "yaml_decompose (p @ yaml_marker @ yaml_carrier x a k sig) = Inr (p, yaml_carrier x a k sig)"
proof -
  have "yaml_admissible p (yaml_carrier x a k sig)"
    using yaml_carrier_facts [OF assms(1,2)] assms(3) by (simp add: yaml_admissible_def)
  from yaml_codec.dec_enc [OF this] show ?thesis
    by (simp add: yaml_decompose_def decompose_yaml_eq yaml_envelope_def structural_def)
qed

lemma proto_decompose_envelope:
  assumes "length (envelope_bytes p c) < 2 ^ 64"
  shows "proto_decompose (envelope_bytes p c) = Inr (p, c)"
  using proto_codec.dec_enc [of p c SignatureStrict] assms
  by (simp add: proto_decompose_def decompose_proto_eq proto_admissible_def structural_def)

abbreviation keyid_wf :: "str option \<Rightarrow> bool" where
  "keyid_wf k \<equiv> (case k of Some k \<Rightarrow> utf8_valid k | None \<Rightarrow> True)"

lemma yaml_to_proto_emitted:
  assumes "signing_runtime x" and "yaml_flat_ok x" and "keyid_wf k"
    and "validate_payload_stream p = Inr ()"
    and "length (yaml_carrier x a k sig) \<le> SIGNATURE_DOCUMENT_MAX_TOTAL_SCALAR_BYTES"
    and "length (proto_carrier x a k sig) \<le> unat (max_message_bytes x)"
  shows "yaml_to_proto_components x (artifact_of x OF_Yaml a k p sig) = Done (Inr (p, proto_carrier x a k sig))"
proof -
  have ok: "traits_ok x" "b64_ok x" "buffa_ok x" using assms(1) by (simp_all add: signing_runtime_def)
  let ?doc = "\<lparr>sd_schema = SCHEMA_V1ALPHA1, sd_alg = as_yaml_str x a, sd_keyid = k, sd_signature = b64_encode x sig\<rparr>"
  have "parse_signature_document x (yaml_carrier x a k sig) = Inr ?doc"
    using parse_serialized [OF ok(1,2) assms(2) _ serialize_yaml_carrier [OF ok(1,2)] assms(5)] assms(3)
    by (simp add: document_wf_def)
  moreover have "from_yaml_str x (as_yaml_str x a) = Some a"
    using traits_okD(1,2) [OF ok(1)] by simp
  ultimately show ?thesis
    using b64_okD(2) [OF ok(2)] assms(4,6)
    by (simp add: yaml_to_proto_components_def yaml_decompose_envelope [OF ok(1,2)] validate_schema_def
        encode_inner_signature_carrier_eq [OF ok(3)])
qed

lemma proto_to_yaml_emitted:
  assumes "signing_runtime x" and "carrier_decode_ok x" and "keyid_wf k"
    and "validate_payload_stream p = Inr ()"
    and "length (proto_carrier x a k sig) \<le> unat (max_message_bytes x)"
    and "length (artifact_of x OF_Protobuf a k p sig) < 2 ^ 64"
  shows "proto_to_yaml_components x (artifact_of x OF_Protobuf a k p sig) = Inr (p, yaml_carrier x a k sig)"
proof -
  have ok: "traits_ok x" "b64_ok x" using assms(1) by (simp_all add: signing_runtime_def)
  have alg: "from_i32 x (algorithm_wire_value a) = Some a"
    using ok(1) by (cases a) (simp_all add: traits_ok_def)
  have "ends_with (yaml_carrier x a k sig) [0x0A]"
    using yaml_carrier_facts [OF ok] by (simp add: ends_with_single)
  then show ?thesis
    using assms(6) view_proto_carrier [OF assms(2,3,5)] assms(4)
    by (simp add: proto_to_yaml_components_def proto_decompose_envelope alg
        serialize_yaml_carrier [OF ok])
qed

text \<open>
  C12: transcoding is a bijection on signed artifacts. The YAML artifact and the protobuf
  artifact of one payload, algorithm, key identifier and signature transcode into each other, so
  a round trip in either direction returns the artifact unchanged, the payload and the signature
  octets are preserved, and the result is the artifact signing would have emitted in that form.
\<close>

theorem transcoding_roundtrip:
  assumes "signing_runtime x" and "yaml_flat_ok x" and "carrier_decode_ok x" and "keyid_wf k"
    and "validate_payload_stream p = Inr ()"
    and "length (yaml_carrier x a k sig) \<le> SIGNATURE_DOCUMENT_MAX_TOTAL_SCALAR_BYTES"
    and "length (proto_carrier x a k sig) \<le> unat (max_message_bytes x)"
    and "length (artifact_of x OF_Protobuf a k p sig) < 2 ^ 64"
  shows "signed_yaml_stream_to_proto_wire x (artifact_of x OF_Yaml a k p sig) =
           Done (Inr (artifact_of x OF_Protobuf a k p sig)) \<and>
         proto_wire_to_signed_yaml_stream x (artifact_of x OF_Protobuf a k p sig) =
           Done (Inr (artifact_of x OF_Yaml a k p sig))"
proof -
  have ok: "traits_ok x" "b64_ok x" "buffa_ok x" using assms(1) by (simp_all add: signing_runtime_def)
  have "compose_proto_outer x p (proto_carrier x a k sig) = Done (artifact_of x OF_Protobuf a k p sig)"
    using assms(8) compose_raw_outer_eq [OF buffa_ok_vec [OF ok(3)]] by (simp add: compose_proto_outer_def)
  moreover have "compose x \<lparr>cr_payload = p, cr_signature_carrier = yaml_carrier x a k sig, cr_form = TF_Yaml\<rparr> =
      Done (CO_Success \<lparr>cs_artifact = artifact_of x OF_Yaml a k p sig, cs_form = TF_Yaml\<rparr>)"
    using assms(5) yaml_carrier_facts [OF ok(1,2)] by (simp add: compose_yaml_eq)
  ultimately show ?thesis
    by (simp only: signed_yaml_stream_to_proto_wire_def proto_wire_to_signed_yaml_stream_def
        yaml_to_proto_emitted [OF assms(1,2,4-7)] proto_to_yaml_emitted [OF assms(1,3,4,5,7,8)]
        exec_bind.simps exec_map.simps sum.case prod.case transcoded.simps compose_success.simps)
qed


section \<open>Transcoding any bytes\<close>

text \<open>
  What the YAML reader and the base64 decoder guarantee about sizes: the strings of a document
  read under the signature configuration are within its scalar budget, and decoding does not
  lengthen.
\<close>

definition parsed_sizes_ok :: "('u, 'w, 'z) yaml_ext_scheme \<Rightarrow> bool" where
  "parsed_sizes_ok x \<longleftrightarrow>
     (\<forall>t doc. noyalib_document x (signature_document_parser_config x) t = Inr doc \<longrightarrow>
        (case sd_keyid doc of Some k \<Rightarrow> length k | None \<Rightarrow> 0) + length (sd_signature doc)
          \<le> SIGNATURE_DOCUMENT_MAX_TOTAL_SCALAR_BYTES) \<and>
     (\<forall>s d. b64_decode x s = Some d \<longrightarrow> length d \<le> length s)"

lemma parsed_document_sizes:
  assumes "parsed_sizes_ok x" and "parse_signature_document x c = Inr doc"
    and "b64_decode x (sd_signature doc) = Some sig"
  shows "(case sd_keyid doc of Some k \<Rightarrow> length k | None \<Rightarrow> 0) + length sig
          \<le> SIGNATURE_DOCUMENT_MAX_TOTAL_SCALAR_BYTES"
proof -
  from assms(2) obtain t where "noyalib_document x (signature_document_parser_config x) t = Inr doc"
    by (auto simp: parse_signature_document_def result_simps Let_def split: if_splits)
  then have "(case sd_keyid doc of Some k \<Rightarrow> length k | None \<Rightarrow> 0) + length (sd_signature doc)
      \<le> SIGNATURE_DOCUMENT_MAX_TOTAL_SCALAR_BYTES"
    using assms(1) by (simp add: parsed_sizes_ok_def)
  moreover have "length sig \<le> length (sd_signature doc)"
    using assms(1,3) by (simp add: parsed_sizes_ok_def)
  ultimately show ?thesis by simp
qed

lemma proto_carrier_fits:
  assumes "buffa_ok x" and "message_ceiling_ok x"
    and "(case k of Some k \<Rightarrow> length k | None \<Rightarrow> 0) + length sig \<le> SIGNATURE_DOCUMENT_MAX_TOTAL_SCALAR_BYTES"
  shows "length (proto_carrier x a k sig) \<le> unat (max_message_bytes x)"
    and "length (proto_carrier x a k sig) < 2 ^ 62"
proof -
  have small: "field_octets n \<le> n + 11" if "n < 2 ^ 64" for n
    using length_varint_bytes_10 [OF that] by (simp add: field_octets_def)
  have "length (proto_carrier x a k sig) \<le> 2 ^ 16"
  proof (cases k)
    case None
    then show ?thesis
      using assms(3) small [of "length sig"]
      by (simp add: length_proto_carrier [OF assms(1)] SIGNATURE_DOCUMENT_MAX_TOTAL_SCALAR_BYTES_def)
  next
    case (Some kid)
    then show ?thesis
      using assms(3) small [of "length sig"] small [of "length kid"]
      by (simp add: length_proto_carrier [OF assms(1)] SIGNATURE_DOCUMENT_MAX_TOTAL_SCALAR_BYTES_def)
  qed
  then show "length (proto_carrier x a k sig) \<le> unat (max_message_bytes x)"
    and "length (proto_carrier x a k sig) < 2 ^ 62"
    using assms(2) by (simp_all add: message_ceiling_ok_def)
qed

lemma yaml_decompose_parts:
  assumes "yaml_decompose a = Inr (p, c)"
  shows "length p \<le> length a"
proof -
  from assms have "decompose_yaml a = structural DC_Ok (Some p) (Some c)"
    by (auto simp: yaml_decompose_def decompose_yaml_eq structural_def decompose_yaml_def result_simps
        split: decomposition_outcome.splits if_splits)
  then show ?thesis by (auto simp: decompose_yaml_Ok)
qed

lemma yaml_components_cases:
  obtains e where "yaml_to_proto_components x a = Done (Inl e)"
  | p c doc sig alg where "yaml_decompose a = Inr (p, c)" and "parse_signature_document x c = Inr doc"
      and "b64_decode x (sd_signature doc) = Some sig"
      and "yaml_to_proto_components x a =
        exec_map (\<lambda>i. Inr (p, i)) (encode_inner_signature_carrier x alg sig (sd_keyid doc))"
proof -
  let ?read = "result_try (yaml_decompose a) (\<lambda>(payload, carrier).
           result_try (map_err (\<lambda>_. TE_PayloadInvariant) (validate_payload_stream payload)) (\<lambda>_.
           result_try (map_err TE_Core (parse_signature_document x carrier)) (\<lambda>doc.
           result_try (map_err (\<lambda>_. TE_SchemaMismatch) (validate_schema doc)) (\<lambda>_.
           result_try (ok_or (b64_decode x (sd_signature doc)) TE_InvalidSignatureBase64) (\<lambda>sig_octets.
           result_try (ok_or (from_yaml_str x (sd_alg doc)) TE_UnknownYamlAlg) (\<lambda>alg_id.
           Inr (payload, alg_id, sig_octets, sd_keyid doc)))))))"
  show thesis
  proof (cases ?read)
    case (Inl e)
    then show thesis by (intro that(1) [of e]) (simp add: yaml_to_proto_components_def)
  next
    case (Inr r)
    obtain p alg sig k where r: "r = (p, alg, sig, k)" by (cases r) auto
    from Inr obtain c doc where "yaml_decompose a = Inr (p, c)" "parse_signature_document x c = Inr doc"
      "b64_decode x (sd_signature doc) = Some sig" "k = sd_keyid doc"
      by (auto simp: r result_simps)
    then show thesis
      using Inr by (intro that(2) [of p c doc sig alg]) (simp_all add: yaml_to_proto_components_def r)
  qed
qed

lemma yaml_components_total:
  assumes "buffa_ok x" and "message_ceiling_ok x" and "parsed_sizes_ok x" and "length a < 2 ^ 62"
  shows "\<exists>r. yaml_to_proto_components x a = Done r \<and>
    (\<forall>p c. r = Inr (p, c) \<longrightarrow> length (envelope_bytes p c) < 2 ^ 64)"
proof (cases rule: yaml_components_cases [of x a])
  case (2 p c doc sig alg)
  note fits = proto_carrier_fits [OF assms(1,2) parsed_document_sizes [OF assms(3) 2(2,3)], of alg]
  have "length p < 2 ^ 62" using yaml_decompose_parts [OF 2(1)] assms(4) by simp
  then show ?thesis
    using length_envelope_bytes_bound fits 2(4) by (simp add: encode_inner_signature_carrier_eq [OF assms(1)])
qed auto

lemma proto_components_compose:
  assumes "traits_ok x" and "b64_ok x" and "proto_to_yaml_components x w = Inr (p, body)"
  shows "compose x \<lparr>cr_payload = p, cr_signature_carrier = body, cr_form = TF_Yaml\<rparr> =
    Done (CO_Success \<lparr>cs_artifact = p @ yaml_marker @ body, cs_form = TF_Yaml\<rparr>)"
proof -
  from assms(3) obtain doc out where "validate_payload_stream p = Inr ()"
    and out: "serialize_signature_document x doc = Inr out"
      "body = (if \<not> ends_with out [0x0A] then out @ [0x0A] else out)"
    by (auto simp: proto_to_yaml_components_def result_simps Let_def)
  moreover have "body = out"
    using serialized_carrier(3,4) [OF assms(1,2) out(1)] out(2) by (simp add: ends_with_single)
  ultimately show ?thesis
    using serialized_carrier(1) [OF assms(1,2) out(1)] by (simp add: compose_yaml_eq)
qed

text \<open>
  Transcoding any bytes. No input below 2^62 octets panics in either direction, with or
  without a policy, although the protobuf encoders it calls panic on a message that is too
  large. Under a policy the source is checked first; an error of the format is then the error
  of the unbounded operation, and a result is its result, delivered exactly when its size can
  be counted and is admitted and, in protobuf form, is within the message ceiling.
\<close>

theorem transcoding_under_a_policy:
  assumes "signing_runtime x" and "parsed_sizes_ok x" and "length a < 2 ^ 62"
  shows "(\<exists>r. signed_yaml_stream_to_proto_wire x a = Done r \<and>
           signed_yaml_stream_to_proto_wire_with_resource_limits x a l = Done
             (result_try (check_input_size l RF_Yaml a) (\<lambda>_.
                case r of
                  Inl e \<Rightarrow> Inr (Inr (Inl e))
                | Inr w \<Rightarrow> result_try (check_output_size l RF_Protobuf (length w)) (\<lambda>_.
                             Inr (if length w \<le> unat (max_message_bytes x) then Inr (Inr w)
                                  else Inl message_too_large))))) \<and>
         (\<exists>r. proto_wire_to_signed_yaml_stream x a = Done r \<and>
           proto_wire_to_signed_yaml_stream_with_resource_limits x a l = Done
             (result_try (check_input_size l RF_Protobuf a) (\<lambda>_.
                case r of
                  Inl e \<Rightarrow> Inr (Inl e)
                | Inr w \<Rightarrow> if length w < 2 ^ 64
                           then result_try (check_output_size l RF_Yaml (length w)) (\<lambda>_. Inr (Inr w))
                           else Inl (size_computation_overflow l RF_Yaml))))"
proof -
  have ok: "traits_ok x" "b64_ok x" "buffa_ok x" "message_ceiling_ok x"
    using assms(1) by (simp_all add: signing_runtime_def)
  note vec = buffa_ok_vec [OF ok(3)]
  obtain r where r: "yaml_to_proto_components x a = Done r"
    "\<And>p c. r = Inr (p, c) \<Longrightarrow> length (envelope_bytes p c) < 2 ^ 64"
    using yaml_components_total [OF ok(3,4) assms(2,3)] by blast
  show ?thesis
  proof (intro conjI)
    show "\<exists>r. signed_yaml_stream_to_proto_wire x a = Done r \<and>
           signed_yaml_stream_to_proto_wire_with_resource_limits x a l = Done
             (result_try (check_input_size l RF_Yaml a) (\<lambda>_.
                case r of
                  Inl e \<Rightarrow> Inr (Inr (Inl e))
                | Inr w \<Rightarrow> result_try (check_output_size l RF_Protobuf (length w)) (\<lambda>_.
                             Inr (if length w \<le> unat (max_message_bytes x) then Inr (Inr w)
                                  else Inl message_too_large))))"
    proof (cases r)
      case (Inl e)
      then show ?thesis
        by (cases "check_input_size l RF_Yaml a")
           (simp_all add: r signed_yaml_stream_to_proto_wire_def
             signed_yaml_stream_to_proto_wire_with_resource_limits_def)
    next
      case (Inr pc)
      obtain p c where pc: "pc = (p, c)" by (cases pc)
      with Inr r have n: "length (envelope_bytes p c) < 2 ^ 64" by simp
      have "signed_yaml_stream_to_proto_wire x a = Done (Inr (envelope_bytes p c))"
        using n by (simp add: signed_yaml_stream_to_proto_wire_def r Inr pc compose_proto_outer_def
            compose_raw_outer_eq [OF vec])
      then show ?thesis
        by (cases "check_input_size l RF_Yaml a"; cases "check_output_size l RF_Protobuf (length (envelope_bytes p c))")
           (simp_all add: r Inr pc signed_yaml_stream_to_proto_wire_with_resource_limits_def
             compose_proto_outer_with_resource_limits_def compose_raw_outer_with_limits_eq [OF vec n])
    qed
  next
    show "\<exists>r. proto_wire_to_signed_yaml_stream x a = Done r \<and>
           proto_wire_to_signed_yaml_stream_with_resource_limits x a l = Done
             (result_try (check_input_size l RF_Protobuf a) (\<lambda>_.
                case r of
                  Inl e \<Rightarrow> Inr (Inl e)
                | Inr w \<Rightarrow> if length w < 2 ^ 64
                           then result_try (check_output_size l RF_Yaml (length w)) (\<lambda>_. Inr (Inr w))
                           else Inl (size_computation_overflow l RF_Yaml)))"
    proof (cases "proto_to_yaml_components x a")
      case (Inl e)
      then show ?thesis
        by (cases "check_input_size l RF_Protobuf a")
           (simp_all add: proto_wire_to_signed_yaml_stream_def
             proto_wire_to_signed_yaml_stream_with_resource_limits_def)
    next
      case (Inr pb)
      obtain p body where pb: "pb = (p, body)" by (cases pb)
      define n where "n = length p + 4 + length body"
      have n: "length p + (length yaml_marker + length body) = n" by (simp add: n_def yaml_marker_def)
      have w: "proto_wire_to_signed_yaml_stream x a = Done (Inr (p @ yaml_marker @ body))"
        using proto_components_compose [OF ok(1,2)] Inr
        by (simp add: proto_wire_to_signed_yaml_stream_def pb)
      show ?thesis
        unfolding w proto_wire_to_signed_yaml_stream_with_resource_limits_def Inr pb sum.case prod.case
          capped_simps n_def [symmetric] exec.inject
        using proto_components_compose [OF ok(1,2), of a p body] Inr
        by (cases "check_input_size l RF_Protobuf a"; cases "check_output_size l RF_Yaml n")
           (simp_all add: n pb)
    qed
  qed
qed

end
