(* ===== verification/Sample_Transcode.thy ===== *)
theory Sample_Transcode
  imports Sample_Yaml Transcode
begin

text \<open>
  The sample runtime reads back the signature messages it is given, so the hypotheses of the
  transcoding properties hold on it; the witnesses transcode a concrete artifact.
\<close>

section \<open>Reading back a signature message\<close>

declare sample_fields.simps [simp del]

lemma read_tag_signature:
  "read_tag (pre @ 0x08 # post) (length pre) = Some (1, 0, Suc (length pre))"
  "read_tag (pre @ 0x1A # post) (length pre) = Some (3, 2, Suc (length pre))"
  using read_varint_written [of 8 pre post] read_varint_written [of 26 pre post]
  by (simp_all add: varint_bytes_single octet_def read_tag_def MAX_PROTOBUF_FIELD_NUMBER_def)

lemma sample_fields_end: "length wire \<le> i \<Longrightarrow> sample_fields wire i = Inr []"
  by (simp add: sample_fields.simps)

lemma sample_len_field:
  assumes "read_tag wire (length pre) = Some (f, 2, Suc (length pre))"
    and "wire = pre @ b # varint_bytes (length v) @ v @ post" and "length v < 2 ^ 64"
  shows "sample_fields wire (length pre) = result_map ((#) (SLen f v))
    (sample_fields wire (length pre + 1 + length (varint_bytes (length v)) + length v))"
proof -
  have "read_length wire (length (pre @ [b])) = Some (length v,
      length (pre @ [b]) + length (varint_bytes (length v)))"
    using read_length_written [of "length v" "pre @ [b]" "v @ post"] assms(2,3) by simp
  then have r: "read_length wire (Suc (length pre)) = Some (length v,
      Suc (length pre) + length (varint_bytes (length v)))"
    by (simp add: assms(2))
  have lengths: "length pre < length wire"
    "Suc (length pre) + length (varint_bytes (length v)) + length v \<le> length wire"
    and v: "take (length v) (drop (Suc (length pre) + length (varint_bytes (length v))) wire) = v"
    by (simp_all add: assms(2))
  from assms(1) r lengths v show ?thesis
    by (simp add: sample_fields.simps [of wire "length pre"])
qed

text \<open>The optional fields of a signature message, and the reading of its suffixes.\<close>

definition signature_field :: "bytes \<Rightarrow> bytes" where
  "signature_field sig = (if sig \<noteq> [] then len_field_bytes 3 sig else [])"

definition signature_read :: "bytes \<Rightarrow> sample_field list" where
  "signature_read sig = (if sig \<noteq> [] then [SLen 3 sig] else [])"

lemma sample_signature_tail:
  assumes "length sig < 2 ^ 64"
  shows "sample_fields (pre @ (signature_field sig)) (length pre) =
    Inr (signature_read sig)"
proof (cases "sig = []")
  case False
  let ?w = "pre @ len_field_bytes 3 sig"
  have w: "?w = pre @ 0x1A # varint_bytes (length sig) @ sig @ []" by (simp add: len_field_bytes_def)
  have "sample_fields ?w (length pre) = result_map ((#) (SLen 3 sig))
      (sample_fields ?w (length pre + 1 + length (varint_bytes (length sig)) + length sig))"
    using read_tag_signature(2) [of pre] w assms by (intro sample_len_field) simp_all
  then show ?thesis using False by (simp add: sample_fields_end w signature_field_def signature_read_def)
qed (simp add: sample_fields_end signature_field_def signature_read_def)

definition keyid_field :: "str option \<Rightarrow> bytes" where
  "keyid_field k = (case k of Some kid \<Rightarrow> len_field_bytes 2 kid | None \<Rightarrow> [])"

lemma sample_keyid_tail:
  assumes "length sig < 2 ^ 64" and "case k of Some kid \<Rightarrow> length kid < 2 ^ 64 | None \<Rightarrow> True"
  shows "sample_fields (pre @ keyid_field k @ (signature_field sig)) (length pre) =
    Inr ((case k of Some kid \<Rightarrow> [SLen 2 kid] | None \<Rightarrow> []) @ signature_read sig)"
proof (cases k)
  case None
  then show ?thesis using sample_signature_tail [OF assms(1), of pre] by (simp add: keyid_field_def)
next
  case (Some kid)
  let ?post = "signature_field sig"
  let ?w = "pre @ len_field_bytes 2 kid @ ?post"
  have w: "?w = pre @ 0x12 # varint_bytes (length kid) @ kid @ ?post" by (simp add: len_field_bytes_def)
  have "sample_fields ?w (length pre) = result_map ((#) (SLen 2 kid))
      (sample_fields ?w (length pre + 1 + length (varint_bytes (length kid)) + length kid))"
    using read_tag_known(2) [of pre] w assms(2) Some by (intro sample_len_field) simp_all
  moreover have "sample_fields ?w (length (pre @ len_field_bytes 2 kid)) = Inr (signature_read sig)"
    using sample_signature_tail [OF assms(1), of "pre @ len_field_bytes 2 kid"] by simp
  moreover have "length pre + 1 + length (varint_bytes (length kid)) + length kid = length (pre @ len_field_bytes 2 kid)"
    by (simp add: len_field_bytes_def)
  ultimately show ?thesis using Some by (simp add: keyid_field_def del: length_append)
qed

lemma sample_signature_fields:
  assumes "length sig < 2 ^ 64" and "case k of Some kid \<Rightarrow> length kid < 2 ^ 64 | None \<Rightarrow> True" and "n < 128"
  shows "sample_fields (0x08 # octet n # keyid_field k @ (signature_field sig)) 0 =
    Inr (SVarint 1 (of_nat n) # (case k of Some kid \<Rightarrow> [SLen 2 kid] | None \<Rightarrow> [])
           @ signature_read sig)"
proof -
  let ?post = "keyid_field k @ (signature_field sig)"
  let ?w = "0x08 # octet n # ?post"
  have "read_tag ?w 0 = Some (1, 0, 1)" using read_tag_signature(1) [of "[]" "octet n # ?post"] by simp
  moreover have "read_varint ?w 1 = Some (of_nat n, 2)"
    using read_varint_written [of n "[0x08]" ?post] assms(3) by (simp add: varint_bytes_single)
  moreover have "sample_fields ?w 2 = Inr ((case k of Some kid \<Rightarrow> [SLen 2 kid] | None \<Rightarrow> [])
      @ signature_read sig)"
    using sample_keyid_tail [OF assms(1,2), of "[0x08, octet n]"] by (simp add: numeral_2_eq_2)
  ultimately show ?thesis by (subst sample_fields.simps) simp
qed

lemma sample_carrier_bytes:
  "proto_carrier (sample_yaml rest) a k sig =
     0x08 # octet (case a of Ed25519 \<Rightarrow> 1 | EcdsaP256Sha256 \<Rightarrow> 2)
       # keyid_field k @ (signature_field sig)"
proof -
  have "puts_bytes (uf_write (sample_yaml rest) (uf_new (sample_yaml rest))) = []"
    using sample_yaml_buffa_ok [of rest] by (simp add: buffa_ok_def)
  then show ?thesis
    by (cases a)
       (simp_all add: proto_carrier_def signature_wire_def signature_fields_wire_def sig_set_keyid_def
         signature_new_def signature_default_def keyid_field_def signature_field_def varint_bytes_single
         scast_algorithm [of Ed25519, simplified] scast_algorithm [of EcdsaP256Sha256, simplified])
qed

lemma sample_reader_simps [simp]:
  "buffa_decode_signature (sample_yaml rest) = sample_decode_signature"
  "uf_is_empty (sample_yaml rest) u \<longleftrightarrow> u = []"
  by (simp_all add: sample_yaml_def sample_buffa_def buffa_ext.defs)

lemma sample_carrier_decode_ok [simp]: "carrier_decode_ok (sample_yaml rest)"
  unfolding carrier_decode_ok_def
proof (intro allI impI)
  fix a k sig
  assume utf8: "case k of Some k \<Rightarrow> utf8_valid k | None \<Rightarrow> True"
    and len: "length (proto_carrier (sample_yaml rest) a k sig) \<le> unat (max_message_bytes (sample_yaml rest))"
  have "length (proto_carrier (sample_yaml rest) a k sig) < 2 ^ 32"
    using len by simp
  then have small: "length sig < 2 ^ 64" "case k of Some kid \<Rightarrow> length kid < 2 ^ 64 | None \<Rightarrow> True"
    by (auto simp: sample_carrier_bytes keyid_field_def signature_field_def len_field_bytes_def
        split: option.splits if_splits)
  show "\<exists>g. buffa_decode_signature (sample_yaml rest) (proto_carrier (sample_yaml rest) a k sig) = Inr g \<and>
      gs_alg g = algorithm_wire_value a \<and> gs_keyid g = k \<and> gs_signature g = sig \<and>
      uf_is_empty (sample_yaml rest) (gs_unknown g)"
    using utf8 sample_signature_fields [OF small, of 1] sample_signature_fields [OF small, of 2]
    by (cases a; cases k; cases "sig = []")
       (simp_all add: sample_carrier_bytes sample_decode_signature_def empty_signature_def signature_read_def)
qed


section \<open>Witnesses\<close>

lemma utf8_sample_keyid: "utf8_valid (ascii ''k'' @ [0x0A])"
  by (simp add: utf8_valid_ascii_Cons)

lemma sample_yaml_runtime [simp]: "signing_runtime (sample_yaml rest)"
  by (simp add: signing_runtime_def message_ceiling_ok_def)

lemma sample_yaml_carrier:
  "yaml_carrier sample_runtime Ed25519 (Some (ascii ''k'' @ [0x0A])) [1, 2, 3] = sample_carrier"
proof -
  have e: "sample_b64_encode [1, 2, 3] = ascii ''AQID''" by code_simp
  have s: "sample_string (ascii ''AQID'') = Inr (ascii ''AQID'')"
    by (simp add: sample_string_def is_digit_def)
  show ?thesis
    unfolding yaml_carrier_def sample_carrier_def sample_yaml_simps e canonical_name.simps
    by (simp add: emitted_signature_def plain_yaml_scalar_round_trips_as_string_def s del: ascii_Cons)
qed

theorem transcoding_roundtrip_witness:
  "signed_yaml_stream_to_proto_wire sample_runtime ([0x61, 0x0A] @ yaml_marker @ sample_carrier) =
     Done (Inr (envelope_bytes [0x61, 0x0A]
       (proto_carrier sample_runtime Ed25519 (Some (ascii ''k'' @ [0x0A])) [1, 2, 3])))"
proof -
  let ?k = "Some (ascii ''k'' @ [0x0A])" and ?p = "[0x61, 0x0A] :: bytes"
  have c: "length (proto_carrier sample_runtime Ed25519 ?k [1, 2, 3]) = 11"
    by (simp add: sample_carrier_bytes keyid_field_def signature_field_def len_field_bytes_def varint_bytes_single)
  have "length (yaml_carrier sample_runtime Ed25519 ?k [1, 2, 3]) \<le> 200"
    unfolding sample_yaml_carrier by (rule length_sample_carrier)
  moreover have "validate_payload_stream ?p = Inr ()" by code_simp
  ultimately have "signed_yaml_stream_to_proto_wire sample_runtime (artifact_of sample_runtime OF_Yaml Ed25519 ?k ?p [1, 2, 3]) =
      Done (Inr (artifact_of sample_runtime OF_Protobuf Ed25519 ?k ?p [1, 2, 3]))"
    using utf8_sample_keyid c
    by (intro transcoding_roundtrip [THEN conjunct1])
       (simp_all add: SIGNATURE_DOCUMENT_MAX_TOTAL_SCALAR_BYTES_def length_envelope_bytes
         varint_bytes_single)
  then show ?thesis unfolding artifact_of.simps sample_yaml_carrier .
qed

text \<open>A reader that knows one document, and so keeps every string within the budget.\<close>

definition one_document_runtime :: "(put list, put list) yaml_ext" where
  "one_document_runtime = sample_runtime\<lparr>noyalib_document := (\<lambda>c t. Inr sample_doc)\<rparr>"

lemma b64_octets_shrink: "b64_octets ns = Some d \<Longrightarrow> length d \<le> length ns"
  by (induction ns arbitrary: d rule: b64_octets.induct) (fastforce split: if_splits)+

lemma one_document_ok [simp]:
  "signing_runtime one_document_runtime" "parsed_sizes_ok one_document_runtime"
proof -
  have "b64_decode one_document_runtime s = Some d \<Longrightarrow> length d \<le> length s" for s d
    using b64_octets_shrink [of "map (\<lambda>b. the (b64_value b)) s" d]
    by (simp add: one_document_runtime_def sample_b64_decode_def split: if_splits)
  then show "parsed_sizes_ok one_document_runtime"
    by (auto simp: parsed_sizes_ok_def one_document_runtime_def sample_doc_def
        SIGNATURE_DOCUMENT_MAX_TOTAL_SCALAR_BYTES_def)
  show "signing_runtime one_document_runtime"
    using sample_yaml_runtime [of "()"]
    by (simp add: one_document_runtime_def signing_runtime_def traits_ok_def b64_ok_def buffa_ok_def
        message_ceiling_ok_def)
qed

theorem transcoding_under_a_policy_witness:
  "signed_yaml_stream_to_proto_wire_with_resource_limits one_document_runtime [0x61]
     (with_max_artifact_bytes unbounded 0) =
   Done (Inl \<lparr>are_kind = InputArtifactTooLarge, are_form = Some RF_Yaml,
              are_configured_max = Some 0, are_observed = Some 1\<rparr>)"
  using transcoding_under_a_policy [OF one_document_ok, of "[0x61]" "with_max_artifact_bytes unbounded 0",
      THEN conjunct1]
  by (auto simp: check_defs with_max_artifact_bytes_def unbounded_def)

end
