(* ===== verification/Verification.thy ===== *)
theory Verification
  imports Transcode
begin

text \<open>
  The verifier: \<open>lib.rs\<close>, \<open>yaml_verify.rs\<close> and \<open>proto_verify.rs\<close> of
  \<open>yaml-sigil-verification\<close> and the advertised policies of \<open>conformance.rs\<close>. An artifact is
  decomposed and its metadata extracted without keys; the extracted signature is then checked
  in a fixed order and handed to a key. A key is anything with the items of the key traits of
  the source: whether it is admissible, and an operation on a payload and a signature, which
  for a provider may change the provider's state, not return, or panic.
\<close>

section \<open>Requests and results\<close>

record verifier_options =
  vo_verify_ed25519 :: bool
  vo_verify_ecdsa_p256_sha256 :: bool
  vo_algorithm_parameters :: bytes

datatype verifier_state =
    VS_Verified bytes algorithm_id
  | VS_SignedButFailedVerification
  | VS_SignedButAlgorithmUnsupported algorithm_id
  | VS_MalformedAttemptedSigned
  | VS_Unsigned

datatype pre_verify_outcome =
    PV_Ok
  | PV_Unsigned
  | PV_StructuralFailure
  | PV_MetadataParseFailure

record unverified_signature =
  us_algorithm :: algorithm_id
  us_keyid :: "str option"
  us_signature_octets :: bytes

record pre_verify_response =
  pr_outcome :: pre_verify_outcome
  pr_form :: artifact_form
  pr_unverified_payload_bytes :: "bytes option"
  pr_unverified_signature :: "unverified_signature option"
  pr_parser_observations :: "str list"

record verify_result =
  vr_state :: verifier_state
  vr_parser_observations :: "str list"

record ('e, 'p) public_keys =
  pk_ed25519 :: "'e option"
  pk_p256 :: "'p option"

record verifier_capabilities_record =
  vcap_conformance_profile :: conformance_profile
  vcap_protobuf_wire_decode :: wire_decode_advertisement
  vcap_yaml_signature_duplicate_key_policy :: yaml_field_policy
  vcap_yaml_signature_unknown_field_policy :: yaml_field_policy
  vcap_yaml_signature_unknown_field_policies :: "yaml_field_policy list"
  vcap_supported_forms :: "artifact_form list"
  vcap_supported_algorithms :: "algorithm_id list"
  vcap_supports_can_pre_verify :: bool
  vcap_supports_pre_verify :: bool

type_synonym verdict = "invocation_error + verifier_state"

definition DEFAULT_YAML_UNKNOWN_FIELD_POLICY :: yaml_field_policy where
  "DEFAULT_YAML_UNKNOWN_FIELD_POLICY = RejectedAtParse"

definition yaml_unknown_field_policies :: "yaml_field_policy list" where
  "yaml_unknown_field_policies = [DEFAULT_YAML_UNKNOWN_FIELD_POLICY]"

definition verifier_capabilities :: verifier_capabilities_record where
  "verifier_capabilities =
     \<lparr>vcap_conformance_profile = CP_Permissive,
      vcap_protobuf_wire_decode = UnprofiledStockDecoder,
      vcap_yaml_signature_duplicate_key_policy = RejectedAtParse,
      vcap_yaml_signature_unknown_field_policy = DEFAULT_YAML_UNKNOWN_FIELD_POLICY,
      vcap_yaml_signature_unknown_field_policies = yaml_unknown_field_policies,
      vcap_supported_forms = [AF_Yaml, AF_Proto],
      vcap_supported_algorithms = [Ed25519, EcdsaP256Sha256],
      vcap_supports_can_pre_verify = True,
      vcap_supports_pre_verify = True\<rparr>"

fun verification_resource_form :: "artifact_form \<Rightarrow> artifact_resource_form" where
  "verification_resource_form AF_Yaml = RF_Yaml"
| "verification_resource_form AF_Proto = RF_Protobuf"

section \<open>Metadata extraction, YAML form\<close>

fun preverify_outcome_from_decompose :: "decompose_outcome \<Rightarrow> bool \<Rightarrow> pre_verify_outcome" where
  "preverify_outcome_from_decompose DC_Ok allow_unsigned = PV_Ok"
| "preverify_outcome_from_decompose DC_Unsigned allow_unsigned =
     (if allow_unsigned then PV_Unsigned else PV_StructuralFailure)"
| "preverify_outcome_from_decompose DC_MalformedAttemptedSigned allow_unsigned = PV_StructuralFailure"

definition keyid_is_valid :: "str \<Rightarrow> bool" where
  "keyid_is_valid keyid \<longleftrightarrow>
     (let len = length keyid in (1 \<le> len \<and> len \<le> 1024) \<and> \<not> (0x0D \<in> set keyid \<or> 0x0A \<in> set keyid))"

definition decode_sig_b64 :: "('u, 'w, 'z) yaml_ext_scheme \<Rightarrow> str \<Rightarrow> unit + bytes" where
  "decode_sig_b64 x s = ok_or (b64_decode x s) ()"

definition extract_yaml_metadata ::
    "('u, 'w, 'z) yaml_ext_scheme \<Rightarrow> bytes \<Rightarrow> pre_verify_outcome + unverified_signature" where
  "extract_yaml_metadata x carrier =
     result_try (map_err (\<lambda>_. PV_MetadataParseFailure) (parse_signature_document x carrier)) (\<lambda>doc.
     if \<not> is_ok (validate_schema doc) then Inl PV_MetadataParseFailure
     else
       result_try (ok_or (from_yaml_str x (sd_alg doc)) PV_MetadataParseFailure) (\<lambda>alg.
       if (case sd_keyid doc of Some keyid \<Rightarrow> \<not> keyid_is_valid keyid | None \<Rightarrow> False)
       then Inl PV_MetadataParseFailure
       else
         result_try (map_err (\<lambda>_. PV_MetadataParseFailure) (decode_sig_b64 x (sd_signature doc))) (\<lambda>octets.
         Inr \<lparr>us_algorithm = alg, us_keyid = sd_keyid doc, us_signature_octets = octets\<rparr>)))"

definition failed_response :: "pre_verify_outcome \<Rightarrow> artifact_form \<Rightarrow> pre_verify_response" where
  "failed_response outcome form =
     \<lparr>pr_outcome = outcome, pr_form = form, pr_unverified_payload_bytes = None,
      pr_unverified_signature = None, pr_parser_observations = []\<rparr>"

definition extracted_response ::
    "artifact_form \<Rightarrow> bytes \<Rightarrow> pre_verify_outcome + unverified_signature \<Rightarrow> pre_verify_response" where
  "extracted_response form payload metadata =
     (case metadata of
        Inr sig \<Rightarrow> \<lparr>pr_outcome = PV_Ok, pr_form = form, pr_unverified_payload_bytes = Some payload,
                    pr_unverified_signature = Some sig, pr_parser_observations = []\<rparr>
      | Inl outcome \<Rightarrow> failed_response outcome form)"

definition pre_verify_yaml_inner ::
    "('u, 'w, 'z) yaml_ext_scheme \<Rightarrow> bytes \<Rightarrow> bool \<Rightarrow> bool \<Rightarrow> pre_verify_response exec" where
  "pre_verify_yaml_inner x artifact allow_unsigned include_parser_observations =
     (case decompose \<lparr>dr_artifact = artifact, dr_form = TF_Yaml, dr_outer_conformance = None\<rparr> of
        DR_Invocation e \<Rightarrow> Done (failed_response PV_StructuralFailure AF_Yaml)
      | DR_Structural s \<Rightarrow>
          (let base_outcome = preverify_outcome_from_decompose (ds_outcome s) allow_unsigned in
           if base_outcome \<noteq> PV_Ok then Done (failed_response base_outcome AF_Yaml)
           else
             exec_bind (expect_some (ds_payload s)) (\<lambda>payload.
             exec_bind (expect_some (ds_signature_carrier s)) (\<lambda>carrier.
             if \<not> is_ok (validate_payload_stream payload)
             then Done (failed_response PV_StructuralFailure AF_Yaml)
             else Done (extracted_response AF_Yaml payload (extract_yaml_metadata x carrier))))))"

section \<open>Metadata extraction, protobuf form\<close>

definition default_outer_conformance :: outer_conformance where
  "default_outer_conformance = SignatureStrict"

definition extract_proto_metadata ::
    "('u, 'w, 'z) buffa_ext_scheme \<Rightarrow> bytes \<Rightarrow> pre_verify_outcome + unverified_signature" where
  "extract_proto_metadata x carrier =
     result_try (map_err (\<lambda>_. PV_MetadataParseFailure) (view_signature_carrier x carrier)) (\<lambda>inner.
     if sint (pav_alg_wire inner) \<le> 0 then Inl PV_MetadataParseFailure
     else
       result_try (ok_or (from_i32 x (pav_alg_wire inner)) PV_MetadataParseFailure) (\<lambda>algorithm.
       if (case pav_keyid inner of Some keyid \<Rightarrow> \<not> keyid_is_valid keyid | None \<Rightarrow> False)
       then Inl PV_MetadataParseFailure
       else Inr \<lparr>us_algorithm = algorithm, us_keyid = pav_keyid inner,
                 us_signature_octets = pav_signature inner\<rparr>))"

definition pre_verify_proto_inner ::
    "('u, 'w, 'z) buffa_ext_scheme \<Rightarrow> bytes \<Rightarrow> bool \<Rightarrow> pre_verify_response exec" where
  "pre_verify_proto_inner x wire include_parser_observations =
     (let outer = default_outer_conformance in
      case decompose \<lparr>dr_artifact = wire, dr_form = TF_Protobuf, dr_outer_conformance = Some outer\<rparr> of
        DR_Invocation e \<Rightarrow> Done (failed_response PV_StructuralFailure AF_Proto)
      | DR_Structural s \<Rightarrow>
          if ds_outcome s \<noteq> DC_Ok then Done (failed_response PV_StructuralFailure AF_Proto)
          else
            exec_bind (expect_some (ds_payload s)) (\<lambda>payload.
            exec_bind (expect_some (ds_signature_carrier s)) (\<lambda>carrier.
            Done (extracted_response AF_Proto payload (extract_proto_metadata x carrier)))))"

definition pre_verify ::
    "('u, 'w, 'z) yaml_ext_scheme \<Rightarrow> bytes \<Rightarrow> artifact_form \<Rightarrow> bool \<Rightarrow> bool \<Rightarrow> pre_verify_response exec" where
  "pre_verify x input_bytes form allow_unsigned include_parser_observations =
     (case form of
        AF_Yaml \<Rightarrow> pre_verify_yaml_inner x input_bytes allow_unsigned include_parser_observations
      | AF_Proto \<Rightarrow> pre_verify_proto_inner x input_bytes include_parser_observations)"

definition pre_verify_with_resource_limits ::
    "('u, 'w, 'z) yaml_ext_scheme \<Rightarrow> bytes \<Rightarrow> artifact_form \<Rightarrow> bool \<Rightarrow> bool \<Rightarrow> artifact_resource_limits
       \<Rightarrow> pre_verify_response resource_result exec" where
  "pre_verify_with_resource_limits x input_bytes form allow_unsigned include_parser_observations limits =
     (case check_input_size limits (verification_resource_form form) input_bytes of
        Inl re \<Rightarrow> Done (Inl re)
      | Inr _ \<Rightarrow> exec_map Inr (pre_verify x input_bytes form allow_unsigned include_parser_observations))"

definition pre_verify_yaml ::
    "('u, 'w, 'z) yaml_ext_scheme \<Rightarrow> bytes \<Rightarrow> bool \<Rightarrow> pre_verify_response exec" where
  "pre_verify_yaml x artifact allow_unsigned = pre_verify x artifact AF_Yaml allow_unsigned False"

definition pre_verify_yaml_with_resource_limits ::
    "('u, 'w, 'z) yaml_ext_scheme \<Rightarrow> bytes \<Rightarrow> bool \<Rightarrow> artifact_resource_limits
       \<Rightarrow> pre_verify_response resource_result exec" where
  "pre_verify_yaml_with_resource_limits x artifact allow_unsigned limits =
     (case check_input_size limits RF_Yaml artifact of
        Inl re \<Rightarrow> Done (Inl re)
      | Inr _ \<Rightarrow> exec_map Inr (pre_verify_yaml x artifact allow_unsigned))"

definition pre_verify_proto :: "('u, 'w, 'z) yaml_ext_scheme \<Rightarrow> bytes \<Rightarrow> pre_verify_response exec" where
  "pre_verify_proto x wire = pre_verify x wire AF_Proto False False"

definition pre_verify_proto_with_resource_limits ::
    "('u, 'w, 'z) yaml_ext_scheme \<Rightarrow> bytes \<Rightarrow> artifact_resource_limits
       \<Rightarrow> pre_verify_response resource_result exec" where
  "pre_verify_proto_with_resource_limits x wire limits =
     (case check_input_size limits RF_Protobuf wire of
        Inl re \<Rightarrow> Done (Inl re)
      | Inr _ \<Rightarrow> exec_map Inr (pre_verify_proto x wire))"

definition can_pre_verify ::
    "('u, 'w, 'z) yaml_ext_scheme \<Rightarrow> bytes \<Rightarrow> artifact_form \<Rightarrow> bool \<Rightarrow> bool exec" where
  "can_pre_verify x input_bytes form allow_unsigned =
     exec_map (\<lambda>pre. case pr_outcome pre of
         PV_Ok \<Rightarrow> True
       | PV_Unsigned \<Rightarrow> allow_unsigned \<and> form = AF_Yaml
       | _ \<Rightarrow> False)
       (pre_verify x input_bytes form allow_unsigned False)"

definition can_pre_verify_with_resource_limits ::
    "('u, 'w, 'z) yaml_ext_scheme \<Rightarrow> bytes \<Rightarrow> artifact_form \<Rightarrow> bool \<Rightarrow> artifact_resource_limits
       \<Rightarrow> bool resource_result exec" where
  "can_pre_verify_with_resource_limits x input_bytes form allow_unsigned limits =
     (case check_input_size limits (verification_resource_form form) input_bytes of
        Inl re \<Rightarrow> Done (Inl re)
      | Inr _ \<Rightarrow> exec_map Inr (can_pre_verify x input_bytes form allow_unsigned))"


section \<open>Keys\<close>

datatype key_verification_outcome =
    KV_Verified
  | KV_MalformedSignature
  | KV_SignatureMismatch
  | KV_ProviderFailure

text \<open>
  The items of the two key traits, which have one shape for both algorithms: whether a key is
  admissible, and its operation on a payload and a signature of 64 octets.
\<close>

record ('key, 's) verification_key =
  vk_is_admissible :: "'key \<Rightarrow> bool"
  vk_verify_signature :: "'key \<Rightarrow> bytes \<Rightarrow> bytes \<Rightarrow> ('s, key_verification_outcome) stateful"

definition ed25519_key :: "('u, 'w, 'k, 'z) crypto_ext_scheme \<Rightarrow> ('k, 's) verification_key" where
  "ed25519_key x =
     \<lparr>vk_is_admissible = ed25519_verifying_key_is_admissible x,
      vk_verify_signature = (\<lambda>key payload signature s.
        Done (if is_ok (verify_ed25519 x key payload signature) then KV_Verified else KV_SignatureMismatch, s))\<rparr>"

definition p256_key :: "('u, 'w, 'k, 'z) crypto_ext_scheme \<Rightarrow> ('k, 's) verification_key" where
  "p256_key x =
     \<lparr>vk_is_admissible = (\<lambda>key. True),
      vk_verify_signature = (\<lambda>key payload signature s.
        Done (case verify_ecdsa_p256_sha256 x key payload signature of
                Inr _ \<Rightarrow> KV_Verified
              | Inl EV_MalformedSignature \<Rightarrow> KV_MalformedSignature
              | Inl EV_EquationFailure \<Rightarrow> KV_SignatureMismatch, s))\<rparr>"

section \<open>Verification of an extracted signature\<close>

datatype ('e, 'p) prepared_verification =
    PVF_Complete verifier_state
  | PVF_Ed25519 'e bytes
  | PVF_P256 'p bytes

definition prepare_signature_verification ::
    "('u, 'w, 'k, 'z) crypto_ext_scheme \<Rightarrow> ('e \<Rightarrow> bool) \<Rightarrow> ('p \<Rightarrow> bool) \<Rightarrow> i32 \<Rightarrow> bytes
       \<Rightarrow> ('e, 'p) public_keys \<Rightarrow> verifier_options
       \<Rightarrow> (invocation_error + ('e, 'p) prepared_verification) exec" where
  "prepare_signature_verification x ed_admissible p256_admissible wire_alg sig_octets keys options =
     (if sint wire_alg \<le> 0 then Done (Inr (PVF_Complete VS_MalformedAttemptedSigned))
      else
        (case from_i32 x wire_alg of
           None \<Rightarrow> Done (Inr (PVF_Complete VS_MalformedAttemptedSigned))
         | Some alg \<Rightarrow>
             if sig_octets = [] then Done (Inr (PVF_Complete VS_MalformedAttemptedSigned))
             else if length sig_octets \<noteq> 64 then Done (Inr (PVF_Complete VS_MalformedAttemptedSigned))
             else
               (case alg of
                  Ed25519 \<Rightarrow>
                    if \<not> vo_verify_ed25519 options
                    then Done (Inr (PVF_Complete (VS_SignedButAlgorithmUnsupported alg)))
                    else if \<not> ed25519_signature_is_canonical x sig_octets
                    then Done (Inr (PVF_Complete VS_MalformedAttemptedSigned))
                    else
                      (case pk_ed25519 keys of
                         None \<Rightarrow> Done (Inl IE_KeyResolutionFailure)
                       | Some vk \<Rightarrow>
                           if \<not> ed_admissible vk then Done (Inl IE_KeyResolutionFailure)
                           else exec_map (\<lambda>signature. Inr (PVF_Ed25519 vk signature))
                                  (expect_some (try_array 64 sig_octets)))
                | EcdsaP256Sha256 \<Rightarrow>
                    if \<not> vo_verify_ecdsa_p256_sha256 options
                    then Done (Inr (PVF_Complete (VS_SignedButAlgorithmUnsupported alg)))
                    else
                      (case pk_p256 keys of
                         None \<Rightarrow> Done (Inl IE_KeyResolutionFailure)
                       | Some vk \<Rightarrow>
                           if \<not> ecdsa_p256_signature_is_well_formed x sig_octets
                           then Done (Inr (PVF_Complete VS_MalformedAttemptedSigned))
                           else if \<not> p256_admissible vk then Done (Inl IE_KeyResolutionFailure)
                           else exec_map (\<lambda>signature. Inr (PVF_P256 vk signature))
                                  (expect_some (try_array 64 sig_octets))))))"

fun verification_state_from_outcome ::
    "key_verification_outcome \<Rightarrow> bytes \<Rightarrow> algorithm_id \<Rightarrow> verdict" where
  "verification_state_from_outcome KV_Verified payload algorithm = Inr (VS_Verified payload algorithm)"
| "verification_state_from_outcome KV_MalformedSignature payload algorithm = Inr VS_MalformedAttemptedSigned"
| "verification_state_from_outcome KV_SignatureMismatch payload algorithm = Inr VS_SignedButFailedVerification"
| "verification_state_from_outcome KV_ProviderFailure payload algorithm = Inl IE_KeyResolutionFailure"

definition verify_extracted_signature_with_keys ::
    "('u, 'w, 'k, 'z) crypto_ext_scheme \<Rightarrow> ('e, 's) verification_key \<Rightarrow> ('p, 's) verification_key
       \<Rightarrow> bytes \<Rightarrow> i32 \<Rightarrow> bytes \<Rightarrow> ('e, 'p) public_keys \<Rightarrow> verifier_options \<Rightarrow> ('s, verdict) stateful" where
  "verify_extracted_signature_with_keys x ed p256 payload wire_alg sig_octets keys options s =
     exec_bind (prepare_signature_verification x (vk_is_admissible ed) (vk_is_admissible p256)
         wire_alg sig_octets keys options) (\<lambda>prepared.
       case prepared of
         Inl e \<Rightarrow> Done (Inl e, s)
       | Inr (PVF_Complete state) \<Rightarrow> Done (Inr state, s)
       | Inr (PVF_Ed25519 key signature) \<Rightarrow>
           exec_map (\<lambda>(outcome, s'). (verification_state_from_outcome outcome payload Ed25519, s'))
             (vk_verify_signature ed key payload signature s)
       | Inr (PVF_P256 key signature) \<Rightarrow>
           exec_map (\<lambda>(outcome, s'). (verification_state_from_outcome outcome payload EcdsaP256Sha256, s'))
             (vk_verify_signature p256 key payload signature s))"

text \<open>The keys of this crate have no state; its operations run on a trivial one.\<close>

definition verify_extracted_signature ::
    "('u, 'w, 'k, 'z) crypto_ext_scheme \<Rightarrow> bytes \<Rightarrow> i32 \<Rightarrow> bytes \<Rightarrow> ('k, 'k) public_keys
       \<Rightarrow> verifier_options \<Rightarrow> verdict exec" where
  "verify_extracted_signature x payload wire_alg sig_octets keys options =
     exec_map fst (verify_extracted_signature_with_keys x (ed25519_key x) (p256_key x)
       payload wire_alg sig_octets keys options ())"

fun wire_algorithm :: "algorithm_id \<Rightarrow> i32" where
  "wire_algorithm Ed25519 = 1"
| "wire_algorithm EcdsaP256Sha256 = 2"

definition verify_from_pre_verify_yaml_inner ::
    "('u, 'w, 'k, 'z) crypto_ext_scheme \<Rightarrow> pre_verify_response \<Rightarrow> ('k, 'k) public_keys
       \<Rightarrow> verifier_options \<Rightarrow> verdict exec" where
  "verify_from_pre_verify_yaml_inner x pre keys options =
     (if pr_form pre \<noteq> AF_Yaml \<or> pr_outcome pre \<noteq> PV_Ok then Done (Inl IE_InvalidPreVerifyResult)
      else
        (case (pr_unverified_payload_bytes pre, pr_unverified_signature pre) of
           (Some payload, Some sig) \<Rightarrow>
             verify_extracted_signature x payload (wire_algorithm (us_algorithm sig))
               (us_signature_octets sig) keys options
         | _ \<Rightarrow> Done (Inl IE_InvalidPreVerifyResult)))"

definition verify_from_pre_verify_proto_inner ::
    "('u, 'w, 'k, 'z) crypto_ext_scheme \<Rightarrow> pre_verify_response \<Rightarrow> ('k, 'k) public_keys
       \<Rightarrow> verifier_options \<Rightarrow> verdict exec" where
  "verify_from_pre_verify_proto_inner x pre keys options =
     (if pr_form pre \<noteq> AF_Proto \<or> pr_outcome pre \<noteq> PV_Ok then Done (Inl IE_InvalidPreVerifyResult)
      else
        (case (pr_unverified_payload_bytes pre, pr_unverified_signature pre) of
           (Some payload, Some sig) \<Rightarrow>
             verify_extracted_signature x payload (wire_algorithm (us_algorithm sig))
               (us_signature_octets sig) keys options
         | _ \<Rightarrow> Done (Inl IE_InvalidPreVerifyResult)))"

definition verify_yaml_inner ::
    "('u, 'w, 'k, 'z) crypto_ext_scheme \<Rightarrow> bytes \<Rightarrow> ('k, 'k) public_keys \<Rightarrow> verifier_options
       \<Rightarrow> bool \<Rightarrow> (invocation_error + (verifier_state \<times> str list)) exec" where
  "verify_yaml_inner x artifact keys options include_parser_observations =
     exec_bind (pre_verify_yaml_inner x artifact False include_parser_observations) (\<lambda>pre.
       let obs = (if include_parser_observations then pr_parser_observations pre else []) in
       case pr_outcome pre of
         PV_Ok \<Rightarrow> exec_map (result_map (\<lambda>state. (state, obs)))
                   (verify_from_pre_verify_yaml_inner x pre keys options)
       | PV_Unsigned \<Rightarrow> Done (Inr (VS_Unsigned, obs))
       | PV_StructuralFailure \<Rightarrow> Done (Inr (VS_MalformedAttemptedSigned, obs))
       | PV_MetadataParseFailure \<Rightarrow> Done (Inr (VS_MalformedAttemptedSigned, obs)))"

definition verify_proto_inner ::
    "('u, 'w, 'k, 'z) crypto_ext_scheme \<Rightarrow> bytes \<Rightarrow> ('k, 'k) public_keys \<Rightarrow> verifier_options
       \<Rightarrow> bool \<Rightarrow> (invocation_error + (verifier_state \<times> str list)) exec" where
  "verify_proto_inner x wire keys options include_parser_observations =
     exec_bind (pre_verify_proto_inner x wire include_parser_observations) (\<lambda>pre.
       let obs = (if include_parser_observations then pr_parser_observations pre else []) in
       case pr_outcome pre of
         PV_Ok \<Rightarrow> exec_map (result_map (\<lambda>state. (state, obs)))
                   (verify_from_pre_verify_proto_inner x pre keys options)
       | PV_Unsigned \<Rightarrow> Done (Inr (VS_Unsigned, obs))
       | PV_StructuralFailure \<Rightarrow> Done (Inr (VS_MalformedAttemptedSigned, obs))
       | PV_MetadataParseFailure \<Rightarrow> Done (Inr (VS_MalformedAttemptedSigned, obs)))"

section \<open>Entry points\<close>

definition verify_with_metadata ::
    "('u, 'w, 'k, 'z) crypto_ext_scheme \<Rightarrow> bytes \<Rightarrow> artifact_form \<Rightarrow> ('k, 'k) public_keys
       \<Rightarrow> verifier_options \<Rightarrow> bool \<Rightarrow> (invocation_error + verify_result) exec" where
  "verify_with_metadata x input_bytes form keys options include_parser_observations =
     (let caps = verifier_capabilities in
      if form \<notin> set (vcap_supported_forms caps) then Done (Inl IE_InvalidOrUnsupportedForm)
      else if vo_algorithm_parameters options \<noteq> [] then Done (Inl IE_InvalidAlgorithmParameters)
      else
        exec_map (result_map (\<lambda>(state, obs). \<lparr>vr_state = state, vr_parser_observations = obs\<rparr>))
          (case form of
             AF_Yaml \<Rightarrow> verify_yaml_inner x input_bytes keys options include_parser_observations
           | AF_Proto \<Rightarrow> verify_proto_inner x input_bytes keys options include_parser_observations))"

definition verify_with_metadata_and_resource_limits ::
    "('u, 'w, 'k, 'z) crypto_ext_scheme \<Rightarrow> bytes \<Rightarrow> artifact_form \<Rightarrow> ('k, 'k) public_keys
       \<Rightarrow> verifier_options \<Rightarrow> bool \<Rightarrow> artifact_resource_limits
       \<Rightarrow> (invocation_error + verify_result) resource_result exec" where
  "verify_with_metadata_and_resource_limits x input_bytes form keys options include_parser_observations limits =
     (case check_input_size limits (verification_resource_form form) input_bytes of
        Inl re \<Rightarrow> Done (Inl re)
      | Inr _ \<Rightarrow> exec_map Inr
          (verify_with_metadata x input_bytes form keys options include_parser_observations))"

definition verify ::
    "('u, 'w, 'k, 'z) crypto_ext_scheme \<Rightarrow> bytes \<Rightarrow> artifact_form \<Rightarrow> ('k, 'k) public_keys
       \<Rightarrow> verifier_options \<Rightarrow> verdict exec" where
  "verify x input_bytes form keys options =
     exec_map (result_map vr_state) (verify_with_metadata x input_bytes form keys options False)"

definition verify_with_resource_limits ::
    "('u, 'w, 'k, 'z) crypto_ext_scheme \<Rightarrow> bytes \<Rightarrow> artifact_form \<Rightarrow> ('k, 'k) public_keys
       \<Rightarrow> verifier_options \<Rightarrow> artifact_resource_limits \<Rightarrow> verdict resource_result exec" where
  "verify_with_resource_limits x input_bytes form keys options limits =
     (case check_input_size limits (verification_resource_form form) input_bytes of
        Inl re \<Rightarrow> Done (Inl re)
      | Inr _ \<Rightarrow> exec_map Inr (verify x input_bytes form keys options))"

definition verify_yaml ::
    "('u, 'w, 'k, 'z) crypto_ext_scheme \<Rightarrow> bytes \<Rightarrow> ('k, 'k) public_keys \<Rightarrow> verifier_options
       \<Rightarrow> verdict exec" where
  "verify_yaml x artifact keys options = verify x artifact AF_Yaml keys options"

definition verify_yaml_with_resource_limits ::
    "('u, 'w, 'k, 'z) crypto_ext_scheme \<Rightarrow> bytes \<Rightarrow> ('k, 'k) public_keys \<Rightarrow> verifier_options
       \<Rightarrow> artifact_resource_limits \<Rightarrow> verdict resource_result exec" where
  "verify_yaml_with_resource_limits x artifact keys options limits =
     (case check_input_size limits RF_Yaml artifact of
        Inl re \<Rightarrow> Done (Inl re)
      | Inr _ \<Rightarrow> exec_map Inr (verify_yaml x artifact keys options))"

definition verify_proto ::
    "('u, 'w, 'k, 'z) crypto_ext_scheme \<Rightarrow> bytes \<Rightarrow> ('k, 'k) public_keys \<Rightarrow> verifier_options
       \<Rightarrow> verdict exec" where
  "verify_proto x wire keys options = verify x wire AF_Proto keys options"

definition verify_proto_with_resource_limits ::
    "('u, 'w, 'k, 'z) crypto_ext_scheme \<Rightarrow> bytes \<Rightarrow> ('k, 'k) public_keys \<Rightarrow> verifier_options
       \<Rightarrow> artifact_resource_limits \<Rightarrow> verdict resource_result exec" where
  "verify_proto_with_resource_limits x wire keys options limits =
     (case check_input_size limits RF_Protobuf wire of
        Inl re \<Rightarrow> Done (Inl re)
      | Inr _ \<Rightarrow> exec_map Inr (verify_proto x wire keys options))"

definition verify_from_pre_verify_yaml ::
    "('u, 'w, 'k, 'z) crypto_ext_scheme \<Rightarrow> pre_verify_response \<Rightarrow> ('k, 'k) public_keys
       \<Rightarrow> verifier_options \<Rightarrow> verdict exec" where
  "verify_from_pre_verify_yaml x pre keys options =
     (if vo_algorithm_parameters options \<noteq> [] then Done (Inl IE_InvalidAlgorithmParameters)
      else verify_from_pre_verify_yaml_inner x pre keys options)"

definition verify_from_pre_verify_proto ::
    "('u, 'w, 'k, 'z) crypto_ext_scheme \<Rightarrow> pre_verify_response \<Rightarrow> ('k, 'k) public_keys
       \<Rightarrow> verifier_options \<Rightarrow> verdict exec" where
  "verify_from_pre_verify_proto x pre keys options =
     (if vo_algorithm_parameters options \<noteq> [] then Done (Inl IE_InvalidAlgorithmParameters)
      else verify_from_pre_verify_proto_inner x pre keys options)"

definition verify_from_pre_verify ::
    "('u, 'w, 'k, 'z) crypto_ext_scheme \<Rightarrow> pre_verify_response \<Rightarrow> ('k, 'k) public_keys
       \<Rightarrow> verifier_options \<Rightarrow> verdict exec" where
  "verify_from_pre_verify x pre keys options =
     (case pr_form pre of
        AF_Yaml \<Rightarrow> verify_from_pre_verify_yaml x pre keys options
      | AF_Proto \<Rightarrow> verify_from_pre_verify_proto x pre keys options)"

end
