(* ===== verification/Verification_Facts.thy ===== *)
theory Verification_Facts
  imports Verification Provider_Facts
begin

text \<open>
  What the verifier decides. An artifact is read as one payload and one extracted signature or
  not at all; the verdict is a function of those, the keys and the options. From this follow
  the soundness of a verified payload and the agreement of staged and direct verification.
\<close>

section \<open>Reading an artifact\<close>

definition read_artifact ::
    "('u, 'w, 'z) yaml_ext_scheme \<Rightarrow> artifact_form \<Rightarrow> bool \<Rightarrow> bytes
       \<Rightarrow> pre_verify_outcome + (bytes \<times> unverified_signature)" where
  "read_artifact x form allow_unsigned a =
     (case form of
        AF_Yaml \<Rightarrow>
          (case decompose_artifact a of
             DO_Unsigned \<Rightarrow> Inl (if allow_unsigned then PV_Unsigned else PV_StructuralFailure)
           | DO_Malformed \<Rightarrow> Inl PV_StructuralFailure
           | DO_Signed r \<Rightarrow> result_map (Pair (slice a (sr_payload r)))
                             (extract_yaml_metadata x (slice a (sr_signature_carrier r))))
      | AF_Proto \<Rightarrow>
          (case decompose_proto_outer a SignatureStrict of
             PO_Malformed \<Rightarrow> Inl PV_StructuralFailure
           | PO_Ok payload carrier \<Rightarrow> result_map (Pair payload) (extract_proto_metadata x carrier)))"

definition response_of ::
    "artifact_form \<Rightarrow> pre_verify_outcome + (bytes \<times> unverified_signature) \<Rightarrow> pre_verify_response" where
  "response_of form r =
     (case r of
        Inl outcome \<Rightarrow> failed_response outcome form
      | Inr (payload, sig) \<Rightarrow> \<lparr>pr_outcome = PV_Ok, pr_form = form,
          pr_unverified_payload_bytes = Some payload, pr_unverified_signature = Some sig,
          pr_parser_observations = []\<rparr>)"

lemma extracted_response_eq: "extracted_response form p m = response_of form (result_map (Pair p) m)"
  by (cases m) (simp_all add: extracted_response_def response_of_def)

lemma signed_payload_valid:
  "decompose_artifact a = DO_Signed r \<Longrightarrow> validate_payload_stream (slice a (sr_payload r)) = Inr ()"
  by (drule decompose_signedD) (auto simp: ranges_of_def slice_def)

lemma pre_verify_eq:
  "pre_verify x a form allow_unsigned obs = Done (response_of form (read_artifact x form allow_unsigned a))"
proof (cases form)
  case AF_Yaml
  show ?thesis
  proof (cases "decompose_artifact a")
    case (DO_Signed r)
    then show ?thesis
      using AF_Yaml signed_payload_valid [OF DO_Signed]
      by (simp add: pre_verify_def pre_verify_yaml_inner_def decompose_yaml_eq decompose_yaml_def
          structural_def read_artifact_def extracted_response_eq)
  qed (simp_all add: AF_Yaml pre_verify_def pre_verify_yaml_inner_def decompose_yaml_eq decompose_yaml_def
      structural_def read_artifact_def response_of_def)
next
  case AF_Proto
  then show ?thesis
    by (cases "decompose_proto_outer a SignatureStrict")
       (simp_all add: pre_verify_def pre_verify_proto_inner_def default_outer_conformance_def
         decompose_proto_eq decompose_proto_def structural_def read_artifact_def extracted_response_eq
         response_of_def)
qed

lemma read_artifact_not_ok: "read_artifact x form allow_unsigned a \<noteq> Inl PV_Ok"
  by (auto simp: read_artifact_def extract_yaml_metadata_def extract_proto_metadata_def result_simps
      split: artifact_form.splits decomposition_outcome.splits proto_outer_outcome.splits if_splits
        option.splits)

lemma read_unsigned_iff:
  "read_artifact x form allow_unsigned a = Inl PV_Unsigned \<longleftrightarrow>
     form = AF_Yaml \<and> allow_unsigned \<and> decompose_artifact a = DO_Unsigned"
  by (auto simp: read_artifact_def extract_yaml_metadata_def extract_proto_metadata_def result_simps
      split: artifact_form.splits decomposition_outcome.splits proto_outer_outcome.splits if_splits
        option.splits)
section \<open>Judging an extracted signature\<close>

text \<open>
  The order of the checks for one algorithm: signature length, whether the algorithm is enabled,
  then for Ed25519 the canonical form before the key, for P-256 the key before the form, then
  the key's admissibility, and last the key's own operation.
\<close>

definition judged_with ::
    "('u, 'w, 'k, 'z) crypto_ext_scheme \<Rightarrow> ('e, 's) verification_key \<Rightarrow> ('p, 's) verification_key
       \<Rightarrow> bytes \<Rightarrow> unverified_signature \<Rightarrow> ('e, 'p) public_keys \<Rightarrow> verifier_options
       \<Rightarrow> ('s, verdict) stateful" where
  "judged_with x ed p256 payload us keys options s =
    (let sig = us_signature_octets us;
         concluded = (\<lambda>a. exec_map (\<lambda>(outcome, s'). (verification_state_from_outcome outcome payload a, s'))) in
     if length sig \<noteq> 64 then Done (Inr VS_MalformedAttemptedSigned, s)
     else case us_algorithm us of
       Ed25519 \<Rightarrow>
         if \<not> vo_verify_ed25519 options then Done (Inr (VS_SignedButAlgorithmUnsupported Ed25519), s)
         else if \<not> ed25519_signature_is_canonical x sig then Done (Inr VS_MalformedAttemptedSigned, s)
         else (case pk_ed25519 keys of
             None \<Rightarrow> Done (Inl IE_KeyResolutionFailure, s)
           | Some vk \<Rightarrow>
               if vk_is_admissible ed vk then concluded Ed25519 (vk_verify_signature ed vk payload sig s)
               else Done (Inl IE_KeyResolutionFailure, s))
     | EcdsaP256Sha256 \<Rightarrow>
         if \<not> vo_verify_ecdsa_p256_sha256 options
         then Done (Inr (VS_SignedButAlgorithmUnsupported EcdsaP256Sha256), s)
         else (case pk_p256 keys of
             None \<Rightarrow> Done (Inl IE_KeyResolutionFailure, s)
           | Some vk \<Rightarrow>
               if \<not> ecdsa_p256_signature_is_well_formed x sig then Done (Inr VS_MalformedAttemptedSigned, s)
               else if vk_is_admissible p256 vk
               then concluded EcdsaP256Sha256 (vk_verify_signature p256 vk payload sig s)
               else Done (Inl IE_KeyResolutionFailure, s)))"

lemma verify_extracted_eq:
  assumes "traits_ok x"
  shows "verify_extracted_signature_with_keys x ed p256 payload (wire_algorithm (us_algorithm us))
           (us_signature_octets us) keys options s = judged_with x ed p256 payload us keys options s"
proof -
  have w: "from_i32 x 1 = Some Ed25519" "from_i32 x 2 = Some EcdsaP256Sha256"
    using assms by (simp_all add: traits_ok_def)
  show ?thesis
    by (cases "us_algorithm us"; cases "us_signature_octets us = []")
       (auto simp: w verify_extracted_signature_with_keys_def prepare_signature_verification_def
         judged_with_def Let_def try_array_def exec_map_map split: option.split)
qed

text \<open>The verdict of the keys of this crate.\<close>

definition judged ::
    "('u, 'w, 'k, 'z) crypto_ext_scheme \<Rightarrow> bytes \<Rightarrow> unverified_signature \<Rightarrow> ('k, 'k) public_keys
       \<Rightarrow> verifier_options \<Rightarrow> verdict" where
  "judged x payload us keys options =
    (let sig = us_signature_octets us in
     if length sig \<noteq> 64 then Inr VS_MalformedAttemptedSigned
     else case us_algorithm us of
       Ed25519 \<Rightarrow>
         if \<not> vo_verify_ed25519 options then Inr (VS_SignedButAlgorithmUnsupported Ed25519)
         else if \<not> ed25519_signature_is_canonical x sig then Inr VS_MalformedAttemptedSigned
         else (case pk_ed25519 keys of
             None \<Rightarrow> Inl IE_KeyResolutionFailure
           | Some vk \<Rightarrow>
               if \<not> ed25519_verifying_key_is_admissible x vk then Inl IE_KeyResolutionFailure
               else if verify_ed25519 x vk payload sig = Inr () then Inr (VS_Verified payload Ed25519)
               else Inr VS_SignedButFailedVerification)
     | EcdsaP256Sha256 \<Rightarrow>
         if \<not> vo_verify_ecdsa_p256_sha256 options then Inr (VS_SignedButAlgorithmUnsupported EcdsaP256Sha256)
         else (case pk_p256 keys of
             None \<Rightarrow> Inl IE_KeyResolutionFailure
           | Some vk \<Rightarrow>
               if \<not> ecdsa_p256_signature_is_well_formed x sig then Inr VS_MalformedAttemptedSigned
               else if verify_ecdsa_p256_sha256 x vk payload sig = Inr ()
               then Inr (VS_Verified payload EcdsaP256Sha256)
               else Inr VS_SignedButFailedVerification))"

lemma well_formed_verify:
  "ecdsa_p256_signature_is_well_formed x sig \<Longrightarrow>
     verify_ecdsa_p256_sha256 x vk m sig = (if verify_ecdsa_p256_sha256 x vk m sig = Inr () then Inr ()
                                            else Inl EV_EquationFailure)"
  by (auto simp: ecdsa_p256_signature_is_well_formed_def verify_ecdsa_p256_sha256_def)

lemma is_ok_verify: "is_ok (verify_ed25519 x vk m sig) \<longleftrightarrow> verify_ed25519 x vk m sig = Inr ()"
  by (simp add: is_ok_iff)

lemma judged_with_crate_keys:
  "judged_with x (ed25519_key x) (p256_key x) payload us keys options s =
     Done (judged x payload us keys options, s)"
proof (cases "us_algorithm us")
  case Ed25519
  then show ?thesis
    by (auto simp: judged_with_def judged_def ed25519_key_def is_ok_verify Let_def split: option.split)
next
  case EcdsaP256Sha256
  show ?thesis
  proof (cases "pk_p256 keys")
    case (Some vk)
    then show ?thesis
      using EcdsaP256Sha256 well_formed_verify [of x "us_signature_octets us" vk payload]
      by (cases "verify_ecdsa_p256_sha256 x vk payload (us_signature_octets us)")
         (auto simp: judged_with_def judged_def p256_key_def Let_def split: ecdsa_verify_error.split if_splits)
  qed (simp add: EcdsaP256Sha256 judged_with_def judged_def Let_def)
qed

lemma verify_extracted_signature_eq:
  "traits_ok x \<Longrightarrow> verify_extracted_signature x payload (wire_algorithm (us_algorithm us))
     (us_signature_octets us) keys options = Done (judged x payload us keys options)"
  by (simp add: verify_extracted_signature_def verify_extracted_eq judged_with_crate_keys)

definition verdict_on ::
    "('u, 'w, 'k, 'z) crypto_ext_scheme \<Rightarrow> artifact_form \<Rightarrow> bytes \<Rightarrow> ('k, 'k) public_keys
       \<Rightarrow> verifier_options \<Rightarrow> verdict" where
  "verdict_on x form a keys options =
     (case read_artifact x form False a of
        Inl _ \<Rightarrow> Inr VS_MalformedAttemptedSigned
      | Inr (payload, us) \<Rightarrow> judged x payload us keys options)"

lemma forms_supported [simp]: "form \<in> set (vcap_supported_forms verifier_capabilities)"
  by (cases form) (simp_all add: verifier_capabilities_def)

lemma inner_verify_eq:
  assumes "traits_ok x"
  shows "(case form of AF_Yaml \<Rightarrow> verify_yaml_inner x a keys options obs
                     | AF_Proto \<Rightarrow> verify_proto_inner x a keys options obs) =
    Done (result_map (\<lambda>state. (state, [])) (verdict_on x form a keys options))"
proof -
  have pre: "pre_verify_yaml_inner x a False obs = Done (response_of AF_Yaml (read_artifact x AF_Yaml False a))"
    "pre_verify_proto_inner x a obs = Done (response_of AF_Proto (read_artifact x AF_Proto False a))"
    using pre_verify_eq [of x a AF_Yaml False obs] pre_verify_eq [of x a AF_Proto False obs]
    by (simp_all add: pre_verify_def)
  show ?thesis
  proof (cases "read_artifact x form False a")
    case (Inl out)
    then show ?thesis
      using read_artifact_not_ok [of x form False a] read_unsigned_iff [of x form False a]
      by (cases form; cases out)
         (simp_all add: verify_yaml_inner_def verify_proto_inner_def pre response_of_def
           failed_response_def verdict_on_def Let_def)
  next
    case (Inr r)
    then show ?thesis
      by (cases form; cases r)
         (simp_all add: verify_yaml_inner_def verify_proto_inner_def pre response_of_def
           verify_from_pre_verify_yaml_inner_def verify_from_pre_verify_proto_inner_def
           verify_extracted_signature_eq [OF assms] verdict_on_def)
  qed
qed

lemma verify_eq:
  assumes "traits_ok x"
  shows "verify x a form keys options = Done
    (if vo_algorithm_parameters options \<noteq> [] then Inl IE_InvalidAlgorithmParameters
     else verdict_on x form a keys options)"
proof (cases "verdict_on x form a keys options")
qed (simp_all add: verify_def verify_with_metadata_def inner_verify_eq [OF assms])
section \<open>Properties of the verifier\<close>

text \<open>
  Verification without keys. Pre-verification never panics and reads every input as one
  outcome: structural failure or, when asked for, unsigned; a metadata failure; or exactly one
  payload and signature. It reports unsigned only for a YAML stream without a marker, and its
  boolean summary is whether a payload and a signature were read, or such a stream was allowed.
\<close>

theorem pre_verify_correct:
  "pre_verify x a form allow_unsigned obs = Done (response_of form (read_artifact x form allow_unsigned a)) \<and>
   can_pre_verify x a form allow_unsigned = Done
     ((\<exists>payload us. read_artifact x form allow_unsigned a = Inr (payload, us)) \<or>
      form = AF_Yaml \<and> allow_unsigned \<and> decompose_artifact a = DO_Unsigned) \<and>
   (read_artifact x form allow_unsigned a = Inl PV_Unsigned \<longleftrightarrow>
      form = AF_Yaml \<and> allow_unsigned \<and> decompose_artifact a = DO_Unsigned)"
proof -
  have "can_pre_verify x a form allow_unsigned = Done
     ((\<exists>payload us. read_artifact x form allow_unsigned a = Inr (payload, us)) \<or>
      form = AF_Yaml \<and> allow_unsigned \<and> decompose_artifact a = DO_Unsigned)"
  proof (cases "read_artifact x form allow_unsigned a")
    case (Inl out)
    then show ?thesis
      using read_artifact_not_ok [of x form allow_unsigned a] read_unsigned_iff [of x form allow_unsigned a]
      by (cases out) (auto simp: can_pre_verify_def pre_verify_eq response_of_def failed_response_def)
  qed (auto simp: can_pre_verify_def pre_verify_eq response_of_def)
  then show ?thesis using pre_verify_eq read_unsigned_iff by blast
qed

text \<open>
  C4: the verdict. No input, key or option panics the verifier. Unless algorithm parameters
  are given, the verdict is Malformed on an input that is not read as one payload and signature,
  and otherwise the judgement of that signature in the order of its checks; the metadata variant
  adds no observations, a policy only filters the input by size, and no input at all, not even
  an unsigned stream, has the verdict Unsigned.
\<close>

theorem verify_correct:
  assumes "traits_ok x"
  shows "verify x a form keys options = Done
           (if vo_algorithm_parameters options \<noteq> [] then Inl IE_InvalidAlgorithmParameters
            else verdict_on x form a keys options) \<and>
         verify_with_metadata x a form keys options obs =
           exec_map (result_map (\<lambda>state. \<lparr>vr_state = state, vr_parser_observations = []\<rparr>))
             (verify x a form keys options) \<and>
         verify_with_resource_limits x a form keys options l =
           (case check_input_size l (verification_resource_form form) a of
              Inl re \<Rightarrow> Done (Inl re)
            | Inr _ \<Rightarrow> exec_map Inr (verify x a form keys options)) \<and>
         verify x a form keys options \<noteq> Done (Inr VS_Unsigned)"
proof -
  have "verdict_on x form a keys options \<noteq> Inr VS_Unsigned"
    by (auto simp: verdict_on_def judged_def Let_def split: sum.splits algorithm_id.splits option.splits if_splits)
  then show ?thesis
    by (cases "verdict_on x form a keys options")
       (auto simp: verify_eq [OF assms] verify_with_resource_limits_def verify_with_metadata_def
         inner_verify_eq [OF assms])
qed

lemma verified_reads:
  assumes "traits_ok x" and "verify x a form keys options = Done (Inr (VS_Verified payload alg))"
  shows "\<exists>keyid sig. read_artifact x form False a =
            Inr (payload, \<lparr>us_algorithm = alg, us_keyid = keyid, us_signature_octets = sig\<rparr>) \<and>
          length sig = 64 \<and> (case keyid of Some k \<Rightarrow> keyid_is_valid k | None \<Rightarrow> True) \<and>
          (case alg of
             Ed25519 \<Rightarrow> vo_verify_ed25519 options \<and>
               (\<exists>vk. pk_ed25519 keys = Some vk \<and> ed25519_verifying_key_is_admissible x vk \<and>
                     verify_ed25519 x vk payload sig = Inr ())
           | EcdsaP256Sha256 \<Rightarrow> vo_verify_ecdsa_p256_sha256 options \<and>
               (\<exists>vk. pk_p256 keys = Some vk \<and> verify_ecdsa_p256_sha256 x vk payload sig = Inr ()))"
proof -
  from assms(2) obtain us where r: "read_artifact x form False a = Inr (payload, us)"
    and j: "judged x payload us keys options = Inr (VS_Verified payload alg)"
    by (auto simp: verify_eq [OF assms(1)] verdict_on_def judged_def Let_def
        split: if_splits sum.splits algorithm_id.splits option.splits)
  obtain a' k sig where us: "us = \<lparr>us_algorithm = a', us_keyid = k, us_signature_octets = sig\<rparr>"
    by (cases us) auto
  have k: "case k of Some k \<Rightarrow> keyid_is_valid k | None \<Rightarrow> True"
    using r unfolding us
    by (auto simp: read_artifact_def extract_yaml_metadata_def extract_proto_metadata_def result_simps
        split: artifact_form.splits decomposition_outcome.splits proto_outer_outcome.splits if_splits
          option.splits)
  with r j show ?thesis
    unfolding us
    by (cases a') (auto simp: judged_def Let_def split: if_splits option.splits)
qed

lemma read_yaml_layout:
  assumes "read_artifact x AF_Yaml allow_unsigned a = Inr (payload, us)"
  shows "\<exists>mk carrier. a = payload @ mk @ carrier \<and> marker_line mk \<and> \<not> has_marker carrier \<and>
    validate_payload_stream payload = Inr ()"
proof -
  from assms obtain rg where "decompose_artifact a = DO_Signed rg" "payload = slice a (sr_payload rg)"
    by (auto simp: read_artifact_def result_simps split: decomposition_outcome.splits)
  with decompose_signedD show ?thesis by (fastforce simp: ranges_of_def slice_def)
qed

text \<open>
  C2: soundness. A payload reported as verified is the payload of the artifact, and the
  artifact carries one signature of 64 octets over it, for an enabled algorithm, that satisfies
  the equation of that algorithm under the admissible key the caller supplied for it; its key
  identifier is in bounds. In YAML form the artifact is that payload, a constrained marker line
  and a carrier without one, so nothing but the payload precedes the signature.
\<close>

theorem verified_is_signed:
  assumes "traits_ok x" and "verify x a form keys options = Done (Inr (VS_Verified payload alg))"
  shows "(\<exists>keyid sig. read_artifact x form False a =
            Inr (payload, \<lparr>us_algorithm = alg, us_keyid = keyid, us_signature_octets = sig\<rparr>) \<and>
          length sig = 64 \<and> (case keyid of Some k \<Rightarrow> keyid_is_valid k | None \<Rightarrow> True) \<and>
          (case alg of
             Ed25519 \<Rightarrow> vo_verify_ed25519 options \<and>
               (\<exists>vk. pk_ed25519 keys = Some vk \<and> ed25519_verifying_key_is_admissible x vk \<and>
                     verify_ed25519 x vk payload sig = Inr ())
           | EcdsaP256Sha256 \<Rightarrow> vo_verify_ecdsa_p256_sha256 options \<and>
               (\<exists>vk. pk_p256 keys = Some vk \<and> verify_ecdsa_p256_sha256 x vk payload sig = Inr ()))) \<and>
         (form = AF_Yaml \<longrightarrow>
           (\<exists>mk carrier. a = payload @ mk @ carrier \<and> marker_line mk \<and> \<not> has_marker carrier \<and>
              validate_payload_stream payload = Inr ()))"
  using verified_reads [OF assms] read_yaml_layout [of x False a payload] by blast

lemma response_verdict:
  assumes "traits_ok x" and "vo_algorithm_parameters options = []"
    and "pre = response_of form (read_artifact x form allow_unsigned a)" and "pr_outcome pre = PV_Ok"
  shows "verify_from_pre_verify x pre keys options = verify x a form keys options"
proof -
  have same: "read_artifact x form True a = Inr r \<longleftrightarrow> read_artifact x form False a = Inr r" for r
    by (auto simp: read_artifact_def split: artifact_form.splits decomposition_outcome.splits)
  from assms(3,4) obtain r where r: "read_artifact x form allow_unsigned a = Inr r"
    using read_artifact_not_ok [of x form allow_unsigned a]
    by (cases "read_artifact x form allow_unsigned a") (auto simp: response_of_def failed_response_def)
  then have "read_artifact x form False a = Inr r" using same by (cases allow_unsigned) auto
  then show ?thesis
    using r assms(2) by (cases form; cases r)
      (simp_all add: assms(3) response_of_def verify_eq [OF assms(1)] verdict_on_def
        verify_from_pre_verify_def verify_from_pre_verify_yaml_def verify_from_pre_verify_proto_def
        verify_from_pre_verify_yaml_inner_def verify_from_pre_verify_proto_inner_def
        verify_extracted_signature_eq [OF assms(1)])
qed

text \<open>
  C38: staging. Verifying the response of a pre-verification gives, whatever was asked of the
  pre-verification, the verdict of direct verification when the response holds a signature, and
  an invocation error, never a verdict, when it does not; a response of the other form's
  entry point is refused.
\<close>

theorem staged_verification_is_direct:
  assumes "traits_ok x" and "pre_verify x a form allow_unsigned obs = Done pre"
    and "vo_algorithm_parameters options = []"
  shows "verify_from_pre_verify x pre keys options =
           (if pr_outcome pre = PV_Ok then verify x a form keys options
            else Done (Inl IE_InvalidPreVerifyResult)) \<and>
         (form = AF_Yaml \<longrightarrow> verify_from_pre_verify_proto x pre keys options = Done (Inl IE_InvalidPreVerifyResult)) \<and>
         (form = AF_Proto \<longrightarrow> verify_from_pre_verify_yaml x pre keys options = Done (Inl IE_InvalidPreVerifyResult))"
proof -
  have pre: "pre = response_of form (read_artifact x form allow_unsigned a)"
    using assms(2) by (simp add: pre_verify_eq)
  note defs = verify_from_pre_verify_def verify_from_pre_verify_yaml_def verify_from_pre_verify_proto_def
    verify_from_pre_verify_yaml_inner_def verify_from_pre_verify_proto_inner_def assms(3)
  show ?thesis
  proof (cases "read_artifact x form allow_unsigned a")
    case (Inl out)
    then have "out \<noteq> PV_Ok" using read_artifact_not_ok [of x form allow_unsigned a] by auto
    then show ?thesis using Inl by (cases form) (simp_all add: pre response_of_def failed_response_def defs)
  next
    case (Inr r)
    then have ok: "pr_outcome pre = PV_Ok" by (cases r) (simp add: pre response_of_def)
    then show ?thesis
      using Inr response_verdict [OF assms(1,3) pre ok]
      by (cases form; cases r) (simp_all add: pre response_of_def extracted_response_def defs)
  qed
qed
end
