(* ===== verification/Sign_Verify.thy ===== *)
theory Sign_Verify
  imports Verification_Facts
begin

text \<open>
  The two crates together: what signing delivers, in either form, the verifier reads back as
  the payload, algorithm, key identifier and signature that were signed, and what a qualified
  provider operation delivers the verifier accepts.
\<close>

section \<open>The size of an emitted carrier\<close>

text \<open>Quoting writes at most six octets for each octet of the string.\<close>

lemma length_escape_bound: "length (escape_char c) \<le> 6 * length (encode_utf8 c)"
proof (cases "is_escaped c")
  case True
  then show ?thesis by (auto simp: escape_char_def encode_utf8_def is_escaped_def hex_upper_4)
qed (simp add: escape_char_raw)

lemma length_quote_bound: "utf8_valid v \<Longrightarrow> length (quote_yaml_string v) \<le> 6 * length v + 2"
proof -
  assume v: "utf8_valid v"
  have "length (concat (map escape_char cs)) \<le> 6 * length (push_chars cs)" for cs
  proof (induction cs)
    case (Cons c cs)
    then show ?case using length_escape_bound [of c] by simp
  qed simp
  from this [of "chars v"] show ?thesis
    by (simp add: quote_yaml_string_def push_chars_chars [OF v])
qed

lemma length_canonical_name: "length (canonical_name a) \<le> 40"
  by (cases a) (simp_all add: ed25519_name_def p256_name_def)

lemma yaml_carrier_fits:
  assumes "traits_ok x" and "b64_ok x" and "keyid_bounded k" and "keyid_wf k" and "length sig = 64"
  shows "length (yaml_carrier x a k sig) \<le> SIGNATURE_DOCUMENT_MAX_TOTAL_SCALAR_BYTES"
proof -
  let ?b = "b64_encode x sig"
  have "list_all b64url_char ?b" using b64_okD(1,2) [OF assms(2)] by blast
  then have "length (emitted_signature x ?b) \<le> 6 * 86 + 2"
    using length_quote_bound [OF b64_chars_utf8, of ?b] b64_okD(3) [OF assms(2), of sig] assms(5)
    by (simp add: emitted_signature_def)
  moreover have "length (as_yaml_str x a) \<le> 40"
    using traits_okD(1) [OF assms(1)] length_canonical_name [of a] by simp
  moreover have "length (quote_yaml_string kid) \<le> 6 * 1024 + 2" if "k = Some kid" for kid
    using length_quote_bound [of kid] assms(3,4) that by (simp add: keyid_bounded_def)
  ultimately show ?thesis
    by (cases k)
       (auto simp: yaml_carrier_def carrier_lines_def SCHEMA_V1ALPHA1_def
         SIGNATURE_DOCUMENT_MAX_TOTAL_SCALAR_BYTES_def)
qed

section \<open>Reading back a signed artifact\<close>

fun verification_form :: "output_form \<Rightarrow> artifact_form" where
  "verification_form OF_Yaml = AF_Yaml"
| "verification_form OF_Protobuf = AF_Proto"

definition keyid_ok :: "str option \<Rightarrow> bool" where
  "keyid_ok k \<longleftrightarrow> (case k of Some kid \<Rightarrow> utf8_valid kid \<and> keyid_is_valid kid | None \<Rightarrow> True)"

lemma keyid_okD: "keyid_ok k \<Longrightarrow> keyid_wf k" "keyid_ok k \<Longrightarrow> keyid_bounded k"
  "keyid_ok k \<Longrightarrow> k = Some kid \<Longrightarrow> keyid_is_valid kid"
  by (auto simp: keyid_ok_def keyid_bounded_def keyid_is_valid_def Let_def split: option.splits)

definition reading_runtime :: "('u, 'w, 'z) yaml_ext_scheme \<Rightarrow> bool" where
  "reading_runtime x \<longleftrightarrow> signing_runtime x \<and> yaml_flat_ok x \<and> carrier_decode_ok x"

lemma read_signed_yaml:
  assumes "reading_runtime x" and "keyid_ok k" and "length sig = 64" and "validate_payload_stream p = Inr ()"
  shows "read_artifact x AF_Yaml u (artifact_of x OF_Yaml a k p sig) =
    Inr (p, \<lparr>us_algorithm = a, us_keyid = k, us_signature_octets = sig\<rparr>)"
proof -
  have ok: "traits_ok x" "b64_ok x" "yaml_flat_ok x"
    using assms(1) by (simp_all add: reading_runtime_def signing_runtime_def)
  let ?c = "yaml_carrier x a k sig"
  let ?doc = "\<lparr>sd_schema = SCHEMA_V1ALPHA1, sd_alg = as_yaml_str x a, sd_keyid = k, sd_signature = b64_encode x sig\<rparr>"
  have "parse_signature_document x ?c = Inr ?doc"
    using parse_serialized [OF ok _ serialize_yaml_carrier [OF ok(1,2)]
        yaml_carrier_fits [OF ok(1,2) keyid_okD(2,1) [OF assms(2)] assms(3)]] keyid_okD(1) [OF assms(2)]
    by (simp add: document_wf_def)
  moreover have "from_yaml_str x (as_yaml_str x a) = Some a"
    using traits_okD(1,2) [OF ok(1)] by simp
  moreover have "(case k of Some keyid \<Rightarrow> \<not> keyid_is_valid keyid | None \<Rightarrow> False) = False"
    using keyid_okD(3) [OF assms(2)] by (simp split: option.splits)
  ultimately have meta: "extract_yaml_metadata x ?c = Inr \<lparr>us_algorithm = a, us_keyid = k, us_signature_octets = sig\<rparr>"
    using b64_okD(2) [OF ok(2)] by (simp add: extract_yaml_metadata_def validate_schema_def decode_sig_b64_def)
  have "decompose_yaml (artifact_of x OF_Yaml a k p sig) = structural DC_Ok (Some p) (Some ?c)"
    using yaml_codec.dec_enc [of p ?c] yaml_carrier_facts [OF ok(1,2)] assms(4)
    by (simp add: yaml_admissible_def yaml_envelope_def)
  then show ?thesis
    using meta by (auto simp: decompose_yaml_def structural_def read_artifact_def
        split: decomposition_outcome.splits)
qed

lemma proto_carrier_ceiling:
  assumes "signing_runtime x" and "keyid_bounded k" and "length sig = 64"
  shows "length (proto_carrier x a k sig) \<le> unat (max_message_bytes x)"
    and "length (proto_carrier x a k sig) < 2 ^ 62"
proof -
  have "buffa_ok x" "message_ceiling_ok x" using assms(1) by (simp_all add: signing_runtime_def)
  then show "length (proto_carrier x a k sig) \<le> unat (max_message_bytes x)"
    and "length (proto_carrier x a k sig) < 2 ^ 62"
    using length_proto_carrier_small [OF _ assms(2,3), of x a]
    by (simp_all add: message_ceiling_ok_def)
qed

lemma read_signed_proto:
  assumes "reading_runtime x" and "keyid_ok k" and "length sig = 64" and "length p < 2 ^ 62"
  shows "read_artifact x AF_Proto u (artifact_of x OF_Protobuf a k p sig) =
    Inr (p, \<lparr>us_algorithm = a, us_keyid = k, us_signature_octets = sig\<rparr>)"
proof -
  have ok: "traits_ok x" "carrier_decode_ok x" "signing_runtime x"
    using assms(1) by (simp_all add: reading_runtime_def signing_runtime_def)
  note small = proto_carrier_ceiling [OF ok(3) keyid_okD(2) [OF assms(2)] assms(3), of a]
  have "length (envelope_bytes p (proto_carrier x a k sig)) < 2 ^ 64"
    using length_envelope_bytes_bound [OF assms(4) small(2)] .
  then have "decompose_proto_outer (artifact_of x OF_Protobuf a k p sig) SignatureStrict =
      PO_Ok p (proto_carrier x a k sig)"
    by (simp add: decompose_raw_envelope)
  moreover have "from_i32 x (algorithm_wire_value a) = Some a" "\<not> sint (algorithm_wire_value a) \<le> 0"
    using ok(1) by (cases a; simp add: traits_ok_def)+
  moreover have "(case k of Some keyid \<Rightarrow> \<not> keyid_is_valid keyid | None \<Rightarrow> False) = False"
    using keyid_okD(3) [OF assms(2)] by (simp split: option.splits)
  ultimately show ?thesis
    using view_proto_carrier [OF ok(2) keyid_okD(1) [OF assms(2)] small(1)]
    by (simp add: read_artifact_def extract_proto_metadata_def)
qed

lemma read_signed:
  assumes "reading_runtime x" and "keyid_ok k" and "length sig = 64"
    and "f = OF_Protobuf \<Longrightarrow> length p < 2 ^ 62"
    and "f = OF_Yaml \<Longrightarrow> validate_payload_stream p = Inr ()"
  shows "read_artifact x (verification_form f) u (artifact_of x f a k p sig) =
    Inr (p, \<lparr>us_algorithm = a, us_keyid = k, us_signature_octets = sig\<rparr>)"
  using read_signed_yaml [OF assms(1-3)] read_signed_proto [OF assms(1-3)] assms(4,5) by (cases f) simp_all

lemma prepared_proto:
  "prepare_signing_payload req = Inr prepared \<Longrightarrow> sreq_output_form req = OF_Protobuf \<Longrightarrow>
     psp_payload prepared = sreq_payload req"
  by (auto simp: prepare_signing_payload_def)

lemma validated_keyid_ok: "validate_invocation req = Inr () \<Longrightarrow> request_wf req \<Longrightarrow> keyid_ok (sreq_keyid req)"
  by (auto simp: validate_invocation_ok validate_shape_ok validate_keyid_content_def keyid_ok_def
      keyid_is_valid_def keyid_bounded_def request_wf_def Let_def Suc_le_eq split: option.splits if_splits)

text \<open>
  C13: what signing emits, the verifier reads. When the last step of the signing pipeline
  delivers an artifact for a valid request, pre-verification of it in the form of the request
  returns the prepared payload, the algorithm, the key identifier and the signature octets,
  with or without the unsigned option and the observations.
\<close>

theorem emitted_artifacts_read_back:
  assumes "reading_runtime x" and "request_wf req" and "validate_invocation req = Inr ()"
    and "prepare_signing_payload req = Inr prepared" and "length sig = 64"
    and "length (sreq_payload req) < 2 ^ 62"
    and "finish_signing x req prepared sig limits = Done (Inr (SO_Success ss))"
  shows "pre_verify x (ss_artifact ss) (verification_form (sreq_output_form req)) allow_unsigned obs =
    Done \<lparr>pr_outcome = PV_Ok, pr_form = verification_form (sreq_output_form req),
      pr_unverified_payload_bytes = Some (psp_payload prepared),
      pr_unverified_signature = Some \<lparr>us_algorithm = sreq_algorithm req, us_keyid = sreq_keyid req,
        us_signature_octets = sig\<rparr>,
      pr_parser_observations = []\<rparr>"
proof -
  have "signing_runtime x" using assms(1) by (simp add: reading_runtime_def)
  note d = finish_signing_eq [OF this validate_invocation_bounded(1) [OF assms(3)] assms(5,4)]
  have "SO_Success ss = signed_success x req prepared sig"
    using assms(7) unfolding d
    by (auto simp: delivered_def Let_def result_simps simp del: artifact_of.simps
        split: output_form.splits option.splits if_splits)
  then have "ss_artifact ss = signed_artifact x req prepared sig"
    by (simp add: signed_success_def)
  moreover note read_signed [OF assms(1) validated_keyid_ok [OF assms(3,2)] assms(5) _ prepared_stream [OF assms(4)]]
  ultimately show ?thesis
    using prepared_proto [OF assms(4)] assms(6) by (simp add: pre_verify_eq response_of_def)
qed

section \<open>Accepting a signature\<close>

text \<open>The options enable the algorithm, and the caller's key for it accepts the signature.\<close>

definition accepted_by ::
    "('u, 'w, 'k, 'z) crypto_ext_scheme \<Rightarrow> ('k, 'k) public_keys \<Rightarrow> verifier_options
       \<Rightarrow> algorithm_id \<Rightarrow> bytes \<Rightarrow> bytes \<Rightarrow> bool" where
  "accepted_by x keys options a payload sig \<longleftrightarrow>
     vo_algorithm_parameters options = [] \<and>
     (case a of
        Ed25519 \<Rightarrow> vo_verify_ed25519 options \<and>
          (\<exists>vk. pk_ed25519 keys = Some vk \<and> ed25519_verifying_key_is_admissible x vk \<and>
                verify_ed25519 x vk payload sig = Inr ())
      | EcdsaP256Sha256 \<Rightarrow> vo_verify_ecdsa_p256_sha256 options \<and>
          (\<exists>vk. pk_p256 keys = Some vk \<and> verify_ecdsa_p256_sha256 x vk payload sig = Inr ()))"

lemma verified_is_canonical:
  "verify_ed25519 x vk m sig = Inr () \<Longrightarrow> ed25519_signature_is_canonical x sig"
  by (cases "parse_ed25519_signature_checked x sig")
     (simp_all add: verify_ed25519_def ed25519_signature_is_canonical_def)

lemma accepted_is_judged:
  assumes "accepted_by x keys options a payload sig" and "length sig = 64"
  shows "judged x payload \<lparr>us_algorithm = a, us_keyid = k, us_signature_octets = sig\<rparr> keys options =
    Inr (VS_Verified payload a)"
proof (cases a)
  case Ed25519
  then show ?thesis
    using assms by (auto simp: accepted_by_def judged_def verified_is_canonical)
next
  case EcdsaP256Sha256
  then show ?thesis
    using assms by (auto simp: accepted_by_def judged_def verify_ecdsa_p256_sha256_def
        ecdsa_p256_signature_is_well_formed_def split: option.splits)
qed

lemma delivered_verifies:
  assumes "reading_runtime x" and "request_wf req" and "validate_invocation req = Inr ()"
    and "prepare_signing_payload req = Inr prepared" and "length sig = 64"
    and "length (sreq_payload req) < 2 ^ 62"
    and "accepted_by x keys options (sreq_algorithm req) (psp_payload prepared) sig"
  shows "verify x (signed_artifact x req prepared sig) (verification_form (sreq_output_form req)) keys options =
    Done (Inr (VS_Verified (psp_payload prepared) (sreq_algorithm req)))"
proof -
  have "traits_ok x" using assms(1) by (simp add: reading_runtime_def signing_runtime_def)
  moreover have "vo_algorithm_parameters options = []" using assms(7) by (simp add: accepted_by_def)
  moreover note read_signed [OF assms(1) validated_keyid_ok [OF assms(3,2)] assms(5) _ prepared_stream [OF assms(4)]]
  ultimately show ?thesis
    using accepted_is_judged [OF assms(7,5)] prepared_proto [OF assms(4)] assms(6)
    by (simp add: verify_eq verdict_on_def)
qed

section \<open>The signer's key and the verifier's key\<close>

text \<open>
  The caller of the verifier resolved its key from the octets the caller of the signer bound,
  and enables the algorithm.
\<close>

definition keys_match ::
    "('u, 'w, 'k, 'z) crypto_ext_scheme \<Rightarrow> algorithm_id \<Rightarrow> bytes \<Rightarrow> 'k provider_public_key
       \<Rightarrow> ('k, 'k) public_keys \<Rightarrow> verifier_options \<Rightarrow> bool" where
  "keys_match x a bs pk keys options \<longleftrightarrow>
     resolve_provider_public_key x a bs = Some pk \<and> vo_algorithm_parameters options = [] \<and>
     (case a of
        Ed25519 \<Rightarrow> vo_verify_ed25519 options \<and>
          (\<exists>vk. resolve_ed25519_verifying_key x bs = Inr vk \<and> pk_ed25519 keys = Some vk)
      | EcdsaP256Sha256 \<Rightarrow> vo_verify_ecdsa_p256_sha256 options \<and>
          (\<exists>vk. resolve_p256_verifying_key x bs = Inr vk \<and> pk_p256 keys = Some vk))"

lemma resolved_is_admissible:
  assumes "crypto_ok x" and "resolve_ed25519_verifying_key x bs = Inr vk"
  shows "ed_vk_as_bytes x vk = bs" and "ed25519_verifying_key_is_admissible x vk"
proof -
  have "length bs = 32" "ed_vk_from_bytes x bs = Some vk"
    and d: "\<exists>point. decode_canonical_edwards_point x bs = Some point \<and> \<not> ed_is_small_order x point"
    using assms(2) by (auto simp: resolve_ed25519_verifying_key_def try_array_def result_simps split: if_splits)
  then show b: "ed_vk_as_bytes x vk = bs" using crypto_okD(2) [OF assms(1)] by blast
  show "ed25519_verifying_key_is_admissible x vk"
    using d by (auto simp: ed25519_verifying_key_is_admissible_def b)
qed

lemma matching_keys_accept:
  assumes "crypto_ok x" and "keys_match x a bs pk keys options" and "verify_provider_signature x pk m sig"
  shows "accepted_by x keys options a m sig"
proof (cases a)
  case Ed25519
  then obtain vk where vk: "resolve_ed25519_verifying_key x bs = Inr vk" "pk_ed25519 keys = Some vk"
    using assms(2) by (auto simp: keys_match_def)
  note r = resolved_is_admissible [OF assms(1) vk(1)]
  have "verify_ed25519 x vk m sig = Inr ()"
    using assms(2,3) Ed25519 by (subst verify_ed25519_eq [of x vk pk]) (simp_all add: r keys_match_def)
  then show ?thesis using assms(2) Ed25519 vk(2) r(2) by (simp add: keys_match_def accepted_by_def)
next
  case EcdsaP256Sha256
  then obtain vk where "resolve_p256_verifying_key x bs = Inr vk" "pk_p256 keys = Some vk"
    "pk = PPK_EcdsaP256Sha256 vk"
    using assms(2) by (auto simp: keys_match_def resolve_p256_iff)
  then show ?thesis
    using assms(2,3) EcdsaP256Sha256 verify_p256_eq [of x vk m sig] by (simp add: keys_match_def accepted_by_def)
qed

text \<open>Both provider operations deliver only requests that pass the whole validation.\<close>

lemma provider_success_gate:
  "sign_with_provider_inner x tr req limits required cb s = Done (Inr (Inr (SO_Success ss)), s') \<Longrightarrow>
     \<exists>u. provider_gate x (bk_algorithm tr (key_of req)) req limits required = Inr u"
  by (cases "provider_gate x (bk_algorithm tr (key_of req)) req limits required")
     (auto simp: provider_inner_eq provider_gate_def result_simps split: sum.splits if_splits option.splits)

lemma provider_success_validated:
  assumes "sign_with_provider_inner x tr req limits required cb s = Done (Inr (Inr (SO_Success ss)), s')"
  shows "validate_invocation req = Inr ()"
  using provider_success_gate [OF assms] gate_passes(3) by blast

lemma unbounded_success_inner:
  "expect_unbounded run s = Done (SO_Success ss, s') \<Longrightarrow> run s = Done (Inr (Inr (SO_Success ss)), s')"
  by (auto simp: expect_unbounded_def exec_bind_eq_Done exec_map_eq_Done elim!: expect_ok.elims)

lemma attested_verifies:
  assumes "reading_runtime x" and "crypto_ok x" and "request_wf req" and "callback_ok cb"
    and "length (sreq_payload req) < 2 ^ 62"
    and "keys_match x (sreq_algorithm req) bs (psk_public_key (key_of req)) keys options"
    and "validate_invocation req = Inr ()" and "attested x qualified_key req cb ss s s'"
  shows "\<exists>prepared. prepare_signing_payload req = Inr prepared \<and>
    verify x (ss_artifact ss) (verification_form (sreq_output_form req)) keys options =
      Done (Inr (VS_Verified (psp_payload prepared) (sreq_algorithm req)))"
proof -
  obtain prepared sig where p: "prepare_signing_payload req = Inr prepared"
    and cb: "cb (psp_payload prepared) s = Done (Inr sig, s')"
    and ss: "ss_artifact ss = signed_artifact x req prepared sig"
    and v: "verify_provider_signature x (psk_public_key (key_of req)) (psp_payload prepared) sig"
    using assms(8) by (auto simp: attested_def qualified_key_def signed_success_def)
  moreover have "length sig = 64" using assms(4) cb unfolding callback_ok_def by blast
  ultimately show ?thesis
    using delivered_verifies [OF assms(1,3,7) p _ assms(5) matching_keys_accept [OF assms(2,6) v]] by simp
qed

text \<open>
  C1: sign, then verify. What a qualified provider operation delivers, with or without a
  policy, in either output form, the verifier reports as verified: the verdict is Verified with
  the final payload of the request and its algorithm, when the verifier has the key the
  binding was built from and enables the algorithm. Nothing is assumed of the callback but
  that it returns 64 octets.
\<close>

theorem signed_artifacts_verify:
  assumes "reading_runtime x" and "crypto_ok x" and "request_wf req" and "callback_ok cb"
    and "length (sreq_payload req) < 2 ^ 62"
    and "keys_match x (sreq_algorithm req) bs (psk_public_key (key_of req)) keys options"
    and "sign_with_provider x req cb s = Done (SO_Success ss, s') \<or>
         sign_with_provider_and_resource_limits x req l cb s = Done (Inr (Inr (SO_Success ss)), s')"
  shows "\<exists>prepared. prepare_signing_payload req = Inr prepared \<and>
    verify x (ss_artifact ss) (verification_form (sreq_output_form req)) keys options =
      Done (Inr (VS_Verified (psp_payload prepared) (sreq_algorithm req)))"
proof -
  have runtime: "signing_runtime x" using assms(1) by (simp add: reading_runtime_def)
  have "validate_invocation req = Inr ()"
    using assms(7) unfolding sign_with_provider_def sign_with_provider_and_resource_limits_def
    by (elim disjE) (drule unbounded_success_inner | erule provider_success_validated)+
  moreover have "attested x qualified_key req cb ss s s'"
    using assms(7) unfolding sign_with_provider_def sign_with_provider_and_resource_limits_def
    by (elim disjE) (erule provider_unbounded_success [OF runtime assms(4,5)]
        | drule provider_bounded_success [OF runtime assms(4)], erule conjunct1)+
  ultimately show ?thesis by (rule attested_verifies [OF assms(1-6)])
qed

section \<open>In-process keys\<close>

text \<open>
  The documented behaviour of a key pair of the curve crates: what the secret key signs, the
  verifier's equation accepts under the public key.
\<close>

definition key_pair ::
    "('u, 'w, 'k, 'z) crypto_ext_scheme \<Rightarrow> ('k, 'k) signing_key \<Rightarrow> ('k, 'k) public_keys \<Rightarrow> bool" where
  "key_pair x key keys \<longleftrightarrow>
     (case key of
        SK_Ed25519 sk \<Rightarrow> \<exists>vk. pk_ed25519 keys = Some vk \<and>
          (\<forall>m. verify_ed25519 x vk m (ed_sign x sk m) = Inr ())
      | SK_EcdsaP256Sha256 sk \<Rightarrow> \<exists>vk. pk_p256 keys = Some vk \<and>
          (\<forall>m nonce g. p256_sign_prehashed x sk nonce (sha256 x m) = Some g \<longrightarrow> p256_verify x vk m g))"

fun enables :: "verifier_options \<Rightarrow> algorithm_id \<Rightarrow> bool" where
  "enables options Ed25519 \<longleftrightarrow> vo_verify_ed25519 options"
| "enables options EcdsaP256Sha256 \<longleftrightarrow> vo_verify_ecdsa_p256_sha256 options"

lemma verified_is_admissible:
  "verify_ed25519 x vk m sig = Inr () \<Longrightarrow> ed25519_verifying_key_is_admissible x vk"
  by (auto simp: verify_ed25519_def ed25519_verifying_key_is_admissible_def result_simps
      split: if_splits option.splits)

lemma key_pair_accepted:
  assumes "crypto_ok x" and "key_pair x key keys" and "enables options a" and "vo_algorithm_parameters options = []"
    and "sign_digest x rng m a key s = Done (Inr sig, s')"
  shows "accepted_by x keys options a m sig"
proof (cases key)
  case (SK_Ed25519 sk)
  then obtain vk where vk: "pk_ed25519 keys = Some vk" "verify_ed25519 x vk m (ed_sign x sk m) = Inr ()"
    using assms(2) by (auto simp: key_pair_def)
  then show ?thesis
    using verified_is_admissible [OF vk(2)] SK_Ed25519 assms(3-5)
    by (cases a) (auto simp: sign_digest_def accepted_by_def)
next
  case (SK_EcdsaP256Sha256 sk)
  then have a: "a = EcdsaP256Sha256" and r: "sign_p256_with_rng x rng m sk s = Done (Inr sig, s')"
    using assms(5) by (cases a; simp add: sign_digest_def)+
  from r obtain nonce g where g: "p256_sign_prehashed x sk nonce (sha256 x m) = Some g"
    and "sig = p256_sig_to_bytes x g" by (rule sign_p256_returns)
  then show ?thesis
    using assms(2-4) crypto_okD(5) [OF assms(1) p256_valuesI(2) [OF g]] SK_EcdsaP256Sha256 a
    by (auto simp: key_pair_def accepted_by_def verify_ecdsa_p256_sha256_def)
qed

lemma in_process_verifies:
  assumes "reading_runtime x" and "crypto_ok x" and "request_wf req"
    and "length (sreq_payload req) < 2 ^ 62"
    and "key_pair x (sreq_key req) keys" and "enables options (sreq_algorithm req)"
    and "vo_algorithm_parameters options = []"
    and "sign x rng req s = Done (SO_Success ss, s')"
  shows "\<exists>prepared. prepare_signing_payload req = Inr prepared \<and>
    ss_modified_payload ss = psp_modified_payload prepared \<and>
    verify x (ss_artifact ss) (verification_form (sreq_output_form req)) keys options =
      Done (Inr (VS_Verified (psp_payload prepared) (sreq_algorithm req)))"
proof -
  have runtime: "signing_runtime x" using assms(1) by (simp add: reading_runtime_def)
  have v: "validate_invocation req = Inr ()"
    using assms(8) sign_eq [OF runtime assms(2,4), of rng s] by (simp split: sum.splits)
  have run: "signed_with x req (\<lambda>p. sign_digest x rng p (sreq_algorithm req) (sreq_key req)) s =
      Done (SO_Success ss, s')"
    using assms(8) sign_eq [OF runtime assms(2,4), of rng s] v by simp
  then obtain prepared r where p: "prepare_signing_payload req = Inr prepared"
    and "sign_digest x rng (psp_payload prepared) (sreq_algorithm req) (sreq_key req) s = Done (r, s')"
    "SO_Success ss = (case r of Inl e \<Rightarrow> SO_Signer e | Inr sig \<Rightarrow> signed_success x req prepared sig)"
    by (cases "prepare_signing_payload req") (auto simp: signed_with_def exec_map_eq_Done)
  then obtain sig where
    d: "sign_digest x rng (psp_payload prepared) (sreq_algorithm req) (sreq_key req) s = Done (Inr sig, s')"
    and ss: "ss_artifact ss = signed_artifact x req prepared sig" "ss_modified_payload ss = psp_modified_payload prepared"
    by (cases r) (auto simp: signed_success_def)
  show ?thesis
    using delivered_verifies [OF assms(1,3) v p sign_digest_length [OF assms(2) d] assms(4)
        key_pair_accepted [OF assms(2,5,6,7) d]] p ss by simp
qed

text \<open>
  C3: signing with an in-process key, then verifying. An artifact that signing delivers, in
  either form and for either algorithm, is verified under the public key of the pair with the
  payload that was signed.
\<close>

theorem in_process_artifacts_verify:
  assumes "reading_runtime x" and "crypto_ok x" and "request_wf req"
    and "length (sreq_payload req) < 2 ^ 62"
    and "key_pair x (sreq_key req) keys" and "enables options (sreq_algorithm req)"
    and "vo_algorithm_parameters options = []"
    and "sign x rng req s = Done (SO_Success ss, s')"
  shows "\<exists>prepared. prepare_signing_payload req = Inr prepared \<and>
    verify x (ss_artifact ss) (verification_form (sreq_output_form req)) keys options =
      Done (Inr (VS_Verified (psp_payload prepared) (sreq_algorithm req)))"
  using in_process_verifies [OF assms] by blast

end
