(* ===== verification/Sample_Verification.thy ===== *)
theory Sample_Verification
  imports Sample_Provider Sample_Transcode Sign_Verify
begin

text \<open>
  The toy curve under the verifier: a key of the sample provider, the options that enable both
  algorithms, and the witnesses of the verification properties.
\<close>

lemma sample_crypto_carrier_decode [simp]: "carrier_decode_ok (sample_crypto rest)"
  unfolding sample_crypto_def by simp

lemma sample_reading_runtime [simp]: "reading_runtime (sample_crypto rest)"
  by (simp add: reading_runtime_def)

definition sample_keys :: "(u8, u8) public_keys" where
  "sample_keys = \<lparr>pk_ed25519 = Some 5, pk_p256 = None\<rparr>"

definition sample_options :: verifier_options where
  "sample_options =
     \<lparr>vo_verify_ed25519 = True, vo_verify_ecdsa_p256_sha256 = True, vo_algorithm_parameters = []\<rparr>"

lemma sample_keys_match:
  "keys_match (sample_crypto ()) Ed25519 (toy_encode 5) (PPK_Ed25519 (toy_encode 5) 5) sample_keys sample_options"
  by (simp add: keys_match_def resolve_provider_public_key_def resolve_ed25519_verifying_key_def
      decode_canonical_edwards_point_def try_array_def sample_keys_def sample_options_def)

lemma sample_provider_form [simp]:
  "request_wf sample_provider_request" "sreq_output_form sample_provider_request = OF_Protobuf"
  "psk_public_key (key_of sample_provider_request) = PPK_Ed25519 (toy_encode 5) 5"
  "length (sreq_payload sample_provider_request) < 2 ^ 62"
  by (simp_all add: request_wf_def sample_provider_request_def sample_binding_def utf8_valid_ascii_Cons)

theorem signed_artifacts_verify_witness:
  "verify (sample_crypto ()) (ss_artifact sample_delivered) AF_Proto sample_keys sample_options =
     Done (Inr (VS_Verified [0x61] Ed25519))"
proof -
  let ?x = "sample_crypto ()" and ?req = sample_provider_request
  have m: "keys_match ?x (sreq_algorithm ?req) (toy_encode 5) (psk_public_key (key_of ?req)) sample_keys sample_options"
    using sample_keys_match by simp
  from signed_artifacts_verify [OF sample_reading_runtime sample_crypto_ok sample_provider_form(1)
      sample_callback_ok sample_provider_form(4) m disjI1 [OF sample_provider_run]]
  show ?thesis by simp
qed

lemma sample_delivered_verified:
  "verify (sample_crypto ()) (ss_artifact sample_delivered) AF_Proto sample_keys sample_options =
     Done (Inr (VS_Verified [0x61] Ed25519))"
proof -
  let ?x = "sample_crypto ()" and ?req = sample_provider_request
    and ?p = "\<lparr>psp_payload = [0x61], psp_modified_payload = []\<rparr>"
  have "verify_ed25519 ?x 5 [0x61] (toy_ed_sign 5 [0x61]) = Inr ()" by (rule toy_ed_verifies) simp
  then have a: "accepted_by ?x sample_keys sample_options (sreq_algorithm ?req) (psp_payload ?p) (toy_ed_sign 5 [0x61])"
    by (auto simp: accepted_by_def sample_keys_def sample_options_def intro: verified_is_admissible)
  show ?thesis
    using delivered_verifies [OF sample_reading_runtime sample_provider_form(1) sample_provider_checks
        length_toy(3) sample_provider_form(4) a] by (simp add: sample_delivered_def)
qed

theorem in_process_artifacts_verify_witness:
  "verify (sample_crypto ()) (ss_artifact \<lparr>ss_artifact = sample_artifact, ss_modified_payload = []\<rparr>)
     AF_Proto sample_keys sample_options = Done (Inr (VS_Verified [0x61] Ed25519))"
proof -
  let ?x = "sample_crypto ()" and ?req = sample_proto_request
  have run: "sign ?x sample_rng ?req [] =
      Done (SO_Success \<lparr>ss_artifact = sample_artifact, ss_modified_payload = []\<rparr>, [])"
    using sign_eq [OF sample_signing_runtime sample_crypto_ok, of ?req "()" sample_rng "[]"]
    by (simp add: signed_with_def sign_digest_def signed_success_def)
       (simp add: sample_proto_request_def signed_success_def)
  have f: "length (sreq_payload ?req) < 2 ^ 62" "sreq_algorithm ?req = Ed25519" "sreq_output_form ?req = OF_Protobuf"
    "sreq_key ?req = SK_Ed25519 5"
    by (simp_all add: sample_proto_request_def)
  have k: "key_pair ?x (sreq_key ?req) sample_keys" "enables sample_options (sreq_algorithm ?req)"
    "vo_algorithm_parameters sample_options = []"
    using toy_ed_verifies [of 5 "()"] by (simp_all add: key_pair_def f sample_keys_def sample_options_def)
  from in_process_artifacts_verify [OF sample_reading_runtime sample_crypto_ok sample_request_wf(1) f(1) k run]
  show ?thesis by (simp add: f)
qed

theorem emitted_artifacts_read_back_witness:
  "pre_verify (sample_crypto ()) sample_artifact AF_Proto False False =
     Done \<lparr>pr_outcome = PV_Ok, pr_form = AF_Proto, pr_unverified_payload_bytes = Some [0x61],
       pr_unverified_signature = Some \<lparr>us_algorithm = Ed25519, us_keyid = Some [0x6B],
         us_signature_octets = toy_ed_sign 5 [0x61]\<rparr>,
       pr_parser_observations = []\<rparr>"
proof -
  let ?x = "sample_crypto ()" and ?req = sample_proto_request
  have f: "length (sreq_payload ?req) < 2 ^ 62" "sreq_algorithm ?req = Ed25519" "sreq_output_form ?req = OF_Protobuf"
    "sreq_keyid ?req = Some [0x6B]"
    by (simp_all add: sample_proto_request_def)
  have "finish_signing ?x ?req \<lparr>psp_payload = [0x61], psp_modified_payload = []\<rparr> (toy_ed_sign 5 [0x61]) None =
      Done (Inr (SO_Success \<lparr>ss_artifact = sample_artifact, ss_modified_payload = []\<rparr>))"
    using finish_signing_eq [OF sample_signing_runtime validate_invocation_bounded(1) [OF sample_request_valid]
        length_toy(3) sample_request_prepared, of "()" 5 "[0x61]" None] sample_artifact_length
    by (simp add: delivered_def Let_def f signed_success_def)
  from emitted_artifacts_read_back [OF sample_reading_runtime sample_request_wf(1) sample_request_valid
      sample_request_prepared length_toy(3) f(1) this, of False False]
  show ?thesis by (simp add: f)
qed

theorem verify_correct_witness:
  "verify (sample_crypto ()) [] AF_Yaml sample_keys sample_options = Done (Inr VS_MalformedAttemptedSigned)"
proof -
  have "decompose_artifact [] = DO_Unsigned" by code_simp
  then have "verdict_on (sample_crypto ()) AF_Yaml [] sample_keys sample_options = Inr VS_MalformedAttemptedSigned"
    by (simp add: verdict_on_def read_artifact_def)
  then show ?thesis
    using verify_correct [of "sample_crypto ()", OF sample_crypto_base(1), THEN conjunct1,
        of "[]" AF_Yaml sample_keys sample_options]
    by (simp add: sample_options_def)
qed

theorem verified_is_signed_witness:
  "\<exists>keyid sig. read_artifact (sample_crypto ()) AF_Proto False (ss_artifact sample_delivered) =
      Inr ([0x61], \<lparr>us_algorithm = Ed25519, us_keyid = keyid, us_signature_octets = sig\<rparr>) \<and>
     verify_ed25519 (sample_crypto ()) 5 [0x61] sig = Inr ()"
  using verified_is_signed [OF sample_crypto_base(1) sample_delivered_verified, THEN conjunct1]
  by (auto simp: sample_keys_def)

theorem staged_verification_is_direct_witness:
  "\<exists>pre. pre_verify (sample_crypto ()) (ss_artifact sample_delivered) AF_Proto True False = Done pre \<and>
     pr_outcome pre = PV_Ok \<and>
     verify_from_pre_verify (sample_crypto ()) pre sample_keys sample_options =
       Done (Inr (VS_Verified [0x61] Ed25519))"
proof -
  let ?x = "sample_crypto ()" and ?a = "ss_artifact sample_delivered"
  let ?pre = "response_of AF_Proto (read_artifact ?x AF_Proto True ?a)"
  have "?a = artifact_of ?x OF_Protobuf Ed25519 (Some [0x6B]) [0x61] (toy_ed_sign 5 [0x61])"
    by (simp add: sample_delivered_def sample_provider_request_def)
  moreover have "keyid_ok (Some [0x6B])" by (simp add: keyid_ok_def keyid_is_valid_def utf8_valid_ascii_Cons)
  ultimately have "pr_outcome ?pre = PV_Ok"
    using read_signed_proto [of ?x "Some [0x6B]" "toy_ed_sign 5 [0x61]" "[0x61]" True Ed25519]
    by (simp add: response_of_def)
  moreover have "vo_algorithm_parameters sample_options = []" by (simp add: sample_options_def)
  moreover note pre = pre_verify_eq [of ?x ?a AF_Proto True False]
  ultimately show ?thesis
    using staged_verification_is_direct [OF sample_crypto_base(1) pre _, THEN conjunct1, of sample_options sample_keys]
      sample_delivered_verified by auto
qed

end
