(* ===== verification/Verification_Provider.thy ===== *)
theory Verification_Provider
  imports Verification
begin

text \<open>
  Verification through a provider: \<open>provider.rs\<close>, \<open>async_provider.rs\<close> and the provider entry
  points of \<open>lib.rs\<close> of \<open>yaml-sigil-verification\<close>. A provider is a factory that binds key
  octets to a handle, and a handle is an operation on a message and a signature; both act on
  the provider's own state, and may not return or panic. Qualification runs a fixed suite of
  public vectors against one provider, for each algorithm on its own, and only a slot that
  passed can be bound through the qualified type.
\<close>

section \<open>Outcomes and errors\<close>

datatype provider_verification_outcome = PVO_Verified | PVO_SignatureMismatch | PVO_ProviderFailure

datatype provider_qualification_error_kind =
    QEK_KeyBindingFailed
  | QEK_ValidSignatureRejected
  | QEK_InvalidSignatureAccepted
  | QEK_ProviderFailure

record provider_qualification_error =
  pqe_kind :: provider_qualification_error_kind
  pqe_algorithm :: algorithm_id

datatype provider_qualification_status = Qualified | Rejected provider_qualification_error

fun is_qualified :: "provider_qualification_status \<Rightarrow> bool" where
  "is_qualified Qualified \<longleftrightarrow> True"
| "is_qualified (Rejected e) \<longleftrightarrow> False"

datatype provider_key_binding_error_kind =
    BEK_InvalidPublicKey
  | BEK_AlgorithmNotQualified
  | BEK_ProviderBindingFailed

record provider_key_binding_error =
  pkbe_kind :: provider_key_binding_error_kind
  pkbe_algorithm :: algorithm_id

text \<open>
  A handle, and a factory of handles; \<open>'x\<close> is the error type of the \<open>signature\<close> crate. The
  default classification of a handle calls every error of its operation a mismatch.
\<close>

type_synonym 's provider_verifier = "bytes \<Rightarrow> bytes \<Rightarrow> ('s, provider_verification_outcome) stateful"
type_synonym ('s, 'x) verifier_factory = "algorithm_id \<Rightarrow> bytes \<Rightarrow> ('s, 'x + 's provider_verifier) stateful"

definition verify_provider ::
    "(bytes \<Rightarrow> bytes \<Rightarrow> ('s, 'x + unit) stateful) \<Rightarrow> 's provider_verifier" where
  "verify_provider verifier message signature s =
     exec_map (\<lambda>(r, s'). (case r of Inr _ \<Rightarrow> PVO_Verified | Inl _ \<Rightarrow> PVO_SignatureMismatch, s'))
       (verifier message signature s)"

definition binding_error ::
    "algorithm_id \<Rightarrow> provider_key_binding_error_kind \<Rightarrow> provider_key_binding_error" where
  "binding_error algorithm kind = \<lparr>pkbe_kind = kind, pkbe_algorithm = algorithm\<rparr>"

definition validate_public_key ::
    "('u, 'w, 'k, 'z) crypto_ext_scheme \<Rightarrow> algorithm_id \<Rightarrow> bytes \<Rightarrow> provider_key_binding_error + unit" where
  "validate_public_key x algorithm canonical_public_key =
     (if provider_public_key_is_admissible x algorithm canonical_public_key then Inr ()
      else Inl (binding_error algorithm BEK_InvalidPublicKey))"

definition qualification_status ::
    "algorithm_id \<Rightarrow> provider_qualification_error_kind + unit \<Rightarrow> provider_qualification_status" where
  "qualification_status algorithm r =
     (case r of
        Inr _ \<Rightarrow> Qualified
      | Inl kind \<Rightarrow> Rejected \<lparr>pqe_kind = kind, pqe_algorithm = algorithm\<rparr>)"

definition expect_provider_result ::
    "provider_verification_outcome \<Rightarrow> provider_verification_outcome
       \<Rightarrow> provider_qualification_error_kind + unit" where
  "expect_provider_result outcome expected =
     (if outcome = expected then Inr ()
      else (case outcome of
              PVO_ProviderFailure \<Rightarrow> Inl QEK_ProviderFailure
            | PVO_Verified \<Rightarrow> Inl QEK_InvalidSignatureAccepted
            | PVO_SignatureMismatch \<Rightarrow> Inl QEK_ValidSignatureRejected))"

section \<open>The public vectors\<close>

definition RFC8032_TEST_1_PUBLIC_KEY :: bytes where
  "RFC8032_TEST_1_PUBLIC_KEY =
    [0xD7, 0x5A, 0x98, 0x01, 0x82, 0xB1, 0x0A, 0xB7, 0xD5, 0x4B, 0xFE, 0xD3, 0xC9, 0x64, 0x07, 0x3A,
     0x0E, 0xE1, 0x72, 0xF3, 0xDA, 0xA6, 0x23, 0x25, 0xAF, 0x02, 0x1A, 0x68, 0xF7, 0x07, 0x51, 0x1A]"

definition RFC8032_TEST_1_SIGNATURE :: bytes where
  "RFC8032_TEST_1_SIGNATURE =
    [0xE5, 0x56, 0x43, 0x00, 0xC3, 0x60, 0xAC, 0x72, 0x90, 0x86, 0xE2, 0xCC, 0x80, 0x6E, 0x82, 0x8A,
     0x84, 0x87, 0x7F, 0x1E, 0xB8, 0xE5, 0xD9, 0x74, 0xD8, 0x73, 0xE0, 0x65, 0x22, 0x49, 0x01, 0x55,
     0x5F, 0xB8, 0x82, 0x15, 0x90, 0xA3, 0x3B, 0xAC, 0xC6, 0x1E, 0x39, 0x70, 0x1C, 0xF9, 0xB4, 0x6B,
     0xD2, 0x5B, 0xF5, 0xF0, 0x59, 0x5B, 0xBE, 0x24, 0x65, 0x51, 0x41, 0x43, 0x8E, 0x7A, 0x10, 0x0B]"

definition ED25519_MIXED_R_PUBLIC_KEY :: bytes where
  "ED25519_MIXED_R_PUBLIC_KEY =
    [0xB8, 0x62, 0x40, 0x9F, 0xB5, 0xC4, 0xC4, 0x12, 0x3D, 0xF2, 0xAB, 0xF7, 0x46, 0x2B, 0x88, 0xF0,
     0x41, 0xAD, 0x36, 0xDD, 0x68, 0x64, 0xCE, 0x87, 0x2F, 0xD5, 0x47, 0x2B, 0xE3, 0x63, 0xC5, 0xB1]"

definition ED25519_MIXED_R_SIGNATURE :: bytes where
  "ED25519_MIXED_R_SIGNATURE =
    [0xC8, 0x91, 0xDD, 0x2F, 0xC0, 0xCA, 0x87, 0xA7, 0x46, 0x01, 0x93, 0x89, 0x5E, 0x04, 0x6A, 0x91,
     0x4C, 0x11, 0xB6, 0x6F, 0xDF, 0xFA, 0x8E, 0x6B, 0x7C, 0x3B, 0xA8, 0x31, 0x38, 0x49, 0x9C, 0x70,
     0x60, 0xE4, 0x42, 0xF8, 0xCD, 0xCF, 0xDA, 0x4B, 0xCF, 0x5F, 0xF4, 0x18, 0x62, 0x71, 0xE1, 0x69,
     0x96, 0x2E, 0x40, 0xAB, 0x92, 0x36, 0x45, 0x62, 0x76, 0x0B, 0x99, 0xEC, 0x91, 0x99, 0x67, 0x0E]"

definition ED25519_MIXED_A_PUBLIC_KEY :: bytes where
  "ED25519_MIXED_A_PUBLIC_KEY =
    [0xE9, 0xB2, 0xFE, 0x98, 0x15, 0x87, 0xEF, 0xAE, 0x64, 0x78, 0xF4, 0x8B, 0xA1, 0xFA, 0x60, 0xCE,
     0xC6, 0x12, 0x6D, 0x0E, 0x26, 0xDD, 0xE7, 0x2A, 0x0A, 0x24, 0xF6, 0x40, 0xDC, 0xD7, 0x83, 0xE5]"

definition ED25519_MIXED_A_SIGNATURE :: bytes where
  "ED25519_MIXED_A_SIGNATURE =
    [0x13, 0x37, 0x03, 0x6A, 0xC3, 0x2D, 0x8F, 0x30, 0xD4, 0x58, 0x9C, 0x3C, 0x1C, 0x59, 0x58, 0x12,
     0xCE, 0x0F, 0xFF, 0x40, 0xE3, 0x7C, 0x6F, 0x5A, 0x97, 0xAB, 0x21, 0x3F, 0x31, 0x82, 0x90, 0xAD,
     0x4F, 0x77, 0x53, 0x17, 0x4A, 0x7F, 0x11, 0xE9, 0x72, 0x16, 0x75, 0x31, 0xF9, 0x64, 0xED, 0x73,
     0x10, 0x1F, 0x0A, 0xDF, 0xEC, 0xF8, 0x2E, 0xB5, 0x5F, 0xB5, 0x19, 0xE4, 0xD9, 0xA7, 0x7E, 0x07]"

definition P256_QUALIFICATION_PUBLIC_KEY :: bytes where
  "P256_QUALIFICATION_PUBLIC_KEY =
    [0x04, 0x1E, 0x18, 0x53, 0x2F, 0xD4, 0x75, 0x4C, 0x02, 0xF3, 0x04, 0x1D, 0x9C, 0x75, 0xCE, 0xB3,
     0x3B, 0x83, 0xFF, 0xD8, 0x1A, 0xC7, 0xCE, 0x4F, 0xE8, 0x82, 0xCC, 0xB1, 0xC9, 0x8B, 0xC5, 0x89,
     0x6E, 0xA4, 0x6C, 0x31, 0x1C, 0x4E, 0x2F, 0xF4, 0x0D, 0xD9, 0x6A, 0x36, 0x53, 0xE6, 0xE4, 0x54,
     0x45, 0xD3, 0x2D, 0xFE, 0x48, 0x6E, 0xCE, 0xD7, 0x5C, 0x7A, 0x90, 0xC6, 0xA1, 0x88, 0x81, 0xC0,
     0xA3]"

definition P256_QUALIFICATION_LOW_SIGNATURE :: bytes where
  "P256_QUALIFICATION_LOW_SIGNATURE =
    [0xB6, 0xC6, 0x64, 0x31, 0x44, 0xA6, 0x2C, 0x53, 0x5D, 0x06, 0xA8, 0x0D, 0xC8, 0x54, 0x36, 0xF8,
     0xD6, 0x07, 0x99, 0x77, 0x8E, 0xC2, 0xEF, 0x85, 0x27, 0xAE, 0x22, 0xBE, 0xE8, 0x4C, 0xC9, 0x91,
     0x32, 0xAA, 0xD3, 0x55, 0x2C, 0x8A, 0x59, 0x6A, 0x73, 0x1D, 0x9D, 0x02, 0xB7, 0xA9, 0xCD, 0x14,
     0xB5, 0x6B, 0x3F, 0x0C, 0x7B, 0xD5, 0xE8, 0xC9, 0xEC, 0x08, 0xCC, 0x60, 0x3C, 0x75, 0xA8, 0xF1]"

definition P256_QUALIFICATION_HIGH_SIGNATURE :: bytes where
  "P256_QUALIFICATION_HIGH_SIGNATURE =
    [0xB6, 0xC6, 0x64, 0x31, 0x44, 0xA6, 0x2C, 0x53, 0x5D, 0x06, 0xA8, 0x0D, 0xC8, 0x54, 0x36, 0xF8,
     0xD6, 0x07, 0x99, 0x77, 0x8E, 0xC2, 0xEF, 0x85, 0x27, 0xAE, 0x22, 0xBE, 0xE8, 0x4C, 0xC9, 0x91,
     0xCD, 0x55, 0x2C, 0xA9, 0xD3, 0x75, 0xA6, 0x96, 0x8C, 0xE2, 0x62, 0xFD, 0x48, 0x56, 0x32, 0xEB,
     0x07, 0x7B, 0xBB, 0xA1, 0x2B, 0x41, 0xB5, 0xBB, 0x07, 0xB0, 0xFE, 0x62, 0xBF, 0xED, 0x7C, 0x60]"

definition P256_ALTERNATE_PUBLIC_KEY :: bytes where
  "P256_ALTERNATE_PUBLIC_KEY =
    [0x04, 0x15, 0x73, 0x18, 0x65, 0xC4, 0x45, 0x0F, 0x07, 0xDA, 0x2E, 0x52, 0xEC, 0xE8, 0x33, 0x3A,
     0x92, 0xE6, 0x17, 0xFA, 0x3C, 0x13, 0xCC, 0x05, 0xA7, 0xC2, 0x88, 0x6A, 0x55, 0x8A, 0xDA, 0xD4,
     0x08, 0xDE, 0x94, 0x8A, 0xF1, 0x4B, 0x54, 0xA5, 0xB0, 0xCF, 0xB4, 0xC8, 0x13, 0x8B, 0x5A, 0xFE,
     0x83, 0xA6, 0xA2, 0x72, 0x98, 0x54, 0x21, 0x54, 0x8A, 0xBA, 0xA4, 0xB6, 0x73, 0x64, 0x5A, 0x5C,
     0x3E]"

definition P256_ALTERNATE_SIGNATURE :: bytes where
  "P256_ALTERNATE_SIGNATURE =
    [0x46, 0x76, 0xD6, 0xB5, 0x1E, 0x9E, 0x5A, 0x5B, 0x29, 0xA5, 0x3C, 0x1F, 0x9F, 0xD4, 0x37, 0xE1,
     0x7E, 0x6B, 0x6E, 0x40, 0xA3, 0xC7, 0xFD, 0xB7, 0xA9, 0x28, 0x92, 0xE0, 0x3D, 0x1A, 0xC6, 0x05,
     0x33, 0xFB, 0xD2, 0x05, 0xB4, 0x7C, 0xFD, 0xE1, 0xF5, 0xAE, 0xA8, 0x35, 0xD5, 0x8A, 0x7D, 0xC2,
     0xC6, 0x4C, 0xC5, 0xC2, 0xF6, 0x54, 0xB8, 0xDB, 0x0C, 0xDD, 0x68, 0x49, 0x82, 0x77, 0x7D, 0xCB]"

definition ED25519_MIXED_R_MESSAGE :: bytes where
  "ED25519_MIXED_R_MESSAGE = ascii ''YamlSigil Ed25519 mixed R qualification''"

definition ED25519_MIXED_A_MESSAGE :: bytes where
  "ED25519_MIXED_A_MESSAGE = ascii ''YamlSigil Ed25519 mixed A qualification''"

definition P256_QUALIFICATION_MESSAGE :: bytes where
  "P256_QUALIFICATION_MESSAGE = ascii ''YamlSigil P-256 SHA-256 qualification''"

section \<open>Qualification\<close>

text \<open>
  The question mark in code with an effect: an error ends the run in the state it is met. A
  step of a suite binds a key, or calls a handle and compares the outcome.
\<close>

definition try_then ::
    "('s, 'e + 'a) stateful \<Rightarrow> ('a \<Rightarrow> ('s, 'e + 'b) stateful) \<Rightarrow> ('s, 'e + 'b) stateful" where
  "try_then m f s = exec_bind (m s) (\<lambda>(r, s'). case r of Inl e \<Rightarrow> Done (Inl e, s') | Inr a \<Rightarrow> f a s')"

definition bound_by ::
    "('s, 'x) verifier_factory \<Rightarrow> algorithm_id \<Rightarrow> bytes
       \<Rightarrow> ('s, provider_qualification_error_kind + 's provider_verifier) stateful" where
  "bound_by provider algorithm public_key s =
     exec_map (\<lambda>(r, s'). (map_err (\<lambda>_. QEK_KeyBindingFailed) r, s')) (provider algorithm public_key s)"

definition expect_call ::
    "'s provider_verifier \<Rightarrow> bytes \<Rightarrow> bytes \<Rightarrow> provider_verification_outcome
       \<Rightarrow> ('s, provider_qualification_error_kind + unit) stateful" where
  "expect_call verifier message signature expected s =
     exec_map (\<lambda>(outcome, s'). (expect_provider_result outcome expected, s')) (verifier message signature s)"

primrec ed25519_rounds ::
    "('s, 'x) verifier_factory \<Rightarrow> 's provider_verifier \<Rightarrow> (bytes \<times> bytes \<times> bytes) list
       \<Rightarrow> ('s, provider_qualification_error_kind + unit) stateful" where
  "ed25519_rounds provider standard [] = (\<lambda>s. Done (Inr (), s))"
| "ed25519_rounds provider standard (v # vs) =
    (case v of (public_key, message, signature) \<Rightarrow>
      try_then (bound_by provider Ed25519 public_key) (\<lambda>verifier.
      try_then (expect_call verifier message signature PVO_Verified) (\<lambda>_.
      try_then (expect_call standard [] RFC8032_TEST_1_SIGNATURE PVO_Verified) (\<lambda>_.
      try_then (expect_call verifier [] RFC8032_TEST_1_SIGNATURE PVO_SignatureMismatch) (\<lambda>_.
      try_then (expect_call standard message signature PVO_SignatureMismatch) (\<lambda>_.
      try_then (expect_call verifier message signature PVO_Verified) (\<lambda>_.
      ed25519_rounds provider standard vs)))))))"

definition qualify_ed25519_provider ::
    "('s, 'x) verifier_factory \<Rightarrow> ('s, provider_qualification_error_kind + unit) stateful" where
  "qualify_ed25519_provider provider =
     try_then (bound_by provider Ed25519 RFC8032_TEST_1_PUBLIC_KEY) (\<lambda>standard.
     try_then (expect_call standard [] RFC8032_TEST_1_SIGNATURE PVO_Verified) (\<lambda>_.
     try_then (expect_call standard (ascii ''not empty'') RFC8032_TEST_1_SIGNATURE PVO_SignatureMismatch) (\<lambda>_.
     ed25519_rounds provider standard
       [(ED25519_MIXED_R_PUBLIC_KEY, ED25519_MIXED_R_MESSAGE, ED25519_MIXED_R_SIGNATURE),
        (ED25519_MIXED_A_PUBLIC_KEY, ED25519_MIXED_A_MESSAGE, ED25519_MIXED_A_SIGNATURE)])))"

primrec p256_rounds ::
    "'s provider_verifier \<Rightarrow> 's provider_verifier \<Rightarrow> bytes list
       \<Rightarrow> ('s, provider_qualification_error_kind + unit) stateful" where
  "p256_rounds verifier alternate [] = (\<lambda>s. Done (Inr (), s))"
| "p256_rounds verifier alternate (signature # sigs) =
     try_then (expect_call verifier P256_QUALIFICATION_MESSAGE signature PVO_Verified) (\<lambda>_.
     try_then (expect_call alternate P256_QUALIFICATION_MESSAGE signature PVO_SignatureMismatch) (\<lambda>_.
     p256_rounds verifier alternate sigs))"

definition qualify_p256_provider ::
    "('s, 'x) verifier_factory \<Rightarrow> ('s, provider_qualification_error_kind + unit) stateful" where
  "qualify_p256_provider provider =
    (let m = P256_QUALIFICATION_MESSAGE; different = ascii ''different'' in
     try_then (bound_by provider EcdsaP256Sha256 P256_QUALIFICATION_PUBLIC_KEY) (\<lambda>verifier.
     try_then (expect_call verifier m P256_QUALIFICATION_LOW_SIGNATURE PVO_Verified) (\<lambda>_.
     try_then (expect_call verifier m P256_QUALIFICATION_HIGH_SIGNATURE PVO_Verified) (\<lambda>_.
     try_then (expect_call verifier different P256_QUALIFICATION_LOW_SIGNATURE PVO_SignatureMismatch) (\<lambda>_.
     try_then (bound_by provider EcdsaP256Sha256 P256_ALTERNATE_PUBLIC_KEY) (\<lambda>alternate.
     try_then (expect_call alternate m P256_ALTERNATE_SIGNATURE PVO_Verified) (\<lambda>_.
     try_then (p256_rounds verifier alternate
         [P256_QUALIFICATION_LOW_SIGNATURE, P256_QUALIFICATION_HIGH_SIGNATURE]) (\<lambda>_.
     try_then (expect_call verifier m P256_ALTERNATE_SIGNATURE PVO_SignatureMismatch) (\<lambda>_.
     try_then (expect_call alternate different P256_ALTERNATE_SIGNATURE PVO_SignatureMismatch) (\<lambda>_.
     expect_call alternate m P256_ALTERNATE_SIGNATURE PVO_Verified))))))))))"

section \<open>Providers and bound keys\<close>

record ('s, 'x) verification_provider_builder =
  vpb_provider :: "('s, 'x) verifier_factory"

record ('s, 'x) qualified_verification_provider =
  qvp_provider :: "('s, 'x) verifier_factory"
  qvp_ed25519 :: provider_qualification_status
  qvp_ecdsa_p256_sha256 :: provider_qualification_status

record ('s, 'x) unqualified_verification_provider =
  uvp_provider :: "('s, 'x) verifier_factory"

record 's provider_verifying_key =
  pvk_algorithm :: algorithm_id
  pvk_canonical_public_key :: bytes
  pvk_verifier :: "'s provider_verifier"

record 's unqualified_provider_verifying_key =
  upvk_algorithm :: algorithm_id
  upvk_canonical_public_key :: bytes
  upvk_verifier :: "'s provider_verifier"

definition provider_builder_new :: "('s, 'x) verifier_factory \<Rightarrow> ('s, 'x) verification_provider_builder" where
  "provider_builder_new provider = \<lparr>vpb_provider = provider\<rparr>"

definition qualify ::
    "('s, 'x) verification_provider_builder \<Rightarrow> ('s, ('s, 'x) qualified_verification_provider) stateful" where
  "qualify builder s =
    (let provider = vpb_provider builder in
     exec_bind (qualify_ed25519_provider provider s) (\<lambda>(ed, s1).
     exec_map (\<lambda>(p256, s2).
         (\<lparr>qvp_provider = provider,
           qvp_ed25519 = qualification_status Ed25519 ed,
           qvp_ecdsa_p256_sha256 = qualification_status EcdsaP256Sha256 p256\<rparr>, s2))
       (qualify_p256_provider provider s1)))"

definition provider_build_unqualified ::
    "('s, 'x) verification_provider_builder \<Rightarrow> ('s, 'x) unqualified_verification_provider" where
  "provider_build_unqualified builder = \<lparr>uvp_provider = vpb_provider builder\<rparr>"

fun slot_status ::
    "('s, 'x) qualified_verification_provider \<Rightarrow> algorithm_id \<Rightarrow> provider_qualification_status" where
  "slot_status p Ed25519 = qvp_ed25519 p"
| "slot_status p EcdsaP256Sha256 = qvp_ecdsa_p256_sha256 p"

definition qualified_bind ::
    "('u, 'w, 'k, 'z) crypto_ext_scheme \<Rightarrow> ('s, 'x) qualified_verification_provider \<Rightarrow> algorithm_id
       \<Rightarrow> bytes \<Rightarrow> ('s, provider_key_binding_error + 's provider_verifying_key) stateful" where
  "qualified_bind x p algorithm canonical_public_key s =
     (case validate_public_key x algorithm canonical_public_key of
        Inl e \<Rightarrow> Done (Inl e, s)
      | Inr _ \<Rightarrow>
          if \<not> is_qualified (slot_status p algorithm)
          then Done (Inl (binding_error algorithm BEK_AlgorithmNotQualified), s)
          else
            exec_map (\<lambda>(r, s').
                (result_try (map_err (\<lambda>_. binding_error algorithm BEK_ProviderBindingFailed) r) (\<lambda>verifier.
                   Inr \<lparr>pvk_algorithm = algorithm, pvk_canonical_public_key = canonical_public_key,
                        pvk_verifier = verifier\<rparr>), s'))
              (qvp_provider p algorithm canonical_public_key s))"

definition bind_ed25519 ::
    "('u, 'w, 'k, 'z) crypto_ext_scheme \<Rightarrow> ('s, 'x) qualified_verification_provider
       \<Rightarrow> bytes \<Rightarrow> ('s, provider_key_binding_error + 's provider_verifying_key) stateful" where
  "bind_ed25519 x p canonical_public_key = qualified_bind x p Ed25519 canonical_public_key"

definition bind_ecdsa_p256_sha256 ::
    "('u, 'w, 'k, 'z) crypto_ext_scheme \<Rightarrow> ('s, 'x) qualified_verification_provider
       \<Rightarrow> bytes \<Rightarrow> ('s, provider_key_binding_error + 's provider_verifying_key) stateful" where
  "bind_ecdsa_p256_sha256 x p canonical_public_key = qualified_bind x p EcdsaP256Sha256 canonical_public_key"

definition unqualified_bind ::
    "('u, 'w, 'k, 'z) crypto_ext_scheme \<Rightarrow> ('s, 'x) unqualified_verification_provider \<Rightarrow> algorithm_id
       \<Rightarrow> bytes \<Rightarrow> ('s, provider_key_binding_error + 's unqualified_provider_verifying_key) stateful" where
  "unqualified_bind x p algorithm canonical_public_key s =
     (case validate_public_key x algorithm canonical_public_key of
        Inl e \<Rightarrow> Done (Inl e, s)
      | Inr _ \<Rightarrow>
          exec_map (\<lambda>(r, s').
              (result_try (map_err (\<lambda>_. binding_error algorithm BEK_ProviderBindingFailed) r) (\<lambda>verifier.
                 Inr \<lparr>upvk_algorithm = algorithm, upvk_canonical_public_key = canonical_public_key,
                      upvk_verifier = verifier\<rparr>), s'))
            (uvp_provider p algorithm canonical_public_key s))"

definition unqualified_bind_ed25519 ::
    "('u, 'w, 'k, 'z) crypto_ext_scheme \<Rightarrow> ('s, 'x) unqualified_verification_provider
       \<Rightarrow> bytes \<Rightarrow> ('s, provider_key_binding_error + 's unqualified_provider_verifying_key) stateful" where
  "unqualified_bind_ed25519 x p canonical_public_key = unqualified_bind x p Ed25519 canonical_public_key"

definition unqualified_bind_ecdsa_p256_sha256 ::
    "('u, 'w, 'k, 'z) crypto_ext_scheme \<Rightarrow> ('s, 'x) unqualified_verification_provider
       \<Rightarrow> bytes \<Rightarrow> ('s, provider_key_binding_error + 's unqualified_provider_verifying_key) stateful" where
  "unqualified_bind_ecdsa_p256_sha256 x p canonical_public_key =
     unqualified_bind x p EcdsaP256Sha256 canonical_public_key"

section \<open>Bound keys as verification keys\<close>

fun provider_outcome :: "provider_verification_outcome \<Rightarrow> key_verification_outcome" where
  "provider_outcome PVO_Verified = KV_Verified"
| "provider_outcome PVO_SignatureMismatch = KV_SignatureMismatch"
| "provider_outcome PVO_ProviderFailure = KV_ProviderFailure"

definition provider_key_is_admissible ::
    "('u, 'w, 'k, 'z) crypto_ext_scheme \<Rightarrow> algorithm_id \<Rightarrow> algorithm_id \<Rightarrow> bytes \<Rightarrow> bool" where
  "provider_key_is_admissible x slot algorithm canonical_public_key \<longleftrightarrow>
     algorithm = slot \<and> provider_public_key_is_admissible x slot canonical_public_key"

definition provider_key ::
    "('u, 'w, 'k, 'z) crypto_ext_scheme \<Rightarrow> algorithm_id \<Rightarrow> ('s provider_verifying_key, 's) verification_key" where
  "provider_key x slot =
     \<lparr>vk_is_admissible = (\<lambda>key. provider_key_is_admissible x slot (pvk_algorithm key) (pvk_canonical_public_key key)),
      vk_verify_signature = (\<lambda>key payload signature s.
        exec_map (\<lambda>(outcome, s'). (provider_outcome outcome, s')) (pvk_verifier key payload signature s))\<rparr>"

definition unqualified_provider_key ::
    "('u, 'w, 'k, 'z) crypto_ext_scheme \<Rightarrow> algorithm_id
       \<Rightarrow> ('s unqualified_provider_verifying_key, 's) verification_key" where
  "unqualified_provider_key x slot =
     \<lparr>vk_is_admissible = (\<lambda>key. provider_key_is_admissible x slot (upvk_algorithm key) (upvk_canonical_public_key key)),
      vk_verify_signature = (\<lambda>key payload signature s.
        exec_map (\<lambda>(outcome, s'). (provider_outcome outcome, s')) (upvk_verifier key payload signature s))\<rparr>"

section \<open>Entry points\<close>

definition verify_from_pre_verify_with_keys ::
    "('u, 'w, 'k, 'z) crypto_ext_scheme \<Rightarrow> ('e, 's) verification_key \<Rightarrow> ('p, 's) verification_key
       \<Rightarrow> pre_verify_response \<Rightarrow> ('e, 'p) public_keys \<Rightarrow> verifier_options \<Rightarrow> ('s, verdict) stateful" where
  "verify_from_pre_verify_with_keys x ed p256 pre keys options s =
     (if pr_outcome pre \<noteq> PV_Ok then Done (Inl IE_InvalidPreVerifyResult, s)
      else
        (case (pr_unverified_payload_bytes pre, pr_unverified_signature pre) of
           (Some payload, Some signature) \<Rightarrow>
             verify_extracted_signature_with_keys x ed p256 payload
               (case us_algorithm signature of Ed25519 \<Rightarrow> 1 | EcdsaP256Sha256 \<Rightarrow> 2)
               (us_signature_octets signature) keys options s
         | _ \<Rightarrow> Done (Inl IE_InvalidPreVerifyResult, s)))"

definition verify_with_provider_keys_and_metadata ::
    "('u, 'w, 'k, 'z) crypto_ext_scheme \<Rightarrow> ('e, 's) verification_key \<Rightarrow> ('p, 's) verification_key
       \<Rightarrow> bytes \<Rightarrow> artifact_form \<Rightarrow> ('e, 'p) public_keys \<Rightarrow> verifier_options \<Rightarrow> bool
       \<Rightarrow> ('s, invocation_error + verify_result) stateful" where
  "verify_with_provider_keys_and_metadata x ed p256 input_bytes form keys options include_parser_observations s =
     (if form \<notin> set (vcap_supported_forms verifier_capabilities)
      then Done (Inl IE_InvalidOrUnsupportedForm, s)
      else if vo_algorithm_parameters options \<noteq> [] then Done (Inl IE_InvalidAlgorithmParameters, s)
      else
        exec_bind (pre_verify x input_bytes form False include_parser_observations) (\<lambda>pre.
          let parser_observations = (if include_parser_observations then pr_parser_observations pre else []) in
          exec_map (\<lambda>(r, s').
              (result_map (\<lambda>state. \<lparr>vr_state = state, vr_parser_observations = parser_observations\<rparr>) r, s'))
            (case pr_outcome pre of
               PV_Ok \<Rightarrow> verify_from_pre_verify_with_keys x ed p256 pre keys options s
             | PV_Unsigned \<Rightarrow> Done (Inr VS_Unsigned, s)
             | PV_StructuralFailure \<Rightarrow> Done (Inr VS_MalformedAttemptedSigned, s)
             | PV_MetadataParseFailure \<Rightarrow> Done (Inr VS_MalformedAttemptedSigned, s))))"

type_synonym 's provider_public_keys = "('s provider_verifying_key, 's provider_verifying_key) public_keys"
type_synonym 's unqualified_provider_public_keys =
  "('s unqualified_provider_verifying_key, 's unqualified_provider_verifying_key) public_keys"

definition verify_with_provider_and_metadata ::
    "('u, 'w, 'k, 'z) crypto_ext_scheme \<Rightarrow> bytes \<Rightarrow> artifact_form \<Rightarrow> 's provider_public_keys
       \<Rightarrow> verifier_options \<Rightarrow> bool \<Rightarrow> ('s, invocation_error + verify_result) stateful" where
  "verify_with_provider_and_metadata x =
     verify_with_provider_keys_and_metadata x (provider_key x Ed25519) (provider_key x EcdsaP256Sha256)"

definition verify_with_provider ::
    "('u, 'w, 'k, 'z) crypto_ext_scheme \<Rightarrow> bytes \<Rightarrow> artifact_form \<Rightarrow> 's provider_public_keys
       \<Rightarrow> verifier_options \<Rightarrow> ('s, verdict) stateful" where
  "verify_with_provider x input_bytes form keys options s =
     exec_map (\<lambda>(r, s'). (result_map vr_state r, s'))
       (verify_with_provider_and_metadata x input_bytes form keys options False s)"

definition verify_from_pre_verify_with_provider ::
    "('u, 'w, 'k, 'z) crypto_ext_scheme \<Rightarrow> pre_verify_response \<Rightarrow> 's provider_public_keys
       \<Rightarrow> verifier_options \<Rightarrow> ('s, verdict) stateful" where
  "verify_from_pre_verify_with_provider x pre keys options s =
     (if vo_algorithm_parameters options \<noteq> [] then Done (Inl IE_InvalidAlgorithmParameters, s)
      else verify_from_pre_verify_with_keys x (provider_key x Ed25519) (provider_key x EcdsaP256Sha256)
             pre keys options s)"

definition verify_with_unqualified_provider_and_metadata ::
    "('u, 'w, 'k, 'z) crypto_ext_scheme \<Rightarrow> bytes \<Rightarrow> artifact_form \<Rightarrow> 's unqualified_provider_public_keys
       \<Rightarrow> verifier_options \<Rightarrow> bool \<Rightarrow> ('s, invocation_error + verify_result) stateful" where
  "verify_with_unqualified_provider_and_metadata x =
     verify_with_provider_keys_and_metadata x (unqualified_provider_key x Ed25519)
       (unqualified_provider_key x EcdsaP256Sha256)"

definition verify_with_unqualified_provider ::
    "('u, 'w, 'k, 'z) crypto_ext_scheme \<Rightarrow> bytes \<Rightarrow> artifact_form \<Rightarrow> 's unqualified_provider_public_keys
       \<Rightarrow> verifier_options \<Rightarrow> ('s, verdict) stateful" where
  "verify_with_unqualified_provider x input_bytes form keys options s =
     exec_map (\<lambda>(r, s'). (result_map vr_state r, s'))
       (verify_with_unqualified_provider_and_metadata x input_bytes form keys options False s)"

definition verify_from_pre_verify_with_unqualified_provider ::
    "('u, 'w, 'k, 'z) crypto_ext_scheme \<Rightarrow> pre_verify_response \<Rightarrow> 's unqualified_provider_public_keys
       \<Rightarrow> verifier_options \<Rightarrow> ('s, verdict) stateful" where
  "verify_from_pre_verify_with_unqualified_provider x pre keys options s =
     (if vo_algorithm_parameters options \<noteq> [] then Done (Inl IE_InvalidAlgorithmParameters, s)
      else verify_from_pre_verify_with_keys x (unqualified_provider_key x Ed25519)
             (unqualified_provider_key x EcdsaP256Sha256) pre keys options s)"

end
