(* ===== verification/Verification_Async.thy ===== *)
theory Verification_Async
  imports Verification_Provider
begin

text \<open>
  \<open>async_provider.rs\<close> of \<open>yaml-sigil-verification\<close>: awaited binding, qualification and
  verification. Awaiting a future is the state passing of the adapter's operation; a future
  that never completes is a run that does not return.
\<close>

section \<open>Qualification\<close>

definition bind_verifier ::
    "('s, 'x) verifier_factory \<Rightarrow> algorithm_id \<Rightarrow> bytes \<Rightarrow> ('s, 'x + 's provider_verifier) stateful" where
  "bind_verifier provider algorithm public_key s =
     exec_map (\<lambda>(r, s'). (result_try r Inr, s')) (provider algorithm public_key s)"

definition awaited_binding ::
    "('s, 'x) verifier_factory \<Rightarrow> algorithm_id \<Rightarrow> bytes
       \<Rightarrow> ('s, provider_qualification_error_kind + 's provider_verifier) stateful" where
  "awaited_binding provider algorithm public_key s =
     exec_map (\<lambda>(r, s'). (map_err (\<lambda>_. QEK_KeyBindingFailed) r, s')) (bind_verifier provider algorithm public_key s)"

primrec async_ed25519_rounds ::
    "('s, 'x) verifier_factory \<Rightarrow> 's provider_verifier \<Rightarrow> (bytes \<times> bytes \<times> bytes) list
       \<Rightarrow> ('s, provider_qualification_error_kind + unit) stateful" where
  "async_ed25519_rounds provider standard [] = (\<lambda>s. Done (Inr (), s))"
| "async_ed25519_rounds provider standard (v # vs) =
    (case v of (key, message, signature) \<Rightarrow>
      try_then (awaited_binding provider Ed25519 key) (\<lambda>verifier.
      try_then (expect_call verifier message signature PVO_Verified) (\<lambda>_.
      try_then (expect_call standard [] RFC8032_TEST_1_SIGNATURE PVO_Verified) (\<lambda>_.
      try_then (expect_call verifier [] RFC8032_TEST_1_SIGNATURE PVO_SignatureMismatch) (\<lambda>_.
      try_then (expect_call standard message signature PVO_SignatureMismatch) (\<lambda>_.
      try_then (expect_call verifier message signature PVO_Verified) (\<lambda>_.
      async_ed25519_rounds provider standard vs)))))))"

definition qualify_ed25519 ::
    "('s, 'x) verifier_factory \<Rightarrow> ('s, provider_qualification_error_kind + unit) stateful" where
  "qualify_ed25519 provider =
     try_then (awaited_binding provider Ed25519 RFC8032_TEST_1_PUBLIC_KEY) (\<lambda>standard.
     try_then (expect_call standard [] RFC8032_TEST_1_SIGNATURE PVO_Verified) (\<lambda>_.
     try_then (expect_call standard (ascii ''not empty'') RFC8032_TEST_1_SIGNATURE PVO_SignatureMismatch) (\<lambda>_.
     async_ed25519_rounds provider standard
       [(ED25519_MIXED_R_PUBLIC_KEY, ED25519_MIXED_R_MESSAGE, ED25519_MIXED_R_SIGNATURE),
        (ED25519_MIXED_A_PUBLIC_KEY, ED25519_MIXED_A_MESSAGE, ED25519_MIXED_A_SIGNATURE)])))"

primrec async_p256_rounds ::
    "bytes \<Rightarrow> 's provider_verifier \<Rightarrow> 's provider_verifier \<Rightarrow> bytes list
       \<Rightarrow> ('s, provider_qualification_error_kind + unit) stateful" where
  "async_p256_rounds m verifier alternate [] = (\<lambda>s. Done (Inr (), s))"
| "async_p256_rounds m verifier alternate (signature # sigs) =
     try_then (expect_call verifier m signature PVO_Verified) (\<lambda>_.
     try_then (expect_call alternate m signature PVO_SignatureMismatch) (\<lambda>_.
     async_p256_rounds m verifier alternate sigs))"

definition qualify_p256 ::
    "('s, 'x) verifier_factory \<Rightarrow> ('s, provider_qualification_error_kind + unit) stateful" where
  "qualify_p256 provider =
    (let m = ascii ''YamlSigil P-256 SHA-256 qualification''; different = ascii ''different'' in
     try_then (awaited_binding provider EcdsaP256Sha256 P256_QUALIFICATION_PUBLIC_KEY) (\<lambda>verifier.
     try_then (expect_call verifier m P256_QUALIFICATION_LOW_SIGNATURE PVO_Verified) (\<lambda>_.
     try_then (expect_call verifier m P256_QUALIFICATION_HIGH_SIGNATURE PVO_Verified) (\<lambda>_.
     try_then (expect_call verifier different P256_QUALIFICATION_LOW_SIGNATURE PVO_SignatureMismatch) (\<lambda>_.
     try_then (awaited_binding provider EcdsaP256Sha256 P256_ALTERNATE_PUBLIC_KEY) (\<lambda>alternate.
     try_then (expect_call alternate m P256_ALTERNATE_SIGNATURE PVO_Verified) (\<lambda>_.
     try_then (async_p256_rounds m verifier alternate
         [P256_QUALIFICATION_LOW_SIGNATURE, P256_QUALIFICATION_HIGH_SIGNATURE]) (\<lambda>_.
     try_then (expect_call verifier m P256_ALTERNATE_SIGNATURE PVO_SignatureMismatch) (\<lambda>_.
     try_then (expect_call alternate different P256_ALTERNATE_SIGNATURE PVO_SignatureMismatch) (\<lambda>_.
     expect_call alternate m P256_ALTERNATE_SIGNATURE PVO_Verified))))))))))"

section \<open>Providers and bound keys\<close>

record ('s, 'x) async_verification_provider_builder =
  avpb_provider :: "('s, 'x) verifier_factory"

record ('s, 'x) qualified_async_verification_provider =
  qavp_provider :: "('s, 'x) verifier_factory"
  qavp_ed25519 :: provider_qualification_status
  qavp_ecdsa_p256_sha256 :: provider_qualification_status

record ('s, 'x) unqualified_async_verification_provider =
  uavp_provider :: "('s, 'x) verifier_factory"

record 's bound_verifier =
  bv_algorithm :: algorithm_id
  bv_canonical_public_key :: bytes
  bv_verifier :: "'s provider_verifier"

record 's async_provider_verifying_key =
  apvk_inner :: "'s bound_verifier"

record 's unqualified_async_provider_verifying_key =
  uapvk_inner :: "'s bound_verifier"

definition async_provider_builder_new ::
    "('s, 'x) verifier_factory \<Rightarrow> ('s, 'x) async_verification_provider_builder" where
  "async_provider_builder_new provider = \<lparr>avpb_provider = provider\<rparr>"

definition async_qualify ::
    "('s, 'x) async_verification_provider_builder
       \<Rightarrow> ('s, ('s, 'x) qualified_async_verification_provider) stateful" where
  "async_qualify builder s =
    (let provider = avpb_provider builder in
     exec_bind (qualify_ed25519 provider s) (\<lambda>(ed, s1).
     exec_map (\<lambda>(p256, s2).
         (\<lparr>qavp_provider = provider,
           qavp_ed25519 = qualification_status Ed25519 ed,
           qavp_ecdsa_p256_sha256 = qualification_status EcdsaP256Sha256 p256\<rparr>, s2))
       (qualify_p256 provider s1)))"

definition async_provider_build_unqualified ::
    "('s, 'x) async_verification_provider_builder \<Rightarrow> ('s, 'x) unqualified_async_verification_provider" where
  "async_provider_build_unqualified builder = \<lparr>uavp_provider = avpb_provider builder\<rparr>"

fun async_slot_status ::
    "('s, 'x) qualified_async_verification_provider \<Rightarrow> algorithm_id \<Rightarrow> provider_qualification_status" where
  "async_slot_status p Ed25519 = qavp_ed25519 p"
| "async_slot_status p EcdsaP256Sha256 = qavp_ecdsa_p256_sha256 p"

definition bind_key ::
    "('u, 'w, 'k, 'z) crypto_ext_scheme \<Rightarrow> ('s, 'x) verifier_factory \<Rightarrow> algorithm_id \<Rightarrow> bytes
       \<Rightarrow> ('s, provider_key_binding_error + 's bound_verifier) stateful" where
  "bind_key x provider algorithm public_key s =
     (case validate_public_key x algorithm public_key of
        Inl e \<Rightarrow> Done (Inl e, s)
      | Inr _ \<Rightarrow>
          exec_map (\<lambda>(r, s').
              (result_try (map_err (\<lambda>_. binding_error algorithm BEK_ProviderBindingFailed) r) (\<lambda>verifier.
                 Inr \<lparr>bv_algorithm = algorithm, bv_canonical_public_key = public_key, bv_verifier = verifier\<rparr>), s'))
            (bind_verifier provider algorithm public_key s))"

definition async_qualified_bind ::
    "('u, 'w, 'k, 'z) crypto_ext_scheme \<Rightarrow> ('s, 'x) qualified_async_verification_provider \<Rightarrow> algorithm_id
       \<Rightarrow> bytes \<Rightarrow> ('s, provider_key_binding_error + 's async_provider_verifying_key) stateful" where
  "async_qualified_bind x p algorithm public_key s =
     (case validate_public_key x algorithm public_key of
        Inl e \<Rightarrow> Done (Inl e, s)
      | Inr _ \<Rightarrow>
          if \<not> is_qualified (async_slot_status p algorithm)
          then Done (Inl (binding_error algorithm BEK_AlgorithmNotQualified), s)
          else exec_map (\<lambda>(r, s'). (result_map (\<lambda>inner. \<lparr>apvk_inner = inner\<rparr>) r, s'))
                 (bind_key x (qavp_provider p) algorithm public_key s))"

definition async_bind_ed25519 ::
    "('u, 'w, 'k, 'z) crypto_ext_scheme \<Rightarrow> ('s, 'x) qualified_async_verification_provider
       \<Rightarrow> bytes \<Rightarrow> ('s, provider_key_binding_error + 's async_provider_verifying_key) stateful" where
  "async_bind_ed25519 x p public_key = async_qualified_bind x p Ed25519 public_key"

definition async_bind_ecdsa_p256_sha256 ::
    "('u, 'w, 'k, 'z) crypto_ext_scheme \<Rightarrow> ('s, 'x) qualified_async_verification_provider
       \<Rightarrow> bytes \<Rightarrow> ('s, provider_key_binding_error + 's async_provider_verifying_key) stateful" where
  "async_bind_ecdsa_p256_sha256 x p public_key = async_qualified_bind x p EcdsaP256Sha256 public_key"

definition unqualified_async_bind_ed25519 ::
    "('u, 'w, 'k, 'z) crypto_ext_scheme \<Rightarrow> ('s, 'x) unqualified_async_verification_provider
       \<Rightarrow> bytes \<Rightarrow> ('s, provider_key_binding_error + 's unqualified_async_provider_verifying_key) stateful" where
  "unqualified_async_bind_ed25519 x p public_key s =
     exec_map (\<lambda>(r, s'). (result_map (\<lambda>inner. \<lparr>uapvk_inner = inner\<rparr>) r, s'))
       (bind_key x (uavp_provider p) Ed25519 public_key s)"

definition unqualified_async_bind_ecdsa_p256_sha256 ::
    "('u, 'w, 'k, 'z) crypto_ext_scheme \<Rightarrow> ('s, 'x) unqualified_async_verification_provider
       \<Rightarrow> bytes \<Rightarrow> ('s, provider_key_binding_error + 's unqualified_async_provider_verifying_key) stateful" where
  "unqualified_async_bind_ecdsa_p256_sha256 x p public_key s =
     exec_map (\<lambda>(r, s'). (result_map (\<lambda>inner. \<lparr>uapvk_inner = inner\<rparr>) r, s'))
       (bind_key x (uavp_provider p) EcdsaP256Sha256 public_key s)"

section \<open>Verification\<close>

text \<open>A bound key is anything with an inner verifier; both key types are, and so are admissible alike.\<close>

definition async_key_is_admissible ::
    "('u, 'w, 'k, 'z) crypto_ext_scheme \<Rightarrow> ('key \<Rightarrow> 's bound_verifier) \<Rightarrow> algorithm_id \<Rightarrow> 'key \<Rightarrow> bool" where
  "async_key_is_admissible x inner slot key \<longleftrightarrow>
     bv_algorithm (inner key) = slot
     \<and> provider_public_key_is_admissible x slot (bv_canonical_public_key (inner key))"

definition verify_from_pre ::
    "('u, 'w, 'k, 'z) crypto_ext_scheme \<Rightarrow> ('key \<Rightarrow> 's bound_verifier) \<Rightarrow> pre_verify_response
       \<Rightarrow> ('key, 'key) public_keys \<Rightarrow> verifier_options \<Rightarrow> ('s, verdict) stateful" where
  "verify_from_pre x inner pre keys options s =
     (if vo_algorithm_parameters options \<noteq> [] then Done (Inl IE_InvalidAlgorithmParameters, s)
      else if pr_outcome pre \<noteq> PV_Ok then Done (Inl IE_InvalidPreVerifyResult, s)
      else
        (case (pr_unverified_payload_bytes pre, pr_unverified_signature pre) of
           (Some payload, Some signature) \<Rightarrow>
             exec_bind (prepare_signature_verification x
                 (async_key_is_admissible x inner Ed25519) (async_key_is_admissible x inner EcdsaP256Sha256)
                 (case us_algorithm signature of Ed25519 \<Rightarrow> 1 | EcdsaP256Sha256 \<Rightarrow> 2)
                 (us_signature_octets signature) keys options) (\<lambda>prepared.
               let await = (\<lambda>key octets.
                 exec_map (\<lambda>(outcome, s').
                     (verification_state_from_outcome (provider_outcome outcome) payload (us_algorithm signature), s'))
                   (bv_verifier (inner key) payload octets s)) in
               case prepared of
                 Inl e \<Rightarrow> Done (Inl e, s)
               | Inr (PVF_Complete state) \<Rightarrow> Done (Inr state, s)
               | Inr (PVF_Ed25519 key octets) \<Rightarrow> await key octets
               | Inr (PVF_P256 key octets) \<Rightarrow> await key octets)
         | _ \<Rightarrow> Done (Inl IE_InvalidPreVerifyResult, s)))"

definition verify_metadata ::
    "('u, 'w, 'k, 'z) crypto_ext_scheme \<Rightarrow> ('key \<Rightarrow> 's bound_verifier) \<Rightarrow> bytes \<Rightarrow> artifact_form
       \<Rightarrow> ('key, 'key) public_keys \<Rightarrow> verifier_options \<Rightarrow> bool
       \<Rightarrow> ('s, invocation_error + verify_result) stateful" where
  "verify_metadata x inner input form keys options include_parser_observations s =
     (if form \<notin> set (vcap_supported_forms verifier_capabilities)
      then Done (Inl IE_InvalidOrUnsupportedForm, s)
      else if vo_algorithm_parameters options \<noteq> [] then Done (Inl IE_InvalidAlgorithmParameters, s)
      else
        exec_bind (pre_verify x input form False include_parser_observations) (\<lambda>pre.
          exec_map (\<lambda>(r, s').
              (result_map (\<lambda>state. \<lparr>vr_state = state,
                 vr_parser_observations = (if include_parser_observations then pr_parser_observations pre else [])\<rparr>) r,
               s'))
            (case pr_outcome pre of
               PV_Ok \<Rightarrow> verify_from_pre x inner pre keys options s
             | PV_Unsigned \<Rightarrow> Done (Inr VS_Unsigned, s)
             | PV_StructuralFailure \<Rightarrow> Done (Inr VS_MalformedAttemptedSigned, s)
             | PV_MetadataParseFailure \<Rightarrow> Done (Inr VS_MalformedAttemptedSigned, s))))"

type_synonym 's async_provider_public_keys =
  "('s async_provider_verifying_key, 's async_provider_verifying_key) public_keys"
type_synonym 's unqualified_async_provider_public_keys =
  "('s unqualified_async_provider_verifying_key, 's unqualified_async_provider_verifying_key) public_keys"

definition verify_with_async_provider_and_metadata ::
    "('u, 'w, 'k, 'z) crypto_ext_scheme \<Rightarrow> bytes \<Rightarrow> artifact_form \<Rightarrow> 's async_provider_public_keys
       \<Rightarrow> verifier_options \<Rightarrow> bool \<Rightarrow> ('s, invocation_error + verify_result) stateful" where
  "verify_with_async_provider_and_metadata x = verify_metadata x apvk_inner"

definition verify_with_async_provider ::
    "('u, 'w, 'k, 'z) crypto_ext_scheme \<Rightarrow> bytes \<Rightarrow> artifact_form \<Rightarrow> 's async_provider_public_keys
       \<Rightarrow> verifier_options \<Rightarrow> ('s, verdict) stateful" where
  "verify_with_async_provider x input form keys options s =
     exec_map (\<lambda>(r, s'). (result_map vr_state r, s')) (verify_metadata x apvk_inner input form keys options False s)"

definition verify_from_pre_verify_with_async_provider ::
    "('u, 'w, 'k, 'z) crypto_ext_scheme \<Rightarrow> pre_verify_response \<Rightarrow> 's async_provider_public_keys
       \<Rightarrow> verifier_options \<Rightarrow> ('s, verdict) stateful" where
  "verify_from_pre_verify_with_async_provider x = verify_from_pre x apvk_inner"

definition verify_with_unqualified_async_provider_and_metadata ::
    "('u, 'w, 'k, 'z) crypto_ext_scheme \<Rightarrow> bytes \<Rightarrow> artifact_form \<Rightarrow> 's unqualified_async_provider_public_keys
       \<Rightarrow> verifier_options \<Rightarrow> bool \<Rightarrow> ('s, invocation_error + verify_result) stateful" where
  "verify_with_unqualified_async_provider_and_metadata x = verify_metadata x uapvk_inner"

definition verify_with_unqualified_async_provider ::
    "('u, 'w, 'k, 'z) crypto_ext_scheme \<Rightarrow> bytes \<Rightarrow> artifact_form \<Rightarrow> 's unqualified_async_provider_public_keys
       \<Rightarrow> verifier_options \<Rightarrow> ('s, verdict) stateful" where
  "verify_with_unqualified_async_provider x input form keys options s =
     exec_map (\<lambda>(r, s'). (result_map vr_state r, s')) (verify_metadata x uapvk_inner input form keys options False s)"

definition verify_from_pre_verify_with_unqualified_async_provider ::
    "('u, 'w, 'k, 'z) crypto_ext_scheme \<Rightarrow> pre_verify_response \<Rightarrow> 's unqualified_async_provider_public_keys
       \<Rightarrow> verifier_options \<Rightarrow> ('s, verdict) stateful" where
  "verify_from_pre_verify_with_unqualified_async_provider x = verify_from_pre x uapvk_inner"

end
