(* ===== verification/Verification_Provider_Facts.thy ===== *)
theory Verification_Provider_Facts
  imports Verification_Async Sign_Verify
begin

text \<open>
  What verification through a provider guarantees: what a verified verdict rests on, when the
  verdict is the one of the crate's own equations, what qualification establishes, and that
  the awaited operations are the synchronous ones.
\<close>

section \<open>The verdict through a provider\<close>

definition provider_verdict ::
    "('u, 'w, 'k, 'z) crypto_ext_scheme \<Rightarrow> ('e, 's) verification_key \<Rightarrow> ('p, 's) verification_key
       \<Rightarrow> artifact_form \<Rightarrow> bytes \<Rightarrow> ('e, 'p) public_keys \<Rightarrow> verifier_options \<Rightarrow> ('s, verdict) stateful" where
  "provider_verdict x ed p256 form a keys options s =
     (if vo_algorithm_parameters options \<noteq> [] then Done (Inl IE_InvalidAlgorithmParameters, s)
      else (case read_artifact x form False a of
              Inl _ \<Rightarrow> Done (Inr VS_MalformedAttemptedSigned, s)
            | Inr (payload, us) \<Rightarrow> judged_with x ed p256 payload us keys options s))"

lemma wire_algorithm_case: "(case a of Ed25519 \<Rightarrow> 1 | EcdsaP256Sha256 \<Rightarrow> 2) = wire_algorithm a"
  by (cases a) simp_all

lemma from_pre_with_keys_eq:
  assumes "traits_ok x"
  shows "verify_from_pre_verify_with_keys x ed p256 (response_of form r) keys options s =
    (case r of
       Inl outcome \<Rightarrow> Done (Inl IE_InvalidPreVerifyResult, s)
     | Inr (payload, us) \<Rightarrow> judged_with x ed p256 payload us keys options s)"
  by (auto simp: verify_from_pre_verify_with_keys_def response_of_def failed_response_def
      wire_algorithm_case verify_extracted_eq [OF assms] split: sum.split)

lemma provider_keys_eq:
  assumes "traits_ok x"
  shows "verify_with_provider_keys_and_metadata x ed p256 a form keys options obs s =
    exec_map (\<lambda>(r, s'). (result_map (\<lambda>state. \<lparr>vr_state = state, vr_parser_observations = []\<rparr>) r, s'))
      (provider_verdict x ed p256 form a keys options s)"
proof (cases "read_artifact x form False a")
  case (Inl out)
  then show ?thesis
    using read_artifact_not_ok [of x form False a] read_unsigned_iff [of x form False a]
    by (cases out)
       (auto simp: verify_with_provider_keys_and_metadata_def provider_verdict_def pre_verify_eq
         response_of_def failed_response_def Let_def)
next
  case (Inr r)
  have "pr_outcome (response_of form (Inr r)) = PV_Ok" "pr_parser_observations (response_of form (Inr r)) = []"
    by (simp_all add: response_of_def split: prod.split)
  then show ?thesis
    using Inr by (cases r)
      (simp add: verify_with_provider_keys_and_metadata_def provider_verdict_def pre_verify_eq
        from_pre_with_keys_eq [OF assms] Let_def)
qed

lemma verify_with_provider_eq:
  assumes "traits_ok x"
  shows "verify_with_provider x a form keys options s =
    provider_verdict x (provider_key x Ed25519) (provider_key x EcdsaP256Sha256) form a keys options s"
proof -
  have "exec_map (\<lambda>(r, s'). (result_map vr_state r, s'))
      (exec_map (\<lambda>(r, s'). (result_map (\<lambda>state. \<lparr>vr_state = state, vr_parser_observations = []\<rparr>) r, s')) v) = v"
    for v :: "(verdict \<times> 's) exec"
  proof (cases v)
    case (Done rs)
    then show ?thesis by (cases rs; cases "fst rs") auto
  qed simp_all
  then show ?thesis
    by (simp add: verify_with_provider_def verify_with_provider_and_metadata_def provider_keys_eq [OF assms])
qed

definition slot_key :: "algorithm_id \<Rightarrow> ('key, 'key) public_keys \<Rightarrow> 'key option" where
  "slot_key a keys = (case a of Ed25519 \<Rightarrow> pk_ed25519 keys | EcdsaP256Sha256 \<Rightarrow> pk_p256 keys)"

lemma provider_key_simps [simp]:
  "vk_is_admissible (provider_key x a) key \<longleftrightarrow>
     pvk_algorithm key = a \<and> provider_public_key_is_admissible x a (pvk_canonical_public_key key)"
  "vk_verify_signature (provider_key x a) key m sig s =
     exec_map (\<lambda>(outcome, s'). (provider_outcome outcome, s')) (pvk_verifier key m sig s)"
  by (simp_all add: provider_key_def provider_key_is_admissible_def)

lemma provider_outcome_verified: "KV_Verified = provider_outcome o' \<longleftrightarrow> o' = PVO_Verified"
  by (cases o') simp_all

lemma state_from_outcome_verified:
  "Inr (VS_Verified payload alg) = verification_state_from_outcome o' p a \<longleftrightarrow>
     o' = KV_Verified \<and> p = payload \<and> a = alg"
  by (cases o') auto

text \<open>The judgement for one algorithm: its two orders of checks differ only in their errors.\<close>

lemma judged_with_verified:
  assumes "judged_with x ed p256 payload us keys options s = Done (Inr (VS_Verified payload' alg), s')"
  shows "payload' = payload" and "us_algorithm us = alg" and "length (us_signature_octets us) = 64"
    and "provider_signature_is_structurally_valid x alg (us_signature_octets us)"
    and "enables options alg"
    and "case alg of
           Ed25519 \<Rightarrow> \<exists>key. pk_ed25519 keys = Some key \<and> vk_is_admissible ed key \<and>
             vk_verify_signature ed key payload (us_signature_octets us) s = Done (KV_Verified, s')
         | EcdsaP256Sha256 \<Rightarrow> \<exists>key. pk_p256 keys = Some key \<and> vk_is_admissible p256 key \<and>
             vk_verify_signature p256 key payload (us_signature_octets us) s = Done (KV_Verified, s')"
  using assms
  by (auto simp: judged_with_def Let_def exec_map_eq_Done state_from_outcome_verified structurally_valid_eq
      split: if_splits algorithm_id.splits option.splits)

text \<open>
  C18: a verified verdict through a provider. It is given only for the payload of the artifact
  and the algorithm of its signature, when the options enable the algorithm, the signature has
  64 octets and the structure of the slot, the key supplied for the slot is bound to that
  algorithm by admissible octets, and the handle of that key was called on this payload and
  signature and itself answered that it verifies. Every other answer of a provider, a failure
  included, yields another verdict or an invocation error.
\<close>

theorem provider_verified_is_attested:
  assumes "traits_ok x"
    and "verify_with_provider x a form keys options s = Done (Inr (VS_Verified payload alg), s')"
  shows "\<exists>keyid sig key. read_artifact x form False a =
            Inr (payload, \<lparr>us_algorithm = alg, us_keyid = keyid, us_signature_octets = sig\<rparr>) \<and>
          length sig = 64 \<and> provider_signature_is_structurally_valid x alg sig \<and> enables options alg \<and>
          slot_key alg keys = Some key \<and> pvk_algorithm key = alg \<and>
          provider_public_key_is_admissible x alg (pvk_canonical_public_key key) \<and>
          pvk_verifier key payload sig s = Done (PVO_Verified, s')"
proof -
  from assms(2) obtain p us where r: "read_artifact x form False a = Inr (p, us)"
    and j: "judged_with x (provider_key x Ed25519) (provider_key x EcdsaP256Sha256) p us keys options s =
      Done (Inr (VS_Verified payload alg), s')"
    by (auto simp: verify_with_provider_eq [OF assms(1)] provider_verdict_def split: if_splits sum.splits)
  obtain k where us: "us = \<lparr>us_algorithm = alg, us_keyid = k, us_signature_octets = us_signature_octets us\<rparr>"
    using judged_with_verified(2) [OF j] by (cases us) simp
  obtain key where "slot_key alg keys = Some key" "pvk_algorithm key = alg"
    "provider_public_key_is_admissible x alg (pvk_canonical_public_key key)"
    "pvk_verifier key payload (us_signature_octets us) s = Done (PVO_Verified, s')"
    using judged_with_verified(6) [OF j] judged_with_verified(1) [OF j]
    by (cases alg) (auto simp: slot_key_def exec_map_eq_Done provider_outcome_verified)
  then show ?thesis
    using r us judged_with_verified(1,3-5) [OF j] by metis
qed

section \<open>Providers that agree with the crate\<close>

definition resolves :: "('u, 'w, 'k, 'z) crypto_ext_scheme \<Rightarrow> algorithm_id \<Rightarrow> bytes \<Rightarrow> 'k \<Rightarrow> bool" where
  "resolves x a bs vk \<longleftrightarrow>
     (case a of Ed25519 \<Rightarrow> resolve_ed25519_verifying_key x bs = Inr vk
              | EcdsaP256Sha256 \<Rightarrow> resolve_p256_verifying_key x bs = Inr vk)"

definition equation_holds ::
    "('u, 'w, 'k, 'z) crypto_ext_scheme \<Rightarrow> algorithm_id \<Rightarrow> 'k \<Rightarrow> bytes \<Rightarrow> bytes \<Rightarrow> bool" where
  "equation_holds x a vk m sig \<longleftrightarrow>
     (case a of Ed25519 \<Rightarrow> verify_ed25519 x vk m sig = Inr ()
              | EcdsaP256Sha256 \<Rightarrow> verify_ecdsa_p256_sha256 x vk m sig = Inr ())"

text \<open>
  A handle answers by the slot's equation on every signature it can be given, in any state; it
  may change the state.
\<close>

definition slot_agrees ::
    "('u, 'w, 'k, 'z) crypto_ext_scheme \<Rightarrow> algorithm_id \<Rightarrow> 's provider_verifying_key option \<Rightarrow> 'k option \<Rightarrow> bool" where
  "slot_agrees x a pkey key \<longleftrightarrow>
     (case (pkey, key) of
        (None, None) \<Rightarrow> True
      | (Some p, Some vk) \<Rightarrow>
          pvk_algorithm p = a \<and> resolves x a (pvk_canonical_public_key p) vk \<and>
          (\<forall>m sig s. provider_signature_is_structurally_valid x a sig \<longrightarrow>
             (\<exists>s'. pvk_verifier p m sig s =
                Done (if equation_holds x a vk m sig then PVO_Verified else PVO_SignatureMismatch, s')))
      | _ \<Rightarrow> False)"

lemma slot_agreesD:
  assumes "slot_agrees x a (Some p) (Some vk)"
  shows "pvk_algorithm p = a" and "resolves x a (pvk_canonical_public_key p) vk"
    and "provider_signature_is_structurally_valid x a sig \<Longrightarrow>
      exec_map fst (pvk_verifier p m sig s) =
        Done (if equation_holds x a vk m sig then PVO_Verified else PVO_SignatureMismatch)"
proof -
  show "exec_map fst (pvk_verifier p m sig s) =
        Done (if equation_holds x a vk m sig then PVO_Verified else PVO_SignatureMismatch)"
    if "provider_signature_is_structurally_valid x a sig"
    using assms that by (auto simp: slot_agrees_def exec_map_eq_Done)
qed (use assms in \<open>simp_all add: slot_agrees_def\<close>)

lemma agreeing_judgement:
  assumes "crypto_ok x" and "slot_agrees x Ed25519 (pk_ed25519 pkeys) (pk_ed25519 keys)"
    and "slot_agrees x EcdsaP256Sha256 (pk_p256 pkeys) (pk_p256 keys)"
  shows "exec_map fst (judged_with x (provider_key x Ed25519) (provider_key x EcdsaP256Sha256) payload us pkeys options s) =
    Done (judged x payload us keys options)"
proof -
  have fst_map: "exec_map fst (exec_map (\<lambda>(o', s'). (f o', s')) (exec_map (\<lambda>(o', s'). (g o', s')) v)) =
      exec_map (\<lambda>o'. f (g o')) (exec_map fst v)" for f :: "key_verification_outcome \<Rightarrow> verdict" and g
    and v :: "(provider_verification_outcome \<times> 's) exec"
    by (cases v) auto
  let ?sig = "us_signature_octets us"
  show ?thesis
  proof (cases "us_algorithm us")
    case Ed25519
    show ?thesis
    proof (cases "pk_ed25519 pkeys"; cases "pk_ed25519 keys")
      fix p vk assume k: "pk_ed25519 pkeys = Some p" "pk_ed25519 keys = Some vk"
      note d = slot_agreesD [OF assms(2) [unfolded k]]
      have r: "resolve_ed25519_verifying_key x (pvk_canonical_public_key p) = Inr vk"
        using d(2) by (simp add: resolves_def)
      then have adm: "provider_public_key_is_admissible x Ed25519 (pvk_canonical_public_key p)"
        by (simp add: provider_public_key_is_admissible_def)
      have adm': "ed25519_verifying_key_is_admissible x vk" by (rule resolved_is_admissible(2) [OF assms(1) r])
      show ?thesis
        using d(3) [of ?sig payload s] d(1) adm adm' Ed25519 k
        by (simp add: judged_with_def judged_def Let_def fst_map structurally_valid_eq equation_holds_def)
    qed (use assms(2) Ed25519 in \<open>simp_all add: slot_agrees_def judged_with_def judged_def Let_def\<close>)
  next
    case EcdsaP256Sha256
    show ?thesis
    proof (cases "pk_p256 pkeys"; cases "pk_p256 keys")
      fix p vk assume k: "pk_p256 pkeys = Some p" "pk_p256 keys = Some vk"
      note d = slot_agreesD [OF assms(3) [unfolded k]]
      have adm: "provider_public_key_is_admissible x EcdsaP256Sha256 (pvk_canonical_public_key p)"
        using d(2) by (simp add: resolves_def provider_public_key_is_admissible_def)
      show ?thesis
        using d(3) [of ?sig payload s] d(1) adm EcdsaP256Sha256 k
        by (simp add: judged_with_def judged_def Let_def fst_map structurally_valid_eq equation_holds_def)
    qed (use assms(3) EcdsaP256Sha256 in \<open>simp_all add: slot_agrees_def judged_with_def judged_def Let_def\<close>)
  qed
qed

text \<open>
  C19: a provider that agrees with the crate is the crate. When each handle answers by its
  slot's equation for the key its octets resolve to, verification through the provider gives
  the verdict of verification with those keys, on every artifact and under every option, and
  so does the second stage after any pre-verification, in whatever state the provider is.
\<close>

theorem agreeing_provider_is_crate:
  assumes "traits_ok x" and "crypto_ok x"
    and "slot_agrees x Ed25519 (pk_ed25519 pkeys) (pk_ed25519 keys)"
    and "slot_agrees x EcdsaP256Sha256 (pk_p256 pkeys) (pk_p256 keys)"
  shows "exec_map fst (verify_with_provider x a form pkeys options s) = verify x a form keys options \<and>
    (pre_verify x a form allow_unsigned obs = Done pre \<longrightarrow>
       exec_map fst (verify_from_pre_verify_with_provider x pre pkeys options s) =
         verify_from_pre_verify x pre keys options)"
proof (intro conjI impI)
  note j = agreeing_judgement [OF assms(2-4)]
  show "exec_map fst (verify_with_provider x a form pkeys options s) = verify x a form keys options"
    by (simp add: verify_with_provider_eq [OF assms(1)] provider_verdict_def verify_eq [OF assms(1)]
        verdict_on_def j split: sum.split)
  assume "pre_verify x a form allow_unsigned obs = Done pre"
  then have pre: "pre = response_of form (read_artifact x form allow_unsigned a)" by (simp add: pre_verify_eq)
  show "exec_map fst (verify_from_pre_verify_with_provider x pre pkeys options s) =
         verify_from_pre_verify x pre keys options"
  proof (cases "read_artifact x form allow_unsigned a")
    case (Inl out)
    then have "out \<noteq> PV_Ok" using read_artifact_not_ok [of x form allow_unsigned a] by auto
    then show ?thesis
      using Inl by (cases form)
        (simp_all add: pre verify_from_pre_verify_with_provider_def from_pre_with_keys_eq [OF assms(1)]
          verify_from_pre_verify_def verify_from_pre_verify_yaml_def verify_from_pre_verify_proto_def
          verify_from_pre_verify_yaml_inner_def verify_from_pre_verify_proto_inner_def response_of_def
          failed_response_def verify_from_pre_verify_with_keys_def)
  next
    case (Inr r)
    have "pr_form pre = form" "pr_outcome pre = PV_Ok" "pr_unverified_payload_bytes pre = Some (fst r)"
      "pr_unverified_signature pre = Some (snd r)"
      by (simp_all add: pre Inr response_of_def split: prod.split)
    moreover have "verify_from_pre_verify_with_keys x ed p256 pre pkeys options s =
        judged_with x ed p256 (fst r) (snd r) pkeys options s" for ed p256
      by (simp add: pre Inr from_pre_with_keys_eq [OF assms(1)] split: prod.split)
    ultimately show ?thesis
      by (cases form)
        (simp_all add: verify_from_pre_verify_with_provider_def verify_from_pre_verify_def
          verify_from_pre_verify_yaml_def verify_from_pre_verify_proto_def
          verify_from_pre_verify_yaml_inner_def verify_from_pre_verify_proto_inner_def
          verify_extracted_signature_eq [OF assms(1)] j)
  qed
qed

section \<open>What qualification establishes\<close>

text \<open>
  The suite as a table, and two families of providers without failures: one whose handles keep
  their key, and one whose handles all use the key bound last.
\<close>

definition suite :: "algorithm_id \<Rightarrow> (bytes \<times> bytes \<times> bytes \<times> provider_verification_outcome) list" where
  "suite a = (case a of
      Ed25519 \<Rightarrow>
        [(RFC8032_TEST_1_PUBLIC_KEY, [], RFC8032_TEST_1_SIGNATURE, PVO_Verified),
         (RFC8032_TEST_1_PUBLIC_KEY, ascii ''not empty'', RFC8032_TEST_1_SIGNATURE, PVO_SignatureMismatch),
         (ED25519_MIXED_R_PUBLIC_KEY, ED25519_MIXED_R_MESSAGE, ED25519_MIXED_R_SIGNATURE, PVO_Verified),
         (ED25519_MIXED_R_PUBLIC_KEY, [], RFC8032_TEST_1_SIGNATURE, PVO_SignatureMismatch),
         (RFC8032_TEST_1_PUBLIC_KEY, ED25519_MIXED_R_MESSAGE, ED25519_MIXED_R_SIGNATURE, PVO_SignatureMismatch),
         (ED25519_MIXED_A_PUBLIC_KEY, ED25519_MIXED_A_MESSAGE, ED25519_MIXED_A_SIGNATURE, PVO_Verified),
         (ED25519_MIXED_A_PUBLIC_KEY, [], RFC8032_TEST_1_SIGNATURE, PVO_SignatureMismatch),
         (RFC8032_TEST_1_PUBLIC_KEY, ED25519_MIXED_A_MESSAGE, ED25519_MIXED_A_SIGNATURE, PVO_SignatureMismatch)]
    | EcdsaP256Sha256 \<Rightarrow>
        [(P256_QUALIFICATION_PUBLIC_KEY, P256_QUALIFICATION_MESSAGE, P256_QUALIFICATION_LOW_SIGNATURE, PVO_Verified),
         (P256_QUALIFICATION_PUBLIC_KEY, P256_QUALIFICATION_MESSAGE, P256_QUALIFICATION_HIGH_SIGNATURE, PVO_Verified),
         (P256_QUALIFICATION_PUBLIC_KEY, ascii ''different'', P256_QUALIFICATION_LOW_SIGNATURE, PVO_SignatureMismatch),
         (P256_ALTERNATE_PUBLIC_KEY, P256_QUALIFICATION_MESSAGE, P256_ALTERNATE_SIGNATURE, PVO_Verified),
         (P256_ALTERNATE_PUBLIC_KEY, P256_QUALIFICATION_MESSAGE, P256_QUALIFICATION_LOW_SIGNATURE, PVO_SignatureMismatch),
         (P256_ALTERNATE_PUBLIC_KEY, P256_QUALIFICATION_MESSAGE, P256_QUALIFICATION_HIGH_SIGNATURE, PVO_SignatureMismatch),
         (P256_QUALIFICATION_PUBLIC_KEY, P256_QUALIFICATION_MESSAGE, P256_ALTERNATE_SIGNATURE, PVO_SignatureMismatch),
         (P256_ALTERNATE_PUBLIC_KEY, ascii ''different'', P256_ALTERNATE_SIGNATURE, PVO_SignatureMismatch)])"

type_synonym checker = "algorithm_id \<Rightarrow> bytes \<Rightarrow> bytes \<Rightarrow> bytes \<Rightarrow> provider_verification_outcome"

definition passes :: "checker \<Rightarrow> algorithm_id \<Rightarrow> bool" where
  "passes chk a \<longleftrightarrow> list_all (\<lambda>(key, m, sig, expected). chk a key m sig = expected) (suite a)"

definition stable_provider :: "checker \<Rightarrow> ('s, 'x) verifier_factory" where
  "stable_provider chk a key s = Done (Inr (\<lambda>m sig s. Done (chk a key m sig, s)), s)"

definition current_key_provider :: "checker \<Rightarrow> (algorithm_id \<times> bytes, 'x) verifier_factory" where
  "current_key_provider chk a key s = Done (Inr (\<lambda>m sig s. Done (chk (fst s) (snd s) m sig, s)), (a, key))"

lemma try_then_simps [simp]:
  "try_then (\<lambda>s. Done (Inr a, g s)) f s = f a (g s)"
  "try_then (\<lambda>s. Done (Inl e, g s)) f s = Done (Inl e, g s)"
  by (simp_all add: try_then_def)

lemma expect_ok_iff: "expect_provider_result o' e = Inr u \<longleftrightarrow> o' = e"
  by (cases o') (auto simp: expect_provider_result_def)

lemma try_call:
  "try_then (expect_call (\<lambda>m sig s. Done (c s m sig, s)) m sig e) f s =
     (if c s m sig = e then f () s
      else Done (Inl (case c s m sig of PVO_ProviderFailure \<Rightarrow> QEK_ProviderFailure
        | PVO_Verified \<Rightarrow> QEK_InvalidSignatureAccepted | PVO_SignatureMismatch \<Rightarrow> QEK_ValidSignatureRejected), s))"
  by (simp add: try_then_def expect_call_def expect_provider_result_def split: provider_verification_outcome.split)

lemma stable_simps:
  "try_then (bound_by (stable_provider chk) a k) f s = f (\<lambda>m sig s. Done (chk a k m sig, s)) s"
  "expect_call (\<lambda>m sig s. Done (chk a k m sig, s)) m sig e s = Done (expect_provider_result (chk a k m sig) e, s)"
  by (simp_all add: try_then_def bound_by_def stable_provider_def expect_call_def)

lemma try_then_assoc: "try_then (try_then m g) f = try_then m (\<lambda>a. try_then (g a) f)"
proof
  show "try_then (try_then m g) f s = try_then m (\<lambda>a. try_then (g a) f) s" for s
    by (cases "m s") (auto simp: try_then_def split: prod.split sum.split)
qed

lemma stable_ed25519:
  "\<exists>r. qualify_ed25519_provider (stable_provider chk) s = Done (r, s) \<and> (is_ok r \<longleftrightarrow> passes chk Ed25519)"
  by (auto simp: qualify_ed25519_provider_def stable_simps try_call passes_def suite_def
      simp del: ascii_Cons split: provider_verification_outcome.split)

lemma stable_p256:
  "\<exists>r. qualify_p256_provider (stable_provider chk) s = Done (r, s) \<and> (is_ok r \<longleftrightarrow> passes chk EcdsaP256Sha256)"
  by (auto simp: qualify_p256_provider_def stable_simps try_call try_then_assoc Let_def passes_def suite_def
      expect_provider_result_def simp del: ascii_Cons split: provider_verification_outcome.split)

lemma current_key_bound:
  "try_then (bound_by (current_key_provider chk) a k) f s =
     f (\<lambda>m sig s. Done (chk (fst s) (snd s) m sig, s)) (a, k)"
  by (simp add: try_then_def bound_by_def current_key_provider_def)

lemma current_key_ed25519:
  "\<exists>e s'. qualify_ed25519_provider (current_key_provider chk) s = Done (Inl e, s')"
  by (auto simp: qualify_ed25519_provider_def current_key_bound try_call
      simp del: ascii_Cons split: provider_verification_outcome.split)

lemma current_key_p256:
  "\<exists>e s'. qualify_p256_provider (current_key_provider chk) s = Done (Inl e, s')"
  by (auto simp: qualify_p256_provider_def current_key_bound try_call try_then_assoc Let_def
      simp del: ascii_Cons split: provider_verification_outcome.split)

lemma qualify_status:
  assumes "\<And>s. \<exists>r s'. qualify_ed25519_provider f s = Done (r, s') \<and> P Ed25519 (is_ok r) s s'"
    and "\<And>s. \<exists>r s'. qualify_p256_provider f s = Done (r, s') \<and> P EcdsaP256Sha256 (is_ok r) s s'"
  shows "\<exists>p s1 s2. qualify (provider_builder_new f) s = Done (p, s2) \<and> qvp_provider p = f \<and>
    P Ed25519 (is_qualified (slot_status p Ed25519)) s s1 \<and>
    P EcdsaP256Sha256 (is_qualified (slot_status p EcdsaP256Sha256)) s1 s2"
proof -
  have ok: "is_qualified (qualification_status a r) \<longleftrightarrow> is_ok r" for a r
    by (cases r) (simp_all add: qualification_status_def)
  obtain r1 s1 where 1: "qualify_ed25519_provider f s = Done (r1, s1)" "P Ed25519 (is_ok r1) s s1"
    using assms(1) by blast
  obtain r2 s2 where "qualify_p256_provider f s1 = Done (r2, s2)" "P EcdsaP256Sha256 (is_ok r2) s1 s2"
    using assms(2) by blast
  with 1 show ?thesis by (auto simp: qualify_def provider_builder_new_def Let_def ok)
qed

lemma qualified_bind_returns:
  assumes "qualified_bind x q a bs t = Done (Inr key, t')"
  shows "is_qualified (slot_status q a)" and "provider_public_key_is_admissible x a bs"
    and "pvk_algorithm key = a" and "pvk_canonical_public_key key = bs"
    and "qvp_provider q a bs t = Done (Inr (pvk_verifier key), t')"
proof -
  have flip: "Inr key = r \<longleftrightarrow> r = Inr key" for r by auto
  show "is_qualified (slot_status q a)" and "provider_public_key_is_admissible x a bs"
    and "pvk_algorithm key = a" and "pvk_canonical_public_key key = bs"
    and "qvp_provider q a bs t = Done (Inr (pvk_verifier key), t')"
    using assms
    by (auto simp: qualified_bind_def validate_public_key_def exec_map_eq_Done flip result_simps
        split: if_splits)
qed

text \<open>
  C20: what qualification establishes. A provider whose handles keep their key qualifies for an
  algorithm exactly when it answers the table of that algorithm, each entry in isolation, and
  its state is unchanged; a provider whose handles share the key bound last never qualifies,
  for either algorithm, however it answers. A key bound through a qualified provider has a
  qualified slot and octets the verifier admits, and is the provider's own handle for them.
\<close>

theorem qualification_correct:
  "(\<exists>p. qualify (provider_builder_new (stable_provider chk)) s = Done (p, s) \<and>
      qvp_provider p = stable_provider chk \<and>
      (is_qualified (slot_status p a) \<longleftrightarrow> passes chk a)) \<and>
   (\<exists>p s'. qualify (provider_builder_new (current_key_provider chk)) cur = Done (p, s') \<and>
      \<not> is_qualified (slot_status p a)) \<and>
   (qualified_bind x q a bs t = Done (Inr key, t') \<longrightarrow>
      is_qualified (slot_status q a) \<and> provider_public_key_is_admissible x a bs \<and>
      pvk_algorithm key = a \<and> pvk_canonical_public_key key = bs \<and>
      qvp_provider q a bs t = Done (Inr (pvk_verifier key), t'))"
proof (intro conjI impI)
  show "\<exists>p. qualify (provider_builder_new (stable_provider chk)) s = Done (p, s) \<and>
      qvp_provider p = stable_provider chk \<and> (is_qualified (slot_status p a) \<longleftrightarrow> passes chk a)"
    using qualify_status [of "stable_provider chk" "\<lambda>a q s s'. (q \<longleftrightarrow> passes chk a) \<and> s' = s" s]
      stable_ed25519 [of chk] stable_p256 [of chk] by (cases a) auto
  have "\<exists>r s'. qualify_ed25519_provider (current_key_provider chk) s = Done (r, s') \<and> \<not> is_ok r"
    "\<exists>r s'. qualify_p256_provider (current_key_provider chk) s = Done (r, s') \<and> \<not> is_ok r" for s
    using current_key_ed25519 [of chk s] current_key_p256 [of chk s] by fastforce+
  from qualify_status [of "current_key_provider chk" "\<lambda>a q s s'. \<not> q" cur, OF this]
  show "\<exists>p s'. qualify (provider_builder_new (current_key_provider chk)) cur = Done (p, s') \<and>
      \<not> is_qualified (slot_status p a)" by (cases a) auto
  assume "qualified_bind x q a bs t = Done (Inr key, t')"
  note b = qualified_bind_returns [OF this]
  show "is_qualified (slot_status q a)" by (rule b(1))
  show "provider_public_key_is_admissible x a bs" by (rule b(2))
  show "pvk_algorithm key = a" and "pvk_canonical_public_key key = bs"
    and "qvp_provider q a bs t = Done (Inr (pvk_verifier key), t')" by (rule b)+
qed

section \<open>Awaited and synchronous verification\<close>

definition sync_keys :: "('key \<Rightarrow> 's bound_verifier) \<Rightarrow> ('key, 'key) public_keys \<Rightarrow> 's provider_public_keys" where
  "sync_keys inner keys =
    (let sync = (\<lambda>key. \<lparr>pvk_algorithm = bv_algorithm (inner key),
        pvk_canonical_public_key = bv_canonical_public_key (inner key),
        pvk_verifier = bv_verifier (inner key)\<rparr>) in
     \<lparr>pk_ed25519 = map_option sync (pk_ed25519 keys), pk_p256 = map_option sync (pk_p256 keys)\<rparr>)"

lemma verify_from_pre_is_sync:
  assumes "traits_ok x"
  shows "verify_from_pre x inner pre keys options s =
    verify_from_pre_verify_with_provider x pre (sync_keys inner keys) options s"
proof -
  have w: "from_i32 x 1 = Some Ed25519" "from_i32 x 2 = Some EcdsaP256Sha256"
    using assms by (simp_all add: traits_ok_def)
  show ?thesis
  proof (cases "pr_unverified_signature pre")
    case (Some us)
    then show ?thesis
      by (cases "us_algorithm us"; cases "pk_ed25519 keys"; cases "pk_p256 keys")
         (auto simp: w verify_from_pre_def verify_from_pre_verify_with_provider_def
           verify_from_pre_verify_with_keys_def verify_extracted_signature_with_keys_def
           prepare_signature_verification_def sync_keys_def async_key_is_admissible_def Let_def try_array_def
           exec_map_map case_prod_unfold split: option.split)
  qed (simp add: verify_from_pre_def verify_from_pre_verify_with_provider_def
      verify_from_pre_verify_with_keys_def split: option.split)
qed

lemma verify_metadata_is_sync:
  assumes "traits_ok x"
  shows "verify_metadata x inner a form keys options obs s =
    verify_with_provider_and_metadata x a form (sync_keys inner keys) options obs s"
proof (cases "vo_algorithm_parameters options = []")
  case True
  then have pre: "verify_from_pre x inner pre keys options s =
      verify_from_pre_verify_with_keys x (provider_key x Ed25519) (provider_key x EcdsaP256Sha256) pre
        (sync_keys inner keys) options s" for pre
    by (simp add: verify_from_pre_is_sync [OF assms] verify_from_pre_verify_with_provider_def)
  show ?thesis
    unfolding verify_metadata_def verify_with_provider_and_metadata_def
      verify_with_provider_keys_and_metadata_def pre Let_def ..
qed (simp add: verify_metadata_def verify_with_provider_and_metadata_def verify_with_provider_keys_and_metadata_def)

lemma awaited_binding_is_sync: "awaited_binding = bound_by"
proof (intro ext)
  fix f :: "('s, 'x) verifier_factory" and a key s
  have "result_try r Inr = r" for r :: "'x + 's provider_verifier" by (cases r) simp_all
  then show "awaited_binding f a key s = bound_by f a key s"
    by (simp add: awaited_binding_def bound_by_def bind_verifier_def exec_map_map case_prod_unfold)
qed

lemma async_rounds_are_sync:
  "async_ed25519_rounds f v vs = ed25519_rounds f v vs"
  "async_p256_rounds P256_QUALIFICATION_MESSAGE v w sigs = p256_rounds v w sigs"
  by (induction vs) (simp_all add: awaited_binding_is_sync, induction sigs, simp_all)

lemma async_suites_are_sync:
  "qualify_ed25519 f = qualify_ed25519_provider f" "qualify_p256 f = qualify_p256_provider f"
  by (simp_all add: qualify_ed25519_def qualify_ed25519_provider_def awaited_binding_is_sync Let_def
      qualify_p256_def qualify_p256_provider_def P256_QUALIFICATION_MESSAGE_def [symmetric] async_rounds_are_sync
      del: async_ed25519_rounds.simps ed25519_rounds.simps async_p256_rounds.simps p256_rounds.simps ascii_Cons)

definition sync_provider :: "('s, 'x) qualified_async_verification_provider \<Rightarrow> ('s, 'x) qualified_verification_provider" where
  "sync_provider p = \<lparr>qvp_provider = qavp_provider p, qvp_ed25519 = qavp_ed25519 p,
     qvp_ecdsa_p256_sha256 = qavp_ecdsa_p256_sha256 p\<rparr>"

definition sync_key :: "'s async_provider_verifying_key \<Rightarrow> 's provider_verifying_key" where
  "sync_key key = \<lparr>pvk_algorithm = bv_algorithm (apvk_inner key),
     pvk_canonical_public_key = bv_canonical_public_key (apvk_inner key), pvk_verifier = bv_verifier (apvk_inner key)\<rparr>"

lemma async_qualify_is_sync:
  "exec_map (\<lambda>(p, s'). (sync_provider p, s')) (async_qualify (async_provider_builder_new f) s) =
     qualify (provider_builder_new f) s"
  by (cases "qualify_ed25519_provider f s")
     (auto simp: async_qualify_def qualify_def provider_builder_new_def async_provider_builder_new_def
       async_suites_are_sync Let_def exec_map_map sync_provider_def case_prod_unfold)

lemma async_bind_is_sync:
  "exec_map (\<lambda>(r, s'). (result_map sync_key r, s')) (async_qualified_bind x p a bs s) =
     qualified_bind x (sync_provider p) a bs s"
proof -
  have st: "slot_status (sync_provider p) a = async_slot_status p a" by (cases a) (simp_all add: sync_provider_def)
  have k: "result_map sync_key (result_map (\<lambda>inner. \<lparr>apvk_inner = inner\<rparr>)
      (result_try (map_err g (result_try r Inr)) (\<lambda>v. Inr \<lparr>bv_algorithm = a, bv_canonical_public_key = bs, bv_verifier = v\<rparr>))) =
      result_try (map_err g r) (\<lambda>v. Inr \<lparr>pvk_algorithm = a, pvk_canonical_public_key = bs, pvk_verifier = v\<rparr>)"
    for g :: "'x \<Rightarrow> provider_key_binding_error" and r :: "'x + 's provider_verifier"
    by (cases r) (simp_all add: sync_key_def)
  show ?thesis
    by (cases "validate_public_key x a bs")
       (simp_all add: async_qualified_bind_def qualified_bind_def bind_key_def bind_verifier_def st
         exec_map_map case_prod_unfold k, simp add: sync_provider_def)
qed

text \<open>
  Awaiting changes nothing for the verifier. An awaited provider qualifies as the
  synchronous one does, binds the same keys with the same errors, and each awaited
  verification is, for every key, artifact and option and in every state of the provider,
  synchronous verification with the same handles, whether or not they were qualified.
\<close>

theorem async_verification_is_sync_verification:
  assumes "traits_ok x"
  shows "exec_map (\<lambda>(p, s'). (sync_provider p, s')) (async_qualify (async_provider_builder_new f) s) =
           qualify (provider_builder_new f) s \<and>
         exec_map (\<lambda>(r, s'). (result_map sync_key r, s')) (async_qualified_bind x p alg bs t) =
           qualified_bind x (sync_provider p) alg bs t \<and>
         verify_with_async_provider x a form keys options u =
           verify_with_provider x a form (sync_keys apvk_inner keys) options u \<and>
         verify_from_pre_verify_with_async_provider x pre keys options u =
           verify_from_pre_verify_with_provider x pre (sync_keys apvk_inner keys) options u \<and>
         verify_with_unqualified_async_provider x a form ukeys options u =
           verify_with_provider x a form (sync_keys uapvk_inner ukeys) options u \<and>
         verify_from_pre_verify_with_unqualified_async_provider x pre ukeys options u =
           verify_from_pre_verify_with_provider x pre (sync_keys uapvk_inner ukeys) options u"
  by (simp add: async_qualify_is_sync async_bind_is_sync verify_with_async_provider_def
      verify_with_unqualified_async_provider_def verify_with_provider_def verify_metadata_is_sync [OF assms]
      verify_from_pre_verify_with_async_provider_def verify_from_pre_verify_with_unqualified_async_provider_def
      verify_from_pre_is_sync [OF assms])

end
