(* ===== verification/Sample_Verification_Provider.thy ===== *)
theory Sample_Verification_Provider
  imports Sample_Verification Verification_Provider_Facts
begin

text \<open>
  Providers over the toy curve: one that counts its calls and answers by the toy equation, and
  one that passes the qualification suite; the witnesses of the provider verification
  properties.
\<close>

definition sample_handle :: "nat provider_verifier" where
  "sample_handle m sig n =
     Done (if verify_ed25519 (sample_crypto ()) 5 m sig = Inr () then PVO_Verified else PVO_SignatureMismatch, n + 1)"

definition sample_provider_keys :: "nat provider_public_keys" where
  "sample_provider_keys =
     \<lparr>pk_ed25519 = Some \<lparr>pvk_algorithm = Ed25519, pvk_canonical_public_key = toy_encode 5,
        pvk_verifier = sample_handle\<rparr>, pk_p256 = None\<rparr>"

lemma sample_slots_agree:
  "slot_agrees (sample_crypto ()) Ed25519 (pk_ed25519 sample_provider_keys) (pk_ed25519 sample_keys)"
  "slot_agrees (sample_crypto ()) EcdsaP256Sha256 (pk_p256 sample_provider_keys) (pk_p256 sample_keys)"
  by (simp_all add: slot_agrees_def sample_provider_keys_def sample_keys_def resolves_def equation_holds_def
      sample_handle_def resolve_ed25519_verifying_key_def decode_canonical_edwards_point_def try_array_def)

theorem agreeing_provider_is_crate_witness:
  "exec_map fst (verify_with_provider (sample_crypto ()) (ss_artifact sample_delivered) AF_Proto
     sample_provider_keys sample_options 0) = Done (Inr (VS_Verified [0x61] Ed25519))"
  using agreeing_provider_is_crate [OF sample_crypto_base(1) sample_crypto_ok sample_slots_agree, THEN conjunct1,
      of "ss_artifact sample_delivered" AF_Proto sample_options 0] sample_delivered_verified
  by simp

lemma sample_provider_verdict:
  "\<exists>n. verify_with_provider (sample_crypto ()) (ss_artifact sample_delivered) AF_Proto
     sample_provider_keys sample_options 0 = Done (Inr (VS_Verified [0x61] Ed25519), n)"
proof -
  let ?x = "sample_crypto ()" and ?a = "ss_artifact sample_delivered"
  have "read_artifact ?x AF_Proto False ?a = Inr ([0x61],
      \<lparr>us_algorithm = Ed25519, us_keyid = Some [0x6B], us_signature_octets = toy_ed_sign 5 [0x61]\<rparr>)"
    using read_signed_proto [of ?x "Some [0x6B]" "toy_ed_sign 5 [0x61]" "[0x61]" False Ed25519]
    by (simp add: sample_delivered_def sample_provider_request_def keyid_ok_def keyid_is_valid_def utf8_valid_ascii_Cons)
  moreover have "verify_ed25519 ?x 5 [0x61] (toy_ed_sign 5 [0x61]) = Inr ()" by (rule toy_ed_verifies) simp
  moreover have "provider_public_key_is_admissible ?x Ed25519 (toy_encode 5)"
    by (simp add: provider_public_key_is_admissible_def resolve_ed25519_verifying_key_def
        decode_canonical_edwards_point_def try_array_def)
  moreover note verified_is_canonical
  ultimately show ?thesis
    by (simp add: verify_with_provider_eq provider_verdict_def judged_with_def Let_def sample_options_def
        sample_provider_keys_def sample_handle_def)
qed

theorem provider_verified_is_attested_witness:
  "\<exists>n sig. sample_handle [0x61] sig 0 = Done (PVO_Verified, n) \<and> length sig = 64 \<and>
     provider_signature_is_structurally_valid (sample_crypto ()) Ed25519 sig"
proof -
  obtain n where "verify_with_provider (sample_crypto ()) (ss_artifact sample_delivered) AF_Proto
      sample_provider_keys sample_options 0 = Done (Inr (VS_Verified [0x61] Ed25519), n)"
    using sample_provider_verdict by blast
  from provider_verified_is_attested [OF sample_crypto_base(1) this] show ?thesis
    by (auto simp: slot_key_def sample_provider_keys_def)
qed

section \<open>A qualified provider\<close>

text \<open>It answers the rows of the suite, and the toy equation of the key 5 elsewhere.\<close>

definition sample_checker :: checker where
  "sample_checker a key m sig =
     (if list_ex (\<lambda>(k, m', g, e). k = key \<and> m' = m \<and> g = sig \<and> e = PVO_Verified) (suite a) then PVO_Verified
      else if list_ex (\<lambda>(k, m', g, e). k = key \<and> m' = m \<and> g = sig) (suite a) then PVO_SignatureMismatch
      else if a = Ed25519 \<and> key = toy_encode 5 \<and> verify_ed25519 (sample_crypto ()) 5 m sig = Inr ()
      then PVO_Verified else PVO_SignatureMismatch)"

lemma sample_checker_passes: "passes sample_checker Ed25519"
  by (simp add: passes_def suite_def sample_checker_def RFC8032_TEST_1_PUBLIC_KEY_def
      ED25519_MIXED_R_PUBLIC_KEY_def ED25519_MIXED_A_PUBLIC_KEY_def ED25519_MIXED_R_MESSAGE_def
      ED25519_MIXED_A_MESSAGE_def)

theorem qualification_correct_witness:
  "\<exists>p key. qualify (provider_builder_new (stable_provider sample_checker :: (nat, unit) verifier_factory)) 0 = Done (p, 0) \<and>
     is_qualified (slot_status p Ed25519) \<and>
     qualified_bind (sample_crypto ()) p Ed25519 (toy_encode 5) 0 = Done (Inr key, 0) \<and>
     provider_public_key_is_admissible (sample_crypto ()) Ed25519 (toy_encode 5)"
proof -
  let ?f = "stable_provider sample_checker :: (nat, unit) verifier_factory"
  note q = qualification_correct [of sample_checker "0 :: nat" Ed25519]
  from q [THEN conjunct1] sample_checker_passes obtain p where
    p: "qualify (provider_builder_new ?f) 0 = Done (p, 0)" "qvp_provider p = ?f"
      "is_qualified (slot_status p Ed25519)" by blast
  have "provider_public_key_is_admissible (sample_crypto ()) Ed25519 (toy_encode 5)"
    by (simp add: provider_public_key_is_admissible_def resolve_ed25519_verifying_key_def
        decode_canonical_edwards_point_def try_array_def)
  then obtain key where
    k: "qualified_bind (sample_crypto ()) p Ed25519 (toy_encode 5) 0 = Done (Inr key, 0)"
    using p by (simp add: qualified_bind_def validate_public_key_def stable_provider_def)
  from q [THEN conjunct2, THEN conjunct2, THEN mp, OF k] p k show ?thesis by blast
qed

theorem async_verification_is_sync_verification_witness:
  "exec_map fst (verify_with_async_provider (sample_crypto ()) (ss_artifact sample_delivered) AF_Proto
     \<lparr>pk_ed25519 = Some \<lparr>apvk_inner = \<lparr>bv_algorithm = Ed25519, bv_canonical_public_key = toy_encode 5,
        bv_verifier = sample_handle\<rparr>\<rparr>, pk_p256 = None\<rparr> sample_options 0) =
     Done (Inr (VS_Verified [0x61] Ed25519))"
proof -
  obtain n where v: "verify_with_provider (sample_crypto ()) (ss_artifact sample_delivered) AF_Proto
      sample_provider_keys sample_options 0 = Done (Inr (VS_Verified [0x61] Ed25519), n)"
    using sample_provider_verdict by blast
  show ?thesis
    using async_verification_is_sync_verification [where x = "sample_crypto ()" and a = "ss_artifact sample_delivered" and form = AF_Proto
        and options = sample_options and u = 0 and
        keys = "\<lparr>pk_ed25519 = Some \<lparr>apvk_inner = \<lparr>bv_algorithm = Ed25519,
          bv_canonical_public_key = toy_encode 5, bv_verifier = sample_handle\<rparr>\<rparr>, pk_p256 = None\<rparr>",
        OF sample_crypto_base(1), THEN conjunct2, THEN conjunct2, THEN conjunct1] v
    by (simp add: sync_keys_def sample_provider_keys_def)
qed

end
