(* ===== verification/Wasm.thy ===== *)
theory Wasm
  imports Complex_Main Sign_Verify
begin

text \<open>
  The WebAssembly boundary, \<open>yaml-sigil-wasm\<close>: \<open>bytes.rs\<close> reads JavaScript byte views,
  \<open>resource.rs\<close> admits them before they are copied, and \<open>lib.rs\<close> checks string selectors, calls
  the crates, and turns every outcome into a status, a code and optional bytes. The JavaScript
  engine and its intrinsics are parameters, and so is the width of \<open>usize\<close> in the boundary's own
  sums: 32 bits on wasm32. The crates below are the ones of the other theories, with a \<open>usize\<close> of
  64 bits, and memory is given whenever it is asked for.
\<close>

section \<open>The JavaScript engine\<close>

text \<open>A JavaScript number, exact where it is finite; not-a-number and the infinities compare alike here.\<close>

datatype f64 = NonFinite | Finite rat

fun f64_between :: "rat \<Rightarrow> rat \<Rightarrow> f64 \<Rightarrow> bool" where
  "f64_between lo hi NonFinite \<longleftrightarrow> False"
| "f64_between lo hi (Finite r) \<longleftrightarrow> lo \<le> r \<and> r \<le> hi"

fun f64_fract_is_zero :: "f64 \<Rightarrow> bool" where
  "f64_fract_is_zero NonFinite \<longleftrightarrow> False"
| "f64_fract_is_zero (Finite r) \<longleftrightarrow> of_int \<lfloor>r\<rfloor> = r"

fun f64_to_usize :: "f64 \<Rightarrow> usize" where
  "f64_to_usize NonFinite = 0"
| "f64_to_usize (Finite r) = nat \<lfloor>r\<rfloor>"

definition U32_MAX :: rat where
  "U32_MAX = 4294967295"

text \<open>
  \<open>None\<close> is a thrown exception. \<open>js_set\<close> copies a view into a destination of the given length.
  \<open>usize_max\<close> is the greatest \<open>usize\<close> of the target the boundary is built for.
\<close>

record ('u, 'w, 'k, 'j) wasm_ext = "('u, 'w, 'k) crypto_ext" +
  js_intrinsics :: bool
  js_tag :: "'j \<Rightarrow> 'j option"
  js_as_string :: "'j \<Rightarrow> str option"
  js_values :: "'j \<Rightarrow> 'j option"
  js_length :: "'j \<Rightarrow> 'j option"
  js_as_f64 :: "'j \<Rightarrow> f64 option"
  js_buffer :: "'j \<Rightarrow> 'j option"
  js_byte_offset :: "'j \<Rightarrow> 'j option"
  js_construct :: "'j list \<Rightarrow> 'j option"
  js_set :: "'j \<Rightarrow> usize \<Rightarrow> bytes option"
  ed_sk_from_bytes :: "bytes \<Rightarrow> 'k"
  p256_sk_from_slice :: "bytes \<Rightarrow> 'k option"
  usize_max :: usize
  feature_json_schema_validate :: bool

section \<open>Failures and policies\<close>

datatype wasm_failure = WF_InvalidByteInput | WF_Resource string | WF_Encoding string

fun failure_status :: "wasm_failure \<Rightarrow> string" where
  "failure_status WF_InvalidByteInput = ''invocation_error''"
| "failure_status (WF_Resource code) = ''resource_error''"
| "failure_status (WF_Encoding code) = ''encode_error''"

fun failure_code :: "wasm_failure \<Rightarrow> string" where
  "failure_code WF_InvalidByteInput = ''invalid_byte_input''"
| "failure_code (WF_Resource code) = code"
| "failure_code (WF_Encoding code) = code"

definition failure_from_resource :: "artifact_resource_error \<Rightarrow> wasm_failure" where
  "failure_from_resource e = WF_Resource
     (case are_kind e of
        InputArtifactTooLarge \<Rightarrow> ''input_artifact_too_large''
      | OutputArtifactTooLarge \<Rightarrow> ''output_artifact_too_large''
      | SizeComputationOverflow \<Rightarrow> ''size_computation_overflow'')"

definition failure_from_encode :: "encode_error \<Rightarrow> wasm_failure" where
  "failure_from_encode e = WF_Encoding
     (case ee_kind e of EEK_MessageTooLarge \<Rightarrow> ''message_too_large'' | _ \<Rightarrow> ''other'')"

definition flatten_encoding :: "(encode_error + 'a) resource_result \<Rightarrow> wasm_failure + 'a" where
  "flatten_encoding value =
     result_try (map_err failure_from_resource value) (\<lambda>r. map_err failure_from_encode r)"

record wasm_limits =
  wl_inner :: artifact_resource_limits

definition wasm_limits_new :: wasm_limits where
  "wasm_limits_new = \<lparr>wl_inner = default_limits\<rparr>"

definition wasm_limits_unbounded :: wasm_limits where
  "wasm_limits_unbounded = \<lparr>wl_inner = unbounded\<rparr>"

definition valid_maximum :: "f64 \<Rightarrow> usize option" where
  "valid_maximum v =
     (if v = NonFinite \<or> \<not> f64_fract_is_zero v \<or> \<not> f64_between 1 U32_MAX v then None
      else non_zero (f64_to_usize v))"

definition wasm_with_max_artifact_bytes ::
    "('u, 'w, 'k, 'j, 'z) wasm_ext_scheme \<Rightarrow> wasm_limits \<Rightarrow> 'j \<Rightarrow> string + wasm_limits" where
  "wasm_with_max_artifact_bytes x self maximum =
     result_try (ok_or (Option.bind (js_as_f64 x maximum) valid_maximum)
         ''maxArtifactBytes must be an integer from 1 to 4294967295'')
       (\<lambda>m. Inr \<lparr>wl_inner = with_max_artifact_bytes (wl_inner self) m\<rparr>)"

definition wasm_without_max_artifact_byte_limit :: "wasm_limits \<Rightarrow> wasm_limits" where
  "wasm_without_max_artifact_byte_limit self = \<lparr>wl_inner = without_max_artifact_byte_limit (wl_inner self)\<rparr>"

definition wasm_max_artifact_bytes :: "wasm_limits \<Rightarrow> f64 option" where
  "wasm_max_artifact_bytes self = map_option (\<lambda>m. Finite (of_nat m)) (max_artifact_bytes (wl_inner self))"

text \<open>The closures given to the admission functions run after the check; every call site gives \<open>()\<close>.\<close>

definition with_admitted_input :: "wasm_limits \<Rightarrow> usize \<Rightarrow> (unit \<Rightarrow> 'a) \<Rightarrow> wasm_failure + 'a" where
  "with_admitted_input self len process =
     (if (case max_artifact_bytes (wl_inner self) of Some maximum \<Rightarrow> len > maximum | None \<Rightarrow> False)
      then Inl (WF_Resource ''input_artifact_too_large'')
      else Inr (process ()))"

definition with_admitted_output ::
    "('u, 'w, 'k, 'j, 'z) wasm_ext_scheme \<Rightarrow> wasm_limits \<Rightarrow> artifact_resource_form \<Rightarrow> usize list \<Rightarrow> (unit \<Rightarrow> 'a)
       \<Rightarrow> wasm_failure + 'a" where
  "with_admitted_output x self form lengths copy =
     result_try (map_err failure_from_resource
         (ok_or (fold (\<lambda>len total. Option.bind total (\<lambda>t. if t + len \<le> usize_max x then Some (t + len) else None))
             lengths (Some 0))
            (size_computation_overflow (wl_inner self) form))) (\<lambda>minimum.
     result_try (map_err failure_from_resource (check_output_size_lower_bound (wl_inner self) form minimum)) (\<lambda>_.
     Inr (copy ())))"

section \<open>Byte views\<close>

definition with_intrinsics :: "('u, 'w, 'k, 'j, 'z) wasm_ext_scheme \<Rightarrow> 'a option \<Rightarrow> wasm_failure + 'a" where
  "with_intrinsics x operation =
     (if \<not> js_intrinsics x then Inl WF_InvalidByteInput else ok_or operation WF_InvalidByteInput)"

record 'j byte_input =
  bi_view :: 'j
  bi_length :: usize

definition byte_input_new ::
    "('u, 'w, 'k, 'j, 'z) wasm_ext_scheme \<Rightarrow> 'j \<Rightarrow> wasm_failure + 'j byte_input" where
  "byte_input_new x input = with_intrinsics x
     (Option.bind (js_tag x input) (\<lambda>tag.
      if js_as_string x tag \<noteq> Some (ascii ''Uint8Array'') then None
      else
        Option.bind (js_values x input) (\<lambda>_.
        Option.bind (js_length x input) (\<lambda>len.
        Option.bind (js_as_f64 x len) (\<lambda>size.
        if \<not> f64_between 0 U32_MAX size \<or> \<not> f64_fract_is_zero size then None
        else
          Option.bind (js_buffer x input) (\<lambda>buffer.
          Option.bind (js_byte_offset x input) (\<lambda>offset.
          Option.bind (js_construct x [buffer, offset, len]) (\<lambda>view.
          Some \<lparr>bi_view = view, bi_length = f64_to_usize size\<rparr>))))))))"

definition byte_input_copy_to ::
    "('u, 'w, 'k, 'j, 'z) wasm_ext_scheme \<Rightarrow> 'j byte_input \<Rightarrow> bytes \<Rightarrow> wasm_failure + bytes" where
  "byte_input_copy_to x self destination =
     (if length destination \<noteq> bi_length self then Inl WF_InvalidByteInput
      else with_intrinsics x (js_set x (bi_view self) (length destination)))"

definition byte_input_to_vec ::
    "('u, 'w, 'k, 'j, 'z) wasm_ext_scheme \<Rightarrow> 'j byte_input \<Rightarrow> wasm_failure + bytes" where
  "byte_input_to_vec x self = byte_input_copy_to x self (replicate (bi_length self) 0)"

definition byte_input_to_secret_vec ::
    "('u, 'w, 'k, 'j, 'z) wasm_ext_scheme \<Rightarrow> 'j byte_input \<Rightarrow> wasm_failure + bytes" where
  "byte_input_to_secret_vec x self = byte_input_copy_to x self (replicate (bi_length self) 0)"

section \<open>Selectors and codes\<close>

definition ED25519_NAME :: str where
  "ED25519_NAME = ascii ''ED25519_PUREEDDSA_RAW_RS64_CANONICAL''"

definition P256_NAME :: str where
  "P256_NAME = ascii ''ECDSA_SECP256R1_SHA256_RAW_RS64''"

definition wasm_transcription_form :: "str \<Rightarrow> transcription_form option" where
  "wasm_transcription_form v =
     (if v = ascii ''yaml'' then Some TF_Yaml
      else if v = ascii ''protobuf'' then Some TF_Protobuf else None)"

definition wasm_output_form :: "str \<Rightarrow> output_form option" where
  "wasm_output_form v =
     (if v = ascii ''yaml'' then Some OF_Yaml
      else if v = ascii ''protobuf'' then Some OF_Protobuf else None)"

definition wasm_artifact_form :: "str \<Rightarrow> artifact_form option" where
  "wasm_artifact_form v =
     (if v = ascii ''yaml'' then Some AF_Yaml
      else if v = ascii ''protobuf'' then Some AF_Proto else None)"

definition wasm_outer_conformance :: "str \<Rightarrow> outer_conformance option" where
  "wasm_outer_conformance v =
     (if v = ascii ''strict'' then Some Strict
      else if v = ascii ''signature_strict'' then Some SignatureStrict else None)"

definition wasm_algorithm :: "str \<Rightarrow> algorithm_id option" where
  "wasm_algorithm v =
     (if v = ED25519_NAME then Some Ed25519 else if v = P256_NAME then Some EcdsaP256Sha256 else None)"

fun algorithm_name :: "algorithm_id \<Rightarrow> str" where
  "algorithm_name Ed25519 = ED25519_NAME"
| "algorithm_name EcdsaP256Sha256 = P256_NAME"

fun transcriber_invocation_code :: "transcriber_invocation_error \<Rightarrow> string" where
  "transcriber_invocation_code InvalidOrUnsupportedForm = ''invalid_or_unsupported_form''"
| "transcriber_invocation_code InvalidOrUnsupportedOuterConformance = ''invalid_or_unsupported_outer_conformance''"

fun transcriber_error_code :: "transcriber_error \<Rightarrow> string" where
  "transcriber_error_code InvalidPayloadBytes = ''invalid_payload_bytes''"
| "transcriber_error_code InvalidSignatureCarrier = ''invalid_signature_carrier''"

fun sign_invocation_code :: "sign_invocation_error \<Rightarrow> string" where
  "sign_invocation_code SIE_InvalidOrUnsupportedAlgorithm = ''invalid_or_unsupported_algorithm''"
| "sign_invocation_code SIE_InvalidAlgorithmParameters = ''invalid_algorithm_parameters''"
| "sign_invocation_code SIE_InvalidOrUnsupportedOutputForm = ''invalid_or_unsupported_output_form''"
| "sign_invocation_code SIE_InvalidKeyid = ''invalid_keyid''"

fun sign_error_code :: "sign_error \<Rightarrow> string" where
  "sign_error_code SE_InvalidPayloadBytes = ''invalid_payload_bytes''"
| "sign_error_code SE_PayloadLineTerminatorRefusal = ''payload_line_terminator_refusal''"
| "sign_error_code SE_InvalidOrUnsupportedAlgorithm = ''invalid_or_unsupported_algorithm''"
| "sign_error_code SE_InvalidAlgorithmParameters = ''invalid_algorithm_parameters''"
| "sign_error_code SE_InvalidOrUnsupportedOutputForm = ''invalid_or_unsupported_output_form''"
| "sign_error_code SE_InvalidKeyid = ''invalid_keyid''"
| "sign_error_code SE_KeyOperationFailure = ''key_operation_failure''"
| "sign_error_code SE_YamlValidationFailure = ''yaml_validation_failure''"
| "sign_error_code (SE_YamlSerialize m) = ''yaml_serialize''"

fun verify_invocation_code :: "invocation_error \<Rightarrow> string" where
  "verify_invocation_code IE_InvalidAlgorithmParameters = ''invalid_algorithm_parameters''"
| "verify_invocation_code IE_KeyResolutionFailure = ''key_resolution_failure''"
| "verify_invocation_code IE_TrustPolicyConfigurationError = ''trust_policy_configuration_error''"
| "verify_invocation_code IE_InvalidPreVerifyResult = ''invalid_pre_verify_result''"
| "verify_invocation_code IE_InvalidOrUnsupportedForm = ''invalid_or_unsupported_form''"

section \<open>Composing and decomposing\<close>

record wasm_compose_result =
  wcr_status :: string
  wcr_code :: "string option"
  wcr_artifact :: "bytes option"

text \<open>Bytes cross as an empty array where they are absent; the flags tell the two apart.\<close>

definition bytes_or_empty :: "bytes option \<Rightarrow> bytes" where
  "bytes_or_empty bs = (case bs of Some v \<Rightarrow> v | None \<Rightarrow> [])"

definition compose_has_artifact :: "wasm_compose_result \<Rightarrow> bool" where
  "compose_has_artifact self = (wcr_artifact self \<noteq> None)"

definition compose_artifact :: "wasm_compose_result \<Rightarrow> bytes" where
  "compose_artifact self = bytes_or_empty (wcr_artifact self)"

definition wasm_compose_failure :: "wasm_failure \<Rightarrow> wasm_compose_result" where
  "wasm_compose_failure e =
     \<lparr>wcr_status = failure_status e, wcr_code = Some (failure_code e), wcr_artifact = None\<rparr>"

fun wasm_compose_outcome :: "compose_outcome \<Rightarrow> wasm_compose_result" where
  "wasm_compose_outcome (CO_Success success) =
     \<lparr>wcr_status = ''success'', wcr_code = None, wcr_artifact = Some (cs_artifact success)\<rparr>"
| "wasm_compose_outcome (CO_Invocation e) =
     \<lparr>wcr_status = ''invocation_error'', wcr_code = Some (transcriber_invocation_code e), wcr_artifact = None\<rparr>"
| "wasm_compose_outcome (CO_Error e) =
     \<lparr>wcr_status = ''error'', wcr_code = Some (transcriber_error_code e), wcr_artifact = None\<rparr>"

text \<open>The first part of each call, up to the owned request; \<open>Inl\<close> is an early return.\<close>

definition compose_request_of ::
    "('u, 'w, 'k, 'j, 'z) wasm_ext_scheme \<Rightarrow> 'j \<Rightarrow> 'j \<Rightarrow> str \<Rightarrow> wasm_limits option
       \<Rightarrow> wasm_compose_result + compose_request" where
  "compose_request_of x payload signature_carrier form limits =
     result_try (ok_or (wasm_transcription_form form)
         \<lparr>wcr_status = ''invocation_error'', wcr_code = Some ''invalid_or_unsupported_form'',
          wcr_artifact = None\<rparr>) (\<lambda>form.
     result_try (map_err wasm_compose_failure (byte_input_new x payload)) (\<lambda>payload.
     result_try (map_err wasm_compose_failure (byte_input_new x signature_carrier)) (\<lambda>signature_carrier.
     result_try (map_err wasm_compose_failure (case limits of
         Some l \<Rightarrow>
           with_admitted_output x l (case form of TF_Yaml \<Rightarrow> RF_Yaml | TF_Protobuf \<Rightarrow> RF_Protobuf)
             [bi_length payload, bi_length signature_carrier] (\<lambda>_. ())
       | None \<Rightarrow> Inr ())) (\<lambda>_.
     result_try (map_err wasm_compose_failure (byte_input_to_vec x payload)) (\<lambda>payload.
     result_try (map_err wasm_compose_failure (byte_input_to_vec x signature_carrier)) (\<lambda>signature_carrier.
     Inr \<lparr>cr_payload = payload, cr_signature_carrier = signature_carrier, cr_form = form\<rparr>))))))"

definition compose_impl ::
    "('u, 'w, 'k, 'j, 'z) wasm_ext_scheme \<Rightarrow> 'j \<Rightarrow> 'j \<Rightarrow> str \<Rightarrow> wasm_limits option
       \<Rightarrow> wasm_compose_result exec" where
  "compose_impl x payload signature_carrier form limits =
     (case compose_request_of x payload signature_carrier form limits of
        Inl r \<Rightarrow> Done r
      | Inr request \<Rightarrow>
          (case limits of
             Some l \<Rightarrow>
               exec_map (\<lambda>r. case flatten_encoding r of
                   Inl e \<Rightarrow> wasm_compose_failure e
                 | Inr outcome \<Rightarrow> wasm_compose_outcome outcome)
                 (compose_with_resource_limits x request (wl_inner l))
           | None \<Rightarrow> exec_map wasm_compose_outcome (compose x request)))"

definition wasm_compose ::
    "('u, 'w, 'k, 'j, 'z) wasm_ext_scheme \<Rightarrow> 'j \<Rightarrow> 'j \<Rightarrow> str \<Rightarrow> wasm_compose_result exec" where
  "wasm_compose x payload signature_carrier form = compose_impl x payload signature_carrier form None"

definition wasm_compose_with_limits ::
    "('u, 'w, 'k, 'j, 'z) wasm_ext_scheme \<Rightarrow> 'j \<Rightarrow> 'j \<Rightarrow> str \<Rightarrow> wasm_limits \<Rightarrow> wasm_compose_result exec" where
  "wasm_compose_with_limits x payload signature_carrier form limits =
     compose_impl x payload signature_carrier form (Some limits)"

record wasm_decompose_result =
  wdr_status :: string
  wdr_code :: "string option"
  wdr_payload :: "bytes option"
  wdr_signature_carrier :: "bytes option"

definition decompose_has_payload :: "wasm_decompose_result \<Rightarrow> bool" where
  "decompose_has_payload self = (wdr_payload self \<noteq> None)"

definition decompose_payload :: "wasm_decompose_result \<Rightarrow> bytes" where
  "decompose_payload self = bytes_or_empty (wdr_payload self)"

definition decompose_has_signature_carrier :: "wasm_decompose_result \<Rightarrow> bool" where
  "decompose_has_signature_carrier self = (wdr_signature_carrier self \<noteq> None)"

definition decompose_signature_carrier :: "wasm_decompose_result \<Rightarrow> bytes" where
  "decompose_signature_carrier self = bytes_or_empty (wdr_signature_carrier self)"

definition wasm_decompose_failure :: "wasm_failure \<Rightarrow> wasm_decompose_result" where
  "wasm_decompose_failure e =
     \<lparr>wdr_status = failure_status e, wdr_code = Some (failure_code e), wdr_payload = None,
      wdr_signature_carrier = None\<rparr>"

definition wasm_decompose_invocation :: "string \<Rightarrow> wasm_decompose_result" where
  "wasm_decompose_invocation code =
     \<lparr>wdr_status = ''invocation_error'', wdr_code = Some code, wdr_payload = None, wdr_signature_carrier = None\<rparr>"

fun wasm_decompose_response :: "decompose_response \<Rightarrow> wasm_decompose_result" where
  "wasm_decompose_response (DR_Invocation e) = wasm_decompose_invocation (transcriber_invocation_code e)"
| "wasm_decompose_response (DR_Structural r) =
     (case ds_outcome r of
        DC_Ok \<Rightarrow> \<lparr>wdr_status = ''ok'', wdr_code = None, wdr_payload = ds_payload r,
                  wdr_signature_carrier = ds_signature_carrier r\<rparr>
      | DC_Unsigned \<Rightarrow> \<lparr>wdr_status = ''unsigned'', wdr_code = None, wdr_payload = None,
                        wdr_signature_carrier = None\<rparr>
      | DC_MalformedAttemptedSigned \<Rightarrow>
          \<lparr>wdr_status = ''malformed_attempted_signed'', wdr_code = None, wdr_payload = None,
           wdr_signature_carrier = None\<rparr>)"

definition decompose_request_of ::
    "('u, 'w, 'k, 'j, 'z) wasm_ext_scheme \<Rightarrow> 'j \<Rightarrow> str \<Rightarrow> str option \<Rightarrow> wasm_limits option
       \<Rightarrow> wasm_decompose_result + decompose_request" where
  "decompose_request_of x artifact form outer limits =
     result_try (map_err wasm_decompose_failure (byte_input_new x artifact)) (\<lambda>artifact.
     result_try (map_err wasm_decompose_failure (case limits of
         Some l \<Rightarrow> with_admitted_input l (bi_length artifact) (\<lambda>_. ())
       | None \<Rightarrow> Inr ())) (\<lambda>_.
     result_try (ok_or (wasm_transcription_form form)
         (wasm_decompose_invocation ''invalid_or_unsupported_form'')) (\<lambda>form.
     result_try (case outer of
         Some value \<Rightarrow> ok_or (map_option Some (wasm_outer_conformance value))
           (wasm_decompose_invocation ''invalid_or_unsupported_outer_conformance'')
       | None \<Rightarrow> Inr None) (\<lambda>outer.
     result_try (map_err wasm_decompose_failure (byte_input_to_vec x artifact)) (\<lambda>artifact.
     Inr \<lparr>dr_artifact = artifact, dr_form = form, dr_outer_conformance = outer\<rparr>)))))"

definition decompose_impl ::
    "('u, 'w, 'k, 'j, 'z) wasm_ext_scheme \<Rightarrow> 'j \<Rightarrow> str \<Rightarrow> str option \<Rightarrow> wasm_limits option
       \<Rightarrow> wasm_decompose_result" where
  "decompose_impl x artifact form outer limits =
     (case decompose_request_of x artifact form outer limits of
        Inl r \<Rightarrow> r
      | Inr request \<Rightarrow>
          (case (case limits of
                   Some l \<Rightarrow> decompose_with_resource_limits request (wl_inner l)
                 | None \<Rightarrow> Inr (decompose request)) of
             Inl e \<Rightarrow> wasm_decompose_failure (failure_from_resource e)
           | Inr response \<Rightarrow> wasm_decompose_response response))"

definition wasm_decompose ::
    "('u, 'w, 'k, 'j, 'z) wasm_ext_scheme \<Rightarrow> 'j \<Rightarrow> str \<Rightarrow> str option \<Rightarrow> wasm_decompose_result" where
  "wasm_decompose x artifact form outer = decompose_impl x artifact form outer None"

definition wasm_decompose_with_limits ::
    "('u, 'w, 'k, 'j, 'z) wasm_ext_scheme \<Rightarrow> 'j \<Rightarrow> str \<Rightarrow> str option \<Rightarrow> wasm_limits
       \<Rightarrow> wasm_decompose_result" where
  "wasm_decompose_with_limits x artifact form outer limits = decompose_impl x artifact form outer (Some limits)"

section \<open>Signing\<close>

record wasm_sign_result =
  wsr_status :: string
  wsr_code :: "string option"
  wsr_artifact :: "bytes option"
  wsr_modified_payload :: "bytes option"

definition sign_has_artifact :: "wasm_sign_result \<Rightarrow> bool" where
  "sign_has_artifact self = (wsr_artifact self \<noteq> None)"

definition sign_artifact :: "wasm_sign_result \<Rightarrow> bytes" where
  "sign_artifact self = bytes_or_empty (wsr_artifact self)"

definition sign_has_modified_payload :: "wasm_sign_result \<Rightarrow> bool" where
  "sign_has_modified_payload self = (wsr_modified_payload self \<noteq> None)"

definition sign_modified_payload :: "wasm_sign_result \<Rightarrow> bytes" where
  "sign_modified_payload self = bytes_or_empty (wsr_modified_payload self)"

definition wasm_sign_failure :: "wasm_failure \<Rightarrow> wasm_sign_result" where
  "wasm_sign_failure e =
     \<lparr>wsr_status = failure_status e, wsr_code = Some (failure_code e), wsr_artifact = None,
      wsr_modified_payload = None\<rparr>"

definition wasm_sign_invocation :: "string \<Rightarrow> wasm_sign_result" where
  "wasm_sign_invocation code =
     \<lparr>wsr_status = ''invocation_error'', wsr_code = Some code, wsr_artifact = None, wsr_modified_payload = None\<rparr>"

fun wasm_sign_outcome :: "sign_outcome \<Rightarrow> wasm_sign_result" where
  "wasm_sign_outcome (SO_Success success) =
     \<lparr>wsr_status = ''success'', wsr_code = None, wsr_artifact = Some (ss_artifact success),
      wsr_modified_payload =
        (if ss_modified_payload success \<noteq> [] then Some (ss_modified_payload success) else None)\<rparr>"
| "wasm_sign_outcome (SO_Invocation e) = wasm_sign_invocation (sign_invocation_code e)"
| "wasm_sign_outcome (SO_Signer e) =
     \<lparr>wsr_status = ''signer_error'', wsr_code = Some (sign_error_code e), wsr_artifact = None,
      wsr_modified_payload = None\<rparr>"

definition sign_with_key ::
    "('u, 'w, 'k, 'j, 'z) wasm_ext_scheme \<Rightarrow> ('s \<Rightarrow> 'k option \<times> 's) \<Rightarrow> bytes \<Rightarrow> algorithm_id
       \<Rightarrow> ('k, 'k) signing_key \<Rightarrow> str option \<Rightarrow> bool \<Rightarrow> output_form \<Rightarrow> wasm_limits option
       \<Rightarrow> ('s, wasm_sign_result) stateful" where
  "sign_with_key x rng payload algorithm key keyid append_missing_final_newline output_form limits s =
     (let request = \<lparr>sreq_payload = payload, sreq_algorithm = algorithm, sreq_key = key, sreq_keyid = keyid,
          sreq_append_missing_final_newline = append_missing_final_newline,
          sreq_output_form = output_form, sreq_algorithm_parameters = []\<rparr> in
      case limits of
        Some l \<Rightarrow>
          exec_map (\<lambda>(r, s'). (case flatten_encoding r of
                Inl e \<Rightarrow> wasm_sign_failure e
              | Inr outcome \<Rightarrow> wasm_sign_outcome outcome, s'))
            (sign_with_resource_limits x rng request (wl_inner l) s)
      | None \<Rightarrow> exec_map (\<lambda>(outcome, s'). (wasm_sign_outcome outcome, s')) (sign x rng request s))"

text \<open>An early return carries its result in \<open>Inl\<close>.\<close>

definition signing_key_of ::
    "('u, 'w, 'k, 'j, 'z) wasm_ext_scheme \<Rightarrow> algorithm_id \<Rightarrow> bytes \<Rightarrow> wasm_sign_result + ('k, 'k) signing_key" where
  "signing_key_of x algorithm key_bytes =
     (case algorithm of
        Ed25519 \<Rightarrow>
          (case try_array 32 key_bytes of
             None \<Rightarrow> Inl (wasm_sign_invocation ''invalid_signing_key'')
           | Some seed \<Rightarrow> Inr (SK_Ed25519 (ed_sk_from_bytes x seed)))
      | EcdsaP256Sha256 \<Rightarrow>
          if length key_bytes \<noteq> 32 then Inl (wasm_sign_invocation ''invalid_signing_key'')
          else (case p256_sk_from_slice x key_bytes of
                  None \<Rightarrow> Inl (wasm_sign_invocation ''invalid_signing_key'')
                | Some key \<Rightarrow> Inr (SK_EcdsaP256Sha256 key)))"

definition sign_inputs ::
    "('u, 'w, 'k, 'j, 'z) wasm_ext_scheme \<Rightarrow> 'j \<Rightarrow> str \<Rightarrow> 'j \<Rightarrow> str option \<Rightarrow> str \<Rightarrow> wasm_limits option
       \<Rightarrow> wasm_sign_result + algorithm_id \<times> output_form \<times> bytes \<times> ('k, 'k) signing_key" where
  "sign_inputs x payload algorithm_selector signing_key keyid output_form_selector limits =
     result_try (ok_or (wasm_algorithm algorithm_selector)
         (wasm_sign_invocation ''invalid_or_unsupported_algorithm'')) (\<lambda>algorithm.
     result_try (ok_or (wasm_output_form output_form_selector)
         (wasm_sign_invocation ''invalid_or_unsupported_output_form'')) (\<lambda>output_form.
     result_try (map_err wasm_sign_failure (byte_input_new x signing_key)) (\<lambda>signing_key.
     if bi_length signing_key \<noteq> 32 then Inl (wasm_sign_invocation ''invalid_signing_key'')
     else if limits \<noteq> None \<and> (case keyid of Some v \<Rightarrow> v = [] \<or> length v > 1024 | None \<Rightarrow> False)
     then Inl (wasm_sign_invocation ''invalid_keyid'')
     else
       result_try (map_err wasm_sign_failure (byte_input_new x payload)) (\<lambda>payload.
       result_try (map_err wasm_sign_failure (case limits of
           Some l \<Rightarrow>
             with_admitted_output x l (case output_form of OF_Yaml \<Rightarrow> RF_Yaml | OF_Protobuf \<Rightarrow> RF_Protobuf)
               [bi_length payload] (\<lambda>_. ())
         | None \<Rightarrow> Inr ())) (\<lambda>_.
       result_try (map_err wasm_sign_failure (byte_input_to_vec x payload)) (\<lambda>payload.
       result_try (map_err wasm_sign_failure (byte_input_to_secret_vec x signing_key)) (\<lambda>key_bytes.
       result_try (signing_key_of x algorithm key_bytes) (\<lambda>key.
       Inr (algorithm, output_form, payload, key)))))))))"

definition sign_impl ::
    "('u, 'w, 'k, 'j, 'z) wasm_ext_scheme \<Rightarrow> ('s \<Rightarrow> 'k option \<times> 's) \<Rightarrow> 'j \<Rightarrow> str \<Rightarrow> 'j \<Rightarrow> str option
       \<Rightarrow> bool \<Rightarrow> str \<Rightarrow> wasm_limits option \<Rightarrow> ('s, wasm_sign_result) stateful" where
  "sign_impl x rng payload algorithm_selector signing_key keyid append_missing_final_newline
       output_form_selector limits s =
     (case sign_inputs x payload algorithm_selector signing_key keyid output_form_selector limits of
        Inl r \<Rightarrow> Done (r, s)
      | Inr (algorithm, output_form, payload, key) \<Rightarrow>
          sign_with_key x rng payload algorithm key keyid append_missing_final_newline output_form limits s)"

definition wasm_sign ::
    "('u, 'w, 'k, 'j, 'z) wasm_ext_scheme \<Rightarrow> ('s \<Rightarrow> 'k option \<times> 's) \<Rightarrow> 'j \<Rightarrow> str \<Rightarrow> 'j \<Rightarrow> str option
       \<Rightarrow> bool \<Rightarrow> str \<Rightarrow> ('s, wasm_sign_result) stateful" where
  "wasm_sign x rng payload algorithm_selector signing_key keyid append_missing_final_newline output_form_selector =
     sign_impl x rng payload algorithm_selector signing_key keyid append_missing_final_newline
       output_form_selector None"

definition wasm_sign_with_limits ::
    "('u, 'w, 'k, 'j, 'z) wasm_ext_scheme \<Rightarrow> ('s \<Rightarrow> 'k option \<times> 's) \<Rightarrow> 'j \<Rightarrow> str \<Rightarrow> 'j \<Rightarrow> str option
       \<Rightarrow> bool \<Rightarrow> str \<Rightarrow> wasm_limits \<Rightarrow> ('s, wasm_sign_result) stateful" where
  "wasm_sign_with_limits x rng payload algorithm_selector signing_key keyid append_missing_final_newline
       output_form_selector limits =
     sign_impl x rng payload algorithm_selector signing_key keyid append_missing_final_newline
       output_form_selector (Some limits)"

section \<open>Verifying\<close>

record wasm_verify_result =
  wvr_status :: string
  wvr_code :: "string option"
  wvr_payload :: "bytes option"
  wvr_algorithm :: "str option"

definition verify_has_payload :: "wasm_verify_result \<Rightarrow> bool" where
  "verify_has_payload self = (wvr_payload self \<noteq> None)"

definition verify_payload :: "wasm_verify_result \<Rightarrow> bytes" where
  "verify_payload self = bytes_or_empty (wvr_payload self)"

definition verify_has_algorithm :: "wasm_verify_result \<Rightarrow> bool" where
  "verify_has_algorithm self = (wvr_algorithm self \<noteq> None)"

definition wasm_verify_failure :: "wasm_failure \<Rightarrow> wasm_verify_result" where
  "wasm_verify_failure e =
     \<lparr>wvr_status = failure_status e, wvr_code = Some (failure_code e), wvr_payload = None, wvr_algorithm = None\<rparr>"

definition wasm_verify_invocation :: "string \<Rightarrow> wasm_verify_result" where
  "wasm_verify_invocation code =
     \<lparr>wvr_status = ''invocation_error'', wvr_code = Some code, wvr_payload = None, wvr_algorithm = None\<rparr>"

definition wasm_verify_state :: "string \<Rightarrow> str option \<Rightarrow> wasm_verify_result" where
  "wasm_verify_state status algorithm =
     \<lparr>wvr_status = status, wvr_code = None, wvr_payload = None, wvr_algorithm = algorithm\<rparr>"

fun wasm_verify_outcome :: "verdict \<Rightarrow> wasm_verify_result" where
  "wasm_verify_outcome (Inl e) = wasm_verify_invocation (verify_invocation_code e)"
| "wasm_verify_outcome (Inr (VS_Verified payload algorithm)) =
     \<lparr>wvr_status = ''verified'', wvr_code = None, wvr_payload = Some payload,
      wvr_algorithm = Some (algorithm_name algorithm)\<rparr>"
| "wasm_verify_outcome (Inr VS_Unsigned) = wasm_verify_state ''unsigned'' None"
| "wasm_verify_outcome (Inr VS_MalformedAttemptedSigned) = wasm_verify_state ''malformed_attempted_signed'' None"
| "wasm_verify_outcome (Inr (VS_SignedButAlgorithmUnsupported algorithm)) =
     wasm_verify_state ''signed_but_algorithm_unsupported'' (Some (algorithm_name algorithm))"
| "wasm_verify_outcome (Inr VS_SignedButFailedVerification) =
     wasm_verify_state ''signed_but_failed_verification'' None"

text \<open>The compiled schema is cached in a cell the check may fill; see the signature document.\<close>

definition schema_validation_rejects ::
    "('u, 'w, 'z) yaml_ext_scheme \<Rightarrow> bytes \<Rightarrow> artifact_form \<Rightarrow> (str + unit) option
       \<Rightarrow> bool \<times> (str + unit) option" where
  "schema_validation_rejects x artifact form cell =
     (if form \<noteq> AF_Yaml then (False, cell)
      else
        (case decompose \<lparr>dr_artifact = artifact, dr_form = TF_Yaml, dr_outer_conformance = None\<rparr> of
           DR_Invocation e \<Rightarrow> (False, cell)
         | DR_Structural r \<Rightarrow>
             if ds_outcome r \<noteq> DC_Ok then (False, cell)
             else
               (case ds_signature_carrier r of
                  None \<Rightarrow> (False, cell)
                | Some carrier \<Rightarrow>
                    (case parse_signature_document x carrier of
                       Inl e \<Rightarrow> (False, cell)
                     | Inr document \<Rightarrow>
                         (let (v, cell') = signature_document_validates_tier_a_schema x document cell in
                          (\<not> is_ok v, cell'))))))"

text \<open>The typed key the boundary resolves, in its slot, and the options that enable that slot only.\<close>

definition resolved_keys ::
    "('u, 'w, 'k, 'z) crypto_ext_scheme \<Rightarrow> algorithm_id \<Rightarrow> bytes \<Rightarrow> invocation_error + ('k, 'k) public_keys" where
  "resolved_keys x algorithm key_bytes =
     (case algorithm of
        Ed25519 \<Rightarrow> result_map (\<lambda>key. \<lparr>pk_ed25519 = Some key, pk_p256 = None\<rparr>)
                    (resolve_ed25519_verifying_key x key_bytes)
      | EcdsaP256Sha256 \<Rightarrow> result_map (\<lambda>key. \<lparr>pk_ed25519 = None, pk_p256 = Some key\<rparr>)
                    (resolve_p256_verifying_key x key_bytes))"

definition selected_options :: "algorithm_id \<Rightarrow> verifier_options" where
  "selected_options selected_algorithm =
     \<lparr>vo_verify_ed25519 = (selected_algorithm = Ed25519),
      vo_verify_ecdsa_p256_sha256 = (selected_algorithm = EcdsaP256Sha256), vo_algorithm_parameters = []\<rparr>"

definition verify_inputs ::
    "('u, 'w, 'k, 'j, 'z) wasm_ext_scheme \<Rightarrow> 'j \<Rightarrow> str \<Rightarrow> str \<Rightarrow> 'j \<Rightarrow> wasm_limits option
       \<Rightarrow> wasm_verify_result + bytes \<times> artifact_form \<times> algorithm_id \<times> ('k, 'k) public_keys" where
  "verify_inputs x artifact form_selector algorithm_selector verifying_key limits =
     result_try (map_err wasm_verify_failure (byte_input_new x artifact)) (\<lambda>artifact.
     result_try (map_err wasm_verify_failure (case limits of
         Some l \<Rightarrow> with_admitted_input l (bi_length artifact) (\<lambda>_. ())
       | None \<Rightarrow> Inr ())) (\<lambda>_.
     result_try (ok_or (wasm_artifact_form form_selector)
         (wasm_verify_invocation ''invalid_or_unsupported_form'')) (\<lambda>form.
     result_try (ok_or (wasm_algorithm algorithm_selector)
         (wasm_verify_invocation ''invalid_or_unsupported_algorithm'')) (\<lambda>selected_algorithm.
     result_try (map_err wasm_verify_failure (byte_input_new x verifying_key)) (\<lambda>verifying_key.
     if bi_length verifying_key \<noteq> (case selected_algorithm of Ed25519 \<Rightarrow> 32 | EcdsaP256Sha256 \<Rightarrow> 65)
     then Inl (wasm_verify_invocation ''key_resolution_failure'')
     else
       result_try (map_err wasm_verify_failure (byte_input_to_vec x artifact)) (\<lambda>artifact.
       result_try (map_err wasm_verify_failure (byte_input_to_vec x verifying_key)) (\<lambda>key_bytes.
       result_try (map_err (\<lambda>e. wasm_verify_invocation (verify_invocation_code e))
           (resolved_keys x selected_algorithm key_bytes)) (\<lambda>keys.
       Inr (artifact, form, selected_algorithm, keys)))))))))"

definition verify_impl ::
    "('u, 'w, 'k, 'j, 'z) wasm_ext_scheme \<Rightarrow> 'j \<Rightarrow> str \<Rightarrow> str \<Rightarrow> 'j \<Rightarrow> wasm_limits option
       \<Rightarrow> ((str + unit) option, wasm_verify_result) stateful" where
  "verify_impl x artifact form_selector algorithm_selector verifying_key limits cell =
     (case verify_inputs x artifact form_selector algorithm_selector verifying_key limits of
        Inl r \<Rightarrow> Done (r, cell)
      | Inr (artifact, form, selected_algorithm, keys) \<Rightarrow>
          (let (rejects, cell') = (if feature_json_schema_validate x
                 then schema_validation_rejects x artifact form cell else (False, cell));
               options = selected_options selected_algorithm in
           if rejects then Done (wasm_verify_state ''malformed_attempted_signed'' None, cell')
           else
             exec_map (\<lambda>r. (r, cell'))
               (case limits of
                  Some l \<Rightarrow>
                    exec_map (\<lambda>r. case r of
                        Inl e \<Rightarrow> wasm_verify_failure (failure_from_resource e)
                      | Inr outcome \<Rightarrow> wasm_verify_outcome outcome)
                      (verify_with_resource_limits x artifact form keys options (wl_inner l))
                | None \<Rightarrow> exec_map wasm_verify_outcome (verify x artifact form keys options))))"

definition wasm_verify ::
    "('u, 'w, 'k, 'j, 'z) wasm_ext_scheme \<Rightarrow> 'j \<Rightarrow> str \<Rightarrow> str \<Rightarrow> 'j
       \<Rightarrow> ((str + unit) option, wasm_verify_result) stateful" where
  "wasm_verify x artifact form_selector algorithm_selector verifying_key =
     verify_impl x artifact form_selector algorithm_selector verifying_key None"

definition wasm_verify_with_limits ::
    "('u, 'w, 'k, 'j, 'z) wasm_ext_scheme \<Rightarrow> 'j \<Rightarrow> str \<Rightarrow> str \<Rightarrow> 'j \<Rightarrow> wasm_limits
       \<Rightarrow> ((str + unit) option, wasm_verify_result) stateful" where
  "wasm_verify_with_limits x artifact form_selector algorithm_selector verifying_key limits =
     verify_impl x artifact form_selector algorithm_selector verifying_key (Some limits)"

end
