(* ===== verification/Wasm_Facts.thy ===== *)
theory Wasm_Facts
  imports Wasm
begin

text \<open>
  What the WebAssembly boundary adds and what it keeps: which policies it can build, that it
  refuses before it copies, the shape of its results, and that signing and verifying through
  it is signing and verifying.
\<close>

section \<open>Policies\<close>

lemma f64_nat: "f64_fract_is_zero (Finite (of_nat n))" "f64_to_usize (Finite (of_nat n)) = n"
  by simp_all

lemma guarded_some:
  "(if n \<or> \<not> a \<or> \<not> b then None else if k = 0 then None else Some k) = Some m \<longleftrightarrow>
     \<not> n \<and> a \<and> b \<and> m = k \<and> m \<noteq> (0 :: nat)"
  by auto

lemma valid_maximum_iff:
  "valid_maximum v = Some m \<longleftrightarrow> v = Finite (of_nat m) \<and> 1 \<le> m \<and> m \<le> 4294967295"
proof (cases v)
  case (Finite r)
  have "r = of_nat m \<and> 1 \<le> m \<and> m \<le> 4294967295"
    if a: "of_int \<lfloor>r\<rfloor> = r" "1 \<le> r" "r \<le> U32_MAX" "m = nat \<lfloor>r\<rfloor>"
  proof -
    have f: "1 \<le> \<lfloor>r\<rfloor>" "\<lfloor>r\<rfloor> \<le> 4294967295" using a(2,3) by (simp_all add: U32_MAX_def floor_le_iff le_floor_iff)
    then have "int m = \<lfloor>r\<rfloor>" using a(4) by simp
    have "r = of_int (int m)" unfolding \<open>int m = \<lfloor>r\<rfloor>\<close> by (rule a(1) [symmetric])
    then show ?thesis using f \<open>int m = \<lfloor>r\<rfloor>\<close> by simp
  qed
  moreover have "of_int \<lfloor>r\<rfloor> = r \<and> 1 \<le> r \<and> r \<le> U32_MAX \<and> m = nat \<lfloor>r\<rfloor> \<and> m \<noteq> 0"
    if "r = of_nat m" "1 \<le> m" "m \<le> 4294967295"
    using that by (simp add: U32_MAX_def)
  moreover have "valid_maximum (Finite r) = Some m \<longleftrightarrow>
      of_int \<lfloor>r\<rfloor> = r \<and> 1 \<le> r \<and> r \<le> U32_MAX \<and> m = nat \<lfloor>r\<rfloor> \<and> m \<noteq> 0"
    unfolding valid_maximum_def non_zero_def f64_fract_is_zero.simps f64_between.simps f64_to_usize.simps
      guarded_some by blast
  ultimately show ?thesis unfolding Finite f64.inject by blast
qed (simp add: valid_maximum_def)

text \<open>
  The policies JavaScript can build. Every constructor yields a policy whose ceiling is
  never zero, from a policy of that kind; a ceiling is accepted exactly when it is a number
  that is an integer from 1 to 4294967295, without rounding, and is the ceiling the getter
  then returns; the default is four mebibytes.
\<close>

theorem wasm_policies_are_well_formed:
  "limits_wf (wl_inner wasm_limits_new) \<and> limits_wf (wl_inner wasm_limits_unbounded) \<and>
   wasm_max_artifact_bytes wasm_limits_new = Some (Finite 4194304) \<and>
   wasm_max_artifact_bytes wasm_limits_unbounded = None \<and>
   limits_wf (wl_inner (wasm_without_max_artifact_byte_limit l)) \<and>
   wasm_max_artifact_bytes (wasm_without_max_artifact_byte_limit l) = None \<and>
   ((\<exists>l'. wasm_with_max_artifact_bytes x l v = Inr l') \<longleftrightarrow>
      (\<exists>m. js_as_f64 x v = Some (Finite (of_nat m)) \<and> 1 \<le> m \<and> m \<le> 4294967295)) \<and>
   (wasm_with_max_artifact_bytes x l v = Inr l' \<longrightarrow>
      limits_wf (wl_inner l') \<and> wasm_max_artifact_bytes l' = js_as_f64 x v)"
proof -
  have w: "wasm_with_max_artifact_bytes x l v = Inr l' \<longleftrightarrow>
      (\<exists>m. js_as_f64 x v = Some (Finite (of_nat m)) \<and> 1 \<le> m \<and> m \<le> 4294967295 \<and>
           l' = \<lparr>wl_inner = with_max_artifact_bytes (wl_inner l) m\<rparr>)" for l'
    by (cases "js_as_f64 x v")
       (auto simp: wasm_with_max_artifact_bytes_def valid_maximum_iff result_simps)
  show ?thesis
    by (auto simp: w limits_wf_def with_max_artifact_bytes_def wasm_max_artifact_bytes_def
        wasm_limits_new_def wasm_limits_unbounded_def unbounded_def default_limits_def non_zero_def
        DEFAULT_MAX_ARTIFACT_BYTES_def wasm_without_max_artifact_byte_limit_def
        without_max_artifact_byte_limit_def)
qed

section \<open>The shape of a result\<close>

definition is_failure :: "string \<Rightarrow> bool" where
  "is_failure status \<longleftrightarrow> status \<in> {''invocation_error'', ''resource_error'', ''encode_error''}"

lemma failure_status_is_failure [simp]: "is_failure (failure_status e)"
  by (cases e) (simp_all add: is_failure_def)

text \<open>What JavaScript sees through the flags and the byte getters.\<close>

definition compose_shape :: "wasm_compose_result \<Rightarrow> bool" where
  "compose_shape r \<longleftrightarrow>
     (wcr_status r = ''success'' \<and> wcr_code r = None \<and> compose_has_artifact r \<or>
      (is_failure (wcr_status r) \<or> wcr_status r = ''error'') \<and> wcr_code r \<noteq> None \<and>
        \<not> compose_has_artifact r \<and> compose_artifact r = [])"

definition decompose_shape :: "wasm_decompose_result \<Rightarrow> bool" where
  "decompose_shape r \<longleftrightarrow>
     (wdr_status r = ''ok'' \<and> wdr_code r = None \<and> decompose_has_payload r \<and> decompose_has_signature_carrier r \<or>
      (wdr_status r \<in> {''unsigned'', ''malformed_attempted_signed''} \<and> wdr_code r = None \<or>
       is_failure (wdr_status r) \<and> wdr_code r \<noteq> None) \<and>
        \<not> decompose_has_payload r \<and> \<not> decompose_has_signature_carrier r \<and>
        decompose_payload r = [] \<and> decompose_signature_carrier r = [])"

definition sign_shape :: "wasm_sign_result \<Rightarrow> bool" where
  "sign_shape r \<longleftrightarrow>
     (wsr_status r = ''success'' \<and> wsr_code r = None \<and> sign_has_artifact r \<and>
        (sign_has_modified_payload r \<longleftrightarrow> sign_modified_payload r \<noteq> []) \<or>
      (is_failure (wsr_status r) \<or> wsr_status r = ''signer_error'') \<and> wsr_code r \<noteq> None \<and>
        \<not> sign_has_artifact r \<and> sign_artifact r = [] \<and> \<not> sign_has_modified_payload r)"

definition verify_shape :: "wasm_verify_result \<Rightarrow> bool" where
  "verify_shape r \<longleftrightarrow>
     (wvr_status r = ''verified'' \<and> wvr_code r = None \<and> verify_has_payload r \<and> verify_has_algorithm r \<or>
      (wvr_status r = ''signed_but_algorithm_unsupported'' \<and> wvr_code r = None \<and> verify_has_algorithm r \<or>
       wvr_status r \<in> {''malformed_attempted_signed'', ''signed_but_failed_verification''} \<and> wvr_code r = None \<and>
         \<not> verify_has_algorithm r \<or>
       is_failure (wvr_status r) \<and> wvr_code r \<noteq> None \<and> \<not> verify_has_algorithm r) \<and>
        \<not> verify_has_payload r \<and> verify_payload r = [])"

lemmas getter_defs = bytes_or_empty_def compose_has_artifact_def compose_artifact_def decompose_has_payload_def
  decompose_payload_def decompose_has_signature_carrier_def decompose_signature_carrier_def sign_has_artifact_def
  sign_artifact_def sign_has_modified_payload_def sign_modified_payload_def verify_has_payload_def
  verify_payload_def verify_has_algorithm_def

lemmas shape_defs = compose_shape_def decompose_shape_def sign_shape_def verify_shape_def is_failure_def getter_defs

lemma compose_shapes [simp]: "compose_shape (wasm_compose_failure e)" "compose_shape (wasm_compose_outcome out)"
  by (simp add: compose_shape_def getter_defs wasm_compose_failure_def) (cases out; simp add: shape_defs)

lemma sign_shapes [simp]: "sign_shape (wasm_sign_failure e)" "sign_shape (wasm_sign_invocation c)"
  "sign_shape (wasm_sign_outcome out)"
proof -
  show "sign_shape (wasm_sign_failure e)" by (simp add: sign_shape_def getter_defs wasm_sign_failure_def)
  show invocation: "sign_shape (wasm_sign_invocation c)" for c
    by (simp add: shape_defs wasm_sign_invocation_def)
  show "sign_shape (wasm_sign_outcome out)"
    using invocation by (cases out) (simp_all add: shape_defs)
qed

lemma verify_shapes [simp]: "verify_shape (wasm_verify_failure e)" "verify_shape (wasm_verify_invocation c)"
  "verify_shape (wasm_verify_state ''malformed_attempted_signed'' None)"
proof -
  show "verify_shape (wasm_verify_failure e)" by (simp add: verify_shape_def getter_defs wasm_verify_failure_def)
  show "verify_shape (wasm_verify_invocation c)" by (simp add: shape_defs wasm_verify_invocation_def)
  show "verify_shape (wasm_verify_state ''malformed_attempted_signed'' None)"
    by (simp add: shape_defs wasm_verify_state_def)
qed

lemma verify_outcome_shape: "v \<noteq> Inr VS_Unsigned \<Longrightarrow> verify_shape (wasm_verify_outcome v)"
  by (cases v rule: wasm_verify_outcome.cases)
     (simp_all add: shape_defs wasm_verify_invocation_def wasm_verify_state_def)

lemma decompose_shapes [simp]: "decompose_shape (wasm_decompose_failure e)"
  "decompose_shape (wasm_decompose_invocation c)"
proof -
  show "decompose_shape (wasm_decompose_failure e)" by (simp add: decompose_shape_def getter_defs wasm_decompose_failure_def)
  show "decompose_shape (wasm_decompose_invocation c)"
    by (simp add: shape_defs wasm_decompose_invocation_def)
qed

lemma decompose_response_shape: "decompose_shape (wasm_decompose_response (decompose req))"
proof -
  have shape: "decompose_shape (wasm_decompose_response (structural out p c))"
    if "out = DC_Ok \<longrightarrow> p \<noteq> None \<and> c \<noteq> None" for out p c
    using that by (cases out) (simp_all add: structural_def shape_defs)
  have "decompose_shape (wasm_decompose_response (decompose_yaml a))" for a
    by (auto simp: decompose_yaml_def intro!: shape split: decomposition_outcome.splits)
  moreover have "decompose_shape (wasm_decompose_response (decompose_proto a oc))" for a oc
    by (auto simp: decompose_proto_def intro!: shape split: proto_outer_outcome.splits)
  moreover have "decompose_shape (wasm_decompose_response (DR_Invocation e))" for e by simp
  ultimately show ?thesis
    unfolding decompose_def by (cases "validate_decompose_invocation req"; cases "dr_form req") simp_all
qed

section \<open>Byte views\<close>

text \<open>
  The documented behaviour of the engine's \<open>TypedArray.prototype.set\<close>: the destination keeps
  its length.
\<close>

definition js_ok :: "('u, 'w, 'k, 'j, 'z) wasm_ext_scheme \<Rightarrow> bool" where
  "js_ok x \<longleftrightarrow> (\<forall>j n bs. js_set x j n = Some bs \<longrightarrow> length bs = n)"

lemma view_length: "byte_input_new x j = Inr v \<Longrightarrow> bi_length v \<le> 4294967295"
proof -
  have "f64_to_usize r \<le> 4294967295" if "f64_between 0 U32_MAX r" for r
    using that by (cases r) (simp_all add: U32_MAX_def nat_le_iff floor_le_iff)
  then show "byte_input_new x j = Inr v \<Longrightarrow> bi_length v \<le> 4294967295"
    by (auto simp: byte_input_new_def with_intrinsics_def result_simps bind_eq_Some_conv split: if_splits)
qed

lemma to_vec_length: "js_ok x \<Longrightarrow> byte_input_to_vec x v = Inr bs \<Longrightarrow> length bs = bi_length v"
  by (auto simp: byte_input_to_vec_def byte_input_copy_to_def with_intrinsics_def js_ok_def result_simps
      split: if_splits)

lemma secret_vec_eq: "byte_input_to_secret_vec x v = byte_input_to_vec x v"
  by (simp add: byte_input_to_secret_vec_def byte_input_to_vec_def)

section \<open>Every call returns a well-shaped result\<close>

lemma held_compose_total:
  assumes "buffa_ok x" and "js_ok x"
    and "byte_input_new x j = Inr v" and "byte_input_to_vec x v = Inr p"
    and "byte_input_new x j' = Inr v'" and "byte_input_to_vec x v' = Inr c"
  shows "\<exists>out. compose x \<lparr>cr_payload = p, cr_signature_carrier = c, cr_form = f\<rparr> = Done out"
proof -
  have "length p < 2 ^ 62" "length c < 2 ^ 62"
    using view_length [OF assms(3)] to_vec_length [OF assms(2,4)]
      view_length [OF assms(5)] to_vec_length [OF assms(2,6)] by simp_all
  then have "composed_size f p c < 2 ^ 64"
    using length_envelope_bytes_bound by (cases f) simp_all
  then show ?thesis using compose_total [OF assms(1)] by simp
qed

lemma compose_form_shape [simp]:
  "compose_shape \<lparr>wcr_status = ''invocation_error'', wcr_code = Some c, wcr_artifact = None\<rparr>"
  by (simp add: shape_defs)

lemma compose_request_shape: "compose_request_of x p c form limits = Inl r \<Longrightarrow> compose_shape r"
  by (simp only: compose_request_of_def result_simps) (elim disjE exE conjE; simp)

lemma decompose_request_shape: "decompose_request_of x a form outer limits = Inl r \<Longrightarrow> decompose_shape r"
  by (auto simp: decompose_request_of_def result_simps split: option.splits)

lemma signing_key_shape: "signing_key_of x a key_bytes = Inl r \<Longrightarrow> sign_shape r"
  by (auto simp: signing_key_of_def split: if_splits algorithm_id.splits option.splits)

lemma sign_inputs_shape: "sign_inputs x p alg key keyid form limits = Inl r \<Longrightarrow> sign_shape r"
  unfolding sign_inputs_def
  by (simp only: result_try_eq_Inl map_err_eq_Inl ok_or_eq_Inl if_distrib [of "\<lambda>m. m = Inl r"])
     (auto dest: signing_key_shape split: if_splits)

lemma verify_inputs_shape: "verify_inputs x a form alg key limits = Inl r \<Longrightarrow> verify_shape r"
  by (auto simp: verify_inputs_def result_simps split: if_splits)

lemma compose_request_held:
  "compose_request_of x payload carrier form limits = Inr req \<Longrightarrow>
     \<exists>v v'. byte_input_new x payload = Inr v \<and> byte_input_to_vec x v = Inr (cr_payload req) \<and>
            byte_input_new x carrier = Inr v' \<and> byte_input_to_vec x v' = Inr (cr_signature_carrier req)"
  by (auto simp: compose_request_of_def result_simps)

lemma compose_impl_total:
  assumes "buffa_ok x" and "js_ok x"
  shows "\<exists>r. compose_impl x payload carrier form limits = Done r \<and> compose_shape r"
proof (cases "compose_request_of x payload carrier form limits")
  case (Inr req)
  obtain p c f where req: "req = \<lparr>cr_payload = p, cr_signature_carrier = c, cr_form = f\<rparr>" by (cases req)
  show ?thesis
  proof (cases limits)
    case None
    then have "compose_impl x payload carrier form limits = exec_map wasm_compose_outcome (compose x req)"
      using Inr by (simp add: compose_impl_def)
    moreover obtain v v' where "byte_input_new x payload = Inr v" "byte_input_to_vec x v = Inr p"
      "byte_input_new x carrier = Inr v'" "byte_input_to_vec x v' = Inr c"
      using compose_request_held [OF Inr] req by auto
    ultimately show ?thesis using held_compose_total [OF assms, of payload v p carrier v' c f] req by auto
  next
    case (Some l)
    then have "compose_impl x payload carrier form limits = exec_map (\<lambda>r. case flatten_encoding r of
        Inl e \<Rightarrow> wasm_compose_failure e | Inr outcome \<Rightarrow> wasm_compose_outcome outcome)
        (compose_with_resource_limits x req (wl_inner l))"
      using Inr by (simp add: compose_impl_def)
    then show ?thesis
      using compose_with_resource_limits_total [OF assms(1), of req "wl_inner l"] by (auto split: sum.splits)
  qed
qed (simp add: compose_impl_def compose_request_shape)

lemma decompose_impl_shape: "decompose_shape (decompose_impl x artifact form outer limits)"
  using decompose_request_shape [of x artifact form outer limits] decompose_response_shape
  by (auto simp: decompose_impl_def decompose_with_resource_limits_def result_simps
      split: sum.splits option.splits)

lemma sign_with_key_shape:
  assumes "sign_with_key x rng p a key keyid nl form limits s = Done (r, s')"
  shows "sign_shape r"
proof -
  have "sign_shape (case flatten_encoding q of Inl e \<Rightarrow> wasm_sign_failure e | Inr out \<Rightarrow> wasm_sign_outcome out)" for q
    by (simp split: sum.splits)
  then show ?thesis
    using assms by (cases limits) (auto simp: sign_with_key_def Let_def exec_map_eq_Done)
qed

lemma sign_impl_shape:
  "sign_impl x rng payload alg key keyid nl form limits s = Done (r, s') \<Longrightarrow> sign_shape r"
  by (auto simp: sign_impl_def sign_with_key_shape sign_inputs_shape split: sum.splits)

text \<open>The verdict of the crate, as the boundary reports it; a policy can only refuse.\<close>

definition wasm_verdict ::
    "('u, 'w, 'k, 'j, 'z) wasm_ext_scheme \<Rightarrow> bytes \<Rightarrow> artifact_form \<Rightarrow> algorithm_id \<Rightarrow> ('k, 'k) public_keys
       \<Rightarrow> wasm_limits option \<Rightarrow> wasm_verify_result" where
  "wasm_verdict x a form alg keys limits =
     (case (case limits of
              Some l \<Rightarrow> check_input_size (wl_inner l) (verification_resource_form form) a
            | None \<Rightarrow> Inr a) of
        Inl e \<Rightarrow> wasm_verify_failure (failure_from_resource e)
      | Inr _ \<Rightarrow> wasm_verify_outcome (verdict_on x form a keys (selected_options alg)))"

lemma selected_no_parameters [simp]: "vo_algorithm_parameters (selected_options alg) = []"
  by (simp add: selected_options_def)

lemma verify_impl_eq:
  assumes "traits_ok x"
  shows "verify_impl x artifact form alg key limits cell =
    (case verify_inputs x artifact form alg key limits of
       Inl r \<Rightarrow> Done (r, cell)
     | Inr (a, f, sel, keys) \<Rightarrow>
         (let (rejects, cell') = (if feature_json_schema_validate x
                then schema_validation_rejects x a f cell else (False, cell)) in
          if rejects then Done (wasm_verify_state ''malformed_attempted_signed'' None, cell')
          else Done (wasm_verdict x a f sel keys limits, cell')))"
proof -
  have "(case limits of
          Some l \<Rightarrow> exec_map (\<lambda>r. case r of
              Inl e \<Rightarrow> wasm_verify_failure (failure_from_resource e)
            | Inr outcome \<Rightarrow> wasm_verify_outcome outcome)
            (verify_with_resource_limits x a f keys (selected_options sel) (wl_inner l))
        | None \<Rightarrow> exec_map wasm_verify_outcome (verify x a f keys (selected_options sel))) =
      Done (wasm_verdict x a f sel keys limits)" for a f sel keys
    by (auto simp: wasm_verdict_def verify_eq [OF assms] verify_with_resource_limits_def
        split: option.splits sum.splits)
  then show ?thesis
    by (auto simp: verify_impl_def Let_def case_prod_unfold split: sum.splits)
qed

lemma verdict_not_unsigned: "verdict_on x form a keys options \<noteq> Inr VS_Unsigned"
  by (auto simp: verdict_on_def judged_def Let_def split: sum.splits algorithm_id.splits option.splits if_splits)

lemma wasm_verdict_shape: "verify_shape (wasm_verdict x a f alg keys limits)"
  by (auto simp: wasm_verdict_def verify_outcome_shape verdict_not_unsigned split: sum.splits)

lemma verify_impl_total:
  assumes "traits_ok x"
  shows "\<exists>r cell'. verify_impl x artifact form alg key limits cell = Done (r, cell') \<and> verify_shape r"
  by (auto simp: verify_impl_eq [OF assms] Let_def wasm_verdict_shape verify_inputs_shape case_prod_unfold
      split: sum.splits)

section \<open>Admission comes before copying\<close>

lemma admitted_output_eq:
  assumes "max_artifact_bytes (wl_inner l) = Some m" and "m < sum_list ns" and "sum_list ns \<le> usize_max x"
  shows "with_admitted_output x l f ns copy = Inl (WF_Resource ''output_artifact_too_large'')"
proof -
  have fold: "fold (\<lambda>n t. Option.bind t (\<lambda>t. if t + n \<le> usize_max x then Some (t + n) else None)) ns (Some k) =
      Some (k + sum_list ns)" if "k + sum_list ns \<le> usize_max x" for k
    using that by (induction ns arbitrary: k) (simp_all add: add.assoc)
  show ?thesis
    using assms(1,2) fold [of 0] assms(3)
    by (simp add: with_admitted_output_def check_output_size_lower_bound_def failure_from_resource_def
        artifact_resource_error_new_def)
qed

lemma admitted_input_eq:
  assumes "max_artifact_bytes (wl_inner l) = Some m" and "m < n"
  shows "with_admitted_input l n f = Inl (WF_Resource ''input_artifact_too_large'')"
  using assms by (simp add: with_admitted_input_def)

text \<open>
  Admission before copying. Under a policy, an artifact whose view is longer than the
  ceiling is refused by decomposing and verifying before any selector or key is looked at, and
  components whose views are together longer than the ceiling are refused by composing and
  signing; no octet of them is copied, so the refusal is the same whatever copying would do.
\<close>

theorem wasm_refuses_before_copying:
  assumes "max_artifact_bytes (wl_inner l) = Some m" and "byte_input_new x j = Inr v" and "4294967295 \<le> usize_max x"
  shows "(m < bi_length v \<longrightarrow>
      wasm_decompose_with_limits (x\<lparr>js_set := copy\<rparr>) j form outer l =
        wasm_decompose_failure (WF_Resource ''input_artifact_too_large'') \<and>
      wasm_verify_with_limits (x\<lparr>js_set := copy\<rparr>) j form alg key l cell =
        Done (wasm_verify_failure (WF_Resource ''input_artifact_too_large''), cell)) \<and>
    (byte_input_new x c = Inr w \<and> wasm_transcription_form form \<noteq> None \<and> m < bi_length v + bi_length w \<and>
     bi_length v + bi_length w \<le> usize_max x \<longrightarrow>
      wasm_compose_with_limits (x\<lparr>js_set := copy\<rparr>) j c form l =
        Done (wasm_compose_failure (WF_Resource ''output_artifact_too_large''))) \<and>
    (byte_input_new x key = Inr w \<and> bi_length w = 32 \<and> wasm_algorithm alg \<noteq> None \<and>
     wasm_output_form form \<noteq> None \<and> (\<forall>k. keyid = Some k \<longrightarrow> k \<noteq> [] \<and> length k \<le> 1024) \<and> m < bi_length v \<longrightarrow>
      wasm_sign_with_limits (x\<lparr>js_set := copy\<rparr>) rng j alg key keyid nl form l s =
        Done (wasm_sign_failure (WF_Resource ''output_artifact_too_large''), s))"
proof -
  have sel: "js_intrinsics (x\<lparr>js_set := copy\<rparr>) = js_intrinsics x" "js_tag (x\<lparr>js_set := copy\<rparr>) = js_tag x"
    "js_as_string (x\<lparr>js_set := copy\<rparr>) = js_as_string x" "js_values (x\<lparr>js_set := copy\<rparr>) = js_values x"
    "js_length (x\<lparr>js_set := copy\<rparr>) = js_length x" "js_as_f64 (x\<lparr>js_set := copy\<rparr>) = js_as_f64 x"
    "js_buffer (x\<lparr>js_set := copy\<rparr>) = js_buffer x" "js_byte_offset (x\<lparr>js_set := copy\<rparr>) = js_byte_offset x"
    "js_construct (x\<lparr>js_set := copy\<rparr>) = js_construct x" "usize_max (x\<lparr>js_set := copy\<rparr>) = usize_max x"
    by simp_all
  have new: "byte_input_new (x\<lparr>js_set := copy\<rparr>) i = byte_input_new x i" for i
    by (simp only: byte_input_new_def with_intrinsics_def sel)
  have small: "bi_length v \<le> usize_max x" using view_length [OF assms(2)] assms(3) by simp
  show ?thesis
    using assms small
    by (auto simp: wasm_decompose_with_limits_def decompose_impl_def decompose_request_of_def new
        wasm_verify_with_limits_def verify_impl_def verify_inputs_def admitted_input_eq
        wasm_compose_with_limits_def compose_impl_def compose_request_of_def admitted_output_eq
        wasm_sign_with_limits_def sign_impl_def sign_inputs_def split: option.splits)
qed

section \<open>Signing and verifying through the boundary\<close>

definition holds_bytes :: "('u, 'w, 'k, 'j, 'z) wasm_ext_scheme \<Rightarrow> 'j \<Rightarrow> bytes \<Rightarrow> bool" where
  "holds_bytes x j bs \<longleftrightarrow> (\<exists>v. byte_input_new x j = Inr v \<and> byte_input_to_vec x v = Inr bs)"

lemma holds_bytes_unique: "holds_bytes x j bs \<Longrightarrow> holds_bytes x j bs' \<Longrightarrow> bs = bs'"
  by (auto simp: holds_bytes_def)

lemma sign_inputs_Inr:
  assumes "sign_inputs x payload alg key keyid form limits = Inr (a, f, p, k)"
  shows "wasm_algorithm alg = Some a" and "wasm_output_form form = Some f" and "holds_bytes x payload p"
    and "holds_bytes x key kb \<Longrightarrow> signing_key_of x a kb = Inr k"
  using assms unfolding sign_inputs_def
  by (auto simp: result_simps holds_bytes_def secret_vec_eq split: if_splits)

lemma not_success [simp]: "wsr_status (wasm_sign_failure e) \<noteq> ''success''"
  "wsr_status (wasm_sign_invocation c) \<noteq> ''success''"
  by (cases e) (simp_all add: wasm_sign_failure_def wasm_sign_invocation_def)

lemma signing_key_error: "signing_key_of x a key_bytes = Inl r \<Longrightarrow> wsr_status r \<noteq> ''success''"
  by (auto simp: signing_key_of_def split: if_splits algorithm_id.splits option.splits)

lemma sign_inputs_error: "sign_inputs x p alg key keyid form limits = Inl r \<Longrightarrow> wsr_status r \<noteq> ''success''"
  unfolding sign_inputs_def
  by (simp only: result_try_eq_Inl map_err_eq_Inl ok_or_eq_Inl if_distrib [of "\<lambda>m. m = Inl r"])
     (auto dest: signing_key_error split: if_splits)

lemma sign_outcome_success: "wsr_status (wasm_sign_outcome out) = ''success'' \<Longrightarrow> \<exists>ss. out = SO_Success ss"
  by (cases out) simp_all

lemma sign_with_key_success:
  assumes "signing_runtime x" and "crypto_ok x" and "length p < 2 ^ 62"
    and "req = \<lparr>sreq_payload = p, sreq_algorithm = a, sreq_key = k, sreq_keyid = keyid,
          sreq_append_missing_final_newline = nl, sreq_output_form = f, sreq_algorithm_parameters = []\<rparr>"
    and "sign_with_key x rng p a k keyid nl f limits s = Done (r, s')" and "wsr_status r = ''success''"
  shows "\<exists>ss. sign x rng req s = Done (SO_Success ss, s') \<and> r = wasm_sign_outcome (SO_Success ss)"
proof (cases limits)
  case None
  then show ?thesis
    using assms(5,6) sign_outcome_success unfolding assms(4)
    by (fastforce simp: sign_with_key_def Let_def exec_map_eq_Done)
next
  case (Some l)
  then obtain q where q: "sign_with_resource_limits x rng req (wl_inner l) s = Done (q, s')"
    and r: "r = (case flatten_encoding q of Inl e \<Rightarrow> wasm_sign_failure e | Inr out \<Rightarrow> wasm_sign_outcome out)"
    using assms(5) unfolding assms(4) by (auto simp: sign_with_key_def Let_def exec_map_eq_Done)
  from r assms(6) obtain out where "flatten_encoding q = Inr out" "r = wasm_sign_outcome out"
    by (auto split: sum.splits)
  with assms(6) sign_outcome_success [of out] obtain ss where
    "q = Inr (Inr (SO_Success ss))" and ss: "r = wasm_sign_outcome (SO_Success ss)"
    by (auto simp: flatten_encoding_def result_simps)
  with q have run: "sign_with_resource_limits x rng req (wl_inner l) s = Done (Inr (Inr (SO_Success ss)), s')" by simp
  have "length (sreq_payload req) < 2 ^ 62" using assms(3,4) by simp
  from sign_bounded_returns(1) [OF assms(1,2) this sign_bounded_validated [OF assms(1,2) run] run] ss
  show ?thesis by blast
qed

section \<open>Every call returns\<close>

text \<open>
  Signing with a P-256 key draws nonces until the primitive accepts one. A generator all of whose
  nonces are rejected is the only way a call does not return.
\<close>

definition never_accepted :: "('u, 'w, 'k, 'z) crypto_ext_scheme \<Rightarrow> ('s \<Rightarrow> 'k option \<times> 's) \<Rightarrow> 'k \<Rightarrow> bytes \<Rightarrow> 's \<Rightarrow> bool" where
  "never_accepted x rng k message s \<longleftrightarrow>
     (\<forall>n. \<exists>nonce. fst (rng (rng_state rng s n)) = Some nonce \<and> p256_sign_prehashed x k nonce (sha256 x message) = None)"

lemma never_accepted_iff: "never_accepted x rng k message s \<longleftrightarrow> (\<forall>n. retried x rng k (sha256 x message) (rng_state rng s n))"
proof -
  have "(\<exists>nonce. fst (rng t) = Some nonce \<and> p256_sign_prehashed x k nonce (sha256 x message) = None) \<longleftrightarrow>
      retried x rng k (sha256 x message) t" for t
    by (simp add: retried_def split: option.split)
  then show ?thesis by (simp add: never_accepted_def)
qed

lemma sign_digest_diverged:
  "sign_digest x rng message a key s = Diverged \<Longrightarrow>
     \<exists>k. a = EcdsaP256Sha256 \<and> key = SK_EcdsaP256Sha256 k \<and> never_accepted x rng k message s"
  unfolding never_accepted_iff
  using sign_p256_loop_correct [THEN conjunct1, of x rng _ "sha256 x message" s]
  by (cases a; cases key)
    (auto simp: sign_digest_def sign_p256_with_rng_def split: option.splits elim!: exec_of_option.elims)

lemma exec_map_Diverged [simp]: "exec_map f m = Diverged \<longleftrightarrow> m = Diverged"
  by (cases m) simp_all

lemma signed_with_ends:
  "signed_with x req (\<lambda>m. sign_digest x rng m a key) s \<noteq> Panicked"
  "signed_with x req (\<lambda>m. sign_digest x rng m a key) s = Diverged \<Longrightarrow> \<exists>m. sign_digest x rng m a key s = Diverged"
  "bounded_with x req l (\<lambda>m. sign_digest x rng m a key) s \<noteq> Panicked"
  "bounded_with x req l (\<lambda>m. sign_digest x rng m a key) s = Diverged \<Longrightarrow> \<exists>m. sign_digest x rng m a key s = Diverged"
  by (auto simp: signed_with_def bounded_with_def sign_digest_not_panicked split: sum.splits)

lemma sign_ends:
  assumes "signing_runtime x" and "crypto_ok x" and "length (sreq_payload req) < 2 ^ 62"
  shows "sign x rng req s \<noteq> Panicked"
    and "sign x rng req s = Diverged \<Longrightarrow> \<exists>m. sign_digest x rng m (sreq_algorithm req) (sreq_key req) s = Diverged"
    and "sign_with_resource_limits x rng req l s \<noteq> Panicked"
    and "sign_with_resource_limits x rng req l s = Diverged \<Longrightarrow>
      \<exists>m. sign_digest x rng m (sreq_algorithm req) (sreq_key req) s = Diverged"
  unfolding sign_eq [OF assms] sign_with_resource_limits_eq [OF assms(1,2)]
  by (auto simp: signed_with_ends dest: signed_with_ends(2,4) split: sum.splits)

lemma sign_with_key_ends:
  assumes "signing_runtime x" and "crypto_ok x" and "length p < 2 ^ 62"
  shows "sign_with_key x rng p a key keyid nl f limits s \<noteq> Panicked"
    and "sign_with_key x rng p a key keyid nl f limits s = Diverged \<Longrightarrow>
      \<exists>k m. a = EcdsaP256Sha256 \<and> key = SK_EcdsaP256Sha256 k \<and> never_accepted x rng k m s"
proof -
  let ?req = "\<lparr>sreq_payload = p, sreq_algorithm = a, sreq_key = key, sreq_keyid = keyid,
    sreq_append_missing_final_newline = nl, sreq_output_form = f, sreq_algorithm_parameters = []\<rparr>"
  have len: "length (sreq_payload ?req) < 2 ^ 62" using assms(3) by simp
  note ends = sign_ends [OF assms(1,2) len]
  show "sign_with_key x rng p a key keyid nl f limits s \<noteq> Panicked"
    by (simp add: sign_with_key_def Let_def ends(1,3) split: option.split)
  show "\<exists>k m. a = EcdsaP256Sha256 \<and> key = SK_EcdsaP256Sha256 k \<and> never_accepted x rng k m s"
    if "sign_with_key x rng p a key keyid nl f limits s = Diverged"
  proof -
    have "\<exists>m. sign_digest x rng m a key s = Diverged"
      using that by (auto simp: sign_with_key_def Let_def dest: ends(2,4) [simplified] split: option.splits)
    then show ?thesis using sign_digest_diverged [of x rng _ a key s] by blast
  qed
qed

text \<open>How a signing call ends: with a result of its shape, or in a search for a nonce that has no end.\<close>

fun sign_ends_well ::
    "('u, 'w, 'k, 'j, 'z) wasm_ext_scheme \<Rightarrow> ('s \<Rightarrow> 'k option \<times> 's) \<Rightarrow> str \<Rightarrow> 'j \<Rightarrow> 's
       \<Rightarrow> (wasm_sign_result \<times> 's) exec \<Rightarrow> bool" where
  "sign_ends_well x rng alg key s (Done (r, s')) \<longleftrightarrow> sign_shape r"
| "sign_ends_well x rng alg key s Panicked \<longleftrightarrow> False"
| "sign_ends_well x rng alg key s Diverged \<longleftrightarrow>
     wasm_algorithm alg = Some EcdsaP256Sha256 \<and>
     (\<exists>secret k message. holds_bytes x key secret \<and> p256_sk_from_slice x secret = Some k \<and>
        never_accepted x rng k message s)"

lemma sign_inputs_key: "sign_inputs x payload alg key keyid form limits = Inr (a, f, p, k) \<Longrightarrow>
    \<exists>secret. holds_bytes x key secret \<and> signing_key_of x a secret = Inr k"
  unfolding sign_inputs_def by (auto simp: result_simps holds_bytes_def secret_vec_eq split: if_splits)

lemma sign_impl_ends:
  assumes "signing_runtime x" and "crypto_ok x" and "js_ok x"
  shows "sign_ends_well x rng alg key s (sign_impl x rng payload alg key keyid nl form limits s)"
proof (cases "sign_inputs x payload alg key keyid form limits")
  case (Inl r)
  then show ?thesis by (simp add: sign_impl_def sign_inputs_shape)
next
  case (Inr i)
  obtain a f p k where i: "sign_inputs x payload alg key keyid form limits = Inr (a, f, p, k)"
    using Inr by (cases i) auto
  note inputs = sign_inputs_Inr [OF i]
  have len: "length p < 2 ^ 62"
    using inputs(3) view_length to_vec_length [OF assms(3)] by (force simp: holds_bytes_def)
  obtain secret where secret: "holds_bytes x key secret" "signing_key_of x a secret = Inr k"
    using sign_inputs_key [OF i] by blast
  have run: "sign_impl x rng payload alg key keyid nl form limits s = sign_with_key x rng p a k keyid nl f limits s"
    by (simp add: sign_impl_def i)
  note ends = sign_with_key_ends [OF assms(1,2) len, where a = a and key = k and keyid = keyid and nl = nl and f = f
      and limits = limits and s = s and rng = rng]
  show ?thesis
  proof (cases "sign_with_key x rng p a k keyid nl f limits s")
    case Diverged
    then obtain k' m where "a = EcdsaP256Sha256" "k = SK_EcdsaP256Sha256 k'" "never_accepted x rng k' m s"
      using ends(2) by blast
    moreover from this have "p256_sk_from_slice x secret = Some k'"
      using secret(2) by (auto simp: signing_key_of_def split: if_splits option.splits)
    ultimately show ?thesis using run Diverged inputs(1) secret(1) by auto
  next
    case (Done rs)
    then show ?thesis using run sign_with_key_shape by (cases rs) auto
  qed (use ends(1) in simp)
qed

text \<open>
  The sizes the crates compute, with 64 bits here, stay below the 32 bits of wasm32 where the octets
  do: those of composing, and the least and the exact size of an artifact to be signed.
\<close>

lemma sizes_fit_32:
  assumes "length p < 2 ^ 30" and "length c < 2 ^ 30"
  shows "composed_size form p c < 2 ^ 32"
    and "signing_runtime x \<Longrightarrow> sreq_payload req = p \<Longrightarrow> keyid_bounded (sreq_keyid req) \<Longrightarrow>
      yaml_minimum x req < 2 ^ 32 \<and> proto_signing_octets req < 2 ^ 32"
proof -
  have octets: "field_octets n \<le> n + 11" if "n < 2 ^ 64" for n
    using that length_varint_bytes [of n 10] by (simp add: field_octets_def)
  show "composed_size form p c < 2 ^ 32"
    using assms octets [of "length p"] octets [of "length c"]
    by (cases form) (simp_all add: length_envelope_bytes field_octets_def)
  assume x: "signing_runtime x" and req: "sreq_payload req = p" "keyid_bounded (sreq_keyid req)"
  define yk where "yk = (case sreq_keyid req of Some k \<Rightarrow> 7 + (length k + 2) + 1 | None \<Rightarrow> 0)"
  define pk where "pk = (case sreq_keyid req of Some k \<Rightarrow> field_octets (length k) | None \<Rightarrow> 0)"
  have "length (as_yaml_str x (sreq_algorithm req)) \<le> 100" "length SCHEMA_V1ALPHA1 \<le> 100"
    using x by (cases "sreq_algorithm req"; simp add: signing_runtime_def traits_ok_def ed25519_name_def p256_name_def)
      (simp add: SCHEMA_V1ALPHA1_def)
  moreover have "yk \<le> 2000" "pk \<le> 2000"
    using req(2) octets [of "length (the (sreq_keyid req))"]
    by (auto simp: yk_def pk_def keyid_bounded_def split: option.splits)
  moreover have "yaml_minimum x req \<le> length p + length SCHEMA_V1ALPHA1 + length (as_yaml_str x (sreq_algorithm req)) + yk + 200"
    by (simp add: yaml_minimum_def req(1) yk_def)
  moreover have "field_octets 64 \<le> 75" "field_octets (length p) \<le> length p + 11"
    "field_octets (2 + pk + field_octets 64) \<le> 2 + pk + field_octets 64 + 11"
    using octets [of 64] octets [of "length p"] octets [of "2 + pk + field_octets 64"] assms(1) \<open>pk \<le> 2000\<close> by simp_all
  moreover have "proto_signing_octets req = field_octets (length p) + field_octets (2 + pk + field_octets 64)"
    by (simp add: proto_signing_octets_def req(1) pk_def)
  ultimately show "yaml_minimum x req < 2 ^ 32 \<and> proto_signing_octets req < 2 ^ 32"
    using assms(1) by simp
qed

text \<open>
  The two keys held by the caller: the secret octets give a signing key, and the public octets
  the verifying key of its pair.
\<close>

definition wasm_key_pair :: "('u, 'w, 'k, 'j, 'z) wasm_ext_scheme \<Rightarrow> str \<Rightarrow> bytes \<Rightarrow> bytes \<Rightarrow> bool" where
  "wasm_key_pair x alg secret public \<longleftrightarrow>
     (\<exists>a key keys. wasm_algorithm alg = Some a \<and> signing_key_of x a secret = Inr key \<and>
        resolved_keys x a public = Inr keys \<and> key_pair x key keys)"

lemma resolved_length:
  "resolved_keys x a bs = Inr keys \<Longrightarrow> length bs = (case a of Ed25519 \<Rightarrow> 32 | EcdsaP256Sha256 \<Rightarrow> 65)"
  by (cases a) (auto simp: resolved_keys_def resolve_ed25519_verifying_key_def resolve_p256_verifying_key_def
      try_array_def result_simps split: if_splits)

lemma selected_enables [simp]: "enables (selected_options a) a"
  by (cases a) (simp_all add: selected_options_def)

lemma form_selectors: "wasm_output_form form = Some f \<Longrightarrow> wasm_artifact_form form = Some (verification_form f)"
  by (auto simp: wasm_output_form_def wasm_artifact_form_def split: if_splits)

lemma algorithm_name_wasm: "wasm_algorithm alg = Some a \<Longrightarrow> algorithm_name a = alg"
  by (auto simp: wasm_algorithm_def split: if_splits)

definition wasm_admits :: "wasm_limits option \<Rightarrow> nat \<Rightarrow> bool" where
  "wasm_admits limits n \<longleftrightarrow> (case limits of Some l \<Rightarrow> admits (wl_inner l) n | None \<Rightarrow> True)"

lemma verify_inputs_held:
  assumes "js_ok x" and "holds_bytes x artifact bs" and "wasm_admits limits (length bs)"
    and "wasm_artifact_form form = Some f" and "wasm_algorithm alg = Some a"
    and "holds_bytes x key vb" and "resolved_keys x a vb = Inr keys"
  shows "verify_inputs x artifact form alg key limits = Inr (bs, f, a, keys)"
proof -
  obtain v w where v: "byte_input_new x artifact = Inr v" "byte_input_to_vec x v = Inr bs"
    and w: "byte_input_new x key = Inr w" "byte_input_to_vec x w = Inr vb"
    using assms(2,6) by (auto simp: holds_bytes_def)
  have l: "bi_length v = length bs" "bi_length w = (case a of Ed25519 \<Rightarrow> 32 | EcdsaP256Sha256 \<Rightarrow> 65)"
    using to_vec_length [OF assms(1) v(2)] to_vec_length [OF assms(1) w(2)] resolved_length [OF assms(7)] by simp_all
  have adm: "(case limits of Some l \<Rightarrow> with_admitted_input l (bi_length v) (\<lambda>_. ()) | None \<Rightarrow> Inr ()) = Inr ()"
    using assms(3) unfolding l by (auto simp: wasm_admits_def admits_def with_admitted_input_def split: option.splits)
  show ?thesis
    unfolding verify_inputs_def v(1) w(1) assms(4,5) by (simp add: v w assms(7) adm l(2))
qed

lemma wasm_verdict_admitted:
  "wasm_admits limits (length a) \<Longrightarrow>
     wasm_verdict x a f alg keys limits = wasm_verify_outcome (verdict_on x f a keys (selected_options alg))"
  by (auto simp: wasm_verdict_def wasm_admits_def check_defs split: option.splits)

text \<open>
  C40: every call returns, and what it returns is well shaped. Composing, decomposing and verifying
  return for every input and never panic. Signing never panics, and returns unless it was asked for
  P-256 with a valid key and every nonce the generator ever yields is one the primitive rejects. A
  result of any call has a status of its kind, a code exactly on an error, and bytes exactly when
  its status carries them; no verification reports an unsigned artifact. The sums of the boundary
  are those of any target, the crates below have sizes of 64 bits, and memory is given whenever it
  is asked for: running out of it is not in the model.
\<close>

theorem wasm_results_are_well_shaped:
  assumes "signing_runtime x" and "crypto_ok x" and "js_ok x"
  shows "(\<exists>r. compose_impl x payload carrier form limits = Done r \<and> compose_shape r) \<and>
    decompose_shape (decompose_impl x artifact form outer limits) \<and>
    sign_ends_well x rng alg key s (sign_impl x rng payload alg key keyid nl form limits s) \<and>
    (\<exists>r cell'. verify_impl x artifact form alg key limits cell = Done (r, cell') \<and> verify_shape r)"
proof -
  have "buffa_ok x" "traits_ok x" using assms(1) by (simp_all add: signing_runtime_def)
  then show ?thesis
    using compose_impl_total [OF _ assms(3), of payload carrier form limits]
      decompose_impl_shape [of x artifact form outer limits]
      sign_impl_ends [OF assms, of rng alg key s payload keyid nl form limits]
      verify_impl_total [of x artifact form alg key limits cell] by blast
qed

text \<open>
  C14: signing, then verifying, across the boundary. What a successful signing call returns,
  with or without a policy, the verifying call reports as verified: given a view of the
  returned artifact, the key of the pair and the same selectors, its result is verified with
  the name of the algorithm and the final payload, which is the modified payload the signing
  call reported and otherwise the payload it was given. A policy of the verifying call must
  admit the artifact, and the schema check, where it is compiled in, accept its carrier.
\<close>

theorem wasm_sign_then_verify:
  assumes "reading_runtime x" and "crypto_ok x" and "js_ok x"
    and "\<And>k. keyid = Some k \<Longrightarrow> utf8_valid k"
    and "holds_bytes x payload p" and "holds_bytes x key secret" and "wasm_key_pair x alg secret public"
    and "sign_impl x rng payload alg key keyid nl form limits s = Done (r, s')" and "wsr_status r = ''success''"
    and "wsr_artifact r = Some a" and "holds_bytes x artifact a" and "holds_bytes x vkey public"
    and "wasm_admits vlimits (length a)"
    and "\<And>f. feature_json_schema_validate x \<Longrightarrow> \<not> fst (schema_validation_rejects x a f cell)"
  shows "\<exists>cell'. verify_impl x artifact form alg vkey vlimits cell =
    Done (\<lparr>wvr_status = ''verified'', wvr_code = None,
           wvr_payload = Some (case wsr_modified_payload r of Some m \<Rightarrow> m | None \<Rightarrow> p),
           wvr_algorithm = Some alg\<rparr>, cell')"
proof -
  have runtime: "signing_runtime x" and traits: "traits_ok x"
    using assms(1) by (simp_all add: reading_runtime_def signing_runtime_def)
  obtain al sk keys where al: "wasm_algorithm alg = Some al" and sk: "signing_key_of x al secret = Inr sk"
    and keys: "resolved_keys x al public = Inr keys" "key_pair x sk keys"
    using assms(7) by (auto simp: wasm_key_pair_def)
  obtain a' f p' k where i: "sign_inputs x payload alg key keyid form limits = Inr (a', f, p', k)"
    using sign_inputs_error [of x payload alg key keyid form limits r] assms(8,9)
    by (cases "sign_inputs x payload alg key keyid form limits") (auto simp: sign_impl_def)
  note inputs = sign_inputs_Inr [OF i]
  have eq: "a' = al" "p' = p" "k = sk"
    using inputs(1) inputs(4) [OF assms(6)] al sk holds_bytes_unique [OF inputs(3) assms(5)] by simp_all
  have len: "length p < 2 ^ 62"
    using assms(5) view_length to_vec_length [OF assms(3)] by (force simp: holds_bytes_def)
  let ?req = "\<lparr>sreq_payload = p, sreq_algorithm = al, sreq_key = sk, sreq_keyid = keyid,
      sreq_append_missing_final_newline = nl, sreq_output_form = f, sreq_algorithm_parameters = []\<rparr>"
  have "sign_with_key x rng p al sk keyid nl f limits s = Done (r, s')"
    using assms(8) i eq by (simp add: sign_impl_def)
  from sign_with_key_success [OF runtime assms(2) len refl this assms(9)]
  obtain ss where ss: "sign x rng ?req s = Done (SO_Success ss, s')" "r = wasm_sign_outcome (SO_Success ss)"
    by blast
  have wf: "request_wf ?req" using assms(4) by (simp add: request_wf_def split: option.splits)
  from in_process_verifies [OF assms(1,2) wf _ _ _ _ ss(1), of keys "selected_options al"] len keys(2)
  obtain prepared where prepared: "prepare_signing_payload ?req = Inr prepared"
    "ss_modified_payload ss = psp_modified_payload prepared"
    and v: "verify x (ss_artifact ss) (verification_form f) keys (selected_options al) =
      Done (Inr (VS_Verified (psp_payload prepared) al))"
    by auto
  have "a = ss_artifact ss" using assms(10) ss(2) by simp
  then have verdict: "wasm_verdict x a (verification_form f) al keys vlimits =
      wasm_verify_outcome (Inr (VS_Verified (psp_payload prepared) al))"
    using v assms(13) by (simp add: wasm_verdict_admitted verify_eq [OF traits])
  have "psp_payload prepared = (case wsr_modified_payload r of Some m \<Rightarrow> m | None \<Rightarrow> p)"
    using prepared ss(2) by (auto simp: prepare_signing_payload_eq Let_def split: output_form.splits if_splits)
  moreover note verify_inputs_held [OF assms(3,11,13) form_selectors [OF inputs(2)] al assms(12) keys(1)]
  ultimately show ?thesis
    using verdict algorithm_name_wasm [OF al] assms(14) [of "verification_form f"]
    by (auto simp: verify_impl_eq [OF traits] Let_def case_prod_unfold)
qed

end
