(* ===== verification/Sample_Wasm.thy ===== *)
theory Sample_Wasm
  imports Sample_Verification Wasm_Facts
begin

text \<open>
  A toy JavaScript engine with byte arrays, strings and numbers over the toy curve, and the
  witnesses of the boundary's properties.
\<close>

datatype sample_js = JS_Bytes bytes | JS_Str str | JS_Num rat

definition sample_wasm :: "(put list, put list, u8, sample_js) wasm_ext" where
  "sample_wasm = sample_crypto
     \<lparr>js_intrinsics = True,
      js_tag = (\<lambda>j. case j of JS_Bytes bs \<Rightarrow> Some (JS_Str (ascii ''Uint8Array'')) | _ \<Rightarrow> None),
      js_as_string = (\<lambda>j. case j of JS_Str v \<Rightarrow> Some v | _ \<Rightarrow> None),
      js_values = Some,
      js_length = (\<lambda>j. case j of JS_Bytes bs \<Rightarrow> Some (JS_Num (of_nat (length bs))) | _ \<Rightarrow> None),
      js_as_f64 = (\<lambda>j. case j of JS_Num r \<Rightarrow> Some (Finite r) | _ \<Rightarrow> None),
      js_buffer = Some,
      js_byte_offset = (\<lambda>j. Some (JS_Num 0)),
      js_construct = (\<lambda>js. case js of [] \<Rightarrow> None | buffer # rest \<Rightarrow> Some buffer),
      js_set = (\<lambda>j n. case j of JS_Bytes bs \<Rightarrow> if length bs = n then Some bs else None | _ \<Rightarrow> None),
      ed_sk_from_bytes = hd,
      p256_sk_from_slice = toy_decode,
      usize_max = 4294967295,
      feature_json_schema_validate = False\<rparr>"

lemma sample_wasm_simps [simp]:
  "js_intrinsics sample_wasm" "js_tag sample_wasm (JS_Bytes bs) = Some (JS_Str (ascii ''Uint8Array''))"
  "js_tag sample_wasm (JS_Num r) = None"
  "js_as_string sample_wasm (JS_Str v) = Some v" "js_values sample_wasm = Some"
  "js_length sample_wasm (JS_Bytes bs) = Some (JS_Num (of_nat (length bs)))"
  "js_as_f64 sample_wasm (JS_Num r) = Some (Finite r)" "js_buffer sample_wasm = Some"
  "js_byte_offset sample_wasm j = Some (JS_Num 0)" "js_construct sample_wasm (j # js) = Some j"
  "js_set sample_wasm (JS_Bytes bs) (length bs) = Some bs" "ed_sk_from_bytes sample_wasm = hd"
  "\<not> feature_json_schema_validate sample_wasm" "usize_max sample_wasm = 4294967295"
  by (simp_all add: sample_wasm_def sample_crypto_def sample_yaml_def sample_buffa_def buffa_ext.defs)

lemma sample_wasm_runtime [simp]: "traits_ok sample_wasm" "buffa_ok sample_wasm" "signing_runtime sample_wasm"
  "reading_runtime sample_wasm" "crypto_ok sample_wasm"
  by (simp_all add: sample_wasm_def)

lemma sample_wasm_ed_sign [simp]: "ed_sign sample_wasm = toy_ed_sign"
  by (simp add: sample_wasm_def)

lemma sample_wasm_verifies: "verify_ed25519 sample_wasm 5 m (toy_ed_sign 5 m) = Inr ()"
  unfolding sample_wasm_def by (rule toy_ed_verifies) simp

lemma sample_wasm_js_ok [simp]: "js_ok sample_wasm"
  by (auto simp: js_ok_def sample_wasm_def sample_crypto_def sample_yaml_def sample_buffa_def buffa_ext.defs
      split: sample_js.splits if_splits)

lemma sample_view [simp]:
  "length bs \<le> 4294967295 \<Longrightarrow>
     byte_input_new sample_wasm (JS_Bytes bs) = Inr \<lparr>bi_view = JS_Bytes bs, bi_length = length bs\<rparr>"
  by (simp add: byte_input_new_def with_intrinsics_def U32_MAX_def)

lemma sample_view_bytes [simp]:
  "byte_input_to_vec sample_wasm \<lparr>bi_view = JS_Bytes bs, bi_length = length bs\<rparr> = Inr bs"
  by (simp add: byte_input_to_vec_def byte_input_copy_to_def with_intrinsics_def)

lemma sample_holds: "length bs \<le> 4294967295 \<Longrightarrow> holds_bytes sample_wasm (JS_Bytes bs) bs"
  by (simp add: holds_bytes_def)

section \<open>A signing call\<close>

definition sample_wasm_artifact :: bytes where
  "sample_wasm_artifact = signed_artifact sample_wasm sample_proto_request
     \<lparr>psp_payload = [0x61], psp_modified_payload = []\<rparr> (toy_ed_sign 5 [0x61])"

definition sample_wasm_signed :: wasm_sign_result where
  "sample_wasm_signed = \<lparr>wsr_status = ''success'', wsr_code = None, wsr_artifact = Some sample_wasm_artifact,
     wsr_modified_payload = None\<rparr>"

lemma sample_wasm_artifact_length [simp]: "length sample_wasm_artifact = 76"
proof -
  have "toy_ed_sign 5 [0x61] \<noteq> []" using length_toy(3) [of 5 "[0x61]"] by force
  then show ?thesis
    by (simp add: sample_wasm_artifact_def sample_proto_request_def length_envelope_bytes length_proto_carrier
        field_octets_def varint_bytes.simps)
qed

definition sample_form :: str where
  "sample_form = ascii ''protobuf''"

lemma sample_selectors [simp]:
  "wasm_algorithm ED25519_NAME = Some Ed25519" "wasm_output_form sample_form = Some OF_Protobuf"
  "wasm_transcription_form sample_form = Some TF_Protobuf"
  by (simp_all add: sample_form_def wasm_algorithm_def wasm_output_form_def wasm_transcription_form_def)

lemma sample_wasm_sign:
  "sign sample_wasm sample_rng sample_proto_request [] =
     Done (SO_Success \<lparr>ss_artifact = sample_wasm_artifact, ss_modified_payload = []\<rparr>, [])"
  using sign_eq [OF sample_wasm_runtime(3,5), of sample_proto_request sample_rng "[]"]
  by (simp add: signed_with_def sign_digest_def signed_success_def sample_wasm_artifact_def)
     (simp add: sample_proto_request_def signed_success_def)

lemma sample_wasm_sign_run:
  "sign_impl sample_wasm sample_rng (JS_Bytes [0x61]) ED25519_NAME (JS_Bytes (toy_encode 5)) (Some [0x6B]) False
     sample_form None [] = Done (sample_wasm_signed, [])"
proof -
  have "signing_key_of sample_wasm Ed25519 (toy_encode 5) = Inr (SK_Ed25519 5)"
    by (simp add: signing_key_of_def try_array_def toy_encode_def)
  moreover have "byte_input_to_vec sample_wasm \<lparr>bi_view = JS_Bytes [0x61], bi_length = 1\<rparr> = Inr [0x61]"
    using sample_view_bytes [of "[0x61]"] by simp
  moreover have "byte_input_to_vec sample_wasm \<lparr>bi_view = JS_Bytes (toy_encode 5), bi_length = 32\<rparr> = Inr (toy_encode 5)"
    using sample_view_bytes [of "toy_encode 5"] by simp
  ultimately have "sign_inputs sample_wasm (JS_Bytes [0x61]) ED25519_NAME (JS_Bytes (toy_encode 5)) (Some [0x6B])
      sample_form None = Inr (Ed25519, OF_Protobuf, [0x61], SK_Ed25519 5)"
    by (simp add: sign_inputs_def secret_vec_eq)
  then show ?thesis
    using sample_wasm_sign
    by (simp add: sign_impl_def sign_with_key_def sample_proto_request_def sample_wasm_signed_def)
qed

section \<open>Witnesses\<close>

theorem wasm_policies_are_well_formed_witness:
  "wasm_max_artifact_bytes \<lparr>wl_inner = with_max_artifact_bytes unbounded 7\<rparr> = Some (Finite 7)"
proof -
  have "wasm_with_max_artifact_bytes sample_wasm wasm_limits_unbounded (JS_Num 7) =
      Inr \<lparr>wl_inner = with_max_artifact_bytes unbounded 7\<rparr>"
    using valid_maximum_iff [of "Finite 7" 7]
    by (simp add: wasm_with_max_artifact_bytes_def wasm_limits_unbounded_def)
  with wasm_policies_are_well_formed [of wasm_limits_unbounded sample_wasm "JS_Num 7"
      "\<lparr>wl_inner = with_max_artifact_bytes unbounded 7\<rparr>"]
  show ?thesis by simp
qed

theorem wasm_results_are_well_shaped_witness:
  "sign_shape sample_wasm_signed \<and> decompose_shape (decompose_impl sample_wasm (JS_Num 1) [] None None) \<and>
   (\<exists>r. compose_impl sample_wasm (JS_Bytes []) (JS_Num 1) [] None = Done r \<and> compose_shape r) \<and>
   (\<exists>r cell'. verify_impl sample_wasm (JS_Num 1) [] ED25519_NAME (JS_Bytes (toy_encode 5)) None None =
      Done (r, cell') \<and> verify_shape r)"
  using wasm_results_are_well_shaped [OF sample_wasm_runtime(3,5) sample_wasm_js_ok,
      of "JS_Bytes []" "JS_Num 1" "[]" None "JS_Num 1" None sample_rng ED25519_NAME "JS_Bytes (toy_encode 5)" "[]"
        "Some [0x6B]" False]
    wasm_results_are_well_shaped [OF sample_wasm_runtime(3,5) sample_wasm_js_ok,
      of "JS_Bytes [0x61]" "JS_Num 1" sample_form None "JS_Num 1" None sample_rng ED25519_NAME "JS_Bytes (toy_encode 5)"
        "[]" "Some [0x6B]" False]
    sample_wasm_sign_run
  by simp

theorem wasm_refuses_before_copying_witness:
  "wasm_verify_with_limits (sample_wasm\<lparr>js_set := (\<lambda>j n. None)\<rparr>) (JS_Bytes [1, 2]) [] [] (JS_Num 1)
     \<lparr>wl_inner = with_max_artifact_bytes unbounded 1\<rparr> None =
   Done (wasm_verify_failure (WF_Resource ''input_artifact_too_large''), None) \<and>
   wasm_sign_with_limits (sample_wasm\<lparr>js_set := (\<lambda>j n. None)\<rparr>) sample_rng (JS_Bytes [1, 2]) ED25519_NAME
     (JS_Bytes (toy_encode 5)) None False sample_form \<lparr>wl_inner = with_max_artifact_bytes unbounded 1\<rparr> [] =
   Done (wasm_sign_failure (WF_Resource ''output_artifact_too_large''), [])"
proof -
  have l: "max_artifact_bytes (wl_inner \<lparr>wl_inner = with_max_artifact_bytes unbounded 1\<rparr>) = Some 1"
    by (simp add: with_max_artifact_bytes_def unbounded_def)
  have wide: "4294967295 \<le> usize_max sample_wasm" by simp
  have v: "byte_input_new sample_wasm (JS_Bytes [1, 2]) = Inr \<lparr>bi_view = JS_Bytes [1, 2], bi_length = 2\<rparr>"
    using sample_view [of "[1, 2]"] by simp
  have k: "byte_input_new sample_wasm (JS_Bytes (toy_encode 5)) =
      Inr \<lparr>bi_view = JS_Bytes (toy_encode 5), bi_length = 32\<rparr>"
    using sample_view [of "toy_encode 5"] by simp
  show ?thesis
    using wasm_refuses_before_copying [OF l v wide, of "\<lambda>j n. None", THEN conjunct1]
      wasm_refuses_before_copying [OF l v wide, of "\<lambda>j n. None", THEN conjunct2, THEN conjunct2,
        of "JS_Bytes (toy_encode 5)" "\<lparr>bi_view = JS_Bytes (toy_encode 5), bi_length = 32\<rparr>" ED25519_NAME
        sample_form None] k
    by simp
qed

theorem wasm_sign_then_verify_witness:
  "\<exists>cell'. verify_impl sample_wasm (JS_Bytes sample_wasm_artifact) sample_form ED25519_NAME
      (JS_Bytes (toy_encode 5)) None None =
    Done (\<lparr>wvr_status = ''verified'', wvr_code = None, wvr_payload = Some [0x61],
           wvr_algorithm = Some ED25519_NAME\<rparr>, cell')"
proof -
  have sk: "signing_key_of sample_wasm Ed25519 (toy_encode 5) = Inr (SK_Ed25519 5)"
    by (simp add: signing_key_of_def try_array_def toy_encode_def)
  have vk: "resolved_keys sample_wasm Ed25519 (toy_encode 5) = Inr \<lparr>pk_ed25519 = Some 5, pk_p256 = None\<rparr>"
    by (simp add: resolved_keys_def resolve_ed25519_verifying_key_def decode_canonical_edwards_point_def
        try_array_def sample_wasm_def)
  have "key_pair sample_wasm (SK_Ed25519 5) \<lparr>pk_ed25519 = Some 5, pk_p256 = None\<rparr>"
    by (simp add: key_pair_def sample_wasm_verifies)
  then have pair: "wasm_key_pair sample_wasm ED25519_NAME (toy_encode 5) (toy_encode 5)"
    using sk vk by (simp add: wasm_key_pair_def)
  have h: "holds_bytes sample_wasm (JS_Bytes [0x61]) [0x61]"
    "holds_bytes sample_wasm (JS_Bytes (toy_encode 5)) (toy_encode 5)"
    "holds_bytes sample_wasm (JS_Bytes sample_wasm_artifact) sample_wasm_artifact"
    by (simp_all add: sample_holds)
  have keyid: "utf8_valid k" if "Some [0x6B] = Some k" for k
    using that by (auto simp: utf8_valid_ascii_Cons)
  have r: "wsr_status sample_wasm_signed = ''success''" "wsr_artifact sample_wasm_signed = Some sample_wasm_artifact"
    "wsr_modified_payload sample_wasm_signed = None" "wasm_admits None (length sample_wasm_artifact)"
    by (simp_all add: sample_wasm_signed_def wasm_admits_def)
  show ?thesis
    using wasm_sign_then_verify [OF sample_wasm_runtime(4,5) sample_wasm_js_ok keyid h(1,2) pair
        sample_wasm_sign_run r(1,2) h(3,2) r(4), of None] r(3) by simp
qed

end
