(* ===== verification/Release_Policy.thy ===== *)
theory Release_Policy
  imports Prelude "HOL-Library.Product_Lexorder"
begin

text \<open>
  The release policy of \<open>xtask/src/release_policy.rs\<close> and the base selection of
  \<open>release_base.rs\<close>: the packages of a release with their tags, the two families a version
  selects, and the release lines with the versions each may publish next. In this layer of the
  program a \<open>String\<close> is a list of octets written as characters. The \<open>semver\<close> crate and the local
  Git repository are parameters.
\<close>

section \<open>Strings\<close>

fun strip_prefix :: "'a list \<Rightarrow> 'a list \<Rightarrow> 'a list option" where
  "strip_prefix [] s = Some s"
| "strip_prefix (p # ps) [] = None"
| "strip_prefix (p # ps) (c # cs) = (if p = c then strip_prefix ps cs else None)"

fun split_once :: "'a \<Rightarrow> 'a list \<Rightarrow> ('a list \<times> 'a list) option" where
  "split_once d [] = None"
| "split_once d (c # cs) =
     (if c = d then Some ([], cs) else map_option (\<lambda>(a, b). (c # a, b)) (split_once d cs))"

text \<open>\<open>replacen\<close> with a count of one, for a pattern that is not empty.\<close>

fun replace_first :: "'a list \<Rightarrow> 'a list \<Rightarrow> 'a list \<Rightarrow> 'a list" where
  "replace_first pat rep [] = []"
| "replace_first pat rep (c # cs) =
     (case strip_prefix pat (c # cs) of
        Some rest \<Rightarrow> rep @ rest
      | None \<Rightarrow> c # replace_first pat rep cs)"

definition is_ascii_digit :: "char \<Rightarrow> bool" where
  "is_ascii_digit c \<longleftrightarrow> 48 \<le> (of_char c :: nat) \<and> (of_char c :: nat) \<le> 57"

definition digit_char :: "nat \<Rightarrow> char" where
  "digit_char d = char_of (48 + d)"

function show_nat :: "nat \<Rightarrow> string" where
  "show_nat n = (if n < 10 then [digit_char n] else show_nat (n div 10) @ [digit_char (n mod 10)])"
  by pat_completeness auto
termination by (relation "measure id") auto

declare show_nat.simps [simp del]

definition digits_value :: "string \<Rightarrow> nat" where
  "digits_value s = foldl (\<lambda>n c. 10 * n + (of_char c - 48)) 0 s"

text \<open>\<open>str::parse::<u64>\<close>: digits with an optional plus sign, and no overflow.\<close>

definition parse_u64 :: "string \<Rightarrow> nat option" where
  "parse_u64 s =
     (let ds = (case s of c # cs \<Rightarrow> if c = CHR ''+'' then cs else s | [] \<Rightarrow> []) in
      if ds = [] \<or> \<not> list_all is_ascii_digit ds \<or> 2 ^ 64 \<le> digits_value ds then None
      else Some (digits_value ds))"

text \<open>An error is its message, or a message format with its arguments.\<close>

datatype release_error = Msg string | Fmt string "string list"

section \<open>Versions\<close>

text \<open>The public fields of \<open>semver::Version\<close>; the pre-release and build parts as their text.\<close>

record version =
  v_major :: nat
  v_minor :: nat
  v_patch :: nat
  v_pre :: string
  v_build :: string

text \<open>Parsing, display and the total order of the crate; and read-only Git in a checkout.\<close>

record release_ext =
  version_parse :: "string \<Rightarrow> version option"
  version_to_string :: "version \<Rightarrow> string"
  version_less :: "version \<Rightarrow> version \<Rightarrow> bool"
  git :: "string \<Rightarrow> string list \<Rightarrow> release_error + string"

text \<open>\<open>Iterator::max\<close> keeps the last of the greatest elements.\<close>

definition max_version :: "'z release_ext_scheme \<Rightarrow> version list \<Rightarrow> version option" where
  "max_version x vs =
     fold (\<lambda>v m. case m of None \<Rightarrow> Some v | Some b \<Rightarrow> if version_less x v b then Some b else Some v) vs None"

section \<open>Packages\<close>

record package_policy =
  pp_package :: string
  pp_tag_prefix :: string
  pp_changelog :: string
  pp_path_in_vcs :: string
  pp_internal_dependencies :: "string list"

record release_policy =
  rp_packages :: "package_policy list"
  rp_config :: string

definition package_tag :: "package_policy \<Rightarrow> string \<Rightarrow> string" where
  "package_tag self version = pp_tag_prefix self @ version"

definition ALL_PACKAGES :: "package_policy list" where
  "ALL_PACKAGES =
     [\<lparr>pp_package = ''yaml-sigil-core'', pp_tag_prefix = ''yaml-sigil-core-v'',
       pp_changelog = ''crates/yaml-sigil-core/CHANGELOG.md'', pp_path_in_vcs = ''crates/yaml-sigil-core'',
       pp_internal_dependencies = []\<rparr>,
      \<lparr>pp_package = ''yaml-sigil-transcription'', pp_tag_prefix = ''yaml-sigil-transcription-v'',
       pp_changelog = ''crates/yaml-sigil-transcription/CHANGELOG.md'',
       pp_path_in_vcs = ''crates/yaml-sigil-transcription'', pp_internal_dependencies = [''yaml-sigil-core'']\<rparr>,
      \<lparr>pp_package = ''yaml-sigil-signing'', pp_tag_prefix = ''yaml-sigil-signing-v'',
       pp_changelog = ''crates/yaml-sigil-signing/CHANGELOG.md'',
       pp_path_in_vcs = ''crates/yaml-sigil-signing'',
       pp_internal_dependencies = [''yaml-sigil-core'', ''yaml-sigil-transcription'']\<rparr>,
      \<lparr>pp_package = ''yaml-sigil-verification'', pp_tag_prefix = ''yaml-sigil-verification-v'',
       pp_changelog = ''crates/yaml-sigil-verification/CHANGELOG.md'',
       pp_path_in_vcs = ''crates/yaml-sigil-verification'',
       pp_internal_dependencies = [''yaml-sigil-core'', ''yaml-sigil-signing'', ''yaml-sigil-transcription'']\<rparr>,
      \<lparr>pp_package = ''yaml-sigil-wasm'', pp_tag_prefix = ''yaml-sigil-wasm-v'',
       pp_changelog = ''crates/yaml-sigil-wasm/CHANGELOG.md'', pp_path_in_vcs = ''crates/yaml-sigil-wasm'',
       pp_internal_dependencies =
         [''yaml-sigil-core'', ''yaml-sigil-transcription'', ''yaml-sigil-signing'',
          ''yaml-sigil-verification'']\<rparr>]"

definition RUST_POLICY :: release_policy where
  "RUST_POLICY = \<lparr>rp_packages = take 4 ALL_PACKAGES, rp_config = ''.release-plz.toml''\<rparr>"

definition for_version :: "version \<Rightarrow> release_policy" where
  "for_version version =
     (if (v_major version, v_minor version) \<ge> (0, 6)
      then \<lparr>rp_packages = ALL_PACKAGES, rp_config = ''.release-plz-wasm.toml''\<rparr>
      else RUST_POLICY)"

definition allows_release_path :: "release_policy \<Rightarrow> string \<Rightarrow> bool" where
  "allows_release_path self path \<longleftrightarrow>
     path = ''Cargo.toml'' \<or>
     list_ex (\<lambda>package. path = pp_path_in_vcs package @ ''/Cargo.toml'' \<or> path = pp_changelog package)
       (rp_packages self)"

section \<open>Release lines\<close>

datatype release_line = Main_Line | Support nat nat

definition line_component :: "string \<Rightarrow> release_error + nat" where
  "line_component value =
     (if value = [] \<or> length value > 9 \<or> (length value > 1 \<and> hd value = CHR ''0'') \<or>
         \<not> list_all is_ascii_digit value
      then Inl (Msg ''support base has a noncanonical version component'')
      else ok_or (parse_u64 value) (Msg ''support version component overflows''))"

definition from_base_ref :: "string \<Rightarrow> release_error + release_line" where
  "from_base_ref value =
     (if value = ''refs/heads/main'' then Inr Main_Line
      else
        result_try (ok_or (strip_prefix ''refs/heads/support/'' value)
            (Msg ''release base must be refs/heads/main or refs/heads/support/M.N'')) (\<lambda>line.
        result_try (ok_or (split_once (CHR ''.'') line)
            (Msg ''support base requires exactly two version components'')) (\<lambda>(major, minor).
        result_try (line_component major) (\<lambda>M.
        result_try (line_component minor) (\<lambda>N.
        Inr (Support M N))))))"

fun base_ref :: "release_line \<Rightarrow> string" where
  "base_ref Main_Line = ''refs/heads/main''"
| "base_ref (Support major minor) = ''refs/heads/support/'' @ show_nat major @ ''.'' @ show_nat minor"

definition tracking_ref :: "release_line \<Rightarrow> string" where
  "tracking_ref self = replace_first ''refs/heads/'' ''refs/remotes/origin/'' (base_ref self)"

definition make_latest :: "release_line \<Rightarrow> version \<Rightarrow> bool" where
  "make_latest self version \<longleftrightarrow> self = Main_Line \<and> v_pre version = []"

fun admits_version :: "release_line \<Rightarrow> version \<Rightarrow> bool" where
  "admits_version Main_Line version \<longleftrightarrow> True"
| "admits_version (Support major minor) version \<longleftrightarrow> v_major version = major \<and> v_minor version = minor"

definition require_version :: "'z release_ext_scheme \<Rightarrow> release_line \<Rightarrow> version \<Rightarrow> release_error + unit" where
  "require_version x self version =
     (if \<not> admits_version self version
      then Inl (Fmt ''version {version} is outside {}'' [version_to_string x version, base_ref self])
      else Inr ())"

definition require_successor :: "release_line \<Rightarrow> version \<Rightarrow> release_error + unit" where
  "require_successor self version =
     (let newer = (case self of
            Support major minor \<Rightarrow> (v_major version, v_minor version) > (major, minor)
          | Main_Line \<Rightarrow> False) in
      if \<not> newer \<or> v_pre version \<noteq> [] \<or> v_build version \<noteq> []
      then Inl (Msg ''support activation requires a published main stable outside the old line'')
      else Inr ())"

definition checked_succ_u64 :: "nat \<Rightarrow> nat option" where
  "checked_succ_u64 n = (if n + 1 < 2 ^ 64 then Some (n + 1) else None)"

definition rc_ordinal :: "version \<Rightarrow> release_error + nat" where
  "rc_ordinal v =
     result_try (ok_or (strip_prefix ''rc.'' (v_pre v)) (Msg ''support prerelease must be rc.N'')) (\<lambda>value.
     result_try (ok_or (parse_u64 value) (Msg ''invalid support RC ordinal'')) (\<lambda>number.
     if number = 0 \<or> show_nat number \<noteq> value
     then Inl (Msg ''support RC ordinal must be canonical and positive'')
     else Inr number))"

definition require_advancement ::
    "'z release_ext_scheme \<Rightarrow> release_line \<Rightarrow> version \<Rightarrow> version list \<Rightarrow> release_error + unit" where
  "require_advancement x self selected published =
     result_try (require_version x self selected) (\<lambda>_.
     if self = Main_Line then Inr ()
     else if v_build selected \<noteq> [] then Inl (Msg ''support releases cannot contain build metadata'')
     else
       result_try (ok_or
           (max_version x (filter (\<lambda>v. admits_version self v \<and> v_pre v = [] \<and> v_build v = []) published))
           (Msg ''support line has no published stable baseline'')) (\<lambda>stable.
       if checked_succ_u64 (v_patch stable) \<noteq> Some (v_patch selected)
       then Inl (Msg ''support release must use the next patch after its last stable'')
       else if selected \<in> set published then Inl (Msg ''support release version is already published'')
       else if v_pre selected \<noteq> [] then
         result_try (rc_ordinal selected) (\<lambda>next.
         case max_version x (filter (\<lambda>v. admits_version self v \<and> v_patch v = v_patch selected) published) of
           Some previous \<Rightarrow>
             result_try (rc_ordinal previous) (\<lambda>ordinal.
             if checked_succ_u64 ordinal \<noteq> Some next
             then Inl (Msg ''support RC must advance by exactly one ordinal'') else Inr ())
         | None \<Rightarrow> Inr ())
       else Inr ()))"

section \<open>Base selection\<close>

definition resolve_base :: "'z release_ext_scheme \<Rightarrow> string \<Rightarrow> string option \<Rightarrow> release_error + release_line" where
  "resolve_base x root explicit =
     (case explicit of
        Some base \<Rightarrow> from_base_ref base
      | None \<Rightarrow>
          result_try (map_err (\<lambda>_. Msg ''detached release checkout requires --base-ref'')
              (git x root [''symbolic-ref'', ''--quiet'', ''HEAD''])) (\<lambda>branch.
          if branch = ''refs/heads/main'' \<or> starts_with branch ''refs/heads/support/'' then from_base_ref branch
          else
            result_try (map_err (\<lambda>_. Msg ''release base is ambiguous; supply --base-ref'')
                (git x root [''merge-base'', ''--is-ancestor'', ''refs/remotes/origin/main'', ''HEAD'']))
              (\<lambda>_. Inr Main_Line)))"

text \<open>\<open>str::lines\<close>: pieces between line feeds, a carriage return before each dropped, no last empty piece.\<close>

definition drop_cr :: "string \<Rightarrow> string" where
  "drop_cr l = (if l \<noteq> [] \<and> last l = CHR 0x0D then butlast l else l)"

fun str_lines_acc :: "string \<Rightarrow> string \<Rightarrow> string list" where
  "str_lines_acc acc [] = (if acc = [] then [] else [acc])"
| "str_lines_acc acc (c # cs) =
     (if c = CHR 0x0A then drop_cr acc # str_lines_acc [] cs else str_lines_acc (acc @ [c]) cs)"

definition str_lines :: "string \<Rightarrow> string list" where
  "str_lines s = str_lines_acc [] s"

text \<open>The tags of one package that are canonical versions; any other name with the prefix is skipped.\<close>

fun canonical_versions ::
    "'z release_ext_scheme \<Rightarrow> string \<Rightarrow> string list \<Rightarrow> release_error + version list" where
  "canonical_versions x tag_prefix [] = Inr []"
| "canonical_versions x tag_prefix (tag # tags) =
     result_try (ok_or (strip_prefix tag_prefix tag) (Msg ''unexpected release tag prefix'')) (\<lambda>value.
     result_map (\<lambda>versions. case version_parse x value of
         Some parsed \<Rightarrow> if version_to_string x parsed = value then parsed # versions else versions
       | None \<Rightarrow> versions) (canonical_versions x tag_prefix tags))"

definition validate_version ::
    "'z release_ext_scheme \<Rightarrow> string \<Rightarrow> release_line \<Rightarrow> version \<Rightarrow> string \<Rightarrow> release_error + unit" where
  "validate_version x root line version tag_prefix =
     result_try (require_version x line version) (\<lambda>_.
     if line = Main_Line then Inr ()
     else
       result_try (git x root [''tag'', ''--merged'', tracking_ref line, ''--list'', tag_prefix @ ''*'']) (\<lambda>tags.
       result_try (canonical_versions x tag_prefix (str_lines tags)) (\<lambda>versions.
       require_advancement x line version versions)))"

end
