(* ===== verification/Github.thy ===== *)
theory Github
  imports Release_Policy
begin

text \<open>
  The finalizer of \<open>xtask/src/github.rs\<close> with its transport (\<open>github/transport.rs\<close>), the Latest
  guard (\<open>github/latest.rs\<close>) and the provenance binding it repeats before each write
  (\<open>Binding::verify\<close> of \<open>github/provenance.rs\<close>): it creates the annotated tag and the Release of
  each package, or accepts those that exist. GitHub is an arbitrary function from everything
  sent and answered so far to the next answer.
\<close>

section \<open>What GitHub returns\<close>

record git_object =
  go_sha :: string
  go_kind :: string

record git_ref =
  gr_name :: string
  gr_object :: git_object

record comparison =
  cmp_status :: string
  cmp_base_commit :: string
  cmp_merge_base_commit :: string

record tagger =
  tg_name :: string
  tg_email :: string
  tg_date :: string

record annotated_tag =
  at_sha :: string
  at_tag :: string
  at_message :: string
  at_tagger :: tagger
  at_object :: git_object

record release_author =
  ra_login :: string
  ra_id :: nat
  ra_kind :: string

record github_release =
  gl_id :: nat
  gl_tag_name :: string
  gl_target_commitish :: string
  gl_name :: string
  gl_body :: string
  gl_draft :: bool
  gl_prerelease :: bool
  gl_immutable :: bool
  gl_author :: release_author
  gl_assets :: "string list"

record latest_release =
  lr_id :: nat
  lr_tag_name :: string

text \<open>What qualification reads: runs of the publication workflow, commits, and pull requests.\<close>

record workflow_run =
  wr_id :: nat
  wr_run_attempt :: nat
  wr_workflow_id :: nat
  wr_path :: string
  wr_event :: string
  wr_head_branch :: string
  wr_head_sha :: string
  wr_repository :: string
  wr_head_repository :: string
  wr_status :: string
  wr_conclusion :: "string option"

record workflow =
  wf_id :: nat
  wf_path :: string
  wf_state :: string

record artifact_inventory =
  ai_total_count :: nat
  ai_artifacts :: "string list"

record raw_git_identity =
  ri_name :: string
  ri_email :: string
  ri_date :: string

record github_account =
  ac_id :: nat
  ac_login :: string
  ac_kind :: string

record commit_verification =
  cv_verified :: bool
  cv_reason :: string

record commit_data =
  cd_author :: "raw_git_identity option"
  cd_committer :: "raw_git_identity option"
  cd_message :: string
  cd_verification :: commit_verification
  cd_tree :: string

record github_commit =
  gc_sha :: string
  gc_author :: "github_account option"
  gc_committer :: "github_account option"
  gc_parents :: "string list"
  gc_commit :: commit_data

record signature_signer =
  sg_database_id :: "nat option"
  sg_login :: string
  sg_kind :: string

record commit_signature =
  cs_kind :: string
  cs_email :: string
  cs_is_valid :: bool
  cs_state :: string
  cs_was_signed_by_github :: bool
  cs_signer :: "signature_signer option"

record signature_commit =
  sc_oid :: string
  sc_signature :: "commit_signature option"

record signature_connection =
  sn_total_count :: nat
  sn_nodes :: "signature_commit list"
  sn_has_next_page :: bool

record signature_pull_request =
  sp_merge_commit :: "string option"
  sp_commits :: signature_connection

text \<open>The data, its repository and the pull request in it are each optional.\<close>

record signature_response =
  sr_data :: "signature_pull_request option option option"
  sr_errors :: "string option"

record pull_ref =
  pf_reference :: string
  pf_sha :: string
  pf_repo :: string

record pull_request =
  pr_number :: nat
  pr_state :: string
  pr_merged_at :: "string option"
  pr_changed_files :: nat
  pr_base :: pull_ref
  pr_head :: pull_ref

record associated_pull_request =
  ap_number :: nat
  ap_state :: string
  ap_merged_at :: "string option"

record pull_file =
  fl_filename :: string
  fl_status :: string

record installation_repositories =
  ir_total_count :: nat
  ir_repositories :: "string list"

text \<open>A body, as the type its reader asks for sees it.\<close>

datatype body =
    B_Ref git_ref
  | B_Comparison comparison
  | B_Tag annotated_tag
  | B_Release github_release
  | B_Latest latest_release
  | B_Run workflow_run
  | B_Workflow workflow
  | B_Artifacts artifact_inventory
  | B_Commit github_commit
  | B_Commits "github_commit list"
  | B_Signature signature_response
  | B_Pull pull_request
  | B_Associated "associated_pull_request list"
  | B_Files "pull_file list"
  | B_Installation installation_repositories
  | B_References "git_ref list"

fun as_ref :: "body \<Rightarrow> git_ref option" where
  "as_ref (B_Ref r) = Some r"
| "as_ref _ = None"

fun as_comparison :: "body \<Rightarrow> comparison option" where
  "as_comparison (B_Comparison c) = Some c"
| "as_comparison _ = None"

fun as_tag :: "body \<Rightarrow> annotated_tag option" where
  "as_tag (B_Tag t) = Some t"
| "as_tag _ = None"

fun as_release :: "body \<Rightarrow> github_release option" where
  "as_release (B_Release r) = Some r"
| "as_release _ = None"

fun as_latest :: "body \<Rightarrow> latest_release option" where
  "as_latest (B_Latest l) = Some l"
| "as_latest _ = None"

fun as_run :: "body \<Rightarrow> workflow_run option" where
  "as_run (B_Run r) = Some r"
| "as_run _ = None"

fun as_workflow :: "body \<Rightarrow> workflow option" where
  "as_workflow (B_Workflow w) = Some w"
| "as_workflow _ = None"

fun as_artifacts :: "body \<Rightarrow> artifact_inventory option" where
  "as_artifacts (B_Artifacts a) = Some a"
| "as_artifacts _ = None"

fun as_commit :: "body \<Rightarrow> github_commit option" where
  "as_commit (B_Commit c) = Some c"
| "as_commit _ = None"

fun as_commits :: "body \<Rightarrow> github_commit list option" where
  "as_commits (B_Commits c) = Some c"
| "as_commits _ = None"

fun as_signature :: "body \<Rightarrow> signature_response option" where
  "as_signature (B_Signature r) = Some r"
| "as_signature _ = None"

fun as_pull :: "body \<Rightarrow> pull_request option" where
  "as_pull (B_Pull p) = Some p"
| "as_pull _ = None"

fun as_associated :: "body \<Rightarrow> associated_pull_request list option" where
  "as_associated (B_Associated a) = Some a"
| "as_associated _ = None"

fun as_files :: "body \<Rightarrow> pull_file list option" where
  "as_files (B_Files f) = Some f"
| "as_files _ = None"

fun as_installation :: "body \<Rightarrow> installation_repositories option" where
  "as_installation (B_Installation i) = Some i"
| "as_installation _ = None"

fun as_references :: "body \<Rightarrow> git_ref list option" where
  "as_references (B_References r) = Some r"
| "as_references _ = None"

section \<open>The transport\<close>

text \<open>The bodies the finalizer sends, with the fields of the JSON objects.\<close>

record tag_payload =
  tp_tag :: string
  tp_message :: string
  tp_object :: string
  tp_type :: string
  tp_tagger :: tagger

record ref_payload =
  rp_ref :: string
  rp_sha :: string

record release_payload =
  rl_tag_name :: string
  rl_target_commitish :: string
  rl_name :: string
  rl_body :: string
  rl_draft :: bool
  rl_prerelease :: bool
  rl_generate_release_notes :: bool
  rl_make_latest :: string

datatype payload = P_Tag tag_payload | P_Ref ref_payload | P_Release release_payload

text \<open>
  The requests: reading and writing GitHub, the one GraphQL query with its pull-request number,
  a download from crates.io, and a line appended to the workflow's output file.
\<close>

datatype request =
    Get string
  | Post string payload
  | Query nat
  | Fetch string
  | Append string string

datatype response = Failed release_error | Not_Found | Body body | Output string | Done

text \<open>
  Everything sent and answered, the newest first, and the function that answers: whatever
  GitHub and everyone else who writes to it does is some such function.
\<close>

type_synonym history = "(request \<times> response) list"
type_synonym github = "history \<Rightarrow> request \<Rightarrow> response"
type_synonym 'a io = "history \<Rightarrow> (release_error + 'a) \<times> history"

definition io_try :: "'a io \<Rightarrow> ('a \<Rightarrow> 'b io) \<Rightarrow> 'b io" where
  "io_try m f h = (case m h of (Inl e, h') \<Rightarrow> (Inl e, h') | (Inr a, h') \<Rightarrow> f a h')"

definition io_lift :: "release_error + 'a \<Rightarrow> 'a io" where
  "io_lift r h = (r, h)"

definition send :: "github \<Rightarrow> request \<Rightarrow> history \<Rightarrow> response \<times> history" where
  "send g q h = (g h q, (q, g h q) # h)"

definition request_path_ok :: "string \<Rightarrow> bool" where
  "request_path_ok path \<longleftrightarrow> path \<noteq> [] \<and> list_all (\<lambda>c. c \<notin> {CHR 0x00, CHR 0x0D, CHR 0x0A}) path"

fun request_path :: "request \<Rightarrow> string" where
  "request_path (Get path) = path"
| "request_path (Post path payload) = path"
| "request_path (Query number) = ''graphql''"
| "request_path _ = []"

text \<open>An answer of the client that is not of a request's kind counts as a failure of the client.\<close>

definition gh_request :: "github \<Rightarrow> request \<Rightarrow> body option io" where
  "gh_request g q h =
     (if \<not> request_path_ok (request_path q) then (Inl (Msg ''invalid GitHub request''), h)
      else
        (case send g q h of
           (Body b, h') \<Rightarrow> (Inr (Some b), h')
         | (Not_Found, h') \<Rightarrow>
             (case q of
                Get path \<Rightarrow> (Inr None, h')
              | _ \<Rightarrow> (Inl (Fmt ''GitHub {method} {path} failed: {}'' [''POST'', request_path q]), h'))
         | (Failed e, h') \<Rightarrow> (Inl e, h')
         | (_, h') \<Rightarrow> (Inl (Msg ''run gh api''), h')))"

definition gh_decode :: "(body \<Rightarrow> 'a option) \<Rightarrow> string \<Rightarrow> string \<Rightarrow> body \<Rightarrow> release_error + 'a" where
  "gh_decode dec verb path b = ok_or (dec b) (Fmt ''GitHub {method} {path} returned invalid JSON'' [verb, path])"

definition gh_get :: "github \<Rightarrow> (body \<Rightarrow> 'a option) \<Rightarrow> string \<Rightarrow> 'a io" where
  "gh_get g dec path =
     io_try (gh_request g (Get path)) (\<lambda>body.
     io_try (io_lift (ok_or body (Fmt ''GitHub GET {path} returned not found'' [path]))) (\<lambda>body.
     io_lift (gh_decode dec ''GET'' path body)))"

definition gh_get_optional :: "github \<Rightarrow> (body \<Rightarrow> 'a option) \<Rightarrow> string \<Rightarrow> 'a option io" where
  "gh_get_optional g dec path =
     io_try (gh_request g (Get path)) (\<lambda>body.
     case body of
       None \<Rightarrow> io_lift (Inr None)
     | Some b \<Rightarrow> io_lift (result_map Some (gh_decode dec ''GET'' path b)))"

text \<open>
  A body above the transport's bound is refused before it is sent; here the refusal is one of the
  failures a request can be answered with.
\<close>

definition gh_post :: "github \<Rightarrow> (body \<Rightarrow> 'a option) \<Rightarrow> string \<Rightarrow> payload \<Rightarrow> 'a io" where
  "gh_post g dec path payload =
     io_try (gh_request g (Post path payload)) (\<lambda>body.
     io_try (io_lift (ok_or body (Fmt ''GitHub POST {path} returned not found'' [path]))) (\<lambda>body.
     io_lift (gh_decode dec ''POST'' path body)))"

definition gh_graphql :: "github \<Rightarrow> nat \<Rightarrow> signature_response io" where
  "gh_graphql g number =
     io_try (gh_request g (Query number)) (\<lambda>body.
     io_try (io_lift (ok_or body (Msg ''GitHub GraphQL query returned not found''))) (\<lambda>body.
     io_lift (gh_decode as_signature ''POST'' ''graphql'' body)))"

section \<open>Constants and identities\<close>

definition REPOSITORY :: string where "REPOSITORY = ''NVIDIA/yaml-sigil-rs''"
definition APP_SLUG :: string where "APP_SLUG = ''nvidia-yamlsigil-release-pr''"
definition APP_LOGIN :: string where "APP_LOGIN = ''nvidia-yamlsigil-release-pr[bot]''"
definition APP_ID :: nat where "APP_ID = 318780254"
definition APP_EMAIL :: string where
  "APP_EMAIL = ''318780254+nvidia-yamlsigil-release-pr[bot]@users.noreply.github.com''"

definition repo_path :: "string \<Rightarrow> string" where
  "repo_path rest = ''repos/'' @ REPOSITORY @ rest"

definition lower_hex :: "char \<Rightarrow> bool" where
  "lower_hex c \<longleftrightarrow> is_ascii_digit c \<or> (97 \<le> (of_char c :: nat) \<and> (of_char c :: nat) \<le> 102)"

definition is_sha :: "string \<Rightarrow> bool" where
  "is_sha value \<longleftrightarrow> length value = 40 \<and> list_all lower_hex value"

definition require_sha :: "string \<Rightarrow> string \<Rightarrow> release_error + unit" where
  "require_sha value label =
     (if length value \<noteq> 40 \<or> \<not> list_all lower_hex value
      then Inl (Fmt ''{label} is not a lowercase full SHA'' [label]) else Inr ())"

definition is_ascii_lower :: "char \<Rightarrow> bool" where
  "is_ascii_lower c \<longleftrightarrow> 97 \<le> (of_char c :: nat) \<and> (of_char c :: nat) \<le> 122"

definition require_tag :: "string \<Rightarrow> release_error + unit" where
  "require_tag value =
     (if value = [] \<or>
         \<not> list_all (\<lambda>c. is_ascii_lower c \<or> is_ascii_digit c \<or> c \<in> set ''-.v'') value
      then Inl (Msg ''release tag is malformed'') else Inr ())"

section \<open>The provenance binding\<close>

datatype provenance_operation = Fresh | Recover_Source

record binding =
  bd_line :: release_line
  bd_operation :: provenance_operation
  bd_main :: string
  bd_source :: string
  bd_anchor :: "string option"

definition read_ref :: "github \<Rightarrow> string \<Rightarrow> string io" where
  "read_ref g base =
     io_try (io_lift (ok_or (strip_prefix ''refs/'' base) (Msg ''invalid protected ref''))) (\<lambda>branch.
     io_try (gh_get g as_ref (repo_path (''/git/ref/'' @ branch))) (\<lambda>reference.
     if gr_name reference \<noteq> base \<or> go_kind (gr_object reference) \<noteq> ''commit'' \<or>
        \<not> is_sha (go_sha (gr_object reference))
     then io_lift (Inl (Msg ''protected base is not one exact commit ref''))
     else io_lift (Inr (go_sha (gr_object reference)))))"

definition compare_commits :: "github \<Rightarrow> string \<Rightarrow> string \<Rightarrow> comparison io" where
  "compare_commits g source tip = gh_get g as_comparison (repo_path (''/compare/'' @ source @ ''...'' @ tip))"

fun verify_anchor :: "github \<Rightarrow> string \<Rightarrow> string \<Rightarrow> string list \<Rightarrow> unit io" where
  "verify_anchor g main anchor [] = io_lift (Inr ())"
| "verify_anchor g main anchor (commit # commits) =
     io_try (compare_commits g commit main) (\<lambda>comparison.
     if cmp_base_commit comparison \<noteq> commit \<or> cmp_merge_base_commit comparison \<noteq> anchor
     then io_lift (Inl (Msg ''protected support lineage has a different activation anchor''))
     else verify_anchor g main anchor commits)"

definition binding_verify :: "github \<Rightarrow> binding \<Rightarrow> unit io" where
  "binding_verify g self =
     io_try (read_ref g (base_ref (bd_line self))) (\<lambda>base.
     if bd_operation self = Fresh \<and> base \<noteq> bd_source self
     then io_lift (Inl (Msg ''fresh release source is no longer the exact protected base tip''))
     else
       io_try (compare_commits g (bd_source self) base) (\<lambda>comparison.
       if cmp_status comparison \<notin> {''ahead'', ''identical''} \<or>
          cmp_base_commit comparison \<noteq> bd_source self \<or> cmp_merge_base_commit comparison \<noteq> bd_source self
       then io_lift (Inl (Msg ''release source is no longer on the protected base lineage''))
       else
         io_try (case bd_anchor self of
             Some anchor \<Rightarrow> verify_anchor g (bd_main self) anchor [bd_source self, base]
           | None \<Rightarrow> io_lift (Inr ())) (\<lambda>_.
         io_try (read_ref g (base_ref (bd_line self))) (\<lambda>again.
         if again \<noteq> base then io_lift (Inl (Msg ''protected release base moved during provenance binding''))
         else
           io_try (read_ref g ''refs/heads/main'') (\<lambda>main.
           if main \<noteq> bd_main self
           then io_lift (Inl (Msg ''executing release policy is no longer exact current main''))
           else io_lift (Inr ()))))))"

end
