(* ===== verification/Github_Finalize.thy ===== *)
theory Github_Finalize
  imports Github
begin

text \<open>
  The mutating half of \<open>xtask/src/github.rs\<close>: what a Release of a package must be, the guard on
  the Latest selection (\<open>github/latest.rs\<close>), and the reconciliation of the annotated tag and
  the immutable Release, package by package.
\<close>

section \<open>Reading protected main\<close>

definition main_sha :: "github \<Rightarrow> string io" where
  "main_sha g =
     io_try (gh_get g as_ref (repo_path ''/git/ref/heads/main'')) (\<lambda>reference.
     if gr_name reference \<noteq> ''refs/heads/main'' \<or> go_kind (gr_object reference) \<noteq> ''commit''
     then io_lift (Inl (Msg ''main is not one exact commit ref''))
     else
       io_try (io_lift (require_sha (go_sha (gr_object reference)) ''main SHA'')) (\<lambda>_.
       io_lift (Inr (go_sha (gr_object reference)))))"

definition require_main_ancestry :: "github \<Rightarrow> string \<Rightarrow> string \<Rightarrow> unit io" where
  "require_main_ancestry g source_sha main =
     io_try (compare_commits g source_sha main) (\<lambda>comparison.
     if cmp_status comparison \<notin> {''ahead'', ''identical''} \<or>
        cmp_base_commit comparison \<noteq> source_sha \<or> cmp_merge_base_commit comparison \<noteq> source_sha
     then io_lift (Inl (Msg ''recovery source is no longer an ancestor of current main''))
     else io_lift (Inr ()))"

definition require_unchanged_main :: "string \<Rightarrow> string \<Rightarrow> release_error + unit" where
  "require_unchanged_main initial current =
     result_try (require_sha initial ''initial protected main SHA'') (\<lambda>_.
     result_try (require_sha current ''mutation-time protected main SHA'') (\<lambda>_.
     if initial \<noteq> current then Inl (Msg ''protected main changed before release-object mutation'') else Inr ()))"

definition require_current_mutation_policy :: "github \<Rightarrow> string \<Rightarrow> string \<Rightarrow> unit io" where
  "require_current_mutation_policy g source_sha policy_main_sha =
     io_try (require_main_ancestry g source_sha policy_main_sha) (\<lambda>_.
     io_try (main_sha g) (\<lambda>current_main_sha.
     io_lift (require_unchanged_main policy_main_sha current_main_sha)))"

section \<open>What a Release is\<close>

record release_spec =
  rs_binding :: "binding option"
  rs_line :: release_line
  rs_tag :: string
  rs_body :: string
  rs_prerelease :: bool
  rs_message :: string

definition release_spec_new ::
    "'z release_ext_scheme \<Rightarrow> package_policy \<Rightarrow> version \<Rightarrow> string \<Rightarrow> release_error + release_spec" where
  "release_spec_new x package version source_sha =
     (let tag = package_tag package (version_to_string x version) in
      result_try (require_tag tag) (\<lambda>_.
      Inr \<lparr>rs_binding = None, rs_line = Main_Line, rs_tag = tag,
           rs_body = ''Source: https://github.com/'' @ REPOSITORY @ ''/commit/'' @ source_sha @
             [CHR 0x0A, CHR 0x0A] @ ''This source-only Release contains no attached assets.'',
           rs_prerelease = (v_pre version \<noteq> []),
           rs_message = ''chore: release package '' @ pp_package package @ '' version '' @
             version_to_string x version\<rparr>))"

definition rebind :: "github \<Rightarrow> release_spec \<Rightarrow> string \<Rightarrow> string \<Rightarrow> unit io" where
  "rebind g self source main =
     (case rs_binding self of
        Some binding \<Rightarrow> binding_verify g binding
      | None \<Rightarrow> require_current_mutation_policy g source main)"

section \<open>The Latest selection\<close>

record latest_guard =
  lg_before :: "latest_release option"
  lg_target :: string
  lg_advance :: bool

fun release_order_from ::
    "'z release_ext_scheme \<Rightarrow> nat \<Rightarrow> string list \<Rightarrow> string \<Rightarrow> release_error + version \<times> nat" where
  "release_order_from x ordinal [] tag = Inl (Msg ''Latest tag is outside the compiled package family'')"
| "release_order_from x ordinal (prefix # prefixes) tag =
     (case strip_prefix prefix tag of
        None \<Rightarrow> release_order_from x (ordinal + 1) prefixes tag
      | Some raw \<Rightarrow>
          result_try (ok_or (version_parse x raw) (Msg ''Latest tag has an invalid version'')) (\<lambda>version.
          if version_to_string x version \<noteq> raw \<or> v_build version \<noteq> [] \<or>
             ordinal \<ge> length (rp_packages (for_version version))
          then Inl (Msg ''Latest tag has a noncanonical version'')
          else Inr (version, ordinal)))"

definition package_prefixes :: "string list" where
  "package_prefixes = map pp_tag_prefix ALL_PACKAGES"

definition release_order :: "'z release_ext_scheme \<Rightarrow> string \<Rightarrow> release_error + version \<times> nat" where
  "release_order x tag = release_order_from x 0 package_prefixes tag"

text \<open>The order of pairs: the version first, then the package.\<close>

fun order_greater :: "'z release_ext_scheme \<Rightarrow> version \<times> nat \<Rightarrow> version \<times> nat \<Rightarrow> bool" where
  "order_greater x (v, i) (w, j) \<longleftrightarrow> version_less x w v \<or> v = w \<and> i > j"

definition latest_read :: "'z release_ext_scheme \<Rightarrow> github \<Rightarrow> latest_release option io" where
  "latest_read x g =
     io_try (gh_get_optional g as_latest (repo_path ''/releases/latest'')) (\<lambda>observed.
     case observed of
       None \<Rightarrow> io_lift (Inr None)
     | Some latest \<Rightarrow>
         io_try (io_lift (release_order x (lr_tag_name latest))) (\<lambda>(version, _).
         if lr_id latest = 0 \<or> v_pre version \<noteq> [] \<or> v_build version \<noteq> []
         then io_lift (Inl (Msg ''Latest is not one canonical stable repository Release''))
         else io_lift (Inr observed)))"

definition guard_capture ::
    "'z release_ext_scheme \<Rightarrow> github \<Rightarrow> release_line \<Rightarrow> string \<Rightarrow> latest_guard io" where
  "guard_capture x g line tag =
     io_try (io_lift (release_order x tag)) (\<lambda>target.
     io_try (latest_read x g) (\<lambda>before.
     if line \<noteq> Main_Line \<and> (case before of Some latest \<Rightarrow> lr_tag_name latest = tag | None \<Rightarrow> False)
     then io_lift (Inl (Msg ''support release already holds Latest; reconcile that state before retrying''))
     else
       io_try (io_lift
           (if \<not> make_latest line (fst target) then Inr False
            else case before of
                   Some latest \<Rightarrow>
                     result_map (order_greater x target) (release_order x (lr_tag_name latest))
                 | None \<Rightarrow> Inr True)) (\<lambda>advance.
       io_lift (Inr \<lparr>lg_before = before, lg_target = tag, lg_advance = advance\<rparr>))))"

definition request_value :: "latest_guard \<Rightarrow> string" where
  "request_value self = (if lg_advance self then ''true'' else ''false'')"

definition require_unchanged :: "'z release_ext_scheme \<Rightarrow> github \<Rightarrow> latest_guard \<Rightarrow> unit io" where
  "require_unchanged x g self =
     io_try (latest_read x g) (\<lambda>current.
     if current \<noteq> lg_before self
     then io_lift (Inl (Msg ''Latest changed before Release creation; requalify without mutation''))
     else io_lift (Inr ()))"

definition guard_verify :: "'z release_ext_scheme \<Rightarrow> github \<Rightarrow> latest_guard \<Rightarrow> unit io" where
  "guard_verify x g self =
     io_try (latest_read x g) (\<lambda>after.
     if (if lg_advance self
         then (case after of Some latest \<Rightarrow> lr_tag_name latest = lg_target self | None \<Rightarrow> False)
         else after = lg_before self)
     then io_lift (Inr ())
     else io_lift (Inl (Msg ''Latest readback differs from the intended Release outcome'')))"

section \<open>The annotated tag\<close>

definition validate_tag_ref :: "git_ref \<Rightarrow> release_spec \<Rightarrow> release_error + string" where
  "validate_tag_ref reference spec =
     (if gr_name reference \<noteq> ''refs/tags/'' @ rs_tag spec \<or> go_kind (gr_object reference) \<noteq> ''tag''
      then Inl (Fmt ''{} is not an annotated tag'' [rs_tag spec])
      else result_map (\<lambda>_. go_sha (gr_object reference))
        (require_sha (go_sha (gr_object reference)) ''tag object SHA''))"

definition validate_tag ::
    "annotated_tag \<Rightarrow> release_spec \<Rightarrow> string \<Rightarrow> string \<Rightarrow> string \<Rightarrow> release_error + unit" where
  "validate_tag object spec source_sha tagger_date object_sha =
     (if at_sha object \<noteq> object_sha \<or> at_tag object \<noteq> rs_tag spec \<or> at_message object \<noteq> rs_message spec \<or>
         go_kind (at_object object) \<noteq> ''commit'' \<or> go_sha (at_object object) \<noteq> source_sha \<or>
         tg_name (at_tagger object) \<noteq> APP_LOGIN \<or> tg_email (at_tagger object) \<noteq> APP_EMAIL \<or>
         tg_date (at_tagger object) \<noteq> tagger_date
      then Inl (Fmt ''annotated tag {} has conflicting state'' [rs_tag spec])
      else Inr ())"

definition inspect_tag :: "github \<Rightarrow> release_spec \<Rightarrow> string \<Rightarrow> string \<Rightarrow> string option io" where
  "inspect_tag g spec source_sha tagger_date =
     io_try (gh_get_optional g as_ref (repo_path (''/git/ref/tags/'' @ rs_tag spec))) (\<lambda>reference.
     case reference of
       None \<Rightarrow> io_lift (Inr None)
     | Some reference \<Rightarrow>
         io_try (io_lift (validate_tag_ref reference spec)) (\<lambda>object_sha.
         io_try (gh_get g as_tag (repo_path (''/git/tags/'' @ object_sha))) (\<lambda>object.
         io_try (io_lift (validate_tag object spec source_sha tagger_date object_sha)) (\<lambda>_.
         io_lift (Inr (Some object_sha))))))"

definition require_exact_tag_object ::
    "github \<Rightarrow> release_spec \<Rightarrow> string \<Rightarrow> string \<Rightarrow> string \<Rightarrow> unit io" where
  "require_exact_tag_object g spec source_sha tagger_date expected_object_sha =
     io_try (inspect_tag g spec source_sha tagger_date) (\<lambda>observed.
     if observed \<noteq> Some expected_object_sha
     then io_lift (Inl (Fmt ''annotated tag {} does not retain exact object {expected_object_sha}''
                     [rs_tag spec, expected_object_sha]))
     else io_lift (Inr ()))"

definition tag_payload_of :: "release_spec \<Rightarrow> string \<Rightarrow> string \<Rightarrow> tag_payload" where
  "tag_payload_of spec source_sha tagger_date =
     \<lparr>tp_tag = rs_tag spec, tp_message = rs_message spec, tp_object = source_sha, tp_type = ''commit'',
      tp_tagger = \<lparr>tg_name = APP_LOGIN, tg_email = APP_EMAIL, tg_date = tagger_date\<rparr>\<rparr>"

definition create_tag_object ::
    "github \<Rightarrow> release_spec \<Rightarrow> string \<Rightarrow> string \<Rightarrow> string \<Rightarrow> annotated_tag io" where
  "create_tag_object g spec source_sha policy_main_sha tagger_date =
     io_try (rebind g spec source_sha policy_main_sha) (\<lambda>_.
     io_try (gh_post g as_tag (repo_path ''/git/tags'') (P_Tag (tag_payload_of spec source_sha tagger_date)))
       (\<lambda>object.
     io_try (io_lift (require_sha (at_sha object) ''created tag object SHA'')) (\<lambda>_.
     io_try (io_lift (validate_tag object spec source_sha tagger_date (at_sha object))) (\<lambda>_.
     io_try (gh_get g as_tag (repo_path (''/git/tags/'' @ at_sha object))) (\<lambda>readback.
     io_try (io_lift (validate_tag readback spec source_sha tagger_date (at_sha object))) (\<lambda>_.
     io_lift (Inr object)))))))"

text \<open>A failed write is accepted when reading back shows that it took effect.\<close>

definition create_tag_ref ::
    "github \<Rightarrow> release_spec \<Rightarrow> string \<Rightarrow> string \<Rightarrow> string \<Rightarrow> string \<Rightarrow> unit io" where
  "create_tag_ref g spec source_sha policy_main_sha tagger_date object_sha =
     io_try (rebind g spec source_sha policy_main_sha) (\<lambda>_ h.
     case gh_post g as_ref (repo_path ''/git/refs'')
         (P_Ref \<lparr>rp_ref = ''refs/tags/'' @ rs_tag spec, rp_sha = object_sha\<rparr>) h of
       (Inr reference, h') \<Rightarrow>
         io_try (io_lift (validate_tag_ref reference spec)) (\<lambda>sha.
         if sha \<noteq> object_sha
         then io_lift (Inl (Fmt ''GitHub created {} at a different tag object'' [rs_tag spec]))
         else io_lift (Inr ())) h'
     | (Inl error, h') \<Rightarrow>
         (case require_exact_tag_object g spec source_sha tagger_date object_sha h' of
            (Inl _, h'') \<Rightarrow> (Inl error, h'')
          | (Inr _, h'') \<Rightarrow> (Inr (), h'')))"

definition reconcile_tag :: "github \<Rightarrow> release_spec \<Rightarrow> string \<Rightarrow> string \<Rightarrow> string \<Rightarrow> string io" where
  "reconcile_tag g spec source_sha policy_main_sha tagger_date =
     io_try (inspect_tag g spec source_sha tagger_date) (\<lambda>observed.
     case observed of
       Some object_sha \<Rightarrow> io_lift (Inr object_sha)
     | None \<Rightarrow>
         io_try (create_tag_object g spec source_sha policy_main_sha tagger_date) (\<lambda>object.
         io_try (create_tag_ref g spec source_sha policy_main_sha tagger_date (at_sha object)) (\<lambda>_.
         io_try (require_exact_tag_object g spec source_sha tagger_date (at_sha object)) (\<lambda>_.
         io_lift (Inr (at_sha object))))))"

section \<open>The Release\<close>

definition validate_release :: "github_release \<Rightarrow> release_spec \<Rightarrow> string \<Rightarrow> release_error + unit" where
  "validate_release release spec source_sha =
     (if gl_id release = 0 \<or> gl_tag_name release \<noteq> rs_tag spec \<or> gl_target_commitish release \<noteq> source_sha \<or>
         gl_name release \<noteq> rs_tag spec \<or> gl_body release \<noteq> rs_body spec \<or> gl_draft release \<or>
         gl_prerelease release \<noteq> rs_prerelease spec \<or> \<not> gl_immutable release \<or>
         ra_login (gl_author release) \<noteq> APP_LOGIN \<or> ra_id (gl_author release) \<noteq> APP_ID \<or>
         ra_kind (gl_author release) \<noteq> ''Bot'' \<or> gl_assets release \<noteq> []
      then Inl (Fmt ''GitHub Release {} is not exact, immutable, App-authored, and zero-asset'' [rs_tag spec])
      else Inr ())"

definition inspect_release :: "github \<Rightarrow> release_spec \<Rightarrow> string \<Rightarrow> bool io" where
  "inspect_release g spec source_sha =
     io_try (gh_get_optional g as_release (repo_path (''/releases/tags/'' @ rs_tag spec))) (\<lambda>release.
     case release of
       None \<Rightarrow> io_lift (Inr False)
     | Some release \<Rightarrow>
         io_try (io_lift (validate_release release spec source_sha)) (\<lambda>_. io_lift (Inr True)))"

definition release_payload_of :: "release_spec \<Rightarrow> string \<Rightarrow> latest_guard \<Rightarrow> release_payload" where
  "release_payload_of spec source_sha latest =
     \<lparr>rl_tag_name = rs_tag spec, rl_target_commitish = source_sha, rl_name = rs_tag spec,
      rl_body = rs_body spec, rl_draft = False, rl_prerelease = rs_prerelease spec,
      rl_generate_release_notes = False, rl_make_latest = request_value latest\<rparr>"

definition create_release ::
    "'z release_ext_scheme \<Rightarrow> github \<Rightarrow> release_spec \<Rightarrow> string \<Rightarrow> string \<Rightarrow> string \<Rightarrow> string \<Rightarrow> latest_guard
       \<Rightarrow> unit io" where
  "create_release x g spec source_sha policy_main_sha tagger_date tag_object_sha latest =
     io_try (rebind g spec source_sha policy_main_sha) (\<lambda>_.
     io_try (require_exact_tag_object g spec source_sha tagger_date tag_object_sha) (\<lambda>_.
     io_try (require_unchanged x g latest) (\<lambda>_ h.
     case gh_post g as_release (repo_path ''/releases'') (P_Release (release_payload_of spec source_sha latest)) h of
       (Inr release, h') \<Rightarrow> (validate_release release spec source_sha, h')
     | (Inl error, h') \<Rightarrow>
         io_try (inspect_release g spec source_sha) (\<lambda>exists.
         if exists then require_exact_tag_object g spec source_sha tagger_date tag_object_sha
         else io_lift (Inl error)) h')))"

definition reconcile_release ::
    "'z release_ext_scheme \<Rightarrow> github \<Rightarrow> release_spec \<Rightarrow> string \<Rightarrow> string \<Rightarrow> string \<Rightarrow> string \<Rightarrow> unit io" where
  "reconcile_release x g spec source_sha policy_main_sha tagger_date tag_object_sha =
     io_try (guard_capture x g (rs_line spec) (rs_tag spec)) (\<lambda>latest.
     io_try (inspect_release g spec source_sha) (\<lambda>exists.
     if exists
     then
       io_try (require_exact_tag_object g spec source_sha tagger_date tag_object_sha) (\<lambda>_.
       guard_verify x g latest)
     else
       io_try (create_release x g spec source_sha policy_main_sha tagger_date tag_object_sha latest) (\<lambda>_.
       io_try (inspect_release g spec source_sha) (\<lambda>retained.
       if \<not> retained then io_lift (Inl (Fmt ''immutable Release {} was not retained'' [rs_tag spec]))
       else
         io_try (require_exact_tag_object g spec source_sha tagger_date tag_object_sha) (\<lambda>_.
         guard_verify x g latest)))))"

section \<open>Packages\<close>

record finalization_policy =
  fp_line :: release_line
  fp_binding :: "binding option"

definition finalize_package ::
    "'z release_ext_scheme \<Rightarrow> github \<Rightarrow> package_policy \<Rightarrow> version \<Rightarrow> string \<Rightarrow> string \<Rightarrow> string
       \<Rightarrow> finalization_policy \<Rightarrow> unit io" where
  "finalize_package x g package version source_sha policy_main_sha tagger_date policy =
     io_try (io_lift (release_spec_new x package version source_sha)) (\<lambda>spec0.
     (let spec = spec0\<lparr>rs_line := fp_line policy, rs_binding := fp_binding policy\<rparr> in
      io_try (reconcile_tag g spec source_sha policy_main_sha tagger_date) (\<lambda>tag_object_sha.
      reconcile_release x g spec source_sha policy_main_sha tagger_date tag_object_sha)))"

text \<open>The loop of \<open>finalize\<close>: every package of the version's family, in order.\<close>

fun finalize_packages ::
    "'z release_ext_scheme \<Rightarrow> github \<Rightarrow> package_policy list \<Rightarrow> version \<Rightarrow> string \<Rightarrow> string \<Rightarrow> string
       \<Rightarrow> binding \<Rightarrow> unit io" where
  "finalize_packages x g [] version source_sha policy_main_sha date binding = io_lift (Inr ())"
| "finalize_packages x g (package # packages) version source_sha policy_main_sha date binding =
     io_try (binding_verify g binding) (\<lambda>_.
     io_try (finalize_package x g package version source_sha policy_main_sha date
         \<lparr>fp_line = bd_line binding, fp_binding = Some binding\<rparr>) (\<lambda>_.
     finalize_packages x g packages version source_sha policy_main_sha date binding))"

end
