(* ===== verification/Release_Policy_Facts.thy ===== *)
theory Release_Policy_Facts
  imports Release_Policy
begin

text \<open>
  The release lines are exactly the canonical protected references, the tags of a release are
  unambiguous, and a support line moves forward by one patch or one candidate at a time.
\<close>

section \<open>Prefixes and pieces\<close>

lemma strip_prefix_iff: "strip_prefix p s = Some r \<longleftrightarrow> s = p @ r"
  by (induction p s rule: strip_prefix.induct) auto

lemma strip_prefix_append [simp]: "strip_prefix p (p @ r) = Some r"
  by (simp add: strip_prefix_iff)

lemma split_once_iff: "split_once d s = Some (a, b) \<longleftrightarrow> s = a @ d # b \<and> d \<notin> set a"
proof (induction s arbitrary: a)
  case (Cons c cs)
  then show ?case by (cases a) auto
qed simp

section \<open>Decimal numbers\<close>

lemma of_char_digit [simp]: "d < 10 \<Longrightarrow> (of_char (digit_char d) :: nat) = 48 + d"
  by (simp add: digit_char_def of_char_of)

lemma digit_char_digit [simp]: "d < 10 \<Longrightarrow> is_ascii_digit (digit_char d)"
  by (simp add: is_ascii_digit_def)

lemma digit_char_of: "is_ascii_digit c \<Longrightarrow> digit_char (of_char c - 48) = c"
  by (simp add: digit_char_def is_ascii_digit_def)

lemma digits_value_snoc [simp]: "digits_value (s @ [c]) = 10 * digits_value s + (of_char c - 48)"
  by (simp add: digits_value_def)

lemma digits_value_Nil [simp]: "digits_value [] = 0"
  by (simp add: digits_value_def)

lemma show_nat_not_Nil [simp]: "show_nat n \<noteq> []"
  by (subst show_nat.simps) simp

lemma show_nat_digits: "list_all is_ascii_digit (show_nat n)"
proof (induction n rule: show_nat.induct)
  case (1 n)
  then show ?case by (cases "n < 10") (simp_all add: show_nat.simps [of n])
qed

lemma digits_value_show [simp]: "digits_value (show_nat n) = n"
proof (induction n rule: show_nat.induct)
  case (1 n)
  then show ?case
    by (cases "n < 10") (simp_all add: show_nat.simps [of n] digits_value_def)
qed

lemma digits_value_pos:
  "list_all is_ascii_digit s \<Longrightarrow> s \<noteq> [] \<Longrightarrow> hd s \<noteq> CHR ''0'' \<Longrightarrow> 0 < digits_value s"
proof (induction s rule: rev_induct)
  case (snoc c s)
  show ?case
  proof (cases "s = []")
    case True
    have "of_char c \<noteq> (48 :: nat)"
    proof
      assume "of_char c = (48 :: nat)"
      then have "of_char c = (of_char (CHR ''0'') :: nat)" by simp
      then have "c = CHR ''0''" by (simp only: of_char_eq_iff)
      then show False using snoc.prems True by simp
    qed
    then show ?thesis using snoc.prems True by (simp add: is_ascii_digit_def digits_value_def)
  qed (use snoc in simp)
qed simp

text \<open>Digits without a leading zero are the decimal form of their value.\<close>

lemma show_digits_value:
  "list_all is_ascii_digit s \<Longrightarrow> s \<noteq> [] \<Longrightarrow> length s = 1 \<or> hd s \<noteq> CHR ''0'' \<Longrightarrow> show_nat (digits_value s) = s"
proof (induction s rule: rev_induct)
  case (snoc c s)
  have c: "of_char c - 48 < (10 :: nat)" "digit_char (of_char c - 48) = c"
    using snoc.prems(1) by (simp_all add: digit_char_of) (auto simp: is_ascii_digit_def)
  show ?case
  proof (cases "s = []")
    case True
    then show ?thesis using c by (simp add: show_nat.simps digits_value_def)
  next
    case False
    then have s: "list_all is_ascii_digit s" "hd s \<noteq> CHR ''0''" using snoc.prems by simp_all
    then have "show_nat (digits_value s) = s" using snoc.IH False by simp
    moreover have "\<not> 10 * digits_value s + (of_char c - 48) < 10" using digits_value_pos [OF s(1) False s(2)] by simp
    ultimately show ?thesis using c by (simp add: show_nat.simps [of "10 * digits_value s + (of_char c - 48)"])
  qed
qed simp

lemma show_nat_hd: "0 < n \<Longrightarrow> hd (show_nat n) \<noteq> CHR ''0''"
proof (induction n rule: show_nat.induct)
  case (1 n)
  have "digit_char n \<noteq> CHR ''0''" if "n < 10"
  proof
    assume "digit_char n = CHR ''0''"
    then have "(of_char (digit_char n) :: nat) = of_char (CHR ''0'')" by simp
    then show False using that 1 by simp
  qed
  then show ?case using 1 by (cases "n < 10") (simp_all add: show_nat.simps [of n])
qed

lemma length_show_nat: "0 < k \<Longrightarrow> length (show_nat n) \<le> k \<longleftrightarrow> n < 10 ^ k"
proof (induction k arbitrary: n)
  case (Suc k)
  show ?case
  proof (cases "n < 10")
    case True
    then have "n < 10 * 10 ^ k" by (rule less_le_trans) simp
    then show ?thesis using True by (simp add: show_nat.simps [of n])
  next
    case False
    have "n div 10 < 10 ^ k \<longleftrightarrow> n < 10 * 10 ^ k" by (simp add: less_mult_imp_div_less div_less_iff_less_mult mult.commute)
    moreover have "\<not> n < 10 ^ 0 * 10" using False by simp
    ultimately show ?thesis using False Suc.IH [of "n div 10"] by (cases "k = 0") (simp_all add: show_nat.simps [of n])
  qed
qed simp

lemma parse_u64_show: "n < 2 ^ 64 \<Longrightarrow> parse_u64 (show_nat n) = Some n"
proof -
  assume n: "n < 2 ^ 64"
  obtain c cs where s: "show_nat n = c # cs" by (cases "show_nat n") simp_all
  moreover have "c \<noteq> CHR ''+''" using show_nat_digits [of n] s by (auto simp: is_ascii_digit_def)
  ultimately have "(case show_nat n of [] \<Rightarrow> [] | c # cs \<Rightarrow> if c = CHR ''+'' then cs else show_nat n) = show_nat n"
    by simp
  then show ?thesis using n show_nat_digits [of n] by (simp add: parse_u64_def Let_def not_le del: not_le)
qed

section \<open>Release lines\<close>

definition line_wf :: "release_line \<Rightarrow> bool" where
  "line_wf l \<longleftrightarrow> (case l of Main_Line \<Rightarrow> True | Support M N \<Rightarrow> M < 10 ^ 9 \<and> N < 10 ^ 9)"

lemma line_component_iff: "line_component s = Inr n \<longleftrightarrow> s = show_nat n \<and> n < 10 ^ 9"
proof
  assume c: "line_component s = Inr n"
  then have s: "s \<noteq> []" "length s \<le> 9" "length s = 1 \<or> hd s \<noteq> CHR ''0''" "list_all is_ascii_digit s"
    and p: "parse_u64 s = Some n"
    by (auto simp: line_component_def result_simps le_less_Suc_eq not_less Suc_le_eq split: if_splits)
       (cases s; simp)+
  have e: "show_nat (digits_value s) = s" using show_digits_value s by blast
  then have "digits_value s < 10 ^ 9" using length_show_nat [of 9 "digits_value s"] s(2) by simp
  then have "parse_u64 s = Some (digits_value s)" using parse_u64_show [of "digits_value s"] e by simp
  then show "s = show_nat n \<and> n < 10 ^ 9" using p e \<open>digits_value s < 10 ^ 9\<close> by simp
next
  assume a: "s = show_nat n \<and> n < 10 ^ 9"
  then have "\<not> (1 < length s \<and> hd s = CHR ''0'')"
    using show_nat_hd [of n] by (cases "n = 0") (simp_all add: show_nat.simps)
  then show "line_component s = Inr n"
    using a show_nat_digits [of n] length_show_nat [of 9 n] parse_u64_show [of n]
    by (auto simp: line_component_def)
qed

text \<open>
  The release lines. A reference is accepted as a release base exactly when it is the
  reference of a line, main or a support line whose two components are below a thousand
  million in canonical decimal form; so a line has one reference, and its tracking reference
  is under the remote.
\<close>

theorem base_ref_roundtrip:
  "(from_base_ref value = Inr line \<longleftrightarrow> value = base_ref line \<and> line_wf line) \<and>
   tracking_ref line = ''refs/remotes/origin/'' @ drop (length ''refs/heads/'') (base_ref line)"
proof
  have "split_once (CHR ''.'') s = Some (a, b) \<longleftrightarrow> s = a @ CHR ''.'' # b \<and> CHR ''.'' \<notin> set a" for s a b
    by (rule split_once_iff)
  moreover have dot: "CHR ''.'' \<notin> set (show_nat n)" for n
    using show_nat_digits [of n] by (auto simp: list_all_iff is_ascii_digit_def)
  ultimately have sup: "(\<exists>r. strip_prefix ''refs/heads/support/'' value = Some r \<and>
      (\<exists>a b. split_once (CHR ''.'') r = Some (a, b) \<and> line_component a = Inr M \<and> line_component b = Inr N))
      \<longleftrightarrow> value = base_ref (Support M N) \<and> M < 10 ^ 9 \<and> N < 10 ^ 9" for M N
    by (auto simp: strip_prefix_iff line_component_iff)
  show "from_base_ref value = Inr line \<longleftrightarrow> value = base_ref line \<and> line_wf line"
  proof (cases "value = ''refs/heads/main''")
    case True
    then show ?thesis by (cases line) (simp_all add: from_base_ref_def line_wf_def)
  next
    case False
    then show ?thesis
      using sup by (cases line) (auto simp: from_base_ref_def line_wf_def result_simps)
  qed
  show "tracking_ref line = ''refs/remotes/origin/'' @ drop (length ''refs/heads/'') (base_ref line)"
    by (cases line) (simp_all add: tracking_ref_def)
qed

section \<open>The order of versions\<close>

text \<open>
  The documented behaviour of \<open>semver\<close>: a strict total order, by the three numbers first, then a
  pre-release before its release and candidates by their ordinal; and display is inverse to
  parsing.
\<close>

definition semver_ok :: "'z release_ext_scheme \<Rightarrow> bool" where
  "semver_ok x \<longleftrightarrow>
     (\<forall>a. \<not> version_less x a a) \<and>
     (\<forall>a b c. version_less x a b \<longrightarrow> version_less x b c \<longrightarrow> version_less x a c) \<and>
     (\<forall>a b. a = b \<or> version_less x a b \<or> version_less x b a) \<and>
     (\<forall>a b. v_major a = v_major b \<and> v_minor a = v_minor b \<and>
        (v_patch a < v_patch b \<or>
         v_patch a = v_patch b \<and>
           (v_pre a \<noteq> [] \<and> v_pre b = [] \<or>
            (\<exists>m n. v_pre a = ''rc.'' @ show_nat m \<and> v_pre b = ''rc.'' @ show_nat n \<and> m < n))) \<longrightarrow>
        version_less x a b)"

lemma semver_okD:
  assumes "semver_ok x"
  shows "\<not> version_less x a a" "version_less x a b \<Longrightarrow> version_less x b c \<Longrightarrow> version_less x a c"
    "a = b \<or> version_less x a b \<or> version_less x b a"
    "v_major a = v_major b \<Longrightarrow> v_minor a = v_minor b \<Longrightarrow> v_patch a < v_patch b \<Longrightarrow> version_less x a b"
    "v_major a = v_major b \<Longrightarrow> v_minor a = v_minor b \<Longrightarrow> v_patch a = v_patch b \<Longrightarrow> v_pre a \<noteq> [] \<Longrightarrow>
       v_pre b = [] \<Longrightarrow> version_less x a b"
    "v_major a = v_major b \<Longrightarrow> v_minor a = v_minor b \<Longrightarrow> v_patch a = v_patch b \<Longrightarrow>
       v_pre a = ''rc.'' @ show_nat m \<Longrightarrow> v_pre b = ''rc.'' @ show_nat n \<Longrightarrow> m < n \<Longrightarrow> version_less x a b"
  using assms unfolding semver_ok_def by blast+

lemma max_version_snoc:
  "max_version x (vs @ [v]) = (case max_version x vs of
     None \<Rightarrow> Some v | Some b \<Rightarrow> if version_less x v b then Some b else Some v)"
  by (simp add: max_version_def)

lemma max_version_Nil [simp]: "max_version x [] = None"
  by (simp add: max_version_def)

lemma max_version_single [simp]: "max_version x [v] = Some v"
  by (simp add: max_version_def)

lemma max_version_None [simp]: "max_version x vs = None \<longleftrightarrow> vs = []"
  by (cases vs rule: rev_cases) (auto simp: max_version_snoc split: option.splits)

lemma max_version_Some:
  assumes "semver_ok x"
  shows "max_version x vs = Some m \<longleftrightarrow> m \<in> set vs \<and> (\<forall>v\<in>set vs. \<not> version_less x m v)"
proof (induction vs arbitrary: m rule: rev_induct)
  case (snoc v vs)
  note d = semver_okD [OF assms]
  show ?case
  proof (cases "max_version x vs")
    case None
    then show ?thesis using d(1) by (auto simp: max_version_snoc)
  next
    case (Some b)
    then have b: "b \<in> set vs" "\<forall>v\<in>set vs. \<not> version_less x b v" using snoc.IH by simp_all
    have "m \<in> set (vs @ [v]) \<and> (\<forall>u\<in>set (vs @ [v]). \<not> version_less x m u) \<longleftrightarrow>
        m = (if version_less x v b then b else v)"
    proof (cases "version_less x v b")
      case True
      then have "\<not> version_less x b v" using d(1,2) by blast
      then show ?thesis using True b d(3) [of m b] by auto
    next
      case False
      have "\<not> version_less x v u" if "u \<in> set vs" for u
        using False b(2) that d(2) d(3) [of v b] by blast
      then show ?thesis using False d(1) d(3) [of m v] by auto
    qed
    then show ?thesis using Some by (auto simp: max_version_snoc)
  qed
qed simp

section \<open>Advancing a support line\<close>

lemma rc_ordinal_iff: "rc_ordinal v = Inr n \<longleftrightarrow> v_pre v = ''rc.'' @ show_nat n \<and> 0 < n \<and> n < 2 ^ 64"
proof -
  have "n < 2 ^ 64" if "parse_u64 s = Some n" for s n
    using that by (auto simp: parse_u64_def Let_def not_le split: if_splits)
  then show ?thesis
    by (auto simp: rc_ordinal_def result_simps strip_prefix_iff parse_u64_show simp del: strip_prefix.simps
        split: if_splits)
qed

definition stable_on :: "release_line \<Rightarrow> version \<Rightarrow> bool" where
  "stable_on l v \<longleftrightarrow> admits_version l v \<and> v_pre v = [] \<and> v_build v = []"

text \<open>The patch of the last stable version of a line.\<close>

definition last_stable_patch :: "release_line \<Rightarrow> version list \<Rightarrow> nat \<Rightarrow> bool" where
  "last_stable_patch l published p \<longleftrightarrow>
     (\<exists>v\<in>set published. stable_on l v \<and> v_patch v = p) \<and>
     (\<forall>v\<in>set published. stable_on l v \<longrightarrow> v_patch v \<le> p)"

lemma last_stable:
  assumes "semver_ok x" and "l \<noteq> Main_Line"
  shows "(\<exists>st. max_version x (filter (\<lambda>v. admits_version l v \<and> v_pre v = [] \<and> v_build v = []) published) = Some st
           \<and> v_patch st = p) \<longleftrightarrow> last_stable_patch l published p"
proof -
  obtain M N where l: "l = Support M N" using assms(2) by (cases l) simp_all
  have less: "version_less x a b \<longleftrightarrow> v_patch a < v_patch b" if "stable_on l a" "stable_on l b" for a b
  proof (cases "v_patch a = v_patch b")
    case True
    then have "a = b" using that by (simp add: stable_on_def l)
    then show ?thesis using semver_okD(1) [OF assms(1)] by simp
  next
    case False
    moreover have "v_major a = v_major b" "v_minor a = v_minor b" using that by (simp_all add: stable_on_def l)
    ultimately show ?thesis
      using semver_okD(4) [OF assms(1), of a b] semver_okD(4) [OF assms(1), of b a]
        semver_okD(1,2) [OF assms(1)] by (metis nat_neq_iff)
  qed
  have f: "filter (\<lambda>v. admits_version l v \<and> v_pre v = [] \<and> v_build v = []) published = filter (stable_on l) published"
    by (rule filter_cong) (simp_all add: stable_on_def)
  show ?thesis
    unfolding f max_version_Some [OF assms(1)] last_stable_patch_def set_filter
    using less by (smt (verit, best) mem_Collect_eq not_less)
qed

lemma candidate_step:
  "result_try (rc_ordinal selected) (\<lambda>next.
     case previous of
       Some v \<Rightarrow>
         result_try (rc_ordinal v) (\<lambda>ordinal.
         if checked_succ_u64 ordinal \<noteq> Some next
         then Inl (Msg ''support RC must advance by exactly one ordinal'') else Inr ())
     | None \<Rightarrow> Inr ()) = Inr () \<longleftrightarrow>
   (\<exists>n. rc_ordinal selected = Inr n \<and> (\<forall>v. previous = Some v \<longrightarrow> (\<exists>m. rc_ordinal v = Inr m \<and> n = m + 1)))"
proof (cases previous)
  case (Some v)
  have "m + 1 < 2 ^ 64" if "rc_ordinal selected = Inr n" "n = m + 1" for m n
    using that by (simp add: rc_ordinal_iff)
  then show ?thesis
    unfolding Some by (auto simp: result_simps checked_succ_u64_def split: if_splits)
qed (simp add: result_simps)

text \<open>Candidates of the patch that are published already, on the line.\<close>

definition same_patch :: "release_line \<Rightarrow> version \<Rightarrow> version list \<Rightarrow> version list" where
  "same_patch l selected published = filter (\<lambda>v. admits_version l v \<and> v_patch v = v_patch selected) published"

definition next_candidate :: "'z release_ext_scheme \<Rightarrow> release_line \<Rightarrow> version list \<Rightarrow> version \<Rightarrow> bool" where
  "next_candidate x l published v \<longleftrightarrow>
     (\<exists>n. v_pre v = ''rc.'' @ show_nat n \<and> 0 < n \<and> n < 2 ^ 64 \<and>
        (same_patch l v published = [] \<or>
         (\<exists>u\<in>set (same_patch l v published). (\<forall>w\<in>set (same_patch l v published). \<not> version_less x u w) \<and>
            1 < n \<and> v_pre u = ''rc.'' @ show_nat (n - 1))))"

lemma next_candidate_iff:
  assumes "semver_ok x"
  shows "next_candidate x l published v \<longleftrightarrow>
    (\<exists>n. rc_ordinal v = Inr n \<and>
       (\<forall>u. max_version x (same_patch l v published) = Some u \<longrightarrow> (\<exists>m. rc_ordinal u = Inr m \<and> n = m + 1)))"
proof (cases "max_version x (same_patch l v published)")
  case (Some u)
  then have u: "u \<in> set (same_patch l v published)"
    "\<forall>w\<in>set (same_patch l v published). \<not> version_less x u w"
    using max_version_Some [OF assms] by simp_all
  then have unique: "u' = u" if "u' \<in> set (same_patch l v published)"
    "\<forall>w\<in>set (same_patch l v published). \<not> version_less x u' w" for u'
    using that semver_okD(3) [OF assms, of u u'] by blast
  have step: "rc_ordinal v = Inr n \<and> (\<exists>m. rc_ordinal u = Inr m \<and> n = m + 1) \<longleftrightarrow>
      v_pre v = ''rc.'' @ show_nat n \<and> 0 < n \<and> n < 2 ^ 64 \<and> 1 < n \<and> v_pre u = ''rc.'' @ show_nat (n - 1)" for n
  proof
    assume "rc_ordinal v = Inr n \<and> (\<exists>m. rc_ordinal u = Inr m \<and> n = m + 1)"
    then show "v_pre v = ''rc.'' @ show_nat n \<and> 0 < n \<and> n < 2 ^ 64 \<and> 1 < n \<and> v_pre u = ''rc.'' @ show_nat (n - 1)"
      unfolding rc_ordinal_iff by (elim conjE exE) simp
  next
    assume a: "v_pre v = ''rc.'' @ show_nat n \<and> 0 < n \<and> n < 2 ^ 64 \<and> 1 < n \<and> v_pre u = ''rc.'' @ show_nat (n - 1)"
    then have "n - 1 < 2 ^ 64" by (elim conjE) (rule less_imp_diff_less)
    with a have "rc_ordinal u = Inr (n - 1)" "n = (n - 1) + 1" unfolding rc_ordinal_iff by simp_all
    then show "rc_ordinal v = Inr n \<and> (\<exists>m. rc_ordinal u = Inr m \<and> n = m + 1)"
      using a unfolding rc_ordinal_iff by blast
  qed
  have "same_patch l v published \<noteq> []" using u(1) by auto
  then have "next_candidate x l published v \<longleftrightarrow>
      (\<exists>n. v_pre v = ''rc.'' @ show_nat n \<and> 0 < n \<and> n < 2 ^ 64 \<and> 1 < n \<and> v_pre u = ''rc.'' @ show_nat (n - 1))"
    unfolding next_candidate_def using u unique by blast
  then show ?thesis unfolding step [symmetric] Some option.inject by blast
qed (auto simp: next_candidate_def rc_ordinal_iff)

lemma advancement_iff:
  assumes "semver_ok x"
  shows "require_advancement x (Support M N) selected published = Inr () \<longleftrightarrow>
    admits_version (Support M N) selected \<and> v_build selected = [] \<and> selected \<notin> set published \<and>
    (\<exists>p. last_stable_patch (Support M N) published p \<and> v_patch selected = p + 1 \<and> p + 1 < 2 ^ 64) \<and>
    (v_pre selected = [] \<or> next_candidate x (Support M N) published selected)"
proof -
  let ?l = "Support M N"
  let ?f = "filter (\<lambda>v. admits_version ?l v \<and> v_pre v = [] \<and> v_build v = []) published"
  have patch: "checked_succ_u64 p = Some q \<longleftrightarrow> q = p + 1 \<and> p + 1 < 2 ^ 64" for p q
    by (auto simp: checked_succ_u64_def)
  have last: "(\<exists>st. max_version x ?f = Some st \<and> v_patch selected = v_patch st + 1 \<and> v_patch st + 1 < 2 ^ 64) \<longleftrightarrow>
      (\<exists>p. last_stable_patch ?l published p \<and> v_patch selected = p + 1 \<and> p + 1 < 2 ^ 64)"
    unfolding last_stable [OF assms release_line.distinct(2), symmetric] by blast
  have "require_advancement x ?l selected published = Inr () \<longleftrightarrow>
      admits_version ?l selected \<and> v_build selected = [] \<and>
      (\<exists>st. max_version x ?f = Some st \<and> v_patch selected = v_patch st + 1 \<and> v_patch st + 1 < 2 ^ 64) \<and>
      selected \<notin> set published \<and> (v_pre selected = [] \<or> next_candidate x ?l published selected)"
    unfolding next_candidate_iff [OF assms] candidate_step [symmetric] same_patch_def require_advancement_def
      require_version_def
    by (cases "max_version x ?f") (simp_all add: patch [unfolded checked_succ_u64_def] checked_succ_u64_def cong: conj_cong)
  then show ?thesis unfolding last by blast
qed

text \<open>
  Advancing a support line. A version is accepted for publication on a support line
  exactly when it is on the line, has no build metadata, was not published before, is on the
  patch after the last published stable version, and is that patch's stable version or its next
  candidate: any positive ordinal when the patch has none, and else one more than the greatest.
  What is accepted comes after everything the line published as stable and, build metadata
  aside, after everything published on its own patch; main accepts any version.
\<close>

theorem support_advancement_correct:
  assumes "semver_ok x"
  shows "require_advancement x Main_Line selected published = Inr () \<and>
    (require_advancement x (Support M N) selected published = Inr () \<longleftrightarrow>
       admits_version (Support M N) selected \<and> v_build selected = [] \<and> selected \<notin> set published \<and>
       (\<exists>p. last_stable_patch (Support M N) published p \<and> v_patch selected = p + 1 \<and> p + 1 < 2 ^ 64) \<and>
       (v_pre selected = [] \<or> next_candidate x (Support M N) published selected)) \<and>
    (require_advancement x (Support M N) selected published = Inr () \<and> v \<in> set published \<and>
     admits_version (Support M N) v \<and> v_build v = [] \<and> (v_pre v = [] \<or> v_patch v = v_patch selected) \<longrightarrow>
       version_less x v selected)"
proof (intro conjI impI)
  show "require_advancement x Main_Line selected published = Inr ()"
    by (simp add: require_advancement_def require_version_def)
  show "require_advancement x (Support M N) selected published = Inr () \<longleftrightarrow>
      admits_version (Support M N) selected \<and> v_build selected = [] \<and> selected \<notin> set published \<and>
      (\<exists>p. last_stable_patch (Support M N) published p \<and> v_patch selected = p + 1 \<and> p + 1 < 2 ^ 64) \<and>
      (v_pre selected = [] \<or> next_candidate x (Support M N) published selected)"
    by (rule advancement_iff [OF assms])
  assume a: "require_advancement x (Support M N) selected published = Inr () \<and> v \<in> set published \<and>
     admits_version (Support M N) v \<and> v_build v = [] \<and> (v_pre v = [] \<or> v_patch v = v_patch selected)"
  then obtain p where p: "last_stable_patch (Support M N) published p" "v_patch selected = p + 1"
    and s: "admits_version (Support M N) selected" "v_pre selected = [] \<or> next_candidate x (Support M N) published selected"
    unfolding advancement_iff [OF assms] by blast
  have core: "v_major v = v_major selected" "v_minor v = v_minor selected" using a s(1) by simp_all
  show "version_less x v selected"
  proof (cases "v_patch v < v_patch selected")
    case True
    then show ?thesis using semver_okD(4) [OF assms core] by blast
  next
    case False
    then have "v_patch v = v_patch selected" "v_pre v \<noteq> []"
      using a p by (auto simp: last_stable_patch_def stable_on_def)
    then have mem: "v \<in> set (same_patch (Support M N) selected published)" and patch: "v_patch v = v_patch selected"
      using a by (simp_all add: same_patch_def)
    show ?thesis
    proof (cases "v_pre selected = []")
      case True
      then show ?thesis using semver_okD(5) [OF assms core patch \<open>v_pre v \<noteq> []\<close>] by blast
    next
      case False
      then obtain n u where n: "v_pre selected = ''rc.'' @ show_nat n" "1 < n" "v_pre u = ''rc.'' @ show_nat (n - 1)"
        and u: "u \<in> set (same_patch (Support M N) selected published)"
          "\<forall>w\<in>set (same_patch (Support M N) selected published). \<not> version_less x u w"
        using s(2) mem unfolding next_candidate_def by auto
      have "version_less x u selected"
        by (rule semver_okD(6) [OF assms _ _ _ n(3,1)]) (use u(1) s(1) n(2) in \<open>simp_all add: same_patch_def\<close>)
      moreover have "v = u \<or> version_less x v u" using u(2) mem semver_okD(3) [OF assms, of u v] by blast
      ultimately show ?thesis using semver_okD(2) [OF assms] by blast
    qed
  qed
qed

end
