(* ===== verification/Github_Facts.thy ===== *)
theory Github_Facts
  imports Github_Finalize Release_Policy_Facts
begin

text \<open>
  The finalizer against an arbitrary GitHub: before each write it has just bound the policy,
  the source and the objects the write depends on, it writes each object at most once and only
  where none exists, and when it succeeds it has read back exactly what it is to establish.
\<close>

section \<open>Runs and their writes\<close>

fun is_effect :: "request \<Rightarrow> bool" where
  "is_effect (Post path payload) = True"
| "is_effect (Append name value) = True"
| "is_effect _ = False"

text \<open>
  An effect is a write to GitHub or a line of the workflow's output. The histories an action can
  lead to: each step sends one request, and one with an effect only where \<open>P\<close> holds of everything that happened before.
\<close>

inductive sends :: "github \<Rightarrow> (history \<Rightarrow> request \<Rightarrow> bool) \<Rightarrow> history \<Rightarrow> history \<Rightarrow> bool"
  for g P h where
  sends_refl: "sends g P h h"
| sends_step: "sends g P h h' \<Longrightarrow> (is_effect q \<Longrightarrow> P h' q) \<Longrightarrow> sends g P h ((q, g h' q) # h')"

lemma sends_trans: "sends g P h1 h2 \<Longrightarrow> sends g P h h1 \<Longrightarrow> sends g P h h2"
  by (induction rule: sends.induct) (auto intro: sends.intros)

lemma sends_mono: "sends g P h h' \<Longrightarrow> (\<And>h q. P h q \<Longrightarrow> P' h q) \<Longrightarrow> sends g P' h h'"
  by (induction rule: sends.induct) (auto intro: sends.intros)

text \<open>The meaning of \<open>sends\<close> in terms of the events that were added.\<close>

lemma sends_events:
  "sends g P h h' \<Longrightarrow> \<exists>es. h' = es @ h \<and>
     (\<forall>pre q resp suf. es = pre @ (q, resp) # suf \<and> is_effect q \<longrightarrow> P (suf @ h) q)"
proof (induction rule: sends.induct)
  case (sends_step h' q)
  then obtain es where es: "h' = es @ h"
    "\<forall>pre q resp suf. es = pre @ (q, resp) # suf \<and> is_effect q \<longrightarrow> P (suf @ h) q" by blast
  show ?case
  proof (intro exI conjI allI impI)
    show "(q, g h' q) # h' = ((q, g h' q) # es) @ h" using es(1) by simp
    fix pre q' resp suf
    assume a: "(q, g h' q) # es = pre @ (q', resp) # suf \<and> is_effect q'"
    then show "P (suf @ h) q'"
      using es sends_step.hyps(2) by (cases pre) auto
  qed
qed simp

definition no_writes :: "history \<Rightarrow> request \<Rightarrow> bool" where
  "no_writes h q \<longleftrightarrow> False"

text \<open>An action that only reads.\<close>

definition reads :: "github \<Rightarrow> 'a io \<Rightarrow> bool" where
  "reads g m \<longleftrightarrow> (\<forall>h r h'. m h = (r, h') \<longrightarrow> sends g no_writes h h')"

named_theorems reads_rules "actions that only read"

lemma reads_lift [reads_rules]: "reads g (io_lift r)"
  by (simp add: reads_def io_lift_def sends_refl)

lemma reads_try [reads_rules]: "reads g m \<Longrightarrow> (\<And>a. reads g (f a)) \<Longrightarrow> reads g (io_try m f)"
  unfolding reads_def io_try_def by (fastforce split: prod.splits sum.splits intro: sends_trans)

lemma reads_if [reads_rules]: "reads g m \<Longrightarrow> reads g m' \<Longrightarrow> reads g (if b then m else m')"
  by simp

lemma reads_option [reads_rules]:
  "reads g m \<Longrightarrow> (\<And>a. reads g (f a)) \<Longrightarrow> reads g (case v of None \<Rightarrow> m | Some a \<Rightarrow> f a)"
  by (cases v) simp_all

lemma reads_prod [reads_rules]: "(\<And>a b. reads g (f a b)) \<Longrightarrow> reads g (case p of (a, b) \<Rightarrow> f a b)"
  by (cases p) simp

lemma sends_one: "(is_effect q \<Longrightarrow> P h q) \<Longrightarrow> g h q = resp \<Longrightarrow> sends g P h ((q, resp) # h)"
  using sends_step [of g P h h q] sends_refl by metis

lemma reads_request: "\<not> is_effect q \<Longrightarrow> reads g (gh_request g q)"
  unfolding reads_def gh_request_def send_def
  by (auto split: response.splits request.splits if_splits intro!: sends_refl sends_one)

lemma reads_get [reads_rules]: "reads g (gh_get g dec path)" "reads g (gh_get_optional g dec path)"
  unfolding gh_get_def gh_get_optional_def by (intro reads_rules reads_request; simp)+

lemma reads_ref [reads_rules]: "reads g (read_ref g base)" "reads g (compare_commits g source tip)"
  unfolding read_ref_def compare_commits_def by (intro reads_rules)+

lemma reads_anchor [reads_rules]: "reads g (verify_anchor g main anchor commits)"
proof (induction commits)
  case (Cons commit commits)
  show ?case unfolding verify_anchor.simps by (intro reads_rules Cons.IH)
qed (simp add: reads_lift)

lemma reads_binding [reads_rules]: "reads g (binding_verify g b)"
  unfolding binding_verify_def by (intro reads_rules)

lemma reads_tag [reads_rules]: "reads g (inspect_tag g spec src date)"
  "reads g (require_exact_tag_object g spec src date sha)" "reads g (inspect_release g spec src)"
  unfolding require_exact_tag_object_def inspect_tag_def inspect_release_def by (intro reads_rules)+

lemma reads_latest [reads_rules]: "reads g (latest_read x g)" "reads g (guard_capture x g line tag)"
  "reads g (require_unchanged x g guard)" "reads g (guard_verify x g guard)"
  unfolding guard_capture_def require_unchanged_def guard_verify_def latest_read_def by (intro reads_rules)+

lemma reads_policy [reads_rules]: "reads g (require_main_ancestry g src main)" "reads g (main_sha g)"
  "reads g (require_current_mutation_policy g src main)" "reads g (rebind g spec src main)"
  unfolding rebind_def require_current_mutation_policy_def require_main_ancestry_def main_sha_def
  by (intro reads_rules)+

section \<open>What an answer establishes\<close>

lemma io_lift_iff [simp]: "io_lift r h = (r', h') \<longleftrightarrow> r = r' \<and> h' = h"
  by (auto simp: io_lift_def)

lemma io_try_Inr: "io_try m f h = (Inr b, h') \<longleftrightarrow> (\<exists>a h1. m h = (Inr a, h1) \<and> f a h1 = (Inr b, h'))"
  by (auto simp: io_try_def split: prod.splits sum.splits)

lemma as_Some [simp]:
  "as_ref b = Some r \<longleftrightarrow> b = B_Ref r" "as_comparison b = Some c \<longleftrightarrow> b = B_Comparison c"
  "as_tag b = Some t \<longleftrightarrow> b = B_Tag t" "as_release b = Some l \<longleftrightarrow> b = B_Release l"
  "as_latest b = Some n \<longleftrightarrow> b = B_Latest n"
  "as_run b = Some run' \<longleftrightarrow> b = B_Run run'"
  "as_workflow b = Some workflow' \<longleftrightarrow> b = B_Workflow workflow'"
  "as_artifacts b = Some artifacts' \<longleftrightarrow> b = B_Artifacts artifacts'"
  "as_commit b = Some commit' \<longleftrightarrow> b = B_Commit commit'"
  "as_commits b = Some commits' \<longleftrightarrow> b = B_Commits commits'"
  "as_signature b = Some signature' \<longleftrightarrow> b = B_Signature signature'"
  "as_pull b = Some pull' \<longleftrightarrow> b = B_Pull pull'"
  "as_associated b = Some associated' \<longleftrightarrow> b = B_Associated associated'"
  "as_files b = Some files' \<longleftrightarrow> b = B_Files files'"
  "as_installation b = Some installation' \<longleftrightarrow> b = B_Installation installation'"
  "as_references b = Some references' \<longleftrightarrow> b = B_References references'"
  by (cases b; auto)+

lemma gh_get_iff: "gh_get g dec path h = (Inr a, h') \<longleftrightarrow>
    request_path_ok path \<and> (\<exists>b. g h (Get path) = Body b \<and> dec b = Some a \<and> h' = (Get path, Body b) # h)"
  unfolding gh_get_def io_try_Inr
  by (auto simp: gh_request_def send_def gh_decode_def result_simps split: response.splits option.splits if_splits)

text \<open>What an answer says of an object that may not exist.\<close>

fun answered :: "(body \<Rightarrow> 'a option) \<Rightarrow> response \<Rightarrow> 'a option option" where
  "answered dec Not_Found = Some None"
| "answered dec (Body b) = map_option Some (dec b)"
| "answered dec _ = None"

lemma gh_get_optional_iff: "gh_get_optional g dec path h = (Inr a, h') \<longleftrightarrow>
    request_path_ok path \<and> (\<exists>resp. g h (Get path) = resp \<and> answered dec resp = Some a \<and> h' = (Get path, resp) # h)"
  unfolding gh_get_optional_def io_try_Inr
  by (auto simp: gh_request_def send_def gh_decode_def result_simps
      split: response.splits option.splits if_splits)

lemma answered_Some: "answered dec resp = Some (Some a) \<longleftrightarrow> (\<exists>b. resp = Body b \<and> dec b = Some a)"
  by (cases resp) auto

lemma answered_None: "answered dec resp = Some None \<longleftrightarrow> resp = Not_Found"
  by (cases resp) auto

lemma latest_read_iff: "latest_read x g h = (Inr l, h') \<Longrightarrow>
    \<exists>resp. answered as_latest resp = Some l \<and> h' = (Get (repo_path ''/releases/latest''), resp) # h"
  unfolding latest_read_def io_try_Inr gh_get_optional_iff
  by (elim exE conjE) (auto simp: io_try_Inr split: option.splits prod.splits if_splits)

text \<open>The two events of an annotated tag that was read and is exactly the tag of the release.\<close>

definition tag_events ::
    "release_spec \<Rightarrow> string \<Rightarrow> string \<Rightarrow> string \<Rightarrow> git_ref \<Rightarrow> annotated_tag \<Rightarrow> history" where
  "tag_events spec source_sha date sha reference object =
     [(Get (repo_path (''/git/tags/'' @ sha)), Body (B_Tag object)),
      (Get (repo_path (''/git/ref/tags/'' @ rs_tag spec)), Body (B_Ref reference))]"

definition exact_tag ::
    "release_spec \<Rightarrow> string \<Rightarrow> string \<Rightarrow> string \<Rightarrow> git_ref \<Rightarrow> annotated_tag \<Rightarrow> bool" where
  "exact_tag spec source_sha date sha reference object \<longleftrightarrow>
     validate_tag_ref reference spec = Inr sha \<and> validate_tag object spec source_sha date sha = Inr ()"

lemma require_exact_tag_events: "require_exact_tag_object g spec src date sha h = (Inr (), h') \<Longrightarrow>
    \<exists>r t. h' = tag_events spec src date sha r t @ h \<and> exact_tag spec src date sha r t"
  unfolding require_exact_tag_object_def inspect_tag_def io_try_Inr gh_get_optional_iff
  by (auto simp: io_try_Inr gh_get_iff tag_events_def exact_tag_def answered_Some split: option.splits if_splits)

lemma inspect_release_events: "inspect_release g spec src h = (Inr b, h') \<Longrightarrow>
    \<exists>resp. h' = (Get (repo_path (''/releases/tags/'' @ rs_tag spec)), resp) # h \<and>
      (if b then \<exists>l. resp = Body (B_Release l) \<and> validate_release l spec src = Inr () else resp = Not_Found)"
  unfolding inspect_release_def io_try_Inr gh_get_optional_iff
  by (auto simp: io_try_Inr answered_Some answered_None split: option.splits)

text \<open>
  The policy is bound: the last two answers are the protected references, main at the executing
  policy and the base of the line, which of a fresh release is exactly the source; and the source
  was found on the base.
\<close>

definition ref_read :: "string \<Rightarrow> string \<Rightarrow> request \<times> response \<Rightarrow> bool" where
  "ref_read base sha e \<longleftrightarrow> (\<exists>branch r. base = ''refs/'' @ branch \<and>
     e = (Get (repo_path (''/git/ref/'' @ branch)), Body (B_Ref r)) \<and>
     gr_name r = base \<and> go_kind (gr_object r) = ''commit'' \<and> go_sha (gr_object r) = sha \<and> is_sha sha)"

definition policy_bound :: "binding \<Rightarrow> history \<Rightarrow> bool" where
  "policy_bound b h \<longleftrightarrow> (\<exists>e_main e_base base c rest. h = e_main # e_base # rest \<and>
     ref_read ''refs/heads/main'' (bd_main b) e_main \<and> ref_read (base_ref (bd_line b)) base e_base \<and>
     (bd_operation b = Recover_Source \<or> base = bd_source b) \<and>
     (Get (repo_path (''/compare/'' @ bd_source b @ ''...'' @ base)), Body (B_Comparison c)) \<in> set rest \<and>
     cmp_status c \<in> {''ahead'', ''identical''} \<and> cmp_base_commit c = bd_source b \<and>
     cmp_merge_base_commit c = bd_source b)"

lemma read_ref_events: "read_ref g base h = (Inr sha, h') \<Longrightarrow> \<exists>e. h' = e # h \<and> ref_read base sha e"
  unfolding read_ref_def io_try_Inr gh_get_iff
  by (auto simp: io_try_Inr gh_get_iff result_simps strip_prefix_iff ref_read_def split: option.splits if_splits)

lemma sends_suffix: "sends g P h h' \<Longrightarrow> set h \<subseteq> set h'"
  by (induction rule: sends.induct) auto

lemma reads_suffix: "reads g m \<Longrightarrow> m h = (r, h') \<Longrightarrow> e \<in> set h \<Longrightarrow> e \<in> set h'"
  unfolding reads_def using sends_suffix by blast

lemma binding_verify_bound:
  assumes "binding_verify g b h = (Inr (), h')"
  shows "policy_bound b h'"
proof -
  obtain base c h1 h2 h3 h4 where fresh: "\<not> (bd_operation b = Fresh \<and> base \<noteq> bd_source b)"
    and cmp: "compare_commits g (bd_source b) base h1 = (Inr c, h2)"
      "cmp_status c \<in> {''ahead'', ''identical''}" "cmp_base_commit c = bd_source b"
      "cmp_merge_base_commit c = bd_source b"
    and anchor: "(case bd_anchor b of
        Some anchor \<Rightarrow> verify_anchor g (bd_main b) anchor [bd_source b, base]
      | None \<Rightarrow> io_lift (Inr ())) h2 = (Inr (), h3)"
    and again: "read_ref g (base_ref (bd_line b)) h3 = (Inr base, h4)"
    and main: "read_ref g ''refs/heads/main'' h4 = (Inr (bd_main b), h')"
    using assms unfolding binding_verify_def
    by (clarsimp simp: io_try_Inr split: if_splits)
  have "reads g (case bd_anchor b of
      Some anchor \<Rightarrow> verify_anchor g (bd_main b) anchor [bd_source b, base] | None \<Rightarrow> io_lift (Inr ()))"
    by (intro reads_rules)
  note keep = reads_suffix [OF this anchor]
  have "(Get (repo_path (''/compare/'' @ bd_source b @ ''...'' @ base)), Body (B_Comparison c)) \<in> set h2"
    using cmp(1) by (auto simp: compare_commits_def gh_get_iff)
  note keep [OF this]
  moreover obtain e_base where "h4 = e_base # h3" "ref_read (base_ref (bd_line b)) base e_base"
    using read_ref_events [OF again] by blast
  moreover obtain e_main where "h' = e_main # h4" "ref_read ''refs/heads/main'' (bd_main b) e_main"
    using read_ref_events [OF main] by blast
  moreover have "bd_operation b = Recover_Source \<or> base = bd_source b"
    using fresh by (cases "bd_operation b") auto
  ultimately show ?thesis unfolding policy_bound_def using cmp(2-4) by blast
qed

section \<open>Tags\<close>

lemma prefix_iff: "strip_prefix (p @ q) (p @ s) = strip_prefix q s"
  by (induction p) simp_all

lemma release_order_prefixes: "i < length ALL_PACKAGES \<Longrightarrow>
    release_order x (pp_tag_prefix (ALL_PACKAGES ! i) @ raw) =
      result_try (ok_or (version_parse x raw) (Msg ''Latest tag has an invalid version'')) (\<lambda>version.
      if version_to_string x version \<noteq> raw \<or> v_build version \<noteq> [] \<or> i \<ge> length (rp_packages (for_version version))
      then Inl (Msg ''Latest tag has a noncanonical version'') else Inr (version, i))"
proof -
  assume i: "i < length ALL_PACKAGES"
  have "i = 0 \<or> i = Suc 0 \<or> i = Suc (Suc 0) \<or> i = Suc (Suc (Suc 0)) \<or> i = Suc (Suc (Suc (Suc 0)))"
    using i by (auto simp: ALL_PACKAGES_def)
  then show ?thesis
    by (elim disjE; hypsubst; simp add: release_order_def package_prefixes_def ALL_PACKAGES_def)
qed

lemma release_order_from_tag: "release_order_from x k prefixes tag = Inr r \<Longrightarrow>
    \<exists>i raw. i < length prefixes \<and> tag = prefixes ! i @ raw"
proof (induction x k prefixes tag rule: release_order_from.induct)
  case (2 x ordinal prefix prefixes tag)
  then show ?case
    by (cases "strip_prefix prefix tag")
      (fastforce simp: strip_prefix_iff intro: exI [of _ 0] exI [of _ "Suc _"])+
qed simp

lemma version_packages: "length (rp_packages (for_version v)) \<le> length ALL_PACKAGES"
  by (simp add: for_version_def RUST_POLICY_def)

text \<open>
  The tags of a release are unambiguous. The tag of each package of a version's family is
  read back as that version and that package, for every version that parsing takes back from its
  display and that has no build metadata, and nothing else is read as a member of the family: a
  tag with another version's display, of a package the family of the version does not have, or of
  another name is refused. No prefix of a package hides another's.
\<close>

theorem release_tags_roundtrip:
  assumes "version_parse x (version_to_string x v) = Some v"
  shows "release_order x tag = Inr (v, i) \<longleftrightarrow>
    v_build v = [] \<and> i < length (rp_packages (for_version v)) \<and>
    tag = package_tag (ALL_PACKAGES ! i) (version_to_string x v)"
proof
  assume r: "release_order x tag = Inr (v, i)"
  then obtain j raw where j: "j < length ALL_PACKAGES" "tag = pp_tag_prefix (ALL_PACKAGES ! j) @ raw"
    unfolding release_order_def package_prefixes_def by (fastforce dest: release_order_from_tag)
  show "v_build v = [] \<and> i < length (rp_packages (for_version v)) \<and>
      tag = package_tag (ALL_PACKAGES ! i) (version_to_string x v)"
    using r unfolding j(2) release_order_prefixes [OF j(1)]
    by (auto simp: result_simps package_tag_def split: if_splits)
next
  assume a: "v_build v = [] \<and> i < length (rp_packages (for_version v)) \<and>
    tag = package_tag (ALL_PACKAGES ! i) (version_to_string x v)"
  then have "i < length ALL_PACKAGES" using version_packages [of v] by (elim conjE) linarith
  then show "release_order x tag = Inr (v, i)"
    using a assms by (simp add: package_tag_def release_order_prefixes)
qed

end
