(* ===== verification/Github_Writes.thy ===== *)
theory Github_Writes
  imports Github_Facts
begin

text \<open>
  What the finalizer writes, and when: the guard of each write, the writes of a whole run, and
  what a successful run has read back.
\<close>

section \<open>When a write may happen\<close>

text \<open>The Latest choice of a Release: a stable version of main that comes after the present one.\<close>

definition advances ::
    "'z release_ext_scheme \<Rightarrow> release_line \<Rightarrow> string \<Rightarrow> latest_release option \<Rightarrow> bool" where
  "advances x line tag before \<longleftrightarrow> (\<exists>target. release_order x tag = Inr target \<and> make_latest line (fst target) \<and>
     (before = None \<or>
      (\<exists>l order. before = Some l \<and> release_order x (lr_tag_name l) = Inr order \<and> order_greater x target order)))"

lemma guard_capture_result: "guard_capture x g line tag h = (Inr gd, h') \<Longrightarrow>
    lg_target gd = tag \<and> lg_advance gd = advances x line tag (lg_before gd)"
  unfolding guard_capture_def io_try_Inr
  by (auto simp: io_try_Inr advances_def result_simps split: option.splits if_splits)

lemma guard_capture_read: "guard_capture x g line tag h = (Inr gd, h') \<Longrightarrow>
    latest_read x g h = (Inr (lg_before gd), h')"
  unfolding guard_capture_def io_try_Inr
  by (auto simp: io_try_Inr split: if_splits)

text \<open>
  A write is admitted after a history: the tag object where no tag was found and right after the
  policy was bound; the tag right after that too, and only to an object that was read back as
  exactly the tag of the release; the Release where none was found and after the policy was
  bound, then the tag read as exact, then Latest read as it was when the choice to replace it
  was made.
\<close>

fun write_ok ::
    "'z release_ext_scheme \<Rightarrow> binding \<Rightarrow> release_spec \<Rightarrow> string \<Rightarrow> string \<Rightarrow> history \<Rightarrow> request \<Rightarrow> bool" where
  "write_ok x b spec src date h (Post path (P_Tag p)) \<longleftrightarrow>
     path = repo_path ''/git/tags'' \<and> p = tag_payload_of spec src date \<and> policy_bound b h \<and>
     (Get (repo_path (''/git/ref/tags/'' @ rs_tag spec)), Not_Found) \<in> set h"
| "write_ok x b spec src date h (Post path (P_Ref p)) \<longleftrightarrow>
     path = repo_path ''/git/refs'' \<and> rp_ref p = ''refs/tags/'' @ rs_tag spec \<and> policy_bound b h \<and>
     (\<exists>t. (Get (repo_path (''/git/tags/'' @ rp_sha p)), Body (B_Tag t)) \<in> set h \<and>
        validate_tag t spec src date (rp_sha p) = Inr ())"
| "write_ok x b spec src date h (Post path (P_Release p)) \<longleftrightarrow>
     path = repo_path ''/releases'' \<and>
     (\<exists>before resp sha r t h0.
        h = (Get (repo_path ''/releases/latest''), resp) # tag_events spec src date sha r t @ h0 \<and>
        answered as_latest resp = Some before \<and> exact_tag spec src date sha r t \<and> policy_bound b h0 \<and>
        (Get (repo_path (''/releases/tags/'' @ rs_tag spec)), Not_Found) \<in> set h0 \<and>
        p = release_payload_of spec src
          \<lparr>lg_before = before, lg_target = rs_tag spec, lg_advance = advances x (rs_line spec) (rs_tag spec) before\<rparr>)"
| "write_ok x b spec src date h (Append name value) \<longleftrightarrow> False"
| "write_ok x b spec src date h _ \<longleftrightarrow> True"

section \<open>Runs of the operations\<close>

definition does :: "github \<Rightarrow> (history \<Rightarrow> request \<Rightarrow> bool) \<Rightarrow> history \<Rightarrow> 'a io \<Rightarrow> bool" where
  "does g P h m \<longleftrightarrow> sends g P h (snd (m h))"

lemma does_try:
  assumes "does g P h m" and "\<And>a h1. m h = (Inr a, h1) \<Longrightarrow> does g P h1 (f a)"
  shows "does g P h (io_try m f)"
  using assms unfolding does_def io_try_def
  by (auto split: prod.splits sum.splits intro: sends_trans)

lemma does_reads: "reads g m \<Longrightarrow> does g P h m"
  unfolding does_def reads_def
  using sends_mono [of g no_writes h "snd (m h)" P] by (cases "m h") (simp add: no_writes_def)

lemma does_mono: "does g P h m \<Longrightarrow> (\<And>h q. P h q \<Longrightarrow> P' h q) \<Longrightarrow> does g P' h m"
  unfolding does_def by (rule sends_mono)

lemma does_request: "P h q \<Longrightarrow> does g P h (gh_request g q)"
  unfolding does_def gh_request_def send_def
  by (auto split: response.splits request.splits intro!: sends_refl sends_one)

lemma does_post: "P h (Post path payload) \<Longrightarrow> does g P h (gh_post g dec path payload)"
  unfolding gh_post_def by (intro does_try does_request does_reads reads_rules)

lemma does_then: "does g P h m \<Longrightarrow> (\<And>r h1. m h = (r, h1) \<Longrightarrow> does g P h1 (f r)) \<Longrightarrow> does g P h (\<lambda>h. case m h of (r, h1) \<Rightarrow> f r h1)"
  unfolding does_def by (auto split: prod.splits intro: sends_trans)

lemma rebind_bound: "rs_binding spec = Some b \<Longrightarrow> rebind g spec src main h = (Inr (), h') \<Longrightarrow> policy_bound b h'"
  by (auto simp: rebind_def dest: binding_verify_bound)

lemma rebind_keeps: "e \<in> set h \<Longrightarrow> rebind g spec src main h = (r, h') \<Longrightarrow> e \<in> set h'"
  using reads_suffix [OF reads_policy(4)] by blast

lemma does_create_tag_object:
  assumes "rs_binding spec = Some b"
    and "(Get (repo_path (''/git/ref/tags/'' @ rs_tag spec)), Not_Found) \<in> set h"
  shows "does g (write_ok x b spec src date) h (create_tag_object g spec src main date)"
  unfolding create_tag_object_def
  by (intro does_try does_post)
    (auto intro!: does_reads reads_rules dest: rebind_bound [OF assms(1)] rebind_keeps [OF assms(2)])

lemma create_tag_object_read:
  assumes "create_tag_object g spec src main date h = (Inr obj, h')"
  shows "\<exists>t. (Get (repo_path (''/git/tags/'' @ at_sha obj)), Body (B_Tag t)) \<in> set h' \<and>
    validate_tag t spec src date (at_sha obj) = Inr ()"
  using assms unfolding create_tag_object_def by (auto simp: io_try_Inr gh_get_iff)

lemma does_create_tag_ref:
  assumes "rs_binding spec = Some b"
    and "(Get (repo_path (''/git/tags/'' @ sha)), Body (B_Tag t)) \<in> set h"
    and "validate_tag t spec src date sha = Inr ()"
  shows "does g (write_ok x b spec src date) h (create_tag_ref g spec src main date sha)"
proof -
  let ?post = "gh_post g as_ref (repo_path ''/git/refs'') (P_Ref \<lparr>rp_ref = ''refs/tags/'' @ rs_tag spec, rp_sha = sha\<rparr>)"
  have post: "does g (write_ok x b spec src date) h1 ?post" if r: "rebind g spec src main h = (Inr u, h1)" for u h1
  proof (rule does_post)
    have "(Get (repo_path (''/git/tags/'' @ sha)), Body (B_Tag t)) \<in> set h1"
      using rebind_keeps [OF assms(2) r] .
    then show "write_ok x b spec src date h1 (Post (repo_path ''/git/refs'')
        (P_Ref \<lparr>rp_ref = ''refs/tags/'' @ rs_tag spec, rp_sha = sha\<rparr>))"
      using rebind_bound [OF assms(1)] r assms(3) by auto
  qed
  note exact = does_reads [OF reads_tag(2) [of g spec src date sha], unfolded does_def]
  show ?thesis
    unfolding create_tag_ref_def
  proof (rule does_try [OF does_reads [OF reads_policy(4)]])
    fix u h1 assume "rebind g spec src main h = (Inr u, h1)"
    note s = post [OF this, unfolded does_def]
    show "does g (write_ok x b spec src date) h1 (\<lambda>h. case ?post h of
       (Inl error, h') \<Rightarrow> (case require_exact_tag_object g spec src date sha h' of
            (Inl _, h'') \<Rightarrow> (Inl error, h'') | (Inr _, h'') \<Rightarrow> (Inr (), h''))
     | (Inr reference, h') \<Rightarrow> io_try (io_lift (validate_tag_ref reference spec)) (\<lambda>sha'.
         if sha' \<noteq> sha then io_lift (Inl (Fmt ''GitHub created {} at a different tag object'' [rs_tag spec]))
         else io_lift (Inr ())) h')"
    proof (cases "?post h1")
      case (Pair r h2)
      then show ?thesis
        using s exact [of _ h2]
        by (cases r; cases "require_exact_tag_object g spec src date sha h2")
          (auto simp: does_def io_try_def io_lift_def split: sum.splits intro: sends_trans)
    qed
  qed
qed

lemma does_reconcile_tag:
  assumes "rs_binding spec = Some b"
  shows "does g (write_ok x b spec src date) h (reconcile_tag g spec src main date)"
  unfolding reconcile_tag_def
proof (rule does_try [OF does_reads [OF reads_tag(1)]])
  fix observed h1
  assume observed: "inspect_tag g spec src date h = (Inr observed, h1)"
  show "does g (write_ok x b spec src date) h1 (case observed of
      Some object_sha \<Rightarrow> io_lift (Inr object_sha)
    | None \<Rightarrow>
        io_try (create_tag_object g spec src main date) (\<lambda>object.
        io_try (create_tag_ref g spec src main date (at_sha object)) (\<lambda>_.
        io_try (require_exact_tag_object g spec src date (at_sha object)) (\<lambda>_.
        io_lift (Inr (at_sha object))))))"
  proof (cases observed)
    case None
    then have none: "(Get (repo_path (''/git/ref/tags/'' @ rs_tag spec)), Not_Found) \<in> set h1"
      using observed unfolding inspect_tag_def
      by (auto simp: io_try_Inr gh_get_optional_iff answered_None split: option.splits)
    have ref: "does g (write_ok x b spec src date) h2 (create_tag_ref g spec src main date (at_sha obj))"
      if "create_tag_object g spec src main date h1 = (Inr obj, h2)" for obj h2
      using create_tag_object_read [OF that] does_create_tag_ref [OF assms] by blast
    show ?thesis
      unfolding None option.case
      by (rule does_try [OF does_create_tag_object [OF assms none]], erule does_try [OF ref],
          intro does_reads reads_rules)
  qed (simp add: does_reads reads_lift)
qed

lemma does_create_release:
  assumes "rs_binding spec = Some b"
    and "lg_target gd = rs_tag spec" "lg_advance gd = advances x (rs_line spec) (rs_tag spec) (lg_before gd)"
    and "(Get (repo_path (''/releases/tags/'' @ rs_tag spec)), Not_Found) \<in> set h"
  shows "does g (write_ok x b spec src date) h (create_release x g spec src main date sha gd)"
proof -
  let ?post = "gh_post g as_release (repo_path ''/releases'') (P_Release (release_payload_of spec src gd))"
  have post: "does g (write_ok x b spec src date) h3 ?post"
    if r: "rebind g spec src main h = (Inr u, h1)" and e: "require_exact_tag_object g spec src date sha h1 = (Inr v, h2)"
      and l: "require_unchanged x g gd h2 = (Inr w, h3)" for u v w h1 h2 h3
  proof (rule does_post)
    obtain rf t where t: "h2 = tag_events spec src date sha rf t @ h1" "exact_tag spec src date sha rf t"
      using require_exact_tag_events [of g spec src date sha h1 h2] e by auto
    have "latest_read x g h2 = (Inr (lg_before gd), h3)"
      using l unfolding require_unchanged_def by (auto simp: io_try_Inr split: if_splits)
    then obtain resp where resp: "answered as_latest resp = Some (lg_before gd)"
      "h3 = (Get (repo_path ''/releases/latest''), resp) # h2"
      using latest_read_iff by blast
    have gd: "gd = \<lparr>lg_before = lg_before gd, lg_target = rs_tag spec,
        lg_advance = advances x (rs_line spec) (rs_tag spec) (lg_before gd)\<rparr>"
      using assms(2,3) by (cases gd) simp
    have "policy_bound b h1" "(Get (repo_path (''/releases/tags/'' @ rs_tag spec)), Not_Found) \<in> set h1"
      using rebind_bound [OF assms(1)] rebind_keeps [OF assms(4)] r by simp_all
    then show "write_ok x b spec src date h3 (Post (repo_path ''/releases'')
        (P_Release (release_payload_of spec src gd)))"
      unfolding write_ok.simps
      by (intro conjI refl exI [of _ "lg_before gd"] exI [of _ resp] exI [of _ sha] exI [of _ rf] exI [of _ t]
          exI [of _ h1]) (simp_all only: resp t gd [symmetric])
  qed
  show ?thesis
    unfolding create_release_def
  proof (rule does_try [OF does_reads [OF reads_policy(4)]], rule does_try [OF does_reads [OF reads_tag(2)]],
      rule does_try [OF does_reads [OF reads_latest(3)]])
    fix u v w h1 h2 h3
    assume "rebind g spec src main h = (Inr u, h1)" "require_exact_tag_object g spec src date sha h1 = (Inr v, h2)"
      "require_unchanged x g gd h2 = (Inr w, h3)"
    note s = post [OF this, unfolded does_def]
    have rd: "does g (write_ok x b spec src date) h4 (io_try (inspect_release g spec src) (\<lambda>exists.
         if exists then require_exact_tag_object g spec src date sha else io_lift (Inl error)))" for h4 error
      by (intro does_reads reads_rules)
    show "does g (write_ok x b spec src date) h3 (\<lambda>h. case ?post h of
        (Inl error, h') \<Rightarrow>
          io_try (inspect_release g spec src) (\<lambda>exists.
          if exists then require_exact_tag_object g spec src date sha else io_lift (Inl error)) h'
      | (Inr release, h') \<Rightarrow> (validate_release release spec src, h'))"
    proof (cases "?post h3")
      case (Pair r h4)
      then show ?thesis
        using s rd [of h4, unfolded does_def] by (cases r) (auto simp: does_def intro: sends_trans)
    qed
  qed
qed

lemma does_reconcile_release:
  assumes "rs_binding spec = Some b"
  shows "does g (write_ok x b spec src date) h (reconcile_release x g spec src main date sha)"
  unfolding reconcile_release_def
proof (rule does_try [OF does_reads [OF reads_latest(2)]], rule does_try [OF does_reads [OF reads_tag(3)]])
  fix gd h1 retained h2
  assume "guard_capture x g (rs_line spec) (rs_tag spec) h = (Inr gd, h1)"
  note gd = guard_capture_result [OF this]
  assume inspected: "inspect_release g spec src h1 = (Inr retained, h2)"
  show "does g (write_ok x b spec src date) h2 (if retained
     then io_try (require_exact_tag_object g spec src date sha) (\<lambda>_. guard_verify x g gd)
     else
       io_try (create_release x g spec src main date sha gd) (\<lambda>_.
       io_try (inspect_release g spec src) (\<lambda>retained.
       if \<not> retained then io_lift (Inl (Fmt ''immutable Release {} was not retained'' [rs_tag spec]))
       else
         io_try (require_exact_tag_object g spec src date sha) (\<lambda>_.
         guard_verify x g gd))))"
  proof (cases retained)
    case True
    then show ?thesis by (simp add: does_reads reads_rules)
  next
    case False
    then have "(Get (repo_path (''/releases/tags/'' @ rs_tag spec)), Not_Found) \<in> set h2"
      using inspect_release_events [OF inspected] by auto
    note create = does_create_release [OF assms gd [THEN conjunct1] gd [THEN conjunct2] this]
    show ?thesis
      unfolding if_not_P [OF False]
      by (rule does_try [OF create], intro does_reads reads_rules)
  qed
qed

text \<open>What the finalizer may do for one of the packages it is run for.\<close>

definition run_spec ::
    "'z release_ext_scheme \<Rightarrow> package_policy \<Rightarrow> version \<Rightarrow> string \<Rightarrow> binding \<Rightarrow> release_error + release_spec" where
  "run_spec x package v src b =
     result_map (\<lambda>spec. spec\<lparr>rs_line := bd_line b, rs_binding := Some b\<rparr>) (release_spec_new x package v src)"

definition run_ok ::
    "'z release_ext_scheme \<Rightarrow> package_policy list \<Rightarrow> version \<Rightarrow> string \<Rightarrow> string \<Rightarrow> binding \<Rightarrow> history \<Rightarrow> request \<Rightarrow> bool" where
  "run_ok x packages v src date b h q \<longleftrightarrow>
     (\<exists>package spec. package \<in> set packages \<and> run_spec x package v src b = Inr spec \<and> write_ok x b spec src date h q)"

lemma finalize_package_form:
  "finalize_package x g package v src main date \<lparr>fp_line = bd_line b, fp_binding = Some b\<rparr> =
     io_try (io_lift (run_spec x package v src b)) (\<lambda>spec.
     io_try (reconcile_tag g spec src main date) (\<lambda>sha.
     reconcile_release x g spec src main date sha))"
  by (rule ext) (cases "release_spec_new x package v src";
    simp add: finalize_package_def run_spec_def io_try_def io_lift_def Let_def)

lemma does_finalize_package:
  assumes "package \<in> set packages"
  shows "does g (run_ok x packages v src date b) h
    (finalize_package x g package v src main date \<lparr>fp_line = bd_line b, fp_binding = Some b\<rparr>)"
  unfolding finalize_package_form
proof (rule does_try [OF does_reads [OF reads_lift]])
  fix spec h1
  assume "io_lift (run_spec x package v src b) h = (Inr spec, h1)"
  then have spec: "run_spec x package v src b = Inr spec" by simp
  then have "rs_binding spec = Some b" by (auto simp: run_spec_def result_simps)
  note steps = does_reconcile_tag [OF this, of g x src date _ main] does_reconcile_release [OF this, of g x src date _ main]
  have "write_ok x b spec src date h q \<Longrightarrow> run_ok x packages v src date b h q" for h q
    using assms spec unfolding run_ok_def by blast
  note mono = does_mono [of g "write_ok x b spec src date", OF _ this]
  show "does g (run_ok x packages v src date b) h1
      (io_try (reconcile_tag g spec src main date) (\<lambda>sha. reconcile_release x g spec src main date sha))"
    by (intro does_try mono steps)
qed

lemma does_finalize_packages:
  "set packages \<subseteq> set all \<Longrightarrow>
   does g (run_ok x all v src date b) h (finalize_packages x g packages v src main date b)"
proof (induction packages arbitrary: h)
  case (Cons package packages)
  then show ?case
    unfolding finalize_packages.simps
    by (intro does_try does_finalize_package does_reads [OF reads_binding]) simp_all
qed (simp add: does_reads reads_lift)

text \<open>
  Every write of the finalizer is guarded. Whatever GitHub answers, and whether the run
  succeeds or fails, each request to write is for one of the packages, carries exactly the
  fields of its release, and comes after an answer that the object does not exist. It directly follows the answers that show the executing policy to be
  protected main and the source to be on the protected base; the tag goes only to an object that
  was read back as the exact tag of the source; and the Release is asked for only when, after
  those answers, the tag was read as exact and Latest as it was when the choice to replace it was
  made, the choice being to replace it exactly when a stable version of main comes after it.
\<close>

theorem finalizer_writes_are_guarded:
  "sends g (run_ok x packages v src date b) h (snd (finalize_packages x g packages v src main date b h))"
  using does_finalize_packages [of packages packages] unfolding does_def by simp

section \<open>The writes of a run\<close>

definition writes :: "history \<Rightarrow> request list" where
  "writes h = rev (filter is_effect (map fst h))"

lemma reads_writes: "reads g m \<Longrightarrow> m h = (r, h') \<Longrightarrow> writes h' = writes h"
proof -
  have "sends g no_writes h h' \<Longrightarrow> writes h' = writes h" for h h'
    by (induction rule: sends.induct) (auto simp: writes_def no_writes_def)
  then show "reads g m \<Longrightarrow> m h = (r, h') \<Longrightarrow> writes h' = writes h" unfolding reads_def by blast
qed

lemma paths_ok [simp]:
  "request_path_ok (repo_path ''/git/tags'')" "request_path_ok (repo_path ''/git/refs'')"
  "request_path_ok (repo_path ''/releases'')"
  by (simp_all add: request_path_ok_def repo_path_def REPOSITORY_def)

lemma post_writes: "request_path_ok path \<Longrightarrow> gh_post g dec path payload h = (r, h') \<Longrightarrow>
    writes h' = writes h @ [Post path payload]"
  unfolding gh_post_def
  by (auto simp: io_try_def gh_request_def send_def writes_def io_lift_def
      split: response.splits if_splits prod.splits sum.splits)

text \<open>After an action the writes of the history are in one set or, where it succeeds, in another.\<close>

definition ends :: "'a io \<Rightarrow> history \<Rightarrow> request list set \<Rightarrow> request list set \<Rightarrow> bool" where
  "ends m h F S \<longleftrightarrow> (\<forall>r h'. m h = (r, h') \<longrightarrow> writes h' \<in> (case r of Inl e \<Rightarrow> F | Inr a \<Rightarrow> S))"

lemma ends_reads: "reads g m \<Longrightarrow> writes h \<in> F \<Longrightarrow> writes h \<in> S \<Longrightarrow> ends m h F S"
  unfolding ends_def using reads_writes [of g m h] by (auto split: sum.splits)

lemma ends_try:
  assumes "ends m h F S'" and "\<And>a h1. m h = (Inr a, h1) \<Longrightarrow> writes h1 \<in> S' \<Longrightarrow> ends (f a) h1 F S"
  shows "ends (io_try m f) h F S"
  using assms unfolding ends_def io_try_def by (fastforce split: prod.splits sum.splits)

lemma ends_try_reads:
  assumes "reads g m" "writes h \<in> F"
    and "\<And>a h1. m h = (Inr a, h1) \<Longrightarrow> writes h1 = writes h \<Longrightarrow> ends (f a) h1 F S"
  shows "ends (io_try m f) h F S"
  by (rule ends_try [OF ends_reads [OF assms(1,2), of "{writes h}"]]) (use assms(3) in auto)

lemma ends_post: "request_path_ok path \<Longrightarrow> writes h @ [Post path payload] \<in> F \<Longrightarrow>
    writes h @ [Post path payload] \<in> S \<Longrightarrow> ends (gh_post g dec path payload) h F S"
  unfolding ends_def by (auto dest: post_writes split: sum.splits)

lemma ends_catch:
  assumes "ends m h F' S'"
    and "\<And>a h1. writes h1 \<in> S' \<Longrightarrow> ends (f a) h1 F S" and "\<And>e h1. writes h1 \<in> F' \<Longrightarrow> ends (k e) h1 F S"
  shows "ends (\<lambda>h. case m h of (Inl e, h') \<Rightarrow> k e h' | (Inr a, h') \<Rightarrow> f a h') h F S"
proof (cases "m h")
  case (Pair r1 h1)
  then have "writes h1 \<in> (case r1 of Inl e \<Rightarrow> F' | Inr a \<Rightarrow> S')" using assms(1) unfolding ends_def by blast
  then show ?thesis
    using assms(2,3) [of h1] unfolding ends_def Pair by (cases r1) simp_all
qed

lemma ends_mono: "ends m h F S \<Longrightarrow> F \<subseteq> F' \<Longrightarrow> S \<subseteq> S' \<Longrightarrow> ends m h F' S'"
  unfolding ends_def by (fastforce split: sum.splits)

text \<open>The writes for one release, in order; a run that fails may stop after any of them.\<close>

definition tag_request :: "release_spec \<Rightarrow> string \<Rightarrow> string \<Rightarrow> request" where
  "tag_request spec src date = Post (repo_path ''/git/tags'') (P_Tag (tag_payload_of spec src date))"

definition ref_request :: "release_spec \<Rightarrow> string \<Rightarrow> request" where
  "ref_request spec sha =
     Post (repo_path ''/git/refs'') (P_Ref \<lparr>rp_ref = ''refs/tags/'' @ rs_tag spec, rp_sha = sha\<rparr>)"

definition release_request :: "release_spec \<Rightarrow> string \<Rightarrow> latest_guard \<Rightarrow> request" where
  "release_request spec src gd = Post (repo_path ''/releases'') (P_Release (release_payload_of spec src gd))"

definition tag_writes :: "release_spec \<Rightarrow> string \<Rightarrow> string \<Rightarrow> request list set" where
  "tag_writes spec src date = insert [] (range (\<lambda>sha. [tag_request spec src date, ref_request spec sha]))"

definition release_writes :: "release_spec \<Rightarrow> string \<Rightarrow> request list set" where
  "release_writes spec src = insert [] (range (\<lambda>gd. [release_request spec src gd]))"

definition complete_writes :: "release_spec \<Rightarrow> string \<Rightarrow> string \<Rightarrow> request list set" where
  "complete_writes spec src date =
     {u @ v | u v. u \<in> tag_writes spec src date \<and> v \<in> release_writes spec src}"

definition partial_writes :: "release_spec \<Rightarrow> string \<Rightarrow> string \<Rightarrow> request list set" where
  "partial_writes spec src date = insert [tag_request spec src date] (complete_writes spec src date)"

definition after :: "request list \<Rightarrow> request list set \<Rightarrow> request list set" where
  "after before W = (\<lambda>ws. before @ ws) ` W"

lemma after_intros: "u @ ws \<in> after u W \<longleftrightarrow> ws \<in> W" "u \<in> after u W \<longleftrightarrow> [] \<in> W"
  by (auto simp: after_def)

lemma ends_create_tag_object:
  "ends (create_tag_object g spec src main date) h (after (writes h) {[], [tag_request spec src date]})
    (after (writes h) {[tag_request spec src date]})"
  unfolding create_tag_object_def
  by (intro ends_try_reads [OF reads_policy(4)] ends_try [OF ends_post, of _ _ _ _ "{writes h @ [tag_request spec src date]}"])
    (auto simp: after_intros tag_request_def intro!: ends_reads reads_rules)

lemma ends_create_tag_ref:
  "ends (create_tag_ref g spec src main date sha) h (after (writes h) {[], [ref_request spec sha]})
    (after (writes h) {[ref_request spec sha]})"
  unfolding create_tag_ref_def
proof (rule ends_try_reads [OF reads_policy(4)])
  show "writes h \<in> after (writes h) {[], [ref_request spec sha]}" by (simp add: after_intros)
  fix a h1 assume h1: "writes h1 = writes h"
  note post = ends_post [OF paths_ok(2), of h1 "P_Ref \<lparr>rp_ref = ''refs/tags/'' @ rs_tag spec, rp_sha = sha\<rparr>",
    folded ref_request_def, unfolded h1]
  show "ends (\<lambda>h. case gh_post g as_ref (repo_path ''/git/refs'')
         (P_Ref \<lparr>rp_ref = ''refs/tags/'' @ rs_tag spec, rp_sha = sha\<rparr>) h of
       (Inl error, h') \<Rightarrow>
         (case require_exact_tag_object g spec src date sha h' of
            (Inl _, h'') \<Rightarrow> (Inl error, h'')
          | (Inr _, h'') \<Rightarrow> (Inr (), h''))
     | (Inr reference, h') \<Rightarrow>
         io_try (io_lift (validate_tag_ref reference spec)) (\<lambda>sha'.
         if sha' \<noteq> sha then io_lift (Inl (Fmt ''GitHub created {} at a different tag object'' [rs_tag spec]))
         else io_lift (Inr ())) h') h1
     (after (writes h) {[], [ref_request spec sha]}) (after (writes h) {[ref_request spec sha]})"
  proof (rule ends_catch [OF post])
    fix e h2 assume h2: "writes h2 \<in> {writes h @ [ref_request spec sha]}"
    have "ends (require_exact_tag_object g spec src date sha) h2 {writes h2} {writes h2}"
      by (rule ends_reads [OF reads_tag(2)]) simp_all
    then show "ends (\<lambda>h'. case require_exact_tag_object g spec src date sha h' of
            (Inl _, h'') \<Rightarrow> (Inl e, h'') | (Inr _, h'') \<Rightarrow> (Inr (), h'')) h2
        (after (writes h) {[], [ref_request spec sha]}) (after (writes h) {[ref_request spec sha]})"
      by (rule ends_catch) (use h2 in \<open>simp_all add: ends_def after_intros\<close>)
  qed (auto simp: after_intros intro!: ends_reads reads_rules)
qed

lemma ends_reconcile_tag:
  "ends (reconcile_tag g spec src main date) h (after (writes h) (partial_writes spec src date))
    (after (writes h) (tag_writes spec src date))"
  unfolding reconcile_tag_def
proof (rule ends_try_reads [OF reads_tag(1)])
  have nil: "[] \<in> partial_writes spec src date" "[] \<in> tag_writes spec src date"
    by (auto simp: partial_writes_def complete_writes_def tag_writes_def release_writes_def)
  then show "writes h \<in> after (writes h) (partial_writes spec src date)" by (simp add: after_intros)
  have tag: "[tag_request spec src date] \<in> partial_writes spec src date"
    "[tag_request spec src date, ref_request spec sha] \<in> partial_writes spec src date"
    "[tag_request spec src date, ref_request spec sha] \<in> tag_writes spec src date" for sha
    by (auto simp: partial_writes_def complete_writes_def tag_writes_def release_writes_def)
  fix observed h1 assume h1: "writes h1 = writes h"
  show "ends (case observed of
      Some object_sha \<Rightarrow> io_lift (Inr object_sha)
    | None \<Rightarrow>
        io_try (create_tag_object g spec src main date) (\<lambda>object.
        io_try (create_tag_ref g spec src main date (at_sha object)) (\<lambda>_.
        io_try (require_exact_tag_object g spec src date (at_sha object)) (\<lambda>_.
        io_lift (Inr (at_sha object)))))) h1
    (after (writes h) (partial_writes spec src date)) (after (writes h) (tag_writes spec src date))"
  proof (cases observed)
    case None
    show ?thesis
      unfolding None option.case
    proof (rule ends_try [OF ends_mono [OF ends_create_tag_object _ subset_refl]])
      show "after (writes h1) {[], [tag_request spec src date]} \<subseteq> after (writes h) (partial_writes spec src date)"
        using nil tag by (auto simp: after_def h1)
      fix obj h2 assume "writes h2 \<in> after (writes h1) {[tag_request spec src date]}"
      then have h2: "writes h2 = writes h @ [tag_request spec src date]" by (simp add: after_def h1)
      show "ends (io_try (create_tag_ref g spec src main date (at_sha obj)) (\<lambda>_.
          io_try (require_exact_tag_object g spec src date (at_sha obj)) (\<lambda>_.
          io_lift (Inr (at_sha obj))))) h2
        (after (writes h) (partial_writes spec src date)) (after (writes h) (tag_writes spec src date))"
        by (rule ends_try [OF ends_mono [OF ends_create_tag_ref _ subset_refl]])
          (use tag in \<open>auto simp: after_def h2 intro!: ends_reads reads_rules\<close>)
    qed
  qed (use nil in \<open>auto simp: after_intros h1 intro!: ends_reads reads_rules\<close>)
qed

lemma ends_create_release:
  "ends (create_release x g spec src main date sha gd) h (after (writes h) (release_writes spec src))
    (after (writes h) (release_writes spec src))"
  unfolding create_release_def
proof (intro ends_try_reads [OF reads_policy(4)] ends_try_reads [OF reads_tag(2)] ends_try_reads [OF reads_latest(3)])
  fix u v w h1 h2 h3
  assume "writes h1 = writes h" "writes h2 = writes h1" "writes h3 = writes h2"
  then have h3: "writes h3 = writes h" by simp
  note post = ends_post [OF paths_ok(3), of h3 "P_Release (release_payload_of spec src gd)",
    folded release_request_def, unfolded h3]
  have mem: "[] \<in> release_writes spec src" "[release_request spec src gd] \<in> release_writes spec src"
    by (auto simp: release_writes_def)
  have "ends (\<lambda>h. case gh_post g as_release (repo_path ''/releases'') (P_Release (release_payload_of spec src gd)) h of
       (Inl error, h') \<Rightarrow>
         io_try (inspect_release g spec src) (\<lambda>exists.
         if exists then require_exact_tag_object g spec src date sha else io_lift (Inl error)) h'
     | (Inr release, h') \<Rightarrow> io_lift (validate_release release spec src) h') h3
     (after (writes h) (release_writes spec src)) (after (writes h) (release_writes spec src))"
    by (rule ends_catch [OF post, of "{writes h @ [release_request spec src gd]}" "{writes h @ [release_request spec src gd]}"])
      (use mem in \<open>auto simp: after_intros intro!: ends_reads reads_rules\<close>)
  then show "ends (\<lambda>h. case gh_post g as_release (repo_path ''/releases'') (P_Release (release_payload_of spec src gd)) h of
       (Inl error, h') \<Rightarrow>
         io_try (inspect_release g spec src) (\<lambda>exists.
         if exists then require_exact_tag_object g spec src date sha else io_lift (Inl error)) h'
     | (Inr release, h') \<Rightarrow> (validate_release release spec src, h')) h3
     (after (writes h) (release_writes spec src)) (after (writes h) (release_writes spec src))"
    by (simp only: io_lift_def)
qed (auto simp: after_intros release_writes_def)

lemma ends_reconcile_release:
  "ends (reconcile_release x g spec src main date sha) h (after (writes h) (release_writes spec src))
    (after (writes h) (release_writes spec src))"
  unfolding reconcile_release_def
proof (intro ends_try_reads [OF reads_latest(2)] ends_try_reads [OF reads_tag(3)])
  fix gd h1 retained h2 assume "writes h1 = writes h" "writes h2 = writes h1"
  then have h2: "writes h2 = writes h" by simp
  have mem: "writes h2 \<in> after (writes h) (release_writes spec src)" by (auto simp: after_intros release_writes_def h2)
  show "ends (if retained
     then io_try (require_exact_tag_object g spec src date sha) (\<lambda>_. guard_verify x g gd)
     else
       io_try (create_release x g spec src main date sha gd) (\<lambda>_.
       io_try (inspect_release g spec src) (\<lambda>retained.
       if \<not> retained then io_lift (Inl (Fmt ''immutable Release {} was not retained'' [rs_tag spec]))
       else
         io_try (require_exact_tag_object g spec src date sha) (\<lambda>_.
         guard_verify x g gd)))) h2
     (after (writes h) (release_writes spec src)) (after (writes h) (release_writes spec src))"
  proof (cases retained)
    case True
    then show ?thesis using mem by (auto intro!: ends_reads reads_rules)
  next
    case False
    show ?thesis
      unfolding if_not_P [OF False]
      by (rule ends_try [OF ends_create_release [of _ _ _ _ _ _ _ _ h2, unfolded h2]])
        (auto intro!: ends_reads reads_rules)
  qed
qed (auto simp: after_intros release_writes_def)

lemma ends_finalize_package:
  assumes "run_spec x package v src b = Inr spec"
  shows "ends (finalize_package x g package v src main date \<lparr>fp_line = bd_line b, fp_binding = Some b\<rparr>) h
    (after (writes h) (partial_writes spec src date)) (after (writes h) (complete_writes spec src date))"
  unfolding finalize_package_form assms
proof (rule ends_try_reads [OF reads_lift])
  show "writes h \<in> after (writes h) (partial_writes spec src date)"
    by (auto simp: after_intros partial_writes_def complete_writes_def tag_writes_def release_writes_def)
  fix spec' h1 assume "io_lift (Inr spec) h = (Inr spec', h1)"
  then have eqs: "spec' = spec" "h1 = h" by simp_all
  show "ends (io_try (reconcile_tag g spec' src main date) (\<lambda>sha. reconcile_release x g spec' src main date sha)) h1
    (after (writes h) (partial_writes spec src date)) (after (writes h) (complete_writes spec src date))"
    unfolding eqs
  proof (rule ends_try [OF ends_reconcile_tag])
    fix sha h2 assume "writes h2 \<in> after (writes h) (tag_writes spec src date)"
    then obtain u where u: "writes h2 = writes h @ u" "u \<in> tag_writes spec src date" by (auto simp: after_def)
    have "u @ v \<in> complete_writes spec src date" if "v \<in> release_writes spec src" for v
      using u(2) that unfolding complete_writes_def by blast
    then have sub: "after (writes h2) (release_writes spec src) \<subseteq> after (writes h) (complete_writes spec src date)"
      by (auto simp: after_def u(1))
    also have "\<dots> \<subseteq> after (writes h) (partial_writes spec src date)"
      by (auto simp: after_def partial_writes_def)
    finally show "ends (reconcile_release x g spec src main date sha) h2
      (after (writes h) (partial_writes spec src date)) (after (writes h) (complete_writes spec src date))"
      using sub by (rule ends_mono [OF ends_reconcile_release])
  qed
qed

text \<open>The writes of a run that completes, and of one that fails at some package.\<close>

fun complete_run ::
    "'z release_ext_scheme \<Rightarrow> package_policy list \<Rightarrow> version \<Rightarrow> string \<Rightarrow> string \<Rightarrow> binding \<Rightarrow> request list set" where
  "complete_run x [] v src date b = {[]}"
| "complete_run x (package # packages) v src date b =
     {u @ w | spec u w. run_spec x package v src b = Inr spec \<and> u \<in> complete_writes spec src date \<and>
        w \<in> complete_run x packages v src date b}"

fun partial_run ::
    "'z release_ext_scheme \<Rightarrow> package_policy list \<Rightarrow> version \<Rightarrow> string \<Rightarrow> string \<Rightarrow> binding \<Rightarrow> request list set" where
  "partial_run x [] v src date b = {[]}"
| "partial_run x (package # packages) v src date b =
     {[]} \<union> {u | spec u. run_spec x package v src b = Inr spec \<and> u \<in> partial_writes spec src date} \<union>
     {u @ w | spec u w. run_spec x package v src b = Inr spec \<and> u \<in> complete_writes spec src date \<and>
        w \<in> partial_run x packages v src date b}"

lemma partial_run_Nil: "[] \<in> partial_run x packages v src date b"
  by (cases packages) simp_all

lemma ends_finalize_packages:
  "ends (finalize_packages x g packages v src main date b) h
    (after (writes h) (partial_run x packages v src date b)) (after (writes h) (complete_run x packages v src date b))"
proof (induction packages arbitrary: h)
  case (Cons package packages)
  let ?P = "partial_run x (package # packages) v src date b"
  let ?C = "complete_run x (package # packages) v src date b"
  show ?case
    unfolding finalize_packages.simps(2)
  proof (rule ends_try_reads [OF reads_binding])
    show "writes h \<in> after (writes h) ?P" using partial_run_Nil by (auto simp: after_intros)
    fix u h1 assume h1: "writes h1 = writes h"
    show "ends (io_try (finalize_package x g package v src main date \<lparr>fp_line = bd_line b, fp_binding = Some b\<rparr>)
        (\<lambda>_. finalize_packages x g packages v src main date b)) h1 (after (writes h) ?P) (after (writes h) ?C)"
    proof (cases "run_spec x package v src b")
      case (Inl e)
      then show ?thesis
        using h1 partial_run_Nil [of x "package # packages" v src date b]
        by (auto simp: finalize_package_form ends_def io_try_def io_lift_def after_intros)
    next
      case (Inr spec)
      show ?thesis
      proof (rule ends_try [OF ends_mono [OF ends_finalize_package [OF Inr] _ subset_refl]])
        show "after (writes h1) (partial_writes spec src date) \<subseteq> after (writes h) ?P"
          using Inr by (auto simp: after_def h1)
        fix a h2 assume "writes h2 \<in> after (writes h1) (complete_writes spec src date)"
        then obtain u where u: "writes h2 = writes h @ u" "u \<in> complete_writes spec src date"
          by (auto simp: after_def h1)
        show "ends (finalize_packages x g packages v src main date b) h2 (after (writes h) ?P) (after (writes h) ?C)"
          by (rule ends_mono [OF Cons.IH]) (use u Inr in \<open>auto simp: after_def\<close>)
      qed
    qed
  qed
qed (simp add: ends_def after_def io_lift_def)

text \<open>
  The finalizer writes each object at most once and in order. Whatever GitHub answers, the
  writes of a run are, package by package in the order of the family, those of a release: the tag
  object, then the tag, then the Release, with the fields of the release, or nothing for the tag
  where it exists and nothing for the Release where it exists. A run that succeeds has for every
  package a complete sequence, never a tag object without its tag; a run that fails stops inside
  one package after complete sequences for those before it, and writes nothing for those after.
\<close>

theorem finalizer_writes_once:
  "\<exists>ws. writes (snd (finalize_packages x g packages v src main date b h)) = writes h @ ws \<and>
    (case fst (finalize_packages x g packages v src main date b h) of
       Inr _ \<Rightarrow> ws \<in> complete_run x packages v src date b
     | Inl _ \<Rightarrow> ws \<in> partial_run x packages v src date b)"
  using ends_finalize_packages [of x g packages v src main date b h]
  by (cases "finalize_packages x g packages v src main date b h") (auto simp: ends_def after_def split: sum.splits)

section \<open>What a successful run has read back\<close>

text \<open>
  The last four answers for a release: the Release, the tag reference and its object, and Latest,
  all exactly as intended; and an earlier answer held the Latest the choice was made against.
\<close>

definition released ::
    "'z release_ext_scheme \<Rightarrow> release_spec \<Rightarrow> string \<Rightarrow> string \<Rightarrow> history \<Rightarrow> bool" where
  "released x spec src date h \<longleftrightarrow>
     (\<exists>latest now sha r t release h0 earlier before.
        h = (Get (repo_path ''/releases/latest''), latest) # tag_events spec src date sha r t @
          (Get (repo_path (''/releases/tags/'' @ rs_tag spec)), Body (B_Release release)) # h0 \<and>
        exact_tag spec src date sha r t \<and> validate_release release spec src = Inr () \<and>
        answered as_latest latest = Some now \<and>
        (Get (repo_path ''/releases/latest''), earlier) \<in> set h0 \<and> answered as_latest earlier = Some before \<and>
        (if advances x (rs_line spec) (rs_tag spec) before then map_option lr_tag_name now = Some (rs_tag spec)
         else now = before))"

lemma sends_appends: "sends g P h h' \<Longrightarrow> \<exists>es. h' = es @ h"
  using sends_events by blast

lemma does_appends: "does g P h m \<Longrightarrow> m h = (r, h') \<Longrightarrow> \<exists>es. h' = es @ h"
  unfolding does_def using sends_appends by fastforce

lemma guard_verify_result: "guard_verify x g gd h = (Inr (), h') \<Longrightarrow>
    \<exists>resp now. h' = (Get (repo_path ''/releases/latest''), resp) # h \<and> answered as_latest resp = Some now \<and>
      (if lg_advance gd then map_option lr_tag_name now = Some (lg_target gd) else now = lg_before gd)"
  unfolding guard_verify_def io_try_Inr
  by (auto dest!: latest_read_iff split: if_splits option.splits)

lemma reconcile_release_released:
  assumes "rs_binding spec = Some b" and run: "reconcile_release x g spec src main date sha h = (Inr (), h')"
  shows "released x spec src date h'"
proof -
  obtain gd h1 h2 where gd: "guard_capture x g (rs_line spec) (rs_tag spec) h = (Inr gd, h1)"
    and tail: "\<exists>ha hb. inspect_release g spec src h2 = (Inr True, ha) \<and>
      require_exact_tag_object g spec src date sha ha = (Inr (), hb) \<and> guard_verify x g gd hb = (Inr (), h')"
    and keep: "set h1 \<subseteq> set h2"
  proof -
    obtain gd h1 retained h2 where gd: "guard_capture x g (rs_line spec) (rs_tag spec) h = (Inr gd, h1)"
      and i: "inspect_release g spec src h1 = (Inr retained, h2)"
      and rest: "(if retained
        then io_try (require_exact_tag_object g spec src date sha) (\<lambda>_. guard_verify x g gd)
        else
          io_try (create_release x g spec src main date sha gd) (\<lambda>_.
          io_try (inspect_release g spec src) (\<lambda>retained.
          if \<not> retained then io_lift (Inl (Fmt ''immutable Release {} was not retained'' [rs_tag spec]))
          else
            io_try (require_exact_tag_object g spec src date sha) (\<lambda>_.
            guard_verify x g gd)))) h2 = (Inr (), h')"
      using run unfolding reconcile_release_def io_try_Inr by blast
    show ?thesis
    proof (cases retained)
      case True
      then show ?thesis using gd i rest by (intro that [of gd h1 h1]) (auto simp: io_try_Inr)
    next
      case False
      then obtain h3 where c: "create_release x g spec src main date sha gd h2 = (Inr (), h3)"
        and t: "\<exists>ha hb. inspect_release g spec src h3 = (Inr True, ha) \<and>
          require_exact_tag_object g spec src date sha ha = (Inr (), hb) \<and> guard_verify x g gd hb = (Inr (), h')"
        using rest by (auto simp: io_try_Inr split: if_splits)
      have "(Get (repo_path (''/releases/tags/'' @ rs_tag spec)), Not_Found) \<in> set h2"
        using inspect_release_events [OF i] False by auto
      note does_create_release [OF assms(1) guard_capture_result [OF gd, THEN conjunct1]
        guard_capture_result [OF gd, THEN conjunct2] this]
      from does_appends [OF this c] inspect_release_events [OF i] have "set h1 \<subseteq> set h3" by auto
      with gd t show ?thesis by (rule that)
    qed
  qed
  note gdr = guard_capture_result [OF gd]
  obtain earlier where e: "(Get (repo_path ''/releases/latest''), earlier) \<in> set h1"
    "answered as_latest earlier = Some (lg_before gd)"
    using latest_read_iff [OF guard_capture_read [OF gd]] by (metis list.set_intros(1))
  from tail obtain ha hb where ha: "inspect_release g spec src h2 = (Inr True, ha)"
    and hb: "require_exact_tag_object g spec src date sha ha = (Inr (), hb)"
    and hl: "guard_verify x g gd hb = (Inr (), h')" by blast
  obtain l where l: "ha = (Get (repo_path (''/releases/tags/'' @ rs_tag spec)), Body (B_Release l)) # h2"
    "validate_release l spec src = Inr ()" using inspect_release_events [OF ha] by auto
  obtain r t where t: "hb = tag_events spec src date sha r t @ ha" "exact_tag spec src date sha r t"
    using require_exact_tag_events [OF hb] by blast
  obtain resp now where n: "h' = (Get (repo_path ''/releases/latest''), resp) # hb"
    "answered as_latest resp = Some now"
    "if lg_advance gd then map_option lr_tag_name now = Some (lg_target gd) else now = lg_before gd"
    using guard_verify_result [OF hl] by blast
  have "h' = (Get (repo_path ''/releases/latest''), resp) # tag_events spec src date sha r t @
      (Get (repo_path (''/releases/tags/'' @ rs_tag spec)), Body (B_Release l)) # h2"
    by (simp only: n(1) t(1) l(1))
  moreover have "if advances x (rs_line spec) (rs_tag spec) (lg_before gd)
      then map_option lr_tag_name now = Some (rs_tag spec) else now = lg_before gd"
    using n(3) unfolding gdr [THEN conjunct1] gdr [THEN conjunct2] .
  moreover have "(Get (repo_path ''/releases/latest''), earlier) \<in> set h2" using e(1) keep by blast
  ultimately show ?thesis
    unfolding released_def using t(2) l(2) n(2) e(2)
    by (intro exI [of _ resp] exI [of _ now] exI [of _ sha] exI [of _ r] exI [of _ t] exI [of _ l] exI [of _ h2]
        exI [of _ earlier] exI [of _ "lg_before gd"] conjI)
qed

lemma finalize_package_released:
  assumes "finalize_package x g package v src main date \<lparr>fp_line = bd_line b, fp_binding = Some b\<rparr> h = (Inr (), h')"
  shows "\<exists>spec. run_spec x package v src b = Inr spec \<and> released x spec src date h'"
proof -
  obtain spec sha h1 where spec: "run_spec x package v src b = Inr spec"
    and "reconcile_release x g spec src main date sha h1 = (Inr (), h')"
    using assms unfolding finalize_package_form io_try_Inr io_lift_iff by blast
  moreover from spec have "rs_binding spec = Some b" by (auto simp: run_spec_def result_simps)
  ultimately show ?thesis using reconcile_release_released by blast
qed

text \<open>
  C29: success of the finalizer means that every release is there. When a run reports success,
  then for every package its last four answers were, after all its writes: the immutable Release,
  authored by the App, without assets, with the source, the tag and the text of the release; the
  tag of that name as an annotated tag; its object, pointing at the source with the fixed tagger;
  and Latest, which is this release if it is a stable version of main after the Latest of before,
  and otherwise the Latest of before.
\<close>

theorem finalizer_success_establishes:
  assumes "finalize_packages x g packages v src main date b h = (Inr (), h')"
  shows "\<forall>package\<in>set packages. \<exists>spec later h1. run_spec x package v src b = Inr spec \<and>
    h' = later @ h1 \<and> released x spec src date h1"
  using assms
proof (induction packages arbitrary: h)
  case (Cons package packages)
  then obtain h1 h2 where "finalize_package x g package v src main date
        \<lparr>fp_line = bd_line b, fp_binding = Some b\<rparr> h1 = (Inr (), h2)"
    and rest: "finalize_packages x g packages v src main date b h2 = (Inr (), h')"
    by (auto simp: io_try_Inr)
  moreover obtain later where "h' = later @ h2"
    using does_appends [OF does_finalize_packages [OF subset_refl] rest] by blast
  ultimately show ?case using finalize_package_released Cons.IH [OF rest] by (metis set_ConsD)
qed simp

end
