(* ===== verification/Sample_Github.thy ===== *)
theory Sample_Github
  imports Github_Writes "HOL-Library.List_Lexorder"
begin

text \<open>
  A small GitHub that remembers what was written to it, one version with its display, and the
  witnesses of the release properties.
\<close>

section \<open>A version order\<close>

definition version_key :: "version \<Rightarrow> nat \<times> nat \<times> nat \<times> bool \<times> nat \<times> nat list \<times> nat list" where
  "version_key v = (v_major v, v_minor v, v_patch v, v_pre v = [], digits_value (drop 3 (v_pre v)),
     map of_char (v_pre v), map of_char (v_build v))"

definition v050 :: version where
  "v050 = \<lparr>v_major = 0, v_minor = 5, v_patch = 0, v_pre = [], v_build = []\<rparr>"

definition sample_release :: release_ext where
  "sample_release =
     \<lparr>version_parse = (\<lambda>s. if s = ''0.5.0'' then Some v050 else None),
      version_to_string = (\<lambda>_. ''0.5.0''),
      version_less = (\<lambda>a b. version_key a < version_key b),
      git = (\<lambda>root args. Inl (Msg ''no repository''))\<rparr>"

definition s_main :: string where "s_main = replicate 40 (CHR ''a'')"
definition s_source :: string where "s_source = replicate 40 (CHR ''b'')"
definition s_object :: string where "s_object = replicate 40 (CHR ''c'')"
definition s_date :: string where "s_date = ''2026-01-01T00:00:00Z''"

definition s_binding :: binding where
  "s_binding = \<lparr>bd_line = Main_Line, bd_operation = Recover_Source, bd_main = s_main, bd_source = s_source,
     bd_anchor = None\<rparr>"

definition s_package :: package_policy where "s_package = hd ALL_PACKAGES"

definition s_spec :: release_spec where
  "s_spec = (case run_spec sample_release s_package v050 s_source s_binding of Inr spec \<Rightarrow> spec)"

definition s_name :: string where "s_name = rs_tag s_spec"

fun wrote_release :: "request \<times> response \<Rightarrow> bool" where
  "wrote_release (Post path (P_Release p), r) = True"
| "wrote_release _ = False"

fun wrote_ref :: "request \<times> response \<Rightarrow> bool" where
  "wrote_ref (Post path (P_Ref p), r) = True"
| "wrote_ref _ = False"

definition s_tag :: annotated_tag where
  "s_tag = \<lparr>at_sha = s_object, at_tag = s_name, at_message = rs_message s_spec,
     at_tagger = \<lparr>tg_name = APP_LOGIN, tg_email = APP_EMAIL, tg_date = s_date\<rparr>,
     at_object = \<lparr>go_sha = s_source, go_kind = ''commit''\<rparr>\<rparr>"

definition s_ref :: git_ref where
  "s_ref = \<lparr>gr_name = ''refs/tags/'' @ s_name, gr_object = \<lparr>go_sha = s_object, go_kind = ''tag''\<rparr>\<rparr>"

definition s_release :: github_release where
  "s_release = \<lparr>gl_id = 1, gl_tag_name = s_name, gl_target_commitish = s_source, gl_name = s_name,
     gl_body = rs_body s_spec, gl_draft = False, gl_prerelease = rs_prerelease s_spec, gl_immutable = True,
     gl_author = \<lparr>ra_login = APP_LOGIN, ra_id = APP_ID, ra_kind = ''Bot''\<rparr>, gl_assets = []\<rparr>"

fun sample_github :: github where
  "sample_github h (Post path (P_Tag p)) = Body (B_Tag s_tag)"
| "sample_github h (Post path (P_Ref p)) = Body (B_Ref s_ref)"
| "sample_github h (Post path (P_Release p)) = Body (B_Release s_release)"
| "sample_github h (Get path) =
     (if path = repo_path ''/git/ref/heads/main''
      then Body (B_Ref \<lparr>gr_name = ''refs/heads/main'', gr_object = \<lparr>go_sha = s_main, go_kind = ''commit''\<rparr>\<rparr>)
      else if path = repo_path ''/releases/latest''
      then if list_ex wrote_release h then Body (B_Latest \<lparr>lr_id = 1, lr_tag_name = s_name\<rparr>) else Not_Found
      else if path = repo_path (''/git/ref/tags/'' @ s_name)
      then if list_ex wrote_ref h then Body (B_Ref s_ref) else Not_Found
      else if path = repo_path (''/git/tags/'' @ s_object) then Body (B_Tag s_tag)
      else if path = repo_path (''/releases/tags/'' @ s_name)
      then if list_ex wrote_release h then Body (B_Release s_release) else Not_Found
      else Body (B_Comparison \<lparr>cmp_status = ''ahead'', cmp_base_commit = s_source, cmp_merge_base_commit = s_source\<rparr>))"
| "sample_github h _ = Done"

section \<open>A run against it\<close>

lemma s_run_spec:
  "run_spec sample_release s_package v050 s_source s_binding = Inr s_spec" "s_name = ''yaml-sigil-core-v0.5.0''"
  "rs_line s_spec = Main_Line" "rs_binding s_spec = Some s_binding"
  by (simp_all add: s_name_def s_spec_def s_package_def ALL_PACKAGES_def run_spec_def release_spec_new_def Let_def
      package_tag_def sample_release_def require_tag_def is_ascii_lower_def is_ascii_digit_def of_char_def s_binding_def)

lemma repo_path_eq [simp]: "repo_path a = repo_path b \<longleftrightarrow> a = b"
  by (simp add: repo_path_def)

lemma s_sha [simp]: "is_sha s_main" "is_sha s_source" "is_sha s_object" "require_sha s_object label = Inr ()"
  by (simp_all add: is_sha_def require_sha_def s_main_def s_source_def s_object_def lower_hex_def is_ascii_digit_def
      of_char_def list_all_iff)

definition clean :: "string \<Rightarrow> bool" where
  "clean s \<longleftrightarrow> list_all (\<lambda>c. c \<notin> {CHR 0x00, CHR 0x0D, CHR 0x0A}) s"

lemma clean_simps [simp]: "clean []" "clean (c # s) \<longleftrightarrow> c \<notin> {CHR 0x00, CHR 0x0D, CHR 0x0A} \<and> clean s"
  "clean (s @ t) \<longleftrightarrow> clean s \<and> clean t" "clean s_main" "clean s_source" "clean s_object" "clean s_name"
  by (auto simp: clean_def s_run_spec(2) s_main_def s_source_def s_object_def list_all_iff)

lemma path_ok [simp]: "request_path_ok (repo_path s) \<longleftrightarrow> clean s"
  by (simp add: clean_def request_path_ok_def repo_path_def REPOSITORY_def)

text \<open>What the sample remembers: whether the tag and the Release were written.\<close>

definition state :: "history \<Rightarrow> bool \<times> bool" where
  "state h = (list_ex wrote_ref h, list_ex wrote_release h)"

definition yields :: "'a io \<Rightarrow> bool \<times> bool \<Rightarrow> 'a \<Rightarrow> bool \<times> bool \<Rightarrow> bool" where
  "yields m s a s' \<longleftrightarrow> (\<forall>h. state h = s \<longrightarrow> (\<exists>h'. m h = (Inr a, h') \<and> state h' = s'))"

lemma yields_lift: "r = Inr a \<Longrightarrow> yields (io_lift r) s a s"
  by (simp add: yields_def io_lift_def)

lemma yields_try: "yields m s a s1 \<Longrightarrow> yields (f a) s1 b s2 \<Longrightarrow> yields (io_try m f) s b s2"
  unfolding yields_def io_try_def by fastforce

lemma yields_get:
  assumes "request_path_ok path" and "\<And>h. state h = s \<Longrightarrow> sample_github h (Get path) = Body (B h)"
    and "\<And>h. state h = s \<Longrightarrow> dec (B h) = Some a"
  shows "yields (gh_get sample_github dec path) s a s"
  unfolding yields_def gh_get_iff using assms by (auto simp: state_def)

lemma yields_get_optional:
  assumes "request_path_ok path" and "\<And>h. state h = s \<Longrightarrow> answered dec (sample_github h (Get path)) = Some a"
  shows "yields (gh_get_optional sample_github dec path) s a s"
  unfolding yields_def gh_get_optional_iff using assms by (auto simp: state_def)

lemma yields_post:
  assumes "request_path_ok path" and "\<And>h. sample_github h (Post path p) = Body b" "dec b = Some a"
  shows "yields (gh_post sample_github dec path p) (x, y) a
    (x \<or> wrote_ref (Post path p, Body b), y \<or> wrote_release (Post path p, Body b))"
  unfolding yields_def gh_post_def using assms
  by (auto simp: state_def io_try_def io_lift_def gh_request_def send_def gh_decode_def)

definition s_tip :: git_ref where
  "s_tip = \<lparr>gr_name = ''refs/heads/main'', gr_object = \<lparr>go_sha = s_main, go_kind = ''commit''\<rparr>\<rparr>"

lemma s_read_main: "yields (read_ref sample_github ''refs/heads/main'') s s_main s"
  unfolding read_ref_def
  by (rule yields_try [OF yields_lift [of _ "''heads/main''"]], simp,
      rule yields_try [OF yields_get [of _ _ "\<lambda>_. B_Ref s_tip" _ s_tip]])
    (simp_all add: yields_lift s_tip_def)

definition s_comparison :: comparison where
  "s_comparison = \<lparr>cmp_status = ''ahead'', cmp_base_commit = s_source, cmp_merge_base_commit = s_source\<rparr>"

lemma s_compare: "yields (compare_commits sample_github s_source s_main) s s_comparison s"
  unfolding compare_commits_def
  by (rule yields_get [of _ _ "\<lambda>_. B_Comparison s_comparison"]) (simp_all add: s_comparison_def s_run_spec(2))

lemma s_binding_simps [simp]:
  "bd_line s_binding = Main_Line" "bd_operation s_binding = Recover_Source" "bd_main s_binding = s_main"
  "bd_source s_binding = s_source" "bd_anchor s_binding = None"
  by (simp_all add: s_binding_def)

lemma s_verify: "yields (binding_verify sample_github s_binding) s () s"
  unfolding binding_verify_def s_binding_simps base_ref.simps
  by (rule yields_try [OF s_read_main], simp only: provenance_operation.distinct simp_thms if_False,
      rule yields_try [OF s_compare], simp add: s_comparison_def, rule yields_try [OF yields_lift [OF refl]],
      rule yields_try [OF s_read_main], simp, rule yields_try [OF s_read_main])
    (simp add: yields_lift)

lemma s_validate:
  "validate_tag_ref s_ref s_spec = Inr s_object" "validate_tag s_tag s_spec s_source s_date s_object = Inr ()"
  "validate_release s_release s_spec s_source = Inr ()" "at_sha s_tag = s_object"
  by (simp_all add: validate_tag_ref_def validate_tag_def validate_release_def s_ref_def s_tag_def s_release_def s_name_def)

lemma s_inspect_tag:
  "yields (inspect_tag sample_github s_spec s_source s_date) (False, y) None (False, y)"
  "yields (inspect_tag sample_github s_spec s_source s_date) (True, y) (Some s_object) (True, y)"
proof -
  note simps = s_name_def [symmetric] s_run_spec(2) state_def yields_lift
  show "yields (inspect_tag sample_github s_spec s_source s_date) (False, y) None (False, y)"
    unfolding inspect_tag_def
    by (rule yields_try [OF yields_get_optional [of _ _ _ None]]) (simp_all add: simps)
  show "yields (inspect_tag sample_github s_spec s_source s_date) (True, y) (Some s_object) (True, y)"
    unfolding inspect_tag_def
    by (rule yields_try [OF yields_get_optional [of _ _ _ "Some s_ref"]], simp add: simps, simp add: simps,
        simp only: option.case, rule yields_try [OF yields_lift [OF s_validate(1)]],
        rule yields_try [OF yields_get [of _ _ "\<lambda>_. B_Tag s_tag" _ s_tag]],
        simp_all only: s_validate(2), rule_tac [4] yields_try [OF yields_lift [OF refl]])
      (simp_all add: simps)
qed

lemma s_exact: "yields (require_exact_tag_object sample_github s_spec s_source s_date s_object) (True, y) () (True, y)"
  unfolding require_exact_tag_object_def
  by (rule yields_try [OF s_inspect_tag(2)]) (simp add: yields_lift)

lemma s_inspect_release:
  "yields (inspect_release sample_github s_spec s_source) (y, False) False (y, False)"
  "yields (inspect_release sample_github s_spec s_source) (y, True) True (y, True)"
proof -
  note simps = s_name_def [symmetric] s_run_spec(2) state_def yields_lift
  show "yields (inspect_release sample_github s_spec s_source) (y, False) False (y, False)"
    unfolding inspect_release_def
    by (rule yields_try [OF yields_get_optional [of _ _ _ None]]) (simp_all add: simps)
  show "yields (inspect_release sample_github s_spec s_source) (y, True) True (y, True)"
    unfolding inspect_release_def
    by (rule yields_try [OF yields_get_optional [of _ _ _ "Some s_release"]], simp add: simps, simp add: simps,
        simp only: option.case, rule yields_try [OF yields_lift [OF s_validate(3)]]) (rule yields_lift [OF refl])
qed

lemma s_order: "release_order sample_release s_name = Inr (v050, 0)"
  by (simp add: release_order_def package_prefixes_def ALL_PACKAGES_def s_run_spec(2) sample_release_def v050_def
      for_version_def RUST_POLICY_def)

lemma s_latest:
  "yields (latest_read sample_release sample_github) (y, False) None (y, False)"
  "yields (latest_read sample_release sample_github) (y, True) (Some \<lparr>lr_id = 1, lr_tag_name = s_name\<rparr>) (y, True)"
proof -
  show "yields (latest_read sample_release sample_github) (y, False) None (y, False)"
    unfolding latest_read_def
    by (rule yields_try [OF yields_get_optional [of _ _ _ None]]) (simp_all add: state_def yields_lift)
  show "yields (latest_read sample_release sample_github) (y, True) (Some \<lparr>lr_id = 1, lr_tag_name = s_name\<rparr>) (y, True)"
    unfolding latest_read_def
    by (rule yields_try [OF yields_get_optional [of _ _ _ "Some \<lparr>lr_id = 1, lr_tag_name = s_name\<rparr>"]],
        simp, simp add: state_def, simp only: option.case latest_release.simps, rule yields_try [OF yields_lift [OF s_order]])
      (simp add: yields_lift v050_def)
qed

lemma yields_post_catch:
  assumes "yields (gh_post sample_github dec path p) s a s1" and "yields (f a) s1 b s2"
  shows "yields (\<lambda>h. case gh_post sample_github dec path p h of (Inl e, h') \<Rightarrow> k e h' | (Inr a, h') \<Rightarrow> f a h') s b s2"
  using assms unfolding yields_def by fastforce

lemma s_create_tag_object:
  "yields (create_tag_object sample_github s_spec s_source s_main s_date) (False, False) s_tag (False, False)"
  unfolding create_tag_object_def rebind_def s_run_spec option.case
  by (rule yields_try [OF s_verify], rule yields_try [OF yields_post [of _ _ "B_Tag s_tag" _ s_tag]], simp_all,
      simp only: s_validate, rule yields_try [OF yields_lift [OF s_sha(4)]],
      rule yields_try [OF yields_lift [OF refl]],
      rule yields_try [OF yields_get [of _ _ "\<lambda>_. B_Tag s_tag" _ s_tag]])
    (simp_all add: s_run_spec(2) s_validate yields_try [OF yields_lift [OF refl]] yields_lift)

lemma s_create_tag_ref:
  "yields (create_tag_ref sample_github s_spec s_source s_main s_date s_object) (False, False) () (True, False)"
  unfolding create_tag_ref_def rebind_def s_run_spec option.case
  by (rule yields_try [OF s_verify], rule yields_post_catch, rule yields_post [of _ _ "B_Ref s_ref" _ s_ref])
    (simp_all add: s_validate yields_try [OF yields_lift [OF refl]] yields_lift)

lemma s_reconcile_tag:
  "yields (reconcile_tag sample_github s_spec s_source s_main s_date) (False, False) s_object (True, False)"
  unfolding reconcile_tag_def
  by (rule yields_try [OF s_inspect_tag(1)], simp only: option.case, rule yields_try [OF s_create_tag_object],
      simp only: s_validate, rule yields_try [OF s_create_tag_ref], rule yields_try [OF s_exact])
    (rule yields_lift [OF refl])

definition s_guard :: latest_guard where
  "s_guard = \<lparr>lg_before = None, lg_target = s_name, lg_advance = True\<rparr>"

lemma s_capture: "yields (guard_capture sample_release sample_github Main_Line s_name) (True, False) s_guard (True, False)"
  unfolding guard_capture_def
  by (rule yields_try [OF yields_lift [OF s_order]], rule yields_try [OF s_latest(1)])
    (simp add: make_latest_def v050_def s_guard_def yields_try [OF yields_lift [OF refl]] yields_lift)

lemma s_create_release:
  "yields (create_release sample_release sample_github s_spec s_source s_main s_date s_object s_guard)
     (True, False) () (True, True)"
proof -
  have unchanged: "yields (require_unchanged sample_release sample_github s_guard) (True, False) () (True, False)"
    unfolding require_unchanged_def
    by (rule yields_try [OF s_latest(1)]) (simp add: s_guard_def yields_lift)
  have "yields (\<lambda>h. case gh_post sample_github as_release (repo_path ''/releases'')
        (P_Release (release_payload_of s_spec s_source s_guard)) h of
       (Inl error, h') \<Rightarrow>
         io_try (inspect_release sample_github s_spec s_source) (\<lambda>exists.
         if exists then require_exact_tag_object sample_github s_spec s_source s_date s_object else io_lift (Inl error)) h'
     | (Inr release, h') \<Rightarrow> io_lift (validate_release release s_spec s_source) h') (True, False) () (True, True)"
    by (rule yields_post_catch, rule yields_post [of _ _ "B_Release s_release" _ s_release])
      (simp_all add: s_validate yields_lift)
  then have "yields (\<lambda>h. case gh_post sample_github as_release (repo_path ''/releases'')
        (P_Release (release_payload_of s_spec s_source s_guard)) h of
       (Inl error, h') \<Rightarrow>
         io_try (inspect_release sample_github s_spec s_source) (\<lambda>exists.
         if exists then require_exact_tag_object sample_github s_spec s_source s_date s_object else io_lift (Inl error)) h'
     | (Inr release, h') \<Rightarrow> (validate_release release s_spec s_source, h')) (True, False) () (True, True)"
    by (simp only: io_lift_def)
  then show ?thesis
    unfolding create_release_def rebind_def s_run_spec option.case
    by (intro yields_try [OF s_verify] yields_try [OF s_exact] yields_try [OF unchanged])
qed

lemma s_reconcile_release:
  "yields (reconcile_release sample_release sample_github s_spec s_source s_main s_date s_object)
     (True, False) () (True, True)"
  unfolding reconcile_release_def s_run_spec s_name_def [symmetric]
  by (rule yields_try [OF s_capture [unfolded s_run_spec]], rule yields_try [OF s_inspect_release(1)], simp only: if_False,
      rule yields_try [OF s_create_release], rule yields_try [OF s_inspect_release(2)], simp only: not_True_eq_False if_False,
      rule yields_try [OF s_exact], unfold guard_verify_def, rule yields_try [OF s_latest(2)])
    (simp add: s_guard_def yields_lift)

lemma s_run: "yields (finalize_packages sample_release sample_github [s_package] v050 s_source s_main s_date s_binding)
    (False, False) () (True, True)"
proof -
  have run: "yields (finalize_package sample_release sample_github s_package v050 s_source s_main s_date
      \<lparr>fp_line = bd_line s_binding, fp_binding = Some s_binding\<rparr>) (False, False) () (True, True)"
    unfolding finalize_package_form
    by (rule yields_try [OF yields_lift [OF s_run_spec(1)]], rule yields_try [OF s_reconcile_tag]) (rule s_reconcile_release)
  show ?thesis
    unfolding finalize_packages.simps
    by (rule yields_try [OF s_verify], rule yields_try [OF run]) (rule yields_lift [OF refl])
qed

text \<open>
  A run from nothing succeeds, writes the tag object, the tag and the Release, and the properties
  apply to it.
\<close>

theorem finalizer_success_establishes_witness:
  "\<exists>h' later h1. finalize_packages sample_release sample_github [s_package] v050 s_source s_main s_date s_binding []
      = (Inr (), h') \<and> state h' = (True, True) \<and> h' = later @ h1 \<and>
    released sample_release s_spec s_source s_date h1"
proof -
  have "state [] = (False, False)" by (simp add: state_def)
  then obtain h' where run: "finalize_packages sample_release sample_github [s_package] v050 s_source s_main s_date
      s_binding [] = (Inr (), h')" and "state h' = (True, True)"
    using s_run unfolding yields_def by blast
  moreover obtain later h1 where "h' = later @ h1" "released sample_release s_spec s_source s_date h1"
    using finalizer_success_establishes [OF run] unfolding list.set ball_simps s_run_spec(1) by blast
  ultimately show ?thesis by blast
qed

section \<open>Tags and versions\<close>

theorem release_tags_roundtrip_witness:
  "release_order sample_release ''yaml-sigil-core-v0.5.0'' = Inr (v050, 0)"
  using release_tags_roundtrip [of sample_release v050 "''yaml-sigil-core-v0.5.0''" 0]
  by (simp add: sample_release_def v050_def for_version_def RUST_POLICY_def ALL_PACKAGES_def package_tag_def)

lemma version_key_inj: "version_key a = version_key b \<Longrightarrow> a = b"
proof -
  have "inj (of_char :: char \<Rightarrow> nat)" by (simp add: inj_def)
  then show "version_key a = version_key b \<Longrightarrow> a = b"
    by (cases a; cases b) (simp add: version_key_def inj_map_eq_map)
qed

lemma sample_semver: "semver_ok sample_release"
  unfolding semver_ok_def sample_release_def release_ext.simps
proof (intro conjI allI impI)
  fix a b :: version
  show "a = b \<or> version_key a < version_key b \<or> version_key b < version_key a"
    using version_key_inj [of a b] less_linear [of "version_key a" "version_key b"] by blast
qed (auto simp: version_key_def)

definition v051 :: version where
  "v051 = \<lparr>v_major = 0, v_minor = 5, v_patch = 1, v_pre = ''rc.1'', v_build = []\<rparr>"

lemma show_one: "show_nat (Suc 0) = ''1''"
  by code_simp

theorem support_advancement_correct_witness:
  "require_advancement sample_release (Support 0 5) v051 [v050] = Inr () \<and> version_less sample_release v050 v051"
proof -
  have "last_stable_patch (Support 0 5) [v050] 0"
    by (simp add: last_stable_patch_def stable_on_def v050_def)
  moreover have "next_candidate sample_release (Support 0 5) [v050] v051"
    by (auto simp: next_candidate_def same_patch_def v051_def v050_def show_one
        intro!: exI [of _ 1])
  ultimately have "require_advancement sample_release (Support 0 5) v051 [v050] = Inr ()"
    using support_advancement_correct [OF sample_semver, of v051 "[v050]" 0 5 v050]
    by (auto simp: v051_def v050_def)
  moreover from this have "version_less sample_release v050 v051"
    using support_advancement_correct [OF sample_semver, of v051 "[v050]" 0 5 v050]
    by (auto simp: v050_def)
  ultimately show ?thesis ..
qed

end
