(* ===== verification/Github_Registry.thy ===== *)
theory Github_Registry
  imports Github Utf8
begin

text \<open>
  The registry half of \<open>xtask/src/github.rs\<close>: which of the selected packages crates.io has, each
  accepted only with a source archive that was packaged from the exact commit. Downloading,
  hashing, unpacking and JSON are parameters.
\<close>

section \<open>Requests to crates.io\<close>

record registry_record =
  rr_checksum :: string
  rr_num :: string
  rr_yanked :: bool

record cargo_vcs_info =
  vi_sha1 :: string
  vi_dirty :: bool
  vi_path_in_vcs :: "string option"

text \<open>An entry of a crate archive; the path and the content may be unreadable.\<close>

record archive_entry =
  ae_size :: nat
  ae_path :: "string option"
  ae_is_file :: bool
  ae_content :: "string option"

text \<open>
  An archive that cannot be opened has no entries, and an unreadable entry is \<open>None\<close>.
\<close>

record registry_ext = release_ext +
  registry_parse :: "string \<Rightarrow> registry_record option"
  vcs_parse :: "string \<Rightarrow> cargo_vcs_info option"
  sha256_hex :: "string \<Rightarrow> string"
  crate_entries :: "string \<Rightarrow> archive_entry option list option"

definition VCS_INFO_LIMIT :: nat where "VCS_INFO_LIMIT = 64 * 1024"
definition MAX_CRATE_ARCHIVE_ENTRIES :: nat where "MAX_CRATE_ARCHIVE_ENTRIES = 4096"
definition MAX_CRATE_UNPACKED_BYTES :: nat where "MAX_CRATE_UNPACKED_BYTES = 64 * 1024 * 1024"

text \<open>The last line feed splits a body from the status that was written after it.\<close>

fun rsplit_line :: "string \<Rightarrow> (string \<times> string) option" where
  "rsplit_line [] = None"
| "rsplit_line (c # cs) =
     (case rsplit_line cs of
        Some (a, b) \<Rightarrow> Some (c # a, b)
      | None \<Rightarrow> if c = CHR 0x0A then Some ([], cs) else None)"

definition parse_u16 :: "string \<Rightarrow> nat option" where
  "parse_u16 s = (case parse_u64 s of Some n \<Rightarrow> if n < 2 ^ 16 then Some n else None | None \<Rightarrow> None)"

definition crates_url :: string where "crates_url = ''https://crates.io/api/v1/crates/''"

definition response_parts :: "string \<Rightarrow> release_error + nat \<times> string" where
  "response_parts stdout =
     result_try (ok_or (rsplit_line stdout) (Msg ''crates.io response lacks HTTP status'')) (\<lambda>(body, code).
     if \<not> utf8_valid (map of_char code) then Inl (Msg ''crates.io HTTP status is not UTF-8'')
     else
       result_try (ok_or (parse_u16 code) (Msg ''crates.io HTTP status is malformed'')) (\<lambda>status.
       Inr (status, body)))"

definition curl_response :: "github \<Rightarrow> string \<Rightarrow> (nat \<times> string) io" where
  "curl_response g url h =
     (if \<not> starts_with url crates_url \<or> \<not> list_all (\<lambda>c. c \<notin> {CHR 0x00, CHR 0x0D, CHR 0x0A}) url
      then (Inl (Msg ''crates.io request URL is not fixed and safe''), h)
      else
        (case send g (Fetch url) h of
           (Output stdout, h') \<Rightarrow> (response_parts stdout, h')
         | (Failed e, h') \<Rightarrow> (Inl e, h')
         | (_, h') \<Rightarrow> (Inl (Msg ''query crates.io failed''), h')))"

section \<open>A package in the registry\<close>

definition require_checksum :: "string \<Rightarrow> release_error + unit" where
  "require_checksum value =
     (if length value \<noteq> 64 \<or> \<not> list_all lower_hex value
      then Inl (Msg ''crates.io checksum is not lowercase SHA-256'') else Inr ())"

definition require_package_name :: "string \<Rightarrow> release_error + unit" where
  "require_package_name value =
     (if value = [] \<or> \<not> list_all (\<lambda>c. is_ascii_lower c \<or> is_ascii_digit c \<or> c = CHR ''-'') value
      then Inl (Msg ''release package name is malformed'') else Inr ())"

definition validate_registry_record ::
    "'z registry_ext_scheme \<Rightarrow> string \<Rightarrow> version \<Rightarrow> registry_record \<Rightarrow> release_error + unit" where
  "validate_registry_record x package version r =
     result_try (require_checksum (rr_checksum r)) (\<lambda>_.
     if rr_num r \<noteq> version_to_string x version \<or> rr_yanked r
     then Inl (Fmt ''crates.io returned conflicting metadata for {package} {version}''
            [package, version_to_string x version])
     else Inr ())"

definition registry_record_of ::
    "'z registry_ext_scheme \<Rightarrow> github \<Rightarrow> string \<Rightarrow> version \<Rightarrow> registry_record option io" where
  "registry_record_of x g package version =
     io_try (io_lift (require_package_name package)) (\<lambda>_.
     io_try (curl_response g (crates_url @ package @ ''/'' @ version_to_string x version)) (\<lambda>(status, body).
     if status = 404 then io_lift (Inr None)
     else if status \<noteq> 200
     then io_lift (Inl (Fmt ''crates.io returned HTTP {status} for {package} {version}''
            [show_nat status, package, version_to_string x version]))
     else
       io_try (io_lift (ok_or (registry_parse x body) (Fmt ''invalid crates.io response for {package} {version}''
           [package, version_to_string x version]))) (\<lambda>r.
       io_try (io_lift (validate_registry_record x package version r)) (\<lambda>_.
       io_lift (Inr (Some r))))))"

section \<open>The published archive\<close>

definition checked_u64 :: "nat \<Rightarrow> nat \<Rightarrow> nat option" where
  "checked_u64 a b = (if a + b < 2 ^ 64 then Some (a + b) else None)"

definition accumulate_archive_work :: "nat \<Rightarrow> nat \<Rightarrow> nat \<Rightarrow> release_error + nat \<times> nat" where
  "accumulate_archive_work entries unpacked_bytes entry_size =
     result_try (ok_or (checked_u64 entries 1) (Msg ''crate archive entry count overflowed'')) (\<lambda>entries.
     result_try (ok_or (checked_u64 unpacked_bytes entry_size) (Msg ''crate archive size overflowed''))
       (\<lambda>unpacked_bytes.
     if entries > MAX_CRATE_ARCHIVE_ENTRIES \<or> unpacked_bytes > MAX_CRATE_UNPACKED_BYTES
     then Inl (Msg ''crate archive exceeds bounded inspection limits'')
     else Inr (entries, unpacked_bytes)))"

text \<open>The one entry of the expected path, read while the archive's entries are counted.\<close>

fun find_vcs_info ::
    "string \<Rightarrow> string \<Rightarrow> nat \<Rightarrow> nat \<Rightarrow> string option \<Rightarrow> archive_entry option list
       \<Rightarrow> release_error + string option" where
  "find_vcs_info name expected_path entry_count unpacked_bytes found [] = Inr found"
| "find_vcs_info name expected_path entry_count unpacked_bytes found (entry # entries) =
     result_try (ok_or entry (Fmt ''read {} {version} source'' [name])) (\<lambda>entry.
     result_try (accumulate_archive_work entry_count unpacked_bytes (ae_size entry))
       (\<lambda>(entry_count, unpacked_bytes).
     result_try (ok_or (ae_path entry) (Msg ''read crate path'')) (\<lambda>path.
     if path \<noteq> expected_path then find_vcs_info name expected_path entry_count unpacked_bytes found entries
     else if found \<noteq> None \<or> \<not> ae_is_file entry \<or> ae_size entry > VCS_INFO_LIMIT
     then Inl (Fmt ''{} {version} has invalid .cargo_vcs_info.json'' [name])
     else
       result_try (ok_or (ae_content entry) (Msg ''read .cargo_vcs_info.json'')) (\<lambda>bytes.
       find_vcs_info name expected_path entry_count unpacked_bytes (Some bytes) entries))))"

definition verify_published_archive ::
    "'z registry_ext_scheme \<Rightarrow> package_policy \<Rightarrow> version \<Rightarrow> string \<Rightarrow> registry_record \<Rightarrow> string
       \<Rightarrow> release_error + unit" where
  "verify_published_archive x package version source_sha r archive =
     (let name = pp_package package @ '' '' @ version_to_string x version in
      result_try (require_sha source_sha ''published source SHA'') (\<lambda>_.
      if sha256_hex x archive \<noteq> rr_checksum r then Inl (Fmt ''published checksum differs for {} {version}'' [name])
      else
        result_try (ok_or (crate_entries x archive) (Fmt ''open {} {version} source'' [name])) (\<lambda>entries.
        result_try (find_vcs_info name
            (pp_package package @ ''-'' @ version_to_string x version @ ''/.cargo_vcs_info.json'')
            0 0 None entries) (\<lambda>found.
        result_try (ok_or found (Fmt ''{} {version} lacks bounded .cargo_vcs_info.json'' [name])) (\<lambda>bytes.
        result_try (ok_or (vcs_parse x bytes) (Msg ''invalid .cargo_vcs_info.json'')) (\<lambda>vcs.
        result_try (require_sha (vi_sha1 vcs) ''published VCS SHA'') (\<lambda>_.
        if vi_sha1 vcs \<noteq> source_sha \<or> vi_dirty vcs \<or> vi_path_in_vcs vcs \<noteq> Some (pp_path_in_vcs package)
        then Inl (Fmt ''{} {version} was not packaged from exact source {source_sha}'' [name, source_sha])
        else Inr ())))))))"

definition verify_published_source ::
    "'z registry_ext_scheme \<Rightarrow> github \<Rightarrow> package_policy \<Rightarrow> version \<Rightarrow> string \<Rightarrow> registry_record \<Rightarrow> unit io" where
  "verify_published_source x g package version source_sha r =
     io_try (curl_response g (crates_url @ pp_package package @ ''/'' @ version_to_string x version @ ''/download''))
       (\<lambda>(status, archive).
     if status \<noteq> 200
     then io_lift (Inl (Fmt ''crates.io returned HTTP {status} for {} {version} source''
            [show_nat status, pp_package package, version_to_string x version]))
     else io_lift (verify_published_archive x package version source_sha r archive))"

section \<open>The state of a family\<close>

fun package_states ::
    "'z registry_ext_scheme \<Rightarrow> github \<Rightarrow> package_policy list \<Rightarrow> string \<Rightarrow> version \<Rightarrow> bool list io" where
  "package_states x g [] source_sha version = io_lift (Inr [])"
| "package_states x g (package # packages) source_sha version =
     io_try (registry_record_of x g (pp_package package) version) (\<lambda>r.
     io_try (case r of
         Some r \<Rightarrow> io_try (verify_published_source x g package version source_sha r) (\<lambda>_. io_lift (Inr True))
       | None \<Rightarrow> io_lift (Inr False)) (\<lambda>state.
     io_try (package_states x g packages source_sha version) (\<lambda>states.
     io_lift (Inr (state # states)))))"

definition registry_states ::
    "'z registry_ext_scheme \<Rightarrow> github \<Rightarrow> string \<Rightarrow> version \<Rightarrow> bool list io" where
  "registry_states x g source_sha version =
     package_states x g (rp_packages (for_version version)) source_sha version"

fun wait_attempts ::
    "'z registry_ext_scheme \<Rightarrow> github \<Rightarrow> nat \<Rightarrow> string \<Rightarrow> version \<Rightarrow> bool list io" where
  "wait_attempts x g 0 source_sha version =
     io_lift (Inl (Msg ''all selected crates were not visible within 20 minutes''))"
| "wait_attempts x g (Suc attempts) source_sha version =
     io_try (registry_states x g source_sha version) (\<lambda>states.
     if list_all id states then io_lift (Inr states)
     else wait_attempts x g attempts source_sha version)"

definition wait_for_registry ::
    "'z registry_ext_scheme \<Rightarrow> github \<Rightarrow> string \<Rightarrow> version \<Rightarrow> bool list io" where
  "wait_for_registry x g source_sha version = wait_attempts x g 40 source_sha version"

definition registry_state :: "bool list \<Rightarrow> string" where
  "registry_state states =
     (let count = length (filter id states) in
      if count = 0 then ''none'' else if count = length states then ''complete'' else ''partial'')"

end
