(* ===== verification/Github_Qualify.thy ===== *)
theory Github_Qualify
  imports Github_Finalize Github_Registry
begin

text \<open>
  The rules of qualification in \<open>xtask/src/github.rs\<close>: what an operation may do given the state
  of the registry, what the original run of a recovery must be, and when a commit is the merge of
  one canonical, reviewed and signed release pull request.
\<close>

section \<open>Operations and decisions\<close>

datatype operation = Auto | Release | Validate | Recover

record decision =
  dc_publish :: bool
  dc_finalize :: bool

definition no_decision :: decision where
  "no_decision = \<lparr>dc_publish = False, dc_finalize = False\<rparr>"

fun ordinary_decision :: "operation \<Rightarrow> release_error + decision" where
  "ordinary_decision Auto = Inr no_decision"
| "ordinary_decision Validate = Inr no_decision"
| "ordinary_decision _ = Inl (Msg ''recovery source is not a canonical merged release pull request'')"

definition maybe_reconcile_registry :: "operation \<Rightarrow> bool \<Rightarrow> bool list io \<Rightarrow> bool list option io" where
  "maybe_reconcile_registry operation release reconcile =
     (case operation of
        Validate \<Rightarrow> io_lift (Inr None)
      | Auto \<Rightarrow>
          if \<not> release then io_lift (Inr None)
          else io_try reconcile (\<lambda>states. io_lift (Inr (Some states)))
      | _ \<Rightarrow>
          if \<not> release then io_lift (Inl (Msg ''recovery source is not a canonical merged release pull request''))
          else io_try reconcile (\<lambda>states. io_lift (Inr (Some states))))"

text \<open>The packages that are published must be the first ones in dependency order.\<close>

fun published_prefix :: "bool \<Rightarrow> bool list \<Rightarrow> bool" where
  "published_prefix missing_seen [] = True"
| "published_prefix missing_seen (published # states) =
     (if \<not> published then published_prefix True states
      else if missing_seen then False
      else published_prefix missing_seen states)"

definition decide :: "operation \<Rightarrow> bool list \<Rightarrow> version \<Rightarrow> release_error + decision" where
  "decide operation states version =
     (if length states \<noteq> length (rp_packages (for_version version))
      then Inl (Msg ''registry state does not cover the exact selected package family'')
      else if operation = Validate then Inr no_decision
      else if \<not> published_prefix False states
      then Inl (Msg ''published crates do not form the exact dependency-order prefix'')
      else
        (let published = length (filter id states) in
         if operation \<in> {Auto, Release} \<and> published = 0 then Inr \<lparr>dc_publish = True, dc_finalize = True\<rparr>
         else if operation = Auto \<and> published = length states then Inr no_decision
         else if operation = Release \<and> published = length states
         then Inl (Msg ''support version is already published; use recovery only for incomplete finalization'')
         else if operation \<in> {Auto, Release}
         then Inl (Msg ''partial publication requires bounded recovery from the original source'')
         else if published = 0
         then Inl (Msg ''zero-package recovery is forbidden; start a fresh release from the current tip'')
         else Inr \<lparr>dc_publish = (published \<noteq> length states), dc_finalize = True\<rparr>))"

definition registry_decision :: "operation \<Rightarrow> bool list \<Rightarrow> bool \<Rightarrow> version \<Rightarrow> release_error + decision" where
  "registry_decision operation states confirmation version =
     (if confirmation
      then
        if length states \<noteq> length (rp_packages (for_version version)) \<or> \<not> list_all id states
        then Inl (Msg ''registry confirmation requires all selected exact source packages'')
        else Inr no_decision
      else decide operation states version)"

section \<open>The original run of a recovery\<close>

definition PUBLISH_WORKFLOW_ID :: nat where "PUBLISH_WORKFLOW_ID = 337417483"
definition PUBLISH_WORKFLOW_PATH :: string where "PUBLISH_WORKFLOW_PATH = ''.github/workflows/publish.yml''"

definition validate_publish_workflow :: "workflow \<Rightarrow> release_error + unit" where
  "validate_publish_workflow w =
     (if wf_id w \<noteq> PUBLISH_WORKFLOW_ID \<or> wf_path w \<noteq> PUBLISH_WORKFLOW_PATH \<or> wf_state w \<noteq> ''active''
      then Inl (Msg ''replacement publication workflow identity or state changed'') else Inr ())"

definition validate_original_run :: "workflow_run \<Rightarrow> string \<Rightarrow> nat \<Rightarrow> nat \<Rightarrow> release_error + unit" where
  "validate_original_run run source_sha run_id run_attempt =
     (let conclusion = (case wr_conclusion run of Some c \<Rightarrow> c | None \<Rightarrow> []) in
      if wr_id run \<noteq> run_id \<or> wr_run_attempt run \<noteq> run_attempt \<or> wr_workflow_id run \<noteq> PUBLISH_WORKFLOW_ID \<or>
         wr_path run \<noteq> PUBLISH_WORKFLOW_PATH \<or> wr_event run \<noteq> ''push'' \<or> wr_head_branch run \<noteq> ''main'' \<or>
         wr_head_sha run \<noteq> source_sha \<or> wr_repository run \<noteq> REPOSITORY \<or> wr_head_repository run \<noteq> REPOSITORY \<or>
         wr_status run \<noteq> ''completed'' \<or>
         conclusion \<notin> {''success'', ''failure'', ''cancelled'', ''timed_out'', ''action_required''}
      then Inl (Msg ''recovery does not match one completed original main run'') else Inr ())"

definition validate_original_run_pair ::
    "workflow_run \<Rightarrow> workflow_run \<Rightarrow> string \<Rightarrow> nat \<Rightarrow> nat \<Rightarrow> release_error + unit" where
  "validate_original_run_pair attempt current source_sha run_id run_attempt =
     result_try (validate_original_run attempt source_sha run_id run_attempt) (\<lambda>_.
     map_err (\<lambda>_. Msg ''original publication run was rerun or changed after the selected attempt'')
       (validate_original_run current source_sha run_id run_attempt))"

definition validate_artifact_inventory :: "artifact_inventory \<Rightarrow> release_error + unit" where
  "validate_artifact_inventory inventory =
     (if ai_total_count inventory \<noteq> 0 \<or> ai_artifacts inventory \<noteq> []
      then Inl (Msg ''original publication run retained an artifact'') else Inr ())"

definition bind_original_run :: "github \<Rightarrow> string \<Rightarrow> nat \<Rightarrow> nat \<Rightarrow> unit io" where
  "bind_original_run g source_sha run_id run_attempt =
     (if run_id = 0 \<or> run_attempt = 0 then io_lift (Inl (Msg ''original run identity must be positive''))
      else
        io_try (gh_get g as_workflow (repo_path (''/actions/workflows/'' @ show_nat PUBLISH_WORKFLOW_ID)))
          (\<lambda>workflow.
        io_try (io_lift (validate_publish_workflow workflow)) (\<lambda>_.
        io_try (gh_get g as_run (repo_path
            (''/actions/runs/'' @ show_nat run_id @ ''/attempts/'' @ show_nat run_attempt))) (\<lambda>attempt.
        io_try (gh_get g as_run (repo_path (''/actions/runs/'' @ show_nat run_id))) (\<lambda>current.
        io_try (io_lift (validate_original_run_pair attempt current source_sha run_id run_attempt)) (\<lambda>_.
        io_try (gh_get g as_artifacts (repo_path
            (''/actions/runs/'' @ show_nat run_id @ ''/artifacts?per_page=100''))) (\<lambda>artifacts.
        io_lift (validate_artifact_inventory artifacts))))))))"

section \<open>The reviewed release commit\<close>

definition RELEASE_SIGNER_LOGIN :: string where "RELEASE_SIGNER_LOGIN = ''ddurst-nvidia''"
definition RELEASE_SIGNER_ID :: nat where "RELEASE_SIGNER_ID = 267424412"
definition RELEASE_AUTHOR_NAME :: string where "RELEASE_AUTHOR_NAME = ''ddurst''"
definition RELEASE_AUTHOR_EMAIL :: string where
  "RELEASE_AUTHOR_EMAIL = ''267424412+ddurst-nvidia@users.noreply.github.com''"
definition DCO_TRAILER :: string where
  "DCO_TRAILER = ''Signed-off-by: ddurst <267424412+ddurst-nvidia@users.noreply.github.com>''"
definition MANUAL_BRANCH_PREFIX :: string where "MANUAL_BRANCH_PREFIX = ''release-plz-manual-''"

definition source_commit :: "github \<Rightarrow> string \<Rightarrow> github_commit io" where
  "source_commit g source_sha =
     io_try (gh_get g as_commit (repo_path (''/commits/'' @ source_sha))) (\<lambda>commit.
     if gc_sha commit \<noteq> source_sha then io_lift (Inl (Msg ''GitHub returned a different source commit''))
     else io_lift (Inr commit))"

definition require_verified_dco_commit :: "github_commit \<Rightarrow> string \<Rightarrow> string \<Rightarrow> release_error + unit" where
  "require_verified_dco_commit commit expected_sha label =
     (if gc_sha commit \<noteq> expected_sha \<or> \<not> cv_verified (cd_verification (gc_commit commit)) \<or>
         cv_reason (cd_verification (gc_commit commit)) \<noteq> ''valid'' \<or>
         \<not> list_ex (\<lambda>line. line = DCO_TRAILER) (str_lines (cd_message (gc_commit commit)))
      then Inl (Fmt ''{label} is not GitHub-verified and DCO-signed'' [label]) else Inr ())"

definition exact_account :: "github_account option \<Rightarrow> bool" where
  "exact_account account \<longleftrightarrow>
     (case account of
        Some account \<Rightarrow>
          ac_id account = RELEASE_SIGNER_ID \<and> ac_login account = RELEASE_SIGNER_LOGIN \<and> ac_kind account = ''User''
      | None \<Rightarrow> False)"

definition require_release_signature_identity ::
    "github_commit \<Rightarrow> commit_signature \<Rightarrow> release_error + unit" where
  "require_release_signature_identity commit signature =
     result_try (ok_or (cs_signer signature) (Msg ''release pull-request signature signer is missing'')) (\<lambda>signer.
     if cs_kind signature \<notin> {''GpgSignature'', ''SshSignature'', ''SmimeSignature''} \<or> \<not> cs_is_valid signature \<or>
        cs_state signature \<noteq> ''VALID'' \<or> cs_was_signed_by_github signature \<or>
        sg_database_id signer \<noteq> Some RELEASE_SIGNER_ID \<or> sg_login signer \<noteq> RELEASE_SIGNER_LOGIN \<or>
        sg_kind signer \<noteq> ''User''
     then Inl (Msg ''release pull-request signature signer is not exact'')
     else if \<not> exact_account (gc_author commit) \<or> \<not> exact_account (gc_committer commit)
     then Inl (Msg ''release pull-request REST identities do not match the verified signer'')
     else
       result_try (ok_or (cd_author (gc_commit commit)) (Msg ''release pull-request raw author is missing''))
         (\<lambda>raw_author.
       result_try (ok_or (cd_committer (gc_commit commit)) (Msg ''release pull-request raw committer is missing''))
         (\<lambda>raw_committer.
       let author_dco = ''Signed-off-by: '' @ ri_name raw_author @ '' <'' @ ri_email raw_author @ ''>'';
           dco_lines = filter (\<lambda>line. starts_with line ''Signed-off-by: '') (str_lines (cd_message (gc_commit commit)))
       in
         if ri_name raw_author \<noteq> RELEASE_AUTHOR_NAME \<or> cs_email signature \<noteq> RELEASE_AUTHOR_EMAIL \<or>
            ri_email raw_author \<noteq> cs_email signature \<or> ri_email raw_committer \<noteq> cs_email signature \<or>
            author_dco \<noteq> DCO_TRAILER \<or> dco_lines \<noteq> [author_dco]
         then Inl (Msg ''release pull-request signature, raw identities, and author DCO differ'')
         else Inr ())))"

definition require_reviewed_release_head ::
    "github_commit \<Rightarrow> commit_signature \<Rightarrow> string \<Rightarrow> string \<Rightarrow> release_error + unit" where
  "require_reviewed_release_head commit signature head_sha base_sha =
     result_try (require_sha head_sha ''release pull-request head SHA'') (\<lambda>_.
     result_try (require_sha base_sha ''release pull-request base SHA'') (\<lambda>_.
     if gc_sha commit \<noteq> head_sha \<or> gc_parents commit \<noteq> [base_sha]
     then Inl (Msg ''release pull-request commit is not based on its exact current base'')
     else
       result_try (require_verified_dco_commit commit head_sha ''release pull-request commit'') (\<lambda>_.
       require_release_signature_identity commit signature)))"

definition validate_signature_response ::
    "signature_response \<Rightarrow> string \<Rightarrow> string \<Rightarrow> release_error + commit_signature" where
  "validate_signature_response response head_sha merge_sha =
     (if sr_errors response \<noteq> None then Inl (Msg ''GitHub GraphQL signature query returned errors'')
      else
        result_try (ok_or
            (case sr_data response of Some (Some (Some pull)) \<Rightarrow> Some pull | _ \<Rightarrow> None)
            (Msg ''GitHub GraphQL returned no release commit inventory'')) (\<lambda>pull.
        if sp_merge_commit pull \<noteq> Some merge_sha then Inl (Msg ''release pull request merge commit differs'')
        else
          (let connection = sp_commits pull in
           case sn_nodes connection of
             [commit] \<Rightarrow>
               if sn_total_count connection \<noteq> 1 \<or> sn_has_next_page connection
               then Inl (Msg ''release signature inventory is incomplete or ambiguous'')
               else if sc_oid commit \<noteq> head_sha
               then Inl (Msg ''release signature result does not match the reviewed head'')
               else ok_or (sc_signature commit) (Msg ''release pull-request signature is missing'')
           | _ \<Rightarrow> Inl (Msg ''release signature inventory is incomplete or ambiguous''))))"

definition release_head_signature :: "github \<Rightarrow> nat \<Rightarrow> string \<Rightarrow> string \<Rightarrow> commit_signature io" where
  "release_head_signature g pull_number head_sha merge_sha =
     (if pull_number = 0 \<or> pull_number > 2147483647
      then io_lift (Inl (Msg ''release pull-request number is outside the GraphQL bound''))
      else
        io_try (io_lift (require_sha head_sha ''release pull-request signature head SHA'')) (\<lambda>_.
        io_try (io_lift (require_sha merge_sha ''release pull-request merge SHA'')) (\<lambda>_.
        io_try (gh_graphql g pull_number) (\<lambda>response.
        io_lift (validate_signature_response response head_sha merge_sha)))))"

section \<open>The release pull request\<close>

definition select_merged_associations ::
    "associated_pull_request list \<Rightarrow> release_error + associated_pull_request list" where
  "select_merged_associations associated =
     (if length associated \<ge> 100
      then Inl (Msg ''source pull-request association inventory is not bounded'')
      else Inr (filter (\<lambda>pull. ap_state pull = ''closed'' \<and> ap_merged_at pull \<noteq> None) associated))"

definition canonical_release_pull ::
    "'z release_ext_scheme \<Rightarrow> pull_request \<Rightarrow> version \<Rightarrow> string \<Rightarrow> release_line \<Rightarrow> bool" where
  "canonical_release_pull x pull version source_parent line \<longleftrightarrow>
     pr_state pull = ''closed'' \<and> pr_merged_at pull \<noteq> None \<and>
     ''refs/heads/'' @ pf_reference (pr_base pull) = base_ref line \<and> pf_repo (pr_base pull) = REPOSITORY \<and>
     pf_sha (pr_base pull) = source_parent \<and>
     pf_reference (pr_head pull) = MANUAL_BRANCH_PREFIX @ version_to_string x version \<and>
     pf_repo (pr_head pull) = REPOSITORY \<and> pr_changed_files pull > 0 \<and>
     pr_changed_files pull \<le> 1 + 2 * length (rp_packages (for_version version))"

definition allowed_release_path :: "string \<Rightarrow> version \<Rightarrow> bool" where
  "allowed_release_path path version = allows_release_path (for_version version) path"

definition validate_release_files :: "pull_file list \<Rightarrow> nat \<Rightarrow> version \<Rightarrow> release_error + unit" where
  "validate_release_files files changed_files version =
     (if length files \<noteq> changed_files \<or> files = []
      then Inl (Msg ''release pull-request file inventory is incomplete'')
      else
        (case List.find (\<lambda>file. fl_status file \<noteq> ''modified'' \<or> \<not> allowed_release_path (fl_filename file) version) files of
           Some file \<Rightarrow> Inl (Fmt ''release pull request changes unexpected path {}'' [fl_filename file])
         | None \<Rightarrow>
             if \<not> list_ex (\<lambda>file. fl_filename file = ''Cargo.toml'') files
             then Inl (Msg ''release pull request must update the workspace manifest'')
             else Inr ()))"

fun read_pulls :: "github \<Rightarrow> associated_pull_request list \<Rightarrow> pull_request list io" where
  "read_pulls g [] = io_lift (Inr [])"
| "read_pulls g (item # items) =
     io_try (gh_get g as_pull (repo_path (''/pulls/'' @ show_nat (ap_number item)))) (\<lambda>pull.
     io_try (read_pulls g items) (\<lambda>pulls.
     io_lift (Inr (pull # pulls))))"

definition release_branch :: "pull_request \<Rightarrow> bool" where
  "release_branch pull \<longleftrightarrow> starts_with (pf_reference (pr_head pull)) MANUAL_BRANCH_PREFIX"

text \<open>The one commit of a release pull request, its signature and its files.\<close>

definition review_release_pull ::
    "github \<Rightarrow> string \<Rightarrow> version \<Rightarrow> github_commit \<Rightarrow> pull_request \<Rightarrow> bool io" where
  "review_release_pull g source_sha version source pull =
     io_try (gh_get g as_commits (repo_path (''/pulls/'' @ show_nat (pr_number pull) @ ''/commits?per_page=100'')))
       (\<lambda>commits.
     case commits of
       [commit] \<Rightarrow>
         io_try (release_head_signature g (pr_number pull) (pf_sha (pr_head pull)) source_sha) (\<lambda>signature.
         io_try (io_lift (require_reviewed_release_head commit signature
             (pf_sha (pr_head pull)) (pf_sha (pr_base pull)))) (\<lambda>_.
         if cd_tree (gc_commit commit) \<noteq> cd_tree (gc_commit source)
         then io_lift (Inl (Msg ''release squash tree differs from the reviewed release tree''))
         else
           io_try (gh_get g as_files (repo_path (''/pulls/'' @ show_nat (pr_number pull) @ ''/files?per_page=100'')))
             (\<lambda>files.
           io_try (io_lift (validate_release_files files (pr_changed_files pull) version)) (\<lambda>_.
           io_lift (Inr True)))))
     | _ \<Rightarrow> io_lift (Inl (Msg ''release pull request must contain exactly one reviewed commit'')))"

text \<open>The checks of the one release pull request once it is known to be the only one.\<close>

definition check_release_pull ::
    "'z release_ext_scheme \<Rightarrow> github \<Rightarrow> string \<Rightarrow> version \<Rightarrow> release_line \<Rightarrow> github_commit \<Rightarrow> pull_request
       \<Rightarrow> bool io" where
  "check_release_pull x g source_sha version line source pull =
     io_try (io_lift (require_verified_dco_commit source source_sha ''release squash commit'')) (\<lambda>_.
     case gc_parents source of
       [parent] \<Rightarrow>
         if \<not> canonical_release_pull x pull version parent line
         then io_lift (Inl (Msg ''merged release pull request differs from canonical policy''))
         else review_release_pull g source_sha version source pull
     | _ \<Rightarrow> io_lift (Inl (Msg ''release squash commit must have exactly one parent'')))"

definition classify_release_pull_request ::
    "'z release_ext_scheme \<Rightarrow> github \<Rightarrow> string \<Rightarrow> version \<Rightarrow> release_line \<Rightarrow> bool io" where
  "classify_release_pull_request x g source_sha version line =
     io_try (source_commit g source_sha) (\<lambda>source.
     io_try (gh_get g as_associated (repo_path (''/commits/'' @ source_sha @ ''/pulls?per_page=100'')))
       (\<lambda>associated.
     io_try (io_lift (select_merged_associations associated)) (\<lambda>matching.
     io_try (read_pulls g matching) (\<lambda>pulls.
     if filter release_branch pulls = [] then io_lift (Inr False)
     else
       (case pulls of
          [pull] \<Rightarrow> check_release_pull x g source_sha version line source pull
        | _ \<Rightarrow> io_lift (Inl (Msg ''release source must have one exact merged pull request'')))))))"

section \<open>Objects that exist already\<close>

fun consistent_objects ::
    "'z release_ext_scheme \<Rightarrow> github \<Rightarrow> package_policy list \<Rightarrow> string \<Rightarrow> string \<Rightarrow> version \<Rightarrow> release_line \<Rightarrow> bool list
       \<Rightarrow> unit io" where
  "consistent_objects x g [] source date version line states = io_lift (Inr ())"
| "consistent_objects x g (package # packages) source date version line states =
     io_try (io_lift (release_spec_new x package version source)) (\<lambda>spec0.
     (let spec = spec0\<lparr>rs_line := line\<rparr> in
      io_try (inspect_tag g spec source date) (\<lambda>tag.
      io_try (inspect_release g spec source) (\<lambda>release.
      if (tag \<noteq> None \<or> release) \<and> list_ex Not states
      then io_lift (Inl (Msg ''forge objects coexist with incomplete crate publication''))
      else if release \<and> tag = None
      then io_lift (Inl (Msg ''immutable Release has no exact retained annotated tag''))
      else consistent_objects x g packages source date version line states))))"

definition require_consistent_objects ::
    "'z release_ext_scheme \<Rightarrow> github \<Rightarrow> string \<Rightarrow> version \<Rightarrow> release_line \<Rightarrow> bool list \<Rightarrow> unit io" where
  "require_consistent_objects x g source version line states =
     io_try (source_commit g source) (\<lambda>commit.
     io_try (io_lift (ok_or (cd_committer (gc_commit commit)) (Msg ''source committer is missing''))) (\<lambda>committer.
     consistent_objects x g (rp_packages (for_version version)) source (ri_date committer) version line states))"

section \<open>The App and the workflow outputs\<close>

definition validate_app_scope :: "string \<Rightarrow> installation_repositories \<Rightarrow> release_error + unit" where
  "validate_app_scope observed_slug installation =
     (if observed_slug \<noteq> APP_SLUG then Inl (Msg ''token-minting action reported an unexpected App slug'')
      else if ir_total_count installation \<noteq> 1 \<or> ir_repositories installation \<noteq> [REPOSITORY]
      then Inl (Msg ''App token is not scoped to exactly this repository'') else Inr ())"

definition verify_app_scope :: "github \<Rightarrow> string \<Rightarrow> unit io" where
  "verify_app_scope g observed_slug =
     io_try (gh_get g as_installation ''installation/repositories?per_page=100'') (\<lambda>installation.
     io_lift (validate_app_scope observed_slug installation))"

definition append_output :: "github \<Rightarrow> string \<Rightarrow> string \<Rightarrow> unit io" where
  "append_output g name value h =
     (if name \<notin> {''source_sha'', ''version'', ''release_config'', ''publish'', ''finalize'', ''registry_state'',
                   ''base_ref'', ''operation''} \<or>
         value = [] \<or> list_ex (\<lambda>c. c \<in> {CHR 0x0D, CHR 0x0A}) value
      then (Inl (Msg ''workflow output is malformed''), h)
      else
        (case send g (Append name value) h of
           (Done, h') \<Rightarrow> (Inr (), h')
         | (Failed e, h') \<Rightarrow> (Inl e, h')
         | (_, h') \<Rightarrow> (Inl (Msg ''write GITHUB_OUTPUT''), h')))"

definition bool_text :: "bool \<Rightarrow> string" where
  "bool_text value = (if value then ''true'' else ''false'')"

definition append_qualification_outputs ::
    "'z release_ext_scheme \<Rightarrow> github \<Rightarrow> string \<Rightarrow> version \<Rightarrow> decision \<Rightarrow> string \<Rightarrow> unit io" where
  "append_qualification_outputs x g source_sha version decision state =
     io_try (append_output g ''source_sha'' source_sha) (\<lambda>_.
     io_try (append_output g ''version'' (version_to_string x version)) (\<lambda>_.
     io_try (append_output g ''release_config'' (rp_config (for_version version))) (\<lambda>_.
     io_try (append_output g ''publish'' (bool_text (dc_publish decision))) (\<lambda>_.
     io_try (append_output g ''finalize'' (bool_text (dc_finalize decision))) (\<lambda>_.
     append_output g ''registry_state'' state)))))"

end
