(* ===== verification/Release_Source.thy ===== *)
theory Release_Source
  imports Github_Registry
begin

text \<open>
  What the release commands require of a source checkout: the manifests read by
  \<open>xtask/src/safe_file.rs\<close>, the workspace version and the package checks of \<open>versions.rs\<close>, and the
  release rules of \<open>release.rs\<close> that read but do not write. The file system, Git, Cargo and the
  TOML parser are parameters; none of them changes while a command looks at a checkout.
\<close>

section \<open>Types of the libraries\<close>

text \<open>A TOML item, of the kinds the checks look at.\<close>

datatype toml =
    Toml_String string
  | Toml_Boolean bool
  | Toml_Table "(string \<times> toml) list"
  | Toml_Inline "(string \<times> toml) list"
  | Toml_Tables "(string \<times> toml) list list"
  | Toml_Other

type_synonym toml_table = "(string \<times> toml) list"

datatype target_kind = TK_Lib | TK_Bin | TK_Example | TK_Bench | TK_Custom_Build | TK_CDyLib | TK_RLib | TK_Other

datatype crate_type = CT_Lib | CT_CDyLib | CT_RLib | CT_Other

datatype req_op = Op_Exact | Op_Tilde | Op_Caret | Op_Other

record comparator =
  cm_op :: req_op
  cm_major :: nat
  cm_minor :: "nat option"
  cm_patch :: "nat option"
  cm_pre :: string

type_synonym version_req = "comparator list"

record cargo_dependency =
  dp_name :: string
  dp_source :: "string option"
  dp_req :: version_req
  dp_rename :: "string option"
  dp_registry :: "string option"
  dp_path :: "string list option"

record cargo_target =
  ct_kind :: "target_kind list"
  ct_crate_types :: "crate_type list"

record cargo_package =
  cp_name :: string
  cp_version :: version
  cp_source :: "string option"
  cp_publish :: "string list option"
  cp_manifest_path :: "string list"
  cp_targets :: "cargo_target list"
  cp_dependencies :: "cargo_dependency list"

record cargo_metadata =
  md_workspace_root :: string
  md_packages :: "cargo_package list"

text \<open>
  A path is given as text, and what canonicalising it or joining to it gives as its components.
  A file is what opening it beneath a root gives, no component of the way being a link.
\<close>

record source_ext = registry_ext +
  env :: "string \<Rightarrow> string option"
  gh_version :: "release_error + unit"
  canonicalize :: "string \<Rightarrow> release_error + string list"
  git_output :: "string \<Rightarrow> string list \<Rightarrow> release_error + string"
  open_file :: "string \<Rightarrow> string list \<Rightarrow> release_error + string"
  toml_parse :: "string \<Rightarrow> toml_table option"
  cargo_metadata_of :: "string \<Rightarrow> bool \<Rightarrow> release_error + cargo_metadata"
  req_parse :: "string \<Rightarrow> version_req option"
  req_matches :: "version_req \<Rightarrow> version \<Rightarrow> bool"
  is_crates_io :: "string \<Rightarrow> bool"

section \<open>Paths and manifests\<close>

datatype path_component = Normal string | Root_Dir | Cur_Dir | Parent_Dir

text \<open>The pieces of a string between the occurrences of a character.\<close>

fun split_at :: "char \<Rightarrow> string \<Rightarrow> string \<Rightarrow> string list" where
  "split_at d acc [] = [acc]"
| "split_at d acc (c # cs) = (if c = d then acc # split_at d [] cs else split_at d (acc @ [c]) cs)"

definition split_on :: "char \<Rightarrow> string \<Rightarrow> string list" where
  "split_on d s = split_at d [] s"

text \<open>\<open>Path::components\<close> on Unix: a dot counts only at the front, and empty pieces not at all.\<close>

definition path_component_of :: "string \<Rightarrow> path_component" where
  "path_component_of p = (if p = ''..'' then Parent_Dir else Normal p)"

definition path_components :: "string \<Rightarrow> path_component list" where
  "path_components p =
     (let pieces = split_on (CHR ''/'') p;
          rest = map path_component_of (filter (\<lambda>q. q \<notin> {[], ''.''}) pieces) in
      if starts_with p ''/'' then Root_Dir # rest
      else if hd pieces = ''.'' then Cur_Dir # rest
      else rest)"

definition MANIFEST_LIMIT :: nat where "MANIFEST_LIMIT = 1024 * 1024"

fun relative_of :: "path_component list \<Rightarrow> release_error + string list" where
  "relative_of [] = Inr []"
| "relative_of (Normal value # components) =
     (if list_ex (\<lambda>c. c \<in> {CHR '':'', CHR 0x00}) value
      then Inl (Msg ''safe file path may not contain alternate data streams or NUL'')
      else result_map (\<lambda>rest. value # rest) (relative_of components))"
| "relative_of (_ # components) = Inl (Msg ''safe file path may not contain prefixes, roots, or traversal'')"

definition relative_components :: "string \<Rightarrow> release_error + string list" where
  "relative_components path =
     (if path = [] \<or> starts_with path ''/'' then Inl (Msg ''safe file path must be a nonempty relative path'')
      else
        result_try (relative_of (path_components path)) (\<lambda>components.
        if components = [] then Inl (Msg ''safe file path has no normal components'') else Inr components))"

definition read_bounded :: "string \<Rightarrow> nat \<Rightarrow> string \<Rightarrow> release_error + string" where
  "read_bounded file limit label =
     (if length (take (limit + 1) file) > limit then Inl (Fmt ''{} exceeds its {limit}-byte limit'' [label])
      else Inr (take (limit + 1) file))"

definition read_utf8_bounded :: "string \<Rightarrow> nat \<Rightarrow> string \<Rightarrow> release_error + string" where
  "read_utf8_bounded file limit label =
     result_try (read_bounded file limit label) (\<lambda>bytes.
     if utf8_valid (map of_char bytes) then Inr bytes else Inl (Fmt ''{} is not valid UTF-8'' [label]))"

definition read_manifest :: "'z source_ext_scheme \<Rightarrow> string \<Rightarrow> string \<Rightarrow> release_error + string" where
  "read_manifest x root path =
     result_try (relative_components path) (\<lambda>components.
     result_try (open_file x root components) (\<lambda>file.
     read_utf8_bounded file MANIFEST_LIMIT path))"

section \<open>TOML items\<close>

fun as_str :: "toml \<Rightarrow> string option" where
  "as_str (Toml_String s) = Some s"
| "as_str _ = None"

fun as_bool :: "toml \<Rightarrow> bool option" where
  "as_bool (Toml_Boolean b) = Some b"
| "as_bool _ = None"

fun as_table_like :: "toml \<Rightarrow> toml_table option" where
  "as_table_like (Toml_Table t) = Some t"
| "as_table_like (Toml_Inline t) = Some t"
| "as_table_like _ = None"

fun as_array_of_tables :: "toml \<Rightarrow> toml_table list option" where
  "as_array_of_tables (Toml_Tables ts) = Some ts"
| "as_array_of_tables _ = None"

definition table_get :: "toml_table \<Rightarrow> string \<Rightarrow> toml option" where
  "table_get t key = map_of t key"

definition item_get :: "toml \<Rightarrow> string \<Rightarrow> toml option" where
  "item_get i key = Option.bind (as_table_like i) (\<lambda>t. table_get t key)"

definition get_str :: "toml_table \<Rightarrow> string \<Rightarrow> string option" where
  "get_str t key = Option.bind (table_get t key) as_str"

definition get_bool :: "toml_table \<Rightarrow> string \<Rightarrow> bool option" where
  "get_bool t key = Option.bind (table_get t key) as_bool"

section \<open>The workspace version\<close>

definition parse_release_version :: "'z release_ext_scheme \<Rightarrow> string \<Rightarrow> release_error + version" where
  "parse_release_version x value =
     result_try (ok_or (version_parse x value) (Fmt ''invalid release version {value}'' [value])) (\<lambda>version.
     if v_build version \<noteq> [] then Inl (Msg ''release versions cannot contain build metadata'') else Inr version)"

definition current :: "'z source_ext_scheme \<Rightarrow> string \<Rightarrow> release_error + version" where
  "current x root =
     result_try (map_err (\<lambda>_. Msg ''read workspace Cargo.toml'') (read_manifest x root ''Cargo.toml'')) (\<lambda>manifest.
     result_try (ok_or (toml_parse x manifest) (Msg ''parse workspace Cargo.toml'')) (\<lambda>document.
     result_try (ok_or
         (Option.bind (table_get document ''workspace'') (\<lambda>workspace.
          Option.bind (item_get workspace ''package'') (\<lambda>package.
          Option.bind (item_get package ''version'') as_str)))
         (Msg ''missing [workspace.package] version'')) (\<lambda>value.
     parse_release_version x value)))"

section \<open>The packages of a release\<close>

fun publishes_to_crates_io :: "string list option \<Rightarrow> release_error + bool" where
  "publishes_to_crates_io None = Inr True"
| "publishes_to_crates_io (Some []) = Inr False"
| "publishes_to_crates_io (Some registries) =
     (if list_ex (\<lambda>registry. registry = ''crates-io'') registries then Inr True
      else Inl (Msg ''a publishable release package excludes crates-io''))"

text \<open>The packages by name; the names are those of the family, each at most once.\<close>

fun packages_by_name ::
    "version \<Rightarrow> (string \<times> cargo_package) list \<Rightarrow> cargo_package list
       \<Rightarrow> release_error + (string \<times> cargo_package) list" where
  "packages_by_name expected found [] = Inr found"
| "packages_by_name expected found (package # packages) =
     (if cp_source package \<noteq> None then packages_by_name expected found packages
      else
        result_try (publishes_to_crates_io (cp_publish package)) (\<lambda>publishes.
        if \<not> publishes then packages_by_name expected found packages
        else if \<not> list_ex (\<lambda>policy. pp_package policy = cp_name package) (rp_packages (for_version expected))
        then Inl (Fmt ''unexpected crates.io release package {name}'' [cp_name package])
        else if map_of found (cp_name package) \<noteq> None
        then Inl (Fmt ''duplicate crates.io release package {name}'' [cp_name package])
        else packages_by_name expected (found @ [(cp_name package, package)]) packages))"

fun order_packages ::
    "(string \<times> cargo_package) list \<Rightarrow> package_policy list \<Rightarrow> release_error + cargo_package list" where
  "order_packages found [] = Inr []"
| "order_packages found (policy # policies) =
     result_try (ok_or (map_of found (pp_package policy))
         (Fmt ''missing crates.io release package {}'' [pp_package policy])) (\<lambda>package.
     result_map (\<lambda>ordered. package # ordered)
       (order_packages (filter (\<lambda>(name, _). name \<noteq> pp_package policy) found) policies))"

definition ordered_publishable_packages ::
    "cargo_metadata \<Rightarrow> version \<Rightarrow> release_error + cargo_package list" where
  "ordered_publishable_packages metadata expected =
     result_try (packages_by_name expected [] (md_packages metadata)) (\<lambda>found.
     order_packages found (rp_packages (for_version expected)))"

definition WASM_PACKAGE :: string where "WASM_PACKAGE = ''yaml-sigil-wasm''"
definition TRAITS_PACKAGE :: string where "TRAITS_PACKAGE = ''yaml-sigil-traits''"
definition CRATES_IO_SOURCE :: string where
  "CRATES_IO_SOURCE = ''registry+https://github.com/rust-lang/crates.io-index''"

definition library_target :: "string \<Rightarrow> cargo_target \<Rightarrow> bool" where
  "library_target expected_name target \<longleftrightarrow>
     (if expected_name = WASM_PACKAGE
      then length (ct_kind target) = 2 \<and> TK_CDyLib \<in> set (ct_kind target) \<and> TK_RLib \<in> set (ct_kind target)
      else ct_kind target = [TK_Lib])"

definition forbidden_kind :: "string \<Rightarrow> target_kind \<Rightarrow> bool" where
  "forbidden_kind expected_name kind \<longleftrightarrow>
     kind \<in> {TK_Bin, TK_Example, TK_Bench} \<or> (expected_name = WASM_PACKAGE \<and> kind = TK_Custom_Build)"

definition expected_types :: "string \<Rightarrow> crate_type list" where
  "expected_types expected_name = (if expected_name = WASM_PACKAGE then [CT_CDyLib, CT_RLib] else [CT_Lib])"

text \<open>Joining a relative path to the components of a root.\<close>

definition join_path :: "string list \<Rightarrow> string \<Rightarrow> string list" where
  "join_path root path = root @ filter (\<lambda>q. q \<noteq> []) (split_on (CHR ''/'') path)"

definition validate_package ::
    "'z release_ext_scheme \<Rightarrow> string list \<Rightarrow> cargo_package \<Rightarrow> package_policy \<Rightarrow> version \<Rightarrow> release_error + unit" where
  "validate_package x root package policy expected_version =
     (let expected_name = pp_package policy;
          libraries = filter (library_target expected_name) (cp_targets package) in
      if cp_name package \<noteq> expected_name \<or> cp_version package \<noteq> expected_version
      then Inl (Fmt ''release package {} does not match {} {expected_version}''
             [cp_name package, expected_name, version_to_string x expected_version])
      else if cp_manifest_path package \<noteq> join_path root (pp_path_in_vcs policy) @ [''Cargo.toml'']
      then Inl (Fmt ''release package {expected_name} has an unexpected manifest path'' [expected_name])
      else if length libraries \<noteq> 1 \<or>
              list_ex (\<lambda>target. list_ex (forbidden_kind expected_name) (ct_kind target)) (cp_targets package)
      then Inl (Fmt ''release package {expected_name} must expose exactly one library target'' [expected_name])
      else if ct_crate_types (hd libraries) \<noteq> expected_types expected_name
      then Inl (Fmt ''release package {expected_name} has unexpected library crate types'' [expected_name])
      else Inr ())"

fun validate_packages ::
    "'z release_ext_scheme \<Rightarrow> string list \<Rightarrow> cargo_package list \<Rightarrow> package_policy list \<Rightarrow> version
       \<Rightarrow> release_error + unit" where
  "validate_packages x root (package # packages) (policy # policies) expected =
     result_try (validate_package x root package policy expected) (\<lambda>_.
     validate_packages x root packages policies expected)"
| "validate_packages x root _ _ expected = Inr ()"

section \<open>Dependencies\<close>

text \<open>The position of a package in the family.\<close>

fun family_index :: "package_policy list \<Rightarrow> string \<Rightarrow> (nat \<times> package_policy) option" where
  "family_index [] name = None"
| "family_index (policy # policies) name =
     (if pp_package policy = name then Some (0, policy)
      else map_option (\<lambda>(i, p). (i + 1, p)) (family_index policies name))"

definition validate_dependency ::
    "'z source_ext_scheme \<Rightarrow> string list \<Rightarrow> version_req \<Rightarrow> version \<Rightarrow> nat \<Rightarrow> string \<Rightarrow> cargo_dependency
       \<Rightarrow> release_error + unit" where
  "validate_dependency x root canonical expected package_index package_name dependency =
     (case family_index (rp_packages (for_version expected)) (dp_name dependency) of
        None \<Rightarrow> Inr ()
      | Some (dependency_index, policy) \<Rightarrow>
          if dependency_index \<ge> package_index
          then Inl (Fmt ''{} must be published before {}'' [dp_name dependency, package_name])
          else if dp_source dependency \<noteq> None \<or> dp_rename dependency \<noteq> None
          then Inl (Fmt ''{} dependency on {} has an unexpected identity'' [package_name, dp_name dependency])
          else
            result_try (ok_or (dp_path dependency) (Fmt ''{} dependency lacks a local path'' [dp_name dependency]))
              (\<lambda>dependency_path.
            if dependency_path \<noteq> join_path root (pp_path_in_vcs policy)
            then Inl (Fmt ''{} dependency has an unexpected local path'' [dp_name dependency])
            else if dp_req dependency \<noteq> canonical \<or> \<not> req_matches x (dp_req dependency) expected
            then Inl (Fmt ''{} dependency requirement {} is not canonical for {expected}''
                   [dp_name dependency, version_to_string x expected])
            else Inr ()))"

fun validate_dependencies ::
    "'z source_ext_scheme \<Rightarrow> string list \<Rightarrow> version_req \<Rightarrow> version \<Rightarrow> nat \<Rightarrow> string \<Rightarrow> cargo_dependency list
       \<Rightarrow> release_error + unit" where
  "validate_dependencies x root canonical expected package_index package_name [] = Inr ()"
| "validate_dependencies x root canonical expected package_index package_name (dependency # dependencies) =
     result_try (validate_dependency x root canonical expected package_index package_name dependency) (\<lambda>_.
     validate_dependencies x root canonical expected package_index package_name dependencies)"

fun validate_internal_from ::
    "'z source_ext_scheme \<Rightarrow> string list \<Rightarrow> version_req \<Rightarrow> version \<Rightarrow> nat \<Rightarrow> cargo_package list
       \<Rightarrow> release_error + unit" where
  "validate_internal_from x root canonical expected package_index [] = Inr ()"
| "validate_internal_from x root canonical expected package_index (package # packages) =
     (let expected_internal = pp_internal_dependencies (rp_packages (for_version expected) ! package_index);
          actual_internal = filter (\<lambda>name. list_ex (\<lambda>policy. pp_package policy = name) (rp_packages (for_version expected)))
            (map dp_name (cp_dependencies package)) in
      if length actual_internal \<noteq> card (set expected_internal) \<or> set actual_internal \<noteq> set expected_internal
      then Inl (Fmt ''{} has an unexpected internal dependency set'' [cp_name package])
      else
        result_try (validate_dependencies x root canonical expected package_index (cp_name package)
            (cp_dependencies package)) (\<lambda>_.
        validate_internal_from x root canonical expected (package_index + 1) packages))"

definition validate_internal_dependencies ::
    "'z source_ext_scheme \<Rightarrow> string list \<Rightarrow> cargo_package list \<Rightarrow> version \<Rightarrow> release_error + unit" where
  "validate_internal_dependencies x root packages expected =
     result_try (ok_or (req_parse x (version_to_string x expected)) (Msg ''invalid version requirement'')) (\<lambda>canonical.
     validate_internal_from x root canonical expected 0 packages)"

fun traits_requirements ::
    "'z source_ext_scheme \<Rightarrow> cargo_package list \<Rightarrow> release_error + version_req list" where
  "traits_requirements x [] = Inr []"
| "traits_requirements x (package # packages) =
     (let matches = filter (\<lambda>dependency. dp_name dependency = TRAITS_PACKAGE) (cp_dependencies package) in
      if cp_name package = WASM_PACKAGE
      then
        if matches \<noteq> [] then Inl (Msg ''Wasm must resolve traits through its implementation dependencies'')
        else traits_requirements x packages
      else
        (case matches of
           [dependency] \<Rightarrow>
             result_try (ok_or (dp_source dependency) (Msg ''yaml-sigil-traits dependency lacks registry source''))
               (\<lambda>source.
             if \<not> is_crates_io x source \<or> dp_registry dependency \<noteq> None \<or> dp_rename dependency \<noteq> None
             then Inl (Msg ''yaml-sigil-traits must resolve as its exact crates.io package identity'')
             else result_map (\<lambda>requirements. dp_req dependency # requirements) (traits_requirements x packages))
         | _ \<Rightarrow> Inl (Fmt ''{} must have one yaml-sigil-traits dependency'' [cp_name package])))"

definition patch_compatible :: "comparator \<Rightarrow> bool" where
  "patch_compatible c =
     (case cm_op c of Op_Exact \<Rightarrow> True | Op_Tilde \<Rightarrow> True | Op_Caret \<Rightarrow> cm_major c = 0 | Op_Other \<Rightarrow> False)"

definition validate_traits_declaration ::
    "'z source_ext_scheme \<Rightarrow> cargo_package list \<Rightarrow> release_error + version_req" where
  "validate_traits_declaration x packages =
     result_try (traits_requirements x packages) (\<lambda>requirements.
     case requirements of
       [] \<Rightarrow> Inl (Msg ''release packages do not depend on yaml-sigil-traits'')
     | first # _ \<Rightarrow>
         if list_ex (\<lambda>requirement. requirement \<noteq> first) requirements
         then Inl (Msg ''release packages disagree on the yaml-sigil-traits requirement'')
         else
           (case first of
              [c] \<Rightarrow>
                if \<not> patch_compatible c \<or> cm_minor c = None \<or> cm_patch c = None
                then Inl (Msg ''yaml-sigil-traits requirement must pin a full version or allow only patch updates'')
                else Inr first
            | _ \<Rightarrow> Inl (Msg ''yaml-sigil-traits requirement must pin a version or allow only patch updates'')))"

definition validate_resolved_traits ::
    "'z source_ext_scheme \<Rightarrow> cargo_metadata \<Rightarrow> cargo_package list \<Rightarrow> release_error + unit" where
  "validate_resolved_traits x metadata packages =
     result_try (validate_traits_declaration x packages) (\<lambda>expected.
     case filter (\<lambda>package. cp_name package = TRAITS_PACKAGE) (md_packages metadata) of
       [package] \<Rightarrow>
         if \<not> req_matches x expected (cp_version package) \<or> cp_source package \<noteq> Some CRATES_IO_SOURCE
         then Inl (Msg ''Cargo must resolve one yaml-sigil-traits version from crates.io'')
         else Inr ()
     | _ \<Rightarrow> Inl (Msg ''Cargo must resolve one yaml-sigil-traits version from crates.io''))"

definition validate_metadata ::
    "'z source_ext_scheme \<Rightarrow> string \<Rightarrow> cargo_metadata \<Rightarrow> version \<Rightarrow> bool \<Rightarrow> release_error + unit" where
  "validate_metadata x root metadata expected resolve_traits =
     result_try (map_err (\<lambda>_. Fmt ''resolve workspace root {}'' [root]) (canonicalize x root)) (\<lambda>expected_root.
     result_try (map_err (\<lambda>_. Msg ''resolve Cargo metadata workspace root'')
         (canonicalize x (md_workspace_root metadata))) (\<lambda>metadata_root.
     if metadata_root \<noteq> expected_root then Inl (Msg ''Cargo metadata selected an unexpected workspace root'')
     else
       result_try (ordered_publishable_packages metadata expected) (\<lambda>publishable.
       result_try (validate_packages x expected_root publishable (rp_packages (for_version expected)) expected) (\<lambda>_.
       result_try (validate_internal_dependencies x expected_root publishable expected) (\<lambda>_.
       result_try (validate_traits_declaration x publishable) (\<lambda>_.
       if resolve_traits then validate_resolved_traits x metadata publishable else Inr ()))))))"

definition validate_source :: "'z source_ext_scheme \<Rightarrow> string \<Rightarrow> version \<Rightarrow> bool \<Rightarrow> release_error + cargo_metadata" where
  "validate_source x root expected resolve_traits =
     result_try (cargo_metadata_of x root resolve_traits) (\<lambda>metadata.
     result_try (validate_metadata x root metadata expected resolve_traits) (\<lambda>_.
     Inr metadata))"

end
