(* ===== verification/Release_Check.thy ===== *)
theory Release_Check
  imports Release_Source "HOL-Library.List_Lexorder" "HOL-Library.Char_ord"
begin

text \<open>
  The rules of \<open>xtask/src/release.rs\<close>: the release-plz configuration it accepts, the versions it
  lets a maintainer select, and what it requires of the checkout it prepares.
\<close>

section \<open>Git output\<close>

definition trim_line_ends :: "string \<Rightarrow> string" where
  "trim_line_ends s = rev (dropWhile (\<lambda>c. c \<in> {CHR 0x0D, CHR 0x0A}) (rev s))"

definition one_line :: "string \<Rightarrow> string \<Rightarrow> release_error + string" where
  "one_line bytes label =
     (if \<not> utf8_valid (map of_char bytes) then Inl (Fmt ''{label} is not UTF-8'' [label])
      else
        (let value = trim_line_ends bytes in
         if list_ex (\<lambda>c. c \<in> {CHR 0x0D, CHR 0x0A}) value then Inl (Fmt ''{label} is not one line'' [label])
         else Inr value))"

definition git_line :: "'z source_ext_scheme \<Rightarrow> string \<Rightarrow> string list \<Rightarrow> release_error + string" where
  "git_line x root args = result_try (git_output x root args) (\<lambda>output. one_line output ''Git output'')"

fun check_paths :: "string \<Rightarrow> string list \<Rightarrow> release_error + string list" where
  "check_paths label [] = Inr []"
| "check_paths label (path # paths) =
     (if \<not> utf8_valid (map of_char path) then Inl (Fmt ''{label} is not UTF-8'' [label])
      else if path = [] \<or> list_ex (\<lambda>c. c \<in> {CHR 0x0D, CHR 0x0A}) path
      then Inl (Fmt ''{label} contains an unsafe path'' [label])
      else result_map (\<lambda>values. path # values) (check_paths label paths))"

definition nul_paths :: "string \<Rightarrow> string \<Rightarrow> release_error + string list" where
  "nul_paths bytes label =
     (if bytes = [] then Inr []
      else if last bytes \<noteq> CHR 0x00 then Inl (Fmt ''{label} is not NUL terminated'' [label])
      else check_paths label (split_on (CHR 0x00) (butlast bytes)))"

section \<open>Versions a maintainer may select\<close>

definition require_real_release_version :: "'z release_ext_scheme \<Rightarrow> version \<Rightarrow> release_error + unit" where
  "require_real_release_version x version =
     result_try (parse_release_version x (version_to_string x version)) (\<lambda>_.
     if v_pre version = ''rc.0'' then Inl (Msg ''release version may not be the rc.0 coordination stub'')
     else Inr ())"

definition activation_version :: "'z release_ext_scheme \<Rightarrow> version \<Rightarrow> version \<Rightarrow> release_error + version" where
  "activation_version x now target =
     (if v_pre now \<noteq> [] \<or> v_build now \<noteq> []
      then Inl (Msg ''coordination activation requires a stable current main version'')
      else if v_pre target \<noteq> [] \<or> v_build target \<noteq> []
      then Inl (Msg ''coordination target must be a stable MAJOR.MINOR.PATCH version'')
      else
        result_try (ok_or (version_parse x (version_to_string x target @ ''-rc.0''))
            (Msg ''derive coordination activation version'')) (\<lambda>selected.
        if \<not> version_less x now selected
        then Inl (Fmt ''coordination version {selected} must advance current main {current}''
               [version_to_string x selected, version_to_string x now])
        else Inr selected))"

definition same_core :: "version \<Rightarrow> version \<Rightarrow> bool" where
  "same_core a b \<longleftrightarrow> v_major a = v_major b \<and> v_minor a = v_minor b \<and> v_patch a = v_patch b"

definition real_rc :: "version \<Rightarrow> bool" where
  "real_rc v \<longleftrightarrow>
     (case strip_prefix ''rc.'' (v_pre v) of
        Some ordinal \<Rightarrow> ordinal \<noteq> [] \<and> ordinal \<noteq> ''0'' \<and> list_all is_ascii_digit ordinal
      | None \<Rightarrow> False)"

definition next_rc :: "version \<Rightarrow> nat option" where
  "next_rc v =
     Option.bind (strip_prefix ''rc.'' (v_pre v)) (\<lambda>ordinal.
     Option.bind (parse_u64 ordinal) (\<lambda>ordinal.
     if ordinal > 0 then checked_succ_u64 ordinal else None))"

definition require_exact_version_adjustment ::
    "'z release_ext_scheme \<Rightarrow> version \<Rightarrow> version \<Rightarrow> version \<Rightarrow> release_error + string" where
  "require_exact_version_adjustment x original derived selected =
     (let core = same_core derived selected;
          activation_stub_release = (v_pre original = ''rc.0'' \<and> derived = original \<and>
            version_less x original selected \<and> (v_pre selected = [] \<or> real_rc selected));
          stable_promotion = (v_pre original \<noteq> [] \<and> v_pre selected = [] \<and> same_core original selected \<and>
            v_pre derived \<noteq> [] \<and> \<not> version_less x derived original \<and> version_less x derived selected);
          new_prerelease = (v_pre original = [] \<and> v_pre selected \<noteq> [] \<and> v_pre derived = [] \<and>
            version_less x original selected \<and> version_less x selected derived);
          unchanged_next_patch_rc = (v_pre original = [] \<and> v_build original = [] \<and> derived = original \<and>
            v_major selected = v_major original \<and> v_minor selected = v_minor original \<and>
            checked_succ_u64 (v_patch original) = Some (v_patch selected) \<and> v_pre selected = ''rc.1'' \<and>
            v_build selected = []) in
      if core \<and> activation_stub_release
      then Inr ''replaced the rc.0 activation stub with the first release''
      else if core \<and> derived = original \<and>
              (case next_rc original of Some n \<Rightarrow> v_pre selected = ''rc.'' @ show_nat n | None \<Rightarrow> False)
      then Inr ''advanced the unchanged release candidate''
      else if core \<and> stable_promotion then Inr ''promoted the current prerelease to stable''
      else if core \<and> new_prerelease
      then Inr ''started the release-plz-derived version as a prerelease''
      else if unchanged_next_patch_rc
      then Inr ''started the next patch RC from unchanged stable package contents''
      else Inl (Fmt ''release-plz derived {derived}, not selected release {selected}''
             [version_to_string x derived, version_to_string x selected]))"

section \<open>The release-plz configuration\<close>

definition workspace_keys :: "string set" where
  "workspace_keys = {''changelog_update'', ''git_release_enable'', ''git_release_type'', ''git_tag_enable'',
     ''pr_branch_prefix'', ''publish_allow_dirty'', ''publish_no_verify'', ''publish_timeout'', ''release'',
     ''release_always'', ''semver_check''}"

definition workspace_flags :: "(string \<times> bool) list" where
  "workspace_flags = [(''release'', False), (''release_always'', False), (''changelog_update'', True),
     (''git_tag_enable'', False), (''git_release_enable'', False), (''publish_allow_dirty'', False),
     (''publish_no_verify'', False), (''semver_check'', False)]"

definition package_keys :: "string set" where
  "package_keys = {''changelog_path'', ''changelog_update'', ''git_release_body'', ''git_release_enable'',
     ''git_release_name'', ''git_release_type'', ''git_tag_enable'', ''git_tag_name'', ''name'', ''publish'',
     ''release'', ''version_group''}"

definition package_table_ok :: "toml_table \<Rightarrow> package_policy \<Rightarrow> bool" where
  "package_table_ok table policy \<longleftrightarrow>
     (let tag_name = pp_tag_prefix policy @ ''{{ version }}'';
          publish_all_features = (pp_package policy \<noteq> ''yaml-sigil-transcription'');
          expected_keys = (if publish_all_features then insert ''publish_all_features'' package_keys else package_keys) in
      get_str table ''name'' = Some (pp_package policy) \<and>
      set (map fst table) = expected_keys \<and>
      get_str table ''version_group'' = Some ''yaml-sigil-rs'' \<and>
      get_bool table ''release'' = Some True \<and>
      get_bool table ''publish'' = Some True \<and>
      get_bool table ''publish_all_features'' = (if publish_all_features then Some True else None) \<and>
      get_bool table ''changelog_update'' = Some True \<and>
      get_str table ''changelog_path'' = Some (pp_changelog policy) \<and>
      get_bool table ''git_tag_enable'' = Some False \<and>
      get_str table ''git_tag_name'' = Some tag_name \<and>
      get_bool table ''git_release_enable'' = Some False \<and>
      get_str table ''git_release_name'' = Some tag_name \<and>
      get_str table ''git_release_body'' = Some ''{{ changelog }}'' \<and>
      get_str table ''git_release_type'' = Some ''auto'')"

fun check_package_tables :: "toml_table list \<Rightarrow> package_policy list \<Rightarrow> release_error + unit" where
  "check_package_tables (table # tables) (policy # policies) =
     (if \<not> package_table_ok table policy
      then Inl (Fmt ''release-plz package policy differs for {}'' [pp_package policy])
      else check_package_tables tables policies)"
| "check_package_tables _ _ = Inr ()"

fun check_fields :: "(string \<times> 'a) list \<Rightarrow> (string \<Rightarrow> 'a option) \<Rightarrow> release_error + unit" where
  "check_fields [] get = Inr ()"
| "check_fields ((name, value) # rest) get =
     (if get name \<noteq> Some value
      then Inl (Fmt ''release-plz workspace field {name} differs from release policy'' [name])
      else check_fields rest get)"

definition check_policy_document :: "release_policy \<Rightarrow> toml_table \<Rightarrow> release_error + unit" where
  "check_policy_document policy document =
     (if set (map fst document) \<noteq> {''package'', ''workspace''}
      then Inl (Msg ''release-plz configuration has unexpected top-level policy'')
      else
        result_try (ok_or (Option.bind (table_get document ''workspace'') as_table_like)
            (Msg ''release-plz configuration lacks [workspace]'')) (\<lambda>workspace.
        if set (map fst workspace) \<noteq> workspace_keys
        then Inl (Msg ''release-plz workspace policy fields are not exact'')
        else
          result_try (check_fields workspace_flags (get_bool workspace)) (\<lambda>_.
          if get_str workspace ''pr_branch_prefix'' \<noteq> Some ''release-plz-manual-''
          then Inl (Msg ''release-plz branch prefix differs'')
          else
            result_try (check_fields [(''git_release_type'', ''auto''), (''publish_timeout'', ''5m'')]
                (get_str workspace)) (\<lambda>_.
            result_try (ok_or (Option.bind (table_get document ''package'') as_array_of_tables)
                (Msg ''release-plz configuration lacks package policy'')) (\<lambda>packages.
            if length packages \<noteq> length (rp_packages policy)
            then Inl (Msg ''release-plz configuration must name exactly the source version's packages'')
            else check_package_tables packages (rp_packages policy))))))"

definition validate_policy :: "'z source_ext_scheme \<Rightarrow> string \<Rightarrow> release_error + unit" where
  "validate_policy x root =
     result_try (current x root) (\<lambda>version.
     result_try (map_err (\<lambda>_. Msg ''read release-plz configuration'')
         (read_manifest x root (rp_config (for_version version)))) (\<lambda>body.
     result_try (ok_or (toml_parse x body) (Msg ''parse release-plz configuration'')) (\<lambda>document.
     check_policy_document (for_version version) document)))"

section \<open>The checkout\<close>

definition changed_paths :: "'z source_ext_scheme \<Rightarrow> string \<Rightarrow> release_error + string list" where
  "changed_paths x root =
     result_try (git_output x root [''diff'', ''--no-renames'', ''--name-only'', ''--diff-filter=ACDMRTUXB'',
         ''-z'', ''HEAD'', ''--'']) (\<lambda>tracked.
     result_try (nul_paths tracked ''tracked release diff'') (\<lambda>paths.
     result_try (git_output x root [''ls-files'', ''--others'', ''--exclude-standard'', ''-z'', ''--''])
       (\<lambda>untracked.
     result_try (nul_paths untracked ''untracked release diff'') (\<lambda>more.
     Inr (remdups (sort (paths @ more)))))))"

definition require_managed_diff :: "'z source_ext_scheme \<Rightarrow> string \<Rightarrow> release_error + unit" where
  "require_managed_diff x root =
     result_try (changed_paths x root) (\<lambda>paths.
     if paths = [] then Inl (Msg ''release-plz produced no release changes'')
     else
       result_try (current x root) (\<lambda>version.
       case List.find (\<lambda>path. \<not> allows_release_path (for_version version) path) paths of
         Some path \<Rightarrow> Inl (Fmt ''release preparation changed unexpected path {path}'' [path])
       | None \<Rightarrow> Inr ()))"

definition require_exact_changed_paths ::
    "'z source_ext_scheme \<Rightarrow> string \<Rightarrow> string list \<Rightarrow> string \<Rightarrow> release_error + unit" where
  "require_exact_changed_paths x root expected label =
     result_try (changed_paths x root) (\<lambda>actual.
     if actual \<noteq> sort expected then Inl (Fmt ''{label} paths differ'' (label # expected @ actual)) else Inr ())"

definition require_clean :: "'z source_ext_scheme \<Rightarrow> string \<Rightarrow> release_error + unit" where
  "require_clean x root =
     result_try (git_output x root [''status'', ''--porcelain=v1'', ''--untracked-files=all'']) (\<lambda>status.
     if status \<noteq> [] then Inl (Msg ''release operation requires a clean checkout'') else Inr ())"

definition is_ascii_hexdigit :: "char \<Rightarrow> bool" where
  "is_ascii_hexdigit c \<longleftrightarrow> lower_hex c \<or> (65 \<le> (of_char c :: nat) \<and> (of_char c :: nat) \<le> 70)"

definition validate_release_base :: "string \<Rightarrow> string \<Rightarrow> release_error + unit" where
  "validate_release_base head origin_main =
     (if length head \<noteq> 40 \<or> length origin_main \<noteq> 40 \<or> \<not> list_all is_ascii_hexdigit head \<or>
         \<not> list_all is_ascii_hexdigit origin_main
      then Inl (Msg ''release base is not an exact full commit SHA'')
      else if head \<noteq> origin_main
      then Inl (Msg ''release preparation must start at the exact selected origin base'')
      else Inr ())"

definition require_release_base :: "'z source_ext_scheme \<Rightarrow> string \<Rightarrow> release_line \<Rightarrow> release_error + unit" where
  "require_release_base x root line =
     result_try (git_line x root [''rev-parse'', ''HEAD'']) (\<lambda>head.
     result_try (git_line x root [''rev-parse'', tracking_ref line]) (\<lambda>base.
     validate_release_base head base))"

definition require_activation_branch :: "'z source_ext_scheme \<Rightarrow> string \<Rightarrow> version \<Rightarrow> release_error + unit" where
  "require_activation_branch x root target =
     result_try (git_line x root [''symbolic-ref'', ''--quiet'', ''--short'', ''HEAD'']) (\<lambda>observed.
     if observed \<noteq> ''activate-'' @ version_to_string x target
     then Inl (Fmt ''coordination activation branch differs: expected {expected}, found {observed}''
            [''activate-'' @ version_to_string x target, observed])
     else Inr ())"

definition require_no_tracked_root_lock :: "'z source_ext_scheme \<Rightarrow> string \<Rightarrow> release_error + unit" where
  "require_no_tracked_root_lock x root =
     result_try (git_line x root [''ls-files'', ''--'', ''Cargo.lock'']) (\<lambda>tracked.
     if tracked \<noteq> [] then Inl (Msg ''the root Cargo.lock must remain untracked'') else Inr ())"

end
