(* ===== verification/Github_Provenance.thy ===== *)
theory Github_Provenance
  imports Release_Check
begin

text \<open>
  How a release is bound to the protected history: \<open>xtask/src/github/provenance.rs\<close> and the
  inventory of \<open>github/support.rs\<close>. For a support line the binding rests on Git objects: main names
  one inventory of policy files, and the source must carry the recorded files unchanged.
\<close>

section \<open>Ordered maps\<close>

text \<open>A \<open>BTreeMap\<close> from paths to object names, as its entries in order.\<close>

fun btree_insert :: "string \<Rightarrow> string \<Rightarrow> (string \<times> string) list \<Rightarrow> (string \<times> string) list" where
  "btree_insert k v [] = [(k, v)]"
| "btree_insert k v ((k', v') # rest) =
     (if k < k' then (k, v) # (k', v') # rest
      else if k = k' then (k, v) # rest
      else (k', v') # btree_insert k v rest)"

fun unique_blobs_from ::
    "(string \<times> string) list \<Rightarrow> (string \<times> string) list \<Rightarrow> release_error + (string \<times> string) list" where
  "unique_blobs_from result [] = Inr result"
| "unique_blobs_from result ((path, sha) # entries) =
     (if length result \<ge> 256 \<or> map_of result path \<noteq> None
      then Inl (Msg ''duplicate or excessive policy paths'')
      else unique_blobs_from (btree_insert path sha result) entries)"

definition unique_blobs :: "(string \<times> string) list \<Rightarrow> release_error + (string \<times> string) list" where
  "unique_blobs entries = unique_blobs_from [] entries"

section \<open>Inventories\<close>

record inventory =
  iv_schema_version :: nat
  iv_base_ref :: string
  iv_anchor :: string
  iv_policy_commit :: string
  iv_enforce :: bool
  iv_blobs :: "(string \<times> string) list"

text \<open>JSON gives the fields of an inventory with its paths in the order they are written.\<close>

record provenance_ext = source_ext +
  inventory_parse :: "string \<Rightarrow> inventory option"

definition SEED_PATH :: string where "SEED_PATH = ''.github/support-policy-paths.txt''"
definition LINES_PATH :: string where "LINES_PATH = ''.github/support-lines/''"

definition ascii_alphanumeric :: "char \<Rightarrow> bool" where
  "ascii_alphanumeric c \<longleftrightarrow>
     is_ascii_digit c \<or> is_ascii_lower c \<or> (65 \<le> (of_char c :: nat) \<and> (of_char c :: nat) \<le> 90)"

definition require_path :: "string \<Rightarrow> release_error + unit" where
  "require_path path =
     (if path = [] \<or> starts_with path ''/'' \<or> starts_with path LINES_PATH \<or>
         list_ex (\<lambda>part. part \<in> {[], ''.'', ''..''}) (split_on (CHR ''/'') path) \<or>
         \<not> list_all (\<lambda>c. ascii_alphanumeric c \<or> c \<in> set ''-._/'') path
      then Inl (Msg ''invalid support policy path or self-referential inventory'') else Inr ())"

definition blob :: "'z release_ext_scheme \<Rightarrow> string \<Rightarrow> string \<Rightarrow> string \<Rightarrow> release_error + string" where
  "blob x root commit path =
     result_try (require_path path) (\<lambda>_.
     if \<not> is_sha commit then Inl (Msg ''policy commit must be a full lowercase SHA'')
     else
       result_try (git x root [''ls-tree'', commit, ''--'', path]) (\<lambda>row.
       result_try (ok_or (split_once (CHR 0x09) row) (Msg ''policy path is absent'')) (\<lambda>(metadata, actual).
       case split_on (CHR '' '') metadata of
         [mode, kind, sha] \<Rightarrow>
           if actual \<noteq> path \<or> mode \<notin> {''100644'', ''100755''} \<or> kind \<noteq> ''blob'' \<or> \<not> is_sha sha
           then Inl (Msg ''support policy path is not one regular Git blob'')
           else Inr sha
       | _ \<Rightarrow> Inl (Msg ''support policy path is not one regular Git blob''))))"

fun seed_blobs ::
    "'z release_ext_scheme \<Rightarrow> string \<Rightarrow> string \<Rightarrow> (string \<times> string) list \<Rightarrow> string list
       \<Rightarrow> release_error + (string \<times> string) list" where
  "seed_blobs x root main blobs [] = Inr blobs"
| "seed_blobs x root main blobs (path # paths) =
     result_try (require_path path) (\<lambda>_.
     result_try (blob x root main path) (\<lambda>sha.
     if map_of blobs path \<noteq> None then Inl (Msg ''duplicate support policy seed path'')
     else seed_blobs x root main (btree_insert path sha blobs) paths))"

definition seed_inventory ::
    "'z release_ext_scheme \<Rightarrow> string \<Rightarrow> release_line \<Rightarrow> string \<Rightarrow> string \<Rightarrow> release_error + inventory" where
  "seed_inventory x root line anchor main =
     result_try (git x root [''show'', main @ '':'' @ SEED_PATH]) (\<lambda>seed.
     result_try (seed_blobs x root main []
         (filter (\<lambda>l. l \<noteq> [] \<and> \<not> starts_with l ''#'') (str_lines seed))) (\<lambda>blobs.
     if blobs = [] \<or> length blobs > 256
     then Inl (Msg ''support policy inventory must contain 1 through 256 paths'')
     else Inr \<lparr>iv_schema_version = 1, iv_base_ref = base_ref line, iv_anchor = anchor, iv_policy_commit = main,
       iv_enforce = True, iv_blobs = blobs\<rparr>))"

fun inventory_path :: "release_line \<Rightarrow> release_error + string" where
  "inventory_path (Support major minor) = Inr (LINES_PATH @ show_nat major @ ''.'' @ show_nat minor @ ''.json'')"
| "inventory_path Main_Line = Inl (Msg ''main has no support inventory'')"

fun check_blob_entries :: "(string \<times> string) list \<Rightarrow> release_error + unit" where
  "check_blob_entries [] = Inr ()"
| "check_blob_entries ((path, sha) # entries) =
     result_try (require_path path) (\<lambda>_.
     if \<not> is_sha sha then Inl (Msg ''support inventory blob is not a full object ID'')
     else check_blob_entries entries)"

definition read_inventory ::
    "'z provenance_ext_scheme \<Rightarrow> string \<Rightarrow> string \<Rightarrow> release_line \<Rightarrow> release_error + inventory" where
  "read_inventory x root commit line =
     result_try (inventory_path line) (\<lambda>path.
     result_try (git x root [''ls-tree'', commit, ''--'', path]) (\<lambda>tree.
     if \<not> starts_with tree ''100644 blob '' \<or> \<not> ends_with tree ([CHR 0x09] @ path) \<or>
        list_ex (\<lambda>c. c = CHR 0x0A) tree
     then Inl (Msg ''support inventory is not one regular Git blob'')
     else
       result_try (git x root [''show'', commit @ '':'' @ path]) (\<lambda>data.
       if length data > 128 * 1024 then Inl (Msg ''support inventory exceeds its bound'')
       else
         result_try (ok_or (inventory_parse x data) (Msg ''invalid support inventory'')) (\<lambda>raw.
         result_try (map_err (\<lambda>_. Msg ''invalid support inventory'') (unique_blobs (iv_blobs raw))) (\<lambda>blobs.
         if iv_schema_version raw \<noteq> 1 \<or> iv_base_ref raw \<noteq> base_ref line \<or> \<not> is_sha (iv_anchor raw) \<or>
            \<not> is_sha (iv_policy_commit raw) \<or> blobs = [] \<or> length blobs > 256
         then Inl (Msg ''support inventory identity or path count is invalid'')
         else
           result_try (check_blob_entries blobs) (\<lambda>_.
           Inr (raw\<lparr>iv_blobs := blobs\<rparr>)))))))"

section \<open>The chain of a support source\<close>

definition ancestor :: "'z release_ext_scheme \<Rightarrow> string \<Rightarrow> string \<Rightarrow> string \<Rightarrow> release_error + unit" where
  "ancestor x root older newer =
     map_err (\<lambda>_. Msg ''recorded commit is not on the required protected lineage'')
       (result_map (\<lambda>_. ()) (git x root [''merge-base'', ''--is-ancestor'', older, newer]))"

fun check_chain ::
    "'z release_ext_scheme \<Rightarrow> string \<Rightarrow> string \<Rightarrow> string \<Rightarrow> (string \<times> string) list \<Rightarrow> release_error + unit" where
  "check_chain x root source policy_commit [] = Inr ()"
| "check_chain x root source policy_commit ((path, expected) # blobs) =
     result_try (blob x root source path) (\<lambda>at_source.
     if at_source \<noteq> expected then Inl (Fmt ''historical support blob chain is inconsistent at {path}'' [path])
     else
       result_try (blob x root policy_commit path) (\<lambda>at_policy.
       if at_policy \<noteq> expected then Inl (Fmt ''historical support blob chain is inconsistent at {path}'' [path])
       else check_chain x root source policy_commit blobs))"

definition historical_chain ::
    "'z provenance_ext_scheme \<Rightarrow> string \<Rightarrow> string \<Rightarrow> string \<Rightarrow> release_line \<Rightarrow> inventory \<Rightarrow> release_error + unit" where
  "historical_chain x root main source line recorded =
     result_try (ancestor x root (iv_policy_commit recorded) main) (\<lambda>_.
     result_try (inventory_path line) (\<lambda>path.
     result_try (git x root [''ls-tree'', iv_policy_commit recorded, ''--'', path]) (\<lambda>row.
     result_try
       (if row = []
        then
          if \<not> iv_enforce recorded then Inl (Msg ''initial historical inventory must enforce its seed'')
          else result_map iv_blobs (seed_inventory x root line (iv_anchor recorded) (iv_policy_commit recorded))
        else
          result_try (read_inventory x root (iv_policy_commit recorded) line) (\<lambda>historical.
          if iv_anchor historical \<noteq> iv_anchor recorded \<or> iv_enforce historical \<noteq> iv_enforce recorded
          then Inl (Msg ''historical inventory authority differs'')
          else Inr (iv_blobs historical))) (\<lambda>historical_paths.
     if map fst (iv_blobs recorded) \<noteq> map fst historical_paths
     then Inl (Msg ''source chose a different historical required path set'')
     else check_chain x root source (iv_policy_commit recorded) (iv_blobs recorded)))))"

text \<open>A fresh release carries the bytes that main has now for every required path.\<close>

fun check_fresh_policy ::
    "'z release_ext_scheme \<Rightarrow> string \<Rightarrow> string \<Rightarrow> (string \<times> string) list \<Rightarrow> release_error + unit" where
  "check_fresh_policy x root main [] = Inr ()"
| "check_fresh_policy x root main ((path, expected) # blobs) =
     result_try (blob x root main path) (\<lambda>at_main.
     if at_main \<noteq> expected then Inl (Fmt ''fresh support policy differs from main at {path}'' [path])
     else check_fresh_policy x root main blobs)"

definition support_anchor ::
    "'z provenance_ext_scheme \<Rightarrow> string \<Rightarrow> string \<Rightarrow> string \<Rightarrow> release_line \<Rightarrow> provenance_operation
       \<Rightarrow> release_error + string" where
  "support_anchor x root main source line operation =
     result_try (inventory_path line) (\<lambda>path.
     result_try (git x root [''ls-tree'', ''-r'', ''--name-only'', main, ''--'', LINES_PATH]) (\<lambda>inventories.
     if inventories \<noteq> path then Inl (Msg ''main must select exactly one active support inventory'')
     else
       result_try (read_inventory x root main line) (\<lambda>active.
       result_try (read_inventory x root source line) (\<lambda>recorded.
       if iv_anchor active \<noteq> iv_anchor recorded
       then Inl (Msg ''source inventory changed the protected activation anchor'')
       else
         result_try (ancestor x root (iv_anchor active) source) (\<lambda>_.
         result_try (ancestor x root (iv_anchor active) main) (\<lambda>_.
         result_try (git x root [''merge-base'', source, main]) (\<lambda>fork.
         if fork \<noteq> iv_anchor active
         then Inl (Msg ''support source fork point differs from its immutable anchor'')
         else
           result_try (historical_chain x root main source line recorded) (\<lambda>_.
           if operation = Fresh \<and> iv_enforce active
           then
             if \<not> iv_enforce recorded \<or> map fst (iv_blobs recorded) \<noteq> map fst (iv_blobs active)
             then Inl (Msg ''fresh source inventory differs from main required path set'')
             else
               result_try (check_fresh_policy x root main (iv_blobs recorded)) (\<lambda>_.
               Inr (iv_anchor active))
           else Inr (iv_anchor active)))))))))"

definition binding_load ::
    "'z provenance_ext_scheme \<Rightarrow> string \<Rightarrow> string \<Rightarrow> string \<Rightarrow> release_line \<Rightarrow> provenance_operation
       \<Rightarrow> release_error + binding" where
  "binding_load x root main source line operation =
     (if \<not> is_sha main \<or> \<not> is_sha source then Inl (Msg ''provenance requires exact commit identities'')
      else
        result_try
          (case line of
             Main_Line \<Rightarrow> Inr None
           | Support major minor \<Rightarrow>
               result_map Some (support_anchor x root main source line operation)) (\<lambda>anchor.
        Inr \<lparr>bd_line = line, bd_operation = operation, bd_main = main, bd_source = source, bd_anchor = anchor\<rparr>))"

definition verify_git :: "'z release_ext_scheme \<Rightarrow> binding \<Rightarrow> string \<Rightarrow> string \<Rightarrow> release_error + unit" where
  "verify_git x self root base =
     (if bd_operation self = Fresh \<and> base \<noteq> bd_source self
      then Inl (Msg ''fresh release requires the exact protected base tip'')
      else
        result_try (ancestor x root (bd_source self) base) (\<lambda>_.
        case bd_anchor self of
          None \<Rightarrow> Inr ()
        | Some anchor \<Rightarrow>
            result_try (git x root [''merge-base'', base, bd_main self]) (\<lambda>fork.
            if fork \<noteq> anchor then Inl (Msg ''protected support tip changed its activation anchor'')
            else Inr ())))"

end
