(* ===== verification/Github_Support.thy ===== *)
theory Github_Support
  imports Github_Qualify Github_Provenance
begin

text \<open>
  Opening a support line and its fresh releases: \<open>xtask/src/github/support.rs\<close>. A proposal is made
  only from published tags, the archives of their packages, and exact protected main.
\<close>

definition MAX_TAGS :: nat where "MAX_TAGS = 4096"

definition core_prefix :: string where
  "core_prefix = pp_tag_prefix (hd (rp_packages RUST_POLICY))"

definition gh_new :: "'z source_ext_scheme \<Rightarrow> release_error + unit" where
  "gh_new x = (if env x ''GH_TOKEN'' = None then Inl (Msg ''GH_TOKEN is required'') else gh_version x)"

definition require_repository :: "'z source_ext_scheme \<Rightarrow> string option \<Rightarrow> release_error + unit" where
  "require_repository x explicit =
     result_try
       (if env x ''GITHUB_ACTIONS'' = Some ''true''
        then
          if env x ''GITHUB_REF'' \<noteq> Some ''refs/heads/main''
          then Inl (Msg ''release policy executes only from protected main'')
          else
            result_try (ok_or (env x ''GITHUB_REPOSITORY'') (Msg ''GITHUB_REPOSITORY is required'')) (\<lambda>actual.
            if explicit \<noteq> None \<and> explicit \<noteq> Some actual
            then Inl (Msg ''repository argument differs from GitHub repository identity'')
            else Inr actual)
        else ok_or explicit (Msg ''local start-support requires --repository'')) (\<lambda>observed.
     if observed \<noteq> REPOSITORY then Inl (Msg ''repository differs from compiled release policy'') else Inr ())"

section \<open>Published versions\<close>

text \<open>The canonical versions among the tags, with the tag objects they must have.\<close>

fun tagged_versions :: "'z release_ext_scheme \<Rightarrow> bool \<Rightarrow> git_ref list \<Rightarrow> release_error + version list" where
  "tagged_versions x annotated [] = Inr []"
| "tagged_versions x annotated (reference # references) =
     result_try (ok_or (strip_prefix (''refs/tags/'' @ core_prefix) (gr_name reference))
         (Msg ''unexpected release tag prefix'')) (\<lambda>raw.
     case version_parse x raw of
       Some version \<Rightarrow>
         if version_to_string x version \<noteq> raw then tagged_versions x annotated references
         else if annotated \<and> (go_kind (gr_object reference) \<noteq> ''tag'' \<or> \<not> is_sha (go_sha (gr_object reference)))
         then Inl (Msg ''release progression requires annotated release tags'')
         else result_map (\<lambda>versions. version # versions) (tagged_versions x annotated references)
     | None \<Rightarrow> tagged_versions x annotated references)"

definition require_fresh_progression ::
    "'z release_ext_scheme \<Rightarrow> github \<Rightarrow> release_line \<Rightarrow> version \<Rightarrow> unit io" where
  "require_fresh_progression x g line selected =
     (if line = Main_Line then io_lift (Inr ())
      else
        io_try (gh_get g as_references (repo_path (''/git/matching-refs/tags/'' @ core_prefix))) (\<lambda>references.
        if length references > MAX_TAGS then io_lift (Inl (Msg ''release tag inventory exceeds its bound''))
        else
          io_try (io_lift (tagged_versions x True references)) (\<lambda>published.
          io_lift (require_advancement x line selected published))))"

definition select_successor ::
    "'z release_ext_scheme \<Rightarrow> git_ref list \<Rightarrow> release_line \<Rightarrow> version \<Rightarrow> release_error + version" where
  "select_successor x tags line selected =
     (if length tags > MAX_TAGS then Inl (Msg ''release tag inventory exceeds its bound'')
      else
        result_try (tagged_versions x False tags) (\<lambda>versions.
        if max_version x (filter (\<lambda>v. admits_version line v \<and> v_pre v = [] \<and> v_build v = []) versions) \<noteq> Some selected
        then Inl (Msg ''activation must use the line latest tagged stable version'')
        else
          ok_or (max_version x (filter (\<lambda>v. require_successor line v = Inr ()) versions))
            (Msg ''main has no tagged stable successor outside the old line; an RC is insufficient'')))"

section \<open>The source of a published version\<close>

fun tagged_source ::
    "'z release_ext_scheme \<Rightarrow> github \<Rightarrow> version \<Rightarrow> string option \<Rightarrow> string list \<Rightarrow> string option io" where
  "tagged_source x g version source [] = io_lift (Inr source)"
| "tagged_source x g version source (prefix # prefixes) =
     (let name = prefix @ version_to_string x version in
      io_try (gh_get g as_ref (repo_path (''/git/ref/tags/'' @ name))) (\<lambda>reference.
      if gr_name reference \<noteq> ''refs/tags/'' @ name \<or> go_kind (gr_object reference) \<noteq> ''tag'' \<or>
         \<not> is_sha (go_sha (gr_object reference))
      then io_lift (Inl (Msg ''activation requires annotated release tags''))
      else
        io_try (gh_get g as_tag (repo_path (''/git/tags/'' @ go_sha (gr_object reference)))) (\<lambda>tag.
        if at_sha tag \<noteq> go_sha (gr_object reference) \<or> at_tag tag \<noteq> name \<or> go_kind (at_object tag) \<noteq> ''commit'' \<or>
           \<not> is_sha (go_sha (at_object tag)) \<or> tg_name (at_tagger tag) \<noteq> APP_LOGIN \<or>
           tg_email (at_tagger tag) \<noteq> APP_EMAIL
        then io_lift (Inl (Msg ''activation release tag differs from the compiled App policy''))
        else if source \<noteq> None \<and> source \<noteq> Some (go_sha (at_object tag))
        then io_lift (Inl (Msg ''release package tags disagree on source''))
        else tagged_source x g version (Some (go_sha (at_object tag))) prefixes)))"

definition tag_prefixes :: "version \<Rightarrow> string list" where
  "tag_prefixes version = map pp_tag_prefix (rp_packages (for_version version))"

definition published_source ::
    "'z release_ext_scheme \<Rightarrow> github \<Rightarrow> string \<Rightarrow> version \<Rightarrow> string \<Rightarrow> (string \<Rightarrow> version \<Rightarrow> unit io) \<Rightarrow> string io" where
  "published_source x g root version main verify =
     io_try (tagged_source x g version None (tag_prefixes version)) (\<lambda>source.
     io_try (io_lift (ok_or source (Msg ''compiled package policy has no release tags''))) (\<lambda>source.
     io_try (io_lift (map_err
         (\<lambda>_. Msg ''published source is not on current main; fetch the exact history before retrying'')
         (git x root [''merge-base'', ''--is-ancestor'', source, main]))) (\<lambda>_.
     io_try (verify source version) (\<lambda>_.
     io_lift (Inr source)))))"

definition verify_packages :: "'z registry_ext_scheme \<Rightarrow> github \<Rightarrow> string \<Rightarrow> version \<Rightarrow> unit io" where
  "verify_packages x g source version =
     io_try (registry_states x g source version) (\<lambda>states.
     if list_ex Not states
     then io_lift (Inl (Msg ''support activation requires every exact source archive to be published''))
     else io_lift (Inr ()))"

section \<open>The proposal\<close>

definition main_ref :: "github \<Rightarrow> git_ref io" where
  "main_ref g = gh_get g as_ref (repo_path ''/git/ref/heads/main'')"

definition require_main_checkout :: "'z source_ext_scheme \<Rightarrow> string \<Rightarrow> string \<Rightarrow> release_error + unit" where
  "require_main_checkout x root tip =
     result_try (canonicalize x root) (\<lambda>actual.
     result_try (git x root [''rev-parse'', ''--show-toplevel'']) (\<lambda>top.
     result_try (canonicalize x top) (\<lambda>top.
     if actual \<noteq> top then Inl (Msg ''start-support requires an exact clean current-main checkout'')
     else
       result_try (git x root [''rev-parse'', ''HEAD'']) (\<lambda>head.
       if head \<noteq> tip then Inl (Msg ''start-support requires an exact clean current-main checkout'')
       else
         result_try (git x root [''status'', ''--porcelain=v1'', ''--untracked-files=all'']) (\<lambda>status.
         if status \<noteq> [] then Inl (Msg ''start-support requires an exact clean current-main checkout'')
         else Inr ())))))"

text \<open>What is printed: the successor, the anchor and the proposed inventory.\<close>

definition start_support ::
    "'z provenance_ext_scheme \<Rightarrow> github \<Rightarrow> string \<Rightarrow> version \<Rightarrow> string option \<Rightarrow> (version \<times> string \<times> inventory) io" where
  "start_support x g root version repository =
     io_try (io_lift (require_repository x repository)) (\<lambda>_.
     io_try (io_lift (validate_policy x root)) (\<lambda>_.
     if v_pre version \<noteq> [] \<or> v_build version \<noteq> []
     then io_lift (Inl (Msg ''support activation requires a published stable version''))
     else
       (let line = Support (v_major version) (v_minor version) in
        io_try (io_lift (from_base_ref (base_ref line))) (\<lambda>_.
        io_try (io_lift (gh_new x)) (\<lambda>_.
        io_try (main_ref g) (\<lambda>main.
        if gr_name main \<noteq> ''refs/heads/main'' \<or> go_kind (gr_object main) \<noteq> ''commit'' \<or>
           \<not> is_sha (go_sha (gr_object main))
        then io_lift (Inl (Msg ''main is not one exact commit ref''))
        else
          (let tip = go_sha (gr_object main) in
           io_try (io_lift (require_main_checkout x root tip)) (\<lambda>_.
           io_try (gh_get g as_references (repo_path ''/git/matching-refs/heads/support/'')) (\<lambda>active.
           io_try (io_lift
               (if active \<noteq> [] then Inr True
                else result_map (\<lambda>listed. listed \<noteq> []) (git x root [''ls-tree'', ''--name-only'', tip, LINES_PATH])))
             (\<lambda>exists.
           if exists
           then io_lift (Inl (Msg
             ''an existing support ref or inventory must be retired before opening another line''))
           else
             io_try (gh_get g as_references (repo_path (''/git/matching-refs/tags/'' @ core_prefix))) (\<lambda>tags.
             io_try (io_lift (select_successor x tags line version)) (\<lambda>successor.
             io_try (published_source x g root version tip (verify_packages x g)) (\<lambda>anchor.
             io_try (published_source x g root successor tip (verify_packages x g)) (\<lambda>_.
             io_try (io_lift (seed_inventory x root line anchor tip)) (\<lambda>inventory.
             io_try (main_ref g) (\<lambda>again.
             if gr_name again \<noteq> gr_name main \<or> go_kind (gr_object again) \<noteq> ''commit'' \<or>
                go_sha (gr_object again) \<noteq> tip
             then io_lift (Inl (Msg ''protected main changed during proposal generation''))
             else io_lift (Inr (successor, anchor, inventory))))))))))))))))))"

end
