(* ===== verification/Github_Release.thy ===== *)
theory Github_Release
  imports Github_Support
begin

text \<open>
  The two release commands of \<open>xtask/src/github.rs\<close> as wholes: qualifying a source, which writes
  only the workflow's outputs, and finalizing a published source.
\<close>

section \<open>Checkouts\<close>

definition require_exact_checkout ::
    "'z source_ext_scheme \<Rightarrow> string \<Rightarrow> string \<Rightarrow> string \<Rightarrow> release_error + string list" where
  "require_exact_checkout x root expected_sha label =
     result_try (require_sha expected_sha label) (\<lambda>_.
     result_try (map_err (\<lambda>_. Fmt ''canonicalize {label} checkout'' [label]) (canonicalize x root)) (\<lambda>canonical.
     result_try (git_line x root [''rev-parse'', ''--show-toplevel'']) (\<lambda>top.
     result_try (map_err (\<lambda>_. Fmt ''canonicalize {label} root'' [label]) (canonicalize x top)) (\<lambda>top.
     if canonical \<noteq> top then Inl (Fmt ''{label} path is not its Git worktree root'' [label])
     else
       result_try (git_line x root [''rev-parse'', ''HEAD'']) (\<lambda>head.
       if head \<noteq> expected_sha then Inl (Fmt ''{label} HEAD differs from its exact commit'' [label])
       else
         result_try (git_output x root [''status'', ''--porcelain=v1'', ''--untracked-files=all'']) (\<lambda>status.
         if status \<noteq> [] then Inl (Fmt ''{label} checkout is not clean'' [label])
         else Inr canonical))))))"

definition require_separate_checkouts ::
    "'z source_ext_scheme \<Rightarrow> string \<Rightarrow> string \<Rightarrow> string \<Rightarrow> string \<Rightarrow> release_error + unit" where
  "require_separate_checkouts x policy_root source_root main_commit source_sha =
     (if env x ''GITHUB_ACTIONS'' \<noteq> Some ''true'' \<or> env x ''GITHUB_REF'' \<noteq> Some ''refs/heads/main'' \<or>
         env x ''GITHUB_REPOSITORY'' \<noteq> Some REPOSITORY
      then Inl (Msg ''GitHub release commands require NVIDIA/yaml-sigil-rs Actions'')
      else
        result_try (require_exact_checkout x policy_root main_commit ''protected current-main policy'') (\<lambda>policy.
        result_try (require_exact_checkout x source_root source_sha ''release source data'') (\<lambda>source.
        if policy = source \<or> starts_with policy source \<or> starts_with source policy
        then Inl (Msg ''release policy and source data require separate checkouts'')
        else Inr ())))"

section \<open>Qualification\<close>

record qualify_args =
  qa_version :: "version option"
  qa_base_ref :: string
  qa_source_root :: string
  qa_source_sha :: string
  qa_operation :: operation
  qa_original_run_id :: "nat option"
  qa_original_run_attempt :: "nat option"
  qa_wait_for_registry :: bool

definition binding_operation :: "operation \<Rightarrow> provenance_operation" where
  "binding_operation operation = (if operation = Recover then Recover_Source else Fresh)"

text \<open>What each operation requires of its run inputs and its line.\<close>

definition check_operation :: "github \<Rightarrow> qualify_args \<Rightarrow> release_line \<Rightarrow> unit io" where
  "check_operation g arguments line =
     (if qa_operation arguments = Recover
      then
        (case (qa_original_run_id arguments, qa_original_run_attempt arguments) of
           (Some run_id, Some run_attempt) \<Rightarrow>
             if run_id = 0 \<or> run_attempt = 0
             then io_lift (Inl (Msg ''recovery audit run and attempt must be positive''))
             else if line = Main_Line then bind_original_run g (qa_source_sha arguments) run_id run_attempt
             else io_lift (Inr ())
         | _ \<Rightarrow> io_lift (Inl (Msg ''recovery requires the original run ID and attempt'')))
      else if qa_original_run_id arguments \<noteq> None \<or> qa_original_run_attempt arguments \<noteq> None
      then io_lift (Inl (Msg ''original run inputs are accepted only for recovery''))
      else if qa_operation arguments = Auto \<and> line \<noteq> Main_Line
      then io_lift (Inl (Msg ''automatic publication is main-only''))
      else if qa_operation arguments = Release \<and> line = Main_Line
      then io_lift (Inl (Msg ''release dispatch selects a support base''))
      else io_lift (Inr ()))"

definition check_event :: "'z source_ext_scheme \<Rightarrow> operation \<Rightarrow> release_error + unit" where
  "check_event x operation =
     (if env x ''GITHUB_REF'' \<noteq> Some ''refs/heads/main'' \<or>
         env x ''GITHUB_EVENT_NAME'' \<noteq> Some (if operation = Auto then ''push'' else ''workflow_dispatch'')
      then Inl (Msg ''release commands require the selected main-only event'') else Inr ())"

definition qualify_ordinary ::
    "'z source_ext_scheme \<Rightarrow> github \<Rightarrow> qualify_args \<Rightarrow> version \<Rightarrow> unit io" where
  "qualify_ordinary x g arguments version =
     io_try (maybe_reconcile_registry (qa_operation arguments) False
         (registry_states x g (qa_source_sha arguments) version)) (\<lambda>_.
     io_try (io_lift (ordinary_decision (qa_operation arguments))) (\<lambda>decision.
     append_qualification_outputs x g (qa_source_sha arguments) version decision ''ordinary''))"

definition qualify_release ::
    "'z source_ext_scheme \<Rightarrow> github \<Rightarrow> qualify_args \<Rightarrow> version \<Rightarrow> release_line \<Rightarrow> binding \<Rightarrow> unit io" where
  "qualify_release x g arguments version line binding =
     (let source_sha = qa_source_sha arguments; operation = qa_operation arguments in
      io_try (io_lift (require_real_release_version x version)) (\<lambda>_.
      io_try (io_lift (validate_source x (qa_source_root arguments) version True)) (\<lambda>_.
      io_try (if operation = Release then require_fresh_progression x g line version else io_lift (Inr ())) (\<lambda>_.
      io_try (maybe_reconcile_registry operation True
          (if qa_wait_for_registry arguments then wait_for_registry x g source_sha version
           else registry_states x g source_sha version)) (\<lambda>states.
      io_try (io_lift (ok_or states (Msg ''release qualification skipped registry reconciliation''))) (\<lambda>states.
      io_try (require_consistent_objects x g source_sha version line states) (\<lambda>_.
      io_try (io_lift (registry_decision operation states (qa_wait_for_registry arguments) version)) (\<lambda>decision.
      io_try (binding_verify g binding) (\<lambda>_.
      append_qualification_outputs x g source_sha version decision (registry_state states))))))))))"

definition qualify :: "'z provenance_ext_scheme \<Rightarrow> github \<Rightarrow> string \<Rightarrow> qualify_args \<Rightarrow> unit io" where
  "qualify x g root arguments =
     (let source_sha = qa_source_sha arguments; source_root = qa_source_root arguments;
          operation = qa_operation arguments in
      io_try (io_lift (from_base_ref (qa_base_ref arguments))) (\<lambda>line.
      io_try (io_lift (gh_new x)) (\<lambda>_.
      io_try (main_sha g) (\<lambda>policy_main_sha.
      io_try (io_lift (require_separate_checkouts x root source_root policy_main_sha source_sha)) (\<lambda>_.
      io_try (io_lift (validate_policy x root)) (\<lambda>_.
      io_try (io_lift (current x source_root)) (\<lambda>version.
      io_try (io_lift (validate_policy x source_root)) (\<lambda>_.
      if qa_version arguments \<noteq> None \<and> qa_version arguments \<noteq> Some version
      then io_lift (Inl (Msg ''qualified source version changed across the authority boundary''))
      else
        io_try (io_lift (require_version x line version)) (\<lambda>_.
        io_try (io_lift (binding_load x source_root policy_main_sha source_sha line (binding_operation operation)))
          (\<lambda>binding.
        io_try (binding_verify g binding) (\<lambda>_.
        io_try (check_operation g arguments line) (\<lambda>_.
        io_try (io_lift (check_event x operation)) (\<lambda>_.
        io_try (append_output g ''base_ref'' (qa_base_ref arguments)) (\<lambda>_.
        io_try (append_output g ''operation'' (if operation = Recover then ''recover'' else ''fresh'')) (\<lambda>_.
        if operation = Validate
        then
          io_try (io_lift (validate_source x source_root version True)) (\<lambda>_.
          io_try (maybe_reconcile_registry Validate False (registry_states x g source_sha version)) (\<lambda>_.
          append_qualification_outputs x g source_sha version no_decision ''validation''))
        else
          io_try (classify_release_pull_request x g source_sha version line) (\<lambda>release.
          if release then qualify_release x g arguments version line binding
          else qualify_ordinary x g arguments version))))))))))))))))"

section \<open>Finalization\<close>

record finalize_args =
  fa_operation :: provenance_operation
  fa_base_ref :: string
  fa_source_root :: string
  fa_source_sha :: string
  fa_version :: version
  fa_app_slug :: string

definition finalize :: "'z provenance_ext_scheme \<Rightarrow> github \<Rightarrow> string \<Rightarrow> finalize_args \<Rightarrow> unit io" where
  "finalize x g root arguments =
     (let source_sha = fa_source_sha arguments; source_root = fa_source_root arguments;
          version = fa_version arguments in
      io_try (io_lift (from_base_ref (fa_base_ref arguments))) (\<lambda>line.
      io_try (io_lift (gh_new x)) (\<lambda>_.
      io_try (main_sha g) (\<lambda>policy_main_sha.
      io_try (io_lift (require_separate_checkouts x root source_root policy_main_sha source_sha)) (\<lambda>_.
      io_try (io_lift (validate_policy x root)) (\<lambda>_.
      io_try (io_lift (validate_policy x source_root)) (\<lambda>_.
      io_try (io_lift (current x source_root)) (\<lambda>observed.
      if observed \<noteq> version then io_lift (Inl (Msg ''finalizer version differs from checked-out source''))
      else
        io_try (io_lift (require_real_release_version x version)) (\<lambda>_.
        io_try (io_lift (validate_source x source_root version True)) (\<lambda>_.
        io_try (registry_states x g source_sha version) (\<lambda>states.
        if list_ex Not states
        then io_lift (Inl (Msg ''all selected crates must be public before finalization''))
        else
          io_try (io_lift (require_version x line version)) (\<lambda>_.
          io_try (io_lift (binding_load x source_root policy_main_sha source_sha line (fa_operation arguments)))
            (\<lambda>binding.
          io_try (binding_verify g binding) (\<lambda>_.
          io_try (verify_app_scope g (fa_app_slug arguments)) (\<lambda>_.
          io_try (main_sha g) (\<lambda>mutation_main_sha.
          io_try (io_lift (require_unchanged_main policy_main_sha mutation_main_sha)) (\<lambda>_.
          io_try (io_lift (require_separate_checkouts x root source_root mutation_main_sha source_sha)) (\<lambda>_.
          io_try (binding_verify g binding) (\<lambda>_.
          io_try (source_commit g source_sha) (\<lambda>source.
          io_try (io_lift (ok_or (cd_committer (gc_commit source))
              (Msg ''release source raw committer is missing''))) (\<lambda>committer.
          finalize_packages x g (rp_packages (for_version version)) version source_sha policy_main_sha
            (ri_date committer) binding)))))))))))))))))))))"

end
