(* ===== verification/Github_Authority.thy ===== *)
theory Github_Authority
  imports Github_Release Github_Writes
begin

text \<open>
  What the release commands as wholes establish: which steps only read, what a finalizer run has
  checked before its first write, and what qualification has checked before it lets a workflow
  publish.
\<close>

section \<open>Steps that only read\<close>

lemma reads_curl [reads_rules]: "reads g (curl_response g url)"
  unfolding reads_def curl_response_def send_def
  by (auto split: response.splits if_splits intro!: sends_refl sends_one)

lemma reads_registry_record [reads_rules]: "reads g (registry_record_of x g package version)"
  "reads g (verify_published_source x g pp version source_sha r)"
  unfolding registry_record_of_def verify_published_source_def by (intro reads_rules)+

lemma reads_package_states [reads_rules]: "reads g (package_states x g packages source_sha version)"
proof (induction packages)
  case (Cons package packages)
  show ?case unfolding package_states.simps by (intro reads_rules Cons.IH)
qed (simp add: reads_lift)

lemma reads_registry_states [reads_rules]: "reads g (registry_states x g source_sha version)"
  unfolding registry_states_def by (intro reads_rules)

lemma reads_wait_attempts: "reads g (wait_attempts x g n source_sha version)"
proof (induction n)
  case (Suc n)
  show ?case unfolding wait_attempts.simps by (intro reads_rules Suc.IH)
qed (simp add: reads_lift)

lemma reads_wait [reads_rules]: "reads g (wait_for_registry x g source_sha version)"
  unfolding wait_for_registry_def by (rule reads_wait_attempts)

lemma reads_reconcile [reads_rules]: "reads g m \<Longrightarrow> reads g (maybe_reconcile_registry operation release m)"
  unfolding maybe_reconcile_registry_def
  by (cases operation; simp; intro conjI impI reads_rules; assumption?)

lemma reads_original [reads_rules]: "reads g (bind_original_run g source_sha run attempt)"
  unfolding bind_original_run_def by (intro reads_rules)

lemma reads_graphql [reads_rules]: "reads g (gh_graphql g number)"
  unfolding gh_graphql_def by (intro reads_rules reads_request) simp

lemma reads_source [reads_rules]: "reads g (source_commit g source_sha)"
  "reads g (release_head_signature g number head merge)" "reads g (verify_app_scope g slug)"
  unfolding source_commit_def release_head_signature_def verify_app_scope_def by (intro reads_rules)+

lemma reads_pulls [reads_rules]: "reads g (read_pulls g items)"
proof (induction items)
  case (Cons item items)
  show ?case unfolding read_pulls.simps by (intro reads_rules Cons.IH)
qed (simp add: reads_lift)

lemma reads_list [reads_rules]:
  "reads g m \<Longrightarrow> (\<And>a as. reads g (f a as)) \<Longrightarrow> reads g (case v of [] \<Rightarrow> m | a # as \<Rightarrow> f a as)"
  by (cases v) simp_all

lemma reads_check_pull [reads_rules]: "reads g (review_release_pull g source_sha version source pull)"
  "reads g (check_release_pull x g source_sha version line source pull)"
  unfolding check_release_pull_def review_release_pull_def by (intro reads_rules)+

lemma reads_classify [reads_rules]: "reads g (classify_release_pull_request x g source_sha version line)"
  unfolding classify_release_pull_request_def by (intro reads_rules)

lemma reads_consistent [reads_rules]: "reads g (consistent_objects x g packages source date version line states)"
proof (induction packages)
  case (Cons package packages)
  show ?case unfolding consistent_objects.simps Let_def by (intro reads_rules Cons.IH)
qed (simp add: reads_lift)

lemma reads_require_consistent [reads_rules]:
  "reads g (require_consistent_objects x g source version line states)"
  unfolding require_consistent_objects_def by (intro reads_rules)

lemma reads_progression [reads_rules]: "reads g (require_fresh_progression x g line selected)"
  unfolding require_fresh_progression_def by (intro reads_rules)

lemma reads_tagged [reads_rules]: "reads g (tagged_source x g version source prefixes)"
proof (induction prefixes arbitrary: source)
  case (Cons prefix prefixes)
  show ?case unfolding tagged_source.simps Let_def by (intro reads_rules Cons.IH)
qed (simp add: reads_lift)

lemma reads_support [reads_rules]:
  "(\<And>s v. reads g (verify s v)) \<Longrightarrow> reads g (published_source x g root version main verify)"
  "reads g (verify_packages x g s version)" "reads g (main_ref g)"
  unfolding published_source_def verify_packages_def main_ref_def by (intro reads_rules; assumption?)+

lemma reads_start_support: "reads g (start_support x g root version repository)"
  unfolding start_support_def Let_def by (intro reads_rules)

lemma reads_check_operation [reads_rules]: "reads g (check_operation g arguments line)"
  unfolding check_operation_def by (auto intro!: reads_rules split: option.splits)

section \<open>Gathering what was checked\<close>

lemma does_guard: "(\<And>a. r = Inr a \<Longrightarrow> does g P h (f a)) \<Longrightarrow> does g P h (io_try (io_lift r) f)"
  by (rule does_try [OF does_reads [OF reads_lift]]) simp

lemma does_read:
  "reads g m \<Longrightarrow> (\<And>a h1. m h = (Inr a, h1) \<Longrightarrow> set h \<subseteq> set h1 \<Longrightarrow> does g P h1 (f a)) \<Longrightarrow> does g P h (io_try m f)"
  by (rule does_try [OF does_reads]) (auto dest: reads_suffix)

lemma does_refuse: "(\<not> c \<Longrightarrow> does g P h m) \<Longrightarrow> does g P h (if c then io_lift (Inl e) else m)"
  by (auto intro: does_reads reads_lift)

lemma sends_mono_from:
  "sends g P h h' \<Longrightarrow> (\<And>hist q. set h \<subseteq> set hist \<Longrightarrow> P hist q \<Longrightarrow> P' hist q) \<Longrightarrow> sends g P' h h'"
proof (induction rule: sends.induct)
  case (sends_step h' q)
  then show ?case using sends_suffix [OF sends_step.hyps(1)] by (auto intro: sends.intros)
qed (rule sends_refl)

lemma does_mono_from:
  "does g P h m \<Longrightarrow> (\<And>hist q. set h \<subseteq> set hist \<Longrightarrow> P hist q \<Longrightarrow> P' hist q) \<Longrightarrow> does g P' h m"
  unfolding does_def by (rule sends_mono_from)

section \<open>The registry\<close>

definition record_url :: "'z release_ext_scheme \<Rightarrow> package_policy \<Rightarrow> version \<Rightarrow> string" where
  "record_url x package version = crates_url @ pp_package package @ ''/'' @ version_to_string x version"

text \<open>
  Answers that show a package to be published from exactly a commit: its record is canonical and
  not yanked, and the archive with the record's checksum was packaged from the commit.
\<close>

definition published_from ::
    "'z registry_ext_scheme \<Rightarrow> version \<Rightarrow> string \<Rightarrow> package_policy \<Rightarrow> (request \<times> response) set \<Rightarrow> bool" where
  "published_from x version source_sha package events \<longleftrightarrow>
     (\<exists>out body r out' archive.
        (Fetch (record_url x package version), Output out) \<in> events \<and> response_parts out = Inr (200, body) \<and>
        registry_parse x body = Some r \<and> validate_registry_record x (pp_package package) version r = Inr () \<and>
        (Fetch (record_url x package version @ ''/download''), Output out') \<in> events \<and>
        response_parts out' = Inr (200, archive) \<and>
        verify_published_archive x package version source_sha r archive = Inr ())"

definition not_published ::
    "'z registry_ext_scheme \<Rightarrow> version \<Rightarrow> package_policy \<Rightarrow> (request \<times> response) set \<Rightarrow> bool" where
  "not_published x version package events \<longleftrightarrow>
     (\<exists>out body. (Fetch (record_url x package version), Output out) \<in> events \<and> response_parts out = Inr (404, body))"

definition registry_seen ::
    "'z registry_ext_scheme \<Rightarrow> version \<Rightarrow> string \<Rightarrow> package_policy list \<Rightarrow> bool list \<Rightarrow> (request \<times> response) set \<Rightarrow> bool"
  where
  "registry_seen x version source_sha packages states events \<longleftrightarrow>
     list_all2 (\<lambda>package state.
         if state then published_from x version source_sha package events else not_published x version package events)
       packages states"

lemma published_from_mono:
  "published_from x version source_sha package E \<Longrightarrow> E \<subseteq> E' \<Longrightarrow> published_from x version source_sha package E'"
  unfolding published_from_def by blast

lemma not_published_mono: "not_published x version package E \<Longrightarrow> E \<subseteq> E' \<Longrightarrow> not_published x version package E'"
  unfolding not_published_def by blast

lemma registry_seen_mono:
  "registry_seen x version source_sha packages states E \<Longrightarrow> E \<subseteq> E' \<Longrightarrow>
   registry_seen x version source_sha packages states E'"
  unfolding registry_seen_def
  by (erule list_all2_mono) (auto intro: published_from_mono not_published_mono split: if_splits)

lemma curl_event: "curl_response g url h = (Inr (status, body), h') \<Longrightarrow>
    \<exists>out. h' = (Fetch url, Output out) # h \<and> response_parts out = Inr (status, body)"
  unfolding curl_response_def send_def by (auto split: if_splits response.splits)

lemma record_event: "registry_record_of x g (pp_package package) version h = (Inr found, h') \<Longrightarrow>
    \<exists>out status body. h' = (Fetch (record_url x package version), Output out) # h \<and>
      response_parts out = Inr (status, body) \<and>
      (case found of
         None \<Rightarrow> status = 404
       | Some r \<Rightarrow> status = 200 \<and> registry_parse x body = Some r \<and>
           validate_registry_record x (pp_package package) version r = Inr ())"
  unfolding registry_record_of_def io_try_Inr record_url_def
  by (auto simp: io_try_Inr result_simps dest!: curl_event split: if_splits)

lemma archive_event: "verify_published_source x g package version source_sha r h = (Inr u, h') \<Longrightarrow>
    \<exists>out archive. h' = (Fetch (record_url x package version @ ''/download''), Output out) # h \<and>
      response_parts out = Inr (200, archive) \<and> verify_published_archive x package version source_sha r archive = Inr ()"
  unfolding verify_published_source_def io_try_Inr record_url_def append_assoc
  by (auto dest!: curl_event split: if_splits)

lemma package_states_seen:
  "package_states x g packages source_sha version h = (Inr states, h') \<Longrightarrow>
   registry_seen x version source_sha packages states (set h')"
proof (induction packages arbitrary: h states)
  case (Cons package packages)
  from Cons.prems obtain found h1 state h2 states' where
    r: "registry_record_of x g (pp_package package) version h = (Inr found, h1)"
    and st: "(case found of
         Some r \<Rightarrow> io_try (verify_published_source x g package version source_sha r) (\<lambda>_. io_lift (Inr True))
       | None \<Rightarrow> io_lift (Inr False)) h1 = (Inr state, h2)"
    and rest: "package_states x g packages source_sha version h2 = (Inr states', h')"
    and states: "states = state # states'"
    unfolding package_states.simps by (auto simp: io_try_Inr)
  obtain out status body where o: "h1 = (Fetch (record_url x package version), Output out) # h"
      "response_parts out = Inr (status, body)"
      "case found of None \<Rightarrow> status = 404
       | Some r \<Rightarrow> status = 200 \<and> registry_parse x body = Some r \<and>
           validate_registry_record x (pp_package package) version r = Inr ()"
    using record_event [OF r] by blast
  have sub: "set h2 \<subseteq> set h'" using reads_suffix [OF reads_package_states rest] by blast
  have "if state then published_from x version source_sha package (set h') else not_published x version package (set h')"
  proof (cases found)
    case None
    then have "not_published x version package (set h2)" "\<not> state"
      using st o by (auto simp: not_published_def)
    then show ?thesis using not_published_mono sub by simp
  next
    case (Some r)
    then obtain out' archive where a: "h2 = (Fetch (record_url x package version @ ''/download''), Output out') # h1"
      "response_parts out' = Inr (200, archive)"
      "verify_published_archive x package version source_sha r archive = Inr ()" "state"
      using st by (auto simp: io_try_Inr dest!: archive_event)
    have "published_from x version source_sha package (set h2)"
      unfolding published_from_def
      by (rule exI [of _ out], rule exI [of _ body], rule exI [of _ r], rule exI [of _ out'], rule exI [of _ archive])
        (use a o Some in simp)
    then show ?thesis using published_from_mono sub a(4) by simp
  qed
  then show ?case
    using Cons.IH [OF rest] unfolding states registry_seen_def by simp
qed (simp add: registry_seen_def)

lemma registry_states_seen:
  "registry_states x g source_sha version h = (Inr states, h') \<Longrightarrow>
   registry_seen x version source_sha (rp_packages (for_version version)) states (set h')"
  unfolding registry_states_def by (rule package_states_seen)

lemma wait_attempts_seen:
  "wait_attempts x g n source_sha version h = (Inr states, h') \<Longrightarrow>
   registry_seen x version source_sha (rp_packages (for_version version)) states (set h')"
proof (induction n arbitrary: h)
  case (Suc n)
  then show ?case
    unfolding wait_attempts.simps io_try_Inr by (auto dest: registry_states_seen split: if_splits)
qed simp

lemma wait_for_registry_seen:
  "wait_for_registry x g source_sha version h = (Inr states, h') \<Longrightarrow>
   registry_seen x version source_sha (rp_packages (for_version version)) states (set h')"
  unfolding wait_for_registry_def by (rule wait_attempts_seen)

section \<open>The finalizer as a whole\<close>

text \<open>
  Everything a finalizer run has established before it asks for a write: the command runs in the
  repository's own workflow on protected main with separate clean checkouts of the policy and
  the source; the source has the version and its manifests agree with the policy; every package
  is published from exactly the source; the binding of the source to its line was loaded; the
  App's token is for this repository only; the tagger's date is the source's. The write is then
  one the package loop admits.
\<close>

definition finalize_ok ::
    "'z provenance_ext_scheme \<Rightarrow> string \<Rightarrow> finalize_args \<Rightarrow> history \<Rightarrow> request \<Rightarrow> bool" where
  "finalize_ok x root a hist q \<longleftrightarrow>
     (\<exists>line main b metadata installation source committer.
        from_base_ref (fa_base_ref a) = Inr line \<and>
        require_separate_checkouts x root (fa_source_root a) main (fa_source_sha a) = Inr () \<and>
        validate_policy x root = Inr () \<and> validate_policy x (fa_source_root a) = Inr () \<and>
        current x (fa_source_root a) = Inr (fa_version a) \<and>
        require_real_release_version x (fa_version a) = Inr () \<and>
        validate_source x (fa_source_root a) (fa_version a) True = Inr metadata \<and>
        require_version x line (fa_version a) = Inr () \<and>
        list_all (\<lambda>package. published_from x (fa_version a) (fa_source_sha a) package (set hist))
          (rp_packages (for_version (fa_version a))) \<and>
        binding_load x (fa_source_root a) main (fa_source_sha a) line (fa_operation a) = Inr b \<and>
        (Get ''installation/repositories?per_page=100'', Body (B_Installation installation)) \<in> set hist \<and>
        validate_app_scope (fa_app_slug a) installation = Inr () \<and>
        (Get (repo_path (''/commits/'' @ fa_source_sha a)), Body (B_Commit source)) \<in> set hist \<and>
        gc_sha source = fa_source_sha a \<and> cd_committer (gc_commit source) = Some committer \<and>
        run_ok x (rp_packages (for_version (fa_version a))) (fa_version a) (fa_source_sha a) (ri_date committer) b hist q)"

lemma app_scope_event: "verify_app_scope g slug h = (Inr u, h') \<Longrightarrow>
    \<exists>i. (Get ''installation/repositories?per_page=100'', Body (B_Installation i)) \<in> set h' \<and>
      validate_app_scope slug i = Inr ()"
  unfolding verify_app_scope_def io_try_Inr gh_get_iff by auto

lemma source_event: "source_commit g source_sha h = (Inr c, h') \<Longrightarrow>
    (Get (repo_path (''/commits/'' @ source_sha)), Body (B_Commit c)) \<in> set h' \<and> gc_sha c = source_sha"
  unfolding source_commit_def io_try_Inr gh_get_iff by (auto split: if_splits)

lemma all_published:
  assumes "registry_seen x version source_sha packages states E" "\<not> list_ex Not states"
  shows "list_all (\<lambda>package. published_from x version source_sha package E) packages"
  using assms unfolding registry_seen_def list_all2_conv_all_nth list_all_length list_ex_length by auto

lemma published_all_mono:
  "list_all (\<lambda>package. published_from x version source_sha package E) packages \<Longrightarrow> E \<subseteq> E' \<Longrightarrow>
   list_all (\<lambda>package. published_from x version source_sha package E') packages"
  by (auto simp: list_all_iff intro: published_from_mono)

text \<open>
  C6: a finalizer run writes only after every check. Whatever GitHub, crates.io and the
  checkouts answer, and whether the run succeeds or fails, each tag object, tag and Release it
  asks for comes after all of: the workflow is this repository's on protected main; the policy
  and the source are exact, clean and separate checkouts; both have the compiled release policy
  and the source has the version of the run, which is on the line; every package of the family
  has a canonical crates.io record whose archive was packaged from exactly the source commit; the
  token is scoped to this repository; the binding to protected history was loaded; and, directly
  before the write, the reads that admit it.
\<close>

theorem finalize_writes_after_all_checks:
  "sends g (finalize_ok x root a) h (snd (finalize x g root a h))"
proof -
  have "does g (finalize_ok x root a) h (finalize x g root a)"
    unfolding finalize_def Let_def
  proof (intro does_guard does_refuse does_read reads_rules, goal_cases)
    case (1 line u main h1 u2 u3 u4 version u5 metadata states h2 u6 b u7 h3 u8 h4 main' h5 u9 u10 u11 h6 source h7 committer)
    have sub: "set h2 \<subseteq> set h7" "set h4 \<subseteq> set h7" using 1 by auto
    have reg: "list_all (\<lambda>package. published_from x (fa_version a) (fa_source_sha a) package (set h7))
        (rp_packages (for_version (fa_version a)))"
      using published_all_mono [OF all_published [OF registry_states_seen] sub(1)] 1 by blast
    obtain i where i: "(Get ''installation/repositories?per_page=100'', Body (B_Installation i)) \<in> set h7"
      "validate_app_scope (fa_app_slug a) i = Inr ()"
      using app_scope_event 1 sub(2) by blast
    have src: "(Get (repo_path (''/commits/'' @ fa_source_sha a)), Body (B_Commit source)) \<in> set h7"
      "gc_sha source = fa_source_sha a"
      using source_event 1 by blast+
    have ok: "finalize_ok x root a hist q"
      if "set h7 \<subseteq> set hist"
        "run_ok x (rp_packages (for_version (fa_version a))) (fa_version a) (fa_source_sha a) (ri_date committer) b hist q"
      for hist q
      unfolding finalize_ok_def
      by (rule exI [of _ line], rule exI [of _ main], rule exI [of _ b], rule exI [of _ metadata], rule exI [of _ i],
          rule exI [of _ source], rule exI [of _ committer])
        (use 1 that published_all_mono [OF reg that(1)] i src in \<open>auto simp: result_simps\<close>)
    show ?case by (rule does_mono_from [OF does_finalize_packages [OF subset_refl] ok])
  qed
  then show ?thesis unfolding does_def .
qed

section \<open>The reviewed release\<close>

text \<open>
  Answers that show a commit to be the squash merge of one canonical release pull request: the
  commit is signed and has one parent; the pull request went from the release branch of the
  version to the base of the line, at that parent; its one commit has the commit's tree, is based
  on the pull request's base, and carries a valid signature, identities and sign-off of the
  release maintainer; and its files are release files of the version's family.
\<close>

definition release_reviewed ::
    "'z release_ext_scheme \<Rightarrow> string \<Rightarrow> version \<Rightarrow> release_line \<Rightarrow> (request \<times> response) set \<Rightarrow> bool" where
  "release_reviewed x source_sha version line events \<longleftrightarrow>
     (\<exists>source parent number pull commit response signature files.
        (Get (repo_path (''/commits/'' @ source_sha)), Body (B_Commit source)) \<in> events \<and> gc_sha source = source_sha \<and>
        require_verified_dco_commit source source_sha ''release squash commit'' = Inr () \<and>
        gc_parents source = [parent] \<and>
        (Get (repo_path (''/pulls/'' @ show_nat number)), Body (B_Pull pull)) \<in> events \<and>
        canonical_release_pull x pull version parent line \<and>
        (Get (repo_path (''/pulls/'' @ show_nat (pr_number pull) @ ''/commits?per_page=100'')),
          Body (B_Commits [commit])) \<in> events \<and>
        (Query (pr_number pull), Body (B_Signature response)) \<in> events \<and>
        validate_signature_response response (pf_sha (pr_head pull)) source_sha = Inr signature \<and>
        require_reviewed_release_head commit signature (pf_sha (pr_head pull)) (pf_sha (pr_base pull)) = Inr () \<and>
        cd_tree (gc_commit commit) = cd_tree (gc_commit source) \<and>
        (Get (repo_path (''/pulls/'' @ show_nat (pr_number pull) @ ''/files?per_page=100'')), Body (B_Files files))
          \<in> events \<and>
        validate_release_files files (pr_changed_files pull) version = Inr ())"

lemma release_reviewed_mono:
  "release_reviewed x source_sha version line E \<Longrightarrow> E \<subseteq> E' \<Longrightarrow> release_reviewed x source_sha version line E'"
  unfolding release_reviewed_def by (elim exE conjE) (intro exI conjI; (assumption | (drule subsetD, assumption, assumption))?)

lemma signature_event: "release_head_signature g number head merge h = (Inr signature, h') \<Longrightarrow>
    \<exists>response. h' = (Query number, Body (B_Signature response)) # h \<and>
      validate_signature_response response head merge = Inr signature"
  unfolding release_head_signature_def gh_graphql_def
  by (auto simp: io_try_Inr gh_request_def send_def gh_decode_def result_simps split: if_splits response.splits)

lemma get_event: "gh_get g dec path h = (Inr a, h') \<Longrightarrow> \<exists>b. h' = (Get path, Body b) # h \<and> dec b = Some a"
  by (auto simp: gh_get_iff)

lemma check_pull_reviewed:
  assumes run: "check_release_pull x g source_sha version line source pull h = (Inr v, h')"
    and source: "(Get (repo_path (''/commits/'' @ source_sha)), Body (B_Commit source)) \<in> set h" "gc_sha source = source_sha"
    and pull: "(Get (repo_path (''/pulls/'' @ show_nat number)), Body (B_Pull pull)) \<in> set h"
  shows "release_reviewed x source_sha version line (set h')"
proof -
  obtain parent where dco: "require_verified_dco_commit source source_sha ''release squash commit'' = Inr ()"
    and parent: "gc_parents source = [parent]" and canonical: "canonical_release_pull x pull version parent line"
    and review: "review_release_pull g source_sha version source pull h = (Inr v, h')"
    using run unfolding check_release_pull_def io_try_Inr
    by (auto split: list.splits if_splits)
  obtain commits h1 where c: "gh_get g as_commits (repo_path
      (''/pulls/'' @ show_nat (pr_number pull) @ ''/commits?per_page=100'')) h = (Inr commits, h1)"
    and rest: "(case commits of
       [commit] \<Rightarrow>
         io_try (release_head_signature g (pr_number pull) (pf_sha (pr_head pull)) source_sha) (\<lambda>signature.
         io_try (io_lift (require_reviewed_release_head commit signature
             (pf_sha (pr_head pull)) (pf_sha (pr_base pull)))) (\<lambda>_.
         if cd_tree (gc_commit commit) \<noteq> cd_tree (gc_commit source)
         then io_lift (Inl (Msg ''release squash tree differs from the reviewed release tree''))
         else
           io_try (gh_get g as_files (repo_path (''/pulls/'' @ show_nat (pr_number pull) @ ''/files?per_page=100'')))
             (\<lambda>files.
           io_try (io_lift (validate_release_files files (pr_changed_files pull) version)) (\<lambda>_.
           io_lift (Inr True)))))
     | _ \<Rightarrow> io_lift (Inl (Msg ''release pull request must contain exactly one reviewed commit''))) h1 = (Inr v, h')"
    using review unfolding review_release_pull_def io_try_Inr by blast
  obtain commit where commit: "commits = [commit]" using rest by (auto split: list.splits)
  obtain signature h2 files h3 where sig: "release_head_signature g (pr_number pull) (pf_sha (pr_head pull)) source_sha h1
        = (Inr signature, h2)"
    and head: "require_reviewed_release_head commit signature (pf_sha (pr_head pull)) (pf_sha (pr_base pull)) = Inr ()"
    and tree: "cd_tree (gc_commit commit) = cd_tree (gc_commit source)"
    and f: "gh_get g as_files (repo_path (''/pulls/'' @ show_nat (pr_number pull) @ ''/files?per_page=100'')) h2
        = (Inr files, h3)"
    and files: "validate_release_files files (pr_changed_files pull) version = Inr ()" and h3: "h3 = h'"
    using rest unfolding commit list.case io_try_Inr io_lift_iff by (auto simp: io_try_Inr split: if_splits)
  obtain response where r: "h2 = (Query (pr_number pull), Body (B_Signature response)) # h1"
    "validate_signature_response response (pf_sha (pr_head pull)) source_sha = Inr signature"
    using signature_event [OF sig] by blast
  have ev: "h1 = (Get (repo_path (''/pulls/'' @ show_nat (pr_number pull) @ ''/commits?per_page=100'')),
        Body (B_Commits [commit])) # h"
    "h' = (Get (repo_path (''/pulls/'' @ show_nat (pr_number pull) @ ''/files?per_page=100'')), Body (B_Files files)) # h2"
    using get_event [OF c] get_event [OF f] commit h3 by auto
  show ?thesis
    unfolding release_reviewed_def
    by (rule exI [of _ source], rule exI [of _ parent], rule exI [of _ number], rule exI [of _ pull],
        rule exI [of _ commit], rule exI [of _ response], rule exI [of _ signature], rule exI [of _ files])
      (use source pull in \<open>simp add: ev r dco parent canonical head tree files\<close>)
qed

lemma read_pulls_events: "read_pulls g items h = (Inr pulls, h') \<Longrightarrow> pull \<in> set pulls \<Longrightarrow>
    \<exists>number. (Get (repo_path (''/pulls/'' @ show_nat number)), Body (B_Pull pull)) \<in> set h'"
proof (induction items arbitrary: h pulls)
  case (Cons item items)
  then obtain p h1 ps where p: "gh_get g as_pull (repo_path (''/pulls/'' @ show_nat (ap_number item))) h = (Inr p, h1)"
    and ps: "read_pulls g items h1 = (Inr ps, h')" and pulls: "pulls = p # ps"
    unfolding read_pulls.simps by (auto simp: io_try_Inr)
  have "(Get (repo_path (''/pulls/'' @ show_nat (ap_number item))), Body (B_Pull p)) \<in> set h'"
    using reads_suffix [OF reads_pulls ps] get_event [OF p] by auto
  then show ?case using Cons.IH [OF ps] Cons.prems(2) pulls by auto
qed simp

lemma classify_reviewed:
  assumes "classify_release_pull_request x g source_sha version line h = (Inr True, h')"
  shows "release_reviewed x source_sha version line (set h')"
proof -
  obtain source h1 associated h2 matching pulls h3 where s: "source_commit g source_sha h = (Inr source, h1)"
    and a: "gh_get g as_associated (repo_path (''/commits/'' @ source_sha @ ''/pulls?per_page=100'')) h1
      = (Inr associated, h2)"
    and p: "read_pulls g matching h2 = (Inr pulls, h3)"
    and rest: "(if filter release_branch pulls = [] then io_lift (Inr False)
       else
         (case pulls of
            [pull] \<Rightarrow> check_release_pull x g source_sha version line source pull
          | _ \<Rightarrow> io_lift (Inl (Msg ''release source must have one exact merged pull request'')))) h3 = (Inr True, h')"
    using assms unfolding classify_release_pull_request_def io_try_Inr io_lift_iff by blast
  obtain pull where pull: "pulls = [pull]"
    and run: "check_release_pull x g source_sha version line source pull h3 = (Inr True, h')"
    using rest by (auto split: if_splits list.splits)
  have sub: "set h1 \<subseteq> set h3"
    using reads_suffix [OF reads_pulls p] get_event [OF a] by auto
  obtain number where "(Get (repo_path (''/pulls/'' @ show_nat number)), Body (B_Pull pull)) \<in> set h3"
    using read_pulls_events [OF p] pull by auto
  then show ?thesis using check_pull_reviewed [OF run] source_event [OF s] sub by blast
qed

section \<open>Qualification as a whole\<close>

text \<open>The binding was verified, and since then only outputs were written.\<close>

definition bound_since :: "binding \<Rightarrow> history \<Rightarrow> bool" where
  "bound_since b hist \<longleftrightarrow> (\<exists>outs h0. hist = outs @ h0 \<and> policy_bound b h0 \<and>
     list_all (\<lambda>(q, r). \<exists>name value. q = Append name value) outs)"

text \<open>What qualification has established when it lets the workflow publish or finalize.\<close>

definition authorised ::
    "'z provenance_ext_scheme \<Rightarrow> string \<Rightarrow> qualify_args \<Rightarrow> decision \<Rightarrow> history \<Rightarrow> bool" where
  "authorised x root a d hist \<longleftrightarrow>
     (\<exists>line main version b metadata states.
        from_base_ref (qa_base_ref a) = Inr line \<and>
        require_separate_checkouts x root (qa_source_root a) main (qa_source_sha a) = Inr () \<and>
        validate_policy x root = Inr () \<and> validate_policy x (qa_source_root a) = Inr () \<and>
        current x (qa_source_root a) = Inr version \<and> (qa_version a = None \<or> qa_version a = Some version) \<and>
        require_version x line version = Inr () \<and>
        binding_load x (qa_source_root a) main (qa_source_sha a) line (binding_operation (qa_operation a)) = Inr b \<and>
        check_event x (qa_operation a) = Inr () \<and>
        qa_operation a \<noteq> Validate \<and> (qa_operation a = Auto \<longrightarrow> line = Main_Line) \<and>
        (qa_operation a = Release \<longrightarrow> line \<noteq> Main_Line) \<and>
        release_reviewed x (qa_source_sha a) version line (set hist) \<and>
        require_real_release_version x version = Inr () \<and>
        validate_source x (qa_source_root a) version True = Inr metadata \<and>
        registry_seen x version (qa_source_sha a) (rp_packages (for_version version)) states (set hist) \<and>
        registry_decision (qa_operation a) states (qa_wait_for_registry a) version = Inr d \<and>
        bound_since b hist)"

definition qualify_ok ::
    "'z provenance_ext_scheme \<Rightarrow> string \<Rightarrow> qualify_args \<Rightarrow> history \<Rightarrow> request \<Rightarrow> bool" where
  "qualify_ok x root a hist q =
     (case q of
        Post path payload \<Rightarrow> False
      | Append name value \<Rightarrow>
          value \<noteq> ''true'' \<or> name \<notin> {''publish'', ''finalize''} \<or>
          (\<exists>d. authorised x root a d hist \<and> (if name = ''publish'' then dc_publish d else dc_finalize d))
      | _ \<Rightarrow> True)"

lemma does_append: "P h (Append name value) \<Longrightarrow> does g P h (append_output g name value)"
  unfolding does_def append_output_def send_def
  by (auto split: response.splits intro!: sends_refl sends_one)

lemma append_done: "append_output g name value h = (Inr u, h1) \<Longrightarrow> h1 = (Append name value, Done) # h"
  unfolding append_output_def send_def by (auto split: response.splits if_splits)

lemma bound_since_append: "bound_since b h \<Longrightarrow> bound_since b ((Append name value, Done) # h)"
  unfolding bound_since_def by (elim exE conjE) (rule exI [of _ "_ # _"], fastforce)

lemma authorised_append: "authorised x root a d h \<Longrightarrow> authorised x root a d ((Append name value, Done) # h)"
  unfolding authorised_def
  by (elim exE conjE, intro exI conjI; (assumption | erule release_reviewed_mono | erule registry_seen_mono
      | erule bound_since_append | (rule impI, simp))?) auto

lemma does_no_outputs:
  "does g (qualify_ok x root a) h (append_qualification_outputs x g source_sha version no_decision state)"
  unfolding append_qualification_outputs_def
  by (intro does_try does_append) (simp_all add: qualify_ok_def no_decision_def bool_text_def)

lemma does_outputs:
  assumes "authorised x root a d h"
  shows "does g (qualify_ok x root a) h (append_qualification_outputs x g source_sha version d state)"
  unfolding append_qualification_outputs_def
proof (intro does_try does_append, goal_cases)
  case (4 u h1 u2 h2 u3 h3)
  then have "authorised x root a d h3" using assms by (auto dest!: append_done intro: authorised_append)
  then show ?case by (auto simp: qualify_ok_def bool_text_def)
next
  case (5 u h1 u2 h2 u3 h3 u4 h4)
  then have "authorised x root a d h4" using assms by (auto dest!: append_done intro: authorised_append)
  then show ?case by (auto simp: qualify_ok_def bool_text_def)
qed (simp_all add: qualify_ok_def)

lemma reconciled: "maybe_reconcile_registry operation True m h = (Inr (Some states), h') \<Longrightarrow> m h = (Inr states, h')"
  unfolding maybe_reconcile_registry_def by (cases operation) (auto simp: io_try_Inr)

text \<open>What is known of the arguments when a release has been recognised.\<close>

definition release_args_ok ::
    "'z provenance_ext_scheme \<Rightarrow> string \<Rightarrow> qualify_args \<Rightarrow> release_line \<Rightarrow> string \<Rightarrow> version \<Rightarrow> binding \<Rightarrow> bool" where
  "release_args_ok x root a line main version b \<longleftrightarrow>
     from_base_ref (qa_base_ref a) = Inr line \<and>
     require_separate_checkouts x root (qa_source_root a) main (qa_source_sha a) = Inr () \<and>
     validate_policy x root = Inr () \<and> validate_policy x (qa_source_root a) = Inr () \<and>
     current x (qa_source_root a) = Inr version \<and> (qa_version a = None \<or> qa_version a = Some version) \<and>
     require_version x line version = Inr () \<and>
     binding_load x (qa_source_root a) main (qa_source_sha a) line (binding_operation (qa_operation a)) = Inr b \<and>
     check_event x (qa_operation a) = Inr () \<and>
     qa_operation a \<noteq> Validate \<and> (qa_operation a = Auto \<longrightarrow> line = Main_Line) \<and>
     (qa_operation a = Release \<longrightarrow> line \<noteq> Main_Line)"

lemma does_qualify_release:
  assumes q: "release_args_ok x root a line main version b"
    and reviewed: "release_reviewed x (qa_source_sha a) version line (set h)"
  shows "does g (qualify_ok x root a) h (qualify_release x g a version line b)"
  unfolding qualify_release_def Let_def
proof (intro does_guard does_read reads_rules, goal_cases)
  case (1 u metadata u1 h1 found h2 states u2 h3 d u3 h4)
  have "registry_seen x version (qa_source_sha a) (rp_packages (for_version version)) states (set h2)"
    using 1 by (auto simp: result_simps dest!: reconciled split: if_splits
        intro: registry_states_seen wait_for_registry_seen)
  moreover have sub: "set h2 \<subseteq> set h4" "set h \<subseteq> set h4" using 1 by auto
  ultimately have seen: "registry_seen x version (qa_source_sha a) (rp_packages (for_version version)) states (set h4)"
    using registry_seen_mono by blast
  have "bound_since b h4"
    unfolding bound_since_def using 1 by (intro exI [of _ "[]"] exI [of _ h4]) (auto dest: binding_verify_bound)
  with seen release_reviewed_mono [OF reviewed sub(2)] q 1 have "authorised x root a d h4"
    unfolding authorised_def release_args_ok_def
    by (intro exI [of _ line] exI [of _ main] exI [of _ version] exI [of _ b] exI [of _ metadata] exI [of _ states]) simp
  then show ?case by (rule does_outputs)
qed

lemma does_qualify_ordinary: "does g (qualify_ok x root a) h (qualify_ordinary x g a version)"
  unfolding qualify_ordinary_def
proof (intro does_guard does_read reads_rules, goal_cases)
  case (1 u h1 d)
  then have "d = no_decision" by (cases "qa_operation a") auto
  then show ?case by (simp add: does_no_outputs)
qed

lemma check_operation_line:
  "check_operation g a line h = (Inr u, h') \<Longrightarrow> (qa_operation a = Auto \<longrightarrow> line = Main_Line) \<and>
     (qa_operation a = Release \<longrightarrow> line \<noteq> Main_Line)"
  unfolding check_operation_def by (auto split: if_splits)

text \<open>
  C24: qualification writes nothing to GitHub, and lets the workflow publish or finalize only a
  reviewed release. Whatever GitHub, crates.io and the checkouts answer, the only effects of a
  qualification run are lines of the workflow's output, and the output that enables publication
  or finalization is written only after: the operation, its line and its event fit; policy and
  source are separate exact checkouts whose manifests agree with the compiled policy; the commit
  is the verified merge of the one canonical release pull request, with its reviewed and signed
  commit, the same tree, and release files only; the registry was read for every package, each
  published one from exactly this commit; the decision for that state of the registry allows it;
  and, with nothing but outputs since, the binding to protected main and the base was verified.
\<close>

theorem qualification_only_authorises_reviewed_releases:
  "sends g (qualify_ok x root a) h (snd (qualify x g root a h))"
proof -
  have out: "qualify_ok x root a hist (Append name w)" if "name \<in> {''base_ref'', ''operation''}" for hist name w
    using that by (auto simp: qualify_ok_def)
  have "does g (qualify_ok x root a) h (qualify x g root a)"
    unfolding qualify_def Let_def
  proof (intro does_guard does_refuse does_read [OF reads_policy(2)] does_read [OF reads_binding]
      does_read [OF reads_check_operation], goal_cases)
    case (1 line u main h1 u1 u2 version u3 u4 b u5 h2 u6 h3 u7)
    have lines: "(qa_operation a = Auto \<longrightarrow> line = Main_Line) \<and> (qa_operation a = Release \<longrightarrow> line \<noteq> Main_Line)"
      using check_operation_line 1 by blast
    have q: "release_args_ok x root a line main version b" if "qa_operation a \<noteq> Validate"
      unfolding release_args_ok_def using 1 lines that by simp
    show ?case
    proof (intro does_try does_append out, simp, simp, goal_cases)
      case (1 u8 h4 u9 h5)
      show ?case
      proof (cases "qa_operation a = Validate")
        case True
        then show ?thesis
          by (simp, intro does_guard does_read reads_rules) (rule does_no_outputs)
      next
        case False
        show ?thesis
          unfolding if_not_P [OF False]
        proof (rule does_read [OF reads_classify])
          fix release h6 assume run: "classify_release_pull_request x g (qa_source_sha a) version line h5 = (Inr release, h6)"
          show "does g (qualify_ok x root a) h6
              (if release then qualify_release x g a version line b else qualify_ordinary x g a version)"
          proof (cases release)
            case True
            then have "release_reviewed x (qa_source_sha a) version line (set h6)" using classify_reviewed run by simp
            then show ?thesis using True does_qualify_release [OF q [OF False]] by simp
          qed (simp add: does_qualify_ordinary)
        qed
      qed
    qed
  qed
  then show ?thesis unfolding does_def .
qed

end
