(* ===== verification/Github_Rules.thy ===== *)
theory Github_Rules
  imports Github_Release Release_Policy_Facts
begin

text \<open>
  What the rules of the release commands decide: which states of the registry allow what, when
  an archive counts as packaged from a commit, in which order a workspace is published, which
  selected versions advance, and what the history of a support source guarantees.
\<close>

section \<open>Decisions\<close>

lemma published_prefix_missing: "published_prefix True states \<longleftrightarrow> states = replicate (length states) False"
  by (induction states) auto

lemma published_prefix_iff:
  "published_prefix False states \<longleftrightarrow> (\<exists>k m. states = replicate k True @ replicate m False)"
proof (induction states)
  case (Cons s states)
  show ?case
  proof (cases s)
    case True
    have "(\<exists>k m. s # states = replicate k True @ replicate m False) \<longleftrightarrow>
        (\<exists>k m. states = replicate k True @ replicate m False)" (is "?l \<longleftrightarrow> ?r")
    proof
      assume ?l
      then obtain k m where km: "s # states = replicate k True @ replicate m False" by blast
      then obtain k' where "k = Suc k'" using True by (cases k; cases m) auto
      then show ?r using km by auto
    next
      assume ?r
      then obtain k m where "states = replicate k True @ replicate m False" by blast
      then have "s # states = replicate (Suc k) True @ replicate m False" using True by simp
      then show ?l by blast
    qed
    then show ?thesis using Cons.IH True by simp
  next
    case False
    have "(\<exists>k m. s # states = replicate k True @ replicate m False) \<longleftrightarrow> states = replicate (length states) False"
    proof
      assume "\<exists>k m. s # states = replicate k True @ replicate m False"
      then obtain k m where km: "s # states = replicate k True @ replicate m False" by blast
      then have "k = 0" using False by (cases k) auto
      then obtain m' where "m = Suc m'" using km by (cases m) auto
      then show "states = replicate (length states) False" using km \<open>k = 0\<close> by simp
    next
      assume "states = replicate (length states) False"
      then have "s # states = replicate 0 True @ replicate (Suc (length states)) False" using False by simp
      then show "\<exists>k m. s # states = replicate k True @ replicate m False" by blast
    qed
    then show ?thesis using False by (simp add: published_prefix_missing)
  qed
qed auto

lemma count_prefix [simp]: "length (filter id (replicate k True @ replicate m False)) = k"
  by simp

lemma family_nonempty [simp]: "rp_packages (for_version version) \<noteq> []"
  by (simp add: for_version_def RUST_POLICY_def ALL_PACKAGES_def)

text \<open>The decision table: by how many of the packages, in dependency order, are published.\<close>

fun decision_table :: "operation \<Rightarrow> nat \<Rightarrow> nat \<Rightarrow> decision option" where
  "decision_table Validate n k = Some no_decision"
| "decision_table Auto n k =
     (if k = 0 then Some \<lparr>dc_publish = True, dc_finalize = True\<rparr> else if k = n then Some no_decision else None)"
| "decision_table Release n k = (if k = 0 then Some \<lparr>dc_publish = True, dc_finalize = True\<rparr> else None)"
| "decision_table Recover n k = (if k = 0 then None else Some \<lparr>dc_publish = (k \<noteq> n), dc_finalize = True\<rparr>)"

lemma decide_table:
  assumes "length states = length (rp_packages (for_version version))" "operation \<noteq> Validate"
  shows "decide operation states version = Inr d \<longleftrightarrow>
    (\<exists>k m. states = replicate k True @ replicate m False \<and> decision_table operation (length states) k = Some d)"
proof (cases "published_prefix False states")
  case True
  then obtain k m where km: "states = replicate k True @ replicate m False" using published_prefix_iff by blast
  then have count: "length (filter id states) = k" "length states = k + m" by simp_all
  have unique: "k' = k" if "states = replicate k' True @ replicate m' False" for k' m'
    using count(1) that by simp
  have "length states \<noteq> 0" using assms(1) by simp
  then have pos: "k + m \<noteq> 0" using count(2) by simp
  have "decide operation states version = Inr d \<longleftrightarrow> decision_table operation (length states) k = Some d"
    using assms True pos count by (cases operation) (simp_all add: decide_def Let_def)
  then show ?thesis using km unique by blast
next
  case False
  then show ?thesis
    using assms published_prefix_iff [of states] by (simp add: decide_def)
qed

text \<open>
  What the state of the registry allows. A decision is reached exactly when the states cover
  the family and either the run only confirms, and everything is published; or it only validates;
  or the published packages are the first k of the dependency order and the table allows it: a
  fresh release needs k = 0, an automatic run also accepts that all are there and then does
  nothing, and a recovery needs k > 0, publishing what is missing. Only a run in which no package
  of a fresh release, or some but not all of a recovery, is published may publish.
\<close>

theorem registry_decision_correct:
  "registry_decision operation states confirmation version = Inr d \<longleftrightarrow>
     length states = length (rp_packages (for_version version)) \<and>
     (if confirmation then states = replicate (length states) True \<and> d = no_decision
      else if operation = Validate then d = no_decision
      else \<exists>k m. states = replicate k True @ replicate m False \<and>
             decision_table operation (length states) k = Some d)"
proof -
  have all: "list_all id states \<longleftrightarrow> states = replicate (length states) True"
    by (induction states) auto
  show ?thesis
  proof (cases "length states = length (rp_packages (for_version version))")
    case True
    show ?thesis
    proof (cases confirmation)
      case c: False
      then show ?thesis
      proof (cases "operation = Validate")
        case False
        then show ?thesis using decide_table [OF True False] True c by (simp add: registry_decision_def)
      qed (use True in \<open>auto simp: registry_decision_def decide_def\<close>)
    qed (use True in \<open>auto simp: registry_decision_def all\<close>)
  qed (simp add: registry_decision_def decide_def)
qed

section \<open>Waiting for the registry\<close>

text \<open>The reads of the registry one after the other, each against the history the last one left.\<close>

fun poll :: "'z registry_ext_scheme \<Rightarrow> github \<Rightarrow> string \<Rightarrow> version \<Rightarrow> nat \<Rightarrow> bool list io" where
  "poll x g source_sha version 0 h = registry_states x g source_sha version h"
| "poll x g source_sha version (Suc k) h = poll x g source_sha version k (snd (registry_states x g source_sha version h))"

definition incomplete :: "(release_error + bool list) \<times> history \<Rightarrow> bool" where
  "incomplete r \<longleftrightarrow> (case fst r of Inr states \<Rightarrow> \<not> list_all id states | Inl _ \<Rightarrow> False)"

lemma wait_attempts_iff: "wait_attempts x g n source_sha version h = (Inr states, h') \<longleftrightarrow>
    (\<exists>k. k < n \<and> list_all (\<lambda>j. incomplete (poll x g source_sha version j h)) [0..<k] \<and>
       poll x g source_sha version k h = (Inr states, h') \<and> list_all id states)"
proof (induction n arbitrary: h)
  case (Suc n)
  let ?poll = "poll x g source_sha version"
  have split: "(\<exists>k. P k) \<longleftrightarrow> P 0 \<or> (\<exists>k. P (Suc k))" for P :: "nat \<Rightarrow> bool"
    by (metis nat.exhaust)
  have shift: "list_all Q [0..<Suc k] \<longleftrightarrow> Q 0 \<and> list_all (\<lambda>j. Q (Suc j)) [0..<k]" for Q and k :: nat
    by (simp add: upt_conv_Cons map_Suc_upt [symmetric] list.pred_map o_def del: upt_Suc)
  obtain r h1 where read: "registry_states x g source_sha version h = (r, h1)" by fastforce
  show ?case
  proof (cases r)
    case (Inl e)
    have none: "\<not> list_all (\<lambda>j. incomplete (?poll j h)) [0..<Suc k]" for k
      unfolding shift using read Inl by (simp add: incomplete_def)
    show ?thesis using read Inl none by (subst split) (simp add: io_try_def del: upt_Suc)
  next
    case (Inr now)
    show ?thesis
    proof (cases "list_all id now")
      case True
      have none: "\<not> list_all (\<lambda>j. incomplete (?poll j h)) [0..<Suc k]" for k
        unfolding shift using read Inr True by (simp add: incomplete_def)
      show ?thesis using read Inr True none by (subst split) (auto simp: io_try_def io_lift_def simp del: upt_Suc)
    next
      case False
      then have "wait_attempts x g (Suc n) source_sha version h = wait_attempts x g n source_sha version h1"
        using read Inr by (simp add: io_try_def)
      moreover have "list_all (\<lambda>j. incomplete (?poll j h)) [0..<Suc k] \<longleftrightarrow>
          list_all (\<lambda>j. incomplete (?poll j h1)) [0..<k]" for k
        unfolding shift using read Inr False by (simp add: incomplete_def)
      ultimately show ?thesis using read Inr False by (subst split) (auto simp: Suc.IH id_def simp del: upt_Suc wait_attempts.simps)
    qed
  qed
qed (simp add: io_lift_def)

text \<open>
  C33: waiting for the registry ends as soon as everything is there. The wait returns the states
  of the first of its 40 reads in which every package is published, provided each read before it
  succeeded with some package missing, and reads nothing afterwards; in every other case it
  returns an error, so it never returns an incomplete state and never runs on.
\<close>

theorem wait_for_registry_returns:
  "wait_for_registry x g source_sha version h = (Inr states, h') \<longleftrightarrow>
     (\<exists>k. k < 40 \<and> list_all (\<lambda>j. incomplete (poll x g source_sha version j h)) [0..<k] \<and>
        poll x g source_sha version k h = (Inr states, h') \<and> list_all id states)"
  unfolding wait_for_registry_def by (rule wait_attempts_iff)

section \<open>Archives\<close>

lemma accumulate_iff: "accumulate_archive_work n b s = Inr (n', b') \<longleftrightarrow>
    n' = n + 1 \<and> b' = b + s \<and> n + 1 \<le> MAX_CRATE_ARCHIVE_ENTRIES \<and> b + s \<le> MAX_CRATE_UNPACKED_BYTES"
  unfolding accumulate_archive_work_def
  by (auto simp: result_simps checked_u64_def MAX_CRATE_ARCHIVE_ENTRIES_def MAX_CRATE_UNPACKED_BYTES_def)

text \<open>Entries that can be read, within the bounds on their number and on their size together.\<close>

definition readable :: "archive_entry option list \<Rightarrow> archive_entry list \<Rightarrow> bool" where
  "readable entries es \<longleftrightarrow> entries = map Some es \<and> list_all (\<lambda>e. ae_path e \<noteq> None) es"

definition within_bounds :: "nat \<Rightarrow> nat \<Rightarrow> archive_entry list \<Rightarrow> bool" where
  "within_bounds n b es \<longleftrightarrow>
     n + length es \<le> MAX_CRATE_ARCHIVE_ENTRIES \<and> b + sum_list (map ae_size es) \<le> MAX_CRATE_UNPACKED_BYTES"

text \<open>What the search finds: nothing new, or the one entry of the path where none was found before.\<close>

definition outcome :: "string \<Rightarrow> string option \<Rightarrow> archive_entry list \<Rightarrow> string option \<Rightarrow> bool" where
  "outcome p found es r \<longleftrightarrow>
     (case filter (\<lambda>e. ae_path e = Some p) es of
        [] \<Rightarrow> r = found
      | [e] \<Rightarrow> found = None \<and> ae_is_file e \<and> ae_size e \<le> VCS_INFO_LIMIT \<and> r = ae_content e \<and> r \<noteq> None
      | _ \<Rightarrow> False)"

lemma readable_Cons: "readable (entry # entries) es \<longleftrightarrow>
    (\<exists>e es'. entry = Some e \<and> es = e # es' \<and> ae_path e \<noteq> None \<and> readable entries es')"
  by (cases es) (auto simp: readable_def)

lemma within_Cons: "within_bounds n b (e # es) \<longleftrightarrow> within_bounds (n + 1) (b + ae_size e) es"
  by (simp add: within_bounds_def add.assoc)

lemma withinD: "within_bounds n b es \<Longrightarrow> n \<le> MAX_CRATE_ARCHIVE_ENTRIES" "within_bounds n b es \<Longrightarrow> b \<le> MAX_CRATE_UNPACKED_BYTES"
  by (simp_all add: within_bounds_def)

lemma outcome_found: "outcome p (Some bytes) es r \<longleftrightarrow> filter (\<lambda>e. ae_path e = Some p) es = [] \<and> r = Some bytes"
  by (auto simp: outcome_def split: list.splits)

lemma outcome_unique: "outcome p None es (Some bytes) \<longleftrightarrow>
    (\<exists>e. filter (\<lambda>e. ae_path e = Some p) es = [e] \<and> ae_is_file e \<and> ae_size e \<le> VCS_INFO_LIMIT \<and>
       ae_content e = Some bytes)"
  unfolding outcome_def
  by (cases "filter (\<lambda>e. ae_path e = Some p) es"; cases "tl (filter (\<lambda>e. ae_path e = Some p) es)") auto

lemma outcome_Cons: "outcome p found (e # es) r \<longleftrightarrow>
    (if ae_path e \<noteq> Some p then outcome p found es r
     else found = None \<and> ae_is_file e \<and> ae_size e \<le> VCS_INFO_LIMIT \<and>
       (\<exists>bytes. ae_content e = Some bytes \<and> outcome p (Some bytes) es r))"
  unfolding outcome_found by (auto simp: outcome_def split: list.splits)

lemma find_step: "find_vcs_info name p n b found (entry # entries) = Inr r \<longleftrightarrow>
    (\<exists>e. entry = Some e \<and> ae_path e \<noteq> None \<and> n + 1 \<le> MAX_CRATE_ARCHIVE_ENTRIES \<and>
       b + ae_size e \<le> MAX_CRATE_UNPACKED_BYTES \<and>
       (if ae_path e \<noteq> Some p then find_vcs_info name p (n + 1) (b + ae_size e) found entries = Inr r
        else found = None \<and> ae_is_file e \<and> ae_size e \<le> VCS_INFO_LIMIT \<and>
          (\<exists>bytes. ae_content e = Some bytes \<and>
             find_vcs_info name p (n + 1) (b + ae_size e) (Some bytes) entries = Inr r)))"
proof (cases entry)
  case (Some e)
  show ?thesis
  proof (cases "ae_path e")
    case None
    then show ?thesis using Some by (auto simp: result_simps)
  next
    case path: (Some path)
    then show ?thesis
      using Some by (cases "path = p") (auto simp: result_simps accumulate_iff)
  qed
qed (auto simp: result_simps)

lemma find_vcs_info_iff:
  "n \<le> MAX_CRATE_ARCHIVE_ENTRIES \<Longrightarrow> b \<le> MAX_CRATE_UNPACKED_BYTES \<Longrightarrow>
   find_vcs_info name p n b found entries = Inr r \<longleftrightarrow>
     (\<exists>es. readable entries es \<and> within_bounds n b es \<and> outcome p found es r)"
proof (induction entries arbitrary: n b found)
  case Nil
  then show ?case by (auto simp: readable_def within_bounds_def outcome_def)
next
  case (Cons entry entries)
  show ?case
  proof (cases entry)
    case (Some e)
    let ?n = "n + 1" and ?b = "b + ae_size e"
    have ih: "?n \<le> MAX_CRATE_ARCHIVE_ENTRIES \<and> ?b \<le> MAX_CRATE_UNPACKED_BYTES \<and>
        find_vcs_info name p ?n ?b found' entries = Inr r \<longleftrightarrow>
        (\<exists>es. readable entries es \<and> within_bounds ?n ?b es \<and> outcome p found' es r)" for found'
      using Cons.IH [of ?n ?b found'] withinD [of ?n ?b] by blast
    have right: "(\<exists>es. readable (entry # entries) es \<and> within_bounds n b es \<and> outcome p found es r) \<longleftrightarrow>
        ae_path e \<noteq> None \<and> (\<exists>es. readable entries es \<and> within_bounds ?n ?b es \<and> outcome p found (e # es) r)"
      unfolding readable_Cons Some using within_Cons by blast
    have left: "find_vcs_info name p n b found (entry # entries) = Inr r \<longleftrightarrow>
        ae_path e \<noteq> None \<and> ?n \<le> MAX_CRATE_ARCHIVE_ENTRIES \<and> ?b \<le> MAX_CRATE_UNPACKED_BYTES \<and>
        (if ae_path e \<noteq> Some p then find_vcs_info name p ?n ?b found entries = Inr r
         else found = None \<and> ae_is_file e \<and> ae_size e \<le> VCS_INFO_LIMIT \<and>
           (\<exists>bytes. ae_content e = Some bytes \<and> find_vcs_info name p ?n ?b (Some bytes) entries = Inr r))"
      unfolding find_step Some by simp
    show ?thesis
    proof (cases "ae_path e = Some p")
      case True
      show ?thesis
      proof (cases "ae_content e")
        case None
        then show ?thesis unfolding right left outcome_Cons using True by simp
      next
        case (Some bytes)
        note ih_some = ih [of "Some bytes"]
        have "(\<exists>es. readable entries es \<and> within_bounds ?n ?b es \<and> outcome p found (e # es) r) \<longleftrightarrow>
            found = None \<and> ae_is_file e \<and> ae_size e \<le> VCS_INFO_LIMIT \<and>
            (\<exists>es. readable entries es \<and> within_bounds ?n ?b es \<and> outcome p (Some bytes) es r)"
          unfolding outcome_Cons using True Some by auto
        then show ?thesis unfolding right left ih_some [symmetric] using True Some by auto
      qed
    next
      case False
      then show ?thesis unfolding right left outcome_Cons using ih [of found] by (simp only: not_False_eq_True if_True)
    qed
  qed (simp add: readable_Cons)
qed

text \<open>
  C25: when a published archive counts as packaged from a commit. It is accepted exactly when its
  SHA-256 is the record's checksum, every entry can be read, at most 4096 entries with at most
  64 MiB together, exactly one of them has the path of the package's version control record, that
  one is a regular file of at most 64 KiB, and the record says the commit, a clean tree and the
  package's directory. A second such entry, wherever it is, refuses the archive.
\<close>

theorem verify_published_archive_correct:
  "verify_published_archive x package version source_sha r archive = Inr () \<longleftrightarrow>
     is_sha source_sha \<and> sha256_hex x archive = rr_checksum r \<and>
     (\<exists>entries es e bytes vcs.
        crate_entries x archive = Some entries \<and> readable entries es \<and> length es \<le> 4096 \<and>
        sum_list (map ae_size es) \<le> 67108864 \<and>
        filter (\<lambda>e. ae_path e =
          Some (pp_package package @ ''-'' @ version_to_string x version @ ''/.cargo_vcs_info.json'')) es = [e] \<and>
        ae_is_file e \<and> ae_size e \<le> 65536 \<and> ae_content e = Some bytes \<and> vcs_parse x bytes = Some vcs \<and>
        vi_sha1 vcs = source_sha \<and> \<not> vi_dirty vcs \<and> vi_path_in_vcs vcs = Some (pp_path_in_vcs package))"
proof -
  have sha: "require_sha s label = Inr () \<longleftrightarrow> is_sha s" for s label
    by (simp add: require_sha_def is_sha_def)
  let ?p = "pp_package package @ ''-'' @ version_to_string x version @ ''/.cargo_vcs_info.json''"
  have found: "find_vcs_info name ?p 0 0 None entries = Inr (Some bytes) \<longleftrightarrow>
      (\<exists>es e. readable entries es \<and> length es \<le> 4096 \<and> sum_list (map ae_size es) \<le> 67108864 \<and>
         filter (\<lambda>e. ae_path e = Some ?p) es = [e] \<and> ae_is_file e \<and> ae_size e \<le> 65536 \<and> ae_content e = Some bytes)"
    for name entries bytes
  proof -
    have "VCS_INFO_LIMIT = 65536" "within_bounds 0 0 es \<longleftrightarrow> length es \<le> 4096 \<and> sum_list (map ae_size es) \<le> 67108864"
      for es
      by (simp_all add: VCS_INFO_LIMIT_def within_bounds_def MAX_CRATE_ARCHIVE_ENTRIES_def MAX_CRATE_UNPACKED_BYTES_def)
    then show ?thesis unfolding find_vcs_info_iff [OF le0 le0] outcome_unique by auto
  qed
  have "verify_published_archive x package version source_sha r archive = Inr () \<longleftrightarrow>
      is_sha source_sha \<and> sha256_hex x archive = rr_checksum r \<and>
      (\<exists>entries bytes vcs. crate_entries x archive = Some entries \<and>
         find_vcs_info (pp_package package @ '' '' @ version_to_string x version) ?p 0 0 None entries = Inr (Some bytes) \<and>
         vcs_parse x bytes = Some vcs \<and>
         vi_sha1 vcs = source_sha \<and> \<not> vi_dirty vcs \<and> vi_path_in_vcs vcs = Some (pp_path_in_vcs package))"
    unfolding verify_published_archive_def Let_def
    by (auto simp: result_simps sha)
  then show ?thesis unfolding found by blast
qed

section \<open>The order of a workspace\<close>

lemma order_packages_names:
  "order_packages found policies = Inr ordered \<Longrightarrow> list_all (\<lambda>(name, package). cp_name package = name) found \<Longrightarrow>
   map cp_name ordered = map pp_package policies \<and> list_all (\<lambda>package. package \<in> snd ` set found) ordered"
proof (induction policies arbitrary: found ordered)
  case (Cons policy policies)
  let ?rest = "filter (\<lambda>(name, _). name \<noteq> pp_package policy) found"
  obtain package ordered' where p: "map_of found (pp_package policy) = Some package"
    and o: "order_packages ?rest policies = Inr ordered'" and ordered: "ordered = package # ordered'"
    using Cons.prems(1) by (auto simp: result_simps)
  have "list_all (\<lambda>(name, package). cp_name package = name) ?rest" using Cons.prems(2) by (auto simp: list_all_iff)
  note ih = Cons.IH [OF o this]
  have "(pp_package policy, package) \<in> set found" using p by (rule map_of_SomeD)
  then have "cp_name package = pp_package policy" "package \<in> snd ` set found"
    using Cons.prems(2) by (auto simp: list_all_iff intro: rev_image_eqI)
  then show ?case using ih unfolding ordered by (auto simp: list_all_iff)
qed simp

lemma packages_by_name_found:
  "packages_by_name expected found packages = Inr r \<Longrightarrow> list_all (\<lambda>(name, package). cp_name package = name) found \<Longrightarrow>
   list_all (\<lambda>(name, package). cp_name package = name) r \<and> snd ` set r \<subseteq> snd ` set found \<union> set packages"
proof (induction packages arbitrary: found)
  case (Cons package packages)
  have "packages_by_name expected found packages = Inr r \<or>
      packages_by_name expected (found @ [(cp_name package, package)]) packages = Inr r"
    using Cons.prems(1) by (auto simp: result_simps split: if_splits)
  then show ?case
  proof
    assume "packages_by_name expected found packages = Inr r"
    then show ?thesis using Cons.IH [OF _ Cons.prems(2)] by auto
  next
    let ?found = "found @ [(cp_name package, package)]"
    assume "packages_by_name expected ?found packages = Inr r"
    moreover have "list_all (\<lambda>(name, package). cp_name package = name) ?found" using Cons.prems(2) by simp
    ultimately show ?thesis using Cons.IH [of ?found] by auto
  qed
qed simp

lemma ordered_names:
  assumes "ordered_publishable_packages metadata expected = Inr ordered"
  shows "map cp_name ordered = map pp_package (rp_packages (for_version expected)) \<and>
    list_all (\<lambda>package. package \<in> set (md_packages metadata)) ordered"
proof -
  obtain found where "packages_by_name expected [] (md_packages metadata) = Inr found"
    and o: "order_packages found (rp_packages (for_version expected)) = Inr ordered"
    using assms unfolding ordered_publishable_packages_def by (auto simp: result_simps)
  then have f: "list_all (\<lambda>(name, package). cp_name package = name) found"
    and "snd ` set found \<subseteq> set (md_packages metadata)"
    using packages_by_name_found [of expected "[]"] by auto
  then show ?thesis using order_packages_names [OF o f] by (auto simp: list_all_iff)
qed

lemma family_index_iff:
  "distinct (map pp_package policies) \<Longrightarrow>
   family_index policies name = Some (j, policy) \<longleftrightarrow> j < length policies \<and> policies ! j = policy \<and> pp_package policy = name"
proof (induction policies arbitrary: j)
  case (Cons p policies)
  show ?case
  proof (cases "pp_package p = name")
    case True
    then have "pp_package (policies ! i) \<noteq> name" if "i < length policies" for i
      using Cons.prems imageI [OF nth_mem [OF that], of pp_package] by auto
    then show ?thesis using True by (cases j) auto
  next
    case False
    then show ?thesis using Cons by (cases j) auto
  qed
qed simp

lemma family_distinct: "distinct (map pp_package (rp_packages (for_version version)))"
  by (simp add: for_version_def RUST_POLICY_def ALL_PACKAGES_def)

lemma validate_dependencies_all:
  "validate_dependencies x root canonical expected i name ds = Inr () \<longleftrightarrow>
   (\<forall>d\<in>set ds. validate_dependency x root canonical expected i name d = Inr ())"
  by (induction ds) (auto simp: result_simps)

lemma validate_internal_nth:
  "validate_internal_from x root canonical expected k packages = Inr () \<Longrightarrow> i < length packages \<Longrightarrow> d \<in> set (cp_dependencies (packages ! i)) \<Longrightarrow>
   validate_dependency x root canonical expected (k + i) (cp_name (packages ! i)) d = Inr ()"
proof (induction packages arbitrary: k i)
  case (Cons package packages)
  then have rest: "validate_internal_from x root canonical expected (k + 1) packages = Inr ()"
    and here: "\<forall>d\<in>set (cp_dependencies package). validate_dependency x root canonical expected k (cp_name package) d = Inr ()"
    by (auto simp: Let_def result_simps validate_dependencies_all split: if_splits)
  show ?case
  proof (cases i)
    case 0
    then show ?thesis using here Cons.prems(3) by simp
  next
    case (Suc i')
    then show ?thesis using Cons.IH [OF rest, of i'] Cons.prems(2,3) by simp
  qed
qed simp

lemma validate_packages_nth:
  "validate_packages x root packages policies expected = Inr () \<Longrightarrow> i < length packages \<Longrightarrow> i < length policies \<Longrightarrow>
   validate_package x root (packages ! i) (policies ! i) expected = Inr ()"
proof (induction packages policies arbitrary: i rule: list_induct2')
  case (4 package packages policy policies)
  then show ?case by (cases i) (auto simp: result_simps)
qed simp_all

text \<open>
  C32: a validated workspace can be published in its order. When the metadata of a checkout is
  accepted, the packages to publish are local packages of the metadata, one for each name of the
  version's family and in the family's order; each has the version and its own manifest path; and
  each of its dependencies that is in the family comes earlier in the order, is a local path into
  the workspace under its own name, and requires exactly the version that is published.
\<close>

theorem validated_workspace_is_ordered:
  assumes "validate_metadata x root metadata expected resolve_traits = Inr ()"
  shows "\<exists>packages directory canonical.
    map cp_name packages = map pp_package (rp_packages (for_version expected)) \<and>
    (\<forall>package\<in>set packages. package \<in> set (md_packages metadata) \<and> cp_version package = expected) \<and>
    canonicalize x root = Inr directory \<and> req_parse x (version_to_string x expected) = Some canonical \<and>
    (\<forall>i<length packages. cp_manifest_path (packages ! i) =
       join_path directory (pp_path_in_vcs (rp_packages (for_version expected) ! i)) @ [''Cargo.toml'']) \<and>
    (\<forall>i<length packages. \<forall>d\<in>set (cp_dependencies (packages ! i)). \<forall>j<length packages.
       dp_name d = cp_name (packages ! j) \<longrightarrow>
       j < i \<and> dp_source d = None \<and> dp_rename d = None \<and> dp_req d = canonical \<and>
       dp_path d = Some (join_path directory (pp_path_in_vcs (rp_packages (for_version expected) ! j))))"
proof -
  let ?family = "rp_packages (for_version expected)"
  obtain directory packages where dir: "canonicalize x root = Inr directory"
    and ordered: "ordered_publishable_packages metadata expected = Inr packages"
    and valid: "validate_packages x directory packages ?family expected = Inr ()"
    and internal: "validate_internal_dependencies x directory packages expected = Inr ()"
    using assms unfolding validate_metadata_def by (auto simp: result_simps split: if_splits)
  obtain canonical where req: "req_parse x (version_to_string x expected) = Some canonical"
    and deps: "validate_internal_from x directory canonical expected 0 packages = Inr ()"
    using internal unfolding validate_internal_dependencies_def by (auto simp: result_simps)
  have names: "map cp_name packages = map pp_package ?family"
    and local: "list_all (\<lambda>package. package \<in> set (md_packages metadata)) packages"
    using ordered_names [OF ordered] by auto
  have len: "length packages = length ?family" using arg_cong [OF names, of length] by simp
  have name: "cp_name (packages ! j) = pp_package (?family ! j)" if "j < length packages" for j
    using arg_cong [OF names, of "\<lambda>l. l ! j"] that len by simp
  have package: "cp_version (packages ! i) = expected \<and>
      cp_manifest_path (packages ! i) = join_path directory (pp_path_in_vcs (?family ! i)) @ [''Cargo.toml'']"
    if "i < length packages" for i
    using validate_packages_nth [OF valid that] that len by (auto simp: validate_package_def Let_def split: if_splits)
  have dep: "j < i \<and> dp_source d = None \<and> dp_rename d = None \<and> dp_req d = canonical \<and>
      dp_path d = Some (join_path directory (pp_path_in_vcs (?family ! j)))"
    if i: "i < length packages" and d: "d \<in> set (cp_dependencies (packages ! i))" and j: "j < length packages"
      and n: "dp_name d = cp_name (packages ! j)" for i d j
  proof -
    have "family_index ?family (dp_name d) = Some (j, ?family ! j)"
      using family_index_iff [OF family_distinct] j len n name [OF j] by simp
    then show ?thesis
      using validate_internal_nth [OF deps i d] by (auto simp: validate_dependency_def result_simps split: if_splits)
  qed
  have "\<forall>package\<in>set packages. package \<in> set (md_packages metadata) \<and> cp_version package = expected"
    using local package by (auto simp: list_all_iff in_set_conv_nth)
  then show ?thesis using names dir req package dep by blast
qed

end
