(* ===== verification/Release_Rules.thy ===== *)
theory Release_Rules
  imports Github_Provenance Release_Policy_Facts
begin

text \<open>
  What the rules of \<open>release.rs\<close> and \<open>github/provenance.rs\<close> guarantee: a selected version advances,
  an inventory is a map with safe paths, and a support source carries the recorded policy files.
\<close>

section \<open>Selected versions\<close>

text \<open>A candidate's ordinal is written without leading zeros and without a sign, as \<open>semver\<close> has it.\<close>

definition canonical_candidate :: "version \<Rightarrow> bool" where
  "canonical_candidate v \<longleftrightarrow>
     (case Option.bind (strip_prefix ''rc.'' (v_pre v)) parse_u64 of
        Some n \<Rightarrow> v_pre v = ''rc.'' @ show_nat n
      | None \<Rightarrow> True)"

lemma next_rc_iff: "next_rc v = Some m \<longleftrightarrow>
    (\<exists>n. Option.bind (strip_prefix ''rc.'' (v_pre v)) parse_u64 = Some n \<and> 0 < n \<and> m = n + 1 \<and> m < 2 ^ 64)"
  unfolding next_rc_def checked_succ_u64_def by (cases "strip_prefix ''rc.'' (v_pre v)")
    (auto split: bind_split simp del: strip_prefix.simps)

lemma next_candidate_less:
  assumes "semver_ok x" "canonical_candidate original" "next_rc original = Some n"
    "v_pre selected = ''rc.'' @ show_nat n" "same_core original selected"
  shows "version_less x original selected"
proof -
  obtain m where m: "Option.bind (strip_prefix ''rc.'' (v_pre original)) parse_u64 = Some m" "n = m + 1"
    using assms(3) unfolding next_rc_iff by blast
  have pre: "v_pre original = ''rc.'' @ show_nat m"
    using assms(2) unfolding canonical_candidate_def m(1) option.case .
  show ?thesis
    by (rule semver_okD(6) [OF assms(1) _ _ _ pre assms(4)]) (use assms(5) m(2) in \<open>simp_all add: same_core_def\<close>)
qed

text \<open>
  A selected version always advances. Whatever release-plz derived, a version the maintainer
  selects is accepted only when it comes after the version before, and it has the derived
  version's core or is the first candidate of the next patch of an unchanged stable version.
\<close>

theorem selected_version_advances:
  assumes "semver_ok x" and "canonical_candidate original"
    and "require_exact_version_adjustment x original derived selected = Inr label"
  shows "version_less x original selected \<and>
    (same_core derived selected \<or>
     derived = original \<and> v_pre original = [] \<and> v_major selected = v_major original \<and>
     v_minor selected = v_minor original \<and> v_patch selected = v_patch original + 1 \<and> v_pre selected = ''rc.1'')"
proof -
  note d = semver_okD [OF assms(1)]
  consider (listed) "same_core derived selected" "version_less x original selected"
    | (candidate) n where "same_core derived selected" "derived = original" "next_rc original = Some n"
        "v_pre selected = ''rc.'' @ show_nat n"
    | (promotion) "same_core derived selected" "v_pre original \<noteq> []" "v_pre selected = []" "same_core original selected"
    | (patch) "derived = original" "v_pre original = []" "v_major selected = v_major original"
        "v_minor selected = v_minor original" "v_patch selected = v_patch original + 1" "v_pre selected = ''rc.1''"
    using assms(3) unfolding require_exact_version_adjustment_def Let_def
    by (auto simp: checked_succ_u64_def split: if_splits option.splits)
  then show ?thesis
  proof cases
    case candidate
    then show ?thesis using next_candidate_less [OF assms(1,2)] by blast
  next
    case promotion
    then show ?thesis using d(5) [of original selected] by (simp add: same_core_def)
  next
    case patch
    then show ?thesis using d(4) [of original selected] by simp
  qed blast
qed

section \<open>Inventories\<close>

lemma btree_insert_map: "map_of (btree_insert k v m) = (map_of m)(k \<mapsto> v)"
  by (induction k v m rule: btree_insert.induct) (auto simp: fun_eq_iff)

lemma btree_insert_keys: "fst ` set (btree_insert k v m) = insert k (fst ` set m)"
  by (induction k v m rule: btree_insert.induct) auto

lemma btree_insert_sorted: "sorted_wrt (<) (map fst m) \<Longrightarrow> sorted_wrt (<) (map fst (btree_insert k v m))"
proof (induction k v m rule: btree_insert.induct)
  case (2 k v k' v' rest)
  have "\<forall>p\<in>set (map fst (btree_insert k v rest)). k' < p" if "k' < k"
    using 2(2) that btree_insert_keys [of k v rest] by auto
  then show ?case using 2 by (auto simp: not_less_iff_gr_or_eq)
qed simp

lemma unique_blobs_sorted:
  "unique_blobs_from result entries = Inr r \<Longrightarrow> sorted_wrt (<) (map fst result) \<Longrightarrow> sorted_wrt (<) (map fst r)"
proof (induction entries arbitrary: result)
  case (Cons entry entries)
  obtain path sha where e: "entry = (path, sha)" by (cases entry)
  then have "unique_blobs_from (btree_insert path sha result) entries = Inr r"
    using Cons.prems(1) by (simp split: if_splits)
  then show ?case using Cons.IH btree_insert_sorted [OF Cons.prems(2)] by blast
qed simp

lemma check_blob_entries_iff: "check_blob_entries entries = Inr () \<longleftrightarrow>
    (\<forall>(path, sha)\<in>set entries. require_path path = Inr () \<and> is_sha sha)"
  by (induction entries rule: check_blob_entries.induct) (auto simp: result_simps)

lemma require_path_iff: "require_path path = Inr () \<longleftrightarrow>
    path \<noteq> [] \<and> \<not> starts_with path ''/'' \<and> \<not> starts_with path LINES_PATH \<and>
    set (split_on (CHR ''/'') path) \<inter> {[], ''.'', ''..''} = {} \<and>
    list_all (\<lambda>c. ascii_alphanumeric c \<or> c \<in> set ''-._/'') path"
proof -
  have guard: "(if c then Inl e else Inr ()) = Inr () \<longleftrightarrow> \<not> c" for c and e :: release_error by simp
  show ?thesis unfolding require_path_def guard list_ex_iff by blast
qed

text \<open>
  An inventory is a map of safe paths. An inventory that is read has between 1 and 256
  entries, in strictly increasing order of their paths, whatever order the file has them in; each
  path stays inside the repository, outside the directory of the inventories, in ASCII letters,
  digits, hyphens, dots, underscores and slashes; and each object name is a full one.
\<close>

theorem inventory_is_a_safe_map:
  assumes "read_inventory x root commit line = Inr inventory"
  shows "0 < length (iv_blobs inventory) \<and> length (iv_blobs inventory) \<le> 256 \<and>
    sorted_wrt (<) (map fst (iv_blobs inventory)) \<and> iv_base_ref inventory = base_ref line \<and> line \<noteq> Main_Line \<and>
    (\<forall>(path, sha)\<in>set (iv_blobs inventory). is_sha sha \<and> path \<noteq> [] \<and> \<not> starts_with path ''/'' \<and>
       \<not> starts_with path ''.github/support-lines/'' \<and> set (split_on (CHR ''/'') path) \<inter> {[], ''.'', ''..''} = {} \<and>
       list_all (\<lambda>c. ascii_alphanumeric c \<or> c \<in> set ''-._/'') path)"
proof -
  obtain raw blobs path where u: "unique_blobs (iv_blobs raw) = Inr blobs" and b: "blobs \<noteq> []" "length blobs \<le> 256"
    and entries: "check_blob_entries blobs = Inr ()" and i: "inventory = raw\<lparr>iv_blobs := blobs\<rparr>"
    and ref: "iv_base_ref raw = base_ref line" and p: "inventory_path line = Inr path"
    using assms unfolding read_inventory_def by (auto simp: result_simps split: if_splits)
  have "sorted_wrt (<) (map fst blobs)" using unique_blobs_sorted [of "[]"] u unfolding unique_blobs_def by simp
  moreover have "line \<noteq> Main_Line" using p by auto
  ultimately show ?thesis
    using b entries i ref unfolding check_blob_entries_iff require_path_iff LINES_PATH_def by auto
qed

section \<open>Support sources\<close>

lemma check_chain_iff: "check_chain x root source policy_commit blobs = Inr () \<longleftrightarrow>
    (\<forall>(path, sha)\<in>set blobs. blob x root source path = Inr sha \<and> blob x root policy_commit path = Inr sha)"
  by (induction blobs rule: check_chain.induct) (auto simp: result_simps)

lemma check_fresh_iff: "check_fresh_policy x root main blobs = Inr () \<longleftrightarrow>
    (\<forall>(path, sha)\<in>set blobs. blob x root main path = Inr sha)"
  by (induction blobs rule: check_fresh_policy.induct) (auto simp: result_simps)

lemma historical_chainD:
  assumes "historical_chain x root main source line recorded = Inr ()"
  shows "ancestor x root (iv_policy_commit recorded) main = Inr ()"
    "check_chain x root source (iv_policy_commit recorded) (iv_blobs recorded) = Inr ()"
  using assms unfolding historical_chain_def by (auto simp: result_simps split: if_splits)

text \<open>What the check of a support line establishes, whatever binding it is used for.\<close>

lemma support_anchor_done:
  assumes "support_anchor x root main source line operation = Inr anchor"
  shows "\<exists>active recorded.
    read_inventory x root main line = Inr active \<and> read_inventory x root source line = Inr recorded \<and>
    anchor = iv_anchor active \<and> iv_anchor recorded = iv_anchor active \<and>
    git x root [''merge-base'', source, main] = Inr (iv_anchor active) \<and>
    ancestor x root (iv_policy_commit recorded) main = Inr () \<and>
    (\<forall>(path, sha)\<in>set (iv_blobs recorded).
       blob x root source path = Inr sha \<and> blob x root (iv_policy_commit recorded) path = Inr sha) \<and>
    (operation = Fresh \<and> iv_enforce active \<longrightarrow>
       map fst (iv_blobs recorded) = map fst (iv_blobs active) \<and>
       (\<forall>(path, sha)\<in>set (iv_blobs recorded). blob x root main path = Inr sha))"
proof -
  obtain active recorded where r: "read_inventory x root main line = Inr active"
      "read_inventory x root source line = Inr recorded"
    and same: "iv_anchor active = iv_anchor recorded" "anchor = iv_anchor active"
    and fork: "git x root [''merge-base'', source, main] = Inr (iv_anchor active)"
    and chain: "historical_chain x root main source line recorded = Inr ()"
    and fresh: "operation = Fresh \<and> iv_enforce active \<longrightarrow>
      map fst (iv_blobs recorded) = map fst (iv_blobs active) \<and>
      check_fresh_policy x root main (iv_blobs recorded) = Inr ()"
    using assms unfolding support_anchor_def by (auto simp: result_simps split: if_splits)
  show ?thesis
    using r same fork fresh historical_chainD [OF chain] unfolding check_chain_iff check_fresh_iff by simp
qed

text \<open>
  C26: what binds a support source to main. When the binding of a support line succeeds, the
  source's inventory and main's name the same activation anchor, and that anchor is where the
  source's history leaves main's. Every file of the source's inventory has the recorded object
  both in the source and in the commit of main's history the inventory names. For a fresh release
  of a line whose policy is in force, the paths are those of main's inventory, and main has the
  same object at each.
\<close>

theorem support_binding_correct:
  assumes "binding_load x root main source (Support major minor) operation = Inr b"
  shows "bd_main b = main \<and> bd_source b = source \<and> bd_operation b = operation \<and>
    (\<exists>active recorded.
       read_inventory x root main (Support major minor) = Inr active \<and>
       read_inventory x root source (Support major minor) = Inr recorded \<and>
       bd_anchor b = Some (iv_anchor active) \<and> iv_anchor recorded = iv_anchor active \<and>
       git x root [''merge-base'', source, main] = Inr (iv_anchor active) \<and>
       ancestor x root (iv_policy_commit recorded) main = Inr () \<and>
       (\<forall>(path, sha)\<in>set (iv_blobs recorded).
          blob x root source path = Inr sha \<and> blob x root (iv_policy_commit recorded) path = Inr sha) \<and>
       (operation = Fresh \<and> iv_enforce active \<longrightarrow>
          map fst (iv_blobs recorded) = map fst (iv_blobs active) \<and>
          (\<forall>(path, sha)\<in>set (iv_blobs recorded). blob x root main path = Inr sha)))"
proof -
  obtain anchor where a: "support_anchor x root main source (Support major minor) operation = Inr anchor"
    and b: "b = \<lparr>bd_line = Support major minor, bd_operation = operation, bd_main = main, bd_source = source,
      bd_anchor = Some anchor\<rparr>"
    using assms unfolding binding_load_def by (auto simp: result_simps split: if_splits)
  show ?thesis using support_anchor_done [OF a] unfolding b by auto
qed

end
