(* ===== verification/Sample_Release.thy ===== *)
theory Sample_Release
  imports Sample_Github Github_Rules Release_Rules
begin

text \<open>
  A checkout of version 0.5.0 with its four packages, a history with one support line and its
  inventory, and the witnesses of the release rules.
\<close>

definition s_req :: version_req where
  "s_req = [\<lparr>cm_op = Op_Exact, cm_major = 0, cm_minor = Some 5, cm_patch = Some 0, cm_pre = []\<rparr>]"

definition s_dependency :: "string \<Rightarrow> cargo_dependency" where
  "s_dependency name = \<lparr>dp_name = name, dp_source = None, dp_req = s_req, dp_rename = None, dp_registry = None,
     dp_path = Some [''repo'', ''crates'', name]\<rparr>"

definition s_traits :: cargo_dependency where
  "s_traits = \<lparr>dp_name = TRAITS_PACKAGE, dp_source = Some CRATES_IO_SOURCE, dp_req = s_req, dp_rename = None,
     dp_registry = None, dp_path = None\<rparr>"

definition s_cargo_package :: "package_policy \<Rightarrow> cargo_package" where
  "s_cargo_package policy = \<lparr>cp_name = pp_package policy, cp_version = v050, cp_source = None, cp_publish = None,
     cp_manifest_path = [''repo'', ''crates'', pp_package policy, ''Cargo.toml''],
     cp_targets = [\<lparr>ct_kind = [TK_Lib], ct_crate_types = [CT_Lib]\<rparr>],
     cp_dependencies = map s_dependency (pp_internal_dependencies policy) @ [s_traits]\<rparr>"

definition s_metadata :: cargo_metadata where
  "s_metadata = \<lparr>md_workspace_root = ''/repo'', md_packages = map s_cargo_package (take 4 ALL_PACKAGES)\<rparr>"

definition s_inventory :: inventory where
  "s_inventory = \<lparr>iv_schema_version = 1, iv_base_ref = ''refs/heads/support/0.5'', iv_anchor = s_object,
     iv_policy_commit = s_main, iv_enforce = True, iv_blobs = [(''LICENSE'', s_object)]\<rparr>"

definition s_line_path :: string where "s_line_path = ''.github/support-lines/0.5.json''"

definition s_git :: "string \<Rightarrow> string list \<Rightarrow> release_error + string" where
  "s_git root args =
     (if hd args = ''merge-base'' then Inr (if args ! 1 = ''--is-ancestor'' then [] else s_object)
      else if hd args = ''show'' then Inr ''inventory''
      else if args ! 1 = ''-r'' then Inr s_line_path
      else Inr (''100644 blob '' @ s_object @ CHR 0x09 # last args))"

definition sample_source :: provenance_ext where
  "sample_source =
     \<lparr>version_parse = version_parse sample_release, version_to_string = version_to_string sample_release,
      version_less = version_less sample_release, git = s_git,
      registry_parse = (\<lambda>_. None), vcs_parse = (\<lambda>_. None), sha256_hex = (\<lambda>_. []), crate_entries = (\<lambda>_. None),
      env = (\<lambda>_. None), gh_version = Inr (), canonicalize = (\<lambda>_. Inr [''repo'']), git_output = s_git,
      open_file = (\<lambda>_ _. Inr []), toml_parse = (\<lambda>_. None), cargo_metadata_of = (\<lambda>_ _. Inr s_metadata),
      req_parse = (\<lambda>_. Some s_req), req_matches = (\<lambda>_ _. True), is_crates_io = (\<lambda>_. True),
      inventory_parse = (\<lambda>_. Some s_inventory)\<rparr>"

section \<open>The workspace\<close>

lemmas s_checkout_defs = s_metadata_def s_cargo_package_def s_dependency_def s_traits_def TRAITS_PACKAGE_def
  CRATES_IO_SOURCE_def WASM_PACKAGE_def ALL_PACKAGES_def

lemma s_family [simp]: "rp_packages (for_version v050) = take 4 ALL_PACKAGES"
  by (simp add: for_version_def v050_def RUST_POLICY_def)

lemma s_ordered: "ordered_publishable_packages s_metadata v050 = Inr (map s_cargo_package (take 4 ALL_PACKAGES))"
  by (simp add: ordered_publishable_packages_def s_checkout_defs)

lemma s_join: "join_path root (''crates/'' @ name) = root @ ''crates'' # filter (\<lambda>q. q \<noteq> []) (split_on (CHR ''/'') name)"
  by (simp add: join_path_def split_on_def)

lemma s_packages: "validate_packages sample_source [''repo''] (map s_cargo_package (take 4 ALL_PACKAGES)) (take 4 ALL_PACKAGES) v050 = Inr ()"
  by (simp add: s_checkout_defs validate_package_def library_target_def forbidden_kind_def expected_types_def join_path_def
      split_on_def)

lemma s_internal: "validate_internal_dependencies sample_source [''repo''] (map s_cargo_package (take 4 ALL_PACKAGES)) v050 = Inr ()"
  by (simp add: validate_internal_dependencies_def sample_source_def s_checkout_defs validate_dependency_def join_path_def split_on_def)

lemma s_declared: "validate_traits_declaration sample_source (map s_cargo_package (take 4 ALL_PACKAGES)) = Inr s_req"
  by (simp add: validate_traits_declaration_def s_checkout_defs sample_source_def patch_compatible_def s_req_def)

lemma s_root: "canonicalize sample_source p = Inr [''repo'']"
  by (simp add: sample_source_def)

lemma s_validated: "validate_metadata sample_source ''/repo'' s_metadata v050 False = Inr ()"
  using s_packages s_internal
  by (simp add: validate_metadata_def s_ordered s_declared s_root del: validate_packages.simps)

theorem validated_workspace_is_ordered_witness:
  "\<exists>packages :: cargo_package list. map cp_name packages =
       [''yaml-sigil-core'', ''yaml-sigil-transcription'', ''yaml-sigil-signing'', ''yaml-sigil-verification''] \<and>
     (\<forall>package\<in>set packages. cp_version package = v050)"
proof -
  have "\<exists>packages :: cargo_package list. map cp_name packages = map pp_package (take 4 ALL_PACKAGES) \<and>
      (\<forall>package\<in>set packages. cp_version package = v050)"
    using validated_workspace_is_ordered [OF s_validated] unfolding s_family
    by blast
  moreover have "map pp_package (take 4 ALL_PACKAGES) =
      [''yaml-sigil-core'', ''yaml-sigil-transcription'', ''yaml-sigil-signing'', ''yaml-sigil-verification'']"
    by (simp add: ALL_PACKAGES_def)
  ultimately show ?thesis by simp
qed

section \<open>Selected versions\<close>

theorem selected_version_advances_witness:
  "version_less sample_release v050 v051 \<and>
   require_exact_version_adjustment sample_release v050 v050 v051 =
     Inr ''started the next patch RC from unchanged stable package contents''"
proof -
  have "require_exact_version_adjustment sample_release v050 v050 v051 =
      Inr ''started the next patch RC from unchanged stable package contents''"
    by (simp add: require_exact_version_adjustment_def Let_def v050_def v051_def same_core_def next_rc_def checked_succ_u64_def)
  moreover from this have "version_less sample_release v050 v051"
    using selected_version_advances [OF sample_semver, of v050 v050 v051] by (simp add: canonical_candidate_def v050_def)
  ultimately show ?thesis by blast
qed

section \<open>The support line\<close>

lemma s_path: "inventory_path (Support 0 5) = Inr s_line_path" "base_ref (Support 0 5) = ''refs/heads/support/0.5''"
  "SEED_PATH \<noteq> s_line_path"
  by (code_simp)+

lemma s_blob: "blob sample_source root s_main ''LICENSE'' = Inr s_object" "blob sample_source root s_source ''LICENSE'' = Inr s_object"
  by (code_simp)+

lemma s_row: "starts_with (''100644 blob '' @ s_object @ CHR 0x09 # s_line_path) ''100644 blob ''"
  "ends_with (''100644 blob '' @ s_object @ CHR 0x09 # s_line_path) (CHR 0x09 # s_line_path)"
  "\<not> list_ex (\<lambda>c. c = CHR 0x0A) (''100644 blob '' @ s_object @ CHR 0x09 # s_line_path)"
  by (code_simp)+

lemma s_entries: "check_blob_entries [(''LICENSE'', s_object)] = Inr ()"
  by code_simp

lemma s_repository: "git sample_source = s_git" "inventory_parse sample_source = (\<lambda>_. Some s_inventory)"
  "c \<noteq> ''-r'' \<Longrightarrow> s_git root [''ls-tree'', c, ''--'', p] = Inr (''100644 blob '' @ s_object @ CHR 0x09 # p)"
  "s_git root [''show'', q] = Inr ''inventory''" "s_git root [''ls-tree'', ''-r'', n, c, ''--'', p] = Inr s_line_path"
  "s_git root [''merge-base'', ''--is-ancestor'', a, b] = Inr []"
  "a \<noteq> ''--is-ancestor'' \<Longrightarrow> s_git root [''merge-base'', a, b] = Inr s_object"
  by (simp_all add: sample_source_def s_git_def)

lemma s_read: "read_inventory sample_source root c (Support 0 5) = Inr s_inventory" if "c \<noteq> ''-r''"
  using s_row s_entries
  by (simp add: read_inventory_def s_path s_repository(1,2) s_repository(3) [OF that] s_repository(4) s_inventory_def
      unique_blobs_def del: inventory_path.simps base_ref.simps)

lemma s_names: "s_main \<noteq> ''-r''" "s_source \<noteq> ''-r''" "s_source \<noteq> ''--is-ancestor''"
  by (code_simp)+

theorem inventory_is_a_safe_map_witness:
  "sorted_wrt (<) (map fst (iv_blobs s_inventory)) \<and> read_inventory sample_source [] s_main (Support 0 5) = Inr s_inventory"
  using inventory_is_a_safe_map [OF s_read [OF s_names(1), of "[]"]] s_read [OF s_names(1)] by blast

definition s_support :: binding where
  "s_support = \<lparr>bd_line = Support 0 5, bd_operation = Fresh, bd_main = s_main, bd_source = s_source,
     bd_anchor = Some s_object\<rparr>"

lemma s_chain: "historical_chain sample_source root s_main s_source (Support 0 5) s_inventory = Inr ()"
  using s_read [OF s_names(1)]
  by (simp add: historical_chain_def s_path ancestor_def s_repository(1) s_repository(3) [OF s_names(1)] s_repository(6)
      s_inventory_def s_blob del: inventory_path.simps)

lemma s_load: "binding_load sample_source root s_main s_source (Support 0 5) Fresh = Inr s_support"
  using s_chain s_read [OF s_names(1)] s_read [OF s_names(2)]
  by (simp add: binding_load_def support_anchor_def s_path ancestor_def s_repository(1,5,6) s_repository(7) [OF s_names(3)]
      s_support_def s_inventory_def s_blob del: inventory_path.simps)

theorem support_binding_correct_witness:
  "\<exists>sha. blob sample_source [] s_source ''LICENSE'' = Inr sha \<and> blob sample_source [] s_main ''LICENSE'' = Inr sha"
  using support_binding_correct [OF s_load [of "[]"]] unfolding s_read [OF s_names(1)] s_read [OF s_names(2)]
  by (auto simp: s_inventory_def)

end
