(* ===== verification/Process.thy ===== *)
theory Process
  imports Release_Policy
begin

text \<open>
  Running a subprocess within bounds: \<open>xtask/src/bounded_process.rs\<close> on Linux. The operating system
  is a parameter, a record of operations on a state of its own; time is one of them. A loop whose
  end depends on the system is a partial function with the value None when it does not return.
\<close>

section \<open>Errors, commands and limits\<close>

datatype error_kind =
  Not_Found_Kind | Invalid_Input | Invalid_Data | Timed_Out | Would_Block | Write_Zero | Broken_Pipe | Other_Kind

datatype io_error = Io (kind_of: error_kind) (message_of: release_error)

record output_limits =
  ol_stdout :: nat
  ol_stderr :: nat

definition VALIDATION_OUTPUT_LIMITS :: output_limits where
  "VALIDATION_OUTPUT_LIMITS = \<lparr>ol_stdout = 4 * 1024 * 1024, ol_stderr = 64 * 1024\<rparr>"

definition MAX_INPUT_BYTES :: nat where "MAX_INPUT_BYTES = 4 * 1024 * 1024"

text \<open>Times are in milliseconds.\<close>

definition PIPE_CLOSE_GRACE :: nat where "PIPE_CLOSE_GRACE = 250"
definition POST_CANCEL_TIMEOUT :: nat where "POST_CANCEL_TIMEOUT = 2000"

text \<open>A command with the changes to its environment: None where a name is removed.\<close>

record process_command =
  pc_program :: string
  pc_args :: "string list"
  pc_envs :: "string \<Rightarrow> string option option"

record process_output =
  po_status :: int
  po_stdout :: string
  po_stderr :: string

datatype stream = Stdout | Stderr
datatype handle = Output_Pipe stream | Input_Pipe

fun stream_label :: "stream \<Rightarrow> string" where
  "stream_label Stdout = ''stdout''"
| "stream_label Stderr = ''stderr''"

fun stream_limit :: "stream \<Rightarrow> output_limits \<Rightarrow> nat" where
  "stream_limit Stdout limits = ol_stdout limits"
| "stream_limit Stderr limits = ol_stderr limits"

definition checked_sentinel :: "nat \<Rightarrow> nat option" where
  "checked_sentinel limit = (if limit + 1 < 2 ^ 64 then Some (limit + 1) else None)"

definition validate_limits :: "output_limits \<Rightarrow> string option \<Rightarrow> io_error + unit" where
  "validate_limits limits input =
     result_try (ok_or (checked_sentinel (ol_stdout limits)) (Io Invalid_Input (Msg ''invalid stdout limit''))) (\<lambda>_.
     result_try (ok_or (checked_sentinel (ol_stderr limits)) (Io Invalid_Input (Msg ''invalid stderr limit''))) (\<lambda>_.
     case input of
       Some bytes \<Rightarrow>
         if length bytes > MAX_INPUT_BYTES
         then Inl (Io Invalid_Input (Msg ''subprocess stdin exceeded its byte limit''))
         else Inr ()
     | None \<Rightarrow> Inr ()))"

definition require_within_limit :: "string \<Rightarrow> nat \<Rightarrow> string \<Rightarrow> io_error + unit" where
  "require_within_limit bytes limit label =
     (if length bytes > limit then Inl (Io Invalid_Data (Fmt ''{label} exceeded its {limit}-byte limit'' [label]))
      else Inr ())"

section \<open>The operating system\<close>

text \<open>
  What the crate calls for one child: starting it in a group of its own with its pipes, reading
  and writing without blocking, asking whether it has exited, the clock, pauses, and signals. A
  child is started at most once, so the operations need not name it. The last group is what the
  subreaper uses.
\<close>

record 'os os_ext =
  os_spawn :: "process_command \<Rightarrow> bool \<Rightarrow> 'os \<Rightarrow> (io_error + bool \<times> bool \<times> bool) \<times> 'os"
  os_nonblocking :: "handle \<Rightarrow> 'os \<Rightarrow> (io_error + unit) \<times> 'os"
  os_read :: "stream \<Rightarrow> nat \<Rightarrow> 'os \<Rightarrow> (io_error + string) \<times> 'os"
  os_write :: "string \<Rightarrow> 'os \<Rightarrow> (io_error + nat) \<times> 'os"
  os_try_wait :: "'os \<Rightarrow> (io_error + int option) \<times> 'os"
  os_now :: "'os \<Rightarrow> nat \<times> 'os"
  os_sleep :: "'os \<Rightarrow> 'os"
  os_kill_group :: "'os \<Rightarrow> 'os"
  os_kill_child :: "'os \<Rightarrow> 'os"
  os_lock :: "'os \<Rightarrow> (io_error + unit) \<times> 'os"
  os_subreaper :: "'os \<Rightarrow> (io_error + bool) \<times> 'os"
  os_set_subreaper :: "bool \<Rightarrow> 'os \<Rightarrow> (io_error + unit) \<times> 'os"
  os_pid :: "'os \<Rightarrow> int"
  os_proc_entries :: "'os \<Rightarrow> (io_error + (io_error + string option) list) \<times> 'os"
  os_proc_stat :: "string \<Rightarrow> 'os \<Rightarrow> (io_error + string) \<times> 'os"
  os_group :: "int option \<Rightarrow> 'os \<Rightarrow> (io_error + int) \<times> 'os"
  os_kill :: "int \<Rightarrow> 'os \<Rightarrow> 'os"
  os_reap :: "int \<Rightarrow> 'os \<Rightarrow> (io_error + unit) \<times> 'os"
  os_no_child :: "io_error \<Rightarrow> bool"
  os_disappeared :: "io_error \<Rightarrow> bool"

definition os_try ::
    "('os \<Rightarrow> (io_error + 'a) \<times> 'os) \<Rightarrow> ('a \<Rightarrow> 'os \<Rightarrow> (io_error + 'b) \<times> 'os) \<Rightarrow> 'os \<Rightarrow> (io_error + 'b) \<times> 'os" where
  "os_try m f os = (case m os of (Inl e, os') \<Rightarrow> (Inl e, os') | (Inr a, os') \<Rightarrow> f a os')"

definition os_lift :: "io_error + 'a \<Rightarrow> 'os \<Rightarrow> (io_error + 'a) \<times> 'os" where
  "os_lift r os = (r, os)"

section \<open>Capturing a pipe\<close>

text \<open>A reader is there until the end of its pipe was seen.\<close>

record capture =
  ca_open :: bool
  ca_bytes :: string
  ca_limit :: nat
  ca_stream :: stream

definition capture_new :: "stream \<Rightarrow> nat \<Rightarrow> io_error + capture" where
  "capture_new s limit =
     result_try (ok_or (checked_sentinel limit) (Io Invalid_Input (Msg ''invalid output limit''))) (\<lambda>_.
     Inr \<lparr>ca_open = True, ca_bytes = [], ca_limit = limit, ca_stream = s\<rparr>)"

definition capture_complete :: "capture \<Rightarrow> bool" where
  "capture_complete c \<longleftrightarrow> \<not> ca_open c"

definition capture_exceeded :: "capture \<Rightarrow> bool" where
  "capture_exceeded c \<longleftrightarrow> length (ca_bytes c) > ca_limit c"

lemma drain_measure:
  "b \<noteq> [] \<Longrightarrow> n < Suc l \<Longrightarrow> Suc l - (n + min (length b) (min (Suc l - n) 8192)) < Suc l - n"
  by (cases b) (auto simp: min_def)

text \<open>A read returns at most as many octets as the buffer it was given.\<close>

function drain_loop ::
    "('os, 'z) os_ext_scheme \<Rightarrow> bool \<Rightarrow> capture \<Rightarrow> 'os \<Rightarrow> (io_error + bool) \<times> capture \<times> 'os" where
  "drain_loop x progressed c os =
     (let sentinel = ca_limit c + 1; wanted = min (sentinel - length (ca_bytes c)) 8192 in
      case os_read x (ca_stream c) wanted os of
        (Inr buffer, os') \<Rightarrow>
          let got = take wanted buffer in
          if got = [] then (Inr True, c\<lparr>ca_open := False\<rparr>, os')
          else
            let c' = c\<lparr>ca_bytes := ca_bytes c @ got\<rparr> in
            if length (ca_bytes c') \<ge> sentinel then (Inr True, c', os') else drain_loop x True c' os'
      | (Inl e, os') \<Rightarrow>
          if kind_of e = Would_Block then (Inr progressed, c, os')
          else (Inl (Io (kind_of e) (Fmt ''read {}: {error}'' [stream_label (ca_stream c)])), c, os'))"
  by pat_completeness auto
termination
  by (relation "measure (\<lambda>(x, progressed, c, os). ca_limit c + 1 - length (ca_bytes c))")
    (auto simp: Let_def intro!: drain_measure)

declare drain_loop.simps [simp del]

definition drain :: "('os, 'z) os_ext_scheme \<Rightarrow> capture \<Rightarrow> 'os \<Rightarrow> (io_error + bool) \<times> capture \<times> 'os" where
  "drain x c os =
     (if \<not> ca_open c \<or> length (ca_bytes c) \<ge> ca_limit c + 1 then (Inr False, c, os)
      else drain_loop x False c os)"

section \<open>Writing the input\<close>

text \<open>The writer with how much of the input it has taken.\<close>

record writer =
  wr_open :: bool
  wr_offset :: nat

function write_loop ::
    "('os, 'z) os_ext_scheme \<Rightarrow> string \<Rightarrow> bool \<Rightarrow> writer \<Rightarrow> 'os \<Rightarrow> (io_error + bool) \<times> writer \<times> 'os" where
  "write_loop x input progressed w os =
     (if wr_offset w < length input
      then
        (case os_write x (drop (wr_offset w) input) os of
           (Inr accepted, os') \<Rightarrow>
             let count = min accepted (length input - wr_offset w) in
             if count = 0
             then (Inl (Io Write_Zero (Msg ''subprocess stdin stopped accepting input'')), w, os')
             else write_loop x input True (w\<lparr>wr_offset := wr_offset w + count\<rparr>) os'
         | (Inl e, os') \<Rightarrow>
             if kind_of e = Would_Block then (Inr progressed, w, os')
             else if kind_of e = Broken_Pipe then (Inr True, w\<lparr>wr_open := False\<rparr>, os')
             else (Inl (Io (kind_of e) (Msg ''write subprocess stdin: {error}'')), w, os'))
      else (Inr True, w\<lparr>wr_open := False\<rparr>, os))"
  by pat_completeness auto
termination
  by (relation "measure (\<lambda>(x, input, progressed, w, os). length input - wr_offset w)") auto

declare write_loop.simps [simp del]

definition write_input :: "('os, 'z) os_ext_scheme \<Rightarrow> string \<Rightarrow> writer \<Rightarrow> 'os \<Rightarrow> (io_error + bool) \<times> writer \<times> 'os" where
  "write_input x input w os = (if \<not> wr_open w then (Inr False, w, os) else write_loop x input False w os)"

section \<open>One round of the loop\<close>

record run_state =
  rs_stdout :: capture
  rs_stderr :: capture
  rs_writer :: writer
  rs_status :: "int option"
  rs_direct_exit :: "nat option"

datatype verdict = Continue | Finished | Failure io_error

definition status_poll :: "string \<Rightarrow> io_error + int option \<Rightarrow> io_error + int option" where
  "status_poll program result =
     map_err (\<lambda>e. Io (kind_of e) (Fmt ''poll {program} subprocess status: {error}'' [program])) result"

definition exceeded_error :: "string \<Rightarrow> capture \<Rightarrow> io_error" where
  "exceeded_error program c =
     Io Invalid_Data (Fmt ''{program} {} exceeded its {}-byte limit'' [program, stream_label (ca_stream c)])"

text \<open>Both pipes and the input, one after the other, until one fails.\<close>

definition pump ::
    "('os, 'z) os_ext_scheme \<Rightarrow> string \<Rightarrow> string \<Rightarrow> run_state \<Rightarrow> 'os \<Rightarrow> (io_error + bool) \<times> run_state \<times> 'os" where
  "pump x program input st os =
     (let (r1, out, os1) = drain x (rs_stdout st) os; st1 = st\<lparr>rs_stdout := out\<rparr> in
      case r1 of
        Inl e \<Rightarrow> (Inl e, st1, os1)
      | Inr p1 \<Rightarrow>
          let (r2, err, os2) = drain x (rs_stderr st1) os1; st2 = st1\<lparr>rs_stderr := err\<rparr> in
          (case r2 of
             Inl e \<Rightarrow> (Inl e, st2, os2)
           | Inr p2 \<Rightarrow>
               let (r3, w, os3) = write_input x input (rs_writer st2) os2; st3 = st2\<lparr>rs_writer := w\<rparr> in
               (case r3 of
                  Inl e \<Rightarrow> (Inl e, st3, os3)
                | Inr p3 \<Rightarrow>
                    if capture_exceeded (rs_stdout st3) then (Inl (exceeded_error program (rs_stdout st3)), st3, os3)
                    else if capture_exceeded (rs_stderr st3) then (Inl (exceeded_error program (rs_stderr st3)), st3, os3)
                    else (Inr (p1 \<or> p2 \<or> p3), st3, os3))))"

definition poll_child ::
    "('os, 'z) os_ext_scheme \<Rightarrow> string \<Rightarrow> run_state \<Rightarrow> 'os \<Rightarrow> (io_error + bool) \<times> run_state \<times> 'os" where
  "poll_child x program st os =
     (if rs_status st \<noteq> None then (Inr False, st, os)
      else
        (case os_try_wait x os of
           (r, os1) \<Rightarrow>
             (case status_poll program r of
                Inl e \<Rightarrow> (Inl e, st, os1)
              | Inr None \<Rightarrow> (Inr False, st, os1)
              | Inr (Some reaped) \<Rightarrow>
                  let (now, os2) = os_now x os1 in
                  (Inr True, st\<lparr>rs_status := Some reaped, rs_direct_exit := Some now\<rparr>, os2))))"

definition retained_error :: "string \<Rightarrow> io_error" where
  "retained_error program =
     Io Timed_Out (Fmt ''{program} descendants retained output pipes after the direct child exited'' [program])"

definition round ::
    "('os, 'z) os_ext_scheme \<Rightarrow> string \<Rightarrow> string \<Rightarrow> run_state \<Rightarrow> 'os \<Rightarrow> verdict \<times> run_state \<times> 'os" where
  "round x program input st os =
     (let (r1, st1, os1) = pump x program input st os in
      case r1 of
        Inl e \<Rightarrow> (Failure e, st1, os1)
      | Inr p1 \<Rightarrow>
          let (r2, st2, os2) = poll_child x program st1 os1 in
          (case r2 of
             Inl e \<Rightarrow> (Failure e, st2, os2)
           | Inr p2 \<Rightarrow>
               if rs_status st2 \<noteq> None \<and> capture_complete (rs_stdout st2) \<and> capture_complete (rs_stderr st2)
               then (Finished, st2, os2)
               else
                 let (late, os3) =
                   (case rs_direct_exit st2 of
                      None \<Rightarrow> (False, os2)
                    | Some started \<Rightarrow> let (now, os3) = os_now x os2 in (now - started \<ge> PIPE_CLOSE_GRACE, os3)) in
                 if late then (Failure (retained_error program), st2, os3)
                 else (Continue, st2, if p1 \<or> p2 then os3 else os_sleep x os3)))"

partial_function (option) run_loop ::
    "('os, 'z) os_ext_scheme \<Rightarrow> string \<Rightarrow> string \<Rightarrow> run_state \<Rightarrow> 'os \<Rightarrow> (verdict \<times> run_state \<times> 'os) option" where
  "run_loop x program input st os =
     (case round x program input st os of
        (Continue, st', os') \<Rightarrow> run_loop x program input st' os'
      | (v, st', os') \<Rightarrow> Some (v, st', os'))"

section \<open>Cancelling and reaping\<close>

definition terminate_tree :: "('os, 'z) os_ext_scheme \<Rightarrow> 'os \<Rightarrow> 'os" where
  "terminate_tree x os =
     (case os_try_wait x (os_kill_group x os) of
        (Inr (Some reaped), os') \<Rightarrow> os'
      | (_, os') \<Rightarrow> os_kill_child x os')"

partial_function (option) reap_until ::
    "('os, 'z) os_ext_scheme \<Rightarrow> nat \<Rightarrow> 'os \<Rightarrow> ((io_error + int) \<times> 'os) option" where
  "reap_until x deadline os =
     (case os_try_wait x os of
        (Inr (Some status), os1) \<Rightarrow> Some (Inr status, os1)
      | (Inl e, os1) \<Rightarrow> Some (Inl e, os1)
      | (Inr None, os1) \<Rightarrow>
          (case os_now x os1 of
             (now, os2) \<Rightarrow>
               if now \<ge> deadline
               then Some (Inl (Io Timed_Out
                 (Msg ''direct child did not exit before the post-cancellation deadline'')), os2)
               else reap_until x deadline (os_sleep x os2)))"

fun cleanup_error :: "io_error \<Rightarrow> io_error + int \<Rightarrow> io_error" where
  "cleanup_error primary (Inr status) = primary"
| "cleanup_error primary (Inl e) = Io Other_Kind (Msg ''{primary}; cleanup failed: {error}'')"

text \<open>Ending a failed run: the group is killed, and the child reaped within the deadline.\<close>

definition cancel ::
    "('os, 'z) os_ext_scheme \<Rightarrow> io_error \<Rightarrow> int option \<Rightarrow> 'os \<Rightarrow> ((io_error + process_output) \<times> 'os) option" where
  "cancel x e status os =
     (let os1 = terminate_tree x os in
      case status of
        Some reaped \<Rightarrow> Some (Inl (cleanup_error e (Inr reaped)), os1)
      | None \<Rightarrow>
          (let (now, os2) = os_now x os1 in
           map_option (\<lambda>(r, os3). (Inl (cleanup_error e r), os3)) (reap_until x (now + POST_CANCEL_TIMEOUT) os2)))"

section \<open>A whole run\<close>

definition set_nonblocking :: "('os, 'z) os_ext_scheme \<Rightarrow> bool \<Rightarrow> 'os \<Rightarrow> (io_error + unit) \<times> 'os" where
  "set_nonblocking x has_input =
     os_try (os_nonblocking x (Output_Pipe Stdout)) (\<lambda>_.
     os_try (os_nonblocking x (Output_Pipe Stderr)) (\<lambda>_.
     if has_input then os_nonblocking x Input_Pipe else os_lift (Inr ())))"

definition finish :: "('os, 'z) os_ext_scheme \<Rightarrow> run_state \<Rightarrow> 'os \<Rightarrow> (io_error + process_output) \<times> 'os" where
  "finish x st os =
     (let os1 = os_kill_group x os in
      case rs_status st of
        Some status \<Rightarrow>
          (Inr \<lparr>po_status = status, po_stdout = ca_bytes (rs_stdout st), po_stderr = ca_bytes (rs_stderr st)\<rparr>, os1)
      | None \<Rightarrow> (Inl (Io Other_Kind (Msg ''direct child was not reaped'')), os1))"

definition captured_loop ::
    "('os, 'z) os_ext_scheme \<Rightarrow> string \<Rightarrow> output_limits \<Rightarrow> string option \<Rightarrow> 'os \<Rightarrow> ((io_error + process_output) \<times> 'os) option" where
  "captured_loop x program limits input os =
     (case (capture_new Stdout (ol_stdout limits), capture_new Stderr (ol_stderr limits)) of
        (Inr out, Inr err) \<Rightarrow>
          (let bytes = (case input of Some bytes \<Rightarrow> bytes | None \<Rightarrow> []) in
           case run_loop x program bytes
               \<lparr>rs_stdout = out, rs_stderr = err, rs_writer = \<lparr>wr_open = (bytes \<noteq> []), wr_offset = 0\<rparr>,
                rs_status = None, rs_direct_exit = None\<rparr> os of
             None \<Rightarrow> None
           | Some (Failure e, st, os1) \<Rightarrow> cancel x e (rs_status st) os1
           | Some (_, st, os1) \<Rightarrow> Some (finish x st os1))
      | (Inl e, _) \<Rightarrow> Some (Inl e, os)
      | (_, Inl e) \<Rightarrow> Some (Inl e, os))"

definition output_inner ::
    "('os, 'z) os_ext_scheme \<Rightarrow> process_command \<Rightarrow> output_limits \<Rightarrow> string option \<Rightarrow> 'os
       \<Rightarrow> ((io_error + process_output) \<times> 'os) option" where
  "output_inner x command limits input os =
     (let program = pc_program command in
      case os_spawn x command (input \<noteq> None) os of
        (Inl e, os1) \<Rightarrow> Some (Inl e, os1)
      | (Inr (has_stdout, has_stderr, has_stdin), os1) \<Rightarrow>
          if \<not> has_stdout then Some (Inl (Io Other_Kind (Fmt ''{program} stdout was not captured'' [program])), os1)
          else if \<not> has_stderr then Some (Inl (Io Other_Kind (Fmt ''{program} stderr was not captured'' [program])), os1)
          else if input \<noteq> None \<and> \<not> has_stdin
          then Some (Inl (Io Other_Kind (Fmt ''{program} stdin was not captured'' [program])), os1)
          else
            (case set_nonblocking x (input \<noteq> None) os1 of
               (Inl e, os2) \<Rightarrow> cancel x e None os2
             | (Inr _, os2) \<Rightarrow> captured_loop x program limits input os2))"

section \<open>Descendants\<close>

definition parse_i32 :: "string \<Rightarrow> int option" where
  "parse_i32 s =
     (let (negative, ds) = (case s of
          c # cs \<Rightarrow> if c = CHR ''-'' then (True, cs) else if c = CHR ''+'' then (False, cs) else (False, s)
        | [] \<Rightarrow> (False, [])); n = int (digits_value ds) in
      if ds = [] \<or> \<not> list_all is_ascii_digit ds then None
      else if negative then (if n \<le> 2 ^ 31 then Some (- n) else None)
      else if n < 2 ^ 31 then Some n else None)"

text \<open>The pieces around the last occurrence of a pattern that is not empty.\<close>

fun rsplit_once :: "'a list \<Rightarrow> 'a list \<Rightarrow> ('a list \<times> 'a list) option" where
  "rsplit_once pat [] = None"
| "rsplit_once pat (c # cs) =
     (case rsplit_once pat cs of
        Some (a, b) \<Rightarrow> Some (c # a, b)
      | None \<Rightarrow> map_option (Pair []) (strip_prefix pat (c # cs)))"

text \<open>The words of a text whose whitespace is ASCII, as that of a process record is.\<close>

definition is_space :: "char \<Rightarrow> bool" where
  "is_space c \<longleftrightarrow> (of_char c :: nat) = 32 \<or> 9 \<le> (of_char c :: nat) \<and> (of_char c :: nat) \<le> 13"

fun words_from :: "string \<Rightarrow> string \<Rightarrow> string list" where
  "words_from w [] = (if w = [] then [] else [w])"
| "words_from w (c # cs) =
     (if is_space c then (if w = [] then words_from [] cs else w # words_from [] cs) else words_from (w @ [c]) cs)"

definition stat_parent :: "string \<Rightarrow> io_error + int" where
  "stat_parent stat =
     result_try (ok_or (rsplit_once '') '' stat) (Io Invalid_Data (Msg ''malformed /proc process stat'')))
       (\<lambda>(_, fields).
     case words_from [] fields of
       _ # word # _ \<Rightarrow> ok_or (parse_i32 word) (Io Invalid_Data (Msg ''invalid /proc parent process ID''))
     | _ \<Rightarrow> Inl (Io Invalid_Data (Msg ''truncated /proc process stat'')))"

fun children_of ::
    "('os, 'z) os_ext_scheme \<Rightarrow> int \<Rightarrow> int list \<Rightarrow> (io_error + string option) list \<Rightarrow> 'os
       \<Rightarrow> (io_error + int list) \<times> 'os" where
  "children_of x own children [] os = (Inr (remdups (sort children)), os)"
| "children_of x own children (Inl e # entries) os =
     (if os_disappeared x e then children_of x own children entries os else (Inl e, os))"
| "children_of x own children (Inr name # entries) os =
     (case Option.bind name parse_i32 of
        None \<Rightarrow> children_of x own children entries os
      | Some pid \<Rightarrow>
          (case os_proc_stat x (the name) os of
             (Inl e, os') \<Rightarrow>
               if os_disappeared x e then children_of x own children entries os' else (Inl e, os')
           | (Inr stat, os') \<Rightarrow>
               (case stat_parent stat of
                  Inl e \<Rightarrow> (Inl e, os')
                | Inr parent \<Rightarrow>
                    children_of x own (if parent = own then pid # children else children) entries os')))"

definition direct_children :: "('os, 'z) os_ext_scheme \<Rightarrow> 'os \<Rightarrow> (io_error + int list) \<times> 'os" where
  "direct_children x os =
     (case os_proc_entries x os of
        (Inl e, os') \<Rightarrow> (Inl e, os')
      | (Inr entries, os') \<Rightarrow> children_of x (os_pid x os) [] entries os')"

record subreaper_scope =
  sc_baseline :: "int list"
  sc_caller_group :: int
  sc_was_enabled :: bool

definition scope_enter :: "('os, 'z) os_ext_scheme \<Rightarrow> 'os \<Rightarrow> (io_error + subreaper_scope) \<times> 'os" where
  "scope_enter x =
     os_try (\<lambda>os. let (r, os') = os_lock x os in
         (map_err (\<lambda>_. Io Other_Kind (Msg ''bounded-process subreaper lock was poisoned'')) r, os')) (\<lambda>_.
     os_try (os_subreaper x) (\<lambda>was_enabled.
     os_try (if was_enabled then os_lift (Inr ()) else os_set_subreaper x True) (\<lambda>_.
     os_try (direct_children x) (\<lambda>baseline.
     os_try (os_group x None) (\<lambda>caller_group.
     os_lift (Inr \<lparr>sc_baseline = baseline, sc_caller_group = caller_group, sc_was_enabled = was_enabled\<rparr>))))))"

text \<open>Of the children that were not there before, those outside the caller's group.\<close>

fun adopted_children ::
    "('os, 'z) os_ext_scheme \<Rightarrow> subreaper_scope \<Rightarrow> int list \<Rightarrow> 'os \<Rightarrow> int list \<times> 'os" where
  "adopted_children x scope [] os = ([], os)"
| "adopted_children x scope (raw # raws) os =
     (if raw \<in> set (sc_baseline scope) \<or> raw = 0 then adopted_children x scope raws os
      else
        (let (r, os1) = os_group x (Some raw) os; (rest, os2) = adopted_children x scope raws os1 in
         case r of
           Inr pgid \<Rightarrow> (if pgid \<noteq> sc_caller_group scope then raw # rest else rest, os2)
         | Inl e \<Rightarrow> (rest, os2)))"

fun kill_all :: "('os, 'z) os_ext_scheme \<Rightarrow> int list \<Rightarrow> 'os \<Rightarrow> 'os" where
  "kill_all x [] os = os"
| "kill_all x (raw # raws) os = kill_all x raws (os_kill x raw os)"

fun reap_all :: "('os, 'z) os_ext_scheme \<Rightarrow> int list \<Rightarrow> 'os \<Rightarrow> (io_error + unit) \<times> 'os" where
  "reap_all x [] os = (Inr (), os)"
| "reap_all x (raw # raws) os =
     (case os_reap x raw os of
        (Inl e, os') \<Rightarrow> if os_no_child x e then reap_all x raws os' else (Inl e, os')
      | (Inr _, os') \<Rightarrow> reap_all x raws os')"

partial_function (option) reap_descendants ::
    "('os, 'z) os_ext_scheme \<Rightarrow> subreaper_scope \<Rightarrow> nat \<Rightarrow> 'os \<Rightarrow> ((io_error + unit) \<times> 'os) option" where
  "reap_descendants x scope deadline os =
     (case direct_children x os of
        (Inl e, os1) \<Rightarrow> Some (Inl e, os1)
      | (Inr children, os1) \<Rightarrow>
          (case adopted_children x scope children os1 of
             (adopted, os2) \<Rightarrow>
               if adopted = [] then Some (Inr (), os2)
               else
                 (case reap_all x adopted (kill_all x adopted os2) of
                    (Inl e, os3) \<Rightarrow> Some (Inl e, os3)
                  | (Inr _, os3) \<Rightarrow>
                      (case os_now x os3 of
                         (now, os4) \<Rightarrow>
                           if now \<ge> deadline
                           then Some (Inl (Io Timed_Out
                             (Msg ''subprocess descendants were not quiescent after direct-child exit'')), os4)
                           else reap_descendants x scope deadline (os_sleep x os4)))))"

definition terminate_and_reap ::
    "('os, 'z) os_ext_scheme \<Rightarrow> subreaper_scope \<Rightarrow> 'os \<Rightarrow> ((io_error + unit) \<times> 'os) option" where
  "terminate_and_reap x scope os =
     (let (now, os1) = os_now x os in reap_descendants x scope (now + POST_CANCEL_TIMEOUT) os1)"

definition scope_drop :: "('os, 'z) os_ext_scheme \<Rightarrow> subreaper_scope \<Rightarrow> 'os \<Rightarrow> 'os" where
  "scope_drop x scope os = (if sc_was_enabled scope then os else snd (os_set_subreaper x False os))"

fun join_cleanup :: "io_error + 'a \<Rightarrow> io_error + unit \<Rightarrow> io_error + 'a" where
  "join_cleanup (Inr value) (Inr _) = Inr value"
| "join_cleanup (Inl e) (Inr _) = Inl e"
| "join_cleanup (Inr _) (Inl e) = Inl e"
| "join_cleanup (Inl e) (Inl cleanup) = Inl (Io Other_Kind (Msg ''{error}; descendant cleanup failed: {cleanup}''))"

definition platform_output ::
    "('os, 'z) os_ext_scheme \<Rightarrow> process_command \<Rightarrow> output_limits \<Rightarrow> string option \<Rightarrow> 'os
       \<Rightarrow> ((io_error + process_output) \<times> 'os) option" where
  "platform_output x command limits input os =
     (case scope_enter x os of
        (Inl e, os1) \<Rightarrow> Some (Inl e, os1)
      | (Inr scope, os1) \<Rightarrow>
          Option.bind (output_inner x command limits input os1) (\<lambda>(result, os2).
          map_option (\<lambda>(cleanup, os3). (join_cleanup result cleanup, scope_drop x scope os3))
            (terminate_and_reap x scope os2)))"

section \<open>A fresh Cargo state\<close>

record file_metadata =
  fm_is_dir :: bool
  fm_is_file :: bool
  fm_is_symlink :: bool
  fm_mode :: nat

text \<open>The environment and number of this process, its counter of states, and directories.\<close>

record 'os files_ext = "'os os_ext" +
  fs_environment :: "(string \<times> string) list"
  fs_process_id :: nat
  fs_sequence :: "'os \<Rightarrow> nat \<times> 'os"
  fs_canonicalize :: "string \<Rightarrow> 'os \<Rightarrow> (io_error + string) \<times> 'os"
  fs_is_dir :: "string \<Rightarrow> 'os \<Rightarrow> bool"
  fs_create_dir :: "string \<Rightarrow> 'os \<Rightarrow> (io_error + unit) \<times> 'os"
  fs_exists :: "string \<Rightarrow> 'os \<Rightarrow> (io_error + bool) \<times> 'os"
  fs_metadata :: "string \<Rightarrow> 'os \<Rightarrow> (io_error + file_metadata) \<times> 'os"
  fs_symlink :: "string \<Rightarrow> string \<Rightarrow> 'os \<Rightarrow> (io_error + unit) \<times> 'os"
  fs_remove_dir_all :: "string \<Rightarrow> 'os \<Rightarrow> (io_error + unit) \<times> 'os"

definition CARGO_SEED_ENV :: string where "CARGO_SEED_ENV = ''YAML_SIGIL_CARGO_SEED''"
definition CARGO_STATE_ROOT_ENV :: string where "CARGO_STATE_ROOT_ENV = ''YAML_SIGIL_CARGO_STATE_ROOT''"

definition path_join :: "string \<Rightarrow> string \<Rightarrow> string" where
  "path_join root name = (if ends_with root ''/'' then root @ name else root @ ''/'' @ name)"

fun link_directories :: "('os, 'z) files_ext_scheme \<Rightarrow> string \<Rightarrow> string \<Rightarrow> string list \<Rightarrow> 'os \<Rightarrow> (io_error + unit) \<times> 'os" where
  "link_directories x seed cargo_home [] = os_lift (Inr ())"
| "link_directories x seed cargo_home (name # names) =
     (let entry = path_join seed name in
      os_try (fs_exists x entry) (\<lambda>there.
      if \<not> there then link_directories x seed cargo_home names
      else
        os_try (fs_metadata x entry) (\<lambda>metadata.
        if \<not> fm_is_dir metadata \<or> fm_is_symlink metadata
        then os_lift (Inl (Io Invalid_Data (Fmt ''protected Cargo seed {name} is not a direct directory'' [name])))
        else
          os_try (fs_symlink x entry (path_join cargo_home name)) (\<lambda>_.
          link_directories x seed cargo_home names))))"

definition link_seed_entries :: "('os, 'z) files_ext_scheme \<Rightarrow> string \<Rightarrow> string \<Rightarrow> 'os \<Rightarrow> (io_error + unit) \<times> 'os" where
  "link_seed_entries x seed cargo_home =
     os_try (link_directories x seed cargo_home [''registry'', ''git'', ''advisory-db'']) (\<lambda>_ os.
     let config = path_join seed ''config.toml'' in
     case fs_metadata x config os of
       (Inr metadata, os') \<Rightarrow>
         if \<not> fm_is_file metadata \<or> fm_is_symlink metadata \<or> list_ex (bit (fm_mode metadata)) [1, 4, 7]
         then (Inl (Io Invalid_Data (Msg ''protected Cargo seed config.toml is absent, linked, or writable'')), os')
         else fs_symlink x config (path_join cargo_home ''config.toml'') os'
     | (Inl e, os') \<Rightarrow>
         if kind_of e = Not_Found_Kind
         then (Inl (Io Invalid_Data (Msg ''protected Cargo seed config.toml is absent'')), os')
         else (Inl e, os'))"

definition removed_names :: "string set" where
  "removed_names = {''CARGO_BUILD_RUSTC'', ''CARGO_BUILD_RUSTC_WRAPPER'', ''CARGO_BUILD_RUSTDOC'', ''CARGO_BUILD_TARGET'',
     ''CARGO_ENCODED_RUSTFLAGS'', ''RUSTC'', ''RUSTC_WRAPPER'', ''RUSTC_WORKSPACE_WRAPPER'', ''RUSTDOC'',
     ''RUSTDOCFLAGS''}"

text \<open>The environment of the command: of each name, what is changed.\<close>

definition fresh_envs ::
    "(string \<times> string) list \<Rightarrow> (string \<Rightarrow> string option option) \<Rightarrow> string \<Rightarrow> string \<Rightarrow> string \<Rightarrow> string option option" where
  "fresh_envs environment envs cargo_home target name =
     (if name = ''CARGO_NET_OFFLINE'' then Some (Some ''true'')
      else if name = ''CARGO_TARGET_DIR'' then Some (Some target)
      else if name = ''CARGO_HOME'' then Some (Some cargo_home)
      else if name \<in> removed_names then Some None
      else if (name \<in> fst ` set environment \<or> envs name \<noteq> None) \<and>
              (starts_with name ''CARGO_ALIAS_'' \<or> starts_with name ''CARGO_TARGET_'') then Some None
      else envs name)"

text \<open>Preparing gives the command with its new environment and the directory to remove later.\<close>

definition prepare_state ::
    "('os, 'z) files_ext_scheme \<Rightarrow> process_command \<Rightarrow> string \<Rightarrow> string \<Rightarrow> 'os
       \<Rightarrow> (io_error + process_command \<times> string) \<times> 'os" where
  "prepare_state x command seed state_root =
     os_try (fs_canonicalize x seed) (\<lambda>seed.
     os_try (fs_canonicalize x state_root) (\<lambda>state_root os.
     if \<not> fs_is_dir x seed os \<or> \<not> fs_is_dir x state_root os
     then (Inl (Io Invalid_Input (Msg ''protected Cargo seed and state root must be directories'')), os)
     else
       (let (sequence, os) = fs_sequence x os;
            phase = path_join state_root (''rust-phase-'' @ show_nat (fs_process_id x) @ ''-'' @ show_nat sequence);
            cargo_home = path_join phase ''cargo-home''; target = path_join phase ''target'' in
        os_try (fs_create_dir x phase) (\<lambda>_.
        os_try (fs_create_dir x cargo_home) (\<lambda>_.
        os_try (fs_create_dir x target) (\<lambda>_.
        os_try (link_seed_entries x seed cargo_home) (\<lambda>_.
        os_lift (Inr (command\<lparr>pc_envs := fresh_envs (fs_environment x) (pc_envs command) cargo_home target\<rparr>,
          phase)))))) os)))"

definition state_from_environment ::
    "('os, 'z) files_ext_scheme \<Rightarrow> process_command \<Rightarrow> 'os \<Rightarrow> (io_error + process_command \<times> string option) \<times> 'os" where
  "state_from_environment x command =
     (case (map_of (fs_environment x) CARGO_SEED_ENV, map_of (fs_environment x) CARGO_STATE_ROOT_ENV) of
        (None, None) \<Rightarrow> os_lift (Inr (command, None))
      | (Some seed, Some state_root) \<Rightarrow>
          os_try (prepare_state x command seed state_root) (\<lambda>(command, phase). os_lift (Inr (command, Some phase)))
      | _ \<Rightarrow> os_lift (Inl (Io Invalid_Input (Msg ''incomplete protected Cargo state boundary''))))"

definition finish_with_fresh_state ::
    "('os, 'z) files_ext_scheme \<Rightarrow> io_error + 'a \<Rightarrow> string option \<Rightarrow> 'os \<Rightarrow> (io_error + 'a) \<times> 'os" where
  "finish_with_fresh_state x result state os =
     (let (cleanup, os') =
        (case state of
           Some phase \<Rightarrow>
             (let (r, os') = fs_remove_dir_all x phase os in
              (map_err (\<lambda>e. Io (kind_of e) (Fmt ''remove disposable Cargo state {}: {error}'' [phase])) r, os'))
         | None \<Rightarrow> (Inr (), os)) in
      (case (result, cleanup) of
         (Inr value, Inr _) \<Rightarrow> Inr value
       | (Inl e, Inr _) \<Rightarrow> Inl e
       | (Inr _, Inl e) \<Rightarrow> Inl e
       | (Inl e, Inl _) \<Rightarrow> Inl (Io (kind_of e) (Msg ''{error}; Cargo state cleanup failed: {cleanup_error}'')), os'))"

definition bounded_output ::
    "('os, 'z) files_ext_scheme \<Rightarrow> process_command \<Rightarrow> string option \<Rightarrow> output_limits \<Rightarrow> 'os
       \<Rightarrow> ((io_error + process_output) \<times> 'os) option" where
  "bounded_output x command input limits os =
     (case validate_limits limits input of
        Inl e \<Rightarrow> Some (Inl e, os)
      | Inr _ \<Rightarrow>
          (case state_from_environment x command os of
             (Inl e, os1) \<Rightarrow> Some (Inl e, os1)
           | (Inr (command, state), os1) \<Rightarrow>
               map_option (\<lambda>(result, os2). finish_with_fresh_state x result state os2)
                 (platform_output x command limits input os1)))"

end
