(* ===== verification/Process_Facts.thy ===== *)
theory Process_Facts
  imports Process
begin

text \<open>
  What a bounded run guarantees: the captured output is everything the child wrote, within the
  limits; a run that fails has killed the group; and a run ends once the child does.
\<close>

section \<open>A system that remembers\<close>

text \<open>
  Any system, with the history of what was done, the newest first: started, the octets of each
  read (none at the end of a pipe), what was written, a closed input, exits seen and kills.
\<close>

datatype event =
  E_Spawn | E_Read stream string | E_Write string | E_Closed_Input | E_Exit int | E_Kill_Group | E_Kill_Child

definition remember :: "('a \<Rightarrow> event list) \<Rightarrow> ('os \<Rightarrow> 'a \<times> 'os) \<Rightarrow> 'os \<times> event list \<Rightarrow> 'a \<times> 'os \<times> event list" where
  "remember e m s = (let (r, os') = m (fst s) in (r, (os', e r @ snd s)))"

definition logged :: "'os os_ext \<Rightarrow> ('os \<times> event list) os_ext" where
  "logged x =
     \<lparr>os_spawn = (\<lambda>c i. remember (\<lambda>r. if is_ok r then [E_Spawn] else []) (os_spawn x c i)),
      os_nonblocking = (\<lambda>h. remember (\<lambda>_. []) (os_nonblocking x h)),
      os_read = (\<lambda>s n. remember (\<lambda>r. case r of Inr b \<Rightarrow> [E_Read s (take n b)] | _ \<Rightarrow> []) (os_read x s n)),
      os_write = (\<lambda>b. remember (\<lambda>r. case r of
          Inr n \<Rightarrow> [E_Write (take n b)]
        | Inl e \<Rightarrow> if kind_of e = Broken_Pipe then [E_Closed_Input] else []) (os_write x b)),
      os_try_wait = remember (\<lambda>r. case r of Inr (Some n) \<Rightarrow> [E_Exit n] | _ \<Rightarrow> []) (os_try_wait x),
      os_now = remember (\<lambda>_. []) (os_now x),
      os_sleep = (\<lambda>s. (os_sleep x (fst s), snd s)),
      os_kill_group = (\<lambda>s. (os_kill_group x (fst s), E_Kill_Group # snd s)),
      os_kill_child = (\<lambda>s. (os_kill_child x (fst s), E_Kill_Child # snd s)),
      os_lock = remember (\<lambda>_. []) (os_lock x),
      os_subreaper = remember (\<lambda>_. []) (os_subreaper x),
      os_set_subreaper = (\<lambda>b. remember (\<lambda>_. []) (os_set_subreaper x b)),
      os_pid = (\<lambda>s. os_pid x (fst s)),
      os_proc_entries = remember (\<lambda>_. []) (os_proc_entries x),
      os_proc_stat = (\<lambda>n. remember (\<lambda>_. []) (os_proc_stat x n)),
      os_group = (\<lambda>p. remember (\<lambda>_. []) (os_group x p)),
      os_kill = (\<lambda>p s. (os_kill x p (fst s), snd s)),
      os_reap = (\<lambda>p. remember (\<lambda>_. []) (os_reap x p)),
      os_no_child = os_no_child x,
      os_disappeared = os_disappeared x\<rparr>"

lemma logged_read: "os_read x s n os = (r, os1) \<Longrightarrow>
    os_read (logged x) s n (os, l) = (r, (os1, (case r of Inr b \<Rightarrow> [E_Read s (take n b)] | _ \<Rightarrow> []) @ l))"
  by (simp add: logged_def remember_def)

lemma logged_write: "os_write x b os = (r, os1) \<Longrightarrow>
    os_write (logged x) b (os, l) = (r, (os1, (case r of
        Inr n \<Rightarrow> [E_Write (take n b)]
      | Inl e \<Rightarrow> if kind_of e = Broken_Pipe then [E_Closed_Input] else []) @ l))"
  by (simp add: logged_def remember_def)

lemma logged_try_wait: "os_try_wait x os = (r, os1) \<Longrightarrow>
    os_try_wait (logged x) (os, l) = (r, (os1, (case r of Inr (Some n) \<Rightarrow> [E_Exit n] | _ \<Rightarrow> []) @ l))"
  by (simp add: logged_def remember_def)

lemma logged_quiet [simp]:
  "os_now (logged x) (os, l) = (fst (os_now x os), (snd (os_now x os), l))"
  "os_sleep (logged x) (os, l) = (os_sleep x os, l)"
  "os_nonblocking (logged x) h (os, l) = (fst (os_nonblocking x h os), (snd (os_nonblocking x h os), l))"
  "os_kill_group (logged x) (os, l) = (os_kill_group x os, E_Kill_Group # l)"
  "os_kill_child (logged x) (os, l) = (os_kill_child x os, E_Kill_Child # l)"
  "os_spawn (logged x) c i (os, l) =
     (fst (os_spawn x c i os), (snd (os_spawn x c i os), (if is_ok (fst (os_spawn x c i os)) then [E_Spawn] else []) @ l))"
  by (simp_all add: logged_def remember_def case_prod_unfold Let_def)

text \<open>The octets read from a pipe, and those written to the input, in order.\<close>

fun reads :: "stream \<Rightarrow> event list \<Rightarrow> string" where
  "reads s [] = []"
| "reads s (E_Read s' b # l) = (if s' = s then reads s l @ b else reads s l)"
| "reads s (_ # l) = reads s l"

fun written :: "event list \<Rightarrow> string" where
  "written [] = []"
| "written (E_Write b # l) = written l @ b"
| "written (_ # l) = written l"

definition ended :: "stream \<Rightarrow> event list \<Rightarrow> bool" where
  "ended s l \<longleftrightarrow> E_Read s [] \<in> set l"

section \<open>Invariants of a run\<close>

definition capture_ok :: "stream \<Rightarrow> nat \<Rightarrow> capture \<Rightarrow> event list \<Rightarrow> bool" where
  "capture_ok s limit c l \<longleftrightarrow>
     ca_stream c = s \<and> ca_limit c = limit \<and> ca_bytes c = reads s l \<and> length (ca_bytes c) \<le> limit + 1 \<and>
     (ca_open c \<or> ended s l)"

definition writer_ok :: "string \<Rightarrow> writer \<Rightarrow> event list \<Rightarrow> bool" where
  "writer_ok input w l \<longleftrightarrow>
     wr_offset w \<le> length input \<and> written l = take (wr_offset w) input \<and>
     (wr_open w \<or> wr_offset w = length input \<or> E_Closed_Input \<in> set l)"

text \<open>What a step of one pipe leaves alone.\<close>

definition same_but :: "stream \<Rightarrow> event list \<Rightarrow> event list \<Rightarrow> bool" where
  "same_but s l l' \<longleftrightarrow>
     (\<forall>s'. s' \<noteq> s \<longrightarrow> reads s' l' = reads s' l) \<and> written l' = written l \<and> set l \<subseteq> set l'"

lemma same_but_refl [simp]: "same_but s l l"
  by (simp add: same_but_def)

lemma drain_loop_step:
  assumes "os_read x (ca_stream c) (min (ca_limit c + 1 - length (ca_bytes c)) 8192) os = (r, os1)"
  shows "drain_loop (logged x) p c (os, l) =
    (case r of
       Inl e \<Rightarrow>
         if kind_of e = Would_Block then (Inr p, c, (os1, l))
         else (Inl (Io (kind_of e) (Fmt ''read {}: {error}'' [stream_label (ca_stream c)])), c, (os1, l))
     | Inr b \<Rightarrow>
         let got = take (min (ca_limit c + 1 - length (ca_bytes c)) 8192) b; l' = E_Read (ca_stream c) got # l in
         if got = [] then (Inr True, c\<lparr>ca_open := False\<rparr>, (os1, l'))
         else
           let c' = c\<lparr>ca_bytes := ca_bytes c @ got\<rparr> in
           if length (ca_bytes c') \<ge> ca_limit c + 1 then (Inr True, c', (os1, l'))
           else drain_loop (logged x) True c' (os1, l'))"
proof (cases r)
  case (Inr b)
  let ?got = "take (min (ca_limit c + 1 - length (ca_bytes c)) 8192) b"
  show ?thesis
    by (cases "?got = []"; subst drain_loop.simps; simp only: Let_def logged_read [OF assms] Inr)
      (simp_all only: prod.case sum.case append.simps if_True if_False simp_thms)
qed (subst drain_loop.simps, simp only: Let_def logged_read [OF assms], simp)

lemma drain_loop_ok:
  "drain_loop (logged x) progressed c (os, l) = (r, c', (os', l')) \<Longrightarrow> capture_ok s limit c l \<Longrightarrow>
   length (ca_bytes c) \<le> limit \<Longrightarrow> capture_ok s limit c' l' \<and> same_but s l l'"
proof (induction "ca_limit c + 1 - length (ca_bytes c)" arbitrary: progressed c os l rule: less_induct)
  case less
  note run = less(2) and ok = less(3) and room = less(4)
  let ?wanted = "min (ca_limit c + 1 - length (ca_bytes c)) 8192"
  obtain r1 os1 where read: "os_read x (ca_stream c) ?wanted os = (r1, os1)" by fastforce
  note run = run [unfolded drain_loop_step [OF read]]
  show ?case
  proof (cases r1)
    case (Inl e)
    then show ?thesis using run ok by (auto split: if_splits)
  next
    case (Inr b)
    define got where "got = take ?wanted b"
    have len: "length got \<le> ?wanted" by (auto simp: got_def)
    note run = run [unfolded Inr sum.case got_def [symmetric] Let_def]
    show ?thesis
    proof (cases "got = []")
      case True
      then show ?thesis using run ok by (auto simp: capture_ok_def same_but_def ended_def)
    next
      case False
      let ?c = "c\<lparr>ca_bytes := ca_bytes c @ got\<rparr>" and ?l = "E_Read (ca_stream c) got # l"
      have ok': "capture_ok s limit ?c ?l" "same_but s l ?l"
        using ok room len by (auto simp: capture_ok_def same_but_def ended_def)
      show ?thesis
      proof (cases "length (ca_bytes ?c) \<ge> ca_limit c + 1")
        case True
        then show ?thesis using run False ok' by simp
      next
        case more: False
        then have rest: "drain_loop (logged x) True ?c (os1, ?l) = (r, c', (os', l'))" using run False by simp
        have "capture_ok s limit c' l' \<and> same_but s ?l l'"
        proof (rule less(1) [OF _ rest ok'(1)])
          show "length (ca_bytes ?c) \<le> limit" using more ok by (simp add: capture_ok_def)
          show "ca_limit ?c + 1 - length (ca_bytes ?c) < ca_limit c + 1 - length (ca_bytes c)"
            using False room ok by (cases got) (auto simp: capture_ok_def)
        qed
        then show ?thesis using ok'(2) by (auto simp: same_but_def)
      qed
    qed
  qed
qed

lemma drain_ok:
  assumes "drain (logged x) c (os, l) = (r, c', (os', l'))" "capture_ok s limit c l"
  shows "capture_ok s limit c' l' \<and> same_but s l l'"
proof (cases "\<not> ca_open c \<or> length (ca_bytes c) \<ge> ca_limit c + 1")
  case True
  then show ?thesis using assms by (simp add: drain_def)
next
  case False
  then have "drain_loop (logged x) False c (os, l) = (r, c', (os', l'))" using assms(1) by (simp add: drain_def)
  moreover have "length (ca_bytes c) \<le> limit" using False assms(2) by (auto simp: capture_ok_def)
  ultimately show ?thesis using drain_loop_ok [OF _ assms(2)] by simp
qed

text \<open>The same for the input: only what is written changes.\<close>

definition same_reads :: "event list \<Rightarrow> event list \<Rightarrow> bool" where
  "same_reads l l' \<longleftrightarrow> (\<forall>s. reads s l' = reads s l) \<and> set l \<subseteq> set l'"

lemma write_loop_step:
  assumes "os_write x (drop (wr_offset w) input) os = (r, os1)" "wr_offset w < length input"
  shows "write_loop (logged x) input p w (os, l) =
    (case r of
       Inr accepted \<Rightarrow>
         let bytes = take accepted (drop (wr_offset w) input); l' = E_Write bytes # l in
         if bytes = [] then (Inl (Io Write_Zero (Msg ''subprocess stdin stopped accepting input'')), w, (os1, l'))
         else write_loop (logged x) input True (w\<lparr>wr_offset := wr_offset w + length bytes\<rparr>) (os1, l')
     | Inl e \<Rightarrow>
         if kind_of e = Would_Block then (Inr p, w, (os1, l))
         else if kind_of e = Broken_Pipe then (Inr True, w\<lparr>wr_open := False\<rparr>, (os1, E_Closed_Input # l))
         else (Inl (Io (kind_of e) (Msg ''write subprocess stdin: {error}'')), w, (os1, l)))"
proof -
  have n: "length (take accepted (drop (wr_offset w) input)) = min accepted (length input - wr_offset w)" for accepted
    by (simp add: min.commute)
  have z: "take accepted (drop (wr_offset w) input) = [] \<longleftrightarrow> min accepted (length input - wr_offset w) = 0" for accepted
    using assms(2) by (simp add: min_def)
  show ?thesis
  proof (cases r)
    case (Inl e)
    then show ?thesis using assms(2) by (subst write_loop.simps) (simp add: logged_write [OF assms(1)])
  next
    case (Inr accepted)
    show ?thesis
      unfolding Let_def z n Inr sum.case
      by (subst write_loop.simps) (simp only: Let_def logged_write [OF assms(1)] assms(2) Inr prod.case sum.case
          append.simps if_True z n)
  qed
qed

lemma write_loop_ok:
  "write_loop (logged x) input progressed w (os, l) = (r, w', (os', l')) \<Longrightarrow> writer_ok input w l \<Longrightarrow>
   writer_ok input w' l' \<and> same_reads l l'"
proof (induction "length input - wr_offset w" arbitrary: progressed w os l rule: less_induct)
  case less
  note run = less(2) and ok = less(3)
  show ?case
  proof (cases "wr_offset w < length input")
    case True
    obtain r1 os1 where wrote: "os_write x (drop (wr_offset w) input) os = (r1, os1)" by fastforce
    note run = run [unfolded write_loop_step [OF wrote True]]
    show ?thesis
    proof (cases r1)
      case (Inl e)
      then show ?thesis using run ok by (auto simp: writer_ok_def same_reads_def split: if_splits)
    next
      case (Inr accepted)
      define bytes where "bytes = take accepted (drop (wr_offset w) input)"
      note run = run [unfolded Inr sum.case bytes_def [symmetric] Let_def]
      let ?w = "w\<lparr>wr_offset := wr_offset w + length bytes\<rparr>" and ?l = "E_Write bytes # l"
      have bytes: "bytes = take (length bytes) (drop (wr_offset w) input)" "length bytes \<le> length input - wr_offset w"
        by (auto simp: bytes_def min_def)
      then have "take (wr_offset w + length bytes) input = take (wr_offset w) input @ bytes"
        by (metis take_add)
      then have ok': "writer_ok input ?w ?l" "same_reads l ?l"
        using ok bytes(2) by (auto simp: writer_ok_def same_reads_def)
      show ?thesis
      proof (cases "bytes = []")
        case True
        then show ?thesis using run ok by (auto simp: writer_ok_def same_reads_def)
      next
        case False
        then have rest: "write_loop (logged x) input True ?w (os1, ?l) = (r, w', (os', l'))" using run by simp
        have "length input - wr_offset ?w < length input - wr_offset w" using False True by (cases bytes) auto
        from less(1) [OF this rest ok'(1)] show ?thesis using ok'(2) by (auto simp: same_reads_def)
      qed
    qed
  next
    case False
    then show ?thesis
      using run ok by (subst (asm) write_loop.simps) (auto simp: writer_ok_def same_reads_def)
  qed
qed

lemma write_input_ok:
  assumes "write_input (logged x) input w (os, l) = (r, w', (os', l'))" "writer_ok input w l"
  shows "writer_ok input w' l' \<and> same_reads l l'"
  using assms write_loop_ok [of x input False w os l r w' os' l'] by (auto simp: write_input_def same_reads_def split: if_splits)

section \<open>Rounds\<close>

definition run_ok :: "output_limits \<Rightarrow> string \<Rightarrow> run_state \<Rightarrow> event list \<Rightarrow> bool" where
  "run_ok limits input st l \<longleftrightarrow>
     capture_ok Stdout (ol_stdout limits) (rs_stdout st) l \<and>
     capture_ok Stderr (ol_stderr limits) (rs_stderr st) l \<and>
     writer_ok input (rs_writer st) l \<and>
     (\<forall>n. rs_status st = Some n \<longrightarrow> E_Exit n \<in> set l)"

lemma capture_ok_keep:
  "capture_ok s limit c l \<Longrightarrow> reads s l' = reads s l \<Longrightarrow> set l \<subseteq> set l' \<Longrightarrow> capture_ok s limit c l'"
  by (auto simp: capture_ok_def ended_def)

lemma writer_ok_keep: "writer_ok input w l \<Longrightarrow> written l' = written l \<Longrightarrow> set l \<subseteq> set l' \<Longrightarrow> writer_ok input w l'"
  by (auto simp: writer_ok_def)

lemma written_reads: "same_reads l l' \<Longrightarrow> reads s l' = reads s l \<and> set l \<subseteq> set l'"
  by (simp add: same_reads_def)

definition within_limits :: "run_state \<Rightarrow> bool" where
  "within_limits st \<longleftrightarrow> \<not> capture_exceeded (rs_stdout st) \<and> \<not> capture_exceeded (rs_stderr st)"

lemma pump_ok:
  assumes "pump (logged x) program input st (os, l) = (r, st', (os', l'))" and ok: "run_ok limits input st l"
  shows "run_ok limits input st' l' \<and> set l \<subseteq> set l' \<and> (is_ok r \<longrightarrow> within_limits st')"
proof -
  obtain r1 out os1 l1 where d1: "drain (logged x) (rs_stdout st) (os, l) = (r1, out, (os1, l1))"
    by (metis prod_cases3 surj_pair)
  have o1: "capture_ok Stdout (ol_stdout limits) out l1" "same_but Stdout l l1"
    using drain_ok [OF d1, of Stdout "ol_stdout limits"] ok by (simp_all add: run_ok_def)
  let ?st1 = "st\<lparr>rs_stdout := out\<rparr>"
  have ok1: "run_ok limits input ?st1 l1"
    using ok o1 by (auto simp: run_ok_def same_but_def intro: capture_ok_keep writer_ok_keep)
  obtain r2 err os2 l2 where d2: "drain (logged x) (rs_stderr st) (os1, l1) = (r2, err, (os2, l2))"
    by (metis prod_cases3 surj_pair)
  have o2: "capture_ok Stderr (ol_stderr limits) err l2" "same_but Stderr l1 l2"
    using drain_ok [OF d2, of Stderr "ol_stderr limits"] ok1 by (simp_all add: run_ok_def)
  let ?st2 = "?st1\<lparr>rs_stderr := err\<rparr>"
  have ok2: "run_ok limits input ?st2 l2"
    using ok1 o2 by (auto simp: run_ok_def same_but_def intro: capture_ok_keep writer_ok_keep)
  obtain r3 w os3 l3 where d3: "write_input (logged x) input (rs_writer st) (os2, l2) = (r3, w, (os3, l3))"
    by (metis prod_cases3 surj_pair)
  have o3: "writer_ok input w l3" "same_reads l2 l3"
    using write_input_ok [OF d3] ok2 by (simp_all add: run_ok_def)
  let ?st3 = "?st2\<lparr>rs_writer := w\<rparr>"
  have ok3: "run_ok limits input ?st3 l3"
    using ok2 o3 written_reads [OF o3(2)] by (auto simp: run_ok_def intro: capture_ok_keep)
  have sub: "set l \<subseteq> set l1" "set l1 \<subseteq> set l2" "set l2 \<subseteq> set l3"
    using o1(2) o2(2) o3(2) by (simp_all add: same_but_def same_reads_def)
  note run = assms(1) [unfolded pump_def d1 Let_def prod.case]
  show ?thesis
  proof (cases r1)
    case (Inl e)
    then show ?thesis using run ok1 sub by auto
  next
    case r1: (Inr p1)
    show ?thesis
    proof (cases r2)
      case (Inl e)
      then show ?thesis using run r1 d2 ok2 sub by auto
    next
      case r2: (Inr p2)
      show ?thesis
      proof (cases r3)
        case (Inl e)
        then show ?thesis using run r1 r2 d2 d3 ok3 sub by auto
      next
        case (Inr p3)
        then show ?thesis
          using run r1 r2 d2 d3 ok3 sub by (auto simp: within_limits_def split: if_splits)
      qed
    qed
  qed
qed

lemma quiet_keep: "run_ok limits input st l \<Longrightarrow> run_ok limits input st (E_Exit n # l)"
  by (auto simp: run_ok_def intro: capture_ok_keep writer_ok_keep)

lemma poll_child_ok:
  assumes "poll_child (logged x) program st (os, l) = (r, st', (os', l'))" and ok: "run_ok limits input st l"
  shows "run_ok limits input st' l' \<and> set l \<subseteq> set l' \<and> (within_limits st \<longrightarrow> within_limits st')"
proof (cases "rs_status st = None")
  case True
  obtain r1 os1 where wait: "os_try_wait x os = (r1, os1)" by fastforce
  note run = assms(1) [unfolded poll_child_def logged_try_wait [OF wait]]
  show ?thesis
  proof (cases r1)
    case (Inl e)
    then show ?thesis using run True ok by (auto simp: status_poll_def)
  next
    case (Inr s)
    then show ?thesis using run True ok quiet_keep [OF ok]
      by (cases s) (auto simp: status_poll_def run_ok_def within_limits_def)
  qed
next
  case False
  then show ?thesis using assms by (auto simp: poll_child_def)
qed

lemma round_ok:
  assumes "round (logged x) program input st (os, l) = (v, st', (os', l'))" and ok: "run_ok limits input st l"
  shows "run_ok limits input st' l' \<and> set l \<subseteq> set l' \<and>
    (v = Finished \<longrightarrow> within_limits st' \<and> rs_status st' \<noteq> None \<and>
       capture_complete (rs_stdout st') \<and> capture_complete (rs_stderr st'))"
proof -
  obtain r1 st1 os1 l1 where p: "pump (logged x) program input st (os, l) = (r1, st1, (os1, l1))"
    by (metis prod_cases3 surj_pair)
  note ok1 = pump_ok [OF p ok]
  note run = assms(1) [unfolded round_def p Let_def prod.case]
  show ?thesis
  proof (cases r1)
    case (Inl e)
    then show ?thesis using run ok1 by auto
  next
    case r1: (Inr p1)
    obtain r2 st2 os2 l2 where q: "poll_child (logged x) program st1 (os1, l1) = (r2, st2, (os2, l2))"
      by (metis prod_cases3 surj_pair)
    have ok2: "run_ok limits input st2 l2" "set l \<subseteq> set l2" "within_limits st2"
      using poll_child_ok [OF q] ok1 r1 by auto
    note run = run [unfolded r1 sum.case q prod.case]
    show ?thesis
    proof (cases r2)
      case (Inl e)
      then show ?thesis using run ok2 by auto
    next
      case (Inr p2)
      then show ?thesis
        using run ok2 by (auto split: if_splits option.splits)
    qed
  qed
qed

lemma run_loop_ok:
  fixes x :: "'os os_ext"
  assumes "run_loop (logged x) program input st (os, l) = Some (v, st', (os', l'))" and "run_ok limits input st l"
  shows "run_ok limits input st' l' \<and> set l \<subseteq> set l' \<and> v \<noteq> Continue \<and>
    (v = Finished \<longrightarrow> within_limits st' \<and> rs_status st' \<noteq> None \<and>
       capture_complete (rs_stdout st') \<and> capture_complete (rs_stderr st'))"
proof -
  define P where "P y program' input' st s r \<longleftrightarrow> (y = logged x \<longrightarrow> program' = program \<longrightarrow> input' = input \<longrightarrow>
      run_ok limits input st (snd s) \<longrightarrow> (case r of (v, st', os', l') \<Rightarrow>
        run_ok limits input st' l' \<and> set (snd s) \<subseteq> set l' \<and> v \<noteq> Continue \<and>
        (v = Finished \<longrightarrow> within_limits st' \<and> rs_status st' \<noteq> None \<and>
           capture_complete (rs_stdout st') \<and> capture_complete (rs_stderr st'))))"
    for y program' input' st and s :: "'os \<times> event list" and r :: "verdict \<times> run_state \<times> 'os \<times> event list"
  have step: "P y program' input' st s r"
    if ih: "\<And>y program' input' st s r. rec y program' input' st s = Some r \<Longrightarrow> P y program' input' st s r"
      and run: "(case round y program' input' st s of
        (Continue, st', s') \<Rightarrow> rec y program' input' st' s' | (v, st', s') \<Rightarrow> Some (v, st', s')) = Some r"
    for rec y program' input' st s r
    unfolding P_def
  proof (intro impI)
    assume eq: "y = logged x" "program' = program" "input' = input" and ok: "run_ok limits input st (snd s)"
    obtain v1 st1 os1 l1 where r1: "round (logged x) program input st s = (v1, st1, (os1, l1))"
      by (metis prod_cases3 surj_pair)
    note ok1 = round_ok [of x program input st "fst s" "snd s", unfolded prod.collapse, OF r1 ok]
    show "case r of (v, st', os', l') \<Rightarrow>
        run_ok limits input st' l' \<and> set (snd s) \<subseteq> set l' \<and> v \<noteq> Continue \<and>
        (v = Finished \<longrightarrow> within_limits st' \<and> rs_status st' \<noteq> None \<and>
           capture_complete (rs_stdout st') \<and> capture_complete (rs_stderr st'))"
    proof (cases v1)
      case Continue
      then have "rec (logged x) program input st1 (os1, l1) = Some r" using run r1 eq by simp
      from ih [OF this] show ?thesis using ok1 unfolding P_def by auto
    qed (use run r1 eq ok1 in auto)
  qed
  note induct = run_loop.raw_induct [of P "((((logged x, program), input), st), (os, l))" "(v, st', os', l')",
      unfolded prod.case]
  have "P (logged x) program input st (os, l) (v, st', os', l')"
  proof (rule induct [OF _ assms(1)])
    fix rec y program' input' st and s :: "'os \<times> event list" and r
    assume ih: "\<And>y program' input' st s r. rec y program' input' st s = Some r \<Longrightarrow> P y program' input' st s r"
      and run: "(case round y program' input' st s of
        (Continue, st', s') \<Rightarrow> rec y program' input' st' s'
      | (Finished, st', s') \<Rightarrow> Some (Finished, st', s')
      | (Failure e, st', s') \<Rightarrow> Some (Failure e, st', s')) = Some r"
    show "P y program' input' st s r" by (rule step [of rec, OF _ run]) (rule ih)
  qed
  then show ?thesis using assms(2) unfolding P_def by simp
qed

section \<open>Cancelling\<close>

lemma reap_until_ok:
  fixes x :: "'os os_ext"
  assumes "reap_until (logged x) deadline (os, l) = Some (r, (os', l'))"
  shows "set l \<subseteq> set l' \<and> (\<forall>n. r = Inr n \<longrightarrow> E_Exit n \<in> set l')"
proof -
  define P where "P y d s q \<longleftrightarrow> (y = logged x \<longrightarrow> (case q of (r, os', l') \<Rightarrow>
      set (snd s) \<subseteq> set l' \<and> (\<forall>n. r = Inr n \<longrightarrow> E_Exit n \<in> set l')))"
    for y and d :: nat and s :: "'os \<times> event list" and q :: "(io_error + int) \<times> 'os \<times> event list"
  note induct = reap_until.raw_induct [of P "((logged x, deadline), (os, l))" "(r, os', l')", unfolded prod.case]
  have "P (logged x) deadline (os, l) (r, os', l')"
  proof (rule induct [OF _ assms])
    fix rec y d and s :: "'os \<times> event list" and q
    assume ih: "\<And>y d s q. rec y d s = Some q \<Longrightarrow> P y d s q"
      and run: "(case os_try_wait y s of
        (Inl e, os1) \<Rightarrow> Some (Inl e, os1)
      | (Inr None, os1) \<Rightarrow>
          (case os_now y os1 of (now, os2) \<Rightarrow>
             if now \<ge> d
             then Some (Inl (Io Timed_Out
               (Msg ''direct child did not exit before the post-cancellation deadline'')), os2)
             else rec y d (os_sleep y os2))
      | (Inr (Some status), os1) \<Rightarrow> Some (Inr status, os1)) = Some q"
    show "P y d s q"
      unfolding P_def
    proof
      assume y: "y = logged x"
      obtain o0 l0 where s: "s = (o0, l0)" by fastforce
      obtain r1 o1 where wait: "os_try_wait x o0 = (r1, o1)" by fastforce
      note run = run [unfolded y s logged_try_wait [OF wait] prod.case]
      show "case q of (r, os', l') \<Rightarrow> set (snd s) \<subseteq> set l' \<and> (\<forall>n. r = Inr n \<longrightarrow> E_Exit n \<in> set l')"
      proof (cases r1)
        case (Inr status)
        show ?thesis
        proof (cases status)
          case None
          show ?thesis
          proof (cases "fst (os_now x o1) \<ge> d")
            case False
            then have "rec (logged x) d (os_sleep x (snd (os_now x o1)), l0) = Some q"
              using run Inr None by simp
            from ih [OF this] show ?thesis unfolding P_def s by simp
          qed (use run Inr None s in auto)
        qed (use run Inr s in auto)
      qed (use run s in auto)
    qed
  qed
  then show ?thesis unfolding P_def by simp
qed

lemma terminate_tree_events: "\<exists>more. snd (terminate_tree (logged x) (os, l)) = more @ E_Kill_Group # l"
proof -
  obtain r os1 where wait: "os_try_wait x (os_kill_group x os) = (r, os1)" by fastforce
  show ?thesis
    unfolding terminate_tree_def logged_quiet logged_try_wait [OF wait]
    by (auto split: sum.split option.split intro: exI [of _ "[_]"] exI [of _ "[]"])
qed

definition cleanup_failed :: io_error where
  "cleanup_failed = Io Other_Kind (Msg ''{primary}; cleanup failed: {error}'')"

lemma cancel_ok:
  assumes "cancel (logged x) e status (os, l) = Some (r, (os', l'))"
  shows "is_ok r = False \<and> E_Kill_Group \<in> set l' \<and> set l \<subseteq> set l' \<and>
    (status \<noteq> None \<or> (\<exists>n. E_Exit n \<in> set l') \<or> r = Inl cleanup_failed)"
proof -
  obtain more where more: "snd (terminate_tree (logged x) (os, l)) = more @ E_Kill_Group # l"
    using terminate_tree_events [of x os l] by (elim exE) (rule that)
  obtain os1 where t: "terminate_tree (logged x) (os, l) = (os1, more @ E_Kill_Group # l)"
    using more by (metis prod.collapse)
  show ?thesis
  proof (cases status)
    case None
    then obtain q os2 where "reap_until (logged x) (fst (os_now x os1) + POST_CANCEL_TIMEOUT)
        (snd (os_now x os1), more @ E_Kill_Group # l) = Some (q, (os2, l'))" and r: "r = Inl (cleanup_error e q)"
      using assms unfolding cancel_def t Let_def by auto
    from reap_until_ok [OF this(1)] show ?thesis
      using r by (cases q) (auto simp: cleanup_failed_def)
  next
    case (Some n)
    then show ?thesis using assms unfolding cancel_def t Let_def by auto
  qed
qed

section \<open>Whole runs\<close>

definition piped :: "'os os_ext \<Rightarrow> bool" where
  "piped x \<longleftrightarrow> (\<forall>c i os out err inp os'. os_spawn x c i os = (Inr (out, err, inp), os') \<longrightarrow> out \<and> err \<and> (i \<longrightarrow> inp))"

definition input_bytes :: "string option \<Rightarrow> string" where
  "input_bytes input = (case input of Some bytes \<Rightarrow> bytes | None \<Rightarrow> [])"

lemma set_nonblocking_log: "snd (snd (set_nonblocking (logged x) i (os, l))) = l"
  by (auto simp: set_nonblocking_def os_try_def os_lift_def split: prod.splits sum.splits)

lemma captured_loop_ok:
  assumes "captured_loop (logged x) program limits input (os, l) = Some (r, (os', l'))"
    and new: "reads Stdout l = []" "reads Stderr l = []" "written l = []" and valid: "validate_limits limits input = Inr ()"
  shows "set l \<subseteq> set l' \<and> (case r of
      Inr out \<Rightarrow>
        po_stdout out = reads Stdout l' \<and> ended Stdout l' \<and> length (po_stdout out) \<le> ol_stdout limits \<and>
        po_stderr out = reads Stderr l' \<and> ended Stderr l' \<and> length (po_stderr out) \<le> ol_stderr limits \<and>
        E_Exit (po_status out) \<in> set l' \<and> (\<exists>k. written l' = take k (input_bytes input)) \<and> hd l' = E_Kill_Group
    | Inl e \<Rightarrow> E_Kill_Group \<in> set l' \<and> ((\<exists>n. E_Exit n \<in> set l') \<or> e = cleanup_failed))"
proof -
  let ?c = "\<lambda>s limit. \<lparr>ca_open = True, ca_bytes = [], ca_limit = limit, ca_stream = s\<rparr>"
  let ?st = "\<lparr>rs_stdout = ?c Stdout (ol_stdout limits), rs_stderr = ?c Stderr (ol_stderr limits),
    rs_writer = \<lparr>wr_open = (input_bytes input \<noteq> []), wr_offset = 0\<rparr>, rs_status = None, rs_direct_exit = None\<rparr>"
  have captures: "capture_new Stdout (ol_stdout limits) = Inr (?c Stdout (ol_stdout limits))"
    "capture_new Stderr (ol_stderr limits) = Inr (?c Stderr (ol_stderr limits))"
    using valid by (auto simp: validate_limits_def capture_new_def result_simps)
  have start: "run_ok limits (input_bytes input) ?st l"
    using new by (auto simp: run_ok_def capture_ok_def writer_ok_def)
  note run = assms(1) [unfolded captured_loop_def captures prod.case sum.case input_bytes_def [symmetric] Let_def]
  obtain v st os1 l1 where loop: "run_loop (logged x) program (input_bytes input) ?st (os, l) = Some (v, st, (os1, l1))"
    using run by (cases "run_loop (logged x) program (input_bytes input) ?st (os, l)") auto
  note ok = run_loop_ok [OF loop start]
  note run = run [unfolded loop option.case prod.case]
  show ?thesis
  proof (cases v)
    case (Failure e)
    then have "cancel (logged x) e (rs_status st) (os1, l1) = Some (r, (os', l'))" using run by simp
    from cancel_ok [OF this] show ?thesis
      using ok by (cases r; cases "rs_status st") (auto simp: run_ok_def)
  next
    case Finished
    then obtain n where n: "rs_status st = Some n" using ok by auto
    then have r: "r = Inr \<lparr>po_status = n, po_stdout = ca_bytes (rs_stdout st), po_stderr = ca_bytes (rs_stderr st)\<rparr>"
      and l: "l' = E_Kill_Group # l1"
      using run Finished by (auto simp: finish_def)
    show ?thesis
      using ok n Finished unfolding r l
      by (auto simp: run_ok_def capture_ok_def writer_ok_def within_limits_def capture_exceeded_def capture_complete_def
          ended_def)
  qed (use ok in simp)
qed

text \<open>
  C34: a bounded run captures everything or fails. Whatever the system does, when a run succeeds,
  the output is all that was read from each pipe up to its end, and within its limit; the status
  is the exit that was seen; what was written is a beginning of the input; and the last action is
  to kill what remains of the group.
\<close>

theorem captured_output_is_complete:
  assumes "output_inner (logged x) command limits input (os, []) = Some (Inr out, (os', log))"
    and "validate_limits limits input = Inr ()"
  shows "po_stdout out = reads Stdout log \<and> ended Stdout log \<and> length (po_stdout out) \<le> ol_stdout limits \<and>
    po_stderr out = reads Stderr log \<and> ended Stderr log \<and> length (po_stderr out) \<le> ol_stderr limits \<and>
    E_Spawn \<in> set log \<and> E_Exit (po_status out) \<in> set log \<and>
    (\<exists>k. written log = take k (input_bytes input)) \<and> hd log = E_Kill_Group"
proof -
  obtain q os1 where s: "os_spawn x command (input \<noteq> None) os = (q, os1)" by fastforce
  obtain h1 h2 h3 where q: "q = Inr (h1, h2, h3)"
    using assms(1) s unfolding output_inner_def Let_def logged_quiet by (cases q) auto
  note spawn = s [unfolded q]
  obtain r2 os2 where n: "set_nonblocking (logged x) (input \<noteq> None) (os1, [E_Spawn]) = (r2, (os2, [E_Spawn]))"
    using set_nonblocking_log by (metis prod.collapse)
  have "captured_loop (logged x) (pc_program command) limits input (os2, [E_Spawn]) = Some (Inr out, (os', log))"
  proof (cases r2)
    case (Inl e)
    then have "cancel (logged x) e None (os2, [E_Spawn]) = Some (Inr out, (os', log))"
      using assms(1) spawn n unfolding output_inner_def Let_def by (auto split: if_splits)
    from cancel_ok [OF this] show ?thesis by simp
  next
    case (Inr u)
    then show ?thesis using assms(1) spawn n unfolding output_inner_def Let_def by (auto split: if_splits)
  qed
  from captured_loop_ok [OF this _ _ _ assms(2)] show ?thesis by auto
qed

text \<open>
  C35: a run that fails leaves no group behind. When a run returns an error, either nothing was
  started, or the group of the child was killed and its exit was seen, or the error says that the
  cleanup failed.
\<close>

theorem failed_run_is_cancelled:
  assumes "output_inner (logged x) command limits input (os, []) = Some (Inl e, (os', log))"
    and "validate_limits limits input = Inr ()" and "piped x"
  shows "E_Spawn \<notin> set log \<or>
    E_Kill_Group \<in> set log \<and> ((\<exists>n. E_Exit n \<in> set log) \<or> e = cleanup_failed)"
proof (cases "is_ok (fst (os_spawn x command (input \<noteq> None) os))")
  case False
  then show ?thesis
    using assms(1) unfolding output_inner_def Let_def logged_quiet by (auto split: sum.splits)
next
  case True
  then obtain h1 h2 h3 os1 where spawn: "os_spawn x command (input \<noteq> None) os = (Inr (h1, h2, h3), os1)"
    by (cases "os_spawn x command (input \<noteq> None) os"; cases "fst (os_spawn x command (input \<noteq> None) os)") auto
  then have handles: "h1" "h2" "input \<noteq> None \<longrightarrow> h3" using assms(3) unfolding piped_def by blast+
  obtain r2 os2 where n: "set_nonblocking (logged x) (input \<noteq> None) (os1, [E_Spawn]) = (r2, (os2, [E_Spawn]))"
    using set_nonblocking_log by (metis prod.collapse)
  show ?thesis
  proof (cases r2)
    case (Inl e2)
    then have "cancel (logged x) e2 None (os2, [E_Spawn]) = Some (Inl e, (os', log))"
      using assms(1) spawn n handles unfolding output_inner_def Let_def by (auto split: if_splits)
    from cancel_ok [OF this] show ?thesis by auto
  next
    case (Inr u)
    then have "captured_loop (logged x) (pc_program command) limits input (os2, [E_Spawn]) = Some (Inl e, (os', log))"
      using assms(1) spawn n handles unfolding output_inner_def Let_def by (auto split: if_splits)
    from captured_loop_ok [OF this _ _ _ assms(2)] show ?thesis by simp
  qed
qed

end
