(* ===== verification/Process_Ends.thy ===== *)
theory Process_Ends
  imports Process_Facts
begin

text \<open>
  A bounded run ends: whatever is read and written, the loop makes progress or lets time pass, and
  after the child's exit only the grace period is left.
\<close>

section \<open>A clock\<close>

text \<open>
  The clock of a system: no operation turns it back, reading it gives its time, a pause lets time
  pass, and at the given time the child has exited, so that asking for its status has an answer.
\<close>

definition ticking :: "('os, 'z) os_ext_scheme \<Rightarrow> ('os \<Rightarrow> nat) \<Rightarrow> nat \<Rightarrow> bool" where
  "ticking x time exit \<longleftrightarrow>
     (\<forall>os. fst (os_now x os) = time os \<and> time os \<le> time (snd (os_now x os)) \<and> time os < time (os_sleep x os)) \<and>
     (\<forall>os s n. time os \<le> time (snd (os_read x s n os))) \<and>
     (\<forall>os b. time os \<le> time (snd (os_write x b os))) \<and>
     (\<forall>os. time os \<le> time (snd (os_try_wait x os))) \<and>
     (\<forall>os. exit \<le> time os \<longrightarrow> fst (os_try_wait x os) \<noteq> Inr None) \<and>
     (\<forall>os. time os \<le> time (snd (os_proc_entries x os))) \<and>
     (\<forall>os n. time os \<le> time (snd (os_proc_stat x n os))) \<and>
     (\<forall>os p. time os \<le> time (snd (os_group x p os))) \<and>
     (\<forall>os p. time os \<le> time (os_kill x p os)) \<and>
     (\<forall>os p. time os \<le> time (snd (os_reap x p os)))"

lemma tickingD:
  assumes "ticking x time exit"
  shows "os_now x os = (n, os') \<Longrightarrow> n = time os \<and> time os \<le> time os'" "time os < time (os_sleep x os)"
    "os_read x s k os = (r1, os') \<Longrightarrow> time os \<le> time os'" "os_write x b os = (r2, os') \<Longrightarrow> time os \<le> time os'"
    "os_try_wait x os = (r3, os') \<Longrightarrow> time os \<le> time os' \<and> (r3 = Inr None \<longrightarrow> time os < exit)"
    "os_proc_entries x os = (r4, os') \<Longrightarrow> time os \<le> time os'" "os_proc_stat x f os = (r5, os') \<Longrightarrow> time os \<le> time os'"
    "os_group x q os = (r6, os') \<Longrightarrow> time os \<le> time os'" "time os \<le> time (os_kill x p os)"
    "os_reap x p os = (r7, os') \<Longrightarrow> time os \<le> time os'"
  using assms unfolding ticking_def by (metis fst_conv snd_conv not_le)+

section \<open>What is left to do\<close>

definition room :: "capture \<Rightarrow> nat" where
  "room c = (if ca_open c then ca_limit c + 2 - length (ca_bytes c) else 0)"

definition writer_room :: "string \<Rightarrow> writer \<Rightarrow> nat" where
  "writer_room input w = (if wr_open w then length input + 1 - wr_offset w else 0)"

definition bounded_capture :: "capture \<Rightarrow> bool" where
  "bounded_capture c \<longleftrightarrow> length (ca_bytes c) \<le> ca_limit c + 1"

text \<open>One step leaves no more to do, and less when it made progress.\<close>

definition advances :: "nat \<Rightarrow> nat \<Rightarrow> io_error + bool \<Rightarrow> bool" where
  "advances before after r \<longleftrightarrow> after \<le> before \<and> (r = Inr True \<longrightarrow> after < before)"

lemma drain_loop_advances:
  assumes "ticking x time exit"
  shows "drain_loop x progressed c os = (r, c', os') \<Longrightarrow> ca_open c \<Longrightarrow> length (ca_bytes c) \<le> ca_limit c \<Longrightarrow>
    bounded_capture c' \<and> time os \<le> time os' \<and> room c' \<le> room c \<and>
    (r = Inr True \<longrightarrow> progressed \<or> room c' < room c)"
proof (induction "ca_limit c + 1 - length (ca_bytes c)" arbitrary: progressed c os rule: less_induct)
  case less
  note run = less(2) and opened = less(3) and here = less(4)
  let ?wanted = "min (ca_limit c + 1 - length (ca_bytes c)) 8192"
  obtain r1 os1 where read: "os_read x (ca_stream c) ?wanted os = (r1, os1)" by fastforce
  note t = tickingD(3) [OF assms read]
  note run = run [unfolded drain_loop.simps [of x progressed c] Let_def read prod.case]
  show ?case
  proof (cases r1)
    case (Inl e)
    then show ?thesis using run t here by (auto simp: bounded_capture_def split: if_splits)
  next
    case (Inr b)
    define got where "got = take ?wanted b"
    have len: "length got \<le> ?wanted" by (auto simp: got_def)
    note run = run [unfolded Inr sum.case got_def [symmetric]]
    let ?c = "c\<lparr>ca_bytes := ca_bytes c @ got\<rparr>"
    show ?thesis
    proof (cases "got = []")
      case True
      then show ?thesis using run t opened here by (auto simp: bounded_capture_def room_def)
    next
      case False
      have smaller: "room ?c < room c" "bounded_capture ?c"
      proof -
        obtain k where "length got = Suc k" using False by (cases got) simp_all
        moreover have "length got \<le> ca_limit c + 1 - length (ca_bytes c)" using len by simp
        ultimately show "room ?c < room c" "bounded_capture ?c"
          using here opened unfolding room_def bounded_capture_def by simp_all
      qed
      show ?thesis
      proof (cases "length (ca_bytes ?c) \<ge> ca_limit c + 1")
        case True
        then show ?thesis using run False t smaller by auto
      next
        case more: False
        then have rest: "drain_loop x True ?c os1 = (r, c', os')" using run False by simp
        have "ca_limit ?c + 1 - length (ca_bytes ?c) < ca_limit c + 1 - length (ca_bytes c)"
          using False here by (cases got) auto
        from less(1) [OF this rest] show ?thesis using smaller opened more t by auto
      qed
    qed
  qed
qed

lemma drain_advances:
  assumes "ticking x time exit" "drain x c os = (r, c', os')" "bounded_capture c"
  shows "bounded_capture c' \<and> time os \<le> time os' \<and> advances (room c) (room c') r"
proof (cases "\<not> ca_open c \<or> length (ca_bytes c) \<ge> ca_limit c + 1")
  case True
  then show ?thesis using assms by (auto simp: drain_def advances_def)
next
  case False
  then have "drain_loop x False c os = (r, c', os')" using assms(2) by (simp add: drain_def)
  from drain_loop_advances [OF assms(1) this] show ?thesis using False by (simp add: advances_def)
qed

lemma write_loop_advances:
  assumes "ticking x time exit"
  shows "write_loop x input progressed w os = (r, w', os') \<Longrightarrow> wr_open w \<Longrightarrow> wr_offset w \<le> length input \<Longrightarrow>
    wr_offset w' \<le> length input \<and> time os \<le> time os' \<and> writer_room input w' \<le> writer_room input w \<and>
    (r = Inr True \<longrightarrow> progressed \<or> writer_room input w' < writer_room input w)"
proof (induction "length input - wr_offset w" arbitrary: progressed w os rule: less_induct)
  case less
  note run = less(2) and opened = less(3) and here = less(4)
  show ?case
  proof (cases "wr_offset w < length input")
    case True
    obtain r1 os1 where wrote: "os_write x (drop (wr_offset w) input) os = (r1, os1)" by fastforce
    note t = tickingD(4) [OF assms wrote]
    note run = run [unfolded write_loop.simps [of x input progressed w] wrote prod.case if_P [OF True] Let_def]
    show ?thesis
    proof (cases r1)
      case (Inl e)
      then show ?thesis using run t here opened by (auto simp: writer_room_def split: if_splits)
    next
      case (Inr accepted)
      define count where "count = min accepted (length input - wr_offset w)"
      note run = run [unfolded Inr sum.case count_def [symmetric]]
      let ?w = "w\<lparr>wr_offset := wr_offset w + count\<rparr>"
      have fits: "wr_offset ?w \<le> length input" using here by (simp add: count_def)
      show ?thesis
      proof (cases "count = 0")
        case True
        then show ?thesis using run t here by auto
      next
        case False
        then have rest: "write_loop x input True ?w os1 = (r, w', os')" using run by simp
        have smaller: "writer_room input ?w < writer_room input w"
          using False fits opened by (auto simp: writer_room_def)
        have "length input - wr_offset ?w < length input - wr_offset w" using False True by simp
        from less(1) [OF this rest] show ?thesis using smaller opened fits t by auto
      qed
    qed
  next
    case False
    then show ?thesis using run here opened by (subst (asm) write_loop.simps) (auto simp: writer_room_def)
  qed
qed

lemma write_input_advances:
  assumes "ticking x time exit" "write_input x input w os = (r, w', os')" "wr_offset w \<le> length input"
  shows "wr_offset w' \<le> length input \<and> time os \<le> time os' \<and> advances (writer_room input w) (writer_room input w') r"
proof (cases "wr_open w")
  case True
  then have "write_loop x input False w os = (r, w', os')" using assms(2) by (simp add: write_input_def)
  from write_loop_advances [OF assms(1) this True assms(3)] show ?thesis by (simp add: advances_def)
next
  case False
  then show ?thesis using assms by (auto simp: write_input_def advances_def)
qed

section \<open>The loop\<close>

definition steady :: "string \<Rightarrow> run_state \<Rightarrow> bool" where
  "steady input st \<longleftrightarrow>
     bounded_capture (rs_stdout st) \<and> bounded_capture (rs_stderr st) \<and> wr_offset (rs_writer st) \<le> length input \<and>
     (rs_status st = None \<longleftrightarrow> rs_direct_exit st = None)"

definition work :: "string \<Rightarrow> run_state \<Rightarrow> nat" where
  "work input st = room (rs_stdout st) + room (rs_stderr st) + writer_room input (rs_writer st)"

definition waiting :: "nat \<Rightarrow> run_state \<Rightarrow> nat \<Rightarrow> nat" where
  "waiting exit st now =
     (case rs_direct_exit st of
        None \<Rightarrow> exit - now + PIPE_CLOSE_GRACE + 1
      | Some started \<Rightarrow> started + PIPE_CLOSE_GRACE - now)"

lemma pump_advances:
  assumes tick: "ticking x time exit" and run: "pump x program input st os = (r, st', os')" and st: "steady input st"
  shows "steady input st' \<and> time os \<le> time os' \<and> work input st' \<le> work input st \<and>
    (r = Inr True \<longrightarrow> work input st' < work input st) \<and>
    rs_status st' = rs_status st \<and> rs_direct_exit st' = rs_direct_exit st"
proof -
  obtain r1 out os1 where d1: "drain x (rs_stdout st) os = (r1, out, os1)" by (metis prod_cases3)
  obtain r2 err os2 where d2: "drain x (rs_stderr st) os1 = (r2, err, os2)" by (metis prod_cases3)
  obtain r3 w os3 where d3: "write_input x input (rs_writer st) os2 = (r3, w, os3)" by (metis prod_cases3)
  note a1 = drain_advances [OF tick d1] and a2 = drain_advances [OF tick d2] and a3 = write_input_advances [OF tick d3]
  note run = run [unfolded pump_def d1 Let_def prod.case]
  show ?thesis
  proof (cases r1)
    case (Inl e)
    then show ?thesis using run a1 st by (auto simp: steady_def work_def advances_def)
  next
    case r1: (Inr p1)
    show ?thesis
    proof (cases r2)
      case (Inl e)
      then show ?thesis using run r1 d2 a1 a2 st by (auto simp: steady_def work_def advances_def)
    next
      case r2: (Inr p2)
      show ?thesis
      proof (cases r3)
        case (Inl e)
        then show ?thesis using run r1 r2 d2 d3 a1 a2 a3 st by (auto simp: steady_def work_def advances_def)
      next
        case r3: (Inr p3)
        let ?st = "st\<lparr>rs_stdout := out, rs_stderr := err, rs_writer := w\<rparr>"
        have st': "st' = ?st" "os' = os3" "r = Inr True \<longrightarrow> p1 \<or> p2 \<or> p3"
          using run r1 r2 r3 d2 d3 by (auto split: if_splits)
        have b: "bounded_capture (rs_stdout st)" "bounded_capture (rs_stderr st)" "wr_offset (rs_writer st) \<le> length input"
          using st by (simp_all add: steady_def)
        have le: "room out \<le> room (rs_stdout st)" "room err \<le> room (rs_stderr st)"
          "writer_room input w \<le> writer_room input (rs_writer st)"
          using a1 a2 a3 b by (simp_all add: advances_def)
        have lt: "p1 \<Longrightarrow> room out < room (rs_stdout st)" "p2 \<Longrightarrow> room err < room (rs_stderr st)"
          "p3 \<Longrightarrow> writer_room input w < writer_room input (rs_writer st)"
          using a1 a2 a3 b r1 r2 r3 by (simp_all add: advances_def)
        have "work input ?st \<le> work input st" using le by (simp add: work_def)
        moreover have "work input ?st < work input st" if "p1 \<or> p2 \<or> p3"
          using that le lt by (auto simp: work_def)
        moreover have "time os \<le> time os3" "steady input ?st" using a1 a2 a3 b st by (auto simp: steady_def)
        ultimately show ?thesis unfolding st'(1,2) using st'(3) by simp
      qed
    qed
  qed
qed

lemma poll_advances:
  assumes tick: "ticking x time exit" and run: "poll_child x program st os = (Inr p, st', os')" and st: "steady input st"
  shows "steady input st' \<and> time os \<le> time os' \<and> work input st' = work input st \<and>
    waiting exit st' (time os') \<le> waiting exit st (time os) \<and>
    (p \<longrightarrow> waiting exit st' (time os') < waiting exit st (time os)) \<and>
    (rs_direct_exit st' = None \<longrightarrow> time os < exit)"
proof (cases "rs_status st = None")
  case True
  obtain r1 os1 where wait: "os_try_wait x os = (r1, os1)" by fastforce
  note t = tickingD(5) [OF tick wait]
  note run = run [unfolded poll_child_def wait prod.case]
  show ?thesis
  proof (cases r1)
    case (Inr s)
    show ?thesis
    proof (cases s)
      case None
      then show ?thesis using run Inr True t st by (auto simp: status_poll_def waiting_def steady_def)
    next
      case (Some n)
      obtain now os2 where clock: "os_now x os1 = (now, os2)" by fastforce
      have now: "now = time os1" "time os1 \<le> time os2" using tickingD(1) [OF tick clock] by simp_all
      have "st' = st\<lparr>rs_status := Some n, rs_direct_exit := Some now\<rparr>" "os' = os2" "p"
        using run Inr Some True clock by (simp_all add: status_poll_def)
      then show ?thesis using st True now t by (auto simp: steady_def work_def waiting_def)
    qed
  qed (use run True in \<open>simp add: status_poll_def\<close>)
next
  case False
  then show ?thesis using run st by (auto simp: poll_child_def steady_def)
qed

lemma round_advances:
  assumes tick: "ticking x time exit" and run: "round x program input st os = (Continue, st', os')"
    and st: "steady input st"
  shows "steady input st' \<and>
    work input st' + waiting exit st' (time os') < work input st + waiting exit st (time os)"
proof -
  obtain r1 st1 os1 where p: "pump x program input st os = (r1, st1, os1)" by (metis prod_cases3)
  note run = run [unfolded round_def p Let_def prod.case]
  obtain p1 where r1: "r1 = Inr p1" using run by (cases r1) auto
  note a1 = pump_advances [OF tick p st]
  obtain r2 st2 os2 where q: "poll_child x program st1 os1 = (r2, st2, os2)" by (metis prod_cases3)
  note run = run [unfolded r1 sum.case q prod.case]
  obtain p2 where r2: "r2 = Inr p2" using run by (cases r2) auto
  have a2: "steady input st2 \<and> time os1 \<le> time os2 \<and> work input st2 = work input st1 \<and>
    waiting exit st2 (time os2) \<le> waiting exit st1 (time os1) \<and>
    (p2 \<longrightarrow> waiting exit st2 (time os2) < waiting exit st1 (time os1)) \<and>
    (rs_direct_exit st2 = None \<longrightarrow> time os1 < exit)"
    using poll_advances [OF tick q [unfolded r2]] a1 by blast
  note run = run [unfolded r2 sum.case]
  have w1: "waiting exit st1 (time os1) \<le> waiting exit st (time os)"
    using a1 by (auto simp: waiting_def split: option.splits)
  have later: "waiting exit st2 n \<le> waiting exit st2 m" if "m \<le> n" for m n
    using that by (auto simp: waiting_def split: option.splits)
  obtain os3 where os': "os' = (if p1 \<or> p2 then os3 else os_sleep x os3)" and st': "st' = st2"
    and t3: "time os2 \<le> time os3"
    and early: "case rs_direct_exit st2 of None \<Rightarrow> os3 = os2 | Some started \<Rightarrow> time os2 < started + PIPE_CLOSE_GRACE"
  proof (cases "rs_direct_exit st2")
    case None
    then show ?thesis using run that by (auto split: if_splits)
  next
    case (Some started)
    obtain now os3 where clock: "os_now x os2 = (now, os3)" by fastforce
    have "now = time os2" "time os2 \<le> time os3" using tickingD(1) [OF tick clock] by simp_all
    then show ?thesis using run Some clock that [of os3] by (auto split: if_splits)
  qed
  show ?thesis
  proof (cases "p1 \<or> p2")
    case True
    then have "time os2 \<le> time os'" using os' t3 by simp
    from later [OF this] show ?thesis using a1 a2 w1 True st' r1 by auto
  next
    case False
    then have "time os3 < time os'" using os' tickingD(2) [OF tick] by simp
    then have t: "time os2 < time os'" using t3 by simp
    have "waiting exit st2 (time os') < waiting exit st1 (time os1)"
    proof (cases "rs_direct_exit st2")
      case None
      then have "rs_direct_exit st1 = None" "time os1 < exit"
        using a2 q r2 by (auto simp: poll_child_def status_poll_def split: if_splits sum.splits option.splits prod.splits)
      then have "exit - time os' < exit - time os1" using t a2 by linarith
      then show ?thesis
        using None \<open>rs_direct_exit st1 = None\<close> by (simp only: waiting_def option.case add_less_cancel_right)
    next
      case (Some started)
      then have "waiting exit st2 (time os') < waiting exit st2 (time os2)"
        using early t by (simp add: waiting_def)
      then show ?thesis using a2 by simp
    qed
    then show ?thesis using a1 a2 w1 st' by auto
  qed
qed

lemma run_loop_returns:
  assumes "ticking x time exit" "steady input st"
  shows "\<exists>r. run_loop x program input st os = Some r"
  using assms(2)
proof (induction "work input st + waiting exit st (time os)" arbitrary: st os rule: less_induct)
  case less
  obtain v st1 os1 where r: "round x program input st os = (v, st1, os1)" by (metis prod_cases3)
  show ?case
  proof (cases v)
    case Continue
    note a = round_advances [OF assms(1) r [unfolded Continue] less(2)]
    then have "\<exists>q. run_loop x program input st1 os1 = Some q" using less(1) by blast
    then show ?thesis using r Continue by (subst run_loop.simps) simp
  qed (use r in \<open>subst run_loop.simps, simp\<close>)+
qed

lemma reap_until_returns:
  assumes "ticking x time exit"
  shows "\<exists>r. reap_until x deadline os = Some r"
proof (induction "deadline - time os" arbitrary: os rule: less_induct)
  case less
  obtain r os1 where wait: "os_try_wait x os = (r, os1)" by fastforce
  obtain now os2 where clock: "os_now x os1 = (now, os2)" by fastforce
  have t: "time os \<le> time os1" "now = time os1" "time os1 \<le> time os2" "time os2 < time (os_sleep x os2)"
    using tickingD(5) [OF assms wait] tickingD(1) [OF assms clock] tickingD(2) [OF assms] by auto
  have again: "\<exists>q. reap_until x deadline (os_sleep x os2) = Some q" if "now < deadline"
    by (rule less) (use that t in simp)
  show ?case
    using wait clock again by (subst reap_until.simps) (auto split: sum.splits option.splits)
qed

section \<open>Descendants\<close>

lemma children_time:
  assumes "ticking x time exit"
  shows "time os \<le> time (snd (children_of x own children entries os))"
proof (induction entries arbitrary: children os)
  case (Cons entry entries)
  show ?case
  proof (cases entry)
    case (Inr name)
    show ?thesis
    proof (cases "Option.bind name parse_i32")
      case (Some pid)
      obtain r os1 where stat: "os_proc_stat x (the name) os = (r, os1)" by fastforce
      note t = tickingD(7) [OF assms stat]
      have "time os \<le> time (snd (children_of x own c entries os1))" for c
        using Cons [of os1 c] t by (rule order_trans [rotated])
      then show ?thesis using Inr Some stat t by (auto split: sum.split)
    qed (use Inr Cons in simp)
  qed (use Cons in simp)
qed simp

lemma direct_children_time:
  assumes "ticking x time exit" "direct_children x os = (r, os')"
  shows "time os \<le> time os'"
proof -
  obtain q os1 where entries: "os_proc_entries x os = (q, os1)" by fastforce
  note t = tickingD(6) [OF assms(1) entries]
  show ?thesis
  proof (cases q)
    case (Inr es)
    then show ?thesis
      using assms(2) entries t children_time [OF assms(1), of os1 "os_pid x os" "[]" es] by (simp add: direct_children_def)
  qed (use assms(2) entries t in \<open>simp add: direct_children_def\<close>)
qed

lemma adopted_time:
  assumes "ticking x time exit"
  shows "time os \<le> time (snd (adopted_children x scope raws os))"
proof (induction raws arbitrary: os)
  case (Cons raw raws)
  obtain r os1 where g: "os_group x (Some raw) os = (r, os1)" by fastforce
  note t = tickingD(8) [OF assms g]
  then show ?case using Cons [of os] Cons [of os1] g by (auto split: sum.split prod.splits)
qed simp

lemma kill_time:
  assumes "ticking x time exit"
  shows "time os \<le> time (kill_all x raws os)"
proof (induction raws arbitrary: os)
  case (Cons raw raws)
  then show ?case using tickingD(9) [OF assms, of os raw] order_trans by fastforce
qed simp

lemma reap_time:
  assumes "ticking x time exit"
  shows "time os \<le> time (snd (reap_all x raws os))"
proof (induction raws arbitrary: os)
  case (Cons raw raws)
  obtain r os1 where g: "os_reap x raw os = (r, os1)" by fastforce
  note t = tickingD(10) [OF assms g]
  then show ?case using Cons [of os1] g by (auto split: sum.split)
qed simp

lemma reap_descendants_returns:
  assumes "ticking x time exit"
  shows "\<exists>r. reap_descendants x scope deadline os = Some r"
proof (induction "deadline - time os" arbitrary: os rule: less_induct)
  case less
  obtain r os1 where c: "direct_children x os = (r, os1)" by fastforce
  show ?case
  proof (cases r)
    case (Inr children)
    obtain adopted os2 where a: "adopted_children x scope children os1 = (adopted, os2)" by fastforce
    obtain q os3 where reap: "reap_all x adopted (kill_all x adopted os2) = (q, os3)" by fastforce
    obtain now os4 where clock: "os_now x os3 = (now, os4)" by fastforce
    have "time os \<le> time os1" "time os1 \<le> time os2" "time os2 \<le> time (kill_all x adopted os2)"
      "time (kill_all x adopted os2) \<le> time os3" "now = time os3" "time os3 \<le> time os4"
      using direct_children_time [OF assms c] adopted_time [OF assms, of os1 scope children] a
        kill_time [OF assms, of os2 adopted] reap_time [OF assms, of "kill_all x adopted os2" adopted] reap
        tickingD(1) [OF assms clock] by simp_all
    then have t: "time os \<le> now" "now < time (os_sleep x os4)"
      using tickingD(2) [OF assms, of os4] by simp_all
    have again: "\<exists>p. reap_descendants x scope deadline (os_sleep x os4) = Some p" if "now < deadline"
      by (rule less) (use that t in simp)
    show ?thesis
      using c Inr a reap clock again by (subst reap_descendants.simps) (auto split: sum.splits)
  qed (use c in \<open>subst reap_descendants.simps, simp\<close>)
qed

section \<open>Whole runs\<close>

lemma cancel_returns: "ticking x time exit \<Longrightarrow> \<exists>r. cancel x e status os = Some r"
  unfolding cancel_def Let_def
  by (cases status; cases "os_now x (terminate_tree x os)") (auto dest!: reap_until_returns)

lemma captured_loop_returns:
  assumes "ticking x time exit"
  shows "\<exists>r. captured_loop x program limits input os = Some r"
proof -
  let ?c = "\<lambda>s limit. \<lparr>ca_open = True, ca_bytes = [], ca_limit = limit, ca_stream = s\<rparr>"
  let ?st = "\<lambda>bytes. \<lparr>rs_stdout = ?c Stdout (ol_stdout limits), rs_stderr = ?c Stderr (ol_stderr limits),
    rs_writer = \<lparr>wr_open = (bytes \<noteq> []), wr_offset = 0\<rparr>, rs_status = None, rs_direct_exit = None\<rparr>"
  have "\<exists>r. run_loop x program bytes (?st bytes) os = Some r" for bytes
    by (rule run_loop_returns [OF assms]) (simp add: steady_def bounded_capture_def)
  then obtain f where f: "\<And>bytes. run_loop x program bytes (?st bytes) os = Some (f bytes)" by metis
  show ?thesis
    unfolding captured_loop_def capture_new_def checked_sentinel_def Let_def
    using cancel_returns [OF assms] by (auto simp: f split: option.split prod.split verdict.split)
qed

lemma output_inner_returns:
  assumes "ticking x time exit"
  shows "\<exists>r. output_inner x command limits input os = Some r"
  unfolding output_inner_def Let_def
  using captured_loop_returns [OF assms] cancel_returns [OF assms] by (auto split: prod.split sum.split)

text \<open>
  C36: a bounded run returns. With a clock that is not turned back and moves on in every pause, and
  a child that has exited at some time, running a command returns an output or an error, whatever
  is read and written, however often a pipe would block, and whatever the descendants do.
\<close>

theorem bounded_run_returns:
  assumes "ticking x time exit"
  shows "\<exists>r. bounded_output x command input limits os = Some r"
proof -
  have "\<exists>r. platform_output x command limits input os = Some r" for command os
  proof -
    obtain q os1 where s: "scope_enter x os = (q, os1)" by fastforce
    show ?thesis
    proof (cases q)
      case (Inr scope)
      obtain result os2 where "output_inner x command limits input os1 = Some (result, os2)"
        using output_inner_returns [OF assms] by (metis prod.collapse)
      moreover have "\<exists>p. terminate_and_reap x scope os2 = Some p"
        unfolding terminate_and_reap_def Let_def using reap_descendants_returns [OF assms] by (auto split: prod.split)
      ultimately show ?thesis using s Inr unfolding platform_output_def by auto
    qed (use s in \<open>simp add: platform_output_def\<close>)
  qed
  then obtain f where f: "\<And>command os. platform_output x command limits input os = Some (f command os)" by metis
  show ?thesis
    unfolding bounded_output_def by (auto simp: f split: sum.split prod.split)
qed

end
