(* ===== verification/Sample_Process.thy ===== *)
theory Sample_Process
  imports Process_Ends
begin

text \<open>
  A small system: each pipe delivers scripted reads, an empty one standing for a pipe that would
  block, the input takes four octets at a time, and the child exits at time 3.
\<close>

record sample_os =
  so_clock :: nat
  so_out :: "string list"
  so_err :: "string list"

definition would_block :: io_error where
  "would_block = Io Would_Block (Msg ''would block'')"

fun scripted :: "nat \<Rightarrow> string list \<Rightarrow> (io_error + string) \<times> string list" where
  "scripted n [] = (Inr [], [])"
| "scripted n ([] # chunks) = (Inl would_block, chunks)"
| "scripted n (chunk # chunks) = (Inr (take n chunk), if length chunk \<le> n then chunks else drop n chunk # chunks)"

fun sample_read :: "stream \<Rightarrow> nat \<Rightarrow> sample_os \<Rightarrow> (io_error + string) \<times> sample_os" where
  "sample_read Stdout n s = (let (r, rest) = scripted n (so_out s) in (r, s\<lparr>so_out := rest\<rparr>))"
| "sample_read Stderr n s = (let (r, rest) = scripted n (so_err s) in (r, s\<lparr>so_err := rest\<rparr>))"

definition sample_files :: "sample_os files_ext" where
  "sample_files =
     \<lparr>os_spawn = (\<lambda>c i s. (Inr (True, True, i), s)), os_nonblocking = (\<lambda>h s. (Inr (), s)),
      os_read = sample_read, os_write = (\<lambda>b s. (Inr (min 4 (length b)), s)),
      os_try_wait = (\<lambda>s. (Inr (if so_clock s \<ge> 3 then Some 0 else None), s)),
      os_now = (\<lambda>s. (so_clock s, s)), os_sleep = (\<lambda>s. s\<lparr>so_clock := so_clock s + 2\<rparr>),
      os_kill_group = (\<lambda>s. s), os_kill_child = (\<lambda>s. s), os_lock = (\<lambda>s. (Inr (), s)),
      os_subreaper = (\<lambda>s. (Inr False, s)), os_set_subreaper = (\<lambda>b s. (Inr (), s)), os_pid = (\<lambda>s. 7),
      os_proc_entries = (\<lambda>s. (Inr [Inr (Some ''7''), Inr (Some ''self'')], s)),
      os_proc_stat = (\<lambda>n s. (Inr ''7 (xtask) S 1 7 7'', s)), os_group = (\<lambda>p s. (Inr 7, s)),
      os_kill = (\<lambda>p s. s), os_reap = (\<lambda>p s. (Inr (), s)), os_no_child = (\<lambda>e. False),
      os_disappeared = (\<lambda>e. False), fs_environment = [], fs_process_id = 7, fs_sequence = (\<lambda>s. (0, s)),
      fs_canonicalize = (\<lambda>p s. (Inr p, s)), fs_is_dir = (\<lambda>p s. True), fs_create_dir = (\<lambda>p s. (Inr (), s)),
      fs_exists = (\<lambda>p s. (Inr False, s)), fs_metadata = (\<lambda>p s. (Inl (Io Not_Found_Kind (Msg ''none'')), s)),
      fs_symlink = (\<lambda>a b s. (Inr (), s)), fs_remove_dir_all = (\<lambda>p s. (Inr (), s))\<rparr>"

definition sample_system :: "sample_os os_ext" where
  "sample_system = os_ext.truncate sample_files"

definition sample_command :: process_command where
  "sample_command = \<lparr>pc_program = ''tool'', pc_args = [], pc_envs = (\<lambda>_. None)\<rparr>"

definition sample_start :: sample_os where
  "sample_start = \<lparr>so_clock = 0, so_out = [''ab'', [], ''cd''], so_err = [[], ''w'']\<rparr>"

lemmas sample_process = sample_system_def sample_files_def sample_command_def sample_start_def os_ext.defs

lemmas run_process = output_inner_def captured_loop_def capture_new_def checked_sentinel_def round_def pump_def
  drain_def drain_loop.simps write_input_def write_loop.simps poll_child_def status_poll_def capture_exceeded_def
  capture_complete_def set_nonblocking_def os_try_def os_lift_def finish_def
  PIPE_CLOSE_GRACE_def logged_def remember_def

section \<open>Runs\<close>

text \<open>A run that ends, and one whose first read shows that its limit is exceeded.\<close>

lemma sample_run:
  "output_inner (logged sample_system) sample_command \<lparr>ol_stdout = 8, ol_stderr = 4\<rparr> (Some ''input'') (sample_start, []) =
    Some (Inr \<lparr>po_status = 0, po_stdout = ''abcd'', po_stderr = ''w''\<rparr>,
      (\<lparr>so_clock = 4, so_out = [], so_err = []\<rparr>,
       [E_Kill_Group, E_Exit 0, E_Read Stderr [], E_Read Stderr ''w'', E_Read Stdout [], E_Read Stdout ''cd'',
        E_Write ''t'', E_Write ''inpu'', E_Read Stdout ''ab'', E_Spawn]))"
  by (simp add: run_process sample_process would_block_def run_loop.simps)

definition sample_exceeded :: io_error where
  "sample_exceeded = Io Invalid_Data (Fmt ''{program} {} exceeded its {}-byte limit'' [''tool'', ''stdout''])"

lemma sample_failed_run:
  "output_inner (logged sample_system) sample_command \<lparr>ol_stdout = 1, ol_stderr = 4\<rparr> None (sample_start, []) =
    Some (Inl sample_exceeded,
      (\<lparr>so_clock = 4, so_out = [[], ''cd''], so_err = [''w'']\<rparr>,
       [E_Exit 0, E_Kill_Child, E_Kill_Group, E_Read Stdout ''ab'', E_Spawn]))"
  by (simp add: run_process sample_process would_block_def run_loop.simps cancel_def terminate_tree_def
    reap_until.simps POST_CANCEL_TIMEOUT_def exceeded_error_def sample_exceeded_def)

lemma sample_limits:
  "validate_limits \<lparr>ol_stdout = 8, ol_stderr = 4\<rparr> (Some ''input'') = Inr ()"
  "validate_limits \<lparr>ol_stdout = 1, ol_stderr = 4\<rparr> None = Inr ()"
  by (simp_all add: validate_limits_def checked_sentinel_def MAX_INPUT_BYTES_def)

section \<open>The theorems on the runs\<close>

theorem captured_output_is_complete_witness:
  "''abcd'' = reads Stdout [E_Kill_Group, E_Exit 0, E_Read Stderr [], E_Read Stderr ''w'', E_Read Stdout [],
      E_Read Stdout ''cd'', E_Write ''t'', E_Write ''inpu'', E_Read Stdout ''ab'', E_Spawn]"
  using captured_output_is_complete [OF sample_run sample_limits(1)] by simp

theorem failed_run_is_cancelled_witness:
  "(\<exists>n. E_Exit n \<in> set [E_Exit 0, E_Kill_Child, E_Kill_Group, E_Read Stdout ''ab'', E_Spawn]) \<and> piped sample_system"
proof -
  have piped: "piped sample_system" by (simp add: piped_def sample_process)
  from failed_run_is_cancelled [OF sample_failed_run sample_limits(2) this]
  show ?thesis using piped by simp
qed

lemma sample_scripted: "sample_read s n os = (r, os') \<Longrightarrow> so_clock os' = so_clock os"
  by (cases s) (auto split: prod.splits)

theorem bounded_run_returns_witness:
  "\<exists>r. bounded_output sample_files sample_command (Some ''input'') \<lparr>ol_stdout = 8, ol_stderr = 4\<rparr> sample_start = Some r"
proof -
  have "so_clock os \<le> so_clock (snd (sample_read s n os))" for s n os
    using sample_scripted [of s n os] by (cases "sample_read s n os") simp
  then have "ticking sample_files so_clock 3" by (simp add: ticking_def sample_files_def)
  from bounded_run_returns [OF this] show ?thesis .
qed

end
