(* ===== verification/Key_Discovery.thy ===== *)
theory Key_Discovery
  imports Signing_Provider Verification Release_Policy
begin

text \<open>
  The discovery of public keys in \<open>examples/github-keys\<close>: \<open>keys.rs\<close>, the decoding and selection of
  keys, and \<open>github.rs\<close>, the pages of the two key resources of an account. The HTTP client is a
  function with a state of its own that the caller passes; OpenSSH keys, JSON, and parsing a URL
  are parameters.
\<close>

section \<open>What the example calls\<close>

text \<open>The parts of an \<open>http::Uri\<close> that are read; the host is that of the authority.\<close>

record uri =
  ur_scheme :: "str option"
  ur_authority :: "str option"
  ur_host :: "str option"
  ur_path :: str
  ur_query :: "str option"

text \<open>
  A public key with its fingerprint; None of \<open>ke_ed25519\<close> is a key of another kind. The entries of
  a JSON array are given as the text of their field \<open>key\<close>, None where it is not there or no text. A
  fingerprint is the text it is written as, and parsing one says whether it is a SHA-256 one. The
  default options of the verifier belong to the crate of its traits.
\<close>

record ('u, 'w, 'k, 'pub) keys_ext = "('u, 'w, 'k) crypto_ext" +
  ke_from_openssh :: "str \<Rightarrow> 'pub option"
  ke_ed25519 :: "'pub \<Rightarrow> bytes option"
  ke_fingerprint :: "'pub \<Rightarrow> str"
  ke_parse_fingerprint :: "str \<Rightarrow> (str \<times> bool) option"
  ke_parse_uri :: "str \<Rightarrow> uri option"
  ke_json_keys :: "bytes \<Rightarrow> str option list option"
  ke_default_options :: verifier_options

text \<open>An error is its message, with arguments only where a caller may act on them.\<close>

datatype retry = After_Seconds nat | At_Timestamp nat | Retry_Later

datatype example_error =
    Failed string
  | Malformed_Line nat
  | Inadmissible_Line nat
  | Rate_Limited nat retry
  | Refused_Status nat
  | Too_Many_Pages str

section \<open>Text\<close>

definition parse_usize :: "str \<Rightarrow> nat option" where
  "parse_usize s = parse_u64 (map (\<lambda>b. char_of (unat b)) s)"

definition show_usize :: "nat \<Rightarrow> str" where
  "show_usize n = ascii (show_nat n)"

text \<open>\<open>str::split\<close> by one octet: one piece more than there are separators.\<close>

fun pieces :: "u8 \<Rightarrow> str \<Rightarrow> str list" where
  "pieces d [] = [[]]"
| "pieces d (b # bs) =
     (if b = d then [] # pieces d bs
      else (case pieces d bs of p # ps \<Rightarrow> (b # p) # ps | [] \<Rightarrow> [[b]]))"

text \<open>The pieces around the last separator, if there is one.\<close>

definition rsplit_once_at :: "u8 \<Rightarrow> str \<Rightarrow> (str \<times> str) option" where
  "rsplit_once_at d s =
     map_option (\<lambda>(before, after). (rev after, rev before)) (Signature_Doc.split_once d (rev s))"

definition is_ascii_space :: "u8 \<Rightarrow> bool" where
  "is_ascii_space b \<longleftrightarrow> b \<in> {0x09, 0x0A, 0x0C, 0x0D, 0x20}"

text \<open>\<open>split_ascii_whitespace\<close>: the pieces that are not empty.\<close>

fun ascii_words :: "str \<Rightarrow> str \<Rightarrow> str list" where
  "ascii_words w [] = (if w = [] then [] else [w])"
| "ascii_words w (b # bs) =
     (if is_ascii_space b then (if w = [] then ascii_words [] bs else w # ascii_words [] bs)
      else ascii_words (w @ [b]) bs)"

definition trim_quotes :: "str \<Rightarrow> str" where
  "trim_quotes s = rev (dropWhile (\<lambda>b. b = 0x22) (rev (dropWhile (\<lambda>b. b = 0x22) s)))"

definition byte_in :: "nat \<Rightarrow> nat \<Rightarrow> u8 \<Rightarrow> bool" where
  "byte_in lo hi b \<longleftrightarrow> lo \<le> unat b \<and> unat b \<le> hi"

definition is_digit_byte :: "u8 \<Rightarrow> bool" where
  "is_digit_byte = byte_in 48 57"

definition is_alphanumeric_byte :: "u8 \<Rightarrow> bool" where
  "is_alphanumeric_byte b \<longleftrightarrow> byte_in 48 57 b \<or> byte_in 65 90 b \<or> byte_in 97 122 b"

definition to_lower_byte :: "u8 \<Rightarrow> u8" where
  "to_lower_byte b = (if byte_in 65 90 b then b + 32 else b)"

definition eq_ignore_ascii_case :: "str \<Rightarrow> str \<Rightarrow> bool" where
  "eq_ignore_ascii_case a b \<longleftrightarrow> map to_lower_byte a = map to_lower_byte b"

definition strip_suffix :: "str \<Rightarrow> str \<Rightarrow> str option" where
  "strip_suffix s suffix = (if ends_with s suffix then Some (take (length s - length suffix) s) else None)"

section \<open>Keys\<close>

record 'k candidate =
  cd_key :: 'k
  cd_fingerprint :: str
  cd_source :: "str option"

definition same_key :: "('u, 'w, 'k, 'z) crypto_ext_scheme \<Rightarrow> 'k \<Rightarrow> 'k \<Rightarrow> bool" where
  "same_key x a b \<longleftrightarrow> ed_vk_as_bytes x a = ed_vk_as_bytes x b"

definition from_public ::
    "('u, 'w, 'k, 'pub, 'z) keys_ext_scheme \<Rightarrow> 'pub \<Rightarrow> example_error + 'k candidate option" where
  "from_public x public =
     (case ke_ed25519 x public of
        None \<Rightarrow> Inr None
      | Some ed25519 \<Rightarrow>
          result_try (map_err (\<lambda>_. Failed ''inadmissible Ed25519 key'') (resolve_ed25519_verifying_key x ed25519)) (\<lambda>key.
          Inr (Some \<lparr>cd_key = key, cd_fingerprint = ke_fingerprint x public, cd_source = None\<rparr>)))"

definition filter_fingerprint ::
    "'k candidate list \<Rightarrow> str option \<Rightarrow> example_error + 'k candidate list" where
  "filter_fingerprint candidates fingerprint =
     (let kept = [c \<leftarrow> candidates. case fingerprint of None \<Rightarrow> True | Some v \<Rightarrow> cd_fingerprint c = v] in
      if kept = [] then Inl (Failed ''no Ed25519 key matches the selected signer and fingerprint'')
      else Inr kept)"

definition push_new ::
    "('u, 'w, 'k, 'z) crypto_ext_scheme \<Rightarrow> 'k candidate list \<Rightarrow> 'k candidate \<Rightarrow> 'k candidate list" where
  "push_new x candidates c =
     (if list_ex (\<lambda>known. same_key x (cd_key known) (cd_key c)) candidates then candidates else candidates @ [c])"

fun parse_key_lines ::
    "('u, 'w, 'k, 'pub, 'z) keys_ext_scheme \<Rightarrow> nat \<Rightarrow> 'k candidate list \<Rightarrow> str list
       \<Rightarrow> example_error + 'k candidate list" where
  "parse_key_lines x index candidates [] = Inr candidates"
| "parse_key_lines x index candidates (line # lines) =
     (let line = trim line in
      if line = [] \<or> starts_with line [0x23] then parse_key_lines x (index + 1) candidates lines
      else
        result_try (ok_or (ke_from_openssh x line) (Malformed_Line (index + 1))) (\<lambda>public.
        result_try (map_err (\<lambda>_. Inadmissible_Line (index + 1)) (from_public x public)) (\<lambda>found.
        parse_key_lines x (index + 1)
          (case found of Some candidate \<Rightarrow> push_new x candidates candidate | None \<Rightarrow> candidates) lines)))"

definition parse_candidates ::
    "('u, 'w, 'k, 'pub, 'z) keys_ext_scheme \<Rightarrow> str \<Rightarrow> example_error + 'k candidate list" where
  "parse_candidates x export = parse_key_lines x 0 [] (Signature_Doc.str_lines export)"

definition parse_export ::
    "('u, 'w, 'k, 'pub, 'z) keys_ext_scheme \<Rightarrow> str \<Rightarrow> example_error + 'k candidate list" where
  "parse_export x export =
     result_try (parse_candidates x export) (\<lambda>candidates.
     if candidates = [] then Inl (Failed ''no supported Ed25519 public keys'') else Inr candidates)"

section \<open>Accounts\<close>

definition MAX_DISCOVERY_BYTES :: nat where "MAX_DISCOVERY_BYTES = 256 * 1024"
definition MAX_PAGES_PER_RESOURCE :: nat where "MAX_PAGES_PER_RESOURCE = 10"
definition PER_PAGE :: nat where "PER_PAGE = 100"

text \<open>An account is the prefix of its two key resources.\<close>

type_synonym account = str

definition account_name_ok :: "str \<Rightarrow> bool" where
  "account_name_ok username \<longleftrightarrow>
     1 \<le> length username \<and> length username \<le> 39 \<and>
     list_all (\<lambda>b. is_alphanumeric_byte b \<or> b = 0x2D) username \<and>
     \<not> starts_with username [0x2D] \<and> \<not> ends_with username [0x2D] \<and>
     [0x2D, 0x2D] \<notin> set (windows username 2)"

definition account_from_str :: "str \<Rightarrow> example_error + account" where
  "account_from_str username =
     (if account_name_ok username then Inr (ascii ''https://api.github.com/users/'' @ username)
      else Inl (Failed ''expected a GitHub username, such as ddurst-nvidia (not a URL)''))"

definition key_urls :: "account \<Rightarrow> str list" where
  "key_urls account = [account @ ascii ''/keys'', account @ ascii ''/ssh_signing_keys'']"

section \<open>One response\<close>

text \<open>
  A response with the octets of its body; a body that fails does so when reading goes on after the
  given number of octets. Header names are in lower case, as \<open>HeaderMap\<close> keeps them.
\<close>

record body_stream =
  bs_octets :: bytes
  bs_fails_after :: "nat option"

record http_response =
  hr_status :: nat
  hr_headers :: "(str \<times> bytes) list"
  hr_body :: body_stream

definition read_up_to :: "nat \<Rightarrow> body_stream \<Rightarrow> bytes option" where
  "read_up_to n b =
     (case bs_fails_after b of
        Some k \<Rightarrow> if k < n then None else Some (take n (bs_octets b))
      | None \<Rightarrow> Some (take n (bs_octets b)))"

definition header_get :: "str \<Rightarrow> http_response \<Rightarrow> bytes option" where
  "header_get name r = map_of (hr_headers r) name"

definition header_all :: "str \<Rightarrow> http_response \<Rightarrow> bytes list" where
  "header_all name r = [v. (n, v) \<leftarrow> hr_headers r, n = name]"

text \<open>\<open>HeaderValue::to_str\<close>: visible ASCII, spaces and tabs.\<close>

definition header_str :: "bytes \<Rightarrow> str option" where
  "header_str v = (if list_all (\<lambda>b. byte_in 32 126 b \<or> b = 9) v then Some v else None)"

definition header_number :: "str \<Rightarrow> http_response \<Rightarrow> nat option" where
  "header_number name r = Option.bind (Option.bind (header_get name r) header_str) parse_usize"

definition check_status :: "http_response \<Rightarrow> example_error + unit" where
  "check_status r =
     (let status = hr_status r;
          exhausted = (header_get (ascii ''x-ratelimit-remaining'') r = Some (ascii ''0'')) in
      if status = 429 \<or> status = 403 \<and> (exhausted \<or> header_get (ascii ''retry-after'') r \<noteq> None)
      then Inl (Rate_Limited status
        (case header_number (ascii ''retry-after'') r of
           Some seconds \<Rightarrow> After_Seconds seconds
         | None \<Rightarrow>
             (case header_number (ascii ''x-ratelimit-reset'') r of
                Some reset \<Rightarrow> At_Timestamp reset
              | None \<Rightarrow> Retry_Later)))
      else if status \<noteq> 200 then Inl (Refused_Status status)
      else Inr ())"

section \<open>Pagination links\<close>

fun link_relation :: "str option \<Rightarrow> str list \<Rightarrow> example_error + str option" where
  "link_relation relation [] = Inr relation"
| "link_relation relation (parameter # parameters) =
     result_try (ok_or (Signature_Doc.split_once 0x3D (trim parameter)) (Failed ''malformed GitHub link parameter''))
       (\<lambda>(name, v).
     if name = ascii ''rel''
     then (if relation \<noteq> None then Inl (Failed ''duplicate GitHub link relation'')
           else link_relation (Some (trim_quotes v)) parameters)
     else link_relation relation parameters)"

fun query_numbers :: "nat option \<Rightarrow> nat option \<Rightarrow> str list \<Rightarrow> example_error + nat option \<times> nat option" where
  "query_numbers next_page per_page [] = Inr (next_page, per_page)"
| "query_numbers next_page per_page (parameter # parameters) =
     result_try (ok_or (Signature_Doc.split_once 0x3D parameter) (Failed ''invalid GitHub pagination parameter''))
       (\<lambda>(name, v).
     let number = ok_or (parse_usize v) (Failed ''invalid GitHub page number'') in
     if name = ascii ''page''
     then (if next_page \<noteq> None then Inl (Failed ''duplicate GitHub pagination parameter'')
           else result_try number (\<lambda>n. query_numbers (Some n) per_page parameters))
     else if name = ascii ''per_page''
     then (if per_page \<noteq> None then Inl (Failed ''duplicate GitHub pagination parameter'')
           else result_try number (\<lambda>n. query_numbers next_page (Some n) parameters))
     else Inl (Failed ''unexpected GitHub pagination parameter''))"

text \<open>The account may be written by its number in a link.\<close>

definition numeric_alias :: "str \<Rightarrow> str \<Rightarrow> bool" where
  "numeric_alias suffix path \<longleftrightarrow>
     (case Option.bind (strip_prefix (ascii ''/user/'') path) (\<lambda>rest. strip_suffix rest suffix) of
        Some num \<Rightarrow> num \<noteq> [] \<and> list_all is_digit_byte num
      | None \<Rightarrow> False)"

definition check_next_link ::
    "('u, 'w, 'k, 'pub, 'z) keys_ext_scheme \<Rightarrow> uri \<Rightarrow> str \<Rightarrow> nat \<Rightarrow> str \<Rightarrow> example_error + unit" where
  "check_next_link x expected suffix page target =
     result_try (ok_or (ke_parse_uri x target) (Failed ''invalid GitHub pagination URL'')) (\<lambda>uri.
     if \<not> (ur_scheme uri = Some (ascii ''https'') \<and> ur_authority uri = Some (ascii ''api.github.com'') \<and>
            0x23 \<notin> set target \<and> (ur_path uri = ur_path expected \<or> numeric_alias suffix (ur_path uri)))
     then Inl (Failed ''GitHub pagination link leaves the expected public-key resource'')
     else
       result_try (ok_or (ur_query uri) (Failed ''GitHub pagination link has no query'')) (\<lambda>query.
       result_try (query_numbers None None (pieces 0x26 query)) (\<lambda>(next_page, per_page).
       if \<not> (next_page = Some (page + 1) \<and> per_page = Some PER_PAGE)
       then Inl (Failed ''GitHub pagination must advance one page with per_page={PER_PAGE}'')
       else Inr ())))"

definition link_is_next :: "str \<Rightarrow> example_error + str \<times> bool" where
  "link_is_next link =
     result_try (ok_or (Signature_Doc.split_once 0x3E (trim link)) (Failed ''malformed GitHub pagination link''))
       (\<lambda>(target, parameters).
     result_try (ok_or (strip_prefix [0x3C] target) (Failed ''malformed GitHub pagination URL'')) (\<lambda>target.
     if \<not> starts_with (trim_start parameters) [0x3B] then Inl (Failed ''missing GitHub link relation'')
     else
       result_try (link_relation None (drop 1 (pieces 0x3B parameters))) (\<lambda>relation.
       result_try (ok_or relation (Failed ''missing GitHub link relation'')) (\<lambda>relation.
       Inr (target, ascii ''next'' \<in> set (ascii_words [] relation))))))"

fun scan_links ::
    "('u, 'w, 'k, 'pub, 'z) keys_ext_scheme \<Rightarrow> uri \<Rightarrow> str \<Rightarrow> nat \<Rightarrow> bool \<Rightarrow> str list \<Rightarrow> example_error + bool" where
  "scan_links x expected suffix page next [] = Inr next"
| "scan_links x expected suffix page next (link # links) =
     result_try (link_is_next link) (\<lambda>(target, is_next).
     if \<not> is_next then scan_links x expected suffix page next links
     else if next then Inl (Failed ''multiple next-page links from GitHub'')
     else
       result_try (check_next_link x expected suffix page target) (\<lambda>_.
       scan_links x expected suffix page True links))"

fun scan_link_headers ::
    "('u, 'w, 'k, 'pub, 'z) keys_ext_scheme \<Rightarrow> uri \<Rightarrow> str \<Rightarrow> nat \<Rightarrow> bool \<Rightarrow> bytes list \<Rightarrow> example_error + bool" where
  "scan_link_headers x expected suffix page next [] = Inr next"
| "scan_link_headers x expected suffix page next (header # headers) =
     result_try (ok_or (header_str header) (Failed ''invalid GitHub Link header'')) (\<lambda>links.
     result_try (scan_links x expected suffix page next (pieces 0x2C links)) (\<lambda>next.
     scan_link_headers x expected suffix page next headers))"

definition has_next_page ::
    "('u, 'w, 'k, 'pub, 'z) keys_ext_scheme \<Rightarrow> http_response \<Rightarrow> str \<Rightarrow> nat \<Rightarrow> example_error + bool" where
  "has_next_page x r endpoint page =
     result_try (ok_or (ke_parse_uri x endpoint) (Failed ''invalid uri'')) (\<lambda>expected.
     result_try (ok_or (rsplit_once_at 0x2F (ur_path expected)) (Failed ''invalid key URL'')) (\<lambda>(_, resource).
     scan_link_headers x expected (0x2F # resource) page False (header_all (ascii ''link'') r)))"

section \<open>Pages\<close>

fun page_keys :: "str option list \<Rightarrow> example_error + str list" where
  "page_keys [] = Inr []"
| "page_keys (record # records) =
     result_try (ok_or record (Failed ''GitHub public-key entry has no string key'')) (\<lambda>key.
     if trim key = [] \<or> 0x0D \<in> set key \<or> 0x0A \<in> set key \<or> starts_with (trim_start key) [0x23]
     then Inl (Failed ''GitHub public-key entry must contain one OpenSSH public key'')
     else result_map (\<lambda>keys. key # keys) (page_keys records))"

definition is_json_media :: "http_response \<Rightarrow> bool" where
  "is_json_media r =
     (case Option.bind (header_get (ascii ''content-type'') r) header_str of
        None \<Rightarrow> False
      | Some header \<Rightarrow>
          (let media = trim (hd (pieces 0x3B header)) in
           eq_ignore_ascii_case media (ascii ''application/json'') \<or>
           eq_ignore_ascii_case media (ascii ''application/vnd.github+json'')))"

definition read_page ::
    "('u, 'w, 'k, 'pub, 'z) keys_ext_scheme \<Rightarrow> http_response \<Rightarrow> nat \<Rightarrow> example_error + str list \<times> nat" where
  "read_page x r remaining =
     (if \<not> is_json_media r then Inl (Failed ''GitHub public-key lookup did not return JSON'')
      else
        result_try (ok_or (read_up_to (remaining + 1) (hr_body r)) (Failed ''could not read GitHub public-key page'')) (\<lambda>octets.
        if length octets > remaining then Inl (Failed ''GitHub public-key discovery exceeds limit 256 KiB'')
        else
          result_try (ok_or (ke_json_keys x octets) (Failed ''invalid GitHub public-key JSON'')) (\<lambda>records.
          result_map (\<lambda>keys. (keys, remaining - length octets)) (page_keys records))))"

section \<open>Discovery\<close>

type_synonym 's http_get = "str \<Rightarrow> 's \<Rightarrow> (example_error + http_response) \<times> 's"

definition page_url :: "str \<Rightarrow> nat \<Rightarrow> str" where
  "page_url endpoint page =
     endpoint @ ascii ''?per_page='' @ show_usize PER_PAGE @ ascii ''&page='' @ show_usize page"

function fetch_pages_from ::
    "('u, 'w, 'k, 'pub, 'z) keys_ext_scheme \<Rightarrow> 's http_get \<Rightarrow> str \<Rightarrow> nat \<Rightarrow> nat \<Rightarrow> str list \<Rightarrow> 's
       \<Rightarrow> (example_error + str list \<times> nat) \<times> 's" where
  "fetch_pages_from x get endpoint page remaining keys s =
     (if page > MAX_PAGES_PER_RESOURCE then (Inl (Too_Many_Pages endpoint), s)
      else
        (case get (page_url endpoint page) s of
           (Inl e, s') \<Rightarrow> (Inl e, s')
         | (Inr response, s') \<Rightarrow>
             (case result_try (check_status response) (\<lambda>_.
                   result_try (has_next_page x response endpoint page) (\<lambda>has_next.
                   result_map (\<lambda>page. (has_next, page)) (read_page x response remaining))) of
                Inl e \<Rightarrow> (Inl e, s')
              | Inr (has_next, found, remaining') \<Rightarrow>
                  if \<not> has_next then (Inr (keys @ found, remaining'), s')
                  else fetch_pages_from x get endpoint (page + 1) remaining' (keys @ found) s')))"
  by pat_completeness auto
termination
  by (relation "measure (\<lambda>(x, get, endpoint, page, remaining, keys, s). MAX_PAGES_PER_RESOURCE + 1 - page)") auto

declare fetch_pages_from.simps [simp del]

definition fetch_resource_pages ::
    "('u, 'w, 'k, 'pub, 'z) keys_ext_scheme \<Rightarrow> 's http_get \<Rightarrow> str \<Rightarrow> nat \<Rightarrow> 's
       \<Rightarrow> (example_error + str list \<times> nat) \<times> 's" where
  "fetch_resource_pages x get endpoint remaining = fetch_pages_from x get endpoint 1 remaining []"

fun join_keys :: "str list \<Rightarrow> str" where
  "join_keys [] = []"
| "join_keys [key] = key"
| "join_keys (key # keys) = key @ 0x0A # join_keys keys"

definition add_from ::
    "('u, 'w, 'k, 'z) crypto_ext_scheme \<Rightarrow> str \<Rightarrow> 'k candidate list \<Rightarrow> 'k candidate list \<Rightarrow> 'k candidate list" where
  "add_from x endpoint candidates found = foldl (\<lambda>cs c. push_new x cs (c\<lparr>cd_source := Some endpoint\<rparr>)) candidates found"

fun fetch_endpoints ::
    "('u, 'w, 'k, 'pub, 'z) keys_ext_scheme \<Rightarrow> 's http_get \<Rightarrow> nat \<Rightarrow> 'k candidate list \<Rightarrow> str list \<Rightarrow> 's
       \<Rightarrow> (example_error + 'k candidate list) \<times> 's" where
  "fetch_endpoints x get remaining candidates [] s = (Inr candidates, s)"
| "fetch_endpoints x get remaining candidates (endpoint # endpoints) s =
     (case fetch_resource_pages x get endpoint remaining s of
        (Inl e, s') \<Rightarrow> (Inl e, s')
      | (Inr (keys, remaining'), s') \<Rightarrow>
          (case parse_candidates x (join_keys keys) of
             Inl e \<Rightarrow> (Inl e, s')
           | Inr found \<Rightarrow> fetch_endpoints x get remaining' (add_from x endpoint candidates found) endpoints s'))"

definition fetch_pages ::
    "('u, 'w, 'k, 'pub, 'z) keys_ext_scheme \<Rightarrow> 's http_get \<Rightarrow> account \<Rightarrow> 's
       \<Rightarrow> (example_error + 'k candidate list) \<times> 's" where
  "fetch_pages x get account s =
     (case fetch_endpoints x get MAX_DISCOVERY_BYTES [] (key_urls account) s of
        (Inl e, s') \<Rightarrow> (Inl e, s')
      | (Inr candidates, s') \<Rightarrow>
          ((if candidates = [] then Inl (Failed ''GitHub account lists no supported Ed25519 public keys'')
            else Inr candidates), s'))"

end
