(* ===== verification/Key_Example.thy ===== *)
theory Key_Example
  imports Key_Discovery
begin

text \<open>
  The commands of \<open>examples/github-keys\<close>: \<open>input.rs\<close>, \<open>agent.rs\<close> and \<open>main.rs\<close>. Signing goes through
  an SSH agent as an awaited provider of the signing crate, verifying through the staged operations
  of the verification crate. What the commands reach in their environment, files, streams, HTTP and
  the agent, is a record of operations on a state of its own.
\<close>

section \<open>The environment\<close>

datatype 'pub agent_identity = Public_Key_Identity 'pub | Other_Identity

text \<open>
  An operation under a timeout is None when the time is over, and Inl when it failed. A signature
  of the agent is whether its algorithm is Ed25519, and its octets.
\<close>

record ('pub, 's) world =
  wd_auth_sock :: "str option"
  wd_connect :: "str \<Rightarrow> 's \<Rightarrow> (unit + unit) option \<times> 's"
  wd_identities :: "'s \<Rightarrow> (unit + 'pub agent_identity list) option \<times> 's"
  wd_agent_sign :: "'pub \<Rightarrow> bytes \<Rightarrow> 's \<Rightarrow> (unit + bool \<times> bytes) option \<times> 's"
  wd_get :: "'s http_get"
  wd_get_input :: "uri \<Rightarrow> 's \<Rightarrow> (example_error + http_response) \<times> 's"
  wd_open :: "str \<Rightarrow> 's \<Rightarrow> (example_error + body_stream) \<times> 's"
  wd_stdin :: "'s \<Rightarrow> body_stream \<times> 's"
  wd_say :: "str \<Rightarrow> 's \<Rightarrow> (example_error + unit) \<times> 's"
  wd_flush_progress :: "'s \<Rightarrow> (example_error + unit) \<times> 's"
  wd_create_new :: "str \<Rightarrow> 's \<Rightarrow> (example_error + unit) \<times> 's"
  wd_write_file :: "bytes \<Rightarrow> 's \<Rightarrow> (example_error + unit) \<times> 's"
  wd_write_out :: "bytes \<Rightarrow> 's \<Rightarrow> (example_error + unit) \<times> 's"
  wd_flush_out :: "'s \<Rightarrow> (example_error + unit) \<times> 's"

type_synonym ('s, 'a) act = "'s \<Rightarrow> ((example_error + 'a) \<times> 's) exec"

definition act_try :: "('s, 'a) act \<Rightarrow> ('a \<Rightarrow> ('s, 'b) act) \<Rightarrow> ('s, 'b) act" where
  "act_try m f s = exec_bind (m s) (\<lambda>(r, s'). case r of Inl e \<Rightarrow> Done (Inl e, s') | Inr a \<Rightarrow> f a s')"

definition act_do :: "('s \<Rightarrow> (example_error + 'a) \<times> 's) \<Rightarrow> ('s, 'a) act" where
  "act_do m s = Done (m s)"

definition act_lift :: "example_error + 'a \<Rightarrow> ('s, 'a) act" where
  "act_lift r s = Done (r, s)"

section \<open>Input\<close>

definition MAX_DOCUMENT_BYTES :: nat where "MAX_DOCUMENT_BYTES = 4194304"

datatype input = Input_File str | Input_Stdin | Input_Url uri

definition input_from_str :: "('u, 'w, 'k, 'pub, 'z) keys_ext_scheme \<Rightarrow> str \<Rightarrow> example_error + input" where
  "input_from_str x v =
     (if v = ascii ''stdin'' then Inr Input_Stdin
      else if ascii ''://'' \<in> set (windows v 3)
      then
        result_try (ok_or (ke_parse_uri x v) (Failed ''invalid input URL'')) (\<lambda>uri.
        if (ur_scheme uri = Some (ascii ''http'') \<or> ur_scheme uri = Some (ascii ''https'')) \<and> ur_host uri \<noteq> None \<and>
           (case ur_authority uri of Some part \<Rightarrow> 0x40 \<notin> set part | None \<Rightarrow> False) \<and> 0x23 \<notin> set v
        then Inr (Input_Url uri)
        else Inl (Failed ''input URL must use HTTP or HTTPS without embedded credentials or a fragment''))
      else Inr (Input_File v))"

definition read_limited :: "body_stream \<Rightarrow> example_error + bytes" where
  "read_limited b =
     result_try (ok_or (read_up_to (MAX_DOCUMENT_BYTES + 1) b) (Failed ''could not read'')) (\<lambda>octets.
     if length octets \<le> MAX_DOCUMENT_BYTES then Inr octets
     else Inl (Failed ''input document exceeds the {MAX_DOCUMENT_BYTES}-byte example limit''))"

definition read_response :: "http_response \<Rightarrow> example_error + bytes" where
  "read_response r = (if hr_status r \<noteq> 200 then Inl (Refused_Status (hr_status r)) else read_limited (hr_body r))"

definition fetch_input :: "('pub, 's, 'y) world_scheme \<Rightarrow> uri \<Rightarrow> ('s, bytes) act" where
  "fetch_input w uri = act_try (act_do (wd_get_input w uri)) (\<lambda>response. act_lift (read_response response))"

fun read_input :: "('pub, 's, 'y) world_scheme \<Rightarrow> input \<Rightarrow> ('s, bytes) act" where
  "read_input w (Input_File path) = act_try (act_do (wd_open w path)) (\<lambda>file. act_lift (read_limited file))"
| "read_input w Input_Stdin = (\<lambda>s. let (stdin, s') = wd_stdin w s in Done (read_limited stdin, s'))"
| "read_input w (Input_Url uri) = fetch_input w uri"

section \<open>The SSH agent\<close>

definition connect :: "('pub, 's, 'y) world_scheme \<Rightarrow> ('s, unit) act" where
  "connect w =
     (case wd_auth_sock w of
        None \<Rightarrow> act_lift (Inl (Failed ''SSH_AUTH_SOCK is not set; start an SSH agent and load your demo key with ssh-add''))
      | Some socket \<Rightarrow>
          if socket = []
          then act_lift (Inl (Failed ''SSH_AUTH_SOCK is not set; start an SSH agent and load your demo key with ssh-add''))
          else act_do (\<lambda>s. let (answer, s') = wd_connect w socket s in
            ((case answer of
                None \<Rightarrow> Inl (Failed ''SSH-agent connection timed out'')
              | Some (Inl _) \<Rightarrow> Inl (Failed ''could not connect to the SSH agent'')
              | Some (Inr _) \<Rightarrow> Inr ()), s')))"

fun supported_identities ::
    "('u, 'w, 'k, 'pub, 'z) keys_ext_scheme \<Rightarrow> ('pub \<times> 'k candidate) list \<Rightarrow> 'pub agent_identity list
       \<Rightarrow> example_error + ('pub \<times> 'k candidate) list" where
  "supported_identities x supported [] = Inr supported"
| "supported_identities x supported (Other_Identity # identities) = supported_identities x supported identities"
| "supported_identities x supported (Public_Key_Identity key # identities) =
     result_try (from_public x key) (\<lambda>found.
     supported_identities x
       (case found of
          Some candidate \<Rightarrow>
            if list_ex (\<lambda>(_, known). same_key x (cd_key known) (cd_key candidate)) supported then supported
            else supported @ [(key, candidate)]
        | None \<Rightarrow> supported) identities)"

definition session_open ::
    "('u, 'w, 'k, 'pub, 'z) keys_ext_scheme \<Rightarrow> ('pub, 's, 'y) world_scheme \<Rightarrow> ('s, ('pub \<times> 'k candidate) list) act" where
  "session_open x w =
     act_try (act_do (\<lambda>s. let (answer, s') = wd_identities w s in
         ((case answer of
             None \<Rightarrow> Inl (Failed ''SSH-agent key listing timed out'')
           | Some (Inl _) \<Rightarrow> Inl (Failed ''could not list SSH-agent keys'')
           | Some (Inr identities) \<Rightarrow> Inr identities), s'))) (\<lambda>identities.
     if identities = [] then act_lift (Inl (Failed ''SSH agent has no identities; load your demo key with ssh-add''))
     else
       act_try (act_lift (supported_identities x [] identities)) (\<lambda>supported.
       if supported = []
       then act_lift (Inl (Failed
         ''SSH agent has no supported ordinary Ed25519 keys; load your demo key with ssh-add''))
       else act_lift (Inr supported)))"

fun select_from ::
    "('u, 'w, 'k, 'z) crypto_ext_scheme \<Rightarrow> 'k candidate list option \<Rightarrow> str option
       \<Rightarrow> ('pub \<times> 'k candidate) option \<Rightarrow> ('pub \<times> 'k candidate) list
       \<Rightarrow> example_error + ('pub \<times> 'k candidate) option" where
  "select_from x candidates fingerprint matched [] = Inr matched"
| "select_from x candidates fingerprint matched ((key, public) # identities) =
     (let candidate = (case candidates of
          Some cs \<Rightarrow> List.find (\<lambda>c. same_key x (cd_key c) (cd_key public)) cs
        | None \<Rightarrow> Some public) in
      case Option.bind candidate
          (\<lambda>c. if (case fingerprint of None \<Rightarrow> True | Some v \<Rightarrow> cd_fingerprint c = v) then Some c else None) of
        None \<Rightarrow> select_from x candidates fingerprint matched identities
      | Some c \<Rightarrow>
          (case matched of
             Some (_, previous) \<Rightarrow>
               if same_key x (cd_key previous) (cd_key c)
               then select_from x candidates fingerprint matched identities
               else Inl (Failed ''multiple SSH-agent keys match this signer'')
           | None \<Rightarrow> select_from x candidates fingerprint (Some (key, c)) identities))"

definition select_identity ::
    "('u, 'w, 'k, 'z) crypto_ext_scheme \<Rightarrow> ('pub \<times> 'k candidate) list \<Rightarrow> 'k candidate list option \<Rightarrow> str option
       \<Rightarrow> example_error + 'pub \<times> 'k candidate" where
  "select_identity x identities candidates fingerprint =
     result_try (select_from x candidates fingerprint None identities) (\<lambda>matched.
     ok_or matched (Failed ''no SSH-agent Ed25519 key matches the selected signer and fingerprint''))"

text \<open>
  The adapter holds its connection while it is there: signing takes it, and puts it back only
  with a signature of the right kind and length.
\<close>

definition agent_try_sign :: "('pub, 's, 'y) world_scheme \<Rightarrow> 'pub \<Rightarrow> ('s \<times> bool, unit) adapter" where
  "agent_try_sign w public message =
     (\<lambda>(s, connection).
        if \<not> connection then Done (Inl (), (s, False))
        else
          (case wd_agent_sign w public message s of
             (Some (Inr (is_ed25519, octets)), s') \<Rightarrow>
               if \<not> is_ed25519 \<or> length octets \<noteq> 64 then Done (Inl (), (s', False))
               else Done (Inr octets, (s', True))
           | (_, s') \<Rightarrow> Done (Inl (), (s', False))))"

section \<open>Signers\<close>

datatype 'k signer = Signer_GitHub account | Signer_Public_Key "'k candidate"

definition signer_from_str ::
    "('u, 'w, 'k, 'pub, 'z) keys_ext_scheme \<Rightarrow> str \<Rightarrow> example_error + 'k signer" where
  "signer_from_str x v =
     (let line = trim v in
      if list_ex is_whitespace (chars line)
      then
        (if length (Signature_Doc.str_lines line) \<noteq> 1 then Inl (Failed ''supply exactly one SSH public key'')
         else
           result_try (parse_export x line) (\<lambda>keys.
           if keys = [] then Inl (Failed ''missing public key'') else Inr (Signer_Public_Key (last keys))))
      else result_map Signer_GitHub (account_from_str v))"

definition parse_fingerprint :: "('u, 'w, 'k, 'pub, 'z) keys_ext_scheme \<Rightarrow> str \<Rightarrow> example_error + str" where
  "parse_fingerprint x v =
     result_try (ok_or (ke_parse_fingerprint x v) (Failed ''invalid SSH fingerprint'')) (\<lambda>(fingerprint, is_sha256).
     if is_sha256 then Inr fingerprint else Inl (Failed ''use a SHA256 fingerprint''))"

definition say :: "('pub, 's, 'y) world_scheme \<Rightarrow> str \<Rightarrow> ('s, unit) act" where
  "say w line = act_do (wd_say w line)"

fun say_all :: "('pub, 's, 'y) world_scheme \<Rightarrow> str list \<Rightarrow> ('s, unit) act" where
  "say_all w [] = act_lift (Inr ())"
| "say_all w (line # lines) = act_try (say w line) (\<lambda>_. say_all w lines)"

definition resolve_signer ::
    "('u, 'w, 'k, 'pub, 'z) keys_ext_scheme \<Rightarrow> ('pub, 's, 'y) world_scheme \<Rightarrow> 'k signer
       \<Rightarrow> ('s, 'k candidate list) act" where
  "resolve_signer x w who =
     (case who of
        Signer_GitHub account \<Rightarrow>
          act_try (say_all w (map (\<lambda>url. ascii ''Account key URL: '' @ url) (key_urls account))) (\<lambda>_.
          act_do (fetch_pages x (wd_get w) account))
      | Signer_Public_Key candidate \<Rightarrow>
          act_try (say w (ascii ''Using the supplied public key; no GitHub key lookup.'')) (\<lambda>_.
          act_lift (Inr [candidate])))"

definition print_step :: "('pub, 's, 'y) world_scheme \<Rightarrow> nat \<Rightarrow> nat \<Rightarrow> string \<Rightarrow> ('s, unit) act" where
  "print_step w step steps title =
     act_try (say w (ascii ''====== '' @ show_usize step @ ascii ''/'' @ show_usize steps @ ascii '' '' @ ascii title
       @ ascii '' ======'')) (\<lambda>_. act_do (wd_flush_progress w))"

definition print_match :: "('pub, 's, 'y) world_scheme \<Rightarrow> 'k candidate \<Rightarrow> ('s, unit) act" where
  "print_match w c =
     say_all w ((case cd_source c of Some source \<Rightarrow> [ascii ''Account key URL: '' @ source] | None \<Rightarrow> [])
       @ [ascii ''Public-key fingerprint: '' @ cd_fingerprint c])"

definition resource_limits :: artifact_resource_limits where
  "resource_limits = with_max_artifact_bytes unbounded MAX_DOCUMENT_BYTES"

section \<open>Signing\<close>

definition example_request ::
    "bytes \<Rightarrow> 'k candidate \<Rightarrow> ('s, 'x, 'k) async_provider_signing_key
       \<Rightarrow> (('s, 'x, 'k) async_provider_signing_key, ('s, 'x, 'k) async_provider_signing_key) sign_request" where
  "example_request payload matched key =
     \<lparr>sreq_payload = payload, sreq_algorithm = Ed25519, sreq_key = SK_Ed25519 key,
      sreq_keyid = cd_source matched, sreq_append_missing_final_newline = True,
      sreq_output_form = OF_Yaml, sreq_algorithm_parameters = []\<rparr>"

definition sign_payload_with_agent ::
    "('u, 'w, 'k, 'pub, 'z) keys_ext_scheme \<Rightarrow> ('pub, 's, 'y) world_scheme \<Rightarrow> bytes \<Rightarrow> 'pub \<Rightarrow> 'k candidate
       \<Rightarrow> ('s, bytes) act" where
  "sign_payload_with_agent x w payload public matched s =
     (case async_builder_build x
         (async_builder_ed25519 (agent_try_sign w public) (ed_vk_as_bytes x (cd_key matched))) of
        Inl _ \<Rightarrow> Done (Inl (Failed ''could not bind the SSH-agent public key''), s)
      | Inr key \<Rightarrow>
          exec_map (\<lambda>(signed, (s', _)).
            ((case signed of
                Inl _ \<Rightarrow> Inl (Failed ''signed document exceeds the example limit'')
              | Inr (Inl _) \<Rightarrow> Inl (Failed ''could not encode signed YAML'')
              | Inr (Inr (SO_Success success)) \<Rightarrow> Inr (ss_artifact success)
              | Inr (Inr (SO_Invocation _)) \<Rightarrow> Inl (Failed ''signing invocation failed: {error}'')
              | Inr (Inr (SO_Signer _)) \<Rightarrow> Inl (Failed ''SSH-agent signing failed: {error}'')), s'))
            (sign_with_async_provider_and_resource_limits x (example_request payload matched key) resource_limits
              (s, True)))"

fun write_signed :: "('pub, 's, 'y) world_scheme \<Rightarrow> str option \<Rightarrow> bytes \<Rightarrow> ('s, unit) act" where
  "write_signed w (Some destination) artifact =
     act_try (act_do (wd_create_new w destination)) (\<lambda>_.
     act_try (act_do (wd_write_file w artifact)) (\<lambda>_.
     say_all w [ascii ''====== STATUS ======'', ascii ''Signed YAML written to '' @ destination @ ascii ''.'']))"
| "write_signed w None artifact =
     act_try (act_do (wd_write_out w artifact)) (\<lambda>_.
     act_try (act_do (wd_flush_out w)) (\<lambda>_.
     say_all w [ascii ''====== STATUS ======'', ascii ''Signed YAML written to stdout.'']))"

definition sign_candidates ::
    "('u, 'w, 'k, 'pub, 'z) keys_ext_scheme \<Rightarrow> ('pub, 's, 'y) world_scheme \<Rightarrow> 'k signer option
       \<Rightarrow> ('s, 'k candidate list option) act" where
  "sign_candidates x w who =
     (case who of
        Some who \<Rightarrow> act_try (resolve_signer x w who) (\<lambda>candidates. act_lift (Inr (Some candidates)))
      | None \<Rightarrow>
          act_try (say w (ascii ''Using SSH-agent public identities; no GitHub key lookup.'')) (\<lambda>_.
          act_lift (Inr None)))"

definition run_sign ::
    "('u, 'w, 'k, 'pub, 'z) keys_ext_scheme \<Rightarrow> ('pub, 's, 'y) world_scheme \<Rightarrow> 'k signer option \<Rightarrow> str option
       \<Rightarrow> input \<Rightarrow> str option \<Rightarrow> ('s, unit) act" where
  "run_sign x w who key_fingerprint input destination =
     act_try (say w (ascii ''REMINDER: Signing a document does not validate its contents.'')) (\<lambda>_.
     act_try (print_step w 1 6 ''Check SSH agent'') (\<lambda>_.
     act_try (connect w) (\<lambda>_.
     act_try (session_open x w) (\<lambda>session.
     act_try (print_step w 2 6 ''Read unsigned YAML'') (\<lambda>_.
     act_try (read_input w input) (\<lambda>payload.
     act_try (say w (ascii ''Read '' @ show_usize (length payload) @ ascii '' input bytes.'')) (\<lambda>_.
     act_try (print_step w 3 6 ''Resolve public keys'') (\<lambda>_.
     act_try (sign_candidates x w who) (\<lambda>candidates.
     act_try (print_step w 4 6 ''Select SSH-agent key'') (\<lambda>_.
     act_try (act_lift (select_identity x session candidates key_fingerprint)) (\<lambda>(public, matched).
     act_try (print_match w matched) (\<lambda>_.
     act_try (print_step w 5 6 ''Sign YAML through the SSH agent'') (\<lambda>_.
     act_try (sign_payload_with_agent x w payload public matched) (\<lambda>artifact.
     act_try (print_step w 6 6 ''Write signed YAML'') (\<lambda>_.
     act_try (write_signed w destination artifact) (\<lambda>_.
     print_match w matched))))))))))))))))"

section \<open>Verifying\<close>

record verified_document =
  vd_payload :: bytes
  vd_fingerprint :: str
  vd_source :: "str option"

fun try_candidates ::
    "('u, 'w, 'k, 'pub, 'z) keys_ext_scheme \<Rightarrow> pre_verify_response \<Rightarrow> 'k candidate list
       \<Rightarrow> (example_error + verified_document) exec" where
  "try_candidates x pre [] =
     Done (Inl (Failed ''signature does not match any Ed25519 key for the selected signer''))"
| "try_candidates x pre (candidate # candidates) =
     exec_bind (verify_from_pre_verify_yaml x pre \<lparr>pk_ed25519 = Some (cd_key candidate), pk_p256 = None\<rparr>
         ((ke_default_options x)\<lparr>vo_verify_ecdsa_p256_sha256 := False\<rparr>)) (\<lambda>verdict.
       case verdict of
         Inl _ \<Rightarrow> Done (Inl (Failed ''verification invocation failed''))
       | Inr (VS_Verified payload _) \<Rightarrow>
           Done (Inr \<lparr>vd_payload = payload, vd_fingerprint = cd_fingerprint candidate,
             vd_source = cd_source candidate\<rparr>)
       | Inr VS_SignedButFailedVerification \<Rightarrow> try_candidates x pre candidates
       | Inr _ \<Rightarrow> Done (Inl (Failed ''artifact cannot be verified: {other}'')))"

definition verify_artifact ::
    "('u, 'w, 'k, 'pub, 'z) keys_ext_scheme \<Rightarrow> ('pub, 's, 'y) world_scheme \<Rightarrow> bytes
       \<Rightarrow> ('s, 'k candidate list) act \<Rightarrow> str option \<Rightarrow> ('s, verified_document) act" where
  "verify_artifact x w artifact resolve fingerprint =
     act_try (print_step w 3 5 ''Check signature metadata'') (\<lambda>_.
     act_try (\<lambda>s. exec_map (\<lambda>r. (map_err (\<lambda>_. Failed ''signed document exceeds the example limit'') r, s))
       (pre_verify_yaml_with_resource_limits x artifact False resource_limits)) (\<lambda>pre.
     if pr_outcome pre \<noteq> PV_Ok then act_lift (Inl (Failed ''artifact cannot be verified: {:?}''))
     else
       act_try (act_lift (ok_or (pr_unverified_signature pre) (Failed ''missing signature metadata''))) (\<lambda>metadata.
       if us_algorithm metadata \<noteq> Ed25519 then act_lift (Inl (Failed ''this example verifies Ed25519 only''))
       else
         act_try (print_step w 4 5 ''Resolve public keys'') (\<lambda>_.
         act_try resolve (\<lambda>resolved.
         act_try (act_lift (filter_fingerprint resolved fingerprint)) (\<lambda>candidates.
         act_try (say w (ascii ''Supported Ed25519 keys: '' @ show_usize (length candidates) @ ascii ''.'')) (\<lambda>_.
         act_try (print_step w 5 5 ''Verify the signature'') (\<lambda>_.
         \<lambda>s. exec_map (\<lambda>r. (r, s)) (try_candidates x pre candidates)))))))))"

definition run_verify ::
    "('u, 'w, 'k, 'pub, 'z) keys_ext_scheme \<Rightarrow> ('pub, 's, 'y) world_scheme \<Rightarrow> 'k signer option \<Rightarrow> str option
       \<Rightarrow> input \<Rightarrow> ('s, verified_document) act" where
  "run_verify x w who key_fingerprint input =
     act_try (say w (ascii ''REMINDER: We are validating the document's signature, not the document itself.'')) (\<lambda>_.
     act_try (print_step w 1 5 ''Check key source'') (\<lambda>_.
     act_try
       (case who of
          None \<Rightarrow>
            act_try (connect w) (\<lambda>_.
            act_try (session_open x w) (\<lambda>session.
            act_try (say w (ascii ''Using SSH-agent public identities; no GitHub key lookup.'')) (\<lambda>_.
            act_lift (Inr (map snd session)))))
        | Some _ \<Rightarrow>
            act_try (say w (ascii ''Explicit signer selected; no SSH agent needed.'')) (\<lambda>_.
            act_lift (Inr []))) (\<lambda>agent_candidates.
     act_try (print_step w 2 5 ''Read signed YAML'') (\<lambda>_.
     act_try (read_input w input) (\<lambda>artifact.
     act_try (say w (ascii ''Read '' @ show_usize (length artifact) @ ascii '' input bytes.'')) (\<lambda>_.
     act_try (verify_artifact x w artifact
         (case who of Some who \<Rightarrow> resolve_signer x w who | None \<Rightarrow> act_lift (Inr agent_candidates))
         key_fingerprint) (\<lambda>verified.
     act_try (say w (ascii ''====== STATUS ======'')) (\<lambda>_.
     act_try (print_match w \<lparr>cd_key = (), cd_fingerprint = vd_fingerprint verified, cd_source = vd_source verified\<rparr>) (\<lambda>_.
     act_try (say w (ascii ''Signature verified ('' @ show_usize (length (vd_payload verified)) @ ascii '' payload bytes).'')) (\<lambda>_.
     act_lift (Inr verified)))))))))))"

text \<open>The command line as parsed.\<close>

datatype 'k command =
    Command_Sign "'k signer option" "str option" input "str option"
  | Command_Verify "'k signer option" "str option" input

definition run_command ::
    "('u, 'w, 'k, 'pub, 'z) keys_ext_scheme \<Rightarrow> ('pub, 's, 'y) world_scheme \<Rightarrow> 'k command \<Rightarrow> ('s, unit) act" where
  "run_command x w cmd =
     (case cmd of
        Command_Sign who key_fingerprint input destination \<Rightarrow> run_sign x w who key_fingerprint input destination
      | Command_Verify who key_fingerprint input \<Rightarrow>
          act_try (run_verify x w who key_fingerprint input) (\<lambda>_. act_lift (Inr ())))"

end
