(* ===== verification/Key_Facts.thy ===== *)
theory Key_Facts
  imports Key_Example Sign_Verify
begin

text \<open>
  What the discovery of keys guarantees: the requests it makes, that an answer it refuses fails it,
  and that its keys are all the keys of both resources.
\<close>

section \<open>Account names\<close>

lemma pieces_not_Nil [simp]: "pieces d s \<noteq> []"
  by (induction s) (auto split: list.split)

lemma pieces_all:
  "list_all (\<lambda>b. P b \<or> b = d) s \<longleftrightarrow> list_all (list_all (\<lambda>b. P b \<or> b = d)) (pieces d s)"
  by (induction s) (auto split: list.split)

lemma pieces_no_separator: "p \<in> set (pieces d s) \<Longrightarrow> d \<notin> set p"
  by (induction s arbitrary: p) (auto split: list.splits if_splits)

lemma windows_two_short [simp]: "windows [] 2 = []" "windows [b] 2 = []"
  by (simp_all add: windows_def)

lemma windows_two_Cons:
  "[d, d] \<in> set (windows (b # s) 2) \<longleftrightarrow> (b = d \<and> s \<noteq> [] \<and> hd s = d) \<or> [d, d] \<in> set (windows s 2)"
proof -
  have "(\<exists>as bs. b # s = as @ [d, d] @ bs) \<longleftrightarrow>
      (b = d \<and> s \<noteq> [] \<and> hd s = d) \<or> (\<exists>as bs. s = as @ [d, d] @ bs)"
    by (cases s) (auto simp: Cons_eq_append_conv)
  then show ?thesis by (simp add: mem_windows_iff)
qed

lemma pieces_filled:
  "[] \<notin> set (pieces d s) \<longleftrightarrow> s \<noteq> [] \<and> hd s \<noteq> d \<and> last s \<noteq> d \<and> [d, d] \<notin> set (windows s 2)"
proof (induction s rule: length_induct)
  case (1 s)
  show ?case
  proof (cases s)
    case Nil
    then show ?thesis by simp
  next
    case s: (Cons b u)
    show ?thesis
    proof (cases u)
      case Nil
      then show ?thesis using s by (simp add: windows_def)
    next
      case u: (Cons c t)
      have IH: "[] \<notin> set (pieces d u) \<longleftrightarrow> hd u \<noteq> d \<and> last u \<noteq> d \<and> [d, d] \<notin> set (windows u 2)"
        "[] \<notin> set (pieces d t) \<longleftrightarrow> t \<noteq> [] \<and> hd t \<noteq> d \<and> last t \<noteq> d \<and> [d, d] \<notin> set (windows t 2)"
        using 1 [rule_format, of u] 1 [rule_format, of t] s u by (simp_all del: pieces.simps)
      consider "b = d" | "b \<noteq> d" "c = d" | "b \<noteq> d" "c \<noteq> d" by blast
      then show ?thesis
      proof cases
        case 1
        then show ?thesis unfolding s by simp
      next
        case 2
        then show ?thesis unfolding s u using IH(2) by (cases "t = []") (auto simp: windows_two_Cons)
      next
        case 3
        then obtain p ps where "pieces d u = (c # p) # ps"
          using u by (cases "pieces d t") auto
        then show ?thesis using IH(1) s u 3 by (auto simp: windows_two_Cons)
      qed
    qed
  qed
qed

text \<open>
  The accepted names. A name is accepted exactly when it has at most 39 octets and is made of
  groups of ASCII letters and digits, none empty, with one hyphen between two groups; its two key
  resources are then below a fixed prefix of the API's origin.
\<close>

theorem account_names_are_plain:
  "account_from_str username =
     (if length username \<le> 39 \<and>
         list_all (\<lambda>p. p \<noteq> [] \<and> list_all is_alphanumeric_byte p) (pieces 0x2D username)
      then Inr (ascii ''https://api.github.com/users/'' @ username)
      else Inl (Failed ''expected a GitHub username, such as ddurst-nvidia (not a URL)''))"
proof -
  have "account_name_ok username \<longleftrightarrow> length username \<le> 39 \<and> [] \<notin> set (pieces 0x2D username) \<and>
      list_all (\<lambda>b. is_alphanumeric_byte b \<or> b = 0x2D) username"
  proof (cases username)
    case Nil
    then show ?thesis by (simp add: account_name_ok_def)
  next
    case (Cons b s)
    then show ?thesis
      unfolding account_name_ok_def pieces_filled by (auto simp: starts_with_iff ends_with_single)
  qed
  also have "list_all (\<lambda>b. is_alphanumeric_byte b \<or> b = 0x2D) username \<longleftrightarrow>
      list_all (list_all (\<lambda>b. is_alphanumeric_byte b \<or> b = 0x2D)) (pieces 0x2D username)"
    by (rule pieces_all)
  also have "\<dots> \<longleftrightarrow> list_all (list_all is_alphanumeric_byte) (pieces 0x2D username)"
    using pieces_no_separator [of _ "0x2D" username] by (fastforce simp: list_all_iff)
  finally show ?thesis by (auto simp: account_from_str_def list_all_iff)
qed

section \<open>Recording the requests\<close>

type_synonym answer = "str \<times> (example_error + http_response)"

definition recorded :: "'s http_get \<Rightarrow> ('s \<times> answer list) http_get" where
  "recorded get url = (\<lambda>(s, l). let (r, s') = get url s in (r, (s', l @ [(url, r)])))"

lemma recorded_apply: "recorded get url (s, l) = (fst (get url s), (snd (get url s), l @ [(url, fst (get url s))]))"
  by (simp add: recorded_def split_beta)

definition answer_error :: "example_error + http_response \<Rightarrow> example_error option" where
  "answer_error a = (case result_try a check_status of Inl e \<Rightarrow> Some e | Inr _ \<Rightarrow> None)"

text \<open>What every run over one resource, or over several, has requested.\<close>

definition asked_pages :: "str \<Rightarrow> nat \<Rightarrow> answer list \<Rightarrow> nat \<Rightarrow> bool" where
  "asked_pages endpoint page new n \<longleftrightarrow> map fst new = map (page_url endpoint) [page..<page + n] \<and> page + n \<le> 11"

definition errors_end :: "example_error + 'a \<Rightarrow> answer list \<Rightarrow> bool" where
  "errors_end r new \<longleftrightarrow> (\<forall>(url, a) \<in> set new. \<forall>e. answer_error a = Some e \<longrightarrow> r = Inl e)"

lemma fetch_pages_from_requests:
  assumes "fetch_pages_from x (recorded get) endpoint page remaining keys (s, l) = (r, (s', l'))" "page \<le> 11"
  shows "\<exists>new n. l' = l @ new \<and> asked_pages endpoint page new n \<and> errors_end r new"
  using assms
proof (induction "11 - page" arbitrary: page remaining keys s l rule: less_induct)
  case less
  note run = less(2) [unfolded fetch_pages_from.simps [of x "recorded get" endpoint page]]
  show ?case
  proof (cases "page > MAX_PAGES_PER_RESOURCE")
    case True
    then show ?thesis
      using run less(3) by (intro exI [of _ "[]"] exI [of _ 0]) (auto simp: asked_pages_def errors_end_def)
  next
    case False
    define a where "a = fst (get (page_url endpoint page) s)"
    define s1 where "s1 = snd (get (page_url endpoint page) s)"
    let ?one = "[(page_url endpoint page, a)]"
    have le: "page \<le> 10" using False by (simp add: MAX_PAGES_PER_RESOURCE_def)
    note run = run [unfolded recorded_apply, folded a_def s1_def]
    have ends: ?thesis if "l' = l @ ?one" "\<And>e. answer_error a = Some e \<Longrightarrow> r = Inl e"
      using that le by (intro exI [of _ ?one] exI [of _ 1]) (auto simp: asked_pages_def errors_end_def)
    show ?thesis
    proof (cases a)
      case (Inl e)
      then show ?thesis using run False by (intro ends) (auto simp: answer_error_def)
    next
      case (Inr response)
      let ?v = "result_try (check_status response) (\<lambda>_.
                   result_try (has_next_page x response endpoint page) (\<lambda>has_next.
                   result_map (\<lambda>page. (has_next, page)) (read_page x response remaining)))"
      show ?thesis
      proof (cases ?v)
        case (Inl e)
        have "r = Inl e" "l' = l @ ?one" using run False Inr Inl by simp_all
        moreover have "answer_error a = Some e' \<Longrightarrow> e' = e" for e'
          using Inr Inl by (auto simp: answer_error_def split: sum.splits)
        ultimately show ?thesis by (intro ends) auto
      next
        case v: (Inr v)
        obtain has_next found remaining' where vs: "v = (has_next, found, remaining')" by (metis prod_cases3)
        have ok: "answer_error a = None" using Inr v by (auto simp: answer_error_def result_simps split: sum.splits)
        show ?thesis
        proof (cases has_next)
          case False
          then show ?thesis using run \<open>\<not> page > _\<close> Inr v vs ok by (intro ends) auto
        next
          case True
          have "fetch_pages_from x (recorded get) endpoint (page + 1) remaining' (keys @ found) (s1, l @ ?one) = (r, (s', l'))"
            using run \<open>\<not> page > _\<close> Inr v vs True by simp
          from less(1) [OF _ this] le obtain new n where new: "l' = (l @ ?one) @ new"
            "asked_pages endpoint (page + 1) new n" "errors_end r new" by fastforce
          show ?thesis
            using new ok le
            by (intro exI [of _ "?one @ new"] exI [of _ "n + 1"])
              (auto simp: asked_pages_def errors_end_def upt_conv_Cons simp del: upt_Suc)
        qed
      qed
    qed
  qed
qed

lemma fetch_endpoints_requests:
  assumes "fetch_endpoints x (recorded get) remaining candidates endpoints (s, l) = (r, (s', l'))"
  shows "\<exists>new ns. l' = l @ new \<and> length ns \<le> length endpoints \<and> list_all (\<lambda>n. n \<le> 10) ns \<and>
    map fst new = concat (map2 (\<lambda>endpoint n. map (page_url endpoint) [1..<n + 1]) endpoints ns) \<and> errors_end r new"
  using assms
proof (induction endpoints arbitrary: remaining candidates s l)
  case Nil
  then show ?case by (intro exI [of _ "[]"]) (auto simp: errors_end_def)
next
  case (Cons endpoint endpoints)
  obtain q s1 l1 where one: "fetch_resource_pages x (recorded get) endpoint remaining (s, l) = (q, (s1, l1))"
    by (metis prod_cases3)
  from fetch_pages_from_requests [OF one [unfolded fetch_resource_pages_def]]
  obtain new n where new: "l1 = l @ new" "asked_pages endpoint 1 new n" "errors_end q new" by auto
  note run = Cons.prems [unfolded fetch_endpoints.simps one prod.case]
  have stop: ?case if "l' = l1" "\<And>e. q = Inl e \<Longrightarrow> r = Inl e"
    using that new
    by (intro exI [of _ new] exI [of _ "[n]"]) (auto simp: asked_pages_def errors_end_def)
  show ?case
  proof (cases q)
    case (Inl e)
    then show ?thesis using run by (intro stop) auto
  next
    case (Inr found)
    obtain keys remaining' where f: "found = (keys, remaining')" by (cases found)
    have fine: "errors_end r new"
      using new(3) Inr by (auto simp: errors_end_def)
    show ?thesis
    proof (cases "parse_candidates x (join_keys keys)")
      case (Inl e)
      then show ?thesis using run Inr f by (intro stop) auto
    next
      case p: (Inr cs)
      have "fetch_endpoints x (recorded get) remaining' (add_from x endpoint candidates cs) endpoints (s1, l1) = (r, (s', l'))"
        using run Inr f p by simp
      from Cons.IH [OF this] obtain new' ns where new': "l' = l1 @ new'" "length ns \<le> length endpoints"
        "list_all (\<lambda>n. n \<le> 10) ns"
        "map fst new' = concat (map2 (\<lambda>endpoint n. map (page_url endpoint) [1..<n + 1]) endpoints ns)"
        "errors_end r new'" by blast
      show ?thesis
        using new new' fine
        by (intro exI [of _ "new @ new'"] exI [of _ "n # ns"]) (auto simp: asked_pages_def errors_end_def)
    qed
  qed
qed

text \<open>
  C37: the requests of a discovery. Whatever is answered, a discovery requests the pages of the two
  key resources of the account in order, from the first, at most ten of each, and no other URL.
\<close>

theorem discovery_requests_are_fixed:
  "\<exists>n m. n \<le> 10 \<and> m \<le> 10 \<and>
     map fst (snd (snd (fetch_pages x (recorded get) account (s, [])))) =
       map (page_url (account @ ascii ''/keys'')) [1..<n + 1] @
       map (page_url (account @ ascii ''/ssh_signing_keys'')) [1..<m + 1]"
proof -
  obtain r s' l' where run: "fetch_endpoints x (recorded get) MAX_DISCOVERY_BYTES [] (key_urls account) (s, []) = (r, (s', l'))"
    by (metis prod_cases3)
  from fetch_endpoints_requests [OF run] obtain new ns where new: "l' = [] @ new"
    and ns: "length ns \<le> length (key_urls account)" "list_all (\<lambda>n. n \<le> 10) ns"
    "map fst new = concat (map2 (\<lambda>endpoint n. map (page_url endpoint) [1..<n + 1]) (key_urls account) ns)"
    by blast
  have l': "snd (snd (fetch_pages x (recorded get) account (s, []))) = l'"
    by (auto simp: fetch_pages_def run split: sum.split)
  consider "ns = []" | n where "ns = [n]" | n m where "ns = [n, m]"
    using ns(1) by (cases ns; cases "tl ns"; cases "tl (tl ns)") (auto simp: key_urls_def)
  then show ?thesis
  proof cases
    case 1
    then show ?thesis unfolding l' using ns(3) new by (intro exI [of _ 0]) (simp add: key_urls_def)
  next
    case (2 n)
    then show ?thesis
      unfolding l' using ns new by (intro exI [of _ n] exI [of _ 0]) (simp add: key_urls_def)
  next
    case (3 n m)
    then show ?thesis
      unfolding l' using ns new by (intro exI [of _ n] exI [of _ m]) (simp add: key_urls_def del: upt_Suc)
  qed
qed

text \<open>
  No partial key set. An answer that failed, or whose status is refused, at any page of either
  resource is the result of the whole discovery.
\<close>

theorem refused_page_fails_discovery:
  assumes "fetch_pages x (recorded get) account (s, []) = (r, (s', log))"
    and "(url, a) \<in> set log" and "result_try a check_status = Inl e"
  shows "r = Inl e"
proof -
  obtain q s1 l1 where run: "fetch_endpoints x (recorded get) MAX_DISCOVERY_BYTES [] (key_urls account) (s, []) = (q, (s1, l1))"
    by (metis prod_cases3)
  have "l1 = log" using assms(1) by (auto simp: fetch_pages_def run split: sum.splits)
  moreover from fetch_endpoints_requests [OF run] have "errors_end q l1" by auto
  ultimately have "q = Inl e"
    using assms(2,3) by (auto simp: errors_end_def answer_error_def)
  then show ?thesis using assms(1) by (auto simp: fetch_pages_def run)
qed

section \<open>Completeness\<close>

text \<open>The keys that lines list: what an admissible Ed25519 key among them is made from.\<close>

definition listed :: "('u, 'w, 'k, 'pub, 'z) keys_ext_scheme \<Rightarrow> str list \<Rightarrow> bytes set" where
  "listed x keys = {ed_vk_as_bytes x (cd_key c) | c key public.
     key \<in> set keys \<and> ke_from_openssh x (trim key) = Some public \<and> from_public x public = Inr (Some c)}"

lemma listed_simps:
  "listed x [] = {}"
  "listed x (k # ks) = listed x [k] \<union> listed x ks"
  "listed x (ks @ ks') = listed x ks \<union> listed x ks'"
  by (auto simp: listed_def)

definition key_bytes :: "('u, 'w, 'k, 'z) crypto_ext_scheme \<Rightarrow> 'k candidate list \<Rightarrow> bytes list" where
  "key_bytes x cs = map (\<lambda>c. ed_vk_as_bytes x (cd_key c)) cs"

lemma push_new_key_bytes:
  "key_bytes x (push_new x cs c) =
     (if ed_vk_as_bytes x (cd_key c) \<in> set (key_bytes x cs) then key_bytes x cs
      else key_bytes x cs @ [ed_vk_as_bytes x (cd_key c)])"
  by (auto simp: push_new_def key_bytes_def list_ex_iff same_key_def intro: rev_image_eqI)

lemma push_new_keys [simp]:
  "set (key_bytes x (push_new x cs c)) = insert (ed_vk_as_bytes x (cd_key c)) (set (key_bytes x cs))"
  "distinct (key_bytes x cs) \<Longrightarrow> distinct (key_bytes x (push_new x cs c))"
  by (auto simp: push_new_key_bytes)

definition plain_line :: "str \<Rightarrow> bool" where
  "plain_line l \<longleftrightarrow> trim l \<noteq> [] \<and> \<not> starts_with (trim l) [0x23] \<and> 0x0A \<notin> set l \<and> 0x0D \<notin> set l"

lemma parse_key_lines_lists:
  "parse_key_lines x i cs ls = Inr out \<Longrightarrow> distinct (key_bytes x cs) \<Longrightarrow> list_all plain_line ls \<Longrightarrow>
     set (key_bytes x out) = set (key_bytes x cs) \<union> listed x ls \<and> distinct (key_bytes x out)"
proof (induction ls arbitrary: i cs)
  case (Cons l ls)
  have plain: "\<not> (trim l = [] \<or> starts_with (trim l) [0x23])" using Cons.prems(3) by (simp add: plain_line_def)
  obtain public found where found: "ke_from_openssh x (trim l) = Some public" "from_public x public = Inr found"
    and rest: "parse_key_lines x (i + 1)
      (case found of Some candidate \<Rightarrow> push_new x cs candidate | None \<Rightarrow> cs) ls = Inr out"
    using Cons.prems(1) plain by (auto simp: Let_def result_simps)
  show ?case
  proof (cases found)
    case None
    then have "listed x [l] = {}" using found by (auto simp: listed_def)
    then show ?thesis
      using Cons.IH [OF rest] Cons.prems(2,3) None by (simp add: listed_simps(2) [of x l ls])
  next
    case (Some c)
    then have "listed x [l] = {ed_vk_as_bytes x (cd_key c)}" using found by (auto simp: listed_def)
    then show ?thesis
      using Cons.IH [OF rest] Cons.prems(2,3) Some by (simp add: listed_simps(2) [of x l ls])
  qed
qed (simp add: listed_def)

lemma split_lines_no_feed: "0x0A \<notin> set l \<Longrightarrow> split_lines acc (l @ rest) = split_lines (acc @ l) rest"
  by (induction l arbitrary: acc) auto

lemma trim_Nil: "trim [] = []"
  by (simp add: trim_def chars_def push_chars_def utf8_chars.simps)

lemma lines_of_joined:
  "list_all plain_line keys \<Longrightarrow> Signature_Doc.str_lines (join_keys keys) = keys"
proof (induction keys rule: join_keys.induct)
  case (2 key)
  then have "key \<noteq> []" "0x0A \<notin> set key" using trim_Nil by (auto simp: plain_line_def)
  then show ?case using split_lines_no_feed [of key "[]" "[]"] by (simp add: Signature_Doc.str_lines_def)
next
  case (3 key k keys)
  then have "0x0A \<notin> set key" "0x0D \<notin> set key" by (auto simp: plain_line_def)
  moreover from this have "\<not> ends_with key [0x0D]" unfolding ends_with_single using last_in_set [of key] by metis
  ultimately show ?case
    using 3 split_lines_no_feed [of key "[]"] by (simp add: Signature_Doc.str_lines_def)
qed (simp add: Signature_Doc.str_lines_def)

lemma trim_start_extends_trim: "\<exists>rest. trim_start l = trim l @ rest"
proof -
  have "xs = rev (dropWhile P (rev xs)) @ rev (takeWhile P (rev xs))" for xs :: "rchar list" and P
    by (metis rev_append rev_rev_ident takeWhile_dropWhile_id)
  from this [of "dropWhile is_whitespace (chars l)" is_whitespace] show ?thesis
    unfolding trim_start_def trim_def push_chars_def by (metis concat_append map_append)
qed

lemma page_keys_plain: "page_keys records = Inr keys \<Longrightarrow> records = map Some keys \<and> list_all plain_line keys"
proof (induction records arbitrary: keys)
  case (Cons r records)
  then obtain key ks where k: "r = Some key" "page_keys records = Inr ks" "keys = key # ks"
    and ok: "trim key \<noteq> []" "0x0D \<notin> set key" "0x0A \<notin> set key" "\<not> starts_with (trim_start key) [0x23]"
    by (auto simp: result_simps split: if_splits)
  have "\<not> starts_with (trim key) [0x23]"
    using trim_start_extends_trim [of key] ok(1,4) by (auto simp: starts_with_iff)
  then show ?case using Cons.IH [OF k(2)] k ok by (simp add: plain_line_def)
qed simp

text \<open>The pages of one resource, each with the keys it lists; only the last has no next page.\<close>

fun complete_pages ::
    "('u, 'w, 'k, 'pub, 'z) keys_ext_scheme \<Rightarrow> str \<Rightarrow> nat \<Rightarrow> (http_response \<times> str list) list \<Rightarrow> bool" where
  "complete_pages x endpoint page [] \<longleftrightarrow> False"
| "complete_pages x endpoint page ((r, keys) # pages) \<longleftrightarrow>
     hr_status r = 200 \<and> has_next_page x r endpoint page = Inr (pages \<noteq> []) \<and>
     ke_json_keys x (bs_octets (hr_body r)) = Some (map Some keys) \<and>
     (pages = [] \<or> complete_pages x endpoint (page + 1) pages)"

fun page_answers :: "str \<Rightarrow> nat \<Rightarrow> (http_response \<times> str list) list \<Rightarrow> answer list" where
  "page_answers endpoint page [] = []"
| "page_answers endpoint page ((r, keys) # pages) =
     (page_url endpoint page, Inr r) # page_answers endpoint (page + 1) pages"

definition page_octets :: "(http_response \<times> str list) list \<Rightarrow> nat" where
  "page_octets pages = sum_list (map (\<lambda>(r, _). length (bs_octets (hr_body r))) pages)"

definition pages_keys :: "(http_response \<times> str list) list \<Rightarrow> str list" where
  "pages_keys pages = concat (map snd pages)"

lemma read_page_whole:
  assumes "read_page x r remaining = Inr (keys, remaining')"
  shows "ke_json_keys x (bs_octets (hr_body r)) = Some (map Some keys) \<and> list_all plain_line keys \<and>
    remaining' + length (bs_octets (hr_body r)) = remaining"
proof -
  obtain octets records where o: "read_up_to (remaining + 1) (hr_body r) = Some octets" "length octets \<le> remaining"
    "ke_json_keys x octets = Some records" "page_keys records = Inr keys" "remaining' = remaining - length octets"
    using assms by (auto simp: read_page_def result_simps split: if_splits)
  have "octets = take (remaining + 1) (bs_octets (hr_body r))"
    using o(1) by (auto simp: read_up_to_def split: option.splits if_splits)
  then have "octets = bs_octets (hr_body r)" using o(2) by simp
  then show ?thesis using o page_keys_plain [OF o(4)] by simp
qed

lemma fetch_pages_from_complete:
  assumes "fetch_pages_from x (recorded get) endpoint page remaining keys (s, l) = (Inr (ks, remaining'), (s', l'))"
  shows "\<exists>pages. complete_pages x endpoint page pages \<and> l' = l @ page_answers endpoint page pages \<and>
    ks = keys @ pages_keys pages \<and> list_all plain_line (pages_keys pages) \<and>
    remaining' + page_octets pages = remaining"
  using assms
proof (induction "11 - page" arbitrary: page remaining keys s l rule: less_induct)
  case less
  note run = less(2) [unfolded fetch_pages_from.simps [of x "recorded get" endpoint page]]
  have le: "page \<le> 10" using run by (auto simp: MAX_PAGES_PER_RESOURCE_def split: if_splits)
  define a where "a = fst (get (page_url endpoint page) s)"
  define s1 where "s1 = snd (get (page_url endpoint page) s)"
  note run = run [unfolded recorded_apply, folded a_def s1_def]
  obtain r has_next found rest where a: "a = Inr r" and c: "check_status r = Inr ()"
    and n: "has_next_page x r endpoint page = Inr has_next" and p: "read_page x r remaining = Inr (found, rest)"
    using run le by (auto simp: MAX_PAGES_PER_RESOURCE_def result_simps split: sum.splits)
  note whole = read_page_whole [OF p]
  have status: "hr_status r = 200" using c by (auto simp: check_status_def Let_def split: if_splits)
  show ?case
  proof (cases has_next)
    case False
    then have "(ks, remaining', s', l') = (keys @ found, rest, s1, l @ [(page_url endpoint page, Inr r)])"
      using run le a c n p by (simp add: MAX_PAGES_PER_RESOURCE_def)
    then show ?thesis
      using whole status n False by (intro exI [of _ "[(r, found)]"]) (simp add: pages_keys_def page_octets_def)
  next
    case True
    then have "fetch_pages_from x (recorded get) endpoint (page + 1) rest (keys @ found)
        (s1, l @ [(page_url endpoint page, Inr r)]) = (Inr (ks, remaining'), (s', l'))"
      using run le a c n p by (simp add: MAX_PAGES_PER_RESOURCE_def)
    from less(1) [OF _ this] le obtain pages where pages: "complete_pages x endpoint (page + 1) pages"
      "l' = (l @ [(page_url endpoint page, Inr r)]) @ page_answers endpoint (page + 1) pages"
      "ks = (keys @ found) @ pages_keys pages" "list_all plain_line (pages_keys pages)"
      "remaining' + page_octets pages = rest" by fastforce
    then have "pages \<noteq> []" by auto
    then show ?thesis
      using pages whole status n True
      by (intro exI [of _ "(r, found) # pages"]) (simp add: pages_keys_def page_octets_def)
  qed
qed

lemma parse_candidates_lists:
  assumes "parse_candidates x (join_keys keys) = Inr found" "list_all plain_line keys"
  shows "set (key_bytes x found) = listed x keys"
  using parse_key_lines_lists [OF assms(1) [unfolded parse_candidates_def lines_of_joined [OF assms(2)]] _ assms(2)]
  by (simp add: key_bytes_def)

text \<open>Adding from one resource keeps what is known, and gives what is new its source.\<close>

lemma add_from_lists:
  assumes "distinct (key_bytes x cs)"
  shows "set (key_bytes x (add_from x endpoint cs found)) = set (key_bytes x cs) \<union> set (key_bytes x found) \<and>
    distinct (key_bytes x (add_from x endpoint cs found)) \<and>
    (\<exists>new. add_from x endpoint cs found = cs @ new \<and> list_all (\<lambda>c. cd_source c = Some endpoint) new)"
  using assms
proof (induction found arbitrary: cs)
  case Nil
  then show ?case by (simp add: add_from_def key_bytes_def)
next
  case (Cons c found)
  let ?c = "c\<lparr>cd_source := Some endpoint\<rparr>"
  have step: "add_from x endpoint cs (c # found) = add_from x endpoint (push_new x cs ?c) found"
    by (simp add: add_from_def)
  have IH: "set (key_bytes x (add_from x endpoint (push_new x cs ?c) found)) =
      set (key_bytes x (push_new x cs ?c)) \<union> set (key_bytes x found)"
    "distinct (key_bytes x (add_from x endpoint (push_new x cs ?c) found))"
    "\<exists>new. add_from x endpoint (push_new x cs ?c) found = push_new x cs ?c @ new \<and>
      list_all (\<lambda>c. cd_source c = Some endpoint) new"
    using Cons.IH [of "push_new x cs ?c"] push_new_keys(2) [OF Cons.prems, of ?c] by blast+
  moreover have "key_bytes x (c # found) = ed_vk_as_bytes x (cd_key c) # key_bytes x found"
    by (simp add: key_bytes_def)
  moreover have "\<exists>first. push_new x cs ?c = cs @ first \<and> list_all (\<lambda>c. cd_source c = Some endpoint) first"
    by (simp add: push_new_def)
  then obtain first new where "push_new x cs ?c = cs @ first" "list_all (\<lambda>c. cd_source c = Some endpoint) first"
    "add_from x endpoint (push_new x cs ?c) found = (cs @ first) @ new" "list_all (\<lambda>c. cd_source c = Some endpoint) new"
    using IH(3) by auto
  then have "\<exists>new. add_from x endpoint (push_new x cs ?c) found = cs @ new \<and>
      list_all (\<lambda>c. cd_source c = Some endpoint) new"
    by (intro exI [of _ "first @ new"]) simp
  ultimately show ?case unfolding step by auto
qed

text \<open>
  C23: a discovery is complete. When it succeeds, every page of both resources was answered, up to
  one without a next page; the whole bodies together are within the byte limit; and the keys,
  without repetition, are exactly the admissible Ed25519 keys that the pages list, each with the
  first resource that lists it.
\<close>

theorem discovery_is_complete:
  assumes "fetch_pages x (recorded get) account (s, []) = (Inr candidates, (s', log))"
  shows "\<exists>keys signing_keys of_keys of_signing.
    complete_pages x (account @ ascii ''/keys'') 1 keys \<and>
    complete_pages x (account @ ascii ''/ssh_signing_keys'') 1 signing_keys \<and>
    log = page_answers (account @ ascii ''/keys'') 1 keys @
      page_answers (account @ ascii ''/ssh_signing_keys'') 1 signing_keys \<and>
    page_octets keys + page_octets signing_keys \<le> MAX_DISCOVERY_BYTES \<and>
    candidates = of_keys @ of_signing \<and> candidates \<noteq> [] \<and> distinct (key_bytes x candidates) \<and>
    set (key_bytes x of_keys) = listed x (pages_keys keys) \<and>
    set (key_bytes x of_signing) = listed x (pages_keys signing_keys) - listed x (pages_keys keys) \<and>
    list_all (\<lambda>c. cd_source c = Some (account @ ascii ''/keys'')) of_keys \<and>
    list_all (\<lambda>c. cd_source c = Some (account @ ascii ''/ssh_signing_keys'')) of_signing"
proof -
  let ?first = "account @ ascii ''/keys''" and ?second = "account @ ascii ''/ssh_signing_keys''"
  have run: "fetch_endpoints x (recorded get) MAX_DISCOVERY_BYTES [] [?first, ?second] (s, []) =
      (Inr candidates, (s', log))" and some: "candidates \<noteq> []"
    using assms by (auto simp: fetch_pages_def key_urls_def split: sum.splits prod.splits if_splits)
  obtain q1 s1 l1 where one: "fetch_resource_pages x (recorded get) ?first MAX_DISCOVERY_BYTES (s, []) = (q1, (s1, l1))"
    by (metis prod_cases3)
  obtain ks1 r1 found1 where q1: "q1 = Inr (ks1, r1)" and p1: "parse_candidates x (join_keys ks1) = Inr found1"
    using run one by (cases q1) (auto split: sum.splits)
  let ?cs = "add_from x ?first [] found1"
  obtain q2 s2 l2 where two: "fetch_resource_pages x (recorded get) ?second r1 (s1, l1) = (q2, (s2, l2))"
    by (metis prod_cases3)
  obtain ks2 r2 found2 where q2: "q2 = Inr (ks2, r2)" and p2: "parse_candidates x (join_keys ks2) = Inr found2"
    using run one two q1 p1 by (cases q2) (auto split: sum.splits)
  have out: "candidates = add_from x ?second ?cs found2" "log = l2"
    using run one two q1 p1 q2 p2 by simp_all
  obtain pages1 where c1: "complete_pages x ?first 1 pages1" "l1 = page_answers ?first 1 pages1" "ks1 = pages_keys pages1"
    "list_all plain_line ks1" "r1 + page_octets pages1 = MAX_DISCOVERY_BYTES"
    using fetch_pages_from_complete [OF one [unfolded q1 fetch_resource_pages_def]] by auto
  obtain pages2 where c2: "complete_pages x ?second 1 pages2" "l2 = l1 @ page_answers ?second 1 pages2"
    "ks2 = pages_keys pages2" "list_all plain_line ks2" "r2 + page_octets pages2 = r1"
    using fetch_pages_from_complete [OF two [unfolded q2 fetch_resource_pages_def]] by auto
  have a1: "set (key_bytes x ?cs) = listed x ks1" "distinct (key_bytes x ?cs)"
    "list_all (\<lambda>c. cd_source c = Some ?first) ?cs"
    using add_from_lists [of x "[]" ?first found1] parse_candidates_lists [OF p1 c1(4)] by (auto simp: key_bytes_def)
  obtain new where new: "candidates = ?cs @ new" "list_all (\<lambda>c. cd_source c = Some ?second) new"
    "distinct (key_bytes x candidates)" "set (key_bytes x candidates) = listed x ks1 \<union> listed x ks2"
    using add_from_lists [OF a1(2), of ?second found2] parse_candidates_lists [OF p2 c2(4)] a1(1)
    unfolding out(1) by auto
  have split: "key_bytes x candidates = key_bytes x ?cs @ key_bytes x new"
    by (simp add: new(1) key_bytes_def)
  have "set (key_bytes x new) = listed x ks2 - listed x ks1"
    using new(3,4) a1(1) unfolding split by auto
  then show ?thesis
    using c1 c2 a1 new some out(2)
    by (intro exI [of _ pages1] exI [of _ pages2] exI [of _ ?cs] exI [of _ new]) simp
qed

end
