(* ===== verification/Key_Use.thy ===== *)
theory Key_Use
  imports Key_Facts
begin

text \<open>
  What the two commands of the example guarantee, on the theorems of the signing and verification
  crates: which key a document is verified with, and what a signing run may write.
\<close>

section \<open>Sequences of actions\<close>

lemma act_try_Inr:
  "act_try m f s = Done (Inr b, s') \<longleftrightarrow> (\<exists>a s1. m s = Done (Inr a, s1) \<and> f a s1 = Done (Inr b, s'))"
  by (cases "m s") (auto simp: act_try_def split: sum.splits)

lemma act_do_Done: "act_do m s = Done (r, s') \<longleftrightarrow> m s = (r, s')"
  by (simp add: act_do_def)

lemma act_lift_Done: "act_lift r s = Done (r', s') \<longleftrightarrow> r = r' \<and> s = s'"
  by (auto simp: act_lift_def)

lemmas acts = act_try_Inr act_do_Done act_lift_Done

section \<open>Candidates\<close>

text \<open>A key of a candidate is made from its own octets, and its source is text.\<close>

definition made :: "('u, 'w, 'k, 'z) crypto_ext_scheme \<Rightarrow> 'k candidate \<Rightarrow> bool" where
  "made x c \<longleftrightarrow> resolve_ed25519_verifying_key x (ed_vk_as_bytes x (cd_key c)) = Inr (cd_key c) \<and>
     (case cd_source c of Some k \<Rightarrow> utf8_valid k | None \<Rightarrow> True)"

lemma from_public_made:
  assumes "crypto_ok x" "from_public x public = Inr (Some c)"
  shows "made x c \<and> cd_source c = None"
proof -
  obtain raw where "resolve_ed25519_verifying_key x raw = Inr (cd_key c)" "cd_source c = None"
    using assms(2) by (auto simp: from_public_def result_simps split: option.splits)
  then show ?thesis using resolved_is_admissible(1) [OF assms(1)] by (auto simp: made_def)
qed

lemma push_new_made: "list_all P cs \<Longrightarrow> P c \<Longrightarrow> list_all P (push_new x cs c)"
  by (simp add: push_new_def)

lemma parse_key_lines_made:
  assumes "crypto_ok x"
  shows "parse_key_lines x i cs ls = Inr out \<Longrightarrow> list_all (\<lambda>c. made x c \<and> cd_source c = None) cs \<Longrightarrow>
    list_all (\<lambda>c. made x c \<and> cd_source c = None) out"
proof (induction ls arbitrary: i cs)
  case (Cons l ls)
  show ?case
  proof (cases "trim l = [] \<or> starts_with (trim l) [0x23]")
    case True
    then show ?thesis using Cons by (simp add: Let_def)
  next
    case False
    then obtain public found where found: "from_public x public = Inr found"
      and rest: "parse_key_lines x (i + 1)
        (case found of Some candidate \<Rightarrow> push_new x cs candidate | None \<Rightarrow> cs) ls = Inr out"
      using Cons.prems(1) by (auto simp: Let_def result_simps)
    show ?thesis
      using Cons.IH [OF rest] Cons.prems(2) from_public_made [OF assms, of public] found
      by (cases found) (simp_all add: push_new_made)
  qed
qed simp

lemma parse_candidates_made:
  "crypto_ok x \<Longrightarrow> parse_candidates x export = Inr out \<Longrightarrow>
     list_all (\<lambda>c. made x c \<and> cd_source c = None) out"
  unfolding parse_candidates_def using parse_key_lines_made [of x 0 "[]"] by simp

lemma add_from_made:
  assumes "utf8_valid endpoint" "list_all (made x) cs" "list_all (made x) found"
  shows "list_all (made x) (add_from x endpoint cs found)"
  using assms(2,3)
proof (induction found arbitrary: cs)
  case (Cons c found)
  have "made x (c\<lparr>cd_source := Some endpoint\<rparr>)" using Cons.prems(2) assms(1) by (simp add: made_def)
  then show ?case
    using Cons.IH [OF push_new_made] Cons.prems by (simp add: add_from_def)
qed (simp add: add_from_def)

lemma fetch_endpoints_made:
  assumes "crypto_ok x"
  shows "fetch_endpoints x get remaining cs endpoints s = (Inr out, s') \<Longrightarrow> list_all utf8_valid endpoints \<Longrightarrow>
    list_all (made x) cs \<Longrightarrow> list_all (made x) out"
proof (induction endpoints arbitrary: remaining cs s)
  case (Cons endpoint endpoints)
  obtain keys remaining' s1 found where "parse_candidates x (join_keys keys) = Inr found"
    and rest: "fetch_endpoints x get remaining' (add_from x endpoint cs found) endpoints s1 = (Inr out, s')"
    using Cons.prems(1) by (auto split: prod.splits sum.splits)
  then have "list_all (made x) found"
    using parse_candidates_made [OF assms] by (fastforce simp: list_all_iff)
  then show ?case
    using Cons.IH [OF rest] add_from_made [of endpoint x cs found] Cons.prems(2,3) by simp
qed simp

lemma account_is_text: "account_from_str name = Inr account \<Longrightarrow> list_all utf8_valid (key_urls account)"
proof -
  assume "account_from_str name = Inr account"
  then have n: "list_all (\<lambda>b. is_alphanumeric_byte b \<or> b = 0x2D) name"
    and a: "account = ascii ''https://api.github.com/users/'' @ name"
    by (auto simp: account_from_str_def account_name_ok_def split: if_splits)
  have "unat b < 0x80" if "is_alphanumeric_byte b \<or> b = 0x2D" for b
    using that by (auto simp: is_alphanumeric_byte_def byte_in_def)
  then have "utf8_valid name" using n by (intro utf8_valid_ascii) (auto simp: list_all_iff)
  then have "utf8_valid account" unfolding a by (simp add: utf8_valid_ascii_Cons)
  moreover have "utf8_valid (ascii ''/keys'')" "utf8_valid (ascii ''/ssh_signing_keys'')"
    by (simp_all add: utf8_valid_ascii_Cons)
  ultimately show ?thesis by (simp add: key_urls_def utf8_valid_append del: ascii_Cons)
qed

text \<open>A signer as the command line gives it.\<close>

definition given :: "('u, 'w, 'k, 'pub, 'z) keys_ext_scheme \<Rightarrow> 'k signer option \<Rightarrow> bool" where
  "given x who \<longleftrightarrow> (case who of Some y \<Rightarrow> \<exists>text. signer_from_str x text = Inr y | None \<Rightarrow> True)"

lemma given_made:
  assumes "crypto_ok x" "given x (Some y)" "resolve_signer x w y s = Done (Inr cs, s')"
  shows "list_all (made x) cs"
proof (cases y)
  case (Signer_GitHub account)
  obtain name where "account_from_str name = Inr account"
    using assms(2) Signer_GitHub by (auto simp: given_def signer_from_str_def Let_def result_simps split: if_splits)
  note urls = account_is_text [OF this]
  obtain s1 where "fetch_pages x (wd_get w) account s1 = (Inr cs, s')"
    using assms(3) Signer_GitHub by (auto simp: resolve_signer_def acts)
  then show ?thesis
    using fetch_endpoints_made [OF assms(1) _ urls, of "wd_get w" MAX_DISCOVERY_BYTES "[]" s1 cs s']
    by (auto simp: fetch_pages_def split: prod.splits sum.splits if_splits)
next
  case (Signer_Public_Key c)
  then obtain line keys where k: "parse_export x line = Inr keys" "keys \<noteq> []" "c = last keys"
    using assms(2) by (auto simp: given_def signer_from_str_def Let_def result_simps split: if_splits)
  have "list_all (made x) keys"
    using k(1) parse_candidates_made [OF assms(1), of line keys]
    by (auto simp: parse_export_def result_simps list_all_iff split: if_splits)
  then have "made x c" using k last_in_set by (auto simp: list_all_iff)
  then show ?thesis using assms(3) Signer_Public_Key by (auto simp: resolve_signer_def acts)
qed

lemma supported_made:
  assumes "crypto_ok x"
  shows "supported_identities x supported identities = Inr out \<Longrightarrow> list_all (\<lambda>(_, c). made x c) supported \<Longrightarrow>
    list_all (\<lambda>(_, c). made x c) out"
proof (induction identities arbitrary: supported)
  case (Cons identity identities)
  show ?case
  proof (cases identity)
    case (Public_Key_Identity key)
    obtain found where found: "from_public x key = Inr found"
      using Cons.prems(1) Public_Key_Identity by (auto simp: result_simps)
    then show ?thesis
      using Cons.IH [OF _ Cons.prems(2)] Cons.IH [of "supported @ [(key, the found)]"] Cons.prems
        from_public_made [OF assms, of key] Public_Key_Identity
      by (cases found) (auto split: if_splits)
  qed (use Cons in simp)
qed simp

section \<open>Verifying\<close>

lemma try_candidates_verified:
  "try_candidates x pre cs = Done (Inr doc) \<Longrightarrow>
     \<exists>c \<in> set cs. vd_fingerprint doc = cd_fingerprint c \<and> vd_source doc = cd_source c \<and>
       (\<exists>alg. verify_from_pre_verify_yaml x pre \<lparr>pk_ed25519 = Some (cd_key c), pk_p256 = None\<rparr>
         ((ke_default_options x)\<lparr>vo_verify_ecdsa_p256_sha256 := False\<rparr>) = Done (Inr (VS_Verified (vd_payload doc) alg)))"
proof (induction cs)
  case (Cons c cs)
  let ?v = "verify_from_pre_verify_yaml x pre \<lparr>pk_ed25519 = Some (cd_key c), pk_p256 = None\<rparr>
    ((ke_default_options x)\<lparr>vo_verify_ecdsa_p256_sha256 := False\<rparr>)"
  obtain verdict where v: "?v = Done verdict" using Cons.prems by (cases ?v) auto
  show ?case
  proof (cases verdict)
    case (Inl e)
    then show ?thesis using Cons.prems v by simp
  next
    case (Inr state)
    show ?thesis
    proof (cases state)
      case (VS_Verified payload alg)
      then show ?thesis using Cons.prems v Inr by auto
    next
      case VS_SignedButFailedVerification
      then show ?thesis using Cons v Inr by auto
    qed (use Cons.prems v Inr in simp_all)
  qed
qed simp

lemma staged_yaml_options:
  "verify_from_pre_verify_yaml x pre keys options = Done (Inr state) \<Longrightarrow> vo_algorithm_parameters options = []"
  by (auto simp: verify_from_pre_verify_yaml_def split: if_splits)

text \<open>The candidates a verification may use, with what their listing returned.\<close>

definition verification_candidate ::
    "('u, 'w, 'k, 'pub, 'z) keys_ext_scheme \<Rightarrow> ('pub, 's, 'y) world_scheme \<Rightarrow> 'k signer option \<Rightarrow> 'k candidate \<Rightarrow> bool" where
  "verification_candidate x w who c \<longleftrightarrow>
     (case who of
        None \<Rightarrow> \<exists>s session s'. session_open x w s = Done (Inr session, s') \<and> c \<in> snd ` set session
      | Some (Signer_GitHub account) \<Rightarrow> \<exists>s cs s'. fetch_pages x (wd_get w) account s = (Inr cs, s') \<and> c \<in> set cs
      | Some (Signer_Public_Key key) \<Rightarrow> c = key)"

lemma verify_artifact_verified:
  assumes "traits_ok x" and "verify_artifact x w artifact resolve fingerprint s = Done (Inr doc, s')"
  shows "\<exists>s1 cs s2 c sig. resolve s1 = Done (Inr cs, s2) \<and> c \<in> set cs \<and>
    (case fingerprint of Some v \<Rightarrow> cd_fingerprint c = v | None \<Rightarrow> True) \<and>
    vd_fingerprint doc = cd_fingerprint c \<and> vd_source doc = cd_source c \<and>
    length artifact \<le> MAX_DOCUMENT_BYTES \<and> ed25519_verifying_key_is_admissible x (cd_key c) \<and>
    verify_ed25519 x (cd_key c) (vd_payload doc) sig = Inr () \<and>
    (\<exists>mk carrier. artifact = vd_payload doc @ mk @ carrier \<and> marker_line mk \<and> \<not> has_marker carrier)"
proof -
  obtain pre s1 cs s2 kept where pre: "pre_verify_yaml_with_resource_limits x artifact False resource_limits = Done (Inr pre)"
    and ok: "pr_outcome pre = PV_Ok" and r: "resolve s1 = Done (Inr cs, s2)"
    and kept: "filter_fingerprint cs fingerprint = Inr kept" and tried: "try_candidates x pre kept = Done (Inr doc)"
    using assms(2)
    by (auto simp: verify_artifact_def acts exec_map_eq_Done result_simps eq_commute [of "Inr _" "map_err _ _"]
        split: if_splits)
  from try_candidates_verified [OF tried] obtain c alg where c: "c \<in> set kept"
    "vd_fingerprint doc = cd_fingerprint c" "vd_source doc = cd_source c"
    and v: "verify_from_pre_verify_yaml x pre \<lparr>pk_ed25519 = Some (cd_key c), pk_p256 = None\<rparr>
      ((ke_default_options x)\<lparr>vo_verify_ecdsa_p256_sha256 := False\<rparr>) = Done (Inr (VS_Verified (vd_payload doc) alg))"
    by blast
  have size: "length artifact \<le> MAX_DOCUMENT_BYTES" and "pre_verify x artifact AF_Yaml False False = Done pre"
    using pre by (auto simp: pre_verify_yaml_with_resource_limits_def pre_verify_yaml_def exec_map_eq_Done
        check_input_size_def resource_limits_def with_max_artifact_bytes_def split: if_splits)
  then have response: "pre = response_of AF_Yaml (read_artifact x AF_Yaml False artifact)"
    by (simp add: pre_verify_eq)
  have "pr_form pre = AF_Yaml" using response ok
    by (auto simp: response_of_def failed_response_def split: sum.splits)
  then have direct: "verify x artifact AF_Yaml \<lparr>pk_ed25519 = Some (cd_key c), pk_p256 = None\<rparr>
      ((ke_default_options x)\<lparr>vo_verify_ecdsa_p256_sha256 := False\<rparr>) = Done (Inr (VS_Verified (vd_payload doc) alg))"
    using response_verdict [OF assms(1) staged_yaml_options [OF v] response ok] v
    by (simp add: verify_from_pre_verify_def)
  from verified_reads [OF assms(1) this] obtain keyid sig
    where read: "read_artifact x AF_Yaml False artifact =
        Inr (vd_payload doc, \<lparr>us_algorithm = alg, us_keyid = keyid, us_signature_octets = sig\<rparr>)"
      and key: "ed25519_verifying_key_is_admissible x (cd_key c)" "verify_ed25519 x (cd_key c) (vd_payload doc) sig = Inr ()"
    by (cases alg) auto
  have "c \<in> set cs" "case fingerprint of Some v \<Rightarrow> cd_fingerprint c = v | None \<Rightarrow> True"
    using kept c(1) by (auto simp: filter_fingerprint_def Let_def split: if_splits option.splits)
  then show ?thesis
    using r c size key read_yaml_layout [OF read] by blast
qed

text \<open>
  C22: what the verify command reports. A document that it reports as verified is no larger than
  the limit and is the reported payload, a marker line and a carrier; its signature satisfies the
  equation of an admissible key, and that key is one of the selected signer, with the selected
  fingerprint if there is one: a key the agent lists, a key a complete discovery found for the
  account, or the key given. The key identifier in the document has no part in it.
\<close>

theorem verified_document_is_by_selected_key:
  assumes "traits_ok x" and "run_verify x w who fingerprint input s = Done (Inr doc, s')"
  shows "\<exists>s1 artifact s2 c sig. read_input w input s1 = Done (Inr artifact, s2) \<and>
    length artifact \<le> MAX_DOCUMENT_BYTES \<and>
    (\<exists>mk carrier. artifact = vd_payload doc @ mk @ carrier \<and> marker_line mk \<and> \<not> has_marker carrier) \<and>
    verification_candidate x w who c \<and>
    (case fingerprint of Some v \<Rightarrow> cd_fingerprint c = v | None \<Rightarrow> True) \<and>
    vd_fingerprint doc = cd_fingerprint c \<and> vd_source doc = cd_source c \<and>
    ed25519_verifying_key_is_admissible x (cd_key c) \<and> verify_ed25519 x (cd_key c) (vd_payload doc) sig = Inr ()"
proof -
  let ?agent = "case who of
      None \<Rightarrow>
        act_try (connect w) (\<lambda>_.
        act_try (session_open x w) (\<lambda>session.
        act_try (say w (ascii ''Using SSH-agent public identities; no GitHub key lookup.'')) (\<lambda>_.
        act_lift (Inr (map snd session)))))
    | Some _ \<Rightarrow>
        act_try (say w (ascii ''Explicit signer selected; no SSH agent needed.'')) (\<lambda>_. act_lift (Inr []))"
  obtain agent_candidates s0 s0' s1 artifact s2 s3 s4
    where a: "?agent s0 = Done (Inr agent_candidates, s0')"
      and artifact: "read_input w input s1 = Done (Inr artifact, s2)"
      and v: "verify_artifact x w artifact
        (case who of Some who \<Rightarrow> resolve_signer x w who | None \<Rightarrow> act_lift (Inr agent_candidates)) fingerprint s3 =
        Done (Inr doc, s4)"
    using assms(2) unfolding run_verify_def act_try_Inr act_lift_Done by blast
  have agent: "\<exists>s session s'. session_open x w s = Done (Inr session, s') \<and> agent_candidates = map snd session"
    if "who = None"
    using a that by (auto simp: acts)
  from verify_artifact_verified [OF assms(1) v] obtain s5 cs s6 c sig
    where r: "(case who of Some who \<Rightarrow> resolve_signer x w who | None \<Rightarrow> act_lift (Inr agent_candidates)) s5 =
        Done (Inr cs, s6)" "c \<in> set cs"
      and facts: "case fingerprint of Some v \<Rightarrow> cd_fingerprint c = v | None \<Rightarrow> True"
        "vd_fingerprint doc = cd_fingerprint c" "vd_source doc = cd_source c"
        "length artifact \<le> MAX_DOCUMENT_BYTES" "ed25519_verifying_key_is_admissible x (cd_key c)"
        "verify_ed25519 x (cd_key c) (vd_payload doc) sig = Inr ()"
        "\<exists>mk carrier. artifact = vd_payload doc @ mk @ carrier \<and> marker_line mk \<and> \<not> has_marker carrier"
    by blast
  have "verification_candidate x w who c"
  proof (cases who)
    case None
    then have "cs = agent_candidates" using r(1) by (simp add: act_lift_Done)
    with agent [OF None] r(2) None show ?thesis by (fastforce simp: verification_candidate_def)
  next
    case (Some y)
    then show ?thesis
      using r by (cases y) (auto simp: verification_candidate_def resolve_signer_def acts)
  qed
  with artifact facts show ?thesis by blast
qed

end
