(* ===== verification/Key_Signing.thy ===== *)
theory Key_Signing
  imports Key_Use
begin

text \<open>
  The sign command of the example: which identity of the agent it selects, and that what it writes
  verifies under the selected key.
\<close>

section \<open>Selecting an identity\<close>

text \<open>What an identity of the session stands for: the selected signer's entry for its key.\<close>

definition entry_for ::
    "('u, 'w, 'k, 'z) crypto_ext_scheme \<Rightarrow> 'k candidate list option \<Rightarrow> str option \<Rightarrow> 'k candidate \<Rightarrow> 'k candidate option" where
  "entry_for x candidates fingerprint public =
     Option.bind
       (case candidates of
          Some cs \<Rightarrow> List.find (\<lambda>c. same_key x (cd_key c) (cd_key public)) cs
        | None \<Rightarrow> Some public)
       (\<lambda>c. if (case fingerprint of None \<Rightarrow> True | Some v \<Rightarrow> cd_fingerprint c = v) then Some c else None)"

lemma select_from_Cons:
  "select_from x candidates fingerprint matched ((key, public) # identities) =
     (case entry_for x candidates fingerprint public of
        None \<Rightarrow> select_from x candidates fingerprint matched identities
      | Some c \<Rightarrow>
          (case matched of
             Some (_, previous) \<Rightarrow>
               if same_key x (cd_key previous) (cd_key c)
               then select_from x candidates fingerprint matched identities
               else Inl (Failed ''multiple SSH-agent keys match this signer'')
           | None \<Rightarrow> select_from x candidates fingerprint (Some (key, c)) identities))"
  by (simp add: entry_for_def Let_def)

declare select_from.simps(2) [simp del]

definition entries ::
    "('u, 'w, 'k, 'z) crypto_ext_scheme \<Rightarrow> 'k candidate list option \<Rightarrow> str option \<Rightarrow> ('pub \<times> 'k candidate) list
       \<Rightarrow> ('pub \<times> 'k candidate) list" where
  "entries x candidates fingerprint identities =
     concat (map (\<lambda>(key, public). case entry_for x candidates fingerprint public of Some c \<Rightarrow> [(key, c)] | None \<Rightarrow> [])
       identities)"

lemma entries_simps [simp]:
  "entries x candidates fingerprint [] = []"
  "entries x candidates fingerprint ((key, public) # identities) =
     (case entry_for x candidates fingerprint public of Some c \<Rightarrow> [(key, c)] | None \<Rightarrow> []) @
     entries x candidates fingerprint identities"
  by (simp_all add: entries_def)

lemma select_from_matched:
  "select_from x candidates fingerprint (Some m) identities =
     (if list_all (\<lambda>(_, c). same_key x (cd_key (snd m)) (cd_key c)) (entries x candidates fingerprint identities)
      then Inr (Some m) else Inl (Failed ''multiple SSH-agent keys match this signer''))"
  by (cases m; induction identities) (auto simp: select_from_Cons split: option.split)

text \<open>
  The identity that signs. Of the identities whose key the selected signer has, or of all
  where none is selected, with the selected fingerprint: none is an error; the first is taken when
  the others have the same key; two keys are an error. The order of the candidates has no part
  in it.
\<close>

theorem signing_identity_is_unambiguous:
  "select_identity x identities candidates fingerprint =
     (case entries x candidates fingerprint identities of
        [] \<Rightarrow> Inl (Failed ''no SSH-agent Ed25519 key matches the selected signer and fingerprint'')
      | m # rest \<Rightarrow>
          if list_all (\<lambda>(_, c). same_key x (cd_key (snd m)) (cd_key c)) rest then Inr m
          else Inl (Failed ''multiple SSH-agent keys match this signer''))"
proof -
  have "select_from x candidates fingerprint None identities =
      (case entries x candidates fingerprint identities of
         [] \<Rightarrow> Inr None
       | m # rest \<Rightarrow>
           if list_all (\<lambda>(_, c). same_key x (cd_key (snd m)) (cd_key c)) rest then Inr (Some m)
           else Inl (Failed ''multiple SSH-agent keys match this signer''))"
  proof (induction identities)
    case (Cons identity identities)
    obtain key public where i: "identity = (key, public)" by (cases identity)
    show ?case
      using Cons by (simp add: i select_from_Cons select_from_matched split: option.split)
  qed simp
  then show ?thesis by (simp add: select_identity_def split: list.split)
qed

lemma entry_for_in:
  assumes "entry_for x candidates fingerprint public = Some c"
  shows "same_key x (cd_key c) (cd_key public)"
    and "case candidates of Some cs \<Rightarrow> c \<in> set cs | None \<Rightarrow> c = public"
    and "case fingerprint of Some v \<Rightarrow> cd_fingerprint c = v | None \<Rightarrow> True"
  using assms
  by (auto simp: entry_for_def same_key_def bind_eq_Some_conv find_Some_iff in_set_conv_nth
      split: option.splits if_splits)

lemma select_from_in:
  "select_from x candidates fingerprint matched identities = Inr (Some m) \<Longrightarrow>
     matched = Some m \<or> m \<in> set (entries x candidates fingerprint identities)"
  by (induction identities arbitrary: matched)
    (auto simp: select_from_Cons select_from_matched split: option.splits if_splits)

lemma selected_entry:
  assumes "select_identity x identities candidates fingerprint = Inr (key, c)"
  obtains public where "(key, public) \<in> set identities" "entry_for x candidates fingerprint public = Some c"
proof -
  have "(key, c) \<in> set (entries x candidates fingerprint identities)"
    using assms select_from_in [of x candidates fingerprint None identities]
    by (auto simp: select_identity_def result_simps)
  with that show ?thesis by (auto simp: entries_def split: option.splits)
qed

section \<open>Signing with the agent\<close>

text \<open>The payload of an artifact: the input, with a line feed at its end.\<close>

definition ended_payload :: "bytes \<Rightarrow> bytes" where
  "ended_payload p = (if p = [] \<or> last p = 0x0A then p else p @ [0x0A])"

lemma example_request_simps [simp]:
  "sreq_payload (example_request payload c key) = payload" "sreq_algorithm (example_request payload c key) = Ed25519"
  "sreq_key (example_request payload c key) = SK_Ed25519 key" "sreq_keyid (example_request payload c key) = cd_source c"
  "sreq_append_missing_final_newline (example_request payload c key)"
  "sreq_output_form (example_request payload c key) = OF_Yaml"
  by (simp_all add: example_request_def)

lemma prepared_example:
  assumes "prepare_signing_payload (example_request payload c key) = Inr prepared"
  shows "psp_payload prepared = ended_payload payload"
  using assms by (auto simp: prepare_signing_payload_eq Let_def ended_payload_def split: if_splits)

lemma agent_callback_ok: "callback_ok (signature_signing_callback (agent_try_sign w public))"
proof -
  have "length sig = 64"
    if "agent_try_sign w public m s = Done (Inr sig, s')" for m s sig s'
    using that by (cases s) (auto simp: agent_try_sign_def split: if_splits prod.splits option.splits sum.splits)
  then show ?thesis
    by (auto simp: callback_ok_def signature_signing_callback_def exec_map_eq_Done result_simps
        eq_commute [of "Inr _" "map_err _ _"])
qed

lemma agent_key_built:
  assumes "async_builder_build x (async_builder_ed25519 signer bs) = Inr key"
  obtains pk where "key = \<lparr>apsk_inner = \<lparr>bs_signer = signer, bs_public_key = pk\<rparr>\<rparr>"
    "resolve_provider_public_key x Ed25519 bs = Some pk"
proof -
  have "async_builder_resolve x (async_builder_ed25519 signer bs) =
      result_map (\<lambda>pk. \<lparr>bs_signer = signer, bs_public_key = pk\<rparr>)
        (ok_or (resolve_provider_public_key x Ed25519 bs) (invalid_public_key Ed25519))"
    by (cases "resolve_provider_public_key x Ed25519 bs")
      (simp_all add: async_builder_resolve_def async_builder_ed25519_def async_builder_new_def bounded_copy_resolves)
  with assms that show ?thesis
    by (auto simp: async_builder_build_def result_simps)
qed

text \<open>The options of a verifier that takes Ed25519 signatures.\<close>

definition takes_ed25519 :: "verifier_options \<Rightarrow> bool" where
  "takes_ed25519 options \<longleftrightarrow> vo_verify_ed25519 options \<and> vo_algorithm_parameters options = []"

abbreviation only_key :: "'k \<Rightarrow> ('k, 'k) public_keys" where
  "only_key k \<equiv> \<lparr>pk_ed25519 = Some k, pk_p256 = None\<rparr>"

lemma agent_artifact_verifies:
  assumes run: "sign_payload_with_agent x w payload public c s = Done (Inr artifact, s')"
    and x: "reading_runtime x" "crypto_ok x" and c: "made x c"
    and len: "length payload \<le> MAX_DOCUMENT_BYTES" and options: "takes_ed25519 options"
  shows "verify x artifact AF_Yaml (only_key (cd_key c)) options =
      Done (Inr (VS_Verified (ended_payload payload) Ed25519)) \<and> length artifact \<le> MAX_DOCUMENT_BYTES"
proof -
  let ?signer = "agent_try_sign w public" and ?bs = "ed_vk_as_bytes x (cd_key c)"
  obtain key ss slot where key: "async_builder_build x (async_builder_ed25519 ?signer ?bs) = Inr key"
    and signed: "sign_with_async_provider_and_resource_limits x (example_request payload c key) resource_limits (s, True) =
      Done (Inr (Inr (SO_Success ss)), (s', slot))" and artifact: "artifact = ss_artifact ss"
  proof -
    obtain key where key: "async_builder_build x (async_builder_ed25519 ?signer ?bs) = Inr key"
      using run by (auto simp: sign_payload_with_agent_def split: sum.splits)
    obtain signed s1 slot where "sign_with_async_provider_and_resource_limits x (example_request payload c key)
        resource_limits (s, True) = Done (signed, (s1, slot))"
      and "(case signed of
          Inl _ \<Rightarrow> Inl (Failed ''signed document exceeds the example limit'')
        | Inr (Inl _) \<Rightarrow> Inl (Failed ''could not encode signed YAML'')
        | Inr (Inr (SO_Success success)) \<Rightarrow> Inr (ss_artifact success)
        | Inr (Inr (SO_Invocation _)) \<Rightarrow> Inl (Failed ''signing invocation failed: {error}'')
        | Inr (Inr (SO_Signer _)) \<Rightarrow> Inl (Failed ''SSH-agent signing failed: {error}'')) = Inr artifact" "s1 = s'"
      using run key by (auto simp: sign_payload_with_agent_def exec_map_eq_Done)
    then show ?thesis using that key by (auto split: sum.splits sign_outcome.splits)
  qed
  from agent_key_built [OF key] obtain pk where k: "key = \<lparr>apsk_inner = \<lparr>bs_signer = ?signer, bs_public_key = pk\<rparr>\<rparr>"
    and pk: "resolve_provider_public_key x Ed25519 ?bs = Some pk" .
  let ?cb = "signature_signing_callback ?signer"
  let ?req = "rebound_request (\<lambda>key. \<lparr>psk_public_key = bs_public_key (apsk_inner key)\<rparr>) (example_request payload c key)"
  have f: "sreq_algorithm ?req = Ed25519" "sreq_output_form ?req = OF_Yaml" "sreq_payload ?req = payload"
    "sreq_keyid ?req = cd_source c" "psk_public_key (key_of ?req) = pk"
    by (simp_all add: example_request_def k)
  have inner: "sign_with_provider_inner x qualified_key ?req (Some resource_limits) None ?cb (s, True) =
      Done (Inr (Inr (SO_Success ss)), (s', slot))"
    using signed unfolding sign_with_async_provider_and_resource_limits_def
    by (subst (asm) async_inner_is_sync [where tr' = qualified_key and f = "\<lambda>key. \<lparr>psk_public_key = bs_public_key (apsk_inner key)\<rparr>"])
      (simp_all add: qualified_key_def async_qualified_key_def example_request_def k)
  have runtime: "signing_runtime x" using x(1) by (simp add: reading_runtime_def)
  note attested = provider_bounded_success [OF runtime agent_callback_ok inner]
  have wf: "request_wf ?req" using c unfolding request_wf_def f(4) made_def by blast
  have size: "length (sreq_payload ?req) < 2 ^ 62" using len unfolding f(3) MAX_DOCUMENT_BYTES_def by simp
  have match: "keys_match x (sreq_algorithm ?req) ?bs (psk_public_key (key_of ?req)) (only_key (cd_key c)) options"
    using c options pk by (simp add: keys_match_def takes_ed25519_def made_def k)
  from attested_verifies [OF x wf agent_callback_ok size match provider_success_validated [OF inner] attested [THEN conjunct1]]
  obtain prepared where p: "prepare_signing_payload ?req = Inr prepared"
    and v: "verify x (ss_artifact ss) (verification_form (sreq_output_form ?req)) (only_key (cd_key c)) options =
      Done (Inr (VS_Verified (psp_payload prepared) (sreq_algorithm ?req)))" by blast
  have "psp_payload prepared = ended_payload payload"
    using p by (intro prepared_example [of payload c key]) simp
  moreover have "length (ss_artifact ss) \<le> MAX_DOCUMENT_BYTES"
    using attested [THEN conjunct2] by (simp add: admits_def resource_limits_def with_max_artifact_bytes_def)
  ultimately show ?thesis using v by (simp add: artifact f(1,2))
qed

section \<open>What a signing run writes\<close>

datatype output_event = Created str | Wrote_File bytes | Wrote_Out bytes

definition unnoted :: "('s \<Rightarrow> 'a \<times> 's) \<Rightarrow> 's \<times> output_event list \<Rightarrow> 'a \<times> 's \<times> output_event list" where
  "unnoted m = (\<lambda>(s, l). let (r, s') = m s in (r, (s', l)))"

definition noting :: "output_event \<Rightarrow> ('s \<Rightarrow> 'a \<times> 's) \<Rightarrow> 's \<times> output_event list \<Rightarrow> 'a \<times> 's \<times> output_event list" where
  "noting e m = (\<lambda>(s, l). let (r, s') = m s in (r, (s', l @ [e])))"

text \<open>The environment with a record of what is written, or is tried to be.\<close>

definition noted :: "('pub, 's) world \<Rightarrow> ('pub, 's \<times> output_event list) world" where
  "noted w =
     \<lparr>wd_auth_sock = wd_auth_sock w, wd_connect = (\<lambda>p. unnoted (wd_connect w p)),
      wd_identities = unnoted (wd_identities w), wd_agent_sign = (\<lambda>k m. unnoted (wd_agent_sign w k m)),
      wd_get = (\<lambda>u. unnoted (wd_get w u)), wd_get_input = (\<lambda>u. unnoted (wd_get_input w u)),
      wd_open = (\<lambda>p. unnoted (wd_open w p)), wd_stdin = unnoted (wd_stdin w), wd_say = (\<lambda>l. unnoted (wd_say w l)),
      wd_flush_progress = unnoted (wd_flush_progress w),
      wd_create_new = (\<lambda>p. noting (Created p) (wd_create_new w p)),
      wd_write_file = (\<lambda>b. noting (Wrote_File b) (wd_write_file w b)),
      wd_write_out = (\<lambda>b. noting (Wrote_Out b) (wd_write_out w b)), wd_flush_out = unnoted (wd_flush_out w)\<rparr>"

lemma noted_simps [simp]:
  "wd_auth_sock (noted w) = wd_auth_sock w" "wd_connect (noted w) p = unnoted (wd_connect w p)"
  "wd_identities (noted w) = unnoted (wd_identities w)" "wd_agent_sign (noted w) k m = unnoted (wd_agent_sign w k m)"
  "wd_get (noted w) u = unnoted (wd_get w u)" "wd_get_input (noted w) v = unnoted (wd_get_input w v)"
  "wd_open (noted w) p = unnoted (wd_open w p)" "wd_stdin (noted w) = unnoted (wd_stdin w)"
  "wd_say (noted w) line = unnoted (wd_say w line)" "wd_flush_progress (noted w) = unnoted (wd_flush_progress w)"
  "wd_create_new (noted w) p = noting (Created p) (wd_create_new w p)"
  "wd_write_file (noted w) b = noting (Wrote_File b) (wd_write_file w b)"
  "wd_write_out (noted w) b = noting (Wrote_Out b) (wd_write_out w b)" "wd_flush_out (noted w) = unnoted (wd_flush_out w)"
  by (simp_all add: noted_def)

text \<open>An action that writes nothing.\<close>

definition silent :: "('s \<times> output_event list, 'a) act \<Rightarrow> bool" where
  "silent m \<longleftrightarrow> (\<forall>s l r s' l'. m (s, l) = Done (r, (s', l')) \<longrightarrow> l' = l)"

named_theorems silent_rules

lemma silentD: "silent m \<Longrightarrow> m (s, l) = Done (r, (s', l')) \<Longrightarrow> l' = l"
  by (auto simp: silent_def)

lemma unnoted_apply: "unnoted m (s, l) = (r, (s', l')) \<longleftrightarrow> m s = (r, s') \<and> l' = l"
  by (auto simp: unnoted_def split: prod.splits)

lemma silent_try [silent_rules]: "silent m \<Longrightarrow> (\<And>a. silent (f a)) \<Longrightarrow> silent (act_try m f)"
proof -
  assume m: "silent m" and f: "\<And>a. silent (f a)"
  have "l' = l" if run: "act_try m f (s, l) = Done (r, (s', l'))" for s l r s' l'
  proof -
    obtain q s1 l1 where q: "m (s, l) = Done (q, (s1, l1))"
      using run by (auto simp: act_try_def exec_bind_eq_Done)
    note l1 = silentD [OF m q]
    show ?thesis
    proof (cases q)
      case (Inr a)
      then have "f a (s1, l1) = Done (r, (s', l'))" using run q by (simp add: act_try_def)
      from silentD [OF f this] show ?thesis using l1 by simp
    qed (use run q l1 in \<open>simp add: act_try_def\<close>)
  qed
  then show ?thesis by (simp add: silent_def)
qed

lemma silent_lift [silent_rules]: "silent (act_lift r)"
  by (simp add: silent_def act_lift_def)

lemma silent_do [silent_rules]: "silent (act_do (unnoted m))"
  by (auto simp: silent_def act_do_def unnoted_apply)

lemma silent_answer [silent_rules]:
  "silent (act_do (\<lambda>s. case unnoted m s of (answer, s') \<Rightarrow> (f answer, s')))"
  by (auto simp: silent_def act_do_def unnoted_def split: prod.splits)

lemma silent_cases [silent_rules]:
  "silent a \<Longrightarrow> (\<And>v. silent (b v)) \<Longrightarrow> silent (case found of None \<Rightarrow> a | Some v \<Rightarrow> b v)"
  "silent m \<Longrightarrow> silent m' \<Longrightarrow> silent (if c then m else m')"
  by (auto split: option.split)

lemma silent_pair [silent_rules]: "(\<And>p q. silent (f p q)) \<Longrightarrow> silent (case pair of (p, q) \<Rightarrow> f p q)"
  by (cases pair) simp

lemma silent_say [silent_rules]: "silent (say (noted w) line)"
  unfolding say_def noted_simps by (intro silent_rules)

lemma silent_say_all [silent_rules]: "silent (say_all (noted w) lines)"
  by (induction lines) (auto intro: silent_rules)

lemma silent_print_step [silent_rules]: "silent (print_step (noted w) step steps title)"
  unfolding print_step_def noted_simps by (intro silent_rules)

lemma silent_print_match [silent_rules]: "silent (print_match (noted w) c)"
  unfolding print_match_def by (intro silent_rules)

lemma silent_connect [silent_rules]: "silent (connect (noted w))"
  unfolding connect_def noted_simps Let_def by (intro silent_rules)

lemma silent_session [silent_rules]: "silent (session_open x (noted w))"
  unfolding session_open_def noted_simps Let_def by (intro silent_rules)

lemma silent_input [silent_rules]: "silent (read_input (noted w) input)"
proof (cases input)
  case Input_Stdin
  then show ?thesis by (auto simp: silent_def unnoted_def split: prod.splits)
qed (simp_all add: fetch_input_def, (intro silent_rules)+)

text \<open>Discovery keeps what every request keeps.\<close>

lemma fetch_pages_from_keeps:
  assumes "\<And>url s. P s \<Longrightarrow> P (snd (get url s))"
  shows "P s \<Longrightarrow> P (snd (fetch_pages_from x get endpoint page remaining keys s))"
proof (induction "MAX_PAGES_PER_RESOURCE + 1 - page" arbitrary: page remaining keys s rule: less_induct)
  case less
  obtain a s1 where one: "get (page_url endpoint page) s = (a, s1)" by fastforce
  have kept: "P s1" using assms [OF less(2), of "page_url endpoint page"] one by simp
  have "P (snd (fetch_pages_from x get endpoint (page + 1) remaining' keys' s1))"
    if "\<not> page > MAX_PAGES_PER_RESOURCE" for remaining' keys'
    by (rule less(1) [OF _ kept]) (use that in simp)
  then show ?case
    using less(2) kept one
    by (subst fetch_pages_from.simps) (auto split: sum.splits prod.splits)
qed

lemma fetch_endpoints_keeps:
  assumes "\<And>url s. P s \<Longrightarrow> P (snd (get url s))"
  shows "P s \<Longrightarrow> P (snd (fetch_endpoints x get remaining cs endpoints s))"
proof (induction endpoints arbitrary: remaining cs s)
  case (Cons endpoint endpoints)
  obtain q s1 where one: "fetch_resource_pages x get endpoint remaining s = (q, s1)" by fastforce
  have "P s1" using fetch_pages_from_keeps [of P get, OF assms Cons.prems] one
    unfolding fetch_resource_pages_def by (metis snd_conv)
  then show ?case using one Cons.IH by (auto split: sum.splits prod.splits)
qed simp

lemma silent_discovery [silent_rules]: "silent (act_do (fetch_pages x (wd_get (noted w)) account))"
proof -
  have "snd (snd (fetch_pages x (wd_get (noted w)) account (s, l))) = l" for s l
  proof -
    have "snd (snd (fetch_endpoints x (wd_get (noted w)) MAX_DISCOVERY_BYTES [] (key_urls account) (s, l))) = l"
      by (rule fetch_endpoints_keeps [where P = "\<lambda>(s, l'). l' = l", simplified split_beta, simplified])
        (auto simp: unnoted_def split: prod.splits)
    then show ?thesis by (auto simp: fetch_pages_def split: sum.splits prod.splits)
  qed
  then show ?thesis unfolding silent_def act_do_def by (metis exec.inject snd_conv)
qed

lemma silent_resolve [silent_rules]: "silent (resolve_signer x (noted w) y)"
  unfolding resolve_signer_def by (cases y) (simp_all only: signer.case, (intro silent_rules)+)

lemma silent_candidates [silent_rules]: "silent (sign_candidates x (noted w) who)"
  unfolding sign_candidates_def by (intro silent_rules)

lemma signing_state:
  fixes s s' :: 's
  assumes "async_sign_inner x tr req limits s = Done (r, s')"
  shows "s' = s \<or> (\<exists>m q. bs_signer (abk_inner tr (request_key (sreq_key req))) m s = Done (q, s'))"
proof -
  have rest: "s' = s1"
    if "(case q of Inl e \<Rightarrow> Done (a, s1) | Inr sig \<Rightarrow> if p sig then Done (a, s1) else exec_map (\<lambda>out. (f out, s1)) (g sig)) =
      Done (r, s')" for q :: "'error + bytes" and a p f and s1 :: 's and g :: "bytes \<Rightarrow> 'out exec"
    using that by (auto simp: exec_map_eq_Done split: sum.splits if_splits)
  have bind: "\<exists>q. run = Done (q, s')"
    if "exec_bind run (\<lambda>(q, s1). case q of Inl e \<Rightarrow> Done (a, s1)
        | Inr sig \<Rightarrow> if p sig then Done (a, s1) else exec_map (\<lambda>out. (f out, s1)) (g sig)) = Done (r, s')"
    for run :: "(('error + bytes) \<times> 's) exec" and a p f and g :: "bytes \<Rightarrow> 'out exec"
    using that by (cases run) (auto dest: rest)
  show ?thesis
    using assms unfolding async_sign_inner_def Let_def
    by (auto dest!: bind split: sum.splits if_splits option.splits)
qed

lemma silent_signing [silent_rules]: "silent (sign_payload_with_agent x (noted w) payload public c)"
proof -
  have signer: "l' = l" if "agent_try_sign (noted w) public m ((s, l), slot) = Done (r, ((s', l'), slot'))"
    for m s l slot r s' l' slot'
    using that
    by (auto simp: agent_try_sign_def unnoted_def split: if_splits prod.splits option.splits sum.splits)
  have sign: "l' = l"
    if run: "sign_with_async_provider_and_resource_limits x (example_request payload c key) resource_limits ((s, l), True) =
        Done (r, ((s', l'), slot))"
      and key: "bs_signer (apsk_inner key) = agent_try_sign (noted w) public" for key s l r s' l' slot
    using signing_state [OF run [unfolded sign_with_async_provider_and_resource_limits_def]] signer
    by (auto simp: async_qualified_key_def key)
  show ?thesis
    unfolding silent_def
  proof (intro allI impI)
    fix s l r s' l'
    assume run: "sign_payload_with_agent x (noted w) payload public c (s, l) = Done (r, (s', l'))"
    show "l' = l"
    proof (cases "async_builder_build x
        (async_builder_ed25519 (agent_try_sign (noted w) public) (ed_vk_as_bytes x (cd_key c)))")
      case (Inl e)
      then show ?thesis using run by (simp add: sign_payload_with_agent_def)
    next
      case (Inr key)
      obtain pk where "key = \<lparr>apsk_inner = \<lparr>bs_signer = agent_try_sign (noted w) public, bs_public_key = pk\<rparr>\<rparr>"
        by (rule agent_key_built [OF Inr])
      then have k: "bs_signer (apsk_inner key) = agent_try_sign (noted w) public" by simp
      let ?run = "sign_with_async_provider_and_resource_limits x (example_request payload c key)
          resource_limits ((s, l), True)"
      obtain y where "?run = Done y"
        using run Inr by (cases ?run) (simp_all add: sign_payload_with_agent_def)
      then obtain signed s1 l1 slot where y: "?run = Done (signed, ((s1, l1), slot))" by (cases y) auto
      then have "s1 = s'" "l1 = l'" using run Inr by (simp_all add: sign_payload_with_agent_def)
      with y have "?run = Done (signed, ((s', l'), slot))" by simp
      from sign [OF this k] show ?thesis .
    qed
  qed
qed

lemma silent_stepE:
  assumes "act_try m f (s, l) = Done (r, (s', l'))" "is_ok r \<or> l' \<noteq> l" "silent m"
    and "\<And>a s1. m (s, l) = Done (Inr a, (s1, l)) \<Longrightarrow> f a (s1, l) = Done (r, (s', l')) \<Longrightarrow> thesis"
  shows thesis
proof -
  obtain q s1 l1 where q: "m (s, l) = Done (q, (s1, l1))"
    using assms(1) by (auto simp: act_try_def exec_bind_eq_Done)
  have l1: "l1 = l" using silentD [OF assms(3) q] .
  show ?thesis
  proof (cases q)
    case (Inl e)
    then show ?thesis using assms(1,2) q l1 by (auto simp: act_try_def)
  next
    case (Inr a)
    then show ?thesis using assms(4) assms(1) q l1 by (simp add: act_try_def)
  qed
qed

fun output_of :: "str option \<Rightarrow> bytes \<Rightarrow> output_event list" where
  "output_of (Some destination) artifact = [Created destination, Wrote_File artifact]"
| "output_of None artifact = [Wrote_Out artifact]"

text \<open>All of the output, or of a run that failed at creating its file, that.\<close>

definition outputs :: "str option \<Rightarrow> bytes \<Rightarrow> example_error + unit \<Rightarrow> output_event list \<Rightarrow> bool" where
  "outputs destination artifact r log \<longleftrightarrow>
     log = output_of destination artifact \<or> \<not> is_ok r \<and> (\<exists>d. destination = Some d \<and> log = [Created d])"

lemma noting_apply: "noting e m (s, l) = (fst (m s), (snd (m s), l @ [e]))"
  by (simp add: noting_def split_beta)

lemma write_signed_outputs:
  assumes "write_signed (noted w) destination artifact (s, []) = Done (r, (s', log))"
  shows "outputs destination artifact r log"
proof (cases destination)
  case None
  obtain q where q: "fst (wd_write_out w artifact s) = q" by blast
  let ?rest = "act_try (act_do (wd_flush_out (noted w))) (\<lambda>_.
     say_all (noted w) [ascii ''====== STATUS ======'', ascii ''Signed YAML written to stdout.''])"
  have "silent ?rest" unfolding noted_simps by (intro silent_rules)
  then show ?thesis
    using assms q None
    by (cases q) (auto simp: act_try_def [of "act_do (noting _ _)"] act_do_def noting_apply outputs_def dest: silentD)
next
  case (Some d)
  obtain q where q: "fst (wd_create_new w d s) = q" by blast
  define s1 where "s1 = snd (wd_create_new w d s)"
  let ?last = "say_all (noted w) [ascii ''====== STATUS ======'', ascii ''Signed YAML written to '' @ d @ ascii ''.'']"
  show ?thesis
  proof (cases q)
    case (Inl e)
    then have "r = Inl e" "log = [Created d]"
      using assms q Some by (auto simp: act_try_def act_do_def noting_apply)
    then show ?thesis by (simp add: outputs_def Some)
  next
    case (Inr u)
    then have run: "act_try (act_do (noting (Wrote_File artifact) (wd_write_file w artifact))) (\<lambda>_. ?last) (s1, [Created d]) =
        Done (r, (s', log))"
      using assms q Some by (simp add: act_try_def [of "act_do (noting (Created _) _)"] act_do_def noting_apply s1_def)
    obtain q1 where q1: "fst (wd_write_file w artifact s1) = q1" by blast
    have "silent ?last" by (intro silent_rules)
    then show ?thesis
      using run q1 Some
      by (cases q1) (auto simp: act_try_def [of "act_do (noting _ _)"] act_do_def noting_apply outputs_def dest: silentD
          simp del: say_all.simps)
  qed
qed

lemma read_input_limit:
  "read_input w input s = Done (Inr octets, s') \<Longrightarrow> length octets \<le> MAX_DOCUMENT_BYTES"
  by (cases input) (auto simp: acts fetch_input_def read_response_def read_limited_def result_simps
      split: if_splits prod.splits)

lemma session_made:
  assumes "crypto_ok x" "session_open x w s = Done (Inr session, s')"
  shows "list_all (\<lambda>(_, c). made x c) session"
proof -
  obtain identities where "supported_identities x [] identities = Inr session"
    using assms(2) by (auto simp: session_open_def acts split: if_splits)
  then show ?thesis using supported_made [OF assms(1), of "[]"] by simp
qed

lemma candidates_made:
  assumes "crypto_ok x" "given x who" "sign_candidates x w who s = Done (Inr (Some cs), s')"
  shows "list_all (made x) cs"
  using assms given_made [OF assms(1)] by (cases who) (auto simp: sign_candidates_def acts)

lemma selected_made:
  assumes "list_all (\<lambda>(_, c). made x c) session"
    and "\<And>cs. candidates = Some cs \<Longrightarrow> list_all (made x) cs"
    and "select_identity x session candidates fingerprint = Inr (key, c)"
  shows "made x c"
proof -
  obtain public where "(key, public) \<in> set session" "entry_for x candidates fingerprint public = Some c"
    by (rule selected_entry [OF assms(3)])
  then show ?thesis
    using assms(1,2) entry_for_in(2) [of x candidates fingerprint public c]
    by (cases candidates) (auto simp: list_all_iff)
qed

lemma run_sign_stages:
  assumes "run_sign x (noted w) who fingerprint input destination (s, []) = Done (r, (s', log))"
    and "is_ok r \<or> log \<noteq> []"
  shows "\<exists>session t1 t2 payload t3 t4 candidates t5 t6 chosen artifact t7 t8 t9.
    session_open x (noted w) t1 = Done (Inr session, t2) \<and>
    read_input (noted w) input t3 = Done (Inr payload, t4) \<and>
    sign_candidates x (noted w) who t5 = Done (Inr candidates, t6) \<and>
    select_identity x session candidates fingerprint = Inr chosen \<and>
    sign_payload_with_agent x (noted w) payload (fst chosen) (snd chosen) t7 = Done (Inr artifact, t8) \<and>
    act_try (write_signed (noted w) destination artifact) (\<lambda>_. print_match (noted w) (snd chosen)) (t9, []) =
      Done (r, (s', log))"
  using assms(1) unfolding run_sign_def split_beta
  by - ((erule silent_stepE [OF _ assms(2)], (rule silent_rules)[1])+, unfold act_lift_Done, blast)

text \<open>
  C21: what the sign command writes. When a run succeeds, or has written anything, it has read an
  input, selected one identity of the agent under the given signer and fingerprint, and produced
  an artifact no larger than the limit that the verifier reports as verified under the key of
  that identity, with the input and a line feed at its end as payload. What was written is that
  artifact, once, to a file that was created or to the standard output; before there was such an
  artifact, nothing. The agent may answer anything.
\<close>

theorem written_artifact_verifies:
  assumes "reading_runtime x" and "crypto_ok x" and "given x who" and "takes_ed25519 options"
    and "run_sign x (noted w) who fingerprint input destination (s, []) = Done (r, (s', log))"
    and "is_ok r \<or> log \<noteq> []"
  shows "\<exists>payload artifact public c. outputs destination artifact r log \<and>
    (\<exists>s1 s2. read_input (noted w) input s1 = Done (Inr payload, s2)) \<and>
    (\<exists>session candidates s1 s2 s3 s4.
       session_open x (noted w) s1 = Done (Inr session, s2) \<and>
       sign_candidates x (noted w) who s3 = Done (Inr candidates, s4) \<and>
       select_identity x session candidates fingerprint = Inr (public, c)) \<and>
    length artifact \<le> MAX_DOCUMENT_BYTES \<and>
    verify x artifact AF_Yaml (only_key (cd_key c)) options =
      Done (Inr (VS_Verified (ended_payload payload) Ed25519))"
proof -
  obtain session t1 t2 payload t3 t4 candidates t5 t6 public c artifact t7 t8 t9
    where session: "session_open x (noted w) t1 = Done (Inr session, t2)"
      and payload: "read_input (noted w) input t3 = Done (Inr payload, t4)"
      and candidates: "sign_candidates x (noted w) who t5 = Done (Inr candidates, t6)"
      and chosen: "select_identity x session candidates fingerprint = Inr (public, c)"
      and signed: "sign_payload_with_agent x (noted w) payload public c t7 = Done (Inr artifact, t8)"
      and written: "act_try (write_signed (noted w) destination artifact) (\<lambda>_. print_match (noted w) c) (t9, []) =
        Done (r, (s', log))"
    using run_sign_stages [OF assms(5,6)] by fastforce
  have "made x c"
    using candidates_made [OF assms(2,3), of "noted w" t5 _ t6] candidates
    by (intro selected_made [OF session_made [OF assms(2) session] _ chosen]) simp
  note verified = agent_artifact_verifies [OF signed assms(1,2) this read_input_limit [OF payload] assms(4)]
  obtain q s1 l1 where q: "write_signed (noted w) destination artifact (t9, []) = Done (q, (s1, l1))"
    using written by (auto simp: act_try_def exec_bind_eq_Done)
  have "outputs destination artifact r log"
  proof (cases q)
    case (Inl e)
    then show ?thesis using written q write_signed_outputs [OF q] by (simp add: act_try_def)
  next
    case (Inr u)
    then have "print_match (noted w) c (s1, l1) = Done (r, (s', log))" using written q by (simp add: act_try_def)
    then have "log = l1" by (rule silentD [OF silent_print_match])
    then show ?thesis using write_signed_outputs [OF q] Inr by (simp add: outputs_def)
  qed
  with verified payload session candidates chosen show ?thesis by blast
qed

end
