(* ===== verification/Sample_Keys.thy ===== *)
theory Sample_Keys
  imports Key_Signing Sample_Verification
begin

text \<open>
  A toy account and a toy agent: an OpenSSH key is the text of its line and its curve key begins
  with the first octet of it, the keys of a page are its body, and a URL is its path. The witnesses
  of the properties of the example use them.
\<close>

section \<open>The toy runtime\<close>

definition sample_keys_ext :: "(put list, put list, u8, str) keys_ext" where
  "sample_keys_ext = sample_crypto
     \<lparr>ke_from_openssh = Some, ke_ed25519 = (\<lambda>line. Some (toy_encode (hd line))),
      ke_fingerprint = (\<lambda>line. line), ke_parse_fingerprint = (\<lambda>s. Some (s, True)),
      ke_parse_uri = (\<lambda>s. Some \<lparr>ur_scheme = Some (ascii ''https''), ur_authority = Some (ascii ''api.github.com''),
        ur_host = Some (ascii ''api.github.com''), ur_path = s, ur_query = None\<rparr>),
      ke_json_keys = (\<lambda>b. Some [Some b]), ke_default_options = sample_options\<rparr>"

lemma sample_keys_simps [simp]:
  "ke_from_openssh sample_keys_ext line = Some line"
  "ke_ed25519 sample_keys_ext line = Some (toy_encode (hd line))"
  "ke_fingerprint sample_keys_ext line = line"
  "ke_parse_uri sample_keys_ext s = Some \<lparr>ur_scheme = Some (ascii ''https''), ur_authority = Some (ascii ''api.github.com''),
        ur_host = Some (ascii ''api.github.com''), ur_path = s, ur_query = None\<rparr>"
  "ke_json_keys sample_keys_ext b = Some [Some b]"
  "ke_default_options sample_keys_ext = sample_options"
  by (simp_all add: sample_keys_ext_def sample_crypto_def sample_yaml_def sample_buffa_def buffa_ext.defs)

lemma sample_keys_crypto [simp]:
  "crypto_ok sample_keys_ext" "traits_ok sample_keys_ext" "reading_runtime sample_keys_ext"
  "ed_vk_as_bytes sample_keys_ext = toy_encode"
  unfolding sample_keys_ext_def by simp_all

lemma sample_resolves [simp]: "k \<noteq> 0 \<Longrightarrow> resolve_ed25519_verifying_key sample_keys_ext (toy_encode k) = Inr k"
  unfolding sample_keys_ext_def
  by (simp add: resolve_ed25519_verifying_key_def decode_canonical_edwards_point_def try_array_def)

lemma sample_trim [simp]: "trim [0x41] = [0x41]" "trim [0x42] = [0x42]" "trim_start [0x41] = [0x41]" "trim_start [0x42] = [0x42]"
  by code_simp+

definition sample_key :: "u8 \<Rightarrow> u8 candidate" where
  "sample_key k = \<lparr>cd_key = k, cd_fingerprint = [k], cd_source = None\<rparr>"

lemma sample_public [simp]: "k \<noteq> 0 \<Longrightarrow> from_public sample_keys_ext [k] = Inr (Some (sample_key k))"
  by (simp add: from_public_def sample_key_def)

section \<open>A discovery\<close>

definition sample_account :: account where
  "sample_account = ascii ''https://api.github.com/users/a''"

definition sample_response :: "u8 \<Rightarrow> http_response" where
  "sample_response k = \<lparr>hr_status = 200, hr_headers = [(ascii ''content-type'', ascii ''application/json'')],
     hr_body = \<lparr>bs_octets = [k], bs_fails_after = None\<rparr>\<rparr>"

definition sample_refusal :: http_response where
  "sample_refusal = (sample_response 0)\<lparr>hr_status := 403, hr_headers := [(ascii ''x-ratelimit-remaining'', ascii ''0'')]\<rparr>"

definition sample_get :: "http_response list http_get" where
  "sample_get url s = (case s of [] \<Rightarrow> (Inl (Failed ''closed''), []) | r # rs \<Rightarrow> (Inr r, rs))"

lemma sample_response_reads:
  "check_status (sample_response k) = Inr ()"
  "header_all (ascii ''link'') (sample_response k) = []"
  "is_json_media (sample_response k)"
  subgoal by (simp add: check_status_def sample_response_def header_get_def)
  subgoal by (simp add: sample_response_def header_all_def)
  subgoal by (simp add: sample_response_def is_json_media_def header_get_def Let_def) code_simp
  done

lemma sample_page:
  assumes "trim [k] = [k]" "trim_start [k] = [k]" "k \<notin> {0x0A, 0x0D, 0x23}" "1 \<le> remaining"
  shows "read_page sample_keys_ext (sample_response k) remaining = Inr ([[k]], remaining - 1)"
  using assms sample_response_reads(3) [of k]
  by (simp add: read_page_def read_up_to_def sample_response_def starts_with_iff)

abbreviation sample_key_pages :: str where "sample_key_pages \<equiv> sample_account @ ascii ''/keys''"
abbreviation sample_signing_pages :: str where "sample_signing_pages \<equiv> sample_account @ ascii ''/ssh_signing_keys''"

lemma sample_last_page:
  assumes "e \<in> {sample_key_pages, sample_signing_pages}"
  shows "has_next_page sample_keys_ext (sample_response k) e page = Inr False"
proof -
  have "rsplit_once_at 0x2F e \<noteq> None"
    using assms by (auto simp: sample_account_def rsplit_once_at_def)
  then show ?thesis unfolding has_next_page_def sample_response_reads(2) by auto
qed

lemma sample_resource:
  assumes "e \<in> {sample_key_pages, sample_signing_pages}"
    and "trim [k] = [k]" "trim_start [k] = [k]" "k \<notin> {0x0A, 0x0D, 0x23}" "1 \<le> remaining"
  shows "fetch_resource_pages sample_keys_ext (recorded sample_get) e remaining (sample_response k # rs, l) =
    (Inr ([[k]], remaining - 1), (rs, l @ [(page_url e 1, Inr (sample_response k))]))"
  using sample_page [OF assms(2-5)] sample_last_page [OF assms(1), of k 1]
  by (simp add: fetch_resource_pages_def fetch_pages_from.simps recorded_apply sample_get_def
      MAX_PAGES_PER_RESOURCE_def sample_response_reads(1))

lemma sample_parses:
  "parse_candidates sample_keys_ext (join_keys [[0x41]]) = Inr [sample_key 0x41]"
  "parse_candidates sample_keys_ext (join_keys [[0x42]]) = Inr [sample_key 0x42]"
  by (simp_all add: parse_candidates_def Signature_Doc.str_lines_def push_new_def starts_with_iff)

definition sample_discovered :: "u8 candidate list" where
  "sample_discovered =
     [(sample_key 0x41)\<lparr>cd_source := Some sample_key_pages\<rparr>,
      (sample_key 0x42)\<lparr>cd_source := Some sample_signing_pages\<rparr>]"

lemma sample_discovery:
  "fetch_pages sample_keys_ext (recorded sample_get) sample_account ([sample_response 0x41, sample_response 0x42], []) =
     (Inr sample_discovered, ([], [(page_url sample_key_pages 1, Inr (sample_response 0x41)),
        (page_url sample_signing_pages 1, Inr (sample_response 0x42))]))"
  by (simp add: fetch_pages_def key_urls_def sample_resource sample_parses [simplified] MAX_DISCOVERY_BYTES_def add_from_def
      push_new_def same_key_def sample_discovered_def sample_key_def toy_encode_def)

section \<open>Witnesses\<close>

theorem discovery_is_complete_witness:
  "\<exists>keys signing_keys.
     complete_pages sample_keys_ext sample_key_pages 1 keys \<and>
     complete_pages sample_keys_ext sample_signing_pages 1 signing_keys \<and>
     page_octets keys + page_octets signing_keys \<le> MAX_DISCOVERY_BYTES \<and>
     distinct (key_bytes sample_keys_ext sample_discovered)"
  using discovery_is_complete [OF sample_discovery] by blast

theorem refused_page_fails_discovery_witness:
  "fst (fetch_pages sample_keys_ext (recorded sample_get) sample_account ([sample_response 0x41, sample_refusal], [])) =
     Inl (Rate_Limited 403 Retry_Later)"
proof -
  obtain r s log where run: "fetch_pages sample_keys_ext (recorded sample_get) sample_account
      ([sample_response 0x41, sample_refusal], []) = (r, (s, log))"
    by (metis prod_cases3)
  have c: "check_status sample_refusal = Inl (Rate_Limited 403 Retry_Later)"
    by (simp add: check_status_def sample_refusal_def header_get_def header_number_def)
  have "fetch_resource_pages sample_keys_ext (recorded sample_get) sample_signing_pages n ([sample_refusal], l) =
      (Inl (Rate_Limited 403 Retry_Later), ([], l @ [(page_url sample_signing_pages 1, Inr sample_refusal)]))" for n l
    by (simp add: fetch_resource_pages_def fetch_pages_from.simps recorded_apply sample_get_def
        MAX_PAGES_PER_RESOURCE_def c)
  then have "(page_url sample_signing_pages 1, Inr sample_refusal) \<in> set log"
    using run
    by (simp add: fetch_pages_def key_urls_def sample_resource sample_parses [simplified] MAX_DISCOVERY_BYTES_def) auto
  from refused_page_fails_discovery [OF run this] c show ?thesis by (simp add: run)
qed

section \<open>An agent\<close>

text \<open>The agent has one identity and signs with its key; the input is on the standard input.\<close>

definition sample_world :: "bytes \<Rightarrow> (str, unit) world" where
  "sample_world stdin =
     \<lparr>wd_auth_sock = Some (ascii ''s''), wd_connect = (\<lambda>p s. (Some (Inr ()), s)),
      wd_identities = (\<lambda>s. (Some (Inr [Other_Identity, Public_Key_Identity [5]]), s)),
      wd_agent_sign = (\<lambda>key m s. (Some (Inr (True, toy_ed_sign (hd key) m)), s)),
      wd_get = (\<lambda>url s. (Inl (Failed ''closed''), s)), wd_get_input = (\<lambda>uri s. (Inl (Failed ''closed''), s)),
      wd_open = (\<lambda>path s. (Inl (Failed ''closed''), s)),
      wd_stdin = (\<lambda>s. (\<lparr>bs_octets = stdin, bs_fails_after = None\<rparr>, s)), wd_say = (\<lambda>line s. (Inr (), s)),
      wd_flush_progress = (\<lambda>s. (Inr (), s)), wd_create_new = (\<lambda>path s. (Inr (), s)),
      wd_write_file = (\<lambda>octets s. (Inr (), s)), wd_write_out = (\<lambda>octets s. (Inr (), s)),
      wd_flush_out = (\<lambda>s. (Inr (), s))\<rparr>"

definition sample_signed :: bytes where
  "sample_signed = artifact_of sample_keys_ext OF_Yaml Ed25519 None [0x61, 0x0A] (toy_ed_sign 5 [0x61, 0x0A])"

lemma sample_signed_fits: "length sample_signed \<le> 8198"
proof -
  have "traits_ok sample_keys_ext" "b64_ok sample_keys_ext"
    unfolding sample_keys_ext_def by simp_all
  from yaml_carrier_fits [OF this, of None "toy_ed_sign 5 [0x61, 0x0A]" Ed25519] show ?thesis
    by (simp add: sample_signed_def yaml_marker_def SIGNATURE_DOCUMENT_MAX_TOTAL_SCALAR_BYTES_def keyid_bounded_def)
qed

lemma sample_agent_signs:
  "sign_payload_with_agent sample_keys_ext (noted (sample_world stdin)) [0x61] [5] (sample_key 5) ((), l) =
     Done (Inr sample_signed, ((), l))"
proof -
  let ?x = sample_keys_ext
  let ?signer = "agent_try_sign (noted (sample_world stdin)) [5]"
  let ?key = "\<lparr>apsk_inner = \<lparr>bs_signer = ?signer, bs_public_key = PPK_Ed25519 (toy_encode 5) (5 :: u8)\<rparr>\<rparr>"
  have key: "async_builder_build ?x (async_builder_ed25519 ?signer (toy_encode 5)) = Inr ?key"
    unfolding sample_keys_ext_def
    by (simp add: async_builder_build_def async_builder_resolve_def async_builder_ed25519_def async_builder_new_def
        bounded_public_key_copy_def resolve_provider_public_key_def try_array_def)
  let ?req = "rebound_request (\<lambda>key. \<lparr>psk_public_key = bs_public_key (apsk_inner key)\<rparr>)
    (example_request [0x61] (sample_key 5) ?key)"
  let ?cb = "signature_signing_callback ?signer"
  let ?sig = "toy_ed_sign 5 [0x61, 0x0A]"
  let ?p = "\<lparr>psp_payload = [0x61, 0x0A], psp_modified_payload = [0x61, 0x0A]\<rparr>"
  let ?ss = "\<lparr>ss_artifact = sample_signed, ss_modified_payload = [0x61, 0x0A]\<rparr>"
  have runtime: "signing_runtime ?x" unfolding sample_keys_ext_def by simp
  have f: "sreq_algorithm ?req = Ed25519" "sreq_output_form ?req = OF_Yaml" "sreq_keyid ?req = None"
    "psk_public_key (key_of ?req) = PPK_Ed25519 (toy_encode 5) 5"
    by (simp_all add: example_request_def sample_key_def)
  have p: "prepare_signing_payload ?req = Inr ?p"
    by (simp add: prepare_signing_payload_eq example_request_def Let_def utf8_valid_ascii_Cons bom_at_zero_def starts_with_def)
  have wf: "request_wf ?req" by (simp add: request_wf_def sample_key_def)
  have document: "signed_artifact ?x ?req ?p ?sig = sample_signed"
    by (simp only: f sample_signed_def prepared_signing_payload.simps)
  obtain m where "m \<le> length sample_signed" "preflight_signing_output ?x ?req resource_limits =
      (if m < 2 ^ 64 then result_map Inr (check_output_size_lower_bound resource_limits RF_Yaml m)
       else Inl (size_computation_overflow resource_limits RF_Yaml))"
    using preflight_yaml [OF runtime wf length_toy(3) [of 5 "[0x61, 0x0A]"] p f(2), of resource_limits]
    unfolding document by blast
  then have preflight: "preflight_signing_output ?x ?req resource_limits = Inr (Inr m)"
    using sample_signed_fits
    by (simp add: check_defs resource_limits_def with_max_artifact_bytes_def MAX_DOCUMENT_BYTES_def)
  have checks: "validate_invocation_shape ?req = Inr ()" "validate_keyid_content ?req = Inr ()"
    by (simp_all add: validate_invocation_shape_def validate_invocation_parameters_def signer_capabilities_def
        validate_keyid_content_def validate_key_algorithm_def example_request_def sample_key_def)
  have gate: "provider_gate ?x (bk_algorithm qualified_key (key_of ?req)) ?req (Some resource_limits) None = Inr ()"
    unfolding provider_gate_def option.case preflight checks by (simp add: bk_algorithm_def qualified_key_def)
  have verifies: "verify_provider_signature ?x (PPK_Ed25519 (toy_encode 5) 5) m (toy_ed_sign 5 m)" for m
    unfolding sample_keys_ext_def
    by (simp add: parse_ed25519_signature_def try_array_def toy_ed_sign_def toy_sha512_def Let_def)
  have signer: "?signer m (((), l), True) = Done (Inr (toy_ed_sign 5 m), (((), l), True))" for m
    by (simp add: agent_try_sign_def unnoted_def sample_world_def)
  have signs: "bk_try_sign ?x qualified_key (key_of ?req) ?cb m (((), l), True) =
      Done (Inr (toy_ed_sign 5 m), (((), l), True))" for m
    using verifies [of m] verified_is_structural [OF verifies, of m]
    by (simp add: try_sign_returns signature_signing_callback_def signer qualified_key_def bk_algorithm_def f)
  have "policy_rejection resource_limits OF_Yaml (length sample_signed) = None"
    using sample_signed_fits
    by (simp add: policy_rejection_def check_defs resource_limits_def with_max_artifact_bytes_def MAX_DOCUMENT_BYTES_def)
  then have "bounded_result ?x ?req resource_limits ?p ?sig = Inr (SO_Success ?ss)"
    by (simp only: bounded_result_def signed_success_def f prepared_signing_payload.simps flip: sample_signed_def) simp
  then have "sign_with_provider_inner ?x qualified_key ?req (Some resource_limits) None ?cb (((), l), True) =
      Done (Inr (Inr (SO_Success ?ss)), (((), l), True))"
    by (simp only: provider_bounded_eq [OF runtime agent_callback_ok] gate bounded_with_def p signs sum.case
        prepared_signing_payload.simps exec_map.simps prod.case result_map.simps)
  then have "sign_with_async_provider_and_resource_limits ?x (example_request [0x61] (sample_key 5) ?key) resource_limits
      (((), l), True) = Done (Inr (Inr (SO_Success ?ss)), (((), l), True))"
    unfolding sign_with_async_provider_and_resource_limits_def
    by (subst async_inner_is_sync [where tr' = qualified_key and f = "\<lambda>key. \<lparr>psk_public_key = bs_public_key (apsk_inner key)\<rparr>"])
      (simp_all add: qualified_key_def async_qualified_key_def example_request_def)
  then show ?thesis using key by (simp add: sign_payload_with_agent_def sample_key_def)
qed

lemma sample_world_simps [simp]:
  "wd_auth_sock (sample_world stdin) = Some (ascii ''s'')" "wd_connect (sample_world stdin) p s = (Some (Inr ()), s)"
  "wd_identities (sample_world stdin) s = (Some (Inr [Other_Identity, Public_Key_Identity [5]]), s)"
  "wd_stdin (sample_world stdin) s = (\<lparr>bs_octets = stdin, bs_fails_after = None\<rparr>, s)"
  "wd_say (sample_world stdin) line s = (Inr (), s)" "wd_flush_progress (sample_world stdin) s = (Inr (), s)"
  "wd_create_new (sample_world stdin) p s = (Inr (), s)" "wd_write_file (sample_world stdin) b s = (Inr (), s)"
  by (simp_all add: sample_world_def)

lemma sample_say [simp]:
  "say (noted (sample_world stdin)) line s = Done (Inr (), s)"
  "say_all (noted (sample_world stdin)) ls s = Done (Inr (), s)"
proof -
  show say: "say (noted (sample_world stdin)) line s = Done (Inr (), s)" for line
    by (cases s) (simp add: say_def act_do_def unnoted_def)
  show "say_all (noted (sample_world stdin)) ls s = Done (Inr (), s)"
    by (induction ls) (simp_all add: act_lift_def act_try_def say)
qed

declare say_all.simps [simp del]

lemma sample_steps [simp]:
  "print_step (noted (sample_world stdin)) step steps title s = Done (Inr (), s)"
  "print_match (noted (sample_world stdin)) c s = Done (Inr (), s)"
  "connect (noted (sample_world stdin)) s = Done (Inr (), s)"
  "session_open sample_keys_ext (noted (sample_world stdin)) s = Done (Inr [([5], sample_key 5)], s)"
  by (cases s; simp add: print_step_def print_match_def connect_def session_open_def act_try_def act_do_def act_lift_def
      unnoted_def)+

lemma sample_input [simp]:
  "length stdin \<le> 8198 \<Longrightarrow> read_input (noted (sample_world stdin)) Input_Stdin s = Done (Inr stdin, s)"
  by (cases s) (simp add: unnoted_def read_limited_def read_up_to_def MAX_DOCUMENT_BYTES_def)

lemma sample_select: "select_identity sample_keys_ext [([5 :: u8], sample_key 5)] None None = Inr ([5], sample_key 5)"
  by (simp add: select_identity_def select_from_Cons entry_for_def)

lemma sample_write:
  "write_signed (noted (sample_world stdin)) (Some d) b (s, l) = Done (Inr (), (s, l @ [Created d, Wrote_File b]))"
  by (simp add: act_try_def act_do_def noting_def)

lemma sample_sign_run:
  "run_sign sample_keys_ext (noted (sample_world [0x61])) None None Input_Stdin (Some [0x6F]) ((), []) =
     Done (Inr (), ((), [Created [0x6F], Wrote_File sample_signed]))"
  by (simp add: run_sign_def act_try_def act_lift_def sign_candidates_def sample_select sample_agent_signs sample_write
      del: read_input.simps write_signed.simps)

theorem written_artifact_verifies_witness:
  "\<exists>artifact. [Created [0x6F], Wrote_File sample_signed] = output_of (Some [0x6F]) artifact \<and>
     length artifact \<le> MAX_DOCUMENT_BYTES \<and>
     verify sample_keys_ext artifact AF_Yaml (only_key 5) sample_options = Done (Inr (VS_Verified [0x61, 0x0A] Ed25519))"
proof -
  have "takes_ed25519 sample_options" by (simp add: takes_ed25519_def sample_options_def)
  moreover have "given sample_keys_ext None" by (simp add: given_def)
  moreover note written_artifact_verifies [OF sample_keys_crypto(3,1) _ _ sample_sign_run, of sample_options]
  ultimately
  obtain payload artifact public c where out: "outputs (Some [0x6F]) artifact (Inr ()) [Created [0x6F], Wrote_File sample_signed]"
    and read: "\<exists>s1 s2. read_input (noted (sample_world [0x61])) Input_Stdin s1 = Done (Inr payload, s2)"
    and chosen: "\<exists>session candidates s1 s2 s3 s4.
       session_open sample_keys_ext (noted (sample_world [0x61])) s1 = Done (Inr session, s2) \<and>
       sign_candidates sample_keys_ext (noted (sample_world [0x61])) None s3 = Done (Inr candidates, s4) \<and>
       select_identity sample_keys_ext session candidates None = Inr (public, c)"
    and v: "length artifact \<le> MAX_DOCUMENT_BYTES" "verify sample_keys_ext artifact AF_Yaml (only_key (cd_key c)) sample_options =
      Done (Inr (VS_Verified (ended_payload payload) Ed25519))"
    unfolding is_ok.simps by blast
  have "payload = [0x61]" using read by (simp del: read_input.simps)
  moreover have "c = sample_key 5"
    using chosen sample_select by (auto simp: sign_candidates_def act_try_def act_lift_def)
  ultimately show ?thesis using v out by (intro exI [of _ artifact]) (simp add: sample_key_def ended_payload_def outputs_def)
qed

lemma sample_read: "read_artifact sample_keys_ext AF_Yaml False sample_signed =
    Inr ([0x61, 0x0A], \<lparr>us_algorithm = Ed25519, us_keyid = None, us_signature_octets = toy_ed_sign 5 [0x61, 0x0A]\<rparr>)"
proof -
  have "validate_payload_stream [0x61, 0x0A] = Inr ()" by code_simp
  then show ?thesis
    unfolding sample_signed_def
    by (intro read_signed_yaml) (simp_all add: keyid_ok_def)
qed

definition sample_verified :: verified_document where
  "sample_verified = \<lparr>vd_payload = [0x61, 0x0A], vd_fingerprint = [5], vd_source = None\<rparr>"

lemma sample_verify_run:
  "run_verify sample_keys_ext (noted (sample_world sample_signed)) None (Some [5]) Input_Stdin ((), []) =
     Done (Inr sample_verified, ((), []))"
proof -
  let ?x = sample_keys_ext and ?pre = "response_of AF_Yaml (read_artifact sample_keys_ext AF_Yaml False sample_signed)"
  let ?options = "(ke_default_options ?x)\<lparr>vo_verify_ecdsa_p256_sha256 := False\<rparr>"
  have pre: "pre_verify_yaml_with_resource_limits ?x sample_signed False resource_limits = Done (Inr ?pre)"
    using sample_signed_fits
    by (simp add: pre_verify_yaml_with_resource_limits_def check_defs resource_limits_def with_max_artifact_bytes_def
        MAX_DOCUMENT_BYTES_def pre_verify_yaml_def pre_verify_eq)
  have fields: "pr_outcome ?pre = PV_Ok" "pr_form ?pre = AF_Yaml" "\<exists>sig. pr_unverified_signature ?pre = Some sig \<and> us_algorithm sig = Ed25519"
    by (simp_all add: response_of_def sample_read)
  have options: "takes_ed25519 ?options" by (simp add: takes_ed25519_def sample_options_def)
  have "made ?x (sample_key 5)" by (simp add: made_def sample_key_def)
  from agent_artifact_verifies [OF sample_agent_signs sample_keys_crypto(3,1) this _ options]
  have "verify ?x sample_signed AF_Yaml (only_key 5) ?options = Done (Inr (VS_Verified [0x61, 0x0A] Ed25519))"
    by (simp add: sample_key_def ended_payload_def MAX_DOCUMENT_BYTES_def)
  then have "verify_from_pre_verify_yaml ?x ?pre (only_key 5) ?options = Done (Inr (VS_Verified [0x61, 0x0A] Ed25519))"
    using response_verdict [OF sample_keys_crypto(2) _ refl fields(1), of ?options "only_key 5"] fields(2) options
    by (simp add: verify_from_pre_verify_def takes_ed25519_def)
  then have tried: "try_candidates ?x ?pre [sample_key 5] = Done (Inr sample_verified)"
    by (simp add: sample_key_def sample_verified_def)
  have kept: "filter_fingerprint [sample_key 5] (Some [5]) = Inr [sample_key 5]"
    by (simp add: filter_fingerprint_def sample_key_def)
  show ?thesis
    using fields sample_signed_fits
    by (auto simp: run_verify_def verify_artifact_def act_try_def act_lift_def pre kept tried
        simp del: read_input.simps try_candidates.simps)
qed

theorem verified_document_is_by_selected_key_witness:
  "\<exists>c sig. verification_candidate sample_keys_ext (noted (sample_world sample_signed)) None c \<and>
     cd_fingerprint c = [5] \<and> verify_ed25519 sample_keys_ext (cd_key c) [0x61, 0x0A] sig = Inr ()"
  using verified_document_is_by_selected_key [OF sample_keys_crypto(2) sample_verify_run]
  by (auto simp: sample_verified_def)

end
