(* ===== verification/Cargo_Metadata.thy ===== *)
theory Cargo_Metadata
  imports Release_Source Process
begin

text \<open>
  Running Cargo for the metadata of a workspace: \<open>cargo_metadata\<close> of \<open>xtask/src/versions.rs\<close> and
  \<open>xtask/src/cargo_metadata_output.rs\<close>. The JSON of the metadata is that of the library, a parameter.
\<close>

definition parse_bounded :: "(string \<Rightarrow> cargo_metadata option) \<Rightarrow> string \<Rightarrow> string \<Rightarrow> release_error + cargo_metadata" where
  "parse_bounded parse out invalid_context =
     result_try (map_err message_of (require_within_limit out (ol_stdout VALIDATION_OUTPUT_LIMITS) ''Cargo metadata''))
       (\<lambda>_.
     if \<not> utf8_valid (map of_char out) then Inl (Fmt ''{invalid_context}: {error}'' [invalid_context])
     else ok_or (parse out) (Fmt ''{invalid_context}: {error}'' [invalid_context]))"

definition METADATA_TOKENS :: "string list" where
  "METADATA_TOKENS = [''ACTIONS_ID_TOKEN_REQUEST_TOKEN'', ''CARGO_REGISTRY_TOKEN'',
     ''CARGO_REGISTRIES_CRATES_IO_TOKEN'', ''GH_TOKEN'', ''GITHUB_TOKEN'', ''GIT_TOKEN'']"

definition cargo_metadata_command :: "'z source_ext_scheme \<Rightarrow> bool \<Rightarrow> process_command" where
  "cargo_metadata_command x with_dependencies =
     \<lparr>pc_program = (case env x ''CARGO'' of Some program \<Rightarrow> program | None \<Rightarrow> ''cargo''),
      pc_args = [''metadata'', ''--format-version'', ''1''] @ (if \<not> with_dependencies then [''--no-deps''] else []),
      pc_envs = (\<lambda>name. if name \<in> set METADATA_TOKENS then Some None else None)\<rparr>"

definition run_cargo_metadata ::
    "'y source_ext_scheme \<Rightarrow> ('os, 'z) files_ext_scheme \<Rightarrow> (string \<Rightarrow> cargo_metadata option) \<Rightarrow> bool \<Rightarrow> 'os
       \<Rightarrow> ((release_error + cargo_metadata) \<times> 'os) option" where
  "run_cargo_metadata x files parse with_dependencies os =
     map_option (\<lambda>(result, os').
         ((case result of
             Inl e \<Rightarrow> Inl (Msg ''run Cargo metadata'')
           | Inr out \<Rightarrow>
               if po_status out \<noteq> 0 then Inl (Fmt ''Cargo metadata failed: {}'' [po_stderr out])
               else parse_bounded parse (po_stdout out) ''Cargo returned invalid release metadata''), os'))
       (bounded_output files (cargo_metadata_command x with_dependencies) None VALIDATION_OUTPUT_LIMITS os)"

text \<open>
  Metadata is what the library reads in the output of a successful run within the limits.
\<close>

lemma run_cargo_metadata_iff:
  "run_cargo_metadata x files parse with_dependencies os = Some (Inr metadata, os') \<longleftrightarrow>
     (\<exists>out. bounded_output files (cargo_metadata_command x with_dependencies) None VALIDATION_OUTPUT_LIMITS os =
          Some (Inr out, os') \<and> po_status out = 0 \<and>
        length (po_stdout out) \<le> ol_stdout VALIDATION_OUTPUT_LIMITS \<and> utf8_valid (map of_char (po_stdout out)) \<and>
        parse (po_stdout out) = Some metadata)"
proof (cases "bounded_output files (cargo_metadata_command x with_dependencies) None VALIDATION_OUTPUT_LIMITS os")
  case (Some run)
  obtain result os1 where run: "run = (result, os1)" by (cases run)
  show ?thesis
    using Some run
    by (cases result) (auto simp: run_cargo_metadata_def parse_bounded_def require_within_limit_def result_simps split: if_splits)
qed (simp add: run_cargo_metadata_def)

end
