(* ===== verification/Release_Commands.thy ===== *)
theory Release_Commands
  imports Release_Check Cargo_Metadata
begin

text \<open>
  The commands of \<open>xtask/src/release.rs\<close> that prepare a release in a checkout, with the edits of
  \<open>versions.rs\<close>: activating a coordination line, preparing a selected version through release-plz,
  and checking a prepared source. The checkout has a state that the commands and the programs they
  run change; progress messages are left out.
\<close>

section \<open>A checkout that changes\<close>

datatype file_kind = No_File | Regular_File | Special_File

text \<open>A program with its arguments and the variables taken out of its environment.\<close>

record release_program =
  rl_program :: string
  rl_env_remove :: "string list"
  rl_args :: "string list"

text \<open>
  What a state shows to the checks that only read; the kind of a file, by its path below the root,
  without following links; removing a file, and replacing one by a synced temporary file; running
  release-plz in the root within output limits, which gives its success and its output; and what running
  Cargo for the metadata may leave behind. The text of an edited TOML document is that of the library.
\<close>

record ('s, 'x) worktree =
  wt_view :: "'s \<Rightarrow> 'x source_ext_scheme"
  wt_kind :: "string \<Rightarrow> 's \<Rightarrow> release_error + file_kind"
  wt_remove :: "string \<Rightarrow> 's \<Rightarrow> (release_error + unit) \<times> 's"
  wt_replace :: "string \<Rightarrow> string \<Rightarrow> 's \<Rightarrow> (release_error + unit) \<times> 's"
  wt_run :: "output_limits \<Rightarrow> release_program \<Rightarrow> 's \<Rightarrow> (release_error + bool \<times> string) \<times> 's"
  wt_cargo :: "process_command \<Rightarrow> 's \<Rightarrow> 's"
  wt_edit :: "string \<Rightarrow> (string list \<times> string) list \<Rightarrow> string"

type_synonym ('s, 'a) step = "'s \<Rightarrow> (release_error + 'a) \<times> 's"

definition step_try :: "('s, 'a) step \<Rightarrow> ('a \<Rightarrow> ('s, 'b) step) \<Rightarrow> ('s, 'b) step" where
  "step_try m f s = (case m s of (Inl e, s') \<Rightarrow> (Inl e, s') | (Inr a, s') \<Rightarrow> f a s')"

definition step_lift :: "release_error + 'a \<Rightarrow> ('s, 'a) step" where
  "step_lift r s = (r, s)"

definition look :: "('s, 'x, 'y) worktree_scheme \<Rightarrow> ('x source_ext_scheme \<Rightarrow> release_error + 'a) \<Rightarrow> ('s, 'a) step" where
  "look w f s = (f (wt_view w s), s)"

section \<open>Manifests\<close>

definition write_manifest :: "('s, 'x, 'y) worktree_scheme \<Rightarrow> string \<Rightarrow> string \<Rightarrow> ('s, unit) step" where
  "write_manifest w path body s =
     (case wt_kind w path s of
        Inr Regular_File \<Rightarrow> wt_replace w path body s
      | Inr Special_File \<Rightarrow> (Inl (Msg ''manifest path is not a regular file''), s)
      | _ \<Rightarrow> (Inl (Fmt ''inspect manifest {}'' [path]), s))"

definition workspace_version :: "toml_table \<Rightarrow> toml option" where
  "workspace_version document =
     Option.bind (table_get document ''workspace'') (\<lambda>workspace.
     Option.bind (item_get workspace ''package'') (\<lambda>package. item_get package ''version''))"

fun as_inline_table :: "toml \<Rightarrow> toml_table option" where
  "as_inline_table (Toml_Inline t) = Some t"
| "as_inline_table _ = None"

text \<open>The dependencies of the family whose version is not the given one.\<close>

fun stale_dependencies :: "string \<Rightarrow> toml_table \<Rightarrow> package_policy list \<Rightarrow> release_error + string list" where
  "stale_dependencies version dependencies [] = Inr []"
| "stale_dependencies version dependencies (policy # policies) =
     (let name = pp_package policy in
      result_try (ok_or (table_get dependencies name) (Fmt ''missing workspace dependency {}'' [name])) (\<lambda>item.
      result_try (ok_or (as_inline_table item) (Fmt ''workspace dependency {} must use an inline table'' [name]))
        (\<lambda>table.
      result_try (ok_or (get_str table ''version'') (Fmt ''workspace dependency {} lacks version'' [name])) (\<lambda>now.
      result_map (\<lambda>stale. if now \<noteq> version then name # stale else stale)
        (stale_dependencies version dependencies policies)))))"

definition validate_checkout ::
    "('s, 'x, 'y) worktree_scheme \<Rightarrow> string \<Rightarrow> version \<Rightarrow> bool \<Rightarrow> ('s, cargo_metadata) step" where
  "validate_checkout w root expected resolve_traits s =
     (validate_source (wt_view w s) root expected resolve_traits,
      wt_cargo w (cargo_metadata_command (wt_view w s) resolve_traits) s)"

definition sync_workspace_dependency_versions ::
    "('s, 'x, 'y) worktree_scheme \<Rightarrow> string \<Rightarrow> bool \<Rightarrow> ('s, bool) step" where
  "sync_workspace_dependency_versions w root check =
     step_try (look w (\<lambda>x. map_err (\<lambda>_. Msg ''read workspace Cargo.toml for dependency synchronization'')
       (read_manifest x root ''Cargo.toml''))) (\<lambda>manifest.
     step_try (look w (\<lambda>x. ok_or (toml_parse x manifest)
       (Msg ''parse workspace Cargo.toml for dependency synchronization''))) (\<lambda>document.
     step_try (step_lift (ok_or (Option.bind (workspace_version document) as_str)
       (Msg ''missing [workspace.package] version''))) (\<lambda>version.
     step_try (look w (\<lambda>x. parse_release_version x version)) (\<lambda>_.
     step_try (step_lift (ok_or (Option.bind (table_get document ''workspace'') (\<lambda>workspace.
         Option.bind (item_get workspace ''dependencies'') as_table_like))
       (Msg ''missing [workspace.dependencies] table''))) (\<lambda>dependencies.
     step_try (step_lift (stale_dependencies version dependencies (rp_packages RUST_POLICY))) (\<lambda>stale.
     if stale \<noteq> [] \<and> check
     then step_lift (Inl (Fmt ''workspace dependency versions differ from {version}'' [version]))
     else
       step_try
         (if stale \<noteq> []
          then write_manifest w ''Cargo.toml'' (wt_edit w manifest
            (map (\<lambda>name. ([''workspace'', ''dependencies'', name, ''version''], version)) stale))
          else step_lift (Inr ())) (\<lambda>_.
       step_try (look w (\<lambda>x. ok_or (version_parse x version) (Fmt ''invalid version {version}'' [version]))) (\<lambda>parsed.
       step_try (validate_checkout w root parsed False) (\<lambda>_.
       step_lift (Inr (stale \<noteq> [])))))))))))"

definition set_workspace_release_version ::
    "('s, 'x, 'y) worktree_scheme \<Rightarrow> string \<Rightarrow> version \<Rightarrow> version \<Rightarrow> ('s, unit) step" where
  "set_workspace_release_version w root expected_current selected =
     step_try (look w (\<lambda>x. map_err (\<lambda>_. Msg ''read workspace Cargo.toml for exact release selection'')
       (read_manifest x root ''Cargo.toml''))) (\<lambda>manifest.
     step_try (look w (\<lambda>x. ok_or (toml_parse x manifest)
       (Msg ''parse workspace Cargo.toml for exact release selection''))) (\<lambda>document.
     step_try (step_lift (ok_or (workspace_version document) (Msg ''missing [workspace.package] version''))) (\<lambda>item.
     step_try (look w (\<lambda>x.
         if as_str item \<noteq> Some (version_to_string x expected_current)
         then Inl (Fmt ''workspace version changed from release-plz-derived {expected_current}''
           [version_to_string x expected_current])
         else Inr (version_to_string x selected))) (\<lambda>text.
     write_manifest w ''Cargo.toml'' (wt_edit w manifest [([''workspace'', ''package'', ''version''], text)])))))"

section \<open>The root lock file\<close>

definition require_root_lock_absent_on_disk :: "('s, 'x, 'y) worktree_scheme \<Rightarrow> ('s, unit) step" where
  "require_root_lock_absent_on_disk w s =
     (case wt_kind w ''Cargo.lock'' s of
        Inl _ \<Rightarrow> Inl (Msg ''inspect root Cargo.lock'')
      | Inr No_File \<Rightarrow> Inr ()
      | Inr _ \<Rightarrow> Inl (Msg ''the root Cargo.lock must be absent''), s)"

definition require_root_lock_absent :: "('s, 'x, 'y) worktree_scheme \<Rightarrow> string \<Rightarrow> ('s, unit) step" where
  "require_root_lock_absent w root =
     step_try (look w (\<lambda>x. require_no_tracked_root_lock x root)) (\<lambda>_. require_root_lock_absent_on_disk w)"

definition remove_generated_root_lock :: "('s, 'x, 'y) worktree_scheme \<Rightarrow> string \<Rightarrow> ('s, unit) step" where
  "remove_generated_root_lock w label s =
     (case wt_kind w ''Cargo.lock'' s of
        Inl _ \<Rightarrow> (Inl (Msg ''inspect generated root Cargo.lock''), s)
      | Inr No_File \<Rightarrow> (Inr (), s)
      | Inr Special_File \<Rightarrow> (Inl (Fmt ''{label} left a root Cargo.lock that is not a regular file'' [label]), s)
      | Inr Regular_File \<Rightarrow>
          step_try (\<lambda>s. map_prod (map_err (\<lambda>_. Fmt ''remove {label}-generated root Cargo.lock'' [label])) id
              (wt_remove w ''Cargo.lock'' s))
            (\<lambda>_. require_root_lock_absent_on_disk w) s)"

definition join_lock_cleanup :: "string \<Rightarrow> release_error + 'a \<Rightarrow> release_error + unit \<Rightarrow> release_error + 'a" where
  "join_lock_cleanup label result cleanup =
     (case (result, cleanup) of
        (Inr v, Inr _) \<Rightarrow> Inr v
      | (Inl e, Inr _) \<Rightarrow> Inl e
      | (Inr _, Inl e) \<Rightarrow> Inl e
      | (Inl _, Inl _) \<Rightarrow> Inl (Fmt ''{label} also left an unsafe root Cargo.lock'' [label]))"

definition without_persisted_root_lock ::
    "('s, 'x, 'y) worktree_scheme \<Rightarrow> string \<Rightarrow> ('s, 'a) step \<Rightarrow> ('s, 'a) step" where
  "without_persisted_root_lock w label operation =
     step_try (require_root_lock_absent_on_disk w) (\<lambda>_ s.
       let (result, s1) = operation s; (cleanup, s2) = remove_generated_root_lock w label s1 in
       (join_lock_cleanup label result cleanup, s2))"

section \<open>Running release-plz\<close>

definition RELEASE_PLZ_VERSION :: string where "RELEASE_PLZ_VERSION = ''0.3.169''"

definition TOKEN_ENVIRONMENTS :: "string list" where
  "TOKEN_ENVIRONMENTS = [''ACTIONS_ID_TOKEN_REQUEST_TOKEN'', ''ACTIONS_ID_TOKEN_REQUEST_URL'',
     ''ACTIONS_RUNTIME_TOKEN'', ''CARGO_REGISTRY_TOKEN'', ''CARGO_REGISTRIES_CRATES_IO_TOKEN'', ''GH_TOKEN'',
     ''GITHUB_TOKEN'', ''GIT_TOKEN'']"

definition release_plz :: "'z source_ext_scheme \<Rightarrow> string list \<Rightarrow> release_program" where
  "release_plz x args =
     \<lparr>rl_program = (case env x ''RELEASE_PLZ'' of Some program \<Rightarrow> program | None \<Rightarrow> ''release-plz''),
      rl_env_remove = TOKEN_ENVIRONMENTS, rl_args = args\<rparr>"

definition release_plz_update :: "version \<Rightarrow> string list" where
  "release_plz_update version =
     [''update'', ''--manifest-path'', ''Cargo.toml'', ''--config'', rp_config (for_version version)]"

definition release_plz_set_version :: "'z release_ext_scheme \<Rightarrow> version \<Rightarrow> string list" where
  "release_plz_set_version x selected =
     ''set-version'' #
     map (\<lambda>policy. pp_package policy @ ''@'' @ version_to_string x selected) (rp_packages (for_version selected)) @
     [''--manifest-path'', ''Cargo.toml'', ''--config'', rp_config (for_version selected)]"

definition RELEASE_OUTPUT_LIMITS :: output_limits where
  "RELEASE_OUTPUT_LIMITS = \<lparr>ol_stdout = 1024 * 1024, ol_stderr = 4 * 1024 * 1024\<rparr>"

definition run_release_plz ::
    "('s, 'x, 'y) worktree_scheme \<Rightarrow> release_program \<Rightarrow> string \<Rightarrow> ('s, unit) step" where
  "run_release_plz w command label =
     step_try (\<lambda>s. map_prod (map_err (\<lambda>_. Fmt ''run {label}'' [label])) id (wt_run w RELEASE_OUTPUT_LIMITS command s)) (\<lambda>(success, _).
     if \<not> success then step_lift (Inl (Fmt ''{label} failed'' [label])) else step_lift (Inr ()))"

definition require_release_plz :: "('s, 'x, 'y) worktree_scheme \<Rightarrow> ('s, unit) step" where
  "require_release_plz w =
     step_try (look w (\<lambda>x. Inr (release_plz x [''--version'']))) (\<lambda>command.
     step_try (\<lambda>s. map_prod (map_err (\<lambda>_. Msg ''run release-plz --version'')) id (wt_run w VALIDATION_OUTPUT_LIMITS command s))
       (\<lambda>(success, stdout).
     if \<not> success then step_lift (Inl (Msg ''release-plz --version failed''))
     else
       step_try (step_lift (one_line stdout ''release-plz version'')) (\<lambda>version.
       if version \<noteq> ''release-plz '' @ RELEASE_PLZ_VERSION
       then step_lift (Inl (Fmt ''release-plz {} is required; found {version}'' [RELEASE_PLZ_VERSION, version]))
       else step_lift (Inr ()))))"

section \<open>Inherited versions\<close>

record inherited_manifest =
  im_path :: string
  im_body :: string

definition expected_literal_manifest ::
    "('s, 'x, 'y) worktree_scheme \<Rightarrow> string \<Rightarrow> version \<Rightarrow> 'x source_ext_scheme \<Rightarrow> release_error + string" where
  "expected_literal_manifest w body selected x =
     result_try (ok_or (toml_parse x body) (Msg ''parse inherited package manifest'')) (\<lambda>document.
     result_try (ok_or (Option.bind (table_get document ''package'') (\<lambda>package.
         Option.bind (as_table_like package) (\<lambda>package. table_get package ''version'')))
       (Msg ''package manifest lacks inherited version'')) (\<lambda>version.
     let inherited = Option.bind (as_table_like version) (\<lambda>table.
           if length table = 1 then get_bool table ''workspace'' else None) in
     if inherited \<noteq> Some True then Inl (Msg ''package version must inherit from the workspace'')
     else Inr (wt_edit w body [([''package'', ''version''], version_to_string x selected)])))"

fun snapshot_manifests ::
    "('s, 'x, 'y) worktree_scheme \<Rightarrow> string \<Rightarrow> package_policy list \<Rightarrow> 'x source_ext_scheme \<Rightarrow> release_error + inherited_manifest list" where
  "snapshot_manifests w root [] x = Inr []"
| "snapshot_manifests w root (policy # policies) x =
     (let path = pp_path_in_vcs policy @ ''/Cargo.toml'' in
      result_try (map_err (\<lambda>_. Fmt ''read inherited manifest {}'' [path]) (read_manifest x root path)) (\<lambda>body.
      result_try (map_err (\<lambda>_. Fmt ''validate inherited manifest {}'' [path])
        (expected_literal_manifest w body \<lparr>v_major = 0, v_minor = 0, v_patch = 0, v_pre = [], v_build = []\<rparr> x)) (\<lambda>_.
      result_map (\<lambda>rest. \<lparr>im_path = path, im_body = body\<rparr> # rest) (snapshot_manifests w root policies x))))"

definition snapshot_inherited_manifests ::
    "('s, 'x, 'y) worktree_scheme \<Rightarrow> string \<Rightarrow> 'x source_ext_scheme \<Rightarrow> release_error + inherited_manifest list" where
  "snapshot_inherited_manifests w root x =
     result_try (current x root) (\<lambda>version.
     snapshot_manifests w root (rp_packages (for_version version)) x)"

fun check_updated_manifests ::
    "('s, 'x, 'y) worktree_scheme \<Rightarrow> string \<Rightarrow> version \<Rightarrow> inherited_manifest list \<Rightarrow> 'x source_ext_scheme \<Rightarrow> release_error + unit" where
  "check_updated_manifests w root selected [] x = Inr ()"
| "check_updated_manifests w root selected (manifest # manifests) x =
     result_try (map_err (\<lambda>_. Fmt ''read updated manifest {}'' [im_path manifest])
       (read_manifest x root (im_path manifest))) (\<lambda>actual.
     result_try (expected_literal_manifest w (im_body manifest) selected x) (\<lambda>expected.
     if actual \<noteq> expected
     then Inl (Fmt ''release-plz set-version changed {} beyond its inherited package version'' [im_path manifest])
     else check_updated_manifests w root selected manifests x))"

fun write_manifests :: "('s, 'x, 'y) worktree_scheme \<Rightarrow> inherited_manifest list \<Rightarrow> ('s, unit) step" where
  "write_manifests w [] = step_lift (Inr ())"
| "write_manifests w (manifest # manifests) =
     step_try (write_manifest w (im_path manifest) (im_body manifest)) (\<lambda>_. write_manifests w manifests)"

definition restore_inherited_manifests ::
    "('s, 'x, 'y) worktree_scheme \<Rightarrow> string \<Rightarrow> version \<Rightarrow> inherited_manifest list \<Rightarrow> ('s, unit) step" where
  "restore_inherited_manifests w root selected manifests =
     step_try (look w (check_updated_manifests w root selected manifests)) (\<lambda>_. write_manifests w manifests)"

section \<open>The commands\<close>

definition activate :: "('s, 'x, 'y) worktree_scheme \<Rightarrow> string \<Rightarrow> version \<Rightarrow> ('s, unit) step" where
  "activate w root target =
     step_try (look w (\<lambda>x. current x root)) (\<lambda>now.
     step_try (look w (\<lambda>x. activation_version x now target)) (\<lambda>selected.
     step_try (require_root_lock_absent w root) (\<lambda>_.
     step_try (look w (\<lambda>x. require_clean x root)) (\<lambda>_.
     step_try (look w (\<lambda>x. require_release_base x root Main_Line)) (\<lambda>_.
     step_try (look w (\<lambda>x. require_activation_branch x root target)) (\<lambda>_.
     step_try (set_workspace_release_version w root now selected) (\<lambda>_.
     step_try (without_persisted_root_lock w ''coordination activation''
       (sync_workspace_dependency_versions w root False)) (\<lambda>synchronized.
     if \<not> synchronized
     then step_lift (Inl (Msg ''coordination activation did not update internal requirements''))
     else
       step_try (look w (\<lambda>x. require_exact_changed_paths x root [''Cargo.toml''] ''coordination activation'')) (\<lambda>_.
       step_try (require_root_lock_absent w root) (\<lambda>_.
       step_try (look w (\<lambda>x. current x root)) (\<lambda>v.
       if v \<noteq> selected then step_lift (Inl (Msg ''coordination activation did not retain exact version {selected}''))
       else step_lift (Inr ()))))))))))))"

definition apply_exact_version ::
    "('s, 'x, 'y) worktree_scheme \<Rightarrow> string \<Rightarrow> version \<Rightarrow> version \<Rightarrow> version \<Rightarrow> ('s, unit) step" where
  "apply_exact_version w root original derived selected =
     step_try (look w (\<lambda>x. require_exact_version_adjustment x original derived selected)) (\<lambda>_.
     step_try (look w (snapshot_inherited_manifests w root)) (\<lambda>inherited.
     step_try (look w (\<lambda>x. Inr (release_plz x (release_plz_set_version x selected)))) (\<lambda>set_version.
     step_try (without_persisted_root_lock w ''release-plz set-version''
       (run_release_plz w set_version ''release-plz set-version'')) (\<lambda>_.
     step_try (look w (\<lambda>x. require_managed_diff x root)) (\<lambda>_.
     step_try (restore_inherited_manifests w root selected inherited) (\<lambda>_.
     step_try (set_workspace_release_version w root derived selected) (\<lambda>_.
     step_try (without_persisted_root_lock w ''release dependency validation''
       (sync_workspace_dependency_versions w root True)) (\<lambda>_.
     step_lift (Inr ())))))))))"

definition require_release_branch :: "'z source_ext_scheme \<Rightarrow> string \<Rightarrow> version \<Rightarrow> release_error + unit" where
  "require_release_branch x root selected =
     result_try (git_line x root [''symbolic-ref'', ''--quiet'', ''--short'', ''HEAD'']) (\<lambda>branch.
     if branch \<noteq> ''release-plz-manual-'' @ version_to_string x selected
     then Inl (Fmt ''release preparation requires branch {MANUAL_BRANCH_PREFIX}{selected}'' [branch])
     else Inr ())"

definition prepare_release ::
    "('s, 'x, 'y) worktree_scheme \<Rightarrow> string \<Rightarrow> version \<Rightarrow> release_line \<Rightarrow> ('s, unit) step" where
  "prepare_release w root selected line =
     step_try (look w (\<lambda>x. validate_version x root line selected ''yaml-sigil-core-v'')) (\<lambda>_.
     step_try (look w (\<lambda>x. require_real_release_version x selected)) (\<lambda>_.
     step_try (look w (\<lambda>x. validate_policy x root)) (\<lambda>_.
     step_try (require_release_plz w) (\<lambda>_.
     step_try (require_root_lock_absent w root) (\<lambda>_.
     step_try (look w (\<lambda>x. require_clean x root)) (\<lambda>_.
     step_try (look w (\<lambda>x. require_release_base x root line)) (\<lambda>_.
     step_try (look w (\<lambda>x. current x root)) (\<lambda>now.
     step_try (look w (\<lambda>x. if \<not> version_less x now selected
         then Inl (Fmt ''selected release version {selected} must advance {current}''
           [version_to_string x selected, version_to_string x now])
         else Inr ())) (\<lambda>_.
     step_try (look w (\<lambda>x. require_release_branch x root selected)) (\<lambda>_.
     step_try (look w (\<lambda>x. Inr (release_plz x (release_plz_update now)))) (\<lambda>update.
     step_try (without_persisted_root_lock w ''release-plz update''
       (run_release_plz w update ''release-plz update'')) (\<lambda>_.
     step_try (look w (\<lambda>x. current x root)) (\<lambda>derived.
     step_try (if derived \<noteq> selected then apply_exact_version w root now derived selected
               else step_lift (Inr ())) (\<lambda>_.
     step_try (without_persisted_root_lock w ''release metadata validation''
       (validate_checkout w root selected False)) (\<lambda>_.
     step_try (look w (\<lambda>x. require_managed_diff x root)) (\<lambda>_.
     require_root_lock_absent w root))))))))))))))))"

definition check_release ::
    "('s, 'x, 'y) worktree_scheme \<Rightarrow> string \<Rightarrow> version \<Rightarrow> release_line \<Rightarrow> ('s, unit) step" where
  "check_release w root expected line =
     step_try (look w (\<lambda>x. require_version x line expected)) (\<lambda>_.
     step_try (look w (\<lambda>x. require_real_release_version x expected)) (\<lambda>_.
     step_try (look w (\<lambda>x. validate_policy x root)) (\<lambda>_.
     step_try (require_root_lock_absent w root) (\<lambda>_.
     step_try (look w (\<lambda>x. require_clean x root)) (\<lambda>_.
     step_try (look w (\<lambda>x. current x root)) (\<lambda>now.
     if now \<noteq> expected
     then step_lift (Inl (Msg ''workspace version does not equal expected release {expected}''))
     else
       step_try (without_persisted_root_lock w ''release source validation''
         (step_try (sync_workspace_dependency_versions w root True) (\<lambda>_.
          validate_checkout w root expected True))) (\<lambda>_.
       step_try (require_root_lock_absent w root) (\<lambda>_.
       look w (\<lambda>x. require_clean x root)))))))))"

datatype release_command =
    Release_Activate version
  | Release_Prepare "string option" version
  | Release_Check "string option" version

definition run_release :: "('s, 'x, 'y) worktree_scheme \<Rightarrow> string \<Rightarrow> release_command \<Rightarrow> ('s, unit) step" where
  "run_release w root command =
     (case command of
        Release_Activate version \<Rightarrow> activate w root version
      | Release_Prepare base version \<Rightarrow>
          step_try (look w (\<lambda>x. resolve_base x root base)) (\<lambda>line. prepare_release w root version line)
      | Release_Check base version \<Rightarrow>
          step_try (look w (\<lambda>x. resolve_base x root base)) (\<lambda>line. check_release w root version line))"

end
