(* ===== verification/Release_Reading.thy ===== *)
theory Release_Reading
  imports Release_Commands
begin

text \<open>
  The release commands run Git only to read: whatever they are, they do the same in a checkout whose
  Git answers nothing but a short list of reading commands.
\<close>

section \<open>A Git that only reads\<close>

text \<open>
  The commands that read: the status, the changed and the tracked files, where \<open>HEAD\<close> is, whether
  main is an ancestor, the commit of a revision, and the tags of a line.
\<close>

definition git_reads :: "string list \<Rightarrow> bool" where
  "git_reads args \<longleftrightarrow>
     args \<in> {[''status'', ''--porcelain=v1'', ''--untracked-files=all''],
       [''diff'', ''--no-renames'', ''--name-only'', ''--diff-filter=ACDMRTUXB'', ''-z'', ''HEAD'', ''--''],
       [''ls-files'', ''--others'', ''--exclude-standard'', ''-z'', ''--''],
       [''ls-files'', ''--'', ''Cargo.lock''],
       [''symbolic-ref'', ''--quiet'', ''--short'', ''HEAD''],
       [''symbolic-ref'', ''--quiet'', ''HEAD''],
       [''merge-base'', ''--is-ancestor'', ''refs/remotes/origin/main'', ''HEAD'']} \<or>
     length args = 2 \<and> hd args = ''rev-parse'' \<or>
     length args = 5 \<and> take 2 args = [''tag'', ''--merged''] \<and> args ! 3 = ''--list''"

definition refused_git :: "(string \<Rightarrow> string list \<Rightarrow> release_error + string) \<Rightarrow> string \<Rightarrow> string list \<Rightarrow> release_error + string" where
  "refused_git answer root args = (if git_reads args then answer root args else Inl (Msg ''git command refused''))"

definition reading :: "'z source_ext_scheme \<Rightarrow> 'z source_ext_scheme" where
  "reading x = x\<lparr>git := refused_git (git x), git_output := refused_git (git_output x)\<rparr>"

named_theorems reads

lemma refused_git_reads [reads]:
  "refused_git answer root [''status'', ''--porcelain=v1'', ''--untracked-files=all''] =
     answer root [''status'', ''--porcelain=v1'', ''--untracked-files=all'']"
  "refused_git answer root [''diff'', ''--no-renames'', ''--name-only'', ''--diff-filter=ACDMRTUXB'', ''-z'', ''HEAD'', ''--''] =
     answer root [''diff'', ''--no-renames'', ''--name-only'', ''--diff-filter=ACDMRTUXB'', ''-z'', ''HEAD'', ''--'']"
  "refused_git answer root [''ls-files'', ''--others'', ''--exclude-standard'', ''-z'', ''--''] =
     answer root [''ls-files'', ''--others'', ''--exclude-standard'', ''-z'', ''--'']"
  "refused_git answer root [''ls-files'', ''--'', ''Cargo.lock''] = answer root [''ls-files'', ''--'', ''Cargo.lock'']"
  "refused_git answer root [''symbolic-ref'', ''--quiet'', ''--short'', ''HEAD''] =
     answer root [''symbolic-ref'', ''--quiet'', ''--short'', ''HEAD'']"
  "refused_git answer root [''symbolic-ref'', ''--quiet'', ''HEAD''] = answer root [''symbolic-ref'', ''--quiet'', ''HEAD'']"
  "refused_git answer root [''merge-base'', ''--is-ancestor'', ''refs/remotes/origin/main'', ''HEAD''] =
     answer root [''merge-base'', ''--is-ancestor'', ''refs/remotes/origin/main'', ''HEAD'']"
  "refused_git answer root [''rev-parse'', revision] = answer root [''rev-parse'', revision]"
  "refused_git answer root [''tag'', ''--merged'', revision, ''--list'', pattern] =
     answer root [''tag'', ''--merged'', revision, ''--list'', pattern]"
  by (simp_all add: refused_git_def git_reads_def del: char.inject)

lemma reading_fields [reads]:
  "git (reading x) = refused_git (git x)" "git_output (reading x) = refused_git (git_output x)"
  "version_parse (reading x) = version_parse x" "version_to_string (reading x) = version_to_string x"
  "version_less (reading x) = version_less x" "env (reading x) = env x" "canonicalize (reading x) = canonicalize x"
  "open_file (reading x) = open_file x" "toml_parse (reading x) = toml_parse x"
  "cargo_metadata_of (reading x) = cargo_metadata_of x" "req_parse (reading x) = req_parse x"
  "req_matches (reading x) = req_matches x" "is_crates_io (reading x) = is_crates_io x"
  by (simp_all add: reading_def)

section \<open>The checks read\<close>

lemma reads_manifest [reads]:
  "read_manifest (reading x) root path = read_manifest x root path"
  "parse_release_version (reading x) version = parse_release_version x version"
  "require_version (reading x) line selected = require_version x line selected"
  "max_version (reading x) = max_version x"
  unfolding read_manifest_def parse_release_version_def require_version_def max_version_def [abs_def] reads by (rule refl)+

lemma reads_current [reads]:
  "current (reading x) root = current x root"
  "require_advancement (reading x) line selected published = require_advancement x line selected published"
  unfolding current_def require_advancement_def reads by (rule refl)+

lemma reads_canonical [reads]: "canonical_versions (reading x) tag_prefix tags = canonical_versions x tag_prefix tags"
  by (induction tags) (simp_all only: canonical_versions.simps reads)

lemma reads_base [reads]:
  "validate_version (reading x) root line version tag_prefix = validate_version x root line version tag_prefix"
  "resolve_base (reading x) root explicit = resolve_base x root explicit"
  "validate_policy (reading x) root = validate_policy x root"
  "changed_paths (reading x) root = changed_paths x root"
  unfolding validate_version_def resolve_base_def validate_policy_def changed_paths_def reads by (rule refl)+

lemma reads_checkout [reads]:
  "require_managed_diff (reading x) root = require_managed_diff x root"
  "require_exact_changed_paths (reading x) root paths label = require_exact_changed_paths x root paths label"
  "require_clean (reading x) root = require_clean x root"
  "require_release_base (reading x) root line = require_release_base x root line"
  "require_activation_branch (reading x) root target = require_activation_branch x root target"
  "require_release_branch (reading x) root target = require_release_branch x root target"
  "require_no_tracked_root_lock (reading x) root = require_no_tracked_root_lock x root"
  unfolding require_managed_diff_def require_exact_changed_paths_def require_clean_def require_release_base_def
    require_activation_branch_def require_release_branch_def require_no_tracked_root_lock_def git_line_def reads
  by (rule refl)+

lemma reads_versions [reads]:
  "require_real_release_version (reading x) version = require_real_release_version x version"
  "activation_version (reading x) now target = activation_version x now target"
  "require_exact_version_adjustment (reading x) original derived selected =
     require_exact_version_adjustment x original derived selected"
  unfolding require_real_release_version_def activation_version_def require_exact_version_adjustment_def reads
  by (rule refl)+

lemma reads_programs [reads]:
  "release_plz (reading x) args = release_plz x args"
  "release_plz_set_version (reading x) selected = release_plz_set_version x selected"
  unfolding release_plz_def release_plz_set_version_def reads by (rule refl)+

section \<open>The packages\<close>

lemma reads_packages [reads]:
  "validate_packages (reading x) root packages policies expected = validate_packages x root packages policies expected"
  by (induction x root packages policies expected rule: validate_packages.induct)
    (simp_all only: validate_packages.simps validate_package_def reads)

lemma reads_dependencies [reads]:
  "validate_dependencies (reading x) root canonical expected index name dependencies =
     validate_dependencies x root canonical expected index name dependencies"
  by (induction dependencies) (simp_all only: validate_dependencies.simps validate_dependency_def reads)

lemma reads_internal [reads]:
  "validate_internal_from (reading x) root canonical expected index packages =
     validate_internal_from x root canonical expected index packages"
  by (induction packages arbitrary: index) (simp_all only: validate_internal_from.simps reads)

lemma reads_traits [reads]: "traits_requirements (reading x) packages = traits_requirements x packages"
  by (induction packages) (simp_all only: traits_requirements.simps reads)

lemma reads_validate_source [reads]: "validate_source (reading x) root expected resolve = validate_source x root expected resolve"
  unfolding validate_source_def validate_metadata_def validate_internal_dependencies_def validate_resolved_traits_def
    validate_traits_declaration_def reads by (rule refl)

lemma reads_cargo [reads]: "cargo_metadata_command (reading x) resolve = cargo_metadata_command x resolve"
  unfolding cargo_metadata_command_def reads by (rule refl)

section \<open>The commands\<close>

text \<open>A checkout whose Git answers only the commands that read.\<close>

definition reading_only :: "('s, 'x, 'y) worktree_scheme \<Rightarrow> ('s, 'x, 'y) worktree_scheme" where
  "reading_only w = w\<lparr>wt_view := \<lambda>s. reading (wt_view w s)\<rparr>"

lemma reading_only_fields [reads]:
  "wt_view (reading_only w) s = reading (wt_view w s)" "wt_kind (reading_only w) = wt_kind w"
  "wt_remove (reading_only w) = wt_remove w" "wt_replace (reading_only w) = wt_replace w"
  "wt_run (reading_only w) = wt_run w" "wt_cargo (reading_only w) = wt_cargo w" "wt_edit (reading_only w) = wt_edit w"
  by (simp_all add: reading_only_def)

lemma look_reading_only [reads]: "look (reading_only w) f = look w (\<lambda>x. f (reading x))"
  unfolding look_def [abs_def] reads by (rule refl)

lemma reads_files [reads]:
  "write_manifest (reading_only w) path body = write_manifest w path body"
  "require_root_lock_absent_on_disk (reading_only w) = require_root_lock_absent_on_disk w"
  "remove_generated_root_lock (reading_only w) label = remove_generated_root_lock w label"
  "validate_checkout (reading_only w) root expected resolve = validate_checkout w root expected resolve"
  "run_release_plz (reading_only w) command label = run_release_plz w command label"
  "require_release_plz (reading_only w) = require_release_plz w"
  unfolding write_manifest_def [abs_def] require_root_lock_absent_on_disk_def [abs_def] remove_generated_root_lock_def [abs_def]
    validate_checkout_def [abs_def] run_release_plz_def require_release_plz_def reads by (rule refl)+

lemma reads_lock [reads]:
  "require_root_lock_absent (reading_only w) root = require_root_lock_absent w root"
  "without_persisted_root_lock (reading_only w) label operation = without_persisted_root_lock w label operation"
  unfolding require_root_lock_absent_def without_persisted_root_lock_def reads by (rule refl)+

lemma reads_edits [reads]:
  "sync_workspace_dependency_versions (reading_only w) root check = sync_workspace_dependency_versions w root check"
  "set_workspace_release_version (reading_only w) root now selected = set_workspace_release_version w root now selected"
  "expected_literal_manifest (reading_only w) body selected (reading x) = expected_literal_manifest w body selected x"
  unfolding sync_workspace_dependency_versions_def set_workspace_release_version_def expected_literal_manifest_def reads
  by (rule refl)+

lemma reads_snapshot [reads]:
  "snapshot_manifests (reading_only w) root policies (reading x) = snapshot_manifests w root policies x"
  by (induction policies) (simp_all only: snapshot_manifests.simps reads)

lemma reads_updated [reads]:
  "check_updated_manifests (reading_only w) root selected manifests (reading x) =
     check_updated_manifests w root selected manifests x"
  by (induction manifests) (simp_all only: check_updated_manifests.simps reads)

lemma reads_inherited [reads]:
  "snapshot_inherited_manifests (reading_only w) root (reading x) = snapshot_inherited_manifests w root x"
  unfolding snapshot_inherited_manifests_def reads by (rule refl)

lemma reads_write_manifests [reads]: "write_manifests (reading_only w) manifests = write_manifests w manifests"
  by (induction manifests) (simp_all only: write_manifests.simps reads)

lemma reads_exact [reads]:
  "apply_exact_version (reading_only w) root original derived selected = apply_exact_version w root original derived selected"
  unfolding apply_exact_version_def restore_inherited_manifests_def reads by (rule refl)

lemma reads_commands [reads]:
  "activate (reading_only w) root target = activate w root target"
  "prepare_release (reading_only w) root target line = prepare_release w root target line"
  "check_release (reading_only w) root target line = check_release w root target line"
  unfolding activate_def prepare_release_def check_release_def reads by (rule refl)+

lemma release_reads: "run_release (reading_only w) root command = run_release w root command"
  unfolding run_release_def reads by (rule refl)

end
