(* ===== verification/Release_Command_Facts.thy ===== *)
theory Release_Command_Facts
  imports Release_Reading
begin

text \<open>
  What the release commands do to a checkout: which files and programs they touch, what holds
  before the first change, and what a successful command leaves behind.
\<close>

section \<open>Recording the effects\<close>

datatype tree_event =
    Removed string | Replaced string string | Ran output_limits release_program | Ran_Cargo process_command

definition noted_step :: "'e \<Rightarrow> ('s \<Rightarrow> 'a \<times> 's) \<Rightarrow> 's \<times> 'e list \<Rightarrow> 'a \<times> 's \<times> 'e list" where
  "noted_step e m = (\<lambda>(s, l). let (r, s') = m s in (r, (s', l @ [e])))"

text \<open>The checkout with a record of what is changed, or is tried to be, and of the programs that are run.\<close>

definition tracked :: "('s, 'x) worktree \<Rightarrow> ('s \<times> tree_event list, 'x) worktree" where
  "tracked w =
     \<lparr>wt_view = (\<lambda>(s, l). wt_view w s), wt_kind = (\<lambda>p (s, l). wt_kind w p s),
      wt_remove = (\<lambda>p. noted_step (Removed p) (wt_remove w p)),
      wt_replace = (\<lambda>p b. noted_step (Replaced p b) (wt_replace w p b)),
      wt_run = (\<lambda>limits c. noted_step (Ran limits c) (wt_run w limits c)), wt_cargo = (\<lambda>c (s, l). (wt_cargo w c s, l @ [Ran_Cargo c])),
      wt_edit = wt_edit w\<rparr>"

lemma tracked_simps [simp]:
  "wt_view (tracked w) (s, l) = wt_view w s" "wt_kind (tracked w) p (s, l) = wt_kind w p s"
  "wt_remove (tracked w) p = noted_step (Removed p) (wt_remove w p)"
  "wt_replace (tracked w) p b = noted_step (Replaced p b) (wt_replace w p b)"
  "wt_run (tracked w) limits c = noted_step (Ran limits c) (wt_run w limits c)"
  "wt_cargo (tracked w) q (s, l) = (wt_cargo w q s, l @ [Ran_Cargo q])" "wt_edit (tracked w) = wt_edit w"
  by (simp_all add: tracked_def)

lemma noted_step_apply: "noted_step e m (s, l) = (fst (m s), (snd (m s), l @ [e]))"
  by (simp add: noted_step_def split_beta)

section \<open>Sequences\<close>

lemma step_try_Inr:
  "step_try m f s = (Inr b, s') \<longleftrightarrow> (\<exists>a s1. m s = (Inr a, s1) \<and> f a s1 = (Inr b, s'))"
  by (cases "m s") (auto simp: step_try_def split: sum.splits)

lemma look_apply: "look w f s = (r, s') \<longleftrightarrow> f (wt_view w s) = r \<and> s' = s"
  by (auto simp: look_def)

lemma step_lift_apply: "step_lift r s = (r', s') \<longleftrightarrow> r = r' \<and> s' = s"
  by (auto simp: step_lift_def)

lemmas steps = step_try_Inr look_apply step_lift_apply

lemma look_try: "step_try (look w f) k s = (case f (wt_view w s) of Inl e \<Rightarrow> (Inl e, s) | Inr a \<Rightarrow> k a s)"
  by (simp add: step_try_def look_def)

section \<open>Effects\<close>

definition effects :: "('e \<Rightarrow> bool) \<Rightarrow> ('s \<times> 'e list, 'a) step \<Rightarrow> bool" where
  "effects P m \<longleftrightarrow> (\<forall>s l. \<exists>new. snd (snd (m (s, l))) = l @ new \<and> list_all P new)"

named_theorems effect_rules

lemma effectsD: "effects P m \<Longrightarrow> m (s, l) = (r, (s', l')) \<Longrightarrow> \<exists>new. l' = l @ new \<and> list_all P new"
  unfolding effects_def by (metis snd_conv)

lemma effects_try [effect_rules]:
  assumes "effects P m" and "\<And>a. effects P (f a)"
  shows "effects P (step_try m f)"
  unfolding effects_def
proof (intro allI)
  fix s l
  obtain r s1 l1 where m: "m (s, l) = (r, (s1, l1))" by (metis prod_cases3)
  obtain new where new: "l1 = l @ new" "list_all P new" using effectsD [OF assms(1) m] by blast
  show "\<exists>new. snd (snd (step_try m f (s, l))) = l @ new \<and> list_all P new"
  proof (cases r)
    case (Inl e)
    then show ?thesis using m new by (simp add: step_try_def)
  next
    case (Inr a)
    obtain q s2 l2 where f: "f a (s1, l1) = (q, (s2, l2))" by (metis prod_cases3)
    obtain more where "l2 = l1 @ more" "list_all P more" using effectsD [OF assms(2) f] by blast
    then show ?thesis using m f Inr new by (intro exI [of _ "new @ more"]) (simp add: step_try_def)
  qed
qed

lemma effects_still [effect_rules]: "effects P (look w f)" "effects P (step_lift r)"
  by (simp_all add: effects_def look_def step_lift_def)

lemma effects_event: "P e \<Longrightarrow> effects P (noted_step e m)"
  by (auto simp: effects_def noted_step_apply)

lemma effects_map [effect_rules]: "effects P m \<Longrightarrow> effects P (\<lambda>s. map_prod f id (m s))"
  by (simp add: effects_def)

lemma effects_cases [effect_rules]:
  "effects P m \<Longrightarrow> effects P m' \<Longrightarrow> effects P (if c then m else m')"
  "(\<And>a b. effects P (g a b)) \<Longrightarrow> effects P (case pair of (a, b) \<Rightarrow> g a b)"
  by (auto split: prod.split)

lemma effects_write [effect_rules]:
  "(\<And>b. P (Replaced path b)) \<Longrightarrow> effects P (write_manifest (tracked w) path body)"
  using effects_event [of P "Replaced path body" "wt_replace w path body"]
  by (auto simp: effects_def write_manifest_def split: sum.split file_kind.split)

lemma effects_validate [effect_rules]:
  "(\<And>s. P (Ran_Cargo (cargo_metadata_command (wt_view w s) b))) \<Longrightarrow> effects P (validate_checkout (tracked w) root v b)"
  by (simp add: effects_def validate_checkout_def)

lemma effects_on_disk [effect_rules]: "effects P (require_root_lock_absent_on_disk (tracked w))"
  by (simp add: effects_def require_root_lock_absent_on_disk_def)

lemma effects_lock_absent [effect_rules]: "effects P (require_root_lock_absent (tracked w) root)"
  unfolding require_root_lock_absent_def by (intro effect_rules)

lemma effects_remove_lock [effect_rules]:
  assumes "P (Removed ''Cargo.lock'')"
  shows "effects P (remove_generated_root_lock (tracked w) label)"
proof -
  have "effects P (step_try (\<lambda>s. map_prod (map_err (\<lambda>_. Fmt ''remove {label}-generated root Cargo.lock'' [label])) id
      (wt_remove (tracked w) ''Cargo.lock'' s)) (\<lambda>_. require_root_lock_absent_on_disk (tracked w)))"
    unfolding tracked_simps by (intro effect_rules effects_event assms)
  then show ?thesis
    by (auto simp: effects_def remove_generated_root_lock_def split: sum.split file_kind.split)
qed

lemma effects_without_lock [effect_rules]:
  assumes "P (Removed ''Cargo.lock'')" and "effects P operation"
  shows "effects P (without_persisted_root_lock (tracked w) label operation)"
proof -
  have "effects P (\<lambda>s. let (result, s1) = operation s; (cleanup, s2) = remove_generated_root_lock (tracked w) label s1 in
      (join_lock_cleanup label result cleanup, s2))"
    unfolding effects_def
  proof (intro allI)
    fix s l
    obtain r s1 l1 where m: "operation (s, l) = (r, (s1, l1))" by (metis prod_cases3)
    obtain q s2 l2 where f: "remove_generated_root_lock (tracked w) label (s1, l1) = (q, (s2, l2))" by (metis prod_cases3)
    obtain new more where "l1 = l @ new" "list_all P new" "l2 = l1 @ more" "list_all P more"
      using effectsD [OF assms(2) m] effectsD [OF effects_remove_lock [where P = P and w = w, OF assms(1)] f] by blast
    then show "\<exists>new. snd (snd (let (result, s1) = operation (s, l);
            (cleanup, s2) = remove_generated_root_lock (tracked w) label s1 in
          (join_lock_cleanup label result cleanup, s2))) = l @ new \<and> list_all P new"
      using m f by (intro exI [of _ "new @ more"]) simp
  qed
  then show ?thesis unfolding without_persisted_root_lock_def by (intro effect_rules)
qed

lemma effects_sync [effect_rules]:
  assumes "\<And>b. P (Replaced ''Cargo.toml'' b)" and "\<And>s. P (Ran_Cargo (cargo_metadata_command (wt_view w s) False))"
  shows "effects P (sync_workspace_dependency_versions (tracked w) root check)"
  unfolding sync_workspace_dependency_versions_def by (intro effect_rules assms)

lemma effects_set_version [effect_rules]:
  assumes "\<And>b. P (Replaced ''Cargo.toml'' b)"
  shows "effects P (set_workspace_release_version (tracked w) root now selected)"
  unfolding set_workspace_release_version_def by (intro effect_rules assms)

lemma effects_run [effect_rules]:
  "P (Ran RELEASE_OUTPUT_LIMITS command) \<Longrightarrow> effects P (run_release_plz (tracked w) command label)"
  unfolding run_release_plz_def tracked_simps by (intro effect_rules effects_event)

section \<open>What a command may touch\<close>

lemma effects_look_try:
  assumes "\<And>a s. f (wt_view w s) = Inr a \<Longrightarrow> effects P (k a)"
  shows "effects P (step_try (look w f) k)"
  using assms by (auto simp: effects_def look_try split: sum.split)

definition manifest_paths :: "string list" where
  "manifest_paths = ''Cargo.toml'' # map (\<lambda>policy. pp_path_in_vcs policy @ ''/Cargo.toml'') ALL_PACKAGES"

text \<open>The programs the environment names, which a process inherits and does not change.\<close>

definition named_program :: "('s, 'x, 'y) worktree_scheme \<Rightarrow> string \<Rightarrow> string \<Rightarrow> string set" where
  "named_program w name usual =
     {program. \<exists>s. program = (case env (wt_view w s) name of Some chosen \<Rightarrow> chosen | None \<Rightarrow> usual)}"

text \<open>
  The calls of release-plz: its version, its update of the packages, and the selection of a version
  for packages that are published, both of the workspace manifest with a configuration of the policy.
\<close>

definition release_plz_call :: "output_limits \<Rightarrow> string list \<Rightarrow> bool" where
  "release_plz_call limits args \<longleftrightarrow>
     (if limits = VALIDATION_OUTPUT_LIMITS then args = [''--version'']
      else limits = RELEASE_OUTPUT_LIMITS \<and>
        (\<exists>config\<in>{''.release-plz.toml'', ''.release-plz-wasm.toml''}. \<exists>version.
           let source = [''--manifest-path'', ''Cargo.toml'', ''--config'', config] in
           args = ''update'' # source \<or>
           (\<exists>n. args = ''set-version'' # map (\<lambda>policy. pp_package policy @ ''@'' @ version) (take n ALL_PACKAGES) @ source)))"

text \<open>
  What a command may do: remove the lock file, replace a manifest, run release-plz in one of those
  calls, and run Cargo for its metadata; the last two without the tokens.
\<close>

fun managed_effect :: "('s, 'x, 'y) worktree_scheme \<Rightarrow> tree_event \<Rightarrow> bool" where
  "managed_effect w (Removed path) \<longleftrightarrow> path = ''Cargo.lock''"
| "managed_effect w (Replaced path body) \<longleftrightarrow> path \<in> set manifest_paths"
| "managed_effect w (Ran limits command) \<longleftrightarrow>
     rl_program command \<in> named_program w ''RELEASE_PLZ'' ''release-plz'' \<and>
     release_plz_call limits (rl_args command) \<and>
     {''ACTIONS_ID_TOKEN_REQUEST_TOKEN'', ''ACTIONS_ID_TOKEN_REQUEST_URL'', ''ACTIONS_RUNTIME_TOKEN'',
      ''CARGO_REGISTRY_TOKEN'', ''CARGO_REGISTRIES_CRATES_IO_TOKEN'', ''GH_TOKEN'', ''GITHUB_TOKEN'',
      ''GIT_TOKEN''} \<subseteq> set (rl_env_remove command)"
| "managed_effect w (Ran_Cargo command) \<longleftrightarrow>
     pc_program command \<in> named_program w ''CARGO'' ''cargo'' \<and>
     pc_args command \<in> {[''metadata'', ''--format-version'', ''1''], [''metadata'', ''--format-version'', ''1'', ''--no-deps'']} \<and>
     (\<forall>token\<in>{''ACTIONS_ID_TOKEN_REQUEST_TOKEN'', ''CARGO_REGISTRY_TOKEN'', ''CARGO_REGISTRIES_CRATES_IO_TOKEN'',
        ''GH_TOKEN'', ''GITHUB_TOKEN'', ''GIT_TOKEN''}. pc_envs command token = Some None)"

lemma managed_root [simp]: "managed_effect w (Replaced ''Cargo.toml'' body)"
  by (simp add: manifest_paths_def)

lemma named_now: "(case env (wt_view w s) name of Some chosen \<Rightarrow> chosen | None \<Rightarrow> usual) \<in> named_program w name usual"
  unfolding named_program_def by blast

lemma managed_run:
  "release_plz_call limits args \<Longrightarrow> managed_effect w (Ran limits (release_plz (wt_view w s) args))"
  using named_now [where name = "''RELEASE_PLZ''" and usual = "''release-plz''" and w = w and s = s]
  by (simp add: release_plz_def TOKEN_ENVIRONMENTS_def del: char.inject)

lemma managed_cargo: "managed_effect w (Ran_Cargo (cargo_metadata_command (wt_view w s) resolve))"
  using named_now [where name = "''CARGO''" and usual = "''cargo''" and w = w and s = s] by (simp add: cargo_metadata_command_def METADATA_TOKENS_def)

lemma limits_differ [simp]: "RELEASE_OUTPUT_LIMITS \<noteq> VALIDATION_OUTPUT_LIMITS"
  by (simp add: RELEASE_OUTPUT_LIMITS_def VALIDATION_OUTPUT_LIMITS_def)

lemma config_known: "rp_config (for_version version) \<in> {''.release-plz.toml'', ''.release-plz-wasm.toml''}"
  by (simp add: for_version_def RUST_POLICY_def)

lemma family_taken: "\<exists>n. rp_packages (for_version version) = take n ALL_PACKAGES"
  by (metis for_version_def RUST_POLICY_def release_policy.select_convs(1) take_all_iff order_refl)

lemma update_call: "release_plz_call RELEASE_OUTPUT_LIMITS (release_plz_update version)"
  using config_known [of version] unfolding release_plz_call_def release_plz_update_def Let_def by auto

lemma set_version_call: "release_plz_call RELEASE_OUTPUT_LIMITS (release_plz_set_version x version)"
proof -
  obtain n where "rp_packages (for_version version) = take n ALL_PACKAGES" using family_taken [of version] ..
  then show ?thesis
    using config_known [of version] unfolding release_plz_call_def release_plz_set_version_def Let_def by auto
qed

lemma version_call: "release_plz_call VALIDATION_OUTPUT_LIMITS [''--version'']"
  by (simp add: release_plz_call_def)

lemma snapshot_paths:
  "snapshot_manifests w root policies x = Inr manifests \<Longrightarrow>
     map im_path manifests = map (\<lambda>policy. pp_path_in_vcs policy @ ''/Cargo.toml'') policies"
  by (induction policies arbitrary: manifests) (auto simp: Let_def result_simps)

lemma family_packages: "set (rp_packages (for_version version)) \<subseteq> set ALL_PACKAGES"
  by (auto simp: for_version_def RUST_POLICY_def dest: in_set_takeD)

lemma effects_write_manifests:
  "list_all (\<lambda>m. im_path m \<in> set manifest_paths) manifests \<Longrightarrow>
     effects (managed_effect w) (write_manifests (tracked w) manifests)"
  by (induction manifests) (auto intro!: effect_rules)

text \<open>Running release-plz as the environment of the moment names it.\<close>

lemma effects_plz:
  assumes "Inr (release_plz (wt_view (tracked w) t) args) = Inr command" and "release_plz_call RELEASE_OUTPUT_LIMITS args"
  shows "effects (managed_effect w) (run_release_plz (tracked w) command label)"
  using assms by (cases t) (auto intro!: effects_run managed_run)

lemma effects_exact [effect_rules]:
  "effects (managed_effect w) (apply_exact_version (tracked w) root original derived selected)"
proof -
  have inherited: "list_all (\<lambda>m. im_path m \<in> set manifest_paths) inherited"
    if taken: "snapshot_inherited_manifests (tracked w) root x = Inr inherited" for x inherited
  proof -
    obtain version where "snapshot_manifests (tracked w) root (rp_packages (for_version version)) x = Inr inherited"
      using taken by (auto simp: snapshot_inherited_manifests_def result_simps)
    from snapshot_paths [OF this] family_packages [of version]
    have "set (map im_path inherited) \<subseteq> set manifest_paths" by (auto simp: manifest_paths_def)
    then show ?thesis by (auto simp: list_all_iff)
  qed
  note run = effects_plz [OF _ set_version_call]
  show ?thesis
    unfolding apply_exact_version_def restore_inherited_manifests_def
    by (intro effects_look_try effects_try [OF effects_still(1)]
        effect_rules effects_write_manifests [OF inherited] run managed_root managed_cargo managed_effect.simps(1) [THEN iffD2] refl)
qed

lemma effects_require_plz [effect_rules]: "effects (managed_effect w) (require_release_plz (tracked w))"
proof -
  have "effects (managed_effect w) (noted_step (Ran VALIDATION_OUTPUT_LIMITS command) m)"
    if "Inr (release_plz (wt_view (tracked w) t) [''--version'']) = Inr command" for t command m
    using that by (cases t) (auto intro!: effects_event managed_run version_call)
  then show ?thesis
    unfolding require_release_plz_def tracked_simps by (intro effects_look_try effect_rules)
qed

lemma effects_activate [effect_rules]:
  assumes "P (Removed ''Cargo.lock'')" and "\<And>b. P (Replaced ''Cargo.toml'' b)"
    and "\<And>s. P (Ran_Cargo (cargo_metadata_command (wt_view w s) False))"
  shows "effects P (activate (tracked w) root target)"
  unfolding activate_def by (intro effect_rules assms)

lemma effects_prepare [effect_rules]: "effects (managed_effect w) (prepare_release (tracked w) root selected line)"
proof -
  note run = effects_plz [OF _ update_call]
  show ?thesis
    unfolding prepare_release_def
    by (intro effects_look_try effect_rules run managed_cargo managed_effect.simps(1) [THEN iffD2] refl)
qed

text \<open>Checking with \<open>check\<close> set writes no manifest.\<close>

lemma effects_check_branch:
  "effects P m \<Longrightarrow> (\<And>u. effects P (k u)) \<Longrightarrow>
     effects P (if stale \<noteq> [] \<and> True then m else step_try (if stale \<noteq> [] then m' else step_lift r) k)"
  by (auto intro: effects_try effects_still)

lemma effects_sync_check [effect_rules]:
  "(\<And>s. P (Ran_Cargo (cargo_metadata_command (wt_view w s) False))) \<Longrightarrow>
     effects P (sync_workspace_dependency_versions (tracked w) root True)"
  unfolding sync_workspace_dependency_versions_def
  by (intro effects_check_branch effects_try effects_still effects_validate)

lemma effects_check [effect_rules]:
  "P (Removed ''Cargo.lock'') \<Longrightarrow> (\<And>s b. P (Ran_Cargo (cargo_metadata_command (wt_view w s) b))) \<Longrightarrow>
     effects P (check_release (tracked w) root expected line)"
  unfolding check_release_def by (intro effect_rules)

text \<open>
  C30: what the release commands touch, and what they run. Whatever the checkout, Git, Cargo and
  release-plz do, a command removes no file but a root lock file and replaces no file but the
  manifests of the workspace and of the published packages. It runs only the release-plz that the
  environment names, for its version, for an update, or for the selection of a version of published
  packages, each under its output limits and without any of the token variables, and the Cargo that
  the environment names, for its metadata, also without tokens. And it runs Git, which inherits the
  environment as it is, only to read: where Git refuses everything but a few reading commands, a
  command does the same.
\<close>

theorem release_commands_touch_only_manifests:
  "list_all (managed_effect w) (snd (snd (run_release (tracked w) root command (s, [])))) \<and>
   run_release (reading_only (tracked w)) root command (s, []) = run_release (tracked w) root command (s, [])"
proof
  have "effects (managed_effect w) (run_release (tracked w) root command)"
    unfolding run_release_def
    by (cases command) (simp_all, (intro effect_rules managed_root managed_cargo managed_effect.simps(1) [THEN iffD2] refl)+)
  then have "\<exists>new. snd (snd (run_release (tracked w) root command (s, []))) = [] @ new \<and> list_all (managed_effect w) new"
    unfolding effects_def by blast
  then show "list_all (managed_effect w) (snd (snd (run_release (tracked w) root command (s, []))))" by auto
  show "run_release (reading_only (tracked w)) root command (s, []) = run_release (tracked w) root command (s, [])"
    by (simp only: release_reads)
qed

text \<open>An event that is a run of Cargo for its metadata, as above.\<close>

definition cargo_metadata_run :: "('s, 'x, 'y) worktree_scheme \<Rightarrow> tree_event \<Rightarrow> bool" where
  "cargo_metadata_run w e \<longleftrightarrow> (case e of Ran_Cargo _ \<Rightarrow> managed_effect w e | _ \<Rightarrow> False)"

lemma cargo_run: "cargo_metadata_run w (Ran_Cargo (cargo_metadata_command (wt_view w s) resolve))"
  using managed_cargo [of w s resolve] by (simp add: cargo_metadata_run_def)

section \<open>The root lock file\<close>

definition lock_absent :: "('s, 'x, 'y) worktree_scheme \<Rightarrow> string \<Rightarrow> 's \<Rightarrow> bool" where
  "lock_absent w root s \<longleftrightarrow> wt_kind w ''Cargo.lock'' s = Inr No_File \<and>
     require_no_tracked_root_lock (wt_view w s) root = Inr ()"

lemma on_disk_iff: "require_root_lock_absent_on_disk w s = (Inr u, s') \<longleftrightarrow> s' = s \<and> wt_kind w ''Cargo.lock'' s = Inr No_File"
  by (auto simp: require_root_lock_absent_on_disk_def split: sum.split file_kind.split)

lemma lock_absent_iff: "require_root_lock_absent w root s = (Inr u, s') \<longleftrightarrow> s' = s \<and> lock_absent w root s"
  by (auto simp: require_root_lock_absent_def steps on_disk_iff lock_absent_def)

lemma lock_absent_stays: "snd (require_root_lock_absent w root s) = s"
  by (auto simp: require_root_lock_absent_def require_root_lock_absent_on_disk_def look_try split: sum.split)

lemma removed_lock: "remove_generated_root_lock w label s = (Inr u, s') \<Longrightarrow> wt_kind w ''Cargo.lock'' s' = Inr No_File"
  by (auto simp: remove_generated_root_lock_def steps on_disk_iff split: sum.splits file_kind.splits)

lemma without_lock_Inr:
  assumes "without_persisted_root_lock w label operation s = (Inr v, s')"
  obtains s1 where "operation s = (Inr v, s1)" "remove_generated_root_lock w label s1 = (Inr (), s')"
    "wt_kind w ''Cargo.lock'' s' = Inr No_File"
proof -
  obtain result s1 cleanup s2 where o: "operation s = (result, s1)" and c: "remove_generated_root_lock w label s1 = (cleanup, s2)"
    by (metis surj_pair)
  have "(join_lock_cleanup label result cleanup, s2) = (Inr v, s')"
    using assms o c by (auto simp: without_persisted_root_lock_def steps on_disk_iff)
  then have "result = Inr v" "cleanup = Inr ()" "s2 = s'"
    by (auto simp: join_lock_cleanup_def split: sum.splits)
  with o c removed_lock [of w label s1 "()" s'] that show ?thesis by blast
qed

section \<open>Activation\<close>

lemma lock_try:
  "\<exists>e. step_try (require_root_lock_absent w root) k s = (if lock_absent w root s then k () s else (Inl e, s))"
proof (cases "fst (require_root_lock_absent w root s)")
  case (Inl e)
  then have "require_root_lock_absent w root s = (Inl e, s)" using lock_absent_stays [of w root s] by (metis prod.collapse)
  moreover from this have "\<not> lock_absent w root s" using lock_absent_iff [of w root s "()" s] by auto
  ultimately show ?thesis by (simp add: step_try_def)
next
  case (Inr u)
  then have "require_root_lock_absent w root s = (Inr (), s)" using lock_absent_stays [of w root s] by (metis prod.collapse old.unit.exhaust)
  moreover from this have "lock_absent w root s" using lock_absent_iff [of w root s "()" s] by auto
  ultimately show ?thesis by (simp add: step_try_def)
qed

lemma tracked_lock: "lock_absent (tracked w) root (s, l) \<longleftrightarrow> lock_absent w root s"
  by (simp add: lock_absent_def)

text \<open>The first candidate stub of a stable target, coming after a stable version.\<close>

definition first_stub :: "'z release_ext_scheme \<Rightarrow> version \<Rightarrow> version \<Rightarrow> version \<Rightarrow> bool" where
  "first_stub x now target selected \<longleftrightarrow>
     v_pre now = [] \<and> v_build now = [] \<and> v_pre target = [] \<and> v_build target = [] \<and>
     version_parse x (version_to_string x target @ ''-rc.0'') = Some selected \<and> version_less x now selected"

lemma activation_version_iff: "activation_version x now target = Inr selected \<longleftrightarrow> first_stub x now target selected"
  by (auto simp: activation_version_def first_stub_def result_simps)

text \<open>What an activation requires before it changes anything.\<close>

definition may_activate :: "('s, 'x, 'y) worktree_scheme \<Rightarrow> string \<Rightarrow> version \<Rightarrow> version \<Rightarrow> 's \<Rightarrow> bool" where
  "may_activate w root target selected s \<longleftrightarrow>
     (\<exists>now. current (wt_view w s) root = Inr now \<and> first_stub (wt_view w s) now target selected) \<and>
     lock_absent w root s \<and> require_clean (wt_view w s) root = Inr () \<and>
     require_release_base (wt_view w s) root Main_Line = Inr () \<and>
     require_activation_branch (wt_view w s) root target = Inr ()"

text \<open>An action that fails and leaves the state as it is, unless a condition holds.\<close>

definition fails_unless :: "('s, 'a) step \<Rightarrow> 's \<Rightarrow> bool \<Rightarrow> bool" where
  "fails_unless m s Q \<longleftrightarrow> (\<exists>e. m s = (Inl e, s)) \<or> Q"

lemma fails_unlessI: "Q \<Longrightarrow> fails_unless m s Q"
  by (simp add: fails_unless_def)

lemma fails_unless_look:
  "(\<And>a. f (wt_view w s) = Inr a \<Longrightarrow> fails_unless (k a) s Q) \<Longrightarrow> fails_unless (step_try (look w f) k) s Q"
  by (auto simp: fails_unless_def look_try split: sum.split)

lemma fails_unless_lock:
  "(lock_absent w root s \<Longrightarrow> fails_unless (k ()) s Q) \<Longrightarrow>
     fails_unless (step_try (require_root_lock_absent w root) k) s Q"
  using lock_try [of w root k s] by (auto simp: fails_unless_def split: if_splits)

lemma activate_guarded:
  "fails_unless (activate w root target) s (\<exists>selected. may_activate w root target selected s)"
  unfolding activate_def
  by (intro fails_unless_look fails_unless_lock fails_unlessI) (auto simp: may_activate_def activation_version_iff)

lemma exact_paths_iff: "require_exact_changed_paths x root [p] label = Inr u \<longleftrightarrow> changed_paths x root = Inr [p]"
  by (auto simp: require_exact_changed_paths_def result_simps)

lemma activate_done:
  assumes "activate w root target s = (Inr u, s')" and "may_activate w root target selected s"
  shows "changed_paths (wt_view w s') root = Inr [''Cargo.toml''] \<and> current (wt_view w s') root = Inr selected \<and>
    lock_absent w root s'"
  using assms
  by (auto simp: activate_def may_activate_def activation_version_iff [symmetric] steps lock_absent_iff exact_paths_iff split: if_splits)

text \<open>
  C8: activating a coordination line. A run that found the checkout not clean, not at the tip of
  main, not on its branch, or with a lock file has changed and run nothing. Every other run has
  replaced no file but the workspace manifest, removed none but the lock file, and run nothing but
  Cargo for its metadata, without tokens; and when it reports
  success, the workspace manifest is the only path that differs from the commit, its version is
  exactly the first candidate stub of the target, and there is no lock file.
\<close>

theorem activation_is_exact:
  "case activate (tracked w) root target (s, []) of (r, (s', log)) \<Rightarrow>
     (log = [] \<and> s' = s \<and> \<not> is_ok r) \<or>
     (\<exists>selected. may_activate w root target selected s \<and>
        list_all (\<lambda>e. e = Removed ''Cargo.lock'' \<or> (\<exists>body. e = Replaced ''Cargo.toml'' body) \<or> cargo_metadata_run w e) log \<and>
        (case r of
           Inl _ \<Rightarrow> True
         | Inr _ \<Rightarrow> changed_paths (wt_view w s') root = Inr [''Cargo.toml''] \<and>
             current (wt_view w s') root = Inr selected \<and> lock_absent w root s'))"
proof -
  obtain r s' log where run: "activate (tracked w) root target (s, []) = (r, (s', log))" by (metis prod_cases3)
  let ?P = "\<lambda>e. e = Removed ''Cargo.lock'' \<or> (\<exists>body. e = Replaced ''Cargo.toml'' body) \<or> cargo_metadata_run w e"
  have log: "list_all ?P log"
    using effectsD [OF effects_activate [of ?P w root target] run] cargo_run [of w] by auto
  have same: "may_activate (tracked w) root target selected (s, []) \<longleftrightarrow> may_activate w root target selected s" for selected
    by (simp add: may_activate_def tracked_lock)
  show ?thesis
  proof (cases "\<exists>selected. may_activate w root target selected s")
    case False
    then show ?thesis
      using activate_guarded [of "tracked w" root target "(s, [])"] run by (auto simp: fails_unless_def same)
  next
    case True
    then obtain selected where ready: "may_activate w root target selected s" ..
    have "changed_paths (wt_view w s') root = Inr [''Cargo.toml''] \<and> current (wt_view w s') root = Inr selected \<and>
        lock_absent w root s'" if "r = Inr u" for u
      using activate_done [of "tracked w" root target "(s, [])" u "(s', log)" selected] run ready that
      by (simp add: same tracked_lock)
    then show ?thesis using ready log run by (auto split: sum.split)
  qed
qed

section \<open>Checking a release\<close>

definition dependency_version :: "toml_table \<Rightarrow> string \<Rightarrow> string option" where
  "dependency_version document name =
     Option.bind (table_get document ''workspace'') (\<lambda>workspace.
     Option.bind (Option.bind (item_get workspace ''dependencies'') as_table_like) (\<lambda>dependencies.
     Option.bind (Option.bind (table_get dependencies name) as_inline_table) (\<lambda>table. get_str table ''version'')))"

text \<open>The workspace requires every package of the first family at its own version.\<close>

definition synchronized :: "'z source_ext_scheme \<Rightarrow> string \<Rightarrow> bool" where
  "synchronized x root \<longleftrightarrow>
     (\<exists>manifest document version. read_manifest x root ''Cargo.toml'' = Inr manifest \<and>
        toml_parse x manifest = Some document \<and> Option.bind (workspace_version document) as_str = Some version \<and>
        list_all (\<lambda>policy. dependency_version document (pp_package policy) = Some version) (rp_packages RUST_POLICY))"

lemma none_stale:
  "stale_dependencies version dependencies policies = Inr [] \<longleftrightarrow>
     list_all (\<lambda>policy. Option.bind (Option.bind (table_get dependencies (pp_package policy)) as_inline_table)
       (\<lambda>table. get_str table ''version'') = Some version) policies"
proof (induction policies)
  case (Cons policy policies)
  then show ?case
    by (auto simp: Let_def result_simps bind_eq_Some_conv split: if_splits)
qed simp

lemma validate_apply: "validate_checkout w root v b s = (r, s') \<longleftrightarrow>
    validate_source (wt_view w s) root v b = r \<and> s' = wt_cargo w (cargo_metadata_command (wt_view w s) b) s"
  by (auto simp: validate_checkout_def)

lemma sync_checked:
  assumes "sync_workspace_dependency_versions w root True s = (Inr b, s')"
  shows "synchronized (wt_view w s) root \<and> s' = wt_cargo w (cargo_metadata_command (wt_view w s) False) s"
proof -
  obtain manifest document version workspace dependencies where
    d: "read_manifest (wt_view w s) root ''Cargo.toml'' = Inr manifest" "toml_parse (wt_view w s) manifest = Some document"
      "Option.bind (workspace_version document) as_str = Some version" "table_get document ''workspace'' = Some workspace"
      "Option.bind (item_get workspace ''dependencies'') as_table_like = Some dependencies"
      "stale_dependencies version dependencies (rp_packages RUST_POLICY) = Inr []" "s' = wt_cargo w (cargo_metadata_command (wt_view w s) False) s"
    using assms
    by (auto simp: sync_workspace_dependency_versions_def steps validate_apply result_simps bind_eq_Some_conv split: if_splits)
  have "list_all (\<lambda>policy. dependency_version document (pp_package policy) = Some version) (rp_packages RUST_POLICY)"
    using d(5,6) unfolding none_stale dependency_version_def by (auto simp: d(4) bind_eq_Some_conv)
  with d show ?thesis unfolding synchronized_def by blast
qed

text \<open>What a checked source is, before and after its validation.\<close>

definition checked_source :: "('s, 'x, 'y) worktree_scheme \<Rightarrow> string \<Rightarrow> version \<Rightarrow> release_line \<Rightarrow> 's \<Rightarrow> bool" where
  "checked_source w root expected line s \<longleftrightarrow>
     require_version (wt_view w s) line expected = Inr () \<and>
     require_real_release_version (wt_view w s) expected = Inr () \<and>
     validate_policy (wt_view w s) root = Inr () \<and> lock_absent w root s \<and>
     require_clean (wt_view w s) root = Inr () \<and> current (wt_view w s) root = Inr expected \<and>
     synchronized (wt_view w s) root \<and>
     is_ok (validate_source (wt_view w (wt_cargo w (cargo_metadata_command (wt_view w s) False) s)) root expected True)"

lemma check_release_done:
  assumes "check_release w root expected line s = (Inr u, s')"
  shows "checked_source w root expected line s \<and> lock_absent w root s' \<and> require_clean (wt_view w s') root = Inr ()"
proof -
  obtain md t where ok: "require_version (wt_view w s) line expected = Inr ()"
      "require_real_release_version (wt_view w s) expected = Inr ()" "validate_policy (wt_view w s) root = Inr ()"
      "lock_absent w root s" "require_clean (wt_view w s) root = Inr ()" "current (wt_view w s) root = Inr expected"
    and v: "without_persisted_root_lock w ''release source validation''
         (step_try (sync_workspace_dependency_versions w root True) (\<lambda>_. validate_checkout w root expected True)) s =
       (Inr md, t)"
    and post: "s' = t" "lock_absent w root s'" "require_clean (wt_view w s') root = Inr ()"
    using assms by (auto simp: check_release_def steps lock_absent_iff split: if_splits)
  obtain s2 where "step_try (sync_workspace_dependency_versions w root True) (\<lambda>_. validate_checkout w root expected True) s =
      (Inr md, s2)"
    by (rule without_lock_Inr [OF v])
  then obtain b s1 where "sync_workspace_dependency_versions w root True s = (Inr b, s1)"
    and "validate_source (wt_view w s1) root expected True = Inr md"
    by (auto simp: step_try_Inr validate_apply)
  then show ?thesis
    using ok post sync_checked [of w root s b s1] by (auto simp: checked_source_def)
qed

lemma tracked_checked: "checked_source (tracked w) root expected line (s, l) \<longleftrightarrow> checked_source w root expected line s"
  by (simp add: checked_source_def tracked_lock)

text \<open>
  C31: checking a release. A check writes nothing and runs nothing but Cargo for its metadata,
  without tokens; it removes at most the lock file that Cargo generated. When it reports success, the source it found was clean, of
  exactly the expected version, admitted by its line and not a coordination stub, under the exact
  release-plz policy, with its internal requirements at that version and its packages valid; and
  the checkout it leaves is clean, without a lock file.
\<close>

theorem release_check_is_read_only:
  "case check_release (tracked w) root expected line (s, []) of (r, (s', log)) \<Rightarrow>
     list_all (\<lambda>e. e = Removed ''Cargo.lock'' \<or> cargo_metadata_run w e) log \<and>
     (case r of
        Inl _ \<Rightarrow> True
      | Inr _ \<Rightarrow> checked_source w root expected line s \<and> lock_absent w root s' \<and>
          require_clean (wt_view w s') root = Inr ())"
proof -
  obtain r s' log where run: "check_release (tracked w) root expected line (s, []) = (r, (s', log))" by (metis prod_cases3)
  have "list_all (\<lambda>e. e = Removed ''Cargo.lock'' \<or> cargo_metadata_run w e) log"
    using effectsD [OF effects_check [of "\<lambda>e. e = Removed ''Cargo.lock'' \<or> cargo_metadata_run w e" w root expected line] run]
      cargo_run [of w] by auto
  then show ?thesis
    using check_release_done [of "tracked w" root expected line "(s, [])" _ "(s', log)"] run
    by (auto simp: tracked_checked tracked_lock split: sum.split)
qed

section \<open>Preparing a release\<close>

text \<open>What is required between asking release-plz for its version and running it.\<close>

definition may_prepare :: "('s, 'x, 'y) worktree_scheme \<Rightarrow> string \<Rightarrow> version \<Rightarrow> release_line \<Rightarrow> 's \<Rightarrow> bool" where
  "may_prepare w root selected line s \<longleftrightarrow>
     lock_absent w root s \<and> require_clean (wt_view w s) root = Inr () \<and>
     require_release_base (wt_view w s) root line = Inr () \<and>
     (\<exists>now. current (wt_view w s) root = Inr now \<and> version_less (wt_view w s) now selected) \<and>
     require_release_branch (wt_view w s) root selected = Inr ()"

text \<open>
  What a successful preparation leaves: the packages were valid for the selected version, and since
  then only the lock file that Cargo generated may have been removed.
\<close>

definition validated_until :: "('s, 'x, 'y) worktree_scheme \<Rightarrow> string \<Rightarrow> version \<Rightarrow> 's \<Rightarrow> bool" where
  "validated_until w root selected s \<longleftrightarrow>
     (\<exists>t label. is_ok (validate_source (wt_view w t) root selected False) \<and>
        remove_generated_root_lock w label (wt_cargo w (cargo_metadata_command (wt_view w t) False) t) = (Inr (), s))"

definition prepared_source :: "('s, 'x, 'y) worktree_scheme \<Rightarrow> string \<Rightarrow> version \<Rightarrow> 's \<Rightarrow> bool" where
  "prepared_source w root selected s \<longleftrightarrow>
     validated_until w root selected s \<and> require_managed_diff (wt_view w s) root = Inr () \<and> lock_absent w root s"

lemma without_lock_validated:
  assumes "without_persisted_root_lock w label (validate_checkout w root v False) s = (Inr md, s')"
  shows "validated_until w root v s'"
proof -
  obtain s1 where "validate_checkout w root v False s = (Inr md, s1)"
    and "remove_generated_root_lock w label s1 = (Inr (), s')"
    by (rule without_lock_Inr [OF assms])
  then show ?thesis unfolding validate_apply validated_until_def by (metis is_ok.simps)
qed

lemma prepare_stages:
  "\<exists>rest. prepare_release w root selected line =
     step_try (look w (\<lambda>x. validate_version x root line selected ''yaml-sigil-core-v'')) (\<lambda>_.
     step_try (look w (\<lambda>x. require_real_release_version x selected)) (\<lambda>_.
     step_try (look w (\<lambda>x. validate_policy x root)) (\<lambda>_.
     step_try (require_release_plz w) (\<lambda>_. rest)))) \<and>
     (\<forall>t. fails_unless rest t (may_prepare w root selected line t)) \<and>
     (\<forall>t u t'. rest t = (Inr u, t') \<longrightarrow> prepared_source w root selected t')"
  unfolding prepare_release_def
proof (intro exI conjI allI)
  show "fails_unless
      (step_try (require_root_lock_absent w root) (\<lambda>_.
       step_try (look w (\<lambda>x. require_clean x root)) (\<lambda>_.
       step_try (look w (\<lambda>x. require_release_base x root line)) (\<lambda>_.
       step_try (look w (\<lambda>x. current x root)) (\<lambda>now.
       step_try (look w (\<lambda>x. if \<not> version_less x now selected
           then Inl (Fmt ''selected release version {selected} must advance {current}''
             [version_to_string x selected, version_to_string x now])
           else Inr ())) (\<lambda>_.
       step_try (look w (\<lambda>x. require_release_branch x root selected)) (\<lambda>_.
       rest now))))))) t (may_prepare w root selected line t)" for rest t
    by (intro fails_unless_look fails_unless_lock fails_unlessI) (auto simp: may_prepare_def split: if_splits)
qed (auto simp: steps lock_absent_iff prepared_source_def intro: without_lock_validated split: if_splits)

lemma tracked_remove:
  assumes "remove_generated_root_lock (tracked w) label (t, k) = (Inr (), (s, l))"
  shows "remove_generated_root_lock w label t = (Inr (), s)"
  using assms
  by (cases "fst (wt_remove w ''Cargo.lock'' t)"; cases "wt_remove w ''Cargo.lock'' t")
    (auto simp: remove_generated_root_lock_def steps on_disk_iff noted_step_apply step_try_def
      require_root_lock_absent_on_disk_def split: sum.splits file_kind.splits)

lemma tracked_prepared:
  assumes "prepared_source (tracked w) root selected (s, l)"
  shows "prepared_source w root selected s"
  using assms tracked_remove [of w] unfolding prepared_source_def validated_until_def
  by (auto simp: tracked_lock) blast

lemma tracked_may_prepare: "may_prepare (tracked w) root selected line (s, l) \<longleftrightarrow> may_prepare w root selected line s"
  by (simp add: may_prepare_def tracked_lock)

text \<open>The query of the release-plz version, and the answer of the pinned one.\<close>

definition plz_query :: "('s, 'x) worktree \<Rightarrow> 's \<Rightarrow> tree_event" where
  "plz_query w s = Ran VALIDATION_OUTPUT_LIMITS (release_plz (wt_view w s) [''--version''])"

definition pinned_release_plz :: "('s, 'x) worktree \<Rightarrow> 's \<Rightarrow> 's \<Rightarrow> bool" where
  "pinned_release_plz w s s' \<longleftrightarrow>
     (\<exists>out. wt_run w VALIDATION_OUTPUT_LIMITS (release_plz (wt_view w s) [''--version'']) s = (Inr (True, out), s') \<and>
        one_line out ''release-plz version'' = Inr (''release-plz '' @ RELEASE_PLZ_VERSION))"

lemma require_release_plz_run:
  assumes "wt_run w VALIDATION_OUTPUT_LIMITS (release_plz (wt_view w s) [''--version'']) s = (r, s1)"
  obtains verdict where "require_release_plz (tracked w) (s, l) =
      (verdict, (s1, l @ [plz_query w s]))"
    "is_ok verdict \<Longrightarrow> pinned_release_plz w s s1"
proof -
  let ?version = "\<lambda>out. one_line out ''release-plz version''"
  have "\<exists>verdict. require_release_plz (tracked w) (s, l) = (verdict, (s1, l @ [plz_query w s])) \<and>
      (is_ok verdict \<longrightarrow> (\<exists>out. r = Inr (True, out) \<and> ?version out = Inr (''release-plz '' @ RELEASE_PLZ_VERSION)))"
    unfolding require_release_plz_def look_try
    using assms by (cases r) (auto simp: plz_query_def noted_step_apply step_try_def step_lift_def split: sum.split)
  then show ?thesis using that assms by (auto simp: pinned_release_plz_def)
qed

lemma require_release_plz_cases:
  obtains (refused) e s1 where "require_release_plz (tracked w) (s, l) =
      (Inl e, (s1, l @ [plz_query w s]))"
  | (pinned) s1 where "require_release_plz (tracked w) (s, l) =
      (Inr (), (s1, l @ [plz_query w s]))" "pinned_release_plz w s s1"
proof -
  obtain r s1 where "wt_run w VALIDATION_OUTPUT_LIMITS (release_plz (wt_view w s) [''--version'']) s = (r, s1)" by (metis surj_pair)
  then obtain verdict where run: "require_release_plz (tracked w) (s, l) =
      (verdict, (s1, l @ [plz_query w s]))"
    and ok: "is_ok verdict \<longrightarrow> pinned_release_plz w s s1"
    using require_release_plz_run [where l = l and w = w] by metis
  show ?thesis
  proof (cases verdict)
    case (Inl e)
    then show ?thesis using run refused by blast
  next
    case (Inr u)
    then show ?thesis using run ok pinned by simp
  qed
qed

text \<open>
  C7: preparing a release. A run that refuses the version, its line, the release-plz policy, the
  release-plz that is installed, or the state of the checkout has run nothing but the query of the
  release-plz version, and changed nothing. Every other run had a version that its line admits and
  that is not a coordination stub, the exact policy, the pinned release-plz, a clean checkout at
  the tip of its line on the branch of that version, whose version it advances, and no lock file;
  and when it reports success, the packages were valid for the selected version, the difference is
  confined to the managed files, and there is no lock file.
\<close>

theorem preparation_is_guarded:
  "case prepare_release (tracked w) root selected line (s, []) of (r, (s', log)) \<Rightarrow>
     ((log = [] \<or> log = [plz_query w s]) \<and> \<not> is_ok r) \<or>
     (\<exists>s1. validate_version (wt_view w s) root line selected ''yaml-sigil-core-v'' = Inr () \<and>
        require_real_release_version (wt_view w s) selected = Inr () \<and>
        validate_policy (wt_view w s) root = Inr () \<and>
        pinned_release_plz w s s1 \<and> may_prepare w root selected line s1 \<and>
        (case r of Inl _ \<Rightarrow> True | Inr _ \<Rightarrow> prepared_source w root selected s'))"
proof -
  let ?w = "tracked w"
  let ?x = "wt_view w s"
  obtain rest where stages: "prepare_release ?w root selected line =
     step_try (look ?w (\<lambda>x. validate_version x root line selected ''yaml-sigil-core-v'')) (\<lambda>_.
     step_try (look ?w (\<lambda>x. require_real_release_version x selected)) (\<lambda>_.
     step_try (look ?w (\<lambda>x. validate_policy x root)) (\<lambda>_.
     step_try (require_release_plz ?w) (\<lambda>_. rest))))"
    and guard: "\<And>t. fails_unless rest t (may_prepare ?w root selected line t)"
    and finished: "\<And>t u t'. rest t = (Inr u, t') \<Longrightarrow> prepared_source ?w root selected t'"
    using prepare_stages [of ?w root selected line] by blast
  show ?thesis
  proof (cases "validate_version ?x root line selected ''yaml-sigil-core-v'' = Inr () \<and>
      require_real_release_version ?x selected = Inr () \<and> validate_policy ?x root = Inr ()")
    case False
    then show ?thesis unfolding stages by (auto simp: look_try split: sum.split)
  next
    case valid: True
    then have head: "prepare_release ?w root selected line (s, []) = step_try (require_release_plz ?w) (\<lambda>_. rest) (s, [])"
      unfolding stages by (simp add: look_try)
    show ?thesis
    proof (cases rule: require_release_plz_cases [of w s "[]"])
      case (refused e s1)
      then show ?thesis unfolding head by (simp add: step_try_def)
    next
      case (pinned s1)
      let ?log = "[plz_query w s]"
      have run: "prepare_release ?w root selected line (s, []) = rest (s1, ?log)"
        unfolding head using pinned by (simp add: step_try_def)
      show ?thesis
      proof (cases "\<exists>e. rest (s1, ?log) = (Inl e, (s1, ?log))")
        case True
        then show ?thesis unfolding run by auto
      next
        case False
        then have ready: "may_prepare w root selected line s1"
          using guard [of "(s1, ?log)"] by (simp add: fails_unless_def tracked_may_prepare)
        obtain r s' log where ran: "rest (s1, ?log) = (r, (s', log))" by (metis prod_cases3)
        then have "prepared_source w root selected s'" if "r = Inr u" for u
          using finished [of "(s1, ?log)" u "(s', log)"] tracked_prepared [of w root selected s' log] that by simp
        then show ?thesis using valid pinned(2) ready unfolding run ran by (auto split: sum.split)
      qed
    qed
  qed
qed

end
