(* ===== verification/Sample_Release_Commands.thy ===== *)
theory Sample_Release_Commands
  imports Sample_Release Release_Command_Facts
begin

text \<open>
  A checkout of version 0.5.0 that is activated for 0.5.1: three manifests, of which the third has
  the candidate version and the matching requirements, and Cargo leaves a lock file behind.
\<close>

definition v051_rc0 :: version where
  "v051_rc0 = v051\<lparr>v_pre := ''rc.0''\<rparr>"

definition c_target :: version where
  "c_target = v051\<lparr>v_pre := []\<rparr>"

definition c_document :: "string \<Rightarrow> string \<Rightarrow> toml_table" where
  "c_document version requirement =
     [(''workspace'', Toml_Table
        [(''package'', Toml_Table [(''version'', Toml_String version)]),
         (''dependencies'', Toml_Table (map (\<lambda>policy.
            (pp_package policy, Toml_Inline [(''version'', Toml_String requirement)])) (take 4 ALL_PACKAGES)))])]"

definition c_package :: "package_policy \<Rightarrow> cargo_package" where
  "c_package policy = (s_cargo_package policy)\<lparr>cp_version := v051_rc0\<rparr>"

definition c_metadata :: cargo_metadata where
  "c_metadata = s_metadata\<lparr>md_packages := map c_package (take 4 ALL_PACKAGES)\<rparr>"

definition c_git :: "string \<Rightarrow> string list \<Rightarrow> release_error + string" where
  "c_git manifest args =
     Inr (if hd args = ''rev-parse'' then s_main
      else if hd args = ''symbolic-ref'' then ''activate-0.5.1''
      else if hd args = ''diff'' \<and> manifest \<noteq> ''A'' then ''Cargo.toml'' @ [CHR 0x00]
      else [])"

definition c_source :: "string \<Rightarrow> provenance_ext" where
  "c_source manifest = sample_source
     \<lparr>version_parse := (\<lambda>text. if text = ''0.5.0'' then Some v050 else if text = ''0.5.1-rc.0'' then Some v051_rc0 else None),
      version_to_string := (\<lambda>v. if v = v050 then ''0.5.0'' else if v = c_target then ''0.5.1'' else ''0.5.1-rc.0''),
      version_less := (\<lambda>v w. v = v050 \<and> w = v051_rc0), git_output := (\<lambda>_. c_git manifest), open_file := (\<lambda>_ _. Inr manifest),
      toml_parse := (\<lambda>text. Some (c_document (if text = ''A'' then ''0.5.0'' else ''0.5.1-rc.0'')
        (if text = ''C'' then ''0.5.1-rc.0'' else ''0.5.0''))),
      cargo_metadata_of := (\<lambda>_ _. Inr c_metadata)\<rparr>"

text \<open>The state is the manifest and whether there is a lock file.\<close>

definition sample_checkout :: "(string \<times> bool, unit provenance_ext_ext) worktree" where
  "sample_checkout =
     \<lparr>wt_view = (\<lambda>(m, k). c_source m),
      wt_kind = (\<lambda>p (m, k). Inr (if p = ''Cargo.toml'' \<or> k then Regular_File else No_File)),
      wt_remove = (\<lambda>p (m, k). (Inr (), (m, False))), wt_replace = (\<lambda>p b (m, k). (Inr (), (b, k))),
      wt_run = (\<lambda>limits c s. (Inr (True, []), s)), wt_cargo = (\<lambda>b (m, k). (m, True)),
      wt_edit = (\<lambda>body edits. if body = ''A'' then ''B'' else ''C'')\<rparr>"

lemma c_family [simp]: "rp_packages (for_version v051_rc0) = take 4 ALL_PACKAGES"
  by (simp add: for_version_def v051_rc0_def v051_def RUST_POLICY_def)

lemma c_checkout:
  "ordered_publishable_packages c_metadata v051_rc0 = Inr (map c_package (take 4 ALL_PACKAGES))"
  "validate_packages (c_source m) [''repo''] (map c_package (take 4 ALL_PACKAGES)) (take 4 ALL_PACKAGES) v051_rc0 = Inr ()"
  "validate_internal_dependencies (c_source m) [''repo''] (map c_package (take 4 ALL_PACKAGES)) v051_rc0 = Inr ()"
  "validate_traits_declaration (c_source m) (map c_package (take 4 ALL_PACKAGES)) = Inr s_req"
  by (simp_all add: ordered_publishable_packages_def s_checkout_defs c_package_def c_metadata_def validate_package_def
      library_target_def forbidden_kind_def expected_types_def join_path_def split_on_def c_source_def sample_source_def
      validate_internal_dependencies_def validate_dependency_def validate_traits_declaration_def patch_compatible_def s_req_def)

lemma c_versions [simp]:
  "version_parse (c_source m) ''0.5.0'' = Some v050" "version_parse (c_source m) ''0.5.1-rc.0'' = Some v051_rc0"
  "version_to_string (c_source m) v050 = ''0.5.0''" "version_to_string (c_source m) c_target = ''0.5.1''"
  "version_to_string (c_source m) v051_rc0 = ''0.5.1-rc.0''" "version_less (c_source m) v050 v051_rc0"
  "v_pre v050 = []" "v_build v050 = []" "v_pre c_target = []" "v_build c_target = []" "v_build v051_rc0 = []"
  by (simp_all add: c_source_def v050_def v051_def v051_rc0_def c_target_def)

lemma c_views [simp]:
  "git_output (c_source m) root args = c_git m args"
  "toml_parse (c_source m) text = Some (c_document (if text = ''A'' then ''0.5.0'' else ''0.5.1-rc.0'')
     (if text = ''C'' then ''0.5.1-rc.0'' else ''0.5.0''))"
  "cargo_metadata_of (c_source m) root resolve = Inr c_metadata" "canonicalize (c_source m) p = Inr [''repo'']"
  "open_file (c_source m) root path = Inr m"
  by (simp_all add: c_source_def sample_source_def)

lemma c_read [simp]:
  assumes "m \<in> {''A'', ''B'', ''C''}"
  shows "read_manifest (c_source m) root ''Cargo.toml'' = Inr m"
  using assms
  by (auto simp: read_manifest_def relative_components_def path_components_def path_component_of_def split_on_def
      starts_with_def read_utf8_bounded_def read_bounded_def MANIFEST_LIMIT_def utf8_valid_ascii)

lemma c_current [simp]:
  "current (c_source ''A'') root = Inr v050" "current (c_source ''B'') root = Inr v051_rc0"
  "current (c_source ''C'') root = Inr v051_rc0"
  by (simp_all add: current_def c_document_def table_get_def item_get_def parse_release_version_def)

lemma s_main_line: "one_line s_main label = Inr s_main"
proof -
  have "utf8_valid (map of_char s_main)"
    by (rule utf8_valid_ascii) (simp add: s_main_def)
  moreover have "trim_line_ends s_main = s_main" by (simp add: trim_line_ends_def s_main_def eval_nat_numeral)
  ultimately show ?thesis by (simp add: one_line_def s_main_def list_ex_iff)
qed

lemma c_git_lines [simp]:
  "git_line (c_source m) root [''rev-parse'', r] = Inr s_main"
  "git_line (c_source m) root [''symbolic-ref'', ''--quiet'', ''--short'', ''HEAD''] = Inr ''activate-0.5.1''"
  "git_line (c_source m) root [''ls-files'', ''--'', ''Cargo.lock''] = Inr []"
  by (simp add: git_line_def c_git_def s_main_line)
    (simp_all add: git_line_def c_git_def one_line_def trim_line_ends_def utf8_valid_ascii)

lemma c_validated: "validate_source (c_source m) ''/repo'' v051_rc0 False = Inr c_metadata"
  using c_checkout
  by (simp add: validate_source_def validate_metadata_def c_metadata_def s_metadata_def del: validate_packages.simps)

lemma c_changed: "changed_paths (c_source ''C'') root = Inr [''Cargo.toml'']"
  by (simp add: changed_paths_def c_git_def nul_paths_def split_on_def utf8_valid_ascii)

lemma c_stale:
  "stale_dependencies version (map (\<lambda>policy. (pp_package policy, Toml_Inline [(''version'', Toml_String ''0.5.0'')]))
     (take 4 ALL_PACKAGES)) (take 4 ALL_PACKAGES) =
     Inr (if version = ''0.5.0'' then [] else map pp_package (take 4 ALL_PACKAGES))"
  by (simp add: ALL_PACKAGES_def table_get_def get_str_def)

section \<open>The activation\<close>

lemma c_states [simp]:
  "wt_view sample_checkout (m, k) = c_source m" "wt_cargo sample_checkout resolve (m, k) = (m, True)"
  "wt_kind sample_checkout p (m, k) = Inr (if p = ''Cargo.toml'' \<or> k then Regular_File else No_File)"
  "wt_remove sample_checkout p (m, k) = (Inr (), (m, False))" "wt_replace sample_checkout p b (m, k) = (Inr (), (b, k))"
  "wt_edit sample_checkout m edits = (if m = ''A'' then ''B'' else ''C'')"
  by (simp_all add: sample_checkout_def)

lemma c_lock: "require_root_lock_absent (tracked sample_checkout) root ((m, False), l) = (Inr (), ((m, False), l))"
  by (simp add: require_root_lock_absent_def look_try require_no_tracked_root_lock_def require_root_lock_absent_on_disk_def)

lemma c_set:
  "set_workspace_release_version (tracked sample_checkout) root v050 v051_rc0 ((''A'', False), l) =
     (Inr (), ((''B'', False), l @ [Replaced ''Cargo.toml'' ''B'']))"
  by (simp add: set_workspace_release_version_def look_def workspace_version_def c_document_def table_get_def item_get_def
      step_lift_def step_try_def write_manifest_def noted_step_apply)

definition c_cargo :: tree_event where "c_cargo = Ran_Cargo (cargo_metadata_command (c_source ''C'') False)"

lemma c_sync:
  "sync_workspace_dependency_versions (tracked sample_checkout) ''/repo'' False ((''B'', False), l) =
     (Inr True, ((''C'', True), l @ [Replaced ''Cargo.toml'' ''C'', c_cargo]))"
proof -
  have document: "workspace_version (c_document v r) = Some (Toml_String v)"
    "Option.bind (table_get (c_document v r) ''workspace'') (\<lambda>workspace.
       Option.bind (item_get workspace ''dependencies'') as_table_like) =
     Some (map (\<lambda>policy. (pp_package policy, Toml_Inline [(''version'', Toml_String r)])) (take 4 ALL_PACKAGES))" for v r
    by (simp_all add: workspace_version_def c_document_def table_get_def item_get_def)
  have family: "rp_packages RUST_POLICY = take 4 ALL_PACKAGES" "map pp_package (take 4 ALL_PACKAGES) \<noteq> []"
    by (simp_all add: RUST_POLICY_def ALL_PACKAGES_def)
  show ?thesis
    using family(2)
    by (simp add: sync_workspace_dependency_versions_def look_def document family(1) c_stale step_lift_def step_try_def
        parse_release_version_def write_manifest_def noted_step_apply validate_checkout_def c_validated c_cargo_def)
qed

text \<open>The activation edits the workspace manifest twice, runs Cargo, and removes the lock file that Cargo left.\<close>

lemma sample_activation:
  "activate (tracked sample_checkout) ''/repo'' c_target ((''A'', False), []) =
     (Inr (), ((''C'', False), [Replaced ''Cargo.toml'' ''B'', Replaced ''Cargo.toml'' ''C'', c_cargo, Removed ''Cargo.lock'']))"
proof -
  have ready: "activation_version (c_source ''A'') v050 c_target = Inr v051_rc0"
    "require_clean (c_source ''A'') ''/repo'' = Inr ()" "require_release_base (c_source ''A'') ''/repo'' Main_Line = Inr ()"
    "require_activation_branch (c_source ''A'') ''/repo'' c_target = Inr ()"
    by (simp_all add: activation_version_def require_clean_def c_git_def require_release_base_def validate_release_base_def
        require_activation_branch_def s_main_def is_ascii_hexdigit_def lower_hex_def list_all_length)
  have lock: "without_persisted_root_lock (tracked sample_checkout) label
      (sync_workspace_dependency_versions (tracked sample_checkout) ''/repo'' False) ((''B'', False), l) =
      (Inr True, ((''C'', False), l @ [Replaced ''Cargo.toml'' ''C'', c_cargo, Removed ''Cargo.lock'']))" for label l
    by (simp add: without_persisted_root_lock_def c_sync require_root_lock_absent_on_disk_def step_try_def
        remove_generated_root_lock_def noted_step_apply join_lock_cleanup_def)
  show ?thesis
    unfolding activate_def
    by (simp add: look_def ready c_lock c_set lock step_try_def step_lift_def require_exact_changed_paths_def c_changed)
qed

end
