(* ===== verification/Package_Content.thy ===== *)
theory Package_Content
  imports Release_Check Process
begin

text \<open>
  The contents of a package: \<open>xtask/src/package_content.rs\<close> and \<open>package_content_policy.rs\<close>. What
  Cargo lists for a package is compared with a committed inventory. Cargo runs within the bounds of
  \<open>Process\<close>; progress messages and the line numbers of errors are left out.
\<close>

section \<open>Inventories\<close>

record package_spec =
  sp_name :: string
  sp_inventory_path :: string
  sp_inventory :: string

record inventory_difference =
  df_missing :: "string list"
  df_unexpected :: "string list"

definition SYNTHETIC_LOCKFILE :: string where "SYNTHETIC_LOCKFILE = ''Cargo.lock''"

fun is_normal :: "path_component \<Rightarrow> bool" where
  "is_normal (Normal _) \<longleftrightarrow> True"
| "is_normal _ \<longleftrightarrow> False"

definition validate_inventory_path :: "string \<Rightarrow> string \<Rightarrow> release_error + unit" where
  "validate_inventory_path path label =
     (if path = [] then Inl (Fmt ''{label}:{line}: blank path'' [label])
      else if starts_with path ''#'' then Inl (Fmt ''{label}:{line}: comments are not allowed'' [label])
      else if CHR 0x5C \<in> set path \<or>
        list_ex (\<lambda>component. component = [] \<or> component \<in> {''.'', ''..''}) (split_on (CHR ''/'') path) \<or>
        \<not> list_all is_normal (path_components path)
      then Inl (Fmt ''{label}:{line}: path must be a normalized crate-relative path: {path}'' [label, path])
      else Inr ())"

fun inventory_paths :: "string \<Rightarrow> string option \<Rightarrow> string list \<Rightarrow> release_error + string set" where
  "inventory_paths label previous [] = Inr {}"
| "inventory_paths label previous (path # lines) =
     result_try (validate_inventory_path path label) (\<lambda>_.
     result_try
       (case previous of
          None \<Rightarrow> Inr ()
        | Some prior \<Rightarrow>
            if path < prior
            then Inl (Fmt ''{label}:{line}: paths are not bytewise sorted: {path} follows {prior}'' [label, path, prior])
            else if prior = path then Inl (Fmt ''{label}:{line}: duplicate path: {path}'' [label, path])
            else Inr ()) (\<lambda>_.
     result_map (insert path) (inventory_paths label (Some path) lines)))"

definition parse_inventory :: "string \<Rightarrow> string \<Rightarrow> release_error + string set" where
  "parse_inventory text label =
     (if text = [] then Inl (Fmt ''{label} is empty'' [label])
      else if last text \<noteq> CHR 0x0A then Inl (Fmt ''{label} must end with a line feed'' [label])
      else if CHR 0x0D \<in> set text then Inl (Fmt ''{label} must use line-feed terminators'' [label])
      else inventory_paths label None (split_on (CHR 0x0A) (butlast text)))"

definition normalize_platform_separators :: "string \<Rightarrow> char \<Rightarrow> string" where
  "normalize_platform_separators text separator = map (\<lambda>c. if c = separator then CHR ''/'' else c) text"

definition parse_cargo_list :: "string \<Rightarrow> io_error + string set" where
  "parse_cargo_list text =
     map_err (Io Invalid_Data)
       (parse_inventory (normalize_platform_separators text (CHR ''/'')) ''cargo package --list output'')"

definition compare_inventories :: "string set \<Rightarrow> string set \<Rightarrow> inventory_difference" where
  "compare_inventories expected actual =
     \<lparr>df_missing = sorted_list_of_set (expected - actual), df_unexpected = sorted_list_of_set (actual - expected)\<rparr>"

definition format_difference :: "inventory_difference \<Rightarrow> string" where
  "format_difference difference =
     ''package contents differ'' @
     (if df_missing difference \<noteq> []
      then [CHR 0x0A] @ ''  missing from package:'' @
        concat (map (\<lambda>path. [CHR 0x0A] @ ''    '' @ path) (df_missing difference)) else []) @
     (if df_unexpected difference \<noteq> []
      then [CHR 0x0A] @ ''  unexpected in package:'' @
        concat (map (\<lambda>path. [CHR 0x0A] @ ''    '' @ path) (df_unexpected difference)) else [])"

section \<open>Checking a package\<close>

definition package_list_args :: "string \<Rightarrow> string list" where
  "package_list_args package =
     [''package'', ''--list'', ''--allow-dirty'', ''--exclude-lockfile'', ''--package'', package]"

definition check_listing :: "string set \<Rightarrow> process_output \<Rightarrow> io_error + nat" where
  "check_listing expected out =
     (if po_status out \<noteq> 0 then Inl (Io Other_Kind (Msg ''cargo package --list failed with {}''))
      else if \<not> utf8_valid (map of_char (po_stdout out))
      then Inl (Io Invalid_Data (Msg ''cargo package --list returned non-UTF-8 output: {error}''))
      else
        result_try (parse_cargo_list (po_stdout out)) (\<lambda>listed.
        let actual = insert SYNTHETIC_LOCKFILE listed; difference = compare_inventories expected actual in
        if df_missing difference = [] \<and> df_unexpected difference = [] then Inr (card actual)
        else Inl (Io Other_Kind (Msg (format_difference difference)))))"

definition package_list_command :: "string \<Rightarrow> process_command" where
  "package_list_command package =
     \<lparr>pc_program = ''cargo'', pc_args = package_list_args package, pc_envs = (\<lambda>_. None)\<rparr>"

text \<open>Writing to the standard error of the program itself is a parameter.\<close>

definition check_package ::
    "('os, 'z) files_ext_scheme \<Rightarrow> (string \<Rightarrow> 'os \<Rightarrow> (io_error + unit) \<times> 'os) \<Rightarrow> package_spec \<Rightarrow> 'os
       \<Rightarrow> ((io_error + nat) \<times> 'os) option" where
  "check_package x write_stderr package os =
     (case map_err (Io Invalid_Data) (parse_inventory (sp_inventory package) (sp_inventory_path package)) of
        Inl e \<Rightarrow> Some (Inl e, os)
      | Inr expected \<Rightarrow>
          (case bounded_output x (package_list_command (sp_name package)) None VALIDATION_OUTPUT_LIMITS os of
             None \<Rightarrow> None
           | Some (Inl e, os1) \<Rightarrow>
               Some (Inl (Io (kind_of e) (Msg ''failed to run cargo package --list: {error}'')), os1)
           | Some (Inr out, os1) \<Rightarrow>
               (case (if po_stderr out \<noteq> [] then write_stderr (po_stderr out) os1 else (Inr (), os1)) of
                  (Inl e, os2) \<Rightarrow> Some (Inl e, os2)
                | (Inr _, os2) \<Rightarrow> Some (check_listing expected out, os2))))"

section \<open>The committed inventories\<close>

definition inventory_text :: "string list \<Rightarrow> string" where
  "inventory_text paths = concat (map (\<lambda>path. path @ [CHR 0x0A]) paths)"

definition core_inventory :: "string list" where
  "core_inventory =
     [''.cargo_vcs_info.json'', ''CHANGELOG.md'', ''CONTRIBUTING.md'', ''Cargo.lock'', ''Cargo.toml'',
      ''Cargo.toml.orig'', ''LICENSE'', ''README.md'', ''SECURITY.md'', ''THIRD_PARTY_NOTICES.md'',
      ''buf.yaml'', ''build.rs'', ''spec/proto/yaml_sigil/v1alpha1/yaml_sigil.proto'',
      ''spec/schema/YamlSigilSignature.v1alpha1.schema.json'', ''src/algorithm.rs'', ''src/conformance.rs'',
      ''src/decomposition.rs'', ''src/error.rs'', ''src/lib.rs'', ''src/p256_encoding.rs'',
      ''src/payload.rs'', ''src/pb.rs'', ''src/proto_outer.rs'', ''src/resource.rs'',
      ''src/signature_doc.rs'', ''src/tier_a_schema.rs'', ''src/v1alpha1.rs'', ''src/wire.rs'',
      ''tests/implementation_stack_smoke.rs'', ''tests/json_schema_signature_doc.rs'',
      ''tests/proto_outer_conformance.rs'', ''tests/protobuf_wire_compatibility.rs'',
      ''tests/yaml_signature_document_conformance.rs'', ''tests/yaml_signature_document_tier_a_schema.rs'']"

definition transcription_inventory :: "string list" where
  "transcription_inventory =
     [''.cargo_vcs_info.json'', ''CHANGELOG.md'', ''CONTRIBUTING.md'', ''Cargo.lock'', ''Cargo.toml'',
      ''Cargo.toml.orig'', ''LICENSE'', ''README.md'', ''SECURITY.md'', ''src/lib.rs'', ''src/v1alpha1.rs'']"

definition signing_inventory :: "string list" where
  "signing_inventory =
     [''.cargo_vcs_info.json'', ''CHANGELOG.md'', ''CONTRIBUTING.md'', ''Cargo.lock'', ''Cargo.toml'',
      ''Cargo.toml.orig'', ''LICENSE'', ''README.md'', ''SECURITY.md'', ''THIRD_PARTY_NOTICES.md'',
      ''src/async_provider.rs'', ''src/callback_tests.rs'', ''src/lib.rs'', ''src/proto_carrier.rs'',
      ''src/provider.rs'', ''src/provider_crypto.rs'', ''src/transcription.rs'', ''src/v1alpha1.rs'']"

definition verification_inventory :: "string list" where
  "verification_inventory =
     [''.cargo_vcs_info.json'', ''CHANGELOG.md'', ''CONTRIBUTING.md'', ''Cargo.lock'', ''Cargo.toml'',
      ''Cargo.toml.orig'', ''LICENSE'', ''README.md'', ''SECURITY.md'', ''THIRD_PARTY_NOTICES.md'',
      ''src/async_provider.rs'', ''src/async_provider_tests.rs'', ''src/crypto.rs'', ''src/lib.rs'',
      ''src/proto_verify.rs'', ''src/provider.rs'', ''src/v1alpha1.rs'', ''src/yaml_verify.rs'',
      ''tests/provider_paths.rs'', ''tests/verify_paths.rs'']"

definition wasm_inventory :: "string list" where
  "wasm_inventory =
     [''.cargo_vcs_info.json'', ''CHANGELOG.md'', ''CONTRIBUTING.md'', ''Cargo.lock'', ''Cargo.toml'',
      ''Cargo.toml.orig'', ''LICENSE'', ''README.md'', ''SECURITY.md'', ''THIRD_PARTY_NOTICES.md'',
      ''src/bytes.rs'', ''src/lib.rs'', ''src/resource.rs'', ''src/v1alpha1.rs'', ''src/versioned_js.rs'',
      ''tests/byte_inputs.cjs'', ''tests/generated_api.cjs'', ''tests/wasm.rs'']"

definition PACKAGE_SPECS :: "package_spec list" where
  "PACKAGE_SPECS =
     [\<lparr>sp_name = ''yaml-sigil-core'', sp_inventory_path = ''xtask/package-contents/yaml-sigil-core.txt'',
       sp_inventory = inventory_text core_inventory\<rparr>,
      \<lparr>sp_name = ''yaml-sigil-transcription'', sp_inventory_path = ''xtask/package-contents/yaml-sigil-transcription.txt'',
       sp_inventory = inventory_text transcription_inventory\<rparr>,
      \<lparr>sp_name = ''yaml-sigil-signing'', sp_inventory_path = ''xtask/package-contents/yaml-sigil-signing.txt'',
       sp_inventory = inventory_text signing_inventory\<rparr>,
      \<lparr>sp_name = ''yaml-sigil-verification'', sp_inventory_path = ''xtask/package-contents/yaml-sigil-verification.txt'',
       sp_inventory = inventory_text verification_inventory\<rparr>,
      \<lparr>sp_name = ''yaml-sigil-wasm'', sp_inventory_path = ''xtask/package-contents/yaml-sigil-wasm.txt'',
       sp_inventory = inventory_text wasm_inventory\<rparr>]"

section \<open>All packages\<close>

fun check_packages ::
    "('os, 'z) files_ext_scheme \<Rightarrow> (string \<Rightarrow> 'os \<Rightarrow> (io_error + unit) \<times> 'os) \<Rightarrow> package_spec list \<Rightarrow> 'os
       \<Rightarrow> ((string \<times> io_error) list \<times> 'os) option" where
  "check_packages x write_stderr [] os = Some ([], os)"
| "check_packages x write_stderr (package # packages) os =
     Option.bind (check_package x write_stderr package os) (\<lambda>(result, os1).
     map_option (\<lambda>(failures, os2).
         (case result of Inr _ \<Rightarrow> failures | Inl e \<Rightarrow> (sp_name package, e) # failures, os2))
       (check_packages x write_stderr packages os1))"

definition family_specs :: "version \<Rightarrow> package_spec list" where
  "family_specs version =
     filter (\<lambda>package. list_ex (\<lambda>p. pp_package p = sp_name package) (rp_packages (for_version version))) PACKAGE_SPECS"

definition validate_package_contents ::
    "'y source_ext_scheme \<Rightarrow> string \<Rightarrow> ('os, 'z) files_ext_scheme \<Rightarrow> (string \<Rightarrow> 'os \<Rightarrow> (io_error + unit) \<times> 'os)
       \<Rightarrow> 'os \<Rightarrow> ((io_error + unit) \<times> 'os) option" where
  "validate_package_contents checkout root x write_stderr os =
     (case current checkout root of
        Inl e \<Rightarrow> Some (Inl (Io Other_Kind e), os)
      | Inr version \<Rightarrow>
          map_option (\<lambda>(failures, os1).
              (if failures = [] then Inr ()
               else Inl (Io Other_Kind (Fmt ''package content validation failed:{}'' (map fst failures))), os1))
            (check_packages x write_stderr (family_specs version) os))"

end
