(* ===== verification/Package_Content_Facts.thy ===== *)
theory Package_Content_Facts
  imports Package_Content
begin

text \<open>
  Which texts are inventories, what an accepted listing is, and what the check of all packages
  guarantees.
\<close>

section \<open>Lines\<close>

lemma split_at_piece: "d \<notin> set s \<Longrightarrow> split_at d acc (s @ d # rest) = (acc @ s) # split_at d [] rest"
  by (induction s arbitrary: acc) auto

lemma split_at_last: "d \<notin> set s \<Longrightarrow> split_at d acc s = [acc @ s]"
  by (induction s arbitrary: acc) auto

lemma join_split_at: "concat (map (\<lambda>p. p @ [d]) (split_at d acc s)) = acc @ s @ [d]"
  by (induction s arbitrary: acc) auto

lemma split_at_clean: "d \<notin> set acc \<Longrightarrow> list_all (\<lambda>p. d \<notin> set p) (split_at d acc s)"
  by (induction s arbitrary: acc) auto

lemma split_at_pieces: "split_at d acc s \<noteq> []"
  by (induction s arbitrary: acc) auto

lemma inventory_text_Nil [simp]: "inventory_text paths = [] \<longleftrightarrow> paths = []"
  by (cases paths) (auto simp: inventory_text_def)

lemma inventory_text_Cons: "inventory_text (p # ps) = p @ CHR 0x0A # inventory_text ps"
  by (simp add: inventory_text_def)

lemma last_inventory_text: "paths \<noteq> [] \<Longrightarrow> last (inventory_text paths) = CHR 0x0A"
  by (cases paths rule: rev_cases) (auto simp: inventory_text_def)

lemma inventory_text_split: "text \<noteq> [] \<Longrightarrow> last text = CHR 0x0A \<Longrightarrow> inventory_text (split_on (CHR 0x0A) (butlast text)) = text"
  unfolding inventory_text_def split_on_def join_split_at by (metis append_Nil append_butlast_last_id)

lemma split_inventory_text:
  "paths \<noteq> [] \<Longrightarrow> list_all (\<lambda>p. CHR 0x0A \<notin> set p) paths \<Longrightarrow>
     split_on (CHR 0x0A) (butlast (inventory_text paths)) = paths"
proof (induction paths)
  case (Cons p ps)
  show ?case
  proof (cases "ps = []")
    case True
    then show ?thesis using Cons.prems by (simp add: inventory_text_Cons split_on_def split_at_last butlast_append inventory_text_def)
  next
    case False
    then have "butlast (inventory_text (p # ps)) = p @ CHR 0x0A # butlast (inventory_text ps)"
      by (simp add: inventory_text_Cons butlast_append)
    then show ?thesis using Cons False by (simp add: split_on_def split_at_piece)
  qed
qed simp

section \<open>Inventories\<close>

text \<open>A path of a package: relative, normalised and neither blank nor a comment.\<close>

definition package_path :: "string \<Rightarrow> bool" where
  "package_path path \<longleftrightarrow> path \<noteq> [] \<and> \<not> starts_with path ''#'' \<and> CHR 0x5C \<notin> set path \<and>
     list_all (\<lambda>c. c \<noteq> [] \<and> c \<notin> {''.'', ''..''}) (split_on (CHR ''/'') path)"

lemma normal_components:
  assumes "list_all (\<lambda>c. c \<noteq> [] \<and> c \<notin> {''.'', ''..''}) (split_on (CHR ''/'') path)"
  shows "list_all is_normal (path_components path)"
proof -
  have "split_on (CHR ''/'') path \<noteq> []" by (simp add: split_on_def split_at_pieces)
  moreover have "\<not> starts_with path ''/''"
    using assms by (cases path) (auto simp: split_on_def starts_with_def split: if_splits)
  ultimately show ?thesis
    using assms by (auto simp: path_components_def Let_def path_component_of_def list_all_iff hd_in_set)
qed

lemma validate_path_iff: "validate_inventory_path path label = Inr u \<longleftrightarrow> package_path path"
  using normal_components [of path]
  by (auto simp: validate_inventory_path_def package_path_def list_all_iff list_ex_iff)

text \<open>Paths in order, each after the one before.\<close>

fun ascending_from :: "string option \<Rightarrow> string list \<Rightarrow> bool" where
  "ascending_from previous [] \<longleftrightarrow> True"
| "ascending_from previous (path # paths) \<longleftrightarrow>
     (case previous of None \<Rightarrow> True | Some prior \<Rightarrow> prior < path) \<and> ascending_from (Some path) paths"

lemma ascending_from_Some: "ascending_from (Some p) paths \<longleftrightarrow> sorted_wrt (<) (p # paths)"
  by (induction paths arbitrary: p) (auto intro: less_trans)

lemma ascending_from_None: "ascending_from None paths \<longleftrightarrow> sorted_wrt (<) paths"
  by (cases paths) (simp_all add: ascending_from_Some)

lemma inventory_paths_iff:
  "inventory_paths label previous ls = Inr paths \<longleftrightarrow>
     ascending_from previous ls \<and> list_all package_path ls \<and> paths = set ls"
  by (induction label previous ls arbitrary: paths rule: inventory_paths.induct)
    (auto simp: result_simps validate_path_iff not_less split: option.splits if_splits)

text \<open>
  The accepted inventories. A text is accepted exactly when it is a list of relative, normalised
  paths, one on each line, in strictly ascending order, and it stands for the set of these paths.
\<close>

theorem parse_inventory_iff:
  "parse_inventory text label = Inr paths \<longleftrightarrow>
     (\<exists>ps. ps \<noteq> [] \<and> text = inventory_text ps \<and> CHR 0x0D \<notin> set text \<and> sorted_wrt (<) ps \<and>
        list_all (\<lambda>p. package_path p \<and> CHR 0x0A \<notin> set p) ps \<and> paths = set ps)"
proof
  assume "parse_inventory text label = Inr paths"
  then have t: "text \<noteq> []" "last text = CHR 0x0A" "CHR 0x0D \<notin> set text"
    "inventory_paths label None (split_on (CHR 0x0A) (butlast text)) = Inr paths"
    by (auto simp: parse_inventory_def split: if_splits)
  let ?ps = "split_on (CHR 0x0A) (butlast text)"
  have "text = inventory_text ?ps" using t by (simp add: inventory_text_split)
  moreover from this have "?ps \<noteq> []" using t(1) by (metis inventory_text_Nil)
  moreover have "list_all (\<lambda>p. CHR 0x0A \<notin> set p) ?ps"
    by (simp add: split_on_def split_at_clean)
  ultimately show "\<exists>ps. ps \<noteq> [] \<and> text = inventory_text ps \<and> CHR 0x0D \<notin> set text \<and> sorted_wrt (<) ps \<and>
      list_all (\<lambda>p. package_path p \<and> CHR 0x0A \<notin> set p) ps \<and> paths = set ps"
    using t(3,4) by (intro exI [of _ ?ps]) (auto simp: inventory_paths_iff ascending_from_None list_all_iff)
next
  assume "\<exists>ps. ps \<noteq> [] \<and> text = inventory_text ps \<and> CHR 0x0D \<notin> set text \<and> sorted_wrt (<) ps \<and>
    list_all (\<lambda>p. package_path p \<and> CHR 0x0A \<notin> set p) ps \<and> paths = set ps"
  then obtain ps where ps: "ps \<noteq> []" "text = inventory_text ps" "CHR 0x0D \<notin> set text" "sorted_wrt (<) ps"
    "list_all package_path ps" "list_all (\<lambda>p. CHR 0x0A \<notin> set p) ps" "paths = set ps"
    by (auto simp: list_all_iff)
  then show "parse_inventory text label = Inr paths"
    using split_inventory_text [of ps] last_inventory_text [of ps]
    by (simp add: parse_inventory_def inventory_paths_iff ascending_from_None)
qed

section \<open>A listing\<close>

lemma difference_empty:
  assumes "finite expected" and "finite actual"
  shows "df_missing (compare_inventories expected actual) = [] \<and> df_unexpected (compare_inventories expected actual) = []
    \<longleftrightarrow> expected = actual"
  using assms by (auto simp: compare_inventories_def)

lemma normalize_separators [simp]: "normalize_platform_separators text (CHR ''/'') = text"
  by (simp add: normalize_platform_separators_def cong: if_cong)

text \<open>A successful listing whose paths, with the lock file, are exactly the expected ones.\<close>

definition exact_listing :: "string set \<Rightarrow> process_output \<Rightarrow> bool" where
  "exact_listing expected out \<longleftrightarrow>
     po_status out = 0 \<and> utf8_valid (map of_char (po_stdout out)) \<and> CHR 0x0D \<notin> set (po_stdout out) \<and>
     (\<exists>ps. ps \<noteq> [] \<and> po_stdout out = inventory_text ps \<and> sorted_wrt (<) ps \<and>
        list_all (\<lambda>p. package_path p \<and> CHR 0x0A \<notin> set p) ps \<and> expected = insert SYNTHETIC_LOCKFILE (set ps))"

lemma finite_inventory: "parse_inventory text label = Inr paths \<Longrightarrow> finite paths"
  by (auto simp: parse_inventory_iff)

lemma exact_listing_parsed:
  "exact_listing expected out \<longleftrightarrow> po_status out = 0 \<and> utf8_valid (map of_char (po_stdout out)) \<and>
     (\<exists>listed. parse_inventory (po_stdout out) label = Inr listed \<and> expected = insert SYNTHETIC_LOCKFILE listed)"
  unfolding exact_listing_def parse_inventory_iff by blast

lemma check_listing_exact:
  assumes "finite expected"
  shows "(\<exists>n. check_listing expected out = Inr n) \<longleftrightarrow> exact_listing expected out"
proof (cases "parse_inventory (po_stdout out) ''cargo package --list output''")
  case (Inl e)
  then show ?thesis
    by (simp add: check_listing_def parse_cargo_list_def exact_listing_parsed [where label = "''cargo package --list output''"])
next
  case (Inr listed)
  then show ?thesis
    using difference_empty [of expected "insert SYNTHETIC_LOCKFILE listed"] assms finite_inventory [OF Inr]
    by (simp add: check_listing_def parse_cargo_list_def Let_def
        exact_listing_parsed [where label = "''cargo package --list output''"])
qed

section \<open>All packages\<close>

text \<open>Every package of a list was listed exactly, one after the other.\<close>

fun all_listed ::
    "('os, 'z) files_ext_scheme \<Rightarrow> (string \<Rightarrow> 'os \<Rightarrow> (io_error + unit) \<times> 'os) \<Rightarrow> package_spec list \<Rightarrow> 'os \<Rightarrow> 'os \<Rightarrow> bool" where
  "all_listed x write_stderr [] os os' \<longleftrightarrow> os' = os"
| "all_listed x write_stderr (package # packages) os os' \<longleftrightarrow>
     (\<exists>expected out os1 os2. parse_inventory (sp_inventory package) (sp_inventory_path package) = Inr expected \<and>
        bounded_output x (package_list_command (sp_name package)) None VALIDATION_OUTPUT_LIMITS os = Some (Inr out, os1) \<and>
        (if po_stderr out = [] then os2 = os1 else write_stderr (po_stderr out) os1 = (Inr (), os2)) \<and>
        exact_listing expected out \<and> all_listed x write_stderr packages os2 os')"

lemma check_package_exact:
  "(\<exists>n. check_package x w package os = Some (Inr n, os2)) \<longleftrightarrow>
     (\<exists>expected out os1. parse_inventory (sp_inventory package) (sp_inventory_path package) = Inr expected \<and>
        bounded_output x (package_list_command (sp_name package)) None VALIDATION_OUTPUT_LIMITS os = Some (Inr out, os1) \<and>
        (if po_stderr out = [] then os2 = os1 else w (po_stderr out) os1 = (Inr (), os2)) \<and>
        exact_listing expected out)"
proof (cases "parse_inventory (sp_inventory package) (sp_inventory_path package)")
  case (Inl e)
  then show ?thesis by (simp add: check_package_def)
next
  case (Inr expected)
  let ?run = "bounded_output x (package_list_command (sp_name package)) None VALIDATION_OUTPUT_LIMITS os"
  have "check_package x w package os = Some (Inr n, os2) \<longleftrightarrow>
      (\<exists>out os1. ?run = Some (Inr out, os1) \<and>
         (if po_stderr out = [] then os2 = os1 else w (po_stderr out) os1 = (Inr (), os2)) \<and>
         check_listing expected out = Inr n)" for n
    using Inr by (cases ?run) (auto simp: check_package_def split: sum.splits prod.splits if_splits)
  then show ?thesis
    using Inr check_listing_exact [OF finite_inventory [OF Inr]] by (auto simp del: split_paired_Ex) blast+
qed

lemma check_packages_exact:
  "check_packages x w packages os = Some ([], os') \<longleftrightarrow> all_listed x w packages os os'"
proof (induction packages arbitrary: os)
  case (Cons package packages)
  have "check_packages x w (package # packages) os = Some ([], os') \<longleftrightarrow>
      (\<exists>os2. (\<exists>n. check_package x w package os = Some (Inr n, os2)) \<and> check_packages x w packages os2 = Some ([], os'))"
  proof (cases "check_package x w package os")
    case (Some p)
    obtain result os1 where p: "p = (result, os1)" by (cases p)
    show ?thesis
      using Some p by (cases "check_packages x w packages os1"; cases result) auto
  qed simp
  then show ?case unfolding Cons.IH check_package_exact by auto
qed auto

lemma family_names: "map sp_name (family_specs version) = map pp_package (rp_packages (for_version version))"
  by (simp add: family_specs_def PACKAGE_SPECS_def for_version_def RUST_POLICY_def ALL_PACKAGES_def)

text \<open>The committed inventories are canonical.\<close>

theorem committed_inventories_are_canonical:
  "map (\<lambda>package. parse_inventory (sp_inventory package) (sp_inventory_path package)) PACKAGE_SPECS =
     map (\<lambda>paths. Inr (set paths))
       [core_inventory, transcription_inventory, signing_inventory, verification_inventory, wasm_inventory]"
proof -
  have "parse_inventory (inventory_text ps) label = Inr (set ps)"
    if "ps \<noteq> []" "list_all (\<lambda>p. CHR 0x0A \<notin> set p \<and> CHR 0x0D \<notin> set p) ps" "ascending_from None ps" "list_all package_path ps"
    for ps label
    unfolding parse_inventory_iff using that unfolding ascending_from_None by (intro exI [of _ ps]) (auto simp: list_all_iff inventory_text_def)
  then show ?thesis
    by (simp add: PACKAGE_SPECS_def core_inventory_def transcription_inventory_def signing_inventory_def
        verification_inventory_def wasm_inventory_def package_path_def starts_with_def split_on_def)
qed

text \<open>
  C28: the contents of the packages. The check succeeds exactly when Cargo, asked in turn within its
  output limits, listed for every package of the family of the workspace version a canonical list of
  paths that, with the lock file, is the committed inventory of that package.
\<close>

theorem package_contents_are_exact:
  "validate_package_contents checkout root x write_stderr os = Some (Inr (), os') \<longleftrightarrow>
     (\<exists>version. current checkout root = Inr version \<and>
        map sp_name (family_specs version) = map pp_package (rp_packages (for_version version)) \<and>
        all_listed x write_stderr (family_specs version) os os')"
  using check_packages_exact [of x write_stderr]
  by (auto simp: validate_package_contents_def family_names split: sum.splits if_splits)

end
