(* ===== verification/Github_Rebind.thy ===== *)
theory Github_Rebind
  imports Github_Support Release_Commands
begin

text \<open>
  Binding a qualified source once more just before its publication: \<open>rebind\<close> of
  \<open>xtask/src/github/provenance.rs\<close>. The protected history is fetched anonymously into a scratch
  repository, so that the state of the file system changes; what a state shows to the reading Git
  commands is a view of it.
\<close>

record ('s, 'x) rebind_ext =
  rb_view :: "'s \<Rightarrow> 'x provenance_ext_scheme"
  rb_tempdir :: "'s \<Rightarrow> (release_error + string) \<times> 's"
  rb_init :: "string \<Rightarrow> 's \<Rightarrow> (release_error + string) \<times> 's"
  rb_run :: "string \<Rightarrow> process_command \<Rightarrow> output_limits \<Rightarrow> 's \<Rightarrow> (release_error + bool) \<times> 's"

definition see :: "('s, 'x, 'y) rebind_ext_scheme \<Rightarrow> ('x provenance_ext_scheme \<Rightarrow> release_error + 'a) \<Rightarrow> ('s, 'a) step" where
  "see w f s = (f (rb_view w s), s)"

definition source_version :: "'z source_ext_scheme \<Rightarrow> string \<Rightarrow> release_error + version" where
  "source_version x root = current x root"

definition validate_package_family :: "'z source_ext_scheme \<Rightarrow> string \<Rightarrow> release_error + unit" where
  "validate_package_family x root = validate_policy x root"

text \<open>The text of a canonical path.\<close>

definition path_text :: "string list \<Rightarrow> string" where
  "path_text components = concat (map (\<lambda>c. ''/'' @ c) components)"

definition exact_root :: "'z source_ext_scheme \<Rightarrow> string \<Rightarrow> release_error + string list" where
  "exact_root x root =
     result_try (canonicalize x root) (\<lambda>actual.
     result_try (git x root [''rev-parse'', ''--show-toplevel'']) (\<lambda>shown.
     result_try (canonicalize x shown) (\<lambda>top.
     if actual \<noteq> top then Inl (Msg ''release checkout must be its exact clean Git root'')
     else
       result_try (git x root [''status'', ''--porcelain=v1'', ''--untracked-files=all'']) (\<lambda>status.
       if status \<noteq> [] then Inl (Msg ''release checkout must be its exact clean Git root'')
       else Inr actual))))"

section \<open>The anonymous fetch\<close>

text \<open>
  The changes to the environment: every variable of Git and every token is taken out, and Git has
  no configuration, prompt or helper.
\<close>

definition fetch_envs :: "string \<Rightarrow> string option option" where
  "fetch_envs name =
     (case map_of [(''GIT_CONFIG_GLOBAL'', ''/dev/null''), (''GIT_CONFIG_SYSTEM'', ''/dev/null''),
         (''GIT_CONFIG_NOSYSTEM'', ''1''), (''GIT_TERMINAL_PROMPT'', ''0''), (''GIT_ASKPASS'', ''/bin/false'')] name of
        Some setting \<Rightarrow> Some (Some setting)
      | None \<Rightarrow>
          if utf8_valid (map of_char name) \<and> starts_with name ''GIT_'' \<or>
             name \<in> {''GH_TOKEN'', ''GITHUB_TOKEN'', ''GIT_TOKEN''}
          then Some None else None)"

definition fetch_command :: "string \<Rightarrow> release_line \<Rightarrow> process_command" where
  "fetch_command remote line =
     \<lparr>pc_program = ''git'',
      pc_args = [''-c'', ''credential.helper='', ''fetch'', ''--quiet'', ''--no-tags'', remote,
          ''+refs/heads/main:refs/remotes/origin/main''] @
        (if line \<noteq> Main_Line then [''+'' @ base_ref line @ '':'' @ tracking_ref line] else []),
      pc_envs = fetch_envs\<rparr>"

definition fetch :: "('s, 'x, 'y) rebind_ext_scheme \<Rightarrow> string \<Rightarrow> string \<Rightarrow> release_line \<Rightarrow> ('s, unit) step" where
  "fetch w root remote line =
     step_try (\<lambda>s. map_prod (map_err (\<lambda>_. Msg ''fetch protected history'')) id
         (rb_run w root (fetch_command remote line) VALIDATION_OUTPUT_LIMITS s)) (\<lambda>success.
     if \<not> success then step_lift (Inl (Msg ''anonymous protected-history fetch failed'')) else step_lift (Inr ()))"

section \<open>The rebind\<close>

definition FETCH_REMOTE :: string where
  "FETCH_REMOTE = ''https://github.com/'' @ REPOSITORY @ ''.git''"

text \<open>The checks of the two checkouts, before anything is fetched.\<close>

definition check_checkouts ::
    "'z source_ext_scheme \<Rightarrow> string \<Rightarrow> string option \<Rightarrow> string \<Rightarrow> string \<Rightarrow> string \<Rightarrow> version
       \<Rightarrow> release_error + release_line \<times> string" where
  "check_checkouts x root repository selected_base source_root source_sha version =
     result_try (require_repository x repository) (\<lambda>_.
     result_try (validate_package_family x root) (\<lambda>_.
     result_try (from_base_ref selected_base) (\<lambda>line.
     result_try (require_version x line version) (\<lambda>_.
     result_try (validate_package_family x source_root) (\<lambda>_.
     result_try (source_version x source_root) (\<lambda>found.
     if found \<noteq> version then Inl (Msg ''rebound source version differs from qualification'')
     else
       result_try (exact_root x root) (\<lambda>policy.
       result_try (exact_root x source_root) (\<lambda>source.
       if policy = source \<or> take (length source) policy = source \<or> take (length policy) source = policy
       then Inl (Msg ''policy and source require separate, non-nested roots'')
       else if \<not> is_sha source_sha then Inl (Msg ''source checkout differs from its qualified source'')
       else
         result_try (git x (path_text source) [''rev-parse'', ''HEAD'']) (\<lambda>head.
         if head \<noteq> source_sha then Inl (Msg ''source checkout differs from its qualified source'')
         else Inr (line, path_text policy))))))))))"

definition rebind_source ::
    "('s, 'x, 'y) rebind_ext_scheme \<Rightarrow> string \<Rightarrow> string option \<Rightarrow> string \<Rightarrow> provenance_operation \<Rightarrow> string \<Rightarrow> string
       \<Rightarrow> version \<Rightarrow> ('s, unit) step" where
  "rebind_source w root repository selected_base operation source_root source_sha version =
     step_try (see w (\<lambda>x. check_checkouts x root repository selected_base source_root source_sha version))
       (\<lambda>(line, policy).
     step_try (rb_tempdir w) (\<lambda>scratch.
     step_try (rb_init w scratch) (\<lambda>_.
     step_try (fetch w scratch FETCH_REMOTE line) (\<lambda>_.
     step_try (see w (\<lambda>x. git x scratch [''rev-parse'', ''refs/remotes/origin/main''])) (\<lambda>main.
     step_try (see w (\<lambda>x. git x scratch [''rev-parse'', tracking_ref line])) (\<lambda>base.
     step_try (see w (\<lambda>x. git x policy [''rev-parse'', ''HEAD''])) (\<lambda>head.
     if head \<noteq> main then step_lift (Inl (Msg ''executing policy is no longer exact current main''))
     else
       step_try (see w (\<lambda>x. binding_load x scratch main source_sha line operation)) (\<lambda>binding.
       step_try (see w (\<lambda>x. verify_git x binding scratch base)) (\<lambda>_.
       step_try (fetch w scratch FETCH_REMOTE line) (\<lambda>_.
       step_try (see w (\<lambda>x. git x scratch [''rev-parse'', ''refs/remotes/origin/main''])) (\<lambda>main_now.
       if main_now \<noteq> main then step_lift (Inl (Msg ''protected refs moved during policy rebind''))
       else
         step_try (see w (\<lambda>x. git x scratch [''rev-parse'', tracking_ref line])) (\<lambda>base_now.
         if base_now \<noteq> base then step_lift (Inl (Msg ''protected refs moved during policy rebind''))
         else step_lift (Inr ())))))))))))))"

end
