(* ===== verification/Github_Rebind_Facts.thy ===== *)
theory Github_Rebind_Facts
  imports Github_Rebind Release_Command_Facts Release_Rules Package_Content_Facts "HOL-Library.Sublist"
begin

text \<open>
  What a rebind runs, and what holds of the protected history when it succeeds.
\<close>

section \<open>Recording\<close>

datatype rebind_event = Made_Scratch | Initialised string | Fetched string process_command output_limits

definition watched :: "('s, 'x) rebind_ext \<Rightarrow> ('s \<times> rebind_event list, 'x) rebind_ext" where
  "watched w =
     \<lparr>rb_view = (\<lambda>(s, l). rb_view w s), rb_tempdir = noted_step Made_Scratch (rb_tempdir w),
      rb_init = (\<lambda>d. noted_step (Initialised d) (rb_init w d)),
      rb_run = (\<lambda>d c limits. noted_step (Fetched d c limits) (rb_run w d c limits))\<rparr>"

lemma watched_simps [simp]:
  "rb_view (watched w) (s, l) = rb_view w s" "rb_tempdir (watched w) = noted_step Made_Scratch (rb_tempdir w)"
  "rb_init (watched w) d = noted_step (Initialised d) (rb_init w d)"
  "rb_run (watched w) d c limits = noted_step (Fetched d c limits) (rb_run w d c limits)"
  by (simp_all add: watched_def)

lemma see_watched: "see (watched w) f (s, l) = (f (rb_view w s), (s, l))"
  by (simp add: see_def)

lemma see_try: "step_try (see w f) k s = (case f (rb_view w s) of Inl e \<Rightarrow> (Inl e, s) | Inr a \<Rightarrow> k a s)"
  by (simp add: step_try_def see_def)

lemma see_Inr: "see w f s = (Inr a, s') \<longleftrightarrow> f (rb_view w s) = Inr a \<and> s' = s"
  by (auto simp: see_def)

section \<open>What is run\<close>

text \<open>
  A command that carries no credential: the tokens and every variable of Git are taken out, except
  those that leave Git without a configuration, a prompt and a helper.
\<close>

definition no_credential :: "process_command \<Rightarrow> bool" where
  "no_credential c \<longleftrightarrow>
     take 3 (pc_args c) = [''-c'', ''credential.helper='', ''fetch''] \<and>
     (\<forall>name\<in>{''GH_TOKEN'', ''GITHUB_TOKEN'', ''GIT_TOKEN''}. pc_envs c name = Some None) \<and>
     (\<forall>name. utf8_valid (map of_char name) \<and> take 4 name = ''GIT_'' \<longrightarrow>
        pc_envs c name = Some (map_of [(''GIT_CONFIG_GLOBAL'', ''/dev/null''), (''GIT_CONFIG_SYSTEM'', ''/dev/null''),
          (''GIT_CONFIG_NOSYSTEM'', ''1''), (''GIT_TERMINAL_PROMPT'', ''0''), (''GIT_ASKPASS'', ''/bin/false'')] name))"

lemma fetch_is_anonymous: "no_credential (fetch_command remote line)"
  by (auto simp: no_credential_def fetch_command_def fetch_envs_def starts_with_def eval_nat_numeral split: option.split)

text \<open>The fetch of main and of the line, from the repository of the project, to where they are tracked.\<close>

definition protected_refs :: "release_line \<Rightarrow> string list" where
  "protected_refs line =
     [''https://github.com/NVIDIA/yaml-sigil-rs.git'', ''+refs/heads/main:refs/remotes/origin/main''] @
     (case line of Main_Line \<Rightarrow> []
      | Support major minor \<Rightarrow>
          [''+refs/heads/support/'' @ show_nat major @ ''.'' @ show_nat minor @
           '':refs/remotes/origin/support/'' @ show_nat major @ ''.'' @ show_nat minor])"

lemma fetch_refs: "drop 5 (pc_args (fetch_command FETCH_REMOTE line)) = protected_refs line"
  by (cases line) (simp_all add: fetch_command_def protected_refs_def FETCH_REMOTE_def REPOSITORY_def tracking_ref_def)

text \<open>What an event may be: the scratch repository is made, or filled with those refs without a credential.\<close>

fun anonymous :: "string \<Rightarrow> release_line \<Rightarrow> rebind_event \<Rightarrow> bool" where
  "anonymous scratch line Made_Scratch \<longleftrightarrow> True"
| "anonymous scratch line (Initialised directory) \<longleftrightarrow> directory = scratch"
| "anonymous scratch line (Fetched directory c limits) \<longleftrightarrow>
     directory = scratch \<and> pc_program c = ''git'' \<and> no_credential c \<and>
     drop 5 (pc_args c) = protected_refs line \<and> limits = VALIDATION_OUTPUT_LIMITS"

text \<open>What a log can be: it stops where the run failed.\<close>

definition rebind_log :: "string \<Rightarrow> release_line \<Rightarrow> rebind_event list" where
  "rebind_log scratch line =
     [Made_Scratch, Initialised scratch, Fetched scratch (fetch_command FETCH_REMOTE line) VALIDATION_OUTPUT_LIMITS,
      Fetched scratch (fetch_command FETCH_REMOTE line) VALIDATION_OUTPUT_LIMITS]"

lemma fetch_watched: "\<exists>r s'. fetch (watched w) d remote line (s, l) =
    (r, (s', l @ [Fetched d (fetch_command remote line) VALIDATION_OUTPUT_LIMITS]))"
  by (cases "rb_run w d (fetch_command remote line) VALIDATION_OUTPUT_LIMITS s"; cases "fst (rb_run w d (fetch_command remote line) VALIDATION_OUTPUT_LIMITS s)")
    (auto simp: fetch_def noted_step_apply step_try_def step_lift_def)

text \<open>A fetch that succeeded, from one state to the next.\<close>

definition fetched :: "('s, 'x, 'y) rebind_ext_scheme \<Rightarrow> string \<Rightarrow> release_line \<Rightarrow> 's \<Rightarrow> 's \<Rightarrow> bool" where
  "fetched w scratch line s s' \<longleftrightarrow>
     rb_run w scratch (fetch_command FETCH_REMOTE line) VALIDATION_OUTPUT_LIMITS s = (Inr True, s')"

lemma fetch_Inr: "fetch w d FETCH_REMOTE line s = (Inr u, s') \<longleftrightarrow> fetched w d line s s'"
  by (cases "rb_run w d (fetch_command FETCH_REMOTE line) VALIDATION_OUTPUT_LIMITS s";
      cases "fst (rb_run w d (fetch_command FETCH_REMOTE line) VALIDATION_OUTPUT_LIMITS s)")
    (auto simp: fetch_def fetched_def step_try_def step_lift_def)

section \<open>What success means\<close>

text \<open>The two ends of a line in the scratch repository.\<close>

definition tips :: "'z release_ext_scheme \<Rightarrow> string \<Rightarrow> release_line \<Rightarrow> string \<Rightarrow> string \<Rightarrow> bool" where
  "tips x scratch line main base \<longleftrightarrow>
     git x scratch [''rev-parse'', ''refs/remotes/origin/main''] = Inr main \<and>
     git x scratch [''rev-parse'', (case line of Main_Line \<Rightarrow> ''refs/remotes/origin/main''
       | Support major minor \<Rightarrow> ''refs/remotes/origin/support/'' @ show_nat major @ ''.'' @ show_nat minor)] = Inr base"

lemma tips_tracking: "tips x scratch line main base \<longleftrightarrow>
    git x scratch [''rev-parse'', ''refs/remotes/origin/main''] = Inr main \<and>
    git x scratch [''rev-parse'', tracking_ref line] = Inr base"
  by (cases line) (simp_all add: tips_def tracking_ref_def)

text \<open>A directory that is the root of its repository and has no change and no file that is not tracked.\<close>

definition clean_checkout :: "'z source_ext_scheme \<Rightarrow> string \<Rightarrow> string list \<Rightarrow> bool" where
  "clean_checkout x directory p \<longleftrightarrow>
     canonicalize x directory = Inr p \<and>
     (\<exists>top. git x directory [''rev-parse'', ''--show-toplevel''] = Inr top \<and> canonicalize x top = Inr p) \<and>
     git x directory [''status'', ''--porcelain=v1'', ''--untracked-files=all''] = Inr []"

lemma exact_root_iff: "exact_root x directory = Inr p \<longleftrightarrow> clean_checkout x directory p"
  by (auto simp: exact_root_def clean_checkout_def result_simps)

text \<open>Two clean checkouts, neither inside the other.\<close>

definition separate_checkouts :: "'z source_ext_scheme \<Rightarrow> string \<Rightarrow> string \<Rightarrow> string list \<Rightarrow> string list \<Rightarrow> bool" where
  "separate_checkouts x root source_root p q \<longleftrightarrow>
     clean_checkout x root p \<and> clean_checkout x source_root q \<and> \<not> prefix p q \<and> \<not> prefix q p"

text \<open>
  The repository is the project's, as the argument names it; in an action it is the repository of the
  action, on main, which the argument may leave out.
\<close>

definition in_project :: "'z source_ext_scheme \<Rightarrow> string option \<Rightarrow> bool" where
  "in_project x repository \<longleftrightarrow>
     (if env x ''GITHUB_ACTIONS'' = Some ''true''
      then env x ''GITHUB_REF'' = Some ''refs/heads/main'' \<and> env x ''GITHUB_REPOSITORY'' = Some ''NVIDIA/yaml-sigil-rs'' \<and>
        repository \<in> {None, Some ''NVIDIA/yaml-sigil-rs''}
      else repository = Some ''NVIDIA/yaml-sigil-rs'')"

lemma require_repository_iff: "require_repository x repository = Inr () \<longleftrightarrow> in_project x repository"
  unfolding require_repository_def in_project_def
  by (cases repository) (auto simp: REPOSITORY_def result_simps split: if_splits)

text \<open>The reference names a line, and the checked out source has a version of that line.\<close>

definition source_of_line ::
    "'z source_ext_scheme \<Rightarrow> string \<Rightarrow> string \<Rightarrow> string \<Rightarrow> release_line \<Rightarrow> version \<Rightarrow> bool" where
  "source_of_line x root source_root reference line version \<longleftrightarrow>
     reference = base_ref line \<and> current x source_root = Inr version \<and>
     (case line of Main_Line \<Rightarrow> True | Support major minor \<Rightarrow> v_major version = major \<and> v_minor version = minor) \<and>
     validate_policy x root = Inr () \<and> validate_policy x source_root = Inr ()"

lemma take_length_prefix: "take (length p) q = p \<longleftrightarrow> prefix p q"
  by (metis prefix_def append_take_drop_id append_eq_conv_conj)

lemma check_checkouts_done:
  assumes "check_checkouts x root repository reference source_root source_sha version = Inr (line, policy)"
  shows "in_project x repository \<and> (\<exists>p q. policy = path_text p \<and> separate_checkouts x root source_root p q \<and>
    source_of_line x root source_root reference line version \<and>
    length source_sha = 40 \<and> list_all lower_hex source_sha \<and>
    git x (path_text q) [''rev-parse'', ''HEAD''] = Inr source_sha)"
  using assms base_ref_roundtrip [of reference line]
  by (cases line) (auto simp: check_checkouts_def require_repository_iff validate_package_family_def source_version_def take_length_prefix
      exact_root_iff separate_checkouts_def source_of_line_def require_version_def is_sha_def result_simps split: if_splits)

text \<open>A commit has a regular file with this object at a path.\<close>

definition regular_blob :: "'z source_ext_scheme \<Rightarrow> string \<Rightarrow> string \<Rightarrow> string \<Rightarrow> string \<Rightarrow> bool" where
  "regular_blob x repository commit path sha \<longleftrightarrow>
     (\<exists>mode\<in>{''100644'', ''100755''}.
        git x repository [''ls-tree'', commit, ''--'', path] = Inr (mode @ '' blob '' @ sha @ CHR 0x09 # path))"

lemma three_pieces:
  "(case ps of [a, b, c] \<Rightarrow> f a b c | _ \<Rightarrow> Inl e) = Inr r \<longleftrightarrow> (\<exists>a b c. ps = [a, b, c] \<and> f a b c = Inr r)"
  by (auto split: list.split)

lemma blob_regular:
  assumes "blob x repository commit path = Inr sha"
  shows "regular_blob x repository commit path sha"
proof -
  obtain metadata mode where row: "git x repository [''ls-tree'', commit, ''--'', path] = Inr (metadata @ CHR 0x09 # path)"
    and pieces: "split_on (CHR '' '') metadata = [mode, ''blob'', sha]" and mode: "mode \<in> {''100644'', ''100755''}"
    using assms unfolding blob_def
    by (auto simp: result_simps split_once_iff three_pieces split: if_splits)
  have "metadata @ '' '' = mode @ '' blob '' @ sha @ '' ''"
    using join_split_at [of "CHR '' ''" "[]" metadata] pieces by (simp add: split_on_def)
  then have "metadata = mode @ '' blob '' @ sha" by (metis append.assoc append_same_eq)
  with row mode show ?thesis unfolding regular_blob_def by auto
qed

definition carries :: "'z source_ext_scheme \<Rightarrow> string \<Rightarrow> string \<Rightarrow> inventory \<Rightarrow> bool" where
  "carries x repository commit inventory \<longleftrightarrow>
     (\<forall>(path, sha)\<in>set (iv_blobs inventory). regular_blob x repository commit path sha)"

text \<open>What Git says of two commits.\<close>

definition descends :: "'z source_ext_scheme \<Rightarrow> string \<Rightarrow> string \<Rightarrow> string \<Rightarrow> bool" where
  "descends x repository older newer \<longleftrightarrow> is_ok (git x repository [''merge-base'', ''--is-ancestor'', older, newer])"

lemma ancestor_iff: "ancestor x repository older newer = Inr () \<longleftrightarrow> descends x repository older newer"
  by (cases "git x repository [''merge-base'', ''--is-ancestor'', older, newer]") (simp_all add: ancestor_def descends_def)

text \<open>
  A source of a support line: main and the source record one anchor, which is where both the source
  and the tip of the line leave main; the source carries the policy files it records, as the commit
  of main's history that it names does; and when it is fresh under a policy in force, they are
  main's policy files, with main's objects.
\<close>

definition supported ::
    "'z provenance_ext_scheme \<Rightarrow> string \<Rightarrow> string \<Rightarrow> string \<Rightarrow> string \<Rightarrow> release_line \<Rightarrow> provenance_operation \<Rightarrow> bool" where
  "supported x repository main base source line operation \<longleftrightarrow>
     (\<exists>active recorded anchor.
        read_inventory x repository main line = Inr active \<and> read_inventory x repository source line = Inr recorded \<and>
        iv_anchor active = anchor \<and> iv_anchor recorded = anchor \<and>
        git x repository [''merge-base'', source, main] = Inr anchor \<and>
        git x repository [''merge-base'', base, main] = Inr anchor \<and>
        descends x repository (iv_policy_commit recorded) main \<and>
        carries x repository source recorded \<and> carries x repository (iv_policy_commit recorded) recorded \<and>
        (operation = Fresh \<and> iv_enforce active \<longrightarrow>
           map fst (iv_blobs recorded) = map fst (iv_blobs active) \<and> carries x repository main recorded))"

text \<open>A source on the history of its line, at its tip when it is released for the first time.\<close>

definition on_history ::
    "'z provenance_ext_scheme \<Rightarrow> string \<Rightarrow> string \<Rightarrow> string \<Rightarrow> string \<Rightarrow> release_line \<Rightarrow> provenance_operation \<Rightarrow> bool" where
  "on_history x repository main base source line operation \<longleftrightarrow>
     descends x repository source base \<and> (operation = Fresh \<longrightarrow> base = source) \<and>
     (case line of Main_Line \<Rightarrow> base = main | Support _ _ \<Rightarrow> supported x repository main base source line operation)"

lemma supported_blobs:
  assumes "\<forall>(path, sha)\<in>set (iv_blobs recorded). blob x repository commit path = Inr sha"
  shows "carries x repository commit recorded"
  using assms blob_regular [of x repository commit] unfolding carries_def by blast

lemma binding_on_history:
  assumes load: "binding_load x repository main source line operation = Inr b"
    and verified: "verify_git x b repository base = Inr ()" and tips: "tips x repository line main base"
  shows "on_history x repository main base source line operation"
proof -
  obtain anchor where b: "b = \<lparr>bd_line = line, bd_operation = operation, bd_main = main, bd_source = source, bd_anchor = anchor\<rparr>"
    and a: "case line of Main_Line \<Rightarrow> anchor = None
      | Support _ _ \<Rightarrow> (\<exists>a. anchor = Some a \<and> support_anchor x repository main source line operation = Inr a)"
    using load unfolding binding_load_def by (auto simp: result_simps split: if_splits release_line.splits)
  have on: "descends x repository source base" "operation = Fresh \<longrightarrow> base = source"
    and fork: "\<forall>a. anchor = Some a \<longrightarrow> git x repository [''merge-base'', base, main] = Inr a"
    using verified unfolding verify_git_def b
    by (auto simp: result_simps ancestor_iff split: if_splits option.splits)
  show ?thesis
  proof (cases line)
    case Main_Line
    then show ?thesis using on tips by (auto simp: on_history_def tips_def tracking_ref_def)
  next
    case (Support major minor)
    then obtain a where s: "support_anchor x repository main source line operation = Inr a" "anchor = Some a"
      using a by auto
    have "supported x repository main base source line operation"
      using support_anchor_done [OF s(1)] fork s(2) unfolding supported_def ancestor_iff
      by (auto intro!: supported_blobs)
    then show ?thesis using on Support by (simp add: on_history_def)
  qed
qed

section \<open>What a rebind runs\<close>

text \<open>
  A log that stops where the run failed: it may be made longer only up to the complete one.
\<close>

definition logs_within :: "rebind_event list \<Rightarrow> ('s \<times> rebind_event list, 'a) step \<Rightarrow> 's \<Rightarrow> rebind_event list \<Rightarrow> bool" where
  "logs_within full m s l \<longleftrightarrow> prefix l full \<and> prefix (snd (snd (m (s, l)))) full"

lemma within_see:
  "prefix l full \<Longrightarrow> (\<And>a. f (rb_view w s) = Inr a \<Longrightarrow> logs_within full (k a) s l) \<Longrightarrow>
     logs_within full (step_try (see (watched w) f) k) s l"
  by (auto simp: logs_within_def see_try split: sum.split)

lemma within_lift: "prefix l full \<Longrightarrow> logs_within full (step_lift r) s l"
  by (simp add: logs_within_def step_lift_def)

lemma within_call:
  assumes "prefix (l @ [e]) full" and "\<And>a s'. m s = (Inr a, s') \<Longrightarrow> logs_within full (k a) s' (l @ [e])"
  shows "logs_within full (step_try (noted_step e m) k) s l"
proof -
  have "prefix l full" using assms(1) by (metis append_prefixD)
  then show ?thesis
    using assms by (cases "m s"; cases "fst (m s)") (auto simp: logs_within_def step_try_def noted_step_apply)
qed

lemma within_fetch:
  assumes "prefix (l @ [Fetched d (fetch_command remote line) VALIDATION_OUTPUT_LIMITS]) full"
    and "\<And>s'. logs_within full (k ()) s' (l @ [Fetched d (fetch_command remote line) VALIDATION_OUTPUT_LIMITS])"
  shows "logs_within full (step_try (fetch (watched w) d remote line) k) s l"
proof -
  obtain r s' where "fetch (watched w) d remote line (s, l) =
      (r, (s', l @ [Fetched d (fetch_command remote line) VALIDATION_OUTPUT_LIMITS]))"
    using fetch_watched [of w d remote line s l] by blast
  moreover have "prefix l full" using assms(1) by (metis append_prefixD)
  ultimately show ?thesis
    using assms by (cases r) (auto simp: logs_within_def step_try_def)
qed

lemma within_cases:
  "(\<And>a b. p = (a, b) \<Longrightarrow> logs_within full (g a b) s l) \<Longrightarrow> logs_within full (case p of (a, b) \<Rightarrow> g a b) s l"
  "logs_within full m s l \<Longrightarrow> logs_within full m' s l \<Longrightarrow> logs_within full (if c then m else m') s l"
  by (auto split: prod.split)

text \<open>
  Whatever the world answers, a rebind makes one scratch directory, initialises it, and fetches into
  it, twice, with the one command for its line; it stops where one fails.
\<close>

lemma rebind_logs:
  assumes "check_checkouts (rb_view w s) root repository reference source_root source_sha version = Inr (line, policy)"
    and "\<And>d s0. rb_tempdir w s = (Inr d, s0) \<Longrightarrow> scratch = d"
  shows "logs_within (rebind_log scratch line)
    (rebind_source (watched w) root repository reference operation source_root source_sha version) s []"
  unfolding rebind_source_def watched_simps
  by (intro within_see within_cases within_call within_fetch within_lift) (use assms in \<open>simp_all add: rebind_log_def\<close>)

lemma rebind_log_anonymous:
  assumes "prefix l (rebind_log scratch line)"
  shows "list_all (anonymous scratch line) l"
proof -
  have "list_all (anonymous scratch line) (rebind_log scratch line)"
    using fetch_is_anonymous fetch_refs by (simp add: rebind_log_def) (simp add: fetch_command_def)
  then show ?thesis using assms by (auto simp: prefix_def)
qed

section \<open>The rebind\<close>

lemma noted_Inr: "noted_step e m (s, l) = (Inr a, t) \<longleftrightarrow> (\<exists>s'. m s = (Inr a, s') \<and> t = (s', l @ [e]))"
  by (cases "m s") (auto simp: noted_step_apply)

lemma fetched_watched: "fetched (watched w) d line (s, l) t \<longleftrightarrow>
    (\<exists>s'. fetched w d line s s' \<and> t = (s', l @ [Fetched d (fetch_command FETCH_REMOTE line) VALIDATION_OUTPUT_LIMITS]))"
  by (simp add: fetched_def noted_Inr)

text \<open>The source is bound to the history as it is fetched into a new repository, and stays so when it is fetched again.\<close>

definition bound ::
    "('s, 'x, 'y) rebind_ext_scheme \<Rightarrow> string \<Rightarrow> release_line \<Rightarrow> string \<Rightarrow> string \<Rightarrow> provenance_operation \<Rightarrow> 's \<Rightarrow> 's \<Rightarrow> bool" where
  "bound w scratch line policy source_sha operation s s' \<longleftrightarrow>
     (\<exists>main base i s0 s1 s2.
        rb_tempdir w s = (Inr scratch, s0) \<and> rb_init w scratch s0 = (Inr i, s1) \<and>
        fetched w scratch line s1 s2 \<and> tips (rb_view w s2) scratch line main base \<and>
        git (rb_view w s2) policy [''rev-parse'', ''HEAD''] = Inr main \<and>
        on_history (rb_view w s2) scratch main base source_sha line operation \<and>
        fetched w scratch line s2 s' \<and> tips (rb_view w s') scratch line main base)"

lemma rebind_is_bound:
  assumes "check_checkouts (rb_view w s) root repository reference source_root source_sha version = Inr (line, policy)"
    and "rebind_source (watched w) root repository reference operation source_root source_sha version (s, []) = (Inr u, (s', log))"
  shows "\<exists>scratch. log = rebind_log scratch line \<and> bound w scratch line policy source_sha operation s s'"
proof -
  obtain scratch main base binding i s0 s1 s2 where
    d: "rb_tempdir w s = (Inr scratch, s0)" "rb_init w scratch s0 = (Inr i, s1)"
      "fetched w scratch line s1 s2" "tips (rb_view w s2) scratch line main base"
      "git (rb_view w s2) policy [''rev-parse'', ''HEAD''] = Inr main"
      "binding_load (rb_view w s2) scratch main source_sha line operation = Inr binding"
      "verify_git (rb_view w s2) binding scratch base = Inr ()"
      "fetched w scratch line s2 s'" "tips (rb_view w s') scratch line main base" "log = rebind_log scratch line"
    using assms
    by (auto simp: rebind_source_def step_try_Inr see_Inr fetch_Inr step_lift_apply tips_tracking noted_Inr
        fetched_watched rebind_log_def split: if_splits prod.splits)
  have "on_history (rb_view w s2) scratch main base source_sha line operation"
    by (rule binding_on_history [OF d(6,7,4)])
  then have "bound w scratch line policy source_sha operation s s'"
    unfolding bound_def using d by blast
  then show ?thesis using d(10) by blast
qed

text \<open>
  C27: a rebind binds a source to the current protected history. A run that is not for the
  project's repository, or finds the two checkouts not as they must be, runs nothing and changes
  nothing. Every other run found two clean checkouts, each the root of its repository and neither
  inside the other, under the exact release policy, of which the second has the qualified commit
  and a version of the line that was named; and it does no more than make a scratch repository and
  fetch main and that line of the project into it, twice, with a command that carries no
  credential, stopping where one fails. When it reports success, the policy that ran was the tip of
  main as it was fetched; the source was on the history of its line, at its tip when it is released
  for the first time, and on a support line it carried the recorded policy of the line; and when
  the history was fetched again, neither tip had moved.
\<close>

theorem rebind_binds_current_main:
  "case rebind_source (watched w) root repository reference operation source_root source_sha version (s, []) of
     (r, (s', log)) \<Rightarrow>
       (log = [] \<and> s' = s \<and> \<not> is_ok r) \<or>
       (\<exists>p q line scratch.
          in_project (rb_view w s) repository \<and> separate_checkouts (rb_view w s) root source_root p q \<and>
          source_of_line (rb_view w s) root source_root reference line version \<and>
          length source_sha = 40 \<and> list_all lower_hex source_sha \<and>
          git (rb_view w s) (path_text q) [''rev-parse'', ''HEAD''] = Inr source_sha \<and>
          prefix log (rebind_log scratch line) \<and> list_all (anonymous scratch line) log \<and>
          (case r of
             Inl _ \<Rightarrow> True
           | Inr _ \<Rightarrow> log = rebind_log scratch line \<and> bound w scratch line (path_text p) source_sha operation s s'))"
proof -
  let ?m = "rebind_source (watched w) root repository reference operation source_root source_sha version"
  let ?checks = "check_checkouts (rb_view w s) root repository reference source_root source_sha version"
  obtain r s' log where run: "?m (s, []) = (r, (s', log))" by (metis prod_cases3)
  show ?thesis
  proof (cases ?checks)
    case (Inl e)
    then have "?m (s, []) = (Inl e, (s, []))" by (simp add: rebind_source_def see_try)
    then show ?thesis by simp
  next
    case (Inr found)
    then obtain line policy where checks: "?checks = Inr (line, policy)" by (cases found) simp
    then obtain p q where found: "in_project (rb_view w s) repository" "policy = path_text p" "separate_checkouts (rb_view w s) root source_root p q"
        "source_of_line (rb_view w s) root source_root reference line version" "length source_sha = 40"
        "list_all lower_hex source_sha" "git (rb_view w s) (path_text q) [''rev-parse'', ''HEAD''] = Inr source_sha"
      using check_checkouts_done [OF checks] by blast
    define scratch where "scratch = (case rb_tempdir w s of (Inr d, _) \<Rightarrow> d | _ \<Rightarrow> [])"
    have log: "prefix log (rebind_log scratch line)"
      using rebind_logs [OF checks, of scratch operation] run by (simp add: scratch_def logs_within_def)
    have "log = rebind_log scratch line \<and> bound w scratch line policy source_sha operation s s'" if ok: "r = Inr u" for u
    proof -
      obtain d where d: "log = rebind_log d line" "bound w d line policy source_sha operation s s'"
        using rebind_is_bound [OF checks, of operation u s' log] run ok by blast
      then have "scratch = d" by (auto simp: bound_def scratch_def)
      then show ?thesis using d by simp
    qed
    then show ?thesis
      unfolding run using found log rebind_log_anonymous [OF log] by (cases r) auto
  qed
qed

end
