(* ===== verification/Spec_Update.thy ===== *)
theory Spec_Update
  imports Release_Commands "HOL-Library.Sublist"
begin

text \<open>
  Refreshing the local copies of the specification: \<open>xtask/src/spec_update.rs\<close>. The file system and
  Git are parameters over a state; a path is the list of its components. Copying a tree follows what
  the file system lists, and is a partial function with the value None when that has no end.
  Progress messages are left out.
\<close>

section \<open>The file system\<close>

type_synonym file_path = "string list"

text \<open>What looking at a path without following a link gives.\<close>

datatype entry = Absent | Unreadable | Link | Plain_File | Folder | Device

record 's spec_world =
  sw_entry :: "file_path \<Rightarrow> 's \<Rightarrow> entry"
  sw_exists :: "file_path \<Rightarrow> 's \<Rightarrow> bool"
  sw_is_dir :: "file_path \<Rightarrow> 's \<Rightarrow> bool"
  sw_canonical :: "file_path \<Rightarrow> 's \<Rightarrow> release_error + file_path"
  sw_entries :: "file_path \<Rightarrow> 's \<Rightarrow> release_error + (release_error + string) list"
  sw_rev_parse :: "file_path \<Rightarrow> string list \<Rightarrow> 's \<Rightarrow> release_error + bool \<times> string"
  sw_create_dirs :: "file_path \<Rightarrow> 's \<Rightarrow> (release_error + unit) \<times> 's"
  sw_copy :: "file_path \<Rightarrow> file_path \<Rightarrow> 's \<Rightarrow> (release_error + unit) \<times> 's"
  sw_remove_tree :: "file_path \<Rightarrow> 's \<Rightarrow> (release_error + unit) \<times> 's"
  sw_git :: "file_path option \<Rightarrow> string list \<Rightarrow> 's \<Rightarrow> (release_error + bool) \<times> 's"

definition observe :: "('s \<Rightarrow> release_error + 'a) \<Rightarrow> ('s, 'a) step" where
  "observe f s = (f s, s)"

definition below :: "file_path \<Rightarrow> string \<Rightarrow> file_path" where
  "below root relative = root @ split_on (CHR ''/'') relative"

definition parent_of :: "file_path \<Rightarrow> release_error + file_path" where
  "parent_of path = (if path = [] then Inl (Msg ''derive parent'') else Inr (butlast path))"

section \<open>What is imported\<close>

definition DEFAULT_SPEC_REF :: string where "DEFAULT_SPEC_REF = ''origin/main''"
definition SPEC_REPOSITORY :: string where "SPEC_REPOSITORY = ''https://github.com/NVIDIA/yaml-sigil-spec.git''"
definition CHECKOUT_DIR :: string where "CHECKOUT_DIR = ''target/spec-update/yaml-sigil-spec''"
definition SOURCE_PROTO :: string where "SOURCE_PROTO = ''proto/yaml_sigil/v1alpha1/yaml_sigil.proto''"
definition DEST_PROTO :: string where
  "DEST_PROTO = ''crates/yaml-sigil-core/spec/proto/yaml_sigil/v1alpha1/yaml_sigil.proto''"
definition SOURCE_SCHEMA :: string where "SOURCE_SCHEMA = ''schema/YamlSigilSignature.v1alpha1.schema.json''"
definition DEST_SCHEMA :: string where
  "DEST_SCHEMA = ''crates/yaml-sigil-core/spec/schema/YamlSigilSignature.v1alpha1.schema.json''"
definition SOURCE_THIRD_PARTY_NOTICES :: string where "SOURCE_THIRD_PARTY_NOTICES = ''THIRD_PARTY_NOTICES.md''"
definition DEST_THIRD_PARTY_NOTICES :: string where "DEST_THIRD_PARTY_NOTICES = ''THIRD_PARTY_NOTICES.md''"
definition DEST_CONFORMANCE_THIRD_PARTY_NOTICES :: string where
  "DEST_CONFORMANCE_THIRD_PARTY_NOTICES = ''crates/yaml-sigil-conformance/THIRD_PARTY_NOTICES.md''"
definition FIXTURES_DIR :: string where "FIXTURES_DIR = ''crates/yaml-sigil-conformance/fixtures''"

definition FIXTURE_DIRS :: "string list" where
  "FIXTURE_DIRS = [''alg-ecdsa'', ''alg-ed25519'', ''base64'', ''key-id'', ''protobuf-conformance'',
     ''schema-alignment'', ''transcoding'', ''verification-runtime'', ''yaml-decomposition'',
     ''yaml-signature-conformance'']"

section \<open>Guards\<close>

fun check_components ::
    "('s, 'z) spec_world_scheme \<Rightarrow> file_path \<Rightarrow> file_path \<Rightarrow> file_path \<Rightarrow> 's \<Rightarrow> release_error + unit" where
  "check_components w canonical_root now [] s = Inr ()"
| "check_components w canonical_root now (component # components) s =
     (if component = ''..'' then Inl (Msg ''destination is not a normalized path'')
      else
        let next = now @ [component] in
        case sw_entry w next s of
          Absent \<Rightarrow> Inr ()
        | Unreadable \<Rightarrow> Inl (Msg ''stat {}'')
        | Link \<Rightarrow> Inl (Msg ''refusing to modify symlinked destination component {}'')
        | _ \<Rightarrow>
            result_try (map_err (\<lambda>_. Msg ''resolve destination {}'') (sw_canonical w next s)) (\<lambda>canonical.
            if \<not> prefix canonical_root canonical
            then Inl (Msg ''refusing to modify {} resolved outside destination root {}'')
            else check_components w canonical_root next components s))"

definition checked_destination ::
    "('s, 'z) spec_world_scheme \<Rightarrow> file_path \<Rightarrow> file_path \<Rightarrow> 's \<Rightarrow> release_error + unit" where
  "checked_destination w root dest s =
     result_try (map_err (\<lambda>_. Msg ''resolve destination root {}'') (sw_canonical w root s)) (\<lambda>canonical_root.
     result_try (ok_or (strip_prefix root dest) (Msg ''destination {} is outside root {}'')) (\<lambda>relative.
     check_components w canonical_root canonical_root relative s))"

definition checked_source_metadata ::
    "('s, 'z) spec_world_scheme \<Rightarrow> file_path \<Rightarrow> file_path \<Rightarrow> 's \<Rightarrow> release_error + entry" where
  "checked_source_metadata w source_root source s =
     (let found = sw_entry w source s in
      if found \<in> {Absent, Unreadable} then Inl (Msg ''stat {}'')
      else if found = Link then Inl (Msg ''refusing to copy symlink {}'')
      else
        result_try (map_err (\<lambda>_. Msg ''resolve source root {}'') (sw_canonical w source_root s)) (\<lambda>canonical_root.
        result_try (map_err (\<lambda>_. Msg ''resolve source {}'') (sw_canonical w source s)) (\<lambda>canonical_source.
        if \<not> prefix canonical_root canonical_source
        then Inl (Msg ''refusing to copy {} resolved outside source root {}'')
        else Inr found)))"

section \<open>Copying\<close>

definition copy_into :: "('s, 'z) spec_world_scheme \<Rightarrow> file_path \<Rightarrow> file_path \<Rightarrow> ('s, unit) step" where
  "copy_into w source dest =
     step_try (step_lift (parent_of dest)) (\<lambda>parent.
     step_try (sw_create_dirs w parent) (\<lambda>_. sw_copy w source dest))"

definition copy_file ::
    "('s, 'z) spec_world_scheme \<Rightarrow> file_path \<Rightarrow> string \<Rightarrow> file_path \<Rightarrow> string \<Rightarrow> ('s, unit) step" where
  "copy_file w source_root source_rel dest_root dest_rel =
     step_try (observe (checked_source_metadata w source_root (below source_root source_rel))) (\<lambda>found.
     if found \<noteq> Plain_File then step_lift (Inl (Msg ''source is not a regular file: {}''))
     else
       step_try (observe (checked_destination w dest_root (below dest_root dest_rel))) (\<lambda>_.
       copy_into w (below source_root source_rel) (below dest_root dest_rel)))"

text \<open>
  One entry of a tree: a file is copied; a directory is made, and its entries are what is left to
  copy, each with its own destination.
\<close>

definition copy_entry ::
    "('s, 'z) spec_world_scheme \<Rightarrow> file_path \<Rightarrow> file_path \<Rightarrow> file_path \<Rightarrow> file_path
       \<Rightarrow> ('s, (release_error + file_path \<times> file_path) list) step" where
  "copy_entry w source_root dest_root source dest =
     step_try (observe (checked_destination w dest_root dest)) (\<lambda>_.
     step_try (observe (checked_source_metadata w source_root source)) (\<lambda>found.
     if found = Plain_File then step_try (copy_into w source dest) (\<lambda>_. step_lift (Inr []))
     else if found \<noteq> Folder then step_lift (Inl (Msg ''unsupported fixture path type at {}''))
     else
       step_try (sw_create_dirs w dest) (\<lambda>_.
       step_try (observe (sw_entries w source)) (\<lambda>entries.
       step_lift (Inr (map (result_map (\<lambda>name. (source @ [name], dest @ [name])))
         (filter (\<lambda>entry. entry \<noteq> Inr ''README.md'') entries)))))))"

partial_function (option) copy_trees ::
    "('s, 'z) spec_world_scheme \<Rightarrow> file_path \<Rightarrow> file_path \<Rightarrow> (release_error + file_path \<times> file_path) list \<Rightarrow> 's
       \<Rightarrow> ((release_error + unit) \<times> 's) option" where
  "copy_trees w source_root dest_root items s =
     (case items of
        [] \<Rightarrow> Some (Inr (), s)
      | Inl e # rest \<Rightarrow> Some (Inl e, s)
      | Inr (source, dest) # rest \<Rightarrow>
          (case copy_entry w source_root dest_root source dest s of
             (Inl e, s1) \<Rightarrow> Some (Inl e, s1)
           | (Inr children, s1) \<Rightarrow>
               Option.bind (copy_trees w source_root dest_root children s1) (\<lambda>(result, s2).
               case result of
                 Inl e \<Rightarrow> Some (Inl e, s2)
               | Inr _ \<Rightarrow> copy_trees w source_root dest_root rest s2)))"

definition copy_tree ::
    "('s, 'z) spec_world_scheme \<Rightarrow> file_path \<Rightarrow> file_path \<Rightarrow> file_path \<Rightarrow> file_path \<Rightarrow> 's
       \<Rightarrow> ((release_error + unit) \<times> 's) option" where
  "copy_tree w source_root source dest_root dest = copy_trees w source_root dest_root [Inr (source, dest)]"

text \<open>The fixtures of a list of directories, one after the other.\<close>

definition pursue ::
    "(release_error + 'a) \<times> 's \<Rightarrow> ('a \<Rightarrow> 's \<Rightarrow> ((release_error + 'b) \<times> 's) option) \<Rightarrow> ((release_error + 'b) \<times> 's) option" where
  "pursue outcome k = (case outcome of (Inl e, s) \<Rightarrow> Some (Inl e, s) | (Inr a, s) \<Rightarrow> k a s)"

fun copy_fixtures ::
    "('s, 'z) spec_world_scheme \<Rightarrow> file_path \<Rightarrow> file_path \<Rightarrow> string list \<Rightarrow> 's \<Rightarrow> ((release_error + unit) \<times> 's) option" where
  "copy_fixtures w checkout root [] s = Some (Inr (), s)"
| "copy_fixtures w checkout root (fixture_dir # fixture_dirs) s =
     Option.bind (copy_tree w checkout (checkout @ [''conformance'', fixture_dir]) root
         (below root FIXTURES_DIR @ [fixture_dir]) s) (\<lambda>outcome.
     pursue outcome (\<lambda>_. copy_fixtures w checkout root fixture_dirs))"

definition clear_fixtures :: "('s, 'z) spec_world_scheme \<Rightarrow> file_path \<Rightarrow> ('s, unit) step" where
  "clear_fixtures w root =
     (let dest = below root FIXTURES_DIR in
      step_try (observe (checked_destination w root dest)) (\<lambda>_.
      step_try (\<lambda>s. if sw_exists w dest s then sw_remove_tree w dest s else (Inr (), s)) (\<lambda>_.
      sw_create_dirs w dest)))"

definition mirror_fixtures ::
    "('s, 'z) spec_world_scheme \<Rightarrow> file_path \<Rightarrow> file_path \<Rightarrow> 's \<Rightarrow> ((release_error + unit) \<times> 's) option" where
  "mirror_fixtures w checkout root s =
     pursue (clear_fixtures w root s) (\<lambda>_. copy_fixtures w checkout root FIXTURE_DIRS)"

definition import_files :: "('s, 'z) spec_world_scheme \<Rightarrow> file_path \<Rightarrow> file_path \<Rightarrow> ('s, unit) step" where
  "import_files w root checkout =
     step_try (copy_file w checkout SOURCE_PROTO root DEST_PROTO) (\<lambda>_.
     step_try (copy_file w checkout SOURCE_SCHEMA root DEST_SCHEMA) (\<lambda>_.
     step_try (copy_file w checkout SOURCE_THIRD_PARTY_NOTICES root DEST_THIRD_PARTY_NOTICES) (\<lambda>_.
     copy_file w checkout SOURCE_THIRD_PARTY_NOTICES root DEST_CONFORMANCE_THIRD_PARTY_NOTICES)))"

definition import_spec_artifacts ::
    "('s, 'z) spec_world_scheme \<Rightarrow> file_path \<Rightarrow> file_path \<Rightarrow> 's \<Rightarrow> ((release_error + unit) \<times> 's) option" where
  "import_spec_artifacts w root checkout s =
     pursue (import_files w root checkout s) (\<lambda>_. mirror_fixtures w checkout root)"

section \<open>The checkout of the specification\<close>

definition require_success :: "release_error \<Rightarrow> ('s, bool) step \<Rightarrow> ('s, unit) step" where
  "require_success failure m =
     step_try m (\<lambda>success. if success then step_lift (Inr ()) else step_lift (Inl failure))"

definition ensure_spec_checkout :: "('s, 'z) spec_world_scheme \<Rightarrow> file_path \<Rightarrow> ('s, unit) step" where
  "ensure_spec_checkout w checkout =
     step_try (\<lambda>s.
       if sw_is_dir w (checkout @ [''.git'']) s
       then require_success (Msg ''set yaml-sigil-spec origin URL'')
         (sw_git w (Some checkout) [''remote'', ''set-url'', ''origin'', SPEC_REPOSITORY]) s
       else if sw_exists w checkout s
       then (Inl (Msg ''{} exists but is not a git checkout; remove it or choose a clean target''), s)
       else
         step_try (step_lift (parent_of checkout)) (\<lambda>parent.
         step_try (sw_create_dirs w parent) (\<lambda>_.
         require_success (Msg ''clone yaml-sigil-spec'')
           (sw_git w None [''clone'', ''--no-checkout'', SPEC_REPOSITORY, concat (map (\<lambda>c. ''/'' @ c) checkout)]))) s)
     (\<lambda>_.
     require_success (Msg ''fetch yaml-sigil-spec origin'')
       (sw_git w (Some checkout) [''fetch'', ''origin'', ''--prune'']))"

text \<open>\<open>str::trim\<close> of a text whose whitespace is ASCII.\<close>

definition trim_spaces :: "string \<Rightarrow> string" where
  "trim_spaces s =
     (let space = (\<lambda>c. (of_char c :: nat) = 32 \<or> 9 \<le> (of_char c :: nat) \<and> (of_char c :: nat) \<le> 13) in
      rev (dropWhile space (rev (dropWhile space s))))"

definition rev_parse_commit ::
    "('s, 'z) spec_world_scheme \<Rightarrow> file_path \<Rightarrow> string \<Rightarrow> 's \<Rightarrow> release_error + string option" where
  "rev_parse_commit w checkout candidate s =
     result_try (map_err (\<lambda>_. Fmt ''resolve yaml-sigil-spec ref `{candidate}`'' [candidate])
         (sw_rev_parse w checkout [''rev-parse'', ''--verify'', ''--quiet'', candidate @ ''^{commit}''] s))
       (\<lambda>(success, stdout).
     if \<not> success then Inr None
     else if \<not> utf8_valid (map of_char stdout)
     then Inl (Fmt ''parse commit for yaml-sigil-spec ref `{candidate}`'' [candidate])
     else if trim_spaces stdout = [] then Inl (Fmt ''git resolved `{candidate}` to an empty commit'' [candidate])
     else Inr (Some (trim_spaces stdout)))"

fun first_commit ::
    "('s, 'z) spec_world_scheme \<Rightarrow> file_path \<Rightarrow> string \<Rightarrow> string list \<Rightarrow> 's \<Rightarrow> release_error + string" where
  "first_commit w checkout spec_ref [] s = Inl (Fmt ''could not resolve yaml-sigil-spec ref `{spec_ref}`'' [spec_ref])"
| "first_commit w checkout spec_ref (candidate # candidates) s =
     result_try (rev_parse_commit w checkout candidate s) (\<lambda>found.
     case found of
       Some commit \<Rightarrow> Inr commit
     | None \<Rightarrow> first_commit w checkout spec_ref candidates s)"

definition resolve_spec_ref ::
    "('s, 'z) spec_world_scheme \<Rightarrow> file_path \<Rightarrow> string \<Rightarrow> 's \<Rightarrow> release_error + string" where
  "resolve_spec_ref w checkout spec_ref =
     first_commit w checkout spec_ref
       (remdups_adj (spec_ref #
         (if \<not> starts_with spec_ref ''origin/'' \<and> \<not> starts_with spec_ref ''refs/'' then [''origin/'' @ spec_ref] else [])))"

definition update_spec ::
    "('s, 'z) spec_world_scheme \<Rightarrow> file_path \<Rightarrow> string \<Rightarrow> 's \<Rightarrow> ((release_error + unit) \<times> 's) option" where
  "update_spec w root spec_ref s =
     (let checkout = below root CHECKOUT_DIR in
      pursue
        (step_try (ensure_spec_checkout w checkout) (\<lambda>_.
         step_try (observe (resolve_spec_ref w checkout spec_ref)) (\<lambda>commit.
         require_success (Fmt ''checkout yaml-sigil-spec ref `{spec_ref}`'' [spec_ref])
           (sw_git w (Some checkout) [''checkout'', ''--detach'', commit]))) s)
        (\<lambda>_. import_spec_artifacts w root checkout))"

end
