(* ===== verification/Spec_Update_Facts.thy ===== *)
theory Spec_Update_Facts
  imports Spec_Update Release_Command_Facts
begin

text \<open>
  What a refresh of the specification may touch, and what its guards refuse.
\<close>

section \<open>Guards\<close>

lemma strip_root_append [simp]: "strip_prefix p (p @ q) = Some q"
  by (induction p) auto

text \<open>
  A destination that passes has no link on the way that exists: every component, up to the first
  that is absent, is no link and resolves inside the root.
\<close>

fun clear_way :: "('s, 'z) spec_world_scheme \<Rightarrow> file_path \<Rightarrow> file_path \<Rightarrow> file_path \<Rightarrow> 's \<Rightarrow> bool" where
  "clear_way w canonical_root now [] s \<longleftrightarrow> True"
| "clear_way w canonical_root now (c # cs) s \<longleftrightarrow> c \<noteq> ''..'' \<and>
     (sw_entry w (now @ [c]) s = Absent \<or>
      sw_entry w (now @ [c]) s \<in> {Plain_File, Folder, Device} \<and>
      (\<exists>canonical. sw_canonical w (now @ [c]) s = Inr canonical \<and> prefix canonical_root canonical) \<and>
      clear_way w canonical_root (now @ [c]) cs s)"

lemma check_components_iff: "check_components w canonical_root now cs s = Inr () \<longleftrightarrow> clear_way w canonical_root now cs s"
proof (induction cs arbitrary: now)
  case (Cons c cs)
  then show ?case
    by (cases "sw_entry w (now @ [c]) s"; cases "sw_canonical w (now @ [c]) s") (auto simp: Let_def)
qed simp

definition open_destination :: "('s, 'z) spec_world_scheme \<Rightarrow> file_path \<Rightarrow> file_path \<Rightarrow> 's \<Rightarrow> bool" where
  "open_destination w root dest s \<longleftrightarrow>
     (\<exists>canonical_root relative. sw_canonical w root s = Inr canonical_root \<and> strip_prefix root dest = Some relative \<and>
        clear_way w canonical_root canonical_root relative s)"

lemma checked_destination_iff: "checked_destination w root dest s = Inr () \<longleftrightarrow> open_destination w root dest s"
  by (auto simp: checked_destination_def open_destination_def check_components_iff result_simps)

definition inside_source :: "('s, 'z) spec_world_scheme \<Rightarrow> file_path \<Rightarrow> file_path \<Rightarrow> 's \<Rightarrow> bool" where
  "inside_source w source_root source s \<longleftrightarrow>
     (\<exists>r p. sw_canonical w source_root s = Inr r \<and> sw_canonical w source s = Inr p \<and> prefix r p)"

lemma checked_source_iff:
  "checked_source_metadata w source_root source s = Inr found \<longleftrightarrow>
     found = sw_entry w source s \<and> found \<notin> {Absent, Unreadable, Link} \<and> inside_source w source_root source s"
  by (auto simp: checked_source_metadata_def inside_source_def Let_def result_simps split: if_splits)

text \<open>
  A file is copied only when it is a regular file inside the source, and the way to its destination
  is clear; otherwise nothing is changed.
\<close>

lemma copy_file_guarded:
  "copy_file w source_root source_rel dest_root dest_rel s =
     (if sw_entry w (below source_root source_rel) s = Plain_File \<and>
         inside_source w source_root (below source_root source_rel) s \<and>
         open_destination w dest_root (below dest_root dest_rel) s
      then copy_into w (below source_root source_rel) (below dest_root dest_rel) s
      else (Inl (case copy_file w source_root source_rel dest_root dest_rel s of (Inl e, _) \<Rightarrow> e | _ \<Rightarrow> Msg []), s))"
proof (cases "checked_source_metadata w source_root (below source_root source_rel) s")
  case (Inl e)
  then have "\<not> (sw_entry w (below source_root source_rel) s = Plain_File \<and>
      inside_source w source_root (below source_root source_rel) s)"
    using checked_source_iff [of w source_root "below source_root source_rel" s Plain_File] by auto
  then show ?thesis using Inl by (auto simp: copy_file_def step_try_def observe_def)
next
  case (Inr found)
  note source = this [unfolded checked_source_iff]
  show ?thesis
  proof (cases "checked_destination w dest_root (below dest_root dest_rel) s")
    case (Inl e)
    then have "\<not> open_destination w dest_root (below dest_root dest_rel) s"
      using checked_destination_iff [of w dest_root "below dest_root dest_rel" s] by auto
    then show ?thesis using Inl Inr by (auto simp: copy_file_def step_try_def observe_def step_lift_def)
  next
    case ok: (Inr u)
    then have "open_destination w dest_root (below dest_root dest_rel) s"
      using checked_destination_iff [of w dest_root "below dest_root dest_rel" s] by auto
    then show ?thesis using ok Inr source by (auto simp: copy_file_def step_try_def observe_def step_lift_def)
  qed
qed

section \<open>What is touched\<close>

datatype import_event = Made file_path | Copied file_path file_path | Cleared file_path | Git "file_path option" "string list"

definition noted_world :: "'s spec_world \<Rightarrow> ('s \<times> import_event list) spec_world" where
  "noted_world w =
     \<lparr>sw_entry = (\<lambda>p (s, l). sw_entry w p s), sw_exists = (\<lambda>p (s, l). sw_exists w p s),
      sw_is_dir = (\<lambda>p (s, l). sw_is_dir w p s), sw_canonical = (\<lambda>p (s, l). sw_canonical w p s),
      sw_entries = (\<lambda>p (s, l). sw_entries w p s), sw_rev_parse = (\<lambda>p args (s, l). sw_rev_parse w p args s),
      sw_create_dirs = (\<lambda>p. noted_step (Made p) (sw_create_dirs w p)),
      sw_copy = (\<lambda>p q. noted_step (Copied p q) (sw_copy w p q)),
      sw_remove_tree = (\<lambda>p. noted_step (Cleared p) (sw_remove_tree w p)),
      sw_git = (\<lambda>d args. noted_step (Git d args) (sw_git w d args))\<rparr>"

lemma noted_world_simps [simp]:
  "sw_create_dirs (noted_world w) p = noted_step (Made p) (sw_create_dirs w p)"
  "sw_copy (noted_world w) p q = noted_step (Copied p q) (sw_copy w p q)"
  "sw_remove_tree (noted_world w) p = noted_step (Cleared p) (sw_remove_tree w p)"
  "sw_git (noted_world w) d args = noted_step (Git d args) (sw_git w d args)"
  by (simp_all add: noted_world_def)

text \<open>The imported files, and the directory of the fixtures with all below it.\<close>

definition imported :: "file_path \<Rightarrow> file_path \<Rightarrow> bool" where
  "imported root path \<longleftrightarrow>
     path \<in> below root ` {DEST_PROTO, DEST_SCHEMA, DEST_THIRD_PARTY_NOTICES, DEST_CONFORMANCE_THIRD_PARTY_NOTICES} \<or>
     prefix (below root FIXTURES_DIR) path"

fun import_effect :: "file_path \<Rightarrow> import_event \<Rightarrow> bool" where
  "import_effect root (Made path) \<longleftrightarrow>
     imported root path \<or> (\<exists>name. imported root (path @ [name])) \<or> path = butlast (below root CHECKOUT_DIR)"
| "import_effect root (Copied source dest) \<longleftrightarrow> prefix (below root CHECKOUT_DIR) source \<and> imported root dest"
| "import_effect root (Cleared path) \<longleftrightarrow> path = below root FIXTURES_DIR"
| "import_effect root (Git directory args) \<longleftrightarrow>
     directory = Some (below root CHECKOUT_DIR) \<or> directory = None \<and> hd args = ''clone''"

lemma effects_observe [effect_rules]: "effects P (observe f)"
  by (simp add: effects_def observe_def)

lemma effects_observe_try:
  "(\<And>a s. f s = Inr a \<Longrightarrow> effects P (k a)) \<Longrightarrow> effects P (step_try (observe f) k)"
  by (auto simp: effects_def step_try_def observe_def split: sum.split)

lemma effects_lift_try:
  "(\<And>a. r = Inr a \<Longrightarrow> effects P (k a)) \<Longrightarrow> effects P (step_try (step_lift r) k)"
  by (cases r) (auto simp: effects_def step_try_def step_lift_def)

lemma effects_copy_into:
  assumes "prefix (below root CHECKOUT_DIR) source" and "imported root dest"
  shows "effects (import_effect root) (copy_into (noted_world w) source dest)"
proof -
  have "import_effect root (Made parent)" if "parent_of dest = Inr parent" for parent
  proof -
    have "parent @ [last dest] = dest" using that by (auto simp: parent_of_def split: if_splits)
    then have "imported root (parent @ [last dest])" using assms(2) by simp
    then show ?thesis by auto
  qed
  then show ?thesis
    unfolding copy_into_def noted_world_simps
    using assms by (intro effects_lift_try effect_rules effects_event) auto
qed

lemma effects_copy_file:
  assumes "imported root (below root dest_rel)"
  shows "effects (import_effect root) (copy_file (noted_world w) (below root CHECKOUT_DIR) source_rel root dest_rel)"
  unfolding copy_file_def
  using assms by (intro effect_rules effects_copy_into) (simp_all add: below_def)

lemma effects_import_files:
  "effects (import_effect root) (import_files (noted_world w) root (below root CHECKOUT_DIR))"
  unfolding import_files_def by (intro effect_rules effects_copy_file) (simp_all add: imported_def)

lemma effects_clear: "effects (import_effect root) (clear_fixtures (noted_world w) root)"
proof -
  have "effects (import_effect root) (\<lambda>s. if sw_exists (noted_world w) dest s then noted_step (Cleared dest) (sw_remove_tree w dest) s
      else (Inr (), s))" if "dest = below root FIXTURES_DIR" for dest
    using that effects_event [of "import_effect root" "Cleared dest" "sw_remove_tree w dest"] by (auto simp: effects_def)
  then show ?thesis
    unfolding clear_fixtures_def Let_def noted_world_simps
    by (intro effect_rules effects_event) (auto simp: imported_def)
qed

section \<open>Copying a tree\<close>

text \<open>The items of a copy have their sources in the checkout and their destinations among the fixtures.\<close>

definition fixture_item :: "file_path \<Rightarrow> release_error + file_path \<times> file_path \<Rightarrow> bool" where
  "fixture_item root item \<longleftrightarrow>
     (case item of
        Inl _ \<Rightarrow> True
      | Inr (source, dest) \<Rightarrow> prefix (below root CHECKOUT_DIR) source \<and> prefix (below root FIXTURES_DIR) dest)"

lemma fixture_item_child:
  "fixture_item root (Inr (source, dest)) \<Longrightarrow>
     fixture_item root (result_map (\<lambda>name. (source @ [name], dest @ [name])) entry)"
  by (cases entry) (auto simp: fixture_item_def)

lemma copy_entry_children:
  assumes "copy_entry w source_root dest_root source dest s = (Inr children, s')" and "fixture_item root (Inr (source, dest))"
  shows "list_all (fixture_item root) children"
  using assms(1) fixture_item_child [OF assms(2)]
  by (auto simp: copy_entry_def step_try_Inr step_lift_apply observe_def list_all_iff split: if_splits)

lemma effects_copy_entry:
  assumes "fixture_item root (Inr (source, dest))"
  shows "effects (import_effect root) (copy_entry (noted_world w) (below root CHECKOUT_DIR) root source dest)"
proof -
  have "prefix (below root CHECKOUT_DIR) source" and dest: "imported root dest"
    using assms by (auto simp: fixture_item_def imported_def)
  then show ?thesis
    unfolding copy_entry_def noted_world_simps
    by (intro effect_rules effects_copy_into effects_event) auto
qed

text \<open>Effects of an operation that may not return.\<close>

definition returns_within :: "('e \<Rightarrow> bool) \<Rightarrow> 'e list \<Rightarrow> ((release_error + 'a) \<times> 's \<times> 'e list) option \<Rightarrow> bool" where
  "returns_within P l outcome \<longleftrightarrow>
     (case outcome of None \<Rightarrow> True | Some (r, (s, l')) \<Rightarrow> \<exists>new. l' = l @ new \<and> list_all P new)"

lemma returns_withinD: "returns_within P l (Some (r, (s, l'))) \<Longrightarrow> \<exists>new. l' = l @ new \<and> list_all P new"
  by (simp add: returns_within_def)

lemma returns_within_more:
  assumes "returns_within P (l @ new) outcome" and "list_all P new"
  shows "returns_within P l outcome"
  using assms unfolding returns_within_def by (fastforce split: option.splits)

lemma returns_within_pursue:
  assumes "effects P m" and "\<And>a s' l'. returns_within P l' (k a (s', l'))"
  shows "returns_within P l (pursue (m (s, l)) k)"
proof -
  obtain r s' l' where m: "m (s, l) = (r, (s', l'))" by (metis prod_cases3)
  obtain new where new: "l' = l @ new" "list_all P new" using effectsD [OF assms(1) m] by blast
  show ?thesis
  proof (cases r)
    case (Inl e)
    then show ?thesis using m new by (simp add: pursue_def returns_within_def)
  next
    case (Inr a)
    then show ?thesis
      using m returns_within_more [OF assms(2) [of l' a s', unfolded new(1)] new(2)] new(1) by (simp add: pursue_def)
  qed
qed

lemma returns_within_bind:
  assumes "returns_within P l outcome" and "\<And>a s' l'. returns_within P l' (k a (s', l'))"
  shows "returns_within P l (Option.bind outcome (\<lambda>r. pursue r k))"
proof (cases outcome)
  case (Some p)
  obtain r s' l' where p: "p = (r, (s', l'))" by (metis prod_cases3)
  obtain new where new: "l' = l @ new" "list_all P new" using assms(1) Some p by (auto simp: returns_within_def)
  show ?thesis
    using Some p new returns_within_more [OF assms(2) [of l' _ s', unfolded new(1)] new(2)]
    by (cases r) (auto simp: pursue_def returns_within_def)
qed (simp add: returns_within_def)

lemma copy_trees_step:
  fixes rec :: "('s \<times> import_event list) spec_world \<Rightarrow> file_path \<Rightarrow> file_path \<Rightarrow> (release_error + file_path \<times> file_path) list
      \<Rightarrow> 's \<times> import_event list \<Rightarrow> ((release_error + unit) \<times> 's \<times> import_event list) option"
  assumes ih: "\<And>items s l y. list_all (fixture_item root) items \<Longrightarrow>
      rec (noted_world w) (below root CHECKOUT_DIR) root items (s, l) = Some y \<Longrightarrow>
      returns_within (import_effect root) l (Some y)"
    and "list_all (fixture_item root) items"
    and run: "(case items of
        [] \<Rightarrow> Some (Inr (), (s, l))
      | Inl e # rest \<Rightarrow> Some (Inl e, (s, l))
      | Inr (source, dest) # rest \<Rightarrow>
          (case copy_entry (noted_world w) (below root CHECKOUT_DIR) root source dest (s, l) of
             (Inl e, s1) \<Rightarrow> Some (Inl e, s1)
           | (Inr children, s1) \<Rightarrow>
               Option.bind (rec (noted_world w) (below root CHECKOUT_DIR) root children s1) (\<lambda>(result, s2).
               case result of
                 Inl e \<Rightarrow> Some (Inl e, s2)
               | Inr _ \<Rightarrow> rec (noted_world w) (below root CHECKOUT_DIR) root rest s2))) = Some y"
  shows "returns_within (import_effect root) l (Some y)"
proof (cases items)
  case Nil
  then show ?thesis using run by (auto simp: returns_within_def)
next
  case (Cons item rest)
  have rest: "list_all (fixture_item root) rest" and item: "fixture_item root item" using assms(2) Cons by auto
  show ?thesis
  proof (cases item)
    case (Inl e)
    then show ?thesis using run Cons by (auto simp: returns_within_def)
  next
    case (Inr p)
    obtain source dest where p: "p = (source, dest)" by (cases p)
    let ?entry = "copy_entry (noted_world w) (below root CHECKOUT_DIR) root source dest"
    obtain r s1 l1 where entry: "?entry (s, l) = (r, (s1, l1))" by (metis prod_cases3)
    obtain new where new: "l1 = l @ new" "list_all (import_effect root) new"
      using effectsD [OF effects_copy_entry entry] item Inr p by blast
    show ?thesis
    proof (cases r)
      case (Inl e)
      then show ?thesis using run Cons Inr p entry new by (auto simp: returns_within_def)
    next
      case children: (Inr children)
      obtain q s2 l2 where first: "rec (noted_world w) (below root CHECKOUT_DIR) root children (s1, l1) = Some (q, (s2, l2))"
        and after: "(case q of Inl e \<Rightarrow> Some (Inl e, (s2, l2))
          | Inr _ \<Rightarrow> rec (noted_world w) (below root CHECKOUT_DIR) root rest (s2, l2)) = Some y"
        using run Cons Inr p entry children by (auto simp: bind_eq_Some_conv)
      have "list_all (fixture_item root) children"
        using copy_entry_children [OF entry [unfolded children]] item Inr p by simp
      then have "returns_within (import_effect root) l1 (Some (q, (s2, l2)))" using ih first by blast
      then obtain more where more: "l2 = l1 @ more" "list_all (import_effect root) more" by (auto dest: returns_withinD)
      have "returns_within (import_effect root) l2 (Some y)"
        using after ih [OF rest, of s2 l2 y] by (cases q) (auto simp: returns_within_def)
      then show ?thesis
        using returns_within_more [of "import_effect root" l "new @ more" "Some y"] new more by simp
    qed
  qed
qed

lemma copy_trees_within:
  assumes "list_all (fixture_item root) items"
  shows "returns_within (import_effect root) l (copy_trees (noted_world w) (below root CHECKOUT_DIR) root items (s, l))"
proof (cases "copy_trees (noted_world w) (below root CHECKOUT_DIR) root items (s, l)")
  case (Some y)
  define P where "P v source_root dest_root items t q \<longleftrightarrow>
      (v = noted_world w \<and> source_root = below root CHECKOUT_DIR \<and> dest_root = root \<and> list_all (fixture_item root) items \<longrightarrow>
       returns_within (import_effect root) (snd t) (Some q))"
    for v source_root dest_root items and t :: "'a \<times> import_event list" and q :: "(release_error + unit) \<times> 'a \<times> import_event list"
  have "P (noted_world w) (below root CHECKOUT_DIR) root items (s, l) y"
  proof (rule copy_trees.raw_induct [of P, OF _ Some], goal_cases)
    case (1 rec v source_root dest_root items t q)
    obtain s l where t: "t = (s, l)" by (cases t)
    show ?case
      unfolding P_def t snd_conv
    proof (intro impI, elim conjE)
      assume v: "v = noted_world w" "source_root = below root CHECKOUT_DIR" "dest_root = root"
        and items: "list_all (fixture_item root) items"
      note run = 1(2) [unfolded v t]
      have ih: "returns_within (import_effect root) l (Some y)"
        if "list_all (fixture_item root) items"
          "rec (noted_world w) (below root CHECKOUT_DIR) root items (s, l) = Some y" for items s l y
        using 1(1) [OF that(2)] that(1) unfolding P_def by simp
      show "returns_within (import_effect root) l (Some q)"
        by (rule copy_trees_step [where rec = rec and w = w, OF _ items run]) (rule ih)
    qed
  qed
  then show ?thesis using assms Some unfolding P_def by simp
qed (simp add: returns_within_def)

section \<open>The whole refresh\<close>

lemma copy_fixtures_within:
  "returns_within (import_effect root) l (copy_fixtures (noted_world w) (below root CHECKOUT_DIR) root dirs (s, l))"
proof (induction dirs arbitrary: s l)
  case (Cons d dirs)
  have "list_all (fixture_item root)
      [Inr (below root CHECKOUT_DIR @ [''conformance'', d], below root FIXTURES_DIR @ [d])]"
    by (simp add: fixture_item_def)
  from copy_trees_within [OF this] show ?case
    unfolding copy_fixtures.simps copy_tree_def by (intro returns_within_bind Cons.IH)
qed (simp add: returns_within_def)

lemma effects_ensure: "effects (import_effect root) (ensure_spec_checkout (noted_world w) (below root CHECKOUT_DIR))"
proof -
  have success: "effects (import_effect root) (require_success e m)" if "effects (import_effect root) m" for e m
    unfolding require_success_def using that by (intro effect_rules)
  have make: "effects (import_effect root)
      (step_try (step_lift (parent_of (below root CHECKOUT_DIR))) (\<lambda>parent.
       step_try (noted_step (Made parent) (sw_create_dirs w parent)) (\<lambda>_.
       require_success (Msg ''clone yaml-sigil-spec'')
         (noted_step (Git None (''clone'' # args)) (sw_git w None (''clone'' # args))))))" for args
    by (intro effects_lift_try effect_rules success effects_event) (auto simp: parent_of_def split: if_splits)
  have pick: "effects (import_effect root) (\<lambda>s. if c s then m s else if c' s then (Inl e, s) else m' s)"
    if "effects (import_effect root) m" "effects (import_effect root) m'" for c c' m m' and e :: release_error
    using that by (auto simp: effects_def)
  show ?thesis
    unfolding ensure_spec_checkout_def noted_world_simps
    by (intro effect_rules pick make success effects_event) simp_all
qed

text \<open>
  What a refresh of the specification touches, whatever the file system lists and Git answers: Git
  runs in the checkout or clones it, files are copied out of the checkout onto the imported files
  and below the directory of the fixtures, that directory is the only one removed, and directories
  are made only for these.
\<close>

theorem refresh_touches_only_imports:
  "returns_within (import_effect root) l (update_spec (noted_world w) root spec_ref (s, l))"
proof -
  have success: "effects (import_effect root) (require_success e m)" if "effects (import_effect root) m" for e m
    unfolding require_success_def using that by (intro effect_rules)
  have prepare: "effects (import_effect root)
      (step_try (ensure_spec_checkout (noted_world w) (below root CHECKOUT_DIR)) (\<lambda>_.
       step_try (observe (resolve_spec_ref (noted_world w) (below root CHECKOUT_DIR) spec_ref)) (\<lambda>commit.
       require_success e (sw_git (noted_world w) (Some (below root CHECKOUT_DIR)) [''checkout'', ''--detach'', commit]))))" for e
    unfolding noted_world_simps by (intro effect_rules effects_ensure success effects_event) simp
  show ?thesis
    unfolding update_spec_def Let_def import_spec_artifacts_def mirror_fixtures_def
    by (intro returns_within_pursue prepare effects_import_files effects_clear copy_fixtures_within)
qed

end
