(* ===== verification/Spec2Isabelle.thy ===== *)
theory Spec2Isabelle
  imports Decomposition Transcription Sample_Yaml Sample_Runtime Sign_Sync Sample_Signing
    Sample_Provider Sample_Transcode Sample_Verification Sample_Verification_Provider Sample_Wasm Sample_Github
    Github_Authority Sample_Release Sample_Process Sample_Keys
    Sample_Release_Commands Package_Content_Facts Github_Rebind_Facts
    Cargo_Metadata Spec_Update_Facts
begin

text \<open>
  A verification development for the YamlSigil crates under \<open>src/crates\<close>, which sign a byte
  payload and verify it, in two artifact forms: a signed YAML stream (the payload, a line of
  three dashes, and a YAML signature document) and a protobuf envelope (the payload and an
  opaque signature message), and for the release automation under \<open>src/xtask\<close> that publishes
  them, and for the example under \<open>src/examples/github-keys\<close>, which signs and verifies with the
  keys of an account. The source is Rust; the model is of a 64-bit target, except that the sums of
  the WebAssembly boundary are those of any target.

  \<^bold>\<open>The program and the theories.\<close>
  The crates form layers, and each layer is one theory or two, the operations first and then
  the facts about them.
  \<^item> \<open>Prelude\<close> and \<open>Utf8\<close>: machine types, the outcomes of a call (\<open>exec\<close>: a value, a panic, or
    no return), the error monad, checked arithmetic, and what the crates use of \<open>str\<close>.
    \<open>Traits\<close>: the enumerations and mapping functions of \<open>yaml-sigil-traits\<close>.
  \<^item> \<open>Resource\<close>: \<open>yaml-sigil-core/src/resource.rs\<close>, the opt-in policy on the size of a complete
    artifact, with its three admission checks.
  \<^item> \<open>Decomposition\<close>: \<open>payload.rs\<close> and \<open>decomposition.rs\<close>, the scan for the last constrained
    marker line and the payload stream rules.
  \<^item> \<open>Wire\<close>, \<open>Messages\<close>, \<open>Raw_Outer\<close>: \<open>pb.rs\<close>, \<open>proto_outer.rs\<close>, \<open>wire.rs\<close> and \<open>error.rs\<close>: varints,
    tags and fields over three sinks, the message facade with its size checks and encoders, and
    the loop that reads an outer envelope in two conformance modes.
  \<^item> \<open>Transcription\<close>: \<open>yaml-sigil-transcription/src/lib.rs\<close>, composing and decomposing envelopes.
  \<^item> \<open>Signature_Doc\<close>: \<open>signature_doc.rs\<close>, \<open>tier_a_schema.rs\<close>, \<open>algorithm.rs\<close>: the parser policies, the
    bounded parser, the flat key scan and the canonical emitter of the signature document.
  \<^item> \<open>Crypto\<close>: \<open>provider_crypto.rs\<close> of the signing crate, \<open>crypto.rs\<close> of the verification crate and
    \<open>p256_encoding.rs\<close>: key admission, signature structure and the cofactored Ed25519 equation,
    written twice in the source and modelled twice.
  \<^item> \<open>Signing\<close>, \<open>Signing_Facts\<close>, \<open>Sign_Sync\<close>: \<open>yaml-sigil-signing/src/lib.rs\<close> and
    \<open>proto_carrier.rs\<close>: request checks, size preflights, payload normalisation, emission, and
    signing with an in-process key.
  \<^item> \<open>Signing_Provider\<close>, \<open>Provider_Facts\<close>: \<open>provider.rs\<close>, \<open>async_provider.rs\<close> and the provider entry
    points: signing through a callback or an awaited operation, with self-verification.
  \<^item> \<open>Transcode\<close>: \<open>transcription.rs\<close> of the signing crate, from either form to the other.
  \<^item> \<open>Verification\<close>, \<open>Verification_Facts\<close>: \<open>lib.rs\<close>, \<open>yaml_verify.rs\<close>, \<open>proto_verify.rs\<close> of the
    verification crate and \<open>conformance.rs\<close>: pre-verification, metadata extraction, and the ordered
    checks of an extracted signature.
  \<^item> \<open>Verification_Provider\<close>, \<open>Verification_Async\<close>, \<open>Verification_Provider_Facts\<close>: \<open>provider.rs\<close>,
    \<open>async_provider.rs\<close> and the provider entry points of the verification crate: qualification
    against public vectors, key binding, and verification through bound handles.
  \<^item> \<open>Sign_Verify\<close>: the two crates together.
  \<^item> \<open>Wasm\<close>, \<open>Wasm_Facts\<close>: \<open>resource.rs\<close>, \<open>bytes.rs\<close> and \<open>lib.rs\<close> of \<open>yaml-sigil-wasm\<close>, the boundary
    to JavaScript: policies, byte views, string selectors, and the four exported operations with
    their statuses and codes.
  \<^item> \<open>Release_Policy\<close>, \<open>Release_Policy_Facts\<close>: \<open>xtask/src/release_policy.rs\<close> and \<open>release_base.rs\<close>, the
    packages with their tags and the release lines with the versions each may publish next.
  \<^item> \<open>Github\<close>, \<open>Github_Finalize\<close>, \<open>Github_Facts\<close>, \<open>Github_Writes\<close>: the loop of the finalizer in
    \<open>xtask/src/github.rs\<close> with \<open>transport.rs\<close>, \<open>latest.rs\<close> and \<open>Binding::verify\<close> of \<open>provenance.rs\<close>: it
    creates tags and Releases against a GitHub that answers arbitrarily.
  \<^item> \<open>Github_Registry\<close> and \<open>Github_Qualify\<close>: of the same file, the crates.io record and archive of a
    package, the reviewed release pull request with its signature, and the decisions.
  \<^item> \<open>Release_Source\<close>: \<open>versions.rs\<close>, \<open>safe_file.rs\<close> and \<open>cargo_metadata_output.rs\<close>, what a checkout must
    be. \<open>Cargo_Metadata\<close>: the run of Cargo for its metadata. \<open>Release_Check\<close>: \<open>release.rs\<close>, the release-plz configuration, selected versions and Git output.
  \<^item> \<open>Release_Commands\<close>, \<open>Release_Reading\<close>, \<open>Release_Command_Facts\<close>: of \<open>release.rs\<close> and \<open>versions.rs\<close>, the
    commands that activate a line, prepare a version through release-plz and check a source, with their
    edits; that they run Git only to read; and what else they change, run and require.
  \<^item> \<open>Github_Provenance\<close> and \<open>Github_Support\<close>: \<open>github/provenance.rs\<close> and \<open>github/support.rs\<close>, the
    binding of a source to protected history and the proposal of a support line.
  \<^item> \<open>Github_Rebind\<close>, \<open>Github_Rebind_Facts\<close>: of \<open>provenance.rs\<close>, the rebind of a qualified source to the
    history as it is fetched, anonymously and twice, before its publication.
  \<^item> \<open>Package_Content\<close>, \<open>Package_Content_Facts\<close>: \<open>package_content.rs\<close> and \<open>package_content_policy.rs\<close>,
    the comparison of what Cargo lists for each package with the committed inventories.
  \<^item> \<open>Spec_Update\<close>, \<open>Spec_Update_Facts\<close>: \<open>spec_update.rs\<close>, refreshing the local copies of the
    specification from a checkout of it.
  \<^item> \<open>Github_Release\<close>, \<open>Github_Authority\<close>, \<open>Github_Rules\<close>, \<open>Release_Rules\<close>: the commands \<open>qualify\<close> and
    \<open>finalize\<close> as wholes, what their writes and outputs presuppose, and what the rules guarantee.
  \<^item> \<open>Process\<close>, \<open>Process_Facts\<close>, \<open>Process_Ends\<close>: \<open>xtask/src/bounded_process.rs\<close> on Linux: both pipes of a
    subprocess read within limits, its input, cancelling and reaping, and the fresh Cargo state.
  \<^item> \<open>Key_Discovery\<close>, \<open>Key_Example\<close>, \<open>Key_Facts\<close>, \<open>Key_Use\<close>, \<open>Key_Signing\<close>: \<open>examples/github-keys\<close>, the
    discovery of the public keys of an account (\<open>keys.rs\<close>, \<open>github.rs\<close>) and the two commands over an
    SSH agent (\<open>input.rs\<close>, \<open>agent.rs\<close>, \<open>main.rs\<close>), on the signing and verification crates.
  \<^item> \<open>Sample_Runtime\<close>, \<open>Sample_Yaml\<close>, \<open>Sample_Crypto\<close>, \<open>Sample_Signing\<close>, \<open>Sample_Provider\<close>,
    \<open>Sample_Transcode\<close>, \<open>Sample_Verification\<close>, \<open>Sample_Verification_Provider\<close>, \<open>Sample_Wasm\<close>,
    \<open>Sample_Github\<close>, \<open>Sample_Release\<close>, \<open>Sample_Release_Commands\<close>, \<open>Sample_Process\<close>, \<open>Sample_Keys\<close>: a concrete executable instance
    of every parameter, and the witnesses that apply the properties to concrete inputs.

  \<^bold>\<open>How state and errors are modelled.\<close>
  A \<open>Result\<close> is a sum with \<open>Inl\<close> for the error; the layered results of the resource-aware entry
  points are nested sums. A function that can reach \<open>expect\<close> or an unbounded loop returns an
  \<open>exec\<close>. A callback, a random generator, a provider handle and a future are state passing
  functions on a state type of their own, which may return, panic or never return; awaiting is
  applying them. The release commands pass the history of requests and answers along; GitHub is
  any function from a history and a request to an answer, so that others may write to it at any
  time; crates.io and the output of the workflow are addressed the same way. A checkout, with its
  files and its Git objects, is fixed while a command of \<open>github.rs\<close> runs; the commands of
  \<open>release.rs\<close> change it, and take it as a \<open>worktree\<close>, which shows every state to the reading checks
  and says what replacing or removing a file, release-plz and Cargo make of it; a rebind has its
  scratch repository the same way. A subprocess runs against an operating
  system with a state of its own, whose clock is one of its operations; the commands of the
  example against a \<open>world\<close> of files, streams, HTTP and an agent that may answer anything. Encoders
  write to a sink record, so that the size count and the bytes come from the same code, as in the
  source. Bytes and wire values are machine words; lengths are
  natural numbers with the checked additions of the source written out at 64 bits.

  \<^bold>\<open>Parameters and hypotheses.\<close>
  Code that is not under \<open>src\<close> is a field of an extensible record that the definitions take:
  \<open>traits_ext\<close> (enumeration mappings), \<open>buffa_ext\<close> (the protobuf runtime and the generated
  messages), \<open>yaml_ext\<close> (noyalib, base64, jsonschema), \<open>crypto_ext\<close> (curve, scalar, hash and key
  crates), \<open>wasm_ext\<close> (the JavaScript engine and its \<open>Uint8Array\<close> intrinsics, a view reading the
  same octets throughout a call), \<open>release_ext\<close> (semver, and Git in a checkout) with its extensions
  \<open>registry_ext\<close> (JSON, SHA-256 and archives), \<open>source_ext\<close> (files, environment, Cargo, TOML) and
  \<open>provenance_ext\<close> (the JSON of an inventory); \<open>os_ext\<close> and \<open>files_ext\<close> are the calls of the operating
  system, and \<open>keys_ext\<close> adds OpenSSH keys, URLs and the JSON of a page of keys. Each hypothesis on them is named and states documented behaviour of that code:
  \<open>traits_ok\<close>, \<open>buffa_ok\<close>, \<open>message_ceiling_ok\<close>, \<open>carrier_decode_ok\<close>, \<open>b64_ok\<close>, \<open>yaml_flat_ok\<close>,
  \<open>plain_keys_ok\<close>, \<open>crypto_ok\<close>, \<open>key_pair\<close>, \<open>js_ok\<close>, \<open>semver_ok\<close>,
  \<open>piped\<close>, \<open>ticking\<close>. The sample theories show that they hold together. Of
  a signing callback only that it returns 64 octets is assumed, and of a verification provider,
  only where its verdict is compared with the crate's, that its handles answer by their slot's
  equation.

  \<^bold>\<open>What the theorems show.\<close>
  The end to end properties are in \<open>Sign_Verify\<close>: what signing delivers, by an in-process key or
  by a qualified provider, is read back by the verifier with its payload, algorithm, key
  identifier and signature, and is reported as verified. \<open>Verification_Facts\<close> has the converse:
  a verified payload is the payload of the artifact under one well-formed signature that
  satisfies the equation of an admissible key; and the verdict on every branch. \<open>Sign_Sync\<close> and
  \<open>Provider_Facts\<close> give the outcome of every signing entry point, what a policy changes, when the
  callback is called, and that no qualified operation returns an unverified artifact.
  \<open>Verification_Provider_Facts\<close> says what a verdict through a provider rests on and what
  qualification establishes. \<open>Wasm_Facts\<close> carries signing then verifying across the boundary,
  shows that refusal by a policy precedes copying, that a call never panics and returns unless no
  nonce is ever accepted, and that every result has one of its documented shapes. \<open>Github_Writes\<close> and \<open>Github_Authority\<close> show of every run of the finalizer that
  each write comes after all checks and directly after the reads that guard it, that the writes
  are in order and at most once, and that a reported success was read back; and of qualification
  that it authorises a publication only for a reviewed release. \<open>Github_Rules\<close> and \<open>Release_Rules\<close>
  say which registry states allow what, when an archive counts as packaged from a commit, that an
  accepted workspace is ordered, that a selected version advances and what binds a support source
  to main; \<open>Release_Policy_Facts\<close> and \<open>Github_Facts\<close> say which versions a support line admits next and that
  tags are unambiguous. \<open>Release_Command_Facts\<close> shows what each release command requires before its first
  change, what a reported success leaves in the checkout, that no command ever touches another
  file, and which calls of release-plz, Cargo and Git are all it makes; \<open>Github_Rebind_Facts\<close>, that a
  rebind only fetches, anonymously, and binds a clean source to tips that did not move; \<open>Package_Content_Facts\<close>, that the contents check is exact; \<open>Spec_Update_Facts\<close>, what a refresh can touch. \<open>Process_Facts\<close> and \<open>Process_Ends\<close> say that a captured output is all that was
  read up to the end of its pipe, that a failed run is cancelled, and that a run returns.
  \<open>Key_Facts\<close>, \<open>Key_Use\<close> and \<open>Key_Signing\<close> say which requests a discovery makes and that its keys are
  complete or it fails, that a document is reported as verified only under a key of the selected
  signer, and that what the sign command writes verifies under the key it selected. Below them: the marker scan and the envelope reader refine
  declarative specifications, composing and decomposing are mutual inverses, transcoding is a
  round trip, the emitter and the parser of the signature document are inverse, the encoders
  agree with their size count, and the admission checks agree with each other. The operations
  that await are proved equal to the ones that do not.

  The interfaces are locales, each interpreted on the definitions of the model: \<open>encode_sink\<close>
  (what writing to a sink does), \<open>facade_encode\<close> (a message with its writer), \<open>admission\<close> (a
  size check), \<open>envelope_codec\<close> (an envelope form), \<open>payload_signer\<close> (a source of signatures).

  \<^bold>\<open>Bounds.\<close>
  Lists are unbounded while memory is not, so properties about sizes assume lengths below
  \<open>2 ^ 62\<close>, which keeps the sum of a payload and a carrier within \<open>usize\<close>; without them the
  overflow branches are taken, and the properties of the resource-aware operations state what
  they then return. The nonce loop of P-256 signing has no bound in the source; it is a partial
  function, and a theorem says exactly when it returns. So are the loops of a subprocess run,
  which end by the clock, and the copying of a tree, which ends when the file system has no more to
  list. No loop uses fuel: every other one terminates by a measure. Memory is given whenever it is
  asked for. On wasm32 a \<open>usize\<close> has 32 bits: the boundary's own sums take the width as a parameter,
  and \<open>sizes_fit_32\<close> shows that the sizes the crates below compute, with 64 bits in the model, stay below
  \<open>2 ^ 32\<close> for a payload and a carrier of less than a gibibyte.

  \<^bold>\<open>Not modelled.\<close>
  Logging spans, \<open>Debug\<close> and most \<open>Display\<close> output, re-export modules (\<open>v1alpha1.rs\<close>, \<open>versioned.rs\<close>)
  and the unit structs that implement a trait by calling the free functions; of the WebAssembly
  crate the generated bindings and how its intrinsics are looked up; of the release automation
  the commands that write reports, the spelling of a TOML edit, how a subprocess is bounded on Windows, and the commands of continuous integration; of the
  example the parsing of its command line and the configuration of its HTTP client. The conformance
  runner, the test keys and the other examples (\<open>yaml-sigil-conformance\<close>, \<open>yaml-sigil-test-keys\<close>,
  \<open>examples\<close>) drive the crates with fixtures and files and hold no logic of the format.
\<close>

end
